(* ===== verification/Prelude.thy ===== *)
theory Prelude
  imports Complex_Main
begin

text \<open>
  Shared ground of the development: the errors a JavaScript function can end with, the result
  type \<open>error + 'a\<close> with its sequencing operators, the state-and-exception actions in which the
  asynchronous database code is written, generic lemmas on lists, and the \<open>named_theorems\<close>
  collections the component theories fill.

  \<^item> \<open>error\<close>: every \<open>throw\<close>, rejected promise and runtime \<open>TypeError\<close> of the source is a value.
  \<^item> \<open>bindE\<close>, \<open>mapE\<close>, \<open>foldE\<close>: straight-line code, \<open>Array.map\<close> and \<open>Array.reduce\<close> over
    functions that may throw.
  \<^item> \<open>('s, 'a) act\<close>: code that reads and writes a state \<open>'s\<close> and may throw. The state reached
    at the throw is kept, because module variables and emitted events are not undone by an
    exception (only a database transaction undoes its own writes).
\<close>

named_theorems qsimps \<open>evaluation of dimension-checked quantity operations\<close>
named_theorems act_simps \<open>evaluation of state-and-exception actions\<close>
named_theorems table_simps \<open>laws of table operations\<close>

section \<open>Errors and results\<close>

datatype error =
    DivideByZero
  | DimensionMismatch string
  | ExpectFailed
  | JsTypeError string
  | Thrown string
  | UniqueViolation string
  | CheckViolation string
  | OutOfFuel

type_synonym 'a result = "error + 'a"

definition bindE :: "'a result \<Rightarrow> ('a \<Rightarrow> 'b result) \<Rightarrow> 'b result" where
  "bindE m f = (case m of Inl e \<Rightarrow> Inl e | Inr x \<Rightarrow> f x)"

lemma bindE_Inr [simp, qsimps]: "bindE (Inr x) f = f x"
  by (simp add: bindE_def)

lemma bindE_Inl [simp, qsimps]: "bindE (Inl e) f = Inl e"
  by (simp add: bindE_def)

lemma bindE_eq_Inr: "bindE m f = Inr y \<longleftrightarrow> (\<exists>x. m = Inr x \<and> f x = Inr y)"
  by (cases m) auto

lemma bindE_assoc: "bindE (bindE m f) g = bindE m (\<lambda>x. bindE (f x) g)"
  by (cases m) auto

fun mapE :: "('a \<Rightarrow> 'b result) \<Rightarrow> 'a list \<Rightarrow> 'b list result" where
  "mapE f [] = Inr []"
| "mapE f (x # xs) = bindE (f x) (\<lambda>y. bindE (mapE f xs) (\<lambda>ys. Inr (y # ys)))"

fun foldE :: "('b \<Rightarrow> 'a \<Rightarrow> 'b result) \<Rightarrow> 'b \<Rightarrow> 'a list \<Rightarrow> 'b result" where
  "foldE f b [] = Inr b"
| "foldE f b (x # xs) = bindE (f b x) (\<lambda>b'. foldE f b' xs)"

lemma mapE_total: "(\<And>x. x \<in> set xs \<Longrightarrow> f x = Inr (g x)) \<Longrightarrow> mapE f xs = Inr (map g xs)"
  by (induction xs) auto

lemma mapE_all2:
  "(\<And>x. x \<in> set xs \<Longrightarrow> \<exists>y. f x = Inr y \<and> R x y) \<Longrightarrow> \<exists>ys. mapE f xs = Inr ys \<and> list_all2 R xs ys"
proof (induction xs)
  case (Cons x xs)
  then obtain y ys where "f x = Inr y" "R x y" "mapE f xs = Inr ys" "list_all2 R xs ys"
    by (metis list.set_intros)
  then show ?case by (intro exI [of _ "y # ys"]) simp
qed simp

lemma foldE_total:
  "(\<And>b x. x \<in> set xs \<Longrightarrow> f b x = Inr (g b x)) \<Longrightarrow> foldE f b xs = Inr (foldl g b xs)"
  by (induction xs arbitrary: b) auto

text \<open>
  The same for a reduction whose accumulator is a lifted value: every step maps lifted values to
  lifted values.
\<close>

lemma foldE_lift:
  "(\<And>b x. x \<in> set xs \<Longrightarrow> f (h b) (k x) = Inr (h (g b x))) \<Longrightarrow>
    foldE f (h b) (map k xs) = Inr (h (foldl g b xs))"
  by (induction xs arbitrary: b) auto

section \<open>Actions: state and exceptions\<close>

type_synonym ('s, 'a) act = "'s \<Rightarrow> 'a result \<times> 's"

definition return :: "'a \<Rightarrow> ('s, 'a) act" where
  "return x s = (Inr x, s)"

definition throw :: "error \<Rightarrow> ('s, 'a) act" where
  "throw e s = (Inl e, s)"

definition bindA :: "('s, 'a) act \<Rightarrow> ('a \<Rightarrow> ('s, 'b) act) \<Rightarrow> ('s, 'b) act" where
  "bindA m f s = (case m s of (Inl e, s') \<Rightarrow> (Inl e, s') | (Inr x, s') \<Rightarrow> f x s')"

definition thenA :: "('s, 'a) act \<Rightarrow> ('s, 'b) act \<Rightarrow> ('s, 'b) act" where
  "thenA m n = bindA m (\<lambda>_. n)"

definition gets :: "('s \<Rightarrow> 'a) \<Rightarrow> ('s, 'a) act" where
  "gets f s = (Inr (f s), s)"

definition modify :: "('s \<Rightarrow> 's) \<Rightarrow> ('s, unit) act" where
  "modify f s = (Inr (), f s)"

definition liftR :: "'a result \<Rightarrow> ('s, 'a) act" where
  "liftR r s = (r, s)"

definition whenA :: "bool \<Rightarrow> ('s, unit) act \<Rightarrow> ('s, unit) act" where
  "whenA b m = (if b then m else return ())"

text \<open>\<open>await\<close>ing a list of effects one after the other, as \<open>for \<dots> of\<close> and \<open>each\<close> do.\<close>

fun forA :: "'a list \<Rightarrow> ('a \<Rightarrow> ('s, unit) act) \<Rightarrow> ('s, unit) act" where
  "forA [] f = return ()"
| "forA (x # xs) f = thenA (f x) (forA xs f)"

text \<open>A missing row: \<open>if (!row) throw \<dots>\<close>.\<close>

definition orThrow :: "error \<Rightarrow> 'a option \<Rightarrow> ('s, 'a) act" where
  "orThrow e r = (case r of None \<Rightarrow> throw e | Some x \<Rightarrow> return x)"

lemma bindA_return [simp, act_simps]: "bindA (return x) f = f x"
  by (rule ext) (simp add: bindA_def return_def)

lemma bindA_throw [simp, act_simps]: "bindA (throw e) f = throw e"
  by (rule ext) (simp add: bindA_def throw_def)

lemma bindA_assoc: "bindA (bindA m f) g = bindA m (\<lambda>x. bindA (f x) g)"
  by (rule ext) (simp add: bindA_def split: prod.split sum.split)

lemma return_bindA [simp]: "bindA m return = m"
  by (rule ext) (simp add: bindA_def return_def split: prod.split sum.split)

lemma return_app [act_simps]: "return x s = (Inr x, s)"
  by (simp add: return_def)

lemma throw_app [act_simps]: "throw e s = (Inl e, s)"
  by (simp add: throw_def)

lemma gets_app [act_simps]: "gets f s = (Inr (f s), s)"
  by (simp add: gets_def)

lemma modify_app [act_simps]: "modify f s = (Inr (), f s)"
  by (simp add: modify_def)

lemma liftR_Inr [act_simps]: "liftR (Inr x) = return x"
  by (rule ext) (simp add: liftR_def return_def)

lemma liftR_Inl [act_simps]: "liftR (Inl e) = throw e"
  by (rule ext) (simp add: liftR_def throw_def)

lemma bindA_ok [act_simps]: "m s = (Inr x, s') \<Longrightarrow> bindA m f s = f x s'"
  by (simp add: bindA_def)

lemma bindA_err [act_simps]: "m s = (Inl e, s') \<Longrightarrow> bindA m f s = (Inl e, s')"
  by (simp add: bindA_def)

lemma bindA_gets [act_simps]: "bindA (gets g) f s = f (g s) s"
  by (simp add: bindA_def gets_def)

lemma bindA_modify [act_simps]: "bindA (modify g) f s = f () (g s)"
  by (simp add: bindA_def modify_def)

lemma thenA_ok [act_simps]: "m s = (Inr x, s') \<Longrightarrow> thenA m n s = n s'"
  by (simp add: thenA_def bindA_ok)

lemma thenA_err [act_simps]: "m s = (Inl e, s') \<Longrightarrow> thenA m n s = (Inl e, s')"
  by (simp add: thenA_def bindA_err)

lemma thenA_modify [act_simps]: "thenA (modify g) n s = n (g s)"
  by (simp add: thenA_def bindA_modify)

lemma thenA_return [simp, act_simps]: "thenA (return x) n = n"
  by (simp add: thenA_def)

lemma thenA_throw [simp, act_simps]: "thenA (throw e) n = throw e"
  by (simp add: thenA_def)

lemma whenA_True [simp, act_simps]: "whenA True m = m"
  by (simp add: whenA_def)

lemma whenA_False [simp, act_simps]: "whenA False m = return ()"
  by (simp add: whenA_def)

lemma orThrow_Some [simp, act_simps]: "orThrow e (Some x) = return x"
  by (simp add: orThrow_def)

lemma orThrow_None [simp, act_simps]: "orThrow e None = throw e"
  by (simp add: orThrow_def)

lemma bindA_eq_Inr:
  "bindA m f s = (Inr y, s'') \<longleftrightarrow> (\<exists>x s'. m s = (Inr x, s') \<and> f x s' = (Inr y, s''))"
  by (auto simp: bindA_def split: prod.splits sum.splits)

lemma thenA_eq_Inr:
  "thenA m n s = (Inr y, s'') \<longleftrightarrow> (\<exists>x s'. m s = (Inr x, s') \<and> n s' = (Inr y, s''))"
  by (simp add: thenA_def bindA_eq_Inr)

lemma orThrow_eq_Inr: "orThrow e r s = (Inr y, s') \<longleftrightarrow> r = Some y \<and> s' = s"
  by (cases r) (auto simp: throw_def return_def)

lemma whenA_eq_Inr:
  "whenA b m s = (Inr (), s') \<longleftrightarrow> (if b then m s = (Inr (), s') else s' = s)"
  by (cases b) (auto simp: return_def)

lemma liftR_eq_Inr: "liftR r s = (Inr x, s') \<longleftrightarrow> r = Inr x \<and> s' = s"
  by (auto simp: liftR_def)

lemmas act_run = bindA_eq_Inr thenA_eq_Inr orThrow_eq_Inr whenA_eq_Inr return_app throw_app
  gets_app modify_app

lemma forA_map: "forA (map g xs) f = forA xs (\<lambda>x. f (g x))"
  by (induction xs) simp_all

lemma forA_fails:
  assumes "forA xs f w = (Inl e, w')"
  shows "\<exists>ys x zs w1. xs = ys @ x # zs \<and> forA ys f w = (Inr (), w1) \<and> f x w1 = (Inl e, w')"
  using assms
proof (induction xs arbitrary: w)
  case Nil
  then show ?case by (simp add: return_app)
next
  case (Cons x xs)
  obtain r w1 where r: "f x w = (r, w1)" by (cases "f x w")
  show ?case
  proof (cases r)
    case (Inl d)
    then have "f x w = (Inl e, w')" using Cons.prems r by (simp add: thenA_def bindA_def)
    moreover have "forA [] f w = (Inr (), w)" by (simp add: return_app)
    ultimately show ?thesis by blast
  next
    case (Inr u)
    then have "forA xs f w1 = (Inl e, w')" using Cons.prems r by (simp add: thenA_def bindA_def)
    then obtain ys y zs w2 where "xs = ys @ y # zs" "forA ys f w1 = (Inr (), w2)" "f y w2 = (Inl e, w')"
      using Cons.IH by blast
    moreover have "forA (x # ys) f w = forA ys f w1" using Inr r by (simp add: thenA_def bindA_def)
    ultimately show ?thesis by (metis append_Cons)
  qed
qed

lemma forA_append: "forA (xs @ ys) f = thenA (forA xs f) (forA ys f)"
  by (induction xs) (simp_all add: thenA_def bindA_assoc)

text \<open>
  What holds of the state before and is kept by every step holds after a loop that returned.
\<close>

lemma forA_invariant:
  assumes "\<And>x s s'. x \<in> set xs \<Longrightarrow> P s \<Longrightarrow> f x s = (Inr (), s') \<Longrightarrow> P s'"
    and "forA xs f s = (Inr (), s')" and "P s"
  shows "P s'"
  using assms
proof (induction xs arbitrary: s)
  case Nil
  then show ?case by (simp add: return_def)
next
  case (Cons x xs)
  from Cons.prems(2) obtain s1 where s1: "f x s = (Inr (), s1)" and r: "forA xs f s1 = (Inr (), s')"
    by (auto simp: thenA_eq_Inr)
  have "P s1" using Cons.prems(1,3) s1 by auto
  then show ?case using Cons.IH [of s1] Cons.prems(1) r by auto
qed

text \<open>A loop that failed failed at one element, after it had run the elements before it.\<close>

lemma forA_error:
  assumes "forA xs f s = (Inl e, s')"
  shows "\<exists>ys x zs s1. xs = ys @ x # zs \<and> forA ys f s = (Inr (), s1) \<and> f x s1 = (Inl e, s')"
  using assms
proof (induction xs arbitrary: s)
  case Nil
  then show ?case by (simp add: return_app)
next
  case (Cons x xs)
  show ?case
  proof (cases "f x s")
    case (Pair r s1)
    show ?thesis
    proof (cases r)
      case (Inl e')
      then have "f x s = (Inl e, s')" using Cons.prems Pair by (simp add: act_simps)
      then show ?thesis by (intro exI [of _ "[]"] exI) (simp add: return_app)
    next
      case (Inr u)
      then have run: "f x s = (Inr (), s1)" using Pair by simp
      then have "forA xs f s1 = (Inl e, s')" using Cons.prems by (simp add: act_simps)
      then obtain ys x' zs s2 where "xs = ys @ x' # zs" "forA ys f s1 = (Inr (), s2)"
        "f x' s2 = (Inl e, s')" using Cons.IH by blast
      with run show ?thesis
        by (intro exI [of _ "x # ys"] exI [of _ x'] exI [of _ zs] exI [of _ s2])
          (simp add: act_simps)
    qed
  qed
qed

text \<open>
  Frames: \<open>unchanged f m\<close> says that \<open>m\<close>, whether it returns or throws, leaves \<open>f\<close> of the state alone.
\<close>

definition unchanged :: "('s \<Rightarrow> 'b) \<Rightarrow> ('s, 'a) act \<Rightarrow> bool" where
  "unchanged f m \<longleftrightarrow> (\<forall>s. f (snd (m s)) = f s)"

named_theorems frames

lemma unchangedD: "unchanged f m \<Longrightarrow> m s = (r, s') \<Longrightarrow> f s' = f s"
  by (metis unchanged_def snd_conv)

lemma unchanged_pure [frames]:
  "unchanged f (return x)" "unchanged f (throw e)" "unchanged f (gets g)" "unchanged f (liftR r)"
  "unchanged f (orThrow e y)"
  by (cases r; cases y;
      simp add: unchanged_def return_app throw_app gets_app liftR_Inr liftR_Inl)+

lemma unchanged_bindA [frames]:
  assumes "unchanged f m" "\<And>x. unchanged f (k x)"
  shows "unchanged f (bindA m k)"
  using assms by (auto simp: unchanged_def bindA_def split: prod.splits sum.splits) (metis snd_conv)+

lemma unchanged_thenA [frames]: "unchanged f m \<Longrightarrow> unchanged f n \<Longrightarrow> unchanged f (thenA m n)"
  unfolding thenA_def by (rule unchanged_bindA)

lemma unchanged_whenA [frames]: "unchanged f m \<Longrightarrow> unchanged f (whenA b m)"
  by (cases b) (simp_all add: unchanged_pure)

lemma unchanged_forA [frames]: "(\<And>x. unchanged f (m x)) \<Longrightarrow> unchanged f (forA xs m)"
  by (induction xs) (simp_all add: unchanged_pure unchanged_thenA)

lemma unchanged_modify: "(\<And>s. f (g s) = f s) \<Longrightarrow> unchanged f (modify g)"
  by (simp add: unchanged_def modify_app)

lemma unchanged_if [frames]: "unchanged f m \<Longrightarrow> unchanged f n \<Longrightarrow> unchanged f (if b then m else n)"
  by simp

lemma unchanged_option [frames]:
  "unchanged f m \<Longrightarrow> (\<And>x. unchanged f (n x)) \<Longrightarrow> unchanged f (case y of None \<Rightarrow> m | Some x \<Rightarrow> n x)"
  by (cases y) simp_all

lemma unchanged_prod [frames]:
  "(\<And>a b. unchanged f (n a b)) \<Longrightarrow> unchanged f (case p of (a, b) \<Rightarrow> n a b)"
  by (cases p) simp

lemma unchanged_list [frames]:
  "unchanged f m \<Longrightarrow> (\<And>x xs. unchanged f (n x xs)) \<Longrightarrow> unchanged f (case ys of [] \<Rightarrow> m | x # xs \<Rightarrow> n x xs)"
  by (cases ys) simp_all

text \<open>
  Invariants of the state: \<open>preserves P m\<close> says that \<open>P\<close> still holds after \<open>m\<close>, whether it returns or
  throws.
\<close>

definition preserves :: "('s \<Rightarrow> bool) \<Rightarrow> ('s, 'a) act \<Rightarrow> bool" where
  "preserves P m \<longleftrightarrow> (\<forall>s. P s \<longrightarrow> P (snd (m s)))"

named_theorems kept

lemma preservesD: "preserves P m \<Longrightarrow> P s \<Longrightarrow> m s = (r, s') \<Longrightarrow> P s'"
  by (metis preserves_def snd_conv)

lemma preservesI: "(\<And>s r s'. P s \<Longrightarrow> m s = (r, s') \<Longrightarrow> P s') \<Longrightarrow> preserves P m"
  by (metis preserves_def prod.collapse)

lemma preserves_pure [kept]:
  "preserves P (return x)" "preserves P (throw e)" "preserves P (gets g)" "preserves P (liftR r)"
  "preserves P (orThrow e y)"
  by (cases r; cases y;
      simp add: preserves_def return_app throw_app gets_app liftR_Inr liftR_Inl)+

lemma preserves_bindA [kept]:
  assumes "preserves P m" "\<And>x. preserves P (k x)"
  shows "preserves P (bindA m k)"
  using assms by (auto simp: preserves_def bindA_def split: prod.splits sum.splits)

lemma preserves_thenA [kept]: "preserves P m \<Longrightarrow> preserves P n \<Longrightarrow> preserves P (thenA m n)"
  unfolding thenA_def by (rule preserves_bindA)

lemma preserves_whenA [kept]: "preserves P m \<Longrightarrow> preserves P (whenA b m)"
  by (cases b) (simp_all add: preserves_pure)

lemma preserves_forA [kept]: "(\<And>x. preserves P (m x)) \<Longrightarrow> preserves P (forA xs m)"
  by (induction xs) (simp_all add: preserves_pure preserves_thenA)

lemma preserves_modify: "(\<And>s. P s \<Longrightarrow> P (g s)) \<Longrightarrow> preserves P (modify g)"
  by (simp add: preserves_def modify_app)

lemma preserves_if [kept]: "preserves P m \<Longrightarrow> preserves P n \<Longrightarrow> preserves P (if b then m else n)"
  by simp

lemma preserves_option [kept]:
  "preserves P m \<Longrightarrow> (\<And>x. preserves P (n x)) \<Longrightarrow> preserves P (case y of None \<Rightarrow> m | Some x \<Rightarrow> n x)"
  by (cases y) simp_all

lemma preserves_prod [kept]:
  "(\<And>a b. preserves P (n a b)) \<Longrightarrow> preserves P (case p of (a, b) \<Rightarrow> n a b)"
  by (cases p) simp

lemma preserves_list [kept]:
  "preserves P m \<Longrightarrow> (\<And>x xs. preserves P (n x xs)) \<Longrightarrow> preserves P (case ys of [] \<Rightarrow> m | x # xs \<Rightarrow> n x xs)"
  by (cases ys) simp_all

text \<open>The weaker form for code whose writes are undone when it throws: \<open>P\<close> holds after \<open>m\<close> returned.\<close>

definition returns_with :: "('s \<Rightarrow> bool) \<Rightarrow> ('s, 'a) act \<Rightarrow> bool" where
  "returns_with P m \<longleftrightarrow> (\<forall>s x s'. P s \<longrightarrow> m s = (Inr x, s') \<longrightarrow> P s')"

named_theorems kept_ok

lemma returns_withD: "returns_with P m \<Longrightarrow> P s \<Longrightarrow> m s = (Inr x, s') \<Longrightarrow> P s'"
  by (simp add: returns_with_def)

lemma returns_withI: "(\<And>s x s'. P s \<Longrightarrow> m s = (Inr x, s') \<Longrightarrow> P s') \<Longrightarrow> returns_with P m"
  by (simp add: returns_with_def)

lemma preserves_returns: "preserves P m \<Longrightarrow> returns_with P m"
  by (rule returns_withI) (rule preservesD)

lemma returns_with_bindA [kept_ok]:
  "returns_with P m \<Longrightarrow> (\<And>x. returns_with P (k x)) \<Longrightarrow> returns_with P (bindA m k)"
  unfolding returns_with_def bindA_eq_Inr by blast

lemma returns_with_thenA [kept_ok]: "returns_with P m \<Longrightarrow> returns_with P n \<Longrightarrow> returns_with P (thenA m n)"
  unfolding returns_with_def thenA_eq_Inr by blast

lemma returns_with_forA [kept_ok]: "(\<And>x. x \<in> set xs \<Longrightarrow> returns_with P (m x)) \<Longrightarrow> returns_with P (forA xs m)"
proof (induction xs)
  case Nil
  then show ?case by (simp add: returns_with_def return_app)
next
  case (Cons x xs)
  then show ?case by (simp add: returns_with_thenA)
qed

lemma returns_with_if [kept_ok]: "returns_with P m \<Longrightarrow> returns_with P n \<Longrightarrow> returns_with P (if b then m else n)"
  by simp

lemma unchanged_preserves: "unchanged f m \<Longrightarrow> preserves (\<lambda>s. Q (f s)) m"
  by (simp add: unchanged_def preserves_def)

section \<open>Lists\<close>

lemma sum_list_filter_split:
  fixes f :: "'a \<Rightarrow> 'b::comm_monoid_add"
  shows "sum_list (map f xs) =
    sum_list (map f (filter P xs)) + sum_list (map f (filter (\<lambda>x. \<not> P x) xs))"
  by (induction xs) (auto simp: ac_simps)

lemma foldl_plus_sum_list:
  fixes f :: "'a \<Rightarrow> 'b::comm_monoid_add"
  shows "foldl (\<lambda>s x. s + f x) b xs = b + sum_list (map f xs)"
  by (induction xs arbitrary: b) (auto simp: ac_simps)

lemma foldl_max_ge:
  fixes b :: "'a::linorder"
  shows "b \<le> foldl (\<lambda>m x. max m (f x)) b xs"
proof (induction xs arbitrary: b)
  case (Cons x xs)
  from Cons.IH [of "max b (f x)"] show ?case by simp
qed simp

lemma foldl_max_upper:
  fixes b :: "'a::linorder"
  assumes "x \<in> set xs"
  shows "f x \<le> foldl (\<lambda>m x. max m (f x)) b xs"
  using assms
proof (induction xs arbitrary: b)
  case (Cons y ys)
  then show ?case
    using foldl_max_ge [of "max b (f y)" f ys] by auto
qed simp

lemma foldl_max_attained:
  fixes b :: "'a::linorder"
  shows "foldl (\<lambda>m x. max m (f x)) b xs \<in> insert b (f ` set xs)"
proof (induction xs arbitrary: b)
  case (Cons y ys)
  from Cons.IH [of "max b (f y)"] show ?case by (auto simp: max_def split: if_splits)
qed simp

lemma find_append:
  "find P (xs @ ys) = (case find P xs of None \<Rightarrow> find P ys | Some x \<Rightarrow> Some x)"
  by (induction xs) auto

lemma find_map_same:
  assumes "\<And>x. P (f x) = P x"
  shows "find P (map f xs) = map_option f (find P xs)"
  using assms by (induction xs) auto

lemma find_SomeD: "find P xs = Some x \<Longrightarrow> x \<in> set xs \<and> P x"
  by (induction xs) (auto split: if_splits)

lemma find_unique:
  assumes "sorted_wrt (\<lambda>x y. key x \<noteq> key y) xs" "find (\<lambda>x. key x = k) xs = Some m"
    "x \<in> set xs" "key x = k"
  shows "x = m"
  using assms by (induction xs) (auto split: if_splits)

lemma find_update_key:
  assumes "\<And>r. Q (f r) = Q r"
  shows "find Q (map (\<lambda>r. if P r then f r else r) rs) =
    map_option (\<lambda>r. if P r then f r else r) (find Q rs)"
  using assms by (induction rs) auto

lemma find_None_filter: "find P xs = None \<longleftrightarrow> filter P xs = []"
  by (induction xs) auto

lemma sorted_dropWhile_not:
  assumes "\<And>x y. x \<le> y \<Longrightarrow> P y \<Longrightarrow> P x" "sorted xs" "z \<in> set (dropWhile P xs)"
  shows "\<not> P z"
  using assms(2,3) by (induction xs) (auto split: if_splits dest: assms(1))



end
