(* ===== verification/Table.thy ===== *)
theory Table
  imports Prelude
begin

text \<open>
  Tables and the queries the source builds with Knex, as actions on a state \<open>'w\<close> that contains the
  table. A table is a list of rows in insertion order together with its uniqueness and check
  constraints (\<open>primary\<close>, \<open>unique\<close> and \<open>CHECK\<close> of \<open>src/migrations\<close>).

  \<^item> \<open>select\<close>, \<open>first\<close>, \<open>countRows\<close>: \<open>db.select\<close>, \<open>db.first\<close>, \<open>count(*)\<close> with a \<open>where\<close>.
  \<^item> \<open>insertInto\<close>: fails when the row clashes with an existing one or violates a check.
  \<^item> \<open>updateWhere\<close>, \<open>deleteWhere\<close>: act on all matching rows and return how many there were; an
    update fails, changing nothing, when an updated row violates a check. (No update of the source
    writes a column of a uniqueness constraint.)

  \<open>table_laws\<close> is the interface between a table and the state it lives in: reading gives what was
  last written, and writing back what was read changes nothing. Everything the components need of
  queries follows from it and is proved here once; \<open>Database\<close> interprets it for every table.
\<close>

record ('w, 'r) table =
  tname :: string
  tget :: "'w \<Rightarrow> 'r list"
  tput :: "'r list \<Rightarrow> 'w \<Rightarrow> 'w"
  tclash :: "'r \<Rightarrow> 'r \<Rightarrow> bool"
  tcheck :: "'r \<Rightarrow> bool"

definition select :: "('w, 'r) table \<Rightarrow> ('r \<Rightarrow> bool) \<Rightarrow> ('w, 'r list) act" where
  "select T P = gets (\<lambda>w. filter P (tget T w))"

definition first :: "('w, 'r) table \<Rightarrow> ('r \<Rightarrow> bool) \<Rightarrow> ('w, 'r option) act" where
  "first T P = gets (\<lambda>w. find P (tget T w))"

definition countRows :: "('w, 'r) table \<Rightarrow> ('r \<Rightarrow> bool) \<Rightarrow> ('w, nat) act" where
  "countRows T P = gets (\<lambda>w. length (filter P (tget T w)))"

definition insertInto :: "('w, 'r) table \<Rightarrow> 'r \<Rightarrow> ('w, unit) act" where
  "insertInto T r w =
     (if list_ex (\<lambda>x. tclash T x r) (tget T w) then (Inl (UniqueViolation (tname T)), w)
      else if \<not> tcheck T r then (Inl (CheckViolation (tname T)), w)
      else (Inr (), tput T (tget T w @ [r]) w))"

definition updateWhere ::
  "('w, 'r) table \<Rightarrow> ('r \<Rightarrow> bool) \<Rightarrow> ('r \<Rightarrow> 'r) \<Rightarrow> ('w, nat) act" where
  "updateWhere T P f w =
     (if list_ex (\<lambda>x. P x \<and> \<not> tcheck T (f x)) (tget T w)
      then (Inl (CheckViolation (tname T)), w)
      else (Inr (length (filter P (tget T w))),
            tput T (map (\<lambda>x. if P x then f x else x) (tget T w)) w))"

definition deleteWhere :: "('w, 'r) table \<Rightarrow> ('r \<Rightarrow> bool) \<Rightarrow> ('w, nat) act" where
  "deleteWhere T P w =
     (Inr (length (filter P (tget T w))), tput T (filter (\<lambda>x. \<not> P x) (tget T w)) w)"

text \<open>The same, for callers that do not look at the number of rows.\<close>

definition update :: "('w, 'r) table \<Rightarrow> ('r \<Rightarrow> bool) \<Rightarrow> ('r \<Rightarrow> 'r) \<Rightarrow> ('w, unit) act" where
  "update T P f = thenA (updateWhere T P f) (return ())"

definition delete :: "('w, 'r) table \<Rightarrow> ('r \<Rightarrow> bool) \<Rightarrow> ('w, unit) act" where
  "delete T P = thenA (deleteWhere T P) (return ())"

definition batchInsert :: "('w, 'r) table \<Rightarrow> 'r list \<Rightarrow> ('w, unit) act" where
  "batchInsert T rs = forA rs (insertInto T)"

section \<open>Running queries\<close>

lemma select_app [table_simps]: "select T P w = (Inr (filter P (tget T w)), w)"
  by (simp add: select_def gets_app)

lemma first_app [table_simps]: "first T P w = (Inr (find P (tget T w)), w)"
  by (simp add: first_def gets_app)

lemma countRows_app [table_simps]: "countRows T P w = (Inr (length (filter P (tget T w))), w)"
  by (simp add: countRows_def gets_app)

lemma deleteWhere_app [table_simps]:
  "deleteWhere T P w =
     (Inr (length (filter P (tget T w))), tput T (filter (\<lambda>x. \<not> P x) (tget T w)) w)"
  by (simp add: deleteWhere_def)

lemma delete_app [table_simps]:
  "delete T P w = (Inr (), tput T (filter (\<lambda>x. \<not> P x) (tget T w)) w)"
  by (simp add: delete_def thenA_def bindA_def deleteWhere_def return_def)

lemma update_app [table_simps]:
  "update T P f w =
     (if list_ex (\<lambda>x. P x \<and> \<not> tcheck T (f x)) (tget T w)
      then (Inl (CheckViolation (tname T)), w)
      else (Inr (), tput T (map (\<lambda>x. if P x then f x else x) (tget T w)) w))"
  by (simp add: update_def thenA_def bindA_def updateWhere_def return_def)

lemma bindA_select [table_simps]:
  "bindA (select T P) f w = f (filter P (tget T w)) w"
  by (simp add: bindA_def select_app)

lemma bindA_first [table_simps]:
  "bindA (first T P) f w = f (find P (tget T w)) w"
  by (simp add: bindA_def first_app)

lemma bindA_countRows [table_simps]:
  "bindA (countRows T P) f w = f (length (filter P (tget T w))) w"
  by (simp add: bindA_def countRows_app)

lemma thenA_delete [table_simps]:
  "thenA (delete T P) n w = n (tput T (filter (\<lambda>x. \<not> P x) (tget T w)) w)"
  by (simp add: thenA_def bindA_def delete_app)

lemma thenA_update [table_simps]:
  "thenA (update T P f) n w =
     (if list_ex (\<lambda>x. P x \<and> \<not> tcheck T (f x)) (tget T w)
      then (Inl (CheckViolation (tname T)), w)
      else n (tput T (map (\<lambda>x. if P x then f x else x) (tget T w)) w))"
  by (simp add: thenA_def bindA_def update_app)

lemma thenA_insertInto [table_simps]:
  "thenA (insertInto T r) n w =
     (if list_ex (\<lambda>x. tclash T x r) (tget T w) then (Inl (UniqueViolation (tname T)), w)
      else if \<not> tcheck T r then (Inl (CheckViolation (tname T)), w)
      else n (tput T (tget T w @ [r]) w))"
  by (simp add: thenA_def bindA_def insertInto_def)

lemma insertInto_eq_Inr:
  "insertInto T r w = (Inr (), w') \<longleftrightarrow>
    list_all (\<lambda>x. \<not> tclash T x r) (tget T w) \<and> tcheck T r \<and> w' = tput T (tget T w @ [r]) w"
  by (auto simp: insertInto_def list_all_iff list_ex_iff)

lemma update_eq_Inr:
  "update T P f w = (Inr (), w') \<longleftrightarrow>
    list_all (\<lambda>x. P x \<longrightarrow> tcheck T (f x)) (tget T w) \<and>
    w' = tput T (map (\<lambda>x. if P x then f x else x) (tget T w)) w"
  by (auto simp: update_app list_all_iff list_ex_iff)

lemma delete_eq_Inr:
  "delete T P w = (Inr (), w') \<longleftrightarrow> w' = tput T (filter (\<lambda>x. \<not> P x) (tget T w)) w"
  by (auto simp: delete_app)

lemma first_eq_Inr: "first T P w = (Inr r, w') \<longleftrightarrow> r = find P (tget T w) \<and> w' = w"
  by (auto simp: first_app)

lemma select_eq_Inr: "select T P w = (Inr r, w') \<longleftrightarrow> r = filter P (tget T w) \<and> w' = w"
  by (auto simp: select_app)

lemmas table_run = insertInto_eq_Inr update_eq_Inr delete_eq_Inr first_eq_Inr select_eq_Inr

text \<open>A query leaves alone what does not depend on the rows of its table.\<close>

lemma unchanged_read [frames]:
  "unchanged f (select T P)" "unchanged f (first T P)" "unchanged f (countRows T P)"
  by (simp_all add: select_def first_def countRows_def frames)

lemma unchanged_write:
  assumes "\<And>rs w. f (tput T rs w) = f w"
  shows "unchanged f (insertInto T r)" "unchanged f (updateWhere T P g)" "unchanged f (deleteWhere T P)"
    "unchanged f (update T P g)" "unchanged f (delete T P)" "unchanged f (batchInsert T rows)"
proof -
  show i: "unchanged f (insertInto T r)" for r by (simp add: unchanged_def insertInto_def assms)
  show "unchanged f (updateWhere T P g)" by (simp add: unchanged_def updateWhere_def assms)
  show "unchanged f (deleteWhere T P)" by (simp add: unchanged_def deleteWhere_def assms)
  show "unchanged f (update T P g)" by (simp add: unchanged_def update_app assms)
  show "unchanged f (delete T P)" by (simp add: unchanged_def delete_app assms)
  show "unchanged f (batchInsert T rows)"
    unfolding batchInsert_def by (intro unchanged_forA i)
qed

text \<open>Invariants that hold of whatever a query may write.\<close>

lemma preserves_read [kept]:
  "preserves P (select T Q)" "preserves P (first T Q)" "preserves P (countRows T Q)"
  by (simp_all add: select_def first_def countRows_def kept)

lemma preserves_write:
  assumes "\<And>rs w. P w \<Longrightarrow> P (tput T rs w)"
  shows "preserves P (insertInto T r)" "preserves P (updateWhere T Q g)" "preserves P (deleteWhere T Q)"
    "preserves P (update T Q g)" "preserves P (delete T Q)" "preserves P (batchInsert T rows)"
proof -
  show i: "preserves P (insertInto T r)" for r by (simp add: preserves_def insertInto_def assms)
  show "preserves P (updateWhere T Q g)" by (simp add: preserves_def updateWhere_def assms)
  show "preserves P (deleteWhere T Q)" by (simp add: preserves_def deleteWhere_def assms)
  show "preserves P (update T Q g)" by (simp add: preserves_def update_app assms)
  show "preserves P (delete T Q)" by (simp add: preserves_def delete_app assms)
  show "preserves P (batchInsert T rows)"
    unfolding batchInsert_def by (intro preserves_forA i)
qed

section \<open>Laws of tables\<close>

locale table_laws =
  fixes T :: "('w, 'r) table"
  assumes get_put: "tget T (tput T xs w) = xs"
    and put_put: "tput T ys (tput T xs w) = tput T ys w"
    and put_get: "tput T (tget T w) w = w"
begin

text \<open>A row that was inserted is found again, unless an earlier one matches.\<close>

lemma first_after_insert:
  assumes "insertInto T r w = (Inr (), w')" "P r" "find P (tget T w) = None"
  shows "find P (tget T w') = Some r"
  using assms by (auto simp: insertInto_eq_Inr get_put find_append)

text \<open>Deleting exactly the inserted row restores the state.\<close>

lemma insert_delete:
  assumes "insertInto T r w = (Inr (), w')" "P r" "list_all (\<lambda>x. \<not> P x) (tget T w)"
  shows "delete T P w' = (Inr (), w)"
proof -
  have "filter (\<lambda>x. \<not> P x) (tget T w) = tget T w"
    using assms(3) by (simp add: filter_id_conv list_all_iff)
  with assms(1,2) show ?thesis
    by (simp add: insertInto_eq_Inr delete_app get_put put_put put_get)
qed

text \<open>The key of the inserted row separates it from the rows that were there.\<close>

lemma insert_delete_key:
  assumes "insertInto T r w = (Inr (), w')" "P r" "\<And>x. P x \<Longrightarrow> tclash T x r"
  shows "delete T P w' = (Inr (), w)"
proof (rule insert_delete [OF assms(1), of P])
  show "P r" by (rule assms(2))
  show "list_all (\<lambda>x. \<not> P x) (tget T w)"
    using assms(1,3) by (auto simp: insertInto_eq_Inr list_all_iff)
qed

text \<open>An update is undone by one that inverts it on the same rows.\<close>

lemma update_update:
  assumes "update T P f w = (Inr (), w')"
    "\<And>x. x \<in> set (tget T w) \<Longrightarrow> P x \<Longrightarrow> P (f x) \<and> g (f x) = x \<and> tcheck T x"
  shows "update T P g w' = (Inr (), w)"
proof -
  have "map (\<lambda>x. if P x then g x else x) (map (\<lambda>x. if P x then f x else x) (tget T w)) = tget T w"
    using assms(2) by (simp add: map_idI)
  with assms show ?thesis
    by (auto simp: update_eq_Inr get_put put_put put_get list_all_iff)
qed

lemma delete_delete:
  "delete T P w = (Inr (), w') \<Longrightarrow> delete T P w' = (Inr (), w')"
  by (auto simp: delete_app get_put put_put)

text \<open>Updates of many keys, each once, amount to one pass over the table.\<close>

lemma forA_updates:
  assumes "distinct (map fst kvs)" "\<And>v x. key (f v x) = key x"
    "\<And>k v x. (k, v) \<in> set kvs \<Longrightarrow> x \<in> set (tget T w) \<Longrightarrow> key x = k \<Longrightarrow> tcheck T (f v x)"
  shows "forA kvs (\<lambda>(k, v). update T (\<lambda>x. key x = k) (f v)) w =
    (Inr (), tput T (map (\<lambda>x. case map_of kvs (key x) of None \<Rightarrow> x | Some v \<Rightarrow> f v x) (tget T w)) w)"
  using assms
proof (induction kvs arbitrary: w)
  case Nil
  then show ?case by (simp add: return_app put_get)
next
  case (Cons kv kvs)
  obtain k v where kv: "kv = (k, v)" by (cases kv)
  let ?w = "tput T (map (\<lambda>x. if key x = k then f v x else x) (tget T w)) w"
  have "update T (\<lambda>x. key x = k) (f v) w = (Inr (), ?w)"
    using Cons.prems(3) by (auto simp: update_eq_Inr list_all_iff kv)
  moreover have "forA kvs (\<lambda>(k, v). update T (\<lambda>x. key x = k) (f v)) ?w =
      (Inr (), tput T (map (\<lambda>x. case map_of kvs (key x) of None \<Rightarrow> x | Some v \<Rightarrow> f v x) (tget T ?w)) ?w)"
  proof (rule Cons.IH)
    show "distinct (map fst kvs)" using Cons.prems(1) by simp
    show "key (f v x) = key x" for v x by (rule Cons.prems(2))
    fix k' v' x
    assume a: "(k', v') \<in> set kvs" "x \<in> set (tget T ?w)" "key x = k'"
    with Cons.prems(1) have "k' \<noteq> k" by (auto simp: kv rev_image_eqI)
    with a Cons.prems(2) have "x \<in> set (tget T w)" by (auto simp: get_put split: if_splits)
    with a Cons.prems(3) show "tcheck T (f v' x)" by auto
  qed
  moreover have "map (\<lambda>x. case map_of kvs (key x) of None \<Rightarrow> x | Some v \<Rightarrow> f v x)
      (map (\<lambda>x. if key x = k then f v x else x) (tget T w)) =
      map (\<lambda>x. case map_of (kv # kvs) (key x) of None \<Rightarrow> x | Some v \<Rightarrow> f v x) (tget T w)"
  proof -
    have "map_of kvs k = None" using Cons.prems(1) by (simp add: kv map_of_eq_None_iff)
    then show ?thesis using Cons.prems(2) by (auto simp: kv)
  qed
  ultimately show ?case
    by (simp add: kv act_simps get_put put_put del: map_map map_eq_conv)
qed

text \<open>Rows that clash neither with each other nor with the table go in one after the other.\<close>

lemma batchInsert_ok:
  assumes "sorted_wrt (\<lambda>x y. \<not> tclash T x y) rs" "list_all (tcheck T) rs"
    "\<And>x r. x \<in> set (tget T w) \<Longrightarrow> r \<in> set rs \<Longrightarrow> \<not> tclash T x r"
  shows "batchInsert T rs w = (Inr (), tput T (tget T w @ rs) w)"
  using assms
proof (induction rs arbitrary: w)
  case Nil
  then show ?case by (simp add: batchInsert_def return_app put_get)
next
  case (Cons r rs)
  let ?w = "tput T (tget T w @ [r]) w"
  have "insertInto T r w = (Inr (), ?w)"
    using Cons.prems by (auto simp: insertInto_eq_Inr list_all_iff)
  moreover have "batchInsert T rs ?w = (Inr (), tput T (tget T ?w @ rs) ?w)"
    using Cons.prems by (intro Cons.IH) (auto simp: get_put)
  ultimately show ?case by (simp add: batchInsert_def act_simps get_put put_put)
qed

text \<open>Uniqueness constraints and checks hold in every state the queries reach.\<close>

definition valid_table :: "'w \<Rightarrow> bool" where
  "valid_table w \<longleftrightarrow> sorted_wrt (\<lambda>x y. \<not> tclash T x y) (tget T w) \<and> list_all (tcheck T) (tget T w)"

lemma insert_valid:
  "valid_table w \<Longrightarrow> insertInto T r w = (Inr (), w') \<Longrightarrow> valid_table w'"
  by (auto simp: valid_table_def insertInto_eq_Inr get_put sorted_wrt_append list_all_iff)

lemma delete_valid:
  "valid_table w \<Longrightarrow> delete T P w = (Inr (), w') \<Longrightarrow> valid_table w'"
  by (auto simp: valid_table_def delete_eq_Inr get_put sorted_wrt_filter list_all_iff)

lemma update_valid:
  assumes "valid_table w" "update T P f w = (Inr (), w')"
    and key: "\<And>x y. tclash T (f x) y = tclash T x y" "\<And>x y. tclash T x (f y) = tclash T x y"
  shows "valid_table w'"
proof -
  have "tclash T (if P x then f x else x) (if P y then f y else y) = tclash T x y" for x y
    by (simp add: key)
  then show ?thesis
    using assms(1,2) by (auto simp: valid_table_def update_eq_Inr get_put sorted_wrt_map list_all_iff)
qed

end

end
