(* ===== verification/Bignum.thy ===== *)
theory Bignum
  imports Prelude
begin

text \<open>
  Numbers and the small numeric helpers of \<open>src/utils\<close>.

  The source computes with \<open>BigNumber\<close> of the package bignumber.js, which is not part of the
  repository. Its values are arbitrary-precision decimals and its \<open>plus\<close>, \<open>minus\<close>, \<open>times\<close>,
  \<open>abs\<close>, \<open>negated\<close> and comparisons are documented to be exact, so a number of the model is a
  rational number (\<open>rat\<close>) with the exact operations. \<open>dividedBy\<close> is the one operation that
  rounds: it is the parameter \<open>dv\<close> of every definition that divides, and what the theorems rely on
  is the contract \<open>bn_division\<close> below (exact when the quotient has at most 20 decimals, otherwise
  within half a unit of the 20th decimal, monotone). \<open>bn_div\<close> is the division that the
  configuration in \<open>src/types.ts\<close> asks for (round half down, the package's default of 20 decimals);
  it satisfies the contract and instantiates it in the witnesses.

  A decimal string that a number is stored as (\<open>toString\<close>, exponents disabled by \<open>types.ts\<close>) is
  identified with the number. NaN does not occur in the model, a negative zero is not
  distinguished from zero, and the only infinite quantity of the source (the closing entry of an
  order book side in \<open>utils/liquidity.ts\<close>) is modelled where it is used.
\<close>

type_synonym bn = rat
type_synonym bn_division_op = "bn \<Rightarrow> bn \<Rightarrow> bn"

section \<open>The division contract\<close>

definition decimals :: "nat \<Rightarrow> bn \<Rightarrow> bool" where
  "decimals n x \<longleftrightarrow> x * 10 ^ n \<in> \<int>"

lemma decimals_0 [simp]: "decimals n 0"
  by (simp add: decimals_def)

lemma decimals_of_int [simp]: "decimals n (of_int k)"
  unfolding decimals_def by (metis Ints_mult Ints_of_int Ints_power Ints_numeral)

lemma decimals_1 [simp]: "decimals n 1"
  using decimals_of_int [of n 1] by simp

lemma decimals_numeral [simp]: "decimals n (numeral k)"
  using decimals_of_int [of n "numeral k"] by simp

lemma decimals_add [intro]: "decimals n x \<Longrightarrow> decimals n y \<Longrightarrow> decimals n (x + y)"
  by (simp add: decimals_def distrib_right)

lemma decimals_minus [intro]: "decimals n x \<Longrightarrow> decimals n (- x)"
  by (simp add: decimals_def)

lemma decimals_diff [intro]: "decimals n x \<Longrightarrow> decimals n y \<Longrightarrow> decimals n (x - y)"
  by (simp add: decimals_def left_diff_distrib)

lemma decimals_mono: "decimals m x \<Longrightarrow> m \<le> n \<Longrightarrow> decimals n x"
proof -
  assume d: "decimals m x" and le: "m \<le> n"
  have "x * 10 ^ n = (x * 10 ^ m) * 10 ^ (n - m)"
    using le by (simp add: power_add [symmetric])
  with d show ?thesis
    unfolding decimals_def by (metis Ints_mult Ints_power Ints_numeral)
qed

text \<open>The documented behaviour of \<open>BigNumber.dividedBy\<close> under the source's configuration.\<close>

locale bn_division =
  fixes dv :: "rat \<Rightarrow> rat \<Rightarrow> rat"
  assumes dv_exact: "b \<noteq> 0 \<Longrightarrow> decimals 20 (a / b) \<Longrightarrow> dv a b = a / b"
    and dv_error: "b \<noteq> 0 \<Longrightarrow> \<bar>dv a b - a / b\<bar> \<le> 1 / (2 * 10 ^ 20)"
    and dv_mono: "b \<noteq> 0 \<Longrightarrow> d \<noteq> 0 \<Longrightarrow> a / b \<le> c / d \<Longrightarrow> dv a b \<le> dv c d"
begin

lemma dv_by_one: "decimals 20 a \<Longrightarrow> dv a 1 = a"
  using dv_exact [of 1 a] by simp

lemma dv_zero: "b \<noteq> 0 \<Longrightarrow> dv 0 b = 0"
  using dv_exact [of b 0] by simp

lemma dv_lower: "b \<noteq> 0 \<Longrightarrow> decimals 20 lo \<Longrightarrow> lo \<le> a / b \<Longrightarrow> lo \<le> dv a b"
  using dv_mono [of 1 b lo a] dv_by_one [of lo] by simp

lemma dv_upper: "b \<noteq> 0 \<Longrightarrow> decimals 20 hi \<Longrightarrow> a / b \<le> hi \<Longrightarrow> dv a b \<le> hi"
  using dv_mono [of b 1 a hi] dv_by_one [of hi] by simp

lemma dv_nonneg: "0 \<le> a \<Longrightarrow> 0 < b \<Longrightarrow> 0 \<le> dv a b"
  using dv_lower [of b 0 a] by simp

lemma dv_nonpos: "a \<le> 0 \<Longrightarrow> 0 < b \<Longrightarrow> dv a b \<le> 0"
  using dv_upper [of b 0 a] by (simp add: divide_nonpos_pos)

end

section \<open>Round half down to 20 decimals\<close>

definition half_down :: "bn \<Rightarrow> bn" where
  "half_down x = of_int \<lceil>x * 10 ^ 20 - 1 / 2\<rceil> / 10 ^ 20"

definition bn_round :: "bn \<Rightarrow> bn" where
  "bn_round x = (if x < 0 then - half_down (- x) else half_down x)"

definition bn_div :: "bn \<Rightarrow> bn \<Rightarrow> bn" where
  "bn_div a b = bn_round (a / b)"

lemma half_down_error: "\<bar>half_down x - x\<bar> \<le> 1 / (2 * 10 ^ 20)"
proof -
  define S :: rat where "S = 10 ^ 20"
  have S: "0 < S" by (simp add: S_def)
  let ?n = "of_int \<lceil>x * S - 1 / 2\<rceil> :: rat"
  have "\<bar>?n - x * S\<bar> \<le> 1 / 2" by linarith
  then have "\<bar>?n - x * S\<bar> / S \<le> (1 / 2) / S"
    by (rule divide_right_mono) (use S in simp)
  moreover have "\<bar>half_down x - x\<bar> = \<bar>?n - x * S\<bar> / S"
  proof -
    have "half_down x - x = ?n / S - x" by (simp only: half_down_def S_def)
    also have "\<dots> = (?n - x * S) / S" using S by (simp add: diff_divide_distrib)
    finally show ?thesis using S by (simp only: abs_divide abs_of_pos)
  qed
  ultimately show ?thesis by (simp add: S_def)
qed

lemma half_down_mono: "x \<le> y \<Longrightarrow> half_down x \<le> half_down y"
  unfolding half_down_def
  by (intro divide_right_mono of_int_le_iff [THEN iffD2] ceiling_mono) auto

lemma half_down_exact: "decimals 20 x \<Longrightarrow> half_down x = x"
proof -
  assume "decimals 20 x"
  then obtain n where n: "x * 10 ^ 20 = of_int n"
    by (auto simp: decimals_def elim: Ints_cases)
  have "\<lceil>(of_int n :: rat) - 1 / 2\<rceil> = n" by linarith
  then have "half_down x = of_int n / 10 ^ 20" by (simp only: half_down_def n)
  also have "\<dots> = x" by (simp only: n [symmetric]) simp
  finally show ?thesis .
qed

lemma half_down_nonneg: "0 \<le> x \<Longrightarrow> 0 \<le> half_down x"
  using half_down_mono [of 0 x] half_down_exact [of 0] by simp

lemma bn_round_error: "\<bar>bn_round x - x\<bar> \<le> 1 / (2 * 10 ^ 20)"
proof (cases "x < 0")
  case True
  have "\<bar>bn_round x - x\<bar> = \<bar>half_down (- x) - (- x)\<bar>"
    using True by (simp add: bn_round_def abs_if)
  with half_down_error [of "- x"] show ?thesis by simp
next
  case False
  with half_down_error [of x] show ?thesis by (simp add: bn_round_def)
qed

lemma bn_round_exact: "decimals 20 x \<Longrightarrow> bn_round x = x"
  using half_down_exact [of x] half_down_exact [of "- x"] decimals_minus [of 20 x]
  by (simp add: bn_round_def)

lemma bn_round_mono:
  assumes "x \<le> y"
  shows "bn_round x \<le> bn_round y"
  using half_down_mono [OF assms] half_down_mono [of "- y" "- x"]
    half_down_nonneg [of "- x"] half_down_nonneg [of y] assms
  by (auto simp: bn_round_def)

interpretation bn: bn_division bn_div
proof
  fix a b c d :: rat
  show "b \<noteq> 0 \<Longrightarrow> decimals 20 (a / b) \<Longrightarrow> bn_div a b = a / b"
    by (simp add: bn_div_def bn_round_exact)
  show "b \<noteq> 0 \<Longrightarrow> \<bar>bn_div a b - a / b\<bar> \<le> 1 / (2 * 10 ^ 20)"
    unfolding bn_div_def by (rule bn_round_error)
  show "b \<noteq> 0 \<Longrightarrow> d \<noteq> 0 \<Longrightarrow> a / b \<le> c / d \<Longrightarrow> bn_div a b \<le> bn_div c d"
    unfolding bn_div_def by (rule bn_round_mono)
qed

section \<open>Constants\<close>

definition BN_WEI_PER_ETHER :: bn where "BN_WEI_PER_ETHER = 10 ^ 18"
definition MINIMUM_TRADE_SIZE :: bn where "MINIMUM_TRADE_SIZE = 1 / 10 ^ 6"
definition PRECISION_decimals :: nat where "PRECISION_decimals = 18"
definition PRECISION_limit :: bn where "PRECISION_limit = 10 / 10 ^ 18"
definition PRECISION_zero :: bn where "PRECISION_zero = 1 / 10 ^ 18"
definition PRECISION_multiple :: bn where "PRECISION_multiple = 10 ^ 18"

section \<open>Fixed point, ticks and prices\<close>

definition fixedPointToDecimal :: "bn_division_op \<Rightarrow> bn \<Rightarrow> bn \<Rightarrow> bn" where
  "fixedPointToDecimal dv fixedPointValue conversionFactor = dv fixedPointValue conversionFactor"

definition convertFixedPointToDecimal :: "bn_division_op \<Rightarrow> bn \<Rightarrow> bn \<Rightarrow> bn" where
  "convertFixedPointToDecimal dv fixedPointValue conversionFactor =
     fixedPointToDecimal dv fixedPointValue conversionFactor"

definition decimalToFixedPoint :: "bn \<Rightarrow> bn \<Rightarrow> bn" where
  "decimalToFixedPoint decimalValue conversionFactor = decimalValue * conversionFactor"

definition convertDecimalToFixedPoint :: "bn \<Rightarrow> bn \<Rightarrow> bn" where
  "convertDecimalToFixedPoint decimalValue conversionFactor =
     decimalToFixedPoint decimalValue conversionFactor"

definition numTicksToTickSize :: "bn_division_op \<Rightarrow> bn \<Rightarrow> bn \<Rightarrow> bn \<Rightarrow> bn" where
  "numTicksToTickSize dv numTicks minPrice maxPrice = dv (maxPrice - minPrice) numTicks"

text \<open>The arguments are passed on as the source passes them: maximum, minimum, ticks.\<close>

definition convertNumTicksToTickSize :: "bn_division_op \<Rightarrow> bn \<Rightarrow> bn \<Rightarrow> bn \<Rightarrow> bn" where
  "convertNumTicksToTickSize dv numTicks minPrice maxPrice =
     numTicksToTickSize dv maxPrice minPrice numTicks"

definition convertDivisorToRate :: "bn_division_op \<Rightarrow> bn \<Rightarrow> bn" where
  "convertDivisorToRate dv divisor = (if divisor = 0 then 0 else dv 1 divisor)"

definition denormalizePrice :: "bn \<Rightarrow> bn \<Rightarrow> bn \<Rightarrow> bn result" where
  "denormalizePrice minPrice maxPrice normalizedPrice =
     (if minPrice > maxPrice then Inl (Thrown ''Minimum value larger than maximum value'')
      else if normalizedPrice < 0 then Inl (Thrown ''Normalized price is below 0'')
      else if normalizedPrice > 1 then Inl (Thrown ''Normalized price is above 1'')
      else Inr (normalizedPrice * (maxPrice - minPrice) + minPrice))"

section \<open>Rounding of order prices and amounts\<close>

text \<open>
  Rounding modes are the numbers bignumber.js gives them. \<open>toPrecision\<close> (round to a number of
  significant digits in a mode) is a method of that package and a parameter here; the source
  calls it only for values below \<open>PRECISION_limit\<close>. The optional mode is read with \<open>||\<close>, which
  takes the mode 0 for a missing one.
\<close>

type_synonym to_precision_op = "bn \<Rightarrow> nat \<Rightarrow> nat \<Rightarrow> bn"

definition ROUND_UP :: nat where "ROUND_UP = 0"
definition ROUND_DOWN :: nat where "ROUND_DOWN = 1"

definition roundToPrecision ::
  "to_precision_op \<Rightarrow> bn_division_op \<Rightarrow> bn \<Rightarrow> bn \<Rightarrow> string option \<Rightarrow> nat option \<Rightarrow> bn" where
  "roundToPrecision toPrec dv value minimumValue rnd roundingMode =
     (if \<bar>value\<bar> < minimumValue then 0
      else if \<bar>value\<bar> < PRECISION_limit then
        toPrec value PRECISION_decimals
          (case roundingMode of None \<Rightarrow> ROUND_DOWN
           | Some m \<Rightarrow> if m = 0 then ROUND_DOWN else m)
      else if rnd = Some ''ceil'' then
        dv (of_int \<lceil>value * PRECISION_multiple\<rceil>) PRECISION_multiple
      else dv (of_int \<lfloor>value * PRECISION_multiple\<rfloor>) PRECISION_multiple)"

definition formatOrderAmount :: "to_precision_op \<Rightarrow> bn_division_op \<Rightarrow> bn \<Rightarrow> bn" where
  "formatOrderAmount toPrec dv fullPrecisionAmount =
     roundToPrecision toPrec dv fullPrecisionAmount MINIMUM_TRADE_SIZE None None"

definition formatOrderPrice ::
  "to_precision_op \<Rightarrow> bn_division_op \<Rightarrow> string \<Rightarrow> bn \<Rightarrow> bn \<Rightarrow> bn \<Rightarrow> bn result" where
  "formatOrderPrice toPrec dv orderType minPrice maxPrice fullPrecisionPrice =
     (if orderType \<noteq> ''buy'' \<and> orderType \<noteq> ''sell''
      then Inl (Thrown ''order type must be buy or sell'')
      else Inr (if orderType = ''buy''
        then roundToPrecision toPrec dv fullPrecisionPrice PRECISION_zero
               (Some ''floor'') (Some ROUND_DOWN)
        else roundToPrecision toPrec dv fullPrecisionPrice PRECISION_zero
               (Some ''ceil'') (Some ROUND_UP)))"

end
