(* ===== verification/Dimension_Quantity.thy ===== *)
theory Dimension_Quantity
  imports Bignum
begin

text \<open>
  \<open>src/utils/dimension-quantity.ts\<close>: magnitudes tagged with a class (Scalar, Percent, Tokens,
  Shares, Price, or an unverified intermediate result) and a dimension vector in tokens and
  shares. Every operation that combines two quantities checks dimensions at run time and throws on
  a mismatch; those throws are the \<open>Inl\<close> results here.

  A quantity is a record with the fields of the class \<open>Quantity\<close>. \<open>derivedConstructor\<close> is the
  class that arithmetic rebuilds the result with; the local class \<open>Copy\<close> of an unverified
  quantity closes over its dimension vector, which the constructor \<open>CUnverified\<close> carries.
\<close>

section \<open>Dimensions, classes and constructors\<close>

record dimension_vector =
  dtokens :: int
  dshares :: int

definition isEqual :: "dimension_vector \<Rightarrow> dimension_vector \<Rightarrow> bool" where
  "isEqual a b \<longleftrightarrow> dtokens a = dtokens b \<and> dshares a = dshares b"

lemma isEqual_iff: "isEqual a b \<longleftrightarrow> a = b"
  by (cases a; cases b) (simp add: isEqual_def)

definition dim_add :: "dimension_vector \<Rightarrow> dimension_vector \<Rightarrow> dimension_vector" where
  "dim_add a b = \<lparr>dtokens = dtokens a + dtokens b, dshares = dshares a + dshares b\<rparr>"

definition dim_sub :: "dimension_vector \<Rightarrow> dimension_vector \<Rightarrow> dimension_vector" where
  "dim_sub a b = \<lparr>dtokens = dtokens a - dtokens b, dshares = dshares a - dshares b\<rparr>"

datatype ctor = CScalar | CPercent | CTokens | CShares | CPrice | CUnverified dimension_vector

fun unit_dimension :: "ctor \<Rightarrow> dimension_vector" where
  "unit_dimension CScalar = \<lparr>dtokens = 0, dshares = 0\<rparr>"
| "unit_dimension CPercent = \<lparr>dtokens = 0, dshares = 0\<rparr>"
| "unit_dimension CTokens = \<lparr>dtokens = 1, dshares = 0\<rparr>"
| "unit_dimension CShares = \<lparr>dtokens = 0, dshares = 1\<rparr>"
| "unit_dimension CPrice = \<lparr>dtokens = 1, dshares = -1\<rparr>"
| "unit_dimension (CUnverified d) = d"

record quantity =
  derivedConstructor :: ctor
  magnitude :: bn
  dimension :: dimension_vector
  sign :: int

definition construct :: "ctor \<Rightarrow> bn \<Rightarrow> quantity" where
  "construct k m = \<lparr>derivedConstructor = k, magnitude = m, dimension = unit_dimension k,
     sign = (if m < 0 then -1 else 1)\<rparr>"

abbreviation "Sc \<equiv> construct CScalar"
abbreviation "Pc \<equiv> construct CPercent"
abbreviation "Tk \<equiv> construct CTokens"
abbreviation "Sh \<equiv> construct CShares"
abbreviation "Pr \<equiv> construct CPrice"
abbreviation "Uq d \<equiv> construct (CUnverified d)"

definition wf_quantity :: "quantity \<Rightarrow> bool" where
  "wf_quantity q \<longleftrightarrow> q = construct (derivedConstructor q) (magnitude q)"

lemma construct_sel [simp, qsimps]:
  "derivedConstructor (construct k m) = k"
  "magnitude (construct k m) = m"
  "dimension (construct k m) = unit_dimension k"
  "sign (construct k m) = (if m < 0 then -1 else 1)"
  by (simp_all add: construct_def)

lemma construct_eq [simp, qsimps]: "construct k m = construct k' m' \<longleftrightarrow> k = k' \<and> m = m'"
  by (auto simp: construct_def)

lemma wf_construct [simp]: "wf_quantity (construct k m)"
  by (simp add: wf_quantity_def)

lemma wf_quantityE:
  assumes "wf_quantity q"
  obtains k m where "q = construct k m"
  using assms unfolding wf_quantity_def by blast

definition isScalar :: "quantity \<Rightarrow> bool" where
  "isScalar q \<longleftrightarrow> derivedConstructor q = CScalar"

definition isPercent :: "quantity \<Rightarrow> bool" where
  "isPercent q \<longleftrightarrow> derivedConstructor q = CPercent"

lemma isScalar_construct [simp, qsimps]: "isScalar (construct k m) \<longleftrightarrow> k = CScalar"
  by (simp add: isScalar_def)

lemma isPercent_construct [simp, qsimps]: "isPercent (construct k m) \<longleftrightarrow> k = CPercent"
  by (simp add: isPercent_def)

section \<open>Arithmetic\<close>

definition multipliedBy :: "quantity \<Rightarrow> quantity \<Rightarrow> quantity" where
  "multipliedBy a b =
     (let newMagnitude = magnitude a * magnitude b in
      if isPercent a \<and> isScalar b then construct (derivedConstructor a) newMagnitude
      else if isPercent b \<and> isScalar a then construct (derivedConstructor b) newMagnitude
      else if isPercent a \<or> isScalar a then construct (derivedConstructor b) newMagnitude
      else if isPercent b \<or> isScalar b then construct (derivedConstructor a) newMagnitude
      else Uq (dim_add (dimension a) (dimension b)) newMagnitude)"

definition isZero :: "quantity \<Rightarrow> bool" where
  "isZero q \<longleftrightarrow> magnitude q = 0"

definition dividedBy :: "bn_division_op \<Rightarrow> quantity \<Rightarrow> quantity \<Rightarrow> quantity result" where
  "dividedBy dv a b =
     (if magnitude b = 0 then Inl DivideByZero
      else let newMagnitude = dv (magnitude a) (magnitude b) in
      if isPercent a \<and> isScalar b then Inr (construct (derivedConstructor a) newMagnitude)
      else if isPercent b \<and> isScalar a then Inr (construct (derivedConstructor b) newMagnitude)
      else if isPercent a \<or> isScalar a then Inr (construct (derivedConstructor b) newMagnitude)
      else if isPercent b \<or> isScalar b then Inr (construct (derivedConstructor a) newMagnitude)
      else Inr (Uq (dim_sub (dimension a) (dimension b)) newMagnitude))"

definition qplus :: "quantity \<Rightarrow> quantity \<Rightarrow> quantity result" where
  "qplus a b = (if \<not> isEqual (dimension a) (dimension b) then Inl (DimensionMismatch ''plus'')
     else Inr (construct (derivedConstructor a) (magnitude a + magnitude b)))"

definition qminus :: "quantity \<Rightarrow> quantity \<Rightarrow> quantity result" where
  "qminus a b = (if \<not> isEqual (dimension a) (dimension b) then Inl (DimensionMismatch ''minus'')
     else Inr (construct (derivedConstructor a) (magnitude a - magnitude b)))"

definition lt :: "quantity \<Rightarrow> quantity \<Rightarrow> bool result" where
  "lt a b = (if \<not> isEqual (dimension a) (dimension b) then Inl (DimensionMismatch ''lt'')
     else Inr (magnitude a < magnitude b))"

definition lte :: "quantity \<Rightarrow> quantity \<Rightarrow> bool result" where
  "lte a b = (if \<not> isEqual (dimension a) (dimension b) then Inl (DimensionMismatch ''lte'')
     else Inr (magnitude a \<le> magnitude b))"

definition gt :: "quantity \<Rightarrow> quantity \<Rightarrow> bool result" where
  "gt a b = (if \<not> isEqual (dimension a) (dimension b) then Inl (DimensionMismatch ''gt'')
     else Inr (magnitude a > magnitude b))"

definition gte :: "quantity \<Rightarrow> quantity \<Rightarrow> bool result" where
  "gte a b = (if \<not> isEqual (dimension a) (dimension b) then Inl (DimensionMismatch ''gte'')
     else Inr (magnitude a \<ge> magnitude b))"

definition qabs :: "quantity \<Rightarrow> quantity" where
  "qabs a = construct (derivedConstructor a) \<bar>magnitude a\<bar>"

definition negated :: "quantity \<Rightarrow> quantity" where
  "negated a = construct (derivedConstructor a) (- magnitude a)"

definition qmin :: "quantity \<Rightarrow> quantity \<Rightarrow> quantity result" where
  "qmin a b = (if \<not> isEqual (dimension a) (dimension b) then Inl (DimensionMismatch ''min'')
     else Inr (construct (derivedConstructor a) (min (magnitude a) (magnitude b))))"

definition qmax :: "quantity \<Rightarrow> quantity \<Rightarrow> quantity result" where
  "qmax a b = (if \<not> isEqual (dimension a) (dimension b) then Inl (DimensionMismatch ''max'')
     else Inr (construct (derivedConstructor a) (max (magnitude a) (magnitude b))))"

text \<open>
  \<open>expect\<close> is a method of the unverified class only, so on any other quantity the call is a
  \<open>TypeError\<close>. None of the classes of the file defines the optional \<open>isValidMagnitude\<close>.
\<close>

definition expect :: "ctor \<Rightarrow> quantity \<Rightarrow> quantity result" where
  "expect vq q =
     (case derivedConstructor q of
        CUnverified _ \<Rightarrow>
          (if \<not> isEqual (dimension (construct vq 0)) (dimension q) then Inl ExpectFailed
           else Inr (construct vq (magnitude q)))
      | _ \<Rightarrow> Inl (JsTypeError ''expect is not a function''))"

definition assertEqualDimensions :: "quantity \<Rightarrow> quantity \<Rightarrow> unit result" where
  "assertEqualDimensions a b =
     (if \<not> isEqual (dimension a) (dimension b)
      then Inl (DimensionMismatch ''expected dimensions to be equal'') else Inr ())"

text \<open>A missing numerator or denominator (\<open>null\<close> or \<open>undefined\<close>) is \<open>None\<close>.\<close>

definition safePercent ::
  "bn_division_op \<Rightarrow> quantity option \<Rightarrow> quantity option \<Rightarrow> bool \<Rightarrow> quantity result" where
  "safePercent dv numerator denominator subtractOne =
     (case (numerator, denominator) of
        (Some n, Some d) \<Rightarrow>
          (if isZero d then bindE (assertEqualDimensions n d) (\<lambda>_. Inr (Pc 0))
           else bindE (dividedBy dv n d) (\<lambda>q.
                bindE (expect CPercent q) (\<lambda>percent.
                if subtractOne then qminus percent (Pc 1) else Inr percent)))
      | _ \<Rightarrow> Inr (Pc 0))"

section \<open>Evaluation\<close>

lemma isZero_construct [simp, qsimps]: "isZero (construct k m) \<longleftrightarrow> m = 0"
  by (simp add: isZero_def)

lemma qabs_construct [simp, qsimps]: "qabs (construct k m) = construct k \<bar>m\<bar>"
  by (simp add: qabs_def)

lemma negated_construct [simp, qsimps]: "negated (construct k m) = construct k (- m)"
  by (simp add: negated_def)

lemma same_dimension_ops [simp, qsimps]:
  assumes "unit_dimension k = unit_dimension k'"
  shows "qplus (construct k a) (construct k' b) = Inr (construct k (a + b))"
    and "qminus (construct k a) (construct k' b) = Inr (construct k (a - b))"
    and "qmin (construct k a) (construct k' b) = Inr (construct k (min a b))"
    and "qmax (construct k a) (construct k' b) = Inr (construct k (max a b))"
    and "lt (construct k a) (construct k' b) = Inr (a < b)"
    and "lte (construct k a) (construct k' b) = Inr (a \<le> b)"
    and "gt (construct k a) (construct k' b) = Inr (a > b)"
    and "gte (construct k a) (construct k' b) = Inr (a \<ge> b)"
  using assms
  by (simp_all add: qplus_def qminus_def qmin_def qmax_def lt_def lte_def gt_def gte_def
      isEqual_iff)

lemma multipliedBy_construct [simp, qsimps]:
  "multipliedBy (construct k a) (construct k' b) =
     (if k = CPercent \<and> k' = CScalar then Pc (a * b)
      else if k = CScalar \<or> k = CPercent then construct k' (a * b)
      else if k' = CScalar \<or> k' = CPercent then construct k (a * b)
      else Uq (dim_add (unit_dimension k) (unit_dimension k')) (a * b))"
  by (auto simp: multipliedBy_def Let_def)

lemma dividedBy_construct [simp, qsimps]:
  "dividedBy dv (construct k a) (construct k' b) =
     (if b = 0 then Inl DivideByZero
      else if k = CPercent \<and> k' = CScalar then Inr (Pc (dv a b))
      else if k = CScalar \<or> k = CPercent then Inr (construct k' (dv a b))
      else if k' = CScalar \<or> k' = CPercent then Inr (construct k (dv a b))
      else Inr (Uq (dim_sub (unit_dimension k) (unit_dimension k')) (dv a b)))"
  by (auto simp: dividedBy_def Let_def)

lemma expect_unverified [simp, qsimps]:
  "expect k (Uq d m) = (if unit_dimension k = d then Inr (construct k m) else Inl ExpectFailed)"
  by (simp add: expect_def isEqual_iff)

lemma dim_arith [simp, qsimps]:
  "dim_add \<lparr>dtokens = a, dshares = b\<rparr> \<lparr>dtokens = c, dshares = d\<rparr> =
     \<lparr>dtokens = a + c, dshares = b + d\<rparr>"
  "dim_sub \<lparr>dtokens = a, dshares = b\<rparr> \<lparr>dtokens = c, dshares = d\<rparr> =
     \<lparr>dtokens = a - c, dshares = b - d\<rparr>"
  by (simp_all add: dim_add_def dim_sub_def)

section \<open>Dimension soundness\<close>

text \<open>Results are again built by a constructor, so a chain of operations stays evaluable.\<close>

lemma multipliedBy_wf: "wf_quantity (multipliedBy a b)"
  by (simp add: multipliedBy_def Let_def)

lemma dividedBy_wf: "dividedBy dv a b = Inr q \<Longrightarrow> wf_quantity q"
  unfolding dividedBy_def Let_def
  by (simp only: split: if_splits) auto

lemma additive_wf:
  "qplus a b = Inr q \<Longrightarrow> wf_quantity q"
  "qminus a b = Inr q \<Longrightarrow> wf_quantity q"
  "qmin a b = Inr q \<Longrightarrow> wf_quantity q"
  "qmax a b = Inr q \<Longrightarrow> wf_quantity q"
  by (cases "isEqual (dimension a) (dimension b)";
      auto simp: qplus_def qminus_def qmin_def qmax_def)+

lemma expect_wf: "expect k a = Inr q \<Longrightarrow> q = construct k (magnitude a)"
  unfolding expect_def
  by (cases "derivedConstructor a") (auto split: if_splits)

lemma dimensionless_iff:
  "unit_dimension k = \<lparr>dtokens = 0, dshares = 0\<rparr> \<longleftrightarrow>
     k = CScalar \<or> k = CPercent \<or> k = CUnverified \<lparr>dtokens = 0, dshares = 0\<rparr>"
  by (cases k) auto

lemma dim_add_zero [simp]:
  "dim_add \<lparr>dtokens = 0, dshares = 0\<rparr> d = d" "dim_add d \<lparr>dtokens = 0, dshares = 0\<rparr> = d"
  by (cases d; simp add: dim_add_def)+

lemma dim_sub_zero [simp]: "dim_sub d \<lparr>dtokens = 0, dshares = 0\<rparr> = d"
  by (cases d) (simp add: dim_sub_def)

lemma multipliedBy_dimension:
  assumes "wf_quantity a" "wf_quantity b"
  shows "dimension (multipliedBy a b) = dim_add (dimension a) (dimension b)"
  using assms by (auto elim!: wf_quantityE)

text \<open>
  Division subtracts dimensions except when a Scalar or Percent is divided by a quantity with a
  dimension: the result then has the class, and the dimension, of the divisor.
\<close>

lemma dividedBy_dimension:
  assumes "wf_quantity a" "wf_quantity b" "dividedBy dv a b = Inr q"
  shows "dimension q =
    (if isScalar a \<or> isPercent a then dimension b else dim_sub (dimension a) (dimension b))"
  using assms by (auto elim!: wf_quantityE split: if_splits)

lemma dividedBy_dimension_sound_iff:
  assumes "wf_quantity a" "wf_quantity b" "dividedBy dv a b = Inr q"
  shows "dimension q = dim_sub (dimension a) (dimension b) \<longleftrightarrow>
    \<not> ((isScalar a \<or> isPercent a) \<and> dimension b \<noteq> \<lparr>dtokens = 0, dshares = 0\<rparr>)"
proof -
  obtain k m where a: "a = construct k m" using assms(1) by (rule wf_quantityE)
  have sub0: "dim_sub \<lparr>dtokens = 0, dshares = 0\<rparr> d = d \<longleftrightarrow> d = \<lparr>dtokens = 0, dshares = 0\<rparr>" for d
    by (cases d) (auto simp: dim_sub_def)
  have "dimension a = \<lparr>dtokens = 0, dshares = 0\<rparr>" if "isScalar a \<or> isPercent a"
    using that a by (cases k) simp_all
  then show ?thesis
    using dividedBy_dimension [OF assms] sub0 [of "dimension b"] by (simp only:) metis
qed

lemma qplus_defined_iff: "(\<exists>q. qplus a b = Inr q) \<longleftrightarrow> dimension a = dimension b"
  by (simp add: qplus_def isEqual_iff)

end
