(* ===== verification/Financial_Math.thy ===== *)
theory Financial_Math
  imports Dimension_Quantity
begin

text \<open>
  \<open>src/utils/financial-math.ts\<close>: the financial formulas, over the dimension-checked quantities.

  The source passes one object whose type is an intersection of single-field interfaces, and
  builds new objects by spreading (\<open>{...params, x: y}\<close>), so fields that a callee does not declare
  travel along. The model is one record of parameters with a field per interface; a spread is a
  record update. A field is an \<open>option\<close> exactly where the source tests its presence with \<open>in\<close>
  (an undefined value that is then used is a \<open>TypeError\<close>).

  The second half states the formulas over plain numbers (\<open>vals\<close>, \<open>lift\<close>) and shows that on
  well-dimensioned parameters every function of the file returns, without a dimension error, the
  quantity of the right class with that number as magnitude (the \<open>get\<dots>_lift\<close> lemmas). The
  lemmas on positions, cost basis and profit are proved on the numbers and carried back by them.
\<close>

section \<open>Parameters\<close>

datatype position_type = PosClosed | PosLong | PosShort

datatype buy_or_sell = Buy | Sell

record fin_params =
  netPosition :: quantity
  averageTradePriceMinusMinPriceForOpenPosition :: quantity
  unrealizedCost :: "quantity option"
  unrealizedProfit :: "quantity option"
  realizedCost :: quantity
  realizedProfit :: quantity
  totalCost :: "quantity option"
  totalProfit :: "quantity option"
  tradePositionDelta :: "quantity option"
  tradeBuyOrSell :: buy_or_sell
  tradeQuantity :: quantity
  tradePrice :: "quantity option"
  tradePriceMinusMinPrice :: "quantity option"
  lastTradePriceMinusMinPrice :: quantity
  marketMinPrice :: quantity
  marketMaxPrice :: quantity
  reporterFees :: quantity
  marketCreatorFees :: quantity
  reporterFeeRate :: quantity
  marketCreatorFeeRate :: quantity

definition field :: "'a option \<Rightarrow> 'a result" where
  "field x = (case x of None \<Rightarrow> Inl (JsTypeError ''undefined'') | Some v \<Rightarrow> Inr v)"

lemma field_simps_Some [simp, qsimps]: "field (Some x) = Inr x"
  by (simp add: field_def)

lemma field_simps_None [simp, qsimps]: "field None = Inl (JsTypeError ''undefined'')"
  by (simp add: field_def)

section \<open>The functions of the file\<close>

definition getPositionType :: "fin_params \<Rightarrow> position_type" where
  "getPositionType p =
     (if isZero (netPosition p) then PosClosed
      else if sign (netPosition p) = -1 then PosShort
      else PosLong)"

definition getTradePrice :: "fin_params \<Rightarrow> quantity result" where
  "getTradePrice p = bindE (field (tradePriceMinusMinPrice p)) (\<lambda>t. qplus (marketMinPrice p) t)"

definition getTradePriceMinusMinPrice :: "fin_params \<Rightarrow> quantity result" where
  "getTradePriceMinusMinPrice p =
     bindE (field (tradePrice p)) (\<lambda>t. qminus t (marketMinPrice p))"

definition getSharePrice :: "fin_params \<Rightarrow> position_type \<Rightarrow> quantity result" where
  "getSharePrice p positionType =
     (case positionType of
        PosClosed \<Rightarrow> Inr (Pr 0)
      | PosShort \<Rightarrow>
          bindE (case tradePrice p of Some t \<Rightarrow> Inr t | None \<Rightarrow> getTradePrice p)
            (\<lambda>t. qminus (marketMaxPrice p) t)
      | PosLong \<Rightarrow>
          (case tradePriceMinusMinPrice p of Some t \<Rightarrow> Inr t
           | None \<Rightarrow> getTradePriceMinusMinPrice p))"

definition getSharePriceForPosition :: "fin_params \<Rightarrow> quantity result" where
  "getSharePriceForPosition p = getSharePrice p (getPositionType p)"

definition getNextNetPosition :: "fin_params \<Rightarrow> quantity result" where
  "getNextNetPosition p =
     bindE (field (tradePositionDelta p)) (\<lambda>delta. qplus (netPosition p) delta)"

definition getTradeQuantityClosed :: "fin_params \<Rightarrow> quantity result" where
  "getTradeQuantityClosed p =
     bindE (field (tradePositionDelta p)) (\<lambda>delta.
       if isZero delta \<or> sign delta = sign (netPosition p) then Inr (Sh 0)
       else qmin (qabs (netPosition p)) (qabs delta))"

definition getTradeQuantityOpened :: "fin_params \<Rightarrow> quantity result" where
  "getTradeQuantityOpened p =
     bindE (field (tradePositionDelta p)) (\<lambda>delta.
       if isZero delta then Inr (Sh 0)
       else if sign delta = sign (netPosition p) then Inr (qabs delta)
       else bindE (gt (qabs delta) (qabs (netPosition p))) (\<lambda>reversed.
         if reversed then bindE (qplus delta (netPosition p)) (\<lambda>q. Inr (qabs q))
         else Inr (Sh 0)))"

definition getNextAverageTradePriceMinusMinPriceForOpenPosition ::
  "bn_division_op \<Rightarrow> fin_params \<Rightarrow> quantity result" where
  "getNextAverageTradePriceMinusMinPriceForOpenPosition dv p =
     bindE (getNextNetPosition p) (\<lambda>nextNetPosition.
       if isZero nextNetPosition then Inr (Pr 0)
       else if sign nextNetPosition \<noteq> sign (netPosition p) then field (tradePriceMinusMinPrice p)
       else bindE (getTradeQuantityOpened p) (\<lambda>tradeQuantityOpened.
         if isZero tradeQuantityOpened
         then Inr (averageTradePriceMinusMinPriceForOpenPosition p)
         else bindE (field (tradePositionDelta p)) (\<lambda>delta.
           bindE (field (tradePriceMinusMinPrice p)) (\<lambda>t.
           bindE (qplus (multipliedBy (qabs (netPosition p))
                           (averageTradePriceMinusMinPriceForOpenPosition p))
                        (multipliedBy (qabs delta) t)) (\<lambda>total.
           bindE (dividedBy dv total (qabs nextNetPosition)) (\<lambda>average.
           expect CPrice average))))))"

definition getTradeRealizedCostDelta :: "fin_params \<Rightarrow> quantity result" where
  "getTradeRealizedCostDelta p =
     bindE (getSharePriceForPosition
         (p\<lparr>tradePriceMinusMinPrice := Some (averageTradePriceMinusMinPriceForOpenPosition p)\<rparr>))
       (\<lambda>sharePrice.
     bindE (getTradeQuantityClosed p) (\<lambda>tradeQuantityClosed.
     expect CTokens (multipliedBy sharePrice tradeQuantityClosed)))"

definition getNextRealizedCost :: "fin_params \<Rightarrow> quantity result" where
  "getNextRealizedCost p =
     bindE (getTradeRealizedCostDelta p) (\<lambda>d. qplus (realizedCost p) d)"

definition getTradeRealizedRevenueDelta :: "fin_params \<Rightarrow> quantity result" where
  "getTradeRealizedRevenueDelta p =
     bindE (getSharePriceForPosition p) (\<lambda>sharePrice.
     bindE (getTradeQuantityClosed p) (\<lambda>tradeQuantityClosed.
     expect CTokens (multipliedBy sharePrice tradeQuantityClosed)))"

definition getTradeRealizedProfitDelta :: "fin_params \<Rightarrow> quantity result" where
  "getTradeRealizedProfitDelta p =
     bindE (getTradeRealizedRevenueDelta p) (\<lambda>r.
     bindE (getTradeRealizedCostDelta p) (\<lambda>c. qminus r c))"

definition getNextRealizedProfit :: "fin_params \<Rightarrow> quantity result" where
  "getNextRealizedProfit p =
     bindE (getTradeRealizedProfitDelta p) (\<lambda>d. qplus (realizedProfit p) d)"

definition getRealizedProfitPercent :: "bn_division_op \<Rightarrow> fin_params \<Rightarrow> quantity result" where
  "getRealizedProfitPercent dv p =
     (if isZero (realizedCost p) then Inr (Pc 0)
      else bindE (dividedBy dv (realizedProfit p) (realizedCost p)) (expect CPercent))"

definition getTradePositionDelta :: "fin_params \<Rightarrow> quantity" where
  "getTradePositionDelta p =
     (if tradeBuyOrSell p = Buy then tradeQuantity p else negated (tradeQuantity p))"

definition getUnrealizedCost :: "fin_params \<Rightarrow> quantity result" where
  "getUnrealizedCost p =
     bindE (getSharePriceForPosition
         (p\<lparr>tradePriceMinusMinPrice := Some (averageTradePriceMinusMinPriceForOpenPosition p)\<rparr>))
       (\<lambda>sharePrice. expect CTokens (multipliedBy sharePrice (qabs (netPosition p))))"

definition getTradeCost :: "fin_params \<Rightarrow> quantity result" where
  "getTradeCost p =
     (let delta = (case tradePositionDelta p of Some d \<Rightarrow> d | None \<Rightarrow> getTradePositionDelta p) in
      bindE (getTradePriceMinusMinPrice p) (\<lambda>t.
      getUnrealizedCost
        (p\<lparr>netPosition := delta, averageTradePriceMinusMinPriceForOpenPosition := t\<rparr>)))"

definition getTotalFees :: "fin_params \<Rightarrow> quantity result" where
  "getTotalFees p = qplus (reporterFees p) (marketCreatorFees p)"

definition getTradeCostIncludingFees :: "fin_params \<Rightarrow> quantity result" where
  "getTradeCostIncludingFees p =
     bindE (getTradeCost p) (\<lambda>c. bindE (getTotalFees p) (\<lambda>f. qplus c f))"

definition getUnrealizedRevenue :: "fin_params \<Rightarrow> quantity result" where
  "getUnrealizedRevenue p =
     bindE (getSharePriceForPosition
         (p\<lparr>tradePriceMinusMinPrice := Some (lastTradePriceMinusMinPrice p)\<rparr>))
       (\<lambda>sharePrice. expect CTokens (multipliedBy sharePrice (qabs (netPosition p))))"

definition getUnrealizedProfit :: "fin_params \<Rightarrow> quantity result" where
  "getUnrealizedProfit p =
     bindE (getUnrealizedRevenue p) (\<lambda>r. bindE (getUnrealizedCost p) (\<lambda>c. qminus r c))"

definition getUnrealizedProfitPercent :: "bn_division_op \<Rightarrow> fin_params \<Rightarrow> quantity result" where
  "getUnrealizedProfitPercent dv p =
     bindE (case unrealizedCost p of Some c \<Rightarrow> Inr c | None \<Rightarrow> getUnrealizedCost p) (\<lambda>cost.
       if isZero cost then Inr (Pc 0)
       else bindE (case unrealizedProfit p of Some q \<Rightarrow> Inr q | None \<Rightarrow> getUnrealizedProfit p)
         (\<lambda>profit. bindE (dividedBy dv profit cost) (expect CPercent)))"

definition getTotalCost :: "fin_params \<Rightarrow> quantity result" where
  "getTotalCost p = bindE (getUnrealizedCost p) (\<lambda>c. qplus c (realizedCost p))"

definition getTotalProfit :: "fin_params \<Rightarrow> quantity result" where
  "getTotalProfit p = bindE (getUnrealizedProfit p) (\<lambda>u. qplus u (realizedProfit p))"

definition getTotalProfitPercent :: "bn_division_op \<Rightarrow> fin_params \<Rightarrow> quantity result" where
  "getTotalProfitPercent dv p =
     bindE (case totalCost p of Some c \<Rightarrow> Inr c | None \<Rightarrow> getTotalCost p) (\<lambda>cost.
       if isZero cost then Inr (Pc 0)
       else bindE (case totalProfit p of Some q \<Rightarrow> Inr q | None \<Rightarrow> getTotalProfit p)
         (\<lambda>profit. bindE (dividedBy dv profit cost) (expect CPercent)))"

definition getTotalFeeRate :: "fin_params \<Rightarrow> quantity result" where
  "getTotalFeeRate p = qplus (reporterFeeRate p) (marketCreatorFeeRate p)"

definition getDisplayRange :: "fin_params \<Rightarrow> quantity result" where
  "getDisplayRange p = qminus (marketMaxPrice p) (marketMinPrice p)"

text \<open>
  \<open>Math.exp\<close> works on binary floating point; \<open>math_exp\<close> stands for it together with the
  conversions to and from a JavaScript number.
\<close>

definition continuousCompound ::
  "(bn \<Rightarrow> bn) \<Rightarrow> quantity \<Rightarrow> quantity \<Rightarrow> quantity \<Rightarrow> quantity" where
  "continuousCompound math_exp amount interestRate compoundingDuration =
     multipliedBy amount
       (Sc (math_exp (magnitude (multipliedBy interestRate compoundingDuration))))"

section \<open>The formulas over plain numbers\<close>

record vals =
  vNet :: bn
  vAvg :: bn
  vUnrealizedCost :: "bn option"
  vUnrealizedProfit :: "bn option"
  vRealizedCost :: bn
  vRealizedProfit :: bn
  vTotalCost :: "bn option"
  vTotalProfit :: "bn option"
  vDelta :: "bn option"
  vSide :: buy_or_sell
  vQuantity :: bn
  vTradePrice :: "bn option"
  vTradePriceMMP :: "bn option"
  vLastPriceMMP :: bn
  vMin :: bn
  vMax :: bn
  vReporterFees :: bn
  vCreatorFees :: bn
  vReporterFeeRate :: bn
  vCreatorFeeRate :: bn

text \<open>Parameters whose fields all have the class the source declares for them.\<close>

definition lift :: "vals \<Rightarrow> fin_params" where
  "lift v = \<lparr>
     netPosition = Sh (vNet v),
     averageTradePriceMinusMinPriceForOpenPosition = Pr (vAvg v),
     unrealizedCost = map_option Tk (vUnrealizedCost v),
     unrealizedProfit = map_option Tk (vUnrealizedProfit v),
     realizedCost = Tk (vRealizedCost v),
     realizedProfit = Tk (vRealizedProfit v),
     totalCost = map_option Tk (vTotalCost v),
     totalProfit = map_option Tk (vTotalProfit v),
     tradePositionDelta = map_option Sh (vDelta v),
     tradeBuyOrSell = vSide v,
     tradeQuantity = Sh (vQuantity v),
     tradePrice = map_option Pr (vTradePrice v),
     tradePriceMinusMinPrice = map_option Pr (vTradePriceMMP v),
     lastTradePriceMinusMinPrice = Pr (vLastPriceMMP v),
     marketMinPrice = Pr (vMin v),
     marketMaxPrice = Pr (vMax v),
     reporterFees = Tk (vReporterFees v),
     marketCreatorFees = Tk (vCreatorFees v),
     reporterFeeRate = Pc (vReporterFeeRate v),
     marketCreatorFeeRate = Pc (vCreatorFeeRate v)\<rparr>"

definition well_dimensioned :: "fin_params \<Rightarrow> bool" where
  "well_dimensioned p \<longleftrightarrow> (\<exists>v. p = lift v)"

lemma lift_sel [simp]:
  "netPosition (lift v) = Sh (vNet v)"
  "averageTradePriceMinusMinPriceForOpenPosition (lift v) = Pr (vAvg v)"
  "unrealizedCost (lift v) = map_option Tk (vUnrealizedCost v)"
  "unrealizedProfit (lift v) = map_option Tk (vUnrealizedProfit v)"
  "realizedCost (lift v) = Tk (vRealizedCost v)"
  "realizedProfit (lift v) = Tk (vRealizedProfit v)"
  "totalCost (lift v) = map_option Tk (vTotalCost v)"
  "totalProfit (lift v) = map_option Tk (vTotalProfit v)"
  "tradePositionDelta (lift v) = map_option Sh (vDelta v)"
  "tradeBuyOrSell (lift v) = vSide v"
  "tradeQuantity (lift v) = Sh (vQuantity v)"
  "tradePrice (lift v) = map_option Pr (vTradePrice v)"
  "tradePriceMinusMinPrice (lift v) = map_option Pr (vTradePriceMMP v)"
  "lastTradePriceMinusMinPrice (lift v) = Pr (vLastPriceMMP v)"
  "marketMinPrice (lift v) = Pr (vMin v)"
  "marketMaxPrice (lift v) = Pr (vMax v)"
  "reporterFees (lift v) = Tk (vReporterFees v)"
  "marketCreatorFees (lift v) = Tk (vCreatorFees v)"
  "reporterFeeRate (lift v) = Pc (vReporterFeeRate v)"
  "marketCreatorFeeRate (lift v) = Pc (vCreatorFeeRate v)"
  by (simp_all add: lift_def)

lemma lift_spread [simp]:
  "lift v\<lparr>tradePriceMinusMinPrice := Some (Pr t)\<rparr> = lift (v\<lparr>vTradePriceMMP := Some t\<rparr>)"
  "lift v\<lparr>netPosition := Sh n\<rparr> = lift (v\<lparr>vNet := n\<rparr>)"
  "lift v\<lparr>averageTradePriceMinusMinPriceForOpenPosition := Pr a\<rparr> = lift (v\<lparr>vAvg := a\<rparr>)"
  by (simp_all add: lift_def)

definition pos_type :: "bn \<Rightarrow> position_type" where
  "pos_type n = (if n = 0 then PosClosed else if n < 0 then PosShort else PosLong)"

text \<open>Price of a share of the given side, from the trade price minus the market's minimum.\<close>

definition share_price :: "bn \<Rightarrow> bn \<Rightarrow> position_type \<Rightarrow> bn \<Rightarrow> bn" where
  "share_price mn mx pt t =
     (case pt of PosClosed \<Rightarrow> 0 | PosShort \<Rightarrow> mx - (mn + t) | PosLong \<Rightarrow> t)"

definition same_side :: "bn \<Rightarrow> bn \<Rightarrow> bool" where
  "same_side a b \<longleftrightarrow> (a < 0 \<longleftrightarrow> b < 0)"

definition qty_closed :: "bn \<Rightarrow> bn \<Rightarrow> bn" where
  "qty_closed n d = (if d = 0 \<or> same_side d n then 0 else min \<bar>n\<bar> \<bar>d\<bar>)"

definition qty_opened :: "bn \<Rightarrow> bn \<Rightarrow> bn" where
  "qty_opened n d =
     (if d = 0 then 0 else if same_side d n then \<bar>d\<bar>
      else if \<bar>d\<bar> > \<bar>n\<bar> then \<bar>d + n\<bar> else 0)"

definition next_average :: "bn_division_op \<Rightarrow> bn \<Rightarrow> bn \<Rightarrow> bn \<Rightarrow> bn \<Rightarrow> bn" where
  "next_average dv n a d t =
     (if n + d = 0 then 0
      else if \<not> same_side (n + d) n then t
      else if qty_opened n d = 0 then a
      else dv (\<bar>n\<bar> * a + \<bar>d\<bar> * t) \<bar>n + d\<bar>)"

lemma sign_eq_iff [simp]:
  "((if a < 0 then -1 else 1 :: int) = (if b < 0 then -1 else 1)) \<longleftrightarrow> same_side a b"
  by (simp add: same_side_def)

lemma getPositionType_lift [simp]: "getPositionType (lift v) = pos_type (vNet v)"
  by (simp add: getPositionType_def pos_type_def)

text \<open>
  The share price of a position. Without a \<open>tradePrice\<close> among the parameters it is
  \<open>share_price\<close> of \<open>tradePriceMinusMinPrice\<close>; when both are given they agree if they describe
  the same trade.
\<close>

lemma getSharePrice_lift:
  assumes "vTradePriceMMP v = Some t" "vTradePrice v = None \<or> vTradePrice v = Some (vMin v + t)"
  shows "getSharePrice (lift v) pt = Inr (Pr (share_price (vMin v) (vMax v) pt t))"
  using assms
  by (cases pt) (auto simp: getSharePrice_def getTradePrice_def share_price_def)

lemma getSharePriceForPosition_lift [simp]:
  assumes "vTradePriceMMP v = Some t" "vTradePrice v = None"
  shows "getSharePriceForPosition (lift v) =
    Inr (Pr (share_price (vMin v) (vMax v) (pos_type (vNet v)) t))"
  using assms by (simp add: getSharePriceForPosition_def getSharePrice_lift)

lemma getNextNetPosition_lift [simp]:
  "vDelta v = Some d \<Longrightarrow> getNextNetPosition (lift v) = Inr (Sh (vNet v + d))"
  by (simp add: getNextNetPosition_def)

lemma getTradeQuantityClosed_lift [simp]:
  "vDelta v = Some d \<Longrightarrow> getTradeQuantityClosed (lift v) = Inr (Sh (qty_closed (vNet v) d))"
  by (simp add: getTradeQuantityClosed_def qty_closed_def)

lemma getTradeQuantityOpened_lift [simp]:
  "vDelta v = Some d \<Longrightarrow> getTradeQuantityOpened (lift v) = Inr (Sh (qty_opened (vNet v) d))"
  by (simp add: getTradeQuantityOpened_def qty_opened_def)

lemma getNextAverage_lift [simp]:
  assumes "vDelta v = Some d" "vTradePriceMMP v = Some t"
  shows "getNextAverageTradePriceMinusMinPriceForOpenPosition dv (lift v) =
    Inr (Pr (next_average dv (vNet v) (vAvg v) d t))"
  using assms
  by (simp add: getNextAverageTradePriceMinusMinPriceForOpenPosition_def next_average_def)

text \<open>Cost, revenue and profit of a trade, and of an open position.\<close>

definition realized_cost_delta :: "bn \<Rightarrow> bn \<Rightarrow> bn \<Rightarrow> bn \<Rightarrow> bn \<Rightarrow> bn" where
  "realized_cost_delta mn mx n a d = share_price mn mx (pos_type n) a * qty_closed n d"

definition realized_profit_delta :: "bn \<Rightarrow> bn \<Rightarrow> bn \<Rightarrow> bn \<Rightarrow> bn \<Rightarrow> bn \<Rightarrow> bn" where
  "realized_profit_delta mn mx n a d t =
     share_price mn mx (pos_type n) t * qty_closed n d - realized_cost_delta mn mx n a d"

definition position_value :: "bn \<Rightarrow> bn \<Rightarrow> bn \<Rightarrow> bn \<Rightarrow> bn" where
  "position_value mn mx n t = share_price mn mx (pos_type n) t * \<bar>n\<bar>"

lemma getTradeRealizedCostDelta_lift [simp]:
  assumes "vDelta v = Some d" "vTradePrice v = None"
  shows "getTradeRealizedCostDelta (lift v) =
    Inr (Tk (realized_cost_delta (vMin v) (vMax v) (vNet v) (vAvg v) d))"
  using assms by (simp add: getTradeRealizedCostDelta_def realized_cost_delta_def)

lemma getNextRealizedCost_lift [simp]:
  assumes "vDelta v = Some d" "vTradePrice v = None"
  shows "getNextRealizedCost (lift v) =
    Inr (Tk (vRealizedCost v + realized_cost_delta (vMin v) (vMax v) (vNet v) (vAvg v) d))"
  using assms by (simp add: getNextRealizedCost_def)

lemma getTradeRealizedRevenueDelta_lift [simp]:
  assumes "vDelta v = Some d" "vTradePriceMMP v = Some t" "vTradePrice v = None"
  shows "getTradeRealizedRevenueDelta (lift v) =
    Inr (Tk (share_price (vMin v) (vMax v) (pos_type (vNet v)) t * qty_closed (vNet v) d))"
  using assms by (simp add: getTradeRealizedRevenueDelta_def)

lemma getTradeRealizedProfitDelta_lift [simp]:
  assumes "vDelta v = Some d" "vTradePriceMMP v = Some t" "vTradePrice v = None"
  shows "getTradeRealizedProfitDelta (lift v) =
    Inr (Tk (realized_profit_delta (vMin v) (vMax v) (vNet v) (vAvg v) d t))"
  using assms by (simp add: getTradeRealizedProfitDelta_def realized_profit_delta_def)

lemma getNextRealizedProfit_lift [simp]:
  assumes "vDelta v = Some d" "vTradePriceMMP v = Some t" "vTradePrice v = None"
  shows "getNextRealizedProfit (lift v) =
    Inr (Tk (vRealizedProfit v +
      realized_profit_delta (vMin v) (vMax v) (vNet v) (vAvg v) d t))"
  using assms by (simp add: getNextRealizedProfit_def)

lemma getUnrealizedCost_lift [simp]:
  assumes "vTradePrice v = None"
  shows "getUnrealizedCost (lift v) =
    Inr (Tk (position_value (vMin v) (vMax v) (vNet v) (vAvg v)))"
  using assms by (simp add: getUnrealizedCost_def position_value_def)

lemma getUnrealizedRevenue_lift [simp]:
  assumes "vTradePrice v = None"
  shows "getUnrealizedRevenue (lift v) =
    Inr (Tk (position_value (vMin v) (vMax v) (vNet v) (vLastPriceMMP v)))"
  using assms by (simp add: getUnrealizedRevenue_def position_value_def)

lemma getUnrealizedProfit_lift [simp]:
  assumes "vTradePrice v = None"
  shows "getUnrealizedProfit (lift v) =
    Inr (Tk (position_value (vMin v) (vMax v) (vNet v) (vLastPriceMMP v)
           - position_value (vMin v) (vMax v) (vNet v) (vAvg v)))"
  using assms by (simp add: getUnrealizedProfit_def)

lemma getTotalCost_lift [simp]:
  assumes "vTradePrice v = None"
  shows "getTotalCost (lift v) =
    Inr (Tk (position_value (vMin v) (vMax v) (vNet v) (vAvg v) + vRealizedCost v))"
  using assms by (simp add: getTotalCost_def)

lemma getTotalProfit_lift [simp]:
  assumes "vTradePrice v = None"
  shows "getTotalProfit (lift v) =
    Inr (Tk (position_value (vMin v) (vMax v) (vNet v) (vLastPriceMMP v)
           - position_value (vMin v) (vMax v) (vNet v) (vAvg v) + vRealizedProfit v))"
  using assms by (simp add: getTotalProfit_def)

text \<open>
  The cost of one trade is the value of a position that consists of this trade alone. Here a
  \<open>tradePrice\<close> is among the parameters, and the short side reads it.
\<close>

lemma getTradeCost_lift [simp]:
  assumes "vTradePrice v = Some tp"
  shows "getTradeCost (lift v) =
    (let d = (case vDelta v of Some d \<Rightarrow> d
              | None \<Rightarrow> if vSide v = Buy then vQuantity v else - vQuantity v)
     in Inr (Tk (position_value (vMin v) (vMax v) d (tp - vMin v))))"
proof -
  have "getSharePriceForPosition (lift (v\<lparr>vNet := d, vAvg := t, vTradePriceMMP := Some t\<rparr>)) =
      Inr (Pr (share_price (vMin v) (vMax v) (pos_type d) t))" if "t = tp - vMin v" for d t
    using that assms by (simp add: getSharePriceForPosition_def getSharePrice_lift)
  then show ?thesis
    using assms
    by (cases "vDelta v")
      (simp_all add: getTradeCost_def getTradePriceMinusMinPrice_def getTradePositionDelta_def
        getUnrealizedCost_def position_value_def Let_def)
qed

lemma getTotalFees_lift [simp]:
  "getTotalFees (lift v) = Inr (Tk (vReporterFees v + vCreatorFees v))"
  by (simp add: getTotalFees_def)

lemma getTotalFeeRate_lift [simp]:
  "getTotalFeeRate (lift v) = Inr (Pc (vReporterFeeRate v + vCreatorFeeRate v))"
  by (simp add: getTotalFeeRate_def)

lemma getDisplayRange_lift [simp]: "getDisplayRange (lift v) = Inr (Pr (vMax v - vMin v))"
  by (simp add: getDisplayRange_def)

section \<open>Positions, cost basis and profit\<close>

text \<open>A trade closes part of the position and opens the rest.\<close>

lemma opened_closed_split: "\<bar>n + d\<bar> = \<bar>n\<bar> - qty_closed n d + qty_opened n d"
  by (auto simp: qty_closed_def qty_opened_def same_side_def abs_if min_def)

lemma qty_closed_bounds: "0 \<le> qty_closed n d" "qty_closed n d \<le> \<bar>n\<bar>" "qty_closed n d \<le> \<bar>d\<bar>"
  by (auto simp: qty_closed_def min_def)

lemma qty_opened_nonneg: "0 \<le> qty_opened n d"
  by (auto simp: qty_opened_def)

lemma share_price_linear:
  "pt \<noteq> PosClosed \<Longrightarrow> \<bar>share_price mn mx pt s - share_price mn mx pt t\<bar> = \<bar>s - t\<bar>"
  by (cases pt) (auto simp: share_price_def)

lemma share_price_bounds:
  assumes "0 \<le> t" "t \<le> mx - mn"
  shows "0 \<le> share_price mn mx pt t" "share_price mn mx pt t \<le> mx - mn"
  using assms by (cases pt; simp add: share_price_def)+

text \<open>
  Weighted averages: opening further at \<open>t\<close> mixes the old average and \<open>t\<close>, so the value of the
  position at the exact average is the old value plus the value of what was opened.
\<close>

lemma share_price_average:
  assumes "pt \<noteq> PosClosed" "(0::rat) \<le> x" "0 \<le> y" "x + y \<noteq> 0"
  shows "share_price mn mx pt ((x * a + y * t) / (x + y)) * (x + y) =
    share_price mn mx pt a * x + share_price mn mx pt t * y"
  using assms by (cases pt) (simp_all add: share_price_def field_simps)

definition cost_basis_gap :: "bn_division_op \<Rightarrow> bn \<Rightarrow> bn \<Rightarrow> bn \<Rightarrow> bn \<Rightarrow> bn \<Rightarrow> bn \<Rightarrow> bn" where
  "cost_basis_gap dv mn mx n a d t =
     position_value mn mx (n + d) (next_average dv n a d t)
     - (position_value mn mx n a - realized_cost_delta mn mx n a d
        + qty_opened n d * share_price mn mx (pos_type (n + d)) t)"

lemmas position_defs = position_value_def realized_cost_delta_def next_average_def qty_opened_def
  qty_closed_def pos_type_def same_side_def

text \<open>Unless the position is opened further on the same side, no rounding is involved.\<close>

lemma cost_basis_exact_cases:
  assumes "\<not> (n \<noteq> 0 \<and> d \<noteq> 0 \<and> same_side d n) \<and> \<not> (n = 0 \<and> 0 < d)"
  shows "cost_basis_gap dv mn mx n a d t = 0"
proof (cases "n + d = 0 \<or> d = 0")
  case True
  then have "d = - n \<or> d = 0" by auto
  then show ?thesis
    by (auto simp: cost_basis_gap_def position_defs abs_if share_price_def)
next
  case False
  with assms show ?thesis
    by (auto simp: cost_basis_gap_def position_defs abs_if share_price_def min_def algebra_simps
        split: if_splits)
qed

lemma cost_basis_opening_case:
  assumes "(n \<noteq> 0 \<and> d \<noteq> 0 \<and> same_side d n) \<or> (n = 0 \<and> 0 < d)"
  shows "\<bar>cost_basis_gap dv mn mx n a d t\<bar> =
    \<bar>n + d\<bar> * \<bar>dv (\<bar>n\<bar> * a + \<bar>d\<bar> * t) \<bar>n + d\<bar> - (\<bar>n\<bar> * a + \<bar>d\<bar> * t) / \<bar>n + d\<bar>\<bar>"
proof -
  let ?pt = "pos_type (n + d)"
  let ?q = "dv (\<bar>n\<bar> * a + \<bar>d\<bar> * t) \<bar>n + d\<bar>"
  have open_ne: "?pt \<noteq> PosClosed" and ne: "n + d \<noteq> 0" and sum: "\<bar>n + d\<bar> = \<bar>n\<bar> + \<bar>d\<bar>"
    and opened: "qty_opened n d = \<bar>d\<bar>" and closed: "qty_closed n d = 0"
    and avg: "next_average dv n a d t = ?q"
    using assms
    by (auto simp: pos_type_def same_side_def qty_opened_def qty_closed_def next_average_def)
  have same: "n = 0 \<or> pos_type n = ?pt"
    using assms by (auto simp: pos_type_def same_side_def)
  have "share_price mn mx ?pt ((\<bar>n\<bar> * a + \<bar>d\<bar> * t) / \<bar>n + d\<bar>) * \<bar>n + d\<bar> =
      share_price mn mx ?pt a * \<bar>n\<bar> + share_price mn mx ?pt t * \<bar>d\<bar>"
    using share_price_average [OF open_ne, of "\<bar>n\<bar>" "\<bar>d\<bar>" mn mx a t] ne sum by simp
  then have "cost_basis_gap dv mn mx n a d t = \<bar>n + d\<bar> *
      (share_price mn mx ?pt ?q - share_price mn mx ?pt ((\<bar>n\<bar> * a + \<bar>d\<bar> * t) / \<bar>n + d\<bar>))"
    by (simp add: cost_basis_gap_def position_value_def realized_cost_delta_def avg opened closed
        right_diff_distrib mult.commute) (use same in auto)
  then show ?thesis
    by (simp only: abs_mult share_price_linear [OF open_ne] abs_abs)
qed

context bn_division
begin

lemma cost_basis: "\<bar>cost_basis_gap dv mn mx n a d t\<bar> \<le> \<bar>n + d\<bar> / (2 * 10 ^ 20)"
proof (cases "(n \<noteq> 0 \<and> d \<noteq> 0 \<and> same_side d n) \<or> (n = 0 \<and> 0 < d)")
  case True
  then have ne: "\<bar>n + d\<bar> \<noteq> 0" by (auto simp: same_side_def)
  have "\<bar>cost_basis_gap dv mn mx n a d t\<bar> \<le> \<bar>n + d\<bar> * (1 / (2 * 10 ^ 20))"
    unfolding cost_basis_opening_case [OF True]
    by (rule mult_left_mono [OF dv_error [OF ne]]) simp
  then show ?thesis by simp
next
  case False
  then have "cost_basis_gap dv mn mx n a d t = 0" by (intro cost_basis_exact_cases) blast
  then show ?thesis by simp
qed

lemma next_average_bounds:
  assumes a: "0 \<le> a" "a \<le> r" and t: "0 \<le> t" "t \<le> r" and r: "decimals 20 r"
  shows "0 \<le> next_average dv n a d t \<and> next_average dv n a d t \<le> r"
proof (cases "n + d = 0 \<or> \<not> same_side (n + d) n \<or> qty_opened n d = 0")
  case True
  then show ?thesis using assms by (auto simp: next_average_def)
next
  case False
  then have ne: "\<bar>n + d\<bar> \<noteq> 0" and sum: "\<bar>n + d\<bar> = \<bar>n\<bar> + \<bar>d\<bar>"
    by (auto simp: same_side_def qty_opened_def split: if_splits)
  have "\<bar>n\<bar> * a + \<bar>d\<bar> * t \<le> \<bar>n\<bar> * r + \<bar>d\<bar> * r"
    by (intro add_mono mult_left_mono a t) auto
  then have "\<bar>n\<bar> * a + \<bar>d\<bar> * t \<le> r * \<bar>n + d\<bar>"
    unfolding sum by (simp add: distrib_left mult.commute)
  then have "(\<bar>n\<bar> * a + \<bar>d\<bar> * t) / \<bar>n + d\<bar> \<le> r"
    using ne by (simp add: divide_le_eq)
  then have "dv (\<bar>n\<bar> * a + \<bar>d\<bar> * t) \<bar>n + d\<bar> \<le> r" by (rule dv_upper [OF ne r])
  moreover have "0 \<le> dv (\<bar>n\<bar> * a + \<bar>d\<bar> * t) \<bar>n + d\<bar>"
    using ne a t by (intro dv_nonneg) auto
  ultimately show ?thesis using False by (simp add: next_average_def)
qed

end

text \<open>Splitting a trade into two in the same direction realises the same cost and profit.\<close>

lemma qty_closed_split:
  assumes "same_side d1 d2" "d1 \<noteq> 0" "d2 \<noteq> 0"
  shows "qty_closed n (d1 + d2) = qty_closed n d1 + qty_closed (n + d1) d2"
  using assms by (auto simp: qty_closed_def same_side_def abs_if min_def)

lemma closed_after_first:
  assumes "same_side d1 d2" "d1 \<noteq> 0" "d2 \<noteq> 0" "qty_closed (n + d1) d2 \<noteq> 0"
  shows "pos_type (n + d1) = pos_type n" "next_average dv n a d1 t = a"
  using assms
  by (auto simp: qty_closed_def same_side_def pos_type_def next_average_def qty_opened_def
      split: if_splits)

lemma realized_cost_split:
  assumes "same_side d1 d2" "d1 \<noteq> 0" "d2 \<noteq> 0"
  shows "realized_cost_delta mn mx n a (d1 + d2) = realized_cost_delta mn mx n a d1
    + realized_cost_delta mn mx (n + d1) (next_average dv n a d1 t) d2"
proof (cases "qty_closed (n + d1) d2 = 0")
  case True
  then show ?thesis using qty_closed_split [OF assms] by (simp add: realized_cost_delta_def)
next
  case False
  with closed_after_first [OF assms] qty_closed_split [OF assms, of n]
  show ?thesis by (simp add: realized_cost_delta_def distrib_left)
qed

lemma realized_profit_split:
  assumes "same_side d1 d2" "d1 \<noteq> 0" "d2 \<noteq> 0"
  shows "realized_profit_delta mn mx n a (d1 + d2) t = realized_profit_delta mn mx n a d1 t
    + realized_profit_delta mn mx (n + d1) (next_average dv n a d1 t) d2 t"
proof (cases "qty_closed (n + d1) d2 = 0")
  case True
  then show ?thesis
    using qty_closed_split [OF assms, of n] realized_cost_split [OF assms, of mn mx n a dv t]
    by (simp add: realized_profit_delta_def)
next
  case False
  with closed_after_first [OF assms] qty_closed_split [OF assms, of n]
    realized_cost_split [OF assms, of mn mx n a dv t]
  show ?thesis by (simp add: realized_profit_delta_def distrib_left)
qed

lemma closing_trade:
  assumes "n \<noteq> 0"
  shows "realized_profit_delta mn mx n a (- n) t = position_value mn mx n t - position_value mn mx n a"
    "realized_cost_delta mn mx n a (- n) = position_value mn mx n a"
  using assms
  by (auto simp: realized_profit_delta_def realized_cost_delta_def position_value_def
      qty_closed_def same_side_def)

lemma complete_set_value:
  "position_value mn mx n t + position_value mn mx (- n) t = (mx - mn) * \<bar>n\<bar>"
  by (auto simp: position_value_def pos_type_def share_price_def algebra_simps)

section \<open>Properties of the formulas\<close>

lemma lift_trade_cases:
  assumes "well_dimensioned p" "tradePositionDelta p = Some delta"
    "tradePriceMinusMinPrice p = Some t" "tradePrice p = None"
  obtains v d u where "p = lift v" "vDelta v = Some d" "vTradePriceMMP v = Some u"
    "vTradePrice v = None" "delta = Sh d" "t = Pr u"
proof -
  from assms(1) obtain v where p: "p = lift v" by (auto simp: well_dimensioned_def)
  with assms(2-4) show thesis by (auto intro: that)
qed

text \<open>
  C19. Type soundness of the dimension checks: for parameters whose fields have their declared
  classes and that describe a trade, the functions that update a position return (no dimension
  error, no failed \<open>expect\<close>, no division by zero), each with a result of the declared class.
\<close>

theorem financial_math_type_safe:
  assumes "well_dimensioned p" "tradePositionDelta p = Some delta"
    "tradePriceMinusMinPrice p = Some t" "tradePrice p = None"
  shows "(\<exists>m. getNextNetPosition p = Inr (Sh m)) \<and>
    (\<exists>m. getNextAverageTradePriceMinusMinPriceForOpenPosition dv p = Inr (Pr m)) \<and>
    (\<exists>m. getTradeQuantityClosed p = Inr (Sh m)) \<and>
    (\<exists>m. getTradeQuantityOpened p = Inr (Sh m)) \<and>
    (\<exists>m. getNextRealizedCost p = Inr (Tk m)) \<and>
    (\<exists>m. getNextRealizedProfit p = Inr (Tk m)) \<and>
    (\<exists>m. getTradeRealizedProfitDelta p = Inr (Tk m)) \<and>
    (\<exists>m. getRealizedProfitPercent dv p = Inr (Pc m)) \<and>
    (\<exists>m. getUnrealizedProfitPercent dv p = Inr (Pc m)) \<and>
    (\<exists>m. getTotalProfitPercent dv p = Inr (Pc m))"
proof -
  obtain v d u where p: "p = lift v" and v: "vDelta v = Some d" "vTradePriceMMP v = Some u"
    "vTradePrice v = None"
    using assms by (rule lift_trade_cases)
  have "\<exists>m. getRealizedProfitPercent dv p = Inr (Pc m)"
    by (simp add: p getRealizedProfitPercent_def)
  moreover have "\<exists>m. getUnrealizedProfitPercent dv p = Inr (Pc m)"
    using v by (simp add: p getUnrealizedProfitPercent_def split: option.split)
  moreover have "\<exists>m. getTotalProfitPercent dv p = Inr (Pc m)"
    using v by (simp add: p getTotalProfitPercent_def split: option.split)
  ultimately show ?thesis using v by (simp add: p)
qed

text \<open>A trade used in the witnesses: long 10 shares at 0.4, buying 5 more at 0.7.\<close>

definition example_vals :: vals where
  "example_vals = \<lparr>
     vNet = 10, vAvg = 4 / 10, vUnrealizedCost = None, vUnrealizedProfit = None,
     vRealizedCost = 3, vRealizedProfit = 1, vTotalCost = None, vTotalProfit = None,
     vDelta = Some 5, vSide = Buy, vQuantity = 5, vTradePrice = None,
     vTradePriceMMP = Some (7 / 10), vLastPriceMMP = 7 / 10, vMin = 0, vMax = 1,
     vReporterFees = 0, vCreatorFees = 0, vReporterFeeRate = 1 / 100, vCreatorFeeRate = 1 / 100\<rparr>"

lemma example_well_dimensioned: "well_dimensioned (lift v)"
  by (auto simp: well_dimensioned_def)

theorem financial_math_type_safe_witness:
  "getNextNetPosition (lift example_vals) = Inr (Sh 15) \<and>
   (\<exists>m. getTotalProfitPercent bn_div (lift example_vals) = Inr (Pc m))"
  using financial_math_type_safe [OF example_well_dimensioned [of example_vals],
      of "Sh 5" "Pr (7 / 10)" bn_div]
  by (simp add: example_vals_def)

text \<open>
  Cost basis is conserved by a trade: the cost of the next position, at the next average
  price, is the cost of the previous position, less the realized cost of what the trade closed,
  plus the trade's share price for what it opened; up to the rounding of the one division, half a
  unit of the 20th decimal per share.
\<close>

theorem trade_cost_basis_conserved:
  assumes "bn_division dv" "well_dimensioned p" "tradePositionDelta p = Some delta"
    "tradePriceMinusMinPrice p = Some t" "tradePrice p = None"
  shows "\<exists>next avg cost realized opened sharePrice nextCost.
    getNextNetPosition p = Inr next \<and>
    getNextAverageTradePriceMinusMinPriceForOpenPosition dv p = Inr avg \<and>
    getUnrealizedCost p = Inr cost \<and>
    getTradeRealizedCostDelta p = Inr realized \<and>
    getTradeQuantityOpened p = Inr opened \<and>
    getSharePriceForPosition (p\<lparr>netPosition := next\<rparr>) = Inr sharePrice \<and>
    getUnrealizedCost (p\<lparr>netPosition := next,
      averageTradePriceMinusMinPriceForOpenPosition := avg\<rparr>) = Inr nextCost \<and>
    \<bar>magnitude nextCost - (magnitude cost - magnitude realized
        + magnitude opened * magnitude sharePrice)\<bar> \<le> \<bar>magnitude next\<bar> / (2 * 10 ^ 20)"
proof -
  obtain v d u where p: "p = lift v" and v: "vDelta v = Some d" "vTradePriceMMP v = Some u"
    "vTradePrice v = None"
    using assms(2-5) by (rule lift_trade_cases)
  from bn_division.cost_basis [OF assms(1), of "vMin v" "vMax v" "vNet v" "vAvg v" d u] v
  show ?thesis by (simp add: p cost_basis_gap_def)
qed

theorem trade_cost_basis_conserved_witness:
  "\<exists>next nextCost. getNextNetPosition (lift example_vals) = Inr next \<and>
    getUnrealizedCost (lift example_vals\<lparr>netPosition := next,
      averageTradePriceMinusMinPriceForOpenPosition := Pr (1 / 2)\<rparr>) = Inr nextCost \<and>
    magnitude nextCost = 4 + 5 * (7 / 10)"
proof -
  have avg: "bn_div ((15::rat) / 2) 15 = 1 / 2"
    using bn.dv_exact [of 15 "15 / 2"] by (simp add: decimals_def)
  show ?thesis
    using trade_cost_basis_conserved [OF bn.bn_division_axioms
        example_well_dimensioned [of example_vals], of "Sh 5" "Pr (7 / 10)"]
    by (simp add: example_vals_def next_average_def same_side_def qty_opened_def avg
        position_value_def pos_type_def share_price_def)
qed

text \<open>
  The statement the source makes of \<open>TotalProfit\<close>: closing the whole position at the last price
  turns total profit into realized profit and total cost into realized cost, and leaves a closed
  position with average price zero.
\<close>

theorem closing_realizes_total_profit:
  assumes "well_dimensioned p" "tradePrice p = None" "netPosition p \<noteq> Sh 0"
    "tradePositionDelta p = Some (negated (netPosition p))"
    "tradePriceMinusMinPrice p = Some (lastTradePriceMinusMinPrice p)"
  shows "getNextRealizedProfit p = getTotalProfit p \<and>
    getNextRealizedCost p = getTotalCost p \<and>
    getNextNetPosition p = Inr (Sh 0) \<and>
    getNextAverageTradePriceMinusMinPriceForOpenPosition dv p = Inr (Pr 0)"
proof -
  obtain v d u where p: "p = lift v" and v: "vDelta v = Some d" "vTradePriceMMP v = Some u"
    "vTradePrice v = None" "negated (netPosition p) = Sh d"
    "lastTradePriceMinusMinPrice p = Pr u"
    using assms(1,4,5,2) by (rule lift_trade_cases)
  then have "d = - vNet v" "u = vLastPriceMMP v" "vNet v \<noteq> 0"
    using assms(3) by auto
  with v closing_trade [of "vNet v"] show ?thesis
    by (simp add: p next_average_def)
qed

theorem closing_realizes_total_profit_witness:
  "getNextRealizedProfit (lift (example_vals\<lparr>vDelta := Some (-10)\<rparr>)) = Inr (Tk 4)"
  using closing_realizes_total_profit [OF
      example_well_dimensioned [of "example_vals\<lparr>vDelta := Some (-10)\<rparr>"]]
  by (simp add: example_vals_def position_value_def pos_type_def share_price_def)

text \<open>
  The average open price stays within the market's display range: if the previous average and
  the trade price (both less the minimum price) lie between zero and the display range, so does
  the next average, whatever the trade does to the position and however the division rounds.
\<close>

theorem average_price_within_range:
  assumes "bn_division dv" "well_dimensioned p" "tradePositionDelta p = Some delta"
    "tradePriceMinusMinPrice p = Some t" "tradePrice p = None"
    "getDisplayRange p = Inr displayRange" "decimals 20 (magnitude displayRange)"
    "0 \<le> magnitude t" "magnitude t \<le> magnitude displayRange"
    "0 \<le> magnitude (averageTradePriceMinusMinPriceForOpenPosition p)"
    "magnitude (averageTradePriceMinusMinPriceForOpenPosition p) \<le> magnitude displayRange"
  shows "\<exists>avg. getNextAverageTradePriceMinusMinPriceForOpenPosition dv p = Inr (Pr avg) \<and>
    0 \<le> avg \<and> avg \<le> magnitude displayRange"
proof -
  obtain v d u where p: "p = lift v" and v: "vDelta v = Some d" "vTradePriceMMP v = Some u"
    "vTradePrice v = None" "t = Pr u"
    using assms(2-5) by (rule lift_trade_cases)
  have "displayRange = Pr (vMax v - vMin v)" using assms(6) by (simp add: p)
  with v assms(7-11) show ?thesis
    using bn_division.next_average_bounds [OF assms(1), of "vAvg v" "magnitude displayRange" u "vNet v" d]
    by (simp add: p)
qed

theorem average_price_within_range_witness:
  "\<exists>avg. getNextAverageTradePriceMinusMinPriceForOpenPosition bn_div (lift example_vals)
      = Inr (Pr avg) \<and> 0 \<le> avg \<and> avg \<le> 1"
  using average_price_within_range [OF bn.bn_division_axioms
      example_well_dimensioned [of example_vals], of "Sh 5" "Pr (7 / 10)" "Pr 1"]
  by (simp add: example_vals_def)

text \<open>
  The two sides of a trade pay for complete sets: at any trade price, what the buyer and the
  seller of the same quantity pay sums to the market's display range for every share.
\<close>

theorem trade_costs_buy_complete_sets:
  assumes "well_dimensioned p" "tradePositionDelta p = None" "tradePrice p = Some tp"
    "getDisplayRange p = Inr displayRange"
  shows "\<exists>buyer seller. getTradeCost (p\<lparr>tradeBuyOrSell := Buy\<rparr>) = Inr (Tk buyer) \<and>
    getTradeCost (p\<lparr>tradeBuyOrSell := Sell\<rparr>) = Inr (Tk seller) \<and>
    buyer + seller = magnitude displayRange * \<bar>magnitude (tradeQuantity p)\<bar>"
proof -
  from assms(1) obtain v where p: "p = lift v" by (auto simp: well_dimensioned_def)
  then obtain x where v: "vDelta v = None" "vTradePrice v = Some x"
    using assms(2,3) by auto
  have spread: "p\<lparr>tradeBuyOrSell := s\<rparr> = lift (v\<lparr>vSide := s\<rparr>)" for s
    by (simp add: p lift_def)
  show ?thesis
    using v assms(4) complete_set_value [of "vMin v" "vMax v" "vQuantity v" "x - vMin v"]
    unfolding spread by (auto simp: p)
qed

theorem trade_costs_buy_complete_sets_witness:
  "\<exists>buyer seller.
    getTradeCost (lift (example_vals\<lparr>vDelta := None, vTradePrice := Some (7 / 10)\<rparr>)
      \<lparr>tradeBuyOrSell := Buy\<rparr>) = Inr (Tk buyer) \<and>
    getTradeCost (lift (example_vals\<lparr>vDelta := None, vTradePrice := Some (7 / 10)\<rparr>)
      \<lparr>tradeBuyOrSell := Sell\<rparr>) = Inr (Tk seller) \<and> buyer + seller = 5"
  using trade_costs_buy_complete_sets [OF
      example_well_dimensioned [of "example_vals\<lparr>vDelta := None, vTradePrice := Some (7 / 10)\<rparr>"],
      of "Pr (7 / 10)" "Pr 1"]
  by (simp add: example_vals_def)

end
