(* ===== verification/Database.thy ===== *)
theory Database
  imports Table Financial_Math
begin

text \<open>
  The database of \<open>src/migrations\<close> as the code of \<open>src/blockchain\<close> sees it through the row types of
  \<open>src/types.ts\<close>, the module variables of \<open>blockchain/process-block.ts\<close>, and the event emitter.

  \<^item> One record per table, its fields named as the columns with a two-letter prefix. Columns of
    decimal strings hold the number; \<open>postProcessDatabaseResults\<close> converts them on reading. SQL
    \<open>null\<close> is \<open>None\<close>. Columns that no modelled code reads or writes are left out.
  \<^item> \<open>db\<close>: all tables and the two auto-increment counters. \<open>world\<close>: the database, the override
    timestamps, the time of the block head and the events emitted so far.
  \<^item> A \<open>table\<close> per table, with the uniqueness constraints and the \<open>CHECK\<close>s that forbid negative
    decimals. Each interprets \<open>table_laws\<close>.
  \<^item> \<open>transaction\<close>: \<open>db.transaction\<close>, which undoes the writes to the database when the body
    throws. Module variables and emitted events are not part of the database and stay.
\<close>

type_synonym address = string
type_synonym bytes32 = string

section \<open>Enumerations\<close>

datatype ReportingState =
    PRE_REPORTING | DESIGNATED_REPORTING | OPEN_REPORTING | CROWDSOURCING_DISPUTE
  | AWAITING_NEXT_WINDOW | AWAITING_FINALIZATION | FINALIZED | FORKING
  | AWAITING_NO_REPORT_MIGRATION | AWAITING_FORK_MIGRATION

datatype FeeWindowState = PAST | CURRENT | FUTURE

datatype OrderState = ALL | OPEN | FILLED | CANCELED

definition ETHER :: string where "ETHER = ''ether''"

section \<open>Position on the chain\<close>

text \<open>
  Rows are ordered by \<open>"blockNumber", "logIndex"\<close>; the lexicographic order is made an instance of
  the library's \<open>linorder\<close>.
\<close>

datatype chain_position = At (pos_block: int) (pos_log: int)

instantiation chain_position :: linorder
begin

definition less_eq_chain_position :: "chain_position \<Rightarrow> chain_position \<Rightarrow> bool" where
  "less_eq_chain_position a b \<longleftrightarrow>
     pos_block a < pos_block b \<or> (pos_block a = pos_block b \<and> pos_log a \<le> pos_log b)"

definition less_chain_position :: "chain_position \<Rightarrow> chain_position \<Rightarrow> bool" where
  "less_chain_position a b \<longleftrightarrow>
     pos_block a < pos_block b \<or> (pos_block a = pos_block b \<and> pos_log a < pos_log b)"

instance
  by standard
    (auto simp: less_eq_chain_position_def less_chain_position_def intro: chain_position.expand)

end

section \<open>Rows\<close>

record markets_row =
  mk_marketId :: string
  mk_transactionHash :: string
  mk_logIndex :: int
  mk_universe :: string
  mk_marketType :: string
  mk_marketCreator :: string
  mk_numOutcomes :: int
  mk_creationBlockNumber :: int
  mk_creationFee :: bn
  mk_minPrice :: bn
  mk_maxPrice :: bn
  mk_numTicks :: bn
  mk_reportingFeeRate :: bn
  mk_marketCreatorFeeRate :: bn
  mk_marketCreatorFeesBalance :: bn
  mk_marketCreatorMailbox :: string
  mk_marketCreatorMailboxOwner :: string
  mk_initialReportSize :: "bn option"
  mk_validityBondSize :: bn
  mk_category :: string
  mk_tag1 :: "string option"
  mk_tag2 :: "string option"
  mk_volume :: bn
  mk_shareVolume :: bn
  mk_openInterest :: bn
  mk_sharesOutstanding :: bn
  mk_marketStateId :: "int option"
  mk_feeWindow :: string
  mk_endTime :: int
  mk_finalizationBlockNumber :: "int option"
  mk_lastTradeBlockNumber :: "int option"
  mk_shortDescription :: string
  mk_longDescription :: "string option"
  mk_scalarDenomination :: "string option"
  mk_resolutionSource :: "string option"
  mk_designatedReporter :: string
  mk_designatedReportStake :: bn
  mk_disputeRounds :: "int option"
  mk_forking :: int
  mk_needsMigration :: int
  mk_needsDisavowal :: int
  mk_spreadPercent :: bn
  mk_invalidROIPercent :: bn
  mk_bestBidTakerInvalidProfitTokens :: bn
  mk_bestAskTakerInvalidProfitTokens :: bn
  mk_initialReporterAddress :: string

record outcomes_row =
  oc_marketId :: string
  oc_outcome :: int
  oc_price :: bn
  oc_volume :: bn
  oc_shareVolume :: bn
  oc_description :: "string option"
  oc_spreadPercent :: bn
  oc_invalidROIPercent :: bn
  oc_bestBidTakerInvalidProfitTokens :: bn
  oc_bestAskTakerInvalidProfitTokens :: bn

record orders_row =
  or_orderId :: string
  or_blockNumber :: int
  or_transactionHash :: string
  or_logIndex :: int
  or_marketId :: string
  or_outcome :: int
  or_shareToken :: string
  or_orderType :: string
  or_orderCreator :: string
  or_orderState :: OrderState
  or_price :: bn
  or_amount :: bn
  or_originalAmount :: bn
  or_fullPrecisionPrice :: bn
  or_fullPrecisionAmount :: bn
  or_originalFullPrecisionAmount :: bn
  or_originalTokensEscrowed :: bn
  or_originalSharesEscrowed :: bn
  or_tokensEscrowed :: bn
  or_sharesEscrowed :: bn
  or_tradeGroupId :: "string option"
  or_orphaned :: bool

record orders_canceled_row =
  xo_orderId :: string
  xo_transactionHash :: string
  xo_logIndex :: int
  xo_blockNumber :: int

record trades_row =
  td_transactionHash :: string
  td_logIndex :: int
  td_blockNumber :: int
  td_orderId :: string
  td_marketId :: string
  td_outcome :: int
  td_shareToken :: string
  td_orderType :: string
  td_creator :: string
  td_filler :: string
  td_numCreatorTokens :: bn
  td_numCreatorShares :: bn
  td_numFillerTokens :: bn
  td_numFillerShares :: bn
  td_price :: bn
  td_amount :: bn
  td_marketCreatorFees :: bn
  td_reporterFees :: bn
  td_tradeGroupId :: "string option"

record tokens_row =
  tk_contractAddress :: string
  tk_symbol :: string
  tk_marketId :: "string option"
  tk_outcome :: "int option"
  tk_feeWindow :: "string option"

record token_supply_row =
  ts_token :: string
  ts_supply :: bn

record balances_row =
  bl_owner :: string
  bl_token :: string
  bl_balance :: bn

record transfers_row =
  tf_transactionHash :: string
  tf_logIndex :: int
  tf_sender :: "string option"
  tf_recipient :: "string option"
  tf_token :: string
  tf_value :: bn
  tf_blockNumber :: int

record approvals_row =
  ap_transactionHash :: string
  ap_logIndex :: int
  ap_owner :: string
  ap_spender :: string
  ap_token :: string
  ap_value :: bn
  ap_blockNumber :: int

record market_state_row =
  ms_marketStateId :: int
  ms_marketId :: string
  ms_reportingState :: ReportingState
  ms_blockNumber :: int

record payouts_row =
  po_payoutId :: int
  po_marketId :: string
  po_payouts :: "bn option list"
  po_isInvalid :: bool
  po_tentativeWinning :: int
  po_winning :: "int option"

record fee_windows_row =
  fw_feeWindow :: string
  fw_feeWindowId :: int
  fw_universe :: string
  fw_startTime :: int
  fw_endTime :: int
  fw_state :: FeeWindowState
  fw_fees :: bn
  fw_feeToken :: string

record crowdsourcers_row =
  cs_crowdsourcerId :: string
  cs_blockNumber :: int
  cs_transactionHash :: string
  cs_logIndex :: int
  cs_marketId :: string
  cs_feeWindow :: string
  cs_payoutId :: int
  cs_size :: bn
  cs_amountStaked :: bn
  cs_completed :: "int option"
  cs_disavowed :: int

record initial_reports_row =
  ir_blockNumber :: int
  ir_transactionHash :: string
  ir_logIndex :: int
  ir_marketId :: string
  ir_reporter :: string
  ir_isDesignatedReporter :: bool
  ir_amountStaked :: bn
  ir_initialReporter :: string
  ir_redeemed :: bool
  ir_payoutId :: int
  ir_disavowed :: int

record disputes_row =
  dp_crowdsourcerId :: string
  dp_blockNumber :: int
  dp_transactionHash :: string
  dp_logIndex :: int
  dp_reporter :: string
  dp_amountStaked :: bn

record crowdsourcer_redeemed_row =
  cr_reporter :: string
  cr_crowdsourcer :: string
  cr_blockNumber :: int
  cr_transactionHash :: string
  cr_logIndex :: int
  cr_amountRedeemed :: bn
  cr_repReceived :: bn
  cr_reportingFeesReceived :: bn

record participation_token_redeemed_row =
  pr_reporter :: string
  pr_feeWindow :: string
  pr_blockNumber :: int
  pr_transactionHash :: string
  pr_logIndex :: int
  pr_amountRedeemed :: bn
  pr_reportingFeesReceived :: bn

record universes_row =
  un_universe :: string
  un_parentUniverse :: "string option"
  un_payoutId :: "int option"
  un_reputationToken :: string
  un_forked :: bool

record categories_row =
  ca_category :: string
  ca_universe :: string
  ca_openInterest :: bn
  ca_nonFinalizedOpenInterest :: bn

record blocks_row =
  bk_blockNumber :: int
  bk_blockHash :: string
  bk_timestamp :: int
  bk_bulkSync :: bool

record transaction_hashes_row =
  th_transactionHash :: string
  th_blockNumber :: int
  th_removed :: bool

record complete_sets_row =
  cp_transactionHash :: string
  cp_logIndex :: int
  cp_account :: string
  cp_marketId :: string
  cp_eventName :: string
  cp_universe :: string
  cp_numCompleteSets :: bn
  cp_numPurchasedOrSold :: bn
  cp_blockNumber :: int

record trading_proceeds_row =
  tp_marketId :: string
  tp_account :: string
  tp_shareToken :: string
  tp_numShares :: bn
  tp_numPayoutTokens :: bn
  tp_blockNumber :: int
  tp_transactionHash :: string
  tp_logIndex :: int

record outcome_value_row =
  ov_marketId :: string
  ov_outcome :: int
  ov_transactionHash :: string
  ov_value :: bn
  ov_timestamp :: int
  ov_blockNumber :: int
  ov_logIndex :: int

record profit_loss_row =
  pl_account :: string
  pl_marketId :: string
  pl_outcome :: int
  pl_price :: bn
  pl_position :: bn
  pl_quantityOpened :: bn
  pl_profit :: bn
  pl_frozenFunds :: bn
  pl_realizedCost :: bn
  pl_transactionHash :: string
  pl_timestamp :: int
  pl_blockNumber :: int
  pl_logIndex :: int

record outcomes_liquidity_row =
  ol_marketId :: string
  ol_outcome :: int
  ol_spreadPercent :: bn
  ol_liquidityTokens :: bn

record pending_orphan_row =
  pc_marketId :: string
  pc_outcome :: int
  pc_orderType :: string

section \<open>The database and the state of the process\<close>

record db =
  t_markets :: "markets_row list"
  t_outcomes :: "outcomes_row list"
  t_orders :: "orders_row list"
  t_orders_canceled :: "orders_canceled_row list"
  t_trades :: "trades_row list"
  t_tokens :: "tokens_row list"
  t_token_supply :: "token_supply_row list"
  t_balances :: "balances_row list"
  t_transfers :: "transfers_row list"
  t_approvals :: "approvals_row list"
  t_market_state :: "market_state_row list"
  t_payouts :: "payouts_row list"
  t_fee_windows :: "fee_windows_row list"
  t_crowdsourcers :: "crowdsourcers_row list"
  t_initial_reports :: "initial_reports_row list"
  t_disputes :: "disputes_row list"
  t_crowdsourcer_redeemed :: "crowdsourcer_redeemed_row list"
  t_participation_token_redeemed :: "participation_token_redeemed_row list"
  t_universes :: "universes_row list"
  t_categories :: "categories_row list"
  t_blocks :: "blocks_row list"
  t_transactionHashes :: "transaction_hashes_row list"
  t_completeSets :: "complete_sets_row list"
  t_trading_proceeds :: "trading_proceeds_row list"
  t_outcome_value_timeseries :: "outcome_value_row list"
  t_wcl_profit_loss_timeseries :: "profit_loss_row list"
  t_outcomes_liquidity :: "outcomes_liquidity_row list"
  t_pending_orphan_checks :: "pending_orphan_row list"
  t_pending_liquidity_updates :: "address list"
  t_blockchain_sync_history :: "int list"
  network_overrideTimestamp :: "int option"
  next_marketStateId :: int
  next_payoutId :: int

text \<open>
  Logs and events. The formatted logs that augur.js delivers have these fields in common; the
  fields of an event's own arguments extend the record in the component that processes it. An
  emitted event has its name, the log it passes on (if any) and the fields the code adds to it.
\<close>

record base_log =
  lg_address :: address
  lg_blockNumber :: int
  lg_transactionIndex :: int
  lg_transactionHash :: bytes32
  lg_logIndex :: int
  lg_eventName :: string
  lg_contractName :: string
  lg_removed :: bool

datatype js_value = VS string | VN bn | VI int | VB bool | VNull

record event =
  ev_name :: string
  ev_log :: "base_log option"
  ev_data :: "(string \<times> js_value) list"

record world =
  tables :: db
  overrideTimestamps :: "int list"
  blockHeadTimestamp :: int
  emitted :: "event list"

type_synonym 'a action = "(world, 'a) act"

definition emit :: "string \<Rightarrow> ('x base_log_scheme) option \<Rightarrow> (string \<times> js_value) list \<Rightarrow> unit action"
  where
  "emit name lg data = modify (\<lambda>w. w\<lparr>emitted := emitted w @
     [\<lparr>ev_name = name, ev_log = map_option base_log.truncate lg, ev_data = data\<rparr>]\<rparr>)"

definition transaction :: "'a action \<Rightarrow> 'a action" where
  "transaction m w =
     (case m w of (Inr x, w') \<Rightarrow> (Inr x, w') | (Inl e, w') \<Rightarrow> (Inl e, w'\<lparr>tables := tables w\<rparr>))"

lemma emit_app [act_simps]:
  "emit name lg data w = (Inr (), w\<lparr>emitted := emitted w @
     [\<lparr>ev_name = name, ev_log = map_option base_log.truncate lg, ev_data = data\<rparr>]\<rparr>)"
  by (simp add: emit_def modify_app)

lemma thenA_emit [act_simps]:
  "thenA (emit name lg data) n w = n (w\<lparr>emitted := emitted w @
     [\<lparr>ev_name = name, ev_log = map_option base_log.truncate lg, ev_data = data\<rparr>]\<rparr>)"
  by (simp add: emit_def thenA_modify)

lemma transaction_error:
  "transaction m w = (Inl e, w') \<Longrightarrow> tables w' = tables w"
  by (auto simp: transaction_def split: prod.splits sum.splits)

lemma transaction_ok: "transaction m w = (Inr x, w') \<longleftrightarrow> m w = (Inr x, w')"
  by (auto simp: transaction_def split: prod.splits sum.splits)

text \<open>Frames of events and transactions: what is read off the tables is not changed by an event.\<close>

lemma unchanged_emit [frames]: "(\<And>w ev. f (w\<lparr>emitted := ev\<rparr>) = f w) \<Longrightarrow> unchanged f (emit n lg d)"
  by (simp add: unchanged_def emit_app)

lemma unchanged_transaction [frames]:
  "unchanged (\<lambda>w. g (tables w)) m \<Longrightarrow> unchanged (\<lambda>w. g (tables w)) (transaction m)"
  by (auto simp: unchanged_def transaction_def split: prod.splits sum.splits) (metis snd_conv)+

lemma preserves_emit [kept]: "(\<And>w ev. P (w\<lparr>emitted := ev\<rparr>) = P w) \<Longrightarrow> preserves P (emit n lg d)"
  by (simp add: preserves_def emit_app)

lemma preserves_transaction [kept]:
  "preserves (\<lambda>w. P (tables w)) m \<Longrightarrow> preserves (\<lambda>w. P (tables w)) (transaction m)"
  by (auto simp: preserves_def transaction_def split: prod.splits sum.splits)

section \<open>Time\<close>

text \<open>\<open>a || b\<close> on a possibly missing number: zero counts as missing.\<close>

definition getOverrideTimestamp :: "world \<Rightarrow> int option" where
  "getOverrideTimestamp w =
     (if overrideTimestamps w = [] then None else Some (last (overrideTimestamps w)))"

definition getCurrentTime :: "world \<Rightarrow> int" where
  "getCurrentTime w = (case getOverrideTimestamp w of
     Some t \<Rightarrow> if t = 0 then blockHeadTimestamp w else t | None \<Rightarrow> blockHeadTimestamp w)"

definition setOverrideTimestamp :: "int \<Rightarrow> unit action" where
  "setOverrideTimestamp overrideTimestamp = modify (\<lambda>w.
     w\<lparr>overrideTimestamps := overrideTimestamps w @ [overrideTimestamp],
       tables := (tables w)\<lparr>network_overrideTimestamp := Some overrideTimestamp\<rparr>\<rparr>)"

definition removeOverrideTimestamp :: "int \<Rightarrow> unit action" where
  "removeOverrideTimestamp overrideTimestamp =
     bindA (gets getOverrideTimestamp) (\<lambda>removedTimestamp.
     thenA (modify (\<lambda>w. w\<lparr>overrideTimestamps := butlast (overrideTimestamps w)\<rparr>))
    (bindA (gets getOverrideTimestamp) (\<lambda>priorTimestamp.
     if removedTimestamp \<noteq> Some overrideTimestamp \<or> priorTimestamp = None
     then throw (Thrown ''Timestamp removal failed'')
     else modify (\<lambda>w. w\<lparr>tables := (tables w)\<lparr>network_overrideTimestamp := priorTimestamp\<rparr>\<rparr>))))"

definition clearOverrideTimestamp :: "unit action" where
  "clearOverrideTimestamp = modify (\<lambda>w. w\<lparr>overrideTimestamps := [], blockHeadTimestamp := 0\<rparr>)"

section \<open>Tables\<close>

definition markets :: "(world, markets_row) table" where
  "markets = \<lparr>tname = ''markets'', tget = (\<lambda>w. t_markets (tables w)),
     tput = (\<lambda>rs w. w\<lparr>tables := (tables w)\<lparr>t_markets := rs\<rparr>\<rparr>),
     tclash = (\<lambda>x y. mk_marketId x = mk_marketId y),
     tcheck = (\<lambda>r. 0 \<le> mk_creationFee r \<and> 0 \<le> mk_reportingFeeRate r \<and> 0
       \<le> mk_marketCreatorFeeRate r \<and> 0 \<le> mk_marketCreatorFeesBalance r \<and> 0
       \<le> mk_volume r \<and> 0 \<le> mk_sharesOutstanding r \<and> 0 \<le>
       mk_designatedReportStake r \<and> 0 \<le> mk_numTicks r \<and> 0 \<le> mk_spreadPercent
       r \<and> 0 \<le> mk_invalidROIPercent r)\<rparr>"

definition outcomes :: "(world, outcomes_row) table" where
  "outcomes = \<lparr>tname = ''outcomes'', tget = (\<lambda>w. t_outcomes (tables w)),
     tput = (\<lambda>rs w. w\<lparr>tables := (tables w)\<lparr>t_outcomes := rs\<rparr>\<rparr>),
     tclash = (\<lambda>x y. oc_marketId x = oc_marketId y \<and> oc_outcome x = oc_outcome y),
     tcheck = (\<lambda>r. 0 \<le> oc_volume r \<and> 0 \<le> oc_spreadPercent r \<and> 0 \<le>
       oc_invalidROIPercent r)\<rparr>"

definition orders :: "(world, orders_row) table" where
  "orders = \<lparr>tname = ''orders'', tget = (\<lambda>w. t_orders (tables w)),
     tput = (\<lambda>rs w. w\<lparr>tables := (tables w)\<lparr>t_orders := rs\<rparr>\<rparr>),
     tclash = (\<lambda>x y. or_orderId x = or_orderId y),
     tcheck = (\<lambda>r. 0 \<le> or_amount r \<and> 0 \<le> or_tokensEscrowed r \<and> 0 \<le>
       or_sharesEscrowed r \<and> 0 \<le> or_originalTokensEscrowed r \<and> 0 \<le>
       or_originalSharesEscrowed r)\<rparr>"

definition orders_canceled :: "(world, orders_canceled_row) table" where
  "orders_canceled = \<lparr>tname = ''orders_canceled'', tget = (\<lambda>w. t_orders_canceled (tables w)),
     tput = (\<lambda>rs w. w\<lparr>tables := (tables w)\<lparr>t_orders_canceled := rs\<rparr>\<rparr>),
     tclash = (\<lambda>x y. xo_orderId x = xo_orderId y),
     tcheck = (\<lambda>r. True)\<rparr>"

definition trades :: "(world, trades_row) table" where
  "trades = \<lparr>tname = ''trades'', tget = (\<lambda>w. t_trades (tables w)),
     tput = (\<lambda>rs w. w\<lparr>tables := (tables w)\<lparr>t_trades := rs\<rparr>\<rparr>),
     tclash = (\<lambda>x y. td_transactionHash x = td_transactionHash y \<and> td_logIndex x =
       td_logIndex y),
     tcheck = (\<lambda>r. 0 \<le> td_numCreatorTokens r \<and> 0 \<le> td_numCreatorShares r \<and> 0
       \<le> td_numFillerTokens r \<and> 0 \<le> td_numFillerShares r \<and> 0 \<le>
       td_reporterFees r \<and> 0 \<le> td_marketCreatorFees r \<and> 0 \<le> td_amount r)\<rparr>"

definition tokens :: "(world, tokens_row) table" where
  "tokens = \<lparr>tname = ''tokens'', tget = (\<lambda>w. t_tokens (tables w)),
     tput = (\<lambda>rs w. w\<lparr>tables := (tables w)\<lparr>t_tokens := rs\<rparr>\<rparr>),
     tclash = (\<lambda>x y. tk_contractAddress x = tk_contractAddress y \<or>
       (tk_marketId x \<noteq> None \<and> tk_outcome x \<noteq> None \<and> tk_marketId x = tk_marketId y \<and>
        tk_symbol x = tk_symbol y \<and> tk_outcome x = tk_outcome y)),
     tcheck = (\<lambda>r. True)\<rparr>"

definition token_supply :: "(world, token_supply_row) table" where
  "token_supply = \<lparr>tname = ''token_supply'', tget = (\<lambda>w. t_token_supply (tables w)),
     tput = (\<lambda>rs w. w\<lparr>tables := (tables w)\<lparr>t_token_supply := rs\<rparr>\<rparr>),
     tclash = (\<lambda>x y. ts_token x = ts_token y),
     tcheck = (\<lambda>r. True)\<rparr>"

definition balances :: "(world, balances_row) table" where
  "balances = \<lparr>tname = ''balances'', tget = (\<lambda>w. t_balances (tables w)),
     tput = (\<lambda>rs w. w\<lparr>tables := (tables w)\<lparr>t_balances := rs\<rparr>\<rparr>),
     tclash = (\<lambda>x y. bl_owner x = bl_owner y \<and> bl_token x = bl_token y),
     tcheck = (\<lambda>r. 0 \<le> bl_balance r)\<rparr>"

definition transfers :: "(world, transfers_row) table" where
  "transfers = \<lparr>tname = ''transfers'', tget = (\<lambda>w. t_transfers (tables w)),
     tput = (\<lambda>rs w. w\<lparr>tables := (tables w)\<lparr>t_transfers := rs\<rparr>\<rparr>),
     tclash = (\<lambda>x y. tf_transactionHash x = tf_transactionHash y \<and> tf_logIndex x =
       tf_logIndex y),
     tcheck = (\<lambda>r. 0 \<le> tf_value r)\<rparr>"

definition approvals :: "(world, approvals_row) table" where
  "approvals = \<lparr>tname = ''approvals'', tget = (\<lambda>w. t_approvals (tables w)),
     tput = (\<lambda>rs w. w\<lparr>tables := (tables w)\<lparr>t_approvals := rs\<rparr>\<rparr>),
     tclash = (\<lambda>x y. ap_transactionHash x = ap_transactionHash y \<and> ap_logIndex x =
       ap_logIndex y),
     tcheck = (\<lambda>r. 0 \<le> ap_value r)\<rparr>"

definition market_state :: "(world, market_state_row) table" where
  "market_state = \<lparr>tname = ''market_state'', tget = (\<lambda>w. t_market_state (tables w)),
     tput = (\<lambda>rs w. w\<lparr>tables := (tables w)\<lparr>t_market_state := rs\<rparr>\<rparr>),
     tclash = (\<lambda>x y. ms_marketStateId x = ms_marketStateId y),
     tcheck = (\<lambda>r. True)\<rparr>"

definition payouts :: "(world, payouts_row) table" where
  "payouts = \<lparr>tname = ''payouts'', tget = (\<lambda>w. t_payouts (tables w)),
     tput = (\<lambda>rs w. w\<lparr>tables := (tables w)\<lparr>t_payouts := rs\<rparr>\<rparr>),
     tclash = (\<lambda>x y. po_payoutId x = po_payoutId y \<or>
       (po_marketId x = po_marketId y \<and> po_isInvalid x = po_isInvalid y \<and>
        po_payouts x = po_payouts y \<and> None \<notin> set (po_payouts x))),
     tcheck = (\<lambda>r. True)\<rparr>"

definition fee_windows :: "(world, fee_windows_row) table" where
  "fee_windows = \<lparr>tname = ''fee_windows'', tget = (\<lambda>w. t_fee_windows (tables w)),
     tput = (\<lambda>rs w. w\<lparr>tables := (tables w)\<lparr>t_fee_windows := rs\<rparr>\<rparr>),
     tclash = (\<lambda>x y. fw_feeWindow x = fw_feeWindow y),
     tcheck = (\<lambda>r. True)\<rparr>"

definition crowdsourcers :: "(world, crowdsourcers_row) table" where
  "crowdsourcers = \<lparr>tname = ''crowdsourcers'', tget = (\<lambda>w. t_crowdsourcers (tables w)),
     tput = (\<lambda>rs w. w\<lparr>tables := (tables w)\<lparr>t_crowdsourcers := rs\<rparr>\<rparr>),
     tclash = (\<lambda>x y. cs_crowdsourcerId x = cs_crowdsourcerId y),
     tcheck = (\<lambda>r. True)\<rparr>"

definition initial_reports :: "(world, initial_reports_row) table" where
  "initial_reports = \<lparr>tname = ''initial_reports'', tget = (\<lambda>w. t_initial_reports (tables w)),
     tput = (\<lambda>rs w. w\<lparr>tables := (tables w)\<lparr>t_initial_reports := rs\<rparr>\<rparr>),
     tclash = (\<lambda>x y. False),
     tcheck = (\<lambda>r. True)\<rparr>"

definition disputes :: "(world, disputes_row) table" where
  "disputes = \<lparr>tname = ''disputes'', tget = (\<lambda>w. t_disputes (tables w)),
     tput = (\<lambda>rs w. w\<lparr>tables := (tables w)\<lparr>t_disputes := rs\<rparr>\<rparr>),
     tclash = (\<lambda>x y. dp_transactionHash x = dp_transactionHash y \<and> dp_logIndex x =
       dp_logIndex y),
     tcheck = (\<lambda>r. True)\<rparr>"

definition crowdsourcer_redeemed :: "(world, crowdsourcer_redeemed_row) table" where
  "crowdsourcer_redeemed = \<lparr>tname = ''crowdsourcer_redeemed'', tget = (\<lambda>w. t_crowdsourcer_redeemed (tables w)),
     tput = (\<lambda>rs w. w\<lparr>tables := (tables w)\<lparr>t_crowdsourcer_redeemed := rs\<rparr>\<rparr>),
     tclash = (\<lambda>x y. False),
     tcheck = (\<lambda>r. True)\<rparr>"

definition participation_token_redeemed :: "(world, participation_token_redeemed_row) table" where
  "participation_token_redeemed = \<lparr>tname = ''participation_token_redeemed'', tget = (\<lambda>w. t_participation_token_redeemed (tables w)),
     tput = (\<lambda>rs w. w\<lparr>tables := (tables w)\<lparr>t_participation_token_redeemed := rs\<rparr>\<rparr>),
     tclash = (\<lambda>x y. False),
     tcheck = (\<lambda>r. True)\<rparr>"

definition universes :: "(world, universes_row) table" where
  "universes = \<lparr>tname = ''universes'', tget = (\<lambda>w. t_universes (tables w)),
     tput = (\<lambda>rs w. w\<lparr>tables := (tables w)\<lparr>t_universes := rs\<rparr>\<rparr>),
     tclash = (\<lambda>x y. un_universe x = un_universe y),
     tcheck = (\<lambda>r. True)\<rparr>"

definition categories :: "(world, categories_row) table" where
  "categories = \<lparr>tname = ''categories'', tget = (\<lambda>w. t_categories (tables w)),
     tput = (\<lambda>rs w. w\<lparr>tables := (tables w)\<lparr>t_categories := rs\<rparr>\<rparr>),
     tclash = (\<lambda>x y. ca_universe x = ca_universe y \<and> ca_category x = ca_category y),
     tcheck = (\<lambda>r. True)\<rparr>"

definition blocks :: "(world, blocks_row) table" where
  "blocks = \<lparr>tname = ''blocks'', tget = (\<lambda>w. t_blocks (tables w)),
     tput = (\<lambda>rs w. w\<lparr>tables := (tables w)\<lparr>t_blocks := rs\<rparr>\<rparr>),
     tclash = (\<lambda>x y. bk_blockNumber x = bk_blockNumber y),
     tcheck = (\<lambda>r. True)\<rparr>"

definition transactionHashes :: "(world, transaction_hashes_row) table" where
  "transactionHashes = \<lparr>tname = ''transactionHashes'', tget = (\<lambda>w. t_transactionHashes (tables w)),
     tput = (\<lambda>rs w. w\<lparr>tables := (tables w)\<lparr>t_transactionHashes := rs\<rparr>\<rparr>),
     tclash = (\<lambda>x y. th_transactionHash x = th_transactionHash y),
     tcheck = (\<lambda>r. True)\<rparr>"

definition completeSets :: "(world, complete_sets_row) table" where
  "completeSets = \<lparr>tname = ''completeSets'', tget = (\<lambda>w. t_completeSets (tables w)),
     tput = (\<lambda>rs w. w\<lparr>tables := (tables w)\<lparr>t_completeSets := rs\<rparr>\<rparr>),
     tclash = (\<lambda>x y. cp_transactionHash x = cp_transactionHash y \<and> cp_logIndex x =
       cp_logIndex y),
     tcheck = (\<lambda>r. 0 \<le> cp_numCompleteSets r \<and> 0 \<le> cp_numPurchasedOrSold r)\<rparr>"

definition trading_proceeds :: "(world, trading_proceeds_row) table" where
  "trading_proceeds = \<lparr>tname = ''trading_proceeds'', tget = (\<lambda>w. t_trading_proceeds (tables w)),
     tput = (\<lambda>rs w. w\<lparr>tables := (tables w)\<lparr>t_trading_proceeds := rs\<rparr>\<rparr>),
     tclash = (\<lambda>x y. tp_transactionHash x = tp_transactionHash y \<and> tp_logIndex x =
       tp_logIndex y),
     tcheck = (\<lambda>r. True)\<rparr>"

definition outcome_value_timeseries :: "(world, outcome_value_row) table" where
  "outcome_value_timeseries = \<lparr>tname = ''outcome_value_timeseries'', tget = (\<lambda>w. t_outcome_value_timeseries (tables w)),
     tput = (\<lambda>rs w. w\<lparr>tables := (tables w)\<lparr>t_outcome_value_timeseries := rs\<rparr>\<rparr>),
     tclash = (\<lambda>x y. False),
     tcheck = (\<lambda>r. True)\<rparr>"

definition wcl_profit_loss_timeseries :: "(world, profit_loss_row) table" where
  "wcl_profit_loss_timeseries = \<lparr>tname = ''wcl_profit_loss_timeseries'', tget = (\<lambda>w. t_wcl_profit_loss_timeseries (tables w)),
     tput = (\<lambda>rs w. w\<lparr>tables := (tables w)\<lparr>t_wcl_profit_loss_timeseries := rs\<rparr>\<rparr>),
     tclash = (\<lambda>x y. False),
     tcheck = (\<lambda>r. 0 \<le> pl_price r)\<rparr>"

definition outcomes_liquidity :: "(world, outcomes_liquidity_row) table" where
  "outcomes_liquidity = \<lparr>tname = ''outcomes_liquidity'', tget = (\<lambda>w. t_outcomes_liquidity (tables w)),
     tput = (\<lambda>rs w. w\<lparr>tables := (tables w)\<lparr>t_outcomes_liquidity := rs\<rparr>\<rparr>),
     tclash = (\<lambda>x y. ol_marketId x = ol_marketId y \<and> ol_outcome x = ol_outcome y \<and>
       ol_spreadPercent x = ol_spreadPercent y),
     tcheck = (\<lambda>r. 0 \<le> ol_spreadPercent r \<and> 0 \<le> ol_liquidityTokens r)\<rparr>"

definition pending_orphan_checks :: "(world, pending_orphan_row) table" where
  "pending_orphan_checks = \<lparr>tname = ''pending_orphan_checks'', tget = (\<lambda>w. t_pending_orphan_checks (tables w)),
     tput = (\<lambda>rs w. w\<lparr>tables := (tables w)\<lparr>t_pending_orphan_checks := rs\<rparr>\<rparr>),
     tclash = (\<lambda>x y. False),
     tcheck = (\<lambda>r. True)\<rparr>"

definition pending_liquidity_updates :: "(world, address) table" where
  "pending_liquidity_updates = \<lparr>tname = ''pending_liquidity_updates'', tget = (\<lambda>w. t_pending_liquidity_updates (tables w)),
     tput = (\<lambda>rs w. w\<lparr>tables := (tables w)\<lparr>t_pending_liquidity_updates := rs\<rparr>\<rparr>),
     tclash = (\<lambda>x y. False),
     tcheck = (\<lambda>r. True)\<rparr>"

lemmas table_defs =
  markets_def outcomes_def orders_def orders_canceled_def trades_def tokens_def
  token_supply_def balances_def transfers_def approvals_def market_state_def payouts_def
  fee_windows_def crowdsourcers_def initial_reports_def disputes_def crowdsourcer_redeemed_def
  participation_token_redeemed_def universes_def categories_def blocks_def
  transactionHashes_def completeSets_def trading_proceeds_def outcome_value_timeseries_def
  wcl_profit_loss_timeseries_def outcomes_liquidity_def pending_orphan_checks_def
  pending_liquidity_updates_def

lemma markets_sel [simp]:
  "tget markets w = t_markets (tables w)"
  "tput markets rs w = w\<lparr>tables := (tables w)\<lparr>t_markets := rs\<rparr>\<rparr>"
  "tname markets = ''markets''"
  by (simp_all add: markets_def)

interpretation markets: table_laws markets
  by unfold_locales simp_all

lemma outcomes_sel [simp]:
  "tget outcomes w = t_outcomes (tables w)"
  "tput outcomes rs w = w\<lparr>tables := (tables w)\<lparr>t_outcomes := rs\<rparr>\<rparr>"
  "tname outcomes = ''outcomes''"
  by (simp_all add: outcomes_def)

interpretation outcomes: table_laws outcomes
  by unfold_locales simp_all

lemma orders_sel [simp]:
  "tget orders w = t_orders (tables w)"
  "tput orders rs w = w\<lparr>tables := (tables w)\<lparr>t_orders := rs\<rparr>\<rparr>"
  "tname orders = ''orders''"
  by (simp_all add: orders_def)

interpretation orders: table_laws orders
  by unfold_locales simp_all

lemma orders_canceled_sel [simp]:
  "tget orders_canceled w = t_orders_canceled (tables w)"
  "tput orders_canceled rs w = w\<lparr>tables := (tables w)\<lparr>t_orders_canceled := rs\<rparr>\<rparr>"
  "tname orders_canceled = ''orders_canceled''"
  by (simp_all add: orders_canceled_def)

interpretation orders_canceled: table_laws orders_canceled
  by unfold_locales simp_all

lemma trades_sel [simp]:
  "tget trades w = t_trades (tables w)"
  "tput trades rs w = w\<lparr>tables := (tables w)\<lparr>t_trades := rs\<rparr>\<rparr>"
  "tname trades = ''trades''"
  by (simp_all add: trades_def)

interpretation trades: table_laws trades
  by unfold_locales simp_all

lemma tokens_sel [simp]:
  "tget tokens w = t_tokens (tables w)"
  "tput tokens rs w = w\<lparr>tables := (tables w)\<lparr>t_tokens := rs\<rparr>\<rparr>"
  "tname tokens = ''tokens''"
  by (simp_all add: tokens_def)

interpretation tokens: table_laws tokens
  by unfold_locales simp_all

lemma token_supply_sel [simp]:
  "tget token_supply w = t_token_supply (tables w)"
  "tput token_supply rs w = w\<lparr>tables := (tables w)\<lparr>t_token_supply := rs\<rparr>\<rparr>"
  "tname token_supply = ''token_supply''"
  by (simp_all add: token_supply_def)

interpretation token_supply: table_laws token_supply
  by unfold_locales simp_all

lemma balances_sel [simp]:
  "tget balances w = t_balances (tables w)"
  "tput balances rs w = w\<lparr>tables := (tables w)\<lparr>t_balances := rs\<rparr>\<rparr>"
  "tname balances = ''balances''"
  by (simp_all add: balances_def)

interpretation balances: table_laws balances
  by unfold_locales simp_all

lemma transfers_sel [simp]:
  "tget transfers w = t_transfers (tables w)"
  "tput transfers rs w = w\<lparr>tables := (tables w)\<lparr>t_transfers := rs\<rparr>\<rparr>"
  "tname transfers = ''transfers''"
  by (simp_all add: transfers_def)

interpretation transfers: table_laws transfers
  by unfold_locales simp_all

lemma approvals_sel [simp]:
  "tget approvals w = t_approvals (tables w)"
  "tput approvals rs w = w\<lparr>tables := (tables w)\<lparr>t_approvals := rs\<rparr>\<rparr>"
  "tname approvals = ''approvals''"
  by (simp_all add: approvals_def)

interpretation approvals: table_laws approvals
  by unfold_locales simp_all

lemma market_state_sel [simp]:
  "tget market_state w = t_market_state (tables w)"
  "tput market_state rs w = w\<lparr>tables := (tables w)\<lparr>t_market_state := rs\<rparr>\<rparr>"
  "tname market_state = ''market_state''"
  by (simp_all add: market_state_def)

interpretation market_state: table_laws market_state
  by unfold_locales simp_all

lemma payouts_sel [simp]:
  "tget payouts w = t_payouts (tables w)"
  "tput payouts rs w = w\<lparr>tables := (tables w)\<lparr>t_payouts := rs\<rparr>\<rparr>"
  "tname payouts = ''payouts''"
  by (simp_all add: payouts_def)

interpretation payouts: table_laws payouts
  by unfold_locales simp_all

lemma fee_windows_sel [simp]:
  "tget fee_windows w = t_fee_windows (tables w)"
  "tput fee_windows rs w = w\<lparr>tables := (tables w)\<lparr>t_fee_windows := rs\<rparr>\<rparr>"
  "tname fee_windows = ''fee_windows''"
  by (simp_all add: fee_windows_def)

interpretation fee_windows: table_laws fee_windows
  by unfold_locales simp_all

lemma crowdsourcers_sel [simp]:
  "tget crowdsourcers w = t_crowdsourcers (tables w)"
  "tput crowdsourcers rs w = w\<lparr>tables := (tables w)\<lparr>t_crowdsourcers := rs\<rparr>\<rparr>"
  "tname crowdsourcers = ''crowdsourcers''"
  by (simp_all add: crowdsourcers_def)

interpretation crowdsourcers: table_laws crowdsourcers
  by unfold_locales simp_all

lemma initial_reports_sel [simp]:
  "tget initial_reports w = t_initial_reports (tables w)"
  "tput initial_reports rs w = w\<lparr>tables := (tables w)\<lparr>t_initial_reports := rs\<rparr>\<rparr>"
  "tname initial_reports = ''initial_reports''"
  by (simp_all add: initial_reports_def)

interpretation initial_reports: table_laws initial_reports
  by unfold_locales simp_all

lemma disputes_sel [simp]:
  "tget disputes w = t_disputes (tables w)"
  "tput disputes rs w = w\<lparr>tables := (tables w)\<lparr>t_disputes := rs\<rparr>\<rparr>"
  "tname disputes = ''disputes''"
  by (simp_all add: disputes_def)

interpretation disputes: table_laws disputes
  by unfold_locales simp_all

lemma crowdsourcer_redeemed_sel [simp]:
  "tget crowdsourcer_redeemed w = t_crowdsourcer_redeemed (tables w)"
  "tput crowdsourcer_redeemed rs w = w\<lparr>tables := (tables w)\<lparr>t_crowdsourcer_redeemed := rs\<rparr>\<rparr>"
  "tname crowdsourcer_redeemed = ''crowdsourcer_redeemed''"
  by (simp_all add: crowdsourcer_redeemed_def)

interpretation crowdsourcer_redeemed: table_laws crowdsourcer_redeemed
  by unfold_locales simp_all

lemma participation_token_redeemed_sel [simp]:
  "tget participation_token_redeemed w = t_participation_token_redeemed (tables w)"
  "tput participation_token_redeemed rs w = w\<lparr>tables := (tables w)\<lparr>t_participation_token_redeemed := rs\<rparr>\<rparr>"
  "tname participation_token_redeemed = ''participation_token_redeemed''"
  by (simp_all add: participation_token_redeemed_def)

interpretation participation_token_redeemed: table_laws participation_token_redeemed
  by unfold_locales simp_all

lemma universes_sel [simp]:
  "tget universes w = t_universes (tables w)"
  "tput universes rs w = w\<lparr>tables := (tables w)\<lparr>t_universes := rs\<rparr>\<rparr>"
  "tname universes = ''universes''"
  by (simp_all add: universes_def)

interpretation universes: table_laws universes
  by unfold_locales simp_all

lemma categories_sel [simp]:
  "tget categories w = t_categories (tables w)"
  "tput categories rs w = w\<lparr>tables := (tables w)\<lparr>t_categories := rs\<rparr>\<rparr>"
  "tname categories = ''categories''"
  by (simp_all add: categories_def)

interpretation categories: table_laws categories
  by unfold_locales simp_all

lemma blocks_sel [simp]:
  "tget blocks w = t_blocks (tables w)"
  "tput blocks rs w = w\<lparr>tables := (tables w)\<lparr>t_blocks := rs\<rparr>\<rparr>"
  "tname blocks = ''blocks''"
  by (simp_all add: blocks_def)

interpretation blocks: table_laws blocks
  by unfold_locales simp_all

lemma transactionHashes_sel [simp]:
  "tget transactionHashes w = t_transactionHashes (tables w)"
  "tput transactionHashes rs w = w\<lparr>tables := (tables w)\<lparr>t_transactionHashes := rs\<rparr>\<rparr>"
  "tname transactionHashes = ''transactionHashes''"
  by (simp_all add: transactionHashes_def)

interpretation transactionHashes: table_laws transactionHashes
  by unfold_locales simp_all

lemma completeSets_sel [simp]:
  "tget completeSets w = t_completeSets (tables w)"
  "tput completeSets rs w = w\<lparr>tables := (tables w)\<lparr>t_completeSets := rs\<rparr>\<rparr>"
  "tname completeSets = ''completeSets''"
  by (simp_all add: completeSets_def)

interpretation completeSets: table_laws completeSets
  by unfold_locales simp_all

lemma trading_proceeds_sel [simp]:
  "tget trading_proceeds w = t_trading_proceeds (tables w)"
  "tput trading_proceeds rs w = w\<lparr>tables := (tables w)\<lparr>t_trading_proceeds := rs\<rparr>\<rparr>"
  "tname trading_proceeds = ''trading_proceeds''"
  by (simp_all add: trading_proceeds_def)

interpretation trading_proceeds: table_laws trading_proceeds
  by unfold_locales simp_all

lemma outcome_value_timeseries_sel [simp]:
  "tget outcome_value_timeseries w = t_outcome_value_timeseries (tables w)"
  "tput outcome_value_timeseries rs w = w\<lparr>tables := (tables w)\<lparr>t_outcome_value_timeseries := rs\<rparr>\<rparr>"
  "tname outcome_value_timeseries = ''outcome_value_timeseries''"
  by (simp_all add: outcome_value_timeseries_def)

interpretation outcome_value_timeseries: table_laws outcome_value_timeseries
  by unfold_locales simp_all

lemma wcl_profit_loss_timeseries_sel [simp]:
  "tget wcl_profit_loss_timeseries w = t_wcl_profit_loss_timeseries (tables w)"
  "tput wcl_profit_loss_timeseries rs w = w\<lparr>tables := (tables w)\<lparr>t_wcl_profit_loss_timeseries := rs\<rparr>\<rparr>"
  "tname wcl_profit_loss_timeseries = ''wcl_profit_loss_timeseries''"
  by (simp_all add: wcl_profit_loss_timeseries_def)

interpretation wcl_profit_loss_timeseries: table_laws wcl_profit_loss_timeseries
  by unfold_locales simp_all

lemma outcomes_liquidity_sel [simp]:
  "tget outcomes_liquidity w = t_outcomes_liquidity (tables w)"
  "tput outcomes_liquidity rs w = w\<lparr>tables := (tables w)\<lparr>t_outcomes_liquidity := rs\<rparr>\<rparr>"
  "tname outcomes_liquidity = ''outcomes_liquidity''"
  by (simp_all add: outcomes_liquidity_def)

interpretation outcomes_liquidity: table_laws outcomes_liquidity
  by unfold_locales simp_all

lemma pending_orphan_checks_sel [simp]:
  "tget pending_orphan_checks w = t_pending_orphan_checks (tables w)"
  "tput pending_orphan_checks rs w = w\<lparr>tables := (tables w)\<lparr>t_pending_orphan_checks := rs\<rparr>\<rparr>"
  "tname pending_orphan_checks = ''pending_orphan_checks''"
  by (simp_all add: pending_orphan_checks_def)

interpretation pending_orphan_checks: table_laws pending_orphan_checks
  by unfold_locales simp_all

lemma pending_liquidity_updates_sel [simp]:
  "tget pending_liquidity_updates w = t_pending_liquidity_updates (tables w)"
  "tput pending_liquidity_updates rs w = w\<lparr>tables := (tables w)\<lparr>t_pending_liquidity_updates := rs\<rparr>\<rparr>"
  "tname pending_liquidity_updates = ''pending_liquidity_updates''"
  by (simp_all add: pending_liquidity_updates_def)

interpretation pending_liquidity_updates: table_laws pending_liquidity_updates
  by unfold_locales simp_all

text \<open>The constraints of the tables, as rewrite rules.\<close>

lemma markets_constraints:
  "tclash markets x y \<longleftrightarrow>
    (mk_marketId x = mk_marketId y)"
  "tcheck markets r \<longleftrightarrow>
    (0 \<le> mk_creationFee r \<and> 0 \<le> mk_reportingFeeRate r \<and> 0 \<le>
    mk_marketCreatorFeeRate r \<and> 0 \<le> mk_marketCreatorFeesBalance r \<and> 0 \<le>
    mk_volume r \<and> 0 \<le> mk_sharesOutstanding r \<and> 0 \<le> mk_designatedReportStake r
    \<and> 0 \<le> mk_numTicks r \<and> 0 \<le> mk_spreadPercent r \<and> 0 \<le>
    mk_invalidROIPercent r)"
  by (simp_all add: markets_def)

lemma outcomes_constraints:
  "tclash outcomes x y \<longleftrightarrow>
    (oc_marketId x = oc_marketId y \<and> oc_outcome x = oc_outcome y)"
  "tcheck outcomes r \<longleftrightarrow>
    (0 \<le> oc_volume r \<and> 0 \<le> oc_spreadPercent r \<and> 0 \<le> oc_invalidROIPercent
    r)"
  by (simp_all add: outcomes_def)

lemma orders_constraints:
  "tclash orders x y \<longleftrightarrow>
    (or_orderId x = or_orderId y)"
  "tcheck orders r \<longleftrightarrow>
    (0 \<le> or_amount r \<and> 0 \<le> or_tokensEscrowed r \<and> 0 \<le> or_sharesEscrowed r
    \<and> 0 \<le> or_originalTokensEscrowed r \<and> 0 \<le> or_originalSharesEscrowed r)"
  by (simp_all add: orders_def)

lemma orders_canceled_constraints:
  "tclash orders_canceled x y \<longleftrightarrow>
    (xo_orderId x = xo_orderId y)"
  "tcheck orders_canceled r \<longleftrightarrow>
    (True)"
  by (simp_all add: orders_canceled_def)

lemma trades_constraints:
  "tclash trades x y \<longleftrightarrow>
    (td_transactionHash x = td_transactionHash y \<and> td_logIndex x = td_logIndex y)"
  "tcheck trades r \<longleftrightarrow>
    (0 \<le> td_numCreatorTokens r \<and> 0 \<le> td_numCreatorShares r \<and> 0 \<le>
    td_numFillerTokens r \<and> 0 \<le> td_numFillerShares r \<and> 0 \<le> td_reporterFees r
    \<and> 0 \<le> td_marketCreatorFees r \<and> 0 \<le> td_amount r)"
  by (simp_all add: trades_def)

lemma tokens_constraints:
  "tclash tokens x y \<longleftrightarrow>
    (tk_contractAddress x = tk_contractAddress y \<or> (tk_marketId x \<noteq> None \<and>
    tk_outcome x \<noteq> None \<and> tk_marketId x = tk_marketId y \<and> tk_symbol x =
    tk_symbol y \<and> tk_outcome x = tk_outcome y))"
  "tcheck tokens r \<longleftrightarrow>
    (True)"
  by (simp_all add: tokens_def)

lemma token_supply_constraints:
  "tclash token_supply x y \<longleftrightarrow>
    (ts_token x = ts_token y)"
  "tcheck token_supply r \<longleftrightarrow>
    (True)"
  by (simp_all add: token_supply_def)

lemma balances_constraints:
  "tclash balances x y \<longleftrightarrow>
    (bl_owner x = bl_owner y \<and> bl_token x = bl_token y)"
  "tcheck balances r \<longleftrightarrow>
    (0 \<le> bl_balance r)"
  by (simp_all add: balances_def)

lemma transfers_constraints:
  "tclash transfers x y \<longleftrightarrow>
    (tf_transactionHash x = tf_transactionHash y \<and> tf_logIndex x = tf_logIndex y)"
  "tcheck transfers r \<longleftrightarrow>
    (0 \<le> tf_value r)"
  by (simp_all add: transfers_def)

lemma approvals_constraints:
  "tclash approvals x y \<longleftrightarrow>
    (ap_transactionHash x = ap_transactionHash y \<and> ap_logIndex x = ap_logIndex y)"
  "tcheck approvals r \<longleftrightarrow>
    (0 \<le> ap_value r)"
  by (simp_all add: approvals_def)

lemma market_state_constraints:
  "tclash market_state x y \<longleftrightarrow>
    (ms_marketStateId x = ms_marketStateId y)"
  "tcheck market_state r \<longleftrightarrow>
    (True)"
  by (simp_all add: market_state_def)

lemma payouts_constraints:
  "tclash payouts x y \<longleftrightarrow>
    (po_payoutId x = po_payoutId y \<or> (po_marketId x = po_marketId y \<and> po_isInvalid x =
    po_isInvalid y \<and> po_payouts x = po_payouts y \<and> None \<notin> set (po_payouts x)))"
  "tcheck payouts r \<longleftrightarrow>
    (True)"
  by (simp_all add: payouts_def)

lemma fee_windows_constraints:
  "tclash fee_windows x y \<longleftrightarrow>
    (fw_feeWindow x = fw_feeWindow y)"
  "tcheck fee_windows r \<longleftrightarrow>
    (True)"
  by (simp_all add: fee_windows_def)

lemma crowdsourcers_constraints:
  "tclash crowdsourcers x y \<longleftrightarrow>
    (cs_crowdsourcerId x = cs_crowdsourcerId y)"
  "tcheck crowdsourcers r \<longleftrightarrow>
    (True)"
  by (simp_all add: crowdsourcers_def)

lemma initial_reports_constraints:
  "tclash initial_reports x y \<longleftrightarrow>
    (False)"
  "tcheck initial_reports r \<longleftrightarrow>
    (True)"
  by (simp_all add: initial_reports_def)

lemma disputes_constraints:
  "tclash disputes x y \<longleftrightarrow>
    (dp_transactionHash x = dp_transactionHash y \<and> dp_logIndex x = dp_logIndex y)"
  "tcheck disputes r \<longleftrightarrow>
    (True)"
  by (simp_all add: disputes_def)

lemma crowdsourcer_redeemed_constraints:
  "tclash crowdsourcer_redeemed x y \<longleftrightarrow>
    (False)"
  "tcheck crowdsourcer_redeemed r \<longleftrightarrow>
    (True)"
  by (simp_all add: crowdsourcer_redeemed_def)

lemma participation_token_redeemed_constraints:
  "tclash participation_token_redeemed x y \<longleftrightarrow>
    (False)"
  "tcheck participation_token_redeemed r \<longleftrightarrow>
    (True)"
  by (simp_all add: participation_token_redeemed_def)

lemma universes_constraints:
  "tclash universes x y \<longleftrightarrow>
    (un_universe x = un_universe y)"
  "tcheck universes r \<longleftrightarrow>
    (True)"
  by (simp_all add: universes_def)

lemma categories_constraints:
  "tclash categories x y \<longleftrightarrow>
    (ca_universe x = ca_universe y \<and> ca_category x = ca_category y)"
  "tcheck categories r \<longleftrightarrow>
    (True)"
  by (simp_all add: categories_def)

lemma blocks_constraints:
  "tclash blocks x y \<longleftrightarrow>
    (bk_blockNumber x = bk_blockNumber y)"
  "tcheck blocks r \<longleftrightarrow>
    (True)"
  by (simp_all add: blocks_def)

lemma transactionHashes_constraints:
  "tclash transactionHashes x y \<longleftrightarrow>
    (th_transactionHash x = th_transactionHash y)"
  "tcheck transactionHashes r \<longleftrightarrow>
    (True)"
  by (simp_all add: transactionHashes_def)

lemma completeSets_constraints:
  "tclash completeSets x y \<longleftrightarrow>
    (cp_transactionHash x = cp_transactionHash y \<and> cp_logIndex x = cp_logIndex y)"
  "tcheck completeSets r \<longleftrightarrow>
    (0 \<le> cp_numCompleteSets r \<and> 0 \<le> cp_numPurchasedOrSold r)"
  by (simp_all add: completeSets_def)

lemma trading_proceeds_constraints:
  "tclash trading_proceeds x y \<longleftrightarrow>
    (tp_transactionHash x = tp_transactionHash y \<and> tp_logIndex x = tp_logIndex y)"
  "tcheck trading_proceeds r \<longleftrightarrow>
    (True)"
  by (simp_all add: trading_proceeds_def)

lemma outcome_value_timeseries_constraints:
  "tclash outcome_value_timeseries x y \<longleftrightarrow>
    (False)"
  "tcheck outcome_value_timeseries r \<longleftrightarrow>
    (True)"
  by (simp_all add: outcome_value_timeseries_def)

lemma wcl_profit_loss_timeseries_constraints:
  "tclash wcl_profit_loss_timeseries x y \<longleftrightarrow>
    (False)"
  "tcheck wcl_profit_loss_timeseries r \<longleftrightarrow>
    (0 \<le> pl_price r)"
  by (simp_all add: wcl_profit_loss_timeseries_def)

lemma outcomes_liquidity_constraints:
  "tclash outcomes_liquidity x y \<longleftrightarrow>
    (ol_marketId x = ol_marketId y \<and> ol_outcome x = ol_outcome y \<and> ol_spreadPercent x
    = ol_spreadPercent y)"
  "tcheck outcomes_liquidity r \<longleftrightarrow>
    (0 \<le> ol_spreadPercent r \<and> 0 \<le> ol_liquidityTokens r)"
  by (simp_all add: outcomes_liquidity_def)

lemma pending_orphan_checks_constraints:
  "tclash pending_orphan_checks x y \<longleftrightarrow>
    (False)"
  "tcheck pending_orphan_checks r \<longleftrightarrow>
    (True)"
  by (simp_all add: pending_orphan_checks_def)

lemma pending_liquidity_updates_constraints:
  "tclash pending_liquidity_updates x y \<longleftrightarrow>
    (False)"
  "tcheck pending_liquidity_updates r \<longleftrightarrow>
    (True)"
  by (simp_all add: pending_liquidity_updates_def)

lemmas table_constraints =
  markets_constraints outcomes_constraints orders_constraints orders_canceled_constraints
  trades_constraints tokens_constraints token_supply_constraints balances_constraints
  transfers_constraints approvals_constraints market_state_constraints payouts_constraints
  fee_windows_constraints crowdsourcers_constraints initial_reports_constraints
  disputes_constraints crowdsourcer_redeemed_constraints
  participation_token_redeemed_constraints universes_constraints categories_constraints
  blocks_constraints transactionHashes_constraints completeSets_constraints
  trading_proceeds_constraints outcome_value_timeseries_constraints
  wcl_profit_loss_timeseries_constraints outcomes_liquidity_constraints
  pending_orphan_checks_constraints pending_liquidity_updates_constraints

text \<open>A new value of an auto-increment column; the counter is part of the database.\<close>

definition newMarketStateId :: "int action" where
  "newMarketStateId = bindA (gets (\<lambda>w. next_marketStateId (tables w))) (\<lambda>i.
     thenA (modify (\<lambda>w. w\<lparr>tables := (tables w)\<lparr>next_marketStateId := i + 1\<rparr>\<rparr>)) (return i))"

definition newPayoutId :: "int action" where
  "newPayoutId = bindA (gets (\<lambda>w. next_payoutId (tables w))) (\<lambda>i.
     thenA (modify (\<lambda>w. w\<lparr>tables := (tables w)\<lparr>next_payoutId := i + 1\<rparr>\<rparr>)) (return i))"

section \<open>A small database\<close>

text \<open>The empty database and a yes/no market with prices from 0 to 1, for examples.\<close>

definition empty_db :: db where
  "empty_db = \<lparr>t_markets = [], t_outcomes = [], t_orders = [], t_orders_canceled = [], t_trades = [],
     t_tokens = [], t_token_supply = [], t_balances = [], t_transfers = [], t_approvals = [],
     t_market_state = [], t_payouts = [], t_fee_windows = [], t_crowdsourcers = [],
     t_initial_reports = [], t_disputes = [], t_crowdsourcer_redeemed = [],
     t_participation_token_redeemed = [], t_universes = [], t_categories = [], t_blocks = [],
     t_transactionHashes = [], t_completeSets = [], t_trading_proceeds = [],
     t_outcome_value_timeseries = [], t_wcl_profit_loss_timeseries = [], t_outcomes_liquidity =
     [], t_pending_orphan_checks = [], t_pending_liquidity_updates = [],
     t_blockchain_sync_history = [],
     network_overrideTimestamp = None, next_marketStateId = 1, next_payoutId = 1\<rparr>"

definition empty_world :: world where
  "empty_world = \<lparr>tables = empty_db, overrideTimestamps = [], blockHeadTimestamp = 1,
     emitted = []\<rparr>"

definition sample_market :: markets_row where
  "sample_market = \<lparr>mk_marketId = ''m'', mk_transactionHash = '''', mk_logIndex = 0, mk_universe = ''u'',
     mk_marketType = ''yesNo'', mk_marketCreator = '''', mk_numOutcomes = 2,
     mk_creationBlockNumber = 1, mk_creationFee = 0, mk_minPrice = 0, mk_maxPrice = 1,
     mk_numTicks = 10000, mk_reportingFeeRate = 1 / 100, mk_marketCreatorFeeRate = 1 / 100,
     mk_marketCreatorFeesBalance = 0, mk_marketCreatorMailbox = '''',
     mk_marketCreatorMailboxOwner = '''', mk_initialReportSize = None, mk_validityBondSize = 0,
     mk_category = ''C'', mk_tag1 = None, mk_tag2 = None, mk_volume = 0, mk_shareVolume = 0,
     mk_openInterest = 0, mk_sharesOutstanding = 0, mk_marketStateId = Some 1, mk_feeWindow =
     '''', mk_endTime = 1000, mk_finalizationBlockNumber = None, mk_lastTradeBlockNumber = None,
     mk_shortDescription = '''', mk_longDescription = None, mk_scalarDenomination = None,
     mk_resolutionSource = None, mk_designatedReporter = '''', mk_designatedReportStake = 0,
     mk_disputeRounds = None, mk_forking = 0, mk_needsMigration = 0, mk_needsDisavowal = 0,
     mk_spreadPercent = 1, mk_invalidROIPercent = 0, mk_bestBidTakerInvalidProfitTokens = 0,
     mk_bestAskTakerInvalidProfitTokens = 0, mk_initialReporterAddress = ''''\<rparr>"

lemmas sample_simps = empty_db_def empty_world_def sample_market_def

end
