(* ===== verification/Environment.thy ===== *)
theory Environment
  imports Database
begin

text \<open>
  What the log processors of \<open>src/blockchain/log-processors\<close> take from outside the repository, the
  formatted logs they process, and the contract between processing a log and removing it.

  \<^item> \<open>env\<close>: the parameters of the model. bignumber.js (division, \<open>toPrecision\<close>, \<open>toNumber\<close>), the
    unit conversions, constants, contract addresses and contract calls of augur.js, \<open>Math.exp\<close>,
    the clock and the gas price.
  \<^item> \<open>event_log\<close>: \<open>FormattedEventLog\<close>, a log with the arguments of its event. An argument that the
    event does not have is never read; arguments that the code itself tests for presence are
    options.
  \<^item> \<open>log_processor\<close>: \<open>EventLogProcessor\<close>, the pair \<open>add\<close> and \<open>remove\<close>. Its law is that removing a
    log restores what adding it changed; a chain reorganisation, which removes the logs of a
    block last to first, then restores what the whole block changed.

  The values of a log are decimal strings in the source and numbers here. A number that the source
  would compute as \<open>NaN\<close> is an error here.
\<close>

section \<open>Logs\<close>

record extra_info =
  xi_tags :: "string option list"
  xi_longDescription :: "string option"
  xi_scalarDenomination :: "string option"
  xi_resolutionSource :: "string option"

record event_log = base_log +
  lo_amount :: "bn option"
  lo_value :: "bn option"
  lo_token :: "address option"
  lo_target :: address
  lo_from :: address
  lo_to :: address
  lo_owner :: address
  lo_spender :: address
  lo_market :: address
  lo_universe :: address
  lo_account :: address
  lo_sender :: address
  lo_reporter :: address
  lo_filler :: address
  lo_creator :: address
  lo_shareToken :: address
  lo_orderId :: bytes32
  lo_orderType :: string
  lo_tradeGroupId :: "string option"
  lo_price :: bn
  lo_moneyEscrowed :: bn
  lo_sharesEscrowed :: bn
  lo_amountFilled :: bn
  lo_numCreatorTokens :: bn
  lo_numCreatorShares :: bn
  lo_numFillerTokens :: bn
  lo_numFillerShares :: bn
  lo_marketCreatorFees :: bn
  lo_reporterFees :: bn
  lo_numCompleteSets :: bn
  lo_numShares :: bn
  lo_numPayoutTokens :: bn
  lo_feeWindow :: address
  lo_id :: int
  lo_startTime :: int
  lo_endTime :: int
  lo_disputeCrowdsourcer :: address
  lo_size :: bn
  lo_payoutNumerators :: "bn option list"
  lo_invalid :: bool
  lo_amountStaked :: bn
  lo_amountRedeemed :: bn
  lo_repReceived :: bn
  lo_reportingFeesReceived :: bn
  lo_isDesignatedReporter :: bool
  lo_reportingParticipant :: address
  lo_marketCreator :: address
  lo_marketCreationFee :: bn
  lo_minPrice :: bn
  lo_maxPrice :: bn
  lo_topic :: string
  lo_description :: string
  lo_extraInfo :: "extra_info option"
  lo_marketType :: int
  lo_outcomes :: "string list option"
  lo_originalUniverse :: address
  lo_newUniverse :: address
  lo_childUniverse :: address
  lo_parentUniverse :: address
  lo_newTimestamp :: int

section \<open>Parameters\<close>

text \<open>
  A call of a contract returns a value or fails. The calls are made before the database is
  touched, except those of \<open>getFeeWindowByTimestamp\<close> and \<open>getBalance\<close>. \<open>getExistingOrders\<close> takes the
  largest number of orders the chosen contract function returns. \<open>updateHonoursJoin\<close>: whether Knex
  restricts an \<open>update\<close> by a \<open>join\<close> that the query has.
\<close>

record env =
  en_dv :: bn_division_op
  en_toPrecision :: to_precision_op
  en_toNumber :: "bn \<Rightarrow> rat"
  en_exp :: "bn \<Rightarrow> bn"
  en_now :: int
  en_gasPriceGwei :: bn
  en_fuel :: nat
  updateHonoursJoin :: bool
  convertOnChainAmountToDisplayAmount :: "bn \<Rightarrow> bn \<Rightarrow> bn"
  convertOnChainPriceToDisplayPrice :: "bn \<Rightarrow> bn \<Rightarrow> bn \<Rightarrow> bn"
  LegacyReputationToken :: address
  UniverseAddress :: address
  DISPUTE_ROUND_DURATION_SECONDS :: int
  DESIGNATED_REPORTING_DURATION_SECONDS :: int
  toUpperCase :: "string \<Rightarrow> string"
  getFeeWindowByTimestamp :: "int \<Rightarrow> address \<Rightarrow> address result"
  getBalance :: "address \<Rightarrow> bn result"
  getFeeToken :: "address \<Rightarrow> address result"
  getInitialReporter :: "address \<Rightarrow> address result"
  getReputationToken :: "address \<Rightarrow> address result"
  getForkingMarket :: "address \<Rightarrow> address option result"
  getMarketFeeWindow :: "address \<Rightarrow> address result"
  getEndTime :: "address \<Rightarrow> int result"
  getDesignatedReporter :: "address \<Rightarrow> address result"
  getMarketCreatorMailbox :: "address \<Rightarrow> address result"
  getNumTicks :: "address \<Rightarrow> bn result"
  getMarketCreatorSettlementFeeDivisor :: "address \<Rightarrow> bn result"
  getOrCacheReportingFeeDivisor :: "address \<Rightarrow> bn result"
  getValidityBondAttoeth :: "address \<Rightarrow> bn result"
  getShareToken :: "address \<Rightarrow> nat \<Rightarrow> address result"
  getExistingOrders :: "nat \<Rightarrow> int \<Rightarrow> address \<Rightarrow> int \<Rightarrow> string list result"

section \<open>Examples\<close>

text \<open>Parameters and a log for closed examples.\<close>

definition sample_env :: env where
  "sample_env = \<lparr>
     en_dv = bn_div, en_toPrecision = (\<lambda>x _ _. x), en_toNumber = (\<lambda>x. x),
     en_exp = (\<lambda>x. 1), en_now = 0, en_gasPriceGwei = 5, en_fuel = 100010, updateHonoursJoin = True,
     convertOnChainAmountToDisplayAmount = (\<lambda>a tickSize. a * tickSize),
     convertOnChainPriceToDisplayPrice = (\<lambda>p minPrice tickSize. p * tickSize + minPrice),
     LegacyReputationToken = ''legacy'', UniverseAddress = ''u'',
     DISPUTE_ROUND_DURATION_SECONDS = 604800, DESIGNATED_REPORTING_DURATION_SECONDS = 259200,
     toUpperCase = (\<lambda>x. x), getFeeWindowByTimestamp = (\<lambda>_ _. Inr ''a''),
     getBalance = (\<lambda>_. Inr 0), getFeeToken = (\<lambda>_. Inr ''a''),
     getInitialReporter = (\<lambda>_. Inr ''a''),
     getReputationToken = (\<lambda>_. Inr ''a''),
     getForkingMarket = (\<lambda>_. Inr (Some ''a'')),
     getMarketFeeWindow = (\<lambda>_. Inr ''a''), getEndTime = (\<lambda>_. Inr 0),
     getDesignatedReporter = (\<lambda>_. Inr ''a''),
     getMarketCreatorMailbox = (\<lambda>_. Inr ''a''), getNumTicks = (\<lambda>_. Inr 0),
     getMarketCreatorSettlementFeeDivisor = (\<lambda>_. Inr 0),
     getOrCacheReportingFeeDivisor = (\<lambda>_. Inr 0),
     getValidityBondAttoeth = (\<lambda>_. Inr 0), getShareToken = (\<lambda>_ _. Inr ''a''),
     getExistingOrders = (\<lambda>_ _ _ _. Inr [])\<rparr>"

definition sample_log :: event_log where
  "sample_log = \<lparr>
     lg_address = '''', lg_blockNumber = 1, lg_transactionIndex = 0,
     lg_transactionHash = ''t'', lg_logIndex = 0, lg_eventName = '''',
     lg_contractName = ''Augur'', lg_removed = False, lo_amount = None, lo_value = None,
     lo_token = None, lo_target = '''', lo_from = '''', lo_to = '''', lo_owner = '''',
     lo_spender = '''', lo_market = '''', lo_universe = '''', lo_account = '''',
     lo_sender = '''', lo_reporter = '''', lo_filler = '''', lo_creator = '''',
     lo_shareToken = '''', lo_orderId = '''', lo_orderType = '''', lo_tradeGroupId = None,
     lo_price = 0, lo_moneyEscrowed = 0, lo_sharesEscrowed = 0, lo_amountFilled = 0,
     lo_numCreatorTokens = 0, lo_numCreatorShares = 0, lo_numFillerTokens = 0,
     lo_numFillerShares = 0, lo_marketCreatorFees = 0, lo_reporterFees = 0,
     lo_numCompleteSets = 0, lo_numShares = 0, lo_numPayoutTokens = 0, lo_feeWindow = '''',
     lo_id = 0, lo_startTime = 0, lo_endTime = 0, lo_disputeCrowdsourcer = '''', lo_size = 0,
     lo_payoutNumerators = [], lo_invalid = False, lo_amountStaked = 0, lo_amountRedeemed = 0,
     lo_repReceived = 0, lo_reportingFeesReceived = 0, lo_isDesignatedReporter = False,
     lo_reportingParticipant = '''', lo_marketCreator = '''', lo_marketCreationFee = 0,
     lo_minPrice = 0, lo_maxPrice = 0, lo_topic = '''', lo_description = '''',
     lo_extraInfo = None, lo_marketType = 0, lo_outcomes = None, lo_originalUniverse = '''',
     lo_newUniverse = '''', lo_childUniverse = '''', lo_parentUniverse = '''',
     lo_newTimestamp = 0\<rparr>"

section \<open>Adding and removing logs\<close>

text \<open>
  \<open>restored v w\<close>: the state \<open>v\<close> shows again what \<open>w\<close> showed. It need not be equality: rows with a zero
  amount may have been left behind. \<open>keeps R m\<close>: what \<open>m\<close> can do from a state it can do from a restored
  one, with restored result. \<open>wf\<close> is what is known of every log, \<open>inv\<close> of every state.
\<close>

definition keeps :: "(world \<Rightarrow> world \<Rightarrow> bool) \<Rightarrow> unit action \<Rightarrow> bool" where
  "keeps R m \<longleftrightarrow> (\<forall>v w w'. R v w \<longrightarrow> m w = (Inr (), w') \<longrightarrow>
     (\<exists>v'. m v = (Inr (), v') \<and> R v' w'))"

lemma keepsI:
  "(\<And>v w w'. R v w \<Longrightarrow> m w = (Inr (), w') \<Longrightarrow> \<exists>v'. m v = (Inr (), v') \<and> R v' w') \<Longrightarrow> keeps R m"
  by (auto simp: keeps_def)

lemma keepsD:
  "keeps R m \<Longrightarrow> R v w \<Longrightarrow> m w = (Inr (), w') \<Longrightarrow> \<exists>v'. m v = (Inr (), v') \<and> R v' w'"
  by (auto simp: keeps_def)

lemma keeps_return [intro]: "keeps R (return ())"
  by (auto simp: keeps_def return_app)

lemma keeps_thenA [intro]: "keeps R m \<Longrightarrow> keeps R n \<Longrightarrow> keeps R (thenA m n)"
  unfolding keeps_def thenA_eq_Inr by (metis (full_types) old.unit.exhaust)

lemma keeps_liftR [intro]: "(\<And>x. r = Inr x \<Longrightarrow> keeps R (f x)) \<Longrightarrow> keeps R (bindA (liftR r) f)"
  by (cases r) (auto simp: act_simps keeps_def)

lemma keeps_if [intro]: "keeps R m \<Longrightarrow> keeps R n \<Longrightarrow> keeps R (if b then m else n)"
  by simp

lemma keeps_forA [intro]: "(\<And>x. x \<in> set xs \<Longrightarrow> keeps R (f x)) \<Longrightarrow> keeps R (forA xs f)"
  by (induction xs) auto

locale log_processor =
  fixes add remove :: "'l \<Rightarrow> unit action"
    and wf :: "'l \<Rightarrow> bool"
    and inv :: "world \<Rightarrow> bool"
    and restored :: "world \<Rightarrow> world \<Rightarrow> bool"
  assumes restored_refl: "restored w w"
    and restored_trans: "restored u v \<Longrightarrow> restored v w \<Longrightarrow> restored u w"
    and add_inv: "wf l \<Longrightarrow> inv w \<Longrightarrow> add l w = (Inr (), w') \<Longrightarrow> inv w'"
    and rollback: "wf l \<Longrightarrow> inv w \<Longrightarrow> add l w = (Inr (), w') \<Longrightarrow>
      \<exists>w''. remove l w' = (Inr (), w'') \<and> restored w'' w"
    and remove_keeps: "wf l \<Longrightarrow> keeps restored (remove l)"
begin

text \<open>A reorganisation that removes the processed logs, last to first.\<close>

lemma reorganisation:
  assumes "\<forall>l \<in> set ls. wf l" "inv w" "forA ls add w = (Inr (), w')"
  shows "\<exists>w''. forA (rev ls) remove w' = (Inr (), w'') \<and> restored w'' w"
  using assms
proof (induction ls arbitrary: w)
  case Nil
  then show ?case by (simp add: return_app restored_refl)
next
  case (Cons l ls)
  from Cons.prems(3) obtain w1 where w1: "add l w = (Inr (), w1)" "forA ls add w1 = (Inr (), w')"
    by (auto simp: thenA_eq_Inr)
  have "inv w1" using add_inv [OF _ Cons.prems(2) w1(1)] Cons.prems(1) by simp
  then obtain u where u: "forA (rev ls) remove w' = (Inr (), u)" "restored u w1"
    using Cons.IH [OF _ _ w1(2)] Cons.prems(1) by auto
  obtain v where v: "remove l w1 = (Inr (), v)" "restored v w"
    using rollback [OF _ Cons.prems(2) w1(1)] Cons.prems(1) by auto
  obtain u' where u': "remove l u = (Inr (), u')" "restored u' v"
    using keepsD [OF remove_keeps u(2) v(1)] Cons.prems(1) by auto
  have "forA (rev ls @ [l]) remove w' = (Inr (), u')"
    using u(1) u'(1) by (simp add: forA_append act_simps)
  then show ?case using restored_trans [OF u'(2) v(2)] by auto
qed

end

end
