(* ===== verification/Volumetrics.thy ===== *)
theory Volumetrics
  imports Environment "HOL-Library.AList"
begin

text \<open>
  \<open>log-processors/order-filled/update-volumetrics.ts\<close>, \<open>log-processors/category-aggregations.ts\<close> and
  \<open>blockchain/rebuild-volume-for-all-markets.ts\<close>: volume, share volume, shares outstanding and open
  interest of markets and outcomes, and the open interest of categories.

  The volume of a market is kept incrementally, trade by trade, and can be rebuilt from the trades;
  the second part shows that the two agree. The open interest of a category is kept by deltas; the
  last part shows that the deltas never let it drift from the sum over its markets.
\<close>

section \<open>Categories\<close>

definition updateCategoryAggregationsOnMarketOpenInterestChanged ::
  "string \<Rightarrow> ReportingState option \<Rightarrow> bn \<Rightarrow> bn \<Rightarrow> unit action" where
  "updateCategoryAggregationsOnMarketOpenInterestChanged categoryName reportingState newOpenInterest
     oldOpenInterest =
     bindA (bindA (first categories (\<lambda>c. ca_category c = categoryName))
              (orThrow (Thrown ''No category found''))) (\<lambda>row.
     let oiDelta = newOpenInterest - oldOpenInterest in
     update categories (\<lambda>c. ca_category c = categoryName) (\<lambda>c. c
       \<lparr>ca_openInterest := ca_openInterest row + oiDelta,
        ca_nonFinalizedOpenInterest :=
          (if reportingState \<noteq> Some FINALIZED then ca_nonFinalizedOpenInterest row + oiDelta
           else ca_nonFinalizedOpenInterest c)\<rparr>))"

definition marketFinalizedHelper :: "address \<Rightarrow> (string \<times> bn \<times> bn) action" where
  "marketFinalizedHelper marketId =
     bindA (bindA (first markets (\<lambda>m. mk_marketId m = marketId))
              (orThrow (Thrown ''No market with marketId''))) (\<lambda>mRow.
     bindA (bindA (first categories (\<lambda>c. ca_category c = mk_category mRow))
              (orThrow (Thrown ''No category found''))) (\<lambda>cRow.
     return (mk_category mRow, ca_nonFinalizedOpenInterest cRow, mk_openInterest mRow)))"

definition updateCategoryAggregationsOnMarketFinalized :: "address \<Rightarrow> unit action" where
  "updateCategoryAggregationsOnMarketFinalized marketId =
     bindA (marketFinalizedHelper marketId) (\<lambda>(categoryName, nonFinalized, openInterest).
     update categories (\<lambda>c. ca_category c = categoryName)
       (\<lambda>c. c\<lparr>ca_nonFinalizedOpenInterest := nonFinalized - openInterest\<rparr>))"

definition updateCategoryAggregationsOnMarketFinalizedRollback :: "address \<Rightarrow> unit action" where
  "updateCategoryAggregationsOnMarketFinalizedRollback marketId =
     bindA (marketFinalizedHelper marketId) (\<lambda>(categoryName, nonFinalized, openInterest).
     update categories (\<lambda>c. ca_category c = categoryName)
       (\<lambda>c. c\<lparr>ca_nonFinalizedOpenInterest := nonFinalized + openInterest\<rparr>))"

section \<open>Volume\<close>

definition volumeForTrade :: "bn \<Rightarrow> bn \<Rightarrow> trades_row \<Rightarrow> bn" where
  "volumeForTrade mn mx t =
     td_numCreatorTokens t + td_numFillerTokens t
       + min (td_numCreatorShares t) (td_numFillerShares t) * (mx - mn)"

definition incrementMarketVolume :: "address \<Rightarrow> bn \<Rightarrow> trades_row \<Rightarrow> bool \<Rightarrow> unit action" where
  "incrementMarketVolume marketId amount tradesRow isIncrease =
     bindA (bindA (first markets (\<lambda>m. mk_marketId m = marketId))
              (orThrow (Thrown ''No marketId for incrementMarketVolume''))) (\<lambda>marketsRow.
     let newShareVolume = amount + mk_shareVolume marketsRow;
         vft = volumeForTrade (mk_minPrice marketsRow) (mk_maxPrice marketsRow) tradesRow;
         newVolume = mk_volume marketsRow + (if isIncrease then vft else - vft) in
     update markets (\<lambda>m. mk_marketId m = marketId)
       (\<lambda>m. m\<lparr>mk_volume := newVolume, mk_shareVolume := newShareVolume\<rparr>))"

definition incrementOutcomeVolume :: "address \<Rightarrow> int \<Rightarrow> bn \<Rightarrow> trades_row \<Rightarrow> bool \<Rightarrow> unit action" where
  "incrementOutcomeVolume marketId outcome amount tradesRow isIncrease =
     bindA (bindA (first markets (\<lambda>m. mk_marketId m = marketId))
              (orThrow (Thrown ''No marketId for incrementOutcomeVolume''))) (\<lambda>marketsRow.
     bindA (bindA (first outcomes (\<lambda>u. oc_marketId u = marketId \<and> oc_outcome u = outcome))
              (orThrow (Thrown ''No outcome for incrementOutcomeVolume''))) (\<lambda>outcomesRow.
     let newShareVolume = amount + oc_shareVolume outcomesRow;
         vft = volumeForTrade (mk_minPrice marketsRow) (mk_maxPrice marketsRow) tradesRow;
         newVolume = oc_volume outcomesRow + (if isIncrease then vft else - vft) in
     update outcomes (\<lambda>u. oc_marketId u = marketId \<and> oc_outcome u = outcome)
       (\<lambda>u. u\<lparr>oc_volume := newVolume, oc_shareVolume := newShareVolume\<rparr>)))"

definition setMarketLastTrade :: "address \<Rightarrow> int \<Rightarrow> unit action" where
  "setMarketLastTrade marketId blockNumber =
     update markets (\<lambda>m. mk_marketId m = marketId)
       (\<lambda>m. m\<lparr>mk_lastTradeBlockNumber := Some blockNumber\<rparr>)"

section \<open>Open interest\<close>

text \<open>The reporting state of a market, \<open>null\<close> when its state row is missing (a left join).\<close>

definition reportingStateOf :: "world \<Rightarrow> markets_row \<Rightarrow> ReportingState option" where
  "reportingStateOf w m = (case mk_marketStateId m of None \<Rightarrow> None
     | Some i \<Rightarrow> map_option ms_reportingState
         (find (\<lambda>s. ms_marketStateId s = i) (t_market_state (tables w))))"

text \<open>
  The supply of a share token of the market: of the joined rows, which SQL leaves unordered, the
  first supply that has a matching token.
\<close>

definition firstSupply :: "(tokens_row \<Rightarrow> bool) \<Rightarrow> bn option action" where
  "firstSupply P = gets (\<lambda>w. map_option ts_supply
     (find (\<lambda>s. list_ex (\<lambda>t. tk_contractAddress t = ts_token s \<and> P t) (t_tokens (tables w)))
        (t_token_supply (tables w))))"

definition updateMarketOpenInterest :: "env \<Rightarrow> address \<Rightarrow> unit action" where
  "updateMarketOpenInterest env marketId =
     bindA (bindA (first markets (\<lambda>m. mk_marketId m = marketId))
              (orThrow (Thrown ''No marketId for openInterest''))) (\<lambda>marketRow.
     bindA (gets (\<lambda>w. reportingStateOf w marketRow)) (\<lambda>reportingState.
     bindA (bindA (firstSupply (\<lambda>t. tk_marketId t = Some marketId \<and> tk_symbol t = ''shares''))
              (orThrow (Thrown ''No shareToken supply found''))) (\<lambda>tokenSupply.
     let newOpenInterestInETH =
           convertFixedPointToDecimal (en_dv env) (tokenSupply * mk_numTicks marketRow) BN_WEI_PER_ETHER in
     thenA (update markets (\<lambda>m. mk_marketId m = marketId)
              (\<lambda>m. m\<lparr>mk_openInterest := newOpenInterestInETH\<rparr>))
       (updateCategoryAggregationsOnMarketOpenInterestChanged (mk_category marketRow) reportingState
          newOpenInterestInETH (mk_openInterest marketRow)))))"

definition updateVolumetrics ::
  "env \<Rightarrow> address \<Rightarrow> int \<Rightarrow> int \<Rightarrow> bytes32 \<Rightarrow> bn \<Rightarrow> bool \<Rightarrow> unit action" where
  "updateVolumetrics env marketId outcome blockNumber orderId tickSize isIncrease =
     bindA (bindA (firstSupply (\<lambda>t. tk_outcome t = Some outcome \<and> tk_marketId t = Some marketId))
              (orThrow (Thrown ''No shareToken found''))) (\<lambda>tokenSupply.
     let sharesOutstanding = convertOnChainAmountToDisplayAmount env tokenSupply tickSize in
     thenA (update markets (\<lambda>m. mk_marketId m = marketId)
              (\<lambda>m. m\<lparr>mk_sharesOutstanding := sharesOutstanding\<rparr>))
    (bindA (bindA (first trades (\<lambda>t. td_marketId t = marketId \<and> td_outcome t = outcome \<and>
                td_orderId t = orderId \<and> td_blockNumber t = blockNumber))
              (orThrow (Thrown ''trade not found''))) (\<lambda>tradesRow.
     let amount = (if isIncrease then td_amount tradesRow else - td_amount tradesRow) in
     thenA (incrementMarketVolume marketId amount tradesRow isIncrease)
    (thenA (incrementOutcomeVolume marketId outcome amount tradesRow isIncrease)
    (thenA (setMarketLastTrade marketId blockNumber)
           (updateMarketOpenInterest env marketId))))))"

section \<open>Rebuilding the volume\<close>

text \<open>
  The \<open>Map\<close>s are association lists in insertion order. The updates of the last step are not awaited
  by the source; the model runs them one after the other.
\<close>

type_synonym volumes = "(address \<times> bn) list \<times> (address \<times> (int \<times> bn) list) list"

definition addVolume :: "'k \<Rightarrow> bn \<Rightarrow> ('k \<times> bn) list \<Rightarrow> ('k \<times> bn) list" where
  "addVolume k v vs = AList.update k (case map_of vs k of None \<Rightarrow> v | Some x \<Rightarrow> x + v) vs"

definition calculateVolumeForAllMarkets :: "markets_row list \<Rightarrow> trades_row list \<Rightarrow> volumes result" where
  "calculateVolumeForAllMarkets allMarkets allTrades =
     (let marketsById = foldl (\<lambda>ms m. AList.update (mk_marketId m) m ms) [] allMarkets in
      foldE (\<lambda>(byMarket, byOutcomeByMarket) tradesRow.
        case map_of marketsById (td_marketId tradesRow) of
          None \<Rightarrow> Inl (Thrown ''marketId not found'')
        | Some m \<Rightarrow>
            (let v = volumeForTrade (mk_minPrice m) (mk_maxPrice m) tradesRow;
                 byOutcome = (case map_of byOutcomeByMarket (td_marketId tradesRow) of
                   None \<Rightarrow> [] | Some vs \<Rightarrow> vs)
             in Inr (addVolume (td_marketId tradesRow) v byMarket,
                     AList.update (td_marketId tradesRow)
                       (addVolume (td_outcome tradesRow) v byOutcome) byOutcomeByMarket)))
        ([], []) allTrades)"

definition updateDBWithVolumeForAllMarkets :: "volumes \<Rightarrow> unit action" where
  "updateDBWithVolumeForAllMarkets v =
     thenA (forA (fst v) (\<lambda>(marketId, volumeInEth).
              update markets (\<lambda>m. mk_marketId m = marketId) (\<lambda>m. m\<lparr>mk_volume := volumeInEth\<rparr>)))
           (forA (snd v) (\<lambda>(marketId, byOutcome).
              forA byOutcome (\<lambda>(outcome, volumeInEth).
                update outcomes (\<lambda>u. oc_marketId u = marketId \<and> oc_outcome u = outcome)
                  (\<lambda>u. u\<lparr>oc_volume := volumeInEth\<rparr>))))"

definition rebuildVolumeForAllMarkets :: "unit action" where
  "rebuildVolumeForAllMarkets =
     bindA (gets (\<lambda>w. t_markets (tables w))) (\<lambda>allMarkets.
     bindA (gets (\<lambda>w. t_trades (tables w))) (\<lambda>allTrades.
     bindA (liftR (calculateVolumeForAllMarkets allMarkets allTrades))
       updateDBWithVolumeForAllMarkets))"

section \<open>The open interest of a category is the sum over its markets\<close>

text \<open>
  \<open>categoryDrift\<close>: how far the recorded open interest of a category is from the sum of the open
  interest of its markets. It is 0 when the category is created.
\<close>

definition categoryOpenInterest :: "world \<Rightarrow> string \<Rightarrow> bn option" where
  "categoryOpenInterest w c =
     map_option ca_openInterest (find (\<lambda>r. ca_category r = c) (t_categories (tables w)))"

definition marketsOpenInterest :: "world \<Rightarrow> string \<Rightarrow> bn" where
  "marketsOpenInterest w c =
     sum_list (map mk_openInterest (filter (\<lambda>m. mk_category m = c) (t_markets (tables w))))"

definition categoryDrift :: "world \<Rightarrow> string \<Rightarrow> bn option" where
  "categoryDrift w c = map_option (\<lambda>oi. oi - marketsOpenInterest w c) (categoryOpenInterest w c)"

lemma sum_update_one:
  fixes g :: "'r \<Rightarrow> bn"
  assumes "sorted_wrt (\<lambda>x y. key x \<noteq> key y) rs" "find (\<lambda>r. key r = k) rs = Some m"
    "\<And>r. key (f r) = key r" "\<And>r. P (f r) = P r"
  shows "sum_list (map g (filter P (map (\<lambda>r. if key r = k then f r else r) rs))) =
    sum_list (map g (filter P rs)) + (if P m then g (f m) - g m else 0)"
  using assms(1,2)
proof (induction rs)
  case (Cons r rs)
  show ?case
  proof (cases "key r = k")
    case True
    with Cons.prems have "map (\<lambda>r. if key r = k then f r else r) rs = rs"
      by (intro map_idI) auto
    with True Cons.prems show ?thesis by (simp add: assms)
  next
    case False
    with Cons show ?thesis by simp
  qed
qed simp

lemma valid_markets: "markets.valid_table w \<Longrightarrow>
    sorted_wrt (\<lambda>x y. mk_marketId x \<noteq> mk_marketId y) (t_markets (tables w))"
  unfolding markets.valid_table_def by (simp add: markets_def)

lemma updateMarketOpenInterest_run:
  "updateMarketOpenInterest env marketId w = (Inr (), w') \<longleftrightarrow>
    (\<exists>m tokenSupply oi w1. find (\<lambda>m. mk_marketId m = marketId) (t_markets (tables w)) = Some m \<and>
      firstSupply (\<lambda>t. tk_marketId t = Some marketId \<and> tk_symbol t = ''shares'') w = (Inr (Some tokenSupply), w) \<and>
      oi = convertFixedPointToDecimal (en_dv env) (tokenSupply * mk_numTicks m) BN_WEI_PER_ETHER \<and>
      update markets (\<lambda>m. mk_marketId m = marketId) (\<lambda>m. m\<lparr>mk_openInterest := oi\<rparr>) w = (Inr (), w1) \<and>
      updateCategoryAggregationsOnMarketOpenInterestChanged (mk_category m) (reportingStateOf w m)
        oi (mk_openInterest m) w1 = (Inr (), w'))"
  by (auto simp: updateMarketOpenInterest_def bindA_eq_Inr thenA_eq_Inr first_eq_Inr orThrow_eq_Inr
      gets_app Let_def firstSupply_def)

lemma categoryChanged_run:
  "updateCategoryAggregationsOnMarketOpenInterestChanged c st n old w = (Inr (), w') \<longleftrightarrow>
    (\<exists>row. find (\<lambda>r. ca_category r = c) (t_categories (tables w)) = Some row \<and>
      update categories (\<lambda>r. ca_category r = c) (\<lambda>r. r
       \<lparr>ca_openInterest := ca_openInterest row + (n - old),
        ca_nonFinalizedOpenInterest := (if st \<noteq> Some FINALIZED
          then ca_nonFinalizedOpenInterest row + (n - old) else ca_nonFinalizedOpenInterest r)\<rparr>) w
      = (Inr (), w'))"
  by (auto simp: updateCategoryAggregationsOnMarketOpenInterestChanged_def bindA_eq_Inr first_eq_Inr
      orThrow_eq_Inr Let_def)

lemma categoryOpenInterest_changed:
  assumes "updateCategoryAggregationsOnMarketOpenInterestChanged name st n old w = (Inr (), w')"
  shows "categoryOpenInterest w' c =
      map_option (\<lambda>x. x + (if name = c then n - old else 0)) (categoryOpenInterest w c)"
    and "t_markets (tables w') = t_markets (tables w)"
proof -
  obtain row where row: "find (\<lambda>r. ca_category r = name) (t_categories (tables w)) = Some row"
    and u: "update categories (\<lambda>r. ca_category r = name) (\<lambda>r. r
       \<lparr>ca_openInterest := ca_openInterest row + (n - old),
        ca_nonFinalizedOpenInterest := (if st \<noteq> Some FINALIZED
          then ca_nonFinalizedOpenInterest row + (n - old) else ca_nonFinalizedOpenInterest r)\<rparr>) w
      = (Inr (), w')" (is "update _ _ ?f _ = _")
    using assms unfolding categoryChanged_run by blast
  have t: "t_categories (tables w') =
      map (\<lambda>r. if ca_category r = name then ?f r else r) (t_categories (tables w))"
    and m: "t_markets (tables w') = t_markets (tables w)"
    using u unfolding update_eq_Inr by simp_all
  show "t_markets (tables w') = t_markets (tables w)" by (rule m)
  have f: "find (\<lambda>r. ca_category r = c) (t_categories (tables w')) =
      map_option (\<lambda>r. if ca_category r = name then ?f r else r)
        (find (\<lambda>r. ca_category r = c) (t_categories (tables w)))"
    unfolding t by (rule find_update_key) simp
  show "categoryOpenInterest w' c =
      map_option (\<lambda>x. x + (if name = c then n - old else 0)) (categoryOpenInterest w c)"
  proof (cases "find (\<lambda>r. ca_category r = c) (t_categories (tables w))")
    case None
    then show ?thesis by (simp add: categoryOpenInterest_def f)
  next
    case (Some x)
    then have "ca_category x = c" by (auto dest: find_SomeD)
    then have "categoryOpenInterest w' c = Some (if name = c then ca_openInterest row + (n - old)
        else ca_openInterest x)"
      using Some by (simp add: categoryOpenInterest_def f)
    then show ?thesis using Some row by (auto simp: categoryOpenInterest_def)
  qed
qed

text \<open>
  Updating the open interest of a market never changes the difference between the open interest
  recorded for a category and the sum of the open interest of the category's markets.
\<close>

theorem category_open_interest_is_sum:
  assumes "markets.valid_table w" "updateMarketOpenInterest env marketId w = (Inr (), w')"
  shows "categoryDrift w' c = categoryDrift w c"
proof -
  obtain m tokenSupply oi w1 where m: "find (\<lambda>m. mk_marketId m = marketId) (t_markets (tables w)) = Some m"
    and w1: "update markets (\<lambda>m. mk_marketId m = marketId) (\<lambda>m. m\<lparr>mk_openInterest := oi\<rparr>) w = (Inr (), w1)"
    and w': "updateCategoryAggregationsOnMarketOpenInterestChanged (mk_category m) (reportingStateOf w m)
        oi (mk_openInterest m) w1 = (Inr (), w')"
    using assms(2) unfolding updateMarketOpenInterest_run by blast
  have tm: "t_markets (tables w1) = map (\<lambda>m. if mk_marketId m = marketId then m\<lparr>mk_openInterest := oi\<rparr> else m)
      (t_markets (tables w))"
    and tc: "t_categories (tables w1) = t_categories (tables w)"
    using w1 unfolding update_eq_Inr by simp_all
  have "marketsOpenInterest w' c = marketsOpenInterest w c
      + (if mk_category m = c then oi - mk_openInterest m else 0)"
  proof -
    have "sum_list (map mk_openInterest (filter (\<lambda>m. mk_category m = c) (map (\<lambda>r.
        if mk_marketId r = marketId then r\<lparr>mk_openInterest := oi\<rparr> else r) (t_markets (tables w))))) =
      sum_list (map mk_openInterest (filter (\<lambda>m. mk_category m = c) (t_markets (tables w)))) +
      (if mk_category m = c then mk_openInterest (m\<lparr>mk_openInterest := oi\<rparr>) - mk_openInterest m else 0)"
      by (rule sum_update_one [OF valid_markets [OF assms(1)] m]) simp_all
    then show ?thesis
      unfolding marketsOpenInterest_def categoryOpenInterest_changed(2) [OF w'] tm by simp
  qed
  moreover have "categoryOpenInterest w' c = map_option
      (\<lambda>x. x + (if mk_category m = c then oi - mk_openInterest m else 0)) (categoryOpenInterest w c)"
    using categoryOpenInterest_changed(1) [OF w', of c] tc by (simp add: categoryOpenInterest_def)
  ultimately show ?thesis
    by (cases "categoryOpenInterest w c") (simp_all add: categoryDrift_def)
qed

section \<open>Rebuilding from the trades\<close>

definition tradesOf :: "(trades_row \<Rightarrow> bool) \<Rightarrow> markets_row \<Rightarrow> trades_row list \<Rightarrow> trades_row list" where
  "tradesOf P m ts = filter (\<lambda>t. td_marketId t = mk_marketId m \<and> P t) ts"

definition volumeOf :: "(trades_row \<Rightarrow> bool) \<Rightarrow> markets_row \<Rightarrow> trades_row list \<Rightarrow> bn" where
  "volumeOf P m ts =
     sum_list (map (volumeForTrade (mk_minPrice m) (mk_maxPrice m)) (tradesOf P m ts))"

lemma map_of_addVolume:
  "map_of (addVolume k v vs) j =
    (if j = k then Some ((case map_of vs k of None \<Rightarrow> 0 | Some x \<Rightarrow> x) + v) else map_of vs j)"
  by (auto simp: addVolume_def update_conv' split: option.split)

lemma distinct_addVolume: "distinct (map fst vs) \<Longrightarrow> distinct (map fst (addVolume k v vs))"
  by (simp add: addVolume_def distinct_update)

lemma marketsById:
  assumes "sorted_wrt (\<lambda>x y. mk_marketId x \<noteq> mk_marketId y) ms"
  shows "map_of (foldl (\<lambda>acc m. AList.update (mk_marketId m) m acc) al ms) k =
    (case find (\<lambda>m. mk_marketId m = k) ms of None \<Rightarrow> map_of al k | Some m \<Rightarrow> Some m)"
  using assms
proof (induction ms arbitrary: al)
  case (Cons m ms)
  have "find (\<lambda>x. mk_marketId x = mk_marketId m) ms = None"
    using Cons.prems by (auto simp: find_None_iff)
  with Cons show ?case by (auto simp: update_conv' split: option.split)
qed simp

text \<open>The result for a market and for an outcome, \<open>None\<close> when it has no trade.\<close>

definition marketVolume :: "volumes \<Rightarrow> address \<Rightarrow> bn option" where
  "marketVolume v k = map_of (fst v) k"

definition outcomeVolume :: "volumes \<Rightarrow> address \<Rightarrow> int \<Rightarrow> bn option" where
  "outcomeVolume v k p = (case map_of (snd v) k of None \<Rightarrow> None | Some vs \<Rightarrow> map_of vs p)"

definition wf_volumes :: "volumes \<Rightarrow> bool" where
  "wf_volumes v \<longleftrightarrow> distinct (map fst (fst v)) \<and> distinct (map fst (snd v)) \<and>
     (\<forall>(k, vs) \<in> set (snd v). distinct (map fst vs))"

definition addTrade :: "markets_row \<Rightarrow> trades_row \<Rightarrow> volumes \<Rightarrow> volumes" where
  "addTrade m t v =
     (let vft = volumeForTrade (mk_minPrice m) (mk_maxPrice m) t;
          byOutcome = (case map_of (snd v) (td_marketId t) of None \<Rightarrow> [] | Some vs \<Rightarrow> vs)
      in (addVolume (td_marketId t) vft (fst v),
          AList.update (td_marketId t) (addVolume (td_outcome t) vft byOutcome) (snd v)))"

lemma addTrade_volumes:
  "marketVolume (addTrade m t v) k = (if k = td_marketId t
     then Some ((case marketVolume v k of None \<Rightarrow> 0 | Some x \<Rightarrow> x)
            + volumeForTrade (mk_minPrice m) (mk_maxPrice m) t) else marketVolume v k)"
  "outcomeVolume (addTrade m t v) k p = (if k = td_marketId t \<and> p = td_outcome t
     then Some ((case outcomeVolume v k p of None \<Rightarrow> 0 | Some x \<Rightarrow> x)
            + volumeForTrade (mk_minPrice m) (mk_maxPrice m) t) else outcomeVolume v k p)"
  by (auto simp: addTrade_def marketVolume_def outcomeVolume_def Let_def map_of_addVolume
      update_conv' split: option.split)

lemma addTrade_wf: "wf_volumes v \<Longrightarrow> wf_volumes (addTrade m t v)"
proof -
  assume w: "wf_volumes v"
  let ?vs = "case map_of (snd v) (td_marketId t) of None \<Rightarrow> [] | Some vs \<Rightarrow> vs"
  have "distinct (map fst ?vs)"
    using w by (auto simp: wf_volumes_def split: option.split dest!: map_of_SomeD)
  moreover have "(k, vs) \<in> set (AList.update a b al) \<Longrightarrow> (k, vs) = (a, b) \<or> (k, vs) \<in> set al"
    for k vs a b and al :: "(address \<times> (int \<times> bn) list) list"
    by (induction al) (auto split: if_splits)
  ultimately show ?thesis
    using w by (fastforce simp: wf_volumes_def addTrade_def Let_def distinct_addVolume distinct_update)
qed

definition marketOf :: "markets_row list \<Rightarrow> trades_row \<Rightarrow> markets_row option" where
  "marketOf ms t = find (\<lambda>m. mk_marketId m = td_marketId t) ms"

lemma calculate_run:
  assumes "sorted_wrt (\<lambda>x y. mk_marketId x \<noteq> mk_marketId y) ms" "\<forall>t \<in> set ts. marketOf ms t \<noteq> None"
  shows "calculateVolumeForAllMarkets ms ts =
    Inr (foldl (\<lambda>v t. addTrade (the (marketOf ms t)) t v) ([], []) ts)"
proof -
  have ms: "map_of (foldl (\<lambda>acc m. AList.update (mk_marketId m) m acc) [] ms) (td_marketId t) =
      marketOf ms t" for t
    using marketsById [OF assms(1), of "[]"] by (simp add: marketOf_def split: option.split)
  show ?thesis
    unfolding calculateVolumeForAllMarkets_def Let_def
    by (rule foldE_total) (use assms(2) in \<open>auto simp: ms addTrade_def Let_def\<close>)
qed

lemma rebuilt_volumes:
  fixes v :: volumes and ts :: "trades_row list"
  assumes "sorted_wrt (\<lambda>x y. mk_marketId x \<noteq> mk_marketId y) ms" "m \<in> set ms"
  defines "res \<equiv> foldl (\<lambda>v t. addTrade (the (marketOf ms t)) t v) v ts"
  shows "marketVolume res (mk_marketId m) = (if tradesOf (\<lambda>_. True) m ts = []
      then marketVolume v (mk_marketId m)
      else Some ((case marketVolume v (mk_marketId m) of None \<Rightarrow> 0 | Some x \<Rightarrow> x)
             + volumeOf (\<lambda>_. True) m ts))"
    and "outcomeVolume res (mk_marketId m) p = (if tradesOf (\<lambda>t. td_outcome t = p) m ts = []
      then outcomeVolume v (mk_marketId m) p
      else Some ((case outcomeVolume v (mk_marketId m) p of None \<Rightarrow> 0 | Some x \<Rightarrow> x)
             + volumeOf (\<lambda>t. td_outcome t = p) m ts))"
    and "wf_volumes v \<Longrightarrow> wf_volumes res"
proof -
  have find: "find (\<lambda>x. mk_marketId x = mk_marketId m) ms = Some m"
    using assms(1,2) by (induction ms) auto
  have "marketVolume (foldl (\<lambda>v t. addTrade (the (marketOf ms t)) t v) v ts) (mk_marketId m) =
      (if tradesOf (\<lambda>_. True) m ts = [] then marketVolume v (mk_marketId m)
       else Some ((case marketVolume v (mk_marketId m) of None \<Rightarrow> 0 | Some x \<Rightarrow> x)
              + volumeOf (\<lambda>_. True) m ts)) \<and>
    outcomeVolume (foldl (\<lambda>v t. addTrade (the (marketOf ms t)) t v) v ts) (mk_marketId m) p =
      (if tradesOf (\<lambda>t. td_outcome t = p) m ts = [] then outcomeVolume v (mk_marketId m) p
       else Some ((case outcomeVolume v (mk_marketId m) p of None \<Rightarrow> 0 | Some x \<Rightarrow> x)
              + volumeOf (\<lambda>t. td_outcome t = p) m ts)) \<and>
    (wf_volumes v \<longrightarrow> wf_volumes (foldl (\<lambda>v t. addTrade (the (marketOf ms t)) t v) v ts))"
  proof (induction ts arbitrary: v)
    case (Cons t ts)
    show ?case
      using Cons.IH [of "addTrade (the (marketOf ms t)) t v"] find addTrade_wf [of v]
      by (auto simp: addTrade_volumes tradesOf_def volumeOf_def marketOf_def)
  qed (simp add: tradesOf_def volumeOf_def)
  then show "marketVolume res (mk_marketId m) = (if tradesOf (\<lambda>_. True) m ts = []
      then marketVolume v (mk_marketId m)
      else Some ((case marketVolume v (mk_marketId m) of None \<Rightarrow> 0 | Some x \<Rightarrow> x)
             + volumeOf (\<lambda>_. True) m ts))"
    "outcomeVolume res (mk_marketId m) p = (if tradesOf (\<lambda>t. td_outcome t = p) m ts = []
      then outcomeVolume v (mk_marketId m) p
      else Some ((case outcomeVolume v (mk_marketId m) p of None \<Rightarrow> 0 | Some x \<Rightarrow> x)
             + volumeOf (\<lambda>t. td_outcome t = p) m ts))"
    "wf_volumes v \<Longrightarrow> wf_volumes res"
    unfolding res_def by blast+
qed

text \<open>Writing the result: every market and outcome that has a volume gets it.\<close>

definition outcomePairs :: "(address \<times> (int \<times> bn) list) list \<Rightarrow> ((address \<times> int) \<times> bn) list" where
  "outcomePairs bo = concat (map (\<lambda>(k, vs). map (\<lambda>(p, x). ((k, p), x)) vs) bo)"

lemma map_of_outcomePairs:
  assumes "distinct (map fst bo)"
  shows "map_of (outcomePairs bo) (k, p) =
    (case map_of bo k of None \<Rightarrow> None | Some vs \<Rightarrow> map_of vs p)"
proof -
  have one: "map_of (map (\<lambda>(p, x). ((j, p), x)) vs) (k, p) = (if j = k then map_of vs p else None)"
    for j and vs :: "(int \<times> bn) list"
    by (induction vs) auto
  show ?thesis
    using assms
  proof (induction bo)
    case (Cons kv bo)
    obtain j vs where kv: "kv = (j, vs)" by (cases kv)
    have "map_of bo j = None" using Cons.prems by (simp add: kv map_of_eq_None_iff)
    with Cons show ?case
      by (auto simp: kv outcomePairs_def map_of_append one map_add_def split: option.split)
  qed (simp add: outcomePairs_def)
qed

lemma distinct_outcomePairs:
  assumes "distinct (map fst bo)" "\<forall>(k, vs) \<in> set bo. distinct (map fst vs)"
  shows "distinct (map fst (outcomePairs bo))"
  using assms
proof (induction bo)
  case (Cons kv bo)
  obtain j vs where kv: "kv = (j, vs)" by (cases kv)
  have keys: "fst ` set (outcomePairs bo) \<subseteq> {(k, p). k \<in> fst ` set bo}"
    by (force simp: outcomePairs_def)
  have head: "map fst (map (\<lambda>(p, x). ((j, p), x)) vs) = map (Pair j) (map fst vs)" by auto
  have "distinct (map (Pair j) (map fst vs))"
    unfolding distinct_map using Cons.prems(2) by (simp add: kv inj_on_def distinct_map)
  moreover have "fst ` set bo \<inter> {j} = {}" "distinct (map fst bo)" using Cons.prems(1) by (auto simp: kv)
  moreover have "set (map (Pair j) (map fst vs)) \<inter> fst ` set (outcomePairs bo) = {}"
    using keys calculation(2) by auto
  moreover have "outcomePairs (kv # bo) = map (\<lambda>(p, x). ((j, p), x)) vs @ outcomePairs bo"
    by (simp add: kv outcomePairs_def)
  ultimately show ?case
    using Cons.IH Cons.prems(2) unfolding map_append distinct_append head set_map
    by (simp only: map_append distinct_append head) (auto simp: kv)
qed (simp add: outcomePairs_def)

lemma forA_outcomePairs:
  "forA bo (\<lambda>(k, vs). forA vs (\<lambda>(p, x). g (k, p) x)) = forA (outcomePairs bo) (\<lambda>(kp, x). g kp x)"
proof (induction bo)
  case (Cons kv bo)
  obtain j vs where kv: "kv = (j, vs)" by (cases kv)
  have "forA vs (\<lambda>(p, x). g (j, p) x) = forA (map (\<lambda>(p, x). ((j, p), x)) vs) (\<lambda>(kp, x). g kp x)"
    by (induction vs) auto
  with Cons show ?case by (simp add: kv outcomePairs_def forA_append)
qed (simp add: outcomePairs_def)

lemma no_trades_no_volume:
  fixes v :: volumes
  assumes "\<forall>t \<in> set ts. td_marketId t \<noteq> k"
  shows "outcomeVolume (foldl (\<lambda>v t. addTrade (f t) t v) v ts) k p = outcomeVolume v k p"
  using assms by (induction ts arbitrary: v) (auto simp: addTrade_volumes)

definition rebuiltMarket :: "trades_row list \<Rightarrow> markets_row \<Rightarrow> markets_row" where
  "rebuiltMarket ts m = (if tradesOf (\<lambda>_. True) m ts = [] then m
     else m\<lparr>mk_volume := volumeOf (\<lambda>_. True) m ts\<rparr>)"

definition rebuiltOutcome :: "markets_row list \<Rightarrow> trades_row list \<Rightarrow> outcomes_row \<Rightarrow> outcomes_row" where
  "rebuiltOutcome ms ts u = (case find (\<lambda>m. mk_marketId m = oc_marketId u) ms of
     None \<Rightarrow> u
   | Some m \<Rightarrow> if tradesOf (\<lambda>t. td_outcome t = oc_outcome u) m ts = [] then u
       else u\<lparr>oc_volume := volumeOf (\<lambda>t. td_outcome t = oc_outcome u) m ts\<rparr>)"

definition rebuilt :: "world \<Rightarrow> world" where
  "rebuilt w = w\<lparr>tables := (tables w)
     \<lparr>t_markets := map (rebuiltMarket (t_trades (tables w))) (t_markets (tables w)),
      t_outcomes := map (rebuiltOutcome (t_markets (tables w)) (t_trades (tables w)))
        (t_outcomes (tables w))\<rparr>\<rparr>"

lemma valid_outcomes: "outcomes.valid_table w \<Longrightarrow> list_all (tcheck outcomes) (t_outcomes (tables w))"
  by (simp add: outcomes.valid_table_def)

lemma volumeForTrade_nonneg:
  assumes "tcheck trades t" "mn \<le> mx" shows "0 \<le> volumeForTrade mn mx t"
  using assms by (simp add: trades_def volumeForTrade_def)

lemma volumeOf_nonneg:
  assumes "trades.valid_table w" "mk_minPrice m \<le> mk_maxPrice m"
  shows "0 \<le> volumeOf P m (t_trades (tables w))"
proof -
  have "\<forall>t \<in> set (t_trades (tables w)). tcheck trades t"
    using assms(1) by (simp add: trades.valid_table_def list_all_iff)
  then show ?thesis
    using assms(2) by (auto simp: volumeOf_def tradesOf_def intro!: sum_list_nonneg volumeForTrade_nonneg)
qed

lemma markets_check_volume: "tcheck markets m \<Longrightarrow> 0 \<le> x \<Longrightarrow> tcheck markets (m\<lparr>mk_volume := x\<rparr>)"
  by (simp add: markets_def)

lemma outcomes_check_volume: "tcheck outcomes u \<Longrightarrow> 0 \<le> x \<Longrightarrow> tcheck outcomes (u\<lparr>oc_volume := x\<rparr>)"
  by (simp add: outcomes_def)

text \<open>The volumes that the rebuild computes from the trades of a database.\<close>

definition rebuiltVolumes :: "world \<Rightarrow> volumes" where
  "rebuiltVolumes w =
     foldl (\<lambda>v t. addTrade (the (marketOf (t_markets (tables w)) t)) t v) ([], []) (t_trades (tables w))"

definition trades_ok :: "world \<Rightarrow> bool" where
  "trades_ok w \<longleftrightarrow> markets.valid_table w \<and> outcomes.valid_table w \<and> trades.valid_table w \<and>
     (\<forall>t \<in> set (t_trades (tables w)). marketOf (t_markets (tables w)) t \<noteq> None) \<and>
     (\<forall>m \<in> set (t_markets (tables w)). mk_minPrice m \<le> mk_maxPrice m)"

lemma rebuiltVolumes_wf:
  assumes "trades_ok w" shows "wf_volumes (rebuiltVolumes w)"
proof (cases "t_markets (tables w)")
  case Nil
  with assms have "t_trades (tables w) = []"
    by (cases "t_trades (tables w)") (auto simp: trades_ok_def marketOf_def)
  then show ?thesis by (simp add: wf_volumes_def rebuiltVolumes_def)
next
  case (Cons m ms)
  then show ?thesis
    using rebuilt_volumes(3) [OF valid_markets, of w m "([], [])" "t_trades (tables w)"] assms
    by (simp add: wf_volumes_def rebuiltVolumes_def trades_ok_def)
qed

lemma rebuilt_market_volume:
  assumes "trades_ok w" "m \<in> set (t_markets (tables w))"
  shows "map_of (fst (rebuiltVolumes w)) (mk_marketId m) =
    (if tradesOf (\<lambda>_. True) m (t_trades (tables w)) = [] then None
     else Some (volumeOf (\<lambda>_. True) m (t_trades (tables w))))"
  using rebuilt_volumes(1) [OF valid_markets assms(2), of "([], [])" "t_trades (tables w)"] assms(1)
  by (simp add: marketVolume_def rebuiltVolumes_def trades_ok_def)

lemma rebuilt_outcome_volume:
  assumes "trades_ok w"
  shows "map_of (outcomePairs (snd (rebuiltVolumes w))) (oc_marketId u, oc_outcome u) =
    (case find (\<lambda>m. mk_marketId m = oc_marketId u) (t_markets (tables w)) of None \<Rightarrow> None
     | Some m \<Rightarrow> if tradesOf (\<lambda>t. td_outcome t = oc_outcome u) m (t_trades (tables w)) = [] then None
         else Some (volumeOf (\<lambda>t. td_outcome t = oc_outcome u) m (t_trades (tables w))))"
proof -
  let ?ms = "t_markets (tables w)" and ?ts = "t_trades (tables w)" and ?v = "rebuiltVolumes w"
  have pairs: "map_of (outcomePairs (snd ?v)) (oc_marketId u, oc_outcome u) =
      outcomeVolume ?v (oc_marketId u) (oc_outcome u)"
    using rebuiltVolumes_wf [OF assms]
    by (simp add: map_of_outcomePairs wf_volumes_def outcomeVolume_def)
  show ?thesis
  proof (cases "find (\<lambda>m. mk_marketId m = oc_marketId u) ?ms")
    case None
    then have "\<forall>t \<in> set ?ts. td_marketId t \<noteq> oc_marketId u"
      using assms by (auto simp: trades_ok_def marketOf_def find_None_iff)
    then have "outcomeVolume ?v (oc_marketId u) (oc_outcome u) = None"
      by (simp add: rebuiltVolumes_def no_trades_no_volume) (simp add: outcomeVolume_def)
    with None pairs show ?thesis by simp
  next
    case (Some m)
    then have m: "m \<in> set ?ms" "mk_marketId m = oc_marketId u" by (auto dest: find_SomeD)
    have "outcomeVolume ?v (oc_marketId u) (oc_outcome u) =
        (if tradesOf (\<lambda>t. td_outcome t = oc_outcome u) m ?ts = [] then None
         else Some (volumeOf (\<lambda>t. td_outcome t = oc_outcome u) m ?ts))"
      using rebuilt_volumes(2) [OF valid_markets m(1), of "([], [])" ?ts "oc_outcome u"] m(2) assms
      unfolding rebuiltVolumes_def trades_ok_def
      by (simp add: outcomeVolume_def [of "([], [])"])
    with Some pairs show ?thesis by simp
  qed
qed

lemma write_market_volumes:
  assumes "trades_ok w"
  shows "forA (fst (rebuiltVolumes w)) (\<lambda>(marketId, volumeInEth).
      update markets (\<lambda>m. mk_marketId m = marketId) (\<lambda>m. m\<lparr>mk_volume := volumeInEth\<rparr>)) w =
    (Inr (), tput markets (map (rebuiltMarket (t_trades (tables w))) (t_markets (tables w))) w)"
proof -
  let ?v = "rebuiltVolumes w" and ?ms = "t_markets (tables w)"
  note wf = rebuiltVolumes_wf [OF assms]
  have "tcheck markets (m\<lparr>mk_volume := x\<rparr>)"
    if "(k, x) \<in> set (fst ?v)" "m \<in> set ?ms" "mk_marketId m = k" for k x m
  proof -
    have "map_of (fst ?v) (mk_marketId m) = Some x" using that wf by (simp add: wf_volumes_def)
    then have "0 \<le> x"
      using rebuilt_market_volume [OF assms that(2)] volumeOf_nonneg [of w m] assms that(2)
      by (auto simp: trades_ok_def split: if_splits)
    then show ?thesis
      using assms that(2)
      by (auto simp: trades_ok_def markets.valid_table_def list_all_iff markets_check_volume)
  qed
  moreover have "map (\<lambda>m. case map_of (fst ?v) (mk_marketId m) of None \<Rightarrow> m
      | Some x \<Rightarrow> m\<lparr>mk_volume := x\<rparr>) ?ms = map (rebuiltMarket (t_trades (tables w))) ?ms"
    by (rule map_cong) (auto simp: rebuilt_market_volume [OF assms] rebuiltMarket_def)
  ultimately show ?thesis
    using markets.forA_updates [of "fst ?v" mk_marketId "\<lambda>x m. m\<lparr>mk_volume := x\<rparr>" w] wf
    by (simp add: wf_volumes_def del: map_eq_conv)
qed

lemma write_outcome_volumes:
  assumes "trades_ok w" "t_outcomes (tables w1) = t_outcomes (tables w)"
  shows "forA (snd (rebuiltVolumes w)) (\<lambda>(marketId, byOutcome). forA byOutcome (\<lambda>(outcome, volumeInEth).
        update outcomes (\<lambda>u. oc_marketId u = marketId \<and> oc_outcome u = outcome)
          (\<lambda>u. u\<lparr>oc_volume := volumeInEth\<rparr>))) w1 =
    (Inr (), tput outcomes (map (rebuiltOutcome (t_markets (tables w)) (t_trades (tables w)))
      (t_outcomes (tables w))) w1)"
proof -
  let ?ps = "outcomePairs (snd (rebuiltVolumes w))" and ?us = "t_outcomes (tables w)"
  have wf: "distinct (map fst ?ps)"
    using rebuiltVolumes_wf [OF assms(1)] distinct_outcomePairs by (simp add: wf_volumes_def)
  have check: "tcheck outcomes (u\<lparr>oc_volume := x\<rparr>)"
    if "(kp, x) \<in> set ?ps" "u \<in> set ?us" "(oc_marketId u, oc_outcome u) = kp" for kp x u
  proof -
    have "map_of ?ps (oc_marketId u, oc_outcome u) = Some x" using that wf by simp
    then have "0 \<le> x"
      using rebuilt_outcome_volume [OF assms(1), of u] volumeOf_nonneg [of w] assms(1)
      by (auto simp: trades_ok_def split: if_splits option.splits dest!: find_SomeD)
    then show ?thesis
      using valid_outcomes [of w] assms(1) that(2)
      by (auto simp: trades_ok_def list_all_iff outcomes_check_volume)
  qed
  have "map (\<lambda>u. case map_of ?ps (oc_marketId u, oc_outcome u) of None \<Rightarrow> u
      | Some x \<Rightarrow> u\<lparr>oc_volume := x\<rparr>) ?us =
      map (rebuiltOutcome (t_markets (tables w)) (t_trades (tables w))) ?us"
    by (rule map_cong)
      (auto simp: rebuilt_outcome_volume [OF assms(1)] rebuiltOutcome_def split: option.split)
  then have "forA ?ps (\<lambda>(kp, x). update outcomes (\<lambda>u. (oc_marketId u, oc_outcome u) = kp)
      (\<lambda>u. u\<lparr>oc_volume := x\<rparr>)) w1 = (Inr (), tput outcomes (map (rebuiltOutcome
      (t_markets (tables w)) (t_trades (tables w))) ?us) w1)"
    using outcomes.forA_updates [OF wf, of "\<lambda>u. (oc_marketId u, oc_outcome u)"
        "\<lambda>x u. u\<lparr>oc_volume := x\<rparr>" w1] check assms(2) by (simp del: map_eq_conv)
  then show ?thesis
    using forA_outcomePairs [of "snd (rebuiltVolumes w)" "\<lambda>kp x. update outcomes
      (\<lambda>u. (oc_marketId u, oc_outcome u) = kp) (\<lambda>u. u\<lparr>oc_volume := x\<rparr>)"] by simp
qed

text \<open>
  Rebuilding the volumes succeeds and changes nothing but volumes: every market and every outcome
  that has trades gets the sum of the volumes of its trades.
\<close>

theorem rebuild_sums_trades:
  assumes "trades_ok w"
  shows "rebuildVolumeForAllMarkets w = (Inr (), rebuilt w)"
proof -
  have ok: "sorted_wrt (\<lambda>x y. mk_marketId x \<noteq> mk_marketId y) (t_markets (tables w))"
    "\<forall>t \<in> set (t_trades (tables w)). marketOf (t_markets (tables w)) t \<noteq> None"
    using assms valid_markets by (auto simp: trades_ok_def)
  show ?thesis
    using write_market_volumes [OF assms] write_outcome_volumes [OF assms]
    by (simp add: rebuildVolumeForAllMarkets_def act_simps calculate_run [OF ok]
        rebuiltVolumes_def [symmetric] updateDBWithVolumeForAllMarkets_def rebuilt_def)
qed

section \<open>Incremental volume\<close>

text \<open>
  The volumes are exact for the trades \<open>ts\<close> when every market and outcome has the sum of the volumes of
  its trades. \<open>bounds\<close>: the part of a market that this depends on, apart from its volume.
\<close>

definition bounds :: "markets_row \<Rightarrow> address \<times> bn \<times> bn" where
  "bounds m = (mk_marketId m, mk_minPrice m, mk_maxPrice m)"

definition markets_exact :: "trades_row list \<Rightarrow> world \<Rightarrow> bool" where
  "markets_exact ts w \<longleftrightarrow>
     (\<forall>m \<in> set (t_markets (tables w)). mk_volume m = volumeOf (\<lambda>_. True) m ts)"

definition outcomes_exact :: "trades_row list \<Rightarrow> world \<Rightarrow> bool" where
  "outcomes_exact ts w \<longleftrightarrow> (\<forall>u \<in> set (t_outcomes (tables w)). \<forall>m \<in> set (t_markets (tables w)).
     mk_marketId m = oc_marketId u \<longrightarrow> oc_volume u = volumeOf (\<lambda>t. td_outcome t = oc_outcome u) m ts)"

lemma volumeOf_bounds: "bounds m = bounds m' \<Longrightarrow> volumeOf P m ts = volumeOf P m' ts"
  by (simp add: bounds_def volumeOf_def tradesOf_def)

text \<open>A step that leaves volumes, bounds and trades alone, and one that leaves the markets' bounds.\<close>

definition same_bounds :: "world \<Rightarrow> world \<Rightarrow> bool" where
  "same_bounds w w' \<longleftrightarrow>
     map bounds (t_markets (tables w')) = map bounds (t_markets (tables w)) \<and>
     t_trades (tables w') = t_trades (tables w) \<and>
     (markets.valid_table w \<longrightarrow> markets.valid_table w') \<and>
     (outcomes.valid_table w \<longrightarrow> outcomes.valid_table w')"

definition same_volumes :: "world \<Rightarrow> world \<Rightarrow> bool" where
  "same_volumes w w' \<longleftrightarrow> same_bounds w w' \<and> t_outcomes (tables w') = t_outcomes (tables w) \<and>
     map (\<lambda>m. (bounds m, mk_volume m)) (t_markets (tables w')) =
     map (\<lambda>m. (bounds m, mk_volume m)) (t_markets (tables w))"

lemma map_eq_mem: "map f xs = map f ys \<Longrightarrow> x \<in> set xs \<Longrightarrow> \<exists>y \<in> set ys. f y = f x"
  by (metis image_iff image_set)

lemma same_volumes_exact:
  assumes "same_volumes w w'"
  shows "markets_exact ts w \<Longrightarrow> markets_exact ts w'" "outcomes_exact ts w \<Longrightarrow> outcomes_exact ts w'"
proof -
  have m: "\<exists>m \<in> set (t_markets (tables w)). bounds m = bounds m' \<and> mk_volume m = mk_volume m'"
    if "m' \<in> set (t_markets (tables w'))" for m'
    using map_eq_mem [of "\<lambda>m. (bounds m, mk_volume m)" _ _ m'] assms that
    by (fastforce simp: same_volumes_def)
  show "markets_exact ts w'" if "markets_exact ts w"
    unfolding markets_exact_def
  proof
    fix m' assume "m' \<in> set (t_markets (tables w'))"
    then obtain x where "x \<in> set (t_markets (tables w))" "bounds x = bounds m'" "mk_volume x = mk_volume m'"
      using m by blast
    then show "mk_volume m' = volumeOf (\<lambda>_. True) m' ts"
      using that volumeOf_bounds [of x m'] by (auto simp: markets_exact_def)
  qed
  show "outcomes_exact ts w'" if "outcomes_exact ts w"
    unfolding outcomes_exact_def
  proof (intro ballI impI)
    fix u m' assume u: "u \<in> set (t_outcomes (tables w'))" "m' \<in> set (t_markets (tables w'))"
      "mk_marketId m' = oc_marketId u"
    then obtain x where x: "x \<in> set (t_markets (tables w))" "bounds x = bounds m'" using m by blast
    then have "mk_marketId x = oc_marketId u" using u(3) by (simp add: bounds_def)
    then show "oc_volume u = volumeOf (\<lambda>t. td_outcome t = oc_outcome u) m' ts"
      using that u(1) x assms volumeOf_bounds [OF x(2)] by (auto simp: outcomes_exact_def same_volumes_def)
  qed
qed

lemma markets_update_same:
  assumes "update markets (\<lambda>m. mk_marketId m = k) f w = (Inr (), w')"
    "\<And>m. bounds (f m) = bounds m"
  shows "same_bounds w w'"
    and "(\<And>m. mk_volume (f m) = mk_volume m) \<Longrightarrow> same_volumes w w'"
    and "t_outcomes (tables w') = t_outcomes (tables w)"
proof -
  have id: "mk_marketId (f m) = mk_marketId m" for m using assms(2) [of m] by (simp add: bounds_def)
  have t: "t_markets (tables w') = map (\<lambda>m. if mk_marketId m = k then f m else m) (t_markets (tables w))"
    "t_trades (tables w') = t_trades (tables w)" "t_outcomes (tables w') = t_outcomes (tables w)"
    using assms(1) by (simp_all add: update_eq_Inr)
  have "markets.valid_table w \<Longrightarrow> markets.valid_table w'"
    using markets.update_valid [OF _ assms(1)] id by (simp add: markets_def)
  then show b: "same_bounds w w'"
    using t assms(2) by (simp add: same_bounds_def outcomes.valid_table_def)
  show "same_volumes w w'" if "\<And>m. mk_volume (f m) = mk_volume m"
    using b t assms(2) that by (simp add: same_volumes_def)
  show "t_outcomes (tables w') = t_outcomes (tables w)" by (rule t)
qed

lemma volumeOf_snoc:
  "volumeOf P m (ts @ [t]) = volumeOf P m ts + (if td_marketId t = mk_marketId m \<and> P t
     then volumeForTrade (mk_minPrice m) (mk_maxPrice m) t else 0)"
  by (simp add: volumeOf_def tradesOf_def)

lemma incrementMarketVolume_exact:
  assumes "incrementMarketVolume (td_marketId t) a t True w = (Inr (), w')" "markets.valid_table w"
  shows "markets_exact ts w \<Longrightarrow> markets_exact (ts @ [t]) w'"
    and "outcomes_exact ts w \<Longrightarrow> outcomes_exact ts w'" and "same_bounds w w'"
    and "t_outcomes (tables w') = t_outcomes (tables w)"
    and "marketOf (t_markets (tables w)) t \<noteq> None"
proof -
  from assms(1) obtain m where m: "find (\<lambda>m. mk_marketId m = td_marketId t) (t_markets (tables w)) = Some m"
    and u: "update markets (\<lambda>m. mk_marketId m = td_marketId t) (\<lambda>x. x
       \<lparr>mk_volume := mk_volume m + volumeForTrade (mk_minPrice m) (mk_maxPrice m) t,
        mk_shareVolume := a + mk_shareVolume m\<rparr>) w = (Inr (), w')"
    by (auto simp: incrementMarketVolume_def bindA_eq_Inr first_eq_Inr orThrow_eq_Inr Let_def)
  show "marketOf (t_markets (tables w)) t \<noteq> None" by (simp add: marketOf_def m)
  show b: "same_bounds w w'" and o: "t_outcomes (tables w') = t_outcomes (tables w)"
    using markets_update_same [OF u] by (simp_all add: bounds_def)
  have unique: "x = m" if "x \<in> set (t_markets (tables w))" "mk_marketId x = td_marketId t" for x
    using find_unique [OF valid_markets [OF assms(2)] m that] .
  have t: "t_markets (tables w') = map (\<lambda>x. if mk_marketId x = td_marketId t then x
       \<lparr>mk_volume := mk_volume m + volumeForTrade (mk_minPrice m) (mk_maxPrice m) t,
        mk_shareVolume := a + mk_shareVolume m\<rparr> else x) (t_markets (tables w))"
    using u by (simp add: update_eq_Inr)
  show "markets_exact (ts @ [t]) w'" if "markets_exact ts w"
    unfolding markets_exact_def
  proof
    fix m' assume "m' \<in> set (t_markets (tables w'))"
    then obtain x where x: "x \<in> set (t_markets (tables w))"
      "m' = (if mk_marketId x = td_marketId t then x
       \<lparr>mk_volume := mk_volume m + volumeForTrade (mk_minPrice m) (mk_maxPrice m) t,
        mk_shareVolume := a + mk_shareVolume m\<rparr> else x)" by (auto simp: t)
    then have "volumeOf (\<lambda>_. True) m' (ts @ [t]) = volumeOf (\<lambda>_. True) x (ts @ [t])"
      by (intro volumeOf_bounds) (simp add: bounds_def)
    moreover have "mk_volume x = volumeOf (\<lambda>_. True) x ts" using that x(1) by (simp add: markets_exact_def)
    ultimately show "mk_volume m' = volumeOf (\<lambda>_. True) m' (ts @ [t])"
      using x(2) unique [OF x(1)] by (simp add: volumeOf_snoc)
  qed
  show "outcomes_exact ts w'" if "outcomes_exact ts w"
    unfolding outcomes_exact_def
  proof (intro ballI impI)
    fix v m' assume v: "v \<in> set (t_outcomes (tables w'))" "m' \<in> set (t_markets (tables w'))"
      "mk_marketId m' = oc_marketId v"
    then obtain x where x: "x \<in> set (t_markets (tables w))" "bounds x = bounds m'"
      by (auto simp: t bounds_def split: if_splits)
    then have "mk_marketId x = oc_marketId v" using v(3) by (simp add: bounds_def)
    then show "oc_volume v = volumeOf (\<lambda>t. td_outcome t = oc_outcome v) m' ts"
      using that v(1) x(1) o volumeOf_bounds [OF x(2)] by (auto simp: outcomes_exact_def)
  qed
qed

lemma incrementOutcomeVolume_exact:
  assumes "incrementOutcomeVolume (td_marketId t) (td_outcome t) a t True w = (Inr (), w')"
    "markets.valid_table w" "outcomes.valid_table w"
  shows "markets_exact ts w \<Longrightarrow> markets_exact ts w'"
    and "outcomes_exact ts w \<Longrightarrow> outcomes_exact (ts @ [t]) w'" and "same_bounds w w'"
proof -
  let ?P = "\<lambda>u. oc_marketId u = td_marketId t \<and> oc_outcome u = td_outcome t"
  from assms(1) obtain m u0 where m: "find (\<lambda>m. mk_marketId m = td_marketId t) (t_markets (tables w)) = Some m"
    and u0: "find ?P (t_outcomes (tables w)) = Some u0"
    and u: "update outcomes ?P (\<lambda>x. x
       \<lparr>oc_volume := oc_volume u0 + volumeForTrade (mk_minPrice m) (mk_maxPrice m) t,
        oc_shareVolume := a + oc_shareVolume u0\<rparr>) w = (Inr (), w')" (is "update _ _ ?f _ = _")
    by (auto simp: incrementOutcomeVolume_def bindA_eq_Inr first_eq_Inr orThrow_eq_Inr Let_def)
  have t: "t_outcomes (tables w') = map (\<lambda>x. if ?P x then ?f x else x) (t_outcomes (tables w))"
    and o: "t_markets (tables w') = t_markets (tables w)" "t_trades (tables w') = t_trades (tables w)"
    using u by (simp_all add: update_eq_Inr)
  have "outcomes.valid_table w'"
    using outcomes.update_valid [OF assms(3) u] by (simp add: outcomes_def)
  then show "same_bounds w w'" using o by (simp add: same_bounds_def markets.valid_table_def)
  show "markets_exact ts w'" if "markets_exact ts w" using that o by (simp add: markets_exact_def)
  have keys: "sorted_wrt (\<lambda>x y. (oc_marketId x, oc_outcome x) \<noteq> (oc_marketId y, oc_outcome y))
      (t_outcomes (tables w))"
    using assms(3) unfolding outcomes.valid_table_def by (simp add: outcomes_def)
  have one: "x = u0" if "x \<in> set (t_outcomes (tables w))" "?P x" for x
    using find_unique [OF keys, of "(td_marketId t, td_outcome t)" u0 x] u0 that by simp
  have mkt: "x = m" if "x \<in> set (t_markets (tables w))" "mk_marketId x = td_marketId t" for x
    using find_unique [OF valid_markets [OF assms(2)] m that] .
  show "outcomes_exact (ts @ [t]) w'" if "outcomes_exact ts w"
    unfolding outcomes_exact_def
  proof (intro ballI impI)
    fix v x assume v: "v \<in> set (t_outcomes (tables w'))" "x \<in> set (t_markets (tables w'))"
      "mk_marketId x = oc_marketId v"
    then obtain y where y: "y \<in> set (t_outcomes (tables w))" "v = (if ?P y then ?f y else y)"
      by (auto simp: t)
    then have k: "oc_marketId v = oc_marketId y" "oc_outcome v = oc_outcome y" by simp_all
    then have "oc_volume y = volumeOf (\<lambda>t. td_outcome t = oc_outcome y) x ts"
      using that v(2,3) y(1) o by (simp add: outcomes_exact_def)
    then show "oc_volume v = volumeOf (\<lambda>t. td_outcome t = oc_outcome v) x (ts @ [t])"
      using y(2) one [OF y(1)] mkt [of x] v(2,3) k o by (auto simp: volumeOf_snoc)
  qed
qed

lemma exact_unchanged:
  assumes "trades_ok w" "markets_exact (t_trades (tables w)) w" "outcomes_exact (t_trades (tables w)) w"
  shows "rebuilt w = w"
proof -
  have "map (rebuiltMarket (t_trades (tables w))) (t_markets (tables w)) = t_markets (tables w)"
    using assms(2) by (intro map_idI) (simp add: rebuiltMarket_def markets_exact_def)
  moreover have "map (rebuiltOutcome (t_markets (tables w)) (t_trades (tables w))) (t_outcomes (tables w))
      = t_outcomes (tables w)"
    using assms(3)
    by (intro map_idI) (auto simp: rebuiltOutcome_def outcomes_exact_def split: option.split
        dest!: find_SomeD)
  ultimately show ?thesis by (simp add: rebuilt_def)
qed

lemma marketOf_ids: "marketOf ms t \<noteq> None \<longleftrightarrow> td_marketId t \<in> mk_marketId ` set ms"
  unfolding marketOf_def find_None_iff by (force simp: image_iff)

lemma same_bounds_ids:
  assumes "same_bounds w w'"
  shows "mk_marketId ` set (t_markets (tables w')) = mk_marketId ` set (t_markets (tables w))"
proof -
  have "map mk_marketId ms = map fst (map bounds ms)" for ms by (simp add: bounds_def)
  then have "map mk_marketId (t_markets (tables w')) = map mk_marketId (t_markets (tables w))"
    using assms by (simp only: same_bounds_def)
  then show ?thesis by (metis list.set_map)
qed

lemma same_bounds_trades_ok:
  assumes "same_bounds w w'" "trades_ok w" shows "trades_ok w'"
proof -
  note ids = same_bounds_ids [OF assms(1)]
  have "mk_minPrice m \<le> mk_maxPrice m" if "m \<in> set (t_markets (tables w'))" for m
    using map_eq_mem [of bounds _ _ m] assms that
    by (fastforce simp: same_bounds_def bounds_def trades_ok_def)
  with assms ids show ?thesis
    by (simp add: same_bounds_def trades_ok_def trades.valid_table_def marketOf_ids del: not_None_eq)
qed

lemma same_bounds_trans: "same_bounds u v \<Longrightarrow> same_bounds v w \<Longrightarrow> same_bounds u w"
  by (auto simp: same_bounds_def)

lemma same_volumes_bounds: "same_volumes w w' \<Longrightarrow> same_bounds w w'"
  by (simp add: same_volumes_def)

lemma openInterest_same_volumes:
  assumes "updateMarketOpenInterest env k w = (Inr (), w')" shows "same_volumes w w'"
proof -
  from assms obtain oi w1 c st n old where
    u: "update markets (\<lambda>m. mk_marketId m = k) (\<lambda>m. m\<lparr>mk_openInterest := oi\<rparr>) w = (Inr (), w1)"
    and c: "updateCategoryAggregationsOnMarketOpenInterestChanged c st n old w1 = (Inr (), w')"
    unfolding updateMarketOpenInterest_run by blast
  have "same_volumes w w1" using markets_update_same(2) [OF u] by (simp add: bounds_def)
  moreover have "t_markets (tables w') = t_markets (tables w1)" "t_trades (tables w') = t_trades (tables w1)"
    "t_outcomes (tables w') = t_outcomes (tables w1)"
    using c by (auto simp: categoryChanged_run update_eq_Inr)
  ultimately show ?thesis
    by (simp add: same_volumes_def same_bounds_def markets.valid_table_def outcomes.valid_table_def)
qed

lemma updateVolumetrics_run:
  assumes "updateVolumetrics env k p bnum orderId tickSize b w = (Inr (), w')"
  obtains so t w2 w3 w4 w5 where
    "update markets (\<lambda>m. mk_marketId m = k) (\<lambda>m. m\<lparr>mk_sharesOutstanding := so\<rparr>) w = (Inr (), w2)"
    "find (\<lambda>t. td_marketId t = k \<and> td_outcome t = p \<and> td_orderId t = orderId \<and> td_blockNumber t = bnum)
       (t_trades (tables w)) = Some t"
    "incrementMarketVolume k (if b then td_amount t else - td_amount t) t b w2 = (Inr (), w3)"
    "incrementOutcomeVolume k p (if b then td_amount t else - td_amount t) t b w3 = (Inr (), w4)"
    "setMarketLastTrade k bnum w4 = (Inr (), w5)"
    "updateMarketOpenInterest env k w5 = (Inr (), w')"
proof -
  from assms obtain so t w2 w3 w4 w5 where
    s: "update markets (\<lambda>m. mk_marketId m = k) (\<lambda>m. m\<lparr>mk_sharesOutstanding := so\<rparr>) w = (Inr (), w2)"
    and f: "find (\<lambda>t. td_marketId t = k \<and> td_outcome t = p \<and> td_orderId t = orderId \<and> td_blockNumber t = bnum)
       (t_trades (tables w2)) = Some t"
    and r: "incrementMarketVolume k (if b then td_amount t else - td_amount t) t b w2 = (Inr (), w3)"
    "incrementOutcomeVolume k p (if b then td_amount t else - td_amount t) t b w3 = (Inr (), w4)"
    "setMarketLastTrade k bnum w4 = (Inr (), w5)"
    "updateMarketOpenInterest env k w5 = (Inr (), w')"
    by (auto simp: updateVolumetrics_def bindA_eq_Inr thenA_eq_Inr first_eq_Inr orThrow_eq_Inr Let_def
        firstSupply_def gets_app)
  have "t_trades (tables w2) = t_trades (tables w)" using s by (simp add: update_eq_Inr)
  with f have "find (\<lambda>t. td_marketId t = k \<and> td_outcome t = p \<and> td_orderId t = orderId \<and>
      td_blockNumber t = bnum) (t_trades (tables w)) = Some t" by simp
  from that [OF s this r] show ?thesis .
qed

text \<open>
  The volumes of a database are exact when they are the sums over its trades; a fill inserts the row of
  its trade and updates the volumetrics, which find the row by its market, outcome, order and block.
\<close>

definition exact_volumes :: "world \<Rightarrow> bool" where
  "exact_volumes w \<longleftrightarrow> trades_ok w \<and> markets_exact (t_trades (tables w)) w \<and> outcomes_exact (t_trades (tables w)) w"

definition fillOf :: "trades_row \<Rightarrow> address \<times> int \<times> bytes32 \<times> int" where
  "fillOf t = (td_marketId t, td_outcome t, td_orderId t, td_blockNumber t)"

definition recordFill :: "env \<Rightarrow> (trades_row \<Rightarrow> bn) \<Rightarrow> trades_row \<Rightarrow> unit action" where
  "recordFill env tickSize t = thenA (insertInto trades t)
     (updateVolumetrics env (td_marketId t) (td_outcome t) (td_blockNumber t) (td_orderId t) (tickSize t) True)"

lemma recordFill_exact:
  assumes "exact_volumes w" "fillOf t \<notin> fillOf ` set (t_trades (tables w))" "recordFill env tickSize t w = (Inr (), w')"
  shows "exact_volumes w' \<and> t_trades (tables w') = t_trades (tables w) @ [t]"
proof -
  let ?ts = "t_trades (tables w)"
  have ok: "trades_ok w" "markets_exact ?ts w" "outcomes_exact ?ts w" using assms(1) by (simp_all add: exact_volumes_def)
  obtain w1 where fill: "insertInto trades t w = (Inr (), w1)"
    and run: "updateVolumetrics env (td_marketId t) (td_outcome t) (td_blockNumber t) (td_orderId t)
      (tickSize t) True w1 = (Inr (), w')" using assms(3) by (auto simp: recordFill_def thenA_eq_Inr)
  have only: "\<forall>x \<in> set ?ts. \<not> (td_marketId x = td_marketId t \<and> td_outcome x = td_outcome t \<and>
      td_orderId x = td_orderId t \<and> td_blockNumber x = td_blockNumber t)"
    using assms(2) by (auto simp: fillOf_def image_iff)
  have w1: "t_trades (tables w1) = ?ts @ [t]" "t_markets (tables w1) = t_markets (tables w)"
    "t_outcomes (tables w1) = t_outcomes (tables w)" "trades.valid_table w1"
    using fill trades.insert_valid [OF _ fill] ok(1) by (auto simp: insertInto_eq_Inr trades_ok_def)
  have "find (\<lambda>x. td_marketId x = td_marketId t \<and> td_outcome x = td_outcome t \<and>
      td_orderId x = td_orderId t \<and> td_blockNumber x = td_blockNumber t) ?ts = None"
    using only by (auto simp: find_None_iff)
  then have found: "find (\<lambda>x. td_marketId x = td_marketId t \<and> td_outcome x = td_outcome t \<and>
      td_orderId x = td_orderId t \<and> td_blockNumber x = td_blockNumber t) (t_trades (tables w1)) = Some t"
    by (simp add: w1 find_append)
  from run obtain so w2 w3 w4 w5 where
    s1: "update markets (\<lambda>m. mk_marketId m = td_marketId t) (\<lambda>m. m\<lparr>mk_sharesOutstanding := so\<rparr>) w1 = (Inr (), w2)"
    and s2: "incrementMarketVolume (td_marketId t) (td_amount t) t True w2 = (Inr (), w3)"
    and s3: "incrementOutcomeVolume (td_marketId t) (td_outcome t) (td_amount t) t True w3 = (Inr (), w4)"
    and s4: "setMarketLastTrade (td_marketId t) (td_blockNumber t) w4 = (Inr (), w5)"
    and s5: "updateMarketOpenInterest env (td_marketId t) w5 = (Inr (), w')"
    by (rule updateVolumetrics_run) (simp add: found)
  have v1: "markets_exact ?ts w1" "outcomes_exact ?ts w1" "markets.valid_table w1" "outcomes.valid_table w1"
    using ok w1 by (simp_all add: markets_exact_def outcomes_exact_def trades_ok_def
        markets.valid_table_def outcomes.valid_table_def)
  have b1: "same_volumes w1 w2" using markets_update_same(2) [OF s1] by (simp add: bounds_def)
  have v2: "markets_exact ?ts w2" "outcomes_exact ?ts w2" "markets.valid_table w2" "outcomes.valid_table w2"
    using same_volumes_exact [OF b1] v1 b1 by (simp_all add: same_volumes_def same_bounds_def)
  note b2 = incrementMarketVolume_exact [OF s2 v2(3)]
  have v3: "markets.valid_table w3" "outcomes.valid_table w3"
    using b2(3) v2 by (simp_all add: same_bounds_def)
  note b3 = incrementOutcomeVolume_exact [OF s3 v3]
  have b4: "same_volumes w4 w5"
    using markets_update_same(2) [OF s4 [unfolded setMarketLastTrade_def]] by (simp add: bounds_def)
  note b5 = openInterest_same_volumes [OF s5]
  have same: "same_bounds w1 w'"
    using b1 b2(3) b3(3) b4 b5 same_bounds_trans same_volumes_bounds by blast
  then have ts: "t_trades (tables w') = ?ts @ [t]" by (simp add: same_bounds_def w1)
  have "markets_exact (?ts @ [t]) w4" using b2(1) [OF v2(1)] b3(1) by blast
  moreover have "outcomes_exact (?ts @ [t]) w4" using b2(2) [OF v2(2)] b3(2) by blast
  ultimately have "markets_exact (t_trades (tables w')) w'" "outcomes_exact (t_trades (tables w')) w'"
    using same_volumes_exact [OF b4] same_volumes_exact [OF b5] by (simp_all add: ts)
  moreover have "marketOf (t_markets (tables w1)) t \<noteq> None"
    using b2(5) same_bounds_ids [OF same_volumes_bounds [OF b1]] by (simp add: marketOf_ids del: not_None_eq)
  then have "trades_ok w1" using ok(1) w1 v1 by (simp add: trades_ok_def del: not_None_eq)
  then have "trades_ok w'" using same_bounds_trades_ok [OF same] by blast
  ultimately show ?thesis using ts by (simp add: exact_volumes_def)
qed

lemma recordFills_exact:
  assumes "exact_volumes w" "distinct (map fillOf (t_trades (tables w) @ ts))"
    "forA ts (recordFill env tickSize) w = (Inr (), w')"
  shows "exact_volumes w' \<and> t_trades (tables w') = t_trades (tables w) @ ts"
  using assms
proof (induction ts arbitrary: w)
  case Nil
  then show ?case by (simp add: return_app)
next
  case (Cons t ts)
  obtain w1 where w1: "recordFill env tickSize t w = (Inr (), w1)" "forA ts (recordFill env tickSize) w1 = (Inr (), w')"
    using Cons.prems(3) by (auto simp: thenA_eq_Inr)
  have "fillOf t \<notin> fillOf ` set (t_trades (tables w))" using Cons.prems(2) by auto
  from recordFill_exact [OF Cons.prems(1) this w1(1)] show ?case
    using Cons.IH [of w1] Cons.prems(2) w1(2) by simp
qed

text \<open>
  C13. Keeping the volumes fill by fill agrees with rebuilding them: from a database whose volumes are
  the sums of its trades, after any number of trades were inserted, each followed by the update of the
  volumetrics that handling its log makes, rebuilding all volumes from the trades changes nothing. The
  code looks the trade of a fill up by market, outcome, order and block, so no two of the trades may
  fill the same order in the same block (otherwise the first of them is counted twice).
\<close>

theorem incremental_volume_is_exact:
  assumes "exact_volumes w" "distinct (map fillOf (t_trades (tables w) @ ts))"
    "forA ts (recordFill env tickSize) w = (Inr (), w')"
  shows "rebuildVolumeForAllMarkets w' = (Inr (), w') \<and> t_trades (tables w') = t_trades (tables w) @ ts"
proof -
  from recordFills_exact [OF assms] have "exact_volumes w'" "t_trades (tables w') = t_trades (tables w) @ ts" by blast+
  then show ?thesis using rebuild_sums_trades exact_unchanged by (metis exact_volumes_def)
qed

section \<open>Examples\<close>

text \<open>The sample market with its two outcomes and share tokens, and one trade of two shares at 0.4.\<close>

definition sample_outcome :: "int \<Rightarrow> outcomes_row" where
  "sample_outcome p = \<lparr>oc_marketId = ''m'', oc_outcome = p, oc_price = 1 / 2, oc_volume = 0,
     oc_shareVolume = 0, oc_description = None, oc_spreadPercent = 1, oc_invalidROIPercent = 0,
     oc_bestBidTakerInvalidProfitTokens = 0, oc_bestAskTakerInvalidProfitTokens = 0\<rparr>"

definition sample_trade :: trades_row where
  "sample_trade = \<lparr>td_transactionHash = ''t'', td_logIndex = 0, td_blockNumber = 5, td_orderId = ''o'',
     td_marketId = ''m'', td_outcome = 1, td_shareToken = ''yes'', td_orderType = ''buy'',
     td_creator = ''alice'', td_filler = ''bob'', td_numCreatorTokens = 8 / 10, td_numCreatorShares = 0,
     td_numFillerTokens = 12 / 10, td_numFillerShares = 0, td_price = 4 / 10, td_amount = 2,
     td_marketCreatorFees = 0, td_reporterFees = 0, td_tradeGroupId = None\<rparr>"

definition share_token :: "string \<Rightarrow> int \<Rightarrow> tokens_row" where
  "share_token a p = \<lparr>tk_contractAddress = a, tk_symbol = ''shares'', tk_marketId = Some ''m'',
     tk_outcome = Some p, tk_feeWindow = None\<rparr>"

definition volume_world :: world where
  "volume_world = empty_world\<lparr>tables := empty_db\<lparr>t_markets := [sample_market],
     t_outcomes := [sample_outcome 0, sample_outcome 1],
     t_tokens := [share_token ''no'' 0, share_token ''yes'' 1],
     t_token_supply := [\<lparr>ts_token = ''no'', ts_supply = 20000\<rparr>, \<lparr>ts_token = ''yes'', ts_supply = 20000\<rparr>],
     t_categories := [\<lparr>ca_category = ''C'', ca_universe = ''u'', ca_openInterest = 0,
       ca_nonFinalizedOpenInterest = 0\<rparr>]\<rparr>\<rparr>"

lemma volume_world_sel:
  "t_markets (tables volume_world) = [sample_market]"
  "t_outcomes (tables volume_world) = [sample_outcome 0, sample_outcome 1]"
  "t_trades (tables volume_world) = []"
  "t_market_state (tables volume_world) = []"
  "t_tokens (tables volume_world) = [share_token ''no'' 0, share_token ''yes'' 1]"
  "t_token_supply (tables volume_world) =
    [\<lparr>ts_token = ''no'', ts_supply = 20000\<rparr>, \<lparr>ts_token = ''yes'', ts_supply = 20000\<rparr>]"
  "t_categories (tables volume_world) = [\<lparr>ca_category = ''C'', ca_universe = ''u'', ca_openInterest = 0,
     ca_nonFinalizedOpenInterest = 0\<rparr>]"
  by (simp_all add: volume_world_def empty_db_def)

lemma volume_world_ok: "trades_ok volume_world"
  by (simp add: trades_ok_def markets.valid_table_def outcomes.valid_table_def trades.valid_table_def
      volume_world_sel) (simp add: markets_def outcomes_def sample_market_def sample_outcome_def)

definition traded_world :: world where
  "traded_world = tput trades [sample_trade] volume_world"

lemma traded_world_sel:
  "t_trades (tables traded_world) = [sample_trade]"
  "t_markets (tables traded_world) = [sample_market]"
  "t_outcomes (tables traded_world) = [sample_outcome 0, sample_outcome 1]"
  by (simp_all add: traded_world_def volume_world_sel)

lemma sample_rows:
  "mk_marketId sample_market = ''m''" "mk_minPrice sample_market = 0" "mk_maxPrice sample_market = 1"
  "mk_volume sample_market = 0" "mk_shareVolume sample_market = 0"
  "oc_marketId (sample_outcome p) = ''m''" "oc_outcome (sample_outcome p) = p"
  "oc_volume (sample_outcome p) = 0" "oc_shareVolume (sample_outcome p) = 0"
  "td_marketId sample_trade = ''m''" "td_outcome sample_trade = 1"
  "volumeForTrade 0 1 sample_trade = 2"
  by (simp_all add: sample_market_def sample_outcome_def sample_trade_def volumeForTrade_def)

lemma traded_world_ok: "trades_ok traded_world"
  by (simp add: trades_ok_def markets.valid_table_def outcomes.valid_table_def trades.valid_table_def
      traded_world_sel marketOf_def table_constraints)
    (simp add: sample_trade_def sample_market_def sample_outcome_def)

lemma rebuilt_traded_world:
  "map mk_volume (t_markets (tables (rebuilt traded_world))) = [2]"
  "map oc_volume (t_outcomes (tables (rebuilt traded_world))) = [0, 2]"
  by (simp_all add: rebuilt_def traded_world_sel rebuiltMarket_def rebuiltOutcome_def tradesOf_def
      volumeOf_def sample_rows)

theorem rebuild_sums_trades_witness:
  "\<exists>w'. rebuildVolumeForAllMarkets traded_world = (Inr (), w') \<and>
    map mk_volume (t_markets (tables w')) = [2] \<and> map oc_volume (t_outcomes (tables w')) = [0, 2]"
  by (rule exI [of _ "rebuilt traded_world"])
    (simp only: rebuild_sums_trades [OF traded_world_ok] rebuilt_traded_world simp_thms)

text \<open>A second fill of the same order in the next block.\<close>

definition later_trade :: trades_row where
  "later_trade = sample_trade\<lparr>td_transactionHash := ''t2'', td_blockNumber := 6\<rparr>"

lemma two_fills: "\<exists>w'. forA [sample_trade, later_trade] (recordFill sample_env (\<lambda>_. 1 / 10000)) volume_world = (Inr (), w')"
  by (simp add: recordFill_def later_trade_def insertInto_def updateVolumetrics_def act_simps table_simps firstSupply_def volume_world_sel share_token_def
      sample_market_def sample_env_def sample_trade_def sample_outcome_def Let_def
      incrementMarketVolume_def incrementOutcomeVolume_def setMarketLastTrade_def
      updateMarketOpenInterest_def updateCategoryAggregationsOnMarketOpenInterestChanged_def
      reportingStateOf_def volumeForTrade_def bindA_assoc table_constraints)

theorem incremental_volume_is_exact_witness:
  "\<exists>w'. forA [sample_trade, later_trade] (recordFill sample_env (\<lambda>_. 1 / 10000)) volume_world = (Inr (), w') \<and>
    rebuildVolumeForAllMarkets w' = (Inr (), w') \<and> t_trades (tables w') = [sample_trade, later_trade]"
proof -
  obtain w' where run: "forA [sample_trade, later_trade] (recordFill sample_env (\<lambda>_. 1 / 10000)) volume_world = (Inr (), w')"
    using two_fills by blast
  have "exact_volumes volume_world"
    using volume_world_ok by (simp add: exact_volumes_def markets_exact_def outcomes_exact_def volume_world_sel
        volumeOf_def tradesOf_def sample_market_def sample_outcome_def)
  moreover have "distinct (map fillOf (t_trades (tables volume_world) @ [sample_trade, later_trade]))"
    by (simp add: volume_world_sel fillOf_def later_trade_def sample_trade_def)
  ultimately show ?thesis using incremental_volume_is_exact [OF _ _ run] run by (simp add: volume_world_sel)
qed

theorem category_open_interest_is_sum_witness:
  "\<exists>w'. updateMarketOpenInterest sample_env ''m'' volume_world = (Inr (), w') \<and>
    categoryDrift w' ''C'' = Some 0"
proof -
  have "\<exists>w'. updateMarketOpenInterest sample_env ''m'' volume_world = (Inr (), w')"
    by (simp add: updateMarketOpenInterest_def updateCategoryAggregationsOnMarketOpenInterestChanged_def
        act_simps table_simps firstSupply_def volume_world_sel share_token_def sample_market_def
        Let_def reportingStateOf_def bindA_assoc table_constraints)
  then obtain w' where run: "updateMarketOpenInterest sample_env ''m'' volume_world = (Inr (), w')" ..
  have "markets.valid_table volume_world" using volume_world_ok by (simp add: trades_ok_def)
  from category_open_interest_is_sum [OF this run, of "''C''"] run show ?thesis
    by (auto simp: categoryDrift_def categoryOpenInterest_def marketsOpenInterest_def volume_world_sel
        sample_market_def)
qed

end
