(* ===== verification/Market_State.thy ===== *)
theory Market_State
  imports Volumetrics
begin

text \<open>
  The reporting state of the markets, the fee windows, the payouts and the mailbox balance
  (\<open>blockchain/log-processors/database.ts\<close>).

  A market does not hold its reporting state: every change of state adds a row to \<open>market_state\<close>, and
  the market points to its latest row, so that a chain reorganisation can take the change back. The
  contract of this, \<open>state_log\<close>, is that of a stack per market; the tables refine it.

  The second half is about the fee windows: which of them a given time opens and closes.
\<close>

section \<open>Operations\<close>

text \<open>The largest of the auto-increment ids of the market's state rows, \<open>null\<close> without any.\<close>

definition latestId :: "market_state_row list \<Rightarrow> address \<Rightarrow> int option" where
  "latestId rows marketId =
     (case map ms_marketStateId (filter (\<lambda>s. ms_marketId s = marketId) rows) of
        [] \<Rightarrow> None | i # is \<Rightarrow> Some (foldl max i is))"

definition queryCurrentMarketStateId :: "world \<Rightarrow> address \<Rightarrow> int option" where
  "queryCurrentMarketStateId w marketId = latestId (t_market_state (tables w)) marketId"

definition setMarketStateToLatest :: "address \<Rightarrow> unit action" where
  "setMarketStateToLatest marketId =
     bindA (gets (\<lambda>w. queryCurrentMarketStateId w marketId)) (\<lambda>latest.
     update markets (\<lambda>m. mk_marketId m = marketId) (\<lambda>m. m\<lparr>mk_marketStateId := latest\<rparr>))"

definition getFeeWindow :: "env \<Rightarrow> address \<Rightarrow> bool \<Rightarrow> address action" where
  "getFeeWindow env universe next =
     bindA (gets (\<lambda>w. getCurrentTime w + (if next then DISPUTE_ROUND_DURATION_SECONDS env else 0)))
       (\<lambda>feeWindowAtTime.
     bindA (first fee_windows (\<lambda>f. fw_universe f = universe \<and> fw_startTime f < feeWindowAtTime \<and>
              feeWindowAtTime < fw_endTime f)) (\<lambda>feeWindowRow.
     case feeWindowRow of
       Some f \<Rightarrow> return (fw_feeWindow f)
     | None \<Rightarrow> liftR (getFeeWindowByTimestamp env feeWindowAtTime universe)))"

definition updateMarketFeeWindow :: "env \<Rightarrow> address \<Rightarrow> address \<Rightarrow> bool \<Rightarrow> unit action" where
  "updateMarketFeeWindow env universe marketId next =
     bindA (getFeeWindow env universe next) (\<lambda>feeWindow.
     update markets (\<lambda>m. mk_marketId m = marketId) (\<lambda>m. m\<lparr>mk_feeWindow := feeWindow\<rparr>))"

definition updateMarketState :: "address \<Rightarrow> int \<Rightarrow> ReportingState \<Rightarrow> unit action" where
  "updateMarketState marketId blockNumber reportingState =
     bindA newMarketStateId (\<lambda>marketStateId.
     thenA (insertInto market_state \<lparr>ms_marketStateId = marketStateId, ms_marketId = marketId,
              ms_reportingState = reportingState, ms_blockNumber = blockNumber\<rparr>)
       (setMarketStateToLatest marketId))"

definition rollbackMarketState :: "address \<Rightarrow> ReportingState \<Rightarrow> unit action" where
  "rollbackMarketState marketId expectedState =
     bindA (gets (\<lambda>w. queryCurrentMarketStateId w marketId)) (\<lambda>latest.
     bindA (deleteWhere market_state
              (\<lambda>s. Some (ms_marketStateId s) = latest \<and> ms_reportingState s = expectedState))
       (\<lambda>rowsAffected.
     if rowsAffected = 0
     then throw (Thrown ''Unable to rollback market: it is not the most current state'')
     else setMarketStateToLatest marketId))"

record FeeWindowModifications =
  expiredFeeWindows :: "address list"
  newActiveFeeWindows :: "address list"

definition updateActiveFeeWindows :: "int \<Rightarrow> int \<Rightarrow> FeeWindowModifications action" where
  "updateActiveFeeWindows blockNumber timestamp =
     bindA (select fee_windows (\<lambda>f. fw_state f \<noteq> PAST \<and> fw_endTime f < timestamp))
       (\<lambda>expiredFeeWindowRows.
     thenA (update fee_windows (\<lambda>f. fw_feeWindow f \<in> set (map fw_feeWindow expiredFeeWindowRows))
              (\<lambda>f. f\<lparr>fw_state := PAST\<rparr>))
    (bindA (select fee_windows (\<lambda>f. fw_state f \<noteq> CURRENT \<and> timestamp < fw_endTime f \<and>
              fw_startTime f < timestamp)) (\<lambda>newActiveFeeWindowRows.
     thenA (update fee_windows (\<lambda>f. fw_feeWindow f \<in> set (map fw_feeWindow newActiveFeeWindowRows))
              (\<lambda>f. f\<lparr>fw_state := CURRENT\<rparr>))
    (thenA (forA expiredFeeWindowRows (\<lambda>f. emit ''FeeWindowClosed'' (None :: base_log option)
              [(''blockNumber'', VI blockNumber), (''timestamp'', VI timestamp),
               (''feeWindow'', VS (fw_feeWindow f)), (''universe'', VS (fw_universe f))]))
    (thenA (forA newActiveFeeWindowRows (\<lambda>f. emit ''FeeWindowOpened'' (None :: base_log option)
              [(''blockNumber'', VI blockNumber), (''timestamp'', VI timestamp),
               (''feeWindow'', VS (fw_feeWindow f)), (''universe'', VS (fw_universe f))]))
    (return \<lparr>expiredFeeWindows = map fw_feeWindow expiredFeeWindowRows,
       newActiveFeeWindows = map fw_feeWindow newActiveFeeWindowRows\<rparr>))))))"

text \<open>
  The columns \<open>payout0\<close> to \<open>payout7\<close>, those that are not given \<open>null\<close>. The query for an existing
  payout constrains the given columns only.
\<close>

definition payoutColumns :: "bn option list \<Rightarrow> bn option list result" where
  "payoutColumns payoutNumerators =
     (if list_all (\<lambda>v. v = None) (drop 8 payoutNumerators)
      then Inr (take 8 (payoutNumerators @ replicate 8 None))
      else Inl (Thrown ''no such column''))"

definition insertPayout :: "address \<Rightarrow> bn option list \<Rightarrow> bool \<Rightarrow> bool \<Rightarrow> int action" where
  "insertPayout marketId payoutNumerators invalid tentativeWinning =
     bindA (liftR (payoutColumns payoutNumerators)) (\<lambda>columns.
     bindA (first payouts (\<lambda>p. po_marketId p = marketId \<and> po_isInvalid p = invalid \<and>
              list_all2 (\<lambda>v c. v = None \<or> c = v) columns (po_payouts p))) (\<lambda>payoutIdRow.
     case payoutIdRow of
       Some p \<Rightarrow> return (po_payoutId p)
     | None \<Rightarrow>
         bindA newPayoutId (\<lambda>payoutId.
         thenA (insertInto payouts \<lparr>po_payoutId = payoutId, po_marketId = marketId,
                  po_payouts = columns, po_isInvalid = invalid,
                  po_tentativeWinning = (if tentativeWinning then 1 else 0), po_winning = None\<rparr>)
           (return payoutId))))"

definition updateDisputeRound :: "address \<Rightarrow> unit action" where
  "updateDisputeRound marketId =
     bindA (countRows crowdsourcers (\<lambda>c. cs_completed c = Some 1 \<and> cs_marketId c = marketId))
       (\<lambda>completedRounds.
     update markets (\<lambda>m. mk_marketId m = marketId)
       (\<lambda>m. m\<lparr>mk_disputeRounds := Some (int completedRounds)\<rparr>))"

definition refreshMarketMailboxEthBalance :: "env \<Rightarrow> address \<Rightarrow> unit action" where
  "refreshMarketMailboxEthBalance env marketId =
     bindA (bindA (first markets (\<lambda>m. mk_marketId m = marketId))
              (orThrow (Thrown ''Could not get market creator mailbox''))) (\<lambda>marketCreatorMailboxRow.
     bindA (liftR (getBalance env (mk_marketCreatorMailbox marketCreatorMailboxRow))) (\<lambda>mailboxBalance.
     update markets (\<lambda>m. mk_marketId m = marketId)
       (\<lambda>m. m\<lparr>mk_marketCreatorFeesBalance := mailboxBalance\<rparr>)))"

section \<open>The contract of the state log\<close>

text \<open>
  \<open>hist w a\<close>: the states market \<open>a\<close> went through, the latest last. Changing the state pushes, rolling
  back pops what it expects on top, and is refused otherwise.
\<close>

locale state_log =
  fixes push :: "'a \<Rightarrow> int \<Rightarrow> 's \<Rightarrow> ('w, unit) act"
    and pop :: "'a \<Rightarrow> 's \<Rightarrow> ('w, unit) act"
    and hist :: "'w \<Rightarrow> 'a \<Rightarrow> 's list"
    and inv :: "'w \<Rightarrow> bool"
  assumes push_ok: "inv w \<Longrightarrow>
      \<exists>w'. push a b s w = (Inr (), w') \<and> inv w' \<and> hist w' = (hist w)(a := hist w a @ [s])"
    and pop_ok: "inv w \<Longrightarrow> hist w a = ss @ [s] \<Longrightarrow>
      \<exists>w'. pop a s w = (Inr (), w') \<and> inv w' \<and> hist w' = (hist w)(a := ss)"
    and pop_refused: "inv w \<Longrightarrow> hist w a = [] \<or> last (hist w a) \<noteq> s \<Longrightarrow> \<exists>e. pop a s w = (Inl e, w)"
begin

text \<open>A sequence of changes, and the same changes taken back last to first.\<close>

definition after :: "('a \<times> 's) list \<Rightarrow> ('a \<Rightarrow> 's list) \<Rightarrow> 'a \<Rightarrow> 's list" where
  "after cs h a = h a @ map snd (filter (\<lambda>c. fst c = a) cs)"

lemma pushes:
  "inv w \<Longrightarrow> \<exists>w'. forA cs (\<lambda>(a, s). push a b s) w = (Inr (), w') \<and> inv w' \<and> hist w' = after cs (hist w)"
proof (induction cs arbitrary: w)
  case Nil
  then show ?case by (auto simp: return_app after_def)
next
  case (Cons c cs)
  obtain a s where c: "c = (a, s)" by (cases c)
  obtain w1 where w1: "push a b s w = (Inr (), w1)" "inv w1" "hist w1 = (hist w)(a := hist w a @ [s])"
    using push_ok [OF Cons.prems] by blast
  obtain w2 where w2: "forA cs (\<lambda>(a, s). push a b s) w1 = (Inr (), w2)" "inv w2"
    "hist w2 = after cs (hist w1)"
    using Cons.IH [OF w1(2)] by blast
  have "after cs (hist w1) = after (c # cs) (hist w)" by (rule ext) (simp add: after_def w1(3) c)
  then show ?case using w1(1) w2 by (intro exI [of _ w2]) (simp add: c act_simps)
qed

lemma pops:
  "inv w \<Longrightarrow> hist w = after cs h \<Longrightarrow>
    \<exists>w'. forA (rev cs) (\<lambda>(a, s). pop a s) w = (Inr (), w') \<and> inv w' \<and> hist w' = h"
proof (induction cs arbitrary: w rule: rev_induct)
  case Nil
  then show ?case by (auto simp: return_app after_def)
next
  case (snoc c cs)
  obtain a s where c: "c = (a, s)" by (cases c)
  have "hist w a = after cs h a @ [s]" by (simp add: snoc.prems(2) after_def c)
  then obtain w1 where w1: "pop a s w = (Inr (), w1)" "inv w1"
    "hist w1 = (hist w)(a := after cs h a)"
    using pop_ok [OF snoc.prems(1)] by blast
  have "hist w1 = after cs h" by (rule ext) (simp add: w1(3) snoc.prems(2) after_def c)
  then obtain w2 where "forA (rev cs) (\<lambda>(a, s). pop a s) w1 = (Inr (), w2)" "inv w2" "hist w2 = h"
    using snoc.IH [OF w1(2)] by blast
  then show ?case using w1(1) by (intro exI [of _ w2]) (simp add: c act_simps)
qed

text \<open>A loop whose steps each push one state and leave \<open>F\<close> of the state alone.\<close>

lemma pushing_loop:
  assumes "inv w"
    and step: "\<And>x w. x \<in> set xs \<Longrightarrow> inv w \<Longrightarrow> \<exists>w'. f x w = (Inr (), w') \<and> inv w' \<and>
      hist w' = (hist w)(key x := hist w (key x) @ [s]) \<and> F w' = F w"
  shows "\<exists>w'. forA xs f w = (Inr (), w') \<and> inv w' \<and> F w' = F w \<and>
    hist w' = (\<lambda>a. hist w a @ replicate (length (filter (\<lambda>x. key x = a) xs)) s)"
  using assms
proof (induction xs arbitrary: w)
  case Nil
  then show ?case by (auto simp: return_app)
next
  case (Cons x xs)
  obtain w1 where w1: "f x w = (Inr (), w1)" "inv w1" "F w1 = F w"
    "hist w1 = (hist w)(key x := hist w (key x) @ [s])"
    using Cons.prems(2) [OF list.set_intros(1) Cons.prems(1)] by blast
  obtain w2 where w2: "forA xs f w1 = (Inr (), w2)" "inv w2" "F w2 = F w1"
    "hist w2 = (\<lambda>a. hist w1 a @ replicate (length (filter (\<lambda>x. key x = a) xs)) s)"
    using Cons.IH [OF w1(2)] Cons.prems(2) by auto
  have "hist w2 = (\<lambda>a. hist w a @ replicate (length (filter (\<lambda>x. key x = a) (x # xs))) s)"
    by (rule ext) (simp add: w2(4) w1(4) replicate_append_same flip: replicate_Suc)
  then show ?case using w1 w2 by (intro exI [of _ w2]) (simp add: act_simps)
qed

lemma pushes_pops:
  assumes "inv w"
  shows "\<exists>w' w''. forA cs (\<lambda>(a, s). push a b s) w = (Inr (), w') \<and>
    forA (rev cs) (\<lambda>(a, s). pop a s) w' = (Inr (), w'') \<and> hist w'' = hist w"
proof -
  obtain w' where "forA cs (\<lambda>(a, s). push a b s) w = (Inr (), w')" "inv w'" "hist w' = after cs (hist w)"
    using pushes [OF assms] by blast
  moreover from this obtain w'' where "forA (rev cs) (\<lambda>(a, s). pop a s) w' = (Inr (), w'')" "hist w'' = hist w"
    using pops by blast
  ultimately show ?thesis by blast
qed

end

section \<open>The tables implement it\<close>

definition stateHistory :: "world \<Rightarrow> address \<Rightarrow> ReportingState list" where
  "stateHistory w a =
     map ms_reportingState (filter (\<lambda>s. ms_marketId s = a) (t_market_state (tables w)))"

text \<open>
  \<open>states_ok\<close>: ids grow with the rows and are below the counter, and every market points to its latest
  row. \<open>checked\<close>: the checks of the markets table hold, so that updates of other columns pass them.
\<close>

definition states_ok :: "world \<Rightarrow> bool" where
  "states_ok w \<longleftrightarrow> sorted_wrt (<) (map ms_marketStateId (t_market_state (tables w))) \<and>
     list_all (\<lambda>s. ms_marketStateId s < next_marketStateId (tables w)) (t_market_state (tables w)) \<and>
     list_all (\<lambda>m. mk_marketStateId m = latestId (t_market_state (tables w)) (mk_marketId m))
       (t_markets (tables w))"

definition checked :: "world \<Rightarrow> bool" where
  "checked w \<longleftrightarrow> list_all (tcheck markets) (t_markets (tables w))"

lemma states_okD:
  "states_ok w \<Longrightarrow> m \<in> set (t_markets (tables w)) \<Longrightarrow>
    mk_marketStateId m = latestId (t_market_state (tables w)) (mk_marketId m)"
  by (simp add: states_ok_def list_all_iff)

lemma foldl_max_sorted:
  fixes i :: "'a::linorder"
  assumes "sorted (i # xs)"
  shows "foldl max i xs = last (i # xs)"
  using assms by (induction xs arbitrary: i) (auto simp: max_def)

lemma latestId_last:
  assumes "sorted_wrt (<) (map ms_marketStateId rows)" "filter (\<lambda>s. ms_marketId s = a) rows = xs @ [r]"
  shows "latestId rows a = Some (ms_marketStateId r)"
proof -
  let ?is = "map ms_marketStateId (filter (\<lambda>s. ms_marketId s = a) rows)"
  have "sorted_wrt (<) ?is" using assms(1) by (simp add: sorted_wrt_map sorted_wrt_filter)
  then have "sorted ?is" by (rule strict_sorted_imp_sorted)
  moreover obtain j js where "?is = j # js" using assms(2) by (cases ?is) auto
  moreover have "last ?is = ms_marketStateId r" by (simp add: assms(2))
  ultimately show ?thesis by (simp add: latestId_def foldl_max_sorted)
qed

lemma latestId_None: "latestId rows a = None \<longleftrightarrow> filter (\<lambda>s. ms_marketId s = a) rows = []"
  by (cases "filter (\<lambda>s. ms_marketId s = a) rows") (simp_all add: latestId_def)

lemma latestId_append:
  assumes "sorted_wrt (<) (map ms_marketStateId (rows @ [r]))"
  shows "latestId (rows @ [r]) a =
    (if ms_marketId r = a then Some (ms_marketStateId r) else latestId rows a)"
proof (cases "ms_marketId r = a")
  case True
  then show ?thesis by (simp add: latestId_last [OF assms])
next
  case False
  then show ?thesis by (simp add: latestId_def)
qed

lemma latestId_filter:
  "(\<And>s. s \<in> set rows \<Longrightarrow> ms_marketId s = a \<Longrightarrow> P s) \<Longrightarrow> latestId (filter P rows) a = latestId rows a"
proof -
  assume "\<And>s. s \<in> set rows \<Longrightarrow> ms_marketId s = a \<Longrightarrow> P s"
  then have "filter (\<lambda>s. ms_marketId s = a) (filter P rows) = filter (\<lambda>s. ms_marketId s = a) rows"
    by (auto intro: filter_cong)
  then show ?thesis by (simp only: latestId_def)
qed

text \<open>The reporting state read through the pointer is the top of the stack.\<close>

lemma find_by_id:
  assumes "sorted_wrt (<) (map ms_marketStateId rows)" "r \<in> set rows"
  shows "find (\<lambda>s. ms_marketStateId s = ms_marketStateId r) rows = Some r"
  using assms by (induction rows) auto

lemma current_state:
  assumes "states_ok w" "m \<in> set (t_markets (tables w))"
  shows "reportingStateOf w m =
    (if stateHistory w (mk_marketId m) = [] then None else Some (last (stateHistory w (mk_marketId m))))"
proof -
  let ?rows = "t_market_state (tables w)"
  let ?f = "filter (\<lambda>s. ms_marketId s = mk_marketId m) ?rows"
  have s: "sorted_wrt (<) (map ms_marketStateId ?rows)" using assms(1) by (simp add: states_ok_def)
  show ?thesis
  proof (cases ?f rule: rev_cases)
    case Nil
    then have "latestId ?rows (mk_marketId m) = None" by (simp add: latestId_None)
    with Nil show ?thesis by (simp add: states_okD [OF assms] stateHistory_def reportingStateOf_def)
  next
    case (snoc xs r)
    then have "r \<in> set ?f" by simp
    then have "r \<in> set ?rows" by simp
    then have "find (\<lambda>s. ms_marketStateId s = ms_marketStateId r) ?rows = Some r"
      by (rule find_by_id [OF s])
    moreover have "last (stateHistory w (mk_marketId m)) = ms_reportingState r"
      "stateHistory w (mk_marketId m) \<noteq> []" by (simp_all add: stateHistory_def snoc)
    ultimately show ?thesis
      by (simp add: states_okD [OF assms] latestId_last [OF s snoc] reportingStateOf_def)
  qed
qed

text \<open>What the two operations do, and that nothing in them can fail.\<close>

definition newState :: "address \<Rightarrow> int \<Rightarrow> ReportingState \<Rightarrow> world \<Rightarrow> market_state_row" where
  "newState a b s w = \<lparr>ms_marketStateId = next_marketStateId (tables w), ms_marketId = a,
     ms_reportingState = s, ms_blockNumber = b\<rparr>"

definition pointTo :: "address \<Rightarrow> int option \<Rightarrow> markets_row \<Rightarrow> markets_row" where
  "pointTo a i m = (if mk_marketId m = a then m\<lparr>mk_marketStateId := i\<rparr> else m)"

definition stateChanged :: "address \<Rightarrow> int \<Rightarrow> ReportingState \<Rightarrow> world \<Rightarrow> world" where
  "stateChanged a b s w = w\<lparr>tables := (tables w)
     \<lparr>t_market_state := t_market_state (tables w) @ [newState a b s w],
      next_marketStateId := next_marketStateId (tables w) + 1,
      t_markets := map (pointTo a (Some (next_marketStateId (tables w)))) (t_markets (tables w))\<rparr>\<rparr>"

lemma stateChanged_sel [simp]:
  "t_market_state (tables (stateChanged a b s w)) = t_market_state (tables w) @ [newState a b s w]"
  "t_markets (tables (stateChanged a b s w)) =
     map (pointTo a (Some (next_marketStateId (tables w)))) (t_markets (tables w))"
  "next_marketStateId (tables (stateChanged a b s w)) = next_marketStateId (tables w) + 1"
  by (simp_all add: stateChanged_def)

lemma newState_sel [simp]:
  "ms_marketStateId (newState a b s w) = next_marketStateId (tables w)"
  "ms_marketId (newState a b s w) = a" "ms_reportingState (newState a b s w) = s"
  by (simp_all add: newState_def)

lemma pointTo_sel [simp]:
  "mk_marketId (pointTo a i m) = mk_marketId m" "mk_feeWindow (pointTo a i m) = mk_feeWindow m"
  "mk_endTime (pointTo a i m) = mk_endTime m" "mk_universe (pointTo a i m) = mk_universe m"
  "mk_needsMigration (pointTo a i m) = mk_needsMigration m" "mk_forking (pointTo a i m) = mk_forking m"
  "tcheck markets (pointTo a i m) = tcheck markets m"
  by (simp_all add: pointTo_def markets_constraints)

lemma ids_append:
  "states_ok w \<Longrightarrow> sorted_wrt (<) (map ms_marketStateId (t_market_state (tables w) @ [newState a b s w]))"
  by (auto simp: states_ok_def sorted_wrt_append list_all_iff)

lemma setMarketStateToLatest_run:
  "checked w \<Longrightarrow> setMarketStateToLatest a w = (Inr (), w\<lparr>tables := (tables w)
     \<lparr>t_markets := map (pointTo a (queryCurrentMarketStateId w a)) (t_markets (tables w))\<rparr>\<rparr>)"
  by (auto simp: setMarketStateToLatest_def act_simps update_eq_Inr checked_def
      list_all_iff markets_constraints pointTo_def)

lemma updateMarketState_run:
  assumes "states_ok w" "checked w"
  shows "updateMarketState a b s w = (Inr (), stateChanged a b s w)"
proof -
  let ?w1 = "w\<lparr>tables := (tables w)\<lparr>next_marketStateId := next_marketStateId (tables w) + 1\<rparr>\<rparr>"
  let ?w2 = "?w1\<lparr>tables := (tables ?w1)\<lparr>t_market_state := t_market_state (tables w) @ [newState a b s w]\<rparr>\<rparr>"
  have i: "insertInto market_state (newState a b s w) ?w1 = (Inr (), ?w2)"
    using assms(1) by (auto simp: insertInto_eq_Inr market_state_constraints
        states_ok_def list_all_iff)
  have "checked ?w2" using assms(2) by (simp add: checked_def)
  then have "setMarketStateToLatest a ?w2 = (Inr (), stateChanged a b s w)"
    using ids_append [OF assms(1), of a b s]
    by (simp add: setMarketStateToLatest_run queryCurrentMarketStateId_def latestId_append stateChanged_def)
  with i show ?thesis
    by (simp add: updateMarketState_def newMarketStateId_def act_simps newState_def)
qed

lemma stateChanged_history:
  "stateHistory (stateChanged a b s w) = (stateHistory w)(a := stateHistory w a @ [s])"
  by (rule ext) (simp add: stateHistory_def)

lemma stateChanged_checked [simp]: "checked (stateChanged a b s w) = checked w"
  by (simp add: checked_def list_all_iff)

lemma stateChanged_ok:
  assumes "states_ok w"
  shows "states_ok (stateChanged a b s w)"
  unfolding states_ok_def stateChanged_sel
proof (intro conjI)
  let ?rows = "t_market_state (tables w)"
  let ?n = "newState a b s w"
  show "sorted_wrt (<) (map ms_marketStateId (?rows @ [?n]))" using ids_append [OF assms] .
  show "list_all (\<lambda>r. ms_marketStateId r < next_marketStateId (tables w) + 1) (?rows @ [?n])"
    using assms by (auto simp: states_ok_def list_all_iff)
  show "list_all (\<lambda>m. mk_marketStateId m = latestId (?rows @ [?n]) (mk_marketId m))
      (map (pointTo a (Some (next_marketStateId (tables w)))) (t_markets (tables w)))"
    unfolding latestId_append [OF ids_append [OF assms]] newState_sel list_all_iff set_map ball_simps
      pointTo_sel
    using states_okD [OF assms] by (simp add: pointTo_def)
qed

definition stateRemoved :: "address \<Rightarrow> int \<Rightarrow> world \<Rightarrow> world" where
  "stateRemoved a i w =
     (let rows = filter (\<lambda>s. ms_marketStateId s \<noteq> i) (t_market_state (tables w)) in
      w\<lparr>tables := (tables w)\<lparr>t_market_state := rows,
        t_markets := map (pointTo a (latestId rows a)) (t_markets (tables w))\<rparr>\<rparr>)"

lemma bindA_deleteWhere:
  "bindA (deleteWhere T P) f w =
     f (length (filter P (tget T w))) (tput T (filter (\<lambda>x. \<not> P x) (tget T w)) w)"
  by (simp add: bindA_def deleteWhere_app)

lemma rollbackMarketState_run:
  assumes "states_ok w" "checked w"
    and top: "filter (\<lambda>s. ms_marketId s = a) (t_market_state (tables w)) = xs @ [r]"
  shows "rollbackMarketState a (ms_reportingState r) w = (Inr (), stateRemoved a (ms_marketStateId r) w)"
proof -
  let ?rows = "t_market_state (tables w)"
  let ?P = "\<lambda>s. Some (ms_marketStateId s) = Some (ms_marketStateId r) \<and>
    ms_reportingState s = ms_reportingState r"
  have sorted: "sorted_wrt (<) (map ms_marketStateId ?rows)" using assms(1) by (simp add: states_ok_def)
  then have "distinct (map ms_marketStateId ?rows)" by (simp add: strict_sorted_iff)
  moreover have "r \<in> set (filter (\<lambda>s. ms_marketId s = a) ?rows)" by (simp add: top)
  then have r: "r \<in> set ?rows" by simp
  ultimately have P: "?P s \<longleftrightarrow> ms_marketStateId s = ms_marketStateId r" if "s \<in> set ?rows" for s
    using that by (auto simp: distinct_map dest: inj_onD)
  have "filter ?P ?rows \<noteq> []" using r by (auto simp: filter_empty_conv)
  moreover have "filter (\<lambda>s. \<not> ?P s) ?rows = filter (\<lambda>s. ms_marketStateId s \<noteq> ms_marketStateId r) ?rows"
    using P by (auto intro: filter_cong)
  moreover have "queryCurrentMarketStateId w a = Some (ms_marketStateId r)"
    by (simp add: queryCurrentMarketStateId_def latestId_last [OF sorted top])
  ultimately have "bindA (deleteWhere market_state (\<lambda>s. Some (ms_marketStateId s) =
      queryCurrentMarketStateId w a \<and> ms_reportingState s = ms_reportingState r)) f w =
      f (length (filter ?P ?rows)) (w\<lparr>tables := (tables w)\<lparr>t_market_state :=
        filter (\<lambda>s. ms_marketStateId s \<noteq> ms_marketStateId r) ?rows\<rparr>\<rparr>)" "length (filter ?P ?rows) \<noteq> 0"
    for f :: "nat \<Rightarrow> unit action"
    by (simp_all add: bindA_deleteWhere)
  then show ?thesis
    using assms(2)
    by (simp add: rollbackMarketState_def bindA_gets setMarketStateToLatest_run checked_def
        stateRemoved_def queryCurrentMarketStateId_def Let_def del: length_greater_0_conv)
qed

lemma rollbackMarketState_refused:
  assumes "states_ok w" "stateHistory w a = [] \<or> last (stateHistory w a) \<noteq> s"
  shows "\<exists>e. rollbackMarketState a s w = (Inl e, w)"
proof -
  let ?rows = "t_market_state (tables w)"
  let ?P = "\<lambda>x. Some (ms_marketStateId x) = queryCurrentMarketStateId w a \<and> ms_reportingState x = s"
  have sorted: "sorted_wrt (<) (map ms_marketStateId ?rows)" using assms(1) by (simp add: states_ok_def)
  have no: "\<not> ?P x" if "x \<in> set ?rows" for x
  proof (cases "filter (\<lambda>s. ms_marketId s = a) ?rows" rule: rev_cases)
    case Nil
    then have "queryCurrentMarketStateId w a = None"
      unfolding queryCurrentMarketStateId_def latestId_None .
    then show ?thesis by simp
  next
    case (snoc xs r)
    then have "last (stateHistory w a) = ms_reportingState r" "stateHistory w a \<noteq> []"
      by (simp_all add: stateHistory_def)
    then have "ms_reportingState r \<noteq> s" using assms(2) by auto
    moreover have "r \<in> set (filter (\<lambda>s. ms_marketId s = a) ?rows)" by (simp add: snoc)
    then have "find (\<lambda>s. ms_marketStateId s = ms_marketStateId r) ?rows = Some r"
      using find_by_id [OF sorted] by simp
    moreover have "queryCurrentMarketStateId w a = Some (ms_marketStateId r)"
      unfolding queryCurrentMarketStateId_def by (rule latestId_last [OF sorted snoc])
    moreover have "find (\<lambda>s. ms_marketStateId s = ms_marketStateId x) ?rows = Some x"
      by (rule find_by_id [OF sorted that])
    ultimately show ?thesis by auto
  qed
  then have "filter ?P ?rows = []" unfolding filter_empty_conv by blast
  moreover have "filter (\<lambda>x. \<not> ?P x) ?rows = ?rows" unfolding filter_id_conv using no by blast
  ultimately show ?thesis
    by (simp add: rollbackMarketState_def bindA_gets bindA_deleteWhere throw_app)
qed

lemma stateRemoved_inv:
  assumes "states_ok w"
    and top: "filter (\<lambda>s. ms_marketId s = a) (t_market_state (tables w)) = xs @ [r]"
  shows "states_ok (stateRemoved a (ms_marketStateId r) w)"
    and "checked (stateRemoved a (ms_marketStateId r) w) = checked w"
    and "stateHistory (stateRemoved a (ms_marketStateId r) w) =
      (stateHistory w)(a := map ms_reportingState xs)"
proof -
  let ?rows = "t_market_state (tables w)"
  let ?left = "filter (\<lambda>s. ms_marketStateId s \<noteq> ms_marketStateId r) ?rows"
  have sorted: "sorted_wrt (<) (map ms_marketStateId ?rows)" using assms(1) by (simp add: states_ok_def)
  then have dist: "distinct (map ms_marketStateId ?rows)" by (simp add: strict_sorted_iff)
  have "r \<in> set (filter (\<lambda>s. ms_marketId s = a) ?rows)" by (simp add: top)
  then have r: "r \<in> set ?rows" "ms_marketId r = a" by simp_all
  have other: "ms_marketStateId s \<noteq> ms_marketStateId r" if "s \<in> set ?rows" "ms_marketId s \<noteq> a" for s
    using that r dist by (auto simp: distinct_map dest: inj_onD)
  have others: "filter (\<lambda>s. ms_marketId s = c) ?left = filter (\<lambda>s. ms_marketId s = c) ?rows"
    if "c \<noteq> a" for c
    using other that by (auto intro: filter_cong)
  have "distinct (map ms_marketStateId (filter (\<lambda>s. ms_marketId s = a) ?rows))"
    using dist by (rule distinct_map_filter)
  then have "distinct (map ms_marketStateId (xs @ [r]))" by (simp only: top)
  then have "filter (\<lambda>s. ms_marketStateId s \<noteq> ms_marketStateId r) (xs @ [r]) = xs"
    by (auto simp: filter_id_conv image_iff)
  then have here: "filter (\<lambda>s. ms_marketId s = a) ?left = xs"
    by (metis (no_types, lifting) filter_filter filter_cong conj_commute top)
  show "stateHistory (stateRemoved a (ms_marketStateId r) w) = (stateHistory w)(a := map ms_reportingState xs)"
    by (rule ext) (simp add: stateHistory_def stateRemoved_def here others Let_def del: filter_filter)
  show "checked (stateRemoved a (ms_marketStateId r) w) = checked w"
    by (simp add: checked_def stateRemoved_def list_all_iff Let_def)
  have "latestId ?left c = latestId ?rows c" if "c \<noteq> a" for c
    by (simp only: latestId_def others [OF that])
  then show "states_ok (stateRemoved a (ms_marketStateId r) w)"
    using assms(1) by (auto simp: states_ok_def stateRemoved_def list_all_iff pointTo_def
        sorted_wrt_map sorted_wrt_filter Let_def)
qed

interpretation log: state_log updateMarketState rollbackMarketState stateHistory
  "\<lambda>w. states_ok w \<and> checked w"
proof
  fix w a b s
  assume "states_ok w \<and> checked w"
  then show "\<exists>w'. updateMarketState a b s w = (Inr (), w') \<and> (states_ok w' \<and> checked w') \<and>
      stateHistory w' = (stateHistory w)(a := stateHistory w a @ [s])"
    by (simp add: updateMarketState_run stateChanged_ok stateChanged_history)
next
  fix w a ss s
  assume ok: "states_ok w \<and> checked w" and h: "stateHistory w a = ss @ [s]"
  then obtain xs r where top: "filter (\<lambda>s. ms_marketId s = a) (t_market_state (tables w)) = xs @ [r]"
    and s: "ms_reportingState r = s" "map ms_reportingState xs = ss"
    by (auto simp: stateHistory_def map_eq_append_conv)
  show "\<exists>w'. rollbackMarketState a s w = (Inr (), w') \<and> (states_ok w' \<and> checked w') \<and>
      stateHistory w' = (stateHistory w)(a := ss)"
    using rollbackMarketState_run [OF _ _ top] stateRemoved_inv [OF _ top] ok s by auto
next
  fix w a s
  assume "states_ok w \<and> checked w" "stateHistory w a = [] \<or> last (stateHistory w a) \<noteq> s"
  then show "\<exists>e. rollbackMarketState a s w = (Inl e, w)" by (blast intro: rollbackMarketState_refused)
qed

section \<open>The state log as a stack\<close>

datatype state_op = PushState address int ReportingState | PopState address ReportingState

fun runStateOp :: "state_op \<Rightarrow> unit action" where
  "runStateOp (PushState a b s) = updateMarketState a b s"
| "runStateOp (PopState a s) = rollbackMarketState a s"

text \<open>The abstract machine: one stack per market; popping anything but the top is refused.\<close>

fun stackOp :: "state_op \<Rightarrow> (address \<Rightarrow> ReportingState list) \<Rightarrow> (address \<Rightarrow> ReportingState list) option"
  where
  "stackOp (PushState a b s) h = Some (h(a := h a @ [s]))"
| "stackOp (PopState a s) h =
     (if h a \<noteq> [] \<and> last (h a) = s then Some (h(a := butlast (h a))) else None)"

text \<open>C1. Every operation on the market states refines its stack operation: it succeeds exactly when
  the stack operation does, with the stacks that result, and it leaves the state alone when it is
  refused.\<close>

theorem state_ops_refine_stack:
  assumes "states_ok w" "checked w"
  shows "case stackOp c (stateHistory w) of
      None \<Rightarrow> \<exists>e. runStateOp c w = (Inl e, w)
    | Some h \<Rightarrow> \<exists>w'. runStateOp c w = (Inr (), w') \<and> states_ok w' \<and> checked w' \<and> stateHistory w' = h"
proof (cases c)
  case (PushState a b s)
  then show ?thesis using log.push_ok [of w a b s] assms by simp
next
  case (PopState a s)
  show ?thesis
  proof (cases "stateHistory w a \<noteq> [] \<and> last (stateHistory w a) = s")
    case True
    then have "stateHistory w a = butlast (stateHistory w a) @ [s]" by auto
    then show ?thesis using log.pop_ok [of w a "butlast (stateHistory w a)" s] True assms PopState by simp
  next
    case False
    then show ?thesis using log.pop_refused [of w a s] assms PopState by auto
  qed
qed

text \<open>The state changes of a block, taken back last to first, restore the reporting state of every
  market.\<close>

theorem state_changes_roll_back:
  assumes "states_ok w" "checked w"
  shows "\<exists>w' w''. forA cs (\<lambda>(a, s). updateMarketState a b s) w = (Inr (), w') \<and>
    forA (rev cs) (\<lambda>(a, s). rollbackMarketState a s) w' = (Inr (), w'') \<and>
    stateHistory w'' = stateHistory w"
  using log.pushes_pops [of w cs b] assms by simp

section \<open>Fee windows\<close>

text \<open>The state of a window at a time: within it, after it, or as it was.\<close>

definition windowAt :: "int \<Rightarrow> fee_windows_row \<Rightarrow> fee_windows_row" where
  "windowAt t f =
     (if fw_startTime f < t \<and> t < fw_endTime f then f\<lparr>fw_state := CURRENT\<rparr>
      else if fw_endTime f < t then f\<lparr>fw_state := PAST\<rparr> else f)"

definition willExpire :: "int \<Rightarrow> fee_windows_row \<Rightarrow> bool" where
  "willExpire t f \<longleftrightarrow> fw_state f \<noteq> PAST \<and> fw_endTime f < t"

definition willOpen :: "int \<Rightarrow> fee_windows_row \<Rightarrow> bool" where
  "willOpen t f \<longleftrightarrow> fw_state f \<noteq> CURRENT \<and> t < fw_endTime f \<and> fw_startTime f < t"

definition windowsAt :: "int \<Rightarrow> world \<Rightarrow> world" where
  "windowsAt t w = w\<lparr>tables := (tables w)\<lparr>t_fee_windows := map (windowAt t) (t_fee_windows (tables w))\<rparr>\<rparr>"

definition modificationsAt :: "int \<Rightarrow> world \<Rightarrow> FeeWindowModifications" where
  "modificationsAt t w =
     \<lparr>expiredFeeWindows = map fw_feeWindow (filter (willExpire t) (t_fee_windows (tables w))),
      newActiveFeeWindows = map fw_feeWindow (filter (willOpen t) (t_fee_windows (tables w)))\<rparr>"

text \<open>Selecting rows and then updating by their keys is updating the rows.\<close>

lemma update_selected:
  assumes "sorted_wrt (\<lambda>x y. key x \<noteq> key y) rows"
  shows "map (\<lambda>x. if key x \<in> set (map key (filter P rows)) then g x else x) rows =
    map (\<lambda>x. if P x then g x else x) rows"
  using assms
proof (intro map_cong refl)
  fix x
  assume x: "x \<in> set rows"
  have "distinct (map key rows)" using assms by (induction rows) auto
  then have "key x \<in> set (map key (filter P rows)) \<longleftrightarrow> P x"
    using x by (auto simp: distinct_map dest: inj_onD)
  then show "(if key x \<in> set (map key (filter P rows)) then g x else x) = (if P x then g x else x)"
    by simp
qed

lemma update_by_keys:
  assumes "sorted_wrt (\<lambda>x y. key x \<noteq> key y) (tget T w)" "\<And>r. tcheck T r"
  shows "update T (\<lambda>x. key x \<in> set (map key (filter P (tget T w)))) g w =
    (Inr (), tput T (map (\<lambda>x. if P x then g x else x) (tget T w)) w)"
  unfolding update_eq_Inr update_selected [OF assms(1)] using assms(2) by (simp add: list_all_iff)

lemma forA_emit:
  "\<exists>ev. forA xs (\<lambda>x. emit n lg (d x)) w = (Inr (), w\<lparr>emitted := ev\<rparr>)"
proof (induction xs arbitrary: w)
  case Nil
  show ?case by (intro exI [of _ "emitted w"]) (simp add: return_app)
next
  case (Cons x xs)
  let ?w = "w\<lparr>emitted := emitted w @ [\<lparr>ev_name = n, ev_log = map_option base_log.truncate lg, ev_data = d x\<rparr>]\<rparr>"
  obtain ev where "forA xs (\<lambda>x. emit n lg (d x)) ?w = (Inr (), ?w\<lparr>emitted := ev\<rparr>)"
    using Cons.IH by blast
  then show ?case by (auto simp: thenA_emit)
qed

lemma opening_rows:
  "filter (willOpen t) (map (\<lambda>f. if willExpire t f then f\<lparr>fw_state := PAST\<rparr> else f) rows) =
    filter (willOpen t) rows"
  by (induction rows) (auto simp: willOpen_def willExpire_def)

lemma windows_key: "fee_windows.valid_table w \<Longrightarrow>
    sorted_wrt (\<lambda>x y. fw_feeWindow x \<noteq> fw_feeWindow y) (t_fee_windows (tables w))"
  by (simp add: fee_windows.valid_table_def fee_windows_constraints)

lemma updateActiveFeeWindows_run:
  assumes "fee_windows.valid_table w"
  shows "\<exists>ev. updateActiveFeeWindows blockNumber t w = (Inr (modificationsAt t w), (windowsAt t w)\<lparr>emitted := ev\<rparr>)"
proof -
  let ?rows = "t_fee_windows (tables w)"
  let ?past = "\<lambda>f. if willExpire t f then f\<lparr>fw_state := PAST\<rparr> else f"
  let ?current = "\<lambda>f. if willOpen t f then f\<lparr>fw_state := CURRENT\<rparr> else f"
  let ?w1 = "w\<lparr>tables := (tables w)\<lparr>t_fee_windows := map ?past ?rows\<rparr>\<rparr>"
  let ?opened = "filter (willOpen t) ?rows"
  have keys: "sorted_wrt (\<lambda>x y. fw_feeWindow x \<noteq> fw_feeWindow y) ?rows" by (rule windows_key [OF assms])
  have past: "fw_feeWindow (?past f) = fw_feeWindow f" for f by simp
  have keys1: "sorted_wrt (\<lambda>x y. fw_feeWindow x \<noteq> fw_feeWindow y) (map ?past ?rows)"
    unfolding sorted_wrt_map past by (rule keys)
  have opened: "filter (willOpen t) (map ?past ?rows) = ?opened"
    by (rule opening_rows)
  have both: "map ?current (map ?past ?rows) = map (windowAt t) ?rows"
    by (auto simp: willOpen_def willExpire_def windowAt_def)
  obtain ev1 where e1: "forA (filter (willExpire t) ?rows) (\<lambda>f. emit ''FeeWindowClosed'' (None :: base_log option)
        [(''blockNumber'', VI blockNumber), (''timestamp'', VI t), (''feeWindow'', VS (fw_feeWindow f)),
         (''universe'', VS (fw_universe f))]) (windowsAt t w) = (Inr (), (windowsAt t w)\<lparr>emitted := ev1\<rparr>)"
    by (rule exE [OF forA_emit])
  obtain ev2 where e2: "forA ?opened (\<lambda>f. emit ''FeeWindowOpened'' (None :: base_log option)
        [(''blockNumber'', VI blockNumber), (''timestamp'', VI t), (''feeWindow'', VS (fw_feeWindow f)),
         (''universe'', VS (fw_universe f))]) ((windowsAt t w)\<lparr>emitted := ev1\<rparr>) =
      (Inr (), (windowsAt t w)\<lparr>emitted := ev1\<rparr>\<lparr>emitted := ev2\<rparr>)"
    by (rule exE [OF forA_emit])
  have w1: "t_fee_windows (tables ?w1) = map ?past ?rows" by simp
  have u1: "update fee_windows (\<lambda>f. fw_feeWindow f \<in> set (map fw_feeWindow (filter (willExpire t) ?rows)))
      (\<lambda>f. f\<lparr>fw_state := PAST\<rparr>) w = (Inr (), ?w1)"
    using update_by_keys [of fw_feeWindow fee_windows w "willExpire t"] keys
    by (simp add: fee_windows_constraints)
  have u2: "update fee_windows (\<lambda>f. fw_feeWindow f \<in> set (map fw_feeWindow ?opened))
      (\<lambda>f. f\<lparr>fw_state := CURRENT\<rparr>) ?w1 = (Inr (), windowsAt t w)"
    using update_by_keys [of fw_feeWindow fee_windows ?w1 "willOpen t" "\<lambda>f. f\<lparr>fw_state := CURRENT\<rparr>"] keys1
    by (simp add: fee_windows_constraints windowsAt_def both opened del: map_map set_map)
  have "updateActiveFeeWindows blockNumber t w =
      (Inr (modificationsAt t w), (windowsAt t w)\<lparr>emitted := ev1\<rparr>\<lparr>emitted := ev2\<rparr>)"
    unfolding updateActiveFeeWindows_def willExpire_def [symmetric] willOpen_def [symmetric] bindA_select
      fee_windows_sel
    by (simp only: thenA_ok u1 u2 e1 e2 bindA_select fee_windows_sel w1 return_app modificationsAt_def opened)
  then show ?thesis by (intro exI [of _ ev2]) simp
qed

text \<open>Advancing the fee windows to a time puts every window into the state that the time gives it and
  changes nothing else in the database; the result lists the windows that were closed and opened.\<close>

theorem fee_windows_advance:
  assumes "fee_windows.valid_table w"
  shows "\<exists>w'. updateActiveFeeWindows blockNumber t w = (Inr (modificationsAt t w), w') \<and>
    tables w' = (tables w)\<lparr>t_fee_windows := map (windowAt t) (t_fee_windows (tables w))\<rparr>"
  using updateActiveFeeWindows_run [OF assms, of blockNumber t] by (auto simp: windowsAt_def)

text \<open>
  The windows of a universe follow each other. As long as time does not run backwards, only one of
  them is current; the processor of new dispute crowdsourcers takes the first current window it finds.
\<close>

definition windowsInOrder :: "int \<Rightarrow> world \<Rightarrow> bool" where
  "windowsInOrder t w \<longleftrightarrow>
     (\<forall>f \<in> set (t_fee_windows (tables w)). (fw_state f = CURRENT \<longrightarrow> fw_startTime f < t) \<and>
        fw_startTime f < fw_endTime f \<and>
       (\<forall>g \<in> set (t_fee_windows (tables w)). fw_universe f = fw_universe g \<longrightarrow>
          f = g \<or> fw_endTime f \<le> fw_startTime g \<or> fw_endTime g \<le> fw_startTime f))"

lemma windowAt_sel [simp]:
  "fw_universe (windowAt t f) = fw_universe f" "fw_startTime (windowAt t f) = fw_startTime f"
  "fw_endTime (windowAt t f) = fw_endTime f" "fw_feeWindow (windowAt t f) = fw_feeWindow f"
  by (simp_all add: windowAt_def)

lemma windowAt_current:
  "fw_state (windowAt t f) = CURRENT \<Longrightarrow> fw_startTime f < fw_endTime f \<Longrightarrow>
    (fw_state f = CURRENT \<longrightarrow> fw_startTime f < t) \<Longrightarrow> fw_startTime f < t \<and> t \<le> fw_endTime f"
  by (auto simp: windowAt_def split: if_splits)

text \<open>After the fee windows are advanced, at most one window of a universe is current, and the
  windows are still in order.\<close>

theorem one_current_fee_window:
  assumes "fee_windows.valid_table w" "windowsInOrder t0 w" "t0 \<le> t"
    "updateActiveFeeWindows blockNumber t w = (Inr mods, w')"
  shows "windowsInOrder t w' \<and>
    (\<forall>f \<in> set (t_fee_windows (tables w')). \<forall>g \<in> set (t_fee_windows (tables w')).
       fw_state f = CURRENT \<longrightarrow> fw_state g = CURRENT \<longrightarrow> fw_universe f = fw_universe g \<longrightarrow> f = g)"
proof -
  let ?rows = "t_fee_windows (tables w)"
  have rows: "t_fee_windows (tables w') = map (windowAt t) ?rows"
    using updateActiveFeeWindows_run [OF assms(1), of blockNumber t] assms(4) by (auto simp: windowsAt_def)
  have begun: "fw_startTime f < t" if "f \<in> set ?rows" "fw_state (windowAt t f) = CURRENT" for f
    using that assms(2,3) windowAt_current [of t f] by (fastforce simp: windowsInOrder_def)
  have ends: "t \<le> fw_endTime f" if "f \<in> set ?rows" "fw_state (windowAt t f) = CURRENT" for f
    using that assms(2,3) windowAt_current [of t f] by (fastforce simp: windowsInOrder_def)
  have apart: "f = g \<or> fw_endTime f \<le> fw_startTime g \<or> fw_endTime g \<le> fw_startTime f"
    if "f \<in> set ?rows" "g \<in> set ?rows" "fw_universe f = fw_universe g" for f g
    using that assms(2) by (simp add: windowsInOrder_def)
  have "windowsInOrder t w'"
    unfolding windowsInOrder_def rows
    using begun apart assms(2) by (fastforce simp: windowsInOrder_def)
  moreover have "f = g" if "f \<in> set ?rows" "g \<in> set ?rows" "fw_universe f = fw_universe g"
    "fw_state (windowAt t f) = CURRENT" "fw_state (windowAt t g) = CURRENT" for f g
    using apart [OF that(1-3)] begun [OF that(1,4)] begun [OF that(2,5)] ends [OF that(1,4)]
      ends [OF that(2,5)] by linarith
  then have "\<forall>f \<in> set (t_fee_windows (tables w')). \<forall>g \<in> set (t_fee_windows (tables w')).
      fw_state f = CURRENT \<longrightarrow> fw_state g = CURRENT \<longrightarrow> fw_universe f = fw_universe g \<longrightarrow> f = g"
    unfolding rows set_map ball_simps windowAt_sel by blast
  ultimately show ?thesis by blast
qed

section \<open>Payouts\<close>

definition payouts_ok :: "world \<Rightarrow> bool" where
  "payouts_ok w \<longleftrightarrow> list_all (\<lambda>p. length (po_payouts p) = 8 \<and> po_payoutId p < next_payoutId (tables w))
     (t_payouts (tables w))"

definition payoutMatches :: "address \<Rightarrow> bool \<Rightarrow> bn option list \<Rightarrow> payouts_row \<Rightarrow> bool" where
  "payoutMatches marketId invalid columns p \<longleftrightarrow> po_marketId p = marketId \<and> po_isInvalid p = invalid \<and>
     list_all2 (\<lambda>v c. v = None \<or> c = v) columns (po_payouts p)"

lemma insertPayout_again:
  assumes "payoutColumns xs = Inr cols" "find (payoutMatches a bad cols) (t_payouts (tables w)) = Some p"
  shows "insertPayout a xs bad tw w = (Inr (po_payoutId p), w)"
  using assms
  by (simp add: insertPayout_def payoutMatches_def [abs_def] liftR_Inr bindA_first return_app)

lemma insertPayout_new:
  assumes "payoutColumns xs = Inr cols" "find (payoutMatches a bad cols) (t_payouts (tables w)) = None"
    "payouts_ok w"
  shows "insertPayout a xs bad tw w = (Inr (next_payoutId (tables w)), w\<lparr>tables := (tables w)
    \<lparr>next_payoutId := next_payoutId (tables w) + 1,
     t_payouts := t_payouts (tables w) @ [\<lparr>po_payoutId = next_payoutId (tables w), po_marketId = a,
       po_payouts = cols, po_isInvalid = bad, po_tentativeWinning = (if tw then 1 else 0),
       po_winning = None\<rparr>]\<rparr>\<rparr>)"
proof -
  let ?new = "\<lparr>po_payoutId = next_payoutId (tables w), po_marketId = a, po_payouts = cols,
    po_isInvalid = bad, po_tentativeWinning = (if tw then 1 else 0), po_winning = None\<rparr>"
  have no: "\<not> tclash payouts p ?new" if "p \<in> set (t_payouts (tables w))" for p
  proof -
    have "po_payoutId p \<noteq> next_payoutId (tables w)" using that assms(3) by (auto simp: payouts_ok_def list_all_iff)
    moreover have "\<not> payoutMatches a bad cols p" using that assms(2) by (auto simp: find_None_iff)
    ultimately show ?thesis
      by (auto simp: payouts_constraints payoutMatches_def list_all2_conv_all_nth)
  qed
  then have "list_ex (\<lambda>p. tclash payouts p ?new) (t_payouts (tables w)) = False"
    by (simp add: list_ex_iff)
  then show ?thesis
    using assms(1,2)
    by (simp add: insertPayout_def payoutMatches_def [abs_def] liftR_Inr bindA_first newPayoutId_def
        act_simps thenA_insertInto payouts_constraints(2))
qed

lemma payoutColumns_length: "payoutColumns xs = Inr cols \<Longrightarrow> length cols = 8"
  by (auto simp: payoutColumns_def split: if_splits)

text \<open>A payout is stored once: \<open>insertPayout\<close> returns the id of a row with the given numerators, and
  asking again, whatever the tentative flag, returns the same id and changes nothing.\<close>

theorem insertPayout_once:
  assumes "payouts_ok w" "payoutColumns xs = Inr cols"
  shows "\<exists>i w'. insertPayout a xs bad tw w = (Inr i, w') \<and> payouts_ok w' \<and>
    (\<exists>p \<in> set (t_payouts (tables w')). po_payoutId p = i \<and> payoutMatches a bad cols p) \<and>
    (\<forall>tw'. insertPayout a xs bad tw' w' = (Inr i, w'))"
proof (cases "find (payoutMatches a bad cols) (t_payouts (tables w))")
  case (Some p)
  then have p: "p \<in> set (t_payouts (tables w))" "payoutMatches a bad cols p"
    using find_SomeD by fastforce+
  show ?thesis
    using insertPayout_again [OF assms(2) Some] p assms(1) by (intro exI [of _ "po_payoutId p"] exI [of _ w]) auto
next
  case None
  let ?i = "next_payoutId (tables w)"
  obtain w' where w': "insertPayout a xs bad tw w = (Inr ?i, w')"
    and rows: "t_payouts (tables w') = t_payouts (tables w) @ [\<lparr>po_payoutId = ?i, po_marketId = a,
      po_payouts = cols, po_isInvalid = bad, po_tentativeWinning = (if tw then 1 else 0), po_winning = None\<rparr>]"
      "next_payoutId (tables w') = ?i + 1"
    using insertPayout_new [OF assms(2) None assms(1), of tw] by simp
  let ?p = "last (t_payouts (tables w'))"
  have p: "payoutMatches a bad cols ?p" "po_payoutId ?p = ?i"
    by (simp_all add: rows payoutMatches_def list_all2_refl)
  then have "find (payoutMatches a bad cols) (t_payouts (tables w')) = Some ?p"
    using None by (simp add: rows find_append)
  then have "\<forall>tw'. insertPayout a xs bad tw' w' = (Inr ?i, w')"
    using insertPayout_again [OF assms(2), of a bad w'] p(2) by simp
  moreover have "payouts_ok w'"
    using assms(1) payoutColumns_length [OF assms(2)]
    by (auto simp: payouts_ok_def rows list_all_iff)
  moreover have "?p \<in> set (t_payouts (tables w'))" by (simp add: rows)
  ultimately show ?thesis using w' p by blast
qed

section \<open>What keeps the market states\<close>

text \<open>
  \<open>states_ok\<close> and \<open>checked\<close> together are kept by every query on another table, by every update of other
  columns of \<open>markets\<close>, and by the operations above. The later theories show this of every log processor.
\<close>

abbreviation ready_states :: "world \<Rightarrow> bool" where
  "ready_states w \<equiv> states_ok w \<and> checked w"

lemma states_emitted [simp]:
  "states_ok (w\<lparr>emitted := ev\<rparr>) = states_ok w" "checked (w\<lparr>emitted := ev\<rparr>) = checked w"
  "stateHistory (w\<lparr>emitted := ev\<rparr>) = stateHistory w"
  by (simp_all add: states_ok_def checked_def stateHistory_def fun_eq_iff)

lemma states_frame:
  assumes "t_markets (tables w') = t_markets (tables w)" "t_market_state (tables w') = t_market_state (tables w)"
    "next_marketStateId (tables w') = next_marketStateId (tables w)"
  shows "states_ok w' = states_ok w" "checked w' = checked w" "stateHistory w' = stateHistory w"
  by (simp_all add: states_ok_def checked_def stateHistory_def fun_eq_iff assms)

lemma ready_put:
  "ready_states w \<Longrightarrow> ready_states (tput outcomes rs1 w)"
  "ready_states w \<Longrightarrow> ready_states (tput orders rs2 w)"
  "ready_states w \<Longrightarrow> ready_states (tput orders_canceled rs3 w)"
  "ready_states w \<Longrightarrow> ready_states (tput trades rs4 w)"
  "ready_states w \<Longrightarrow> ready_states (tput tokens rs5 w)"
  "ready_states w \<Longrightarrow> ready_states (tput token_supply rs6 w)"
  "ready_states w \<Longrightarrow> ready_states (tput balances rs7 w)"
  "ready_states w \<Longrightarrow> ready_states (tput transfers rs8 w)"
  "ready_states w \<Longrightarrow> ready_states (tput approvals rs9 w)"
  "ready_states w \<Longrightarrow> ready_states (tput payouts rs10 w)"
  "ready_states w \<Longrightarrow> ready_states (tput fee_windows rs11 w)"
  "ready_states w \<Longrightarrow> ready_states (tput crowdsourcers rs12 w)"
  "ready_states w \<Longrightarrow> ready_states (tput initial_reports rs13 w)"
  "ready_states w \<Longrightarrow> ready_states (tput disputes rs14 w)"
  "ready_states w \<Longrightarrow> ready_states (tput crowdsourcer_redeemed rs15 w)"
  "ready_states w \<Longrightarrow> ready_states (tput participation_token_redeemed rs16 w)"
  "ready_states w \<Longrightarrow> ready_states (tput universes rs17 w)"
  "ready_states w \<Longrightarrow> ready_states (tput categories rs18 w)"
  "ready_states w \<Longrightarrow> ready_states (tput blocks rs19 w)"
  "ready_states w \<Longrightarrow> ready_states (tput transactionHashes rs20 w)"
  "ready_states w \<Longrightarrow> ready_states (tput completeSets rs21 w)"
  "ready_states w \<Longrightarrow> ready_states (tput trading_proceeds rs22 w)"
  "ready_states w \<Longrightarrow> ready_states (tput outcome_value_timeseries rs23 w)"
  "ready_states w \<Longrightarrow> ready_states (tput wcl_profit_loss_timeseries rs24 w)"
  "ready_states w \<Longrightarrow> ready_states (tput outcomes_liquidity rs25 w)"
  "ready_states w \<Longrightarrow> ready_states (tput pending_orphan_checks rs26 w)"
  "ready_states w \<Longrightarrow> ready_states (tput pending_liquidity_updates rs27 w)"
  by (simp_all add: states_ok_def checked_def)

lemmas other_tables_kept [kept] =
  preserves_write [where P = ready_states and T = outcomes, OF ready_put(1)]
  preserves_write [where P = ready_states and T = orders, OF ready_put(2)]
  preserves_write [where P = ready_states and T = orders_canceled, OF ready_put(3)]
  preserves_write [where P = ready_states and T = trades, OF ready_put(4)]
  preserves_write [where P = ready_states and T = tokens, OF ready_put(5)]
  preserves_write [where P = ready_states and T = token_supply, OF ready_put(6)]
  preserves_write [where P = ready_states and T = balances, OF ready_put(7)]
  preserves_write [where P = ready_states and T = transfers, OF ready_put(8)]
  preserves_write [where P = ready_states and T = approvals, OF ready_put(9)]
  preserves_write [where P = ready_states and T = payouts, OF ready_put(10)]
  preserves_write [where P = ready_states and T = fee_windows, OF ready_put(11)]
  preserves_write [where P = ready_states and T = crowdsourcers, OF ready_put(12)]
  preserves_write [where P = ready_states and T = initial_reports, OF ready_put(13)]
  preserves_write [where P = ready_states and T = disputes, OF ready_put(14)]
  preserves_write [where P = ready_states and T = crowdsourcer_redeemed, OF ready_put(15)]
  preserves_write [where P = ready_states and T = participation_token_redeemed, OF ready_put(16)]
  preserves_write [where P = ready_states and T = universes, OF ready_put(17)]
  preserves_write [where P = ready_states and T = categories, OF ready_put(18)]
  preserves_write [where P = ready_states and T = blocks, OF ready_put(19)]
  preserves_write [where P = ready_states and T = transactionHashes, OF ready_put(20)]
  preserves_write [where P = ready_states and T = completeSets, OF ready_put(21)]
  preserves_write [where P = ready_states and T = trading_proceeds, OF ready_put(22)]
  preserves_write [where P = ready_states and T = outcome_value_timeseries, OF ready_put(23)]
  preserves_write [where P = ready_states and T = wcl_profit_loss_timeseries, OF ready_put(24)]
  preserves_write [where P = ready_states and T = outcomes_liquidity, OF ready_put(25)]
  preserves_write [where P = ready_states and T = pending_orphan_checks, OF ready_put(26)]
  preserves_write [where P = ready_states and T = pending_liquidity_updates, OF ready_put(27)]

lemma markets_update_kept [kept]:
  assumes "\<And>m. mk_marketId (f m) = mk_marketId m" "\<And>m. mk_marketStateId (f m) = mk_marketStateId m"
  shows "preserves ready_states (update markets P f)"
proof (rule preservesI)
  fix w r w'
  assume w: "ready_states w" and run: "update markets P f w = (r, w')"
  show "ready_states w'"
  proof (cases "list_ex (\<lambda>x. P x \<and> \<not> tcheck markets (f x)) (t_markets (tables w))")
    case True
    with run w show ?thesis by (simp add: update_app)
  next
    case False
    let ?rows = "map (\<lambda>x. if P x then f x else x) (t_markets (tables w))"
    have w': "w' = w\<lparr>tables := (tables w)\<lparr>t_markets := ?rows\<rparr>\<rparr>" using False run by (simp add: update_app)
    have "list_all (tcheck markets) ?rows" using False w by (auto simp: checked_def list_all_iff list_ex_iff)
    moreover have "list_all (\<lambda>m. mk_marketStateId m = latestId (t_market_state (tables w)) (mk_marketId m)) ?rows"
      using states_okD w by (auto simp: list_all_iff assms)
    ultimately show ?thesis using w unfolding w' by (simp add: checked_def states_ok_def)
  qed
qed

lemma updateMarketState_kept [kept]: "preserves ready_states (updateMarketState a b s)"
  by (rule preservesI) (auto simp: updateMarketState_run stateChanged_ok)

lemma rollbackMarketState_kept [kept]: "preserves ready_states (rollbackMarketState a s)"
proof (rule preservesI)
  fix w r w'
  assume w: "ready_states w" and run: "rollbackMarketState a s w = (r, w')"
  show "ready_states w'"
  proof (cases "stateHistory w a = [] \<or> last (stateHistory w a) \<noteq> s")
    case True
    then show ?thesis using log.pop_refused [of w a s] w run by auto
  next
    case False
    then have "stateHistory w a = butlast (stateHistory w a) @ [s]" by auto
    then show ?thesis using log.pop_ok [of w a "butlast (stateHistory w a)" s] w run by auto
  qed
qed

lemma market_state_ops_kept [kept]:
  "preserves ready_states (updateMarketFeeWindow env u a b)"
  "preserves ready_states (updateDisputeRound a)"
  "preserves ready_states (refreshMarketMailboxEthBalance env a)"
  "preserves ready_states (updateActiveFeeWindows n t)"
  unfolding updateMarketFeeWindow_def getFeeWindow_def updateDisputeRound_def
    refreshMarketMailboxEthBalance_def updateActiveFeeWindows_def
  by ((intro kept | simp)+)

lemma newPayoutId_kept [kept]: "preserves ready_states newPayoutId"
  unfolding newPayoutId_def
  by (intro kept preserves_modify) (simp add: states_ok_def checked_def)

lemma insertPayout_kept [kept]: "preserves ready_states (insertPayout a xs bad tw)"
  unfolding insertPayout_def by (intro kept)

section \<open>Examples\<close>

text \<open>One market in pre-reporting whose trading ends at 1000, and two consecutive fee windows.\<close>

definition sample_window :: "string \<Rightarrow> int \<Rightarrow> int \<Rightarrow> FeeWindowState \<Rightarrow> fee_windows_row" where
  "sample_window f t1 t2 s = \<lparr>fw_feeWindow = f, fw_feeWindowId = 1, fw_universe = ''u'',
     fw_startTime = t1, fw_endTime = t2, fw_state = s, fw_fees = 0, fw_feeToken = f\<rparr>"

definition reporting_world :: world where
  "reporting_world = empty_world\<lparr>tables := empty_db
     \<lparr>t_markets := [sample_market],
      t_market_state := [\<lparr>ms_marketStateId = 1, ms_marketId = ''m'', ms_reportingState = PRE_REPORTING,
        ms_blockNumber = 1\<rparr>],
      t_fee_windows := [sample_window ''f1'' 500 1500 CURRENT, sample_window ''f2'' 1500 2500 FUTURE],
      t_universes := [\<lparr>un_universe = ''u'', un_parentUniverse = None, un_payoutId = None,
        un_reputationToken = ''rep'', un_forked = False\<rparr>],
      next_marketStateId := 2\<rparr>\<rparr>"

lemma reporting_world_sel [simp]:
  "t_markets (tables reporting_world) = [sample_market]"
  "t_market_state (tables reporting_world) = [\<lparr>ms_marketStateId = 1, ms_marketId = ''m'',
     ms_reportingState = PRE_REPORTING, ms_blockNumber = 1\<rparr>]"
  "t_fee_windows (tables reporting_world) =
     [sample_window ''f1'' 500 1500 CURRENT, sample_window ''f2'' 1500 2500 FUTURE]"
  "next_marketStateId (tables reporting_world) = 2"
  "t_payouts (tables reporting_world) = []"
  "t_universes (tables reporting_world) = [\<lparr>un_universe = ''u'', un_parentUniverse = None,
     un_payoutId = None, un_reputationToken = ''rep'', un_forked = False\<rparr>]"
  by (simp_all add: reporting_world_def empty_db_def empty_world_def)

lemma reporting_world_ok: "states_ok reporting_world" "checked reporting_world"
  "fee_windows.valid_table reporting_world" "windowsInOrder 600 reporting_world"
  "markets.valid_table reporting_world"
  by (simp_all add: states_ok_def checked_def latestId_def sample_market_def markets_constraints
      fee_windows.valid_table_def markets.valid_table_def fee_windows_constraints sample_window_def
      windowsInOrder_def)

lemma reporting_world_history: "stateHistory reporting_world ''m'' = [PRE_REPORTING]"
  by (simp add: stateHistory_def)

theorem state_ops_refine_stack_witness:
  "states_ok reporting_world \<and> checked reporting_world \<and>
   (\<exists>w'. runStateOp (PopState ''m'' PRE_REPORTING) reporting_world = (Inr (), w') \<and>
     stateHistory w' ''m'' = [])"
  using state_ops_refine_stack [OF reporting_world_ok(1,2), of "PopState ''m'' PRE_REPORTING"]
    reporting_world_ok
  by (auto simp: reporting_world_history)

theorem state_changes_roll_back_witness:
  "states_ok reporting_world \<and> checked reporting_world \<and>
   (\<exists>w' w''. forA [(''m'', OPEN_REPORTING), (''m'', FINALIZED)] (\<lambda>(a, s). updateMarketState a 7 s)
       reporting_world = (Inr (), w') \<and>
     forA (rev [(''m'', OPEN_REPORTING), (''m'', FINALIZED)]) (\<lambda>(a, s). rollbackMarketState a s) w' =
       (Inr (), w'') \<and>
     stateHistory w'' = stateHistory reporting_world)"
  using state_changes_roll_back [OF reporting_world_ok(1,2)] reporting_world_ok by blast

theorem fee_windows_advance_witness:
  "\<exists>w'. updateActiveFeeWindows 7 2000 reporting_world =
       (Inr \<lparr>expiredFeeWindows = [''f1''], newActiveFeeWindows = [''f2'']\<rparr>, w') \<and>
     t_fee_windows (tables w') = [sample_window ''f1'' 500 1500 PAST, sample_window ''f2'' 1500 2500 CURRENT]"
proof -
  have "modificationsAt 2000 reporting_world =
      \<lparr>expiredFeeWindows = [''f1''], newActiveFeeWindows = [''f2'']\<rparr>"
    by (simp add: modificationsAt_def willExpire_def willOpen_def sample_window_def)
  then show ?thesis
    using fee_windows_advance [OF reporting_world_ok(3), of 7 2000]
    by (auto simp: windowAt_def sample_window_def)
qed

theorem one_current_fee_window_witness:
  "\<exists>mods w'. updateActiveFeeWindows 7 2000 reporting_world = (Inr mods, w') \<and> windowsInOrder 2000 w'"
proof -
  obtain mods w' where run: "updateActiveFeeWindows 7 2000 reporting_world = (Inr mods, w')"
    using updateActiveFeeWindows_run [OF reporting_world_ok(3)] by blast
  then show ?thesis using one_current_fee_window [OF reporting_world_ok(3,4) _ run] by auto
qed

theorem insertPayout_once_witness:
  "\<exists>i w'. insertPayout ''m'' [Some 0, Some 10000] False True reporting_world = (Inr i, w') \<and>
     insertPayout ''m'' [Some 0, Some 10000] False False w' = (Inr i, w')"
proof -
  have "payouts_ok reporting_world" by (simp add: payouts_ok_def)
  moreover have "payoutColumns [Some 0, Some 10000] =
      Inr [Some 0, Some 10000, None, None, None, None, None, None]"
    by (simp add: payoutColumns_def numeral_eq_Suc)
  ultimately show ?thesis using insertPayout_once by blast
qed

end
