(* ===== verification/Advance_Time.thy ===== *)
theory Advance_Time
  imports Market_State
begin

text \<open>
  What the time of a new block changes (\<open>advanceTime\<close> of \<open>blockchain/process-block.ts\<close>): markets whose
  trading has ended go to designated reporting, those without a designated report to open reporting,
  fee windows close and open, and with them the crowdsourcers, the markets that wait for
  finalization and those whose dispute round begins.

  \<open>timeChanges\<close> gives, for one market, the states it goes through, from the state before the block
  alone; the main theorem is that \<open>advanceTime\<close> appends exactly these to the history of each market.
\<close>

section \<open>Operations\<close>

fun reportingStateName :: "ReportingState \<Rightarrow> string" where
  "reportingStateName PRE_REPORTING = ''PRE_REPORTING''"
| "reportingStateName DESIGNATED_REPORTING = ''DESIGNATED_REPORTING''"
| "reportingStateName OPEN_REPORTING = ''OPEN_REPORTING''"
| "reportingStateName CROWDSOURCING_DISPUTE = ''CROWDSOURCING_DISPUTE''"
| "reportingStateName AWAITING_NEXT_WINDOW = ''AWAITING_NEXT_WINDOW''"
| "reportingStateName AWAITING_FINALIZATION = ''AWAITING_FINALIZATION''"
| "reportingStateName FINALIZED = ''FINALIZED''"
| "reportingStateName FORKING = ''FORKING''"
| "reportingStateName AWAITING_NO_REPORT_MIGRATION = ''AWAITING_NO_REPORT_MIGRATION''"
| "reportingStateName AWAITING_FORK_MIGRATION = ''AWAITING_FORK_MIGRATION''"

definition emitMarketState :: "address \<Rightarrow> address \<Rightarrow> ReportingState \<Rightarrow> unit action" where
  "emitMarketState universe marketId reportingState = emit ''MarketState'' (None :: base_log option)
     [(''universe'', VS universe), (''marketId'', VS marketId),
      (''reportingState'', VS (reportingStateName reportingState))]"

text \<open>The markets left-joined with their state rows, of which each market has at most one.\<close>

definition getMarketsWithReportingState ::
  "(markets_row \<Rightarrow> ReportingState option \<Rightarrow> bool) \<Rightarrow> markets_row list action" where
  "getMarketsWithReportingState P = gets (\<lambda>w. filter (\<lambda>m. P m (reportingStateOf w m)) (t_markets (tables w)))"

definition advanceMarketReachingEndTime :: "env \<Rightarrow> int \<Rightarrow> int \<Rightarrow> unit action" where
  "advanceMarketReachingEndTime env blockNumber timestamp =
     bindA (getMarketsWithReportingState (\<lambda>m s. s = Some PRE_REPORTING \<and> mk_endTime m < timestamp))
       (\<lambda>designatedDisputeMarketIds.
     forA designatedDisputeMarketIds (\<lambda>m.
       thenA (updateMarketState (mk_marketId m) blockNumber DESIGNATED_REPORTING)
         (emitMarketState (UniverseAddress env) (mk_marketId m) DESIGNATED_REPORTING)))"

definition advanceMarketMissingDesignatedReport :: "env \<Rightarrow> int \<Rightarrow> int \<Rightarrow> unit action" where
  "advanceMarketMissingDesignatedReport env blockNumber timestamp =
     bindA (getMarketsWithReportingState (\<lambda>m s.
              mk_endTime m < timestamp - DESIGNATED_REPORTING_DURATION_SECONDS env \<and>
              s = Some DESIGNATED_REPORTING)) (\<lambda>marketAddressRows.
     forA marketAddressRows (\<lambda>m.
       thenA (updateMarketState (mk_marketId m) blockNumber OPEN_REPORTING)
         (emitMarketState (UniverseAddress env) (mk_marketId m) OPEN_REPORTING)))"

text \<open>The inner join with \<open>universes\<close>, whose key is the universe, and \<open>forked = 0\<close>.\<close>

definition inUnforkedUniverse :: "world \<Rightarrow> markets_row \<Rightarrow> bool" where
  "inUnforkedUniverse w m \<longleftrightarrow>
     list_ex (\<lambda>u. un_universe u = mk_universe m \<and> \<not> un_forked u) (t_universes (tables w))"

definition advanceIncompleteCrowdsourcers :: "address list \<Rightarrow> unit action" where
  "advanceIncompleteCrowdsourcers expired =
     update crowdsourcers (\<lambda>c. cs_completed c = None \<and> cs_feeWindow c \<in> set expired)
       (\<lambda>c. c\<lparr>cs_completed := Some 0\<rparr>)"

definition advanceMarketsToAwaitingFinalization :: "int \<Rightarrow> address list \<Rightarrow> unit action" where
  "advanceMarketsToAwaitingFinalization blockNumber expired =
     bindA (gets (\<lambda>w. filter (\<lambda>m. inUnforkedUniverse w m \<and> mk_feeWindow m \<in> set expired \<and>
              mk_needsMigration m \<noteq> 1 \<and> mk_forking m \<noteq> 1) (t_markets (tables w)))) (\<lambda>marketIds.
     forA marketIds (\<lambda>m.
       thenA (updateMarketState (mk_marketId m) blockNumber AWAITING_FINALIZATION)
      (thenA (emitMarketState (mk_universe m) (mk_marketId m) AWAITING_FINALIZATION)
      (update payouts (\<lambda>p. po_marketId p = mk_marketId m)
         (\<lambda>p. p\<lparr>po_winning := Some (po_tentativeWinning p)\<rparr>)))))"

text \<open>One row per market and current window of its universe.\<close>

definition advanceMarketsToCrowdsourcingDispute :: "int \<Rightarrow> address list \<Rightarrow> unit action" where
  "advanceMarketsToCrowdsourcingDispute blockNumber newActive =
     bindA (gets (\<lambda>w. concat (map (\<lambda>m. map (\<lambda>f. (m, fw_feeWindow f))
                (filter (\<lambda>f. fw_universe f = mk_universe m \<and> fw_state f = CURRENT)
                  (t_fee_windows (tables w))))
              (filter (\<lambda>m. inUnforkedUniverse w m \<and> mk_feeWindow m \<in> set newActive \<and>
                 reportingStateOf w m = Some AWAITING_NEXT_WINDOW) (t_markets (tables w)))))) (\<lambda>marketIds.
     forA marketIds (\<lambda>(m, feeWindow).
       thenA (emit ''MarketState'' (None :: base_log option)
                [(''universe'', VS (mk_universe m)), (''feeWindow'', VS feeWindow),
                 (''marketId'', VS (mk_marketId m)),
                 (''reportingState'', VS (reportingStateName CROWDSOURCING_DISPUTE))])
         (updateMarketState (mk_marketId m) blockNumber CROWDSOURCING_DISPUTE)))"

definition advanceFeeWindowActive :: "int \<Rightarrow> int \<Rightarrow> unit action" where
  "advanceFeeWindowActive blockNumber timestamp =
     bindA (updateActiveFeeWindows blockNumber timestamp) (\<lambda>mods.
     if expiredFeeWindows mods = [] \<and> newActiveFeeWindows mods = [] then return ()
     else thenA (advanceIncompleteCrowdsourcers (expiredFeeWindows mods))
         (thenA (advanceMarketsToAwaitingFinalization blockNumber (expiredFeeWindows mods))
           (advanceMarketsToCrowdsourcingDispute blockNumber (newActiveFeeWindows mods))))"

definition advanceTime :: "env \<Rightarrow> int \<Rightarrow> int \<Rightarrow> unit action" where
  "advanceTime env blockNumber timestamp =
     thenA (advanceMarketReachingEndTime env blockNumber timestamp)
    (thenA (advanceMarketMissingDesignatedReport env blockNumber timestamp)
    (advanceFeeWindowActive blockNumber timestamp))"

section \<open>The states a market goes through\<close>

definition latestState :: "ReportingState option \<Rightarrow> ReportingState list \<Rightarrow> ReportingState option" where
  "latestState s ss = (if ss = [] then s else Some (last ss))"

definition endingChanges :: "env \<Rightarrow> int \<Rightarrow> markets_row \<Rightarrow> ReportingState option \<Rightarrow> ReportingState list" where
  "endingChanges env t m s =
     (if s = Some PRE_REPORTING \<and> mk_endTime m < t then [DESIGNATED_REPORTING] else [])"

definition missingChanges :: "env \<Rightarrow> int \<Rightarrow> markets_row \<Rightarrow> ReportingState option \<Rightarrow> ReportingState list" where
  "missingChanges env t m s =
     (if mk_endTime m < t - DESIGNATED_REPORTING_DURATION_SECONDS env \<and> s = Some DESIGNATED_REPORTING
      then [OPEN_REPORTING] else [])"

definition finalizationChanges :: "int \<Rightarrow> world \<Rightarrow> markets_row \<Rightarrow> ReportingState list" where
  "finalizationChanges t w m =
     (if inUnforkedUniverse w m \<and> mk_feeWindow m \<in> set (expiredFeeWindows (modificationsAt t w)) \<and>
        mk_needsMigration m \<noteq> 1 \<and> mk_forking m \<noteq> 1 then [AWAITING_FINALIZATION] else [])"

definition currentWindowsAt :: "int \<Rightarrow> world \<Rightarrow> address \<Rightarrow> fee_windows_row list" where
  "currentWindowsAt t w u =
     filter (\<lambda>f. fw_universe f = u \<and> fw_state f = CURRENT) (map (windowAt t) (t_fee_windows (tables w)))"

definition disputeChanges :: "int \<Rightarrow> world \<Rightarrow> markets_row \<Rightarrow> ReportingState option \<Rightarrow> ReportingState list" where
  "disputeChanges t w m s =
     (if inUnforkedUniverse w m \<and> mk_feeWindow m \<in> set (newActiveFeeWindows (modificationsAt t w)) \<and>
        s = Some AWAITING_NEXT_WINDOW
      then replicate (length (currentWindowsAt t w (mk_universe m))) CROWDSOURCING_DISPUTE else [])"

definition timeChanges :: "env \<Rightarrow> int \<Rightarrow> world \<Rightarrow> markets_row \<Rightarrow> ReportingState list" where
  "timeChanges env t w m =
     (let s0 = reportingStateOf w m;
          c1 = endingChanges env t m s0; s1 = latestState s0 c1;
          c2 = missingChanges env t m s1; s2 = latestState s1 c2;
          c3 = finalizationChanges t w m; s3 = latestState s2 c3;
          c4 = disputeChanges t w m s3
      in c1 @ c2 @ c3 @ c4)"

section \<open>Stages\<close>

text \<open>A market without its pointer, and what a change of states leaves alone.\<close>

definition erase :: "markets_row \<Rightarrow> markets_row" where
  "erase m = m\<lparr>mk_marketStateId := None\<rparr>"

definition besideStates :: "world \<Rightarrow> db" where
  "besideStates w = (tables w)\<lparr>t_market_state := [], next_marketStateId := 0,
     t_markets := map erase (t_markets (tables w)), t_payouts := []\<rparr>"

abbreviation topState :: "world \<Rightarrow> address \<Rightarrow> ReportingState option" where
  "topState w a \<equiv> (if stateHistory w a = [] then None else Some (last (stateHistory w a)))"

lemma erase_sel [simp]:
  "mk_marketId (erase m) = mk_marketId m" "mk_feeWindow (erase m) = mk_feeWindow m"
  "mk_endTime (erase m) = mk_endTime m" "mk_universe (erase m) = mk_universe m"
  "mk_needsMigration (erase m) = mk_needsMigration m" "mk_forking (erase m) = mk_forking m"
  "erase (pointTo a i m) = erase m"
  by (simp_all add: erase_def pointTo_def)

lemma besideStates_D:
  assumes "besideStates w' = besideStates w"
  shows "map erase (t_markets (tables w')) = map erase (t_markets (tables w))"
    "t_fee_windows (tables w') = t_fee_windows (tables w)"
    "t_universes (tables w') = t_universes (tables w)"
    "t_crowdsourcers (tables w') = t_crowdsourcers (tables w)"
proof -
  let ?b = "besideStates"
  show "map erase (t_markets (tables w')) = map erase (t_markets (tables w))"
    using arg_cong [OF assms, of t_markets] by (simp add: besideStates_def)
  show "t_fee_windows (tables w') = t_fee_windows (tables w)"
    using arg_cong [OF assms, of t_fee_windows] by (simp add: besideStates_def)
  show "t_universes (tables w') = t_universes (tables w)"
    using arg_cong [OF assms, of t_universes] by (simp add: besideStates_def)
  show "t_crowdsourcers (tables w') = t_crowdsourcers (tables w)"
    using arg_cong [OF assms, of t_crowdsourcers] by (simp add: besideStates_def)
qed

lemma pushing_step:
  assumes "ready_states w"
  shows "\<exists>w'. thenA (updateMarketState a b s) (emitMarketState u c s') w = (Inr (), w') \<and>
    ready_states w' \<and> stateHistory w' = (stateHistory w)(a := stateHistory w a @ [s]) \<and>
    besideStates w' = besideStates w"
proof -
  have "besideStates (stateChanged a b s w) = besideStates w"
    by (simp add: besideStates_def stateChanged_def)
  then have "besideStates ((stateChanged a b s w)\<lparr>emitted := ev\<rparr>) = besideStates w" for ev
    by (simp add: besideStates_def)
  then show ?thesis
    using assms
    by (simp add: thenA_ok [where m = "updateMarketState a b s", OF updateMarketState_run]
        emitMarketState_def emit_app stateChanged_ok stateChanged_history)
qed

text \<open>
  One stage over the markets: each market that \<open>Q\<close> selects, which may look at the state of the market
  but not at the pointer, goes through one more state. \<open>E\<close>: the markets, without their pointers.
\<close>

lemma selected_once:
  assumes "sorted_wrt (\<lambda>x y. mk_marketId x \<noteq> mk_marketId y) E" "m \<in> set E"
  shows "filter (\<lambda>x. mk_marketId x = mk_marketId m \<and> Q x) E = (if Q m then [m] else [])"
  using assms by (induction E) (auto simp: filter_empty_conv)

lemma filter_erase:
  assumes "\<And>x. x \<in> set xs \<Longrightarrow> P x = P' (erase x)"
  shows "map erase (filter P xs) = filter P' (map erase xs)"
  using assms by (induction xs) auto

lemma stage:
  assumes inv: "ready_states w" and E: "map erase (t_markets (tables w)) = E"
    and keys: "sorted_wrt (\<lambda>x y. mk_marketId x \<noteq> mk_marketId y) E"
    and step: "\<And>x w. ready_states w \<Longrightarrow> \<exists>w'. f x w = (Inr (), w') \<and> ready_states w' \<and>
      stateHistory w' = (stateHistory w)(mk_marketId x := stateHistory w (mk_marketId x) @ [s]) \<and> F w' = F w"
    and Q: "\<And>x. x \<in> set (t_markets (tables w)) \<Longrightarrow> Q x = Q' (erase x)"
  shows "\<exists>w'. forA (filter Q (t_markets (tables w))) f w = (Inr (), w') \<and> ready_states w' \<and>
    F w' = F w \<and> (\<forall>m \<in> set E. stateHistory w' (mk_marketId m) =
      stateHistory w (mk_marketId m) @ (if Q' m then [s] else []))"
proof -
  let ?rows = "filter Q (t_markets (tables w))"
  obtain w' where w': "forA ?rows f w = (Inr (), w')" "ready_states w'" "F w' = F w"
    "stateHistory w' = (\<lambda>a. stateHistory w a @ replicate (length (filter (\<lambda>x. mk_marketId x = a) ?rows)) s)"
    using log.pushing_loop [where xs = ?rows and f = f and key = mk_marketId and F = F and s = s, OF inv step]
    by auto
  have "length (filter (\<lambda>x. mk_marketId x = mk_marketId m) ?rows) = (if Q' m then 1 else 0)"
    if m: "m \<in> set E" for m
  proof -
    have "map erase (filter (\<lambda>x. mk_marketId x = mk_marketId m) ?rows) =
        filter (\<lambda>x. mk_marketId x = mk_marketId m \<and> Q' x) E"
      unfolding filter_filter E [symmetric] by (rule filter_erase) (auto simp: Q)
    also have "\<dots> = (if Q' m then [m] else [])" by (rule selected_once [OF keys m])
    finally have "length (map erase (filter (\<lambda>x. mk_marketId x = mk_marketId m) ?rows)) =
        length (if Q' m then [m] else [])" by (rule arg_cong)
    then show ?thesis by (simp split: if_splits)
  qed
  then show ?thesis using w' by auto
qed

text \<open>\<open>marketsAre E w\<close>: the markets of \<open>w\<close> are \<open>E\<close>, each with a key of its own.\<close>

definition marketsAre :: "markets_row list \<Rightarrow> world \<Rightarrow> bool" where
  "marketsAre E w \<longleftrightarrow> map erase (t_markets (tables w)) = E \<and>
     sorted_wrt (\<lambda>x y. mk_marketId x \<noteq> mk_marketId y) E"

lemma marketsAre_frame: "besideStates w' = besideStates w \<Longrightarrow> marketsAre E w' = marketsAre E w"
  unfolding marketsAre_def by (simp only: besideStates_D(1) [of w' w])

lemma endingStage:
  assumes "ready_states w" "marketsAre E w"
  shows "\<exists>w'. advanceMarketReachingEndTime env b t w = (Inr (), w') \<and> ready_states w' \<and>
    besideStates w' = besideStates w \<and> (\<forall>m \<in> set E. stateHistory w' (mk_marketId m) =
      stateHistory w (mk_marketId m) @ endingChanges env t m (topState w (mk_marketId m)))"
proof -
  let ?Q = "\<lambda>m. topState w (mk_marketId m) = Some PRE_REPORTING \<and> mk_endTime m < t"
  have "\<exists>w'. forA (filter (\<lambda>m. reportingStateOf w m = Some PRE_REPORTING \<and> mk_endTime m < t)
        (t_markets (tables w))) (\<lambda>m. thenA (updateMarketState (mk_marketId m) b DESIGNATED_REPORTING)
        (emitMarketState (UniverseAddress env) (mk_marketId m) DESIGNATED_REPORTING)) w = (Inr (), w') \<and>
      ready_states w' \<and> besideStates w' = besideStates w \<and>
      (\<forall>m \<in> set E. stateHistory w' (mk_marketId m) =
        stateHistory w (mk_marketId m) @ (if ?Q m then [DESIGNATED_REPORTING] else []))"
  proof (rule stage [where F = besideStates])
    show "ready_states w" by (rule assms(1))
    show "map erase (t_markets (tables w)) = E" "sorted_wrt (\<lambda>x y. mk_marketId x \<noteq> mk_marketId y) E"
      using assms(2) by (simp_all add: marketsAre_def)
    fix x
    assume "x \<in> set (t_markets (tables w))"
    then have "reportingStateOf w x = topState w (mk_marketId (erase x))"
      unfolding erase_sel by (rule current_state [OF conjunct1 [OF assms(1)]])
    then show "(reportingStateOf w x = Some PRE_REPORTING \<and> mk_endTime x < t) = ?Q (erase x)"
      by (simp only: erase_sel)
  qed (rule pushing_step)
  then show ?thesis
    unfolding advanceMarketReachingEndTime_def getMarketsWithReportingState_def bindA_gets endingChanges_def .
qed

lemma missingStage:
  assumes "ready_states w" "marketsAre E w"
  shows "\<exists>w'. advanceMarketMissingDesignatedReport env b t w = (Inr (), w') \<and> ready_states w' \<and>
    besideStates w' = besideStates w \<and> (\<forall>m \<in> set E. stateHistory w' (mk_marketId m) =
      stateHistory w (mk_marketId m) @ missingChanges env t m (topState w (mk_marketId m)))"
proof -
  let ?Q = "\<lambda>m. mk_endTime m < t - DESIGNATED_REPORTING_DURATION_SECONDS env \<and>
    topState w (mk_marketId m) = Some DESIGNATED_REPORTING"
  have "\<exists>w'. forA (filter (\<lambda>m. mk_endTime m < t - DESIGNATED_REPORTING_DURATION_SECONDS env \<and>
        reportingStateOf w m = Some DESIGNATED_REPORTING)
        (t_markets (tables w))) (\<lambda>m. thenA (updateMarketState (mk_marketId m) b OPEN_REPORTING)
        (emitMarketState (UniverseAddress env) (mk_marketId m) OPEN_REPORTING)) w = (Inr (), w') \<and>
      ready_states w' \<and> besideStates w' = besideStates w \<and>
      (\<forall>m \<in> set E. stateHistory w' (mk_marketId m) =
        stateHistory w (mk_marketId m) @ (if ?Q m then [OPEN_REPORTING] else []))"
  proof (rule stage [where F = besideStates])
    show "ready_states w" by (rule assms(1))
    show "map erase (t_markets (tables w)) = E" "sorted_wrt (\<lambda>x y. mk_marketId x \<noteq> mk_marketId y) E"
      using assms(2) by (simp_all add: marketsAre_def)
    fix x
    assume "x \<in> set (t_markets (tables w))"
    then have "reportingStateOf w x = topState w (mk_marketId (erase x))"
      unfolding erase_sel by (rule current_state [OF conjunct1 [OF assms(1)]])
    then show "(mk_endTime x < t - DESIGNATED_REPORTING_DURATION_SECONDS env \<and>
        reportingStateOf w x = Some DESIGNATED_REPORTING) = ?Q (erase x)"
      by (simp only: erase_sel)
  qed (rule pushing_step)
  then show ?thesis
    unfolding advanceMarketMissingDesignatedReport_def getMarketsWithReportingState_def bindA_gets
      missingChanges_def .
qed

lemma inUnforkedUniverse_erase [simp]: "inUnforkedUniverse w (erase m) = inUnforkedUniverse w m"
  by (simp add: inUnforkedUniverse_def)

definition finalizes :: "address list \<Rightarrow> world \<Rightarrow> markets_row \<Rightarrow> bool" where
  "finalizes expired w m \<longleftrightarrow> inUnforkedUniverse w m \<and> mk_feeWindow m \<in> set expired \<and>
     mk_needsMigration m \<noteq> 1 \<and> mk_forking m \<noteq> 1"

lemma finalizing_step:
  assumes "ready_states w"
  shows "\<exists>w'. thenA (updateMarketState a b s) (thenA (emitMarketState u c s')
      (update payouts P f)) w = (Inr (), w') \<and>
    ready_states w' \<and> stateHistory w' = (stateHistory w)(a := stateHistory w a @ [s]) \<and>
    besideStates w' = besideStates w"
proof -
  let ?w1 = "stateChanged a b s w"
  let ?ev = "emitted ?w1 @ [\<lparr>ev_name = ''MarketState'', ev_log = None, ev_data =
    [(''universe'', VS u), (''marketId'', VS c), (''reportingState'', VS (reportingStateName s'))]\<rparr>]"
  let ?w2 = "(?w1\<lparr>emitted := ?ev\<rparr>)\<lparr>tables := (tables ?w1)
    \<lparr>t_payouts := map (\<lambda>p. if P p then f p else p) (t_payouts (tables ?w1))\<rparr>\<rparr>"
  have w2: "thenA (emitMarketState u c s') (update payouts P f) ?w1 = (Inr (), ?w2)"
    by (simp add: emitMarketState_def thenA_emit update_app payouts_constraints list_ex_iff)
  have "besideStates ?w1 = besideStates w" by (simp add: besideStates_def stateChanged_def)
  then have "besideStates ?w2 = besideStates w" by (simp add: besideStates_def)
  moreover have "states_ok ?w2 = states_ok ?w1" "checked ?w2 = checked ?w1" "stateHistory ?w2 = stateHistory ?w1"
    by (simp_all add: states_ok_def checked_def stateHistory_def fun_eq_iff)
  ultimately show ?thesis
    using assms w2
    by (simp add: thenA_ok [where m = "updateMarketState a b s", OF updateMarketState_run]
        stateChanged_ok stateChanged_history del: stateChanged_sel)
qed

lemma finalizationStage:
  assumes "ready_states w" "marketsAre E w"
  shows "\<exists>w'. advanceMarketsToAwaitingFinalization b expired w = (Inr (), w') \<and> ready_states w' \<and>
    besideStates w' = besideStates w \<and> (\<forall>m \<in> set E. stateHistory w' (mk_marketId m) =
      stateHistory w (mk_marketId m) @ (if finalizes expired w m then [AWAITING_FINALIZATION] else []))"
proof -
  have "\<exists>w'. forA (filter (finalizes expired w) (t_markets (tables w))) (\<lambda>m.
        thenA (updateMarketState (mk_marketId m) b AWAITING_FINALIZATION)
          (thenA (emitMarketState (mk_universe m) (mk_marketId m) AWAITING_FINALIZATION)
            (update payouts (\<lambda>p. po_marketId p = mk_marketId m)
              (\<lambda>p. p\<lparr>po_winning := Some (po_tentativeWinning p)\<rparr>)))) w = (Inr (), w') \<and>
      ready_states w' \<and> besideStates w' = besideStates w \<and>
      (\<forall>m \<in> set E. stateHistory w' (mk_marketId m) =
        stateHistory w (mk_marketId m) @ (if finalizes expired w m then [AWAITING_FINALIZATION] else []))"
  proof (rule stage [where F = besideStates])
    show "ready_states w" by (rule assms(1))
    show "map erase (t_markets (tables w)) = E" "sorted_wrt (\<lambda>x y. mk_marketId x \<noteq> mk_marketId y) E"
      using assms(2) by (simp_all add: marketsAre_def)
    show "finalizes expired w x = finalizes expired w (erase x)" for x by (simp add: finalizes_def)
  qed (rule finalizing_step)
  then show ?thesis
    unfolding advanceMarketsToAwaitingFinalization_def bindA_gets finalizes_def [symmetric] .
qed

text \<open>The dispute stage: one row per selected market and current window of its universe.\<close>

lemma rows_per_market:
  "length (filter (\<lambda>p. mk_marketId (fst p) = i)
      (concat (map (\<lambda>m. map (\<lambda>f. (m, g f)) (ws m)) ms))) =
    sum_list (map (\<lambda>m. length (ws m)) (filter (\<lambda>m. mk_marketId m = i) ms))"
proof (induction ms)
  case (Cons m ms)
  have "length (filter (\<lambda>p. mk_marketId (fst p) = i) (map (\<lambda>f. (m, g f)) (ws m))) =
      (if mk_marketId m = i then length (ws m) else 0)"
    by (simp add: filter_map o_def)
  with Cons.IH show ?case by simp
qed simp

lemma disputing_step:
  assumes "ready_states w"
  shows "\<exists>w'. (case p of (m, feeWindow) \<Rightarrow> thenA (emit n lg (d m feeWindow))
      (updateMarketState (mk_marketId m) b s)) w = (Inr (), w') \<and> ready_states w' \<and>
    stateHistory w' = (stateHistory w)(mk_marketId (fst p) := stateHistory w (mk_marketId (fst p)) @ [s]) \<and>
    besideStates w' = besideStates w"
proof (cases p)
  case (Pair m feeWindow)
  let ?w1 = "w\<lparr>emitted := emitted w @
    [\<lparr>ev_name = n, ev_log = map_option base_log.truncate lg, ev_data = d m feeWindow\<rparr>]\<rparr>"
  have "besideStates (stateChanged (mk_marketId m) b s ?w1) = besideStates ?w1"
    by (simp add: besideStates_def stateChanged_def)
  also have "\<dots> = besideStates w" by (simp add: besideStates_def)
  finally show ?thesis
    using assms
    by (simp add: Pair thenA_emit updateMarketState_run stateChanged_ok stateChanged_history del: stateChanged_sel)
qed

definition disputes_begin :: "address list \<Rightarrow> world \<Rightarrow> markets_row \<Rightarrow> ReportingState option \<Rightarrow> bool" where
  "disputes_begin newActive w m s \<longleftrightarrow> inUnforkedUniverse w m \<and> mk_feeWindow m \<in> set newActive \<and>
     s = Some AWAITING_NEXT_WINDOW"

lemma disputeStage:
  assumes "ready_states w" "marketsAre E w"
  shows "\<exists>w'. advanceMarketsToCrowdsourcingDispute b newActive w = (Inr (), w') \<and> ready_states w' \<and>
    besideStates w' = besideStates w \<and> (\<forall>m \<in> set E. stateHistory w' (mk_marketId m) =
      stateHistory w (mk_marketId m) @
        (if disputes_begin newActive w m (topState w (mk_marketId m))
         then replicate (length (filter (\<lambda>f. fw_universe f = mk_universe m \<and> fw_state f = CURRENT)
                (t_fee_windows (tables w)))) CROWDSOURCING_DISPUTE
         else []))"
proof -
  let ?ws = "\<lambda>m. filter (\<lambda>f. fw_universe f = mk_universe m \<and> fw_state f = CURRENT) (t_fee_windows (tables w))"
  let ?P = "\<lambda>m. disputes_begin newActive w m (reportingStateOf w m)"
  let ?Q = "\<lambda>m. disputes_begin newActive w m (topState w (mk_marketId m))"
  let ?ms = "filter ?P (t_markets (tables w))"
  let ?rows = "concat (map (\<lambda>m. map (\<lambda>f. (m, fw_feeWindow f)) (?ws m)) ?ms)"
  let ?f = "\<lambda>(m, feeWindow). thenA (emit ''MarketState'' (None :: base_log option)
      [(''universe'', VS (mk_universe m)), (''feeWindow'', VS feeWindow), (''marketId'', VS (mk_marketId m)),
       (''reportingState'', VS (reportingStateName CROWDSOURCING_DISPUTE))])
      (updateMarketState (mk_marketId m) b CROWDSOURCING_DISPUTE)"
  obtain w' where w': "forA ?rows ?f w = (Inr (), w')" "ready_states w'" "besideStates w' = besideStates w"
    "stateHistory w' = (\<lambda>a. stateHistory w a @ replicate (length (filter (\<lambda>p. mk_marketId (fst p) = a) ?rows))
       CROWDSOURCING_DISPUTE)"
    using log.pushing_loop [where xs = ?rows and f = ?f and key = "\<lambda>p. mk_marketId (fst p)"
        and F = besideStates and s = CROWDSOURCING_DISPUTE, OF assms(1) disputing_step] by blast
  have "length (filter (\<lambda>p. mk_marketId (fst p) = mk_marketId m) ?rows) = (if ?Q m then length (?ws m) else 0)"
    if m: "m \<in> set E" for m
  proof -
    have E: "map erase (t_markets (tables w)) = E" "sorted_wrt (\<lambda>x y. mk_marketId x \<noteq> mk_marketId y) E"
      using assms(2) by (simp_all add: marketsAre_def)
    have P: "?P x = ?Q (erase x)" if "x \<in> set (t_markets (tables w))" for x
      using current_state [OF conjunct1 [OF assms(1)] that] by (simp only: erase_sel disputes_begin_def
          inUnforkedUniverse_erase)
    have "map erase (filter (\<lambda>x. mk_marketId x = mk_marketId m) ?ms) =
        filter (\<lambda>x. mk_marketId x = mk_marketId m \<and> ?Q x) E"
      unfolding filter_filter E(1) [symmetric] by (rule filter_erase) (simp only: P erase_sel conj_commute)
    also have "\<dots> = (if ?Q m then [m] else [])" by (rule selected_once [OF E(2) m])
    finally have sel: "map erase (filter (\<lambda>x. mk_marketId x = mk_marketId m) ?ms) = (if ?Q m then [m] else [])" .
    have "sum_list (map (\<lambda>x. length (?ws x)) (filter (\<lambda>x. mk_marketId x = mk_marketId m) ?ms)) =
        sum_list (map (\<lambda>x. length (?ws x)) (map erase (filter (\<lambda>x. mk_marketId x = mk_marketId m) ?ms)))"
      by (simp only: map_map o_def erase_sel)
    also have "\<dots> = (if ?Q m then length (?ws m) else 0)" unfolding sel by simp
    finally show ?thesis unfolding rows_per_market .
  qed
  then have "stateHistory w' (mk_marketId m) = stateHistory w (mk_marketId m) @
      (if ?Q m then replicate (length (?ws m)) CROWDSOURCING_DISPUTE else [])" if "m \<in> set E" for m
    unfolding w'(4) using that by simp
  moreover have "advanceMarketsToCrowdsourcingDispute b newActive w = (Inr (), w')"
    unfolding advanceMarketsToCrowdsourcingDispute_def bindA_gets disputes_begin_def [symmetric] by (rule w'(1))
  ultimately show ?thesis using w'(2,3) by blast
qed

section \<open>The whole step\<close>

lemma windowsAt_sel [simp]:
  "t_markets (tables (windowsAt t w)) = t_markets (tables w)"
  "t_market_state (tables (windowsAt t w)) = t_market_state (tables w)"
  "next_marketStateId (tables (windowsAt t w)) = next_marketStateId (tables w)"
  "t_fee_windows (tables (windowsAt t w)) = map (windowAt t) (t_fee_windows (tables w))"
  "t_universes (tables (windowsAt t w)) = t_universes (tables w)"
  by (simp_all add: windowsAt_def)

lemma marketsAre_same:
  "t_markets (tables w') = t_markets (tables w) \<Longrightarrow> marketsAre E w' = marketsAre E w"
  by (simp add: marketsAre_def)

lemma no_modifications:
  assumes "expiredFeeWindows (modificationsAt t w) = []" "newActiveFeeWindows (modificationsAt t w) = []"
  shows "finalizationChanges t w m = []" "disputeChanges t w m s = []"
  by (simp_all add: finalizationChanges_def disputeChanges_def assms)

lemma windowStage:
  assumes "ready_states w" "marketsAre E w" "fee_windows.valid_table w"
  shows "\<exists>w'. advanceFeeWindowActive b t w = (Inr (), w') \<and> ready_states w' \<and>
    (\<forall>m \<in> set E. stateHistory w' (mk_marketId m) = stateHistory w (mk_marketId m) @
      finalizationChanges t w m @ disputeChanges t w m
        (latestState (topState w (mk_marketId m)) (finalizationChanges t w m)))"
proof -
  let ?mods = "modificationsAt t w"
  obtain ev where u: "updateActiveFeeWindows b t w = (Inr ?mods, (windowsAt t w)\<lparr>emitted := ev\<rparr>)"
    using updateActiveFeeWindows_run [OF assms(3)] by blast
  let ?w1 = "(windowsAt t w)\<lparr>emitted := ev\<rparr>"
  have w1: "ready_states ?w1" "stateHistory ?w1 = stateHistory w"
    using states_frame(1-3) [of ?w1 w] assms(1) by simp_all
  show ?thesis
  proof (cases "expiredFeeWindows ?mods = [] \<and> newActiveFeeWindows ?mods = []")
    case True
    then have "advanceFeeWindowActive b t w = (Inr (), ?w1)"
      unfolding advanceFeeWindowActive_def by (simp add: bindA_ok [where m = "updateActiveFeeWindows b t", OF u]
          return_app)
    then show ?thesis using True no_modifications w1 by (intro exI [of _ ?w1]) simp
  next
    case False
    let ?w2 = "?w1\<lparr>tables := (tables ?w1)\<lparr>t_crowdsourcers := map (\<lambda>c. if cs_completed c = None \<and>
      cs_feeWindow c \<in> set (expiredFeeWindows ?mods) then c\<lparr>cs_completed := Some 0\<rparr> else c)
      (t_crowdsourcers (tables ?w1))\<rparr>\<rparr>"
    have c: "advanceIncompleteCrowdsourcers (expiredFeeWindows ?mods) ?w1 = (Inr (), ?w2)"
      unfolding advanceIncompleteCrowdsourcers_def
      by (simp add: update_app crowdsourcers_constraints list_ex_iff)
    have w2: "ready_states ?w2" "stateHistory ?w2 = stateHistory w" "marketsAre E ?w2"
      using states_frame(1-3) [of ?w2 w] marketsAre_same [of ?w2 w E] assms(1,2) by simp_all
    obtain w3 where w3: "advanceMarketsToAwaitingFinalization b (expiredFeeWindows ?mods) ?w2 = (Inr (), w3)"
      "ready_states w3" "besideStates w3 = besideStates ?w2"
      "\<forall>m \<in> set E. stateHistory w3 (mk_marketId m) = stateHistory ?w2 (mk_marketId m) @
         (if finalizes (expiredFeeWindows ?mods) ?w2 m then [AWAITING_FINALIZATION] else [])"
      using finalizationStage [OF w2(1,3)] by blast
    obtain w4 where w4: "advanceMarketsToCrowdsourcingDispute b (newActiveFeeWindows ?mods) w3 = (Inr (), w4)"
      "ready_states w4"
      "\<forall>m \<in> set E. stateHistory w4 (mk_marketId m) = stateHistory w3 (mk_marketId m) @
         (if disputes_begin (newActiveFeeWindows ?mods) w3 m (topState w3 (mk_marketId m))
          then replicate (length (filter (\<lambda>f. fw_universe f = mk_universe m \<and> fw_state f = CURRENT)
                 (t_fee_windows (tables w3)))) CROWDSOURCING_DISPUTE
          else [])"
      using disputeStage [OF w3(2) marketsAre_frame [OF w3(3), of E, THEN iffD2, OF w2(3)]] by blast
    have run: "advanceFeeWindowActive b t w = (Inr (), w4)"
      unfolding advanceFeeWindowActive_def bindA_ok [where m = "updateActiveFeeWindows b t", OF u]
        if_not_P [OF False]
      by (simp only: thenA_ok [where m = "advanceIncompleteCrowdsourcers (expiredFeeWindows ?mods)", OF c]
          thenA_ok [where m = "advanceMarketsToAwaitingFinalization b (expiredFeeWindows ?mods)", OF w3(1)] w4(1))
    have universes: "inUnforkedUniverse ?w2 m = inUnforkedUniverse w m"
      "inUnforkedUniverse w3 m = inUnforkedUniverse w m" for m
      using besideStates_D(3) [OF w3(3)] by (simp_all add: inUnforkedUniverse_def)
    have windows: "t_fee_windows (tables w3) = map (windowAt t) (t_fee_windows (tables w))"
      using besideStates_D(2) [OF w3(3)] by simp
    have fin: "(if finalizes (expiredFeeWindows ?mods) ?w2 m then [AWAITING_FINALIZATION] else []) =
        finalizationChanges t w m" for m
      unfolding finalizes_def finalizationChanges_def universes ..
    have h3: "stateHistory w3 (mk_marketId m) = stateHistory w (mk_marketId m) @ finalizationChanges t w m"
      if "m \<in> set E" for m
      using w3(4) that unfolding fin w2(2) by blast
    have top: "topState w3 (mk_marketId m) =
        latestState (topState w (mk_marketId m)) (finalizationChanges t w m)" if "m \<in> set E" for m
      unfolding h3 [OF that] by (simp add: latestState_def)
    have "stateHistory w4 (mk_marketId m) = stateHistory w (mk_marketId m) @ finalizationChanges t w m @
        disputeChanges t w m (latestState (topState w (mk_marketId m)) (finalizationChanges t w m))"
      if m: "m \<in> set E" for m
    proof -
      have "(if disputes_begin (newActiveFeeWindows ?mods) w3 m (topState w3 (mk_marketId m))
          then replicate (length (filter (\<lambda>f. fw_universe f = mk_universe m \<and> fw_state f = CURRENT)
                 (t_fee_windows (tables w3)))) CROWDSOURCING_DISPUTE else []) =
          disputeChanges t w m (latestState (topState w (mk_marketId m)) (finalizationChanges t w m))"
        unfolding top [OF m] disputes_begin_def disputeChanges_def currentWindowsAt_def universes windows ..
      then show ?thesis using w4(3) [rule_format, OF m] h3 [OF m] by simp
    qed
    then show ?thesis using run w4(2) by blast
  qed
qed

lemma advanceTime_run:
  assumes "states_ok w" "markets.valid_table w" "fee_windows.valid_table w"
  shows "\<exists>w'. advanceTime env b t w = (Inr (), w') \<and> states_ok w' \<and>
    (\<forall>m \<in> set (t_markets (tables w)). stateHistory w' (mk_marketId m) =
      stateHistory w (mk_marketId m) @ timeChanges env t w m)"
proof -
  let ?E = "map erase (t_markets (tables w))"
  have keys: "sorted_wrt (\<lambda>x y. mk_marketId x \<noteq> mk_marketId y) (t_markets (tables w))"
    and checked: "checked w"
    using assms(2) by (simp_all add: markets.valid_table_def markets_constraints(1) checked_def)
  have E: "marketsAre ?E w" using keys by (simp add: marketsAre_def sorted_wrt_map)
  obtain w1 where w1: "advanceMarketReachingEndTime env b t w = (Inr (), w1)" "ready_states w1"
    "besideStates w1 = besideStates w" "\<forall>m \<in> set ?E. stateHistory w1 (mk_marketId m) =
       stateHistory w (mk_marketId m) @ endingChanges env t m (topState w (mk_marketId m))"
    using endingStage [OF conjI [OF assms(1) checked] E] by blast
  have E1: "marketsAre ?E w1" unfolding marketsAre_frame [OF w1(3)] by (rule E)
  obtain w2 where w2: "advanceMarketMissingDesignatedReport env b t w1 = (Inr (), w2)" "ready_states w2"
    "besideStates w2 = besideStates w1" "\<forall>m \<in> set ?E. stateHistory w2 (mk_marketId m) =
       stateHistory w1 (mk_marketId m) @ missingChanges env t m (topState w1 (mk_marketId m))"
    using missingStage [OF w1(2) E1] by blast
  have E2: "marketsAre ?E w2" unfolding marketsAre_frame [OF w2(3)] by (rule E1)
  have same: "t_fee_windows (tables w2) = t_fee_windows (tables w)"
    "t_universes (tables w2) = t_universes (tables w)"
    using besideStates_D(2,3) [OF w2(3)] besideStates_D(2,3) [OF w1(3)] by simp_all
  then have "fee_windows.valid_table w2" using assms(3) by (simp add: fee_windows.valid_table_def)
  then obtain w3 where w3: "advanceFeeWindowActive b t w2 = (Inr (), w3)" "ready_states w3"
    "\<forall>m \<in> set ?E. stateHistory w3 (mk_marketId m) = stateHistory w2 (mk_marketId m) @
       finalizationChanges t w2 m @ disputeChanges t w2 m
         (latestState (topState w2 (mk_marketId m)) (finalizationChanges t w2 m))"
    using windowStage [OF w2(2) E2] by blast
  have mods: "modificationsAt t w2 = modificationsAt t w" by (simp add: modificationsAt_def same)
  have stages: "finalizationChanges t w2 m = finalizationChanges t w m"
    "disputeChanges t w2 m s = disputeChanges t w m s" for m s
    by (simp_all add: finalizationChanges_def disputeChanges_def mods inUnforkedUniverse_def
        currentWindowsAt_def same)
  have top: "(if h @ c = [] then None else Some (last (h @ c))) =
      latestState (if h = [] then None else Some (last h)) c" for h c :: "ReportingState list"
    by (simp add: latestState_def)
  have erased: "endingChanges env t (erase m) s = endingChanges env t m s"
    "missingChanges env t (erase m) s = missingChanges env t m s"
    "finalizationChanges t w (erase m) = finalizationChanges t w m"
    "disputeChanges t w (erase m) s = disputeChanges t w m s" for m s
    by (simp_all add: endingChanges_def missingChanges_def finalizationChanges_def disputeChanges_def)
  have "stateHistory w3 (mk_marketId m) = stateHistory w (mk_marketId m) @ timeChanges env t w m"
    if m: "m \<in> set (t_markets (tables w))" for m
  proof -
    let ?c1 = "endingChanges env t m (topState w (mk_marketId m))"
    let ?s1 = "latestState (topState w (mk_marketId m)) ?c1"
    have e: "erase m \<in> set ?E" using m by simp
    have h1: "stateHistory w1 (mk_marketId m) = stateHistory w (mk_marketId m) @ ?c1"
      using w1(4) [rule_format, OF e] unfolding erased erase_sel .
    have t1: "topState w1 (mk_marketId m) = ?s1" unfolding h1 top ..
    have h2: "stateHistory w2 (mk_marketId m) = stateHistory w1 (mk_marketId m) @ missingChanges env t m ?s1"
      using w2(4) [rule_format, OF e] unfolding erased erase_sel t1 .
    have t2: "topState w2 (mk_marketId m) = latestState ?s1 (missingChanges env t m ?s1)"
      unfolding h2 top t1 ..
    show ?thesis
      using w3(3) [rule_format, OF e] unfolding erased erase_sel stages t2
      unfolding h2 h1 timeChanges_def Let_def current_state [OF assms(1) m] append_assoc .
  qed
  then show ?thesis
    using w1(1) w2(1) w3(1,2) by (intro exI [of _ w3]) (simp add: advanceTime_def act_simps)
qed

text \<open>C4. \<open>advanceTime\<close> never fails, and takes every market through exactly the states that its time and
  fee window call for, in this order; what it does to one market does not depend on the others.\<close>

theorem advanceTime_states:
  assumes "states_ok w" "markets.valid_table w" "fee_windows.valid_table w"
  shows "\<exists>w'. advanceTime env b t w = (Inr (), w') \<and> states_ok w' \<and>
    (\<forall>m \<in> set (t_markets (tables w)). stateHistory w' (mk_marketId m) =
      stateHistory w (mk_marketId m) @ timeChanges env t w m)"
  by (rule advanceTime_run) (fact assms)+

text \<open>After \<open>advanceTime\<close> no market whose trading has ended is left in pre-reporting, and none whose
  designated reporter is overdue is left in designated reporting.\<close>

theorem no_overdue_market:
  assumes "states_ok w" "markets.valid_table w" "fee_windows.valid_table w"
    "advanceTime env b t w = (Inr (), w')" "m \<in> set (t_markets (tables w))" "mk_endTime m < t"
  shows "stateHistory w' (mk_marketId m) = [] \<or> last (stateHistory w' (mk_marketId m)) \<noteq> PRE_REPORTING \<and>
    (mk_endTime m < t - DESIGNATED_REPORTING_DURATION_SECONDS env \<longrightarrow>
     last (stateHistory w' (mk_marketId m)) \<noteq> DESIGNATED_REPORTING)"
proof -
  obtain v where "advanceTime env b t w = (Inr (), v)" "stateHistory v (mk_marketId m) =
      stateHistory w (mk_marketId m) @ timeChanges env t w m"
    using advanceTime_run [OF assms(1-3)] assms(5) by blast
  then have h: "stateHistory w' (mk_marketId m) = stateHistory w (mk_marketId m) @ timeChanges env t w m"
    using assms(4) by simp
  have s: "reportingStateOf w m = topState w (mk_marketId m)" by (rule current_state [OF assms(1,5)])
  show ?thesis
    using assms(6) unfolding h timeChanges_def Let_def s
    by (auto simp: endingChanges_def missingChanges_def finalizationChanges_def disputeChanges_def
        latestState_def last_append split: if_splits)
qed

text \<open>At 2000 the trading of the sample market has ended and its designated reporter has time left.\<close>

theorem advanceTime_states_witness:
  "\<exists>w'. advanceTime sample_env 7 2000 reporting_world = (Inr (), w') \<and>
     stateHistory w' ''m'' = [PRE_REPORTING, DESIGNATED_REPORTING]"
proof -
  have m: "mk_marketId sample_market = ''m''" "mk_endTime sample_market = 1000" "mk_feeWindow sample_market = ''''"
    by (simp_all add: sample_market_def)
  have s: "reportingStateOf reporting_world sample_market = Some PRE_REPORTING"
    by (subst current_state) (simp_all add: reporting_world_ok reporting_world_history m)
  have "timeChanges sample_env 2000 reporting_world sample_market = [DESIGNATED_REPORTING]"
    unfolding timeChanges_def s
    by (simp add: endingChanges_def missingChanges_def finalizationChanges_def disputeChanges_def
        latestState_def m sample_env_def modificationsAt_def sample_window_def)
  then show ?thesis
    using advanceTime_states [OF reporting_world_ok(1,5,3), of sample_env 7 2000]
    by (auto simp: m reporting_world_history)
qed

theorem no_overdue_market_witness:
  "\<exists>w'. advanceTime sample_env 7 2000 reporting_world = (Inr (), w') \<and> mk_endTime sample_market < 2000 \<and>
     (stateHistory w' ''m'' = [] \<or> last (stateHistory w' ''m'') \<noteq> PRE_REPORTING)"
proof -
  obtain w' where w': "advanceTime sample_env 7 2000 reporting_world = (Inr (), w')"
    using advanceTime_run [OF reporting_world_ok(1,5,3)] by blast
  have m: "mk_marketId sample_market = ''m''" "mk_endTime sample_market < 2000"
    by (simp_all add: sample_market_def)
  show ?thesis
    using no_overdue_market [OF reporting_world_ok(1,5,3) w' _ m(2)] w' m by auto
qed

lemma advanceFeeWindowActive_kept [kept]: "preserves ready_states (advanceFeeWindowActive b t)"
  unfolding advanceFeeWindowActive_def advanceIncompleteCrowdsourcers_def
    advanceMarketsToAwaitingFinalization_def advanceMarketsToCrowdsourcingDispute_def emitMarketState_def
  by ((intro kept | simp)+)

lemma advanceTime_kept [kept]: "preserves ready_states (advanceTime env b t)"
  unfolding advanceTime_def advanceMarketReachingEndTime_def advanceMarketMissingDesignatedReport_def
    getMarketsWithReportingState_def emitMarketState_def
  by ((intro kept | simp)+)

end
