(* ===== verification/Reporting.thy ===== *)
theory Reporting
  imports Advance_Time
begin

text \<open>
  Reporting and disputes: the processors of \<open>crowdsourcer.ts\<close>, \<open>initial-report-submitted.ts\<close>,
  \<open>initial-report-redeemed.ts\<close>, \<open>initial-report-transferred.ts\<close>, \<open>reporting-participant-disavowed.ts\<close>,
  \<open>market-participants-disavowed.ts\<close>, \<open>fee-window-created.ts\<close>, \<open>fee-window-redeemed.ts\<close> and
  \<open>timestamp-set.ts\<close>.

  A market's stake is in its initial report and its completed crowdsourcers; the payout with the most
  stake is the tentative winner. The first part of the theorems shows that this is what is stored; the
  second that a crowdsourcer's stake is the sum of the contributions to it; the last is about taking
  initial reports back.
\<close>

section \<open>Stake by payout\<close>

text \<open>
  \<open>groupByAndSum(rows, ["payoutId"], ["amountStaked"])\<close>. lodash groups in an object whose keys are the
  ids, and an object lists integer keys in ascending order.
\<close>

definition groupByAndSum :: "(int \<times> bn) list \<Rightarrow> (int \<times> bn) list" where
  "groupByAndSum rows = map (\<lambda>k. (k, sum_list (map snd (filter (\<lambda>r. fst r = k) rows))))
     (sort (remdups (map fst rows)))"

text \<open>The stakes of a market; \<open>union\<close> keeps one of equal rows.\<close>

definition stakesOf :: "world \<Rightarrow> address \<Rightarrow> (int \<times> bn) list" where
  "stakesOf w marketId = remdups
     (map (\<lambda>c. (cs_payoutId c, cs_amountStaked c))
        (filter (\<lambda>c. cs_completed c = Some 1 \<and> cs_marketId c = marketId) (t_crowdsourcers (tables w))) @
      map (\<lambda>r. (ir_payoutId r, ir_amountStaked r))
        (filter (\<lambda>r. ir_marketId r = marketId) (t_initial_reports (tables w))))"

definition mostStaked :: "(int \<times> bn) list \<Rightarrow> int option" where
  "mostStaked results = (case sort_key (\<lambda>r. - snd r) (groupByAndSum results) of
     [] \<Rightarrow> None | r # _ \<Rightarrow> Some (fst r))"

definition updateTentativeWinningPayout :: "address \<Rightarrow> unit action" where
  "updateTentativeWinningPayout marketId =
     bindA (gets (\<lambda>w. mostStaked (stakesOf w marketId))) (\<lambda>mostStakedPayoutId.
     thenA (update payouts (\<lambda>p. po_marketId p = marketId \<and>
              (case mostStakedPayoutId of Some i \<Rightarrow> po_payoutId p \<noteq> i | None \<Rightarrow> True))
              (\<lambda>p. p\<lparr>po_tentativeWinning := 0\<rparr>))
       (case mostStakedPayoutId of
          Some i \<Rightarrow> update payouts (\<lambda>p. po_marketId p = marketId \<and> po_payoutId p = i)
                     (\<lambda>p. p\<lparr>po_tentativeWinning := 1\<rparr>)
        | None \<Rightarrow> return ()))"

section \<open>Crowdsourcers\<close>

definition updateIncompleteCrowdsourcers :: "address \<Rightarrow> unit action" where
  "updateIncompleteCrowdsourcers marketId =
     update crowdsourcers (\<lambda>c. cs_marketId c = marketId \<and> cs_completed c = None)
       (\<lambda>c. c\<lparr>cs_completed := Some 0, cs_disavowed := cs_disavowed c + 1\<rparr>)"

definition rollbackIncompleteCrowdsourcers :: "address \<Rightarrow> unit action" where
  "rollbackIncompleteCrowdsourcers marketId =
     update crowdsourcers (\<lambda>c. cs_marketId c = marketId \<and> cs_completed c = Some 0)
       (\<lambda>c. c\<lparr>cs_completed := None, cs_disavowed := cs_disavowed c - 1\<rparr>)"

definition rollbackCrowdsourcerCompletion :: "address \<Rightarrow> address \<Rightarrow> unit action" where
  "rollbackCrowdsourcerCompletion crowdsourcerId marketId =
     bindA (select crowdsourcers (\<lambda>c. cs_crowdsourcerId c = crowdsourcerId)) (\<lambda>rows.
     update crowdsourcers (\<lambda>c. cs_marketId c = marketId \<and> cs_feeWindow c \<in> set (map cs_feeWindow rows))
       (\<lambda>c. c\<lparr>cs_completed := None\<rparr>))"

definition crowdsourcerToInsert :: "event_log \<Rightarrow> address \<Rightarrow> int \<Rightarrow> crowdsourcers_row" where
  "crowdsourcerToInsert l feeWindow payoutId =
     \<lparr>cs_crowdsourcerId = lo_disputeCrowdsourcer l, cs_blockNumber = lg_blockNumber l,
      cs_transactionHash = lg_transactionHash l, cs_logIndex = lg_logIndex l,
      cs_marketId = lo_market l, cs_feeWindow = feeWindow, cs_payoutId = payoutId,
      cs_size = lo_size l, cs_amountStaked = 0, cs_completed = None, cs_disavowed = 0\<rparr>"

definition crowdsourcerFields :: "crowdsourcers_row \<Rightarrow> (string \<times> js_value) list" where
  "crowdsourcerFields c =
     [(''crowdsourcerId'', VS (cs_crowdsourcerId c)), (''marketId'', VS (cs_marketId c)),
      (''feeWindow'', VS (cs_feeWindow c)), (''size'', VN (cs_size c)),
      (''payoutId'', VI (cs_payoutId c)), (''completed'', VNull), (''disavowed'', VI (cs_disavowed c))]"

definition processDisputeCrowdsourcerCreatedLog :: "event_log \<Rightarrow> unit action" where
  "processDisputeCrowdsourcerCreatedLog l =
     bindA (insertPayout (lo_market l) (lo_payoutNumerators l) (lo_invalid l) False) (\<lambda>payoutId.
     bindA (bindA (first fee_windows (\<lambda>f. fw_state f = CURRENT \<and> fw_universe f = lo_universe l))
              (orThrow (Thrown ''could not retrieve feeWindow for crowdsourcer''))) (\<lambda>feeWindowRow.
     let row = crowdsourcerToInsert l (fw_feeWindow feeWindowRow) payoutId in
     thenA (insertInto crowdsourcers row)
    (thenA (emit ''DisputeCrowdsourcerCreated'' (Some l) (crowdsourcerFields row))
           (insertInto tokens \<lparr>tk_contractAddress = lo_disputeCrowdsourcer l, tk_symbol = ''Crowdsourcer'',
              tk_marketId = Some (lo_market l), tk_outcome = None, tk_feeWindow = None\<rparr>))))"

definition processDisputeCrowdsourcerCreatedLogRemoval :: "event_log \<Rightarrow> unit action" where
  "processDisputeCrowdsourcerCreatedLogRemoval l =
     thenA (delete crowdsourcers (\<lambda>c. cs_crowdsourcerId c = lo_disputeCrowdsourcer l))
    (thenA (emit ''DisputeCrowdsourcerCreated'' (Some l) [(''marketId'', VS (lo_market l))])
           (delete tokens (\<lambda>t. tk_contractAddress t = lo_disputeCrowdsourcer l)))"

definition disputeToInsert :: "event_log \<Rightarrow> disputes_row" where
  "disputeToInsert l = \<lparr>dp_crowdsourcerId = lo_disputeCrowdsourcer l, dp_blockNumber = lg_blockNumber l,
     dp_transactionHash = lg_transactionHash l, dp_logIndex = lg_logIndex l, dp_reporter = lo_reporter l,
     dp_amountStaked = lo_amountStaked l\<rparr>"

definition isDisputeOf :: "event_log \<Rightarrow> disputes_row \<Rightarrow> bool" where
  "isDisputeOf l d \<longleftrightarrow> dp_transactionHash d = lg_transactionHash l \<and> dp_logIndex d = lg_logIndex l"

text \<open>The stake of the log's crowdsourcer, changed by an amount.\<close>

definition addToCrowdsourcer :: "address \<Rightarrow> bn \<Rightarrow> unit action" where
  "addToCrowdsourcer crowdsourcerId amount =
     bindA (bindA (first crowdsourcers (\<lambda>c. cs_crowdsourcerId c = crowdsourcerId))
              (orThrow (JsTypeError ''result is undefined''))) (\<lambda>result.
     update crowdsourcers (\<lambda>c. cs_crowdsourcerId c = crowdsourcerId)
       (\<lambda>c. c\<lparr>cs_amountStaked := cs_amountStaked result + amount\<rparr>))"

definition processDisputeCrowdsourcerContributionLog :: "event_log \<Rightarrow> unit action" where
  "processDisputeCrowdsourcerContributionLog l =
     thenA (insertInto disputes (disputeToInsert l))
    (thenA (addToCrowdsourcer (lo_disputeCrowdsourcer l) (lo_amountStaked l))
           (emit ''DisputeCrowdsourcerContribution'' (Some l)
              [(''reporter'', VS (lo_reporter l)), (''crowdsourcerId'', VS (lo_disputeCrowdsourcer l)),
               (''amountStaked'', VN (lo_amountStaked l)), (''marketId'', VS (lo_market l))]))"

definition processDisputeCrowdsourcerContributionLogRemoval :: "event_log \<Rightarrow> unit action" where
  "processDisputeCrowdsourcerContributionLogRemoval l =
     thenA (delete disputes (isDisputeOf l))
    (thenA (addToCrowdsourcer (lo_disputeCrowdsourcer l) (- lo_amountStaked l))
           (emit ''DisputeCrowdsourcerContribution'' (Some l) [(''marketId'', VS (lo_market l))]))"

definition processDisputeCrowdsourcerCompletedLog :: "env \<Rightarrow> event_log \<Rightarrow> unit action" where
  "processDisputeCrowdsourcerCompletedLog env l =
     thenA (update crowdsourcers (\<lambda>c. cs_crowdsourcerId c = lo_disputeCrowdsourcer l)
              (\<lambda>c. c\<lparr>cs_completed := Some 1\<rparr>))
    (thenA (updateMarketState (lo_market l) (lg_blockNumber l) AWAITING_NEXT_WINDOW)
    (thenA (updateDisputeRound (lo_market l))
    (thenA (updateMarketFeeWindow env (lo_universe l) (lo_market l) True)
    (thenA (updateIncompleteCrowdsourcers (lo_market l))
    (thenA (updateTentativeWinningPayout (lo_market l))
           (emit ''DisputeCrowdsourcerCompleted'' (Some l) [(''marketId'', VS (lo_market l))]))))))"

definition processDisputeCrowdsourcerCompletedLogRemoval :: "env \<Rightarrow> event_log \<Rightarrow> unit action" where
  "processDisputeCrowdsourcerCompletedLogRemoval env l =
     thenA (rollbackCrowdsourcerCompletion (lo_disputeCrowdsourcer l) (lo_market l))
    (thenA (rollbackMarketState (lo_market l) AWAITING_NEXT_WINDOW)
    (thenA (updateDisputeRound (lo_market l))
    (thenA (updateMarketFeeWindow env (lo_universe l) (lo_market l) False)
    (thenA (rollbackIncompleteCrowdsourcers (lo_market l))
    (thenA (updateTentativeWinningPayout (lo_market l))
           (emit ''DisputeCrowdsourcerCompleted'' (Some l) [(''marketId'', VS (lo_market l))]))))))"

definition processDisputeCrowdsourcerRedeemedLog :: "event_log \<Rightarrow> unit action" where
  "processDisputeCrowdsourcerRedeemedLog l =
     thenA (insertInto crowdsourcer_redeemed
              \<lparr>cr_reporter = lo_reporter l, cr_crowdsourcer = lo_disputeCrowdsourcer l,
               cr_blockNumber = lg_blockNumber l, cr_transactionHash = lg_transactionHash l,
               cr_logIndex = lg_logIndex l, cr_amountRedeemed = lo_amountRedeemed l,
               cr_repReceived = lo_repReceived l, cr_reportingFeesReceived = lo_reportingFeesReceived l\<rparr>)
       (emit ''DisputeCrowdsourcerRedeemedLog'' (Some l) [])"

definition processDisputeCrowdsourcerRedeemedLogRemoval :: "event_log \<Rightarrow> unit action" where
  "processDisputeCrowdsourcerRedeemedLogRemoval l =
     thenA (delete crowdsourcer_redeemed
              (\<lambda>r. cr_transactionHash r = lg_transactionHash l \<and> cr_logIndex r = lg_logIndex l))
       (emit ''FeeWindowRedeemed'' (Some l) [])"

section \<open>Initial reports\<close>

definition reportToInsert :: "event_log \<Rightarrow> address \<Rightarrow> int \<Rightarrow> initial_reports_row" where
  "reportToInsert l initialReporter payoutId =
     \<lparr>ir_blockNumber = lg_blockNumber l, ir_transactionHash = lg_transactionHash l,
      ir_logIndex = lg_logIndex l, ir_marketId = lo_market l, ir_reporter = lo_reporter l,
      ir_isDesignatedReporter = lo_isDesignatedReporter l, ir_amountStaked = lo_amountStaked l,
      ir_initialReporter = initialReporter, ir_redeemed = False, ir_payoutId = payoutId,
      ir_disavowed = 0\<rparr>"

definition submitInitialReport :: "env \<Rightarrow> event_log \<Rightarrow> address \<Rightarrow> unit action" where
  "submitInitialReport env l initialReporter =
     bindA (bindA (first universes (\<lambda>u. un_universe u = lo_universe l))
              (orThrow (Thrown ''No universe in initial report''))) (\<lambda>universeRow.
     let marketState = (if un_forked universeRow then AWAITING_FORK_MIGRATION else AWAITING_NEXT_WINDOW) in
     thenA (updateMarketState (lo_market l) (lg_blockNumber l) marketState)
    (bindA (insertPayout (lo_market l) (lo_payoutNumerators l) (lo_invalid l) True) (\<lambda>payoutId.
     thenA (insertInto initial_reports (reportToInsert l initialReporter payoutId))
    (thenA (update markets (\<lambda>m. mk_marketId m = lo_market l)
              (\<lambda>m. m\<lparr>mk_initialReportSize := Some (lo_amountStaked l)\<rparr>))
    (thenA (updateMarketFeeWindow env (lo_universe l) (lo_market l) True)
    (thenA (updateDisputeRound (lo_market l))
    (thenA (refreshMarketMailboxEthBalance env (lo_market l))
           (emit ''InitialReportSubmitted'' (Some l) [])))))))) "

text \<open>The call of the contract comes first; it may fail before the database is touched.\<close>

definition processInitialReportSubmittedLog :: "env \<Rightarrow> event_log \<Rightarrow> unit action result" where
  "processInitialReportSubmittedLog env l =
     bindE (getInitialReporter env (lo_market l)) (\<lambda>initialReporter.
     Inr (submitInitialReport env l initialReporter))"

definition processInitialReportSubmittedLogRemoval :: "env \<Rightarrow> event_log \<Rightarrow> unit action" where
  "processInitialReportSubmittedLogRemoval env l =
     thenA (rollbackMarketState (lo_market l) AWAITING_NEXT_WINDOW)
    (thenA (delete initial_reports (\<lambda>r. ir_marketId r = lo_market l))
    (thenA (update markets (\<lambda>m. mk_marketId m = lo_market l) (\<lambda>m. m\<lparr>mk_initialReportSize := None\<rparr>))
    (thenA (updateMarketFeeWindow env (lo_universe l) (lo_market l) False)
    (thenA (refreshMarketMailboxEthBalance env (lo_market l))
           (emit ''InitialReportSubmitted'' (Some l) [])))))"

definition processInitialReporterRedeemedLog :: "event_log \<Rightarrow> unit action" where
  "processInitialReporterRedeemedLog l =
     thenA (update initial_reports (\<lambda>r. ir_marketId r = lo_market l) (\<lambda>r. r\<lparr>ir_redeemed := True\<rparr>))
       (emit ''InitialReporterRedeemed'' (Some l) [])"

definition processInitialReporterRedeemedLogRemoval :: "event_log \<Rightarrow> unit action" where
  "processInitialReporterRedeemedLogRemoval l =
     thenA (update initial_reports (\<lambda>r. ir_marketId r = lo_market l) (\<lambda>r. r\<lparr>ir_redeemed := False\<rparr>))
       (emit ''InitialReporterRedeemed'' (Some l) [])"

definition processInitialReporterTransferredLog :: "event_log \<Rightarrow> unit action" where
  "processInitialReporterTransferredLog l =
     thenA (update initial_reports (\<lambda>r. ir_marketId r = lo_market l) (\<lambda>r. r\<lparr>ir_reporter := lo_to l\<rparr>))
       (emit ''InitialReporterTransferred'' (Some l) [])"

definition processInitialReporterTransferredLogRemoval :: "event_log \<Rightarrow> unit action" where
  "processInitialReporterTransferredLogRemoval l =
     thenA (update initial_reports (\<lambda>r. ir_marketId r = lo_market l) (\<lambda>r. r\<lparr>ir_reporter := lo_from l\<rparr>))
       (emit ''InitialReporterTransferred'' (Some l) [])"

section \<open>Disavowal\<close>

definition setDisavowed :: "int \<Rightarrow> event_log \<Rightarrow> unit action" where
  "setDisavowed disavowed l =
     bindA (updateWhere initial_reports (\<lambda>r. ir_initialReporter r = lo_reportingParticipant l)
              (\<lambda>r. r\<lparr>ir_disavowed := disavowed\<rparr>)) (\<lambda>initialReporter.
     bindA (updateWhere crowdsourcers (\<lambda>c. cs_crowdsourcerId c = lo_reportingParticipant l)
              (\<lambda>c. c\<lparr>cs_disavowed := disavowed\<rparr>)) (\<lambda>crowdsourcer.
     if initialReporter = 1
     then emit ''ReportingParticipantDisavowed'' (Some l) [(''type'', VS ''initialReporter'')]
     else if crowdsourcer = 1
     then emit ''ReportingParticipantDisavowed'' (Some l) [(''type'', VS ''crowdsourcer'')]
     else throw (Thrown ''No reporting participant'')))"

definition processReportingParticipantDisavowedLog :: "event_log \<Rightarrow> unit action" where
  "processReportingParticipantDisavowedLog l = setDisavowed 1 l"

definition processReportingParticipantDisavowedLogRemoval :: "event_log \<Rightarrow> unit action" where
  "processReportingParticipantDisavowedLogRemoval l = setDisavowed 0 l"

definition processMarketParticipantsDisavowedLog :: "event_log \<Rightarrow> unit action" where
  "processMarketParticipantsDisavowedLog l =
     thenA (update markets (\<lambda>m. mk_marketId m = lo_market l)
              (\<lambda>m. m\<lparr>mk_needsDisavowal := mk_needsDisavowal m - 1\<rparr>))
       (update crowdsourcers (\<lambda>c. cs_marketId c = lo_market l)
          (\<lambda>c. c\<lparr>cs_disavowed := cs_disavowed c + 1\<rparr>))"

definition processMarketParticipantsDisavowedLogRemoval :: "event_log \<Rightarrow> unit action" where
  "processMarketParticipantsDisavowedLogRemoval l =
     thenA (update markets (\<lambda>m. mk_marketId m = lo_market l)
              (\<lambda>m. m\<lparr>mk_needsDisavowal := mk_needsDisavowal m + 1\<rparr>))
       (update crowdsourcers (\<lambda>c. cs_marketId c = lo_market l)
          (\<lambda>c. c\<lparr>cs_disavowed := cs_disavowed c - 1\<rparr>))"

section \<open>Fee windows and the time set in tests\<close>

definition feeWindowToInsert :: "event_log \<Rightarrow> address \<Rightarrow> fee_windows_row" where
  "feeWindowToInsert l feeToken =
     \<lparr>fw_feeWindow = lo_feeWindow l, fw_feeWindowId = lo_id l, fw_universe = lo_universe l,
      fw_startTime = lo_startTime l, fw_endTime = lo_endTime l, fw_state = FUTURE, fw_fees = 0,
      fw_feeToken = feeToken\<rparr>"

definition createFeeWindow :: "event_log \<Rightarrow> address \<Rightarrow> unit action" where
  "createFeeWindow l feeToken =
     thenA (emit ''FeeWindowCreated'' (Some l)
              [(''feeWindow'', VS (lo_feeWindow l)), (''feeWindowId'', VI (lo_id l)),
               (''universe'', VS (lo_universe l)), (''startTime'', VI (lo_startTime l)),
               (''endTime'', VI (lo_endTime l)), (''state'', VS ''FUTURE''), (''fees'', VI 0),
               (''feeToken'', VS feeToken)])
    (thenA (insertInto fee_windows (feeWindowToInsert l feeToken))
    (thenA (batchInsert tokens
              [\<lparr>tk_contractAddress = lo_feeWindow l, tk_symbol = ''ParticipationToken'',
                tk_marketId = None, tk_outcome = None, tk_feeWindow = None\<rparr>,
               \<lparr>tk_contractAddress = feeToken, tk_symbol = ''FeeToken'',
                tk_marketId = None, tk_outcome = None, tk_feeWindow = Some (lo_feeWindow l)\<rparr>])
    (bindA (gets getCurrentTime) (\<lambda>now.
           advanceFeeWindowActive (lg_blockNumber l) now))))"

definition processFeeWindowCreatedLog :: "env \<Rightarrow> event_log \<Rightarrow> unit action result" where
  "processFeeWindowCreatedLog env l =
     bindE (getFeeToken env (lo_feeWindow l)) (\<lambda>feeToken. Inr (createFeeWindow l feeToken))"

definition processFeeWindowCreatedLogRemoval :: "event_log \<Rightarrow> unit action" where
  "processFeeWindowCreatedLogRemoval l =
     thenA (emit ''FeeWindowCreated'' (Some l) [])
    (thenA (delete fee_windows (\<lambda>f. fw_feeWindow f = lo_feeWindow l))
           (delete tokens (\<lambda>t. tk_contractAddress t = lo_feeWindow l \<or>
              tk_feeWindow t = Some (lo_feeWindow l))))"

definition processFeeWindowRedeemedLog :: "event_log \<Rightarrow> unit action" where
  "processFeeWindowRedeemedLog l =
     thenA (insertInto participation_token_redeemed
              \<lparr>pr_reporter = lo_reporter l, pr_feeWindow = lo_feeWindow l,
               pr_blockNumber = lg_blockNumber l, pr_transactionHash = lg_transactionHash l,
               pr_logIndex = lg_logIndex l, pr_amountRedeemed = lo_amountRedeemed l,
               pr_reportingFeesReceived = lo_reportingFeesReceived l\<rparr>)
       (emit ''FeeWindowRedeemed'' (Some l) [])"

definition processFeeWindowRedeemedLogRemoval :: "event_log \<Rightarrow> unit action" where
  "processFeeWindowRedeemedLogRemoval l =
     thenA (delete participation_token_redeemed
              (\<lambda>r. pr_transactionHash r = lg_transactionHash l \<and> pr_logIndex r = lg_logIndex l))
       (emit ''FeeWindowRedeemed'' (Some l) [])"

definition processTimestampSetLog :: "event_log \<Rightarrow> unit action" where
  "processTimestampSetLog l =
     thenA (setOverrideTimestamp (lo_newTimestamp l))
       (advanceFeeWindowActive (lg_blockNumber l) (lo_newTimestamp l))"

definition processTimestampSetLogRemoval :: "event_log \<Rightarrow> unit action" where
  "processTimestampSetLogRemoval l =
     thenA (removeOverrideTimestamp (lo_newTimestamp l))
    (bindA (gets getCurrentTime) (\<lambda>now. advanceFeeWindowActive (lg_blockNumber l) now))"

section \<open>What keeps the market states\<close>

lemma timestamps_kept [kept]:
  "preserves ready_states (setOverrideTimestamp t)" "preserves ready_states (removeOverrideTimestamp t)"
  unfolding setOverrideTimestamp_def removeOverrideTimestamp_def
  by (intro kept preserves_modify; simp add: states_ok_def checked_def)+

lemma updateTentativeWinningPayout_kept [kept]: "preserves ready_states (updateTentativeWinningPayout a)"
  unfolding updateTentativeWinningPayout_def by (intro kept)

lemma addToCrowdsourcer_kept [kept]: "preserves ready_states (addToCrowdsourcer a x)"
  unfolding addToCrowdsourcer_def by (intro kept)

lemma crowdsourcer_logs_kept [kept]:
  "preserves ready_states (processDisputeCrowdsourcerCreatedLog l)"
  "preserves ready_states (processDisputeCrowdsourcerCreatedLogRemoval l)"
  "preserves ready_states (processDisputeCrowdsourcerContributionLog l)"
  "preserves ready_states (processDisputeCrowdsourcerContributionLogRemoval l)"
  "preserves ready_states (processDisputeCrowdsourcerCompletedLog env l)"
  "preserves ready_states (processDisputeCrowdsourcerCompletedLogRemoval env l)"
  "preserves ready_states (processDisputeCrowdsourcerRedeemedLog l)"
  "preserves ready_states (processDisputeCrowdsourcerRedeemedLogRemoval l)"
  unfolding processDisputeCrowdsourcerCreatedLog_def processDisputeCrowdsourcerCreatedLogRemoval_def
    processDisputeCrowdsourcerContributionLog_def processDisputeCrowdsourcerContributionLogRemoval_def
    processDisputeCrowdsourcerCompletedLog_def processDisputeCrowdsourcerCompletedLogRemoval_def
    processDisputeCrowdsourcerRedeemedLog_def processDisputeCrowdsourcerRedeemedLogRemoval_def
    updateIncompleteCrowdsourcers_def rollbackIncompleteCrowdsourcers_def
    rollbackCrowdsourcerCompletion_def Let_def
  by ((intro kept | simp)+)

lemma report_logs_kept [kept]:
  "preserves ready_states (submitInitialReport env l a)"
  "preserves ready_states (processInitialReportSubmittedLogRemoval env l)"
  "preserves ready_states (processInitialReporterRedeemedLog l)"
  "preserves ready_states (processInitialReporterRedeemedLogRemoval l)"
  "preserves ready_states (processInitialReporterTransferredLog l)"
  "preserves ready_states (processInitialReporterTransferredLogRemoval l)"
  "preserves ready_states (processReportingParticipantDisavowedLog l)"
  "preserves ready_states (processReportingParticipantDisavowedLogRemoval l)"
  "preserves ready_states (processMarketParticipantsDisavowedLog l)"
  "preserves ready_states (processMarketParticipantsDisavowedLogRemoval l)"
  unfolding submitInitialReport_def processInitialReportSubmittedLogRemoval_def
    processInitialReporterRedeemedLog_def processInitialReporterRedeemedLogRemoval_def
    processInitialReporterTransferredLog_def processInitialReporterTransferredLogRemoval_def
    processReportingParticipantDisavowedLog_def processReportingParticipantDisavowedLogRemoval_def
    processMarketParticipantsDisavowedLog_def processMarketParticipantsDisavowedLogRemoval_def
    setDisavowed_def Let_def
  by ((intro kept | simp)+)

lemma window_logs_kept [kept]:
  "preserves ready_states (createFeeWindow l a)"
  "preserves ready_states (processFeeWindowCreatedLogRemoval l)"
  "preserves ready_states (processFeeWindowRedeemedLog l)"
  "preserves ready_states (processFeeWindowRedeemedLogRemoval l)"
  "preserves ready_states (processTimestampSetLog l)"
  "preserves ready_states (processTimestampSetLogRemoval l)"
  unfolding createFeeWindow_def processFeeWindowCreatedLogRemoval_def processFeeWindowRedeemedLog_def
    processFeeWindowRedeemedLogRemoval_def processTimestampSetLog_def processTimestampSetLogRemoval_def
  by ((intro kept | simp)+)

section \<open>The tentative winner\<close>

definition stakeOn :: "(int \<times> bn) list \<Rightarrow> int \<Rightarrow> bn" where
  "stakeOn rows k = sum_list (map snd (filter (\<lambda>r. fst r = k) rows))"

text \<open>\<open>leads rows i\<close>: no payout has more stake than \<open>i\<close>, and none with as much has a smaller id.\<close>

definition leads :: "(int \<times> bn) list \<Rightarrow> int \<Rightarrow> bool" where
  "leads rows i \<longleftrightarrow> i \<in> fst ` set rows \<and>
     (\<forall>k \<in> fst ` set rows. stakeOn rows k < stakeOn rows i \<or> stakeOn rows k = stakeOn rows i \<and> i \<le> k)"

lemma leads_unique: "leads rows i \<Longrightarrow> leads rows j \<Longrightarrow> i = j"
  unfolding leads_def by (metis order.asym order_antisym order_less_le)

text \<open>The head of a stable sort is the first of the smallest elements.\<close>

lemma hd_sort_key:
  fixes f :: "'a \<Rightarrow> 'b::linorder"
  assumes "sort_key f xs = h # t"
  shows "h \<in> set xs" "\<forall>y \<in> set xs. f h \<le> f y" "\<exists>ys zs. xs = ys @ h # zs \<and> (\<forall>y \<in> set ys. f y \<noteq> f h)"
proof -
  have set: "set (h # t) = set xs" using arg_cong [OF assms, of set] by simp
  then show "h \<in> set xs" by auto
  have "sorted (map f (h # t))" by (metis assms sorted_sort_key)
  then show "\<forall>y \<in> set xs. f h \<le> f y" unfolding set [symmetric] by auto
  have "filter (\<lambda>y. f y = f h) xs = filter (\<lambda>y. f y = f h) (sort_key f xs)"
    by (simp only: sort_key_stable)
  then have "filter (\<lambda>y. f y = f h) xs = h # filter (\<lambda>y. f y = f h) t" by (simp add: assms)
  then show "\<exists>ys zs. xs = ys @ h # zs \<and> (\<forall>y \<in> set ys. f y \<noteq> f h)"
    by (auto simp: filter_eq_Cons_iff)
qed

lemma mostStaked_leads: "mostStaked rows = Some i \<Longrightarrow> leads rows i"
proof -
  assume "mostStaked rows = Some i"
  then obtain h t where sorted: "sort_key (\<lambda>r. - snd r) (groupByAndSum rows) = h # t" and i: "i = fst h"
    by (auto simp: mostStaked_def split: list.splits)
  let ?keys = "sort (remdups (map fst rows))"
  let ?g = "\<lambda>k. (k, stakeOn rows k)"
  have g: "groupByAndSum rows = map ?g ?keys" by (simp add: groupByAndSum_def stakeOn_def)
  note hd = hd_sort_key [OF sorted, unfolded g]
  have h: "h = ?g i" "i \<in> fst ` set rows" using hd(1) i by force+
  have most: "stakeOn rows k \<le> stakeOn rows i" if "k \<in> fst ` set rows" for k
    using hd(2) that h(1) by auto
  obtain ys zs where "map ?g ?keys = ys @ h # zs" and ys: "\<forall>y \<in> set ys. - snd y \<noteq> - snd h"
    using hd(3) by blast
  then obtain us vs where keys: "?keys = us @ i # vs" and us: "map ?g us = ys"
    by (auto simp: map_eq_append_conv map_eq_Cons_conv h(1))
  have "sorted ?keys" by simp
  then have after: "\<forall>k \<in> set vs. i \<le> k" unfolding keys by (simp add: sorted_append)
  have before: "\<forall>k \<in> set us. stakeOn rows k \<noteq> stakeOn rows i" using ys h(1) unfolding us [symmetric] by auto
  have all: "set us \<union> {i} \<union> set vs = fst ` set rows" using arg_cong [OF keys, of set] by auto
  have "stakeOn rows k < stakeOn rows i \<or> stakeOn rows k = stakeOn rows i \<and> i \<le> k"
    if k: "k \<in> fst ` set rows" for k
  proof (cases "k \<in> set us")
    case True
    then show ?thesis using most [OF k] before by auto
  next
    case False
    then have "i \<le> k" using k after unfolding all [symmetric] by auto
    then show ?thesis using most [OF k] by auto
  qed
  with h(2) show ?thesis unfolding leads_def by blast
qed

lemma mostStaked_None: "mostStaked rows = None \<longleftrightarrow> rows = []"
proof -
  have "mostStaked rows = None \<longleftrightarrow> sort_key (\<lambda>r. - snd r) (groupByAndSum rows) = []"
    by (simp add: mostStaked_def split: list.split)
  also have "\<dots> \<longleftrightarrow> set (sort_key (\<lambda>r. - snd r) (groupByAndSum rows)) = {}" by (simp only: set_empty)
  also have "\<dots> \<longleftrightarrow> rows = []" unfolding set_sort by (simp add: groupByAndSum_def)
  finally show ?thesis .
qed

lemma mostStaked_iff: "mostStaked rows = Some i \<longleftrightarrow> leads rows i"
proof
  show "mostStaked rows = Some i \<Longrightarrow> leads rows i" by (rule mostStaked_leads)
  assume i: "leads rows i"
  then have "rows \<noteq> []" by (auto simp: leads_def)
  then obtain j where "mostStaked rows = Some j" using mostStaked_None [of rows] by (cases "mostStaked rows") auto
  then show "mostStaked rows = Some i" using mostStaked_leads leads_unique i by blast
qed

text \<open>What the update does to the payouts, and that it changes nothing else.\<close>

definition tentative :: "(int \<times> bn) list \<Rightarrow> address \<Rightarrow> payouts_row \<Rightarrow> payouts_row" where
  "tentative rows a p = (if po_marketId p = a
     then p\<lparr>po_tentativeWinning := if mostStaked rows = Some (po_payoutId p) then 1 else 0\<rparr> else p)"

lemma updateTentativeWinningPayout_run:
  "updateTentativeWinningPayout a w = (Inr (), w\<lparr>tables := (tables w)
     \<lparr>t_payouts := map (tentative (stakesOf w a) a) (t_payouts (tables w))\<rparr>\<rparr>)"
proof (cases "mostStaked (stakesOf w a)")
  case None
  then show ?thesis
    by (simp add: updateTentativeWinningPayout_def bindA_gets thenA_update payouts_constraints list_ex_iff
        return_app tentative_def [abs_def])
next
  case (Some i)
  have "(\<lambda>x. if po_marketId (if po_marketId x = a \<and> po_payoutId x \<noteq> i then x\<lparr>po_tentativeWinning := 0\<rparr> else x) = a \<and>
        po_payoutId (if po_marketId x = a \<and> po_payoutId x \<noteq> i then x\<lparr>po_tentativeWinning := 0\<rparr> else x) = i
      then (if po_marketId x = a \<and> po_payoutId x \<noteq> i then x\<lparr>po_tentativeWinning := 0\<rparr> else x)\<lparr>po_tentativeWinning := 1\<rparr>
      else (if po_marketId x = a \<and> po_payoutId x \<noteq> i then x\<lparr>po_tentativeWinning := 0\<rparr> else x)) =
    tentative (stakesOf w a) a"
    by (rule ext) (auto simp: tentative_def Some)
  then show ?thesis
    by (simp add: updateTentativeWinningPayout_def bindA_gets thenA_update update_app payouts_constraints
        list_ex_iff Some o_def)
qed

lemma stakesOf_frame: "t_crowdsourcers (tables w') = t_crowdsourcers (tables w) \<Longrightarrow>
    t_initial_reports (tables w') = t_initial_reports (tables w) \<Longrightarrow> stakesOf w' a = stakesOf w a"
  by (simp add: stakesOf_def)

lemma after_update:
  assumes "thenA (updateTentativeWinningPayout a) (emit n lg d) w = (Inr (), w')"
    "p \<in> set (t_payouts (tables w'))" "po_marketId p = a"
  shows "po_tentativeWinning p = (if leads (stakesOf w' a) (po_payoutId p) then 1 else 0)"
proof -
  have "t_payouts (tables w') = map (tentative (stakesOf w a) a) (t_payouts (tables w))"
    "stakesOf w' a = stakesOf w a"
    using assms(1) by (auto simp: thenA_ok [where m = "updateTentativeWinningPayout a",
          OF updateTentativeWinningPayout_run] emit_app stakesOf_def)
  with assms(2) obtain x where x: "p = tentative (stakesOf w' a) a x" by auto
  then have "po_marketId x = a" "po_payoutId p = po_payoutId x"
    using assms(3) by (simp_all add: tentative_def split: if_splits)
  then show ?thesis by (simp add: x tentative_def mostStaked_iff)
qed

definition payoutsOfOthers :: "address \<Rightarrow> world \<Rightarrow> payouts_row list" where
  "payoutsOfOthers a w = filter (\<lambda>p. po_marketId p \<noteq> a) (t_payouts (tables w))"

lemma completion_others:
  "processDisputeCrowdsourcerCompletedLog env l w = (Inr (), w') \<Longrightarrow>
    payoutsOfOthers (lo_market l) w' = payoutsOfOthers (lo_market l) w"
  "processDisputeCrowdsourcerCompletedLogRemoval env l w = (Inr (), w') \<Longrightarrow>
    payoutsOfOthers (lo_market l) w' = payoutsOfOthers (lo_market l) w"
proof -
  let ?f = "payoutsOfOthers (lo_market l)"
  have others: "unchanged ?f (update crowdsourcers P1 f1)" "unchanged ?f (update markets P2 f2)"
    "unchanged ?f (insertInto market_state r)" "unchanged ?f (emit n lg d)" "unchanged ?f (deleteWhere market_state P3)"
    for P1 f1 P2 f2 P3 r n and lg :: "event_log option" and d
    by (rule unchanged_write unchanged_emit; simp add: payoutsOfOthers_def)+
  have f: "filter (\<lambda>p. po_marketId p \<noteq> a) (map (tentative S a) ps) = filter (\<lambda>p. po_marketId p \<noteq> a) ps" for S a ps
    by (induction ps) (auto simp: tentative_def)
  have tentative: "unchanged ?f (updateTentativeWinningPayout (lo_market l))"
    by (simp add: unchanged_def updateTentativeWinningPayout_run payoutsOfOthers_def f)
  have "unchanged ?f (processDisputeCrowdsourcerCompletedLog env l)"
    unfolding processDisputeCrowdsourcerCompletedLog_def updateMarketState_def newMarketStateId_def
      setMarketStateToLatest_def updateDisputeRound_def updateMarketFeeWindow_def getFeeWindow_def
      updateIncompleteCrowdsourcers_def
    by (intro frames others tentative unchanged_modify) (simp add: payoutsOfOthers_def)
  then show "processDisputeCrowdsourcerCompletedLog env l w = (Inr (), w') \<Longrightarrow> ?f w' = ?f w" by (rule unchangedD)
  have "unchanged ?f (processDisputeCrowdsourcerCompletedLogRemoval env l)"
    unfolding processDisputeCrowdsourcerCompletedLogRemoval_def rollbackCrowdsourcerCompletion_def rollbackMarketState_def
      setMarketStateToLatest_def updateDisputeRound_def updateMarketFeeWindow_def getFeeWindow_def
      rollbackIncompleteCrowdsourcers_def
    by (intro frames others tentative unchanged_modify) (simp add: payoutsOfOthers_def)
  then show "processDisputeCrowdsourcerCompletedLogRemoval env l w = (Inr (), w') \<Longrightarrow> ?f w' = ?f w" by (rule unchangedD)
qed

lemma some_leads:
  assumes "rows \<noteq> []" shows "\<exists>i. leads rows i"
  using assms mostStaked_None [of rows] mostStaked_iff by (cases "mostStaked rows") auto

text \<open>C14. When a dispute crowdsourcer completes, and when its completion is taken back, a payout of the market
  is marked as tentatively winning (1) if it has the most stake of the market, the smallest id of several,
  and every other payout of the market is unmarked (0). If nothing is staked no payout is marked; if
  something is, and every payout staked on has its row (a crowdsourcer and an initial report insert it
  first), exactly one payout is marked. The payouts of other markets keep their rows. (Of completed crowdsourcers
  and initial reports with the same payout and the same amount, one counts: the query is a UNION.)\<close>

theorem tentative_winner_leads:
  assumes "processDisputeCrowdsourcerCompletedLog env l w = (Inr (), w') \<or>
      processDisputeCrowdsourcerCompletedLogRemoval env l w = (Inr (), w')"
    and "\<And>i. i \<in> fst ` set (stakesOf w' (lo_market l)) \<Longrightarrow>
      \<exists>p \<in> set (t_payouts (tables w')). po_marketId p = lo_market l \<and> po_payoutId p = i"
  shows "(\<forall>p \<in> set (t_payouts (tables w')). po_marketId p = lo_market l \<longrightarrow>
      po_tentativeWinning p = (if leads (stakesOf w' (lo_market l)) (po_payoutId p) then 1 else 0)) \<and>
    (if stakesOf w' (lo_market l) = []
     then \<forall>p \<in> set (t_payouts (tables w')). po_marketId p = lo_market l \<longrightarrow> po_tentativeWinning p = 0
     else \<exists>p \<in> set (t_payouts (tables w')). po_marketId p = lo_market l \<and> po_tentativeWinning p = 1 \<and>
       (\<forall>q \<in> set (t_payouts (tables w')). po_marketId q = lo_market l \<longrightarrow> po_tentativeWinning q \<noteq> 0 \<longrightarrow>
          po_payoutId q = po_payoutId p)) \<and>
    filter (\<lambda>p. po_marketId p \<noteq> lo_market l) (t_payouts (tables w')) =
      filter (\<lambda>p. po_marketId p \<noteq> lo_market l) (t_payouts (tables w))"
proof -
  let ?S = "stakesOf w' (lo_market l)"
  have "\<exists>w1. thenA (updateTentativeWinningPayout (lo_market l))
      (emit ''DisputeCrowdsourcerCompleted'' (Some l) [(''marketId'', VS (lo_market l))]) w1 = (Inr (), w')"
    using assms(1)
    unfolding processDisputeCrowdsourcerCompletedLog_def processDisputeCrowdsourcerCompletedLogRemoval_def
    by (elim disjE) (simp only: thenA_eq_Inr, elim exE conjE, blast)+
  then have m: "po_tentativeWinning p = (if leads ?S (po_payoutId p) then 1 else 0)"
    if "p \<in> set (t_payouts (tables w'))" "po_marketId p = lo_market l" for p
    using after_update that by blast
  have leader: "\<exists>p \<in> set (t_payouts (tables w')). po_marketId p = lo_market l \<and> po_tentativeWinning p = 1 \<and>
      (\<forall>q \<in> set (t_payouts (tables w')). po_marketId q = lo_market l \<longrightarrow> po_tentativeWinning q \<noteq> 0 \<longrightarrow>
        po_payoutId q = po_payoutId p)" if ne: "?S \<noteq> []"
  proof -
    obtain i where i: "leads ?S i" using some_leads [OF ne] by blast
    then have "i \<in> fst ` set ?S" by (simp add: leads_def)
    from assms(2) [OF this] obtain p where p: "p \<in> set (t_payouts (tables w'))" "po_marketId p = lo_market l"
        "po_payoutId p = i" by blast
    have un: "po_payoutId q = po_payoutId p" if "q \<in> set (t_payouts (tables w'))" "po_marketId q = lo_market l"
        "po_tentativeWinning q \<noteq> 0" for q
    proof -
      have "leads ?S (po_payoutId q)" using m [OF that(1,2)] that(3) by presburger
      then show ?thesis using leads_unique i p(3) by blast
    qed
    have "po_tentativeWinning p = 1" using m [OF p(1,2)] i p(3) by presburger
    then show ?thesis using p(1,2) un by blast
  qed
  have B: "if ?S = []
     then \<forall>p \<in> set (t_payouts (tables w')). po_marketId p = lo_market l \<longrightarrow> po_tentativeWinning p = 0
     else \<exists>p \<in> set (t_payouts (tables w')). po_marketId p = lo_market l \<and> po_tentativeWinning p = 1 \<and>
       (\<forall>q \<in> set (t_payouts (tables w')). po_marketId q = lo_market l \<longrightarrow> po_tentativeWinning q \<noteq> 0 \<longrightarrow>
          po_payoutId q = po_payoutId p)"
  proof (cases "?S = []")
    case True
    then have "\<not> leads ?S i" for i by (simp add: leads_def)
    then show ?thesis using True m by simp
  next
    case False
    then show ?thesis using leader [OF False] by (simp only: if_False)
  qed
  have C: "filter (\<lambda>p. po_marketId p \<noteq> lo_market l) (t_payouts (tables w')) =
      filter (\<lambda>p. po_marketId p \<noteq> lo_market l) (t_payouts (tables w))"
    using assms(1) completion_others unfolding payoutsOfOthers_def by blast
  show ?thesis by (intro conjI ballI impI B C) (rule m)
qed

section \<open>Stake and contributions\<close>

text \<open>
  Databases reached by the logs of disputes. A contribution is taken back only if it was made, and a
  crowdsourcer after its contributions, as removing the logs of a block last to first does.
\<close>

inductive dispute_reach :: "env \<Rightarrow> world \<Rightarrow> bool" for env where
  start: "t_crowdsourcers (tables w) = [] \<Longrightarrow> t_disputes (tables w) = [] \<Longrightarrow> dispute_reach env w"
| created: "dispute_reach env w \<Longrightarrow> processDisputeCrowdsourcerCreatedLog l w = (Inr (), w') \<Longrightarrow>
    dispute_reach env w'"
| created_removed: "dispute_reach env w \<Longrightarrow>
    list_all (\<lambda>d. dp_crowdsourcerId d \<noteq> lo_disputeCrowdsourcer l) (t_disputes (tables w)) \<Longrightarrow>
    processDisputeCrowdsourcerCreatedLogRemoval l w = (Inr (), w') \<Longrightarrow> dispute_reach env w'"
| contributed: "dispute_reach env w \<Longrightarrow>
    processDisputeCrowdsourcerContributionLog l w = (Inr (), w') \<Longrightarrow> dispute_reach env w'"
| contribution_removed: "dispute_reach env w \<Longrightarrow>
    filter (isDisputeOf l) (t_disputes (tables w)) = [disputeToInsert l] \<Longrightarrow>
    processDisputeCrowdsourcerContributionLogRemoval l w = (Inr (), w') \<Longrightarrow> dispute_reach env w'"
| completed: "dispute_reach env w \<Longrightarrow> processDisputeCrowdsourcerCompletedLog env l w = (Inr (), w') \<Longrightarrow>
    dispute_reach env w'"
| completion_removed: "dispute_reach env w \<Longrightarrow>
    processDisputeCrowdsourcerCompletedLogRemoval env l w = (Inr (), w') \<Longrightarrow> dispute_reach env w'"

definition contributedTo :: "world \<Rightarrow> address \<Rightarrow> bn" where
  "contributedTo w i =
     sum_list (map dp_amountStaked (filter (\<lambda>d. dp_crowdsourcerId d = i) (t_disputes (tables w))))"

text \<open>Every dispute is of a crowdsourcer in the table, so that a new one starts without contributions.\<close>

definition stakes_add_up :: "world \<Rightarrow> bool" where
  "stakes_add_up w \<longleftrightarrow>
     list_all (\<lambda>c. cs_amountStaked c = contributedTo w (cs_crowdsourcerId c)) (t_crowdsourcers (tables w)) \<and>
     list_all (\<lambda>d. dp_crowdsourcerId d \<in> cs_crowdsourcerId ` set (t_crowdsourcers (tables w)))
       (t_disputes (tables w))"

definition stakeView :: "world \<Rightarrow> (address \<times> bn) list \<times> disputes_row list" where
  "stakeView w = (map (\<lambda>c. (cs_crowdsourcerId c, cs_amountStaked c)) (t_crowdsourcers (tables w)),
     t_disputes (tables w))"

lemma stakes_add_up_view:
  "stakes_add_up w \<longleftrightarrow>
     (\<forall>(i, x) \<in> set (fst (stakeView w)). x =
        sum_list (map dp_amountStaked (filter (\<lambda>d. dp_crowdsourcerId d = i) (snd (stakeView w))))) \<and>
     (\<forall>d \<in> set (snd (stakeView w)). dp_crowdsourcerId d \<in> fst ` set (fst (stakeView w)))"
  by (auto simp: stakes_add_up_def stakeView_def contributedTo_def list_all_iff image_image)

lemma stakeView_other [frames]:
  "unchanged stakeView (update markets P1 f1)" "unchanged stakeView (update payouts P2 f2)"
  "unchanged stakeView (insertInto payouts r1)" "unchanged stakeView (insertInto tokens r2)"
  "unchanged stakeView (delete tokens P3)" "unchanged stakeView (insertInto market_state r3)"
  "unchanged stakeView (deleteWhere market_state P4)" "unchanged stakeView (emit n lg d)"
  by (rule unchanged_write unchanged_emit; simp add: stakeView_def)+

lemma stakeView_counters [frames]:
  "unchanged stakeView newMarketStateId" "unchanged stakeView newPayoutId"
  unfolding newMarketStateId_def newPayoutId_def
  by (intro frames unchanged_modify; simp add: stakeView_def)+

lemma stakeView_crowdsourcers [frames]:
  assumes "\<And>c. cs_crowdsourcerId (f c) = cs_crowdsourcerId c" "\<And>c. cs_amountStaked (f c) = cs_amountStaked c"
  shows "unchanged stakeView (update crowdsourcers P f)"
proof -
  have "map (\<lambda>c. (cs_crowdsourcerId (if P c then f c else c), cs_amountStaked (if P c then f c else c))) cs =
      map (\<lambda>c. (cs_crowdsourcerId c, cs_amountStaked c)) cs" for cs
    by (simp add: assms)
  then show ?thesis by (simp add: unchanged_def update_app crowdsourcers_constraints list_ex_iff stakeView_def o_def)
qed

lemma stakeView_states [frames]:
  "unchanged stakeView (updateMarketState a b s)" "unchanged stakeView (rollbackMarketState a s)"
  "unchanged stakeView (updateDisputeRound a)" "unchanged stakeView (updateMarketFeeWindow env u a n)"
  "unchanged stakeView (updateTentativeWinningPayout a)" "unchanged stakeView (insertPayout a xs bad tw)"
  unfolding updateMarketState_def setMarketStateToLatest_def rollbackMarketState_def updateDisputeRound_def
    updateMarketFeeWindow_def getFeeWindow_def updateTentativeWinningPayout_def insertPayout_def
  by ((intro frames)+)

lemma completion_frames:
  "unchanged stakeView (processDisputeCrowdsourcerCompletedLog env l)"
  "unchanged stakeView (processDisputeCrowdsourcerCompletedLogRemoval env l)"
  unfolding processDisputeCrowdsourcerCompletedLog_def processDisputeCrowdsourcerCompletedLogRemoval_def
    rollbackCrowdsourcerCompletion_def updateIncompleteCrowdsourcers_def rollbackIncompleteCrowdsourcers_def
  by (intro frames; simp)+

lemma created_run:
  assumes "processDisputeCrowdsourcerCreatedLog l w = (Inr (), w')"
  shows "\<exists>f i. t_crowdsourcers (tables w') = t_crowdsourcers (tables w) @ [crowdsourcerToInsert l f i] \<and>
    list_all (\<lambda>c. cs_crowdsourcerId c \<noteq> lo_disputeCrowdsourcer l) (t_crowdsourcers (tables w)) \<and>
    t_disputes (tables w') = t_disputes (tables w)"
proof -
  have frame: "unchanged (\<lambda>w. (t_crowdsourcers (tables w), t_disputes (tables w)))
      (insertPayout (lo_market l) (lo_payoutNumerators l) (lo_invalid l) False)"
    unfolding insertPayout_def newPayoutId_def
    by (intro frames unchanged_modify unchanged_write; simp)
  from assms obtain i w1 f where
    1: "insertPayout (lo_market l) (lo_payoutNumerators l) (lo_invalid l) False w = (Inr i, w1)"
    and 2: "thenA (insertInto crowdsourcers (crowdsourcerToInsert l f i))
      (thenA (emit ''DisputeCrowdsourcerCreated'' (Some l) (crowdsourcerFields (crowdsourcerToInsert l f i)))
        (insertInto tokens \<lparr>tk_contractAddress = lo_disputeCrowdsourcer l, tk_symbol = ''Crowdsourcer'',
           tk_marketId = Some (lo_market l), tk_outcome = None, tk_feeWindow = None\<rparr>)) w1 = (Inr (), w')"
    unfolding processDisputeCrowdsourcerCreatedLog_def Let_def
    by (auto simp: bindA_eq_Inr orThrow_eq_Inr first_eq_Inr)
  have "(t_crowdsourcers (tables w1), t_disputes (tables w1)) = (t_crowdsourcers (tables w), t_disputes (tables w))"
    using frame 1 by (rule unchangedD)
  moreover have "t_crowdsourcers (tables w') = t_crowdsourcers (tables w1) @ [crowdsourcerToInsert l f i]"
    "list_all (\<lambda>c. cs_crowdsourcerId c \<noteq> lo_disputeCrowdsourcer l) (t_crowdsourcers (tables w1))"
    "t_disputes (tables w') = t_disputes (tables w1)"
    using 2 by (auto simp: thenA_eq_Inr insertInto_eq_Inr emit_app crowdsourcers_constraints
        crowdsourcerToInsert_def)
  ultimately show ?thesis by auto
qed

definition restaked :: "address \<Rightarrow> bn \<Rightarrow> crowdsourcers_row \<Rightarrow> crowdsourcers_row" where
  "restaked i x c = (if cs_crowdsourcerId c = i then c\<lparr>cs_amountStaked := x\<rparr> else c)"

lemma addToCrowdsourcer_run:
  "addToCrowdsourcer i x w = (Inr (), w') \<Longrightarrow>
    \<exists>c \<in> set (t_crowdsourcers (tables w)). cs_crowdsourcerId c = i \<and>
      t_crowdsourcers (tables w') = map (restaked i (cs_amountStaked c + x)) (t_crowdsourcers (tables w)) \<and>
      t_disputes (tables w') = t_disputes (tables w)"
  by (auto simp: addToCrowdsourcer_def bindA_eq_Inr orThrow_eq_Inr first_eq_Inr update_eq_Inr
      restaked_def [abs_def] dest!: find_SomeD)

lemma contributed_run:
  assumes "processDisputeCrowdsourcerContributionLog l w = (Inr (), w')"
  shows "\<exists>c \<in> set (t_crowdsourcers (tables w)). cs_crowdsourcerId c = lo_disputeCrowdsourcer l \<and>
    t_crowdsourcers (tables w') = map (restaked (lo_disputeCrowdsourcer l)
      (cs_amountStaked c + lo_amountStaked l)) (t_crowdsourcers (tables w)) \<and>
    t_disputes (tables w') = t_disputes (tables w) @ [disputeToInsert l]"
proof -
  from assms obtain w1 w2 where "insertInto disputes (disputeToInsert l) w = (Inr (), w1)"
    and 2: "addToCrowdsourcer (lo_disputeCrowdsourcer l) (lo_amountStaked l) w1 = (Inr (), w2)"
    and "tables w' = tables w2"
    unfolding processDisputeCrowdsourcerContributionLog_def by (auto simp: thenA_eq_Inr emit_app)
  then show ?thesis using addToCrowdsourcer_run [OF 2] by (auto simp: insertInto_eq_Inr)
qed

lemma contribution_removed_run:
  assumes "processDisputeCrowdsourcerContributionLogRemoval l w = (Inr (), w')"
  shows "\<exists>c \<in> set (t_crowdsourcers (tables w)). cs_crowdsourcerId c = lo_disputeCrowdsourcer l \<and>
    t_crowdsourcers (tables w') = map (restaked (lo_disputeCrowdsourcer l)
      (cs_amountStaked c - lo_amountStaked l)) (t_crowdsourcers (tables w)) \<and>
    t_disputes (tables w') = filter (\<lambda>d. \<not> isDisputeOf l d) (t_disputes (tables w))"
proof -
  from assms obtain w1 w2 where "delete disputes (isDisputeOf l) w = (Inr (), w1)"
    and 2: "addToCrowdsourcer (lo_disputeCrowdsourcer l) (- lo_amountStaked l) w1 = (Inr (), w2)"
    and "tables w' = tables w2"
    unfolding processDisputeCrowdsourcerContributionLogRemoval_def by (auto simp: thenA_eq_Inr emit_app)
  then show ?thesis using addToCrowdsourcer_run [OF 2] by (auto simp: delete_eq_Inr)
qed

lemma restaked_sel [simp]: "cs_crowdsourcerId (restaked i x c) = cs_crowdsourcerId c"
  "cs_amountStaked (restaked i x c) = (if cs_crowdsourcerId c = i then x else cs_amountStaked c)"
  by (simp_all add: restaked_def)

text \<open>The stake of one crowdsourcer and its contributions change by the same amount.\<close>

lemma stakes_shift:
  assumes "stakes_add_up w" "c \<in> set (t_crowdsourcers (tables w))"
    "t_crowdsourcers (tables w') = map (restaked (cs_crowdsourcerId c) (cs_amountStaked c + x)) (t_crowdsourcers (tables w))"
    "\<And>i. contributedTo w' i = contributedTo w i + (if i = cs_crowdsourcerId c then x else 0)"
    "set (t_disputes (tables w')) \<subseteq> insert d (set (t_disputes (tables w)))"
    "dp_crowdsourcerId d = cs_crowdsourcerId c"
  shows "stakes_add_up w'"
proof -
  have a: "cs_amountStaked e = contributedTo w (cs_crowdsourcerId e)" if "e \<in> set (t_crowdsourcers (tables w))" for e
    using assms(1) that by (simp add: stakes_add_up_def list_all_iff)
  have ids: "cs_crowdsourcerId ` set (t_crowdsourcers (tables w')) = cs_crowdsourcerId ` set (t_crowdsourcers (tables w))"
    unfolding assms(3) by (simp add: image_image)
  have "dp_crowdsourcerId e \<in> cs_crowdsourcerId ` set (t_crowdsourcers (tables w'))"
    if "e \<in> set (t_disputes (tables w'))" for e
  proof (cases "e = d")
    case True
    then have "dp_crowdsourcerId e = cs_crowdsourcerId c" using assms(6) by simp
    then show ?thesis unfolding ids using assms(2) by simp
  next
    case False
    then have "e \<in> set (t_disputes (tables w))" using assms(5) that by blast
    then show ?thesis using assms(1) unfolding ids by (simp add: stakes_add_up_def list_all_iff)
  qed
  moreover have "cs_amountStaked e = contributedTo w' (cs_crowdsourcerId e)"
    if "e \<in> set (t_crowdsourcers (tables w'))" for e
    using that a assms(2) unfolding assms(3,4) by auto
  ultimately show ?thesis by (simp add: stakes_add_up_def list_all_iff)
qed

lemma contributedTo_removed:
  assumes "filter P ds = [d]"
  shows "sum_list (map dp_amountStaked (filter (\<lambda>e. dp_crowdsourcerId e = i) (filter (\<lambda>e. \<not> P e) ds))) =
    sum_list (map dp_amountStaked (filter (\<lambda>e. dp_crowdsourcerId e = i) ds)) -
      (if dp_crowdsourcerId d = i then dp_amountStaked d else 0)"
proof -
  let ?ds = "filter (\<lambda>e. dp_crowdsourcerId e = i) ds"
  have "filter P ?ds = filter (\<lambda>e. dp_crowdsourcerId e = i) (filter P ds)"
    by (simp add: conj_commute)
  also have "\<dots> = (if dp_crowdsourcerId d = i then [d] else [])" unfolding assms by simp
  finally have "sum_list (map dp_amountStaked (filter P ?ds)) =
      (if dp_crowdsourcerId d = i then dp_amountStaked d else 0)" by simp
  moreover have "filter (\<lambda>e. dp_crowdsourcerId e = i) (filter (\<lambda>e. \<not> P e) ds) = filter (\<lambda>e. \<not> P e) ?ds"
    by (simp add: conj_commute)
  ultimately show ?thesis using sum_list_filter_split [of dp_amountStaked ?ds P] by simp
qed

text \<open>C15. In every database reached by the logs of disputes, and by taking them back, the stake of a
  crowdsourcer is the sum of the contributions to it.\<close>

theorem dispute_stakes_add_up:
  assumes "dispute_reach env w"
  shows "stakes_add_up w"
  using assms
proof induction
  case (start w)
  then show ?case by (simp add: stakes_add_up_def)
next
  case (created w l w')
  obtain f i where c: "t_crowdsourcers (tables w') = t_crowdsourcers (tables w) @ [crowdsourcerToInsert l f i]"
    "list_all (\<lambda>c. cs_crowdsourcerId c \<noteq> lo_disputeCrowdsourcer l) (t_crowdsourcers (tables w))"
    "t_disputes (tables w') = t_disputes (tables w)"
    using created_run [OF created.hyps(2)] by blast
  have "filter (\<lambda>d. dp_crowdsourcerId d = lo_disputeCrowdsourcer l) (t_disputes (tables w)) = []"
    using created.IH c(2) by (auto simp: stakes_add_up_def list_all_iff filter_empty_conv)
  then show ?case
    using created.IH c(1,3) by (simp add: stakes_add_up_def contributedTo_def list_all_iff crowdsourcerToInsert_def)
next
  case (created_removed w l w')
  have c: "t_crowdsourcers (tables w') = filter (\<lambda>c. cs_crowdsourcerId c \<noteq> lo_disputeCrowdsourcer l)
      (t_crowdsourcers (tables w))" and d: "t_disputes (tables w') = t_disputes (tables w)"
    using created_removed.hyps(3) unfolding processDisputeCrowdsourcerCreatedLogRemoval_def
    by (auto simp: thenA_delete thenA_emit delete_app)
  have "dp_crowdsourcerId d \<in> cs_crowdsourcerId ` set (t_crowdsourcers (tables w'))"
    if mem: "d \<in> set (t_disputes (tables w))" for d
  proof -
    obtain e where "e \<in> set (t_crowdsourcers (tables w))" "dp_crowdsourcerId d = cs_crowdsourcerId e"
      using created_removed.IH mem by (auto simp: stakes_add_up_def list_all_iff)
    moreover have "dp_crowdsourcerId d \<noteq> lo_disputeCrowdsourcer l"
      using created_removed.hyps(2) mem by (simp add: list_all_iff)
    ultimately show ?thesis by (simp add: c)
  qed
  then show ?case using created_removed.IH
    by (simp add: stakes_add_up_def contributedTo_def list_all_iff c d)
next
  case (contributed w l w')
  obtain c where c: "c \<in> set (t_crowdsourcers (tables w))" "cs_crowdsourcerId c = lo_disputeCrowdsourcer l"
    "t_crowdsourcers (tables w') = map (restaked (lo_disputeCrowdsourcer l)
      (cs_amountStaked c + lo_amountStaked l)) (t_crowdsourcers (tables w))"
    "t_disputes (tables w') = t_disputes (tables w) @ [disputeToInsert l]"
    using contributed_run [OF contributed.hyps(2)] by blast
  show ?case
    using contributed.IH c by (intro stakes_shift [of w c w' "lo_amountStaked l" "disputeToInsert l"])
      (auto simp: contributedTo_def disputeToInsert_def)
next
  case (contribution_removed w l w')
  obtain c where c: "c \<in> set (t_crowdsourcers (tables w))" "cs_crowdsourcerId c = lo_disputeCrowdsourcer l"
    "t_crowdsourcers (tables w') = map (restaked (lo_disputeCrowdsourcer l)
      (cs_amountStaked c - lo_amountStaked l)) (t_crowdsourcers (tables w))"
    "t_disputes (tables w') = filter (\<lambda>d. \<not> isDisputeOf l d) (t_disputes (tables w))"
    using contribution_removed_run [OF contribution_removed.hyps(3)] by blast
  show ?case
  proof (rule stakes_shift [of w c w' "- lo_amountStaked l" "disputeToInsert l"])
    show "contributedTo w' i = contributedTo w i + (if i = cs_crowdsourcerId c then - lo_amountStaked l else 0)" for i
      unfolding contributedTo_def c(4) contributedTo_removed [OF contribution_removed.hyps(2)]
      by (simp add: c(2) disputeToInsert_def)
  qed (use contribution_removed.IH c in \<open>auto simp: disputeToInsert_def\<close>)
next
  case (completed w l w')
  have "stakeView w' = stakeView w" using completion_frames(1) completed.hyps(2) by (rule unchangedD)
  then show ?case using completed.IH by (simp add: stakes_add_up_view)
next
  case (completion_removed w l w')
  have "stakeView w' = stakeView w" using completion_frames(2) completion_removed.hyps(2) by (rule unchangedD)
  then show ?case using completion_removed.IH by (simp add: stakes_add_up_view)
qed

section \<open>Taking an initial report back\<close>

lemma state_rows_frames [frames]:
  "unchanged (\<lambda>w. t_market_state (tables w)) (update markets P f)"
  "unchanged (\<lambda>w. t_market_state (tables w)) (insertInto payouts r1)"
  "unchanged (\<lambda>w. t_market_state (tables w)) (insertInto initial_reports r2)"
  "unchanged (\<lambda>w. t_market_state (tables w)) (delete initial_reports Q)"
  "unchanged (\<lambda>w. t_market_state (tables w)) (emit n lg d)"
  by (rule unchanged_write unchanged_emit; simp)+

lemma state_rows_ops [frames]:
  "unchanged (\<lambda>w. t_market_state (tables w)) newPayoutId"
  "unchanged (\<lambda>w. t_market_state (tables w)) (updateDisputeRound a)"
  "unchanged (\<lambda>w. t_market_state (tables w)) (updateMarketFeeWindow env u a b)"
  "unchanged (\<lambda>w. t_market_state (tables w)) (refreshMarketMailboxEthBalance env a)"
  unfolding newPayoutId_def updateDisputeRound_def updateMarketFeeWindow_def getFeeWindow_def
    refreshMarketMailboxEthBalance_def
  by (intro frames unchanged_modify; simp)+

lemma insertPayout_state_rows [frames]:
  "unchanged (\<lambda>w. t_market_state (tables w)) (insertPayout a xs bad tw)"
  unfolding insertPayout_def by (intro frames)

lemma stateHistory_rows: "t_market_state (tables w') = t_market_state (tables w) \<Longrightarrow> stateHistory w' = stateHistory w"
  by (simp add: stateHistory_def fun_eq_iff)

text \<open>The markets there are.\<close>

definition marketIds :: "world \<Rightarrow> address list" where
  "marketIds w = map mk_marketId (t_markets (tables w))"

lemma marketIds_update [frames]:
  assumes "\<And>m. mk_marketId (f m) = mk_marketId m"
  shows "unchanged marketIds (update markets P f)"
proof -
  have "map (\<lambda>m. mk_marketId (if P m then f m else m)) ms = map mk_marketId ms" for ms
    by (simp add: assms)
  then show ?thesis by (simp add: unchanged_def update_app marketIds_def o_def)
qed

lemma marketIds_frames [frames]:
  "unchanged marketIds (insertInto market_state r1)" "unchanged marketIds (deleteWhere market_state Q1)"
  "unchanged marketIds (delete initial_reports Q2)" "unchanged marketIds (emit n lg d)"
  by (rule unchanged_write unchanged_emit; simp add: marketIds_def)+

lemma marketIds_rollback [frames]: "unchanged marketIds (rollbackMarketState a s)"
  unfolding rollbackMarketState_def setMarketStateToLatest_def by (intro frames) simp

lemma marketIds_ops [frames]:
  "unchanged marketIds (updateMarketFeeWindow env u a b)"
  "unchanged marketIds (refreshMarketMailboxEthBalance env a)"
  unfolding updateMarketFeeWindow_def getFeeWindow_def refreshMarketMailboxEthBalance_def
  by (intro frames; simp)+

lemma find_market: "find (\<lambda>m. mk_marketId m = a) (t_markets (tables w)) \<noteq> None \<longleftrightarrow> a \<in> set (marketIds w)"
  by (auto simp: find_None_iff marketIds_def)

text \<open>The state a report is stored with.\<close>

lemma submitted_run:
  assumes "ready_states w" "submitInitialReport env l a w = (Inr (), w')"
    "find (\<lambda>u. un_universe u = lo_universe l) (t_universes (tables w)) = Some u"
  shows "stateHistory w' = (stateHistory w)(lo_market l := stateHistory w (lo_market l) @
      [if un_forked u then AWAITING_FORK_MIGRATION else AWAITING_NEXT_WINDOW])"
    and "ready_states w'" "lo_market l \<in> set (marketIds w')"
proof -
  let ?s = "if un_forked u then AWAITING_FORK_MIGRATION else AWAITING_NEXT_WINDOW"
  let ?w1 = "stateChanged (lo_market l) (lg_blockNumber l) ?s w"
  let ?tail = "bindA (insertPayout (lo_market l) (lo_payoutNumerators l) (lo_invalid l) True) (\<lambda>payoutId.
     thenA (insertInto initial_reports (reportToInsert l a payoutId))
    (thenA (update markets (\<lambda>m. mk_marketId m = lo_market l)
              (\<lambda>m. m\<lparr>mk_initialReportSize := Some (lo_amountStaked l)\<rparr>))
    (thenA (updateMarketFeeWindow env (lo_universe l) (lo_market l) True)
    (thenA (updateDisputeRound (lo_market l))
    (thenA (refreshMarketMailboxEthBalance env (lo_market l))
           (emit ''InitialReportSubmitted'' (Some l) []))))))"
  have tail: "?tail ?w1 = (Inr (), w')"
    using assms(2) unfolding submitInitialReport_def Let_def
    by (simp add: bindA_eq_Inr orThrow_eq_Inr first_eq_Inr assms(3)
        thenA_ok [where m = "updateMarketState (lo_market l) (lg_blockNumber l) ?s",
          OF updateMarketState_run [OF conjunct1 [OF assms(1)] conjunct2 [OF assms(1)]]])
  have "unchanged (\<lambda>w. t_market_state (tables w)) ?tail" by (intro frames)
  then have "t_market_state (tables w') = t_market_state (tables ?w1)" using tail by (rule unchangedD)
  then show "stateHistory w' = (stateHistory w)(lo_market l := stateHistory w (lo_market l) @ [?s])"
    using stateHistory_rows [of w' ?w1] stateChanged_history by simp
  show "ready_states w'" using report_logs_kept(1) assms(1,2) by (rule preservesD)
  obtain w2 w3 where refresh: "refreshMarketMailboxEthBalance env (lo_market l) w2 = (Inr (), w3)"
    and w': "emit ''InitialReportSubmitted'' (Some l) [] w3 = (Inr (), w')"
    using tail by (auto simp: bindA_eq_Inr thenA_eq_Inr)
  have "find (\<lambda>m. mk_marketId m = lo_market l) (t_markets (tables w2)) \<noteq> None"
    using refresh by (auto simp: refreshMarketMailboxEthBalance_def bindA_eq_Inr orThrow_eq_Inr first_eq_Inr)
  then have "lo_market l \<in> set (marketIds w2)" unfolding find_market .
  moreover have "marketIds w3 = marketIds w2" using marketIds_ops(2) refresh by (rule unchangedD)
  moreover have "marketIds w' = marketIds w3" using marketIds_frames(4) w' by (rule unchangedD)
  ultimately show "lo_market l \<in> set (marketIds w')" by simp
qed

text \<open>In a universe that has forked, the initial report of a market cannot be taken back: the removal
  expects another state than the one the report was stored with, throws, and changes nothing.\<close>

theorem forked_report_not_removed:
  assumes "ready_states w" "processInitialReportSubmittedLog env l = Inr add" "add w = (Inr (), w')"
    "find (\<lambda>u. un_universe u = lo_universe l) (t_universes (tables w)) = Some u" "un_forked u"
  shows "\<exists>e. processInitialReportSubmittedLogRemoval env l w' = (Inl e, w')"
proof -
  obtain a where "add = submitInitialReport env l a"
    using assms(2) by (auto simp: processInitialReportSubmittedLog_def bindE_eq_Inr)
  then have run: "submitInitialReport env l a w = (Inr (), w')" using assms(3) by simp
  note after = submitted_run [OF assms(1) run assms(4)]
  have "last (stateHistory w' (lo_market l)) \<noteq> AWAITING_NEXT_WINDOW"
    unfolding after(1) by (simp add: assms(5))
  then obtain e where "rollbackMarketState (lo_market l) AWAITING_NEXT_WINDOW w' = (Inl e, w')"
    using log.pop_refused [OF after(2)] by blast
  then show ?thesis by (auto simp: processInitialReportSubmittedLogRemoval_def act_simps)
qed

lemma update_markets_ok:
  assumes "ready_states w" "\<And>m. tcheck markets m \<Longrightarrow> tcheck markets (f m)"
    "\<And>m. mk_marketId (f m) = mk_marketId m" "\<And>m. mk_marketStateId (f m) = mk_marketStateId m"
  shows "\<exists>w'. update markets P f w = (Inr (), w') \<and> ready_states w' \<and> marketIds w' = marketIds w \<and>
    t_market_state (tables w') = t_market_state (tables w) \<and> t_initial_reports (tables w') = t_initial_reports (tables w)"
proof -
  obtain w' where w': "update markets P f w = (Inr (), w')"
    using assms(1,2) by (auto simp: update_app checked_def list_all_iff list_ex_iff)
  moreover have "ready_states w'"
    using markets_update_kept [OF assms(3,4)] assms(1) w' by (rule preservesD)
  moreover have "marketIds w' = marketIds w"
    using marketIds_update [OF assms(3)] w' by (rule unchangedD)
  moreover have "t_market_state (tables w') = t_market_state (tables w)"
    "t_initial_reports (tables w') = t_initial_reports (tables w)"
    using w' by (auto simp: update_eq_Inr)
  ultimately show ?thesis by blast
qed

text \<open>The calls that are made from within a processor answer, and no balance is negative.\<close>

definition calls_answer :: "env \<Rightarrow> bool" where
  "calls_answer env \<longleftrightarrow> (\<forall>t u. \<exists>f. getFeeWindowByTimestamp env t u = Inr f) \<and>
     (\<forall>a. \<exists>b \<ge> 0. getBalance env a = Inr b)"

lemma updateMarketFeeWindow_ok:
  assumes "ready_states w" "calls_answer env"
  shows "\<exists>w'. updateMarketFeeWindow env u a b w = (Inr (), w') \<and> ready_states w' \<and> marketIds w' = marketIds w \<and>
    t_market_state (tables w') = t_market_state (tables w) \<and> t_initial_reports (tables w') = t_initial_reports (tables w)"
proof -
  obtain f where f: "getFeeWindow env u b w = (Inr f, w)"
  proof (cases "find (\<lambda>f. fw_universe f = u \<and>
      fw_startTime f < getCurrentTime w + (if b then DISPUTE_ROUND_DURATION_SECONDS env else 0) \<and>
      getCurrentTime w + (if b then DISPUTE_ROUND_DURATION_SECONDS env else 0) < fw_endTime f)
      (t_fee_windows (tables w))")
    case None
    obtain g where "getFeeWindowByTimestamp env
        (getCurrentTime w + (if b then DISPUTE_ROUND_DURATION_SECONDS env else 0)) u = Inr g"
      using assms(2) unfolding calls_answer_def by blast
    then have "getFeeWindow env u b w = (Inr g, w)"
      unfolding getFeeWindow_def bindA_gets bindA_first fee_windows_sel None by (simp add: liftR_def)
    then show ?thesis by (rule that)
  next
    case (Some f)
    have "getFeeWindow env u b w = (Inr (fw_feeWindow f), w)"
      unfolding getFeeWindow_def bindA_gets bindA_first fee_windows_sel Some by (simp add: return_app)
    then show ?thesis by (rule that)
  qed
  have "tcheck markets (m\<lparr>mk_feeWindow := f\<rparr>) = tcheck markets m" for m by (simp add: markets_constraints)
  then show ?thesis
    using update_markets_ok [OF assms(1), of "\<lambda>m. m\<lparr>mk_feeWindow := f\<rparr>" "\<lambda>m. mk_marketId m = a"]
    unfolding updateMarketFeeWindow_def bindA_ok [where m = "getFeeWindow env u b", OF f] by simp
qed

lemma refreshMarketMailboxEthBalance_ok:
  assumes "ready_states w" "calls_answer env" "a \<in> set (marketIds w)"
  shows "\<exists>w'. refreshMarketMailboxEthBalance env a w = (Inr (), w') \<and> ready_states w' \<and> marketIds w' = marketIds w \<and>
    t_market_state (tables w') = t_market_state (tables w) \<and> t_initial_reports (tables w') = t_initial_reports (tables w)"
proof -
  obtain m where m: "find (\<lambda>m. mk_marketId m = a) (t_markets (tables w)) = Some m"
    using assms(3) unfolding find_market [symmetric] by blast
  obtain b where b: "getBalance env (mk_marketCreatorMailbox m) = Inr b" "0 \<le> b"
    using assms(2) unfolding calls_answer_def by blast
  have "tcheck markets m \<Longrightarrow> tcheck markets (m\<lparr>mk_marketCreatorFeesBalance := b\<rparr>)" for m
    using b(2) by (simp add: markets_constraints)
  then show ?thesis
    using update_markets_ok [OF assms(1), of "\<lambda>m. m\<lparr>mk_marketCreatorFeesBalance := b\<rparr>" "\<lambda>m. mk_marketId m = a"]
    unfolding refreshMarketMailboxEthBalance_def bindA_assoc bindA_first markets_sel m
    by (simp add: b(1) liftR_Inr)
qed

text \<open>In a universe that has not forked, taking the initial report of a market back succeeds whenever the
  calls it makes are answered, restores the reporting states of all markets, and leaves no report
  of the market.\<close>

theorem report_removal_restores:
  assumes "ready_states w" "processInitialReportSubmittedLog env l = Inr add" "add w = (Inr (), w')"
    "find (\<lambda>u. un_universe u = lo_universe l) (t_universes (tables w)) = Some u" "\<not> un_forked u"
    "calls_answer env"
  shows "\<exists>w''. processInitialReportSubmittedLogRemoval env l w' = (Inr (), w'') \<and>
    stateHistory w'' = stateHistory w \<and>
    list_all (\<lambda>r. ir_marketId r \<noteq> lo_market l) (t_initial_reports (tables w''))"
proof -
  let ?a = "lo_market l"
  obtain a where "add = submitInitialReport env l a"
    using assms(2) by (auto simp: processInitialReportSubmittedLog_def bindE_eq_Inr)
  then have run: "submitInitialReport env l a w = (Inr (), w')" using assms(3) by simp
  note after = submitted_run [OF assms(1) run assms(4)]
  have "stateHistory w' ?a = stateHistory w ?a @ [AWAITING_NEXT_WINDOW]"
    unfolding after(1) by (simp add: assms(5))
  then obtain w1 where w1: "rollbackMarketState ?a AWAITING_NEXT_WINDOW w' = (Inr (), w1)" "ready_states w1"
    "stateHistory w1 = (stateHistory w')(?a := stateHistory w ?a)"
    using log.pop_ok [OF after(2)] by blast
  have ids1: "marketIds w1 = marketIds w'" using marketIds_rollback w1(1) by (rule unchangedD)
  have h1: "stateHistory w1 = stateHistory w" unfolding w1(3) after(1) by (simp add: fun_eq_iff)
  let ?w2 = "w1\<lparr>tables := (tables w1)\<lparr>t_initial_reports :=
    filter (\<lambda>r. ir_marketId r \<noteq> ?a) (t_initial_reports (tables w1))\<rparr>\<rparr>"
  have w2: "delete initial_reports (\<lambda>r. ir_marketId r = ?a) w1 = (Inr (), ?w2)" by (simp add: delete_app)
  have r2: "ready_states ?w2" "marketIds ?w2 = marketIds w1" "t_market_state (tables ?w2) = t_market_state (tables w1)"
    using states_frame(1,2) [of ?w2 w1] w1(2) by (simp_all add: marketIds_def)
  obtain w3 where w3: "update markets (\<lambda>m. mk_marketId m = ?a) (\<lambda>m. m\<lparr>mk_initialReportSize := None\<rparr>) ?w2 = (Inr (), w3)"
    "ready_states w3" "marketIds w3 = marketIds ?w2" "t_market_state (tables w3) = t_market_state (tables ?w2)"
    "t_initial_reports (tables w3) = t_initial_reports (tables ?w2)"
    using update_markets_ok [OF r2(1), of "\<lambda>m. m\<lparr>mk_initialReportSize := None\<rparr>" "\<lambda>m. mk_marketId m = ?a"]
    by (auto simp: markets_constraints)
  obtain w4 where w4: "updateMarketFeeWindow env (lo_universe l) ?a False w3 = (Inr (), w4)"
    "ready_states w4" "marketIds w4 = marketIds w3" "t_market_state (tables w4) = t_market_state (tables w3)"
    "t_initial_reports (tables w4) = t_initial_reports (tables w3)"
    using updateMarketFeeWindow_ok [OF w3(2) assms(6)] by blast
  have "?a \<in> set (marketIds w4)" using after(3) by (simp only: w4(3) w3(3) r2(2) ids1)
  then obtain w5 where w5: "refreshMarketMailboxEthBalance env ?a w4 = (Inr (), w5)"
    "t_market_state (tables w5) = t_market_state (tables w4)"
    "t_initial_reports (tables w5) = t_initial_reports (tables w4)"
    using refreshMarketMailboxEthBalance_ok [OF w4(2) assms(6)] by blast
  obtain w6 where w6: "emit ''InitialReportSubmitted'' (Some l) [] w5 = (Inr (), w6)" "tables w6 = tables w5"
    by (simp add: emit_app)
  have "processInitialReportSubmittedLogRemoval env l w' = (Inr (), w6)"
    unfolding processInitialReportSubmittedLogRemoval_def
    by (simp only: thenA_ok w1(1) w2 w3(1) w4(1) w5(1) w6(1))
  moreover have "stateHistory w6 = stateHistory w1"
    by (rule stateHistory_rows) (simp only: w6(2) w5(2) w4(4) w3(4) r2(3))
  moreover have "t_initial_reports (tables w6) = t_initial_reports (tables ?w2)"
    by (simp only: w6(2) w5(3) w4(5) w3(5))
  then have "list_all (\<lambda>r. ir_marketId r \<noteq> ?a) (t_initial_reports (tables w6))"
    by (simp add: list_all_iff)
  ultimately show ?thesis using h1 by (intro exI [of _ w6]) simp
qed

section \<open>Examples\<close>

lemma updateDisputeRound_ok:
  assumes "ready_states w"
  shows "\<exists>w'. updateDisputeRound a w = (Inr (), w') \<and> ready_states w' \<and> marketIds w' = marketIds w"
proof -
  let ?n = "length (filter (\<lambda>c. cs_completed c = Some 1 \<and> cs_marketId c = a) (t_crowdsourcers (tables w)))"
  show ?thesis
    using update_markets_ok [OF assms, of "\<lambda>m. m\<lparr>mk_disputeRounds := Some (int ?n)\<rparr>" "\<lambda>m. mk_marketId m = a"]
    unfolding updateDisputeRound_def bindA_countRows crowdsourcers_sel by (auto simp: markets_constraints)
qed

lemma marketIds_submit [frames]:
  "unchanged marketIds (updateMarketState a b s)" "unchanged marketIds (insertPayout a xs bad tw)"
  "unchanged marketIds (insertInto initial_reports r)"
  unfolding updateMarketState_def setMarketStateToLatest_def newMarketStateId_def insertPayout_def newPayoutId_def
  by (intro frames unchanged_modify unchanged_write; simp add: marketIds_def)+

lemma submit_ok:
  assumes "ready_states w" "calls_answer env" "payouts_ok w" "payoutColumns (lo_payoutNumerators l) = Inr cols"
    "find (\<lambda>u. un_universe u = lo_universe l) (t_universes (tables w)) = Some u" "lo_market l \<in> set (marketIds w)"
  shows "\<exists>w'. submitInitialReport env l a w = (Inr (), w')"
proof -
  let ?s = "if un_forked u then AWAITING_FORK_MIGRATION else AWAITING_NEXT_WINDOW"
  let ?w1 = "stateChanged (lo_market l) (lg_blockNumber l) ?s w"
  have w1: "updateMarketState (lo_market l) (lg_blockNumber l) ?s w = (Inr (), ?w1)"
    using assms(1) by (simp add: updateMarketState_run)
  have r1: "ready_states ?w1" using assms(1) by (simp add: stateChanged_ok)
  have i1: "marketIds ?w1 = marketIds w" using marketIds_submit(1) w1 by (rule unchangedD)
  have p1: "payouts_ok ?w1" using assms(3) by (simp add: payouts_ok_def stateChanged_def)
  obtain i w2 where w2: "insertPayout (lo_market l) (lo_payoutNumerators l) (lo_invalid l) True ?w1 = (Inr i, w2)"
    using insertPayout_again [OF assms(4), of "lo_market l" "lo_invalid l" ?w1]
      insertPayout_new [OF assms(4) _ p1, of "lo_market l" "lo_invalid l"]
    by (cases "find (payoutMatches (lo_market l) (lo_invalid l) cols) (t_payouts (tables ?w1))") auto
  have r2: "ready_states w2" using insertPayout_kept r1 w2 by (rule preservesD)
  have i2: "marketIds w2 = marketIds ?w1" using marketIds_submit(2) w2 by (rule unchangedD)
  obtain w3 where w3: "insertInto initial_reports (reportToInsert l a i) w2 = (Inr (), w3)"
    by (simp add: insertInto_def initial_reports_constraints list_ex_iff)
  have "preserves ready_states (insertInto initial_reports (reportToInsert l a i))" by (intro kept)
  then have r3: "ready_states w3" using r2 w3 by (rule preservesD)
  have i3: "marketIds w3 = marketIds w2" using marketIds_submit(3) w3 by (rule unchangedD)
  obtain w4 where w4: "update markets (\<lambda>m. mk_marketId m = lo_market l)
      (\<lambda>m. m\<lparr>mk_initialReportSize := Some (lo_amountStaked l)\<rparr>) w3 = (Inr (), w4)" "ready_states w4"
      "marketIds w4 = marketIds w3"
    using update_markets_ok [OF r3, of "\<lambda>m. m\<lparr>mk_initialReportSize := Some (lo_amountStaked l)\<rparr>"
        "\<lambda>m. mk_marketId m = lo_market l"] by (auto simp: markets_constraints)
  obtain w5 where w5: "updateMarketFeeWindow env (lo_universe l) (lo_market l) True w4 = (Inr (), w5)"
    "ready_states w5" "marketIds w5 = marketIds w4"
    using updateMarketFeeWindow_ok [OF w4(2) assms(2)] by blast
  obtain w6 where w6: "updateDisputeRound (lo_market l) w5 = (Inr (), w6)" "ready_states w6"
    "marketIds w6 = marketIds w5"
    using updateDisputeRound_ok [OF w5(2)] by blast
  have "lo_market l \<in> set (marketIds w6)" using assms(6) by (simp only: w6(3) w5(3) w4(3) i3 i2 i1)
  then obtain w7 where w7: "refreshMarketMailboxEthBalance env (lo_market l) w6 = (Inr (), w7)"
    using refreshMarketMailboxEthBalance_ok [OF w6(2) assms(2)] by blast
  obtain w8 where w8: "emit ''InitialReportSubmitted'' (Some l) [] w7 = (Inr (), w8)" by (simp add: emit_app)
  have "submitInitialReport env l a w = (Inr (), w8)"
    unfolding submitInitialReport_def Let_def bindA_assoc bindA_first universes_sel assms(5) orThrow_Some bindA_return
    by (simp only: thenA_ok bindA_ok w1 w2 w3 w4(1) w5(1) w6(1) w7 w8)
  then show ?thesis by blast
qed

definition report_log :: event_log where
  "report_log = sample_log\<lparr>lo_market := ''m'', lo_universe := ''u'', lo_disputeCrowdsourcer := ''c'',
     lo_payoutNumerators := [Some 0, Some 10000], lo_amountStaked := 5, lo_size := 10\<rparr>"

definition forked_world :: world where
  "forked_world = reporting_world\<lparr>tables := (tables reporting_world)\<lparr>t_universes :=
     map (\<lambda>u. u\<lparr>un_forked := True\<rparr>) (t_universes (tables reporting_world))\<rparr>\<rparr>"

lemma report_log_sel [simp]:
  "lo_market report_log = ''m''" "lo_universe report_log = ''u''" "lo_disputeCrowdsourcer report_log = ''c''"
  "lo_payoutNumerators report_log = [Some 0, Some 10000]" "lo_amountStaked report_log = 5"
  by (simp_all add: report_log_def)

lemma report_columns:
  "payoutColumns [Some 0, Some 10000] = Inr [Some 0, Some 10000, None, None, None, None, None, None]"
  by (simp add: payoutColumns_def numeral_eq_Suc)

lemma sample_env_answers: "calls_answer sample_env" "getInitialReporter sample_env a = Inr ''a''"
  by (simp_all add: calls_answer_def sample_env_def)

lemma forked_world_ok: "ready_states forked_world" "marketIds forked_world = [''m'']" "payouts_ok forked_world"
  using states_frame(1,2) [of forked_world reporting_world] reporting_world_ok(1,2)
  by (simp_all add: forked_world_def marketIds_def payouts_ok_def sample_market_def)

theorem forked_report_not_removed_witness:
  "\<exists>add w' e. processInitialReportSubmittedLog sample_env report_log = Inr add \<and>
     add forked_world = (Inr (), w') \<and>
     processInitialReportSubmittedLogRemoval sample_env report_log w' = (Inl e, w')"
proof -
  have p: "processInitialReportSubmittedLog sample_env report_log =
      Inr (submitInitialReport sample_env report_log ''a'')"
    by (simp add: processInitialReportSubmittedLog_def sample_env_answers)
  obtain u where u: "find (\<lambda>u. un_universe u = lo_universe report_log) (t_universes (tables forked_world)) = Some u"
    "un_forked u" by (simp add: forked_world_def)
  have "\<exists>w'. submitInitialReport sample_env report_log ''a'' forked_world = (Inr (), w')"
    by (rule submit_ok [OF forked_world_ok(1) sample_env_answers(1) forked_world_ok(3) _ u(1)])
      (simp_all add: report_columns forked_world_ok(2))
  then obtain w' where w': "submitInitialReport sample_env report_log ''a'' forked_world = (Inr (), w')" ..
  with p forked_report_not_removed [OF forked_world_ok(1) p w' u] show ?thesis by blast
qed

lemma reporting_world_more: "marketIds reporting_world = [''m'']" "payouts_ok reporting_world"
  by (simp_all add: marketIds_def payouts_ok_def sample_market_def)

theorem report_removal_restores_witness:
  "\<exists>add w' w''. processInitialReportSubmittedLog sample_env report_log = Inr add \<and>
     add reporting_world = (Inr (), w') \<and>
     processInitialReportSubmittedLogRemoval sample_env report_log w' = (Inr (), w'') \<and>
     stateHistory w'' ''m'' = [PRE_REPORTING]"
proof -
  have p: "processInitialReportSubmittedLog sample_env report_log =
      Inr (submitInitialReport sample_env report_log ''a'')"
    by (simp add: processInitialReportSubmittedLog_def sample_env_answers)
  have r: "ready_states reporting_world" using reporting_world_ok(1,2) by simp
  obtain u where u: "find (\<lambda>u. un_universe u = lo_universe report_log) (t_universes (tables reporting_world)) = Some u"
    "\<not> un_forked u" by simp
  have "\<exists>w'. submitInitialReport sample_env report_log ''a'' reporting_world = (Inr (), w')"
    by (rule submit_ok [OF r sample_env_answers(1) reporting_world_more(2) _ u(1)])
      (simp_all add: report_columns reporting_world_more(1))
  then obtain w' where w': "submitInitialReport sample_env report_log ''a'' reporting_world = (Inr (), w')" ..
  obtain w'' where "processInitialReportSubmittedLogRemoval sample_env report_log w' = (Inr (), w'')"
    "stateHistory w'' = stateHistory reporting_world"
    using report_removal_restores [OF r p w' u sample_env_answers(1)] by blast
  with p w' show ?thesis by (auto simp: reporting_world_history)
qed

text \<open>A crowdsourcer with a contribution, then completed.\<close>

lemma created_sample:
  "\<exists>w. processDisputeCrowdsourcerCreatedLog report_log reporting_world = (Inr (), w) \<and>
    t_crowdsourcers (tables w) = [crowdsourcerToInsert report_log ''f1'' 1] \<and> t_disputes (tables w) = [] \<and>
    t_payouts (tables w) = [\<lparr>po_payoutId = 1, po_marketId = ''m'',
      po_payouts = [Some 0, Some 10000, None, None, None, None, None, None],
      po_isInvalid = lo_invalid report_log, po_tentativeWinning = 0, po_winning = None\<rparr>] \<and> ready_states w"
proof -
  have n: "next_payoutId (tables reporting_world) = 1" "t_tokens (tables reporting_world) = []"
    "t_crowdsourcers (tables reporting_world) = []" "t_disputes (tables reporting_world) = []"
    by (simp_all add: reporting_world_def empty_db_def empty_world_def)
  obtain w where w: "processDisputeCrowdsourcerCreatedLog report_log reporting_world = (Inr (), w)"
    "t_crowdsourcers (tables w) = [crowdsourcerToInsert report_log ''f1'' 1]" "t_disputes (tables w) = []"
    "t_payouts (tables w) = [\<lparr>po_payoutId = 1, po_marketId = ''m'',
      po_payouts = [Some 0, Some 10000, None, None, None, None, None, None],
      po_isInvalid = lo_invalid report_log, po_tentativeWinning = 0, po_winning = None\<rparr>]"
    unfolding processDisputeCrowdsourcerCreatedLog_def report_log_sel
    using insertPayout_new [OF report_columns _ reporting_world_more(2), of "''m''" "lo_invalid report_log" False]
    by (simp add: bindA_assoc bindA_first n sample_window_def Let_def thenA_insertInto thenA_emit insertInto_def
        crowdsourcers_constraints tokens_constraints bindA_ok [where m = "insertPayout ''m'' _ _ _"])
  moreover have "ready_states w"
    using crowdsourcer_logs_kept(1) _ w(1) by (rule preservesD) (use reporting_world_ok in simp)
  ultimately show ?thesis by blast
qed

lemma contribution_ok:
  assumes "c \<in> set (t_crowdsourcers (tables w))" "cs_crowdsourcerId c = lo_disputeCrowdsourcer l"
    "list_all (\<lambda>d. \<not> tclash disputes d (disputeToInsert l)) (t_disputes (tables w))"
  shows "\<exists>w'. processDisputeCrowdsourcerContributionLog l w = (Inr (), w')"
proof -
  have "find (\<lambda>c. cs_crowdsourcerId c = lo_disputeCrowdsourcer l) (t_crowdsourcers (tables w)) \<noteq> None"
    using assms(1,2) by (auto simp: find_None_iff)
  then obtain r where r: "find (\<lambda>c. cs_crowdsourcerId c = lo_disputeCrowdsourcer l) (t_crowdsourcers (tables w)) = Some r"
    by blast
  let ?w1 = "w\<lparr>tables := (tables w)\<lparr>t_disputes := t_disputes (tables w) @ [disputeToInsert l]\<rparr>\<rparr>"
  have w1: "insertInto disputes (disputeToInsert l) w = (Inr (), ?w1)"
    using assms(3) by (simp add: insertInto_eq_Inr disputes_constraints(2))
  have "\<exists>w2. addToCrowdsourcer (lo_disputeCrowdsourcer l) (lo_amountStaked l) ?w1 = (Inr (), w2)"
    unfolding addToCrowdsourcer_def bindA_assoc bindA_first
    by (simp add: r update_app crowdsourcers_constraints list_ex_iff)
  then obtain w2 where w2: "addToCrowdsourcer (lo_disputeCrowdsourcer l) (lo_amountStaked l) ?w1 = (Inr (), w2)" ..
  show ?thesis
    unfolding processDisputeCrowdsourcerContributionLog_def
    by (simp only: thenA_ok w1 w2 emit_app) blast
qed

theorem dispute_stakes_add_up_witness:
  "\<exists>w. dispute_reach sample_env w \<and> t_disputes (tables w) \<noteq> [] \<and> stakes_add_up w"
proof -
  obtain w where w: "processDisputeCrowdsourcerCreatedLog report_log reporting_world = (Inr (), w)"
    "t_crowdsourcers (tables w) = [crowdsourcerToInsert report_log ''f1'' 1]" "t_disputes (tables w) = []"
    using created_sample by blast
  obtain w' where w': "processDisputeCrowdsourcerContributionLog report_log w = (Inr (), w')"
    using contribution_ok [of _ w report_log] w(2,3) by (auto simp: crowdsourcerToInsert_def)
  have "dispute_reach sample_env reporting_world"
    by (rule dispute_reach.start) (simp_all add: reporting_world_def empty_db_def)
  then have "dispute_reach sample_env w'"
    using w(1) w' by (blast intro: dispute_reach.created dispute_reach.contributed)
  moreover have "t_disputes (tables w') \<noteq> []" using contributed_run [OF w'] by auto
  ultimately show ?thesis using dispute_stakes_add_up [of sample_env w'] by blast
qed

lemma completed_ok:
  assumes "ready_states w" "calls_answer env"
  shows "\<exists>w'. processDisputeCrowdsourcerCompletedLog env l w = (Inr (), w')"
proof -
  obtain w1 where w1: "update crowdsourcers (\<lambda>c. cs_crowdsourcerId c = lo_disputeCrowdsourcer l)
      (\<lambda>c. c\<lparr>cs_completed := Some 1\<rparr>) w = (Inr (), w1)"
    by (simp add: update_app crowdsourcers_constraints list_ex_iff)
  have "preserves ready_states (update crowdsourcers (\<lambda>c. cs_crowdsourcerId c = lo_disputeCrowdsourcer l)
      (\<lambda>c. c\<lparr>cs_completed := Some 1\<rparr>))" by (intro kept)
  then have r1: "ready_states w1" using assms(1) w1 by (rule preservesD)
  let ?w2 = "stateChanged (lo_market l) (lg_blockNumber l) AWAITING_NEXT_WINDOW w1"
  have w2: "updateMarketState (lo_market l) (lg_blockNumber l) AWAITING_NEXT_WINDOW w1 = (Inr (), ?w2)"
    using r1 by (simp add: updateMarketState_run)
  have r2: "ready_states ?w2" using r1 by (simp add: stateChanged_ok)
  obtain w3 where w3: "updateDisputeRound (lo_market l) ?w2 = (Inr (), w3)" "ready_states w3"
    using updateDisputeRound_ok [OF r2] by blast
  obtain w4 where w4: "updateMarketFeeWindow env (lo_universe l) (lo_market l) True w3 = (Inr (), w4)"
    using updateMarketFeeWindow_ok [OF w3(2) assms(2)] by blast
  obtain w5 where w5: "updateIncompleteCrowdsourcers (lo_market l) w4 = (Inr (), w5)"
    by (simp add: updateIncompleteCrowdsourcers_def update_app crowdsourcers_constraints list_ex_iff)
  obtain w6 where w6: "updateTentativeWinningPayout (lo_market l) w5 = (Inr (), w6)"
    using updateTentativeWinningPayout_run by blast
  obtain w7 where w7: "emit ''DisputeCrowdsourcerCompleted'' (Some l) [(''marketId'', VS (lo_market l))] w6 = (Inr (), w7)"
    by (simp add: emit_app)
  have "processDisputeCrowdsourcerCompletedLog env l w = (Inr (), w7)"
    unfolding processDisputeCrowdsourcerCompletedLog_def
    by (simp only: thenA_ok w1 w2 w3(1) w4 w5 w6 w7)
  then show ?thesis by blast
qed

definition completedOf :: "world \<Rightarrow> crowdsourcers_row list" where
  "completedOf w = filter (\<lambda>c. cs_completed c = Some 1) (t_crowdsourcers (tables w))"

lemma completed_kept:
  assumes "processDisputeCrowdsourcerCompletedLog env l w = (Inr (), w')"
    "t_crowdsourcers (tables w) = [c]" "cs_crowdsourcerId c = lo_disputeCrowdsourcer l"
  shows "completedOf w' = [c\<lparr>cs_completed := Some 1\<rparr>]"
proof -
  have others: "unchanged completedOf (update markets P2 f2)" "unchanged completedOf (update payouts P3 f3)"
    "unchanged completedOf (insertInto market_state r)" "unchanged completedOf (emit n lg d)"
    for P2 f2 P3 f3 r n and lg :: "event_log option" and d
    by (rule unchanged_write unchanged_emit; simp add: completedOf_def)+
  have inc: "unchanged completedOf (updateIncompleteCrowdsourcers a)" for a
  proof -
    have "filter (\<lambda>c. cs_completed c = Some 1) (map (\<lambda>c. if cs_marketId c = a \<and> cs_completed c = None
        then c\<lparr>cs_completed := Some 0, cs_disavowed := cs_disavowed c + 1\<rparr> else c) cs) =
        filter (\<lambda>c. cs_completed c = Some 1) cs" for cs :: "crowdsourcers_row list"
      by (induction cs) auto
    then show ?thesis
      by (simp add: unchanged_def updateIncompleteCrowdsourcers_def update_app crowdsourcers_constraints list_ex_iff completedOf_def)
  qed
  have tent: "unchanged completedOf (updateTentativeWinningPayout a)" for a
    by (simp add: unchanged_def updateTentativeWinningPayout_run completedOf_def)
  obtain w1 where w1: "update crowdsourcers (\<lambda>c. cs_crowdsourcerId c = lo_disputeCrowdsourcer l)
      (\<lambda>c. c\<lparr>cs_completed := Some 1\<rparr>) w = (Inr (), w1)"
    and rest: "thenA (updateMarketState (lo_market l) (lg_blockNumber l) AWAITING_NEXT_WINDOW)
    (thenA (updateDisputeRound (lo_market l))
    (thenA (updateMarketFeeWindow env (lo_universe l) (lo_market l) True)
    (thenA (updateIncompleteCrowdsourcers (lo_market l))
    (thenA (updateTentativeWinningPayout (lo_market l))
           (emit ''DisputeCrowdsourcerCompleted'' (Some l) [(''marketId'', VS (lo_market l))]))))) w1 = (Inr (), w')"
    using assms(1) unfolding processDisputeCrowdsourcerCompletedLog_def
    by (subst (asm) thenA_eq_Inr, elim exE conjE) (rule that, simp_all)
  have "unchanged completedOf (thenA (updateMarketState (lo_market l) (lg_blockNumber l) AWAITING_NEXT_WINDOW)
    (thenA (updateDisputeRound (lo_market l))
    (thenA (updateMarketFeeWindow env (lo_universe l) (lo_market l) True)
    (thenA (updateIncompleteCrowdsourcers (lo_market l))
    (thenA (updateTentativeWinningPayout (lo_market l))
           (emit ''DisputeCrowdsourcerCompleted'' (Some l) [(''marketId'', VS (lo_market l))]))))))"
    unfolding updateMarketState_def newMarketStateId_def
      setMarketStateToLatest_def updateDisputeRound_def updateMarketFeeWindow_def getFeeWindow_def
    by (intro frames others inc tent unchanged_modify) (simp add: completedOf_def)
  then have "completedOf w' = completedOf w1" using rest by (rule unchangedD)
  moreover have "completedOf w1 = [c\<lparr>cs_completed := Some 1\<rparr>]"
    using w1 assms(2,3) by (auto simp: update_eq_Inr completedOf_def)
  ultimately show ?thesis by simp
qed

lemma created_keys:
  assumes "processDisputeCrowdsourcerCreatedLog report_log reporting_world = (Inr (), w)"
  shows "t_initial_reports (tables w) = []"
proof -
  have others: "unchanged (\<lambda>w. t_initial_reports (tables w)) (insertInto crowdsourcers r1)"
    "unchanged (\<lambda>w. t_initial_reports (tables w)) (insertInto tokens r2)"
    "unchanged (\<lambda>w. t_initial_reports (tables w)) (insertInto payouts r3)"
    "unchanged (\<lambda>w. t_initial_reports (tables w)) (emit n lg d)"
    for r1 r2 r3 n and lg :: "event_log option" and d
    by (rule unchanged_write unchanged_emit; simp)+
  have "unchanged (\<lambda>w. t_initial_reports (tables w)) (processDisputeCrowdsourcerCreatedLog report_log)"
    unfolding processDisputeCrowdsourcerCreatedLog_def insertPayout_def newPayoutId_def Let_def
    by (intro frames others unchanged_modify) simp_all
  then have "t_initial_reports (tables w) = t_initial_reports (tables reporting_world)" using assms by (rule unchangedD)
  then show ?thesis by (simp add: reporting_world_def empty_db_def empty_world_def)
qed

definition payoutKeys :: "world \<Rightarrow> (address \<times> int) list \<times> initial_reports_row list" where
  "payoutKeys w = (map (\<lambda>p. (po_marketId p, po_payoutId p)) (t_payouts (tables w)), t_initial_reports (tables w))"

lemma completion_keys:
  assumes "processDisputeCrowdsourcerCompletedLog env l w = (Inr (), w')"
  shows "payoutKeys w' = payoutKeys w"
proof -
  have others: "unchanged payoutKeys (update crowdsourcers P1 f1)" "unchanged payoutKeys (update markets P2 f2)"
    "unchanged payoutKeys (insertInto market_state r)" "unchanged payoutKeys (emit n lg d)"
    for P1 f1 P2 f2 r n and lg :: "event_log option" and d
    by (rule unchanged_write unchanged_emit; simp add: payoutKeys_def)+
  have tent: "unchanged payoutKeys (updateTentativeWinningPayout a)" for a
    by (simp add: unchanged_def updateTentativeWinningPayout_run payoutKeys_def comp_def tentative_def)
  have "unchanged payoutKeys (processDisputeCrowdsourcerCompletedLog env l)"
    unfolding processDisputeCrowdsourcerCompletedLog_def updateMarketState_def newMarketStateId_def
      setMarketStateToLatest_def updateDisputeRound_def updateMarketFeeWindow_def getFeeWindow_def
      updateIncompleteCrowdsourcers_def
    by (intro frames others tent unchanged_modify) (simp add: payoutKeys_def)
  then show ?thesis using assms by (rule unchangedD)
qed

theorem tentative_winner_leads_witness:
  "\<exists>w w' p. processDisputeCrowdsourcerCompletedLog sample_env report_log w = (Inr (), w') \<and>
     p \<in> set (t_payouts (tables w')) \<and> po_marketId p = ''m'' \<and> po_tentativeWinning p = 1"
proof -
  obtain w where w: "ready_states w" "map (\<lambda>p. (po_marketId p, po_payoutId p)) (t_payouts (tables w)) = [(''m'', 1)]"
    "t_crowdsourcers (tables w) = [crowdsourcerToInsert report_log ''f1'' 1]" "t_initial_reports (tables w) = []"
    using created_sample created_keys by force
  obtain w' where w': "processDisputeCrowdsourcerCompletedLog sample_env report_log w = (Inr (), w')"
    using completed_ok [OF w(1) sample_env_answers(1)] by blast
  have k: "map (\<lambda>p. (po_marketId p, po_payoutId p)) (t_payouts (tables w')) = [(''m'', 1)]"
    "t_initial_reports (tables w') = []"
    using completion_keys [OF w'] w(2,4) by (simp_all add: payoutKeys_def)
  have "completedOf w' = [(crowdsourcerToInsert report_log ''f1'' 1)\<lparr>cs_completed := Some 1\<rparr>]"
    by (rule completed_kept [OF w' w(3)]) (simp add: crowdsourcerToInsert_def)
  then have "filter (\<lambda>c. cs_completed c = Some 1 \<and> cs_marketId c = ''m'') (t_crowdsourcers (tables w')) =
      [(crowdsourcerToInsert report_log ''f1'' 1)\<lparr>cs_completed := Some 1\<rparr>]"
    unfolding completedOf_def filter_filter [symmetric] by (simp add: crowdsourcerToInsert_def filter_filter [symmetric] del: filter_filter)
  then have one: "stakesOf w' ''m'' = [(1, 0)]" using k(2) by (simp add: stakesOf_def crowdsourcerToInsert_def)
  obtain p where p: "t_payouts (tables w') = [p]" "po_marketId p = ''m''" "po_payoutId p = 1"
    using k(1) by (cases "t_payouts (tables w')") auto
  have h: "\<exists>p \<in> set (t_payouts (tables w')). po_marketId p = lo_market report_log \<and> po_payoutId p = i"
    if "i \<in> fst ` set (stakesOf w' (lo_market report_log))" for i using that one p by simp
  from tentative_winner_leads [OF disjI1 [OF w'] h] one
  have "\<exists>p \<in> set (t_payouts (tables w')). po_marketId p = ''m'' \<and> po_tentativeWinning p = 1" by auto
  then show ?thesis using w' by blast
qed

end
