(* ===== verification/Simulated_Order_Book.thy ===== *)
theory Simulated_Order_Book
  imports Financial_Math
begin

text \<open>
  \<open>src/utils/simulated-order-book.ts\<close>, the order book simulation: \<open>takeBest\<close> and the closures that
  \<open>makeOrderBook\<close> returns. The variables the closures share (\<open>bids\<close>, \<open>asks\<close> and the market's
  prices) are the state record \<open>order_book\<close>; each method takes the state and returns its proceeds
  with the next state. (The part of the file that reads the orders from the database is in
  \<open>Market_Order_Books\<close>.)

  The source also zeroes the quantity of the entries it drops and writes the reduced quantity into
  the shared entry object, which only a holder of the old array could see; the books that the
  methods return and keep are the ones modelled.

  The second half runs the same algorithm on plain (price, quantity) pairs and proves what a taker
  of the book relies on: quantities are conserved, selling in steps equals selling at once, and
  taking from the front of a sorted side is optimal.
\<close>

section \<open>Entries and books\<close>

record quantity_at_price =
  qap_tradePrice :: quantity
  qap_quantity :: quantity

record order_book =
  ob_marketMinPrice :: quantity
  ob_marketMaxPrice :: quantity
  ob_bids :: "quantity_at_price list"
  ob_asks :: "quantity_at_price list"

text \<open>A parameter object that carries no field yet.\<close>

definition no_params :: fin_params where
  "no_params = lift \<lparr>
     vNet = 0, vAvg = 0, vUnrealizedCost = None, vUnrealizedProfit = None,
     vRealizedCost = 0, vRealizedProfit = 0, vTotalCost = None, vTotalProfit = None,
     vDelta = None, vSide = Buy, vQuantity = 0, vTradePrice = None, vTradePriceMMP = None,
     vLastPriceMMP = 0, vMin = 0, vMax = 0, vReporterFees = 0, vCreatorFees = 0,
     vReporterFeeRate = 0, vCreatorFeeRate = 0\<rparr>"

lemma no_params_sel [simp]:
  "tradePriceMinusMinPrice no_params = None" "tradePrice no_params = None"
  by (simp_all add: no_params_def)

fun takeBest ::
  "quantity \<Rightarrow> quantity \<Rightarrow> position_type \<Rightarrow> bool \<Rightarrow> quantity_at_price list \<Rightarrow> quantity \<Rightarrow> quantity \<Rightarrow>
   (quantity_at_price list \<times> quantity) result" where
  "takeBest mn mx takeType dryRun newBidsOrAsks proceeds sharesRemaining =
     bindE (gt sharesRemaining (Sh 0)) (\<lambda>more.
     if \<not> more then Inr (newBidsOrAsks, proceeds)
     else (case newBidsOrAsks of
       [] \<Rightarrow> Inr ([], proceeds)
     | best # rest \<Rightarrow>
         bindE (getSharePrice (no_params\<lparr>marketMinPrice := mn, marketMaxPrice := mx,
                  tradePrice := Some (qap_tradePrice best)\<rparr>) takeType) (\<lambda>sharePrice.
         bindE (gt (qap_quantity best) sharesRemaining) (\<lambda>partial.
         if partial then
           bindE (qplus proceeds (multipliedBy sharesRemaining sharePrice)) (\<lambda>p.
           if dryRun then Inr (newBidsOrAsks, p)
           else bindE (qminus (qap_quantity best) sharesRemaining) (\<lambda>q.
             Inr (best\<lparr>qap_quantity := q\<rparr> # rest, p)))
         else
           bindE (qplus proceeds (multipliedBy (qap_quantity best) sharePrice)) (\<lambda>p.
           bindE (qminus sharesRemaining (qap_quantity best)) (\<lambda>s.
             takeBest mn mx takeType dryRun rest p s))))))"

declare takeBest.simps [simp del]

definition makeOrderBook ::
  "quantity \<Rightarrow> quantity \<Rightarrow> quantity_at_price list \<Rightarrow> quantity_at_price list \<Rightarrow> order_book" where
  "makeOrderBook mn mx bidsSortedByPriceDescending asksSortedByPriceAscending =
     \<lparr>ob_marketMinPrice = mn, ob_marketMaxPrice = mx,
      ob_bids = bidsSortedByPriceDescending, ob_asks = asksSortedByPriceAscending\<rparr>"

definition getBidsAndAsks :: "order_book \<Rightarrow> quantity_at_price list \<times> quantity_at_price list" where
  "getBidsAndAsks ob = (ob_bids ob, ob_asks ob)"

definition closeLongFillOnly ::
  "order_book \<Rightarrow> quantity \<Rightarrow> bool \<Rightarrow> (quantity \<times> order_book) result" where
  "closeLongFillOnly ob quantityToSell dryRun =
     bindE (takeBest (ob_marketMinPrice ob) (ob_marketMaxPrice ob) PosLong dryRun
              (ob_bids ob) (Tk 0) quantityToSell)
       (\<lambda>(newBids, proceeds). Inr (proceeds, if dryRun then ob else ob\<lparr>ob_bids := newBids\<rparr>))"

definition closeLongFillOnlyWithFeeAdjustment ::
  "bn_division_op \<Rightarrow> order_book \<Rightarrow> quantity \<Rightarrow> quantity \<Rightarrow> bool \<Rightarrow> (quantity \<times> order_book) result"
  where
  "closeLongFillOnlyWithFeeAdjustment dv ob quantityToSell feeRate dryRun =
     bindE (closeLongFillOnly ob quantityToSell dryRun) (\<lambda>(proceeds, ob').
     bindE (qminus (Pc 1) feeRate) (\<lambda>rate.
     bindE (dividedBy dv proceeds rate) (\<lambda>adjusted. Inr (adjusted, ob'))))"

definition closeShortFillOnly ::
  "order_book \<Rightarrow> quantity \<Rightarrow> bool \<Rightarrow> (quantity \<times> order_book) result" where
  "closeShortFillOnly ob quantityToSell dryRun =
     bindE (takeBest (ob_marketMinPrice ob) (ob_marketMaxPrice ob) PosShort dryRun
              (ob_asks ob) (Tk 0) quantityToSell)
       (\<lambda>(newAsks, proceeds). Inr (proceeds, if dryRun then ob else ob\<lparr>ob_asks := newAsks\<rparr>))"

definition closeShortFillOnlyWithFeeAdjustment ::
  "bn_division_op \<Rightarrow> order_book \<Rightarrow> quantity \<Rightarrow> quantity \<Rightarrow> bool \<Rightarrow> (quantity \<times> order_book) result"
  where
  "closeShortFillOnlyWithFeeAdjustment dv ob quantityToSell feeRate dryRun =
     bindE (closeShortFillOnly ob quantityToSell dryRun) (\<lambda>(proceeds, ob').
     bindE (qplus (Pc 1) feeRate) (\<lambda>rate.
     bindE (dividedBy dv proceeds rate) (\<lambda>adjusted. Inr (adjusted, ob'))))"

section \<open>The same algorithm on plain numbers\<close>

type_synonym level = "bn \<times> bn" \<comment> \<open>trade price, quantity\<close>

definition lift_level :: "level \<Rightarrow> quantity_at_price" where
  "lift_level l = \<lparr>qap_tradePrice = Pr (fst l), qap_quantity = Sh (snd l)\<rparr>"

lemma lift_level_sel [simp]:
  "qap_tradePrice (lift_level (t, q)) = Pr t"
  "qap_quantity (lift_level (t, q)) = Sh q"
  "lift_level (t, q)\<lparr>qap_quantity := Sh x\<rparr> = lift_level (t, x)"
  by (simp_all add: lift_level_def)

definition take_price :: "bn \<Rightarrow> bn \<Rightarrow> position_type \<Rightarrow> bn \<Rightarrow> bn" where
  "take_price mn mx pt t = (case pt of PosClosed \<Rightarrow> 0 | PosShort \<Rightarrow> mx - t | PosLong \<Rightarrow> t - mn)"

fun take_best :: "(bn \<Rightarrow> bn) \<Rightarrow> level list \<Rightarrow> bn \<Rightarrow> level list" where
  "take_best sp [] s = []"
| "take_best sp ((t, q) # rest) s =
     (if s \<le> 0 then (t, q) # rest
      else if q > s then (t, q - s) # rest
      else take_best sp rest (s - q))"

fun take_proceeds :: "(bn \<Rightarrow> bn) \<Rightarrow> level list \<Rightarrow> bn \<Rightarrow> bn" where
  "take_proceeds sp [] s = 0"
| "take_proceeds sp ((t, q) # rest) s =
     (if s \<le> 0 then 0
      else if q > s then s * sp t
      else q * sp t + take_proceeds sp rest (s - q))"

lemma getSharePrice_take:
  "getSharePrice (no_params\<lparr>marketMinPrice := Pr mn, marketMaxPrice := Pr mx,
      tradePrice := Some (Pr t)\<rparr>) pt = Inr (Pr (take_price mn mx pt t))"
  by (cases pt) (simp_all add: getSharePrice_def getTradePriceMinusMinPrice_def take_price_def)

text \<open>
  Refinement: on well-dimensioned entries \<open>takeBest\<close> never throws, and computes \<open>take_proceeds\<close>
  and, unless it is a dry run, \<open>take_best\<close>.
\<close>

lemma takeBest_refines:
  "\<exists>book'. takeBest (Pr mn) (Pr mx) pt dryRun (map lift_level book) (Tk p) (Sh s) =
      Inr (book', Tk (p + take_proceeds (take_price mn mx pt) book s)) \<and>
    (\<not> dryRun \<longrightarrow> book' = map lift_level (take_best (take_price mn mx pt) book s))"
proof (induction book arbitrary: p s)
  case Nil
  show ?case by (simp add: takeBest.simps)
next
  case (Cons l rest)
  obtain t q where l: "l = (t, q)" by (cases l)
  consider "s \<le> 0" | "0 < s" "s < q" | "0 < s" "q \<le> s" by linarith
  then show ?case
  proof cases
    case 1
    then show ?thesis by (simp add: l takeBest.simps)
  next
    case 2
    then show ?thesis
      by (simp add: l takeBest.simps [of "Pr mn" "Pr mx" pt dryRun "lift_level (t, q) # _"]
          getSharePrice_take)
  next
    case 3
    with Cons.IH [of "p + q * take_price mn mx pt t" "s - q"] show ?thesis
      by (simp add: l takeBest.simps [of "Pr mn" "Pr mx" pt dryRun "lift_level (t, q) # _"]
          getSharePrice_take add.assoc)
  qed
qed

definition lift_book :: "bn \<Rightarrow> bn \<Rightarrow> level list \<Rightarrow> level list \<Rightarrow> order_book" where
  "lift_book mn mx bids asks =
     makeOrderBook (Pr mn) (Pr mx) (map lift_level bids) (map lift_level asks)"

lemma lift_book_sel [simp]:
  "ob_marketMinPrice (lift_book mn mx bids asks) = Pr mn"
  "ob_marketMaxPrice (lift_book mn mx bids asks) = Pr mx"
  "ob_bids (lift_book mn mx bids asks) = map lift_level bids"
  "ob_asks (lift_book mn mx bids asks) = map lift_level asks"
  by (simp_all add: lift_book_def makeOrderBook_def)

lemma lift_book_upd [simp]:
  "lift_book mn mx bids asks\<lparr>ob_bids := map lift_level b\<rparr> = lift_book mn mx b asks"
  "lift_book mn mx bids asks\<lparr>ob_asks := map lift_level a\<rparr> = lift_book mn mx bids a"
  by (simp_all add: lift_book_def makeOrderBook_def)

lemma closeLongFillOnly_lift:
  "closeLongFillOnly (lift_book mn mx bids asks) (Sh s) dryRun =
    Inr (Tk (take_proceeds (take_price mn mx PosLong) bids s),
      lift_book mn mx (if dryRun then bids else take_best (take_price mn mx PosLong) bids s) asks)"
  using takeBest_refines [of mn mx PosLong dryRun bids 0 s]
  by (auto simp: closeLongFillOnly_def)

lemma closeShortFillOnly_lift:
  "closeShortFillOnly (lift_book mn mx bids asks) (Sh s) dryRun =
    Inr (Tk (take_proceeds (take_price mn mx PosShort) asks s),
      lift_book mn mx bids (if dryRun then asks else take_best (take_price mn mx PosShort) asks s))"
  using takeBest_refines [of mn mx PosShort dryRun asks 0 s]
  by (auto simp: closeShortFillOnly_def)

lemma closeLong_fee_lift:
  assumes "f \<noteq> 1"
  shows "closeLongFillOnlyWithFeeAdjustment dv (lift_book mn mx bids asks) (Sh s) (Pc f) dryRun =
    Inr (Tk (dv (take_proceeds (take_price mn mx PosLong) bids s) (1 - f)),
      lift_book mn mx (if dryRun then bids else take_best (take_price mn mx PosLong) bids s) asks)"
  using assms by (simp add: closeLongFillOnlyWithFeeAdjustment_def closeLongFillOnly_lift)

lemma closeShort_fee_lift:
  assumes "f \<noteq> -1"
  shows "closeShortFillOnlyWithFeeAdjustment dv (lift_book mn mx bids asks) (Sh s) (Pc f) dryRun =
    Inr (Tk (dv (take_proceeds (take_price mn mx PosShort) asks s) (1 + f)),
      lift_book mn mx bids (if dryRun then asks else take_best (take_price mn mx PosShort) asks s))"
proof -
  have "1 + f \<noteq> 0" using assms by (metis add_eq_0_iff add.commute)
  then show ?thesis by (simp add: closeShortFillOnlyWithFeeAdjustment_def closeShortFillOnly_lift)
qed

section \<open>Taking from a side of the book\<close>

definition levels_ok :: "level list \<Rightarrow> bool" where
  "levels_ok book \<longleftrightarrow> (\<forall>l \<in> set book. 0 \<le> snd l)"

definition total :: "level list \<Rightarrow> bn" where
  "total book = sum_list (map snd book)"

lemma levels_ok_simps [simp]:
  "levels_ok []" "levels_ok (l # book) \<longleftrightarrow> 0 \<le> snd l \<and> levels_ok book"
  by (auto simp: levels_ok_def)

lemma total_simps [simp]: "total [] = 0" "total (l # book) = snd l + total book"
  by (simp_all add: total_def)

lemma total_nonneg: "levels_ok book \<Longrightarrow> 0 \<le> total book"
  by (induction book) auto

lemma take_best_nonpos [simp]: "s \<le> 0 \<Longrightarrow> take_best sp book s = book"
  by (cases book) auto

lemma take_proceeds_nonpos [simp]: "s \<le> 0 \<Longrightarrow> take_proceeds sp book s = 0"
  by (cases book) auto

lemma take_best_ok: "levels_ok book \<Longrightarrow> levels_ok (take_best sp book s)"
  by (induction sp book s rule: take_best.induct) auto

text \<open>Quantities: what the taker did not get is still on the book.\<close>

lemma take_best_total:
  "levels_ok book \<Longrightarrow> 0 \<le> s \<Longrightarrow> total (take_best sp book s) = total book - min s (total book)"
proof (induction sp book s rule: take_best.induct)
  case (2 sp t q rest s)
  have rest: "0 \<le> total rest" using 2 by (auto intro: total_nonneg)
  show ?case
  proof (cases "s \<le> 0 \<or> q > s")
    case True
    with 2 rest show ?thesis by (auto simp: min_def)
  next
    case False
    with 2 show ?thesis by (auto simp: min_def)
  qed
qed simp

text \<open>The remaining entries are a final part of the old ones, at their old prices.\<close>

lemma take_best_prices: "\<exists>k. map fst (take_best sp book s) = drop k (map fst book)"
proof (induction sp book s rule: take_best.induct)
  case (2 sp t q rest s)
  show ?case
  proof (cases "s \<le> 0 \<or> q > s")
    case True
    then show ?thesis by (auto intro!: exI [of _ 0])
  next
    case False
    with 2 obtain k where "map fst (take_best sp rest (s - q)) = drop k (map fst rest)" by auto
    with False show ?thesis by (auto intro!: exI [of _ "Suc k"])
  qed
qed simp

lemma take_proceeds_nonneg:
  "levels_ok book \<Longrightarrow> \<forall>l \<in> set book. 0 \<le> sp (fst l) \<Longrightarrow> 0 \<le> take_proceeds sp book s"
  by (induction sp book s rule: take_proceeds.induct) auto

lemma take_proceeds_upper:
  assumes "levels_ok book" "0 \<le> s" "\<forall>l \<in> set book. sp (fst l) \<le> c" "0 \<le> c"
  shows "take_proceeds sp book s \<le> min s (total book) * c"
  using assms
proof (induction sp book s rule: take_proceeds.induct)
  case (2 sp t q rest s)
  have rest: "0 \<le> total rest" using 2 by (auto intro: total_nonneg)
  consider "s = 0" | "0 < s" "s < q" | "0 < s" "q \<le> s" using 2 by fastforce
  then show ?case
  proof cases
    case 1
    then show ?thesis using 2 rest by (auto simp: min_def)
  next
    case 2
    then have "s * sp t \<le> s * c" using "2.prems" by (intro mult_left_mono) auto
    with 2 rest show ?thesis by (simp add: min_def)
  next
    case 3
    have "q * sp t \<le> q * c" using "2.prems" by (intro mult_left_mono) auto
    moreover have "take_proceeds sp rest (s - q) \<le> min (s - q) (total rest) * c"
      using 3 "2.prems" by (intro "2.IH") auto
    moreover have "min s (q + total rest) = q + min (s - q) (total rest)" by (simp add: min_def)
    ultimately show ?thesis using 3 by (simp add: distrib_right)
  qed
qed simp

text \<open>Selling in two steps is selling at once.\<close>

lemma take_compose:
  "0 \<le> s1 \<Longrightarrow> 0 \<le> s2 \<Longrightarrow>
    take_best sp book (s1 + s2) = take_best sp (take_best sp book s1) s2 \<and>
    take_proceeds sp book (s1 + s2) =
      take_proceeds sp book s1 + take_proceeds sp (take_best sp book s1) s2"
proof (induction sp book s1 rule: take_best.induct)
  case (2 sp t q rest s1)
  consider "s1 = 0" | "0 < s1" "s1 < q" | "0 < s1" "q \<le> s1" using 2 by fastforce
  then show ?case
  proof cases
    case 1
    then show ?thesis by simp
  next
    case 2
    then show ?thesis using "2.prems" by (auto simp: algebra_simps)
  next
    case 3
    then have "take_best sp rest (s1 - q + s2) = take_best sp (take_best sp rest (s1 - q)) s2 \<and>
      take_proceeds sp rest (s1 - q + s2) = take_proceeds sp rest (s1 - q)
        + take_proceeds sp (take_best sp rest (s1 - q)) s2"
      using "2.prems" by (intro "2.IH") auto
    with 3 "2.prems" show ?thesis by (simp add: algebra_simps)
  qed
qed simp

text \<open>
  Optimality of taking from the front. \<open>fill book xs\<close>: a way to take \<open>xs ! i\<close> from entry \<open>i\<close>.
\<close>

fun fill_value :: "(bn \<Rightarrow> bn) \<Rightarrow> level list \<Rightarrow> bn list \<Rightarrow> bn" where
  "fill_value sp ((t, q) # rest) (x # xs) = x * sp t + fill_value sp rest xs"
| "fill_value sp _ _ = 0"

definition fill_ok :: "level list \<Rightarrow> bn list \<Rightarrow> bool" where
  "fill_ok book xs \<longleftrightarrow> list_all2 (\<lambda>l x. 0 \<le> x \<and> x \<le> snd l) book xs"

definition best_first :: "(bn \<Rightarrow> bn) \<Rightarrow> level list \<Rightarrow> bool" where
  "best_first sp book \<longleftrightarrow> sorted_wrt (\<lambda>a b. sp (fst b) \<le> sp (fst a)) book"

lemma take_proceeds_marginal:
  assumes "levels_ok book" "\<forall>l \<in> set book. sp (fst l) \<le> c" "0 \<le> c" "0 \<le> s" "0 \<le> x"
  shows "take_proceeds sp book (s + x) \<le> take_proceeds sp book s + x * c"
proof -
  let ?after = "take_best sp book s"
  have "fst ` set ?after \<subseteq> fst ` set book"
    using take_best_prices [of sp book s] by (metis set_drop_subset list.set_map)
  then have prices: "\<forall>l \<in> set ?after. sp (fst l) \<le> c" using assms(2) by (metis image_subset_iff imageE)
  have ok: "levels_ok ?after" by (rule take_best_ok [OF assms(1)])
  have "take_proceeds sp ?after x \<le> min x (total ?after) * c"
    by (rule take_proceeds_upper [OF ok assms(5) prices assms(3)])
  also have "\<dots> \<le> x * c" using assms(3) by (intro mult_right_mono) auto
  finally show ?thesis using take_compose [OF assms(4,5), of sp book] by simp
qed

lemma fill_sum_nonneg: "fill_ok book xs \<Longrightarrow> 0 \<le> sum_list xs"
  unfolding fill_ok_def by (induction rule: list_all2_induct) auto

lemma fill_value_le:
  "fill_ok book xs \<Longrightarrow> levels_ok book \<Longrightarrow> best_first sp book \<Longrightarrow>
    \<forall>l \<in> set book. 0 \<le> sp (fst l) \<Longrightarrow> fill_value sp book xs \<le> take_proceeds sp book (sum_list xs)"
proof (induction sp book xs rule: fill_value.induct)
  case (1 sp t q rest x xs)
  let ?s = "sum_list xs"
  have x: "0 \<le> x" "x \<le> q" and xs: "fill_ok rest xs" and s: "0 \<le> ?s" and ok: "levels_ok rest"
    and best: "\<forall>l \<in> set rest. sp (fst l) \<le> sp t" and p: "0 \<le> sp t"
    using "1.prems" fill_sum_nonneg [of rest xs] by (auto simp: fill_ok_def best_first_def)
  have IH: "fill_value sp rest xs \<le> take_proceeds sp rest ?s"
    using "1.prems" xs by (intro "1.IH") (auto simp: best_first_def)
  show ?case
  proof (cases "q > x + ?s")
    case True
    have "take_proceeds sp rest (0 + ?s) \<le> take_proceeds sp rest 0 + ?s * sp t"
      by (rule take_proceeds_marginal [OF ok best p]) (use s in auto)
    with True IH x s show ?thesis
      by (cases "x + ?s = 0") (auto simp: distrib_right add_nonneg_eq_0_iff)
  next
    case False
    have "take_proceeds sp rest ((x + ?s - q) + (q - x)) \<le>
        take_proceeds sp rest (x + ?s - q) + (q - x) * sp t"
      using False x by (intro take_proceeds_marginal [OF ok best p]) auto
    then have "fill_value sp rest xs \<le> take_proceeds sp rest (x + ?s - q) + (q - x) * sp t"
      using IH by simp
    moreover have "x = 0 \<and> q = 0" if "x + ?s \<le> 0"
      using that False x s by auto
    ultimately show ?thesis
      using False by (cases "x + ?s \<le> 0") (simp_all add: left_diff_distrib)
  qed
qed (auto simp: fill_ok_def)

section \<open>Properties of the order book\<close>

text \<open>
  C20. Selling a quantity into the bids in two steps leaves the same book and brings the same
  proceeds as selling it at once, so the incremental liquidity computation measures the order book
  and not its own step size; a dry run brings the same proceeds and leaves the book unchanged.
\<close>

theorem incremental_sale_equals_one_sale:
  assumes "0 \<le> s1" "0 \<le> s2"
  shows "\<exists>p1 p2 ob1 ob2.
    closeLongFillOnly (lift_book mn mx bids asks) (Sh s1) False = Inr (Tk p1, ob1) \<and>
    closeLongFillOnly ob1 (Sh s2) False = Inr (Tk p2, ob2) \<and>
    closeLongFillOnly (lift_book mn mx bids asks) (Sh (s1 + s2)) False = Inr (Tk (p1 + p2), ob2) \<and>
    closeLongFillOnly (lift_book mn mx bids asks) (Sh (s1 + s2)) True =
      Inr (Tk (p1 + p2), lift_book mn mx bids asks)"
  using take_compose [OF assms, of "take_price mn mx PosLong" bids]
  by (simp add: closeLongFillOnly_lift)

theorem incremental_sale_equals_one_sale_witness:
  "closeLongFillOnly (lift_book 0 1 [(6 / 10, 4), (5 / 10, 10)] []) (Sh 6) False =
    Inr (Tk (34 / 10), lift_book 0 1 [(5 / 10, 8)] [])"
  using incremental_sale_equals_one_sale [of 4 2 0 1 "[(6 / 10, 4), (5 / 10, 10)]" "[]"]
  by (simp add: closeLongFillOnly_lift take_price_def)

text \<open>
  Taking is optimal and bounded: with both sides sorted best price first and trade prices
  inside the market's range, the proceeds of closing a short position of \<open>\<Sum>xs\<close> shares are at least
  those of taking \<open>xs ! i\<close> shares from entry \<open>i\<close> in any other way, are not negative, and do not
  exceed the display range for every share available.
\<close>

theorem close_short_optimal:
  assumes "levels_ok asks" "fill_ok asks xs"
    "sorted (map fst asks)" "\<forall>l \<in> set asks. mn \<le> fst l \<and> fst l \<le> mx"
  shows "\<exists>p ob. closeShortFillOnly (lift_book mn mx bids asks) (Sh (sum_list xs)) False
      = Inr (Tk p, ob) \<and>
    fill_value (take_price mn mx PosShort) asks xs \<le> p \<and> 0 \<le> p \<and>
    p \<le> min (sum_list xs) (total asks) * (mx - mn)"
proof -
  let ?sp = "take_price mn mx PosShort"
  have nonneg: "\<forall>l \<in> set asks. 0 \<le> ?sp (fst l)"
    and upper: "\<forall>l \<in> set asks. ?sp (fst l) \<le> mx - mn"
    using assms(4) by (auto simp: take_price_def)
  have best: "best_first ?sp asks"
    using assms(3) by (simp add: best_first_def take_price_def sorted_map)
  have s: "0 \<le> sum_list xs" using assms(2) by (rule fill_sum_nonneg)
  have range: "0 \<le> mx - mn" if "asks \<noteq> []"
    using assms(4) that by (cases asks) auto
  have "take_proceeds ?sp asks (sum_list xs) \<le> min (sum_list xs) (total asks) * (mx - mn)"
  proof (cases "asks = []")
    case True
    then show ?thesis using s by simp
  next
    case False
    then show ?thesis by (rule take_proceeds_upper [OF assms(1) s upper range])
  qed
  then show ?thesis
    using fill_value_le [OF assms(2,1) best nonneg] take_proceeds_nonneg [OF assms(1) nonneg]
    by (simp add: closeShortFillOnly_lift)
qed

theorem close_short_optimal_witness:
  "\<exists>p ob. closeShortFillOnly (lift_book 0 1 [] [(6 / 10, 4), (7 / 10, 10)]) (Sh 5) False
      = Inr (Tk p, ob) \<and> 1 * (4 / 10) + 4 * (3 / 10) \<le> p \<and> p \<le> 5"
  using close_short_optimal [of "[(6 / 10, 4), (7 / 10, 10)]" "[1, 4]" 0 1 "[]"]
  by (auto simp: fill_ok_def take_price_def)

text \<open>
  Shares are conserved: after selling \<open>s\<close> shares, the bids hold what they held less the smaller
  of \<open>s\<close> and everything there was, no entry is negative, the remaining entries are a final part of
  the old ones at their old prices, and the asks are untouched.
\<close>

theorem close_long_conserves_shares:
  assumes "levels_ok bids" "0 \<le> s"
  shows "\<exists>p bids' k. closeLongFillOnly (lift_book mn mx bids asks) (Sh s) False
      = Inr (p, lift_book mn mx bids' asks) \<and>
    total bids' = total bids - min s (total bids) \<and> levels_ok bids' \<and>
    map fst bids' = drop k (map fst bids)"
proof -
  obtain k where "map fst (take_best (take_price mn mx PosLong) bids s) = drop k (map fst bids)"
    using take_best_prices by blast
  with take_best_total [OF assms] take_best_ok [OF assms(1)] show ?thesis
    by (auto simp: closeLongFillOnly_lift)
qed

theorem close_long_conserves_shares_witness:
  "\<exists>p bids' k. closeLongFillOnly (lift_book 0 1 [(6 / 10, 4), (5 / 10, 10)] []) (Sh 20) False
      = Inr (p, lift_book 0 1 bids' []) \<and> total bids' = 0 \<and> levels_ok bids' \<and>
    map fst bids' = drop k [6 / 10, 5 / 10]"
  using close_long_conserves_shares [of "[(6 / 10, 4), (5 / 10, 10)]" 20 0 1 "[]"] by simp

end
