(* ===== verification/Profit_Loss.thy ===== *)
theory Profit_Loss
  imports Database Simulated_Order_Book
begin

text \<open>
  \<open>src/blockchain/log-processors/profit-loss\<close>: the profit and loss time series of an account in an
  outcome of a market, its frozen funds, and the time series of outcome values.

  \<open>updateProfitLoss\<close> reads the last row of the account's series, applies the formulas of
  \<open>Financial_Math\<close> and appends the next row. The second half states that row over plain numbers
  and shows what the series maintains: the position is the sum of the deltas, the frozen funds are
  the cost basis of the open position, and claiming proceeds closes every position.
\<close>

section \<open>Frozen funds\<close>

datatype long_or_short = Long | Short
datatype creator_or_filler = Creator | Filler

record ff_trade =
  ff_minPrice :: bn
  ff_maxPrice :: bn
  ff_price :: bn
  ff_numCreatorTokens :: bn
  ff_numCreatorShares :: bn
  ff_numFillerTokens :: bn
  ff_numFillerShares :: bn
  ff_longOrShort :: long_or_short
  ff_creatorOrFiller :: creator_or_filler
  ff_realizedProfitDelta :: bn

datatype frozen_funds_event = ClaimProceeds | Trade ff_trade

definition getFrozenFundsAfterEventForOneOutcome :: "bn \<Rightarrow> frozen_funds_event \<Rightarrow> bn" where
  "getFrozenFundsAfterEventForOneOutcome frozenFundsBeforeEvent event =
     (case event of
        ClaimProceeds \<Rightarrow> 0
      | Trade trade \<Rightarrow>
          (let mySharesSent = (if ff_creatorOrFiller trade = Creator then ff_numCreatorShares trade
                               else ff_numFillerShares trade);
               priceReceivedForMySharesSent =
                 (if ff_longOrShort trade = Short then ff_price trade - ff_minPrice trade
                  else ff_maxPrice trade - ff_price trade);
               myTokensReceived = mySharesSent * priceReceivedForMySharesSent;
               myTokensSent = (if ff_creatorOrFiller trade = Creator then ff_numCreatorTokens trade
                               else ff_numFillerTokens trade)
           in frozenFundsBeforeEvent - myTokensReceived + myTokensSent
                + ff_realizedProfitDelta trade))"

definition makeFrozenFundsEvent ::
  "address \<Rightarrow> bn \<Rightarrow> bn \<Rightarrow> bn \<Rightarrow> trades_row option \<Rightarrow> frozen_funds_event result" where
  "makeFrozenFundsEvent account realizedProfitDelta mn mx tradeData =
     (case tradeData of
        None \<Rightarrow> Inr ClaimProceeds
      | Some td \<Rightarrow>
          (let mk = (\<lambda>side who. Trade \<lparr>ff_minPrice = mn, ff_maxPrice = mx, ff_price = td_price td,
                 ff_numCreatorTokens = td_numCreatorTokens td,
                 ff_numCreatorShares = td_numCreatorShares td,
                 ff_numFillerTokens = td_numFillerTokens td,
                 ff_numFillerShares = td_numFillerShares td,
                 ff_longOrShort = side, ff_creatorOrFiller = who,
                 ff_realizedProfitDelta = realizedProfitDelta\<rparr>)
           in if account = td_creator td
              then Inr (mk (if td_orderType td = ''buy'' then Long else Short) Creator)
              else if account = td_filler td
              then Inr (mk (if td_orderType td = ''buy'' then Short else Long) Filler)
              else Inl (Thrown ''makeFrozenFundsEvent'')))"

section \<open>The profit and loss series\<close>

text \<open>
  \<open>order by "blockNumber" desc, "logIndex" desc\<close>, first row. Among rows at the same position, which
  SQL leaves open, the model takes the one inserted first.
\<close>

definition latest_by :: "('r \<Rightarrow> chain_position) \<Rightarrow> 'r list \<Rightarrow> 'r option" where
  "latest_by pos rs = find (\<lambda>r. list_all (\<lambda>x. pos x \<le> pos r) rs) rs"

definition pl_pos :: "profit_loss_row \<Rightarrow> chain_position" where
  "pl_pos r = At (pl_blockNumber r) (pl_logIndex r)"

definition pl_series ::
  "address \<Rightarrow> address \<Rightarrow> int \<Rightarrow> profit_loss_row list \<Rightarrow> profit_loss_row list" where
  "pl_series account marketId outcome rs = filter (\<lambda>r. pl_account r = account \<and>
     pl_marketId r = marketId \<and> pl_outcome r = outcome) rs"

definition latestProfitLoss ::
  "address \<Rightarrow> address \<Rightarrow> int \<Rightarrow> profit_loss_row option action" where
  "latestProfitLoss account marketId outcome = gets (\<lambda>w. latest_by pl_pos
     (pl_series account marketId outcome (t_wcl_profit_loss_timeseries (tables w))))"

text \<open>The parameter object that \<open>updateProfitLoss\<close> passes to the formulas, without the price.\<close>

definition pl_params :: "profit_loss_row option \<Rightarrow> bn \<Rightarrow> bn \<Rightarrow> bn \<Rightarrow> fin_params" where
  "pl_params prevData mn mx positionDelta = no_params
     \<lparr>marketMinPrice := Pr mn, marketMaxPrice := Pr mx,
      netPosition := (case prevData of Some r \<Rightarrow> Sh (pl_position r) | None \<Rightarrow> Sh 0),
      averageTradePriceMinusMinPriceForOpenPosition :=
        (case prevData of Some r \<Rightarrow> Pr (pl_price r) | None \<Rightarrow> Pr 0),
      realizedCost := (case prevData of Some r \<Rightarrow> Tk (pl_realizedCost r) | None \<Rightarrow> Tk 0),
      realizedProfit := (case prevData of Some r \<Rightarrow> Tk (pl_profit r) | None \<Rightarrow> Tk 0),
      tradePositionDelta := Some (Sh positionDelta)\<rparr>"

definition updateProfitLoss ::
  "bn_division_op \<Rightarrow> address \<Rightarrow> bn \<Rightarrow> address \<Rightarrow> int \<Rightarrow> bn \<Rightarrow> bytes32 \<Rightarrow> int \<Rightarrow> int \<Rightarrow>
   trades_row option \<Rightarrow> unit action" where
  "updateProfitLoss dv marketId positionDelta account outcome tradePriceBN transactionHash
     blockNumber logIndex tradeData =
     (if positionDelta = 0 then return ()
      else bindA (gets getCurrentTime) (\<lambda>timestamp.
        bindA (bindA (first markets (\<lambda>m. mk_marketId m = marketId))
                 (orThrow (JsTypeError ''marketsRow is undefined''))) (\<lambda>marketsRow.
        bindA (latestProfitLoss account marketId outcome) (\<lambda>prevData.
        bindA (liftR (getTradePriceMinusMinPrice
                 ((pl_params prevData (mk_minPrice marketsRow) (mk_maxPrice marketsRow) positionDelta)
                    \<lparr>tradePrice := Some (Pr tradePriceBN)\<rparr>))) (\<lambda>tradePriceMMP.
        let p = (pl_params prevData (mk_minPrice marketsRow) (mk_maxPrice marketsRow) positionDelta)
                  \<lparr>tradePriceMinusMinPrice := Some tradePriceMMP\<rparr> in
        bindA (liftR (getTradeQuantityOpened p)) (\<lambda>opened.
        bindA (liftR (getNextNetPosition p)) (\<lambda>nextNetPosition.
        bindA (liftR (getNextRealizedProfit p)) (\<lambda>nextRealizedProfit.
        bindA (liftR (getNextRealizedCost p)) (\<lambda>nextRealizedCost.
        bindA (liftR (getNextAverageTradePriceMinusMinPriceForOpenPosition dv p)) (\<lambda>nextAverage.
        bindA (liftR (getTradeRealizedProfitDelta p)) (\<lambda>realizedProfitDelta.
        bindA (liftR (makeFrozenFundsEvent account (magnitude realizedProfitDelta)
                 (mk_minPrice marketsRow) (mk_maxPrice marketsRow) tradeData)) (\<lambda>event.
        insertInto wcl_profit_loss_timeseries
          \<lparr>pl_account = account, pl_marketId = marketId, pl_outcome = outcome,
           pl_price = magnitude nextAverage, pl_position = magnitude nextNetPosition,
           pl_quantityOpened = magnitude opened, pl_profit = magnitude nextRealizedProfit,
           pl_frozenFunds = getFrozenFundsAfterEventForOneOutcome
             (case prevData of Some r \<Rightarrow> pl_frozenFunds r | None \<Rightarrow> 0) event,
           pl_realizedCost = magnitude nextRealizedCost, pl_transactionHash = transactionHash,
           pl_timestamp = timestamp, pl_blockNumber = blockNumber,
           pl_logIndex = logIndex\<rparr>))))))))))))"

definition updateProfitLossRemoveRow :: "bytes32 \<Rightarrow> unit action" where
  "updateProfitLossRemoveRow transactionHash =
     delete wcl_profit_loss_timeseries (\<lambda>r. pl_transactionHash r = transactionHash)"

text \<open>
  The payout row joined with its market; of several payout rows of a market, the first.
  \<open>payoutValues\<close>: the numerators that are present, as values per share.
\<close>

definition payoutAndMarket :: "address \<Rightarrow> (payouts_row \<times> markets_row) action" where
  "payoutAndMarket marketId =
     bindA (first payouts (\<lambda>p. po_marketId p = marketId)) (\<lambda>p.
     bindA (first markets (\<lambda>m. mk_marketId m = marketId)) (\<lambda>m.
       case (p, m) of
         (Some p', Some m') \<Rightarrow> return (p', m')
       | _ \<Rightarrow> throw (JsTypeError ''payouts is undefined'')))"

definition payoutValue :: "bn_division_op \<Rightarrow> markets_row \<Rightarrow> bn \<Rightarrow> bn" where
  "payoutValue dv m payout =
     payout * numTicksToTickSize dv (mk_numTicks m) (mk_minPrice m) (mk_maxPrice m) + mk_minPrice m"

definition payoutValues :: "bn_division_op \<Rightarrow> markets_row \<Rightarrow> payouts_row \<Rightarrow> bn list" where
  "payoutValues dv m p = map (payoutValue dv m) (List.map_filter (\<lambda>x. x) (po_payouts p))"

definition claimOutcome ::
  "bn_division_op \<Rightarrow> address \<Rightarrow> address \<Rightarrow> bytes32 \<Rightarrow> int \<Rightarrow> int \<Rightarrow> bn \<Rightarrow> bn list \<Rightarrow> nat \<Rightarrow>
   unit action" where
  "claimOutcome dv marketId account transactionHash blockNumber logIndex totalPayout outcomeValues
     outcome =
     bindA (latestProfitLoss account marketId (int outcome)) (\<lambda>lastData.
     let lastPosition = (case lastData of Some r \<Rightarrow> pl_position r | None \<Rightarrow> 0) in
     if lastPosition = 0 then return ()
     else if outcome < length outcomeValues then
       updateProfitLoss dv marketId (- lastPosition) account (int outcome)
         (if lastPosition < 0 then totalPayout - outcomeValues ! outcome
          else outcomeValues ! outcome)
         transactionHash blockNumber logIndex None
     else if lastPosition < 0 then throw (Thrown ''expected BigNumber.s to be -1 or 1'')
     else throw (JsTypeError ''magnitude is undefined''))"

definition updateProfitLossClaimProceeds ::
  "bn_division_op \<Rightarrow> address \<Rightarrow> address \<Rightarrow> bytes32 \<Rightarrow> int \<Rightarrow> int \<Rightarrow> unit action" where
  "updateProfitLossClaimProceeds dv marketId account transactionHash blockNumber logIndex =
     bindA (payoutAndMarket marketId) (\<lambda>(p, m).
     let outcomeValues = payoutValues dv m p in
     forA [0..<Suc (length outcomeValues)]
       (claimOutcome dv marketId account transactionHash blockNumber logIndex
          (sum_list outcomeValues) outcomeValues))"

section \<open>Outcome values\<close>

definition updateOutcomeValueFromOrders ::
  "address \<Rightarrow> int \<Rightarrow> bytes32 \<Rightarrow> int \<Rightarrow> int \<Rightarrow> bn \<Rightarrow> unit action" where
  "updateOutcomeValueFromOrders marketId outcome transactionHash blockNumber logIndex value =
     bindA (gets getCurrentTime) (\<lambda>timestamp.
     insertInto outcome_value_timeseries
       \<lparr>ov_marketId = marketId, ov_outcome = outcome, ov_transactionHash = transactionHash,
        ov_value = value, ov_timestamp = timestamp, ov_blockNumber = blockNumber,
        ov_logIndex = logIndex\<rparr>)"

text \<open>Here the outcome is the column number, and absent numerators are skipped.\<close>

definition updateOutcomeValuesFromFinalization ::
  "bn_division_op \<Rightarrow> address \<Rightarrow> bytes32 \<Rightarrow> int \<Rightarrow> int \<Rightarrow> unit action" where
  "updateOutcomeValuesFromFinalization dv marketId transactionHash blockNumber logIndex =
     bindA (payoutAndMarket marketId) (\<lambda>(p, m).
     bindA (gets getCurrentTime) (\<lambda>timestamp.
     forA (List.map_filter (\<lambda>(i, payout). map_option (\<lambda>x.
             \<lparr>ov_marketId = marketId, ov_outcome = int i, ov_transactionHash = transactionHash,
              ov_value = payoutValue dv m x, ov_timestamp = timestamp,
              ov_blockNumber = blockNumber, ov_logIndex = logIndex\<rparr>) payout)
           (zip [0..<8] (po_payouts p)))
       (insertInto outcome_value_timeseries)))"

definition removeOutcomeValue :: "bytes32 \<Rightarrow> unit action" where
  "removeOutcomeValue transactionHash =
     delete outcome_value_timeseries (\<lambda>r. ov_transactionHash r = transactionHash)"

section \<open>The next row over plain numbers\<close>

definition prev_position :: "profit_loss_row option \<Rightarrow> bn" where
  "prev_position prev = (case prev of Some r \<Rightarrow> pl_position r | None \<Rightarrow> 0)"

definition prev_price :: "profit_loss_row option \<Rightarrow> bn" where
  "prev_price prev = (case prev of Some r \<Rightarrow> pl_price r | None \<Rightarrow> 0)"

definition prev_profit :: "profit_loss_row option \<Rightarrow> bn" where
  "prev_profit prev = (case prev of Some r \<Rightarrow> pl_profit r | None \<Rightarrow> 0)"

definition prev_cost :: "profit_loss_row option \<Rightarrow> bn" where
  "prev_cost prev = (case prev of Some r \<Rightarrow> pl_realizedCost r | None \<Rightarrow> 0)"

definition prev_frozen :: "profit_loss_row option \<Rightarrow> bn" where
  "prev_frozen prev = (case prev of Some r \<Rightarrow> pl_frozenFunds r | None \<Rightarrow> 0)"

lemma prev_simps [simp]:
  "prev_position None = 0" "prev_price None = 0" "prev_profit None = 0" "prev_cost None = 0"
  "prev_frozen None = 0"
  "prev_position (Some r) = pl_position r" "prev_price (Some r) = pl_price r"
  "prev_profit (Some r) = pl_profit r" "prev_cost (Some r) = pl_realizedCost r"
  "prev_frozen (Some r) = pl_frozenFunds r"
  by (simp_all add: prev_position_def prev_price_def prev_profit_def prev_cost_def prev_frozen_def)

text \<open>\<open>d\<close>: the position delta, \<open>t\<close>: the trade price less the market's minimum.\<close>

definition next_row ::
  "bn_division_op \<Rightarrow> profit_loss_row option \<Rightarrow> bn \<Rightarrow> bn \<Rightarrow> bn \<Rightarrow> bn \<Rightarrow> frozen_funds_event \<Rightarrow> address \<Rightarrow>
   address \<Rightarrow> int \<Rightarrow> bytes32 \<Rightarrow> int \<Rightarrow> int \<Rightarrow> int \<Rightarrow> profit_loss_row" where
  "next_row dv prev mn mx d t event account marketId outcome transactionHash timestamp blockNumber
     logIndex =
     (let n = prev_position prev; a = prev_price prev in
      \<lparr>pl_account = account, pl_marketId = marketId, pl_outcome = outcome,
       pl_price = next_average dv n a d t, pl_position = n + d,
       pl_quantityOpened = qty_opened n d,
       pl_profit = prev_profit prev + realized_profit_delta mn mx n a d t,
       pl_frozenFunds = getFrozenFundsAfterEventForOneOutcome (prev_frozen prev) event,
       pl_realizedCost = prev_cost prev + realized_cost_delta mn mx n a d,
       pl_transactionHash = transactionHash, pl_timestamp = timestamp,
       pl_blockNumber = blockNumber, pl_logIndex = logIndex\<rparr>)"

definition pl_vals :: "profit_loss_row option \<Rightarrow> bn \<Rightarrow> bn \<Rightarrow> bn \<Rightarrow> bn \<Rightarrow> vals" where
  "pl_vals prev mn mx d t = \<lparr>
     vNet = prev_position prev, vAvg = prev_price prev, vUnrealizedCost = None,
     vUnrealizedProfit = None, vRealizedCost = prev_cost prev, vRealizedProfit = prev_profit prev,
     vTotalCost = None, vTotalProfit = None, vDelta = Some d, vSide = Buy, vQuantity = 0,
     vTradePrice = None, vTradePriceMMP = Some t, vLastPriceMMP = 0, vMin = mn, vMax = mx,
     vReporterFees = 0, vCreatorFees = 0, vReporterFeeRate = 0, vCreatorFeeRate = 0\<rparr>"

lemma pl_params_lift:
  "(pl_params prev mn mx d)\<lparr>tradePriceMinusMinPrice := Some (Pr t)\<rparr> = lift (pl_vals prev mn mx d t)"
  by (cases prev) (simp_all add: pl_params_def no_params_def lift_def pl_vals_def)

lemma pl_params_trade_price:
  "getTradePriceMinusMinPrice ((pl_params prev mn mx d)\<lparr>tradePrice := Some (Pr x)\<rparr>) =
    Inr (Pr (x - mn))"
  by (simp add: getTradePriceMinusMinPrice_def pl_params_def)

lemma pl_vals_sel [simp]:
  "vDelta (pl_vals prev mn mx d t) = Some d"
  "vTradePriceMMP (pl_vals prev mn mx d t) = Some t"
  "vTradePrice (pl_vals prev mn mx d t) = None"
  "vNet (pl_vals prev mn mx d t) = prev_position prev"
  "vAvg (pl_vals prev mn mx d t) = prev_price prev"
  "vRealizedCost (pl_vals prev mn mx d t) = prev_cost prev"
  "vRealizedProfit (pl_vals prev mn mx d t) = prev_profit prev"
  "vMin (pl_vals prev mn mx d t) = mn"
  "vMax (pl_vals prev mn mx d t) = mx"
  by (simp_all add: pl_vals_def)

definition latest_row :: "address \<Rightarrow> address \<Rightarrow> int \<Rightarrow> world \<Rightarrow> profit_loss_row option" where
  "latest_row account marketId outcome w = latest_by pl_pos
     (pl_series account marketId outcome (t_wcl_profit_loss_timeseries (tables w)))"

lemma latestProfitLoss_app [act_simps]:
  "bindA (latestProfitLoss account marketId outcome) f w = f (latest_row account marketId outcome w) w"
  by (simp add: latestProfitLoss_def latest_row_def bindA_gets)

text \<open>
  The formulas never throw here: with the market's row present, an update appends \<open>next_row\<close>, or
  fails because the account is on neither side of the trade.
\<close>

lemma updateProfitLoss_run:
  assumes "d \<noteq> 0" "find (\<lambda>m. mk_marketId m = marketId) (t_markets (tables w)) = Some m"
  shows "updateProfitLoss dv marketId d account outcome tp tx bnum li td w =
    (case makeFrozenFundsEvent account
        (realized_profit_delta (mk_minPrice m) (mk_maxPrice m)
           (prev_position (latest_row account marketId outcome w))
           (prev_price (latest_row account marketId outcome w)) d (tp - mk_minPrice m))
        (mk_minPrice m) (mk_maxPrice m) td of
       Inl e \<Rightarrow> (Inl e, w)
     | Inr event \<Rightarrow> insertInto wcl_profit_loss_timeseries
         (next_row dv (latest_row account marketId outcome w) (mk_minPrice m) (mk_maxPrice m) d
            (tp - mk_minPrice m) event account marketId outcome tx (getCurrentTime w) bnum li) w)"
  using assms
  by (simp add: updateProfitLoss_def act_simps table_simps bindA_assoc pl_params_trade_price
      pl_params_lift Let_def next_row_def prev_frozen_def [symmetric] split: sum.split)

lemma updateProfitLoss_zero [simp]:
  "updateProfitLoss dv marketId 0 account outcome tp tx bnum li td = return ()"
  by (simp add: updateProfitLoss_def)

section \<open>The series grows at its end\<close>

lemma latest_by_append:
  assumes "\<And>x. x \<in> set rs \<Longrightarrow> pos x < pos r"
  shows "latest_by pos (rs @ [r]) = Some r"
proof -
  have "find (\<lambda>y. list_all (\<lambda>x. pos x \<le> pos y) (rs @ [r])) rs = None"
    using assms by (auto simp: find_None_iff list_all_iff not_le)
  moreover have "list_all (\<lambda>x. pos x \<le> pos r) (rs @ [r])"
    using assms by (auto simp: list_all_iff less_imp_le)
  ultimately show ?thesis by (simp add: latest_by_def find_append)
qed

definition with_row :: "profit_loss_row \<Rightarrow> world \<Rightarrow> world" where
  "with_row r w = w\<lparr>tables := (tables w)\<lparr>t_wcl_profit_loss_timeseries :=
     t_wcl_profit_loss_timeseries (tables w) @ [r]\<rparr>\<rparr>"

lemma with_row_sel [simp]:
  "t_wcl_profit_loss_timeseries (tables (with_row r w)) = t_wcl_profit_loss_timeseries (tables w) @ [r]"
  "t_markets (tables (with_row r w)) = t_markets (tables w)"
  "t_payouts (tables (with_row r w)) = t_payouts (tables w)"
  "getCurrentTime (with_row r w) = getCurrentTime w"
  by (simp_all add: with_row_def getCurrentTime_def getOverrideTimestamp_def)

lemma insert_pl:
  "insertInto wcl_profit_loss_timeseries r w =
    (if 0 \<le> pl_price r then (Inr (), with_row r w)
     else (Inl (CheckViolation ''wcl_profit_loss_timeseries''), w))"
proof -
  have "\<not> list_ex (\<lambda>x. tclash wcl_profit_loss_timeseries x r) rs" for rs
    by (simp add: wcl_profit_loss_timeseries_def list_ex_iff)
  then show ?thesis
    by (simp add: insertInto_def with_row_def) (simp add: wcl_profit_loss_timeseries_def)
qed

text \<open>All rows of the account in the outcome lie before the given position.\<close>

definition before ::
  "int \<Rightarrow> int \<Rightarrow> address \<Rightarrow> address \<Rightarrow> int \<Rightarrow> world \<Rightarrow> bool" where
  "before bnum li account marketId outcome w \<longleftrightarrow>
     (\<forall>r \<in> set (pl_series account marketId outcome (t_wcl_profit_loss_timeseries (tables w))).
        pl_pos r < At bnum li)"

lemma latest_row_with_row:
  "pl_account r = account \<Longrightarrow> pl_marketId r = marketId \<Longrightarrow> pl_outcome r = outcome \<Longrightarrow>
    before (pl_blockNumber r) (pl_logIndex r) account marketId outcome w \<Longrightarrow>
    latest_row account marketId outcome (with_row r w) = Some r"
  unfolding latest_row_def before_def
  using latest_by_append [of "pl_series account marketId outcome
      (t_wcl_profit_loss_timeseries (tables w))" pl_pos r]
  by (simp add: pl_series_def pl_pos_def)

lemma latest_row_with_row_other:
  "\<not> (pl_account r = account \<and> pl_marketId r = marketId \<and> pl_outcome r = outcome) \<Longrightarrow>
    latest_row account marketId outcome (with_row r w) = latest_row account marketId outcome w"
  by (auto simp: latest_row_def pl_series_def)

lemma before_with_row:
  "before bnum li account marketId outcome (with_row r w) \<longleftrightarrow>
    before bnum li account marketId outcome w \<and>
    (pl_account r = account \<and> pl_marketId r = marketId \<and> pl_outcome r = outcome \<longrightarrow>
      pl_pos r < At bnum li)"
  by (auto simp: before_def pl_series_def)

lemma next_row_sel [simp]:
  "pl_account (next_row dv prev mn mx d t ev account marketId outcome tx ts bnum li) = account"
  "pl_marketId (next_row dv prev mn mx d t ev account marketId outcome tx ts bnum li) = marketId"
  "pl_outcome (next_row dv prev mn mx d t ev account marketId outcome tx ts bnum li) = outcome"
  "pl_blockNumber (next_row dv prev mn mx d t ev account marketId outcome tx ts bnum li) = bnum"
  "pl_logIndex (next_row dv prev mn mx d t ev account marketId outcome tx ts bnum li) = li"
  "pl_position (next_row dv prev mn mx d t ev account marketId outcome tx ts bnum li) =
     prev_position prev + d"
  "pl_price (next_row dv prev mn mx d t ev account marketId outcome tx ts bnum li) =
     next_average dv (prev_position prev) (prev_price prev) d t"
  "pl_profit (next_row dv prev mn mx d t ev account marketId outcome tx ts bnum li) =
     prev_profit prev + realized_profit_delta mn mx (prev_position prev) (prev_price prev) d t"
  "pl_frozenFunds (next_row dv prev mn mx d t ev account marketId outcome tx ts bnum li) =
     getFrozenFundsAfterEventForOneOutcome (prev_frozen prev) ev"
  by (simp_all add: next_row_def Let_def)

text \<open>One update, when it returns.\<close>

lemma updateProfitLoss_step:
  assumes "find (\<lambda>m. mk_marketId m = marketId) (t_markets (tables w)) = Some m"
    "before bnum li account marketId outcome w"
    "updateProfitLoss dv marketId d account outcome tp tx bnum li td w = (Inr (), w')"
  shows "prev_position (latest_row account marketId outcome w') =
      prev_position (latest_row account marketId outcome w) + d"
    and "t_markets (tables w') = t_markets (tables w)"
    and "d \<noteq> 0 \<Longrightarrow> \<exists>event. makeFrozenFundsEvent account
          (realized_profit_delta (mk_minPrice m) (mk_maxPrice m)
             (prev_position (latest_row account marketId outcome w))
             (prev_price (latest_row account marketId outcome w)) d (tp - mk_minPrice m))
          (mk_minPrice m) (mk_maxPrice m) td = Inr event \<and>
        w' = with_row (next_row dv (latest_row account marketId outcome w) (mk_minPrice m)
            (mk_maxPrice m) d (tp - mk_minPrice m) event account marketId outcome tx
            (getCurrentTime w) bnum li) w"
proof -
  show step: "\<exists>event. makeFrozenFundsEvent account
          (realized_profit_delta (mk_minPrice m) (mk_maxPrice m)
             (prev_position (latest_row account marketId outcome w))
             (prev_price (latest_row account marketId outcome w)) d (tp - mk_minPrice m))
          (mk_minPrice m) (mk_maxPrice m) td = Inr event \<and>
        w' = with_row (next_row dv (latest_row account marketId outcome w) (mk_minPrice m)
            (mk_maxPrice m) d (tp - mk_minPrice m) event account marketId outcome tx
            (getCurrentTime w) bnum li) w" if "d \<noteq> 0"
    using assms(3) unfolding updateProfitLoss_run [OF that assms(1)]
    by (auto simp: insert_pl split: sum.splits if_splits)
  show "prev_position (latest_row account marketId outcome w') =
      prev_position (latest_row account marketId outcome w) + d"
  proof (cases "d = 0")
    case True
    then show ?thesis using assms(3) by (simp add: return_app)
  next
    case False
    from step [OF False] obtain event where w': "w' = with_row (next_row dv
        (latest_row account marketId outcome w) (mk_minPrice m)
        (mk_maxPrice m) d (tp - mk_minPrice m) event account marketId outcome tx
        (getCurrentTime w) bnum li) w" by blast
    then show ?thesis using latest_row_with_row [of _ account marketId outcome w] assms(2) by simp
  qed
  show "t_markets (tables w') = t_markets (tables w)"
    using step assms(3) by (cases "d = 0") (auto simp: return_app)
qed

section \<open>Properties of the series\<close>

text \<open>One entry of a run of updates: delta, price, transaction, block, log index, trade.\<close>

type_synonym pl_update = "bn \<times> bn \<times> bytes32 \<times> int \<times> int \<times> trades_row option"

definition upd_pos :: "pl_update \<Rightarrow> chain_position" where
  "upd_pos u = (case u of (d, tp, tx, bnum, li, td) \<Rightarrow> At bnum li)"

definition run_update ::
  "bn_division_op \<Rightarrow> address \<Rightarrow> address \<Rightarrow> int \<Rightarrow> pl_update \<Rightarrow> unit action" where
  "run_update dv marketId account outcome u = (case u of (d, tp, tx, bnum, li, td) \<Rightarrow>
     updateProfitLoss dv marketId d account outcome tp tx bnum li td)"

lemma run_update_step:
  assumes "find (\<lambda>m. mk_marketId m = marketId) (t_markets (tables w)) = Some m"
    "before (pos_block (upd_pos u)) (pos_log (upd_pos u)) account marketId outcome w"
    "run_update dv marketId account outcome u w = (Inr (), w')"
  shows "prev_position (latest_row account marketId outcome w') =
      prev_position (latest_row account marketId outcome w) + fst u"
    "find (\<lambda>m. mk_marketId m = marketId) (t_markets (tables w')) = Some m"
    "before bnum li account marketId outcome w \<Longrightarrow> upd_pos u < At bnum li \<Longrightarrow>
      before bnum li account marketId outcome w'"
proof -
  obtain d tp tx b l td where u: "u = (d, tp, tx, b, l, td)" by (cases u)
  have upd: "updateProfitLoss dv marketId d account outcome tp tx b l td w = (Inr (), w')"
    and bef: "before b l account marketId outcome w"
    using assms(2,3) by (simp_all add: u run_update_def upd_pos_def)
  note step = updateProfitLoss_step [OF assms(1) bef upd]
  show "prev_position (latest_row account marketId outcome w') =
      prev_position (latest_row account marketId outcome w) + fst u"
    using step(1) by (simp add: u)
  show "find (\<lambda>m. mk_marketId m = marketId) (t_markets (tables w')) = Some m"
    using step(2) assms(1) by simp
  show "before bnum li account marketId outcome w'"
    if "before bnum li account marketId outcome w" "upd_pos u < At bnum li"
  proof (cases "d = 0")
    case True
    then show ?thesis using upd that(1) by (simp add: return_app)
  next
    case False
    then show ?thesis
      using step(3) that by (auto simp: before_with_row u upd_pos_def pl_pos_def)
  qed
qed

text \<open>
  C7. The position of an account in an outcome is the sum of its trades: a run of updates at
  increasing positions on the chain, all after the rows already stored, ends with a latest row
  whose position is the previous position plus the sum of all deltas.
\<close>

theorem position_is_sum_of_deltas:
  assumes "find (\<lambda>m. mk_marketId m = marketId) (t_markets (tables w)) = Some m"
    "sorted_wrt (<) (map upd_pos us)"
    "\<forall>u \<in> set us. before (pos_block (upd_pos u)) (pos_log (upd_pos u)) account marketId outcome w"
    "forA us (run_update dv marketId account outcome) w = (Inr (), w')"
  shows "prev_position (latest_row account marketId outcome w') =
    prev_position (latest_row account marketId outcome w) + sum_list (map fst us)"
  using assms
proof (induction us arbitrary: w)
  case (Cons u us)
  obtain w1 where w1: "run_update dv marketId account outcome u w = (Inr (), w1)"
    and rest: "forA us (run_update dv marketId account outcome) w1 = (Inr (), w')"
    using Cons.prems(4) by (auto simp: thenA_eq_Inr)
  have bef: "before (pos_block (upd_pos u)) (pos_log (upd_pos u)) account marketId outcome w"
    using Cons.prems(3) by simp
  note step = run_update_step [OF Cons.prems(1) bef w1]
  have "before (pos_block (upd_pos v)) (pos_log (upd_pos v)) account marketId outcome w1"
    if "v \<in> set us" for v
    using that Cons.prems(2,3) step(3) [of "pos_block (upd_pos v)" "pos_log (upd_pos v)"] by simp
  then show ?case
    using Cons.IH [OF step(2) _ _ rest] Cons.prems(2) step(1) by simp
qed (simp add: return_app)

text \<open>A world that knows only the sample market.\<close>

definition market_world :: world where
  "market_world = empty_world\<lparr>tables := empty_db\<lparr>t_markets := [sample_market]\<rparr>\<rparr>"

lemma market_world_sel [simp]:
  "t_markets (tables market_world) = [sample_market]"
  "t_wcl_profit_loss_timeseries (tables market_world) = []"
  "mk_marketId sample_market = ''m''" "mk_minPrice sample_market = 0"
  "mk_maxPrice sample_market = 1"
  by (simp_all add: market_world_def sample_simps)

lemma market_world_series [simp]:
  "latest_row account marketId outcome market_world = None"
  "before bnum li account marketId outcome market_world"
  by (simp_all add: latest_row_def before_def pl_series_def latest_by_def)

theorem position_is_sum_of_deltas_witness:
  "\<exists>w'. forA [(5, 4 / 10, ''t1'', 1, 0, None), (- 2, 5 / 10, ''t2'', 1, 3, None)]
      (run_update bn_div ''m'' ''alice'' 1) market_world = (Inr (), w') \<and>
    prev_position (latest_row ''alice'' ''m'' 1 w') = 3"
proof -
  let ?us = "[(5, 4 / 10, ''t1'', 1, 0, None), (- 2, 5 / 10, ''t2'', 1, 3, None)] :: pl_update list"
  have "0 \<le> bn_div 2 5" by (rule bn.dv_nonneg) simp_all
  then have "\<exists>w'. forA ?us (run_update bn_div ''m'' ''alice'' 1) market_world = (Inr (), w')"
    by (simp add: run_update_def thenA_def bindA_def updateProfitLoss_run makeFrozenFundsEvent_def
        insert_pl latest_row_with_row next_average_def same_side_def qty_opened_def return_def)
  then obtain w' where run: "forA ?us (run_update bn_div ''m'' ''alice'' 1) market_world
      = (Inr (), w')" by blast
  have "prev_position (latest_row ''alice'' ''m'' 1 w') = 3"
    using position_is_sum_of_deltas [OF _ _ _ run, of sample_market]
    by (simp add: upd_pos_def less_chain_position_def)
  with run show ?thesis by blast
qed

text \<open>
  A trade that moves what its matching says: the account sends shares for the part that closes its
  position, and tokens, at its share price, for the part that opens one.
\<close>

definition cost_of_open :: "bn \<Rightarrow> bn \<Rightarrow> profit_loss_row option \<Rightarrow> bn" where
  "cost_of_open mn mx prev = position_value mn mx (prev_position prev) (prev_price prev)"

definition fair_trade ::
  "bn \<Rightarrow> bn \<Rightarrow> profit_loss_row option \<Rightarrow> bn \<Rightarrow> bn \<Rightarrow> address \<Rightarrow> trades_row \<Rightarrow> bool" where
  "fair_trade mn mx prev d t account td \<longleftrightarrow>
     (let sharesSent = qty_closed (prev_position prev) d;
          tokensSent = qty_opened (prev_position prev) d *
            share_price mn mx (pos_type (prev_position prev + d)) t
      in td_price td = t + mn \<and>
         (account = td_creator td \<and> (td_orderType td = ''buy'' \<longleftrightarrow> 0 < d) \<and>
            td_numCreatorShares td = sharesSent \<and> td_numCreatorTokens td = tokensSent \<or>
          account \<noteq> td_creator td \<and> account = td_filler td \<and> (td_orderType td = ''buy'' \<longleftrightarrow> d < 0) \<and>
            td_numFillerShares td = sharesSent \<and> td_numFillerTokens td = tokensSent))"

lemma frozen_after_fair_trade:
  assumes "d \<noteq> 0" "fair_trade mn mx prev d t account td"
    "makeFrozenFundsEvent account rp mn mx (Some td) = Inr event"
    "rp = realized_profit_delta mn mx (prev_position prev) (prev_price prev) d t"
  shows "getFrozenFundsAfterEventForOneOutcome fz event =
    fz - realized_cost_delta mn mx (prev_position prev) (prev_price prev) d +
    qty_opened (prev_position prev) d * share_price mn mx (pos_type (prev_position prev + d)) t"
proof -
  let ?n = "prev_position prev"
  have received: "qty_closed ?n d * (if d < 0 then t else mx - (mn + t)) =
      share_price mn mx (pos_type ?n) t * qty_closed ?n d"
    using assms(1) by (auto simp: qty_closed_def same_side_def pos_type_def share_price_def)
  have "getFrozenFundsAfterEventForOneOutcome fz event =
      fz - qty_closed ?n d * (if d < 0 then t else mx - (mn + t)) +
      qty_opened ?n d * share_price mn mx (pos_type (?n + d)) t + rp"
    using assms(1-3)
    by (auto simp: fair_trade_def makeFrozenFundsEvent_def Let_def
        getFrozenFundsAfterEventForOneOutcome_def add.commute split: if_splits)
  then show ?thesis
    unfolding received assms(4) realized_profit_delta_def by simp
qed

text \<open>
  Frozen funds are the cost basis of the open position for fair trades: if a trade moves what its matching
  says (\<open>fair_trade\<close>), the difference between the account's frozen funds and the cost of its open position does
  not grow, up to the rounding of the average price. Trades that send tokens while closing a position, as some
  in the unit tests of the frozen funds do, are not fair in this sense.
\<close>

theorem frozen_funds_are_cost_basis:
  assumes "bn_division dv" "d \<noteq> 0"
    "find (\<lambda>m. mk_marketId m = marketId) (t_markets (tables w)) = Some m"
    "before bnum li account marketId outcome w"
    "fair_trade (mk_minPrice m) (mk_maxPrice m) (latest_row account marketId outcome w) d
       (tp - mk_minPrice m) account td"
    "updateProfitLoss dv marketId d account outcome tp tx bnum li (Some td) w = (Inr (), w')"
  shows "\<bar>prev_frozen (latest_row account marketId outcome w')
      - cost_of_open (mk_minPrice m) (mk_maxPrice m) (latest_row account marketId outcome w')\<bar> \<le>
    \<bar>prev_frozen (latest_row account marketId outcome w)
      - cost_of_open (mk_minPrice m) (mk_maxPrice m) (latest_row account marketId outcome w)\<bar>
    + \<bar>prev_position (latest_row account marketId outcome w')\<bar> / (2 * 10 ^ 20)"
proof -
  let ?prev = "latest_row account marketId outcome w"
  let ?mn = "mk_minPrice m" and ?mx = "mk_maxPrice m" and ?t = "tp - mk_minPrice m"
  obtain event where ev: "makeFrozenFundsEvent account (realized_profit_delta ?mn ?mx
        (prev_position ?prev) (prev_price ?prev) d ?t) ?mn ?mx (Some td) = Inr event"
    and w': "w' = with_row (next_row dv ?prev ?mn ?mx d ?t event account marketId outcome tx
        (getCurrentTime w) bnum li) w"
    using updateProfitLoss_step(3) [OF assms(3,4,6,2)] by blast
  have latest: "latest_row account marketId outcome w' = Some (next_row dv ?prev ?mn ?mx d ?t event
      account marketId outcome tx (getCurrentTime w) bnum li)"
    unfolding w' using assms(4) by (intro latest_row_with_row) simp_all
  have gap: "\<bar>cost_basis_gap dv ?mn ?mx (prev_position ?prev) (prev_price ?prev) d ?t\<bar> \<le>
      \<bar>prev_position ?prev + d\<bar> / (2 * 10 ^ 20)"
    by (rule bn_division.cost_basis [OF assms(1)])
  have diff: "prev_frozen (latest_row account marketId outcome w')
      - cost_of_open ?mn ?mx (latest_row account marketId outcome w') =
    (prev_frozen ?prev - cost_of_open ?mn ?mx ?prev)
      - cost_basis_gap dv ?mn ?mx (prev_position ?prev) (prev_price ?prev) d ?t"
    unfolding latest
    by (simp add: cost_of_open_def cost_basis_gap_def
        frozen_after_fair_trade [OF assms(2,5) ev refl])
  have "prev_position (latest_row account marketId outcome w') = prev_position ?prev + d"
    by (simp add: latest)
  then show ?thesis
    unfolding diff
    using order_trans [OF abs_triangle_ineq4 add_left_mono [OF gap]] by metis
qed

text \<open>Alice buys 5 shares at 0.4 with tokens.\<close>

definition sample_trade :: trades_row where
  "sample_trade = \<lparr>td_transactionHash = ''t1'', td_logIndex = 0, td_blockNumber = 1,
     td_orderId = ''o'', td_marketId = ''m'', td_outcome = 1, td_shareToken = ''s'',
     td_orderType = ''buy'', td_creator = ''alice'', td_filler = ''bob'',
     td_numCreatorTokens = 2, td_numCreatorShares = 0, td_numFillerTokens = 3,
     td_numFillerShares = 0, td_price = 4 / 10, td_amount = 5, td_marketCreatorFees = 0,
     td_reporterFees = 0, td_tradeGroupId = None\<rparr>"

theorem frozen_funds_are_cost_basis_witness:
  "\<exists>w'. updateProfitLoss bn_div ''m'' 5 ''alice'' 1 (4 / 10) ''t1'' 1 0 (Some sample_trade)
      market_world = (Inr (), w') \<and>
    \<bar>prev_frozen (latest_row ''alice'' ''m'' 1 w') -
      cost_of_open 0 1 (latest_row ''alice'' ''m'' 1 w')\<bar>
    \<le> \<bar>prev_position (latest_row ''alice'' ''m'' 1 w')\<bar> / (2 * 10 ^ 20)"
proof -
  have "0 \<le> bn_div 2 5" by (rule bn.dv_nonneg) simp_all
  then have "\<exists>w'. updateProfitLoss bn_div ''m'' 5 ''alice'' 1 (4 / 10) ''t1'' 1 0
      (Some sample_trade) market_world = (Inr (), w')"
    by (simp add: updateProfitLoss_run makeFrozenFundsEvent_def Let_def sample_trade_def
        insert_pl next_average_def same_side_def qty_opened_def)
  then obtain w' where run: "updateProfitLoss bn_div ''m'' 5 ''alice'' 1 (4 / 10) ''t1'' 1 0
      (Some sample_trade) market_world = (Inr (), w')" by blast
  have "fair_trade 0 1 None 5 (4 / 10) ''alice'' sample_trade"
    by (simp add: fair_trade_def Let_def sample_trade_def qty_closed_def qty_opened_def
        same_side_def share_price_def pos_type_def)
  then show ?thesis
    using frozen_funds_are_cost_basis [OF bn.bn_division_axioms _ _ _ _ run, of sample_market] run
    by (auto simp: cost_of_open_def position_value_def)
qed

section \<open>Claiming proceeds\<close>

text \<open>The price at which the code closes a position of \<open>n\<close> shares when proceeds are claimed.\<close>

definition claim_price :: "bn list \<Rightarrow> bn \<Rightarrow> nat \<Rightarrow> bn" where
  "claim_price vs n outcome =
     (if n < 0 then sum_list vs - vs ! outcome else vs ! outcome)"

definition claim_row ::
  "bn_division_op \<Rightarrow> markets_row \<Rightarrow> bn list \<Rightarrow> address \<Rightarrow> bytes32 \<Rightarrow> int \<Rightarrow> int \<Rightarrow> nat \<Rightarrow> world \<Rightarrow>
   profit_loss_row" where
  "claim_row dv m vs account tx bnum li outcome w =
     (let prev = latest_row account (mk_marketId m) (int outcome) w in
      next_row dv prev (mk_minPrice m) (mk_maxPrice m) (- prev_position prev)
        (claim_price vs (prev_position prev) outcome - mk_minPrice m) ClaimProceeds account
        (mk_marketId m) (int outcome) tx (getCurrentTime w) bnum li)"

lemma claimOutcome_run:
  assumes "find (\<lambda>m. mk_marketId m = marketId) (t_markets (tables w)) = Some m"
    "outcome < length vs \<or> prev_position (latest_row account marketId (int outcome) w) = 0"
  shows "claimOutcome dv marketId account tx bnum li (sum_list vs) vs outcome w =
    (if prev_position (latest_row account marketId (int outcome) w) = 0 then (Inr (), w)
     else (Inr (), with_row (claim_row dv m vs account tx bnum li outcome w) w))"
proof -
  let ?n = "prev_position (latest_row account marketId (int outcome) w)"
  have id: "mk_marketId m = marketId" using assms(1) by (auto dest: find_SomeD)
  have zero: "next_average dv n a (- n) t = 0" for n a t by (simp add: next_average_def)
  show ?thesis
  proof (cases "?n = 0")
    case True
    then show ?thesis
      by (simp add: claimOutcome_def act_simps prev_position_def Let_def)
  next
    case False
    then have "outcome < length vs" using assms(2) by simp
    with False show ?thesis
      by (simp add: claimOutcome_def act_simps Let_def prev_position_def [symmetric]
          updateProfitLoss_run [OF _ assms(1)] makeFrozenFundsEvent_def insert_pl zero
          claim_row_def claim_price_def id)
  qed
qed

text \<open>A loop over distinct outcomes changes every outcome once.\<close>

lemma claim_loop:
  assumes "find (\<lambda>m. mk_marketId m = marketId) (t_markets (tables w)) = Some m" "distinct os"
    "\<forall>k \<in> set os. before bnum li account marketId (int k) w"
    "\<forall>k \<in> set os. k < length vs \<or> prev_position (latest_row account marketId (int k) w) = 0"
  shows "\<exists>w'. forA os (claimOutcome dv marketId account tx bnum li (sum_list vs) vs) w
      = (Inr (), w') \<and>
    (\<forall>k. latest_row account marketId (int k) w' =
      (if k \<in> set os \<and> prev_position (latest_row account marketId (int k) w) \<noteq> 0
       then Some (claim_row dv m vs account tx bnum li k w)
       else latest_row account marketId (int k) w))"
  using assms
proof (induction os arbitrary: w)
  case (Cons k os)
  let ?row = "claim_row dv m vs account tx bnum li k w"
  have id: "mk_marketId m = marketId" using Cons.prems(1) by (auto dest: find_SomeD)
  have row: "pl_account ?row = account" "pl_marketId ?row = marketId" "pl_outcome ?row = int k"
    "pl_blockNumber ?row = bnum" "pl_logIndex ?row = li"
    by (simp_all add: claim_row_def Let_def id)
  show ?case
  proof (cases "prev_position (latest_row account marketId (int k) w) = 0")
    case True
    with claimOutcome_run [OF Cons.prems(1), of k vs account dv tx bnum li]
      Cons.IH [OF Cons.prems(1)] Cons.prems(2-4)
    show ?thesis by (auto simp: thenA_def bindA_def)
  next
    case False
    let ?w = "with_row ?row w"
    have step: "claimOutcome dv marketId account tx bnum li (sum_list vs) vs k w
        = (Inr (), ?w)"
      using claimOutcome_run [OF Cons.prems(1), of k vs account dv tx bnum li] Cons.prems(4) False
      by simp
    have same: "latest_row account marketId (int j) ?w = latest_row account marketId (int j) w"
      if "j \<noteq> k" for j
      using that row by (intro latest_row_with_row_other) simp
    have this_one: "latest_row account marketId (int k) ?w = Some ?row"
      using row Cons.prems(3) by (intro latest_row_with_row) auto
    have unchanged: "claim_row dv m vs account tx bnum li j ?w =
        claim_row dv m vs account tx bnum li j w" if "j \<noteq> k" for j
      using same [OF that] by (simp add: claim_row_def Let_def id)
    have "\<exists>w'. forA os (claimOutcome dv marketId account tx bnum li (sum_list vs) vs) ?w
        = (Inr (), w') \<and> (\<forall>j. latest_row account marketId (int j) w' =
          (if j \<in> set os \<and> prev_position (latest_row account marketId (int j) ?w) \<noteq> 0
           then Some (claim_row dv m vs account tx bnum li j ?w)
           else latest_row account marketId (int j) ?w))"
    proof (rule Cons.IH)
      show "find (\<lambda>m. mk_marketId m = marketId) (t_markets (tables ?w)) = Some m"
        using Cons.prems(1) by simp
      show "distinct os" using Cons.prems(2) by simp
      show "\<forall>j \<in> set os. before bnum li account marketId (int j) ?w"
        using Cons.prems(2,3) row by (auto simp: before_with_row)
      show "\<forall>j \<in> set os. j < length vs \<or>
          prev_position (latest_row account marketId (int j) ?w) = 0"
        using Cons.prems(2,4) same by (metis distinct.simps(2) list.set_intros(2))
    qed
    then obtain w' where w': "forA os (claimOutcome dv marketId account tx bnum li
          (sum_list vs) vs) ?w = (Inr (), w')"
      and l: "\<And>j. latest_row account marketId (int j) w' =
          (if j \<in> set os \<and> prev_position (latest_row account marketId (int j) ?w) \<noteq> 0
           then Some (claim_row dv m vs account tx bnum li j ?w)
           else latest_row account marketId (int j) ?w)" by blast
    have "latest_row account marketId (int j) w' =
      (if j \<in> set (k # os) \<and> prev_position (latest_row account marketId (int j) w) \<noteq> 0
       then Some (claim_row dv m vs account tx bnum li j w)
       else latest_row account marketId (int j) w)" for j
      using l [of j] same [of j] this_one unchanged [of j] False Cons.prems(2)
      by (cases "j = k") auto
    with step w' show ?thesis by (auto simp: thenA_def bindA_def)
  qed
qed (simp add: return_def)

lemma claim_row_closes:
  assumes "prev_position (latest_row account (mk_marketId m) (int k) w) \<noteq> 0"
  shows "pl_position (claim_row dv m vs account tx bnum li k w) = 0"
    "pl_price (claim_row dv m vs account tx bnum li k w) = 0"
    "pl_frozenFunds (claim_row dv m vs account tx bnum li k w) = 0"
    "pl_profit (claim_row dv m vs account tx bnum li k w) =
      prev_profit (latest_row account (mk_marketId m) (int k) w)
      + position_value (mk_minPrice m) (mk_maxPrice m)
          (prev_position (latest_row account (mk_marketId m) (int k) w))
          (claim_price vs (prev_position (latest_row account (mk_marketId m) (int k) w)) k
             - mk_minPrice m)
      - cost_of_open (mk_minPrice m) (mk_maxPrice m)
          (latest_row account (mk_marketId m) (int k) w)"
  using closing_trade [OF assms]
  by (simp_all add: claim_row_def Let_def next_average_def cost_of_open_def
      getFrozenFundsAfterEventForOneOutcome_def)

text \<open>
  C22. Claiming proceeds succeeds and closes the account's positions in every outcome of the
  market: each outcome's latest row has position zero, and where there was a position the frozen
  funds and the average price are zero and the realized profit has grown by the value of the
  position at the claim price less its cost.
\<close>

theorem claiming_proceeds_closes_positions:
  assumes "find (\<lambda>p. po_marketId p = marketId) (t_payouts (tables w)) = Some p"
    "find (\<lambda>m. mk_marketId m = marketId) (t_markets (tables w)) = Some m"
    "vs = payoutValues dv m p"
    "\<forall>k \<le> length vs. before bnum li account marketId (int k) w"
    "prev_position (latest_row account marketId (int (length vs)) w) = 0"
  shows "\<exists>w'. updateProfitLossClaimProceeds dv marketId account tx bnum li w = (Inr (), w') \<and>
    (\<forall>k < length vs. \<forall>n before after.
      before = latest_row account marketId (int k) w \<longrightarrow>
      after = latest_row account marketId (int k) w' \<longrightarrow> n = prev_position before \<longrightarrow>
      prev_position after = 0 \<and>
      (n \<noteq> 0 \<longrightarrow> prev_frozen after = 0 \<and> prev_price after = 0 \<and>
        prev_profit after = prev_profit before
          + position_value (mk_minPrice m) (mk_maxPrice m) n (claim_price vs n k - mk_minPrice m)
          - cost_of_open (mk_minPrice m) (mk_maxPrice m) before))"
proof -
  have id: "mk_marketId m = marketId" using assms(2) by (auto dest: find_SomeD)
  have os: "distinct [0..<Suc (length vs)]"
    "\<forall>k \<in> set [0..<Suc (length vs)]. before bnum li account marketId (int k) w"
    "\<forall>k \<in> set [0..<Suc (length vs)]. k < length vs \<or>
      prev_position (latest_row account marketId (int k) w) = 0"
    using assms(4,5) by (auto simp: less_Suc_eq_le le_less)
  obtain w' where w': "forA [0..<Suc (length vs)] (claimOutcome dv marketId account tx bnum li
        (sum_list vs) vs) w = (Inr (), w')"
    and l: "\<And>k. latest_row account marketId (int k) w' =
      (if k \<in> set [0..<Suc (length vs)] \<and> prev_position (latest_row account marketId (int k) w) \<noteq> 0
       then Some (claim_row dv m vs account tx bnum li k w)
       else latest_row account marketId (int k) w)"
    using claim_loop [OF assms(2) os, of dv tx] by blast
  have run: "updateProfitLossClaimProceeds dv marketId account tx bnum li w = (Inr (), w')"
    using w' assms(1-3)
    by (simp add: updateProfitLossClaimProceeds_def payoutAndMarket_def bindA_assoc table_simps
        Let_def)
  show ?thesis
    using claim_row_closes [of account m _ w dv vs tx bnum li] id
    by (intro exI [of _ w'] conjI run) (auto simp: l)
qed

text \<open>A payout of the sample market for outcome 1, and a long position of five shares at 0.4.\<close>

definition yes_payout :: payouts_row where
  "yes_payout = \<lparr>po_payoutId = 1, po_marketId = ''m'',
     po_payouts = [Some 0, Some 10000, None, None, None, None, None, None],
     po_isInvalid = False, po_tentativeWinning = 1, po_winning = Some 1\<rparr>"

definition position_row :: "bn \<Rightarrow> bn \<Rightarrow> profit_loss_row" where
  "position_row n a = \<lparr>pl_account = ''alice'', pl_marketId = ''m'', pl_outcome = 1, pl_price = a,
     pl_position = n, pl_quantityOpened = \<bar>n\<bar>, pl_profit = 0,
     pl_frozenFunds = position_value 0 1 n a, pl_realizedCost = 0, pl_transactionHash = ''t1'',
     pl_timestamp = 1, pl_blockNumber = 1, pl_logIndex = 0\<rparr>"

definition position_world :: "payouts_row list \<Rightarrow> bn \<Rightarrow> bn \<Rightarrow> world" where
  "position_world ps n a = market_world\<lparr>tables := (tables market_world)
     \<lparr>t_payouts := ps, t_wcl_profit_loss_timeseries := [position_row n a]\<rparr>\<rparr>"

lemma position_world_sel [simp]:
  "t_payouts (tables (position_world ps n a)) = ps"
  "t_markets (tables (position_world ps n a)) = [sample_market]"
  "t_wcl_profit_loss_timeseries (tables (position_world ps n a)) = [position_row n a]"
  by (simp_all add: position_world_def)

lemma tick_size: "bn_div 1 10000 = 1 / 10000"
  using bn.dv_exact [of 10000 1] by (simp add: decimals_def)

lemma yes_payout_values: "payoutValues bn_div sample_market yes_payout = [0, 1]"
  by (simp add: payoutValues_def payoutValue_def yes_payout_def numTicksToTickSize_def
      sample_market_def tick_size map_filter_simps)

lemma position_world_latest:
  "latest_row ''alice'' ''m'' 1 (position_world ps n a) = Some (position_row n a)"
  "k \<noteq> 1 \<Longrightarrow> latest_row ''alice'' ''m'' k (position_world ps n a) = None"
  "1 < bnum \<Longrightarrow> before bnum li ''alice'' ''m'' k (position_world ps n a)"
  by (simp_all add: latest_row_def before_def pl_series_def position_row_def latest_by_def pl_pos_def
      less_chain_position_def)

theorem claiming_proceeds_closes_positions_witness:
  "\<exists>w'. updateProfitLossClaimProceeds bn_div ''m'' ''alice'' ''t2'' 2 0
      (position_world [yes_payout] 5 (4 / 10)) = (Inr (), w') \<and>
    prev_position (latest_row ''alice'' ''m'' 1 w') = 0 \<and>
    prev_profit (latest_row ''alice'' ''m'' 1 w') = 5 * 1 - 5 * (4 / 10)"
proof -
  let ?w = "position_world [yes_payout] 5 (4 / 10)"
  have p: "find (\<lambda>p. po_marketId p = ''m'') (t_payouts (tables ?w)) = Some yes_payout"
    by (simp add: yes_payout_def)
  have m: "find (\<lambda>m. mk_marketId m = ''m'') (t_markets (tables ?w)) = Some sample_market" by simp
  have b: "\<forall>k \<le> length [0, 1 :: bn]. before 2 0 ''alice'' ''m'' (int k) ?w"
    by (simp add: position_world_latest)
  have l: "prev_position (latest_row ''alice'' ''m'' (int (length [0, 1 :: bn])) ?w) = 0"
    by (simp add: position_world_latest)
  obtain w' where run: "updateProfitLossClaimProceeds bn_div ''m'' ''alice'' ''t2'' 2 0 ?w
      = (Inr (), w')" and all: "\<forall>k < length [0, 1 :: bn]. \<forall>n before after.
      before = latest_row ''alice'' ''m'' (int k) ?w \<longrightarrow>
      after = latest_row ''alice'' ''m'' (int k) w' \<longrightarrow> n = prev_position before \<longrightarrow>
      prev_position after = 0 \<and>
      (n \<noteq> 0 \<longrightarrow> prev_frozen after = 0 \<and> prev_price after = 0 \<and>
        prev_profit after = prev_profit before
          + position_value (mk_minPrice sample_market) (mk_maxPrice sample_market) n
              (claim_price [0, 1] n k - mk_minPrice sample_market)
          - cost_of_open (mk_minPrice sample_market) (mk_maxPrice sample_market) before)"
    using claiming_proceeds_closes_positions [OF p m yes_payout_values [symmetric] b l] by blast
  have "prev_position (latest_row ''alice'' ''m'' 1 w') = 0 \<and>
      prev_profit (latest_row ''alice'' ''m'' 1 w') = 3"
    using all [rule_format, of 1]
    by (simp add: position_world_latest position_row_def claim_price_def position_value_def
        pos_type_def share_price_def cost_of_open_def)
  with run show ?thesis by (intro exI [of _ w']) simp
qed

text \<open>
  Two observations on the claim price. A short position in an outcome that lost is worth the whole
  range per share, but the price \<open>totalPayout - value\<close> is read as a trade price, at which a short
  share is worth nothing. And of a market's payout rows the first one is taken, whether or not it
  is the winning one.
\<close>

lemma winning_short_booked_as_worthless:
  assumes "n < 0" "vs ! k = 0" "sum_list vs = mx"
  shows "position_value 0 mx n (claim_price vs n k - 0) = 0"
  using assms by (simp add: position_value_def claim_price_def pos_type_def share_price_def)

lemma claim_takes_first_payout:
  "fst (payoutAndMarket ''m'' (position_world [yes_payout\<lparr>po_winning := Some 0\<rparr>,
      yes_payout\<lparr>po_payoutId := 2, po_payouts := rev (po_payouts yes_payout)\<rparr>] n a)) =
    Inr (yes_payout\<lparr>po_winning := Some 0\<rparr>, sample_market)"
  by (simp add: payoutAndMarket_def table_simps yes_payout_def return_app)

end
