(* ===== verification/Market_Lifecycle.thy ===== *)
theory Market_Lifecycle
  imports Reporting Profit_Loss
begin

text \<open>
  The life of markets and universes: the processors of \<open>market-created.ts\<close>, \<open>market-finalized.ts\<close>,
  \<open>market-migrated.ts\<close>, \<open>market-mailbox-transferred.ts\<close>, \<open>universe-created.ts\<close> and \<open>universe-forked.ts\<close>.

  The full-text index that \<open>market-created.ts\<close> also writes is not part of the model.
\<close>

section \<open>Creation\<close>

text \<open>
  \<open>getOutcomes\<close>: the number of outcomes, their names and their share tokens. A categorical market
  without a list of outcomes is a type error.
\<close>

record outcome_infos =
  oi_numOutcomes :: nat
  oi_outcomeNames :: "string option list"
  oi_shareTokens :: "address list"

definition getOutcomes :: "env \<Rightarrow> event_log \<Rightarrow> outcome_infos result" where
  "getOutcomes env l =
     bindE (if lo_marketType l = 1
            then (case lo_outcomes l of None \<Rightarrow> Inl (JsTypeError ''outcomes is undefined'')
                  | Some os \<Rightarrow> Inr (length os))
            else Inr 2) (\<lambda>numOutcomes.
     bindE (mapE (getShareToken env (lo_market l)) [0..<numOutcomes]) (\<lambda>shareTokens.
     Inr \<lparr>oi_numOutcomes = numOutcomes,
          oi_outcomeNames = (case lo_outcomes l of
             Some os \<Rightarrow> if lo_marketType l = 1 then map Some os else replicate numOutcomes None
           | None \<Rightarrow> replicate numOutcomes None),
          oi_shareTokens = shareTokens\<rparr>))"

text \<open>The results of the contract calls.\<close>

record market_calls =
  mc_feeWindow :: address
  mc_endTime :: int
  mc_designatedReporter :: address
  mc_marketCreatorMailbox :: address
  mc_numTicks :: bn
  mc_marketCreatorSettlementFeeDivisor :: bn
  mc_reportingFeeDivisor :: bn
  mc_validityBondAttoeth :: bn
  mc_outcomes :: outcome_infos
  mc_initialReporterAddress :: address

definition callMarket :: "env \<Rightarrow> event_log \<Rightarrow> market_calls result" where
  "callMarket env l =
     bindE (getMarketFeeWindow env (lo_market l)) (\<lambda>feeWindow.
     bindE (getEndTime env (lo_market l)) (\<lambda>endTime.
     bindE (getDesignatedReporter env (lo_market l)) (\<lambda>designatedReporter.
     bindE (getMarketCreatorMailbox env (lo_market l)) (\<lambda>marketCreatorMailbox.
     bindE (getNumTicks env (lo_market l)) (\<lambda>numTicks.
     bindE (getMarketCreatorSettlementFeeDivisor env (lo_market l)) (\<lambda>marketCreatorSettlementFeeDivisor.
     bindE (getOrCacheReportingFeeDivisor env (lo_universe l)) (\<lambda>reportingFeeDivisor.
     bindE (getValidityBondAttoeth env (lo_market l)) (\<lambda>validityBondAttoeth.
     bindE (getOutcomes env l) (\<lambda>infos.
     bindE (getInitialReporter env (lo_market l)) (\<lambda>initialReporterAddress.
     Inr \<lparr>mc_feeWindow = feeWindow, mc_endTime = endTime, mc_designatedReporter = designatedReporter,
          mc_marketCreatorMailbox = marketCreatorMailbox, mc_numTicks = numTicks,
          mc_marketCreatorSettlementFeeDivisor = marketCreatorSettlementFeeDivisor,
          mc_reportingFeeDivisor = reportingFeeDivisor, mc_validityBondAttoeth = validityBondAttoeth,
          mc_outcomes = infos, mc_initialReporterAddress = initialReporterAddress\<rparr>))))))))))"

text \<open>The name of the enumeration value, if it is one.\<close>

definition marketTypeName :: "int \<Rightarrow> string option" where
  "marketTypeName t = (if t = 0 then Some ''yesNo'' else if t = 1 then Some ''categorical''
     else if t = 2 then Some ''scalar'' else None)"

definition canonicalizeCategoryName :: "env \<Rightarrow> string \<Rightarrow> string" where
  "canonicalizeCategoryName env categoryName = toUpperCase env categoryName"

text \<open>\<open>x || null\<close> for strings.\<close>

definition orNull :: "string option \<Rightarrow> string option" where
  "orNull x = (case x of Some [] \<Rightarrow> None | _ \<Rightarrow> x)"

definition marketsDataToInsert ::
  "env \<Rightarrow> event_log \<Rightarrow> market_calls \<Rightarrow> string \<Rightarrow> bn \<Rightarrow> int \<Rightarrow> markets_row" where
  "marketsDataToInsert env l calls marketType designatedReportStakeBalance marketStateId =
     (let extraInfo = (case lo_extraInfo l of Some x \<Rightarrow> x | None \<Rightarrow>
            \<lparr>xi_tags = [], xi_longDescription = None, xi_scalarDenomination = None,
             xi_resolutionSource = None\<rparr>);
          tags = xi_tags extraInfo
      in \<lparr>mk_marketId = lo_market l, mk_transactionHash = lg_transactionHash l,
          mk_logIndex = lg_logIndex l, mk_universe = lo_universe l, mk_marketType = marketType,
          mk_marketCreator = lo_marketCreator l,
          mk_numOutcomes = int (oi_numOutcomes (mc_outcomes calls)),
          mk_creationBlockNumber = lg_blockNumber l, mk_creationFee = lo_marketCreationFee l,
          mk_minPrice = lo_minPrice l, mk_maxPrice = lo_maxPrice l, mk_numTicks = mc_numTicks calls,
          mk_reportingFeeRate = convertDivisorToRate (en_dv env) (mc_reportingFeeDivisor calls),
          mk_marketCreatorFeeRate =
            convertDivisorToRate (en_dv env) (mc_marketCreatorSettlementFeeDivisor calls),
          mk_marketCreatorFeesBalance = 0, mk_marketCreatorMailbox = mc_marketCreatorMailbox calls,
          mk_marketCreatorMailboxOwner = lo_marketCreator l, mk_initialReportSize = None,
          mk_validityBondSize = mc_validityBondAttoeth calls,
          mk_category = canonicalizeCategoryName env (lo_topic l),
          mk_tag1 = (if tags = [] then None else tags ! 0),
          mk_tag2 = (if 1 < length tags then tags ! 1 else None),
          mk_volume = 0, mk_shareVolume = 0, mk_openInterest = 0, mk_sharesOutstanding = 0,
          mk_marketStateId = Some marketStateId, mk_feeWindow = mc_feeWindow calls,
          mk_endTime = mc_endTime calls, mk_finalizationBlockNumber = None,
          mk_lastTradeBlockNumber = None, mk_shortDescription = lo_description l,
          mk_longDescription = orNull (xi_longDescription extraInfo),
          mk_scalarDenomination = orNull (xi_scalarDenomination extraInfo),
          mk_resolutionSource = orNull (xi_resolutionSource extraInfo),
          mk_designatedReporter = mc_designatedReporter calls,
          mk_designatedReportStake =
            convertFixedPointToDecimal (en_dv env) designatedReportStakeBalance BN_WEI_PER_ETHER,
          mk_disputeRounds = None, mk_forking = 0, mk_needsMigration = 0, mk_needsDisavowal = 0,
          mk_spreadPercent = 1, mk_invalidROIPercent = 0, mk_bestBidTakerInvalidProfitTokens = 0,
          mk_bestAskTakerInvalidProfitTokens = 0,
          mk_initialReporterAddress = mc_initialReporterAddress calls\<rparr>)"

definition outcomesDataToInsert :: "env \<Rightarrow> event_log \<Rightarrow> outcome_infos \<Rightarrow> outcomes_row list" where
  "outcomesDataToInsert env l infos = map (\<lambda>i.
     \<lparr>oc_marketId = lo_market l, oc_outcome = int i,
      oc_price = en_dv env (lo_minPrice l + lo_maxPrice l) (of_nat (oi_numOutcomes infos)),
      oc_volume = 0, oc_shareVolume = 0, oc_description = oi_outcomeNames infos ! i,
      oc_spreadPercent = 1, oc_invalidROIPercent = 0, oc_bestBidTakerInvalidProfitTokens = 0,
      oc_bestAskTakerInvalidProfitTokens = 0\<rparr>) [0..<oi_numOutcomes infos]"

definition tokensDataToInsert :: "event_log \<Rightarrow> outcome_infos \<Rightarrow> tokens_row list" where
  "tokensDataToInsert l infos = map (\<lambda>i.
     \<lparr>tk_contractAddress = oi_shareTokens infos ! i, tk_symbol = ''shares'',
      tk_marketId = Some (lo_market l), tk_outcome = Some (int i), tk_feeWindow = None\<rparr>)
     [0..<oi_numOutcomes infos]"

definition strField :: "string \<Rightarrow> string option \<Rightarrow> string \<times> js_value" where
  "strField k v = (k, case v of Some x \<Rightarrow> VS x | None \<Rightarrow> VNull)"

definition marketFields :: "markets_row \<Rightarrow> (string \<times> js_value) list" where
  "marketFields m =
     [(''marketType'', VS (mk_marketType m)), (''marketId'', VS (mk_marketId m)),
      (''marketCreator'', VS (mk_marketCreator m)),
      (''creationBlockNumber'', VI (mk_creationBlockNumber m)),
      (''creationFee'', VN (mk_creationFee m)), (''category'', VS (mk_category m)),
      (''shortDescription'', VS (mk_shortDescription m)), (''minPrice'', VN (mk_minPrice m)),
      (''maxPrice'', VN (mk_maxPrice m)), strField ''tag1'' (mk_tag1 m), strField ''tag2'' (mk_tag2 m),
      strField ''longDescription'' (mk_longDescription m),
      strField ''scalarDenomination'' (mk_scalarDenomination m),
      strField ''resolutionSource'' (mk_resolutionSource m), (''universe'', VS (mk_universe m)),
      (''numOutcomes'', VI (mk_numOutcomes m)),
      (''marketStateId'', case mk_marketStateId m of Some i \<Rightarrow> VI i | None \<Rightarrow> VNull),
      (''feeWindow'', VS (mk_feeWindow m)), (''endTime'', VI (mk_endTime m)),
      (''designatedReporter'', VS (mk_designatedReporter m)),
      (''designatedReportStake'', VN (mk_designatedReportStake m)), (''numTicks'', VN (mk_numTicks m)),
      (''marketCreatorFeeRate'', VN (mk_marketCreatorFeeRate m)),
      (''marketCreatorMailbox'', VS (mk_marketCreatorMailbox m)),
      (''marketCreatorMailboxOwner'', VS (mk_marketCreatorMailboxOwner m)),
      (''initialReportSize'', VNull), (''reportingFeeRate'', VN (mk_reportingFeeRate m)),
      (''marketCreatorFeesBalance'', VN 0), (''volume'', VN 0), (''sharesOutstanding'', VN 0),
      (''openInterest'', VN 0), (''spreadPercent'', VN 1), (''invalidROIPercent'', VN 0),
      (''bestBidTakerInvalidProfitTokens'', VN 0), (''bestAskTakerInvalidProfitTokens'', VN 0),
      (''validityBondSize'', VN (mk_validityBondSize m)), (''forking'', VI 0),
      (''needsMigration'', VI 0), (''needsDisavowal'', VI 0), (''finalizationBlockNumber'', VNull),
      (''initialReporterAddress'', VS (mk_initialReporterAddress m))]"

definition createCategoryIfNotExists :: "address \<Rightarrow> string \<Rightarrow> unit action" where
  "createCategoryIfNotExists universe categoryName =
     bindA (select categories (\<lambda>c. ca_category c = categoryName \<and> ca_universe c = universe))
       (\<lambda>categoriesRows.
     if categoriesRows \<noteq> [] then return ()
     else insertInto categories \<lparr>ca_category = categoryName, ca_universe = universe,
            ca_openInterest = 0, ca_nonFinalizedOpenInterest = 0\<rparr>)"

text \<open>The view \<open>balances_detail\<close>: balances joined with their tokens.\<close>

definition repBalance :: "world \<Rightarrow> address \<Rightarrow> bn option" where
  "repBalance w owner = map_option bl_balance
     (find (\<lambda>b. bl_owner b = owner \<and>
         list_ex (\<lambda>t. tk_contractAddress t = bl_token b \<and> tk_symbol t = ''REP'') (t_tokens (tables w)))
       (t_balances (tables w)))"

text \<open>What is stored once the row of the market is there.\<close>

definition storeMarketData :: "event_log \<Rightarrow> market_calls \<Rightarrow> outcomes_row list \<Rightarrow> markets_row \<Rightarrow> unit action"
  where
  "storeMarketData l calls outcomeRows row =
     thenA (batchInsert outcomes outcomeRows)
    (thenA (batchInsert tokens (tokensDataToInsert l (mc_outcomes calls)))
    (thenA (batchInsert token_supply
              (map (\<lambda>a. \<lparr>ts_token = a, ts_supply = 0\<rparr>) (oi_shareTokens (mc_outcomes calls))))
    (thenA (insertInto transfers \<lparr>tf_transactionHash = lg_transactionHash l, tf_logIndex = lg_logIndex l,
              tf_sender = Some (lo_marketCreator l), tf_recipient = Some (lo_market l), tf_token = ETHER,
              tf_value = mc_validityBondAttoeth calls, tf_blockNumber = lg_blockNumber l\<rparr>)
    (bindA (gets getCurrentTime) (\<lambda>creationTime.
     thenA (emit ''MarketCreated'' (Some l) ((''creationTime'', VI creationTime) # marketFields row))
       (createCategoryIfNotExists (lo_universe l) (mk_category row)))))))"

text \<open>
  The constraints of \<open>markets\<close> on the type and the number of outcomes are checked where the row is
  inserted.
\<close>

definition createMarket :: "env \<Rightarrow> event_log \<Rightarrow> market_calls \<Rightarrow> unit action" where
  "createMarket env l calls =
     bindA (bindA (gets (\<lambda>w. repBalance w (lo_market l))) (orThrow (Thrown ''No REP balance on market'')))
       (\<lambda>balance.
     bindA newMarketStateId (\<lambda>marketStateId.
     thenA (insertInto market_state \<lparr>ms_marketStateId = marketStateId, ms_marketId = lo_market l,
              ms_reportingState = PRE_REPORTING, ms_blockNumber = lg_blockNumber l\<rparr>)
    (bindA (orThrow (CheckViolation ''markets'')
              (if oi_numOutcomes (mc_outcomes calls) = 0 then None else marketTypeName (lo_marketType l)))
       (\<lambda>marketType.
     let row = marketsDataToInsert env l calls marketType balance marketStateId in
     thenA (insertInto markets row)
       (storeMarketData l calls (outcomesDataToInsert env l (mc_outcomes calls)) row)))))"

definition processMarketCreatedLog :: "env \<Rightarrow> event_log \<Rightarrow> unit action result" where
  "processMarketCreatedLog env l =
     bindE (callMarket env l) (\<lambda>calls. Inr (createMarket env l calls))"

definition processMarketCreatedLogRemoval :: "event_log \<Rightarrow> unit action" where
  "processMarketCreatedLogRemoval l =
     thenA (delete markets (\<lambda>m. mk_marketId m = lo_market l))
    (thenA (delete outcomes (\<lambda>u. oc_marketId u = lo_market l))
    (bindA (select tokens (\<lambda>t. tk_marketId t = Some (lo_market l))) (\<lambda>ts.
     thenA (delete token_supply (\<lambda>s. ts_token s \<in> set (map tk_contractAddress ts)))
    (thenA (delete tokens (\<lambda>t. tk_marketId t = Some (lo_market l)))
    (thenA (delete market_state (\<lambda>s. ms_marketId s = lo_market l))
    (thenA (delete transfers (\<lambda>t. tf_recipient t = Some (lo_market l) \<and> tf_token t = ETHER))
           (emit ''MarketCreated'' (Some l) [])))))))"

section \<open>Finalization, migration, mailbox\<close>

definition flagMarketsNeedingMigration :: "address \<Rightarrow> address \<Rightarrow> unit action" where
  "flagMarketsNeedingMigration finalizedMarketId universe =
     bindA (bindA (first markets (\<lambda>m. mk_marketId m = finalizedMarketId))
              (orThrow (JsTypeError ''isForkingMarket is undefined''))) (\<lambda>isForkingMarket.
     if mk_forking isForkingMarket \<noteq> 1 then return ()
     else update markets (\<lambda>m. mk_universe m = universe \<and> mk_marketId m \<noteq> finalizedMarketId)
            (\<lambda>m. m\<lparr>mk_needsMigration := mk_needsMigration m + 1\<rparr>))"

definition processMarketFinalizedLog :: "env \<Rightarrow> event_log \<Rightarrow> unit action" where
  "processMarketFinalizedLog env l =
     thenA (updateMarketState (lo_market l) (lg_blockNumber l) FINALIZED)
    (thenA (update markets (\<lambda>m. mk_marketId m = lo_market l)
              (\<lambda>m. m\<lparr>mk_finalizationBlockNumber := Some (lg_blockNumber l)\<rparr>))
    (thenA (flagMarketsNeedingMigration (lo_market l) (lo_universe l))
    (thenA (refreshMarketMailboxEthBalance env (lo_market l))
    (thenA (updateOutcomeValuesFromFinalization (en_dv env) (lo_market l) (lg_transactionHash l)
              (lg_blockNumber l) (lg_logIndex l))
           (updateCategoryAggregationsOnMarketFinalized (lo_market l))))))"

definition processMarketFinalizedLogRemoval :: "env \<Rightarrow> event_log \<Rightarrow> unit action" where
  "processMarketFinalizedLogRemoval env l =
     thenA (rollbackMarketState (lo_market l) FINALIZED)
    (thenA (update markets (\<lambda>m. mk_marketId m = lo_market l)
              (\<lambda>m. m\<lparr>mk_finalizationBlockNumber := None\<rparr>))
    (thenA (update markets (\<lambda>m. mk_universe m = lo_universe l) (\<lambda>m. m\<lparr>mk_needsMigration := 0\<rparr>))
    (thenA (refreshMarketMailboxEthBalance env (lo_market l))
    (thenA (removeOutcomeValue (lg_transactionHash l))
           (updateCategoryAggregationsOnMarketFinalizedRollback (lo_market l))))))"

definition NULL_ADDRESS :: address where
  "NULL_ADDRESS = ''0x0000000000000000000000000000000000000000''"

definition advanceToAwaitingNextWindow :: "address \<Rightarrow> int \<Rightarrow> unit action" where
  "advanceToAwaitingNextWindow marketId blockNumber =
     bindA (getMarketsWithReportingState (\<lambda>m s. mk_marketId m = marketId)) (\<lambda>rows.
     case rows of
       [] \<Rightarrow> throw (Thrown ''Could not fetch prior reportingState'')
     | m # _ \<Rightarrow>
         bindA (gets (\<lambda>w. reportingStateOf w m)) (\<lambda>reportingState.
         if reportingState = Some AWAITING_FORK_MIGRATION
         then updateMarketState marketId blockNumber
                (if mk_feeWindow m \<noteq> NULL_ADDRESS then AWAITING_NEXT_WINDOW else OPEN_REPORTING)
         else return ()))"

definition processMarketMigratedLog :: "env \<Rightarrow> event_log \<Rightarrow> unit action" where
  "processMarketMigratedLog env l =
     thenA (advanceToAwaitingNextWindow (lo_market l) (lg_blockNumber l))
    (thenA (updateMarketFeeWindow env (lo_newUniverse l) (lo_market l) True)
    (thenA (update markets (\<lambda>m. mk_marketId m = lo_market l)
              (\<lambda>m. m\<lparr>mk_universe := lo_newUniverse l, mk_needsMigration := mk_needsMigration m - 1,
                     mk_needsDisavowal := mk_needsDisavowal m - 1\<rparr>))
    (thenA (update crowdsourcers (\<lambda>c. cs_marketId c = lo_market l)
              (\<lambda>c. c\<lparr>cs_disavowed := cs_disavowed c + 1\<rparr>))
    (bindA (first markets (\<lambda>m. mk_marketId m = lo_market l)) (\<lambda>categoryRows.
     case categoryRows of
       None \<Rightarrow> return ()
     | Some m \<Rightarrow> createCategoryIfNotExists (lo_newUniverse l) (mk_category m))))))"

definition processMarketMigratedLogRemoval :: "event_log \<Rightarrow> unit action" where
  "processMarketMigratedLogRemoval l =
     thenA (rollbackMarketState (lo_market l) AWAITING_NEXT_WINDOW)
    (thenA (update markets (\<lambda>m. mk_marketId m = lo_market l)
              (\<lambda>m. m\<lparr>mk_universe := lo_originalUniverse l, mk_needsMigration := mk_needsMigration m + 1,
                     mk_needsDisavowal := mk_needsDisavowal m + 1\<rparr>))
           (update crowdsourcers (\<lambda>c. cs_marketId c = lo_market l)
              (\<lambda>c. c\<lparr>cs_disavowed := cs_disavowed c - 1\<rparr>)))"

definition processMarketMailboxTransferredLog :: "event_log \<Rightarrow> unit action" where
  "processMarketMailboxTransferredLog l =
     update markets (\<lambda>m. mk_marketId m = lo_market l) (\<lambda>m. m\<lparr>mk_marketCreatorMailboxOwner := lo_to l\<rparr>)"

definition processMarketMailboxTransferredLogRemoval :: "event_log \<Rightarrow> unit action" where
  "processMarketMailboxTransferredLogRemoval l =
     update markets (\<lambda>m. mk_marketId m = lo_market l) (\<lambda>m. m\<lparr>mk_marketCreatorMailboxOwner := lo_from l\<rparr>)"

section \<open>Universes\<close>

definition createUniverse :: "event_log \<Rightarrow> address \<Rightarrow> unit action" where
  "createUniverse l reputationToken =
     bindA (insertPayout (lo_childUniverse l) (lo_payoutNumerators l) (lo_invalid l) True) (\<lambda>payoutId.
     thenA (insertInto universes \<lparr>un_universe = lo_childUniverse l,
              un_parentUniverse = Some (lo_parentUniverse l), un_payoutId = Some payoutId,
              un_reputationToken = reputationToken, un_forked = False\<rparr>)
    (thenA (emit ''UniverseCreated'' (Some l) [])
           (insertInto tokens \<lparr>tk_contractAddress = reputationToken, tk_symbol = ''REP'',
              tk_marketId = None, tk_outcome = None, tk_feeWindow = None\<rparr>)))"

definition processUniverseCreatedLog :: "env \<Rightarrow> event_log \<Rightarrow> unit action result" where
  "processUniverseCreatedLog env l =
     bindE (getReputationToken env (lo_childUniverse l)) (\<lambda>reputationToken.
     Inr (createUniverse l reputationToken))"

definition processUniverseCreatedLogRemoval :: "event_log \<Rightarrow> unit action" where
  "processUniverseCreatedLogRemoval l =
     thenA (delete universes (\<lambda>u. un_universe u = lo_childUniverse l))
       (emit ''UniverseCreated'' (Some l) [])"

text \<open>The subqueries read \<open>markets\<close> and \<open>initial_reports\<close> when the update runs.\<close>

definition uncompleteNonforkingCrowdsourcers :: "address \<Rightarrow> address \<Rightarrow> unit action" where
  "uncompleteNonforkingCrowdsourcers universe forkingMarket =
     bindA (select markets (\<lambda>m. mk_universe m = universe \<and> mk_marketId m \<noteq> forkingMarket)) (\<lambda>ms.
     thenA (update crowdsourcers (\<lambda>c. cs_marketId c \<in> set (map mk_marketId ms))
              (\<lambda>c. c\<lparr>cs_completed := Some 0\<rparr>))
    (thenA (update markets (\<lambda>m. mk_universe m = universe \<and> mk_marketId m \<noteq> forkingMarket)
              (\<lambda>m. m\<lparr>mk_disputeRounds := None\<rparr>))
    (bindA (select initial_reports (\<lambda>r. True)) (\<lambda>rs.
     update markets (\<lambda>m. mk_universe m = universe \<and> mk_marketId m \<noteq> forkingMarket \<and>
         mk_marketId m \<in> set (map ir_marketId rs))
       (\<lambda>m. m\<lparr>mk_disputeRounds := Some 0\<rparr>)))))"

text \<open>
  A market of the forked universe goes back to its initial report. The last update of the payouts has
  a join with \<open>initial_reports\<close>; whether that restricts it is up to Knex.
\<close>

definition revertMarket :: "env \<Rightarrow> address \<Rightarrow> int \<Rightarrow> address \<Rightarrow> unit action" where
  "revertMarket env universe blockNumber marketId =
     thenA (updateMarketState marketId blockNumber AWAITING_FORK_MIGRATION)
    (thenA (emitMarketState universe marketId AWAITING_FORK_MIGRATION)
    (thenA (update payouts (\<lambda>p. po_marketId p = marketId)
              (\<lambda>p. p\<lparr>po_winning := None, po_tentativeWinning := 0\<rparr>))
    (bindA (select initial_reports (\<lambda>r. True)) (\<lambda>rs.
     update payouts (\<lambda>p. po_marketId p = marketId \<and>
         (updateHonoursJoin env \<longrightarrow> po_payoutId p \<in> set (map ir_payoutId rs)))
       (\<lambda>p. p\<lparr>po_tentativeWinning := 1\<rparr>)))))"

definition forkUniverse :: "env \<Rightarrow> event_log \<Rightarrow> address option \<Rightarrow> unit action" where
  "forkUniverse env l forkingMarketOrNull =
     bindA (orThrow (Thrown ''Could not retrieve forking market for universe'') forkingMarketOrNull)
       (\<lambda>forkingMarket.
     thenA (update markets (\<lambda>m. mk_marketId m = forkingMarket) (\<lambda>m. m\<lparr>mk_forking := 1\<rparr>))
    (thenA (updateMarketState forkingMarket (lg_blockNumber l) FORKING)
    (thenA (emitMarketState (lo_universe l) forkingMarket FORKING)
    (thenA (update markets (\<lambda>m. mk_universe m = lo_universe l \<and> mk_marketId m \<noteq> forkingMarket)
              (\<lambda>m. m\<lparr>mk_needsDisavowal := mk_needsDisavowal m + 1\<rparr>))
    (thenA (update universes (\<lambda>u. un_universe u = lo_universe l) (\<lambda>u. u\<lparr>un_forked := True\<rparr>))
    (bindA (getMarketsWithReportingState (\<lambda>m s. mk_universe m = lo_universe l \<and>
              (s = Some AWAITING_FINALIZATION \<or> s = Some CROWDSOURCING_DISPUTE \<or>
               s = Some AWAITING_NEXT_WINDOW))) (\<lambda>marketsToRevert.
     thenA (forA marketsToRevert (\<lambda>m.
              revertMarket env (lo_universe l) (lg_blockNumber l) (mk_marketId m)))
       (uncompleteNonforkingCrowdsourcers (lo_universe l) forkingMarket))))))))"

definition processUniverseForkedLog :: "env \<Rightarrow> event_log \<Rightarrow> unit action result" where
  "processUniverseForkedLog env l =
     bindE (getForkingMarket env (lo_universe l)) (\<lambda>forkingMarket. Inr (forkUniverse env l forkingMarket))"

text \<open>The event carries the row of the forking market where its id is meant.\<close>

definition processUniverseForkedLogRemoval :: "event_log \<Rightarrow> unit action" where
  "processUniverseForkedLogRemoval l =
     bindA (bindA (first markets (\<lambda>m. mk_forking m = 1 \<and> mk_universe m = lo_universe l))
              (orThrow (Thrown ''Could not retrieve forking market to rollback''))) (\<lambda>forkingMarket.
     thenA (update markets (\<lambda>m. mk_marketId m = mk_marketId forkingMarket) (\<lambda>m. m\<lparr>mk_forking := 0\<rparr>))
    (thenA (emit ''MarketState'' (None :: base_log option)
              [(''universe'', VS (lo_universe l)), (''marketId.marketId'', VS (mk_marketId forkingMarket)),
               (''reportingState'', VS (reportingStateName CROWDSOURCING_DISPUTE))])
    (thenA (update markets (\<lambda>m. mk_universe m = lo_universe l \<and> mk_marketId m \<noteq> mk_marketId forkingMarket)
              (\<lambda>m. m\<lparr>mk_needsDisavowal := mk_needsDisavowal m - 1\<rparr>))
           (update universes (\<lambda>u. un_universe u = lo_universe l) (\<lambda>u. u\<lparr>un_forked := False\<rparr>)))))"

section \<open>What keeps the market states\<close>

lemma createCategory_kept [kept]: "preserves ready_states (createCategoryIfNotExists u c)"
  unfolding createCategoryIfNotExists_def by (intro kept)

lemma outcome_values_kept [kept]:
  "preserves ready_states (updateOutcomeValuesFromFinalization dv a h b n)"
  "preserves ready_states (removeOutcomeValue h)"
  "preserves ready_states (updateCategoryAggregationsOnMarketFinalized a)"
  "preserves ready_states (updateCategoryAggregationsOnMarketFinalizedRollback a)"
  unfolding updateOutcomeValuesFromFinalization_def payoutAndMarket_def removeOutcomeValue_def
    updateCategoryAggregationsOnMarketFinalized_def updateCategoryAggregationsOnMarketFinalizedRollback_def
    marketFinalizedHelper_def
  by ((intro kept | simp)+)

lemma market_logs_kept [kept]:
  "preserves ready_states (processMarketFinalizedLog env l)"
  "preserves ready_states (processMarketFinalizedLogRemoval env l)"
  "preserves ready_states (processMarketMigratedLog env l)"
  "preserves ready_states (processMarketMigratedLogRemoval l)"
  "preserves ready_states (processMarketMailboxTransferredLog l)"
  "preserves ready_states (processMarketMailboxTransferredLogRemoval l)"
  unfolding processMarketFinalizedLog_def processMarketFinalizedLogRemoval_def processMarketMigratedLog_def
    processMarketMigratedLogRemoval_def processMarketMailboxTransferredLog_def
    processMarketMailboxTransferredLogRemoval_def flagMarketsNeedingMigration_def
    advanceToAwaitingNextWindow_def getMarketsWithReportingState_def
  by ((intro kept | simp)+)

lemma universe_logs_kept [kept]:
  "preserves ready_states (createUniverse l a)"
  "preserves ready_states (processUniverseCreatedLogRemoval l)"
  "preserves ready_states (forkUniverse env l fm)"
  "preserves ready_states (processUniverseForkedLogRemoval l)"
  unfolding createUniverse_def processUniverseCreatedLogRemoval_def forkUniverse_def
    processUniverseForkedLogRemoval_def revertMarket_def uncompleteNonforkingCrowdsourcers_def
    getMarketsWithReportingState_def emitMarketState_def
  by ((intro kept | simp)+)

text \<open>
  A market is created with the state row first and the market after it, so that \<open>states_ok\<close> may fail in
  between; it holds when both are there.
\<close>

lemma storeMarketData_kept: "preserves ready_states (storeMarketData l calls rows row)"
  unfolding storeMarketData_def by ((intro kept | simp)+)

lemma created_states:
  assumes "ready_states w"
    "insertInto market_state (newState a b s w) (w\<lparr>tables := (tables w)\<lparr>next_marketStateId :=
       next_marketStateId (tables w) + 1\<rparr>\<rparr>) = (Inr (), w1)"
    "insertInto markets row w1 = (Inr (), w2)" "mk_marketId row = a"
    "mk_marketStateId row = Some (next_marketStateId (tables w))"
  shows "ready_states w2" "stateHistory w2 = (stateHistory w)(a := stateHistory w a @ [s])"
proof -
  let ?rows = "t_market_state (tables w) @ [newState a b s w]"
  have w2: "t_market_state (tables w2) = ?rows" "t_markets (tables w2) = t_markets (tables w) @ [row]"
    "next_marketStateId (tables w2) = next_marketStateId (tables w) + 1"
    and new: "list_all (\<lambda>m. mk_marketId m \<noteq> a) (t_markets (tables w))" "tcheck markets row"
    using assms(2-4) by (auto simp: insertInto_eq_Inr markets_constraints(1))
  have sorted: "sorted_wrt (<) (map ms_marketStateId ?rows)" using assms(1) by (intro ids_append) simp
  have "mk_marketStateId m = latestId ?rows (mk_marketId m)" if "m \<in> set (t_markets (tables w2))" for m
    using that new(1) states_okD [of w m] assms(1,4,5)
    unfolding w2 latestId_append [OF sorted] newState_sel by (auto simp: list_all_iff)
  moreover have "list_all (\<lambda>r. ms_marketStateId r < next_marketStateId (tables w2)) ?rows"
    using assms(1) unfolding w2 by (auto simp: states_ok_def list_all_iff)
  ultimately have "states_ok w2" using sorted unfolding states_ok_def w2(1) by (simp add: list_all_iff)
  moreover have "checked w2" using assms(1) new(2) by (simp add: checked_def w2)
  ultimately show "ready_states w2" by simp
  show "stateHistory w2 = (stateHistory w)(a := stateHistory w a @ [s])"
    by (rule ext) (simp add: stateHistory_def w2)
qed

lemma createMarket_run:
  assumes "createMarket env l calls w = (Inr x, w')"
  shows "\<exists>balance marketType w1 w2. let row = marketsDataToInsert env l calls marketType balance
      (next_marketStateId (tables w)) in
    insertInto market_state (newState (lo_market l) (lg_blockNumber l) PRE_REPORTING w)
      (w\<lparr>tables := (tables w)\<lparr>next_marketStateId := next_marketStateId (tables w) + 1\<rparr>\<rparr>) = (Inr (), w1) \<and>
    insertInto markets row w1 = (Inr (), w2) \<and>
    storeMarketData l calls (outcomesDataToInsert env l (mc_outcomes calls)) row w2 = (Inr x, w')"
  using assms unfolding createMarket_def newMarketStateId_def newState_def Let_def
  by (auto simp: bindA_eq_Inr thenA_eq_Inr orThrow_eq_Inr gets_app modify_app return_app)

lemma marketsDataToInsert_sel:
  "mk_marketId (marketsDataToInsert env l calls t x i) = lo_market l"
  "mk_marketStateId (marketsDataToInsert env l calls t x i) = Some i"
  by (simp_all add: marketsDataToInsert_def Let_def)

lemma createMarket_kept [kept_ok]: "returns_with ready_states (createMarket env l calls)"
proof (rule returns_withI)
  fix w x w'
  assume r: "ready_states w" and run: "createMarket env l calls w = (Inr x, w')"
  obtain balance marketType w1 w2 where
    w1: "insertInto market_state (newState (lo_market l) (lg_blockNumber l) PRE_REPORTING w)
      (w\<lparr>tables := (tables w)\<lparr>next_marketStateId := next_marketStateId (tables w) + 1\<rparr>\<rparr>) = (Inr (), w1)"
    and w2: "insertInto markets (marketsDataToInsert env l calls marketType balance
      (next_marketStateId (tables w))) w1 = (Inr (), w2)"
    and rest: "storeMarketData l calls (outcomesDataToInsert env l (mc_outcomes calls))
      (marketsDataToInsert env l calls marketType balance (next_marketStateId (tables w))) w2 = (Inr x, w')"
    using createMarket_run [OF run] unfolding Let_def by (elim exE conjE) (rule that)
  have "ready_states w2"
    by (rule created_states(1) [OF r w1 w2]) (simp_all add: marketsDataToInsert_sel)
  then show "ready_states w'" using storeMarketData_kept rest by (metis (no_types, lifting) preservesD)
qed

lemma market_removed_run:
  "processMarketCreatedLogRemoval l w = (Inr (), w') \<Longrightarrow>
    t_markets (tables w') = filter (\<lambda>m. mk_marketId m \<noteq> lo_market l) (t_markets (tables w)) \<and>
    t_market_state (tables w') = filter (\<lambda>s. ms_marketId s \<noteq> lo_market l) (t_market_state (tables w)) \<and>
    next_marketStateId (tables w') = next_marketStateId (tables w)"
  unfolding processMarketCreatedLogRemoval_def
  by (auto simp: thenA_delete bindA_select emit_app)

lemma market_removed_kept [kept_ok]: "returns_with ready_states (processMarketCreatedLogRemoval l)"
proof (rule returns_withI)
  fix w x w'
  assume r: "ready_states w" and "processMarketCreatedLogRemoval l w = (Inr x, w')"
  then have w': "t_markets (tables w') = filter (\<lambda>m. mk_marketId m \<noteq> lo_market l) (t_markets (tables w))"
    "t_market_state (tables w') = filter (\<lambda>s. ms_marketId s \<noteq> lo_market l) (t_market_state (tables w))"
    "next_marketStateId (tables w') = next_marketStateId (tables w)"
    using market_removed_run [of l w w'] by simp_all
  have "latestId (t_market_state (tables w')) a = latestId (t_market_state (tables w)) a" if "a \<noteq> lo_market l" for a
    unfolding w' using that by (intro latestId_filter) auto
  then show "ready_states w'"
    using r by (auto simp: states_ok_def checked_def w' list_all_iff sorted_wrt_map sorted_wrt_filter)
qed

section \<open>Taking a market back\<close>

context table_laws
begin

lemma batchInsert_run:
  "batchInsert T rs w = (Inr (), w') \<Longrightarrow>
    w' = tput T (tget T w @ rs) w \<and> (\<forall>x \<in> set (tget T w). \<forall>r \<in> set rs. \<not> tclash T x r)"
proof (induction rs arbitrary: w)
  case Nil
  then show ?case by (simp add: batchInsert_def return_app put_get)
next
  case (Cons r rs)
  let ?w1 = "tput T (tget T w @ [r]) w"
  have 1: "list_all (\<lambda>x. \<not> tclash T x r) (tget T w)" "batchInsert T rs ?w1 = (Inr (), w')"
    using Cons.prems by (auto simp: batchInsert_def thenA_eq_Inr insertInto_eq_Inr)
  have "w' = tput T (tget T w @ r # rs) w"
    using Cons.IH [OF 1(2)] by (simp add: get_put put_put)
  moreover have "\<not> tclash T x s" if "x \<in> set (tget T w)" "s \<in> set (r # rs)" for x s
    using that 1(1) Cons.IH [OF 1(2)] by (auto simp: list_all_iff get_put)
  ultimately show ?case by blast
qed

end

text \<open>
  Nothing in the database belongs to the market yet. Without this, taking the market back would also
  delete what was there before.
\<close>

definition unknownMarket :: "address \<Rightarrow> world \<Rightarrow> bool" where
  "unknownMarket a w \<longleftrightarrow>
     list_all (\<lambda>u. oc_marketId u \<noteq> a) (t_outcomes (tables w)) \<and>
     list_all (\<lambda>t. tk_marketId t \<noteq> Some a) (t_tokens (tables w)) \<and>
     list_all (\<lambda>s. ms_marketId s \<noteq> a) (t_market_state (tables w)) \<and>
     list_all (\<lambda>t. \<not> (tf_recipient t = Some a \<and> tf_token t = ETHER)) (t_transfers (tables w))"

lemma storeMarketData_run:
  assumes "storeMarketData l calls rows row w = (Inr (), w')"
  shows "\<exists>tr cs ev. tf_recipient tr = Some (lo_market l) \<and> tf_token tr = ETHER \<and>
    w' = w\<lparr>emitted := ev, tables := (tables w)
      \<lparr>t_outcomes := t_outcomes (tables w) @ rows,
       t_tokens := t_tokens (tables w) @ tokensDataToInsert l (mc_outcomes calls),
       t_token_supply := t_token_supply (tables w) @
         map (\<lambda>a. \<lparr>ts_token = a, ts_supply = 0\<rparr>) (oi_shareTokens (mc_outcomes calls)),
       t_transfers := t_transfers (tables w) @ [tr], t_categories := cs\<rparr>\<rparr> \<and>
    (\<forall>s \<in> set (t_token_supply (tables w)). ts_token s \<notin> set (oi_shareTokens (mc_outcomes calls)))"
proof -
  let ?tr = "\<lparr>tf_transactionHash = lg_transactionHash l, tf_logIndex = lg_logIndex l,
              tf_sender = Some (lo_marketCreator l), tf_recipient = Some (lo_market l), tf_token = ETHER,
              tf_value = mc_validityBondAttoeth calls, tf_blockNumber = lg_blockNumber l\<rparr>"
  let ?supplies = "map (\<lambda>a. \<lparr>ts_token = a, ts_supply = 0\<rparr>) (oi_shareTokens (mc_outcomes calls))"
  let ?ev = "\<lambda>w n d. w\<lparr>emitted := emitted w @ [\<lparr>ev_name = n, ev_log = map_option base_log.truncate (Some l), ev_data = d\<rparr>]\<rparr>"
  from assms obtain w1 w2 w3 w4 d where w1: "batchInsert outcomes rows w = (Inr (), w1)"
    and w2: "batchInsert tokens (tokensDataToInsert l (mc_outcomes calls)) w1 = (Inr (), w2)"
    and w3: "batchInsert token_supply ?supplies w2 = (Inr (), w3)"
    and w4: "insertInto transfers ?tr w3 = (Inr (), w4)"
    and w5: "createCategoryIfNotExists (lo_universe l) (mk_category row) (?ev w4 ''MarketCreated'' d) = (Inr (), w')"
    unfolding storeMarketData_def by (auto simp: thenA_eq_Inr bindA_eq_Inr emit_app gets_app)
  note r1 = outcomes.batchInsert_run [OF w1] and r2 = tokens.batchInsert_run [OF w2]
    and r3 = token_supply.batchInsert_run [OF w3]
  have r4: "w4 = w3\<lparr>tables := (tables w3)\<lparr>t_transfers := t_transfers (tables w3) @ [?tr]\<rparr>\<rparr>"
    using w4 by (simp add: insertInto_eq_Inr)
  have r5: "\<exists>cs. w' = (?ev w4 ''MarketCreated'' d)\<lparr>tables := (tables w4)\<lparr>t_categories := cs\<rparr>\<rparr>"
    using w5 unfolding createCategoryIfNotExists_def
    by (auto simp: bindA_select insertInto_eq_Inr return_app split: if_splits
        intro: exI [of _ "t_categories (tables w4)"])
  have "\<forall>s \<in> set (t_token_supply (tables w)). ts_token s \<notin> set (oi_shareTokens (mc_outcomes calls))"
    using r1 r2 r3 by (fastforce simp: token_supply_constraints)
  moreover obtain cs where "w' = (?ev w4 ''MarketCreated'' d)\<lparr>tables := (tables w4)\<lparr>t_categories := cs\<rparr>\<rparr>"
    using r5 by blast
  then have "w' = w\<lparr>emitted := emitted w'\<rparr>\<lparr>tables := (tables w)
      \<lparr>t_outcomes := t_outcomes (tables w) @ rows,
       t_tokens := t_tokens (tables w) @ tokensDataToInsert l (mc_outcomes calls),
       t_token_supply := t_token_supply (tables w) @ ?supplies,
       t_transfers := t_transfers (tables w) @ [?tr], t_categories := cs\<rparr>\<rparr>"
    using r1 r2 r3 r4 by simp
  ultimately show ?thesis by (intro exI [of _ ?tr] exI [of _ cs] exI [of _ "emitted w'"]) simp
qed

lemma mapE_length: "mapE f xs = Inr ys \<Longrightarrow> length ys = length xs"
  by (induction xs arbitrary: ys) (auto simp: bindE_eq_Inr)

lemma getOutcomes_length: "getOutcomes env l = Inr infos \<Longrightarrow> length (oi_shareTokens infos) = oi_numOutcomes infos"
  by (auto simp: getOutcomes_def bindE_eq_Inr dest: mapE_length)

lemma callMarket_outcomes: "callMarket env l = Inr calls \<Longrightarrow>
    length (oi_shareTokens (mc_outcomes calls)) = oi_numOutcomes (mc_outcomes calls)"
  unfolding callMarket_def bindE_eq_Inr by (elim exE conjE) (auto dest: getOutcomes_length)

lemma tokenRows:
  assumes "length (oi_shareTokens infos) = oi_numOutcomes infos"
  shows "map tk_contractAddress (tokensDataToInsert l infos) = oi_shareTokens infos"
    "list_all (\<lambda>t. tk_marketId t = Some (lo_market l)) (tokensDataToInsert l infos)"
proof -
  show "map tk_contractAddress (tokensDataToInsert l infos) = oi_shareTokens infos"
    unfolding tokensDataToInsert_def map_map o_def by (simp add: assms [symmetric] map_nth)
  show "list_all (\<lambda>t. tk_marketId t = Some (lo_market l)) (tokensDataToInsert l infos)"
    by (auto simp: tokensDataToInsert_def list_all_iff)
qed

lemma filter_new: "list_all P xs \<Longrightarrow> list_all (\<lambda>y. \<not> P y) ys \<Longrightarrow> filter P (xs @ ys) = xs"
  by (induction xs) (auto simp: list_all_iff filter_empty_conv)

text \<open>The database after a market was created.\<close>

lemma createMarket_tables:
  assumes "createMarket env l calls w = (Inr (), w')"
  shows "\<exists>row tr cs. mk_marketId row = lo_market l \<and>
    list_all (\<lambda>m. mk_marketId m \<noteq> lo_market l) (t_markets (tables w)) \<and>
    tf_recipient tr = Some (lo_market l) \<and> tf_token tr = ETHER \<and>
    (\<forall>s \<in> set (t_token_supply (tables w)). ts_token s \<notin> set (oi_shareTokens (mc_outcomes calls))) \<and>
    tables w' = (tables w)
      \<lparr>t_market_state := t_market_state (tables w) @ [newState (lo_market l) (lg_blockNumber l) PRE_REPORTING w],
       next_marketStateId := next_marketStateId (tables w) + 1,
       t_markets := t_markets (tables w) @ [row],
       t_outcomes := t_outcomes (tables w) @ outcomesDataToInsert env l (mc_outcomes calls),
       t_tokens := t_tokens (tables w) @ tokensDataToInsert l (mc_outcomes calls),
       t_token_supply := t_token_supply (tables w) @
         map (\<lambda>a. \<lparr>ts_token = a, ts_supply = 0\<rparr>) (oi_shareTokens (mc_outcomes calls)),
       t_transfers := t_transfers (tables w) @ [tr], t_categories := cs\<rparr>"
proof -
  let ?n = "next_marketStateId (tables w)"
  obtain balance marketType w1 w2 where
    w1: "insertInto market_state (newState (lo_market l) (lg_blockNumber l) PRE_REPORTING w)
      (w\<lparr>tables := (tables w)\<lparr>next_marketStateId := ?n + 1\<rparr>\<rparr>) = (Inr (), w1)"
    and w2: "insertInto markets (marketsDataToInsert env l calls marketType balance ?n) w1 = (Inr (), w2)"
    and rest: "storeMarketData l calls (outcomesDataToInsert env l (mc_outcomes calls))
      (marketsDataToInsert env l calls marketType balance ?n) w2 = (Inr (), w')"
    using createMarket_run [OF assms] unfolding Let_def by (elim exE conjE) (rule that)
  let ?row = "marketsDataToInsert env l calls marketType balance ?n"
  have t2: "tables w2 = (tables w)\<lparr>t_market_state := t_market_state (tables w) @
        [newState (lo_market l) (lg_blockNumber l) PRE_REPORTING w], next_marketStateId := ?n + 1,
        t_markets := t_markets (tables w) @ [?row]\<rparr>"
    and new: "list_all (\<lambda>m. mk_marketId m \<noteq> lo_market l) (t_markets (tables w))"
    using w1 w2 by (auto simp: insertInto_eq_Inr markets_constraints(1) marketsDataToInsert_sel)
  obtain tr cs ev where tr: "tf_recipient tr = Some (lo_market l)" "tf_token tr = ETHER"
    and w': "w' = w2\<lparr>emitted := ev, tables := (tables w2)
      \<lparr>t_outcomes := t_outcomes (tables w2) @ outcomesDataToInsert env l (mc_outcomes calls),
       t_tokens := t_tokens (tables w2) @ tokensDataToInsert l (mc_outcomes calls),
       t_token_supply := t_token_supply (tables w2) @
         map (\<lambda>a. \<lparr>ts_token = a, ts_supply = 0\<rparr>) (oi_shareTokens (mc_outcomes calls)),
       t_transfers := t_transfers (tables w2) @ [tr], t_categories := cs\<rparr>\<rparr>"
    and noSupply: "\<forall>s \<in> set (t_token_supply (tables w2)). ts_token s \<notin> set (oi_shareTokens (mc_outcomes calls))"
    using storeMarketData_run [OF rest] by (elim exE conjE) (rule that)
  show ?thesis
    using new tr noSupply
    by (intro exI [of _ ?row] exI [of _ tr] exI [of _ cs]) (simp add: w' t2 marketsDataToInsert_sel)
qed

text \<open>C12. A new market starts in pre-reporting, and taking its creation back succeeds and leaves the database as
  it was, except for the category it may have added and the counter of the state rows, provided
  nothing in the database belonged to the market before.\<close>

theorem market_creation_rolls_back:
  assumes "processMarketCreatedLog env l = Inr add" "add w = (Inr (), w')"
    "unknownMarket (lo_market l) w"
  shows "stateHistory w' (lo_market l) = [PRE_REPORTING] \<and>
    (\<exists>w''. processMarketCreatedLogRemoval l w' = (Inr (), w'') \<and>
      tables w'' = (tables w)\<lparr>t_categories := t_categories (tables w'),
        next_marketStateId := next_marketStateId (tables w) + 1\<rparr>)"
proof -
  obtain calls where calls: "callMarket env l = Inr calls" "add = createMarket env l calls"
    using assms(1) by (auto simp: processMarketCreatedLog_def bindE_eq_Inr)
  let ?infos = "mc_outcomes calls"
  have run: "createMarket env l calls w = (Inr (), w')" using assms(2) calls(2) by simp
  obtain row tr cs where row: "mk_marketId row = lo_market l"
    and new: "list_all (\<lambda>m. mk_marketId m \<noteq> lo_market l) (t_markets (tables w))"
    and tr: "tf_recipient tr = Some (lo_market l)" "tf_token tr = ETHER"
    and noSupply: "\<forall>s \<in> set (t_token_supply (tables w)). ts_token s \<notin> set (oi_shareTokens ?infos)"
    and t: "tables w' = (tables w)
      \<lparr>t_market_state := t_market_state (tables w) @ [newState (lo_market l) (lg_blockNumber l) PRE_REPORTING w],
       next_marketStateId := next_marketStateId (tables w) + 1,
       t_markets := t_markets (tables w) @ [row],
       t_outcomes := t_outcomes (tables w) @ outcomesDataToInsert env l ?infos,
       t_tokens := t_tokens (tables w) @ tokensDataToInsert l ?infos,
       t_token_supply := t_token_supply (tables w) @ map (\<lambda>a. \<lparr>ts_token = a, ts_supply = 0\<rparr>) (oi_shareTokens ?infos),
       t_transfers := t_transfers (tables w) @ [tr], t_categories := cs\<rparr>"
    using createMarket_tables [OF run] by (elim exE conjE) (rule that)
  note rows = tokenRows [OF callMarket_outcomes [OF calls(1)], of l]
  have fresh: "list_all (\<lambda>u. oc_marketId u \<noteq> lo_market l) (t_outcomes (tables w))"
    "list_all (\<lambda>t. tk_marketId t \<noteq> Some (lo_market l)) (t_tokens (tables w))"
    "list_all (\<lambda>s. ms_marketId s \<noteq> lo_market l) (t_market_state (tables w))"
    "list_all (\<lambda>t. \<not> (tf_recipient t = Some (lo_market l) \<and> tf_token t = ETHER)) (t_transfers (tables w))"
    using assms(3) by (simp_all add: unknownMarket_def)
  have "filter (\<lambda>m. mk_marketId m \<noteq> lo_market l) (t_markets (tables w) @ [row]) = t_markets (tables w)"
    using new row by (intro filter_new) simp_all
  moreover have "filter (\<lambda>u. oc_marketId u \<noteq> lo_market l) (t_outcomes (tables w) @ outcomesDataToInsert env l ?infos) =
      t_outcomes (tables w)"
    using fresh(1) by (intro filter_new) (auto simp: outcomesDataToInsert_def list_all_iff)
  moreover have "filter (\<lambda>t. tk_marketId t \<noteq> Some (lo_market l)) (t_tokens (tables w) @ tokensDataToInsert l ?infos) =
      t_tokens (tables w)"
    using fresh(2) rows(2) by (intro filter_new) simp_all
  moreover have "filter (\<lambda>t. tk_marketId t = Some (lo_market l)) (t_tokens (tables w) @ tokensDataToInsert l ?infos) =
      tokensDataToInsert l ?infos"
    using fresh(2) rows(2) by (simp add: filter_empty_conv filter_id_conv list_all_iff)
  moreover have "filter (\<lambda>s. ts_token s \<notin> set (map tk_contractAddress (tokensDataToInsert l ?infos)))
      (t_token_supply (tables w) @
      map (\<lambda>a. \<lparr>ts_token = a, ts_supply = 0\<rparr>) (oi_shareTokens ?infos)) = t_token_supply (tables w)"
    unfolding rows(1) using noSupply by (intro filter_new) (auto simp: list_all_iff)
  moreover have "filter (\<lambda>s. ms_marketId s \<noteq> lo_market l) (t_market_state (tables w) @
      [newState (lo_market l) (lg_blockNumber l) PRE_REPORTING w]) = t_market_state (tables w)"
    using fresh(3) by (intro filter_new) simp_all
  moreover have "filter (\<lambda>t. \<not> (tf_recipient t = Some (lo_market l) \<and> tf_token t = ETHER))
      (t_transfers (tables w) @ [tr]) = t_transfers (tables w)"
    using fresh(4) tr by (intro filter_new) simp_all
  ultimately have "\<exists>w''. processMarketCreatedLogRemoval l w' = (Inr (), w'') \<and>
      tables w'' = (tables w)\<lparr>t_categories := cs, next_marketStateId := next_marketStateId (tables w) + 1\<rparr>"
    unfolding processMarketCreatedLogRemoval_def
    by (simp only: thenA_delete bindA_select emit_app markets_sel outcomes_sel tokens_sel token_supply_sel
        market_state_sel transfers_sel t) simp
  moreover have "filter (\<lambda>s. ms_marketId s = lo_market l) (t_market_state (tables w)) = []"
    using fresh(3) by (simp add: filter_empty_conv list_all_iff)
  then have "stateHistory w' (lo_market l) = [PRE_REPORTING]" by (simp add: stateHistory_def t)
  moreover have "t_categories (tables w') = cs" by (simp add: t)
  ultimately show ?thesis by simp
qed

section \<open>Forks\<close>

text \<open>The states from which a market of a forked universe goes back.\<close>

definition reverts :: "ReportingState option \<Rightarrow> bool" where
  "reverts s \<longleftrightarrow> s = Some AWAITING_FINALIZATION \<or> s = Some CROWDSOURCING_DISPUTE \<or> s = Some AWAITING_NEXT_WINDOW"

definition forkChanges :: "address \<Rightarrow> address \<Rightarrow> world \<Rightarrow> markets_row \<Rightarrow> ReportingState list" where
  "forkChanges universe forkingMarket w m =
     (if mk_marketId m = forkingMarket then [FORKING]
      else if mk_universe m = universe \<and> reverts (reportingStateOf w m) then [AWAITING_FORK_MIGRATION]
      else [])"

lemma reverting_step:
  assumes "ready_states w"
  shows "\<exists>w'. revertMarket env u b a w = (Inr (), w') \<and> ready_states w' \<and>
    stateHistory w' = (stateHistory w)(a := stateHistory w a @ [AWAITING_FORK_MIGRATION]) \<and>
    besideStates w' = besideStates w"
proof -
  let ?w1 = "stateChanged a b AWAITING_FORK_MIGRATION w"
  have w1: "updateMarketState a b AWAITING_FORK_MIGRATION w = (Inr (), ?w1)"
    using assms by (simp add: updateMarketState_run)
  obtain ev rs where w2: "revertMarket env u b a w =
      (Inr (), (?w1\<lparr>emitted := ev\<rparr>)\<lparr>tables := (tables ?w1)\<lparr>t_payouts := rs\<rparr>\<rparr>)"
  proof -
    have "\<exists>ev rs. revertMarket env u b a w =
        (Inr (), (?w1\<lparr>emitted := ev\<rparr>)\<lparr>tables := (tables ?w1)\<lparr>t_payouts := rs\<rparr>\<rparr>)"
      unfolding revertMarket_def
      by (simp add: thenA_ok [where m = "updateMarketState a b AWAITING_FORK_MIGRATION", OF w1]
          emitMarketState_def thenA_emit thenA_update bindA_select update_app payouts_constraints list_ex_iff
          del: stateChanged_sel) blast
    then show ?thesis using that by blast
  qed
  let ?w2 = "(?w1\<lparr>emitted := ev\<rparr>)\<lparr>tables := (tables ?w1)\<lparr>t_payouts := rs\<rparr>\<rparr>"
  have "besideStates ?w1 = besideStates w" by (simp add: besideStates_def stateChanged_def)
  then have "besideStates ?w2 = besideStates w" by (simp add: besideStates_def)
  moreover have "states_ok ?w2 = states_ok ?w1" "checked ?w2 = checked ?w1" "stateHistory ?w2 = stateHistory ?w1"
    by (simp_all add: states_ok_def checked_def stateHistory_def fun_eq_iff)
  ultimately show ?thesis
    using assms w2 by (simp add: stateChanged_ok stateChanged_history del: stateChanged_sel)
qed

text \<open>Which markets there are and in which universe.\<close>

definition marketPlaces :: "world \<Rightarrow> (address \<times> address) list" where
  "marketPlaces w = map (\<lambda>m. (mk_marketId m, mk_universe m)) (t_markets (tables w))"

lemma marketPlaces_update:
  assumes "\<And>m. mk_marketId (f m) = mk_marketId m" "\<And>m. mk_universe (f m) = mk_universe m"
  shows "unchanged marketPlaces (update markets P f)"
proof -
  have "map (\<lambda>m. (mk_marketId (if P m then f m else m), mk_universe (if P m then f m else m))) ms =
      map (\<lambda>m. (mk_marketId m, mk_universe m)) ms" for ms
    by (simp add: assms)
  then show ?thesis by (simp add: unchanged_def update_app marketPlaces_def o_def)
qed

lemma uncomplete_run:
  assumes "ready_states w"
  shows "\<exists>w'. uncompleteNonforkingCrowdsourcers u a w = (Inr (), w') \<and> t_market_state (tables w') = t_market_state (tables w)"
proof -
  let ?in = "\<lambda>m. mk_universe m = u \<and> mk_marketId m \<noteq> a"
  let ?ms = "filter ?in (t_markets (tables w))"
  obtain w1 where w1: "update crowdsourcers (\<lambda>c. cs_marketId c \<in> set (map mk_marketId ?ms))
      (\<lambda>c. c\<lparr>cs_completed := Some 0\<rparr>) w = (Inr (), w1)" "t_market_state (tables w1) = t_market_state (tables w)"
    by (simp add: update_app crowdsourcers_constraints list_ex_iff)
  have "preserves ready_states (update crowdsourcers (\<lambda>c. cs_marketId c \<in> set (map mk_marketId ?ms))
      (\<lambda>c. c\<lparr>cs_completed := Some 0\<rparr>))" by (intro kept)
  then have r1: "ready_states w1" using assms w1(1) by (rule preservesD)
  obtain w2 where w2: "update markets ?in (\<lambda>m. m\<lparr>mk_disputeRounds := None\<rparr>) w1 = (Inr (), w2)" "ready_states w2"
    "t_market_state (tables w2) = t_market_state (tables w1)"
    using update_markets_ok [OF r1, of "\<lambda>m. m\<lparr>mk_disputeRounds := None\<rparr>" ?in] by (auto simp: markets_constraints)
  let ?rs = "filter (\<lambda>r. True) (t_initial_reports (tables w2))"
  obtain w3 where w3: "update markets (\<lambda>m. mk_universe m = u \<and> mk_marketId m \<noteq> a \<and>
      mk_marketId m \<in> set (map ir_marketId ?rs)) (\<lambda>m. m\<lparr>mk_disputeRounds := Some 0\<rparr>) w2 = (Inr (), w3)"
    "t_market_state (tables w3) = t_market_state (tables w2)"
    using update_markets_ok [OF w2(2), of "\<lambda>m. m\<lparr>mk_disputeRounds := Some 0\<rparr>"
      "\<lambda>m. mk_universe m = u \<and> mk_marketId m \<noteq> a \<and> mk_marketId m \<in> set (map ir_marketId ?rs)"]
    by (auto simp: markets_constraints)
  have "uncompleteNonforkingCrowdsourcers u a w = (Inr (), w3)"
    unfolding uncompleteNonforkingCrowdsourcers_def bindA_select markets_sel
    by (simp only: thenA_ok w1(1) w2(1) w3(1) bindA_select initial_reports_sel)
  then show ?thesis using w1(2) w2(3) w3(2) by auto
qed

lemma forkUniverse_run:
  assumes "ready_states w" "markets.valid_table w"
  shows "\<exists>w'. forkUniverse env l (Some fm) w = (Inr (), w') \<and> ready_states w' \<and>
    (\<forall>m \<in> set (t_markets (tables w)). stateHistory w' (mk_marketId m) =
      stateHistory w (mk_marketId m) @ forkChanges (lo_universe l) fm w m)"
proof -
  let ?u = "lo_universe l"
  obtain w1 where w1: "update markets (\<lambda>m. mk_marketId m = fm) (\<lambda>m. m\<lparr>mk_forking := 1\<rparr>) w = (Inr (), w1)"
    "ready_states w1" "t_market_state (tables w1) = t_market_state (tables w)"
    using update_markets_ok [OF assms(1), of "\<lambda>m. m\<lparr>mk_forking := 1\<rparr>" "\<lambda>m. mk_marketId m = fm"]
    by (auto simp: markets_constraints)
  have p1: "marketPlaces w1 = marketPlaces w"
    using marketPlaces_update w1(1) by (rule unchangedD) simp_all
  obtain w2 where w2: "updateMarketState fm (lg_blockNumber l) FORKING w1 = (Inr (), w2)" "ready_states w2"
    "stateHistory w2 = (stateHistory w1)(fm := stateHistory w1 fm @ [FORKING])" "marketPlaces w2 = marketPlaces w1"
  proof -
    have "marketPlaces (stateChanged fm b FORKING w1) = marketPlaces w1" for b
      by (simp add: marketPlaces_def)
    then show ?thesis
      using that [of "stateChanged fm (lg_blockNumber l) FORKING w1"] w1(2)
      by (simp add: updateMarketState_run stateChanged_ok stateChanged_history del: stateChanged_sel)
  qed
  obtain ev where w3: "emitMarketState ?u fm FORKING w2 = (Inr (), w2\<lparr>emitted := ev\<rparr>)"
    by (simp add: emitMarketState_def emit_app)
  let ?w3 = "w2\<lparr>emitted := ev\<rparr>"
  obtain w4 where w4: "update markets (\<lambda>m. mk_universe m = ?u \<and> mk_marketId m \<noteq> fm)
      (\<lambda>m. m\<lparr>mk_needsDisavowal := mk_needsDisavowal m + 1\<rparr>) ?w3 = (Inr (), w4)"
    "ready_states w4" "t_market_state (tables w4) = t_market_state (tables ?w3)"
    using update_markets_ok [of ?w3 "\<lambda>m. m\<lparr>mk_needsDisavowal := mk_needsDisavowal m + 1\<rparr>"
        "\<lambda>m. mk_universe m = ?u \<and> mk_marketId m \<noteq> fm"] w2(2)
    by (auto simp: markets_constraints)
  have p4: "marketPlaces w4 = marketPlaces ?w3"
    using marketPlaces_update w4(1) by (rule unchangedD) simp_all
  obtain us where w5: "update universes (\<lambda>u. un_universe u = ?u) (\<lambda>u. u\<lparr>un_forked := True\<rparr>) w4 =
      (Inr (), w4\<lparr>tables := (tables w4)\<lparr>t_universes := us\<rparr>\<rparr>)"
    by (simp add: update_app universes_constraints list_ex_iff)
  let ?w5 = "w4\<lparr>tables := (tables w4)\<lparr>t_universes := us\<rparr>\<rparr>"
  have r5: "ready_states ?w5" "stateHistory ?w5 = stateHistory w4" "marketPlaces ?w5 = marketPlaces w4"
    using states_frame [of ?w5 w4] w4(2) by (simp_all add: marketPlaces_def)
  have h5: "stateHistory ?w5 = (stateHistory w)(fm := stateHistory w fm @ [FORKING])"
    using stateHistory_rows [OF w4(3)] stateHistory_rows [OF w1(3)] by (simp add: r5(2) w2(3))
  have p5: "marketPlaces ?w5 = marketPlaces w" using p1 w2(4) p4 r5(3) by (simp add: marketPlaces_def)
  let ?E = "map erase (t_markets (tables ?w5))"
  have places: "map (\<lambda>m. (mk_marketId m, mk_universe m)) ?E = map (\<lambda>m. (mk_marketId m, mk_universe m)) (t_markets (tables w))"
    using p5 by (simp add: marketPlaces_def o_def)
  have "sorted_wrt (\<lambda>x y. mk_marketId x \<noteq> mk_marketId y) (t_markets (tables w))"
    using assms(2) by (simp add: markets.valid_table_def markets_constraints(1))
  then have "sorted_wrt (\<lambda>x y. fst x \<noteq> fst y) (map (\<lambda>m. (mk_marketId m, mk_universe m)) (t_markets (tables w)))"
    by (simp add: sorted_wrt_map)
  then have keys: "sorted_wrt (\<lambda>x y. mk_marketId x \<noteq> mk_marketId y) ?E"
    unfolding places [symmetric] by (simp add: sorted_wrt_map)
  let ?Q = "\<lambda>m. mk_universe m = ?u \<and> (reportingStateOf ?w5 m = Some AWAITING_FINALIZATION \<or>
    reportingStateOf ?w5 m = Some CROWDSOURCING_DISPUTE \<or> reportingStateOf ?w5 m = Some AWAITING_NEXT_WINDOW)"
  let ?Q' = "\<lambda>m. mk_universe m = ?u \<and> reverts (topState ?w5 (mk_marketId m))"
  have "\<exists>w'. forA (filter ?Q (t_markets (tables ?w5))) (\<lambda>m. revertMarket env ?u (lg_blockNumber l) (mk_marketId m)) ?w5 =
      (Inr (), w') \<and> ready_states w' \<and> besideStates w' = besideStates ?w5 \<and>
      (\<forall>m \<in> set ?E. stateHistory w' (mk_marketId m) = stateHistory ?w5 (mk_marketId m) @
        (if ?Q' m then [AWAITING_FORK_MIGRATION] else []))"
  proof (rule stage [where F = besideStates])
    show "ready_states ?w5" by (rule r5(1))
    show "map erase (t_markets (tables ?w5)) = ?E" ..
    show "sorted_wrt (\<lambda>x y. mk_marketId x \<noteq> mk_marketId y) ?E" by (rule keys)
    fix x
    assume x: "x \<in> set (t_markets (tables ?w5))"
    have "reportingStateOf ?w5 x = topState ?w5 (mk_marketId (erase x))"
      unfolding erase_sel by (rule current_state [OF conjunct1 [OF r5(1)] x])
    then show "?Q x = ?Q' (erase x)" by (simp only: erase_sel reverts_def)
  qed (rule reverting_step)
  then obtain w6 where w6: "forA (filter ?Q (t_markets (tables ?w5)))
      (\<lambda>m. revertMarket env ?u (lg_blockNumber l) (mk_marketId m)) ?w5 = (Inr (), w6)" "ready_states w6"
    "\<And>m. m \<in> set ?E \<Longrightarrow> stateHistory w6 (mk_marketId m) = stateHistory ?w5 (mk_marketId m) @
        (if ?Q' m then [AWAITING_FORK_MIGRATION] else [])"
    by blast
  obtain w7 where w7: "uncompleteNonforkingCrowdsourcers ?u fm w6 = (Inr (), w7)"
    "t_market_state (tables w7) = t_market_state (tables w6)"
    using uncomplete_run [OF w6(2)] by blast
  have run: "forkUniverse env l (Some fm) w = (Inr (), w7)"
    unfolding forkUniverse_def orThrow_Some bindA_return getMarketsWithReportingState_def
    by (simp only: thenA_ok w1(1) w2(1) w3 w4(1) w5 bindA_gets w6(1) w7(1))
  have "ready_states w7" using universe_logs_kept(3) assms(1) run by (rule preservesD)
  moreover have "stateHistory w7 (mk_marketId m) = stateHistory w (mk_marketId m) @ forkChanges ?u fm w m"
    if m: "m \<in> set (t_markets (tables w))" for m
  proof -
    have "(mk_marketId m, mk_universe m) \<in> set (map (\<lambda>m. (mk_marketId m, mk_universe m)) ?E)"
      unfolding places using m by auto
    then have "\<exists>e \<in> set ?E. (mk_marketId m, mk_universe m) = (mk_marketId e, mk_universe e)"
      unfolding set_map [of "\<lambda>m. (mk_marketId m, mk_universe m)"] image_iff .
    then obtain e where e: "e \<in> set ?E" "mk_marketId e = mk_marketId m" "mk_universe e = mk_universe m"
      unfolding prod.inject by metis
    have "stateHistory w7 (mk_marketId m) = stateHistory ?w5 (mk_marketId m) @
        (if mk_universe m = ?u \<and> reverts (topState ?w5 (mk_marketId m)) then [AWAITING_FORK_MIGRATION] else [])"
      using w6(3) [OF e(1)] unfolding e stateHistory_rows [OF w7(2)] .
    then show ?thesis
      using current_state [OF conjunct1 [OF assms(1)] m]
      by (auto simp: h5 forkChanges_def reverts_def)
  qed
  ultimately show ?thesis using run by blast
qed

text \<open>C11. When a universe forks, the forking market enters the forking state, every other market of the universe
  that was being disputed or waiting goes back to await its migration, and the state of no other
  market changes.\<close>

theorem fork_moves_markets:
  assumes "ready_states w" "markets.valid_table w" "getForkingMarket env (lo_universe l) = Inr (Some fm)"
  shows "\<exists>add w'. processUniverseForkedLog env l = Inr add \<and> add w = (Inr (), w') \<and>
    (\<forall>m \<in> set (t_markets (tables w)). stateHistory w' (mk_marketId m) =
      stateHistory w (mk_marketId m) @ forkChanges (lo_universe l) fm w m)"
  using forkUniverse_run [OF assms(1,2), of env l fm] assms(3) by (auto simp: processUniverseForkedLog_def)

section \<open>Examples\<close>

theorem fork_moves_markets_witness:
  "\<exists>add w'. processUniverseForkedLog (sample_env\<lparr>getForkingMarket := \<lambda>_. Inr (Some ''m'')\<rparr>) report_log = Inr add \<and>
     add reporting_world = (Inr (), w') \<and> stateHistory w' ''m'' = [PRE_REPORTING, FORKING]"
proof -
  let ?env = "sample_env\<lparr>getForkingMarket := \<lambda>_. Inr (Some ''m'')\<rparr>"
  have m: "mk_marketId sample_market = ''m''" by (simp add: sample_market_def)
  have r: "ready_states reporting_world" using reporting_world_ok(1,2) by simp
  have "getForkingMarket ?env (lo_universe report_log) = Inr (Some ''m'')" by simp
  then show ?thesis
    using fork_moves_markets [OF r reporting_world_ok(5), of ?env report_log "''m''"]
    by (auto simp: forkChanges_def m reporting_world_history)
qed

text \<open>An empty database in which the address of a new yes/no market already holds REP.\<close>

definition market_log :: event_log where
  "market_log = sample_log\<lparr>lo_market := ''m'', lo_universe := ''u'', lo_maxPrice := 1, lo_topic := ''C''\<rparr>"

definition market_env :: env where
  "market_env = sample_env\<lparr>getShareToken := \<lambda>a i. Inr (CHR ''s'' # (if i = 0 then ''0'' else ''1''))\<rparr>"

definition rep_world :: world where
  "rep_world = empty_world\<lparr>tables := empty_db
     \<lparr>t_tokens := [\<lparr>tk_contractAddress = ''rep'', tk_symbol = ''REP'', tk_marketId = None,
        tk_outcome = None, tk_feeWindow = None\<rparr>],
      t_balances := [\<lparr>bl_owner = ''m'', bl_token = ''rep'', bl_balance = 0\<rparr>]\<rparr>\<rparr>"

lemma rep_world_sel [simp]:
  "t_tokens (tables rep_world) = [\<lparr>tk_contractAddress = ''rep'', tk_symbol = ''REP'', tk_marketId = None,
     tk_outcome = None, tk_feeWindow = None\<rparr>]"
  "t_balances (tables rep_world) = [\<lparr>bl_owner = ''m'', bl_token = ''rep'', bl_balance = 0\<rparr>]"
  "t_markets (tables rep_world) = []" "t_market_state (tables rep_world) = []" "t_outcomes (tables rep_world) = []"
  "t_token_supply (tables rep_world) = []" "t_transfers (tables rep_world) = []" "t_categories (tables rep_world) = []"
  by (simp_all add: rep_world_def empty_world_def empty_db_def)

lemma rep_world_created:
  "\<exists>add w'. processMarketCreatedLog market_env market_log = Inr add \<and> add rep_world = (Inr (), w')"
proof -
  have two: "[0..<2] = [0, Suc 0]" "replicate 2 (None :: string option) = [None, None]"
    by (simp_all add: upt_rec numeral_2_eq_2)
  have "\<exists>calls. callMarket market_env market_log = Inr calls \<and> mc_numTicks calls = 0 \<and>
      mc_validityBondAttoeth calls = 0 \<and> mc_marketCreatorSettlementFeeDivisor calls = 0 \<and>
      mc_reportingFeeDivisor calls = 0 \<and>
      mc_outcomes calls = \<lparr>oi_numOutcomes = 2, oi_outcomeNames = [None, None], oi_shareTokens = [''s0'', ''s1'']\<rparr>"
    by (simp add: callMarket_def getOutcomes_def market_env_def market_log_def sample_env_def sample_log_def two)
  then obtain calls where calls: "callMarket market_env market_log = Inr calls" "mc_numTicks calls = 0"
    "mc_validityBondAttoeth calls = 0" "mc_marketCreatorSettlementFeeDivisor calls = 0"
    "mc_reportingFeeDivisor calls = 0"
    "mc_outcomes calls = \<lparr>oi_numOutcomes = 2, oi_outcomeNames = [None, None], oi_shareTokens = [''s0'', ''s1'']\<rparr>"
    by blast
  have l: "lo_market market_log = ''m''" "lo_marketType market_log = 0" "lo_marketCreationFee market_log = 0"
    by (simp_all add: market_log_def sample_log_def)
  have dv: "convertFixedPointToDecimal (en_dv market_env) 0 BN_WEI_PER_ETHER = 0"
    by (simp add: convertFixedPointToDecimal_def fixedPointToDecimal_def market_env_def sample_env_def
        bn_div_def bn_round_exact)
  have check: "tcheck markets (marketsDataToInsert market_env market_log calls t 0 i)" for t i
    unfolding markets_constraints marketsDataToInsert_def Let_def
    by (simp add: l calls convertDivisorToRate_def dv)
  have data: "outcomesDataToInsert market_env market_log (mc_outcomes calls) = map (\<lambda>i.
      \<lparr>oc_marketId = ''m'', oc_outcome = int i, oc_price = bn_div 1 2, oc_volume = 0, oc_shareVolume = 0,
        oc_description = [None, None] ! i, oc_spreadPercent = 1, oc_invalidROIPercent = 0,
        oc_bestBidTakerInvalidProfitTokens = 0, oc_bestAskTakerInvalidProfitTokens = 0\<rparr>) [0, Suc 0]"
    by (simp add: outcomesDataToInsert_def calls two market_env_def market_log_def sample_env_def sample_log_def)
  have store: "\<exists>w'. storeMarketData market_log calls (outcomesDataToInsert market_env market_log (mc_outcomes calls))
      row w = (Inr (), w')"
    if "t_outcomes (tables w) = []" "t_tokens (tables w) = t_tokens (tables rep_world)"
      "t_token_supply (tables w) = []" "t_transfers (tables w) = []" "t_categories (tables w) = []" for row w
    unfolding data storeMarketData_def tokensDataToInsert_def batchInsert_def
    by (simp add: that calls two act_simps table_simps emit_app createCategoryIfNotExists_def thenA_insertInto
        insertInto_def outcomes_constraints tokens_constraints token_supply_constraints transfers_constraints
        categories_constraints thenA_def bindA_def return_def)
  have "marketTypeName 0 = Some ''yesNo''" by (simp add: marketTypeName_def)
  moreover have "0 < oi_numOutcomes infos" if "infos = mc_outcomes calls" for infos
    by (simp add: that calls)
  note this [OF refl]
  ultimately show ?thesis
    unfolding processMarketCreatedLog_def calls(1)
    by (simp add: createMarket_def newMarketStateId_def repBalance_def act_simps l table_simps Let_def
        market_state_constraints(2) check store)
qed

theorem market_creation_rolls_back_witness:
  "\<exists>add w' w''. processMarketCreatedLog market_env market_log = Inr add \<and> add rep_world = (Inr (), w') \<and>
     stateHistory w' ''m'' = [PRE_REPORTING] \<and> processMarketCreatedLogRemoval market_log w' = (Inr (), w'') \<and>
     t_markets (tables w'') = []"
proof -
  have m: "lo_market market_log = ''m''" by (simp add: market_log_def sample_log_def)
  have "unknownMarket ''m'' rep_world" by (simp add: unknownMarket_def)
  moreover obtain add w' where run: "processMarketCreatedLog market_env market_log = Inr add" "add rep_world = (Inr (), w')"
    using rep_world_created by blast
  ultimately show ?thesis
    using market_creation_rolls_back [OF run] unfolding m by auto
qed

end
