(* ===== verification/Ledger.thy ===== *)
theory Ledger
  imports Table Bignum
begin

text \<open>
  Tables that hold an amount per key, as token balances and token supplies do. \<open>amount_table\<close>
  extends the contract of tables: a row is determined by its key and its amount, two rows clash
  when their keys are equal, and the check of a row depends on its amount only. Crediting and
  debiting a key are then described by \<open>amount\<close>, the amount of a key with 0 for a missing row, and
  \<open>total\<close>, the sum of the amounts over a set of keys.
\<close>

locale amount_table = table_laws T for T :: "('w, 'r) table" +
  fixes key :: "'r \<Rightarrow> 'k" and amt :: "'r \<Rightarrow> bn" and row :: "'k \<Rightarrow> bn \<Rightarrow> 'r"
    and good :: "bn \<Rightarrow> bool"
  assumes key_row: "key (row k a) = k" and amt_row: "amt (row k a) = a"
    and row_eta: "row (key r) (amt r) = r"
    and clash: "tclash T x y \<longleftrightarrow> key x = key y"
    and check: "tcheck T r \<longleftrightarrow> good (amt r)"
begin

definition has :: "'w \<Rightarrow> 'k \<Rightarrow> bool" where
  "has w k \<longleftrightarrow> list_ex (\<lambda>r. key r = k) (tget T w)"

definition amount :: "'w \<Rightarrow> 'k \<Rightarrow> bn" where
  "amount w k = (case find (\<lambda>r. key r = k) (tget T w) of None \<Rightarrow> 0 | Some r \<Rightarrow> amt r)"

definition total :: "'w \<Rightarrow> ('k \<Rightarrow> bool) \<Rightarrow> bn" where
  "total w P = sum_list (map amt (filter (\<lambda>r. P (key r)) (tget T w)))"

definition put :: "'k \<Rightarrow> bn \<Rightarrow> 'w \<Rightarrow> 'w" where
  "put k b w = tput T (if has w k then map (\<lambda>r. if key r = k then row k b else r) (tget T w)
                       else tget T w @ [row k b]) w"

definition credit :: "'k \<Rightarrow> bn \<Rightarrow> ('w, unit) act" where
  "credit k a = bindA (first T (\<lambda>r. key r = k)) (\<lambda>old. case old of
     None \<Rightarrow> insertInto T (row k a)
   | Some r \<Rightarrow> update T (\<lambda>r. key r = k) (\<lambda>r'. row (key r') (amt r + a)))"

definition debit :: "error \<Rightarrow> 'k \<Rightarrow> bn \<Rightarrow> ('w, unit) act" where
  "debit e k a = bindA (first T (\<lambda>r. key r = k)) (\<lambda>old.
     if a = 0 then return ()
     else bindA (orThrow e old) (\<lambda>r. update T (\<lambda>r. key r = k) (\<lambda>r'. row (key r') (amt r - a))))"

lemma has_find: "has w k \<longleftrightarrow> find (\<lambda>r. key r = k) (tget T w) \<noteq> None"
  by (auto simp: has_def find_None_iff list_ex_iff)

lemma amount_missing: "\<not> has w k \<Longrightarrow> amount w k = 0"
  by (simp add: has_find amount_def)

lemma find_put:
  "find (\<lambda>r. key r = j) (map (\<lambda>r. if key r = k then row k b else r) rs) =
    (if j = k then map_option (\<lambda>_. row k b) (find (\<lambda>r. key r = k) rs)
     else find (\<lambda>r. key r = j) rs)"
  by (induction rs) (auto simp: key_row)

lemma has_put: "has (put k b w) j \<longleftrightarrow> j = k \<or> has w j"
proof (cases "has w k")
  case True
  then have "tget T (put k b w) = map (\<lambda>r. if key r = k then row k b else r) (tget T w)"
    by (simp add: put_def get_put)
  with True show ?thesis by (auto simp: has_find find_put)
next
  case False
  then show ?thesis by (auto simp: has_def put_def get_put key_row)
qed

lemma amount_put: "amount (put k b w) j = (if j = k then b else amount w j)"
proof (cases "has w k")
  case True
  then show ?thesis by (auto simp: put_def amount_def get_put find_put amt_row has_find)
next
  case False
  then show ?thesis
    by (auto simp: put_def amount_def get_put find_append amt_row key_row has_find
        split: option.splits)
qed

lemma replace_missing:
  "\<not> has w k \<Longrightarrow> map (\<lambda>r. if key r = k then row k b else r) (tget T w) = tget T w"
  by (rule map_idI) (auto simp: has_def list_ex_iff)

lemma put_twice: "put k b (put k a w) = put k b w"
proof (cases "has w k")
  case True
  have "map (\<lambda>r. if key r = k then row k b else r)
      (map (\<lambda>r. if key r = k then row k a else r) (tget T w)) =
      map (\<lambda>r. if key r = k then row k b else r) (tget T w)"
    by (simp add: key_row)
  then have "tput T (map (\<lambda>r. if key r = k then row k b else r)
      (map (\<lambda>r. if key r = k then row k a else r) (tget T w))) w =
      tput T (map (\<lambda>r. if key r = k then row k b else r) (tget T w)) w" by (rule arg_cong)
  with True show ?thesis
    by (simp add: put_def [of k b "put k a w"] has_put del: map_map map_eq_conv)
      (simp add: put_def get_put put_put del: map_map map_eq_conv)
next
  case False
  then show ?thesis
    by (simp add: put_def [of k b "put k a w"] has_put)
      (simp add: put_def get_put put_put key_row replace_missing)
qed

lemma update_key:
  assumes "has w k"
  shows "update T (\<lambda>r. key r = k) (\<lambda>r. row (key r) b) w = (Inr (), w') \<longleftrightarrow>
    good b \<and> w' = put k b w"
proof -
  have "map (\<lambda>r. if key r = k then row (key r) b else r) (tget T w) =
      map (\<lambda>r. if key r = k then row k b else r) (tget T w)" by (rule map_cong) auto
  moreover have "list_all (\<lambda>r. key r = k \<longrightarrow> tcheck T (row (key r) b)) (tget T w) \<longleftrightarrow> good b"
    using assms by (auto simp: list_all_iff has_def list_ex_iff check amt_row)
  ultimately show ?thesis
    using assms by (simp add: update_eq_Inr put_def del: map_eq_conv)
qed

lemma credit_run:
  "credit k a w = (Inr (), w') \<longleftrightarrow> good (amount w k + a) \<and> w' = put k (amount w k + a) w"
proof (cases "find (\<lambda>r. key r = k) (tget T w)")
  case None
  then have "list_all (\<lambda>x. key x \<noteq> k) (tget T w)"
    by (simp add: find_None_iff list_all_iff)
  with None show ?thesis
    by (auto simp: credit_def table_simps insertInto_eq_Inr amount_def put_def has_find clash check
        key_row amt_row)
next
  case (Some r)
  then have "has w k" "amount w k = amt r" by (simp_all add: has_find amount_def)
  with Some show ?thesis
    by (simp add: credit_def bindA_first update_key)
qed

lemma debit_run:
  "debit e k a w = (Inr (), w') \<longleftrightarrow>
    (if a = 0 then w' = w
     else has w k \<and> good (amount w k - a) \<and> w' = put k (amount w k - a) w)"
proof (cases "find (\<lambda>r. key r = k) (tget T w)")
  case None
  then show ?thesis by (auto simp: debit_def table_simps act_simps has_find)
next
  case (Some r)
  then have "has w k" "amount w k = amt r" by (simp_all add: has_find amount_def)
  with Some show ?thesis
    by (auto simp: debit_def bindA_first update_key return_app)
qed

lemma amount_good: "valid_table w \<Longrightarrow> has w k \<Longrightarrow> good (amount w k)"
  by (auto simp: valid_table_def amount_def has_find list_all_iff check dest: find_SomeD)

section \<open>Totals\<close>

lemma distinct_replace:
  "sorted_wrt (\<lambda>x y. key x \<noteq> key y) (map (\<lambda>r. if key r = k then row k b else r) rs) \<longleftrightarrow>
    sorted_wrt (\<lambda>x y. key x \<noteq> key y) rs"
proof -
  have "key (if key r = k then row k b else r) = key r" for r by (simp add: key_row)
  then show ?thesis by (simp add: sorted_wrt_map)
qed

lemma put_valid:
  assumes "valid_table w" "good b" shows "valid_table (put k b w)"
proof (cases "has w k")
  case True
  then have "tget T (put k b w) = map (\<lambda>r. if key r = k then row k b else r) (tget T w)"
    by (simp add: put_def get_put)
  with assms show ?thesis
    by (simp add: valid_table_def clash check list_all_iff distinct_replace) (auto simp: amt_row)
next
  case False
  then have "tget T (put k b w) = tget T w @ [row k b]" by (simp add: put_def get_put)
  moreover have "\<forall>x \<in> set (tget T w). key x \<noteq> k" using False by (auto simp: has_def list_ex_iff)
  ultimately show ?thesis
    using assms by (simp add: valid_table_def clash check amt_row key_row sorted_wrt_append)
qed

lemma sum_map_replace:
  assumes "sorted_wrt (\<lambda>x y. key x \<noteq> key y) rs"
  shows "sum_list (map amt (filter (\<lambda>r. P (key r)) (map (\<lambda>r. if key r = k then row k b else r) rs)))
    = sum_list (map amt (filter (\<lambda>r. P (key r)) rs))
      + (case find (\<lambda>r. key r = k) rs of None \<Rightarrow> 0 | Some r \<Rightarrow> if P k then b - amt r else 0)"
  using assms
proof (induction rs)
  case (Cons r rs)
  show ?case
  proof (cases "key r = k")
    case True
    with Cons.prems have "map (\<lambda>r. if key r = k then row k b else r) rs = rs"
      by (intro map_idI) auto
    with True show ?thesis by (simp add: key_row amt_row)
  next
    case False
    with Cons show ?thesis by (simp add: algebra_simps)
  qed
qed simp

lemma total_put:
  assumes "valid_table w"
  shows "total (put k b w) P = total w P + (if P k then b - amount w k else 0)"
proof (cases "has w k")
  case True
  then obtain r where "find (\<lambda>r. key r = k) (tget T w) = Some r" by (auto simp: has_find)
  with True assms sum_map_replace [of "tget T w" P k b] show ?thesis
    by (simp add: total_def put_def get_put amount_def valid_table_def clash)
next
  case False
  then show ?thesis
    by (simp add: total_def put_def get_put amount_missing key_row amt_row)
qed

end

end
