(* ===== verification/Tokens.thy ===== *)
theory Tokens
  imports Environment Profit_Loss Ledger
begin

text \<open>
  \<open>src/blockchain/log-processors/token\<close> and \<open>tokens-transferred.ts\<close>: the ledger of token balances and
  supplies that mints, burns and transfers maintain, and the approvals.

  First the operations as the source has them, with the outcome of every branch. Then the ledger:
  the balance of an owner is what transfers brought in less what they took out, the supply is what
  was minted less what was burned, and it is the sum of the balances. Last, removing a log after
  a reorganisation restores the ledger (\<open>token_logs\<close>, an interpretation of \<open>log_processor\<close>).
\<close>

section \<open>Balances and supplies\<close>

definition isLegacyReputationToken :: "env \<Rightarrow> address \<Rightarrow> bool" where
  "isLegacyReputationToken env token \<longleftrightarrow> token = LegacyReputationToken env"

definition increaseTokenBalance :: "env \<Rightarrow> address \<Rightarrow> address \<Rightarrow> bn \<Rightarrow> unit action" where
  "increaseTokenBalance env token owner amount =
     (if isLegacyReputationToken env token then return ()
      else bindA (first balances (\<lambda>r. bl_token r = token \<and> bl_owner r = owner)) (\<lambda>oldBalance.
        case oldBalance of
          None \<Rightarrow> insertInto balances \<lparr>bl_owner = owner, bl_token = token, bl_balance = amount\<rparr>
        | Some old \<Rightarrow> update balances (\<lambda>r. bl_token r = token \<and> bl_owner r = owner)
            (\<lambda>r. r\<lparr>bl_balance := bl_balance old + amount\<rparr>)))"

definition decreaseTokenBalance :: "env \<Rightarrow> address \<Rightarrow> address \<Rightarrow> bn \<Rightarrow> unit action" where
  "decreaseTokenBalance env token owner amount =
     (if isLegacyReputationToken env token then return ()
      else bindA (first balances (\<lambda>r. bl_token r = token \<and> bl_owner r = owner)) (\<lambda>oldBalance.
        if amount = 0 then return ()
        else bindA (orThrow (Thrown ''Could not find balance for token decrease'') oldBalance) (\<lambda>old.
          update balances (\<lambda>r. bl_token r = token \<and> bl_owner r = owner)
            (\<lambda>r. r\<lparr>bl_balance := bl_balance old - amount\<rparr>))))"

definition increaseTokenSupply :: "address \<Rightarrow> bn \<Rightarrow> unit action" where
  "increaseTokenSupply token amount =
     bindA (first token_supply (\<lambda>r. ts_token r = token)) (\<lambda>oldSupply.
       case oldSupply of
         None \<Rightarrow> insertInto token_supply \<lparr>ts_token = token, ts_supply = amount\<rparr>
       | Some old \<Rightarrow> update token_supply (\<lambda>r. ts_token r = token)
           (\<lambda>r. r\<lparr>ts_supply := ts_supply old + amount\<rparr>))"

definition decreaseTokenSupply :: "address \<Rightarrow> bn \<Rightarrow> unit action" where
  "decreaseTokenSupply token amount =
     bindA (first token_supply (\<lambda>r. ts_token r = token)) (\<lambda>oldSupply.
       if amount = 0 then return ()
       else bindA (orThrow (Thrown ''Could not find supply for token decrease'') oldSupply) (\<lambda>old.
         update token_supply (\<lambda>r. ts_token r = token)
           (\<lambda>r. r\<lparr>ts_supply := ts_supply old - amount\<rparr>)))"

section \<open>Log processors\<close>

text \<open>\<open>log.amount || log.value\<close>, \<open>log.value || log.amount\<close> and \<open>log.token || log.address\<close>.\<close>

definition mintedAmount :: "event_log \<Rightarrow> bn result" where
  "mintedAmount l = (case lo_amount l of Some a \<Rightarrow> Inr a | None \<Rightarrow>
     (case lo_value l of Some v \<Rightarrow> Inr v | None \<Rightarrow> Inl (JsTypeError ''NaN'')))"

definition transferredAmount :: "event_log \<Rightarrow> bn result" where
  "transferredAmount l = (case lo_value l of Some v \<Rightarrow> Inr v | None \<Rightarrow>
     (case lo_amount l of Some a \<Rightarrow> Inr a | None \<Rightarrow> Inl (JsTypeError ''NaN'')))"

definition tokenOfLog :: "event_log \<Rightarrow> address" where
  "tokenOfLog l = (case lo_token l of Some t \<Rightarrow> t | None \<Rightarrow> lg_address l)"

definition transferRow :: "event_log \<Rightarrow> address option \<Rightarrow> address option \<Rightarrow> bn \<Rightarrow> transfers_row" where
  "transferRow l sender recipient v = \<lparr>tf_transactionHash = lg_transactionHash l,
     tf_logIndex = lg_logIndex l, tf_sender = sender, tf_recipient = recipient,
     tf_token = tokenOfLog l, tf_value = v, tf_blockNumber = lg_blockNumber l\<rparr>"

definition transferData :: "transfers_row \<Rightarrow> (string \<times> js_value) list" where
  "transferData r =
     [(''sender'', case tf_sender r of Some a \<Rightarrow> VS a | None \<Rightarrow> VNull),
      (''recipient'', case tf_recipient r of Some a \<Rightarrow> VS a | None \<Rightarrow> VNull),
      (''value'', VN (tf_value r)), (''token'', VS (tf_token r))]"

definition isTransferOf :: "event_log \<Rightarrow> transfers_row \<Rightarrow> bool" where
  "isTransferOf l r \<longleftrightarrow>
     tf_transactionHash r = lg_transactionHash l \<and> tf_logIndex r = lg_logIndex l"

definition processMintLog :: "env \<Rightarrow> event_log \<Rightarrow> unit action" where
  "processMintLog env l =
     bindA (liftR (mintedAmount l)) (\<lambda>v.
     thenA (insertInto transfers (transferRow l None (Some (lo_target l)) v))
    (thenA (increaseTokenSupply (tokenOfLog l) v)
           (increaseTokenBalance env (tokenOfLog l) (lo_target l) v)))"

definition processMintLogRemoval :: "env \<Rightarrow> event_log \<Rightarrow> unit action" where
  "processMintLogRemoval env l =
     bindA (liftR (mintedAmount l)) (\<lambda>v.
     thenA (delete transfers (isTransferOf l))
    (thenA (decreaseTokenSupply (tokenOfLog l) v)
    (thenA (decreaseTokenBalance env (tokenOfLog l) (lo_target l) v)
           (updateProfitLossRemoveRow (lg_transactionHash l)))))"

definition processBurnLog :: "env \<Rightarrow> event_log \<Rightarrow> unit action" where
  "processBurnLog env l =
     bindA (liftR (mintedAmount l)) (\<lambda>v.
     let tokenBurnDataToInsert = transferRow l (Some (lo_target l)) None v in
     thenA (emit (lg_eventName l) (Some l) (transferData tokenBurnDataToInsert))
    (thenA (insertInto transfers tokenBurnDataToInsert)
    (thenA (decreaseTokenSupply (tokenOfLog l) v)
           (decreaseTokenBalance env (tokenOfLog l) (lo_target l) v))))"

definition processBurnLogRemoval :: "env \<Rightarrow> event_log \<Rightarrow> unit action" where
  "processBurnLogRemoval env l =
     bindA (liftR (mintedAmount l)) (\<lambda>v.
     thenA (emit (lg_eventName l) (Some l) [])
    (thenA (delete transfers (isTransferOf l))
    (thenA (increaseTokenSupply (tokenOfLog l) v)
    (thenA (increaseTokenBalance env (tokenOfLog l) (lo_target l) v)
           (updateProfitLossRemoveRow (lg_transactionHash l))))))"

definition processTokensTransferredLog :: "env \<Rightarrow> event_log \<Rightarrow> unit action" where
  "processTokensTransferredLog env l =
     bindA (liftR (transferredAmount l)) (\<lambda>v.
     let tokenTransferDataToInsert = transferRow l (Some (lo_from l)) (Some (lo_to l)) v in
     thenA (insertInto transfers tokenTransferDataToInsert)
    (thenA (emit ''TokensTransferred'' (Some l) (transferData tokenTransferDataToInsert))
    (thenA (increaseTokenBalance env (tokenOfLog l) (lo_to l) v)
           (decreaseTokenBalance env (tokenOfLog l) (lo_from l) v))))"

definition processTokensTransferredLogRemoval :: "env \<Rightarrow> event_log \<Rightarrow> unit action" where
  "processTokensTransferredLogRemoval env l =
     thenA (delete transfers (isTransferOf l))
    (thenA (emit ''TokensTransferred'' (Some l) [])
    (bindA (liftR (transferredAmount l)) (\<lambda>v.
     thenA (increaseTokenBalance env (tokenOfLog l) (lo_from l) v)
    (thenA (decreaseTokenBalance env (tokenOfLog l) (lo_to l) v)
           (updateProfitLossRemoveRow (lg_transactionHash l))))))"

definition approvalRow :: "event_log \<Rightarrow> bn \<Rightarrow> approvals_row" where
  "approvalRow l v = \<lparr>ap_transactionHash = lg_transactionHash l, ap_logIndex = lg_logIndex l,
     ap_owner = lo_owner l, ap_spender = lo_spender l, ap_token = lg_address l, ap_value = v,
     ap_blockNumber = lg_blockNumber l\<rparr>"

definition processApprovalLog :: "event_log \<Rightarrow> unit action" where
  "processApprovalLog l =
     bindA (orThrow (JsTypeError ''NaN'') (lo_value l)) (\<lambda>v.
     thenA (emit (lg_eventName l) (Some l)
              [(''token'', VS (lg_address l)), (''owner'', VS (lo_owner l)),
               (''spender'', VS (lo_spender l)), (''value'', VN v)])
           (insertInto approvals (approvalRow l v)))"

definition processApprovalLogRemoval :: "event_log \<Rightarrow> unit action" where
  "processApprovalLogRemoval l =
     thenA (emit (lg_eventName l) (Some l) [])
           (delete approvals (\<lambda>r. ap_transactionHash r = lg_transactionHash l \<and>
              ap_logIndex r = lg_logIndex l))"

section \<open>The ledger\<close>

text \<open>
  Balances and supplies are tables of amounts, keyed by token and owner and by token. The
  operations of the source are their credits and debits.
\<close>

interpretation bal: amount_table balances "\<lambda>r. (bl_token r, bl_owner r)" bl_balance
  "\<lambda>(t, ow) a. \<lparr>bl_owner = ow, bl_token = t, bl_balance = a\<rparr>" "\<lambda>a. 0 \<le> a"
  by unfold_locales (auto simp: balances_def)

interpretation sup: amount_table token_supply ts_token ts_supply
  "\<lambda>t a. \<lparr>ts_token = t, ts_supply = a\<rparr>" "\<lambda>a. True"
  by unfold_locales (auto simp: token_supply_def)

abbreviation balance_of :: "world \<Rightarrow> address \<Rightarrow> address \<Rightarrow> bn" where
  "balance_of w token owner \<equiv> bal.amount w (token, owner)"

abbreviation supply_of :: "world \<Rightarrow> address \<Rightarrow> bn" where
  "supply_of w token \<equiv> sup.amount w token"

lemma increaseTokenBalance_credit:
  "increaseTokenBalance env token owner a =
    (if isLegacyReputationToken env token then return () else bal.credit (token, owner) a)"
proof -
  have [simp]: "bl_balance_update (\<lambda>_. b) = (\<lambda>r. \<lparr>bl_owner = bl_owner r, bl_token = bl_token r,
      bl_balance = b\<rparr>)" for b by (rule ext) simp
  show ?thesis
    by (rule ext) (simp add: increaseTokenBalance_def bal.credit_def table_simps split: option.split)
qed

lemma decreaseTokenBalance_debit:
  "decreaseTokenBalance env token owner a =
    (if isLegacyReputationToken env token then return ()
     else bal.debit (Thrown ''Could not find balance for token decrease'') (token, owner) a)"
proof -
  have [simp]: "bl_balance_update (\<lambda>_. b) = (\<lambda>r. \<lparr>bl_owner = bl_owner r, bl_token = bl_token r,
      bl_balance = b\<rparr>)" for b by (rule ext) simp
  show ?thesis
    by (rule ext) (simp add: decreaseTokenBalance_def bal.debit_def table_simps split: option.split)
qed

lemma increaseTokenSupply_credit: "increaseTokenSupply token a = sup.credit token a"
proof -
  have [simp]: "ts_supply_update (\<lambda>_. b) = (\<lambda>r. \<lparr>ts_token = ts_token r, ts_supply = b\<rparr>)" for b
    by (rule ext) simp
  show ?thesis
    by (rule ext) (simp add: increaseTokenSupply_def sup.credit_def table_simps split: option.split)
qed

lemma decreaseTokenSupply_debit:
  "decreaseTokenSupply token a =
    sup.debit (Thrown ''Could not find supply for token decrease'') token a"
proof -
  have [simp]: "ts_supply_update (\<lambda>_. b) = (\<lambda>r. \<lparr>ts_token = ts_token r, ts_supply = b\<rparr>)" for b
    by (rule ext) simp
  show ?thesis
    by (rule ext) (simp add: decreaseTokenSupply_def sup.debit_def table_simps split: option.split)
qed

lemmas token_ops = increaseTokenBalance_credit decreaseTokenBalance_debit
  increaseTokenSupply_credit decreaseTokenSupply_debit

text \<open>Writing one of the tables of the ledger leaves what the others show.\<close>

lemma put_frames [simp]:
  "t_transfers (tables (bal.put k b w)) = t_transfers (tables w)"
  "t_transfers (tables (sup.put t b w)) = t_transfers (tables w)"
  "t_token_supply (tables (bal.put k b w)) = t_token_supply (tables w)"
  "t_balances (tables (sup.put t b w)) = t_balances (tables w)"
  by (simp_all add: bal.put_def sup.put_def)

lemma bal_frame:
  assumes "t_balances (tables v) = t_balances (tables w)"
  shows "bal.amount v = bal.amount w" "bal.has v = bal.has w" "bal.total v = bal.total w"
    "balances.valid_table v = balances.valid_table w"
  using assms by (simp_all add: fun_eq_iff bal.amount_def bal.has_def bal.total_def balances.valid_table_def)

lemma sup_frame:
  assumes "t_token_supply (tables v) = t_token_supply (tables w)"
  shows "sup.amount v = sup.amount w" "sup.has v = sup.has w"
  using assms by (simp_all add: fun_eq_iff sup.amount_def sup.has_def)

lemma amount_frames [simp]:
  "bal.amount (w\<lparr>tables := (tables w)\<lparr>t_transfers := ts\<rparr>\<rparr>) = bal.amount w"
  "bal.has (w\<lparr>tables := (tables w)\<lparr>t_transfers := ts\<rparr>\<rparr>) = bal.has w"
  "bal.amount (w\<lparr>tables := (tables w)\<lparr>t_wcl_profit_loss_timeseries := ps\<rparr>\<rparr>) = bal.amount w"
  "bal.has (w\<lparr>tables := (tables w)\<lparr>t_wcl_profit_loss_timeseries := ps\<rparr>\<rparr>) = bal.has w"
  "bal.amount (w\<lparr>emitted := es\<rparr>) = bal.amount w"
  "bal.has (w\<lparr>emitted := es\<rparr>) = bal.has w"
  "bal.amount (sup.put t b w) = bal.amount w"
  "bal.has (sup.put t b w) = bal.has w"
  "sup.amount (w\<lparr>tables := (tables w)\<lparr>t_transfers := ts\<rparr>\<rparr>) = sup.amount w"
  "sup.has (w\<lparr>tables := (tables w)\<lparr>t_transfers := ts\<rparr>\<rparr>) = sup.has w"
  "sup.amount (w\<lparr>tables := (tables w)\<lparr>t_wcl_profit_loss_timeseries := ps\<rparr>\<rparr>) = sup.amount w"
  "sup.has (w\<lparr>tables := (tables w)\<lparr>t_wcl_profit_loss_timeseries := ps\<rparr>\<rparr>) = sup.has w"
  "sup.amount (w\<lparr>emitted := es\<rparr>) = sup.amount w"
  "sup.has (w\<lparr>emitted := es\<rparr>) = sup.has w"
  "sup.amount (bal.put k b w) = sup.amount w"
  "sup.has (bal.put k b w) = sup.has w"
  "bal.amount (w\<lparr>emitted := es, tables := (tables w)\<lparr>t_transfers := ts\<rparr>\<rparr>) = bal.amount w"
  "bal.has (w\<lparr>emitted := es, tables := (tables w)\<lparr>t_transfers := ts\<rparr>\<rparr>) = bal.has w"
  "sup.amount (w\<lparr>emitted := es, tables := (tables w)\<lparr>t_transfers := ts\<rparr>\<rparr>) = sup.amount w"
  "sup.has (w\<lparr>emitted := es, tables := (tables w)\<lparr>t_transfers := ts\<rparr>\<rparr>) = sup.has w"
  by (rule bal_frame sup_frame; simp)+

section \<open>Removing logs\<close>

text \<open>The logs of the ledger, with the processors that \<open>logProcessors\<close> names for them.\<close>

datatype token_log = MintLog event_log | BurnLog event_log | TransferLog event_log

fun addTokenLog :: "env \<Rightarrow> token_log \<Rightarrow> unit action" where
  "addTokenLog env (MintLog l) = processMintLog env l"
| "addTokenLog env (BurnLog l) = processBurnLog env l"
| "addTokenLog env (TransferLog l) = processTokensTransferredLog env l"

fun removeTokenLog :: "env \<Rightarrow> token_log \<Rightarrow> unit action" where
  "removeTokenLog env (MintLog l) = processMintLogRemoval env l"
| "removeTokenLog env (BurnLog l) = processBurnLogRemoval env l"
| "removeTokenLog env (TransferLog l) = processTokensTransferredLogRemoval env l"

definition ledger_restored :: "world \<Rightarrow> world \<Rightarrow> bool" where
  "ledger_restored v w \<longleftrightarrow> t_transfers (tables v) = t_transfers (tables w) \<and>
     bal.amount v = bal.amount w \<and> sup.amount v = sup.amount w \<and>
     bal.has w \<le> bal.has v \<and> sup.has w \<le> sup.has v"

lemma put_has_mono:
  "bal.has w \<le> bal.has v \<Longrightarrow> bal.has (bal.put k b w) \<le> bal.has (bal.put k b v)"
  "sup.has w \<le> sup.has v \<Longrightarrow> sup.has (sup.put t b w) \<le> sup.has (sup.put t b v)"
  by (auto simp: le_fun_def bal.has_put sup.has_put)

lemma put_amount_cong:
  "bal.amount v = bal.amount w \<Longrightarrow> bal.amount (bal.put k b v) = bal.amount (bal.put k b w)"
  "sup.amount v = sup.amount w \<Longrightarrow> sup.amount (sup.put t b v) = sup.amount (sup.put t b w)"
  by (simp_all add: fun_eq_iff bal.amount_put sup.amount_put)

lemma put_restored:
  "ledger_restored v w \<Longrightarrow> ledger_restored (bal.put k b v) (bal.put k b w)"
  "ledger_restored v w \<Longrightarrow> ledger_restored (sup.put t b v) (sup.put t b w)"
  by (simp_all add: ledger_restored_def put_has_mono) (auto intro!: put_amount_cong)

lemma ledger_restoredD:
  assumes "ledger_restored v w"
  shows "bal.amount v k = bal.amount w k" "sup.amount v t = sup.amount w t"
    "bal.has w k \<Longrightarrow> bal.has v k" "sup.has w t \<Longrightarrow> sup.has v t"
  using assms unfolding ledger_restored_def by (auto dest!: le_funD [of _ _ k] le_funD [of _ _ t])

lemma keeps_credit [intro]:
  "keeps ledger_restored (bal.credit k a)" "keeps ledger_restored (sup.credit t a)"
  by (rule keepsI; simp add: bal.credit_run sup.credit_run ledger_restoredD put_restored)+

lemma keeps_debit [intro]:
  "keeps ledger_restored (bal.debit e k a)" "keeps ledger_restored (sup.debit e t a)"
  by (rule keepsI; simp add: bal.debit_run sup.debit_run ledger_restoredD put_restored
      split: if_splits)+

lemma keeps_others [intro]:
  "keeps ledger_restored (delete transfers P)" "keeps ledger_restored (emit n lg d)"
  "keeps ledger_restored (updateProfitLossRemoveRow h)"
  by (auto simp: keeps_def delete_eq_Inr emit_app updateProfitLossRemoveRow_def ledger_restored_def)

lemma keeps_removeTokenLog: "keeps ledger_restored (removeTokenLog env l)"
  by (cases l) (auto simp: processMintLogRemoval_def processBurnLogRemoval_def
      processTokensTransferredLogRemoval_def token_ops intro!: keeps_thenA keeps_liftR keeps_if)

lemma fresh_transfer:
  assumes "insertInto transfers r w = (Inr (), w')"
  shows "t_transfers (tables w') = t_transfers (tables w) @ [r]"
    "filter (\<lambda>x. \<not> (tf_transactionHash x = tf_transactionHash r \<and> tf_logIndex x = tf_logIndex r))
       (t_transfers (tables w)) = t_transfers (tables w)"
  using assms by (auto simp: insertInto_eq_Inr transfers_def list_all_iff intro!: filter_True)

text \<open>What an added log does to the ledger.\<close>

definition credited :: "env \<Rightarrow> address \<Rightarrow> address \<Rightarrow> bn \<Rightarrow> world \<Rightarrow> world" where
  "credited env t ow v w = (if isLegacyReputationToken env t then w
     else bal.put (t, ow) (balance_of w t ow + v) w)"

definition debited :: "env \<Rightarrow> address \<Rightarrow> address \<Rightarrow> bn \<Rightarrow> world \<Rightarrow> world" where
  "debited env t ow v w = (if isLegacyReputationToken env t \<or> v = 0 then w
     else bal.put (t, ow) (balance_of w t ow - v) w)"

lemma increaseTokenBalance_run:
  "increaseTokenBalance env t ow v w = (Inr (), w') \<longleftrightarrow>
    (isLegacyReputationToken env t \<or> 0 \<le> balance_of w t ow + v) \<and> w' = credited env t ow v w"
  by (auto simp: token_ops bal.credit_run credited_def return_app)

lemma decreaseTokenBalance_run:
  "decreaseTokenBalance env t ow v w = (Inr (), w') \<longleftrightarrow>
    (isLegacyReputationToken env t \<or> v = 0 \<or> bal.has w (t, ow) \<and> v \<le> balance_of w t ow) \<and>
    w' = debited env t ow v w"
  by (auto simp: token_ops bal.debit_run debited_def return_app)

lemma increaseTokenSupply_run:
  "increaseTokenSupply t v w = (Inr (), w') \<longleftrightarrow> w' = sup.put t (supply_of w t + v) w"
  by (simp add: token_ops sup.credit_run)

lemma decreaseTokenSupply_run:
  "decreaseTokenSupply t v w = (Inr (), w') \<longleftrightarrow>
    (v = 0 \<or> sup.has w t) \<and> w' = (if v = 0 then w else sup.put t (supply_of w t - v) w)"
  by (auto simp: token_ops sup.debit_run)

lemmas token_runs = increaseTokenBalance_run decreaseTokenBalance_run increaseTokenSupply_run
  decreaseTokenSupply_run

lemma balance_nonneg: "balances.valid_table w \<Longrightarrow> 0 \<le> bal.amount w k"
  using bal.amount_good [of w k] bal.amount_missing [of w k] by (cases "bal.has w k") auto

text \<open>The state a removal starts from: the log's transfer row is gone again.\<close>

lemma delete_fresh:
  assumes "insertInto transfers (transferRow l a b v) w = (Inr (), w1)"
    "t_transfers (tables w') = t_transfers (tables w1)"
  shows "delete transfers (isTransferOf l) w' =
    (Inr (), w'\<lparr>tables := (tables w')\<lparr>t_transfers := t_transfers (tables w)\<rparr>\<rparr>)"
  using fresh_transfer [OF assms(1)] assms(2)
  by (simp add: delete_app isTransferOf_def transferRow_def)

lemma inserted_transfer_frames:
  assumes "insertInto transfers r w = (Inr (), w1)"
  shows "bal.amount w1 = bal.amount w" "bal.has w1 = bal.has w" "sup.amount w1 = sup.amount w"
    "sup.has w1 = sup.has w" "balances.valid_table w1 = balances.valid_table w" "0 \<le> tf_value r"
  using assms bal_frame [of w1 w] sup_frame [of w1 w] by (auto simp: insertInto_eq_Inr transfers_def)

lemma ledger_frames [simp]:
  "t_transfers (tables (credited env t ow v w)) = t_transfers (tables w)"
  "t_transfers (tables (debited env t ow v w)) = t_transfers (tables w)"
  "sup.amount (credited env t ow v w) = sup.amount w" "sup.has (credited env t ow v w) = sup.has w"
  "sup.amount (debited env t ow v w) = sup.amount w" "sup.has (debited env t ow v w) = sup.has w"
  by (simp_all add: credited_def debited_def)

lemma amount_credited:
  "bal.amount (credited env t ow v w) k =
    bal.amount w k + (if k = (t, ow) \<and> \<not> isLegacyReputationToken env t then v else 0)"
  "bal.amount (debited env t ow v w) k =
    bal.amount w k - (if k = (t, ow) \<and> \<not> isLegacyReputationToken env t then v else 0)"
  by (auto simp: credited_def debited_def bal.amount_put)

lemma has_credited:
  "bal.has (credited env t ow v w) k \<longleftrightarrow>
    bal.has w k \<or> (k = (t, ow) \<and> \<not> isLegacyReputationToken env t)"
  "bal.has (debited env t ow v w) k \<longleftrightarrow>
    bal.has w k \<or> (k = (t, ow) \<and> \<not> isLegacyReputationToken env t \<and> v \<noteq> 0)"
  by (auto simp: credited_def debited_def bal.has_put)

lemma removeProfitLoss_run:
  "updateProfitLossRemoveRow h w = (Inr (), w') \<longleftrightarrow>
    w' = w\<lparr>tables := (tables w)\<lparr>t_wcl_profit_loss_timeseries :=
      filter (\<lambda>r. pl_transactionHash r \<noteq> h) (t_wcl_profit_loss_timeseries (tables w))\<rparr>\<rparr>"
  by (simp add: updateProfitLossRemoveRow_def delete_eq_Inr)

lemma ledger_restoredI:
  assumes "t_transfers (tables v) = t_transfers (tables w)" "\<And>k. bal.amount v k = bal.amount w k"
    "\<And>t. sup.amount v t = sup.amount w t" "\<And>k. bal.has w k \<Longrightarrow> bal.has v k"
    "\<And>t. sup.has w t \<Longrightarrow> sup.has v t"
  shows "ledger_restored v w"
  using assms by (auto simp: ledger_restored_def le_fun_def fun_eq_iff)

lemma mint_rollback:
  assumes "balances.valid_table w" "processMintLog env l w = (Inr (), w')"
  shows "\<exists>w''. processMintLogRemoval env l w' = (Inr (), w'') \<and> ledger_restored w'' w"
proof -
  let ?t = "tokenOfLog l" and ?ow = "lo_target l"
  from assms(2) obtain v w1 where v: "mintedAmount l = Inr v"
    and w1: "insertInto transfers (transferRow l None (Some ?ow) v) w = (Inr (), w1)"
    and w': "w' = credited env ?t ?ow v (sup.put ?t (supply_of w1 ?t + v) w1)"
    by (auto simp: processMintLog_def bindA_eq_Inr liftR_eq_Inr thenA_eq_Inr token_runs)
  note f = inserted_transfer_frames [OF w1]
  have "delete transfers (isTransferOf l) w' =
      (Inr (), w'\<lparr>tables := (tables w')\<lparr>t_transfers := t_transfers (tables w)\<rparr>\<rparr>)"
    using delete_fresh [OF w1, of w'] w' by simp
  moreover have "0 \<le> bal.amount w (?t, ?ow)" using balance_nonneg [OF assms(1)] .
  ultimately show ?thesis
    by (auto simp: processMintLogRemoval_def bindA_eq_Inr liftR_eq_Inr thenA_eq_Inr token_runs v
        removeProfitLoss_run w' amount_credited has_credited sup.amount_put sup.has_put
        bal.amount_put bal.has_put f intro!: ledger_restoredI)
qed

lemma burn_rollback:
  assumes "balances.valid_table w" "processBurnLog env l w = (Inr (), w')"
  shows "\<exists>w''. processBurnLogRemoval env l w' = (Inr (), w'') \<and> ledger_restored w'' w"
proof -
  let ?t = "tokenOfLog l" and ?ow = "lo_target l"
  from assms(2) obtain v w0 w1 where v: "mintedAmount l = Inr v"
    and w0: "\<exists>es. w0 = w\<lparr>emitted := es\<rparr>"
    and w1: "insertInto transfers (transferRow l (Some ?ow) None v) w0 = (Inr (), w1)"
    and ok: "v = 0 \<or> sup.has w1 ?t"
    and w': "w' = debited env ?t ?ow v (if v = 0 then w1 else sup.put ?t (supply_of w1 ?t - v) w1)"
    by (auto simp: processBurnLog_def bindA_eq_Inr liftR_eq_Inr thenA_eq_Inr token_runs Let_def
        emit_app)
  note f = inserted_transfer_frames [OF w1]
  have g: "bal.amount w0 = bal.amount w" "bal.has w0 = bal.has w" "sup.amount w0 = sup.amount w"
    "sup.has w0 = sup.has w" "t_transfers (tables w0) = t_transfers (tables w)"
    using w0 by auto
  have "0 \<le> bal.amount w (?t, ?ow)" using balance_nonneg [OF assms(1)] .
  then show ?thesis
    by (auto simp: delete_fresh [OF w1] processBurnLogRemoval_def bindA_eq_Inr liftR_eq_Inr thenA_eq_Inr token_runs v
        removeProfitLoss_run w' amount_credited has_credited sup.amount_put sup.has_put emit_app
        bal.amount_put bal.has_put f g intro!: ledger_restoredI)
qed

lemma transfer_rollback:
  assumes "balances.valid_table w" "processTokensTransferredLog env l w = (Inr (), w')"
  shows "\<exists>w''. processTokensTransferredLogRemoval env l w' = (Inr (), w'') \<and> ledger_restored w'' w"
proof -
  let ?t = "tokenOfLog l" and ?to = "lo_to l" and ?from = "lo_from l"
  from assms(2) obtain v w1 w2 where v: "transferredAmount l = Inr v"
    and w1: "insertInto transfers (transferRow l (Some ?from) (Some ?to) v) w = (Inr (), w1)"
    and w2: "\<exists>es. w2 = w1\<lparr>emitted := es\<rparr>"
    and w': "w' = debited env ?t ?from v (credited env ?t ?to v w2)"
    by (auto simp: processTokensTransferredLog_def bindA_eq_Inr liftR_eq_Inr thenA_eq_Inr token_runs
        Let_def emit_app)
  note f = inserted_transfer_frames [OF w1]
  have g: "bal.amount w2 = bal.amount w" "bal.has w2 = bal.has w" "sup.amount w2 = sup.amount w"
    "sup.has w2 = sup.has w" "t_transfers (tables w2) = t_transfers (tables w1)"
    using w2 f by auto
  have "delete transfers (isTransferOf l) w' =
      (Inr (), w'\<lparr>tables := (tables w')\<lparr>t_transfers := t_transfers (tables w)\<rparr>\<rparr>)"
    using delete_fresh [OF w1, of w'] w' g by simp
  moreover have "0 \<le> bal.amount w (?t, ?from)" "0 \<le> bal.amount w (?t, ?to)" "0 \<le> v"
    using balance_nonneg [OF assms(1)] f(6) by (auto simp: transferRow_def)
  ultimately show ?thesis
    by (auto simp: processTokensTransferredLogRemoval_def bindA_eq_Inr liftR_eq_Inr thenA_eq_Inr
        token_runs v removeProfitLoss_run w' amount_credited has_credited emit_app f g
        intro!: ledger_restoredI)
qed

lemma credit_valid:
  "balances.valid_table w \<Longrightarrow> increaseTokenBalance env t ow v w = (Inr (), w') \<Longrightarrow> balances.valid_table w'"
  "balances.valid_table w \<Longrightarrow> decreaseTokenBalance env t ow v w = (Inr (), w') \<Longrightarrow> balances.valid_table w'"
  by (auto simp: token_runs credited_def debited_def intro!: bal.put_valid)

lemma addTokenLog_valid:
  assumes "balances.valid_table w" "addTokenLog env t w = (Inr (), w')"
  shows "balances.valid_table w'"
proof (cases t)
  case (MintLog l)
  with assms(2) obtain v w1 where "insertInto transfers (transferRow l None (Some (lo_target l)) v) w = (Inr (), w1)"
    "increaseTokenBalance env (tokenOfLog l) (lo_target l) v
      (sup.put (tokenOfLog l) (supply_of w1 (tokenOfLog l) + v) w1) = (Inr (), w')"
    by (auto simp: processMintLog_def bindA_eq_Inr liftR_eq_Inr thenA_eq_Inr increaseTokenSupply_run)
  then show ?thesis
    using assms(1) inserted_transfer_frames(5) bal_frame(4) credit_valid(1) put_frames(4) by metis
next
  case (BurnLog l)
  with assms(2) obtain v w0 w1 w2 where
    "insertInto transfers (transferRow l (Some (lo_target l)) None v) w0 = (Inr (), w1)"
    "t_balances (tables w0) = t_balances (tables w)"
    "decreaseTokenSupply (tokenOfLog l) v w1 = (Inr (), w2)"
    "decreaseTokenBalance env (tokenOfLog l) (lo_target l) v w2 = (Inr (), w')"
    by (fastforce simp: processBurnLog_def bindA_eq_Inr liftR_eq_Inr thenA_eq_Inr Let_def emit_app)
  then show ?thesis
    using assms(1) inserted_transfer_frames(5) bal_frame(4) credit_valid(2) put_frames(4)
    by (metis decreaseTokenSupply_run)
next
  case (TransferLog l)
  with assms(2) obtain v w1 w2 w3 where
    i: "insertInto transfers (transferRow l (Some (lo_from l)) (Some (lo_to l)) v) w = (Inr (), w1)"
    and e: "emit ''TokensTransferred'' (Some l)
      (transferData (transferRow l (Some (lo_from l)) (Some (lo_to l)) v)) w1 = (Inr (), w2)"
    and c: "increaseTokenBalance env (tokenOfLog l) (lo_to l) v w2 = (Inr (), w3)"
    "decreaseTokenBalance env (tokenOfLog l) (lo_from l) v w3 = (Inr (), w')"
    by (auto simp: processTokensTransferredLog_def bindA_eq_Inr liftR_eq_Inr thenA_eq_Inr Let_def)
  have "t_balances (tables w2) = t_balances (tables w1)" using e by (auto simp: emit_app)
  with i c show ?thesis
    using assms(1) inserted_transfer_frames(5) bal_frame(4) credit_valid by metis
qed

interpretation token_logs: log_processor "addTokenLog env" "removeTokenLog env" "\<lambda>_. True"
  balances.valid_table ledger_restored for env
proof
  show "ledger_restored w w" for w by (simp add: ledger_restored_def)
  show "ledger_restored u v \<Longrightarrow> ledger_restored v w \<Longrightarrow> ledger_restored u w" for u v w
    by (auto simp: ledger_restored_def le_fun_def)
  show "balances.valid_table w \<Longrightarrow> addTokenLog env l w = (Inr (), w') \<Longrightarrow> balances.valid_table w'"
    for l w w' by (rule addTokenLog_valid)
  show "balances.valid_table w \<Longrightarrow> addTokenLog env l w = (Inr (), w') \<Longrightarrow>
      \<exists>w''. removeTokenLog env l w' = (Inr (), w'') \<and> ledger_restored w'' w" for l w w'
    by (cases l) (auto simp: mint_rollback burn_rollback transfer_rollback)
  show "keeps ledger_restored (removeTokenLog env l)" for l by (rule keeps_removeTokenLog)
qed

text \<open>
  C8. A chain reorganisation restores the ledger: removing processed mint, burn and transfer logs,
  last to first, succeeds and leaves the transfers, every balance and every supply as they were
  before the logs were processed.
\<close>

theorem token_logs_roll_back:
  assumes "balances.valid_table w" "forA ts (addTokenLog env) w = (Inr (), w')"
  shows "\<exists>w''. forA (rev ts) (removeTokenLog env) w' = (Inr (), w'') \<and>
    t_transfers (tables w'') = t_transfers (tables w) \<and>
    (\<forall>t ow. balance_of w'' t ow = balance_of w t ow) \<and> (\<forall>t. supply_of w'' t = supply_of w t)"
  using token_logs.reorganisation [OF _ assms] by (auto simp: ledger_restored_def)

section \<open>The ledger adds up\<close>

text \<open>What one transfer row adds to an owner's balance, and to the supply.\<close>

definition net_flow :: "address \<Rightarrow> address \<Rightarrow> transfers_row \<Rightarrow> bn" where
  "net_flow t ow r = (if tf_token r = t
     then (if tf_recipient r = Some ow then tf_value r else 0)
          - (if tf_sender r = Some ow then tf_value r else 0) else 0)"

definition issued :: "address \<Rightarrow> transfers_row \<Rightarrow> bn" where
  "issued t r = (if tf_token r = t
     then (if tf_sender r = None then tf_value r else 0)
          - (if tf_recipient r = None then tf_value r else 0) else 0)"

fun tokenLogRow :: "token_log \<Rightarrow> transfers_row result" where
  "tokenLogRow (MintLog l) = bindE (mintedAmount l) (\<lambda>v. Inr (transferRow l None (Some (lo_target l)) v))"
| "tokenLogRow (BurnLog l) = bindE (mintedAmount l) (\<lambda>v. Inr (transferRow l (Some (lo_target l)) None v))"
| "tokenLogRow (TransferLog l) =
     bindE (transferredAmount l) (\<lambda>v. Inr (transferRow l (Some (lo_from l)) (Some (lo_to l)) v))"

text \<open>
  The states that processing token logs reaches from empty tables, when only logs that were
  processed are removed.
\<close>

inductive token_reach :: "env \<Rightarrow> world \<Rightarrow> bool" for env where
  start: "t_transfers (tables w) = [] \<Longrightarrow> t_balances (tables w) = [] \<Longrightarrow>
    t_token_supply (tables w) = [] \<Longrightarrow> token_reach env w"
| add: "token_reach env w \<Longrightarrow> addTokenLog env t w = (Inr (), w') \<Longrightarrow> token_reach env w'"
| remove: "token_reach env w \<Longrightarrow> tokenLogRow t = Inr r \<Longrightarrow> r \<in> set (t_transfers (tables w)) \<Longrightarrow>
    removeTokenLog env t w = (Inr (), w') \<Longrightarrow> token_reach env w'"

definition adds_up :: "env \<Rightarrow> world \<Rightarrow> bool" where
  "adds_up env w \<longleftrightarrow> balances.valid_table w \<and> transfers.valid_table w \<and>
     (\<forall>t. supply_of w t = sum_list (map (issued t) (t_transfers (tables w)))) \<and>
     (\<forall>t. \<not> isLegacyReputationToken env t \<longrightarrow>
        (\<forall>ow. balance_of w t ow = sum_list (map (net_flow t ow) (t_transfers (tables w)))) \<and>
        bal.total w (\<lambda>(t', _). t' = t) = supply_of w t)"

lemma sum_without:
  fixes f :: "'r \<Rightarrow> bn"
  assumes "sorted_wrt (\<lambda>x y. \<not> same x y) xs" "r \<in> set xs"
    "\<And>x y. same x y \<longleftrightarrow> key x = key y"
  shows "sum_list (map f (filter (\<lambda>x. key x \<noteq> key r) xs)) = sum_list (map f xs) - f r"
  using assms
proof (induction xs)
  case (Cons x xs)
  show ?case
  proof (cases "x = r")
    case True
    with Cons.prems have "filter (\<lambda>y. key y \<noteq> key r) xs = xs" by (auto intro!: filter_True)
    with True show ?thesis by simp
  next
    case False
    with Cons.prems have "r \<in> set xs" "key x \<noteq> key r" by auto
    with Cons show ?thesis by simp
  qed
qed simp

lemma total_credited:
  assumes "balances.valid_table w"
  shows "bal.total (credited env t ow v w) P =
      bal.total w P + (if P (t, ow) \<and> \<not> isLegacyReputationToken env t then v else 0)"
    "bal.total (debited env t ow v w) P =
      bal.total w P - (if P (t, ow) \<and> \<not> isLegacyReputationToken env t then v else 0)"
  using assms by (auto simp: credited_def debited_def bal.total_put)

lemma total_frames [simp]:
  "bal.total (sup.put t b w) = bal.total w"
  "balances.valid_table (sup.put t b w) = balances.valid_table w"
  "bal.total (w\<lparr>emitted := es\<rparr>) = bal.total w"
  "balances.valid_table (w\<lparr>emitted := es\<rparr>) = balances.valid_table w"
  "bal.total (w\<lparr>tables := (tables w)\<lparr>t_transfers := ts\<rparr>\<rparr>) = bal.total w"
  "balances.valid_table (w\<lparr>tables := (tables w)\<lparr>t_transfers := ts\<rparr>\<rparr>) = balances.valid_table w"
  "bal.total (w\<lparr>emitted := es, tables := (tables w)\<lparr>t_transfers := ts\<rparr>\<rparr>) = bal.total w"
  "balances.valid_table (w\<lparr>emitted := es, tables := (tables w)\<lparr>t_transfers := ts\<rparr>\<rparr>) =
    balances.valid_table w"
  "bal.total (w\<lparr>tables := (tables w)\<lparr>t_wcl_profit_loss_timeseries := ps\<rparr>\<rparr>) = bal.total w"
  "balances.valid_table (w\<lparr>tables := (tables w)\<lparr>t_wcl_profit_loss_timeseries := ps\<rparr>\<rparr>) =
    balances.valid_table w"
  by (rule bal_frame; simp)+

lemma inserted_total: "insertInto transfers r w = (Inr (), w1) \<Longrightarrow> bal.total w1 = bal.total w"
  using bal_frame(3) [of w1 w] by (auto simp: insertInto_eq_Inr)

lemma credited_valid:
  "balances.valid_table w \<Longrightarrow> isLegacyReputationToken env t \<or> 0 \<le> balance_of w t ow + v \<Longrightarrow>
    balances.valid_table (credited env t ow v w)"
  "balances.valid_table w \<Longrightarrow> isLegacyReputationToken env t \<or> v = 0 \<or> v \<le> balance_of w t ow \<Longrightarrow>
    balances.valid_table (debited env t ow v w)"
  by (auto simp: credited_def debited_def intro!: bal.put_valid)

text \<open>The change of the ledger by one row, forwards (\<open>d = 1\<close>) and backwards (\<open>d = - 1\<close>).\<close>

definition moved :: "env \<Rightarrow> bn \<Rightarrow> transfers_row \<Rightarrow> world \<Rightarrow> world \<Rightarrow> bool" where
  "moved env d r w w' \<longleftrightarrow> balances.valid_table w' \<and>
     (\<forall>t. supply_of w' t = supply_of w t + d * issued t r) \<and>
     (\<forall>t. \<not> isLegacyReputationToken env t \<longrightarrow>
       (\<forall>ow. balance_of w' t ow = balance_of w t ow + d * net_flow t ow r) \<and>
       bal.total w' (\<lambda>(t', _). t' = t) = bal.total w (\<lambda>(t', _). t' = t) + d * issued t r)"

lemmas moved_simps = moved_def issued_def net_flow_def transferRow_def amount_credited total_credited
  sup.amount_put credited_valid

lemma mint_moved:
  assumes "balances.valid_table w" "processMintLog env l w = (Inr (), w')"
  shows "\<exists>r. tokenLogRow (MintLog l) = Inr r \<and> t_transfers (tables w') = t_transfers (tables w) @ [r] \<and>
    moved env 1 r w w'"
proof -
  let ?t = "tokenOfLog l" and ?ow = "lo_target l"
  from assms(2) obtain v w1 where v: "mintedAmount l = Inr v"
    and w1: "insertInto transfers (transferRow l None (Some ?ow) v) w = (Inr (), w1)"
    and ok: "isLegacyReputationToken env ?t \<or> 0 \<le> balance_of w1 ?t ?ow + v"
    and w': "w' = credited env ?t ?ow v (sup.put ?t (supply_of w1 ?t + v) w1)"
    by (auto simp: processMintLog_def bindA_eq_Inr liftR_eq_Inr thenA_eq_Inr token_runs)
  note f = inserted_transfer_frames [OF w1] inserted_total [OF w1] fresh_transfer(1) [OF w1]
  show ?thesis
    using v ok assms(1) by (simp add: w' f moved_simps)
qed

lemma burn_moved:
  assumes "balances.valid_table w" "processBurnLog env l w = (Inr (), w')"
  shows "\<exists>r. tokenLogRow (BurnLog l) = Inr r \<and> t_transfers (tables w') = t_transfers (tables w) @ [r] \<and>
    moved env 1 r w w'"
proof -
  let ?t = "tokenOfLog l" and ?ow = "lo_target l"
  from assms(2) obtain v w0 w1 w2 where v: "mintedAmount l = Inr v"
    and e: "emit (lg_eventName l) (Some l) (transferData (transferRow l (Some ?ow) None v)) w
      = (Inr (), w0)"
    and w1: "insertInto transfers (transferRow l (Some ?ow) None v) w0 = (Inr (), w1)"
    and c: "decreaseTokenSupply ?t v w1 = (Inr (), w2)"
      "decreaseTokenBalance env ?t ?ow v w2 = (Inr (), w')"
    by (auto simp: processBurnLog_def bindA_eq_Inr liftR_eq_Inr thenA_eq_Inr Let_def)
  have w0: "\<exists>es. w0 = w\<lparr>emitted := es\<rparr>" using e by (auto simp: emit_app)
  have ok: "isLegacyReputationToken env ?t \<or> v = 0 \<or> v \<le> balance_of w1 ?t ?ow"
    and w': "w' = debited env ?t ?ow v (if v = 0 then w1 else sup.put ?t (supply_of w1 ?t - v) w1)"
    using c by (auto simp: token_runs split: if_splits)
  note f = inserted_transfer_frames [OF w1] inserted_total [OF w1] fresh_transfer(1) [OF w1]
  have g: "bal.amount w0 = bal.amount w" "sup.amount w0 = sup.amount w"
    "bal.total w0 = bal.total w" "balances.valid_table w0" "t_transfers (tables w0) = t_transfers (tables w)"
    using w0 assms(1) by auto
  show ?thesis
    using v ok by (cases "v = 0") (simp_all add: w' f g moved_simps)
qed

lemma transfer_moved:
  assumes "balances.valid_table w" "processTokensTransferredLog env l w = (Inr (), w')"
  shows "\<exists>r. tokenLogRow (TransferLog l) = Inr r \<and>
    t_transfers (tables w') = t_transfers (tables w) @ [r] \<and> moved env 1 r w w'"
proof -
  let ?t = "tokenOfLog l" and ?to = "lo_to l" and ?from = "lo_from l"
  from assms(2) obtain v w1 w2 w3 where v: "transferredAmount l = Inr v"
    and w1: "insertInto transfers (transferRow l (Some ?from) (Some ?to) v) w = (Inr (), w1)"
    and e: "emit ''TokensTransferred'' (Some l) (transferData (transferRow l (Some ?from) (Some ?to) v))
      w1 = (Inr (), w2)"
    and c: "increaseTokenBalance env ?t ?to v w2 = (Inr (), w3)"
      "decreaseTokenBalance env ?t ?from v w3 = (Inr (), w')"
    by (auto simp: processTokensTransferredLog_def bindA_eq_Inr liftR_eq_Inr thenA_eq_Inr Let_def)
  have w2: "\<exists>es. w2 = w1\<lparr>emitted := es\<rparr>" using e by (auto simp: emit_app)
  have ok: "isLegacyReputationToken env ?t \<or> 0 \<le> balance_of w2 ?t ?to + v"
      "isLegacyReputationToken env ?t \<or> v = 0 \<or> v \<le> balance_of (credited env ?t ?to v w2) ?t ?from"
    and w': "w' = debited env ?t ?from v (credited env ?t ?to v w2)"
    using c by (auto simp: token_runs)
  note f = inserted_transfer_frames [OF w1] inserted_total [OF w1] fresh_transfer(1) [OF w1]
  have g: "bal.amount w2 = bal.amount w" "sup.amount w2 = sup.amount w"
    "bal.total w2 = bal.total w" "balances.valid_table w2"
    "t_transfers (tables w2) = t_transfers (tables w) @ [transferRow l (Some ?from) (Some ?to) v]"
    using w2 assms(1) f by auto
  have "balances.valid_table (credited env ?t ?to v w2)"
    using g ok by (intro credited_valid) auto
  moreover have "balances.valid_table w'"
    unfolding w' using ok by (intro credited_valid(2) calculation) auto
  ultimately show ?thesis
    using v by (simp add: w' g moved_simps)
qed

lemma add_moved:
  assumes "balances.valid_table w" "addTokenLog env t w = (Inr (), w')"
  shows "\<exists>r. tokenLogRow t = Inr r \<and> t_transfers (tables w') = t_transfers (tables w) @ [r] \<and>
    moved env 1 r w w'"
  using assms mint_moved burn_moved transfer_moved by (cases t) auto

text \<open>Removing a log takes its row out and moves the amount back.\<close>

definition without_row :: "transfers_row \<Rightarrow> world \<Rightarrow> world" where
  "without_row r w = w\<lparr>tables := (tables w)\<lparr>t_transfers := filter (\<lambda>x.
     (tf_transactionHash x, tf_logIndex x) \<noteq> (tf_transactionHash r, tf_logIndex r))
     (t_transfers (tables w))\<rparr>\<rparr>"

lemma delete_log:
  "delete transfers (isTransferOf l) w = (Inr (), w') \<longleftrightarrow> w' = without_row (transferRow l a b v) w"
  by (simp add: delete_eq_Inr isTransferOf_def without_row_def transferRow_def)

lemma without_row_frames [simp]:
  "bal.amount (without_row r w) = bal.amount w" "bal.total (without_row r w) = bal.total w"
  "sup.amount (without_row r w) = sup.amount w"
  "balances.valid_table (without_row r w) = balances.valid_table w"
  by (simp_all add: without_row_def)

lemma mint_moved_back:
  assumes "balances.valid_table w" "tokenLogRow (MintLog l) = Inr r"
    "processMintLogRemoval env l w = (Inr (), w')"
  shows "t_transfers (tables w') = t_transfers (tables (without_row r w)) \<and> moved env (- 1) r w w'"
proof -
  let ?t = "tokenOfLog l" and ?ow = "lo_target l"
  from assms(2) obtain v where v: "mintedAmount l = Inr v" and r: "r = transferRow l None (Some ?ow) v"
    by (auto simp: bindE_eq_Inr)
  from assms(3) obtain w2 w3 where c: "decreaseTokenSupply ?t v (without_row r w) = (Inr (), w2)"
      "decreaseTokenBalance env ?t ?ow v w2 = (Inr (), w3)"
      "updateProfitLossRemoveRow (lg_transactionHash l) w3 = (Inr (), w')"
    by (auto simp: processMintLogRemoval_def v act_simps thenA_eq_Inr
        delete_log [of l _ _ None "Some ?ow" v] r)
  then show ?thesis
    using assms(1) by (cases "v = 0")
      (auto simp: token_runs removeProfitLoss_run moved_simps r)
qed

lemma burn_moved_back:
  assumes "balances.valid_table w" "tokenLogRow (BurnLog l) = Inr r"
    "processBurnLogRemoval env l w = (Inr (), w')"
  shows "t_transfers (tables w') = t_transfers (tables (without_row r w)) \<and> moved env (- 1) r w w'"
proof -
  let ?t = "tokenOfLog l" and ?ow = "lo_target l"
  from assms(2) obtain v where v: "mintedAmount l = Inr v" and r: "r = transferRow l (Some ?ow) None v"
    by (auto simp: bindE_eq_Inr)
  from assms(3) obtain w0 w2 w3 where e: "emit (lg_eventName l) (Some l) [] w = (Inr (), w0)"
    and c: "increaseTokenSupply ?t v (without_row r w0) = (Inr (), w2)"
      "increaseTokenBalance env ?t ?ow v w2 = (Inr (), w3)"
      "updateProfitLossRemoveRow (lg_transactionHash l) w3 = (Inr (), w')"
    by (auto simp: processBurnLogRemoval_def v act_simps(1,2) bindA_eq_Inr liftR_eq_Inr thenA_eq_Inr
        delete_log [of l _ _ "Some ?ow" None v] r)
  have "\<exists>es. w0 = w\<lparr>emitted := es\<rparr>" using e by (auto simp: emit_app)
  with c show ?thesis
    using assms(1)
    by (auto simp: token_runs removeProfitLoss_run moved_simps r without_row_def [of _ "_\<lparr>emitted := _\<rparr>"]
        without_row_def [of _ w])
qed

lemma transfer_moved_back:
  assumes "balances.valid_table w" "tokenLogRow (TransferLog l) = Inr r"
    "processTokensTransferredLogRemoval env l w = (Inr (), w')"
  shows "t_transfers (tables w') = t_transfers (tables (without_row r w)) \<and> moved env (- 1) r w w'"
proof -
  let ?t = "tokenOfLog l" and ?from = "lo_from l" and ?to = "lo_to l"
  from assms(2) obtain v where v: "transferredAmount l = Inr v"
    and r: "r = transferRow l (Some ?from) (Some ?to) v"
    by (auto simp: bindE_eq_Inr)
  from assms(3) obtain w1 w2 w3 where
    e: "emit ''TokensTransferred'' (Some l) [] (without_row r w) = (Inr (), w1)"
    and c: "increaseTokenBalance env ?t ?from v w1 = (Inr (), w2)"
      "decreaseTokenBalance env ?t ?to v w2 = (Inr (), w3)"
      "updateProfitLossRemoveRow (lg_transactionHash l) w3 = (Inr (), w')"
    by (auto simp: processTokensTransferredLogRemoval_def v bindA_eq_Inr liftR_eq_Inr thenA_eq_Inr
        delete_log [of l _ _ "Some ?from" "Some ?to" v] r)
  have "\<exists>es. w1 = (without_row r w)\<lparr>emitted := es\<rparr>" using e by (auto simp: emit_app)
  then have w1: "bal.amount w1 = bal.amount w" "bal.total w1 = bal.total w"
    "sup.amount w1 = sup.amount w" "balances.valid_table w1"
    "t_transfers (tables w1) = t_transfers (tables (without_row r w))"
    using assms(1) by auto
  have "balances.valid_table w2" "balances.valid_table w3"
    using c w1(4) by (auto dest: credit_valid)
  moreover have "w2 = credited env ?t ?from v w1" "w3 = debited env ?t ?to v w2"
    using c by (simp_all add: token_runs)
  moreover have "w' = w3\<lparr>tables := (tables w3)\<lparr>t_wcl_profit_loss_timeseries :=
      filter (\<lambda>r. pl_transactionHash r \<noteq> lg_transactionHash l)
        (t_wcl_profit_loss_timeseries (tables w3))\<rparr>\<rparr>"
    using c by (simp add: removeProfitLoss_run)
  ultimately show ?thesis
    using w1 by (simp add: moved_simps r)
qed

lemma remove_moved:
  assumes "balances.valid_table w" "tokenLogRow t = Inr r" "removeTokenLog env t w = (Inr (), w')"
  shows "t_transfers (tables w') = t_transfers (tables (without_row r w)) \<and> moved env (- 1) r w w'"
  using assms mint_moved_back burn_moved_back transfer_moved_back by (cases t) (auto simp del: tokenLogRow.simps)

lemma transfers_valid:
  "transfers.valid_table w \<longleftrightarrow> sorted_wrt (\<lambda>x y. (tf_transactionHash x, tf_logIndex x) \<noteq>
     (tf_transactionHash y, tf_logIndex y)) (t_transfers (tables w)) \<and>
   list_all (\<lambda>r. 0 \<le> tf_value r) (t_transfers (tables w))"
  unfolding transfers.valid_table_def by (simp add: transfers_def)

lemma add_valid_transfers:
  assumes "transfers.valid_table w" "addTokenLog env t w = (Inr (), w')"
  shows "transfers.valid_table w'"
proof -
  have keep: "transfers.valid_table v \<Longrightarrow> t_transfers (tables v') = t_transfers (tables v) \<Longrightarrow>
      transfers.valid_table v'" for v v'
    by (simp add: transfers_valid)
  show ?thesis
  proof (cases t)
    case (MintLog l)
    with assms(2) obtain v w1 where "insertInto transfers (transferRow l None (Some (lo_target l)) v) w = (Inr (), w1)"
      "t_transfers (tables w') = t_transfers (tables w1)"
      by (auto simp: processMintLog_def bindA_eq_Inr liftR_eq_Inr thenA_eq_Inr token_runs)
    with keep transfers.insert_valid [OF assms(1)] show ?thesis by blast
  next
    case (BurnLog l)
    with assms(2) obtain v w0 w1 w2 where e: "emit (lg_eventName l) (Some l)
        (transferData (transferRow l (Some (lo_target l)) None v)) w = (Inr (), w0)"
      and i: "insertInto transfers (transferRow l (Some (lo_target l)) None v) w0 = (Inr (), w1)"
      and c: "decreaseTokenSupply (tokenOfLog l) v w1 = (Inr (), w2)"
        "decreaseTokenBalance env (tokenOfLog l) (lo_target l) v w2 = (Inr (), w')"
      by (auto simp: processBurnLog_def bindA_eq_Inr liftR_eq_Inr thenA_eq_Inr Let_def)
    have "transfers.valid_table w0" using keep [OF assms(1), of w0] e by (auto simp: emit_app)
    moreover have "t_transfers (tables w') = t_transfers (tables w1)" using c by (auto simp: token_runs)
    ultimately show ?thesis using keep transfers.insert_valid i by blast
  next
    case (TransferLog l)
    with assms(2) obtain v w1 where
      "insertInto transfers (transferRow l (Some (lo_from l)) (Some (lo_to l)) v) w = (Inr (), w1)"
      "t_transfers (tables w') = t_transfers (tables w1)"
      by (auto simp: processTokensTransferredLog_def bindA_eq_Inr liftR_eq_Inr thenA_eq_Inr Let_def
          token_runs emit_app)
    with keep transfers.insert_valid [OF assms(1)] show ?thesis by blast
  qed
qed

lemma adds_up_add:
  assumes "adds_up env w" "addTokenLog env t w = (Inr (), w')" shows "adds_up env w'"
proof -
  have v: "balances.valid_table w" using assms(1) by (simp add: adds_up_def)
  obtain r where r: "t_transfers (tables w') = t_transfers (tables w) @ [r]" "moved env 1 r w w'"
    using add_moved [OF v assms(2)] by blast
  show ?thesis
    using assms(1) r add_valid_transfers [OF _ assms(2)] by (simp add: adds_up_def moved_def)
qed

lemma adds_up_remove:
  assumes "adds_up env w" "tokenLogRow t = Inr r" "r \<in> set (t_transfers (tables w))"
    "removeTokenLog env t w = (Inr (), w')"
  shows "adds_up env w'"
proof -
  have v: "balances.valid_table w" "transfers.valid_table w" using assms(1) by (simp_all add: adds_up_def)
  have m: "t_transfers (tables w') = t_transfers (tables (without_row r w))" "moved env (- 1) r w w'"
    using remove_moved [OF v(1) assms(2,4)] by blast+
  have "sum_list (map f (t_transfers (tables w'))) = sum_list (map f (t_transfers (tables w))) - f r"
    for f :: "transfers_row \<Rightarrow> bn"
    using v(2) assms(3) sum_without [of "\<lambda>x y. (tf_transactionHash x, tf_logIndex x) =
      (tf_transactionHash y, tf_logIndex y)" "t_transfers (tables w)" r
      "\<lambda>x. (tf_transactionHash x, tf_logIndex x)" f]
    by (simp add: m without_row_def transfers_valid)
  moreover have "transfers.valid_table w'"
    using v(2) by (auto simp: transfers_valid m without_row_def sorted_wrt_filter list_all_iff)
  ultimately show ?thesis
    using assms(1) m(2) by (simp add: adds_up_def moved_def)
qed

lemma token_reach_adds_up: "token_reach env w \<Longrightarrow> adds_up env w"
proof (induction rule: token_reach.induct)
  case (start w)
  then show ?case
    by (simp add: adds_up_def balances.valid_table_def transfers.valid_table_def bal.amount_def
        sup.amount_def bal.total_def)
next
  case (add w t w')
  then show ?case using adds_up_add by blast
next
  case (remove w t r w')
  then show ?case using adds_up_remove by blast
qed

text \<open>
  C3. In every state that processing and removing token logs reaches, the balance of an owner is
  what the recorded transfers brought in less what they took out and is not negative, and the
  supply of a token is what was minted less what was burned, and equals the sum of the balances.
  (The legacy reputation token has no balances.)
\<close>

theorem ledger_adds_up:
  assumes "token_reach env w" "\<not> isLegacyReputationToken env t"
  shows "balance_of w t ow = sum_list (map (net_flow t ow) (t_transfers (tables w))) \<and>
    0 \<le> balance_of w t ow \<and>
    supply_of w t = sum_list (map (issued t) (t_transfers (tables w))) \<and>
    sum_list (map bl_balance (filter (\<lambda>r. bl_token r = t) (t_balances (tables w)))) = supply_of w t"
proof -
  have "0 \<le> balance_of w t ow"
    using token_reach_adds_up [OF assms(1)] balance_nonneg by (simp add: adds_up_def)
  with token_reach_adds_up [OF assms(1)] assms(2) show ?thesis
    by (simp add: adds_up_def bal.total_def split_beta)
qed

definition mint_of_5 :: event_log where
  "mint_of_5 = sample_log\<lparr>lo_token := Some ''rep'', lo_target := ''alice'', lo_amount := Some 5\<rparr>"

lemma mint_of_5_runs:
  "\<exists>w'. addTokenLog sample_env (MintLog mint_of_5) empty_world = (Inr (), w') \<and>
    balance_of w' ''rep'' ''alice'' = 5"
proof -
  let ?r = "transferRow mint_of_5 None (Some ''alice'') 5"
  have "insertInto transfers ?r empty_world = (Inr (), tput transfers [?r] empty_world)"
    by (simp add: insertInto_eq_Inr empty_world_def empty_db_def) (simp add: transfers_def transferRow_def)
  then show ?thesis
    by (simp add: processMintLog_def mintedAmount_def mint_of_5_def tokenOfLog_def thenA_eq_Inr
        token_runs act_simps amount_credited)
      (simp add: empty_world_def empty_db_def bal.amount_def isLegacyReputationToken_def sample_env_def)
qed

theorem ledger_adds_up_witness:
  "\<exists>w. token_reach sample_env w \<and> balance_of w ''rep'' ''alice'' = 5 \<and>
    sum_list (map (net_flow ''rep'' ''alice'') (t_transfers (tables w))) = 5 \<and>
    supply_of w ''rep'' = sum_list (map bl_balance
      (filter (\<lambda>r. bl_token r = ''rep'') (t_balances (tables w))))"
proof -
  obtain w where w: "addTokenLog sample_env (MintLog mint_of_5) empty_world = (Inr (), w)"
    "balance_of w ''rep'' ''alice'' = 5" using mint_of_5_runs by blast
  have "token_reach sample_env empty_world"
    by (rule token_reach.start) (simp_all add: empty_world_def empty_db_def)
  then have r: "token_reach sample_env w" using w(1) by (rule token_reach.add)
  have l: "\<not> isLegacyReputationToken sample_env ''rep''"
    by (simp add: isLegacyReputationToken_def sample_env_def)
  show ?thesis using ledger_adds_up [OF r l, of "''alice''"] r w(2) by auto
qed

theorem token_logs_roll_back_witness:
  "\<exists>w' w''. forA [MintLog mint_of_5] (addTokenLog sample_env) empty_world = (Inr (), w') \<and>
    balance_of w' ''rep'' ''alice'' = 5 \<and>
    forA (rev [MintLog mint_of_5]) (removeTokenLog sample_env) w' = (Inr (), w'') \<and>
    balance_of w'' ''rep'' ''alice'' = balance_of empty_world ''rep'' ''alice''"
proof -
  obtain w where w: "addTokenLog sample_env (MintLog mint_of_5) empty_world = (Inr (), w)"
    "balance_of w ''rep'' ''alice'' = 5" using mint_of_5_runs by blast
  have run: "forA [MintLog mint_of_5] (addTokenLog sample_env) empty_world = (Inr (), w)"
    using w(1) by (simp add: thenA_eq_Inr return_app)
  have "balances.valid_table empty_world"
    by (simp add: balances.valid_table_def empty_world_def empty_db_def)
  from token_logs_roll_back [OF this run] w(2) run show ?thesis by blast
qed

end
