(* ===== verification/Liquidity.thy ===== *)
theory Liquidity
  imports Simulated_Order_Book "HOL-Library.Multiset"
begin

text \<open>
  \<open>src/utils/liquidity.ts\<close> and \<open>src/utils/gas.ts\<close>: the metrics of one outcome's order book
  (what its bids and asks are worth if the market turns out invalid, its spread, and the liquidity
  available at each spread percent). Reading the books and writing the metrics to the database is
  in \<open>Market_Order_Books\<close>.

  Parameters: \<open>dv\<close> (division), \<open>math_exp\<close> (\<open>Math.exp\<close>), the current time in milliseconds
  (\<open>new Date()\<close>), the gas price, and \<open>toNum\<close>, the conversion to a JavaScript number by which the
  spread percents are sorted.

  The loop of \<open>getLiquidity\<close> runs on fuel. That it needs at most as many rounds as it takes to
  empty the book by the given increment is proved through the interface \<open>increment_market\<close>, which
  says what the loop needs of an order book, interpreted on the book of
  \<open>Simulated_Order_Book\<close>.
\<close>

section \<open>Gas price\<close>

text \<open>
  The module variables of \<open>gas.ts\<close>. A response of the gas station service is: no answer, an answer
  without a (truthy) average, or an average, which may fail to be a number.
\<close>

record gas_state =
  apiStandardGasPriceGwei :: "bn option"
  gasFetchNote :: string

datatype gas_response = RequestFailed | NoAverage | Average "bn option"

definition defaultStandardGasPriceGwei :: bn where
  "defaultStandardGasPriceGwei = 5"

definition currentStandardGasPriceGwei :: "gas_state \<Rightarrow> bn" where
  "currentStandardGasPriceGwei g =
     (case apiStandardGasPriceGwei g of Some p \<Rightarrow> p | None \<Rightarrow> defaultStandardGasPriceGwei)"

definition fetchGasPrice :: "gas_response \<Rightarrow> string \<Rightarrow> gas_state \<Rightarrow> gas_state" where
  "fetchGasPrice resp now g =
     (let failed = \<lparr>apiStandardGasPriceGwei = None,
            gasFetchNote = ''ethgasstation standard fetch failed on '' @ now\<rparr> in
      case resp of
        RequestFailed \<Rightarrow> failed
      | NoAverage \<Rightarrow> failed
      | Average None \<Rightarrow> failed \<comment> \<open>the throw after noting the failed parse reaches \<open>catch\<close>\<close>
      | Average (Some a) \<Rightarrow>
          (if a = 0 then failed
           else g\<lparr>apiStandardGasPriceGwei := Some (a / 10),
                 gasFetchNote := ''ethgasstation standard fetched on '' @ now\<rparr>))"

section \<open>Invalid-market metrics\<close>

record metrics_params =
  mp_marketMinPrice :: quantity
  mp_marketMaxPrice :: quantity
  mp_reporterFeeRate :: quantity
  mp_totalFeeRate :: quantity
  mp_bids :: "quantity_at_price list"
  mp_asks :: "quantity_at_price list"
  mp_numOutcomes :: int
  mp_endDate :: int

definition price_params :: "metrics_params \<Rightarrow> fin_params" where
  "price_params p = no_params\<lparr>marketMinPrice := mp_marketMinPrice p,
     marketMaxPrice := mp_marketMaxPrice p\<rparr>"

definition getInvalidSharePrice ::
  "bn_division_op \<Rightarrow> metrics_params \<Rightarrow> quantity \<Rightarrow> quantity result" where
  "getInvalidSharePrice dv p feeRate =
     bindE (qminus (mp_marketMaxPrice p) (mp_marketMinPrice p)) (\<lambda>marketDisplayRange.
     bindE (dividedBy dv marketDisplayRange (Sc (of_int (mp_numOutcomes p)))) (\<lambda>invalidPrice.
     bindE (getSharePrice ((price_params p)\<lparr>tradePriceMinusMinPrice := Some invalidPrice\<rparr>) PosLong)
       (\<lambda>invalidSharePriceWithoutFees.
     bindE (qminus (Sc 1) feeRate) (\<lambda>rate.
     Inr (multipliedBy invalidSharePriceWithoutFees rate)))))"

text \<open>The share price of the first entry of a side, \<open>None\<close> for an empty side.\<close>

definition bestSharePrice ::
  "metrics_params \<Rightarrow> quantity_at_price list \<Rightarrow> position_type \<Rightarrow> quantity option result" where
  "bestSharePrice p side positionType =
     (case side of
        [] \<Rightarrow> Inr None
      | best # _ \<Rightarrow>
          bindE (qminus (qap_tradePrice best) (mp_marketMinPrice p)) (\<lambda>t.
          bindE (getSharePrice ((price_params p)\<lparr>tradePriceMinusMinPrice := Some t\<rparr>) positionType)
            (\<lambda>sharePrice. Inr (Some sharePrice))))"

definition roiPercent ::
  "bn_division_op \<Rightarrow> quantity \<Rightarrow> quantity option \<Rightarrow> quantity option result" where
  "roiPercent dv revenue sharePrice =
     (case sharePrice of
        None \<Rightarrow> Inr None
      | Some sp \<Rightarrow>
          bindE (lte sp (Pr 0)) (\<lambda>free.
          if free then Inr (Some (Pc 0))
          else bindE (dividedBy dv revenue sp) (\<lambda>q. bindE (expect CPercent q) (\<lambda>percent.
               bindE (qminus percent (Sc 1)) (\<lambda>roi. Inr (Some roi))))))"

definition getInvalidROIPercent :: "bn_division_op \<Rightarrow> metrics_params \<Rightarrow> quantity result" where
  "getInvalidROIPercent dv p =
     bindE (getInvalidSharePrice dv p (mp_reporterFeeRate p)) (\<lambda>invalidSharePrice.
     bindE (bestSharePrice p (mp_bids p) PosLong) (\<lambda>bestBidSharePrice.
     bindE (bestSharePrice p (mp_asks p) PosShort) (\<lambda>bestAskSharePrice.
     bindE (roiPercent dv invalidSharePrice bestBidSharePrice) (\<lambda>bestBidROIPercent.
     bindE (roiPercent dv (multipliedBy invalidSharePrice (Sc (of_int (mp_numOutcomes p - 1))))
              bestAskSharePrice) (\<lambda>bestAskROIPercent.
       case (bestBidROIPercent, bestAskROIPercent) of
         (Some bid, Some ask) \<Rightarrow>
           bindE (lte bid (Pc 0)) (\<lambda>noBid.
           if noBid then Inr (Pc 0)
           else bindE (lte ask (Pc 0)) (\<lambda>noAsk.
             if noAsk then Inr (Pc 0)
             else bindE (qplus bid ask) (\<lambda>sum. dividedBy dv sum (Sc 2))))
       | _ \<Rightarrow> Inr (Pc 0))))))"

definition gasToTrade :: bn where "gasToTrade = 1750000"
definition gasToClaimWinnings :: bn where "gasToClaimWinnings = 1000000"
definition tenToTheNine :: bn where "tenToTheNine = 10 ^ 9"
definition annualDiscountRate :: quantity where "annualDiscountRate = Pc (1 / 10)"
definition millisecondsPerYear :: quantity where "millisecondsPerYear = Sc 31536000000"

text \<open>\<open>14.0 / 365.0\<close> as the JavaScript number prints.\<close>

definition yearsAfterExpiryToAssumeFinalization :: quantity where
  "yearsAfterExpiryToAssumeFinalization = Sc (38356164383561646 / 10 ^ 18)"

definition yearsBetweenDates :: "bn_division_op \<Rightarrow> int \<Rightarrow> int \<Rightarrow> quantity result" where
  "yearsBetweenDates dv startDate endDate =
     bindE (qminus (Sc (of_int endDate)) (Sc (of_int startDate))) (\<lambda>millisDelta.
     dividedBy dv millisDelta millisecondsPerYear)"

definition takerCost ::
  "(bn \<Rightarrow> bn) \<Rightarrow> quantity \<Rightarrow> quantity_at_price list \<Rightarrow> quantity option \<Rightarrow> quantity option result"
  where
  "takerCost math_exp timeToFinalizationInYears side takerSharePrice =
     (case (side, takerSharePrice) of
        (best # _, Some sp) \<Rightarrow>
          bindE (expect CTokens (multipliedBy (qap_quantity best) sp)) (\<lambda>amount.
          Inr (Some (continuousCompound math_exp amount annualDiscountRate
                       timeToFinalizationInYears)))
      | _ \<Rightarrow> Inr None)"

definition takerProfit ::
  "quantity option \<Rightarrow> quantity option \<Rightarrow> quantity \<Rightarrow> quantity result" where
  "takerProfit revenue cost gasCost =
     (case (revenue, cost) of
        (Some r, Some c) \<Rightarrow> bindE (qminus r c) (\<lambda>d. qminus d gasCost)
      | _ \<Rightarrow> Inr (Tk 0))"

definition getBestBidAskTakerInvalidProfit ::
  "bn_division_op \<Rightarrow> (bn \<Rightarrow> bn) \<Rightarrow> int \<Rightarrow> bn \<Rightarrow> metrics_params \<Rightarrow> (quantity \<times> quantity) result"
  where
  "getBestBidAskTakerInvalidProfit dv math_exp now gasPrice p =
     bindE (getInvalidSharePrice dv p (mp_totalFeeRate p)) (\<lambda>invalidSharePrice.
     bindE (case mp_bids p of [] \<Rightarrow> Inr None | best # _ \<Rightarrow>
              bindE (expect CTokens (multipliedBy (multipliedBy (qap_quantity best)
                  invalidSharePrice) (Sc (of_int (mp_numOutcomes p - 1))))) (\<lambda>r. Inr (Some r)))
       (\<lambda>bidRevenue.
     bindE (case mp_asks p of [] \<Rightarrow> Inr None | best # _ \<Rightarrow>
              bindE (expect CTokens (multipliedBy (qap_quantity best) invalidSharePrice))
                (\<lambda>r. Inr (Some r)))
       (\<lambda>askRevenue.
     bindE (bestSharePrice p (mp_bids p) PosShort) (\<lambda>bidTakerSharePrice.
     bindE (bestSharePrice p (mp_asks p) PosLong) (\<lambda>askTakerSharePrice.
     let takerGasCostToRealizeProfit =
           Tk (dv ((gasToTrade + gasToClaimWinnings) * gasPrice) tenToTheNine) in
     bindE (yearsBetweenDates dv now (mp_endDate p)) (\<lambda>yearsToExpiry.
     bindE (qplus yearsToExpiry yearsAfterExpiryToAssumeFinalization) (\<lambda>years.
     bindE (qmax years (Sc 0)) (\<lambda>timeToFinalizationInYears.
     bindE (takerCost math_exp timeToFinalizationInYears (mp_bids p) bidTakerSharePrice)
       (\<lambda>bidCost.
     bindE (takerCost math_exp timeToFinalizationInYears (mp_asks p) askTakerSharePrice)
       (\<lambda>askCost.
     bindE (takerProfit bidRevenue bidCost takerGasCostToRealizeProfit) (\<lambda>bidProfit.
     bindE (takerProfit askRevenue askCost takerGasCostToRealizeProfit) (\<lambda>askProfit.
     Inr (bidProfit, askProfit)))))))))))))"

record invalid_metrics =
  invalidROIPercent :: quantity
  bestBidTakerInvalidProfitTokens :: quantity
  bestAskTakerInvalidProfitTokens :: quantity

definition getInvalidMetrics ::
  "bn_division_op \<Rightarrow> (bn \<Rightarrow> bn) \<Rightarrow> int \<Rightarrow> bn \<Rightarrow> metrics_params \<Rightarrow> invalid_metrics result" where
  "getInvalidMetrics dv math_exp now gasPrice p =
     bindE (getInvalidROIPercent dv p) (\<lambda>roi.
     bindE (getBestBidAskTakerInvalidProfit dv math_exp now gasPrice p) (\<lambda>(bid, ask).
     Inr \<lparr>invalidROIPercent = roi, bestBidTakerInvalidProfitTokens = bid,
          bestAskTakerInvalidProfitTokens = ask\<rparr>))"

section \<open>Spread\<close>

text \<open>
  \<open>takeFromBidsOrAsks\<close> appends an entry of infinite quantity at the market's own limit price to the
  side; here it is the second argument, and its branch is the last one: the minimum of a finite
  quantity and the infinite one is the finite one, so nothing remains to take after it.
\<close>

fun takeFromBidsOrAsks ::
  "quantity_at_price list \<Rightarrow> quantity \<Rightarrow> quantity \<Rightarrow> quantity \<Rightarrow> quantity result" where
  "takeFromBidsOrAsks [] limitPrice valueTaken qtyRemainingToTake =
     bindE (gt qtyRemainingToTake (Sh 0)) (\<lambda>more.
     if \<not> more then Inr valueTaken
     else bindE (expect CTokens (multipliedBy qtyRemainingToTake limitPrice)) (\<lambda>value.
          qplus valueTaken value))"
| "takeFromBidsOrAsks (e # es) limitPrice valueTaken qtyRemainingToTake =
     bindE (gt qtyRemainingToTake (Sh 0)) (\<lambda>more.
     if \<not> more then Inr valueTaken
     else bindE (qmin qtyRemainingToTake (qap_quantity e)) (\<lambda>qtyToTakeAtThisPrice.
          bindE (expect CTokens (multipliedBy qtyToTakeAtThisPrice (qap_tradePrice e))) (\<lambda>value.
          bindE (qplus valueTaken value) (\<lambda>valueTaken'.
          bindE (qminus qtyRemainingToTake qtyToTakeAtThisPrice) (\<lambda>remaining.
          takeFromBidsOrAsks es limitPrice valueTaken' remaining)))))"

definition sumQuantity :: "quantity_at_price list \<Rightarrow> quantity result" where
  "sumQuantity side = foldE (\<lambda>sum e. qplus sum (qap_quantity e)) (Sh 0) side"

definition DefaultPercentQuantityIncludedInSpread :: quantity where
  "DefaultPercentQuantityIncludedInSpread = Pc (1 / 10)"

definition spreadNumShares :: "metrics_params \<Rightarrow> quantity \<Rightarrow> quantity result" where
  "spreadNumShares p percentQuantityIncludedInSpread =
     bindE (sumQuantity (mp_asks p)) (\<lambda>sumAskQuantity.
     bindE (sumQuantity (mp_bids p)) (\<lambda>sumBidQuantity.
     bindE (qmax sumAskQuantity sumBidQuantity) (\<lambda>largest.
     let percentSharesOfLargestSide = multipliedBy largest percentQuantityIncludedInSpread in
     Inr (if isZero percentSharesOfLargestSide then Sh 1 else percentSharesOfLargestSide))))"

definition getOutcomeSpread ::
  "bn_division_op \<Rightarrow> metrics_params \<Rightarrow> quantity \<Rightarrow> quantity result" where
  "getOutcomeSpread dv p percentQuantityIncludedInSpread =
     bindE (spreadNumShares p percentQuantityIncludedInSpread) (\<lambda>numShares.
     bindE (takeFromBidsOrAsks (mp_bids p) (mp_marketMinPrice p) (Tk 0) numShares) (\<lambda>bidValue.
     bindE (takeFromBidsOrAsks (mp_asks p) (mp_marketMaxPrice p) (Tk 0) numShares) (\<lambda>askValue.
     bindE (qminus askValue bidValue) (\<lambda>difference.
     bindE (qminus (mp_marketMaxPrice p) (mp_marketMinPrice p)) (\<lambda>range.
     bindE (dividedBy dv difference (multipliedBy range numShares)) (\<lambda>q.
     bindE (expect CPercent q) (\<lambda>tmpSpreadPercent.
     bindE (lt tmpSpreadPercent (Pc 0)) (\<lambda>negative.
     Inr (if negative then Pc 0 else tmpSpreadPercent)))))))))"

section \<open>Liquidity\<close>

definition LIQUIDITY_SPREAD_PERCENTS :: "quantity list" where
  "LIQUIDITY_SPREAD_PERCENTS = [Pc (10 / 100), Pc (15 / 100), Pc (20 / 100), Pc 1]"

definition SELL_INCREMENT_COST_DEFAULT :: quantity where
  "SELL_INCREMENT_COST_DEFAULT = Tk (2 / 100)"

definition ONE_HUNDRED_MILLION :: quantity where "ONE_HUNDRED_MILLION = Sc 100000000"
definition MAX_ITERATIONS :: nat where "MAX_ITERATIONS = 100000"

definition iteration_factor :: "nat \<Rightarrow> quantity" where
  "iteration_factor iterations = (if iterations > MAX_ITERATIONS then ONE_HUNDRED_MILLION else Sc 1)"

text \<open>The inner loop: the spread percents that this round settles, and those left.\<close>

fun settle_spreads ::
  "bn_division_op \<Rightarrow> quantity \<Rightarrow> quantity \<Rightarrow> quantity \<Rightarrow> quantity \<Rightarrow> quantity list \<Rightarrow>
   ((quantity \<times> quantity) list \<times> quantity list) result" where
  "settle_spreads dv proceeds nextLiquidityTokens liquidityTokenCost liquidityTokens [] =
     Inr ([], [])"
| "settle_spreads dv proceeds nextLiquidityTokens liquidityTokenCost liquidityTokens (sp # sps) =
     bindE (lte proceeds (Tk 0)) (\<lambda>empty.
     bindE (if empty then Inr True
            else bindE (dividedBy dv nextLiquidityTokens liquidityTokenCost) (\<lambda>q.
                 bindE (expect CPercent q) (\<lambda>percent.
                 bindE (qminus (Pc 1) sp) (\<lambda>bound. lt percent bound)))) (\<lambda>settled.
     if settled then
       bindE (settle_spreads dv proceeds nextLiquidityTokens liquidityTokenCost liquidityTokens sps)
         (\<lambda>(done, left). Inr ((sp, liquidityTokens) # done, left))
     else Inr ([], sp # sps)))"

fun liquidity_loop ::
  "bn_division_op \<Rightarrow> quantity \<Rightarrow> quantity \<Rightarrow> quantity \<Rightarrow> nat \<Rightarrow> nat \<Rightarrow> quantity \<Rightarrow> quantity \<Rightarrow>
   order_book \<Rightarrow> quantity list \<Rightarrow> (quantity \<times> quantity) list result" where
  "liquidity_loop dv sellIncrementCost sellIncrement feeRate fuel iterations
     liquidityTokenCost liquidityTokens ob [] = Inr []"
| "liquidity_loop dv sellIncrementCost sellIncrement feeRate 0 iterations
     liquidityTokenCost liquidityTokens ob (sp # sps) = Inl OutOfFuel"
| "liquidity_loop dv sellIncrementCost sellIncrement feeRate (Suc fuel) iterations
     liquidityTokenCost liquidityTokens ob (sp # sps) =
     (let iterations' = iterations + 1;
          costThisIteration = multipliedBy sellIncrementCost (iteration_factor iterations');
          sellThisIteration = multipliedBy sellIncrement (iteration_factor iterations') in
      bindE (qplus liquidityTokenCost costThisIteration) (\<lambda>liquidityTokenCost'.
      bindE (closeLongFillOnlyWithFeeAdjustment dv ob sellThisIteration feeRate False)
        (\<lambda>(longProceeds, ob1).
      bindE (closeShortFillOnlyWithFeeAdjustment dv ob1 sellThisIteration feeRate False)
        (\<lambda>(shortProceeds, ob2).
      bindE (qplus longProceeds shortProceeds) (\<lambda>proceeds.
      bindE (qplus liquidityTokens proceeds) (\<lambda>nextLiquidityTokens.
      bindE (settle_spreads dv proceeds nextLiquidityTokens liquidityTokenCost' liquidityTokens
               (sp # sps)) (\<lambda>(done, left).
      bindE (liquidity_loop dv sellIncrementCost sellIncrement feeRate fuel iterations'
               liquidityTokenCost' nextLiquidityTokens ob2 left) (\<lambda>later.
      Inr (done @ later)))))))))"

definition getLiquidity ::
  "bn_division_op \<Rightarrow> (bn \<Rightarrow> rat) \<Rightarrow> quantity \<Rightarrow> nat \<Rightarrow> quantity list \<Rightarrow> quantity \<Rightarrow> quantity \<Rightarrow>
   order_book \<Rightarrow> (quantity \<times> quantity) list result" where
  "getLiquidity dv toNum SELL_INCREMENT_COST fuel spreadPercents completeSetCost feeRate ob =
     bindE (dividedBy dv SELL_INCREMENT_COST completeSetCost) (\<lambda>q.
     bindE (expect CShares q) (\<lambda>sellIncrement.
     liquidity_loop dv SELL_INCREMENT_COST sellIncrement feeRate fuel 0 (Tk 0) (Tk 0) ob
       (sort_key (\<lambda>sp. toNum (magnitude sp)) spreadPercents)))"

section \<open>The liquidity loop on plain numbers\<close>

definition round_factor :: "nat \<Rightarrow> bn" where
  "round_factor iterations = (if iterations > MAX_ITERATIONS then 100000000 else 1)"

lemma iteration_factor_construct: "iteration_factor i = Sc (round_factor i)"
  by (simp add: iteration_factor_def round_factor_def ONE_HUNDRED_MILLION_def)

lemma round_factor_ge_1: "1 \<le> round_factor i"
  by (simp add: round_factor_def)

text \<open>
  \<open>sell b s\<close>: proceeds of selling \<open>s\<close> complete sets into the book \<open>b\<close>, and the book left. \<open>after\<close>,
  \<open>tokens_after\<close> and \<open>cost_after\<close> describe the state of the loop after \<open>n\<close> rounds; \<open>stops\<close> is the
  condition that ends the rounds that count for a spread percent.
\<close>

fun after :: "('b \<Rightarrow> bn \<Rightarrow> bn \<times> 'b) \<Rightarrow> bn \<Rightarrow> 'b \<Rightarrow> nat \<Rightarrow> 'b" where
  "after sell s b 0 = b"
| "after sell s b (Suc n) = snd (sell (after sell s b n) (s * round_factor (Suc n)))"

definition round_proceeds :: "('b \<Rightarrow> bn \<Rightarrow> bn \<times> 'b) \<Rightarrow> bn \<Rightarrow> 'b \<Rightarrow> nat \<Rightarrow> bn" where
  "round_proceeds sell s b n = fst (sell (after sell s b n) (s * round_factor (Suc n)))"

fun tokens_after :: "('b \<Rightarrow> bn \<Rightarrow> bn \<times> 'b) \<Rightarrow> bn \<Rightarrow> 'b \<Rightarrow> nat \<Rightarrow> bn" where
  "tokens_after sell s b 0 = 0"
| "tokens_after sell s b (Suc n) = tokens_after sell s b n + round_proceeds sell s b n"

fun cost_after :: "bn \<Rightarrow> nat \<Rightarrow> bn" where
  "cost_after c 0 = 0"
| "cost_after c (Suc n) = cost_after c n + c * round_factor (Suc n)"

definition stops ::
  "bn_division_op \<Rightarrow> ('b \<Rightarrow> bn \<Rightarrow> bn \<times> 'b) \<Rightarrow> bn \<Rightarrow> bn \<Rightarrow> 'b \<Rightarrow> bn \<Rightarrow> nat \<Rightarrow> bool" where
  "stops dv sell c s b sp n \<longleftrightarrow> round_proceeds sell s b n \<le> 0 \<or>
     dv (tokens_after sell s b (Suc n)) (cost_after c (Suc n)) < 1 - sp"

definition first_stop ::
  "bn_division_op \<Rightarrow> ('b \<Rightarrow> bn \<Rightarrow> bn \<times> 'b) \<Rightarrow> bn \<Rightarrow> bn \<Rightarrow> 'b \<Rightarrow> bn \<Rightarrow> nat \<Rightarrow> bool" where
  "first_stop dv sell c s b sp n \<longleftrightarrow>
     stops dv sell c s b sp n \<and> (\<forall>m < n. \<not> stops dv sell c s b sp m)"

fun liq_loop ::
  "bn_division_op \<Rightarrow> ('b \<Rightarrow> bn \<Rightarrow> bn \<times> 'b) \<Rightarrow> bn \<Rightarrow> bn \<Rightarrow> nat \<Rightarrow> nat \<Rightarrow> bn \<Rightarrow> bn \<Rightarrow> 'b \<Rightarrow> bn list \<Rightarrow>
   (bn \<times> bn) list option" where
  "liq_loop dv sell c s fuel i cost tok b [] = Some []"
| "liq_loop dv sell c s 0 i cost tok b (sp # sps) = None"
| "liq_loop dv sell c s (Suc fuel) i cost tok b (sp # sps) =
     (let cost' = cost + c * round_factor (Suc i);
          (p, b') = sell b (s * round_factor (Suc i));
          settled = (\<lambda>x. p \<le> 0 \<or> dv (tok + p) cost' < 1 - x) in
      map_option ((@) (map (\<lambda>x. (x, tok)) (takeWhile settled (sp # sps))))
        (liq_loop dv sell c s fuel (Suc i) cost' (tok + p) b' (dropWhile settled (sp # sps))))"

lemma cost_after_ge: "0 < c \<Longrightarrow> of_nat n * c \<le> cost_after c n"
proof (induction n)
  case (Suc n)
  have "c * 1 \<le> c * round_factor (Suc n)"
    using Suc.prems round_factor_ge_1 by (intro mult_left_mono) auto
  moreover have "of_nat (Suc n) * c = of_nat n * c + c" by (simp add: distrib_right)
  ultimately show ?case using Suc.IH [OF Suc.prems] unfolding cost_after.simps by linarith
qed simp

lemma cost_after_pos: "0 < c \<Longrightarrow> 0 < cost_after c (Suc n)"
proof -
  assume c: "0 < c"
  have "0 < of_nat (Suc n) * c" using c by (intro mult_pos_pos) auto
  with cost_after_ge [OF c, of "Suc n"] show ?thesis by linarith
qed

lemma first_stop_antimono:
  "sp \<le> sp' \<Longrightarrow> stops dv sell c s b sp' n \<Longrightarrow> stops dv sell c s b sp n"
  by (auto simp: stops_def)

text \<open>
  What the loop needs of an order book: a sale keeps it well formed, a sale of nothing brings
  nothing, and there is a number of rounds that no sale increases and that every sale of at least
  \<open>s\<close> sets with positive proceeds decreases.
\<close>

locale increment_market =
  fixes sell :: "'b \<Rightarrow> bn \<Rightarrow> bn \<times> 'b"
    and rounds :: "bn \<Rightarrow> 'b \<Rightarrow> nat"
    and ok :: "'b \<Rightarrow> bool"
  assumes sell_ok: "ok b \<Longrightarrow> ok (snd (sell b s))"
    and sell_none: "ok b \<Longrightarrow> s \<le> 0 \<Longrightarrow> fst (sell b s) \<le> 0"
    and rounds_le: "ok b \<Longrightarrow> 0 < s \<Longrightarrow> rounds s (snd (sell b s')) \<le> rounds s b"
    and rounds_less: "ok b \<Longrightarrow> 0 < s \<Longrightarrow> s \<le> s' \<Longrightarrow> 0 < fst (sell b s') \<Longrightarrow>
      rounds s (snd (sell b s')) < rounds s b"
begin

lemma after_ok: "ok b \<Longrightarrow> ok (after sell s b n)"
  by (induction n) (auto intro: sell_ok)

text \<open>Rounds left: slow ones up to \<open>MAX_ITERATIONS\<close>, then as many big ones as empty the book.\<close>

definition rounds_left :: "bn \<Rightarrow> 'b \<Rightarrow> nat \<Rightarrow> nat" where
  "rounds_left s b n =
     (MAX_ITERATIONS - n) + (if s \<le> 0 then 0 else rounds (s * 100000000) (after sell s b n))"

lemma rounds_left_decreases:
  assumes "ok b" "0 < round_proceeds sell s b n"
  shows "rounds_left s b (Suc n) < rounds_left s b n"
proof -
  let ?b = "after sell s b n"
  have okn: "ok ?b" using assms(1) by (rule after_ok)
  have s: "0 < s"
  proof (rule ccontr)
    assume "\<not> 0 < s"
    then have "s * round_factor (Suc n) \<le> 0"
      using round_factor_ge_1 [of "Suc n"] by (intro mult_nonpos_nonneg) auto
    with sell_none [OF okn] assms(2) show False by (simp add: round_proceeds_def leD)
  qed
  then have big: "0 < s * 100000000" by simp
  show ?thesis
  proof (cases "n < MAX_ITERATIONS")
    case True
    with rounds_le [OF okn big, of "s * round_factor (Suc n)"] s show ?thesis
      by (simp add: rounds_left_def)
  next
    case False
    then have "round_factor (Suc n) = 100000000" by (simp add: round_factor_def)
    with rounds_less [OF okn big, of "s * round_factor (Suc n)"] s False assms(2) show ?thesis
      by (simp add: rounds_left_def round_proceeds_def)
  qed
qed

definition settles ::
  "bn_division_op \<Rightarrow> bn \<Rightarrow> bn \<Rightarrow> 'b \<Rightarrow> bn list \<Rightarrow> (bn \<times> bn) list \<Rightarrow> bool" where
  "settles dv c s b sps r \<longleftrightarrow> list_all2 (\<lambda>sp e. fst e = sp \<and>
     (\<exists>n. first_stop dv sell c s b sp n \<and> snd e = tokens_after sell s b n)) sps r"

lemma settles_append:
  "settles dv c s b xs r \<Longrightarrow> settles dv c s b ys r' \<Longrightarrow> settles dv c s b (xs @ ys) (r @ r')"
  unfolding settles_def by (rule list_all2_appendI)

lemma settles_now:
  "(\<And>sp. sp \<in> set xs \<Longrightarrow> first_stop dv sell c s b sp i) \<Longrightarrow>
    settles dv c s b xs (map (\<lambda>x. (x, tokens_after sell s b i)) xs)"
  unfolding settles_def by (auto simp: list_all2_map2 intro!: list.rel_refl_strong)

lemma loop_step:
  assumes "liq_loop dv sell c s fuel (Suc i) (cost_after c (Suc i)) (tokens_after sell s b (Suc i))
      (after sell s b (Suc i)) (dropWhile (\<lambda>sp. stops dv sell c s b sp i) (x # xs)) = Some r"
  shows "liq_loop dv sell c s (Suc fuel) i (cost_after c i) (tokens_after sell s b i)
      (after sell s b i) (x # xs) =
    Some (map (\<lambda>sp. (sp, tokens_after sell s b i))
      (takeWhile (\<lambda>sp. stops dv sell c s b sp i) (x # xs)) @ r)"
proof -
  have "(\<lambda>sp. stops dv sell c s b sp i) =
    (\<lambda>sp. fst (sell (after sell s b i) (s * round_factor (Suc i))) \<le> 0 \<or>
      dv (tokens_after sell s b i + fst (sell (after sell s b i) (s * round_factor (Suc i))))
        (cost_after c i + c * round_factor (Suc i)) < 1 - sp)"
    by (simp add: stops_def round_proceeds_def fun_eq_iff)
  with assms show ?thesis
    by (simp only: liq_loop.simps Let_def case_prod_beta cost_after.simps tokens_after.simps
        after.simps round_proceeds_def option.map)
qed

lemma loop_settles:
  assumes "ok b" "sorted sps" "rounds_left s b i < fuel"
    "\<forall>sp \<in> set sps. \<forall>m < i. \<not> stops dv sell c s b sp m"
  shows "\<exists>r. liq_loop dv sell c s fuel i (cost_after c i) (tokens_after sell s b i)
      (after sell s b i) sps = Some r \<and> settles dv c s b sps r"
  using assms(2-)
proof (induction fuel arbitrary: i sps)
  case (Suc fuel)
  show ?case
  proof (cases sps)
    case (Cons x xs)
    define st where "st = (\<lambda>sp. stops dv sell c s b sp i)"
    have left: "\<not> st sp" if "sp \<in> set (dropWhile st sps)" for sp
      by (rule sorted_dropWhile_not [OF _ Suc.prems(1) that])
        (auto simp: st_def intro: first_stop_antimono)
    have "\<exists>r. liq_loop dv sell c s fuel (Suc i) (cost_after c (Suc i))
        (tokens_after sell s b (Suc i)) (after sell s b (Suc i)) (dropWhile st sps) = Some r \<and>
      settles dv c s b (dropWhile st sps) r"
    proof (cases "dropWhile st sps")
      case Nil
      show ?thesis unfolding Nil by (simp add: settles_def)
    next
      case (Cons y ys)
      then have "\<not> st y" using left by simp
      then have "0 < round_proceeds sell s b i" by (simp add: st_def stops_def)
      then have "rounds_left s b (Suc i) < fuel"
        using rounds_left_decreases [OF assms(1), of s i] Suc.prems(2) by linarith
      moreover have "\<forall>sp \<in> set (dropWhile st sps). \<forall>m < Suc i. \<not> stops dv sell c s b sp m"
        using left Suc.prems(3) set_dropWhileD [of _ st sps]
        unfolding less_Suc_eq st_def by blast
      moreover have "sorted (dropWhile st sps)" using Suc.prems(1) by (rule sorted_dropWhile)
      ultimately show ?thesis by (intro Suc.IH)
    qed
    then obtain r where r: "liq_loop dv sell c s fuel (Suc i) (cost_after c (Suc i))
        (tokens_after sell s b (Suc i)) (after sell s b (Suc i)) (dropWhile st sps) = Some r"
      and r2: "settles dv c s b (dropWhile st sps) r" by blast
    have "first_stop dv sell c s b sp i" if "sp \<in> set (takeWhile st sps)" for sp
      using that Suc.prems(3) set_takeWhileD [of sp st sps] by (auto simp: first_stop_def st_def)
    then have "settles dv c s b (takeWhile st sps @ dropWhile st sps)
        (map (\<lambda>x. (x, tokens_after sell s b i)) (takeWhile st sps) @ r)"
      by (intro settles_append settles_now r2)
    then have "settles dv c s b sps
        (map (\<lambda>x. (x, tokens_after sell s b i)) (takeWhile st sps) @ r)"
      by (simp only: takeWhile_dropWhile_id)
    with loop_step [OF r [unfolded Cons st_def]] show ?thesis
      unfolding Cons st_def by (intro exI conjI)
  qed (simp add: settles_def)
qed simp

lemma loop_from_start:
  assumes "ok b" "sorted sps" "rounds_left s b 0 < fuel"
  shows "\<exists>r. liq_loop dv sell c s fuel 0 0 0 b sps = Some r \<and> settles dv c s b sps r"
  using loop_settles [OF assms(1,2), of s 0 fuel dv c] assms(3) by simp

text \<open>Before the stop every round brought something, so the tokens grow.\<close>

lemma tokens_mono:
  "n \<le> m \<Longrightarrow> \<forall>k < m. 0 < round_proceeds sell s b k \<Longrightarrow>
    tokens_after sell s b n \<le> tokens_after sell s b m"
proof (induction m)
  case (Suc m)
  show ?case
  proof (cases "n = Suc m")
    case False
    with Suc have "tokens_after sell s b n \<le> tokens_after sell s b m" by auto
    moreover have "0 < round_proceeds sell s b m" using Suc.prems by auto
    ultimately show ?thesis by simp
  qed simp
qed simp

lemma first_stop_tokens_mono:
  assumes "sp \<le> sp'" "first_stop dv sell c s b sp n" "first_stop dv sell c s b sp' n'"
  shows "tokens_after sell s b n \<le> tokens_after sell s b n'"
proof (rule tokens_mono)
  show "n \<le> n'"
    using assms first_stop_antimono [OF assms(1)] unfolding first_stop_def by (meson not_le)
  show "\<forall>k < n'. 0 < round_proceeds sell s b k"
    using assms(3) by (auto simp only: first_stop_def stops_def not_le)
qed

lemma first_stop_tokens_nonneg:
  assumes "first_stop dv sell c s b sp n"
  shows "0 \<le> tokens_after sell s b n"
proof -
  have "\<forall>k < n. 0 < round_proceeds sell s b k"
    using assms by (auto simp only: first_stop_def stops_def not_le)
  with tokens_mono [of 0 n s b] show ?thesis by simp
qed

lemma settles_sorted:
  assumes "settles dv c s b sps r" "sorted sps"
  shows "sorted (map snd r)" "\<forall>e \<in> set r. 0 \<le> snd e" "map fst r = sps"
proof -
  have len: "length r = length sps" using assms(1) by (simp add: settles_def list_all2_lengthD)
  have nth: "fst (r ! i) = sps ! i \<and> (\<exists>n. first_stop dv sell c s b (sps ! i) n \<and>
      snd (r ! i) = tokens_after sell s b n)" if "i < length sps" for i
    using assms(1) that by (simp add: settles_def list_all2_conv_all_nth)
  show "sorted (map snd r)"
    unfolding sorted_iff_nth_mono
  proof (intro allI impI)
    fix i j assume ij: "i \<le> j" "j < length (map snd r)"
    then obtain n m where "first_stop dv sell c s b (sps ! i) n" "snd (r ! i) = tokens_after sell s b n"
      "first_stop dv sell c s b (sps ! j) m" "snd (r ! j) = tokens_after sell s b m"
      using nth [of i] nth [of j] len by auto
    moreover have "sps ! i \<le> sps ! j" using assms(2) ij len by (simp add: sorted_nth_mono)
    ultimately show "map snd r ! i \<le> map snd r ! j"
      using first_stop_tokens_mono [of "sps ! i" "sps ! j" dv c s b n m] ij by simp
  qed
  show "\<forall>e \<in> set r. 0 \<le> snd e"
    using nth first_stop_tokens_nonneg len by (metis in_set_conv_nth)
  show "map fst r = sps" using nth len by (intro nth_equalityI) auto
qed

end

section \<open>The order book as an increment market\<close>

definition sell_sets ::
  "bn_division_op \<Rightarrow> bn \<Rightarrow> bn \<Rightarrow> bn \<Rightarrow> level list \<times> level list \<Rightarrow> bn \<Rightarrow>
   bn \<times> level list \<times> level list" where
  "sell_sets dv mn mx f b s =
     (dv (take_proceeds (take_price mn mx PosLong) (fst b) s) (1 - f) +
        dv (take_proceeds (take_price mn mx PosShort) (snd b) s) (1 + f),
      take_best (take_price mn mx PosLong) (fst b) s,
      take_best (take_price mn mx PosShort) (snd b) s)"

lemma sell_sets_pair:
  "sell_sets dv mn mx f (x, y) s =
    (dv (take_proceeds (take_price mn mx PosLong) x s) (1 - f) +
       dv (take_proceeds (take_price mn mx PosShort) y s) (1 + f),
     take_best (take_price mn mx PosLong) x s, take_best (take_price mn mx PosShort) y s)"
  by (simp add: sell_sets_def)

lemma sell_sets_sel:
  "fst (sell_sets dv mn mx f b s) =
     dv (take_proceeds (take_price mn mx PosLong) (fst b) s) (1 - f) +
     dv (take_proceeds (take_price mn mx PosShort) (snd b) s) (1 + f)"
  "fst (snd (sell_sets dv mn mx f b s)) = take_best (take_price mn mx PosLong) (fst b) s"
  "snd (snd (sell_sets dv mn mx f b s)) = take_best (take_price mn mx PosShort) (snd b) s"
  by (simp_all add: sell_sets_def)

definition side_rounds :: "bn \<Rightarrow> level list \<Rightarrow> nat" where
  "side_rounds s side = nat \<lceil>total side / s\<rceil>"

definition book_rounds :: "bn \<Rightarrow> level list \<times> level list \<Rightarrow> nat" where
  "book_rounds s b = side_rounds s (fst b) + side_rounds s (snd b)"

definition book_ok :: "level list \<times> level list \<Rightarrow> bool" where
  "book_ok b \<longleftrightarrow> levels_ok (fst b) \<and> levels_ok (snd b)"

lemma take_best_total_le: "levels_ok side \<Longrightarrow> total (take_best sp side s) \<le> total side"
  using take_best_total [of side s sp] total_nonneg [of side]
  by (cases "0 \<le> s") (auto simp: min_def)

lemma side_rounds_le:
  "levels_ok side \<Longrightarrow> 0 < s \<Longrightarrow> side_rounds s (take_best sp side s') \<le> side_rounds s side"
  unfolding side_rounds_def
  by (intro nat_mono ceiling_mono divide_right_mono take_best_total_le) auto

lemma nat_ceiling_less:
  fixes x y :: bn
  assumes "0 < y" "x \<le> 0 \<or> x \<le> y - 1"
  shows "nat \<lceil>x\<rceil> < nat \<lceil>y\<rceil>"
proof -
  have pos: "0 < \<lceil>y\<rceil>" using assms(1) by simp
  from assms(2) have "\<lceil>x\<rceil> < \<lceil>y\<rceil>"
  proof
    assume "x \<le> 0"
    then have "\<lceil>x\<rceil> \<le> 0" by simp
    with pos show ?thesis by linarith
  next
    assume "x \<le> y - 1"
    then have "\<lceil>x\<rceil> \<le> \<lceil>y - 1\<rceil>" by (rule ceiling_mono)
    then show ?thesis by simp
  qed
  then show ?thesis using pos by (simp only: nat_mono_iff)
qed

lemma side_rounds_less:
  assumes "levels_ok side" "0 < s" "s \<le> s'" "0 < total side"
  shows "side_rounds s (take_best sp side s') < side_rounds s side"
proof -
  let ?T = "total side" and ?T' = "total (take_best sp side s')"
  have pos: "0 < ?T / s" using assms by simp
  have T': "?T' = ?T - min s' ?T"
    using take_best_total [OF assms(1), of s' sp] assms(2,3) by simp
  consider "?T' / s \<le> 0" | "?T' / s \<le> ?T / s - 1"
  proof (cases "?T \<le> s'")
    case True
    then show ?thesis using T' that(1) by simp
  next
    case False
    then have "?T' \<le> ?T - s" using T' assms(3) by simp
    then have "?T' / s \<le> (?T - s) / s" using assms(2) by (intro divide_right_mono) auto
    then show ?thesis using assms(2) that(2) by (simp add: diff_divide_distrib)
  qed
  then show ?thesis
    unfolding side_rounds_def by cases (blast intro: nat_ceiling_less [OF pos])+
qed

lemma take_proceeds_empty:
  "levels_ok side \<Longrightarrow> total side = 0 \<Longrightarrow> take_proceeds sp side s = 0"
proof (induction sp side s rule: take_proceeds.induct)
  case (2 sp t q rest s)
  then have "q = 0" "total rest = 0"
    using total_nonneg [of rest] by (auto simp: add_nonneg_eq_0_iff)
  with 2 show ?case by auto
qed simp

lemma increment_market_book:
  assumes "dv 0 (1 - f) = 0" "dv 0 (1 + f) = 0"
  shows "increment_market (sell_sets dv mn mx f) book_rounds book_ok"
proof
  fix b :: "level list \<times> level list" and s s' :: bn
  assume ok: "book_ok b"
  then have ok1: "levels_ok (fst b)" and ok2: "levels_ok (snd b)" by (auto simp: book_ok_def)
  show "book_ok (snd (sell_sets dv mn mx f b s))"
    using ok1 ok2 by (simp add: book_ok_def sell_sets_def take_best_ok)
  show "s \<le> 0 \<Longrightarrow> fst (sell_sets dv mn mx f b s) \<le> 0"
    using assms by (simp add: sell_sets_def)
  show "0 < s \<Longrightarrow> book_rounds s (snd (sell_sets dv mn mx f b s')) \<le> book_rounds s b"
    unfolding book_rounds_def sell_sets_def fst_conv snd_conv
    by (intro add_mono side_rounds_le ok1 ok2)
  assume s: "0 < s" "s \<le> s'" and p: "0 < fst (sell_sets dv mn mx f b s')"
  have "0 < total (fst b) \<or> 0 < total (snd b)"
  proof (rule ccontr)
    assume "\<not> ?thesis"
    then have "total (fst b) = 0" "total (snd b) = 0"
      using total_nonneg [OF ok1] total_nonneg [OF ok2] by auto
    with p assms show False by (simp add: sell_sets_def take_proceeds_empty ok1 ok2)
  qed
  then show "book_rounds s (snd (sell_sets dv mn mx f b s')) < book_rounds s b"
    unfolding book_rounds_def sell_sets_def fst_conv snd_conv
    using side_rounds_less [OF ok1 s] side_rounds_less [OF ok2 s]
      side_rounds_le [OF ok1 s(1)] side_rounds_le [OF ok2 s(1)]
    by (meson add_less_le_mono add_le_less_mono)
qed

lemma bn_div_0: "bn_div 0 x = 0"
  using bn_round_exact [of 0] by (simp add: bn_div_def)

interpretation bm: increment_market "sell_sets bn_div mn mx f" book_rounds book_ok for mn mx f
  by (rule increment_market_book) (simp_all only: bn_div_0)

section \<open>The code's loop is the loop on plain numbers\<close>

lemma settle_spreads_lift:
  assumes "cost \<noteq> 0"
  shows "settle_spreads dv (Tk p) (Tk nxt) (Tk cost) (Tk tok) (map Pc sps) =
    Inr (map (\<lambda>sp. (Pc sp, Tk tok))
           (takeWhile (\<lambda>sp. p \<le> 0 \<or> dv nxt cost < 1 - sp) sps),
         map Pc (dropWhile (\<lambda>sp. p \<le> 0 \<or> dv nxt cost < 1 - sp) sps))"
  using assms by (induction sps) auto

lemma liquidity_loop_lift:
  assumes "f \<noteq> 1" "f \<noteq> -1" "0 < c" "0 \<le> cost"
  shows "liquidity_loop dv (Tk c) (Sh s) (Pc f) fuel i (Tk cost) (Tk tok)
      (lift_book mn mx (fst b) (snd b)) (map Pc sps) =
    (case liq_loop dv (sell_sets dv mn mx f) c s fuel i cost tok b sps of
       None \<Rightarrow> Inl OutOfFuel
     | Some r \<Rightarrow> Inr (map (\<lambda>(sp, t). (Pc sp, Tk t)) r))"
  using assms(4)
proof (induction fuel arbitrary: i cost tok b sps)
  case 0
  show ?case by (cases sps) simp_all
next
  case (Suc fuel)
  show ?case
  proof (cases sps)
    case (Cons sp sps')
    have "0 < c * round_factor (Suc i)"
      using assms(3) round_factor_ge_1 [of "Suc i"] by (intro mult_pos_pos) linarith+
    then have cost: "0 < cost + c * round_factor (Suc i)" using Suc.prems by simp
    let ?b = "snd (sell_sets dv mn mx f b (s * round_factor (Suc i)))"
    have IH: "liquidity_loop dv (Tk c) (Sh s) (Pc f) fuel (Suc i)
        (Tk (cost + c * round_factor (Suc i))) (Tk tok')
        (lift_book mn mx (take_best (take_price mn mx PosLong) (fst b) (s * round_factor (Suc i)))
          (take_best (take_price mn mx PosShort) (snd b) (s * round_factor (Suc i))))
        (map Pc sps'') =
      (case liq_loop dv (sell_sets dv mn mx f) c s fuel (Suc i)
          (cost + c * round_factor (Suc i)) tok' ?b sps'' of
         None \<Rightarrow> Inl OutOfFuel
       | Some r \<Rightarrow> Inr (map (\<lambda>(sp, t). (Pc sp, Tk t)) r))" for tok' sps''
      using Suc.IH [of "cost + c * round_factor (Suc i)" "Suc i" tok' ?b sps''] cost
      by (simp only: sell_sets_sel order_less_imp_le)
    have settle: "settle_spreads dv (Tk p) (Tk nxt) (Tk (cost + c * round_factor (Suc i))) (Tk tok)
        (Pc sp # map Pc sps') =
      Inr (map (\<lambda>sp. (Pc sp, Tk tok)) (takeWhile (\<lambda>sp. p \<le> 0 \<or>
             dv nxt (cost + c * round_factor (Suc i)) < 1 - sp) (sp # sps')),
           map Pc (dropWhile (\<lambda>sp. p \<le> 0 \<or>
             dv nxt (cost + c * round_factor (Suc i)) < 1 - sp) (sp # sps')))" for p nxt
      using settle_spreads_lift [of "cost + c * round_factor (Suc i)" dv p nxt tok "sp # sps'"] cost
      by (simp only: list.map)
    obtain x y where b: "b = (x, y)" by (cases b)
    show ?thesis
      using IH unfolding Cons b
      by (simp add: iteration_factor_construct closeLong_fee_lift closeShort_fee_lift assms
          settle sell_sets_pair Let_def split: option.split
          del: settle_spreads.simps takeWhile.simps dropWhile.simps)
  qed simp
qed

section \<open>Properties of the liquidity computation\<close>

lemma insort_key_map: "insort_key (\<lambda>q. g (h q)) (k x) (map k xs) =
    map k (insort_key (\<lambda>x. g (h (k x))) x xs)"
  by (induction xs) auto

lemma sort_key_map: "sort_key (\<lambda>q. g (h q)) (map k xs) = map k (sort_key (\<lambda>x. g (h (k x))) xs)"
  by (induction xs) (auto simp: insort_key_map)

lemma sort_key_strict_mono:
  fixes sps :: "bn list" and toNum :: "bn \<Rightarrow> bn"
  assumes "\<forall>x \<in> set sps. \<forall>y \<in> set sps. x < y \<longrightarrow> toNum x < toNum y"
  shows "sort_key toNum sps = sort sps"
proof -
  have "sorted zs" if "sorted (map toNum zs)" "set zs \<subseteq> set sps" for zs
    using that
  proof (induction zs)
    case (Cons z zs)
    have "z \<le> y" if "y \<in> set zs" for y
    proof (rule ccontr)
      assume "\<not> z \<le> y"
      then have "toNum y < toNum z" using assms Cons.prems that by auto
      moreover have "toNum z \<le> toNum y" using Cons.prems that by auto
      ultimately show False by simp
    qed
    with Cons show ?case by auto
  qed simp
  then show ?thesis by (intro properties_for_sort [symmetric]) auto
qed

lemma getLiquidity_settles:
  assumes "bn_division dv" "0 < c" "m \<noteq> 0" "f \<noteq> 1" "f \<noteq> -1" "levels_ok bids" "levels_ok asks"
    and toNum: "\<forall>x \<in> set sps. \<forall>y \<in> set sps. x < y \<longrightarrow> toNum x < toNum y"
    and fuel: "MAX_ITERATIONS + book_rounds (dv c m * 100000000) (bids, asks) < fuel"
  shows "\<exists>ts. getLiquidity dv toNum (Tk c) fuel (map Pc sps) (Pr m) (Pc f)
        (lift_book mn mx bids asks) = Inr (map (\<lambda>(sp, t). (Pc sp, Tk t)) ts) \<and>
    map fst ts = sort sps \<and> sorted (map snd ts) \<and>
    (\<forall>(sp, t) \<in> set ts. 0 \<le> t \<and>
      (\<exists>n. first_stop dv (sell_sets dv mn mx f) c (dv c m) (bids, asks) sp n \<and>
        t = tokens_after (sell_sets dv mn mx f) (dv c m) (bids, asks) n))"
proof -
  note bn_division.dv_zero [OF assms(1)]
  then have "dv 0 (1 - f) = 0" "dv 0 (1 + f) = 0" using assms(4,5) by (auto simp: add_eq_0_iff)
  then have market: "increment_market (sell_sets dv mn mx f) book_rounds book_ok"
    by (rule increment_market_book)
  have ok: "book_ok (bids, asks)" using assms(6,7) by (simp add: book_ok_def)
  have "increment_market.rounds_left (sell_sets dv mn mx f) book_rounds (dv c m) (bids, asks) 0
      < fuel"
    using fuel by (simp add: increment_market.rounds_left_def [OF market])
  from increment_market.loop_from_start [OF market ok sorted_sort this]
  obtain r where r: "liq_loop dv (sell_sets dv mn mx f) c (dv c m) fuel 0 0 0 (bids, asks) (sort sps)
      = Some r" and set: "increment_market.settles (sell_sets dv mn mx f) dv c (dv c m) (bids, asks)
        (sort sps) r" by blast
  have run: "getLiquidity dv toNum (Tk c) fuel (map Pc sps) (Pr m) (Pc f)
      (lift_book mn mx bids asks) = Inr (map (\<lambda>(sp, t). (Pc sp, Tk t)) r)"
    using liquidity_loop_lift [OF assms(4,5,2) order_refl, of dv "dv c m" fuel 0 0 mn mx
        "(bids, asks)" "sort sps"] r assms(3)
    by (simp add: getLiquidity_def sort_key_map sort_key_strict_mono [OF toNum])
  have "\<exists>n. first_stop dv (sell_sets dv mn mx f) c (dv c m) (bids, asks) (fst e) n \<and>
      snd e = tokens_after (sell_sets dv mn mx f) (dv c m) (bids, asks) n" if "e \<in> set r" for e
    using set that unfolding increment_market.settles_def [OF market]
    by (auto simp: list_all2_conv_all_nth in_set_conv_nth)
  with run increment_market.settles_sorted [OF market set sorted_sort] show ?thesis
    by (intro exI [of _ r]) auto
qed

text \<open>
  C21. The liquidity loop ends, for any book with non-negative quantities, after at most
  \<open>MAX_ITERATIONS\<close> rounds and the number of hundred-million-fold rounds that empty the book, and it
  returns what it is meant to: one figure for each spread percent, in ascending order, never
  negative and never decreasing, each being the proceeds accumulated before the first round that
  brings nothing or pushes the ratio of proceeds to cost below one minus that spread percent. The
  figure of a spread percent does not depend on which others were asked for.
\<close>

theorem liquidity_settles_every_spread:
  assumes "bn_division dv" "0 < c" "m \<noteq> 0" "f \<noteq> 1" "f \<noteq> -1" "levels_ok bids" "levels_ok asks"
    and toNum: "\<forall>x \<in> set sps. \<forall>y \<in> set sps. x < y \<longrightarrow> toNum x < toNum y"
    and fuel: "MAX_ITERATIONS + book_rounds (dv c m * 100000000) (bids, asks) < fuel"
  shows "\<exists>ts. getLiquidity dv toNum (Tk c) fuel (map Pc sps) (Pr m) (Pc f)
        (lift_book mn mx bids asks) = Inr (map (\<lambda>(sp, t). (Pc sp, Tk t)) ts) \<and>
    map fst ts = sort sps \<and> sorted (map snd ts) \<and>
    (\<forall>(sp, t) \<in> set ts. 0 \<le> t \<and>
      (\<exists>n. first_stop dv (sell_sets dv mn mx f) c (dv c m) (bids, asks) sp n \<and>
        t = tokens_after (sell_sets dv mn mx f) (dv c m) (bids, asks) n))"
  by (rule getLiquidity_settles) (fact assms)+

theorem liquidity_settles_every_spread_witness:
  "\<exists>ts. getLiquidity bn_div (\<lambda>x. x) (Tk 1) 100010 (map Pc [1, 1 / 10]) (Pr 1) (Pc 0)
      (lift_book 0 1 [(1 / 2, 2)] [(1 / 2, 1)]) = Inr (map (\<lambda>(sp, t). (Pc sp, Tk t)) ts) \<and>
    map fst ts = [1 / 10, 1] \<and> sorted (map snd ts)"
proof -
  have "bn_div 1 1 = 1" using bn.dv_by_one [of 1] by simp
  moreover have "\<lceil>1 / 50000000 :: bn\<rceil> = 1" "\<lceil>1 / 100000000 :: bn\<rceil> = 1"
    by (rule ceiling_unique; simp)+
  ultimately have fuel: "MAX_ITERATIONS + book_rounds (bn_div 1 1 * 100000000)
      ([(1 / 2, 2)], [(1 / 2, 1)]) < 100010"
    by (simp add: MAX_ITERATIONS_def book_rounds_def side_rounds_def)
  show ?thesis
    using liquidity_settles_every_spread [OF bn.bn_division_axioms _ _ _ _ _ _ _ fuel,
        of 0 "[1, 1 / 10]" "\<lambda>x. x" 0 1]
    by (auto simp: sort_key_def)
qed

section \<open>Properties of spread and invalid-market metrics\<close>

definition lift_metrics ::
  "bn \<Rightarrow> bn \<Rightarrow> bn \<Rightarrow> bn \<Rightarrow> level list \<Rightarrow> level list \<Rightarrow> int \<Rightarrow> int \<Rightarrow> metrics_params" where
  "lift_metrics mn mx reporterFee totalFee bids asks numOutcomes endDate =
     \<lparr>mp_marketMinPrice = Pr mn, mp_marketMaxPrice = Pr mx, mp_reporterFeeRate = Pc reporterFee,
      mp_totalFeeRate = Pc totalFee, mp_bids = map lift_level bids, mp_asks = map lift_level asks,
      mp_numOutcomes = numOutcomes, mp_endDate = endDate\<rparr>"

lemma lift_metrics_sel [simp]:
  "mp_marketMinPrice (lift_metrics mn mx rf tf bids asks k d) = Pr mn"
  "mp_marketMaxPrice (lift_metrics mn mx rf tf bids asks k d) = Pr mx"
  "mp_reporterFeeRate (lift_metrics mn mx rf tf bids asks k d) = Pc rf"
  "mp_totalFeeRate (lift_metrics mn mx rf tf bids asks k d) = Pc tf"
  "mp_bids (lift_metrics mn mx rf tf bids asks k d) = map lift_level bids"
  "mp_asks (lift_metrics mn mx rf tf bids asks k d) = map lift_level asks"
  "mp_numOutcomes (lift_metrics mn mx rf tf bids asks k d) = k"
  "mp_endDate (lift_metrics mn mx rf tf bids asks k d) = d"
  by (simp_all add: lift_metrics_def)

fun take_value :: "level list \<Rightarrow> bn \<Rightarrow> bn \<Rightarrow> bn" where
  "take_value [] lp n = (if n \<le> 0 then 0 else n * lp)"
| "take_value ((t, q) # side) lp n =
     (if n \<le> 0 then 0 else min n q * t + take_value side lp (n - min n q))"

lemma takeFromBidsOrAsks_lift:
  "takeFromBidsOrAsks (map lift_level side) (Pr lp) (Tk v) (Sh n) =
    Inr (Tk (v + take_value side lp n))"
proof (induction side arbitrary: v n)
  case (Cons l side)
  then show ?case by (cases l) (simp add: add.assoc)
qed simp

lemma take_value_bounds:
  assumes "levels_ok side" "0 \<le> n" "\<forall>l \<in> set side. lo \<le> fst l \<and> fst l \<le> hi" "lo \<le> lp" "lp \<le> hi"
  shows "n * lo \<le> take_value side lp n \<and> take_value side lp n \<le> n * hi"
  using assms
proof (induction side lp n rule: take_value.induct)
  case (1 lp n)
  then show ?case by (auto intro: mult_left_mono)
next
  case (2 t q side lp n)
  show ?case
  proof (cases "n = 0")
    case False
    let ?m = "min n q"
    have m: "0 \<le> ?m" "?m \<le> n" using "2.prems" by auto
    have rest: "(n - ?m) * lo \<le> take_value side lp (n - ?m) \<and>
        take_value side lp (n - ?m) \<le> (n - ?m) * hi"
      using "2.prems" False m by (intro "2.IH") auto
    have "?m * lo \<le> ?m * t" "?m * t \<le> ?m * hi"
      using "2.prems" m(1) by (auto intro: mult_left_mono)
    with rest show ?thesis using False "2.prems" by (simp add: left_diff_distrib)
  qed simp
qed

lemma sumQuantity_lift: "sumQuantity (map lift_level side) = Inr (Sh (total side))"
proof -
  have "foldE (\<lambda>sum e. qplus sum (qap_quantity e)) (Sh 0) (map lift_level side) =
      Inr (Sh (foldl (\<lambda>sum l. sum + snd l) 0 side))"
    by (rule foldE_lift) (simp add: lift_level_def)
  then show ?thesis by (simp add: sumQuantity_def total_def foldl_plus_sum_list)
qed

definition num_shares :: "level list \<Rightarrow> level list \<Rightarrow> bn \<Rightarrow> bn" where
  "num_shares bids asks pct =
     (if max (total asks) (total bids) * pct = 0 then 1 else max (total asks) (total bids) * pct)"

lemma spreadNumShares_lift:
  "spreadNumShares (lift_metrics mn mx rf tf bids asks k d) (Pc pct) =
    Inr (Sh (num_shares bids asks pct))"
  by (simp add: spreadNumShares_def sumQuantity_lift num_shares_def Let_def)

lemma num_shares_pos: "levels_ok bids \<Longrightarrow> 0 \<le> pct \<Longrightarrow> 0 < num_shares bids asks pct"
  using total_nonneg [of bids]
  by (auto simp: num_shares_def less_le intro!: mult_nonneg_nonneg max.coboundedI2)

lemma getOutcomeSpread_lift:
  assumes "mn < mx" "n = num_shares bids asks pct" "0 < n"
  shows "getOutcomeSpread dv (lift_metrics mn mx rf tf bids asks k d) (Pc pct) =
    Inr (Pc (max 0 (dv (take_value asks mx n - take_value bids mn n) ((mx - mn) * n))))"
  using assms
  by (auto simp: getOutcomeSpread_def spreadNumShares_lift takeFromBidsOrAsks_lift max_def)

lemma getOutcomeSpread_range:
  assumes "bn_division dv" "mn < mx" "levels_ok bids" "levels_ok asks" "0 \<le> pct"
    "\<forall>l \<in> set bids \<union> set asks. mn \<le> fst l \<and> fst l \<le> mx"
  shows "\<exists>x. getOutcomeSpread dv (lift_metrics mn mx rf tf bids asks k d) (Pc pct) = Inr (Pc x) \<and>
    0 \<le> x \<and> x \<le> 1 \<and> (bids = [] \<and> asks = [] \<longrightarrow> x = 1) \<and>
    (\<forall>b q bs a q' as. bids = (b, q) # bs \<longrightarrow> asks = (a, q') # as \<longrightarrow>
      num_shares bids asks pct \<le> min q q' \<longrightarrow> b \<le> a \<longrightarrow> decimals 20 ((a - b) / (mx - mn)) \<longrightarrow>
      x = (a - b) / (mx - mn))"
proof -
  let ?n = "num_shares bids asks pct"
  let ?d = "take_value asks mx ?n - take_value bids mn ?n"
  have n: "0 < ?n" using assms(3,5) by (rule num_shares_pos)
  then have pos: "0 < (mx - mn) * ?n" using assms(2) by simp
  have askUpper: "take_value asks mx ?n \<le> ?n * mx" and bidLower: "?n * mn \<le> take_value bids mn ?n"
    using take_value_bounds [OF assms(4), of ?n mn mx mx] take_value_bounds [OF assms(3), of ?n mn mx mn]
      n assms(2,6) by auto
  then have "?d \<le> (mx - mn) * ?n" by (simp add: algebra_simps)
  then have "?d / ((mx - mn) * ?n) \<le> 1" using pos by (simp add: divide_le_eq)
  then have upper: "dv ?d ((mx - mn) * ?n) \<le> 1"
    using pos by (intro bn_division.dv_upper [OF assms(1)]) auto
  have empty: "dv ?d ((mx - mn) * ?n) = 1" if "bids = [] \<and> asks = []"
  proof -
    have "?d / ((mx - mn) * ?n) = 1" using that n pos by (simp add: algebra_simps)
    then show ?thesis using pos bn_division.dv_exact [OF assms(1), of "(mx - mn) * ?n" ?d] by simp
  qed
  have top: "dv ?d ((mx - mn) * ?n) = (a - b) / (mx - mn)"
    if "bids = (b, q) # bs" "asks = (a, q') # as" "?n \<le> min q q'" "decimals 20 ((a - b) / (mx - mn))"
    for b q bs a q' as
  proof -
    have deep: "take_value ((t, r) # side) lp ?n = ?n * t" if "?n \<le> r" for t r side lp
      using that n by (cases side) (auto simp: min_absorb1)
    have "take_value asks mx ?n = ?n * a"
      using deep [of q' a as mx] that(3) by (simp add: that(2) [symmetric])
    moreover have "take_value bids mn ?n = ?n * b"
      using deep [of q b bs mn] that(3) by (simp add: that(1) [symmetric])
    ultimately have "?d = (a - b) * ?n" by (simp add: left_diff_distrib mult.commute)
    then have q: "?d / ((mx - mn) * ?n) = (a - b) / (mx - mn)" using n by simp
    have "dv ?d ((mx - mn) * ?n) = ?d / ((mx - mn) * ?n)"
      using pos that(4) unfolding q [symmetric] by (intro bn_division.dv_exact [OF assms(1)]) auto
    then show ?thesis by (simp only: q)
  qed
  have range: "0 \<le> (a - b) / (mx - mn)" if "b \<le> a" for a b
    using that assms(2) by simp
  show ?thesis
    unfolding getOutcomeSpread_lift [OF assms(2) refl n]
    using upper empty top range by (intro exI [of _ "max 0 (dv ?d ((mx - mn) * ?n))"]) auto
qed

text \<open>
  For a book with prices inside the market's range the spread is computed without error and
  lies between 0 and 1; it is exactly 1 for an empty book, and when the best entry of each side is
  deep enough it is the distance of the best prices relative to the display range.
\<close>

theorem spread_is_a_fraction_of_the_range:
  assumes "bn_division dv" "mn < mx" "levels_ok bids" "levels_ok asks" "0 \<le> pct"
    "\<forall>l \<in> set bids \<union> set asks. mn \<le> fst l \<and> fst l \<le> mx"
  shows "\<exists>x. getOutcomeSpread dv (lift_metrics mn mx rf tf bids asks k d) (Pc pct) = Inr (Pc x) \<and>
    0 \<le> x \<and> x \<le> 1 \<and> (bids = [] \<and> asks = [] \<longrightarrow> x = 1) \<and>
    (\<forall>b q bs a q' as. bids = (b, q) # bs \<longrightarrow> asks = (a, q') # as \<longrightarrow>
      num_shares bids asks pct \<le> min q q' \<longrightarrow> b \<le> a \<longrightarrow> decimals 20 ((a - b) / (mx - mn)) \<longrightarrow>
      x = (a - b) / (mx - mn))"
  by (rule getOutcomeSpread_range) (fact assms)+

theorem spread_is_a_fraction_of_the_range_witness:
  "getOutcomeSpread bn_div (lift_metrics 0 1 0 0 [(4 / 10, 10)] [(6 / 10, 10)] 2 0)
     (Pc (1 / 10)) = Inr (Pc (1 / 5))"
proof -
  have d: "decimals 20 (1 / 5)" by (simp add: decimals_def)
  obtain x where x: "getOutcomeSpread bn_div
      (lift_metrics 0 1 0 0 [(4 / 10, 10)] [(6 / 10, 10)] 2 0) (Pc (1 / 10)) = Inr (Pc x)"
    and top: "\<forall>b q bs a q' as. [(4 / 10, 10)] = (b, q) # bs \<longrightarrow> [(6 / 10, 10)] = (a, q') # as \<longrightarrow>
      num_shares [(4 / 10, 10)] [(6 / 10, 10)] (1 / 10) \<le> min q q' \<longrightarrow> b \<le> a \<longrightarrow>
      decimals 20 ((a - b) / (1 - 0)) \<longrightarrow> x = (a - b) / (1 - 0)"
    using spread_is_a_fraction_of_the_range [OF bn.bn_division_axioms, of 0 1 "[(4 / 10, 10)]"
        "[(6 / 10, 10)]" "1 / 10" 0 0 2 0] by auto
  have "x = 1 / 5"
    using top [rule_format, of "4 / 10" 10 "[]" "6 / 10" 10 "[]"] d by (simp add: num_shares_def)
  with x show ?thesis by simp
qed

lemma bestSharePrice_lift [simp]:
  "bestSharePrice p [] pt = Inr None"
  "mp_marketMinPrice p = Pr mn \<Longrightarrow> mp_marketMaxPrice p = Pr mx \<Longrightarrow>
    bestSharePrice p (lift_level l # side) pt = Inr (Some (Pr (share_price mn mx pt (fst l - mn))))"
proof -
  assume mm: "mp_marketMinPrice p = Pr mn" "mp_marketMaxPrice p = Pr mx"
  have "(price_params p)\<lparr>tradePriceMinusMinPrice := Some (Pr (fst l - mn))\<rparr> =
    lift \<lparr>vNet = 0, vAvg = 0, vUnrealizedCost = None, vUnrealizedProfit = None,
     vRealizedCost = 0, vRealizedProfit = 0, vTotalCost = None, vTotalProfit = None,
     vDelta = None, vSide = Buy, vQuantity = 0, vTradePrice = None,
     vTradePriceMMP = Some (fst l - mn),
     vLastPriceMMP = 0, vMin = mn, vMax = mx, vReporterFees = 0, vCreatorFees = 0,
     vReporterFeeRate = 0, vCreatorFeeRate = 0\<rparr>" (is "_ = lift ?v")
    using mm by (simp add: price_params_def no_params_def lift_def)
  moreover have "getSharePrice (lift ?v) pt = Inr (Pr (share_price (vMin ?v) (vMax ?v) pt (fst l - mn)))"
    by (rule getSharePrice_lift) simp_all
  ultimately show "bestSharePrice p (lift_level l # side) pt =
      Inr (Some (Pr (share_price mn mx pt (fst l - mn))))"
    using mm by (simp add: bestSharePrice_def lift_level_def)
qed (simp add: bestSharePrice_def)

lemma getInvalidSharePrice_lift:
  assumes "k \<noteq> 0"
  shows "getInvalidSharePrice dv (lift_metrics mn mx rf tf bids asks k d) (Pc fee) =
    Inr (Pr (dv (mx - mn) (of_int k) * (1 - fee)))"
  using assms
  by (simp add: getInvalidSharePrice_def getSharePrice_def)

lemma roiPercent_lift [simp]:
  "roiPercent dv revenue None = Inr None"
  "roiPercent dv (Pr r) (Some (Pr m)) = Inr (Some (Pc (if m \<le> 0 then 0 else dv r m - 1)))"
  by (simp_all add: roiPercent_def)

lemma getInvalidMetrics_total:
  assumes "bn_division dv" "k \<noteq> 0"
  shows "\<exists>roi bid ask. getInvalidMetrics dv math_exp now gas
      (lift_metrics mn mx rf tf bids asks k d) =
      Inr \<lparr>invalidROIPercent = Pc roi, bestBidTakerInvalidProfitTokens = Tk bid,
           bestAskTakerInvalidProfitTokens = Tk ask\<rparr> \<and>
    0 \<le> roi \<and> (bids = [] \<or> asks = [] \<longrightarrow> roi = 0) \<and>
    (bids = [] \<longrightarrow> bid = 0) \<and> (asks = [] \<longrightarrow> ask = 0)"
proof -
  let ?p = "lift_metrics mn mx rf tf bids asks k d"
  have "\<exists>roi. getInvalidROIPercent dv ?p = Inr (Pc roi) \<and> 0 \<le> roi \<and>
      (bids = [] \<or> asks = [] \<longrightarrow> roi = 0)"
    using assms(2) bn_division.dv_nonneg [OF assms(1)]
    by (cases bids; cases asks)
      (auto simp: getInvalidROIPercent_def getInvalidSharePrice_lift)
  moreover have "\<exists>bid ask. getBestBidAskTakerInvalidProfit dv math_exp now gas ?p =
      Inr (Tk bid, Tk ask) \<and> (bids = [] \<longrightarrow> bid = 0) \<and> (asks = [] \<longrightarrow> ask = 0)"
    using assms(2)
    by (cases bids; cases asks)
      (auto simp: getBestBidAskTakerInvalidProfit_def getInvalidSharePrice_lift
        yearsBetweenDates_def millisecondsPerYear_def yearsAfterExpiryToAssumeFinalization_def takerCost_def takerProfit_def
        continuousCompound_def annualDiscountRate_def Let_def)
  ultimately show ?thesis by (auto simp: getInvalidMetrics_def)
qed

text \<open>
  The invalid-market metrics are computed without error for any well-dimensioned book of a
  market with outcomes. The return on investment of an invalid market is never negative and is
  zero unless there are both bids and asks; a side without orders yields a taker profit of zero.
\<close>

theorem invalid_metrics_total:
  assumes "bn_division dv" "k \<noteq> 0"
  shows "\<exists>roi bid ask. getInvalidMetrics dv math_exp now gas
      (lift_metrics mn mx rf tf bids asks k d) =
      Inr \<lparr>invalidROIPercent = Pc roi, bestBidTakerInvalidProfitTokens = Tk bid,
           bestAskTakerInvalidProfitTokens = Tk ask\<rparr> \<and>
    0 \<le> roi \<and> (bids = [] \<or> asks = [] \<longrightarrow> roi = 0) \<and>
    (bids = [] \<longrightarrow> bid = 0) \<and> (asks = [] \<longrightarrow> ask = 0)"
  by (rule getInvalidMetrics_total) (fact assms)+

theorem invalid_metrics_total_witness:
  "\<exists>bid. getInvalidMetrics bn_div (\<lambda>x. 1) 0 5
      (lift_metrics 0 1 0 0 [(4 / 10, 10)] [] 2 0) =
      Inr \<lparr>invalidROIPercent = Pc 0, bestBidTakerInvalidProfitTokens = Tk bid,
           bestAskTakerInvalidProfitTokens = Tk 0\<rparr>"
  using invalid_metrics_total [OF bn.bn_division_axioms, of 2 "\<lambda>x. 1" 0 5 0 1 0 0
      "[(4 / 10, 10)]" "[]" 0] by auto

end
