(* ===== verification/Market_Liquidity.thy ===== *)
theory Market_Liquidity
  imports Environment Liquidity
begin

text \<open>
  \<open>src/utils/simulated-order-book.ts\<close> (\<open>getMarketOrderBooks\<close>), the two functions of
  \<open>src/utils/liquidity.ts\<close> that read and write the database, and the queues of markets and order
  book sides that wait for a check: \<open>src/blockchain/check-market-liquidity-updates.ts\<close> and
  \<open>check-orphaned-orders.ts\<close>.

  \<open>_.sortBy\<close> sorts stably by the number nearest to the price. The updates of the outcomes are not
  awaited by the source; the model runs them in order, before the update of the market.
\<close>

section \<open>Order books of a market\<close>

record market_order_books =
  mob_marketMinPrice :: quantity
  mob_marketMaxPrice :: quantity
  mob_reporterFeeRate :: quantity
  mob_marketCreatorFeeRate :: quantity
  mob_totalFeeRate :: quantity
  mob_displayRange :: quantity
  mob_numOutcomes :: int
  mob_endDate :: int
  mob_orderBooks :: "(int \<times> order_book) list"

definition orderToQuantityAtPrice :: "orders_row \<Rightarrow> quantity_at_price" where
  "orderToQuantityAtPrice r = \<lparr>qap_tradePrice = Pr (or_price r), qap_quantity = Sh (or_amount r)\<rparr>"

definition tradedOutcomes :: "markets_row \<Rightarrow> int list" where
  "tradedOutcomes m =
     (if mk_marketType m = ''yesNo'' \<or> mk_marketType m = ''scalar'' then [1]
      else [0 .. mk_numOutcomes m - 1])"

definition sortedSide :: "env \<Rightarrow> orders_row list \<Rightarrow> int \<Rightarrow> string \<Rightarrow> orders_row list" where
  "sortedSide env os outcome orderType =
     sort_key (\<lambda>r. en_toNumber env (or_price r))
       (filter (\<lambda>r. or_outcome r = outcome \<and> or_orderType r = orderType) os)"

definition getMarketOrderBooks :: "env \<Rightarrow> address \<Rightarrow> market_order_books action" where
  "getMarketOrderBooks env marketId =
     bindA (bindA (first markets (\<lambda>m. mk_marketId m = marketId))
              (orThrow (Thrown ''expected to find marketId''))) (\<lambda>m.
     bindA (select orders (\<lambda>r. or_orderState r = OPEN \<and> or_marketId r = marketId)) (\<lambda>os.
     let mn = Pr (mk_minPrice m); mx = Pr (mk_maxPrice m);
         reporterFee = Pc (mk_reportingFeeRate m); creatorFee = Pc (mk_marketCreatorFeeRate m) in
     bindA (liftR (getTotalFeeRate (no_params\<lparr>reporterFeeRate := reporterFee,
              marketCreatorFeeRate := creatorFee\<rparr>))) (\<lambda>totalFee.
     bindA (liftR (getDisplayRange (no_params\<lparr>marketMinPrice := mn, marketMaxPrice := mx\<rparr>))) (\<lambda>range.
     return
       \<lparr>mob_marketMinPrice = mn, mob_marketMaxPrice = mx, mob_reporterFeeRate = reporterFee,
        mob_marketCreatorFeeRate = creatorFee, mob_totalFeeRate = totalFee,
        mob_displayRange = range, mob_numOutcomes = mk_numOutcomes m,
        mob_endDate = mk_endTime m * 1000,
        mob_orderBooks = map (\<lambda>outcome. (outcome, makeOrderBook mn mx
          (map orderToQuantityAtPrice (rev (sortedSide env os outcome ''buy'')))
          (map orderToQuantityAtPrice (sortedSide env os outcome ''sell''))))
          (tradedOutcomes m)\<rparr>))))"

section \<open>Updating the metrics\<close>

record outcome_metrics =
  om_outcome :: int
  om_invalid :: invalid_metrics
  om_spreadPercent :: quantity
  om_liquidity :: "(quantity \<times> quantity) list"

definition outcomeMetrics ::
  "env \<Rightarrow> market_order_books \<Rightarrow> int \<times> order_book \<Rightarrow> outcome_metrics result" where
  "outcomeMetrics env mob ob =
     (let (bids, asks) = getBidsAndAsks (snd ob);
          p = \<lparr>mp_marketMinPrice = mob_marketMinPrice mob, mp_marketMaxPrice = mob_marketMaxPrice mob,
               mp_reporterFeeRate = mob_reporterFeeRate mob, mp_totalFeeRate = mob_totalFeeRate mob,
               mp_bids = bids, mp_asks = asks, mp_numOutcomes = mob_numOutcomes mob,
               mp_endDate = mob_endDate mob\<rparr> in
      bindE (getInvalidMetrics (en_dv env) (en_exp env) (en_now env) (en_gasPriceGwei env) p)
        (\<lambda>invalidMetrics.
      bindE (getOutcomeSpread (en_dv env) p DefaultPercentQuantityIncludedInSpread) (\<lambda>outcomeSpread.
      bindE (getLiquidity (en_dv env) (en_toNumber env) SELL_INCREMENT_COST_DEFAULT (en_fuel env)
               LIQUIDITY_SPREAD_PERCENTS (mob_displayRange mob) (mob_totalFeeRate mob) (snd ob))
        (\<lambda>liquidity.
      Inr \<lparr>om_outcome = fst ob, om_invalid = invalidMetrics, om_spreadPercent = outcomeSpread,
           om_liquidity = liquidity\<rparr>))))"

text \<open>\<open>reduce\<close> with \<open>max\<close>.\<close>

definition maxMetric :: "(outcome_metrics \<Rightarrow> quantity) \<Rightarrow> quantity \<Rightarrow> outcome_metrics list \<Rightarrow> quantity result" where
  "maxMetric f start ms = foldE (\<lambda>mx om. qmax mx (f om)) start ms"

definition liquidityRows :: "address \<Rightarrow> outcome_metrics list \<Rightarrow> outcomes_liquidity_row list" where
  "liquidityRows marketId ms = concat (map (\<lambda>om. map (\<lambda>(spreadPercent, liquidityTokens).
     \<lparr>ol_marketId = marketId, ol_outcome = om_outcome om,
      ol_spreadPercent = magnitude spreadPercent, ol_liquidityTokens = magnitude liquidityTokens\<rparr>)
     (om_liquidity om)) ms)"

definition updateOutcomesLiquidity :: "address \<Rightarrow> outcome_metrics list \<Rightarrow> unit action" where
  "updateOutcomesLiquidity marketId ms =
     thenA (delete outcomes_liquidity (\<lambda>r. ol_marketId r = marketId))
       (batchInsert outcomes_liquidity (liquidityRows marketId ms))"

definition updateOutcomeMetrics :: "address \<Rightarrow> outcome_metrics \<Rightarrow> unit action" where
  "updateOutcomeMetrics marketId om =
     update outcomes (\<lambda>u. oc_outcome u = om_outcome om \<and> oc_marketId u = marketId)
       (\<lambda>u. u\<lparr>oc_spreadPercent := magnitude (om_spreadPercent om),
             oc_invalidROIPercent := magnitude (invalidROIPercent (om_invalid om)),
             oc_bestBidTakerInvalidProfitTokens :=
               magnitude (bestBidTakerInvalidProfitTokens (om_invalid om)),
             oc_bestAskTakerInvalidProfitTokens :=
               magnitude (bestAskTakerInvalidProfitTokens (om_invalid om))\<rparr>)"

definition updateLiquidityMetricsForMarketAndOutcomes :: "env \<Rightarrow> address \<Rightarrow> unit action" where
  "updateLiquidityMetricsForMarketAndOutcomes env marketId =
     bindA (getMarketOrderBooks env marketId) (\<lambda>mob.
     bindA (liftR (mapE (outcomeMetrics env mob) (mob_orderBooks mob))) (\<lambda>ms.
     bindA (liftR (maxMetric om_spreadPercent (Pc 0) ms)) (\<lambda>spread.
     bindA (liftR (maxMetric (\<lambda>om. invalidROIPercent (om_invalid om)) (Pc 0) ms)) (\<lambda>roi.
     bindA (case ms of [] \<Rightarrow> throw (JsTypeError ''outcomeLiquidityMetrics[0] is undefined'')
            | om # _ \<Rightarrow> return (om_invalid om)) (\<lambda>first.
     bindA (liftR (maxMetric (\<lambda>om. bestBidTakerInvalidProfitTokens (om_invalid om))
              (bestBidTakerInvalidProfitTokens first) ms)) (\<lambda>bid.
     bindA (liftR (maxMetric (\<lambda>om. bestAskTakerInvalidProfitTokens (om_invalid om))
              (bestAskTakerInvalidProfitTokens first) ms)) (\<lambda>ask.
     thenA (forA ms (updateOutcomeMetrics marketId))
    (thenA (update markets (\<lambda>m. mk_marketId m = marketId)
              (\<lambda>m. m\<lparr>mk_spreadPercent := magnitude spread, mk_invalidROIPercent := magnitude roi,
                    mk_bestBidTakerInvalidProfitTokens := magnitude bid,
                    mk_bestAskTakerInvalidProfitTokens := magnitude ask\<rparr>))
       (updateOutcomesLiquidity marketId ms)))))))))"

section \<open>The queues\<close>

definition refreshPending :: "env \<Rightarrow> address \<Rightarrow> unit action" where
  "refreshPending env marketId = transaction
     (thenA (updateLiquidityMetricsForMarketAndOutcomes env marketId)
            (delete pending_liquidity_updates (\<lambda>r. r = marketId)))"

definition checkMarketLiquidityUpdates :: "env \<Rightarrow> unit action" where
  "checkMarketLiquidityUpdates env =
     bindA (select pending_liquidity_updates (\<lambda>_. True)) (\<lambda>marketIdRows.
     forA marketIdRows (refreshPending env))"

definition onSide :: "pending_orphan_row \<Rightarrow> orders_row \<Rightarrow> bool" where
  "onSide p r \<longleftrightarrow> or_marketId r = pc_marketId p \<and> or_outcome r = pc_outcome p \<and>
     or_orderType r = pc_orderType p"

definition getOrphanedOrderIds :: "env \<Rightarrow> pending_orphan_row \<Rightarrow> string list action" where
  "getOrphanedOrderIds env p =
     bindA (countRows orders (\<lambda>r. onSide p r \<and> or_orderState r = OPEN \<and> \<not> or_orphaned r)) (\<lambda>numOrders.
     if numOrders < 1 then return []
     else liftR (getExistingOrders env
       (if numOrders \<ge> 500 then 1000 else if numOrders \<ge> 200 then 500
        else if numOrders \<ge> 100 then 200 else if numOrders \<ge> 50 then 100 else 50)
       (if pc_orderType p = ''buy'' then 0 else 1) (pc_marketId p) (pc_outcome p)))"

definition catchEmpty :: "'a list action \<Rightarrow> 'a list action" where
  "catchEmpty m w = (case m w of (Inl _, w') \<Rightarrow> (Inr [], w') | (Inr xs, w') \<Rightarrow> (Inr xs, w'))"

definition checkOrphanedOrdersForOrderBookSide :: "env \<Rightarrow> pending_orphan_row \<Rightarrow> unit action" where
  "checkOrphanedOrdersForOrderBookSide env p =
     bindA (catchEmpty (getOrphanedOrderIds env p)) (\<lambda>orderIds.
     transaction
       (thenA (whenA (0 < length orderIds)
                (update orders (\<lambda>r. or_orderId r \<notin> set orderIds \<and> onSide p r)
                  (\<lambda>r. r\<lparr>or_orphaned := True\<rparr>)))
              (delete pending_orphan_checks (\<lambda>r. r = p))))"

definition checkOrphanedOrders :: "env \<Rightarrow> unit action" where
  "checkOrphanedOrders env =
     bindA (select pending_orphan_checks (\<lambda>_. True)) (\<lambda>pendingOrders.
     forA pendingOrders (checkOrphanedOrdersForOrderBookSide env))"

section \<open>The metrics of one outcome\<close>

definition levels :: "orders_row list \<Rightarrow> level list" where
  "levels rs = map (\<lambda>r. (or_price r, or_amount r)) rs"

definition openOrders :: "world \<Rightarrow> address \<Rightarrow> orders_row list" where
  "openOrders w marketId =
     filter (\<lambda>r. or_orderState r = OPEN \<and> or_marketId r = marketId) (t_orders (tables w))"

definition bidLevels :: "env \<Rightarrow> orders_row list \<Rightarrow> int \<Rightarrow> level list" where
  "bidLevels env rs outcome = levels (rev (sortedSide env rs outcome ''buy''))"

definition askLevels :: "env \<Rightarrow> orders_row list \<Rightarrow> int \<Rightarrow> level list" where
  "askLevels env rs outcome = levels (sortedSide env rs outcome ''sell'')"

text \<open>
  What the update relies on: a price range and outcomes, orders priced within the range, fees below
  one, spread percents that \<open>toNumber\<close> tells apart, and fuel for the rounds of the liquidity loop.
\<close>

definition metrics_ok :: "env \<Rightarrow> world \<Rightarrow> markets_row \<Rightarrow> bool" where
  "metrics_ok env w m \<longleftrightarrow>
     mk_minPrice m < mk_maxPrice m \<and> 0 < mk_numOutcomes m \<and>
     0 \<le> mk_reportingFeeRate m + mk_marketCreatorFeeRate m \<and>
     mk_reportingFeeRate m + mk_marketCreatorFeeRate m < 1 \<and>
     list_all (\<lambda>r. mk_minPrice m \<le> or_price r \<and> or_price r \<le> mk_maxPrice m \<and> 0 \<le> or_amount r)
       (openOrders w (mk_marketId m)) \<and>
     sorted_wrt (<) (map (en_toNumber env) [1 / 10, 15 / 100, 1 / 5, 1]) \<and>
     list_all (\<lambda>outcome. MAX_ITERATIONS + book_rounds
         (en_dv env (2 / 100) (mk_maxPrice m - mk_minPrice m) * 100000000)
         (bidLevels env (openOrders w (mk_marketId m)) outcome,
          askLevels env (openOrders w (mk_marketId m)) outcome) < en_fuel env) (tradedOutcomes m)"

definition plainMetrics :: "int \<Rightarrow> outcome_metrics \<Rightarrow> bool" where
  "plainMetrics outcome om \<longleftrightarrow> om_outcome om = outcome \<and>
     (\<exists>x roi bid ask ts. om_spreadPercent om = Pc x \<and> 0 \<le> x \<and> x \<le> 1 \<and>
       om_invalid om = \<lparr>invalidROIPercent = Pc roi, bestBidTakerInvalidProfitTokens = Tk bid,
         bestAskTakerInvalidProfitTokens = Tk ask\<rparr> \<and> 0 \<le> roi \<and>
       om_liquidity om = map (\<lambda>(sp, t). (Pc sp, Tk t)) ts \<and>
       map fst ts = [1 / 10, 15 / 100, 1 / 5, 1] \<and> list_all (\<lambda>(sp, t). 0 \<le> t) ts)"

definition marketOrderBooks :: "env \<Rightarrow> orders_row list \<Rightarrow> markets_row \<Rightarrow> market_order_books" where
  "marketOrderBooks env rs m =
     \<lparr>mob_marketMinPrice = Pr (mk_minPrice m), mob_marketMaxPrice = Pr (mk_maxPrice m),
      mob_reporterFeeRate = Pc (mk_reportingFeeRate m),
      mob_marketCreatorFeeRate = Pc (mk_marketCreatorFeeRate m),
      mob_totalFeeRate = Pc (mk_reportingFeeRate m + mk_marketCreatorFeeRate m),
      mob_displayRange = Pr (mk_maxPrice m - mk_minPrice m), mob_numOutcomes = mk_numOutcomes m,
      mob_endDate = mk_endTime m * 1000,
      mob_orderBooks = map (\<lambda>outcome. (outcome, lift_book (mk_minPrice m) (mk_maxPrice m)
        (bidLevels env rs outcome) (askLevels env rs outcome))) (tradedOutcomes m)\<rparr>"

lemma orderToQuantityAtPrice_levels:
  "map orderToQuantityAtPrice rs = map lift_level (levels rs)"
  by (simp add: levels_def lift_level_def orderToQuantityAtPrice_def)

lemma getMarketOrderBooks_run:
  assumes "find (\<lambda>m. mk_marketId m = marketId) (t_markets (tables w)) = Some m"
  shows "getMarketOrderBooks env marketId w =
    (Inr (marketOrderBooks env (openOrders w marketId) m), w)"
  using assms
  by (simp add: getMarketOrderBooks_def bindA_assoc table_simps act_simps openOrders_def
      marketOrderBooks_def Let_def getTotalFeeRate_def getDisplayRange_def bidLevels_def askLevels_def
      orderToQuantityAtPrice_levels lift_book_def)

lemma sort_spread_percents:
  assumes "sorted_wrt (<) (map f [1 / 10, 15 / 100, 1 / 5, 1 :: rat])"
  shows "\<forall>x \<in> set [1 / 10, 15 / 100, 1 / 5, 1]. \<forall>y \<in> set [1 / 10, 15 / 100, 1 / 5, 1].
    x < y \<longrightarrow> f x < (f y :: rat)"
  using assms by simp

lemma levels_in_range:
  assumes "list_all (\<lambda>r. mn \<le> or_price r \<and> or_price r \<le> mx \<and> 0 \<le> or_amount r) rs"
  shows "levels_ok (bidLevels env rs u)" "levels_ok (askLevels env rs u)"
    "\<forall>l \<in> set (bidLevels env rs u) \<union> set (askLevels env rs u). mn \<le> fst l \<and> fst l \<le> mx"
  using assms by (auto simp: levels_ok_def bidLevels_def askLevels_def levels_def sortedSide_def list_all_iff)

lemma outcomeMetrics_plain:
  assumes "bn_division (en_dv env)" "metrics_ok env w m" "outcome \<in> set (tradedOutcomes m)"
    and rs: "rs = openOrders w (mk_marketId m)"
  shows "\<exists>om. outcomeMetrics env (marketOrderBooks env rs m) (outcome,
      lift_book (mk_minPrice m) (mk_maxPrice m) (bidLevels env rs outcome) (askLevels env rs outcome))
      = Inr om \<and> plainMetrics outcome om \<and>
    (rs = [] \<longrightarrow> om_spreadPercent om = Pc 1)"
proof -
  let ?b = "bidLevels env rs outcome" and ?a = "askLevels env rs outcome"
  let ?mn = "mk_minPrice m" and ?mx = "mk_maxPrice m" and ?rf = "mk_reportingFeeRate m"
    and ?tf = "mk_reportingFeeRate m + mk_marketCreatorFeeRate m" and ?d = "mk_endTime m * 1000"
  let ?p = "lift_metrics ?mn ?mx ?rf ?tf ?b ?a (mk_numOutcomes m) ?d"
  have ok: "?mn < ?mx" "mk_numOutcomes m \<noteq> 0" "?tf \<noteq> 1" "?tf \<noteq> -1"
    and inr: "list_all (\<lambda>r. ?mn \<le> or_price r \<and> or_price r \<le> ?mx \<and> 0 \<le> or_amount r) rs"
    and num: "sorted_wrt (<) (map (en_toNumber env) [1 / 10, 15 / 100, 1 / 5, 1])"
    and fuel: "MAX_ITERATIONS + book_rounds (en_dv env (2 / 100) (?mx - ?mn) * 100000000) (?b, ?a)
      < en_fuel env"
    using assms(2,3) by (auto simp: metrics_ok_def rs list_all_iff)
  note lv = levels_in_range [OF inr, of env outcome]
  have zero_le_tenth: "0 \<le> (1 / 10 :: bn)" and two_cents: "0 < (2 / 100 :: bn)" by simp_all
  have range: "?mx - ?mn \<noteq> 0" using ok(1) by simp
  obtain roi bid ask where im: "getInvalidMetrics (en_dv env) (en_exp env) (en_now env)
      (en_gasPriceGwei env) ?p = Inr \<lparr>invalidROIPercent = Pc roi,
        bestBidTakerInvalidProfitTokens = Tk bid, bestAskTakerInvalidProfitTokens = Tk ask\<rparr>" "0 \<le> roi"
    using getInvalidMetrics_total [OF assms(1) ok(2), of "en_exp env" "en_now env"
        "en_gasPriceGwei env" ?mn ?mx ?rf ?tf ?b ?a ?d] by (elim exE conjE)
  obtain x where sp: "getOutcomeSpread (en_dv env) ?p (Pc (1 / 10)) = Inr (Pc x)" "0 \<le> x" "x \<le> 1"
      "?b = [] \<and> ?a = [] \<longrightarrow> x = 1"
    using getOutcomeSpread_range [OF assms(1) ok(1) lv(1,2) zero_le_tenth lv(3), of ?rf ?tf
        "mk_numOutcomes m" ?d] by (elim exE conjE)
  obtain ts where l: "getLiquidity (en_dv env) (en_toNumber env) (Tk (2 / 100)) (en_fuel env)
      (map Pc [1 / 10, 15 / 100, 1 / 5, 1]) (Pr (?mx - ?mn)) (Pc ?tf) (lift_book ?mn ?mx ?b ?a)
      = Inr (map (\<lambda>(sp, t). (Pc sp, Tk t)) ts)"
      and ts: "map fst ts = sort [1 / 10, 15 / 100, 1 / 5, 1]" "\<forall>(sp, t) \<in> set ts. 0 \<le> t"
    using getLiquidity_settles [OF assms(1) two_cents range ok(3,4) lv(1,2)
        sort_spread_percents [OF num] fuel, of ?mn ?mx] by (elim exE conjE) (rule that, auto)
  have srt: "sort [1 / 10, 15 / 100, 1 / 5, 1 :: bn] = [1 / 10, 15 / 100, 1 / 5, 1]"
    by (rule sorted_sort_id) simp
  have "rs = [] \<Longrightarrow> x = 1"
    using sp(4) by (simp add: bidLevels_def askLevels_def levels_def sortedSide_def)
  moreover have "outcomeMetrics env (marketOrderBooks env rs m) (outcome, lift_book ?mn ?mx ?b ?a) =
      Inr \<lparr>om_outcome = outcome, om_invalid = \<lparr>invalidROIPercent = Pc roi,
        bestBidTakerInvalidProfitTokens = Tk bid, bestAskTakerInvalidProfitTokens = Tk ask\<rparr>,
        om_spreadPercent = Pc x, om_liquidity = map (\<lambda>(sp, t). (Pc sp, Tk t)) ts\<rparr>"
    using im(1) sp(1) l
    by (simp add: outcomeMetrics_def marketOrderBooks_def getBidsAndAsks_def lift_metrics_def
        DefaultPercentQuantityIncludedInSpread_def SELL_INCREMENT_COST_DEFAULT_def
        LIQUIDITY_SPREAD_PERCENTS_def)
  ultimately show ?thesis
    using im(2) sp(2,3) ts
    by (simp add: plainMetrics_def srt list_all_iff) (rule exI [of _ ts], simp)
qed

lemma all_outcomeMetrics_plain:
  assumes "bn_division (en_dv env)" "metrics_ok env w m" "rs = openOrders w (mk_marketId m)"
  shows "\<exists>ms. mapE (outcomeMetrics env (marketOrderBooks env rs m))
      (mob_orderBooks (marketOrderBooks env rs m)) = Inr ms \<and>
    list_all2 plainMetrics (tradedOutcomes m) ms \<and>
    (rs = [] \<longrightarrow> (\<forall>om \<in> set ms. om_spreadPercent om = Pc 1))"
proof -
  let ?R = "\<lambda>ob om. plainMetrics (fst ob) om \<and> (rs = [] \<longrightarrow> om_spreadPercent om = Pc 1)"
  have "\<exists>om. outcomeMetrics env (marketOrderBooks env rs m) ob = Inr om \<and> ?R ob om"
    if "ob \<in> set (mob_orderBooks (marketOrderBooks env rs m))" for ob
    using that outcomeMetrics_plain [OF assms(1,2) _ assms(3)]
    by (auto simp: marketOrderBooks_def)
  from mapE_all2 [of _ "outcomeMetrics env (marketOrderBooks env rs m)" ?R, OF this]
  obtain ms where ms: "mapE (outcomeMetrics env (marketOrderBooks env rs m))
      (mob_orderBooks (marketOrderBooks env rs m)) = Inr ms"
    and all: "list_all2 ?R (mob_orderBooks (marketOrderBooks env rs m)) ms" by blast
  have "list_all2 (\<lambda>u om. plainMetrics u om \<and> (rs = [] \<longrightarrow> om_spreadPercent om = Pc 1))
      (tradedOutcomes m) ms"
    using all by (simp add: marketOrderBooks_def list_all2_map1)
  then show ?thesis
    using ms by (auto simp: list_all2_conv_all_nth in_set_conv_nth)
qed

section \<open>Writing the metrics\<close>

lemma maxMetric_run:
  assumes "\<forall>om \<in> set ms. f om = construct k (magnitude (f om))"
  shows "maxMetric f (construct k a) ms =
    Inr (construct k (foldl (\<lambda>x om. max x (magnitude (f om))) a ms))"
proof -
  have "foldE (\<lambda>mx om. qmax mx (f om)) (construct k a) (map (\<lambda>x. x) ms) =
      Inr (construct k (foldl (\<lambda>x om. max x (magnitude (f om))) a ms))"
    by (rule foldE_lift) (use assms same_dimension_ops(4) [of k k] in metis)
  then show ?thesis by (simp add: maxMetric_def)
qed

definition withMetrics :: "outcome_metrics \<Rightarrow> outcomes_row \<Rightarrow> outcomes_row" where
  "withMetrics om u = u\<lparr>oc_spreadPercent := magnitude (om_spreadPercent om),
     oc_invalidROIPercent := magnitude (invalidROIPercent (om_invalid om)),
     oc_bestBidTakerInvalidProfitTokens :=
       magnitude (bestBidTakerInvalidProfitTokens (om_invalid om)),
     oc_bestAskTakerInvalidProfitTokens :=
       magnitude (bestAskTakerInvalidProfitTokens (om_invalid om))\<rparr>"

lemma withMetrics_keys:
  "oc_marketId (case x of None \<Rightarrow> u | Some om \<Rightarrow> withMetrics om u) = oc_marketId u"
  "oc_outcome (case x of None \<Rightarrow> u | Some om \<Rightarrow> withMetrics om u) = oc_outcome u"
  by (simp_all add: withMetrics_def split: option.split)

definition metricsOf :: "address \<Rightarrow> outcome_metrics list \<Rightarrow> outcomes_row \<Rightarrow> outcome_metrics option" where
  "metricsOf marketId ms u =
     (if oc_marketId u = marketId then find (\<lambda>om. om_outcome om = oc_outcome u) ms else None)"

definition refreshedOutcomes :: "address \<Rightarrow> outcome_metrics list \<Rightarrow> outcomes_row list \<Rightarrow> outcomes_row list" where
  "refreshedOutcomes marketId ms us =
     map (\<lambda>u. case metricsOf marketId ms u of None \<Rightarrow> u | Some om \<Rightarrow> withMetrics om u) us"

lemma map_of_metrics:
  "map_of (map (\<lambda>om. ((i, om_outcome om), om)) ms) (oc_marketId u, oc_outcome u) = metricsOf i ms u"
  by (induction ms) (auto simp: metricsOf_def)

lemma plainMetrics_nonneg:
  assumes "list_all2 plainMetrics us ms" "om \<in> set ms"
  shows "0 \<le> magnitude (om_spreadPercent om)" "magnitude (om_spreadPercent om) \<le> 1"
    "0 \<le> magnitude (invalidROIPercent (om_invalid om))"
  using assms by (auto simp: list_all2_conv_all_nth in_set_conv_nth plainMetrics_def)

lemma updateOutcomeMetrics_run:
  assumes "distinct (map om_outcome ms)" "outcomes.valid_table w" "list_all2 plainMetrics us ms"
  shows "forA ms (updateOutcomeMetrics marketId) w =
    (Inr (), tput outcomes (refreshedOutcomes marketId ms (t_outcomes (tables w))) w)"
proof -
  let ?key = "\<lambda>u. (oc_marketId u, oc_outcome u)"
  let ?kvs = "map (\<lambda>om. ((marketId, om_outcome om), om)) ms"
  have "forA ms (updateOutcomeMetrics marketId) = forA ?kvs (\<lambda>(k, om). update outcomes (\<lambda>u. ?key u = k) (withMetrics om))"
    by (simp add: forA_map updateOutcomeMetrics_def [abs_def] withMetrics_def [abs_def] conj_commute)
  moreover have "forA ?kvs (\<lambda>(k, om). update outcomes (\<lambda>u. ?key u = k) (withMetrics om)) w =
    (Inr (), tput outcomes (map (\<lambda>u. case map_of ?kvs (?key u) of None \<Rightarrow> u | Some om \<Rightarrow> withMetrics om u)
      (tget outcomes w)) w)"
  proof (rule outcomes.forA_updates)
    show "distinct (map fst ?kvs)" using assms(1) by (simp add: distinct_map inj_on_def)
    show "?key (withMetrics om u) = ?key u" for om u by (simp add: withMetrics_def)
    fix k om u
    assume "(k, om) \<in> set ?kvs" "u \<in> set (tget outcomes w)"
    then have "om \<in> set ms" "tcheck outcomes u"
      using assms(2) by (auto simp: outcomes.valid_table_def list_all_iff)
    then show "tcheck outcomes (withMetrics om u)"
      using plainMetrics_nonneg [OF assms(3)] by (simp add: table_constraints withMetrics_def)
  qed
  ultimately show ?thesis by (simp add: map_of_metrics refreshedOutcomes_def)
qed

lemma distinct_key_sorted_wrt:
  "distinct (map key xs) \<Longrightarrow> (\<And>x y. key x \<noteq> key y \<Longrightarrow> P x y) \<Longrightarrow> sorted_wrt P xs"
  by (induction xs) auto

lemma liquidityRows_keys:
  "list_all2 plainMetrics us ms \<Longrightarrow>
    map (\<lambda>r. (ol_outcome r, ol_spreadPercent r)) (liquidityRows i ms) =
      List.product us [1 / 10, 15 / 100, 1 / 5, 1]"
proof (induction us ms rule: list_all2_induct)
  case (Cons u us om ms)
  from Cons.hyps(1) obtain ts where om: "om_outcome om = u" "om_liquidity om = map (\<lambda>(sp, t). (Pc sp, Tk t)) ts"
    and ts: "map fst ts = [1 / 10, 15 / 100, 1 / 5, 1]" unfolding plainMetrics_def
    by (elim conjE exE) (rule that)
  have "map (\<lambda>r. (ol_outcome r, ol_spreadPercent r)) (liquidityRows i (om # ms)) =
      map (Pair u) (map fst ts) @ List.product us [1 / 10, 15 / 100, 1 / 5, 1]"
    unfolding Cons.IH [symmetric] by (simp add: om liquidityRows_def case_prod_unfold)
  then show ?case by (simp add: ts)
qed (simp add: liquidityRows_def)

lemma liquidityRows_ok:
  assumes "list_all2 plainMetrics us ms" "r \<in> set (liquidityRows i ms)"
  shows "ol_marketId r = i" "0 \<le> ol_spreadPercent r" "0 \<le> ol_liquidityTokens r"
proof -
  show "ol_marketId r = i" using assms(2) by (auto simp: liquidityRows_def)
  have "(ol_outcome r, ol_spreadPercent r) \<in> set (List.product us [1 / 10, 15 / 100, 1 / 5, 1])"
    unfolding liquidityRows_keys [OF assms(1), of i, symmetric] using assms(2) by auto
  then show "0 \<le> ol_spreadPercent r" by auto
  from assms(2) obtain om sp t where om: "om \<in> set ms" "(sp, t) \<in> set (om_liquidity om)"
    "ol_liquidityTokens r = magnitude t" by (auto simp: liquidityRows_def)
  then obtain u where "plainMetrics u om"
    using assms(1) by (auto simp: list_all2_conv_all_nth in_set_conv_nth)
  with om(2,3) show "0 \<le> ol_liquidityTokens r"
    by (auto simp: plainMetrics_def list_all_iff)
qed

lemma updateOutcomesLiquidity_run:
  assumes "list_all2 plainMetrics us ms" "distinct us"
  shows "updateOutcomesLiquidity i ms w = (Inr (), tput outcomes_liquidity
    (filter (\<lambda>r. ol_marketId r \<noteq> i) (t_outcomes_liquidity (tables w)) @ liquidityRows i ms) w)"
proof -
  let ?w = "tput outcomes_liquidity (filter (\<lambda>r. ol_marketId r \<noteq> i) (t_outcomes_liquidity (tables w))) w"
  have "distinct (map (\<lambda>r. (ol_outcome r, ol_spreadPercent r)) (liquidityRows i ms))"
    unfolding liquidityRows_keys [OF assms(1)] using assms(2) by (intro distinct_product) auto
  then have "sorted_wrt (\<lambda>x y. \<not> tclash outcomes_liquidity x y) (liquidityRows i ms)"
    by (rule distinct_key_sorted_wrt) (auto simp: table_constraints)
  moreover have "list_all (tcheck outcomes_liquidity) (liquidityRows i ms)"
    using liquidityRows_ok [OF assms(1)] by (auto simp: list_all_iff table_constraints)
  moreover have "\<not> tclash outcomes_liquidity x r"
    if "x \<in> set (tget outcomes_liquidity ?w)" "r \<in> set (liquidityRows i ms)" for x r
    using that liquidityRows_ok(1) [OF assms(1)] by (auto simp: table_constraints)
  ultimately have "batchInsert outcomes_liquidity (liquidityRows i ms) ?w = (Inr (),
      tput outcomes_liquidity (tget outcomes_liquidity ?w @ liquidityRows i ms) ?w)"
    by (rule outcomes_liquidity.batchInsert_ok)
  then show ?thesis by (simp add: updateOutcomesLiquidity_def table_simps)
qed

text \<open>The market's own row: the worst spread, and the best of the other metrics.\<close>

definition worstSpread :: "outcome_metrics list \<Rightarrow> bn" where
  "worstSpread ms = foldl (\<lambda>x om. max x (magnitude (om_spreadPercent om))) 0 ms"

definition refreshedMarkets :: "address \<Rightarrow> outcome_metrics list \<Rightarrow> markets_row list \<Rightarrow> markets_row list" where
  "refreshedMarkets marketId ms rows = map (\<lambda>m. if mk_marketId m = marketId then
     m\<lparr>mk_spreadPercent := worstSpread ms,
       mk_invalidROIPercent := foldl (\<lambda>x om. max x (magnitude (invalidROIPercent (om_invalid om)))) 0 ms,
       mk_bestBidTakerInvalidProfitTokens :=
         foldl (\<lambda>x om. max x (magnitude (bestBidTakerInvalidProfitTokens (om_invalid om))))
           (magnitude (bestBidTakerInvalidProfitTokens (om_invalid (hd ms)))) ms,
       mk_bestAskTakerInvalidProfitTokens :=
         foldl (\<lambda>x om. max x (magnitude (bestAskTakerInvalidProfitTokens (om_invalid om))))
           (magnitude (bestAskTakerInvalidProfitTokens (om_invalid (hd ms)))) ms\<rparr>
     else m) rows"

definition refreshed :: "address \<Rightarrow> outcome_metrics list \<Rightarrow> world \<Rightarrow> world" where
  "refreshed marketId ms w = w\<lparr>tables := (tables w)
     \<lparr>t_outcomes := refreshedOutcomes marketId ms (t_outcomes (tables w)),
      t_markets := refreshedMarkets marketId ms (t_markets (tables w)),
      t_outcomes_liquidity := filter (\<lambda>r. ol_marketId r \<noteq> marketId) (t_outcomes_liquidity (tables w))
        @ liquidityRows marketId ms\<rparr>\<rparr>"

lemma tradedOutcomes_distinct: "distinct (tradedOutcomes m)"
  by (simp add: tradedOutcomes_def)

lemma tradedOutcomes_nonempty: "0 < mk_numOutcomes m \<Longrightarrow> tradedOutcomes m \<noteq> []"
  by (simp add: tradedOutcomes_def)

lemma plainMetrics_maxima:
  assumes "list_all2 plainMetrics us ms"
  shows "maxMetric om_spreadPercent (Pc 0) ms = Inr (Pc (worstSpread ms))"
    "maxMetric (\<lambda>om. invalidROIPercent (om_invalid om)) (Pc 0) ms =
      Inr (Pc (foldl (\<lambda>x om. max x (magnitude (invalidROIPercent (om_invalid om)))) 0 ms))"
    "maxMetric (\<lambda>om. bestBidTakerInvalidProfitTokens (om_invalid om)) (Tk a) ms =
      Inr (Tk (foldl (\<lambda>x om. max x (magnitude (bestBidTakerInvalidProfitTokens (om_invalid om)))) a ms))"
    "maxMetric (\<lambda>om. bestAskTakerInvalidProfitTokens (om_invalid om)) (Tk a) ms =
      Inr (Tk (foldl (\<lambda>x om. max x (magnitude (bestAskTakerInvalidProfitTokens (om_invalid om)))) a ms))"
  unfolding worstSpread_def
  by (rule maxMetric_run;
      use assms in \<open>force simp: list_all2_conv_all_nth in_set_conv_nth plainMetrics_def\<close>)+

lemma updateLiquidityMetrics_run:
  assumes "bn_division (en_dv env)" "find (\<lambda>m. mk_marketId m = marketId) (t_markets (tables w)) = Some m"
    "metrics_ok env w m" "outcomes.valid_table w" "markets.valid_table w"
  shows "\<exists>ms. updateLiquidityMetricsForMarketAndOutcomes env marketId w = (Inr (), refreshed marketId ms w) \<and>
    (\<exists>mob. getMarketOrderBooks env marketId w = (Inr mob, w) \<and>
      mapE (outcomeMetrics env mob) (mob_orderBooks mob) = Inr ms) \<and>
    list_all2 plainMetrics (tradedOutcomes m) ms \<and>
    (openOrders w marketId = [] \<longrightarrow> (\<forall>om \<in> set ms. om_spreadPercent om = Pc 1))"
proof -
  have id: "mk_marketId m = marketId" using find_SomeD [OF assms(2)] by simp
  let ?mob = "marketOrderBooks env (openOrders w marketId) m"
  obtain ms where ms: "mapE (outcomeMetrics env ?mob) (mob_orderBooks ?mob) = Inr ms"
    and pl: "list_all2 plainMetrics (tradedOutcomes m) ms"
    and no: "openOrders w marketId = [] \<longrightarrow> (\<forall>om \<in> set ms. om_spreadPercent om = Pc 1)"
    using all_outcomeMetrics_plain [OF assms(1,3), of "openOrders w marketId"] by (auto simp: id)
  have "tradedOutcomes m \<noteq> []" using assms(3) by (simp add: metrics_ok_def tradedOutcomes_nonempty)
  then obtain om ms' where ne: "ms = om # ms'" using pl by (cases ms) auto
  then obtain bid ask where om: "bestBidTakerInvalidProfitTokens (om_invalid om) = Tk bid"
    "bestAskTakerInvalidProfitTokens (om_invalid om) = Tk ask"
    using pl by (auto simp: list_all2_Cons2 plainMetrics_def)
  have "map om_outcome ms = tradedOutcomes m"
    using pl by (auto simp: list_all2_conv_all_nth plainMetrics_def intro: nth_equalityI)
  then have d: "distinct (map om_outcome ms)" by (simp add: tradedOutcomes_distinct)
  let ?w1 = "tput outcomes (refreshedOutcomes marketId ms (t_outcomes (tables w))) w"
  let ?w2 = "tput markets (refreshedMarkets marketId ms (t_markets (tables w))) ?w1"
  note u1 = updateOutcomeMetrics_run [OF d assms(4) pl, of marketId]
  let ?roi = "foldl (\<lambda>x om. max x (magnitude (invalidROIPercent (om_invalid om)))) 0 ms"
  have nn: "0 \<le> worstSpread ms" "0 \<le> ?roi" by (simp_all add: worstSpread_def foldl_max_ge)
  have u2: "update markets (\<lambda>m. mk_marketId m = marketId)
      (\<lambda>m. m\<lparr>mk_spreadPercent := worstSpread ms, mk_invalidROIPercent := ?roi,
        mk_bestBidTakerInvalidProfitTokens :=
          foldl (\<lambda>x om. max x (magnitude (bestBidTakerInvalidProfitTokens (om_invalid om)))) bid ms,
        mk_bestAskTakerInvalidProfitTokens :=
          foldl (\<lambda>x om. max x (magnitude (bestAskTakerInvalidProfitTokens (om_invalid om)))) ask ms\<rparr>) ?w1
      = (Inr (), ?w2)"
    using assms(5) nn
    by (auto simp: update_eq_Inr markets.valid_table_def list_all_iff table_constraints
        refreshedMarkets_def ne om)
  have u3: "updateOutcomesLiquidity marketId ms ?w2 = (Inr (), refreshed marketId ms w)"
    using updateOutcomesLiquidity_run [OF pl tradedOutcomes_distinct, of marketId ?w2]
    by (simp add: refreshed_def)
  have "updateLiquidityMetricsForMarketAndOutcomes env marketId w = (Inr (), refreshed marketId ms w)"
    using getMarketOrderBooks_run [OF assms(2), of env] ms plainMetrics_maxima [OF pl] om u1 u2 u3
    by (simp add: updateLiquidityMetricsForMarketAndOutcomes_def act_simps ne [symmetric])
      (simp add: ne act_simps)
  with pl no ms getMarketOrderBooks_run [OF assms(2), of env] show ?thesis by blast
qed

section \<open>Properties of the refresh\<close>

definition ready :: "env \<Rightarrow> world \<Rightarrow> address \<Rightarrow> bool" where
  "ready env w marketId \<longleftrightarrow> (case find (\<lambda>m. mk_marketId m = marketId) (t_markets (tables w)) of
     None \<Rightarrow> False | Some m \<Rightarrow> metrics_ok env w m)"

text \<open>What a refresh establishes for a market.\<close>

definition fresh :: "world \<Rightarrow> address \<Rightarrow> bool" where
  "fresh w marketId \<longleftrightarrow> (case find (\<lambda>m. mk_marketId m = marketId) (t_markets (tables w)) of
     None \<Rightarrow> False
   | Some m \<Rightarrow>
       map (\<lambda>r. (ol_outcome r, ol_spreadPercent r))
           (filter (\<lambda>r. ol_marketId r = marketId) (t_outcomes_liquidity (tables w))) =
         List.product (tradedOutcomes m) [1 / 10, 15 / 100, 1 / 5, 1] \<and>
       list_all (\<lambda>r. ol_marketId r = marketId \<longrightarrow> 0 \<le> ol_liquidityTokens r) (t_outcomes_liquidity (tables w)) \<and>
       0 \<le> mk_spreadPercent m \<and> mk_spreadPercent m \<le> 1 \<and>
       list_all (\<lambda>u. oc_marketId u = marketId \<longrightarrow> oc_outcome u \<in> set (tradedOutcomes m) \<longrightarrow>
         0 \<le> oc_spreadPercent u \<and> oc_spreadPercent u \<le> mk_spreadPercent m) (t_outcomes (tables w)))"

lemma find_refreshedMarkets:
  "find (\<lambda>m. mk_marketId m = j) (refreshedMarkets i ms rows) =
     map_option (\<lambda>m. hd (refreshedMarkets i ms [m])) (find (\<lambda>m. mk_marketId m = j) rows)"
  by (induction rows) (simp_all add: refreshedMarkets_def)

lemma refreshed_market_static:
  "mk_marketId (hd (refreshedMarkets i ms [m])) = mk_marketId m"
  "mk_minPrice (hd (refreshedMarkets i ms [m])) = mk_minPrice m"
  "mk_maxPrice (hd (refreshedMarkets i ms [m])) = mk_maxPrice m"
  "mk_numOutcomes (hd (refreshedMarkets i ms [m])) = mk_numOutcomes m"
  "mk_reportingFeeRate (hd (refreshedMarkets i ms [m])) = mk_reportingFeeRate m"
  "mk_marketCreatorFeeRate (hd (refreshedMarkets i ms [m])) = mk_marketCreatorFeeRate m"
  "tradedOutcomes (hd (refreshedMarkets i ms [m])) = tradedOutcomes m"
  "mk_spreadPercent (hd (refreshedMarkets i ms [m])) =
    (if mk_marketId m = i then worstSpread ms else mk_spreadPercent m)"
  by (simp_all add: refreshedMarkets_def tradedOutcomes_def)

lemma set_refreshedMarkets:
  "set (refreshedMarkets i ms rows) = (\<lambda>m. hd (refreshedMarkets i ms [m])) ` set rows"
  by (simp add: refreshedMarkets_def)

lemma other_markets:
  "filter (\<lambda>m. mk_marketId m \<noteq> i) (refreshedMarkets i ms rows) =
    filter (\<lambda>m. mk_marketId m \<noteq> i) rows"
  by (induction rows) (simp_all add: refreshedMarkets_def)

lemma refreshed_sel:
  "t_orders (tables (refreshed i ms w)) = t_orders (tables w)"
  "t_markets (tables (refreshed i ms w)) = refreshedMarkets i ms (t_markets (tables w))"
  "t_outcomes (tables (refreshed i ms w)) = refreshedOutcomes i ms (t_outcomes (tables w))"
  "t_outcomes_liquidity (tables (refreshed i ms w)) =
    filter (\<lambda>r. ol_marketId r \<noteq> i) (t_outcomes_liquidity (tables w)) @ liquidityRows i ms"
  "t_pending_liquidity_updates (tables (refreshed i ms w)) = t_pending_liquidity_updates (tables w)"
  by (simp_all add: refreshed_def)

lemma ready_refreshed: "ready env (refreshed i ms w) j = ready env w j"
  by (simp add: ready_def refreshed_sel find_refreshedMarkets metrics_ok_def refreshed_market_static
      openOrders_def split: option.split)

lemma refreshed_valid:
  assumes "list_all2 plainMetrics us ms" "outcomes.valid_table w" "markets.valid_table w"
  shows "outcomes.valid_table (refreshed i ms w)" "markets.valid_table (refreshed i ms w)"
proof -
  have "metricsOf i ms u = Some om \<Longrightarrow> om \<in> set ms" for u om
    by (auto simp: metricsOf_def dest: find_SomeD split: if_splits)
  then show "outcomes.valid_table (refreshed i ms w)"
    using assms(2) plainMetrics_nonneg [OF assms(1)]
    by (auto simp: outcomes.valid_table_def refreshed_sel refreshedOutcomes_def sorted_wrt_map
        list_all_iff table_constraints withMetrics_def split: option.splits elim!: sorted_wrt_mono_rel [rotated])
  have "0 \<le> worstSpread ms" by (simp add: worstSpread_def foldl_max_ge)
  then show "markets.valid_table (refreshed i ms w)"
    using assms(3)
    by (auto simp: markets.valid_table_def refreshed_sel refreshedMarkets_def sorted_wrt_map
        list_all_iff table_constraints foldl_max_ge split: if_splits
        elim!: sorted_wrt_mono_rel [rotated])
qed

lemma worstSpread_bounds:
  assumes "list_all2 plainMetrics us ms"
  shows "0 \<le> worstSpread ms" "worstSpread ms \<le> 1"
    "om \<in> set ms \<Longrightarrow> magnitude (om_spreadPercent om) \<le> worstSpread ms"
proof -
  show "0 \<le> worstSpread ms" by (simp add: worstSpread_def foldl_max_ge)
  show "om \<in> set ms \<Longrightarrow> magnitude (om_spreadPercent om) \<le> worstSpread ms"
    unfolding worstSpread_def by (rule foldl_max_upper [of om ms "\<lambda>om. magnitude (om_spreadPercent om)"])
  show "worstSpread ms \<le> 1"
    using foldl_max_attained [of "\<lambda>om. magnitude (om_spreadPercent om)" 0 ms]
      plainMetrics_nonneg(2) [OF assms] by (auto simp: worstSpread_def)
qed

lemma metricsOf_traded:
  assumes "list_all2 plainMetrics us ms" "oc_marketId u = i" "oc_outcome u \<in> set us"
  shows "\<exists>om \<in> set ms. metricsOf i ms u = Some om"
proof -
  obtain k where k: "k < length us" "us ! k = oc_outcome u" using assms(3) by (auto simp: in_set_conv_nth)
  then have "ms ! k \<in> set ms" "om_outcome (ms ! k) = oc_outcome u"
    using assms(1) by (auto simp: list_all2_conv_all_nth plainMetrics_def)
  then have "find (\<lambda>om. om_outcome om = oc_outcome u) ms \<noteq> None" unfolding find_None_iff by blast
  then obtain om where "find (\<lambda>om. om_outcome om = oc_outcome u) ms = Some om" by blast
  then show ?thesis using find_SomeD assms(2) by (fastforce simp: metricsOf_def)
qed

lemma refreshed_fresh:
  assumes "find (\<lambda>m. mk_marketId m = i) (t_markets (tables w)) = Some m"
    "list_all2 plainMetrics (tradedOutcomes m) ms"
  shows "fresh (refreshed i ms w) i"
proof -
  have id: "mk_marketId m = i" using find_SomeD [OF assms(1)] by simp
  note ok = liquidityRows_ok [OF assms(2), of _ i] and b = worstSpread_bounds [OF assms(2)]
  have "filter (\<lambda>r. ol_marketId r = i) (liquidityRows i ms) = liquidityRows i ms"
    using ok(1) by (simp add: filter_id_conv)
  then have keys: "map (\<lambda>r. (ol_outcome r, ol_spreadPercent r)) (filter (\<lambda>r. ol_marketId r = i)
      (t_outcomes_liquidity (tables (refreshed i ms w)))) =
      List.product (tradedOutcomes m) [1 / 10, 15 / 100, 1 / 5, 1]"
    using liquidityRows_keys [OF assms(2), of i] by (simp add: refreshed_sel)
  have amounts: "list_all (\<lambda>r. ol_marketId r = i \<longrightarrow> 0 \<le> ol_liquidityTokens r)
      (t_outcomes_liquidity (tables (refreshed i ms w)))"
    using ok(3) by (auto simp: refreshed_sel list_all_iff)
  have spreads: "list_all (\<lambda>u. oc_marketId u = i \<longrightarrow> oc_outcome u \<in> set (tradedOutcomes m) \<longrightarrow>
      0 \<le> oc_spreadPercent u \<and> oc_spreadPercent u \<le> worstSpread ms) (t_outcomes (tables (refreshed i ms w)))"
  proof (simp add: refreshed_sel refreshedOutcomes_def list_all_iff withMetrics_keys, intro ballI impI)
    fix u :: outcomes_row
    assume "oc_marketId u = i" "oc_outcome u \<in> set (tradedOutcomes m)"
    then obtain om where om: "om \<in> set ms" "metricsOf i ms u = Some om"
      using metricsOf_traded [OF assms(2)] by blast
    then show "0 \<le> oc_spreadPercent (case metricsOf i ms u of None \<Rightarrow> u | Some om \<Rightarrow> withMetrics om u) \<and>
        oc_spreadPercent (case metricsOf i ms u of None \<Rightarrow> u | Some om \<Rightarrow> withMetrics om u)
          \<le> worstSpread ms"
      using b(3) [OF om(1)] plainMetrics_nonneg(1) [OF assms(2) om(1)] by (simp add: withMetrics_def)
  qed
  have row: "find (\<lambda>m. mk_marketId m = i) (t_markets (tables (refreshed i ms w))) =
      Some (hd (refreshedMarkets i ms [m]))"
    using assms(1) by (simp add: refreshed_sel find_refreshedMarkets)
  show ?thesis
    using keys amounts spreads b(1,2) by (simp add: fresh_def row refreshed_market_static id)
qed

lemma fresh_kept:
  assumes "fresh w j" "j \<noteq> i" "list_all2 plainMetrics us ms"
  shows "fresh (refreshed i ms w) j"
proof -
  have rows: "filter (\<lambda>r. ol_marketId r = j) (liquidityRows i ms) = []"
    using liquidityRows_ok(1) [OF assms(3), of _ i] assms(2) by (auto simp: filter_empty_conv)
  have f: "filter (\<lambda>r. ol_marketId r \<noteq> i \<and> ol_marketId r = j) rs = filter (\<lambda>r. ol_marketId r = j) rs" for rs
    using assms(2) by (intro filter_cong) auto
  obtain m where m: "find (\<lambda>m. mk_marketId m = j) (t_markets (tables w)) = Some m"
    using assms(1) by (auto simp: fresh_def split: option.splits)
  have "mk_marketId m \<noteq> i" using find_SomeD [OF m] assms(2) by simp
  then show ?thesis
    using assms(1,2) m liquidityRows_ok(1) [OF assms(3), of _ i]
    by (auto simp: fresh_def refreshed_sel find_refreshedMarkets refreshed_market_static rows f
        list_all_iff refreshedOutcomes_def metricsOf_def withMetrics_keys)
qed

lemma foldl_max_Max:
  fixes b :: "'a::linorder"
  assumes "xs \<noteq> []" "\<exists>x \<in> set xs. b \<le> f x"
  shows "foldl (\<lambda>m x. max m (f x)) b xs = Max (f ` set xs)"
proof (rule sym, rule Max_eqI)
  show "finite (f ` set xs)" by simp
  show "y \<le> foldl (\<lambda>m x. max m (f x)) b xs" if "y \<in> f ` set xs" for y
    using that by (auto intro: foldl_max_upper)
  obtain x where x: "x \<in> set xs" "b \<le> f x" using assms(2) by blast
  have "f x \<le> foldl (\<lambda>m x. max m (f x)) b xs" using x(1) by (rule foldl_max_upper)
  then show "foldl (\<lambda>m x. max m (f x)) b xs \<in> f ` set xs"
    using foldl_max_attained [of f b xs] x by (metis insertE order_antisym image_eqI)
qed

lemma metrics_maxima:
  assumes "list_all2 plainMetrics us ms" "ms \<noteq> []"
  shows "refreshedMarkets marketId ms rows = map (\<lambda>m. if mk_marketId m = marketId then
      m\<lparr>mk_spreadPercent := Max ((\<lambda>om. magnitude (om_spreadPercent om)) ` set ms),
        mk_invalidROIPercent := Max ((\<lambda>om. magnitude (invalidROIPercent (om_invalid om))) ` set ms),
        mk_bestBidTakerInvalidProfitTokens :=
          Max ((\<lambda>om. magnitude (bestBidTakerInvalidProfitTokens (om_invalid om))) ` set ms),
        mk_bestAskTakerInvalidProfitTokens :=
          Max ((\<lambda>om. magnitude (bestAskTakerInvalidProfitTokens (om_invalid om))) ` set ms)\<rparr>
      else m) rows"
proof -
  have h: "hd ms \<in> set ms" using assms(2) by simp
  have "foldl (\<lambda>x om. max x (magnitude (om_spreadPercent om))) 0 ms = Max ((\<lambda>om. magnitude (om_spreadPercent om)) ` set ms)"
    by (rule foldl_max_Max [OF assms(2)]) (use h plainMetrics_nonneg [OF assms(1)] in blast)
  moreover have "foldl (\<lambda>x om. max x (magnitude (invalidROIPercent (om_invalid om)))) 0 ms =
      Max ((\<lambda>om. magnitude (invalidROIPercent (om_invalid om))) ` set ms)"
    by (rule foldl_max_Max [OF assms(2)]) (use h plainMetrics_nonneg [OF assms(1)] in blast)
  moreover have "foldl (\<lambda>x om. max x (magnitude (bestBidTakerInvalidProfitTokens (om_invalid om))))
      (magnitude (bestBidTakerInvalidProfitTokens (om_invalid (hd ms)))) ms =
      Max ((\<lambda>om. magnitude (bestBidTakerInvalidProfitTokens (om_invalid om))) ` set ms)"
    by (rule foldl_max_Max [OF assms(2)]) (use h in blast)
  moreover have "foldl (\<lambda>x om. max x (magnitude (bestAskTakerInvalidProfitTokens (om_invalid om))))
      (magnitude (bestAskTakerInvalidProfitTokens (om_invalid (hd ms)))) ms =
      Max ((\<lambda>om. magnitude (bestAskTakerInvalidProfitTokens (om_invalid om))) ` set ms)"
    by (rule foldl_max_Max [OF assms(2)]) (use h in blast)
  ultimately show ?thesis by (simp only: refreshedMarkets_def worstSpread_def)
qed

lemma refreshedOutcomes_alt:
  "refreshedOutcomes marketId ms us = map (\<lambda>u. if oc_marketId u = marketId then
      case find (\<lambda>om. om_outcome om = oc_outcome u) ms of None \<Rightarrow> u
      | Some om \<Rightarrow> u\<lparr>oc_spreadPercent := magnitude (om_spreadPercent om),
          oc_invalidROIPercent := magnitude (invalidROIPercent (om_invalid om)),
          oc_bestBidTakerInvalidProfitTokens := magnitude (bestBidTakerInvalidProfitTokens (om_invalid om)),
          oc_bestAskTakerInvalidProfitTokens := magnitude (bestAskTakerInvalidProfitTokens (om_invalid om))\<rparr>
      else u) us"
  by (auto simp: refreshedOutcomes_def metricsOf_def withMetrics_def split: option.split)

lemma refreshed_alt:
  assumes "list_all2 plainMetrics us ms" "ms \<noteq> []"
  shows "refreshed marketId ms w = w\<lparr>tables := (tables w)
      \<lparr>t_outcomes := map (\<lambda>u. if oc_marketId u = marketId then
          case find (\<lambda>om. om_outcome om = oc_outcome u) ms of None \<Rightarrow> u
          | Some om \<Rightarrow> u\<lparr>oc_spreadPercent := magnitude (om_spreadPercent om),
              oc_invalidROIPercent := magnitude (invalidROIPercent (om_invalid om)),
              oc_bestBidTakerInvalidProfitTokens := magnitude (bestBidTakerInvalidProfitTokens (om_invalid om)),
              oc_bestAskTakerInvalidProfitTokens := magnitude (bestAskTakerInvalidProfitTokens (om_invalid om))\<rparr>
          else u) (t_outcomes (tables w)),
       t_markets := map (\<lambda>m. if mk_marketId m = marketId then
          m\<lparr>mk_spreadPercent := Max ((\<lambda>om. magnitude (om_spreadPercent om)) ` set ms),
            mk_invalidROIPercent := Max ((\<lambda>om. magnitude (invalidROIPercent (om_invalid om))) ` set ms),
            mk_bestBidTakerInvalidProfitTokens :=
              Max ((\<lambda>om. magnitude (bestBidTakerInvalidProfitTokens (om_invalid om))) ` set ms),
            mk_bestAskTakerInvalidProfitTokens :=
              Max ((\<lambda>om. magnitude (bestAskTakerInvalidProfitTokens (om_invalid om))) ` set ms)\<rparr>
          else m) (t_markets (tables w)),
       t_outcomes_liquidity := filter (\<lambda>r. ol_marketId r \<noteq> marketId) (t_outcomes_liquidity (tables w)) @
         concat (map (\<lambda>om. map (\<lambda>(spread, amount).
           \<lparr>ol_marketId = marketId, ol_outcome = om_outcome om, ol_spreadPercent = magnitude spread,
            ol_liquidityTokens = magnitude amount\<rparr>) (om_liquidity om)) ms)\<rparr>\<rparr>"
  unfolding refreshed_def refreshedOutcomes_alt metrics_maxima [OF assms] liquidityRows_def by (rule refl)

lemma other_outcomes:
  "filter (\<lambda>u. oc_marketId u \<noteq> i) (refreshedOutcomes i ms us) = filter (\<lambda>u. oc_marketId u \<noteq> i) us"
  by (induction us) (simp_all add: refreshedOutcomes_def metricsOf_def withMetrics_keys)

text \<open>
  C17. The refresh of a market succeeds whenever its open orders are priced within its range, its
  fees stay below one and the fuel covers the liquidity loop. It computes the metrics of the order book of each
  traded outcome and then: each outcome row of the market with metrics has their spread, the return for
  invalid and the two taker profits; the market has the largest of each over its outcomes; the liquidity rows
  of the market are replaced by those computed; and nothing else of the database changes, in particular
  no outcome, market or liquidity row of another market, and no order. Afterwards the liquidity table has for
  each traded outcome exactly the four spread percents, with non-negative amounts; the market's
  spread lies in [0,1], bounds the spread of each traded outcome, and is 1 for a market without open
  orders.
\<close>

theorem liquidity_metrics_refreshed:
  assumes "bn_division (en_dv env)" "ready env w marketId" "outcomes.valid_table w" "markets.valid_table w"
  shows "\<exists>w' mob ms. updateLiquidityMetricsForMarketAndOutcomes env marketId w = (Inr (), w') \<and>
    getMarketOrderBooks env marketId w = (Inr mob, w) \<and>
    mapE (outcomeMetrics env mob) (mob_orderBooks mob) = Inr ms \<and>
    w' = w\<lparr>tables := (tables w)
      \<lparr>t_outcomes := map (\<lambda>u. if oc_marketId u = marketId then
          case find (\<lambda>om. om_outcome om = oc_outcome u) ms of None \<Rightarrow> u
          | Some om \<Rightarrow> u\<lparr>oc_spreadPercent := magnitude (om_spreadPercent om),
              oc_invalidROIPercent := magnitude (invalidROIPercent (om_invalid om)),
              oc_bestBidTakerInvalidProfitTokens := magnitude (bestBidTakerInvalidProfitTokens (om_invalid om)),
              oc_bestAskTakerInvalidProfitTokens := magnitude (bestAskTakerInvalidProfitTokens (om_invalid om))\<rparr>
          else u) (t_outcomes (tables w)),
       t_markets := map (\<lambda>m. if mk_marketId m = marketId then
          m\<lparr>mk_spreadPercent := Max ((\<lambda>om. magnitude (om_spreadPercent om)) ` set ms),
            mk_invalidROIPercent := Max ((\<lambda>om. magnitude (invalidROIPercent (om_invalid om))) ` set ms),
            mk_bestBidTakerInvalidProfitTokens :=
              Max ((\<lambda>om. magnitude (bestBidTakerInvalidProfitTokens (om_invalid om))) ` set ms),
            mk_bestAskTakerInvalidProfitTokens :=
              Max ((\<lambda>om. magnitude (bestAskTakerInvalidProfitTokens (om_invalid om))) ` set ms)\<rparr>
          else m) (t_markets (tables w)),
       t_outcomes_liquidity := filter (\<lambda>r. ol_marketId r \<noteq> marketId) (t_outcomes_liquidity (tables w)) @
         concat (map (\<lambda>om. map (\<lambda>(spread, amount).
           \<lparr>ol_marketId = marketId, ol_outcome = om_outcome om, ol_spreadPercent = magnitude spread,
            ol_liquidityTokens = magnitude amount\<rparr>) (om_liquidity om)) ms)\<rparr>\<rparr> \<and>
    fresh w' marketId \<and> t_orders (tables w') = t_orders (tables w) \<and>
    (openOrders w marketId = [] \<longrightarrow> (\<forall>m \<in> set (t_markets (tables w')).
       mk_marketId m = marketId \<longrightarrow> mk_spreadPercent m = 1)) \<and>
    filter (\<lambda>r. ol_marketId r \<noteq> marketId) (t_outcomes_liquidity (tables w')) =
      filter (\<lambda>r. ol_marketId r \<noteq> marketId) (t_outcomes_liquidity (tables w)) \<and>
    filter (\<lambda>m. mk_marketId m \<noteq> marketId) (t_markets (tables w')) =
      filter (\<lambda>m. mk_marketId m \<noteq> marketId) (t_markets (tables w)) \<and>
    filter (\<lambda>u. oc_marketId u \<noteq> marketId) (t_outcomes (tables w')) =
      filter (\<lambda>u. oc_marketId u \<noteq> marketId) (t_outcomes (tables w))"
proof -
  from assms(2) obtain m where m: "find (\<lambda>m. mk_marketId m = marketId) (t_markets (tables w)) = Some m"
    and ok: "metrics_ok env w m" by (auto simp: ready_def split: option.splits)
  obtain ms mob where run: "updateLiquidityMetricsForMarketAndOutcomes env marketId w =
      (Inr (), refreshed marketId ms w)"
    and mob: "getMarketOrderBooks env marketId w = (Inr mob, w)"
    and ms: "mapE (outcomeMetrics env mob) (mob_orderBooks mob) = Inr ms"
    and pl: "list_all2 plainMetrics (tradedOutcomes m) ms"
    and no: "openOrders w marketId = [] \<longrightarrow> (\<forall>om \<in> set ms. om_spreadPercent om = Pc 1)"
    using updateLiquidityMetrics_run [OF assms(1) m ok assms(3,4)]
    by (elim exE conjE) (rule that)
  have "tradedOutcomes m \<noteq> []" using ok by (simp add: metrics_ok_def tradedOutcomes_nonempty)
  then have some: "ms \<noteq> []" and ne: "hd ms \<in> set ms" using pl by (cases ms; auto)+
  have empty: "worstSpread ms = 1" if "openOrders w marketId = []"
  proof -
    have "om_spreadPercent (hd ms) = Pc 1" using no ne that by simp
    then show ?thesis
      using worstSpread_bounds(2) [OF pl] worstSpread_bounds(3) [OF pl ne] by simp
  qed
  have rows: "filter (\<lambda>r. ol_marketId r \<noteq> marketId) (liquidityRows marketId ms) = []"
    using liquidityRows_ok(1) [OF pl] by (simp add: filter_empty_conv)
  have worst: "mk_spreadPercent x = worstSpread ms"
    if "x \<in> set (refreshedMarkets marketId ms rows)" "mk_marketId x = marketId" for x rows
    using that unfolding set_refreshedMarkets by (elim imageE) (simp add: refreshed_market_static)
  show ?thesis
  proof (intro exI conjI impI ballI)
    show "updateLiquidityMetricsForMarketAndOutcomes env marketId w = (Inr (), refreshed marketId ms w)"
      by (rule run)
    show "getMarketOrderBooks env marketId w = (Inr mob, w)" by (rule mob)
    show "mapE (outcomeMetrics env mob) (mob_orderBooks mob) = Inr ms" by (rule ms)
    show "fresh (refreshed marketId ms w) marketId" by (rule refreshed_fresh [OF m pl])
    fix x
    assume "x \<in> set (t_markets (tables (refreshed marketId ms w)))" "mk_marketId x = marketId"
      "openOrders w marketId = []"
    then show "mk_spreadPercent x = 1" using worst empty by (simp add: refreshed_sel)
  qed (rule refreshed_alt [OF pl some] | simp add: refreshed_sel rows other_markets other_outcomes)+
qed

section \<open>Properties of the queues\<close>

lemma queue_run:
  assumes "bn_division (en_dv env)" "\<forall>i \<in> set ids. ready env w i" "outcomes.valid_table w" "markets.valid_table w"
  shows "\<exists>w'. forA ids (refreshPending env) w = (Inr (), w') \<and>
    t_orders (tables w') = t_orders (tables w) \<and>
    t_pending_liquidity_updates (tables w') =
      filter (\<lambda>r. r \<notin> set ids) (t_pending_liquidity_updates (tables w)) \<and>
    (\<forall>i. i \<in> set ids \<or> fresh w i \<longrightarrow> fresh w' i)"
  using assms(2-)
proof (induction ids arbitrary: w)
  case Nil
  then show ?case by (simp add: return_app)
next
  case (Cons i ids)
  let ?del = "\<lambda>w. tput pending_liquidity_updates
    (filter (\<lambda>r. r \<noteq> i) (t_pending_liquidity_updates (tables w))) w"
  have del: "fresh (?del w) j = fresh w j" "ready env (?del w) j = ready env w j"
    "outcomes.valid_table (?del w) = outcomes.valid_table w"
    "markets.valid_table (?del w) = markets.valid_table w" for w j
    by (simp_all add: fresh_def ready_def metrics_ok_def openOrders_def outcomes.valid_table_def
        markets.valid_table_def split: option.split)
  from Cons.prems(1) obtain m where m: "find (\<lambda>m. mk_marketId m = i) (t_markets (tables w)) = Some m"
    and ok: "metrics_ok env w m" by (auto simp: ready_def split: option.splits)
  obtain ms where run: "updateLiquidityMetricsForMarketAndOutcomes env i w = (Inr (), refreshed i ms w)"
    and pl: "list_all2 plainMetrics (tradedOutcomes m) ms"
    using updateLiquidityMetrics_run [OF assms(1) m ok Cons.prems(2,3)] by blast
  let ?w = "refreshed i ms w"
  have step: "refreshPending env i w = (Inr (), ?del ?w)"
    using run by (simp add: refreshPending_def transaction_ok act_simps table_simps)
  obtain w' where w': "forA ids (refreshPending env) (?del ?w) = (Inr (), w')"
    and o: "t_orders (tables w') = t_orders (tables (?del ?w))"
    and p: "t_pending_liquidity_updates (tables w') =
      filter (\<lambda>r. r \<notin> set ids) (t_pending_liquidity_updates (tables (?del ?w)))"
    and f: "\<forall>j. j \<in> set ids \<or> fresh (?del ?w) j \<longrightarrow> fresh w' j"
    using Cons.IH [of "?del ?w"] Cons.prems refreshed_valid [OF pl Cons.prems(2,3)]
    unfolding del ready_refreshed by auto
  have "fresh w' j" if "j = i \<or> j \<in> set ids \<or> fresh w j" for j
    using that f refreshed_fresh [OF m pl] fresh_kept [OF _ _ pl, of w j i] unfolding del by blast
  moreover have "t_pending_liquidity_updates (tables w') =
      filter (\<lambda>r. r \<notin> set (i # ids)) (t_pending_liquidity_updates (tables w))"
    unfolding p by (simp add: refreshed_sel)
  ultimately show ?case using step w' o by (simp add: act_simps refreshed_sel)
qed

text \<open>
  C23. Every market waiting for a refresh gets it: when the pending markets are ready, the check
  returns with an empty queue, all of them refreshed, no order touched.
\<close>

theorem pending_liquidity_drained:
  assumes "bn_division (en_dv env)" "\<forall>i \<in> set (t_pending_liquidity_updates (tables w)). ready env w i"
    "outcomes.valid_table w" "markets.valid_table w"
  shows "\<exists>w'. checkMarketLiquidityUpdates env w = (Inr (), w') \<and>
    t_pending_liquidity_updates (tables w') = [] \<and> t_orders (tables w') = t_orders (tables w) \<and>
    (\<forall>i \<in> set (t_pending_liquidity_updates (tables w)). fresh w' i)"
  using queue_run [OF assms]
  by (auto simp: checkMarketLiquidityUpdates_def table_simps)

lemma unchanged_refresh:
  "unchanged (\<lambda>w. t_pending_liquidity_updates (tables w)) (updateLiquidityMetricsForMarketAndOutcomes env i)"
  unfolding updateLiquidityMetricsForMarketAndOutcomes_def getMarketOrderBooks_def Let_def
    updateOutcomeMetrics_def updateOutcomesLiquidity_def
  by (intro frames unchanged_write; simp)

lemma queue_pending:
  assumes "forA ids (refreshPending env) w = (Inr (), w')"
  shows "t_pending_liquidity_updates (tables w') =
    filter (\<lambda>r. r \<notin> set ids) (t_pending_liquidity_updates (tables w))"
  using assms
proof (induction ids arbitrary: w)
  case Nil
  then show ?case by (simp add: return_app)
next
  case (Cons i ids)
  then obtain w1 w2 where 1: "updateLiquidityMetricsForMarketAndOutcomes env i w = (Inr (), w1)"
    and 2: "delete pending_liquidity_updates (\<lambda>r. r = i) w1 = (Inr (), w2)"
    and ih: "t_pending_liquidity_updates (tables w') =
      filter (\<lambda>r. r \<notin> set ids) (t_pending_liquidity_updates (tables w2))"
    by (auto simp: refreshPending_def thenA_eq_Inr transaction_ok)
  show ?case
    using 2 unchangedD [OF unchanged_refresh 1] by (simp add: ih delete_eq_Inr)
qed

text \<open>
  A refresh that fails is rolled back and stops the check: the tables are those left by the
  refreshes before it, and the failing market and all after it are still waiting.
\<close>

theorem failed_refresh_stays_pending:
  assumes "checkMarketLiquidityUpdates env w = (Inl e, w')"
    "distinct (t_pending_liquidity_updates (tables w))"
  shows "\<exists>finished i rest w1. t_pending_liquidity_updates (tables w) = finished @ i # rest \<and>
    forA finished (refreshPending env) w = (Inr (), w1) \<and> tables w' = tables w1 \<and>
    t_pending_liquidity_updates (tables w') = i # rest"
proof -
  have "forA (t_pending_liquidity_updates (tables w)) (refreshPending env) w = (Inl e, w')"
    using assms(1) by (simp add: checkMarketLiquidityUpdates_def table_simps)
  from forA_error [OF this] obtain finished i rest w1 where
    split: "t_pending_liquidity_updates (tables w) = finished @ i # rest"
    and run: "forA finished (refreshPending env) w = (Inr (), w1)"
    and err: "refreshPending env i w1 = (Inl e, w')" by blast
  have same: "tables w' = tables w1"
    using err unfolding refreshPending_def by (rule transaction_error)
  have "filter (\<lambda>r. r \<notin> set finished) (finished @ i # rest) = i # rest"
    using assms(2) by (auto simp: split filter_id_conv)
  then have "t_pending_liquidity_updates (tables w') = i # rest"
    using queue_pending [OF run] by (simp add: same split)
  with split run same show ?thesis by blast
qed

section \<open>Orphaned orders\<close>

text \<open>The orders the contract lists for a side; none when it fails or the side has no open order.\<close>

definition listed :: "env \<Rightarrow> world \<Rightarrow> pending_orphan_row \<Rightarrow> string list" where
  "listed env w p = (case fst (catchEmpty (getOrphanedOrderIds env p) w) of Inr ids \<Rightarrow> ids | Inl _ \<Rightarrow> [])"

definition unlisted :: "(pending_orphan_row \<Rightarrow> string list) \<Rightarrow> pending_orphan_row \<Rightarrow> orders_row \<Rightarrow> bool" where
  "unlisted l p r \<longleftrightarrow> onSide p r \<and> l p \<noteq> [] \<and> or_orderId r \<notin> set (l p)"

definition settled :: "(pending_orphan_row \<Rightarrow> string list) \<Rightarrow> pending_orphan_row list \<Rightarrow> orders_row \<Rightarrow> orders_row" where
  "settled l ps r = (if list_ex (\<lambda>p. unlisted l p r) ps then r\<lparr>or_orphaned := True\<rparr> else r)"

lemma catchEmpty_run: "catchEmpty (getOrphanedOrderIds env p) w = (Inr (listed env w p), w)"
proof -
  have "unchanged (\<lambda>w. w) (getOrphanedOrderIds env p)"
    unfolding getOrphanedOrderIds_def by (intro frames)
  then have "snd (getOrphanedOrderIds env p w) = w" by (simp add: unchanged_def)
  then show ?thesis
    by (auto simp: listed_def catchEmpty_def split: prod.splits sum.splits)
qed

lemma onSide_disjoint: "onSide p r \<Longrightarrow> onSide q r \<Longrightarrow> p = q"
  by (cases p; cases q) (simp add: onSide_def)

lemma checkSide_run:
  assumes "list_all (tcheck orders) (t_orders (tables w))"
  shows "checkOrphanedOrdersForOrderBookSide env p w =
    (Inr (), w\<lparr>tables := (tables w)
      \<lparr>t_orders := map (settled (listed env w) [p]) (t_orders (tables w)),
       t_pending_orphan_checks := filter (\<lambda>r. r \<noteq> p) (t_pending_orphan_checks (tables w))\<rparr>\<rparr>)"
proof (cases "listed env w p = []")
  case True
  then have "settled (listed env w) [p] = (\<lambda>r. r)" by (auto simp: settled_def unlisted_def)
  with True show ?thesis
    by (simp add: checkOrphanedOrdersForOrderBookSide_def act_simps catchEmpty_run transaction_ok
        table_simps)
next
  case False
  let ?f = "\<lambda>r. if or_orderId r \<notin> set (listed env w p) \<and> onSide p r then r\<lparr>or_orphaned := True\<rparr> else r"
  have f: "settled (listed env w) [p] = ?f"
    using False by (auto simp: settled_def unlisted_def fun_eq_iff)
  have "update orders (\<lambda>r. or_orderId r \<notin> set (listed env w p) \<and> onSide p r)
      (\<lambda>r. r\<lparr>or_orphaned := True\<rparr>) w = (Inr (), tput orders (map ?f (t_orders (tables w))) w)"
    using assms by (auto simp: update_eq_Inr list_all_iff table_constraints)
  then show ?thesis
    using False
    by (simp add: checkOrphanedOrdersForOrderBookSide_def act_simps catchEmpty_run transaction_ok
        delete_app f)
qed

lemma settled_sel:
  "onSide q (settled l ps r) = onSide q r" "or_orderState (settled l ps r) = or_orderState r"
  "tcheck orders (settled l ps r) = tcheck orders r"
  by (simp_all add: settled_def onSide_def table_constraints)

lemma catchEmpty_fst:
  "fst (catchEmpty m w) = (case fst (m w) of Inl _ \<Rightarrow> Inr [] | Inr xs \<Rightarrow> Inr xs)"
  by (simp add: catchEmpty_def split: prod.split sum.split)

lemma liftR_fst: "fst (liftR r w) = r"
  by (cases r) (simp_all add: act_simps)

lemma listed_other_side:
  assumes "q \<noteq> p" "t_orders (tables w') = map (settled l [p]) (t_orders (tables w))"
  shows "listed env w' q = listed env w q"
proof -
  let ?P = "\<lambda>r. onSide q r \<and> or_orderState r = OPEN \<and> \<not> or_orphaned r"
  have "settled l [p] r = r" if "onSide q r" for r
    using onSide_disjoint [OF that] assms(1) by (auto simp: settled_def unlisted_def)
  then have "?P (settled l [p] r) = ?P r" for r
    by (cases "onSide q r") (simp_all add: settled_sel)
  then have "length (filter ?P (t_orders (tables w'))) = length (filter ?P (t_orders (tables w)))"
    unfolding assms(2) by (simp only: filter_map comp_def length_map)
  then have "fst (getOrphanedOrderIds env q w') = fst (getOrphanedOrderIds env q w)"
    unfolding getOrphanedOrderIds_def bindA_countRows orders_sel
    by (simp only: return_app liftR_fst split: if_split) simp
  then show ?thesis by (simp only: listed_def catchEmpty_fst)
qed

lemma checkSides_run:
  assumes "distinct ps" "list_all (tcheck orders) (t_orders (tables w))" "\<forall>p \<in> set ps. listed env w p = l p"
  shows "forA ps (checkOrphanedOrdersForOrderBookSide env) w =
    (Inr (), w\<lparr>tables := (tables w)
      \<lparr>t_orders := map (settled l ps) (t_orders (tables w)),
       t_pending_orphan_checks := filter (\<lambda>r. r \<notin> set ps) (t_pending_orphan_checks (tables w))\<rparr>\<rparr>)"
  using assms
proof (induction ps arbitrary: w)
  case Nil
  then show ?case by (simp add: return_app settled_def)
next
  case (Cons p ps)
  let ?w = "w\<lparr>tables := (tables w)
      \<lparr>t_orders := map (settled (listed env w) [p]) (t_orders (tables w)),
       t_pending_orphan_checks := filter (\<lambda>r. r \<noteq> p) (t_pending_orphan_checks (tables w))\<rparr>\<rparr>"
  have "\<forall>q \<in> set ps. listed env ?w q = l q"
  proof
    fix q
    assume "q \<in> set ps"
    then have "q \<noteq> p" "listed env w q = l q" using Cons.prems(1,3) by auto
    then show "listed env ?w q = l q"
      using listed_other_side [of q p ?w "listed env w" w env] by simp
  qed
  moreover have "list_all (tcheck orders) (t_orders (tables ?w))"
    using Cons.prems(2) by (simp add: list_all_iff settled_sel)
  ultimately have ih: "forA ps (checkOrphanedOrdersForOrderBookSide env) ?w =
    (Inr (), ?w\<lparr>tables := (tables ?w)
      \<lparr>t_orders := map (settled l ps) (t_orders (tables ?w)),
       t_pending_orphan_checks := filter (\<lambda>r. r \<notin> set ps) (t_pending_orphan_checks (tables ?w))\<rparr>\<rparr>)"
    using Cons.IH [of ?w] Cons.prems(1) by simp
  have s: "settled l ps (settled (listed env w) [p] r) = settled l (p # ps) r" for r
    using Cons.prems(3) by (auto simp: settled_def unlisted_def list_ex_iff onSide_def)
  show ?case
    using ih by (simp add: checkSide_run [OF Cons.prems(2)] act_simps s)
qed

text \<open>
  C18. The orphan check always returns and empties its queue, also when the contract calls fail. An
  order is marked exactly when the contract listed orders for its side of the book and did not list
  it; nothing else about orders changes, and a side whose call failed is left as it was.
\<close>

theorem orphan_checks_settle:
  assumes "distinct (t_pending_orphan_checks (tables w))" "orders.valid_table w"
  shows "\<exists>w'. checkOrphanedOrders env w = (Inr (), w') \<and>
    t_pending_orphan_checks (tables w') = [] \<and>
    t_orders (tables w') =
      map (settled (listed env w) (t_pending_orphan_checks (tables w))) (t_orders (tables w))"
  using checkSides_run [OF assms(1), of w env "listed env w"] assms(2)
  by (simp add: checkOrphanedOrders_def table_simps orders.valid_table_def)

section \<open>Examples\<close>

text \<open>A market with two outcomes and one open bid, waiting for both checks.\<close>

definition sample_order :: orders_row where
  "sample_order = \<lparr>or_orderId = ''o'', or_blockNumber = 5, or_transactionHash = ''t'', or_logIndex = 0,
     or_marketId = ''m'', or_outcome = 1, or_shareToken = ''yes'', or_orderType = ''buy'',
     or_orderCreator = ''alice'', or_orderState = OPEN, or_price = 4 / 10, or_amount = 2,
     or_originalAmount = 2, or_fullPrecisionPrice = 4 / 10, or_fullPrecisionAmount = 2,
     or_originalFullPrecisionAmount = 2, or_originalTokensEscrowed = 8 / 10,
     or_originalSharesEscrowed = 0, or_tokensEscrowed = 8 / 10, or_sharesEscrowed = 0,
     or_tradeGroupId = None, or_orphaned = False\<rparr>"

definition quoted_outcome :: outcomes_row where
  "quoted_outcome = \<lparr>oc_marketId = ''m'', oc_outcome = 1, oc_price = 1 / 2, oc_volume = 0,
     oc_shareVolume = 0, oc_description = None, oc_spreadPercent = 1, oc_invalidROIPercent = 0,
     oc_bestBidTakerInvalidProfitTokens = 0, oc_bestAskTakerInvalidProfitTokens = 0\<rparr>"

definition book_side :: pending_orphan_row where
  "book_side = \<lparr>pc_marketId = ''m'', pc_outcome = 1, pc_orderType = ''buy''\<rparr>"

definition book_world :: world where
  "book_world = empty_world\<lparr>tables := empty_db\<lparr>t_markets := [sample_market],
     t_outcomes := [quoted_outcome], t_orders := [sample_order],
     t_pending_orphan_checks := [book_side], t_pending_liquidity_updates := [''m'']\<rparr>\<rparr>"

lemma book_world_sel:
  "t_markets (tables book_world) = [sample_market]" "t_outcomes (tables book_world) = [quoted_outcome]"
  "t_orders (tables book_world) = [sample_order]"
  "t_pending_orphan_checks (tables book_world) = [book_side]"
  "t_pending_liquidity_updates (tables book_world) = [''m'']"
  by (simp_all add: book_world_def)

lemma book_world_valid:
  "outcomes.valid_table book_world" "markets.valid_table book_world" "orders.valid_table book_world"
  by (simp_all add: outcomes.valid_table_def markets.valid_table_def orders.valid_table_def
      book_world_sel table_constraints) (simp_all add: sample_market_def quoted_outcome_def sample_order_def)

lemma book_world_open: "openOrders book_world ''m'' = [sample_order]"
  by (simp add: openOrders_def book_world_sel) (simp add: sample_order_def)

lemma sample_market_book:
  "mk_marketId sample_market = ''m''" "mk_minPrice sample_market = 0" "mk_maxPrice sample_market = 1"
  "mk_numOutcomes sample_market = 2" "mk_reportingFeeRate sample_market = 1 / 100"
  "mk_marketCreatorFeeRate sample_market = 1 / 100" "tradedOutcomes sample_market = [1]"
  by (simp_all add: sample_market_def tradedOutcomes_def)

lemma sample_levels:
  "bidLevels sample_env [sample_order] 1 = [(4 / 10, 2)]" "askLevels sample_env [sample_order] 1 = []"
  by (simp_all add: bidLevels_def askLevels_def levels_def sortedSide_def sample_order_def)

lemma sample_env_sel:
  "en_dv sample_env = bn_div" "en_fuel sample_env = 100010" "en_toNumber sample_env = (\<lambda>x. x)"
  by (simp_all add: sample_env_def)

lemma book_world_ready: "ready sample_env book_world ''m''"
proof -
  have "decimals 20 (2 / 100 :: bn)" by (simp add: decimals_def)
  then have dv: "bn_div (2 / 100) 1 = 2 / 100" using bn.dv_by_one [of "2 / 100"] by simp
  have e: "bn_div (2 / 100) (1 - 0) * 100000000 = (2000000 :: bn)" unfolding diff_zero dv by simp
  have "\<lceil>1 / 1000000 :: bn\<rceil> = 1" by (rule ceiling_unique; simp)
  then have fuel: "MAX_ITERATIONS + book_rounds (bn_div (2 / 100) (1 - 0) * 100000000)
      ([(4 / 10, 2)], []) < 100010"
    unfolding e by (simp add: MAX_ITERATIONS_def book_rounds_def side_rounds_def)
  have "0 \<le> or_price sample_order" "or_price sample_order \<le> 1" "0 \<le> or_amount sample_order"
    by (simp_all add: sample_order_def)
  with fuel show ?thesis
    by (simp add: ready_def book_world_sel metrics_ok_def book_world_open sample_market_book
        sample_levels sample_env_sel)
qed

theorem liquidity_metrics_refreshed_witness:
  "\<exists>w'. updateLiquidityMetricsForMarketAndOutcomes sample_env ''m'' book_world = (Inr (), w') \<and>
    fresh w' ''m''"
  using liquidity_metrics_refreshed [OF _ book_world_ready book_world_valid(1,2)]
    bn.bn_division_axioms by (auto simp: sample_env_sel)

theorem pending_liquidity_drained_witness:
  "\<exists>w'. checkMarketLiquidityUpdates sample_env book_world = (Inr (), w') \<and>
    t_pending_liquidity_updates (tables w') = [] \<and> fresh w' ''m''"
  using pending_liquidity_drained [of sample_env book_world] book_world_ready book_world_valid(1,2)
    bn.bn_division_axioms by (auto simp: sample_env_sel book_world_sel)

text \<open>A market that is not in the database cannot be refreshed.\<close>

theorem failed_refresh_stays_pending_witness:
  "\<exists>w'. checkMarketLiquidityUpdates sample_env
      (tput pending_liquidity_updates [''nowhere''] book_world) =
        (Inl (Thrown ''expected to find marketId''), w') \<and>
    t_pending_liquidity_updates (tables w') = [''nowhere'']"
proof -
  let ?w = "tput pending_liquidity_updates [''nowhere''] book_world"
  have "\<exists>w'. checkMarketLiquidityUpdates sample_env ?w = (Inl (Thrown ''expected to find marketId''), w')"
    by (simp add: checkMarketLiquidityUpdates_def table_simps refreshPending_def transaction_def
        updateLiquidityMetricsForMarketAndOutcomes_def getMarketOrderBooks_def bindA_assoc act_simps
        book_world_sel sample_market_book)
  then obtain w' where err: "checkMarketLiquidityUpdates sample_env ?w =
      (Inl (Thrown ''expected to find marketId''), w')" ..
  have "distinct (t_pending_liquidity_updates (tables ?w))" by simp
  from failed_refresh_stays_pending [OF err this] obtain finished i rest where
    "[''nowhere''] = finished @ i # rest" "t_pending_liquidity_updates (tables w') = i # rest" by auto
  then have "t_pending_liquidity_updates (tables w') = [''nowhere'']"
    by (cases finished) auto
  with err show ?thesis by blast
qed

theorem orphan_checks_settle_witness:
  "\<exists>w'. checkOrphanedOrders (sample_env\<lparr>getExistingOrders := (\<lambda>_ _ _ _. Inr [''other''])\<rparr>) book_world =
      (Inr (), w') \<and> t_pending_orphan_checks (tables w') = [] \<and>
    map or_orphaned (t_orders (tables w')) = [True]"
proof -
  let ?env = "sample_env\<lparr>getExistingOrders := (\<lambda>_ _ _ _. Inr [''other''])\<rparr>"
  have "onSide book_side sample_order" "or_orderId sample_order \<noteq> ''other''"
    "or_orderState sample_order = OPEN" "\<not> or_orphaned sample_order"
    by (simp_all add: onSide_def book_side_def sample_order_def)
  then have "listed ?env book_world book_side = [''other'']"
    "or_orphaned (settled (listed ?env book_world) [book_side] sample_order)"
    by (simp_all add: listed_def catchEmpty_def getOrphanedOrderIds_def table_simps act_simps
        book_world_sel settled_def unlisted_def)
  then show ?thesis
    using orphan_checks_settle [of book_world ?env] book_world_valid(3)
    by (auto simp: book_world_sel)
qed

end
