(* ===== verification/Orders.thy ===== *)
theory Orders
  imports Market_Liquidity Volumetrics Profit_Loss
begin

text \<open>
  The life of an order and the trades, complete sets and claims of an account:
  \<open>src/blockchain/log-processors/order-created.ts\<close>, \<open>order-canceled.ts\<close>, \<open>order-filled/index.ts\<close>,
  \<open>order-filled/update-order.ts\<close>, \<open>completesets.ts\<close> and \<open>trading-proceeds-claimed.ts\<close>.

  Rows are written with decimal strings in the source (\<open>formatBigNumberAsFixed\<close>), numbers here. A share
  token has a market and an outcome; one without them fails at its lookup here, and in the source at
  the row that would be written with \<open>NULL\<close>.
\<close>

section \<open>Operations\<close>

text \<open>The market and outcome of a share token.\<close>

definition shareTokenMarket :: "address \<Rightarrow> (markets_row \<times> int) action" where
  "shareTokenMarket shareToken =
     bindA (bindA (first tokens (\<lambda>t. tk_contractAddress t = shareToken))
              (orThrow (Thrown ''market and outcome not found for shareToken''))) (\<lambda>tokensRow.
     bindA (orThrow (Thrown ''market not found'') (tk_marketId tokensRow)) (\<lambda>marketId.
     bindA (orThrow (Thrown ''outcome is null'') (tk_outcome tokensRow)) (\<lambda>outcome.
     bindA (bindA (first markets (\<lambda>m. mk_marketId m = marketId))
              (orThrow (Thrown ''market not found''))) (\<lambda>marketsRow.
     return (marketsRow, outcome)))))"

definition tickSizeOf :: "env \<Rightarrow> markets_row \<Rightarrow> bn" where
  "tickSizeOf env m = numTicksToTickSize (en_dv env) (mk_numTicks m) (mk_minPrice m) (mk_maxPrice m)"

definition orderTypeLabel :: "event_log \<Rightarrow> string" where
  "orderTypeLabel l = (if lo_orderType l = ''0'' then ''buy'' else ''sell'')"

definition orderData :: "env \<Rightarrow> event_log \<Rightarrow> markets_row \<Rightarrow> int \<Rightarrow> bn \<Rightarrow> orders_row result" where
  "orderData env l m outcome amount =
     (let tickSize = tickSizeOf env m;
          fullPrecisionAmount = convertOnChainAmountToDisplayAmount env amount tickSize;
          fullPrecisionPrice = convertOnChainPriceToDisplayPrice env (lo_price l) (mk_minPrice m) tickSize;
          displaySharesEscrowed = convertOnChainAmountToDisplayAmount env (lo_sharesEscrowed l) tickSize;
          displayTokensEscrowed = fixedPointToDecimal (en_dv env) (lo_moneyEscrowed l) BN_WEI_PER_ETHER
      in bindE (formatOrderPrice (en_toPrecision env) (en_dv env) (orderTypeLabel l) (mk_minPrice m)
           (mk_maxPrice m) fullPrecisionPrice) (\<lambda>price.
         Inr \<lparr>or_orderId = lo_orderId l, or_blockNumber = lg_blockNumber l,
           or_transactionHash = lg_transactionHash l, or_logIndex = lg_logIndex l,
           or_marketId = mk_marketId m, or_outcome = outcome, or_shareToken = lo_shareToken l,
           or_orderType = orderTypeLabel l, or_orderCreator = lo_creator l, or_orderState = OPEN,
           or_price = price,
           or_amount = formatOrderAmount (en_toPrecision env) (en_dv env) fullPrecisionAmount,
           or_originalAmount = formatOrderAmount (en_toPrecision env) (en_dv env) fullPrecisionAmount,
           or_fullPrecisionPrice = fullPrecisionPrice, or_fullPrecisionAmount = fullPrecisionAmount,
           or_originalFullPrecisionAmount = fullPrecisionAmount,
           or_originalTokensEscrowed = displayTokensEscrowed,
           or_originalSharesEscrowed = displaySharesEscrowed,
           or_tokensEscrowed = displayTokensEscrowed, or_sharesEscrowed = displaySharesEscrowed,
           or_tradeGroupId = lo_tradeGroupId l, or_orphaned = False\<rparr>))"

text \<open>The fields an event adds to its log.\<close>

definition orderFields :: "orders_row \<Rightarrow> (string \<times> js_value) list" where
  "orderFields r =
     [(''marketId'', VS (or_marketId r)), (''outcome'', VI (or_outcome r)),
      (''shareToken'', VS (or_shareToken r)), (''orderCreator'', VS (or_orderCreator r)),
      (''orderState'', VS ''OPEN''), (''orderType'', VS (or_orderType r)), (''price'', VN (or_price r)),
      (''amount'', VN (or_amount r)), (''originalAmount'', VN (or_originalAmount r)),
      (''fullPrecisionPrice'', VN (or_fullPrecisionPrice r)),
      (''fullPrecisionAmount'', VN (or_fullPrecisionAmount r)),
      (''originalFullPrecisionAmount'', VN (or_originalFullPrecisionAmount r)),
      (''originalTokensEscrowed'', VN (or_originalTokensEscrowed r)),
      (''originalSharesEscrowed'', VN (or_originalSharesEscrowed r)),
      (''tokensEscrowed'', VN (or_tokensEscrowed r)), (''sharesEscrowed'', VN (or_sharesEscrowed r))]"

text \<open>A market waits for a liquidity refresh at most once.\<close>

definition pendLiquidityUpdate :: "address \<Rightarrow> unit action" where
  "pendLiquidityUpdate marketId =
     bindA (countRows pending_liquidity_updates (\<lambda>r. r = marketId)) (\<lambda>count.
     whenA (count = 0) (insertInto pending_liquidity_updates marketId))"

definition marketPendingOrderbookUpdates :: "orders_row \<Rightarrow> unit action" where
  "marketPendingOrderbookUpdates r =
     (let pendingOrderData = \<lparr>pc_marketId = or_marketId r, pc_outcome = or_outcome r,
        pc_orderType = or_orderType r\<rparr> in
      bindA (countRows pending_orphan_checks (\<lambda>p. p = pendingOrderData)) (\<lambda>count.
      thenA (whenA (count = 0) (insertInto pending_orphan_checks pendingOrderData))
            (pendLiquidityUpdate (or_marketId r))))"

definition upsertOrder :: "orders_row \<Rightarrow> unit action" where
  "upsertOrder d =
     bindA (select orders (\<lambda>r. or_orderId r = or_orderId d)) (\<lambda>ordersRows.
     if ordersRows = [] then insertInto orders d
     else update orders (\<lambda>r. or_orderId r = or_orderId d) (\<lambda>r. d\<lparr>or_orphaned := or_orphaned r\<rparr>))"

definition processOrderCreatedLog :: "env \<Rightarrow> event_log \<Rightarrow> unit action" where
  "processOrderCreatedLog env l =
     bindA (shareTokenMarket (lo_shareToken l)) (\<lambda>(m, outcome).
     bindA (orThrow (JsTypeError ''NaN'') (lo_amount l)) (\<lambda>amount.
     bindA (liftR (orderData env l m outcome amount)) (\<lambda>d.
     thenA (upsertOrder d)
    (thenA (marketPendingOrderbookUpdates d)
           (emit ''OrderCreated'' (Some l) (orderFields d))))))"

definition processOrderCreatedLogRemoval :: "env \<Rightarrow> event_log \<Rightarrow> unit action" where
  "processOrderCreatedLogRemoval env l =
     bindA (bindA (first orders (\<lambda>r. or_orderId r = lo_orderId l))
              (orThrow (Thrown ''expected to find order''))) (\<lambda>r.
     thenA (delete orders (\<lambda>r. or_orderId r = lo_orderId l))
    (thenA (updateLiquidityMetricsForMarketAndOutcomes env (or_marketId r))
           (emit ''OrderCreated'' (Some l) [])))"

definition processOrderCanceledLog :: "event_log \<Rightarrow> unit action" where
  "processOrderCanceledLog l =
     thenA (update orders (\<lambda>r. or_orderId r = lo_orderId l) (\<lambda>r. r\<lparr>or_orderState := CANCELED\<rparr>))
    (thenA (insertInto orders_canceled \<lparr>xo_orderId = lo_orderId l,
              xo_transactionHash = lg_transactionHash l, xo_logIndex = lg_logIndex l,
              xo_blockNumber = lg_blockNumber l\<rparr>)
    (bindA (bindA (first orders (\<lambda>r. or_orderId r = lo_orderId l))
              (orThrow (Thrown ''expected to find order''))) (\<lambda>r.
     thenA (pendLiquidityUpdate (or_marketId r))
           (emit ''OrderCanceled'' (Some l)
             [(''marketId'', VS (or_marketId r)), (''outcome'', VI (or_outcome r)),
              (''price'', VN (or_price r)), (''sharesEscrowed'', VN (or_sharesEscrowed r)),
              (''orderCreator'', VS (or_orderCreator r)), (''orderType'', VS (orderTypeLabel l))]))))"

definition processOrderCanceledLogRemoval :: "env \<Rightarrow> event_log \<Rightarrow> unit action" where
  "processOrderCanceledLogRemoval env l =
     thenA (update orders (\<lambda>r. or_orderId r = lo_orderId l) (\<lambda>r. r\<lparr>or_orderState := OPEN\<rparr>))
    (thenA (delete orders_canceled (\<lambda>x. xo_orderId x = lo_orderId l))
    (bindA (bindA (first orders (\<lambda>r. or_orderId r = lo_orderId l))
              (orThrow (Thrown ''expected to find order''))) (\<lambda>r.
     thenA (updateLiquidityMetricsForMarketAndOutcomes env (or_marketId r))
           (emit ''OrderCanceled'' (Some l)
             [(''marketId'', VS (or_marketId r)), (''outcome'', VI (or_outcome r)),
              (''price'', VN (or_price r)), (''orderType'', VS (orderTypeLabel l))]))))"

definition updateOrder :: "env \<Rightarrow> address \<Rightarrow> bytes32 \<Rightarrow> bn \<Rightarrow> bn \<Rightarrow> bn \<Rightarrow> bn \<Rightarrow> unit action" where
  "updateOrder env marketId orderId amount price numCreatorShares numCreatorTokens =
     bindA (bindA (first orders (\<lambda>r. or_orderId r = orderId))
              (orThrow (Thrown ''Could not fetch order amount''))) (\<lambda>orderRow.
     let fullPrecisionAmountRemainingInOrder = or_fullPrecisionAmount orderRow - amount;
         amountRemainingInOrder = formatOrderAmount (en_toPrecision env) (en_dv env)
           fullPrecisionAmountRemainingInOrder;
         numSharesEscrowedRemainingInOrder = or_sharesEscrowed orderRow - numCreatorShares;
         numTokensEscrowedRemainingInOrder = or_tokensEscrowed orderRow - numCreatorTokens;
         orderState = (if fullPrecisionAmountRemainingInOrder = 0 then FILLED else OPEN) in
     thenA (update outcomes (\<lambda>u. oc_marketId u = marketId \<and> oc_outcome u = or_outcome orderRow)
              (\<lambda>u. u\<lparr>oc_price := price\<rparr>))
           (update orders (\<lambda>r. or_orderId r = orderId)
              (\<lambda>r. r\<lparr>or_orderState := orderState,
                     or_fullPrecisionAmount := fullPrecisionAmountRemainingInOrder,
                     or_amount := amountRemainingInOrder,
                     or_sharesEscrowed := numSharesEscrowedRemainingInOrder,
                     or_tokensEscrowed := numTokensEscrowedRemainingInOrder\<rparr>)))"

definition tradeOf :: "env \<Rightarrow> event_log \<Rightarrow> markets_row \<Rightarrow> int \<Rightarrow> orders_row \<Rightarrow> trades_row" where
  "tradeOf env l m outcome r =
     (let tickSize = tickSizeOf env m;
          shares = (\<lambda>x. convertOnChainAmountToDisplayAmount env x tickSize);
          tokens = (\<lambda>x. fixedPointToDecimal (en_dv env) x BN_WEI_PER_ETHER) in
      \<lparr>td_transactionHash = lg_transactionHash l, td_logIndex = lg_logIndex l,
       td_blockNumber = lg_blockNumber l, td_orderId = lo_orderId l, td_marketId = mk_marketId m,
       td_outcome = outcome, td_shareToken = lo_shareToken l, td_orderType = or_orderType r,
       td_creator = or_orderCreator r, td_filler = lo_filler l,
       td_numCreatorTokens = tokens (lo_numCreatorTokens l),
       td_numCreatorShares = shares (lo_numCreatorShares l),
       td_numFillerTokens = tokens (lo_numFillerTokens l),
       td_numFillerShares = shares (lo_numFillerShares l), td_price = or_fullPrecisionPrice r,
       td_amount = shares (lo_amountFilled l), td_marketCreatorFees = tokens (lo_marketCreatorFees l),
       td_reporterFees = tokens (lo_reporterFees l), td_tradeGroupId = lo_tradeGroupId l\<rparr>)"

definition tradeFields :: "trades_row \<Rightarrow> (string \<times> js_value) list" where
  "tradeFields t =
     [(''marketId'', VS (td_marketId t)), (''outcome'', VI (td_outcome t)),
      (''creator'', VS (td_creator t)), (''orderType'', VS (td_orderType t)),
      (''numCreatorTokens'', VN (td_numCreatorTokens t)), (''numCreatorShares'', VN (td_numCreatorShares t)),
      (''numFillerTokens'', VN (td_numFillerTokens t)), (''numFillerShares'', VN (td_numFillerShares t)),
      (''price'', VN (td_price t)), (''amount'', VN (td_amount t)),
      (''marketCreatorFees'', VN (td_marketCreatorFees t)), (''reporterFees'', VN (td_reporterFees t))]"

definition processOrderFilledLog :: "env \<Rightarrow> event_log \<Rightarrow> unit action" where
  "processOrderFilledLog env l =
     bindA (shareTokenMarket (lo_shareToken l)) (\<lambda>(m, outcome).
     bindA (bindA (first orders (\<lambda>r. or_orderId r = lo_orderId l))
              (orThrow (Thrown ''order not found''))) (\<lambda>r.
     let t = tradeOf env l m outcome r; finalized = mk_finalizationBlockNumber m \<noteq> None in
     thenA (emit ''OrderFilled'' (Some l) (tradeFields t))
    (thenA (insertInto trades t)
    (thenA (updateVolumetrics env (mk_marketId m) outcome (lg_blockNumber l) (lo_orderId l)
              (tickSizeOf env m) True)
    (thenA (updateOrder env (mk_marketId m) (lo_orderId l) (td_amount t) (td_price t)
              (td_numCreatorShares t) (td_numCreatorTokens t))
    (thenA (whenA (\<not> finalized)
              (updateOutcomeValueFromOrders (mk_marketId m) outcome (lg_transactionHash l)
                 (lg_blockNumber l) (lg_logIndex l) (td_price t)))
    (thenA (updateProfitLoss (en_dv env) (mk_marketId m)
              (if td_orderType t = ''buy'' then td_amount t else - td_amount t) (td_creator t) outcome
              (td_price t) (lg_transactionHash l) (lg_blockNumber l) (lg_logIndex l) (Some t))
    (thenA (updateProfitLoss (en_dv env) (mk_marketId m)
              (if td_orderType t = ''sell'' then td_amount t else - td_amount t) (td_filler t) outcome
              (td_price t) (lg_transactionHash l) (lg_blockNumber l) (lg_logIndex l) (Some t))
           (pendLiquidityUpdate (mk_marketId m))))))))))"

definition processOrderFilledLogRemoval :: "env \<Rightarrow> event_log \<Rightarrow> unit action" where
  "processOrderFilledLogRemoval env l =
     bindA (shareTokenMarket (lo_shareToken l)) (\<lambda>(m, outcome).
     bindA (bindA (first orders (\<lambda>r. or_orderId r = lo_orderId l))
              (orThrow (Thrown ''order not found''))) (\<lambda>r.
     let t = tradeOf env l m outcome r in
     thenA (updateVolumetrics env (mk_marketId m) outcome (lg_blockNumber l) (lo_orderId l)
              (tickSizeOf env m) False)
    (thenA (delete trades (\<lambda>t. td_marketId t = mk_marketId m \<and> td_outcome t = outcome \<and>
              td_orderId t = lo_orderId l \<and> td_blockNumber t = lg_blockNumber l))
    (thenA (updateOrder env (mk_marketId m) (lo_orderId l) (- td_amount t) (td_price t)
              (- td_numCreatorShares t) (- td_numCreatorTokens t))
    (thenA (emit ''OrderFilled'' (Some l) (tradeFields t))
    (thenA (removeOutcomeValue (lg_transactionHash l))
    (thenA (updateProfitLossRemoveRow (lg_transactionHash l))
           (updateLiquidityMetricsForMarketAndOutcomes env (mk_marketId m)))))))))"

definition completeSetPurchasedData :: "env \<Rightarrow> event_log \<Rightarrow> markets_row \<Rightarrow> complete_sets_row" where
  "completeSetPurchasedData env l m =
     (let numCompleteSets = convertOnChainAmountToDisplayAmount env (lo_numCompleteSets l) (tickSizeOf env m) in
      \<lparr>cp_transactionHash = lg_transactionHash l, cp_logIndex = lg_logIndex l,
       cp_account = lo_account l, cp_marketId = lo_market l, cp_eventName = lg_eventName l,
       cp_universe = lo_universe l, cp_numCompleteSets = numCompleteSets,
       cp_numPurchasedOrSold = numCompleteSets, cp_blockNumber = lg_blockNumber l\<rparr>)"

definition processCompleteSetsPurchasedOrSoldLog :: "env \<Rightarrow> event_log \<Rightarrow> unit action" where
  "processCompleteSetsPurchasedOrSoldLog env l =
     bindA (bindA (first markets (\<lambda>m. mk_marketId m = lo_market l))
              (orThrow (Thrown ''market not found''))) (\<lambda>m.
     let d = completeSetPurchasedData env l m in
     thenA (insertInto completeSets d)
    (thenA (emit (lg_eventName l) (None :: event_log option)
       [(''marketId'', VS (cp_marketId d)), (''account'', VS (cp_account d)),
        (''blockNumber'', VI (cp_blockNumber d)), (''universe'', VS (cp_universe d)),
        (''eventName'', VS (cp_eventName d)), (''transactionHash'', VS (cp_transactionHash d)),
        (''logIndex'', VI (cp_logIndex d)), (''numCompleteSets'', VN (cp_numCompleteSets d)),
        (''numPurchasedOrSold'', VN (cp_numPurchasedOrSold d))])
       (updateMarketOpenInterest env (lo_market l))))"

definition processCompleteSetsPurchasedOrSoldLogRemoval :: "env \<Rightarrow> event_log \<Rightarrow> unit action" where
  "processCompleteSetsPurchasedOrSoldLogRemoval env l =
     thenA (delete completeSets (\<lambda>r. cp_transactionHash r = lg_transactionHash l \<and>
              cp_logIndex r = lg_logIndex l))
    (thenA (emit (lg_eventName l) (Some l) [])
       (updateMarketOpenInterest env (lo_market l)))"

definition tradingProceedsToInsert :: "event_log \<Rightarrow> trading_proceeds_row" where
  "tradingProceedsToInsert l =
     \<lparr>tp_marketId = lo_market l, tp_account = lo_sender l, tp_shareToken = lo_shareToken l,
      tp_numShares = lo_numShares l, tp_numPayoutTokens = lo_numPayoutTokens l,
      tp_blockNumber = lg_blockNumber l, tp_transactionHash = lg_transactionHash l,
      tp_logIndex = lg_logIndex l\<rparr>"

text \<open>The profit and loss rows get the index of the transaction as their log index.\<close>

definition processTradingProceedsClaimedLog :: "env \<Rightarrow> event_log \<Rightarrow> unit action" where
  "processTradingProceedsClaimedLog env l =
     thenA (insertInto trading_proceeds (tradingProceedsToInsert l))
    (thenA (updateProfitLossClaimProceeds (en_dv env) (lo_market l) (lo_sender l)
              (lg_transactionHash l) (lg_blockNumber l) (lg_transactionIndex l))
           (emit ''TradingProceedsClaimed'' (Some l) []))"

definition processTradingProceedsClaimedLogRemoval :: "event_log \<Rightarrow> unit action" where
  "processTradingProceedsClaimedLogRemoval l =
     thenA (delete trading_proceeds (\<lambda>r. tp_transactionHash r = lg_transactionHash l \<and>
              tp_logIndex r = lg_logIndex l))
    (thenA (delete wcl_profit_loss_timeseries (\<lambda>r. pl_transactionHash r = lg_transactionHash l))
    (thenA (updateProfitLossRemoveRow (lg_transactionHash l))
           (emit ''TradingProceedsClaimed'' (Some l) [])))"

section \<open>What the operations leave alone\<close>

definition order_ledger :: "world \<Rightarrow> orders_row list \<times> trades_row list" where
  "order_ledger w = (t_orders (tables w), t_trades (tables w))"

lemma ledger_writes [frames]:
  "unchanged order_ledger (update categories P c)" "unchanged order_ledger (update markets Q g)"
  "unchanged order_ledger (update outcomes R h)" "unchanged order_ledger (insertInto wcl_profit_loss_timeseries x)"
  "unchanged order_ledger (insertInto outcome_value_timeseries y)"
  "unchanged order_ledger (delete wcl_profit_loss_timeseries S)"
  "unchanged order_ledger (delete outcome_value_timeseries T)"
  "unchanged order_ledger (insertInto pending_liquidity_updates i)"
  "unchanged order_ledger (insertInto pending_orphan_checks z)"
  "unchanged order_ledger (delete outcomes_liquidity U)"
  "unchanged order_ledger (batchInsert outcomes_liquidity rs)"
  "unchanged order_ledger (insertInto orders_canceled q)" "unchanged order_ledger (delete orders_canceled V)"
  "unchanged order_ledger (emit n lg data)"
  by (rule unchanged_write unchanged_emit; simp add: order_ledger_def)+

lemma updateMarketOpenInterest_frame [frames]: "unchanged order_ledger (updateMarketOpenInterest env i)"
  unfolding updateMarketOpenInterest_def updateCategoryAggregationsOnMarketOpenInterestChanged_def
    firstSupply_def Let_def
  by (intro frames)

lemma updateVolumetrics_frame [frames]:
  "unchanged order_ledger (updateVolumetrics env i u n k s b)"
  unfolding updateVolumetrics_def incrementMarketVolume_def incrementOutcomeVolume_def
    setMarketLastTrade_def firstSupply_def Let_def
  by (intro frames)

lemma updateProfitLoss_frame [frames]: "unchanged order_ledger (updateProfitLoss dv i d a u x h n k td)"
  unfolding updateProfitLoss_def latestProfitLoss_def Let_def
  by (intro frames)

lemma outcomeValue_frame [frames]:
  "unchanged order_ledger (updateOutcomeValueFromOrders i u h n k x)"
  "unchanged order_ledger (removeOutcomeValue h)" "unchanged order_ledger (updateProfitLossRemoveRow h)"
  unfolding updateOutcomeValueFromOrders_def removeOutcomeValue_def updateProfitLossRemoveRow_def
  by (intro frames)+

lemma pending_frame [frames]:
  "unchanged order_ledger (pendLiquidityUpdate i)" "unchanged order_ledger (marketPendingOrderbookUpdates r)"
  unfolding pendLiquidityUpdate_def marketPendingOrderbookUpdates_def Let_def
  by (intro frames)+

lemma liquidity_frame [frames]:
  "unchanged order_ledger (updateLiquidityMetricsForMarketAndOutcomes env i)"
  unfolding updateLiquidityMetricsForMarketAndOutcomes_def getMarketOrderBooks_def
    updateOutcomeMetrics_def updateOutcomesLiquidity_def Let_def
  by (intro frames)

section \<open>Effect on orders and trades\<close>

text \<open>An order after \<open>amount\<close> of it was filled with shares and tokens of its creator.\<close>

definition filledBy :: "env \<Rightarrow> bn \<Rightarrow> bn \<Rightarrow> bn \<Rightarrow> orders_row \<Rightarrow> orders_row" where
  "filledBy env amount numCreatorShares numCreatorTokens r =
     (let left = or_fullPrecisionAmount r - amount in
      r\<lparr>or_orderState := (if left = 0 then FILLED else OPEN), or_fullPrecisionAmount := left,
        or_amount := formatOrderAmount (en_toPrecision env) (en_dv env) left,
        or_sharesEscrowed := or_sharesEscrowed r - numCreatorShares,
        or_tokensEscrowed := or_tokensEscrowed r - numCreatorTokens\<rparr>)"

definition onOrder :: "bytes32 \<Rightarrow> (orders_row \<Rightarrow> orders_row) \<Rightarrow> orders_row list \<Rightarrow> orders_row list" where
  "onOrder i f rs = map (\<lambda>r. if or_orderId r = i then f r else r) rs"

lemma order_unique:
  assumes "orders.valid_table w" "find (\<lambda>r. or_orderId r = i) (t_orders (tables w)) = Some r"
    "x \<in> set (t_orders (tables w))" "or_orderId x = i"
  shows "x = r"
proof -
  have "sorted_wrt (\<lambda>x y. or_orderId x \<noteq> or_orderId y) (t_orders (tables w))"
    using assms(1) by (simp add: orders.valid_table_def table_constraints)
  then show ?thesis using assms(2-4) by (rule find_unique)
qed

lemma update_orders_ledger:
  "update orders (\<lambda>r. or_orderId r = i) f w = (Inr (), w') \<Longrightarrow>
    order_ledger w' = (onOrder i f (t_orders (tables w)), t_trades (tables w))"
  by (simp add: update_eq_Inr order_ledger_def onOrder_def)

lemma onOrder_ids:
  "(\<And>r. or_orderId (f r) = or_orderId r) \<Longrightarrow> map or_orderId (onOrder i f rs) = map or_orderId rs"
  by (simp add: onOrder_def)

lemma onOrder_cong:
  "(\<And>r. r \<in> set rs \<Longrightarrow> or_orderId r = i \<Longrightarrow> f r = g r) \<Longrightarrow> onOrder i f rs = onOrder i g rs"
  by (simp add: onOrder_def)

lemma updateOrder_effect:
  assumes "updateOrder env m i a p sh tk w = (Inr (), w')" "orders.valid_table w"
  shows "order_ledger w' = (onOrder i (filledBy env a sh tk) (t_orders (tables w)), t_trades (tables w))"
    "orders.valid_table w'" "\<exists>r. find (\<lambda>r. or_orderId r = i) (t_orders (tables w)) = Some r"
proof -
  from assms(1) obtain r where r: "find (\<lambda>r. or_orderId r = i) (t_orders (tables w)) = Some r"
    by (auto simp: updateOrder_def bindA_assoc bindA_eq_Inr orThrow_eq_Inr first_eq_Inr)
  let ?f = "\<lambda>x. x\<lparr>or_orderState := (if or_fullPrecisionAmount r - a = 0 then FILLED else OPEN),
     or_fullPrecisionAmount := or_fullPrecisionAmount r - a,
     or_amount := formatOrderAmount (en_toPrecision env) (en_dv env) (or_fullPrecisionAmount r - a),
     or_sharesEscrowed := or_sharesEscrowed r - sh, or_tokensEscrowed := or_tokensEscrowed r - tk\<rparr>"
  from assms(1) r obtain w1 where 1: "update outcomes (\<lambda>u. oc_marketId u = m \<and> oc_outcome u = or_outcome r)
      (\<lambda>u. u\<lparr>oc_price := p\<rparr>) w = (Inr (), w1)"
    and 2: "update orders (\<lambda>x. or_orderId x = i) ?f w1 = (Inr (), w')"
    by (auto simp: updateOrder_def bindA_assoc bindA_eq_Inr thenA_eq_Inr orThrow_eq_Inr first_eq_Inr Let_def)
  have w1: "order_ledger w1 = order_ledger w" by (rule unchangedD [OF ledger_writes(3) 1])
  then have valid: "orders.valid_table w1"
    using assms(2) by (simp add: orders.valid_table_def order_ledger_def)
  have "onOrder i ?f (t_orders (tables w)) = onOrder i (filledBy env a sh tk) (t_orders (tables w))"
    by (rule onOrder_cong, drule (1) order_unique [OF assms(2) r]) (simp only: filledBy_def Let_def)
  then show "order_ledger w' = (onOrder i (filledBy env a sh tk) (t_orders (tables w)), t_trades (tables w))"
    using update_orders_ledger [OF 2] w1 by (simp only: order_ledger_def prod.inject)
  show "orders.valid_table w'"
    by (rule orders.update_valid [OF valid 2]) (simp_all add: table_constraints)
  show "\<exists>r. find (\<lambda>r. or_orderId r = i) (t_orders (tables w)) = Some r" using r by blast
qed

lemma shareTokenMarket_pure: "shareTokenMarket st w = (Inr x, w') \<Longrightarrow> w' = w"
  by (auto simp: shareTokenMarket_def bindA_assoc act_run table_run)

text \<open>Filling: one trade is appended and the order is filled by it.\<close>

lemma filled_effect:
  assumes "processOrderFilledLog env l w = (Inr (), w')" "orders.valid_table w"
  shows "\<exists>m u r. shareTokenMarket (lo_shareToken l) w = (Inr (m, u), w) \<and>
    find (\<lambda>r. or_orderId r = lo_orderId l) (t_orders (tables w)) = Some r \<and>
    t_trades (tables w') = t_trades (tables w) @ [tradeOf env l m u r] \<and>
    t_orders (tables w') = onOrder (lo_orderId l) (filledBy env (td_amount (tradeOf env l m u r))
      (td_numCreatorShares (tradeOf env l m u r)) (td_numCreatorTokens (tradeOf env l m u r)))
      (t_orders (tables w)) \<and> orders.valid_table w'"
proof -
  from assms(1) obtain m u r where
    m: "shareTokenMarket (lo_shareToken l) w = (Inr (m, u), w)"
    and r: "find (\<lambda>r. or_orderId r = lo_orderId l) (t_orders (tables w)) = Some r"
    by (auto simp: processOrderFilledLog_def bindA_eq_Inr orThrow_eq_Inr first_eq_Inr dest: shareTokenMarket_pure)
  let ?t = "tradeOf env l m u r"
  let ?b = "if td_orderType ?t = ''buy'' then td_amount ?t else - td_amount ?t"
    and ?s = "if td_orderType ?t = ''sell'' then td_amount ?t else - td_amount ?t"
  define rest where "rest = thenA (whenA (mk_finalizationBlockNumber m = None)
        (updateOutcomeValueFromOrders (mk_marketId m) u (lg_transactionHash l)
           (lg_blockNumber l) (lg_logIndex l) (td_price ?t)))
      (thenA (updateProfitLoss (en_dv env) (mk_marketId m) ?b (td_creator ?t) u (td_price ?t)
         (lg_transactionHash l) (lg_blockNumber l) (lg_logIndex l) (Some ?t))
      (thenA (updateProfitLoss (en_dv env) (mk_marketId m) ?s (td_filler ?t) u (td_price ?t)
         (lg_transactionHash l) (lg_blockNumber l) (lg_logIndex l) (Some ?t))
         (pendLiquidityUpdate (mk_marketId m))))"
  have frame: "unchanged order_ledger rest" unfolding rest_def by (intro frames)
  have "processOrderFilledLog env l w = thenA (emit ''OrderFilled'' (Some l) (tradeFields ?t))
      (thenA (insertInto trades ?t) (thenA (updateVolumetrics env (mk_marketId m) u (lg_blockNumber l)
        (lo_orderId l) (tickSizeOf env m) True) (thenA (updateOrder env (mk_marketId m) (lo_orderId l)
        (td_amount ?t) (td_price ?t) (td_numCreatorShares ?t) (td_numCreatorTokens ?t)) rest))) w"
    using m r
    by (simp add: processOrderFilledLog_def bindA_ok bindA_assoc bindA_first Let_def rest_def)
  with assms(1) obtain w1 w2 w3 w4 where
    0: "emit ''OrderFilled'' (Some l) (tradeFields ?t) w = (Inr (), w1)"
    and 1: "insertInto trades ?t w1 = (Inr (), w2)"
    and 2: "updateVolumetrics env (mk_marketId m) u (lg_blockNumber l) (lo_orderId l)
      (tickSizeOf env m) True w2 = (Inr (), w3)"
    and 3: "updateOrder env (mk_marketId m) (lo_orderId l) (td_amount ?t) (td_price ?t)
      (td_numCreatorShares ?t) (td_numCreatorTokens ?t) w3 = (Inr (), w4)"
    and 4: "rest w4 = (Inr (), w')"
    by (auto simp: thenA_eq_Inr)
  have w2: "order_ledger w2 = (t_orders (tables w), t_trades (tables w) @ [?t])"
    using 0 1 by (auto simp: emit_app insertInto_eq_Inr order_ledger_def)
  then have w3: "order_ledger w3 = (t_orders (tables w), t_trades (tables w) @ [?t])"
    using unchangedD [OF updateVolumetrics_frame 2] by simp
  then have "orders.valid_table w3"
    using assms(2) by (simp add: orders.valid_table_def order_ledger_def)
  note w4 = updateOrder_effect [OF 3 this]
  have "order_ledger w' = order_ledger w4" using frame 4 by (rule unchangedD)
  then show ?thesis
    using w3 w4(1,2) m r by (simp add: order_ledger_def orders.valid_table_def)
qed

text \<open>Removing a fill: the trades of the order in that block are deleted and the order filled back.\<close>

lemma fill_removal_effect:
  assumes "processOrderFilledLogRemoval env l w = (Inr (), w')" "orders.valid_table w"
  shows "\<exists>m u r. shareTokenMarket (lo_shareToken l) w = (Inr (m, u), w) \<and>
    find (\<lambda>r. or_orderId r = lo_orderId l) (t_orders (tables w)) = Some r \<and>
    t_trades (tables w') = filter (\<lambda>t. \<not> (td_marketId t = mk_marketId m \<and> td_outcome t = u \<and>
      td_orderId t = lo_orderId l \<and> td_blockNumber t = lg_blockNumber l)) (t_trades (tables w)) \<and>
    t_orders (tables w') = onOrder (lo_orderId l) (filledBy env (- td_amount (tradeOf env l m u r))
      (- td_numCreatorShares (tradeOf env l m u r)) (- td_numCreatorTokens (tradeOf env l m u r)))
      (t_orders (tables w)) \<and> orders.valid_table w'"
proof -
  from assms(1) obtain m u r where
    m: "shareTokenMarket (lo_shareToken l) w = (Inr (m, u), w)"
    and r: "find (\<lambda>r. or_orderId r = lo_orderId l) (t_orders (tables w)) = Some r"
    by (auto simp: processOrderFilledLogRemoval_def bindA_eq_Inr orThrow_eq_Inr first_eq_Inr
        dest: shareTokenMarket_pure)
  let ?t = "tradeOf env l m u r"
  let ?P = "\<lambda>t. td_marketId t = mk_marketId m \<and> td_outcome t = u \<and>
      td_orderId t = lo_orderId l \<and> td_blockNumber t = lg_blockNumber l"
  define rest where "rest = thenA (emit ''OrderFilled'' (Some l) (tradeFields ?t))
    (thenA (removeOutcomeValue (lg_transactionHash l))
    (thenA (updateProfitLossRemoveRow (lg_transactionHash l))
           (updateLiquidityMetricsForMarketAndOutcomes env (mk_marketId m))))"
  have frame: "unchanged order_ledger rest" unfolding rest_def by (intro frames)
  have "processOrderFilledLogRemoval env l w = thenA (updateVolumetrics env (mk_marketId m) u
        (lg_blockNumber l) (lo_orderId l) (tickSizeOf env m) False) (thenA (delete trades ?P)
        (thenA (updateOrder env (mk_marketId m) (lo_orderId l) (- td_amount ?t) (td_price ?t)
          (- td_numCreatorShares ?t) (- td_numCreatorTokens ?t)) rest)) w"
    using m r
    by (simp add: processOrderFilledLogRemoval_def bindA_ok bindA_assoc bindA_first Let_def rest_def)
  with assms(1) obtain w1 w2 w3 where
    1: "updateVolumetrics env (mk_marketId m) u (lg_blockNumber l) (lo_orderId l)
      (tickSizeOf env m) False w = (Inr (), w1)"
    and 2: "delete trades ?P w1 = (Inr (), w2)"
    and 3: "updateOrder env (mk_marketId m) (lo_orderId l) (- td_amount ?t) (td_price ?t)
      (- td_numCreatorShares ?t) (- td_numCreatorTokens ?t) w2 = (Inr (), w3)"
    and 4: "rest w3 = (Inr (), w')"
    by (auto simp: thenA_eq_Inr)
  have "order_ledger w1 = order_ledger w" by (rule unchangedD [OF updateVolumetrics_frame 1])
  then have w2: "order_ledger w2 = (t_orders (tables w), filter (\<lambda>t. \<not> ?P t) (t_trades (tables w)))"
    using 2 by (auto simp: delete_eq_Inr order_ledger_def)
  then have "orders.valid_table w2"
    using assms(2) by (simp add: orders.valid_table_def order_ledger_def)
  note w3 = updateOrder_effect [OF 3 this]
  have "order_ledger w' = order_ledger w3" using frame 4 by (rule unchangedD)
  then show ?thesis
    using w2 w3(1,2) m r by (simp add: order_ledger_def orders.valid_table_def)
qed

lemma created_effect:
  assumes "processOrderCreatedLog env l w = (Inr (), w')" "orders.valid_table w"
    "list_all (\<lambda>r. or_orderId r \<noteq> lo_orderId l) (t_orders (tables w))"
  shows "\<exists>m u a d. orderData env l m u a = Inr d \<and> t_orders (tables w') = t_orders (tables w) @ [d] \<and>
    t_trades (tables w') = t_trades (tables w) \<and> orders.valid_table w'"
proof -
  from assms(1) obtain m u a d where
    m: "shareTokenMarket (lo_shareToken l) w = (Inr (m, u), w)"
    and a: "lo_amount l = Some a" and d: "orderData env l m u a = Inr d"
    by (auto simp: processOrderCreatedLog_def bindA_eq_Inr orThrow_eq_Inr liftR_eq_Inr)
      (metis shareTokenMarket_pure)
  define rest where "rest = thenA (marketPendingOrderbookUpdates d) (emit ''OrderCreated'' (Some l) (orderFields d))"
  have frame: "unchanged order_ledger rest" unfolding rest_def by (intro frames)
  have id: "or_orderId d = lo_orderId l"
    using d by (auto simp: orderData_def Let_def bindE_eq_Inr)
  have "filter (\<lambda>r. or_orderId r = or_orderId d) (t_orders (tables w)) = []"
    using assms(3) by (simp add: id filter_empty_conv list_all_iff)
  then have "upsertOrder d w = insertInto orders d w" by (simp add: upsertOrder_def bindA_select)
  moreover have "processOrderCreatedLog env l w = thenA (upsertOrder d) rest w"
    using m a d by (simp add: processOrderCreatedLog_def bindA_ok act_simps rest_def)
  ultimately have "thenA (insertInto orders d) rest w = (Inr (), w')"
    using assms(1) by (simp add: thenA_def bindA_def)
  then obtain w1 where 1: "insertInto orders d w = (Inr (), w1)" and 2: "rest w1 = (Inr (), w')"
    by (auto simp: thenA_eq_Inr)
  have "order_ledger w' = order_ledger w1" using frame 2 by (rule unchangedD)
  moreover have "orders.valid_table w1" by (rule orders.insert_valid [OF assms(2) 1])
  ultimately show ?thesis
    using 1 d by (auto simp: insertInto_eq_Inr order_ledger_def orders.valid_table_def)
qed

lemma creation_removal_effect:
  assumes "processOrderCreatedLogRemoval env l w = (Inr (), w')" "orders.valid_table w"
  shows "order_ledger w' = (filter (\<lambda>r. or_orderId r \<noteq> lo_orderId l) (t_orders (tables w)),
      t_trades (tables w))" "orders.valid_table w'"
proof -
  from assms(1) obtain r where "find (\<lambda>r. or_orderId r = lo_orderId l) (t_orders (tables w)) = Some r"
    by (auto simp: processOrderCreatedLogRemoval_def bindA_eq_Inr orThrow_eq_Inr first_eq_Inr)
  with assms(1) have "thenA (delete orders (\<lambda>r. or_orderId r = lo_orderId l))
    (thenA (updateLiquidityMetricsForMarketAndOutcomes env (or_marketId r))
           (emit ''OrderCreated'' (Some l) [])) w = (Inr (), w')"
    by (simp add: processOrderCreatedLogRemoval_def bindA_assoc bindA_first)
  then obtain w1 where 1: "delete orders (\<lambda>r. or_orderId r = lo_orderId l) w = (Inr (), w1)"
    and 2: "thenA (updateLiquidityMetricsForMarketAndOutcomes env (or_marketId r))
           (emit ''OrderCreated'' (Some l) []) w1 = (Inr (), w')"
    by (subst (asm) thenA_eq_Inr, elim exE conjE) (rule that, simp_all)
  have "unchanged order_ledger (thenA (updateLiquidityMetricsForMarketAndOutcomes env (or_marketId r))
      (emit ''OrderCreated'' (Some l) []))" by (intro frames)
  then have w': "order_ledger w' = order_ledger w1" using 2 by (rule unchangedD)
  then show "order_ledger w' = (filter (\<lambda>r. or_orderId r \<noteq> lo_orderId l) (t_orders (tables w)),
      t_trades (tables w))"
    using 1 by (auto simp: delete_eq_Inr order_ledger_def)
  show "orders.valid_table w'"
    using orders.delete_valid [OF assms(2) 1] w' by (simp add: orders.valid_table_def order_ledger_def)
qed

lemma canceled_effect:
  assumes "processOrderCanceledLog l w = (Inr (), w')" "orders.valid_table w"
  shows "order_ledger w' = (onOrder (lo_orderId l) (\<lambda>r. r\<lparr>or_orderState := CANCELED\<rparr>) (t_orders (tables w)),
      t_trades (tables w))" "orders.valid_table w'"
proof -
  from assms(1) obtain w1 where
    1: "update orders (\<lambda>r. or_orderId r = lo_orderId l) (\<lambda>r. r\<lparr>or_orderState := CANCELED\<rparr>) w = (Inr (), w1)"
    and w': "order_ledger w' = order_ledger w1"
    unfolding processOrderCanceledLog_def
    by (subst (asm) thenA_eq_Inr, elim exE conjE)
      (rule that, simp, erule unchangedD [rotated], intro frames)
  then show "order_ledger w' = (onOrder (lo_orderId l) (\<lambda>r. r\<lparr>or_orderState := CANCELED\<rparr>) (t_orders (tables w)),
      t_trades (tables w))"
    using update_orders_ledger [OF 1] by simp
  have "orders.valid_table w1"
    by (rule orders.update_valid [OF assms(2) 1]) (simp_all add: table_constraints)
  then show "orders.valid_table w'" using w' by (simp add: orders.valid_table_def order_ledger_def)
qed

lemma cancel_removal_effect:
  assumes "processOrderCanceledLogRemoval env l w = (Inr (), w')" "orders.valid_table w"
  shows "order_ledger w' = (onOrder (lo_orderId l) (\<lambda>r. r\<lparr>or_orderState := OPEN\<rparr>) (t_orders (tables w)),
      t_trades (tables w))" "orders.valid_table w'"
proof -
  from assms(1) obtain w1 where
    1: "update orders (\<lambda>r. or_orderId r = lo_orderId l) (\<lambda>r. r\<lparr>or_orderState := OPEN\<rparr>) w = (Inr (), w1)"
    and w': "order_ledger w' = order_ledger w1"
    unfolding processOrderCanceledLogRemoval_def
    by (subst (asm) thenA_eq_Inr, elim exE conjE)
      (rule that, simp, erule unchangedD [rotated], intro frames)
  then show "order_ledger w' = (onOrder (lo_orderId l) (\<lambda>r. r\<lparr>or_orderState := OPEN\<rparr>) (t_orders (tables w)),
      t_trades (tables w))"
    using update_orders_ledger [OF 1] by simp
  have "orders.valid_table w1"
    by (rule orders.update_valid [OF assms(2) 1]) (simp_all add: table_constraints)
  then show "orders.valid_table w'" using w' by (simp add: orders.valid_table_def order_ledger_def)
qed

section \<open>Orders add up with their trades\<close>

definition order_adds_up :: "env \<Rightarrow> trades_row list \<Rightarrow> orders_row \<Rightarrow> bool" where
  "order_adds_up env ts r \<longleftrightarrow>
     (let fills = filter (\<lambda>t. td_orderId t = or_orderId r) ts in
      or_fullPrecisionAmount r + sum_list (map td_amount fills) = or_originalFullPrecisionAmount r \<and>
      or_tokensEscrowed r + sum_list (map td_numCreatorTokens fills) = or_originalTokensEscrowed r \<and>
      or_sharesEscrowed r + sum_list (map td_numCreatorShares fills) = or_originalSharesEscrowed r \<and>
      or_amount r = formatOrderAmount (en_toPrecision env) (en_dv env) (or_fullPrecisionAmount r) \<and>
      (or_orderState r = FILLED \<longrightarrow> or_fullPrecisionAmount r = 0))"

definition ledger_ok :: "env \<Rightarrow> world \<Rightarrow> bool" where
  "ledger_ok env w \<longleftrightarrow> orders.valid_table w \<and>
     list_all (order_adds_up env (t_trades (tables w))) (t_orders (tables w)) \<and>
     list_all (\<lambda>t. td_orderId t \<in> set (map or_orderId (t_orders (tables w)))) (t_trades (tables w))"

text \<open>
  The databases that processing and removing the logs of orders can reach. An order id is created
  once; a created order is removed when its trades are gone (a reorganisation removes the later
  logs first); a fill is removed when its trade is the only one of the order in that block (the
  code deletes all of them). Steps that touch neither table are free.
\<close>

inductive order_reach :: "env \<Rightarrow> world \<Rightarrow> bool" for env where
  start: "t_orders (tables w) = [] \<Longrightarrow> t_trades (tables w) = [] \<Longrightarrow> order_reach env w"
| created: "order_reach env w \<Longrightarrow> list_all (\<lambda>r. or_orderId r \<noteq> lo_orderId l) (t_orders (tables w)) \<Longrightarrow>
    processOrderCreatedLog env l w = (Inr (), w') \<Longrightarrow> order_reach env w'"
| creation_removed: "order_reach env w \<Longrightarrow> list_all (\<lambda>t. td_orderId t \<noteq> lo_orderId l) (t_trades (tables w)) \<Longrightarrow>
    processOrderCreatedLogRemoval env l w = (Inr (), w') \<Longrightarrow> order_reach env w'"
| canceled: "order_reach env w \<Longrightarrow> processOrderCanceledLog l w = (Inr (), w') \<Longrightarrow> order_reach env w'"
| cancel_removed: "order_reach env w \<Longrightarrow> processOrderCanceledLogRemoval env l w = (Inr (), w') \<Longrightarrow>
    order_reach env w'"
| filled: "order_reach env w \<Longrightarrow> processOrderFilledLog env l w = (Inr (), w') \<Longrightarrow> order_reach env w'"
| fill_removed: "order_reach env w \<Longrightarrow> shareTokenMarket (lo_shareToken l) w = (Inr (m, u), w) \<Longrightarrow>
    find (\<lambda>r. or_orderId r = lo_orderId l) (t_orders (tables w)) = Some r \<Longrightarrow>
    filter (\<lambda>t. td_marketId t = mk_marketId m \<and> td_outcome t = u \<and> td_orderId t = lo_orderId l \<and>
      td_blockNumber t = lg_blockNumber l) (t_trades (tables w)) = [tradeOf env l m u r] \<Longrightarrow>
    processOrderFilledLogRemoval env l w = (Inr (), w') \<Longrightarrow> order_reach env w'"
| elsewhere: "order_reach env w \<Longrightarrow> order_ledger w' = order_ledger w \<Longrightarrow> order_reach env w'"

lemma order_adds_up_other:
  "td_orderId t \<noteq> or_orderId r \<Longrightarrow> order_adds_up env (ts @ [t]) r = order_adds_up env ts r"
  by (simp add: order_adds_up_def)

lemma order_adds_up_filled:
  assumes "order_adds_up env ts r" "td_orderId t = or_orderId r"
  shows "order_adds_up env (ts @ [t])
    (filledBy env (td_amount t) (td_numCreatorShares t) (td_numCreatorTokens t) r)"
  using assms by (simp add: order_adds_up_def filledBy_def Let_def)

lemma sum_list_filter_out:
  fixes f :: "'x \<Rightarrow> bn"
  assumes "\<And>x. P x \<Longrightarrow> Q x" "filter P xs = [t]"
  shows "sum_list (map f (filter Q (filter (\<lambda>x. \<not> P x) xs))) = sum_list (map f (filter Q xs)) - f t"
proof -
  have "filter P (filter Q xs) = filter P xs" using assms(1) by (auto intro: filter_cong)
  then have "sum_list (map f (filter Q xs)) = f t + sum_list (map f (filter (\<lambda>x. \<not> P x) (filter Q xs)))"
    using sum_list_filter_split [of f "filter Q xs" P] assms(2) by simp
  moreover have "filter (\<lambda>x. \<not> P x) (filter Q xs) = filter Q (filter (\<lambda>x. \<not> P x) xs)"
    by (simp add: conj_commute)
  ultimately show ?thesis by (simp del: filter_filter)
qed

lemma order_adds_up_unfilled:
  assumes "order_adds_up env ts r" "\<And>t. P t \<Longrightarrow> td_orderId t = or_orderId r" "filter P ts = [t]"
  shows "order_adds_up env (filter (\<lambda>t. \<not> P t) ts)
    (filledBy env (- td_amount t) (- td_numCreatorShares t) (- td_numCreatorTokens t) r)"
  using assms(1) sum_list_filter_out [of P "\<lambda>t. td_orderId t = or_orderId r", OF assms(2,3)]
  by (simp add: order_adds_up_def filledBy_def Let_def del: filter_filter)

lemma orderData_sel:
  assumes "orderData env l m u a = Inr d"
  shows "or_orderId d = lo_orderId l" "or_originalFullPrecisionAmount d = or_fullPrecisionAmount d"
    "or_originalTokensEscrowed d = or_tokensEscrowed d" "or_originalSharesEscrowed d = or_sharesEscrowed d"
    "or_amount d = formatOrderAmount (en_toPrecision env) (en_dv env) (or_fullPrecisionAmount d)"
    "or_orderState d = OPEN"
  using assms by (auto simp: orderData_def Let_def bindE_eq_Inr)

lemma ledger_created:
  assumes "ledger_ok env w" "list_all (\<lambda>r. or_orderId r \<noteq> lo_orderId l) (t_orders (tables w))"
    "processOrderCreatedLog env l w = (Inr (), w')"
  shows "ledger_ok env w'"
proof -
  have valid: "orders.valid_table w" using assms(1) by (simp add: ledger_ok_def)
  obtain m u a d where d: "orderData env l m u a = Inr d" "t_orders (tables w') = t_orders (tables w) @ [d]"
    "t_trades (tables w') = t_trades (tables w)" "orders.valid_table w'"
    using created_effect [OF assms(3) valid assms(2)] by blast
  have "filter (\<lambda>t. td_orderId t = lo_orderId l) (t_trades (tables w)) = []"
    using assms(1,2) by (fastforce simp: ledger_ok_def list_all_iff filter_empty_conv)
  then have "order_adds_up env (t_trades (tables w)) d"
    using orderData_sel [OF d(1)] by (simp add: order_adds_up_def)
  then show ?thesis using assms(1) d by (auto simp: ledger_ok_def list_all_iff)
qed

lemma ledger_onOrder:
  assumes "ledger_ok env w" "order_ledger w' = (onOrder i f (t_orders (tables w)), t_trades (tables w))"
    "orders.valid_table w'" "\<And>r. or_orderId (f r) = or_orderId r"
    "\<And>r ts. order_adds_up env ts r \<Longrightarrow> order_adds_up env ts (f r)"
  shows "ledger_ok env w'"
proof -
  have "list_all (order_adds_up env (t_trades (tables w))) (t_orders (tables w'))"
    using assms(1,2,5) by (auto simp: ledger_ok_def order_ledger_def list_all_iff onOrder_def)
  then show ?thesis
    using assms(1-3) onOrder_ids [of f, OF assms(4)]
    by (simp add: ledger_ok_def order_ledger_def del: set_map)
qed

lemma ledger_creation_removed:
  assumes "ledger_ok env w" "list_all (\<lambda>t. td_orderId t \<noteq> lo_orderId l) (t_trades (tables w))"
    "processOrderCreatedLogRemoval env l w = (Inr (), w')"
  shows "ledger_ok env w'"
proof -
  have "orders.valid_table w" using assms(1) by (simp add: ledger_ok_def)
  note e = creation_removal_effect [OF assms(3) this]
  then show ?thesis
    using assms(1,2) by (fastforce simp: ledger_ok_def order_ledger_def list_all_iff)
qed

lemma ledger_filled:
  assumes "ledger_ok env w" "processOrderFilledLog env l w = (Inr (), w')"
  shows "ledger_ok env w'"
proof -
  have valid: "orders.valid_table w" using assms(1) by (simp add: ledger_ok_def)
  obtain m u r where r: "find (\<lambda>r. or_orderId r = lo_orderId l) (t_orders (tables w)) = Some r"
    and t: "t_trades (tables w') = t_trades (tables w) @ [tradeOf env l m u r]"
    and os: "t_orders (tables w') = onOrder (lo_orderId l) (filledBy env (td_amount (tradeOf env l m u r))
      (td_numCreatorShares (tradeOf env l m u r)) (td_numCreatorTokens (tradeOf env l m u r)))
      (t_orders (tables w))" and v: "orders.valid_table w'"
    using filled_effect [OF assms(2) valid] by blast
  have id: "td_orderId (tradeOf env l m u r) = lo_orderId l" by (simp add: tradeOf_def Let_def)
  have "order_adds_up env (t_trades (tables w')) x" if x: "x \<in> set (t_orders (tables w'))" for x
  proof -
    from x obtain y where y: "y \<in> set (t_orders (tables w))" "x = (if or_orderId y = lo_orderId l
        then filledBy env (td_amount (tradeOf env l m u r)) (td_numCreatorShares (tradeOf env l m u r))
          (td_numCreatorTokens (tradeOf env l m u r)) y else y)" by (auto simp: os onOrder_def)
    have "order_adds_up env (t_trades (tables w)) y"
      using assms(1) y(1) by (simp add: ledger_ok_def list_all_iff)
    then show ?thesis
      using y(2) id order_adds_up_filled order_adds_up_other by (simp add: t)
  qed
  moreover have "map or_orderId (t_orders (tables w')) = map or_orderId (t_orders (tables w))"
    unfolding os by (rule onOrder_ids) (simp add: filledBy_def Let_def)
  moreover have "lo_orderId l \<in> set (map or_orderId (t_orders (tables w)))"
    using find_SomeD [OF r] by (metis imageI set_map)
  ultimately show ?thesis
    using v assms(1) by (simp add: ledger_ok_def list_all_iff t id del: set_map)
qed

lemma ledger_fill_removed:
  assumes "ledger_ok env w" "shareTokenMarket (lo_shareToken l) w = (Inr (m, u), w)"
    "find (\<lambda>r. or_orderId r = lo_orderId l) (t_orders (tables w)) = Some r"
    "filter (\<lambda>t. td_marketId t = mk_marketId m \<and> td_outcome t = u \<and> td_orderId t = lo_orderId l \<and>
      td_blockNumber t = lg_blockNumber l) (t_trades (tables w)) = [tradeOf env l m u r]"
    "processOrderFilledLogRemoval env l w = (Inr (), w')"
  shows "ledger_ok env w'"
proof -
  let ?P = "\<lambda>t. td_marketId t = mk_marketId m \<and> td_outcome t = u \<and> td_orderId t = lo_orderId l \<and>
      td_blockNumber t = lg_blockNumber l" and ?t = "tradeOf env l m u r"
  have valid: "orders.valid_table w" using assms(1) by (simp add: ledger_ok_def)
  have t: "t_trades (tables w') = filter (\<lambda>t. \<not> ?P t) (t_trades (tables w))"
    and os: "t_orders (tables w') = onOrder (lo_orderId l) (filledBy env (- td_amount ?t)
      (- td_numCreatorShares ?t) (- td_numCreatorTokens ?t)) (t_orders (tables w))"
    and v: "orders.valid_table w'"
    using fill_removal_effect [OF assms(5) valid] assms(2,3) by auto
  have "order_adds_up env (t_trades (tables w')) x" if x: "x \<in> set (t_orders (tables w'))" for x
  proof -
    from x obtain y where y: "y \<in> set (t_orders (tables w))" "x = (if or_orderId y = lo_orderId l
        then filledBy env (- td_amount ?t) (- td_numCreatorShares ?t) (- td_numCreatorTokens ?t) y else y)"
      by (auto simp: os onOrder_def)
    have up: "order_adds_up env (t_trades (tables w)) y"
      using assms(1) y(1) by (simp add: ledger_ok_def list_all_iff)
    show ?thesis
    proof (cases "or_orderId y = lo_orderId l")
      case True
      then show ?thesis
        using order_adds_up_unfilled [OF up _ assms(4)] y(2) by (simp add: t del: de_Morgan_conj)
    next
      case False
      have "filter (\<lambda>t. td_orderId t = or_orderId y) (filter (\<lambda>t. \<not> ?P t) (t_trades (tables w))) =
          filter (\<lambda>t. td_orderId t = or_orderId y) (t_trades (tables w))"
        unfolding filter_filter using False by (intro filter_cong) auto
      then show ?thesis using up False y(2) by (simp add: order_adds_up_def t)
    qed
  qed
  moreover have "map or_orderId (t_orders (tables w')) = map or_orderId (t_orders (tables w))"
    unfolding os by (rule onOrder_ids) (simp add: filledBy_def Let_def)
  ultimately show ?thesis
    using v assms(1) by (simp add: ledger_ok_def list_all_iff t del: set_map)
qed

lemma order_adds_up_state:
  "order_adds_up env ts r \<Longrightarrow> s \<noteq> FILLED \<Longrightarrow> order_adds_up env ts (r\<lparr>or_orderState := s\<rparr>)"
  by (simp add: order_adds_up_def Let_def)

lemma ledger_valid: "ledger_ok env w \<Longrightarrow> orders.valid_table w"
  by (simp add: ledger_ok_def)

lemma order_reach_ledger: "order_reach env w \<Longrightarrow> ledger_ok env w"
proof (induction rule: order_reach.induct)
  case (start w)
  then show ?case by (simp add: ledger_ok_def orders.valid_table_def)
next
  case (created w l w')
  then show ?case by (blast intro: ledger_created)
next
  case (creation_removed w l w')
  then show ?case by (blast intro: ledger_creation_removed)
next
  case (canceled w l w')
  note ok = canceled.IH and e = canceled_effect [OF canceled.hyps(2) ledger_valid [OF canceled.IH]]
  show ?case
    by (rule ledger_onOrder [OF ok e]) (simp_all add: order_adds_up_state)
next
  case (cancel_removed w l w')
  note ok = cancel_removed.IH and e = cancel_removal_effect [OF cancel_removed.hyps(2) ledger_valid [OF cancel_removed.IH]]
  show ?case
    by (rule ledger_onOrder [OF ok e]) (simp_all add: order_adds_up_state)
next
  case (filled w l w')
  then show ?case by (blast intro: ledger_filled)
next
  case (fill_removed w l m u r w')
  then show ?case by (blast intro: ledger_fill_removed)
next
  case (elsewhere w w')
  then show ?case by (simp add: ledger_ok_def order_ledger_def orders.valid_table_def)
qed

text \<open>
  C2. Orders add up with their trades: the amount, the tokens and the shares still in an order, plus what
  its recorded trades took, are what it was created with; the displayed amount is the rounded remaining
  one; an order marked as filled has nothing left; and every trade belongs to a recorded order. This is so
  in every database reached by creating, cancelling and filling orders (an order id is created once) and by
  removing these logs, where a creation is removed only when the trades of the order are gone, and a fill
  only when its trade is the one trade of its order in its block. The last condition is needed: removing a
  fill deletes all trades of the order in the block and gives back the amount of one
  (\<open>processOrderFilledLogRemoval\<close>).
\<close>

theorem orders_add_up:
  assumes "order_reach env w"
  shows "(\<forall>r \<in> set (t_orders (tables w)).
      or_fullPrecisionAmount r + (\<Sum>t\<leftarrow>filter (\<lambda>t. td_orderId t = or_orderId r) (t_trades (tables w)). td_amount t)
        = or_originalFullPrecisionAmount r \<and>
      or_tokensEscrowed r + (\<Sum>t\<leftarrow>filter (\<lambda>t. td_orderId t = or_orderId r) (t_trades (tables w)). td_numCreatorTokens t)
        = or_originalTokensEscrowed r \<and>
      or_sharesEscrowed r + (\<Sum>t\<leftarrow>filter (\<lambda>t. td_orderId t = or_orderId r) (t_trades (tables w)). td_numCreatorShares t)
        = or_originalSharesEscrowed r \<and>
      or_amount r = formatOrderAmount (en_toPrecision env) (en_dv env) (or_fullPrecisionAmount r) \<and>
      (or_orderState r = FILLED \<longrightarrow> or_fullPrecisionAmount r = 0)) \<and>
    (\<forall>t \<in> set (t_trades (tables w)). \<exists>r \<in> set (t_orders (tables w)). or_orderId r = td_orderId t)"
  using order_reach_ledger [OF assms]
  by (auto simp: ledger_ok_def order_adds_up_def Let_def list_all_iff image_iff) metis

section \<open>Undoing\<close>

lemma pendLiquidityUpdate_run:
  "\<exists>ps. pendLiquidityUpdate i w = (Inr (), tput pending_liquidity_updates ps w)"
proof (cases "i \<in> set (t_pending_liquidity_updates (tables w))")
  case True
  then have "filter (\<lambda>r. r = i) (t_pending_liquidity_updates (tables w)) \<noteq> []" by (auto simp: filter_empty_conv)
  then show ?thesis
    by (intro exI [of _ "t_pending_liquidity_updates (tables w)"])
      (simp add: pendLiquidityUpdate_def table_simps act_simps)
next
  case False
  then have "filter (\<lambda>r. r = i) (t_pending_liquidity_updates (tables w)) = []" by (auto simp: filter_empty_conv)
  then show ?thesis
    by (intro exI [of _ "t_pending_liquidity_updates (tables w) @ [i]"])
      (simp add: pendLiquidityUpdate_def table_simps act_simps insertInto_def table_constraints list_ex_iff)
qed

text \<open>
  Removing a cancellation undoes it: after an open order was canceled, the removal succeeds when
  the market can be refreshed, and the orders and the cancellations are again what they were.
\<close>

theorem cancel_removal_restores:
  assumes "bn_division (en_dv env)" "orders.valid_table w" "outcomes.valid_table w" "markets.valid_table w"
    "find (\<lambda>r. or_orderId r = lo_orderId l) (t_orders (tables w)) = Some r" "or_orderState r = OPEN"
    "ready env w (or_marketId r)" "processOrderCanceledLog l w = (Inr (), w')"
  shows "\<exists>w''. processOrderCanceledLogRemoval env l w' = (Inr (), w'') \<and>
    t_orders (tables w'') = t_orders (tables w) \<and>
    t_orders_canceled (tables w'') = t_orders_canceled (tables w) \<and>
    t_trades (tables w'') = t_trades (tables w)"
proof -
  let ?id = "lo_orderId l" and ?os = "t_orders (tables w)" and ?cs = "t_orders_canceled (tables w)"
  let ?row = "\<lparr>xo_orderId = ?id, xo_transactionHash = lg_transactionHash l, xo_logIndex = lg_logIndex l,
    xo_blockNumber = lg_blockNumber l\<rparr>"
  define os where "os = onOrder ?id (\<lambda>r. r\<lparr>or_orderState := CANCELED\<rparr>) ?os"
  have upd: "thenA (update orders (\<lambda>r. or_orderId r = ?id) (\<lambda>r. r\<lparr>or_orderState := s\<rparr>)) n u =
      n (tput orders (onOrder ?id (\<lambda>r. r\<lparr>or_orderState := s\<rparr>) (t_orders (tables u))) u)"
    if "list_all (tcheck orders) (t_orders (tables u))" for s u and n :: "unit action"
    using that by (intro thenA_ok) (auto simp: update_eq_Inr onOrder_def list_all_iff table_constraints)
  have chk: "list_all (tcheck orders) ?os" "list_all (tcheck orders) os"
    using assms(2) by (auto simp: os_def onOrder_def orders.valid_table_def list_all_iff table_constraints)
  have fnd: "find (\<lambda>r. or_orderId r = ?id) os = Some (r\<lparr>or_orderState := CANCELED\<rparr>)"
    using assms(5) unfolding os_def onOrder_def by (subst find_map_same) (auto dest: find_SomeD)
  note run0 = assms(8) [unfolded processOrderCanceledLog_def upd [OF chk(1)], folded os_def]
  have none: "\<not> list_ex (\<lambda>x. xo_orderId x = ?id) ?cs"
    using run0 by (simp add: table_simps table_constraints split: if_splits)
  obtain ps ev where w': "w' = w\<lparr>tables := (tables w)\<lparr>t_orders := os, t_orders_canceled := ?cs @ [?row],
      t_pending_liquidity_updates := ps\<rparr>, emitted := ev\<rparr>"
  proof -
    let ?w2 = "w\<lparr>tables := (tables w)\<lparr>t_orders := os, t_orders_canceled := ?cs @ [?row]\<rparr>\<rparr>"
    obtain ps where "pendLiquidityUpdate (or_marketId r) ?w2 = (Inr (), tput pending_liquidity_updates ps ?w2)"
      using pendLiquidityUpdate_run by blast
    with run0 none fnd show ?thesis
      by (intro that [of "emitted w'" ps])
        (auto simp: table_simps table_constraints bindA_assoc act_simps)
  qed
  have reopened: "onOrder ?id (\<lambda>r. r\<lparr>or_orderState := OPEN\<rparr>) os = ?os"
    unfolding os_def onOrder_def map_map
    by (rule map_idI) (auto dest: order_unique [OF assms(2,5)] simp: assms(6))
  have cs: "filter (\<lambda>x. xo_orderId x \<noteq> ?id) (?cs @ [?row]) = ?cs"
    using none by (auto simp: filter_id_conv list_ex_iff)
  define u where "u = w'\<lparr>tables := (tables w')\<lparr>t_orders := ?os, t_orders_canceled := ?cs\<rparr>\<rparr>"
  have tabs: "t_orders (tables u) = ?os" "t_markets (tables u) = t_markets (tables w)"
    "t_outcomes (tables u) = t_outcomes (tables w)" "t_orders_canceled (tables u) = ?cs"
    "t_trades (tables u) = t_trades (tables w)"
    by (simp_all add: u_def w')
  obtain m where m: "find (\<lambda>m. mk_marketId m = or_marketId r) (t_markets (tables u)) = Some m"
    "metrics_ok env u m"
    using assms(7) by (auto simp: ready_def tabs metrics_ok_def openOrders_def split: option.splits)
  have "outcomes.valid_table u" "markets.valid_table u"
    using assms(3,4) by (simp_all add: outcomes.valid_table_def markets.valid_table_def tabs)
  from updateLiquidityMetrics_run [OF assms(1) m this] obtain ms where
    run: "updateLiquidityMetricsForMarketAndOutcomes env (or_marketId r) u = (Inr (), refreshed (or_marketId r) ms u)"
    by blast
  have chk': "list_all (tcheck orders) (t_orders (tables w'))" using chk(2) by (simp add: w')
  have "processOrderCanceledLogRemoval env l w' = thenA (updateLiquidityMetricsForMarketAndOutcomes env
      (or_marketId r)) (emit ''OrderCanceled'' (Some l) [(''marketId'', VS (or_marketId r)),
        (''outcome'', VI (or_outcome r)), (''price'', VN (or_price r)),
        (''orderType'', VS (orderTypeLabel l))]) u"
    unfolding processOrderCanceledLogRemoval_def upd [OF chk']
    using assms(5) reopened cs by (simp add: table_simps bindA_assoc act_simps w' u_def)
  also have "\<dots> = (Inr (), (refreshed (or_marketId r) ms u)\<lparr>emitted :=
      emitted (refreshed (or_marketId r) ms u) @ [\<lparr>ev_name = ''OrderCanceled'',
        ev_log = Some (base_log.truncate l), ev_data = [(''marketId'', VS (or_marketId r)),
        (''outcome'', VI (or_outcome r)), (''price'', VN (or_price r)),
        (''orderType'', VS (orderTypeLabel l))]\<rparr>]\<rparr>)"
    using run by (simp add: act_simps)
  finally show ?thesis by (simp add: refreshed_def tabs)
qed

section \<open>Claims\<close>

text \<open>A claim only adds profit and loss rows of its own transaction.\<close>

definition other_profit_loss :: "bytes32 \<Rightarrow> world \<Rightarrow> profit_loss_row list" where
  "other_profit_loss h w =
     filter (\<lambda>r. pl_transactionHash r \<noteq> h) (t_wcl_profit_loss_timeseries (tables w))"

lemma insert_own_row:
  "pl_transactionHash x = h \<Longrightarrow> unchanged (other_profit_loss h) (insertInto wcl_profit_loss_timeseries x)"
  by (simp add: unchanged_def insertInto_def other_profit_loss_def)

lemma claimOutcome_frame: "unchanged (other_profit_loss h) (claimOutcome dv i a h n k tp vs u)"
  unfolding claimOutcome_def updateProfitLoss_def latestProfitLoss_def Let_def
  by (intro frames insert_own_row) simp

lemma claim_frame: "unchanged (other_profit_loss h) (updateProfitLossClaimProceeds dv i a h n k)"
  unfolding updateProfitLossClaimProceeds_def payoutAndMarket_def Let_def
  by (intro frames claimOutcome_frame)

lemma claim_keeps_proceeds:
  "unchanged (\<lambda>w. t_trading_proceeds (tables w)) (updateProfitLossClaimProceeds dv i a h n k)"
  unfolding updateProfitLossClaimProceeds_def payoutAndMarket_def claimOutcome_def updateProfitLoss_def
    latestProfitLoss_def Let_def
  by (intro frames unchanged_write) simp

text \<open>
  Removing a claim undoes it: the removal always succeeds, and when the transaction of the claim
  had no profit and loss rows before, the proceeds and the profit and loss rows are again what they
  were.
\<close>

theorem claim_removal_restores:
  assumes "processTradingProceedsClaimedLog env l w = (Inr (), w')"
    "list_all (\<lambda>r. pl_transactionHash r \<noteq> lg_transactionHash l) (t_wcl_profit_loss_timeseries (tables w))"
  shows "\<exists>w''. processTradingProceedsClaimedLogRemoval l w' = (Inr (), w'') \<and>
    t_trading_proceeds (tables w'') = t_trading_proceeds (tables w) \<and>
    t_wcl_profit_loss_timeseries (tables w'') = t_wcl_profit_loss_timeseries (tables w)"
proof -
  let ?h = "lg_transactionHash l"
  from assms(1) obtain w1 w2 where 1: "insertInto trading_proceeds (tradingProceedsToInsert l) w = (Inr (), w1)"
    and 2: "updateProfitLossClaimProceeds (en_dv env) (lo_market l) (lo_sender l) ?h
      (lg_blockNumber l) (lg_transactionIndex l) w1 = (Inr (), w2)"
    and 3: "emit ''TradingProceedsClaimed'' (Some l) [] w2 = (Inr (), w')"
    by (auto simp: processTradingProceedsClaimedLog_def thenA_eq_Inr)
  have "filter (\<lambda>r. \<not> (tp_transactionHash r = ?h \<and> tp_logIndex r = lg_logIndex l)) (t_trading_proceeds (tables w1))
      = t_trading_proceeds (tables w)"
    using 1 by (auto simp: insertInto_eq_Inr table_constraints tradingProceedsToInsert_def list_all_iff
        filter_id_conv)
  then have tp: "filter (\<lambda>r. tp_transactionHash r = ?h \<longrightarrow> tp_logIndex r \<noteq> lg_logIndex l)
      (t_trading_proceeds (tables w')) = t_trading_proceeds (tables w)"
    using unchangedD [OF claim_keeps_proceeds 2] 3 by (auto simp: emit_app)
  have "other_profit_loss ?h w' = other_profit_loss ?h w"
    using unchangedD [OF claim_frame 2] 1 3 by (auto simp: emit_app insertInto_eq_Inr other_profit_loss_def)
  then have "filter (\<lambda>r. pl_transactionHash r \<noteq> ?h) (t_wcl_profit_loss_timeseries (tables w')) =
      t_wcl_profit_loss_timeseries (tables w)"
    using assms(2) by (simp add: other_profit_loss_def filter_id_conv list_all_iff)
  moreover have "filter (\<lambda>r. pl_transactionHash r \<noteq> ?h) (t_wcl_profit_loss_timeseries (tables w)) =
      t_wcl_profit_loss_timeseries (tables w)" using assms(2) by (simp add: filter_id_conv list_all_iff)
  ultimately show ?thesis
    using tp
    by (simp add: processTradingProceedsClaimedLogRemoval_def updateProfitLossRemoveRow_def table_simps
        act_simps)
qed

section \<open>Examples\<close>

text \<open>An order over two shares at 0.4, created in the empty sample market with exact division.\<close>

definition exact_env :: env where
  "exact_env = sample_env\<lparr>en_dv := (\<lambda>a b. a / b)\<rparr>"

definition order_log :: event_log where
  "order_log = sample_log\<lparr>lo_orderId := ''o'', lo_shareToken := ''yes'', lo_orderType := ''0'',
     lo_amount := Some 20000, lo_price := 4000, lo_moneyEscrowed := 8 * 10 ^ 17, lo_creator := ''alice''\<rparr>"

lemma exact_env_sel:
  "en_dv exact_env = (\<lambda>a b. a / b)" "en_toPrecision exact_env = (\<lambda>x _ _. x)"
  "convertOnChainAmountToDisplayAmount exact_env = (\<lambda>a tickSize. a * tickSize)"
  "convertOnChainPriceToDisplayPrice exact_env = (\<lambda>p minPrice tickSize. p * tickSize + minPrice)"
  by (simp_all add: exact_env_def sample_env_def)

lemma order_log_sel:
  "lo_orderId order_log = ''o''" "lo_shareToken order_log = ''yes''" "orderTypeLabel order_log = ''buy''"
  "lo_amount order_log = Some 20000" "lo_price order_log = 4000" "lo_moneyEscrowed order_log = 8 * 10 ^ 17"
  "lo_sharesEscrowed order_log = 0"
  by (simp_all add: order_log_def sample_log_def orderTypeLabel_def)

lemma volume_world_orders:
  "t_orders (tables volume_world) = []" "t_pending_orphan_checks (tables volume_world) = []"
  "t_pending_liquidity_updates (tables volume_world) = []"
  by (simp_all add: volume_world_def empty_db_def)

lemma volume_world_share:
  "shareTokenMarket ''yes'' volume_world = (Inr (sample_market, 1), volume_world)"
  by (simp add: shareTokenMarket_def bindA_assoc table_simps act_simps volume_world_sel share_token_def
      sample_market_book)

lemma bindA_volume_world_share:
  "bindA (shareTokenMarket ''yes'') f volume_world = f (sample_market, 1) volume_world"
  by (rule bindA_ok) (rule volume_world_share)

definition open_order :: orders_row where
  "open_order = \<lparr>or_orderId = ''o'', or_blockNumber = 1, or_transactionHash = ''t'', or_logIndex = 0,
     or_marketId = ''m'', or_outcome = 1, or_shareToken = ''yes'', or_orderType = ''buy'',
     or_orderCreator = ''alice'', or_orderState = OPEN, or_price = 4 / 10, or_amount = 2, or_originalAmount = 2,
     or_fullPrecisionPrice = 4 / 10, or_fullPrecisionAmount = 2, or_originalFullPrecisionAmount = 2,
     or_originalTokensEscrowed = 8 / 10, or_originalSharesEscrowed = 0, or_tokensEscrowed = 8 / 10,
     or_sharesEscrowed = 0, or_tradeGroupId = None, or_orphaned = False\<rparr>"

lemma sample_tickSize: "tickSizeOf exact_env sample_market = 1 / 10000"
  by (simp add: tickSizeOf_def numTicksToTickSize_def exact_env_sel sample_market_def)

lemma created_open_order: "orderData exact_env order_log sample_market 1 20000 = Inr open_order"
  by (simp add: orderData_def Let_def order_log_sel exact_env_sel formatOrderPrice_def formatOrderAmount_def
      roundToPrecision_def fixedPointToDecimal_def PRECISION_multiple_def PRECISION_limit_def PRECISION_zero_def
      MINIMUM_TRADE_SIZE_def sample_market_book BN_WEI_PER_ETHER_def open_order_def sample_tickSize)
    (simp add: order_log_def sample_log_def)

text \<open>A fill of half of the order, four blocks later.\<close>

definition fill_log :: event_log where
  "fill_log = sample_log\<lparr>lg_blockNumber := 5, lg_transactionHash := ''t5'', lo_orderId := ''o'', lo_shareToken := ''yes'',
     lo_filler := ''bob'', lo_amountFilled := 10000, lo_numCreatorTokens := 4 * 10 ^ 17, lo_numFillerTokens := 6 * 10 ^ 17\<rparr>"

definition open_world :: world where "open_world = tput orders [open_order] volume_world"

definition fill_row :: trades_row where
  "fill_row = \<lparr>td_transactionHash = ''t5'', td_logIndex = 0, td_blockNumber = 5, td_orderId = ''o'', td_marketId = ''m'',
     td_outcome = 1, td_shareToken = ''yes'', td_orderType = ''buy'', td_creator = ''alice'', td_filler = ''bob'',
     td_numCreatorTokens = 4 / 10, td_numCreatorShares = 0, td_numFillerTokens = 6 / 10, td_numFillerShares = 0,
     td_price = 4 / 10, td_amount = 1, td_marketCreatorFees = 0, td_reporterFees = 0, td_tradeGroupId = None\<rparr>"

lemma fill_trade: "tradeOf exact_env fill_log sample_market 1 open_order = fill_row"
  by (simp add: tradeOf_def Let_def sample_tickSize fill_log_def sample_log_def exact_env_sel fixedPointToDecimal_def
      BN_WEI_PER_ETHER_def open_order_def sample_market_book fill_row_def)

lemma fill_volumetrics:
  "\<exists>w' m. thenA (emit ''OrderFilled'' (Some fill_log) fs) (thenA (insertInto trades fill_row)
      (updateVolumetrics exact_env ''m'' 1 5 ''o'' (1 / 10000) True)) open_world = (Inr (), w') \<and>
    t_orders (tables w') = [open_order] \<and> t_trades (tables w') = [fill_row] \<and>
    t_markets (tables w') = [m] \<and> mk_marketId m = ''m'' \<and> mk_minPrice m = 0 \<and> mk_maxPrice m = 1 \<and>
    t_wcl_profit_loss_timeseries (tables w') = [] \<and> t_outcome_value_timeseries (tables w') = [] \<and>
    t_pending_liquidity_updates (tables w') = [] \<and>
    (\<forall>x \<in> set (t_outcomes (tables w')). 0 \<le> oc_volume x \<and> 0 \<le> oc_spreadPercent x \<and> 0 \<le> oc_invalidROIPercent x)"
  by (simp add: updateVolumetrics_def act_simps table_simps firstSupply_def volume_world_sel share_token_def
      sample_market_def exact_env_sel fill_row_def sample_outcome_def Let_def open_world_def insertInto_def
      incrementMarketVolume_def incrementOutcomeVolume_def setMarketLastTrade_def
      updateMarketOpenInterest_def updateCategoryAggregationsOnMarketOpenInterestChanged_def
      reportingStateOf_def volumeForTrade_def bindA_assoc table_constraints volume_world_orders)
   (simp add: volume_world_def empty_db_def)

lemma fill_updates:
  assumes "t_orders (tables w) = [open_order]" "t_markets (tables w) = [m]"
    "t_wcl_profit_loss_timeseries (tables w) = []" "t_outcome_value_timeseries (tables w) = []"
    "t_pending_liquidity_updates (tables w) = []"
    "\<forall>x \<in> set (t_outcomes (tables w)). 0 \<le> oc_volume x \<and> 0 \<le> oc_spreadPercent x \<and> 0 \<le> oc_invalidROIPercent x"
  shows "\<exists>w'. thenA (updateOrder exact_env ''m'' ''o'' 1 (4 / 10) 0 (4 / 10))
      (updateOutcomeValueFromOrders ''m'' 1 ''t5'' 5 0 (4 / 10)) w = (Inr (), w') \<and>
    t_markets (tables w') = [m] \<and> t_wcl_profit_loss_timeseries (tables w') = [] \<and>
    t_pending_liquidity_updates (tables w') = []"
  using assms
  by (simp add: updateOrder_def act_simps table_simps bindA_assoc Let_def table_constraints open_order_def
     updateOutcomeValueFromOrders_def insertInto_def exact_env_sel formatOrderAmount_def
      roundToPrecision_def PRECISION_multiple_def PRECISION_limit_def PRECISION_zero_def
      MINIMUM_TRADE_SIZE_def thenA_def bindA_def list_ex_iff)

lemma fill_profit:
  assumes "t_markets (tables w) = [m]" "mk_marketId m = ''m''" "mk_minPrice m = 0" "mk_maxPrice m = 1"
    "\<forall>r \<in> set (t_wcl_profit_loss_timeseries (tables w)). pl_account r \<noteq> a"
    "a = ''alice'' \<and> d = 1 \<or> a = ''bob'' \<and> d = - 1"
  shows "\<exists>r. updateProfitLoss (\<lambda>a b. a / b) ''m'' d a 1 (4 / 10) ''t5'' 5 0 (Some fill_row) w = (Inr (), with_row r w) \<and>
    pl_account r = a"
proof -
  have l: "latest_row a i p w = None" for i p
    using assms(5) by (simp add: latest_row_def pl_series_def latest_by_def filter_False)
  have f: "find (\<lambda>m. mk_marketId m = ''m'') (t_markets (tables w)) = Some m" by (simp add: assms)
  have d: "d \<noteq> 0" using assms(6) by auto
  show ?thesis
    unfolding updateProfitLoss_run [OF d f] l
    using assms(2-4,6)
    by (auto simp: makeFrozenFundsEvent_def insert_pl next_row_def
        next_average_def same_side_def qty_opened_def fill_row_def)
qed

lemma fill_profits:
  assumes "t_markets (tables w) = [m]" "mk_marketId m = ''m''" "mk_minPrice m = 0" "mk_maxPrice m = 1"
    "t_wcl_profit_loss_timeseries (tables w) = []" "t_pending_liquidity_updates (tables w) = []"
  shows "\<exists>w'. thenA (updateProfitLoss (\<lambda>a b. a / b) ''m'' 1 ''alice'' 1 (4 / 10) ''t5'' 5 0 (Some fill_row))
    (thenA (updateProfitLoss (\<lambda>a b. a / b) ''m'' (- 1) ''bob'' 1 (4 / 10) ''t5'' 5 0 (Some fill_row))
           (pendLiquidityUpdate ''m'')) w = (Inr (), w')"
proof -
  obtain r where r: "updateProfitLoss (\<lambda>a b. a / b) ''m'' 1 ''alice'' 1 (4 / 10) ''t5'' 5 0 (Some fill_row) w = (Inr (), with_row r w)"
    "pl_account r = ''alice''" using fill_profit [of w m "''alice''" 1] assms by auto
  obtain r' where r': "updateProfitLoss (\<lambda>a b. a / b) ''m'' (- 1) ''bob'' 1 (4 / 10) ''t5'' 5 0 (Some fill_row) (with_row r w) =
      (Inr (), with_row r' (with_row r w))"
    using fill_profit [of "with_row r w" m "''bob''" "- 1"] assms r(2) by auto
  have "\<exists>w'. pendLiquidityUpdate ''m'' (with_row r' (with_row r w)) = (Inr (), w')"
    by (simp add: pendLiquidityUpdate_def table_simps act_simps insertInto_def table_constraints assms with_row_def)
  then show ?thesis using r(1) r' by (simp only: thenA_eq_Inr) blast
qed

lemma fill_log_sel:
  "lo_shareToken fill_log = ''yes''" "lo_orderId fill_log = ''o''" "lg_blockNumber fill_log = 5"
  "lg_transactionHash fill_log = ''t5''" "lg_logIndex fill_log = 0"
  by (simp_all add: fill_log_def sample_log_def)

lemma fill_row_sel:
  "td_amount fill_row = 1" "td_price fill_row = 4 / 10" "td_numCreatorShares fill_row = 0"
  "td_numCreatorTokens fill_row = 4 / 10" "td_orderType fill_row = ''buy''" "td_creator fill_row = ''alice''"
  "td_filler fill_row = ''bob''" "td_orderId fill_row = ''o''"
  by (simp_all add: fill_row_def)

lemma open_order_id: "or_orderId open_order = ''o''" by (simp add: open_order_def)

lemma open_world_share: "shareTokenMarket ''yes'' open_world = (Inr (sample_market, 1), open_world)"
  by (simp add: shareTokenMarket_def bindA_assoc table_simps act_simps volume_world_sel share_token_def
      sample_market_book open_world_def)

lemma fill_runs: "\<exists>w'. processOrderFilledLog exact_env fill_log open_world = (Inr (), w')"
proof -
  have share: "bindA (shareTokenMarket ''yes'') f open_world = f (sample_market, 1) open_world"
    for f :: "_ \<Rightarrow> unit action" by (rule bindA_ok) (rule open_world_share)
  have order: "bindA (bindA (first orders (\<lambda>r. or_orderId r = ''o'')) (orThrow e)) g open_world = g open_order open_world" 
     for e and g :: "_ \<Rightarrow> unit action"
    by (simp add: bindA_assoc table_simps act_simps open_world_def) (simp add: open_order_def)
  have m: "mk_finalizationBlockNumber sample_market = None" by (simp add: sample_market_def)
  obtain w1 m' where w1: "thenA (emit ''OrderFilled'' (Some fill_log) (tradeFields fill_row)) (thenA (insertInto trades fill_row)
      (updateVolumetrics exact_env ''m'' 1 5 ''o'' (1 / 10000) True)) open_world = (Inr (), w1)"
    "t_orders (tables w1) = [open_order]" "t_markets (tables w1) = [m']" "mk_marketId m' = ''m''" "mk_minPrice m' = 0" "mk_maxPrice m' = 1"
    "t_wcl_profit_loss_timeseries (tables w1) = []" "t_outcome_value_timeseries (tables w1) = []"
    "t_pending_liquidity_updates (tables w1) = []"
    "\<forall>x \<in> set (t_outcomes (tables w1)). 0 \<le> oc_volume x \<and> 0 \<le> oc_spreadPercent x \<and> 0 \<le> oc_invalidROIPercent x"
    using fill_volumetrics [of "tradeFields fill_row"] by blast
  obtain w2 where w2: "thenA (updateOrder exact_env ''m'' ''o'' 1 (4 / 10) 0 (4 / 10))
      (updateOutcomeValueFromOrders ''m'' 1 ''t5'' 5 0 (4 / 10)) w1 = (Inr (), w2)"
    "t_markets (tables w2) = [m']" "t_wcl_profit_loss_timeseries (tables w2) = []" "t_pending_liquidity_updates (tables w2) = []"
    using fill_updates [OF w1(2,3,7-10)] by blast
  obtain w3 where w3: "thenA (updateProfitLoss (\<lambda>a b. a / b) ''m'' 1 ''alice'' 1 (4 / 10) ''t5'' 5 0 (Some fill_row))
    (thenA (updateProfitLoss (\<lambda>a b. a / b) ''m'' (- 1) ''bob'' 1 (4 / 10) ''t5'' 5 0 (Some fill_row))
           (pendLiquidityUpdate ''m'')) w2 = (Inr (), w3)"
    using fill_profits [OF w2(2) w1(4-6) w2(3,4)] by blast
  have "processOrderFilledLog exact_env fill_log open_world = (Inr (), w3)"
    unfolding processOrderFilledLog_def fill_log_sel share prod.case order Let_def fill_trade sample_tickSize sample_market_book m
      fill_row_sel exact_env_sel
    using w1(1) w2(1) w3 
    by (simp add: thenA_eq_Inr) blast
  then show ?thesis ..
qed

lemma created_world:
  "\<exists>w'. processOrderCreatedLog exact_env order_log volume_world = (Inr (), w') \<and>
    t_orders (tables w') = [open_order] \<and> t_trades (tables w') = []"
proof -
  have c: "tcheck orders open_order" by (simp add: table_constraints open_order_def)
  let ?w = "tput orders [open_order] volume_world"
  have up: "thenA (upsertOrder open_order) n volume_world = n ?w" for n :: "unit action"
    by (rule thenA_ok) (simp add: upsertOrder_def table_simps volume_world_orders insertInto_def c)
  have "\<exists>u. marketPendingOrderbookUpdates open_order ?w = (Inr (), u)"
    by (simp add: marketPendingOrderbookUpdates_def Let_def pendLiquidityUpdate_def table_simps
        volume_world_orders act_simps table_constraints) (simp add: insertInto_def volume_world_orders
        table_constraints)
  then have "\<exists>w'. thenA (marketPendingOrderbookUpdates open_order) (emit ''OrderCreated'' (Some order_log) (orderFields open_order)) ?w =
      (Inr (), w')" by (auto simp: act_simps)
  then obtain w' where w': "thenA (marketPendingOrderbookUpdates open_order)
      (emit ''OrderCreated'' (Some order_log) (orderFields open_order)) ?w = (Inr (), w')" ..
  have "unchanged order_ledger (thenA (marketPendingOrderbookUpdates open_order)
      (emit ''OrderCreated'' (Some order_log) (orderFields open_order)))" by (intro frames)
  then have "order_ledger w' = order_ledger ?w" using w' by (rule unchangedD)
  moreover have "processOrderCreatedLog exact_env order_log volume_world = (Inr (), w')"
    using w' by (simp add: processOrderCreatedLog_def order_log_sel bindA_volume_world_share act_simps created_open_order up)
  ultimately show ?thesis by (auto simp: order_ledger_def volume_world_sel)
qed

theorem orders_add_up_witness:
  "\<exists>w r t. order_reach exact_env w \<and> t_orders (tables w) = [r] \<and> t_trades (tables w) = [t] \<and>
    td_orderId t = or_orderId r \<and> td_amount t = 1 \<and> or_fullPrecisionAmount r = 1"
proof -
  obtain w where w: "processOrderCreatedLog exact_env order_log volume_world = (Inr (), w)"
    "t_orders (tables w) = [open_order]" "t_trades (tables w) = []"
    using created_world by blast
  obtain w' where w': "processOrderFilledLog exact_env fill_log open_world = (Inr (), w')" using fill_runs by blast
  have "order_reach exact_env volume_world"
    by (rule order_reach.start) (simp_all add: volume_world_orders volume_world_sel)
  then have "order_reach exact_env w"
    by (rule order_reach.created [OF _ _ w(1)]) (simp add: volume_world_orders)
  then have "order_reach exact_env open_world"
    by (rule order_reach.elsewhere) (simp add: w order_ledger_def open_world_def volume_world_sel)
  then have r: "order_reach exact_env w'" using w' by (rule order_reach.filled)
  have "orders.valid_table open_world"
    by (simp add: orders.valid_table_def open_world_def) (simp add: table_constraints open_order_def)
  from filled_effect [OF w' this] open_world_share have
    ts: "t_trades (tables w') = [fill_row]" and
    "t_orders (tables w') = onOrder ''o'' (filledBy exact_env 1 0 (4 / 10)) [open_order]"
    by (auto simp: fill_log_sel fill_trade open_world_def volume_world_sel fill_row_sel open_order_id)
  then have os: "\<exists>r. t_orders (tables w') = [r] \<and> or_orderId r = ''o'' \<and> or_originalFullPrecisionAmount r = 2"
    by (simp add: onOrder_def filledBy_def Let_def) (simp add: open_order_def)
  then obtain r where os: "t_orders (tables w') = [r]" "or_orderId r = ''o''" "or_originalFullPrecisionAmount r = 2" by blast
  have "or_fullPrecisionAmount r = 1"
    using orders_add_up [OF r] by (simp add: ts os fill_row_sel)
  then show ?thesis using r ts os by (auto simp: fill_row_sel)
qed

definition cancel_log :: event_log where
  "cancel_log = sample_log\<lparr>lo_orderId := ''o''\<rparr>"

theorem cancel_removal_restores_witness:
  "\<exists>w' w''. processOrderCanceledLog cancel_log book_world = (Inr (), w') \<and>
    processOrderCanceledLogRemoval sample_env cancel_log w' = (Inr (), w'') \<and>
    t_orders (tables w'') = [sample_order]"
proof -
  have id: "lo_orderId cancel_log = ''o''" "or_orderId sample_order = ''o''"
    "or_marketId sample_order = ''m''" "or_orderState sample_order = OPEN"
    by (simp_all add: cancel_log_def sample_order_def)
  have none: "t_orders_canceled (tables book_world) = []"
    by (simp add: book_world_def empty_db_def)
  have chk: "tcheck orders (sample_order\<lparr>or_orderState := s\<rparr>)" for s
    by (simp add: table_constraints sample_order_def)
  have "\<exists>w'. processOrderCanceledLog cancel_log book_world = (Inr (), w')"
    by (simp add: processOrderCanceledLog_def table_simps id none chk book_world_sel bindA_assoc act_simps
        pendLiquidityUpdate_def) (simp add: orders_canceled_def)
  then obtain w' where run: "processOrderCanceledLog cancel_log book_world = (Inr (), w')" ..
  have f: "find (\<lambda>r. or_orderId r = lo_orderId cancel_log) (t_orders (tables book_world)) = Some sample_order"
    by (simp add: book_world_sel id)
  have dv: "bn_division (en_dv sample_env)" using bn.bn_division_axioms by (simp add: sample_env_sel)
  have "ready sample_env book_world (or_marketId sample_order)" using book_world_ready by (simp add: id)
  from cancel_removal_restores [OF dv book_world_valid(3,1,2) f id(4) this run] run
  show ?thesis by (simp add: book_world_sel) blast
qed

definition claim_log :: event_log where
  "claim_log = sample_log\<lparr>lg_transactionHash := ''t9'', lo_market := ''m'', lo_sender := ''carol''\<rparr>"

theorem claim_removal_restores_witness:
  "\<exists>w' w''. processTradingProceedsClaimedLog sample_env claim_log (position_world [yes_payout] 5 (4 / 10)) = (Inr (), w') \<and>
    processTradingProceedsClaimedLogRemoval claim_log w' = (Inr (), w'') \<and>
    t_wcl_profit_loss_timeseries (tables w'') = [position_row 5 (4 / 10)]"
proof -
  let ?w = "position_world [yes_payout] 5 (4 / 10)"
  have log: "lo_market claim_log = ''m''" "lo_sender claim_log = ''carol''"
    "lg_transactionHash claim_log = ''t9''" by (simp_all add: claim_log_def)
  have "t_trading_proceeds (tables ?w) = []"
    by (simp add: position_world_def market_world_def empty_db_def)
  then obtain w1 where 1: "insertInto trading_proceeds (tradingProceedsToInsert claim_log) ?w = (Inr (), w1)"
    and same: "t_wcl_profit_loss_timeseries (tables w1) = [position_row 5 (4 / 10)]"
      "t_payouts (tables w1) = [yes_payout]" "t_markets (tables w1) = [sample_market]"
    by (simp add: insertInto_eq_Inr table_constraints)
  have ins: "thenA (insertInto trading_proceeds (tradingProceedsToInsert claim_log)) n ?w = n w1"
    for n :: "unit action" by (rule thenA_ok) (rule 1)
  have none: "latest_row ''carol'' ''m'' k w1 = None" for k
    by (simp add: latest_row_def same pl_series_def position_row_def latest_by_def)
  have p: "po_marketId yes_payout = ''m''" by (simp add: yes_payout_def)
  have "claimOutcome dv ''m'' ''carol'' h n j tp vs k w1 = (Inr (), w1)" for dv h n j tp vs k
    by (simp add: claimOutcome_def act_simps none)
  then have "forA ks (claimOutcome dv ''m'' ''carol'' h n j tp vs) w1 = (Inr (), w1)" for dv h n j tp vs ks
    by (induction ks) (simp_all add: act_simps)
  then have "updateProfitLossClaimProceeds dv ''m'' ''carol'' h n j w1 = (Inr (), w1)" for dv h n j
    by (simp add: updateProfitLossClaimProceeds_def payoutAndMarket_def bindA_assoc table_simps same p
        sample_market_book act_simps Let_def del: upt_Suc)
  then have cl: "thenA (updateProfitLossClaimProceeds dv ''m'' ''carol'' h n j) k w1 = k w1"
    for dv h n j and k :: "unit action" by (rule thenA_ok)
  have "\<exists>w'. processTradingProceedsClaimedLog sample_env claim_log ?w = (Inr (), w')"
    unfolding processTradingProceedsClaimedLog_def ins log cl by (simp add: act_simps)
  then obtain w' where run: "processTradingProceedsClaimedLog sample_env claim_log ?w = (Inr (), w')" ..
  have "list_all (\<lambda>r. pl_transactionHash r \<noteq> lg_transactionHash claim_log) (t_wcl_profit_loss_timeseries (tables ?w))"
    by (simp add: log position_row_def)
  from claim_removal_restores [OF run this] run show ?thesis by simp blast
qed

end
