(* ===== verification/Process_Logs.thy ===== *)
theory Process_Logs
  imports Market_Lifecycle Tokens Orders
begin

text \<open>
  From a log to the change of the database it stands for: \<open>src/blockchain/process-logs.ts\<close> and the table
  of processors in \<open>src/blockchain/log-processors/index.ts\<close>.

  A processor first makes its calls to the contracts, which may fail, and gives the action to run in
  the transaction of the block. The result type keeps the two apart.
\<close>

section \<open>The table of processors\<close>

type_synonym processor = "env \<Rightarrow> event_log \<Rightarrow> unit action result"

record event_log_processor =
  pr_add :: processor
  pr_remove :: processor
  pr_noAutoEmit :: bool

text \<open>Processors that make no calls.\<close>

definition calls_nothing :: "(env \<Rightarrow> event_log \<Rightarrow> unit action) \<Rightarrow> processor" where
  "calls_nothing f env l = Inr (f env l)"

definition reads_log :: "(event_log \<Rightarrow> unit action) \<Rightarrow> processor" where
  "reads_log f env l = Inr (f l)"

definition noop :: processor where
  "noop env l = Inr (return ())"

definition passThroughLog :: event_log_processor where
  "passThroughLog = \<lparr>pr_add = noop, pr_remove = noop, pr_noAutoEmit = False\<rparr>"

definition augurProcessors :: "(string \<times> event_log_processor) list" where
  "augurProcessors =
    [(''FeeWindowCreated'', \<lparr>pr_add = processFeeWindowCreatedLog,
        pr_remove = reads_log processFeeWindowCreatedLogRemoval, pr_noAutoEmit = True\<rparr>),
     (''InitialReportSubmitted'', \<lparr>pr_add = processInitialReportSubmittedLog,
        pr_remove = calls_nothing processInitialReportSubmittedLogRemoval, pr_noAutoEmit = True\<rparr>),
     (''InitialReporterRedeemed'', \<lparr>pr_add = reads_log processInitialReporterRedeemedLog,
        pr_remove = reads_log processInitialReporterRedeemedLogRemoval, pr_noAutoEmit = True\<rparr>),
     (''InitialReporterTransferred'', \<lparr>pr_add = reads_log processInitialReporterTransferredLog,
        pr_remove = reads_log processInitialReporterTransferredLogRemoval, pr_noAutoEmit = True\<rparr>),
     (''MarketCreated'', \<lparr>pr_add = processMarketCreatedLog,
        pr_remove = reads_log processMarketCreatedLogRemoval, pr_noAutoEmit = True\<rparr>),
     (''MarketMailboxTransferred'', \<lparr>pr_add = reads_log processMarketMailboxTransferredLog,
        pr_remove = reads_log processMarketMailboxTransferredLogRemoval, pr_noAutoEmit = False\<rparr>),
     (''MarketMigrated'', \<lparr>pr_add = calls_nothing processMarketMigratedLog,
        pr_remove = reads_log processMarketMigratedLogRemoval, pr_noAutoEmit = False\<rparr>),
     (''MarketFinalized'', \<lparr>pr_add = calls_nothing processMarketFinalizedLog,
        pr_remove = calls_nothing processMarketFinalizedLogRemoval, pr_noAutoEmit = False\<rparr>),
     (''OrderCanceled'', \<lparr>pr_add = reads_log processOrderCanceledLog,
        pr_remove = calls_nothing processOrderCanceledLogRemoval, pr_noAutoEmit = True\<rparr>),
     (''OrderCreated'', \<lparr>pr_add = calls_nothing processOrderCreatedLog,
        pr_remove = calls_nothing processOrderCreatedLogRemoval, pr_noAutoEmit = True\<rparr>),
     (''OrderFilled'', \<lparr>pr_add = calls_nothing processOrderFilledLog,
        pr_remove = calls_nothing processOrderFilledLogRemoval, pr_noAutoEmit = True\<rparr>),
     (''DisputeCrowdsourcerCreated'', \<lparr>pr_add = reads_log processDisputeCrowdsourcerCreatedLog,
        pr_remove = reads_log processDisputeCrowdsourcerCreatedLogRemoval, pr_noAutoEmit = True\<rparr>),
     (''DisputeCrowdsourcerContribution'', \<lparr>pr_add = reads_log processDisputeCrowdsourcerContributionLog,
        pr_remove = reads_log processDisputeCrowdsourcerContributionLogRemoval, pr_noAutoEmit = True\<rparr>),
     (''DisputeCrowdsourcerCompleted'', \<lparr>pr_add = calls_nothing processDisputeCrowdsourcerCompletedLog,
        pr_remove = calls_nothing processDisputeCrowdsourcerCompletedLogRemoval, pr_noAutoEmit = True\<rparr>),
     (''ReportingParticipantDisavowed'', \<lparr>pr_add = reads_log processReportingParticipantDisavowedLog,
        pr_remove = reads_log processReportingParticipantDisavowedLogRemoval, pr_noAutoEmit = True\<rparr>),
     (''TokensBurned'', \<lparr>pr_add = calls_nothing processBurnLog,
        pr_remove = calls_nothing processBurnLogRemoval, pr_noAutoEmit = True\<rparr>),
     (''TokensMinted'', \<lparr>pr_add = calls_nothing processMintLog,
        pr_remove = calls_nothing processMintLogRemoval, pr_noAutoEmit = False\<rparr>),
     (''TokensTransferred'', \<lparr>pr_add = calls_nothing processTokensTransferredLog,
        pr_remove = calls_nothing processTokensTransferredLogRemoval, pr_noAutoEmit = True\<rparr>),
     (''TradingProceedsClaimed'', \<lparr>pr_add = calls_nothing processTradingProceedsClaimedLog,
        pr_remove = reads_log processTradingProceedsClaimedLogRemoval, pr_noAutoEmit = True\<rparr>),
     (''UniverseCreated'', \<lparr>pr_add = processUniverseCreatedLog,
        pr_remove = reads_log processUniverseCreatedLogRemoval, pr_noAutoEmit = True\<rparr>),
     (''UniverseForked'', \<lparr>pr_add = processUniverseForkedLog,
        pr_remove = reads_log processUniverseForkedLogRemoval, pr_noAutoEmit = False\<rparr>),
     (''FeeWindowRedeemed'', \<lparr>pr_add = reads_log processFeeWindowRedeemedLog,
        pr_remove = reads_log processFeeWindowRedeemedLogRemoval, pr_noAutoEmit = True\<rparr>),
     (''DisputeCrowdsourcerRedeemed'', \<lparr>pr_add = reads_log processDisputeCrowdsourcerRedeemedLog,
        pr_remove = reads_log processDisputeCrowdsourcerRedeemedLogRemoval, pr_noAutoEmit = True\<rparr>),
     (''TimestampSet'', \<lparr>pr_add = reads_log processTimestampSetLog,
        pr_remove = reads_log processTimestampSetLogRemoval, pr_noAutoEmit = False\<rparr>),
     (''CompleteSetsPurchased'', \<lparr>pr_add = calls_nothing processCompleteSetsPurchasedOrSoldLog,
        pr_remove = calls_nothing processCompleteSetsPurchasedOrSoldLogRemoval, pr_noAutoEmit = True\<rparr>),
     (''CompleteSetsSold'', \<lparr>pr_add = calls_nothing processCompleteSetsPurchasedOrSoldLog,
        pr_remove = calls_nothing processCompleteSetsPurchasedOrSoldLogRemoval, pr_noAutoEmit = True\<rparr>),
     (''MarketParticipantsDisavowed'', \<lparr>pr_add = reads_log processMarketParticipantsDisavowedLog,
        pr_remove = reads_log processMarketParticipantsDisavowedLogRemoval, pr_noAutoEmit = False\<rparr>)]"

definition legacyReputationTokenProcessors :: "(string \<times> event_log_processor) list" where
  "legacyReputationTokenProcessors = map (\<lambda>n. (n, passThroughLog))
    [''Transfer'', ''Approval'', ''Mint'', ''FundedAccount'', ''Pause'', ''Unpause'']"

definition cashProcessors :: "(string \<times> event_log_processor) list" where
  "cashProcessors =
    [(''Transfer'', \<lparr>pr_add = calls_nothing processTokensTransferredLog,
        pr_remove = calls_nothing processTokensTransferredLogRemoval, pr_noAutoEmit = False\<rparr>),
     (''Approval'', \<lparr>pr_add = reads_log processApprovalLog,
        pr_remove = reads_log processApprovalLogRemoval, pr_noAutoEmit = True\<rparr>),
     (''Mint'', \<lparr>pr_add = calls_nothing processMintLog,
        pr_remove = calls_nothing processMintLogRemoval, pr_noAutoEmit = False\<rparr>),
     (''Burn'', \<lparr>pr_add = calls_nothing processBurnLog,
        pr_remove = calls_nothing processBurnLogRemoval, pr_noAutoEmit = True\<rparr>)]"

definition logProcessors :: "(string \<times> (string \<times> event_log_processor) list) list" where
  "logProcessors = [(''Augur'', augurProcessors),
     (''LegacyReputationToken'', legacyReputationTokenProcessors), (''Cash'', cashProcessors)]"

text \<open>The contracts and the events the node subscribes to.\<close>

definition eventsToSubscribe :: "(string \<times> string list) list" where
  "eventsToSubscribe = map (\<lambda>(contract, es). (contract, map fst es)) logProcessors"

definition processorOf :: "event_log \<Rightarrow> event_log_processor option" where
  "processorOf l = Option.bind (map_of logProcessors (lg_contractName l))
     (\<lambda>contractProcessors. map_of contractProcessors (lg_eventName l))"

section \<open>Processing a log\<close>

definition processLog :: "env \<Rightarrow> event_log \<Rightarrow> event_log_processor \<Rightarrow> unit action result" where
  "processLog env l p = (if \<not> lg_removed l then pr_add p else pr_remove p) env l"

definition subscriptionEventNames :: "string list" where
  "subscriptionEventNames =
    [''FeeWindowOpened'', ''CompleteSetsPurchased'', ''CompleteSetsSold'', ''DisputeCrowdsourcerCompleted'',
     ''DisputeCrowdsourcerContribution'', ''DisputeCrowdsourcerCreated'', ''DisputeCrowdsourcerRedeemedLog'',
     ''FeeWindowClosed'', ''FeeWindowCreated'', ''FeeWindowRedeemed'', ''InitialReportSubmitted'',
     ''InitialReporterRedeemed'', ''InitialReporterTransferred'', ''MarketCreated'', ''MarketFinalized'',
     ''MarketMigrated'', ''MarketState'', ''OrderCanceled'', ''OrderCreated'', ''OrderFilled'',
     ''ReportingParticipantDisavowed'', ''SyncFinished'', ''TokensTransferred'', ''TradingProceedsClaimed'',
     ''UniverseCreated'', ''Burn'', ''TokensBurned'', ''Approval'']"

text \<open>An event name that is not in the enumeration is emitted as \<open>undefined\<close>.\<close>

definition emittedName :: "string \<Rightarrow> string" where
  "emittedName eventName = (if eventName \<in> set subscriptionEventNames then eventName else ''undefined'')"

text \<open>\<open>None\<close>: there is no processor for the log.\<close>

definition processLogByName :: "env \<Rightarrow> event_log \<Rightarrow> bool \<Rightarrow> unit action result option action" where
  "processLogByName env l emitEvent =
     (case processorOf l of
        None \<Rightarrow> return None
      | Some logProcessor \<Rightarrow>
          thenA (whenA (emitEvent \<and> \<not> pr_noAutoEmit logProcessor)
                   (emit (emittedName (lg_eventName l)) (Some l) []))
                (return (Some (processLog env l logProcessor))))"

text \<open>The processors of some logs, in order; logs without a processor are dropped.\<close>

primrec processLogsByName :: "env \<Rightarrow> bool \<Rightarrow> event_log list \<Rightarrow> unit action result list action" where
  "processLogsByName env emitEvent [] = return []"
| "processLogsByName env emitEvent (l # ls) =
     bindA (processLogByName env l emitEvent) (\<lambda>p.
     bindA (processLogsByName env emitEvent ls) (\<lambda>ps.
     return (case p of None \<Rightarrow> ps | Some x \<Rightarrow> x # ps)))"

text \<open>\<open>Promise.all\<close>; of several failures, the first in the order of the logs.\<close>

definition promiseAll :: "'a result list \<Rightarrow> 'a list result" where
  "promiseAll ps = mapE (\<lambda>p. p) ps"

definition runWrites :: "unit action list \<Rightarrow> unit action" where
  "runWrites dbWriteFunctions = forA dbWriteFunctions (\<lambda>dbWriteFunction. dbWriteFunction)"

section \<open>Every processor keeps the market states\<close>

text \<open>The operations on balances, orders, volumes and profits do not write the states.\<close>

lemma token_ops_kept [kept]:
  "preserves ready_states (increaseTokenBalance env a o1 x)" "preserves ready_states (decreaseTokenBalance env a o1 x)"
  "preserves ready_states (increaseTokenSupply a x)" "preserves ready_states (decreaseTokenSupply a x)"
  "preserves ready_states (updateProfitLossRemoveRow h)"
  unfolding increaseTokenBalance_def decreaseTokenBalance_def increaseTokenSupply_def decreaseTokenSupply_def
    updateProfitLossRemoveRow_def
  by ((intro kept | simp)+)

lemma token_logs_kept [kept]:
  "preserves ready_states (processMintLog env l)" "preserves ready_states (processMintLogRemoval env l)"
  "preserves ready_states (processBurnLog env l)" "preserves ready_states (processBurnLogRemoval env l)"
  "preserves ready_states (processTokensTransferredLog env l)"
  "preserves ready_states (processTokensTransferredLogRemoval env l)"
  "preserves ready_states (processApprovalLog l)" "preserves ready_states (processApprovalLogRemoval l)"
  unfolding processMintLog_def processMintLogRemoval_def processBurnLog_def processBurnLogRemoval_def
    processTokensTransferredLog_def processTokensTransferredLogRemoval_def processApprovalLog_def
    processApprovalLogRemoval_def Let_def
  by ((intro kept | simp)+)

lemma volume_ops_kept [kept]:
  "preserves ready_states (updateMarketOpenInterest env a)"
  "preserves ready_states (updateVolumetrics env a i b h t inc)"
  unfolding updateVolumetrics_def updateMarketOpenInterest_def firstSupply_def incrementMarketVolume_def
    incrementOutcomeVolume_def setMarketLastTrade_def updateCategoryAggregationsOnMarketOpenInterestChanged_def Let_def
  by ((intro kept | simp)+)

lemma profit_ops_kept [kept]:
  "preserves ready_states (updateProfitLoss dv a d acc i p h b n t)"
  "preserves ready_states (updateProfitLossClaimProceeds dv a acc h b n)"
  "preserves ready_states (updateOutcomeValueFromOrders a i h b n v)"
  unfolding updateProfitLossClaimProceeds_def claimOutcome_def payoutAndMarket_def updateProfitLoss_def
    latestProfitLoss_def updateOutcomeValueFromOrders_def Let_def
  by ((intro kept | simp)+)

lemma liquidity_kept [kept]: "preserves ready_states (updateLiquidityMetricsForMarketAndOutcomes env a)"
  unfolding updateLiquidityMetricsForMarketAndOutcomes_def getMarketOrderBooks_def updateOutcomeMetrics_def
    updateOutcomesLiquidity_def Let_def
  by ((intro kept | simp)+)

lemma pending_kept [kept]:
  "preserves ready_states (pendLiquidityUpdate a)" "preserves ready_states (marketPendingOrderbookUpdates r)"
  "preserves ready_states (shareTokenMarket a)" "preserves ready_states (upsertOrder r)"
  "preserves ready_states (updateOrder env a h x p n t)"
  unfolding pendLiquidityUpdate_def marketPendingOrderbookUpdates_def shareTokenMarket_def upsertOrder_def
    updateOrder_def Let_def
  by ((intro kept | simp)+)

lemma order_logs_kept [kept]:
  "preserves ready_states (processOrderCreatedLog env l)" "preserves ready_states (processOrderCreatedLogRemoval env l)"
  "preserves ready_states (processOrderCanceledLog l)" "preserves ready_states (processOrderCanceledLogRemoval env l)"
  "preserves ready_states (processOrderFilledLog env l)" "preserves ready_states (processOrderFilledLogRemoval env l)"
  "preserves ready_states (processCompleteSetsPurchasedOrSoldLog env l)"
  "preserves ready_states (processCompleteSetsPurchasedOrSoldLogRemoval env l)"
  "preserves ready_states (processTradingProceedsClaimedLog env l)"
  "preserves ready_states (processTradingProceedsClaimedLogRemoval l)"
  unfolding processOrderCreatedLog_def processOrderCreatedLogRemoval_def processOrderCanceledLog_def
    processOrderCanceledLogRemoval_def processOrderFilledLog_def processOrderFilledLogRemoval_def
    processCompleteSetsPurchasedOrSoldLog_def processCompleteSetsPurchasedOrSoldLogRemoval_def
    processTradingProceedsClaimedLog_def processTradingProceedsClaimedLogRemoval_def removeOutcomeValue_def Let_def
  by ((intro kept | simp)+)

section \<open>Invariants of the logs\<close>

text \<open>
  What every processor of the table keeps when it returns, and no event touches, holds after the writes
  of any logs. A processor that throws may leave it broken: its transaction is then undone.
\<close>

definition processor_keeps :: "(world \<Rightarrow> bool) \<Rightarrow> processor \<Rightarrow> bool" where
  "processor_keeps P f \<longleftrightarrow> (\<forall>env l m. f env l = Inr m \<longrightarrow> returns_with P m)"

definition table_keeps :: "(world \<Rightarrow> bool) \<Rightarrow> (string \<times> event_log_processor) list \<Rightarrow> bool" where
  "table_keeps P es \<longleftrightarrow>
     list_all (\<lambda>p. processor_keeps P (pr_add p) \<and> processor_keeps P (pr_remove p)) (map snd es)"

lemma processor_keepsI:
  "(\<And>env l. returns_with P (f env l)) \<Longrightarrow> processor_keeps P (calls_nothing f)"
  "(\<And>l. returns_with P (g l)) \<Longrightarrow> processor_keeps P (reads_log g)"
  "processor_keeps P noop"
  by (auto simp: processor_keeps_def calls_nothing_def reads_log_def noop_def
      intro: preserves_returns preserves_pure)

locale log_invariant =
  fixes P :: "world \<Rightarrow> bool"
  assumes emitted: "P w \<Longrightarrow> P (w\<lparr>emitted := ev\<rparr>)"
    and tables_keep: "list_all (table_keeps P) (map snd logProcessors)"
begin

lemma processLog_keeps:
  assumes "processorOf l = Some p" "processLog env l p = Inr m"
  shows "returns_with P m"
proof -
  obtain es where es: "map_of logProcessors (lg_contractName l) = Some es" "map_of es (lg_eventName l) = Some p"
    using assms(1) by (auto simp: processorOf_def bind_eq_Some_conv)
  have "table_keeps P es"
    using tables_keep map_of_SomeD [OF es(1)] by (force simp: list_all_iff)
  then have "processor_keeps P (pr_add p)" "processor_keeps P (pr_remove p)"
    using map_of_SomeD [OF es(2)] by (auto simp: table_keeps_def list_all_iff)
  then show ?thesis
    using assms(2) by (auto simp: processLog_def processor_keeps_def split: if_splits)
qed

lemma processLogByName_keeps:
  assumes "processLogByName env l b w = (Inr r, w')"
  shows "P w \<Longrightarrow> P w'" "r = Some (Inr m) \<Longrightarrow> returns_with P m"
  using assms processLog_keeps [of l]
  by (auto simp: processLogByName_def return_app act_simps whenA_def emitted split: option.splits if_splits)

lemma processLogsByName_keeps:
  assumes "processLogsByName env b ls w = (Inr ps, w')"
  shows "P w \<Longrightarrow> P w'" "Inr m \<in> set ps \<Longrightarrow> returns_with P m"
  using assms
proof (induction ls arbitrary: w w' ps)
  case Nil
  {
    case 1
    then show ?case by (simp add: return_app)
  next
    case 2
    then show ?case by (simp add: return_app)
  }
next
  case (Cons l ls)
  have run: "\<exists>p w1 qs. processLogByName env l b w = (Inr p, w1) \<and> processLogsByName env b ls w1 = (Inr qs, w') \<and>
      ps = (case p of None \<Rightarrow> qs | Some x \<Rightarrow> x # qs)"
    if "processLogsByName env b (l # ls) w = (Inr ps, w')" for w w' ps
    using that by (auto simp: bindA_eq_Inr return_app)
  {
    case 1
    then show ?case using run [OF 1(2)] processLogByName_keeps(1) Cons.IH(1) by blast
  next
    case 2
    obtain p w1 qs where p: "processLogByName env l b w = (Inr p, w1)" "processLogsByName env b ls w1 = (Inr qs, w')"
      "ps = (case p of None \<Rightarrow> qs | Some x \<Rightarrow> x # qs)"
      using run [OF 2(2)] by blast
    then show ?case
      using processLogByName_keeps(2) [OF p(1)] Cons.IH(2) [OF _ p(2)] 2(1) by (auto split: option.splits)
  }
qed

lemma writes_keep:
  assumes "promiseAll ps = Inr ms" "\<And>m. Inr m \<in> set ps \<Longrightarrow> returns_with P m"
  shows "\<forall>m \<in> set ms. returns_with P m"
  using assms
proof (induction ps arbitrary: ms)
  case (Cons p ps)
  then show ?case by (cases p) (auto simp: promiseAll_def bindE_eq_Inr)
qed (simp add: promiseAll_def)

lemma runWrites_keeps:
  assumes "processLogsByName env b ls w = (Inr ps, w')" "promiseAll ps = Inr ms"
  shows "returns_with P (runWrites ms)"
  using writes_keep [OF assms(2) processLogsByName_keeps(2) [OF assms(1)]]
  by (auto simp: runWrites_def intro!: returns_with_forA)

end

text \<open>Collecting the processors of some logs never throws, and changes nothing but the events.\<close>

lemma processLogByName_run:
  "\<exists>r ev. processLogByName env l b w = (Inr r, w\<lparr>emitted := ev\<rparr>) \<and> (\<not> b \<longrightarrow> ev = emitted w)"
  by (cases "processorOf l") (auto simp: processLogByName_def act_simps return_app whenA_def intro: exI [of _ "emitted w"])

lemma processLogsByName_run:
  "\<exists>ps ev. processLogsByName env b ls w = (Inr ps, w\<lparr>emitted := ev\<rparr>) \<and> (\<not> b \<longrightarrow> ev = emitted w)"
proof (induction ls arbitrary: w)
  case Nil
  have "processLogsByName env b [] w = (Inr [], w\<lparr>emitted := emitted w\<rparr>)" by (simp add: return_app)
  then show ?case by blast
next
  case (Cons l ls)
  obtain r ev where r: "processLogByName env l b w = (Inr r, w\<lparr>emitted := ev\<rparr>)" "\<not> b \<longrightarrow> ev = emitted w"
    using processLogByName_run by blast
  obtain ps ev' where ps: "processLogsByName env b ls (w\<lparr>emitted := ev\<rparr>) = (Inr ps, w\<lparr>emitted := ev'\<rparr>)"
    "\<not> b \<longrightarrow> ev' = ev"
    using Cons.IH [of "w\<lparr>emitted := ev\<rparr>"] by auto
  have "processLogsByName env b (l # ls) w =
      (Inr (case r of None \<Rightarrow> ps | Some x \<Rightarrow> x # ps), w\<lparr>emitted := ev'\<rparr>)"
    by (simp add: bindA_def return_app r(1) ps(1))
  then show ?case using r(2) ps(2) by blast
qed

text \<open>The consistency of the market states is such an invariant.\<close>

lemmas logs_return_with =
  token_logs_kept [THEN preserves_returns] order_logs_kept [THEN preserves_returns]
  crowdsourcer_logs_kept [THEN preserves_returns] report_logs_kept [THEN preserves_returns]
  window_logs_kept [THEN preserves_returns] market_logs_kept [THEN preserves_returns]
  universe_logs_kept [THEN preserves_returns]

lemma create_logs_kept:
  "processor_keeps ready_states processFeeWindowCreatedLog"
  "processor_keeps ready_states processInitialReportSubmittedLog"
  "processor_keeps ready_states processMarketCreatedLog"
  "processor_keeps ready_states processUniverseCreatedLog"
  "processor_keeps ready_states processUniverseForkedLog"
  using logs_return_with createMarket_kept
  by (auto simp: processor_keeps_def bindE_eq_Inr processFeeWindowCreatedLog_def
      processInitialReportSubmittedLog_def processMarketCreatedLog_def processUniverseCreatedLog_def
      processUniverseForkedLog_def)

interpretation states_kept: log_invariant ready_states
proof
  show "ready_states (w\<lparr>emitted := ev\<rparr>)" if "ready_states w" for w ev using that by simp
  show "list_all (table_keeps ready_states) (map snd logProcessors)"
    unfolding logProcessors_def augurProcessors_def legacyReputationTokenProcessors_def cashProcessors_def
      table_keeps_def list.map snd_conv list.pred_inject passThroughLog_def event_log_processor.simps
    by (intro conjI create_logs_kept processor_keepsI list.pred_inject(1) logs_return_with market_removed_kept)
qed

end
