(* ===== verification/Process_Block.thy ===== *)
theory Process_Block
  imports Process_Logs
begin

text \<open>
  A block and its logs as one transaction: \<open>src/blockchain/process-block.ts\<close> without the passing of time,
  which is \<open>Advance_Time\<close>, and the bulk download of \<open>src/blockchain/download-augur-logs.ts\<close>.

  Numbers and times of blocks are the values of the hexadecimal quantities of the node. Writing the warp
  sync file after a block and the log messages are left out.
\<close>

section \<open>Processing a block\<close>

record block_detail =
  bd_number :: int
  bd_hash :: string
  bd_timestamp :: "int option"

datatype BlockDirection = Add | Remove

text \<open>A block that is missing, or has no timestamp, is refused.\<close>

definition timedBlock :: "block_detail option \<Rightarrow> (block_detail \<times> int) option" where
  "timedBlock block = Option.bind block (\<lambda>b. map_option (Pair b) (bd_timestamp b))"

definition insertBlockRow :: "int \<Rightarrow> string \<Rightarrow> bool \<Rightarrow> int \<Rightarrow> unit action" where
  "insertBlockRow blockNumber blockHash bulkSync timestamp =
     bindA (select blocks (\<lambda>b. bk_blockNumber b = blockNumber)) (\<lambda>blocksRows.
     if blocksRows = []
     then insertInto blocks \<lparr>bk_blockNumber = blockNumber, bk_blockHash = blockHash,
            bk_timestamp = timestamp, bk_bulkSync = bulkSync\<rparr>
     else update blocks (\<lambda>b. bk_blockNumber b = blockNumber)
            (\<lambda>b. b\<lparr>bk_blockHash := blockHash, bk_timestamp := timestamp, bk_bulkSync := bulkSync\<rparr>))"

definition processBlockByBlockDetails :: "env \<Rightarrow> block_detail option \<Rightarrow> bool \<Rightarrow> unit action" where
  "processBlockByBlockDetails env block bulkSync =
     bindA (orThrow (Thrown ''block without timestamp'') (timedBlock block)) (\<lambda>(b, time).
     thenA (modify (\<lambda>w. w\<lparr>blockHeadTimestamp := time\<rparr>))
    (bindA (gets getCurrentTime) (\<lambda>timestamp.
     thenA (insertBlockRow (bd_number b) (bd_hash b) bulkSync timestamp)
           (advanceTime env (bd_number b) timestamp))))"

definition insertTransactionHash :: "int \<Rightarrow> bytes32 option \<Rightarrow> unit action" where
  "insertTransactionHash blockNumber transactionHash =
     bindA (orThrow (Thrown ''Received null transactionHash from getLogs request'') transactionHash) (\<lambda>h.
     bindA (select transactionHashes (\<lambda>r. th_transactionHash r = h)) (\<lambda>txHashRows.
     if txHashRows = []
     then insertInto transactionHashes
            \<lparr>th_transactionHash = h, th_blockNumber = blockNumber, th_removed = False\<rparr>
     else return ()))"

definition blockTransaction ::
  "env \<Rightarrow> BlockDirection \<Rightarrow> block_detail option \<Rightarrow> bool \<Rightarrow> unit action list \<Rightarrow> unit action" where
  "blockTransaction env direction block bulkSync dbWriteFunctions = transaction
     (case direction of
        Add \<Rightarrow> thenA (processBlockByBlockDetails env block bulkSync) (runWrites dbWriteFunctions)
      | Remove \<Rightarrow>
          bindA (orThrow (JsTypeError ''block is undefined'') block) (\<lambda>b.
          thenA (runWrites dbWriteFunctions)
         (thenA (update transactionHashes (\<lambda>r. th_blockNumber r = bd_number b)
                   (\<lambda>r. r\<lparr>th_removed := True\<rparr>))
                (delete blocks (\<lambda>r. bk_blockHash r = bd_hash b)))))"

text \<open>The logs of a removed block may never have been announced.\<close>

definition processBlockAndLogs ::
  "env \<Rightarrow> BlockDirection \<Rightarrow> block_detail option \<Rightarrow> bool \<Rightarrow> event_log list option \<Rightarrow> unit action" where
  "processBlockAndLogs env direction block bulkSync logs =
     bindA (orThrow (Thrown ''block without timestamp'') (timedBlock block)) (\<lambda>_.
     bindA (orThrow (JsTypeError ''logs is undefined'') logs) (\<lambda>ls.
     bindA (processLogsByName env True ls) (\<lambda>dbWritePromises.
     bindA (liftR (promiseAll dbWritePromises)) (\<lambda>dbWriteFunctions.
     thenA (blockTransaction env direction block bulkSync dbWriteFunctions)
    (thenA (checkOrphanedOrders env)
           (checkMarketLiquidityUpdates env))))))"

section \<open>The bulk download\<close>

text \<open>\<open>_.uniq\<close> keeps the first of equal values.\<close>

definition uniq :: "'a list \<Rightarrow> 'a list" where
  "uniq xs = rev (remdups (rev xs))"

definition extractBlockNumbers :: "event_log list \<Rightarrow> int list" where
  "extractBlockNumbers batchOfAugurLogs = uniq (map lg_blockNumber batchOfAugurLogs)"

definition getBlockNumbersInRange :: "int \<Rightarrow> int \<Rightarrow> int list" where
  "getBlockNumbersInRange fromBlock toBlock = uniq [fromBlock, (fromBlock + toBlock) div 2, toBlock]"

definition fetchAllBlockDetails ::
  "(int \<Rightarrow> block_detail option result) \<Rightarrow> int list \<Rightarrow> (int \<Rightarrow> block_detail option) result" where
  "fetchAllBlockDetails getBlockByNumber blockNumbers =
     bindE (mapE (\<lambda>n. case getBlockByNumber n of
                Inl _ \<Rightarrow> Inl (Thrown ''Could not get block'')
              | Inr None \<Rightarrow> Inl (Thrown ''Block returned null response'')
              | Inr (Some b) \<Rightarrow> Inr (n, b)) blockNumbers) (\<lambda>blockDetails.
     Inr (map_of (rev blockDetails)))"

definition processBulkBlock ::
  "env \<Rightarrow> event_log list \<Rightarrow> (int \<Rightarrow> block_detail option) \<Rightarrow> int \<Rightarrow> unit action" where
  "processBulkBlock env allAugurLogs blockDetailsByBlock blockNumber =
     (let logs = filter (\<lambda>l. lg_blockNumber l = blockNumber) allAugurLogs in
      if logs = [] then return ()
      else bindA (processLogsByName env False logs) (\<lambda>dbWritePromises.
        bindA (liftR (promiseAll dbWritePromises)) (\<lambda>dbWriteFunctions.
        transaction
          (thenA (processBlockByBlockDetails env (blockDetailsByBlock blockNumber) True)
          (thenA (forA logs (\<lambda>l. insertTransactionHash blockNumber (Some (lg_transactionHash l))))
                 (runWrites dbWriteFunctions))))))"

definition processBatchOfLogs ::
  "env \<Rightarrow> event_log list \<Rightarrow> int list \<Rightarrow> (int \<Rightarrow> block_detail option) \<Rightarrow> unit action" where
  "processBatchOfLogs env allAugurLogs blockNumbers blockDetailsByBlock =
     forA blockNumbers (processBulkBlock env allAugurLogs blockDetailsByBlock)"

text \<open>
  A batch: its logs, if the request gave any answer, and the range of its blocks. The queue runs the
  batches one after the other and stops at the first failure; \<open>finish\<close> is what the event stream
  reports at its end.
\<close>

type_synonym log_batch = "event_log list option \<times> int \<times> int"

definition processBatch :: "env \<Rightarrow> (int \<Rightarrow> block_detail option result) \<Rightarrow> log_batch \<Rightarrow> unit action" where
  "processBatch env getBlockByNumber = (\<lambda>(batchOfAugurLogs, fromBlock, toBlock).
     case batchOfAugurLogs of
       None \<Rightarrow> return ()
     | Some logs \<Rightarrow>
         let blockNumbers = (if logs \<noteq> [] then extractBlockNumbers logs
                             else getBlockNumbersInRange fromBlock toBlock) in
         bindA (liftR (fetchAllBlockDetails getBlockByNumber blockNumbers)) (\<lambda>blockDetailsByBlock.
         processBatchOfLogs env logs blockNumbers blockDetailsByBlock))"

definition downloadAugurLogs ::
  "env \<Rightarrow> (int \<Rightarrow> block_detail option result) \<Rightarrow> log_batch list \<Rightarrow> unit result \<Rightarrow> unit action" where
  "downloadAugurLogs env getBlockByNumber batches finish =
     thenA (forA batches (processBatch env getBlockByNumber)) (liftR finish)"

section \<open>What blocks keep\<close>

text \<open>
  An invariant of the logs that only depends on the tables, and that the queries on the blocks and the
  passing of time keep, is kept by every block, also by one that fails: its transaction is undone.
\<close>

locale block_invariant = log_invariant +
  assumes tables_only: "P w \<Longrightarrow> P (w'\<lparr>tables := tables w\<rparr>)"
    and block_rows: "preserves P (insertBlockRow n h b t)" "preserves P (insertTransactionHash n x)"
      "preserves P (update transactionHashes Q g)" "preserves P (delete blocks R)"
    and time: "preserves P (advanceTime env n t)"
    and checks: "preserves P (checkOrphanedOrders env)" "preserves P (checkMarketLiquidityUpdates env)"
begin

lemma transaction_keeps:
  assumes "returns_with P m"
  shows "preserves P (transaction m)"
proof (rule preservesI)
  fix w r w'
  assume w: "P w" and run: "transaction m w = (r, w')"
  obtain x v where v: "m w = (x, v)" by (cases "m w")
  show "P w'"
    using run v w returns_withD [OF assms w] tables_only [OF w, of v]
    by (cases x) (auto simp: transaction_def)
qed

lemma details_keep: "preserves P (processBlockByBlockDetails env block b)"
proof -
  have "preserves P (modify (\<lambda>w. w\<lparr>blockHeadTimestamp := t\<rparr>))" for t
  proof (rule preserves_modify)
    fix w assume "P w"
    then show "P (w\<lparr>blockHeadTimestamp := t\<rparr>)"
      using tables_only [of w "w\<lparr>blockHeadTimestamp := t\<rparr>"] by simp
  qed
  then show ?thesis
    unfolding processBlockByBlockDetails_def by (intro kept block_rows time)
qed

text \<open>Whatever is done with the writes of some logs.\<close>

lemma logs_then_keep:
  assumes "\<And>ms. returns_with P (runWrites ms) \<Longrightarrow> preserves P (k ms)"
  shows "preserves P (bindA (processLogsByName env b ls) (\<lambda>ps. bindA (liftR (promiseAll ps)) k))"
proof (rule preservesI)
  fix w r w'
  assume w: "P w" and run: "bindA (processLogsByName env b ls) (\<lambda>ps. bindA (liftR (promiseAll ps)) k) w = (r, w')"
  obtain ps ev where ps: "processLogsByName env b ls w = (Inr ps, w\<lparr>emitted := ev\<rparr>)"
    using processLogsByName_run by blast
  show "P w'"
  proof (cases "promiseAll ps")
    case (Inl e)
    then show ?thesis using run emitted [OF w, of ev] by (auto simp: bindA_def ps liftR_Inl throw_app)
  next
    case (Inr ms)
    have "preserves P (k ms)" using assms runWrites_keeps [OF ps Inr] .
    moreover have "k ms (w\<lparr>emitted := ev\<rparr>) = (r, w')"
      using run by (simp add: bindA_def ps Inr liftR_Inr return_app)
    ultimately show ?thesis using emitted [OF w] by (blast dest: preservesD)
  qed
qed

lemma block_transaction_keeps:
  "returns_with P (runWrites ms) \<Longrightarrow> preserves P (blockTransaction env d block b ms)"
  unfolding blockTransaction_def
  by (rule transaction_keeps, cases d)
    (auto intro!: returns_with_thenA returns_with_bindA preserves_returns [OF details_keep]
      preserves_returns [OF block_rows(3)] preserves_returns [OF block_rows(4)] preserves_returns [OF preserves_pure(5)])

lemma block_keeps: "preserves P (processBlockAndLogs env d block b logs)"
  unfolding processBlockAndLogs_def
  by (intro kept logs_then_keep block_transaction_keeps checks)

lemma bulk_block_keeps: "preserves P (processBulkBlock env ls details n)"
  unfolding processBulkBlock_def Let_def
  by (intro kept logs_then_keep transaction_keeps kept_ok preserves_returns [OF details_keep]
      preserves_returns [OF block_rows(2)])

lemma download_keeps: "preserves P (downloadAugurLogs env getBlock batches finish)"
  unfolding downloadAugurLogs_def processBatch_def processBatchOfLogs_def Let_def
  by (intro kept bulk_block_keeps)

end

text \<open>The market states are such an invariant.\<close>

lemma guarded_kept:
  fixes m :: "unit action" and n :: "'a list action"
  shows "preserves ready_states m \<Longrightarrow> preserves ready_states (transaction m)"
    "preserves ready_states n \<Longrightarrow> preserves ready_states (catchEmpty n)"
proof -
  show "preserves ready_states (transaction m)" if m: "preserves ready_states m"
  proof (rule preservesI)
    fix w r w'
    assume w: "ready_states w" and run: "transaction m w = (r, w')"
    obtain x v where v: "m w = (x, v)" by (cases "m w")
    have "ready_states v" using preservesD [OF m w v] .
    then show "ready_states w'"
      using run v w states_frame [of "v\<lparr>tables := tables w\<rparr>" w] by (cases x) (auto simp: transaction_def)
  qed
  show "preserves ready_states (catchEmpty n)" if n: "preserves ready_states n"
  proof (rule preservesI)
    fix w r w'
    assume w: "ready_states w" and run: "catchEmpty n w = (r, w')"
    obtain x v where v: "n w = (x, v)" by (cases "n w")
    have "w' = v" using run by (cases x) (simp_all add: catchEmpty_def v)
    then show "ready_states w'" using preservesD [OF n w v] by simp
  qed
qed

lemma orphaned_ids_kept: "preserves ready_states (getOrphanedOrderIds env p)"
  unfolding getOrphanedOrderIds_def by (intro kept)

lemma orphan_side_kept: "preserves ready_states (checkOrphanedOrdersForOrderBookSide env p)"
  unfolding checkOrphanedOrdersForOrderBookSide_def
  by (intro guarded_kept orphaned_ids_kept preserves_bindA preserves_thenA preserves_whenA other_tables_kept)

lemma pending_checks_kept [kept]:
  "preserves ready_states (checkOrphanedOrders env)" "preserves ready_states (checkMarketLiquidityUpdates env)"
  unfolding checkOrphanedOrders_def checkMarketLiquidityUpdates_def refreshPending_def
  by (intro orphan_side_kept guarded_kept liquidity_kept preserves_bindA preserves_forA preserves_thenA
      preserves_read other_tables_kept)+

interpretation states_kept: block_invariant ready_states
proof
  show "ready_states (w'\<lparr>tables := tables w\<rparr>)" if "ready_states w" for w w'
    using that states_frame [of "w'\<lparr>tables := tables w\<rparr>" w] by simp
  show "preserves ready_states (insertBlockRow n h b t)" for n h b t
    unfolding insertBlockRow_def by (intro kept)
  show "preserves ready_states (insertTransactionHash n x)" for n x
    unfolding insertTransactionHash_def by (intro kept)
  show "preserves ready_states (update transactionHashes Q g)" "preserves ready_states (delete blocks R)" for Q g R
    by ((rule other_tables_kept | assumption)+)
qed (rule advanceTime_kept pending_checks_kept)+

section \<open>Properties\<close>

text \<open>C5. After any block, added or removed, and after any bulk download, whether they succeeded or failed, the
  market states are consistent: the current state of every market is the last one of its history.\<close>

theorem blocks_keep_states:
  assumes "ready_states w"
    and "processBlockAndLogs env d block b logs w = (r, w') \<or> downloadAugurLogs env getBlock batches finish w = (r, w')"
  shows "ready_states w' \<and> (\<forall>m \<in> set (t_markets (tables w')). reportingStateOf w' m =
    (if stateHistory w' (mk_marketId m) = [] then None else Some (last (stateHistory w' (mk_marketId m)))))"
proof -
  have "ready_states w'"
    using assms(2) preservesD [OF states_kept.block_keeps assms(1)]
      preservesD [OF states_kept.download_keeps assms(1)] by blast
  then show ?thesis using current_state by blast
qed

text \<open>The writes of a block of the bulk download are undone as a whole.\<close>

lemma bulk_block_fails:
  assumes "processBulkBlock env ls details n w = (Inl e, w')"
  shows "tables w' = tables w"
proof -
  let ?ls = "filter (\<lambda>l. lg_blockNumber l = n) ls"
  obtain ps where ps: "processLogsByName env False ?ls w = (Inr ps, w)"
    using processLogsByName_run [of env False ?ls w] by auto
  from assms show ?thesis
    by (cases "promiseAll ps")
      (auto simp: processBulkBlock_def Let_def bindA_def ps liftR_Inl liftR_Inr return_app throw_app transaction_def
        split: if_splits prod.splits sum.splits)
qed

text \<open>C9. A bulk download that fails stops at a block: the tables are those after the blocks before the failing
  one, processed in full, and nothing of the failing block is left.\<close>

theorem bulk_failure_is_atomic:
  assumes "processBatchOfLogs env ls ns details w = (Inl e, w')"
  shows "\<exists>i w1. i < length ns \<and> processBatchOfLogs env ls (take i ns) details w = (Inr (), w1) \<and>
    processBulkBlock env ls details (ns ! i) w1 = (Inl e, w') \<and> tables w' = tables w1"
proof -
  obtain ys n zs w1 where ns: "ns = ys @ n # zs"
    and w1: "forA ys (processBulkBlock env ls details) w = (Inr (), w1)"
    and fails: "processBulkBlock env ls details n w1 = (Inl e, w')"
    using forA_fails [OF assms [unfolded processBatchOfLogs_def]] by blast
  then have "length ys < length ns" "take (length ys) ns = ys" "ns ! length ys = n" by simp_all
  with w1 fails bulk_block_fails [OF fails] show ?thesis
    unfolding processBatchOfLogs_def by metis
qed

text \<open>A block with one log in the example world.\<close>

definition sample_block :: block_detail where
  "sample_block = \<lparr>bd_number = 8, bd_hash = ''h8'', bd_timestamp = Some 1500\<rparr>"

definition mailbox_log :: event_log where
  "mailbox_log = sample_log\<lparr>lg_blockNumber := 8, lg_eventName := ''MarketMailboxTransferred'',
     lo_market := ''m'', lo_to := ''new''\<rparr>"

theorem blocks_keep_states_witness:
  "\<exists>r w'. processBlockAndLogs sample_env Add (Some sample_block) False (Some [mailbox_log]) reporting_world = (r, w') \<and>
     ready_states w'"
proof -
  obtain r w' where w': "processBlockAndLogs sample_env Add (Some sample_block) False (Some [mailbox_log])
      reporting_world = (r, w')"
    by (rule prod.exhaust)
  have "ready_states reporting_world" using reporting_world_ok(1,2) by simp
  from blocks_keep_states [OF this disjI1 [OF w']] w' show ?thesis by blast
qed

text \<open>The second block has no details: the first one stays.\<close>

definition legacy_log :: event_log where
  "legacy_log = sample_log\<lparr>lg_blockNumber := 8, lg_contractName := ''LegacyReputationToken'',
     lg_eventName := ''Transfer''\<rparr>"

lemma details_run:
  assumes "ready_states w" "fee_windows.valid_table w" "markets.valid_table w"
    "list_all (\<lambda>r. bk_blockNumber r \<noteq> bd_number b) (t_blocks (tables w))" "bd_timestamp b = Some t"
  shows "\<exists>w'. processBlockByBlockDetails env (Some b) bulk w = (Inr (), w')"
proof -
  let ?w1 = "w\<lparr>blockHeadTimestamp := t\<rparr>"
  let ?row = "\<lparr>bk_blockNumber = bd_number b, bk_blockHash = bd_hash b, bk_timestamp = getCurrentTime ?w1,
    bk_bulkSync = bulk\<rparr>"
  let ?w2 = "?w1\<lparr>tables := (tables w)\<lparr>t_blocks := t_blocks (tables w) @ [?row]\<rparr>\<rparr>"
  have "insertBlockRow (bd_number b) (bd_hash b) bulk (getCurrentTime ?w1) ?w1 = (Inr (), ?w2)"
    using assms(4) by (simp add: insertBlockRow_def bindA_select insertInto_def blocks_constraints
        filter_empty_conv list_all_iff list_ex_iff)
  moreover have "states_ok ?w2" "checked ?w2" using states_frame [of ?w2 w] assms(1) by simp_all
  then obtain w' where "advanceTime env (bd_number b) (getCurrentTime ?w1) ?w2 = (Inr (), w')"
    using advanceTime_run [of ?w2 env "bd_number b" "getCurrentTime ?w1"] assms(2,3)
    by (auto simp: fee_windows.valid_table_def markets.valid_table_def)
  ultimately show ?thesis
    by (simp add: processBlockByBlockDetails_def timedBlock_def assms(5) act_simps thenA_ok)
qed

lemma insertTransactionHash_run: "\<exists>w'. insertTransactionHash n (Some h) w = (Inr (), w')"
  by (auto simp: insertTransactionHash_def orThrow_Some bindA_return bindA_select insertInto_def
      transactionHashes_constraints return_app filter_empty_conv list_ex_iff)

lemma legacy_writes:
  "processLogByName sample_env (legacy_log\<lparr>lg_blockNumber := n\<rparr>) False w = (Inr (Some (Inr (return ()))), w)"
proof -
  have "processorOf (legacy_log\<lparr>lg_blockNumber := n\<rparr>) = Some passThroughLog"
    by (simp add: processorOf_def logProcessors_def legacyReputationTokenProcessors_def legacy_log_def)
  then show ?thesis
    by (simp add: processLogByName_def processLog_def passThroughLog_def noop_def legacy_log_def sample_log_def
        act_simps whenA_def return_app bindA_def thenA_def)
qed

lemma bulk_block_runs:
  "\<exists>w'. processBulkBlock sample_env [legacy_log, legacy_log\<lparr>lg_blockNumber := 9\<rparr>]
     (\<lambda>n. if n = 8 then Some sample_block else None) 8 empty_world = (Inr (), w')"
proof -
  have ready: "ready_states empty_world" "fee_windows.valid_table empty_world" "markets.valid_table empty_world"
    by (simp_all add: states_ok_def checked_def sample_simps fee_windows.valid_table_def markets.valid_table_def)
  obtain w1 where w1: "processBlockByBlockDetails sample_env (Some sample_block) True empty_world = (Inr (), w1)"
    using details_run [OF ready, of sample_block 1500 sample_env True] by (auto simp: sample_block_def sample_simps)
  obtain w2 where w2: "insertTransactionHash 8 (Some (lg_transactionHash legacy_log)) w1 = (Inr (), w2)"
    using insertTransactionHash_run by blast
  have ls: "filter (\<lambda>l. lg_blockNumber l = 8) [legacy_log, legacy_log\<lparr>lg_blockNumber := 9\<rparr>] =
      [legacy_log\<lparr>lg_blockNumber := 8\<rparr>]"
    by (simp add: legacy_log_def)
  show ?thesis
    unfolding processBulkBlock_def ls Let_def
    using w1 w2
    by (simp add: bindA_def legacy_writes promiseAll_def liftR_Inr return_app transaction_def runWrites_def
        thenA_ok)
qed

theorem bulk_failure_is_atomic_witness:
  "\<exists>w1 w'. processBatchOfLogs sample_env [legacy_log, legacy_log\<lparr>lg_blockNumber := 9\<rparr>] [8, 9]
       (\<lambda>n. if n = 8 then Some sample_block else None) empty_world = (Inl (Thrown ''block without timestamp''), w') \<and>
     processBatchOfLogs sample_env [legacy_log, legacy_log\<lparr>lg_blockNumber := 9\<rparr>] [8]
       (\<lambda>n. if n = 8 then Some sample_block else None) empty_world = (Inr (), w1) \<and> tables w' = tables w1"
proof -
  let ?ls = "[legacy_log, legacy_log\<lparr>lg_blockNumber := 9\<rparr>]"
  let ?details = "\<lambda>n. if n = (8 :: int) then Some sample_block else None"
  obtain w1 where w1: "processBulkBlock sample_env ?ls ?details 8 empty_world = (Inr (), w1)"
    using bulk_block_runs by blast
  have ls: "filter (\<lambda>l. lg_blockNumber l = 9) ?ls = [legacy_log\<lparr>lg_blockNumber := 9\<rparr>]"
    by (simp add: legacy_log_def)
  have "\<exists>w'. processBulkBlock sample_env ?ls ?details 9 w1 = (Inl (Thrown ''block without timestamp''), w')"
    unfolding processBulkBlock_def ls Let_def
    by (simp add: bindA_def legacy_writes promiseAll_def liftR_Inr return_app transaction_def thenA_def
        processBlockByBlockDetails_def timedBlock_def orThrow_def throw_app)
  then obtain w' where w': "processBatchOfLogs sample_env ?ls [8, 9] ?details empty_world =
      (Inl (Thrown ''block without timestamp''), w')"
    by (auto simp: processBatchOfLogs_def thenA_def bindA_def w1)
  obtain i v where i: "i < length [8, 9 :: int]" "processBatchOfLogs sample_env ?ls (take i [8, 9]) ?details empty_world = (Inr (), v)"
    "processBulkBlock sample_env ?ls ?details ([8, 9] ! i) v = (Inl (Thrown ''block without timestamp''), w')"
    "tables w' = tables v"
    using bulk_failure_is_atomic [OF w'] by blast
  have "i \<noteq> 0"
  proof
    assume "i = 0"
    then show False using i(2,3) w1 by (simp add: processBatchOfLogs_def return_app)
  qed
  then have "i = 1" using i(1) by simp
  with i w' show ?thesis by auto
qed

end
