(* ===== verification/Block_Chain.thy ===== *)
theory Block_Chain
  imports Process_Block
begin

text \<open>
  The rows of \<open>blocks\<close> as the chain the node follows: whatever logs they carry, blocks that are added and
  removed act on the rows like a map from block numbers to hashes.
\<close>

section \<open>No log touches the blocks\<close>

definition blockRows :: "world \<Rightarrow> blocks_row list" where
  "blockRows w = t_blocks (tables w)"

lemma blockRows_put:
  "blockRows (tput markets rs0 w) = blockRows w"
  "blockRows (tput outcomes rs1 w) = blockRows w"
  "blockRows (tput orders rs2 w) = blockRows w"
  "blockRows (tput orders_canceled rs3 w) = blockRows w"
  "blockRows (tput trades rs4 w) = blockRows w"
  "blockRows (tput tokens rs5 w) = blockRows w"
  "blockRows (tput token_supply rs6 w) = blockRows w"
  "blockRows (tput balances rs7 w) = blockRows w"
  "blockRows (tput transfers rs8 w) = blockRows w"
  "blockRows (tput approvals rs9 w) = blockRows w"
  "blockRows (tput market_state rs10 w) = blockRows w"
  "blockRows (tput payouts rs11 w) = blockRows w"
  "blockRows (tput fee_windows rs12 w) = blockRows w"
  "blockRows (tput crowdsourcers rs13 w) = blockRows w"
  "blockRows (tput initial_reports rs14 w) = blockRows w"
  "blockRows (tput disputes rs15 w) = blockRows w"
  "blockRows (tput crowdsourcer_redeemed rs16 w) = blockRows w"
  "blockRows (tput participation_token_redeemed rs17 w) = blockRows w"
  "blockRows (tput universes rs18 w) = blockRows w"
  "blockRows (tput categories rs19 w) = blockRows w"
  "blockRows (tput transactionHashes rs20 w) = blockRows w"
  "blockRows (tput completeSets rs21 w) = blockRows w"
  "blockRows (tput trading_proceeds rs22 w) = blockRows w"
  "blockRows (tput outcome_value_timeseries rs23 w) = blockRows w"
  "blockRows (tput wcl_profit_loss_timeseries rs24 w) = blockRows w"
  "blockRows (tput outcomes_liquidity rs25 w) = blockRows w"
  "blockRows (tput pending_orphan_checks rs26 w) = blockRows w"
  "blockRows (tput pending_liquidity_updates rs27 w) = blockRows w"
  by (simp_all add: blockRows_def)

lemmas blockRows_frames [frames] =
  unchanged_write [where f = blockRows and T = markets, OF blockRows_put(1)]
  unchanged_write [where f = blockRows and T = outcomes, OF blockRows_put(2)]
  unchanged_write [where f = blockRows and T = orders, OF blockRows_put(3)]
  unchanged_write [where f = blockRows and T = orders_canceled, OF blockRows_put(4)]
  unchanged_write [where f = blockRows and T = trades, OF blockRows_put(5)]
  unchanged_write [where f = blockRows and T = tokens, OF blockRows_put(6)]
  unchanged_write [where f = blockRows and T = token_supply, OF blockRows_put(7)]
  unchanged_write [where f = blockRows and T = balances, OF blockRows_put(8)]
  unchanged_write [where f = blockRows and T = transfers, OF blockRows_put(9)]
  unchanged_write [where f = blockRows and T = approvals, OF blockRows_put(10)]
  unchanged_write [where f = blockRows and T = market_state, OF blockRows_put(11)]
  unchanged_write [where f = blockRows and T = payouts, OF blockRows_put(12)]
  unchanged_write [where f = blockRows and T = fee_windows, OF blockRows_put(13)]
  unchanged_write [where f = blockRows and T = crowdsourcers, OF blockRows_put(14)]
  unchanged_write [where f = blockRows and T = initial_reports, OF blockRows_put(15)]
  unchanged_write [where f = blockRows and T = disputes, OF blockRows_put(16)]
  unchanged_write [where f = blockRows and T = crowdsourcer_redeemed, OF blockRows_put(17)]
  unchanged_write [where f = blockRows and T = participation_token_redeemed, OF blockRows_put(18)]
  unchanged_write [where f = blockRows and T = universes, OF blockRows_put(19)]
  unchanged_write [where f = blockRows and T = categories, OF blockRows_put(20)]
  unchanged_write [where f = blockRows and T = transactionHashes, OF blockRows_put(21)]
  unchanged_write [where f = blockRows and T = completeSets, OF blockRows_put(22)]
  unchanged_write [where f = blockRows and T = trading_proceeds, OF blockRows_put(23)]
  unchanged_write [where f = blockRows and T = outcome_value_timeseries, OF blockRows_put(24)]
  unchanged_write [where f = blockRows and T = wcl_profit_loss_timeseries, OF blockRows_put(25)]
  unchanged_write [where f = blockRows and T = outcomes_liquidity, OF blockRows_put(26)]
  unchanged_write [where f = blockRows and T = pending_orphan_checks, OF blockRows_put(27)]
  unchanged_write [where f = blockRows and T = pending_liquidity_updates, OF blockRows_put(28)]

lemma blockRows_effects [frames]:
  "unchanged blockRows (emit n lg data)" "unchanged blockRows newMarketStateId" "unchanged blockRows newPayoutId"
  "unchanged blockRows (setOverrideTimestamp t)" "unchanged blockRows (removeOverrideTimestamp t)"
  unfolding newMarketStateId_def newPayoutId_def setOverrideTimestamp_def removeOverrideTimestamp_def
  by (rule unchanged_emit; simp add: blockRows_def)
    (intro frames unchanged_modify; simp add: blockRows_def)+

lemma transaction_rows [frames]: "unchanged blockRows m \<Longrightarrow> unchanged blockRows (transaction m)"
  unfolding blockRows_def by (rule unchanged_transaction)

lemma catchEmpty_rows [frames]: "unchanged blockRows m \<Longrightarrow> unchanged blockRows (catchEmpty m)"
  by (auto simp: unchanged_def catchEmpty_def split: prod.splits sum.splits) (metis snd_conv)+

lemma state_rows [frames]:
  "unchanged blockRows (updateMarketState a b s)" "unchanged blockRows (rollbackMarketState a s)"
  "unchanged blockRows (updateMarketFeeWindow env u a c)" "unchanged blockRows (updateDisputeRound a)"
  "unchanged blockRows (refreshMarketMailboxEthBalance env a)" "unchanged blockRows (updateActiveFeeWindows b t)"
  "unchanged blockRows (insertPayout a xs bad tw)"
  unfolding updateMarketState_def rollbackMarketState_def setMarketStateToLatest_def updateMarketFeeWindow_def
    getFeeWindow_def updateDisputeRound_def refreshMarketMailboxEthBalance_def updateActiveFeeWindows_def
    insertPayout_def Let_def
  by ((intro frames | simp)+)

lemma time_rows [frames]:
  "unchanged blockRows (advanceFeeWindowActive b t)" "unchanged blockRows (advanceTime env b t)"
  unfolding advanceTime_def advanceFeeWindowActive_def advanceIncompleteCrowdsourcers_def
    advanceMarketsToAwaitingFinalization_def advanceMarketsToCrowdsourcingDispute_def emitMarketState_def
    advanceMarketReachingEndTime_def advanceMarketMissingDesignatedReport_def getMarketsWithReportingState_def
  by ((intro frames | simp)+)

lemma reporting_rows:
  "unchanged blockRows (createFeeWindow l a)" "unchanged blockRows (processFeeWindowCreatedLogRemoval l)"
  "unchanged blockRows (submitInitialReport env l a)" "unchanged blockRows (processInitialReportSubmittedLogRemoval env l)"
  "unchanged blockRows (processInitialReporterRedeemedLog l)"
  "unchanged blockRows (processInitialReporterRedeemedLogRemoval l)"
  "unchanged blockRows (processInitialReporterTransferredLog l)"
  "unchanged blockRows (processInitialReporterTransferredLogRemoval l)"
  "unchanged blockRows (processReportingParticipantDisavowedLog l)"
  "unchanged blockRows (processReportingParticipantDisavowedLogRemoval l)"
  "unchanged blockRows (processMarketParticipantsDisavowedLog l)"
  "unchanged blockRows (processMarketParticipantsDisavowedLogRemoval l)"
  "unchanged blockRows (processFeeWindowRedeemedLog l)" "unchanged blockRows (processFeeWindowRedeemedLogRemoval l)"
  "unchanged blockRows (processTimestampSetLog l)" "unchanged blockRows (processTimestampSetLogRemoval l)"
  unfolding createFeeWindow_def processFeeWindowCreatedLogRemoval_def submitInitialReport_def
    processInitialReportSubmittedLogRemoval_def processInitialReporterRedeemedLog_def
    processInitialReporterRedeemedLogRemoval_def processInitialReporterTransferredLog_def
    processInitialReporterTransferredLogRemoval_def processReportingParticipantDisavowedLog_def
    processReportingParticipantDisavowedLogRemoval_def processMarketParticipantsDisavowedLog_def
    processMarketParticipantsDisavowedLogRemoval_def setDisavowed_def processFeeWindowRedeemedLog_def
    processFeeWindowRedeemedLogRemoval_def processTimestampSetLog_def processTimestampSetLogRemoval_def Let_def
  by ((intro frames | simp)+)

lemma dispute_rows:
  "unchanged blockRows (processDisputeCrowdsourcerCreatedLog l)"
  "unchanged blockRows (processDisputeCrowdsourcerCreatedLogRemoval l)"
  "unchanged blockRows (processDisputeCrowdsourcerContributionLog l)"
  "unchanged blockRows (processDisputeCrowdsourcerContributionLogRemoval l)"
  "unchanged blockRows (processDisputeCrowdsourcerCompletedLog env l)"
  "unchanged blockRows (processDisputeCrowdsourcerCompletedLogRemoval env l)"
  "unchanged blockRows (processDisputeCrowdsourcerRedeemedLog l)"
  "unchanged blockRows (processDisputeCrowdsourcerRedeemedLogRemoval l)"
  unfolding processDisputeCrowdsourcerCreatedLog_def processDisputeCrowdsourcerCreatedLogRemoval_def
    processDisputeCrowdsourcerContributionLog_def processDisputeCrowdsourcerContributionLogRemoval_def
    processDisputeCrowdsourcerCompletedLog_def processDisputeCrowdsourcerCompletedLogRemoval_def
    processDisputeCrowdsourcerRedeemedLog_def processDisputeCrowdsourcerRedeemedLogRemoval_def
    updateIncompleteCrowdsourcers_def rollbackIncompleteCrowdsourcers_def rollbackCrowdsourcerCompletion_def
    addToCrowdsourcer_def updateTentativeWinningPayout_def Let_def
  by ((intro frames | simp)+)

lemma market_rows:
  "unchanged blockRows (createMarket env l calls)" "unchanged blockRows (processMarketCreatedLogRemoval l)"
  "unchanged blockRows (processMarketFinalizedLog env l)" "unchanged blockRows (processMarketFinalizedLogRemoval env l)"
  "unchanged blockRows (processMarketMigratedLog env l)" "unchanged blockRows (processMarketMigratedLogRemoval l)"
  "unchanged blockRows (processMarketMailboxTransferredLog l)"
  "unchanged blockRows (processMarketMailboxTransferredLogRemoval l)"
  "unchanged blockRows (createUniverse l a)" "unchanged blockRows (processUniverseCreatedLogRemoval l)"
  "unchanged blockRows (forkUniverse env l fm)" "unchanged blockRows (processUniverseForkedLogRemoval l)"
  unfolding createMarket_def storeMarketData_def createCategoryIfNotExists_def processMarketCreatedLogRemoval_def
    processMarketFinalizedLog_def processMarketFinalizedLogRemoval_def processMarketMigratedLog_def
    processMarketMigratedLogRemoval_def processMarketMailboxTransferredLog_def
    processMarketMailboxTransferredLogRemoval_def flagMarketsNeedingMigration_def advanceToAwaitingNextWindow_def
    getMarketsWithReportingState_def createUniverse_def processUniverseCreatedLogRemoval_def forkUniverse_def
    processUniverseForkedLogRemoval_def revertMarket_def uncompleteNonforkingCrowdsourcers_def emitMarketState_def
    updateOutcomeValuesFromFinalization_def payoutAndMarket_def removeOutcomeValue_def
    updateCategoryAggregationsOnMarketFinalized_def updateCategoryAggregationsOnMarketFinalizedRollback_def
    marketFinalizedHelper_def Let_def
  by ((intro frames | simp)+)

lemma trading_rows [frames]:
  "unchanged blockRows (updateLiquidityMetricsForMarketAndOutcomes env a)"
  "unchanged blockRows (updateVolumetrics env a i b h t inc)" "unchanged blockRows (updateMarketOpenInterest env a)"
  "unchanged blockRows (updateProfitLoss dv a d acc i p h b n tr)" "unchanged blockRows (updateProfitLossRemoveRow h)"
  "unchanged blockRows (updateProfitLossClaimProceeds dv a acc h b n)"
  "unchanged blockRows (pendLiquidityUpdate a)" "unchanged blockRows (shareTokenMarket a)"
  unfolding updateLiquidityMetricsForMarketAndOutcomes_def getMarketOrderBooks_def updateOutcomeMetrics_def
    updateOutcomesLiquidity_def updateVolumetrics_def updateMarketOpenInterest_def firstSupply_def
    incrementMarketVolume_def incrementOutcomeVolume_def setMarketLastTrade_def
    updateCategoryAggregationsOnMarketOpenInterestChanged_def updateProfitLossClaimProceeds_def claimOutcome_def
    payoutAndMarket_def updateProfitLoss_def latestProfitLoss_def updateProfitLossRemoveRow_def
    pendLiquidityUpdate_def shareTokenMarket_def Let_def
  by ((intro frames | simp)+)

lemma order_rows:
  "unchanged blockRows (processOrderCreatedLog env l)" "unchanged blockRows (processOrderCreatedLogRemoval env l)"
  "unchanged blockRows (processOrderCanceledLog l)" "unchanged blockRows (processOrderCanceledLogRemoval env l)"
  "unchanged blockRows (processOrderFilledLog env l)" "unchanged blockRows (processOrderFilledLogRemoval env l)"
  "unchanged blockRows (processCompleteSetsPurchasedOrSoldLog env l)"
  "unchanged blockRows (processCompleteSetsPurchasedOrSoldLogRemoval env l)"
  "unchanged blockRows (processTradingProceedsClaimedLog env l)"
  "unchanged blockRows (processTradingProceedsClaimedLogRemoval l)"
  unfolding processOrderCreatedLog_def processOrderCreatedLogRemoval_def processOrderCanceledLog_def
    processOrderCanceledLogRemoval_def processOrderFilledLog_def processOrderFilledLogRemoval_def
    processCompleteSetsPurchasedOrSoldLog_def processCompleteSetsPurchasedOrSoldLogRemoval_def
    processTradingProceedsClaimedLog_def processTradingProceedsClaimedLogRemoval_def removeOutcomeValue_def
    upsertOrder_def updateOrder_def marketPendingOrderbookUpdates_def updateOutcomeValueFromOrders_def Let_def
  by ((intro frames | simp)+)

lemma token_rows:
  "unchanged blockRows (processMintLog env l)" "unchanged blockRows (processMintLogRemoval env l)"
  "unchanged blockRows (processBurnLog env l)" "unchanged blockRows (processBurnLogRemoval env l)"
  "unchanged blockRows (processTokensTransferredLog env l)"
  "unchanged blockRows (processTokensTransferredLogRemoval env l)"
  "unchanged blockRows (processApprovalLog l)" "unchanged blockRows (processApprovalLogRemoval l)"
  unfolding processMintLog_def processMintLogRemoval_def processBurnLog_def processBurnLogRemoval_def
    processTokensTransferredLog_def processTokensTransferredLogRemoval_def processApprovalLog_def
    processApprovalLogRemoval_def increaseTokenBalance_def decreaseTokenBalance_def increaseTokenSupply_def
    decreaseTokenSupply_def Let_def
  by ((intro frames | simp)+)

lemma unchanged_returns: "unchanged f m \<Longrightarrow> returns_with (\<lambda>w. f w = c) m"
  by (rule preserves_returns) (rule unchanged_preserves)

lemmas logs_leave_blocks =
  reporting_rows [THEN unchanged_returns] dispute_rows [THEN unchanged_returns] market_rows [THEN unchanged_returns]
  order_rows [THEN unchanged_returns] token_rows [THEN unchanged_returns]

lemma create_logs_rows:
  "processor_keeps (\<lambda>w. blockRows w = c) processFeeWindowCreatedLog"
  "processor_keeps (\<lambda>w. blockRows w = c) processInitialReportSubmittedLog"
  "processor_keeps (\<lambda>w. blockRows w = c) processMarketCreatedLog"
  "processor_keeps (\<lambda>w. blockRows w = c) processUniverseCreatedLog"
  "processor_keeps (\<lambda>w. blockRows w = c) processUniverseForkedLog"
  using logs_leave_blocks
  by (auto simp: processor_keeps_def bindE_eq_Inr processFeeWindowCreatedLog_def
      processInitialReportSubmittedLog_def processMarketCreatedLog_def processUniverseCreatedLog_def
      processUniverseForkedLog_def)

interpretation rows_kept: log_invariant "\<lambda>w. blockRows w = c" for c
proof
  show "blockRows (w\<lparr>emitted := ev\<rparr>) = c" if "blockRows w = c" for w ev
    using that by (simp add: blockRows_def)
  show "list_all (table_keeps (\<lambda>w. blockRows w = c)) (map snd logProcessors)"
    unfolding logProcessors_def augurProcessors_def legacyReputationTokenProcessors_def cashProcessors_def
      table_keeps_def list.map snd_conv list.pred_inject passThroughLog_def event_log_processor.simps
    by (intro conjI create_logs_rows processor_keepsI list.pred_inject(1) logs_leave_blocks)
qed

section \<open>The chain of blocks\<close>

type_synonym block_job = "BlockDirection \<times> block_detail option \<times> event_log list option"

text \<open>The processor that \<open>startAugurListeners\<close> gives to the queue of blocks.\<close>

definition processJob :: "env \<Rightarrow> block_job \<Rightarrow> unit action" where
  "processJob env = (\<lambda>(direction, block, logs). processBlockAndLogs env direction block False logs)"

definition blockHashes :: "world \<Rightarrow> int \<Rightarrow> string option" where
  "blockHashes w = map_of (map (\<lambda>b. (bk_blockNumber b, bk_blockHash b)) (blockRows w))"

text \<open>What the chain should be after a block: an added block takes its number, a removed one frees it.\<close>

definition chainStep :: "block_job \<Rightarrow> (int \<Rightarrow> string option) \<Rightarrow> int \<Rightarrow> string option" where
  "chainStep = (\<lambda>(direction, block, logs) chain. case block of
     None \<Rightarrow> chain
   | Some b \<Rightarrow> (case direction of
       Add \<Rightarrow> chain(bd_number b \<mapsto> bd_hash b)
     | Remove \<Rightarrow> (\<lambda>n. if chain n = Some (bd_hash b) then None else chain n)))"

abbreviation numbers_differ :: "blocks_row list \<Rightarrow> bool" where
  "numbers_differ rows \<equiv> sorted_wrt (\<lambda>x y. bk_blockNumber x \<noteq> bk_blockNumber y) rows"

lemma blocks_valid: "blocks.valid_table w \<longleftrightarrow> numbers_differ (blockRows w)"
  by (simp add: blocks.valid_table_def blocks_constraints blockRows_def list_all_iff)

lemma hashes_updated:
  assumes "b \<in> set rows" "bk_blockNumber b = n"
    "\<And>b. bk_blockNumber (f b) = bk_blockNumber b" "\<And>b. bk_blockHash (f b) = h"
  shows "map_of (map (\<lambda>b. (bk_blockNumber b, bk_blockHash b)) (map (\<lambda>b. if bk_blockNumber b = n then f b else b) rows)) =
    (map_of (map (\<lambda>b. (bk_blockNumber b, bk_blockHash b)) rows))(n \<mapsto> h)"
proof -
  have "map_of (map (\<lambda>b. (bk_blockNumber b, bk_blockHash b)) (map (\<lambda>b. if bk_blockNumber b = n then f b else b) rows)) k =
    (if k = n then (if \<exists>b \<in> set rows. bk_blockNumber b = n then Some h else None)
     else map_of (map (\<lambda>b. (bk_blockNumber b, bk_blockHash b)) rows) k)" for k
    by (induction rows) (auto simp: assms(3,4))
  then show ?thesis using assms(1,2) by (auto simp: fun_eq_iff)
qed

lemma hashes_removed:
  assumes "numbers_differ rows"
  shows "map_of (map (\<lambda>b. (bk_blockNumber b, bk_blockHash b)) (filter (\<lambda>b. bk_blockHash b \<noteq> h) rows)) n =
    (if map_of (map (\<lambda>b. (bk_blockNumber b, bk_blockHash b)) rows) n = Some h then None
     else map_of (map (\<lambda>b. (bk_blockNumber b, bk_blockHash b)) rows) n)"
  using assms
proof (induction rows)
  case (Cons b rows)
  have "map_of (map (\<lambda>b. (bk_blockNumber b, bk_blockHash b)) (filter (\<lambda>b. bk_blockHash b \<noteq> h) rows)) (bk_blockNumber b) = None"
    using Cons.prems by (auto simp: map_of_eq_None_iff)
  with Cons show ?case by auto
qed simp

lemma insertBlockRow_rows:
  assumes "insertBlockRow n h bulk t w = (Inr (), w')" "numbers_differ (blockRows w)"
  shows "numbers_differ (blockRows w') \<and> blockHashes w' = (blockHashes w)(n \<mapsto> h)"
proof (cases "filter (\<lambda>b. bk_blockNumber b = n) (blockRows w) = []")
  case True
  then have "blockRows w' = blockRows w @ [\<lparr>bk_blockNumber = n, bk_blockHash = h, bk_timestamp = t, bk_bulkSync = bulk\<rparr>]"
    using assms(1) by (simp add: insertBlockRow_def bindA_select blockRows_def insertInto_eq_Inr)
  then show ?thesis
    using True assms(2) by (auto simp: sorted_wrt_append filter_empty_conv blockHashes_def map_of_append fun_eq_iff
        map_add_def split: option.splits dest!: map_of_SomeD)
next
  case False
  then have "\<exists>b. b \<in> set (blockRows w) \<and> bk_blockNumber b = n" by (auto simp: filter_empty_conv)
  then obtain b where b: "b \<in> set (blockRows w)" "bk_blockNumber b = n" by blast
  let ?f = "\<lambda>b :: blocks_row. b\<lparr>bk_blockHash := h, bk_timestamp := t, bk_bulkSync := bulk\<rparr>"
  have "blockRows w' = map (\<lambda>b. if bk_blockNumber b = n then ?f b else b) (blockRows w)"
    using False assms(1) by (simp add: insertBlockRow_def bindA_select blockRows_def update_eq_Inr)
  moreover have "bk_blockNumber (if bk_blockNumber b = n then ?f b else b) = bk_blockNumber b" for b by simp
  ultimately show ?thesis
    using assms(2) hashes_updated [OF b, of ?f h] by (simp add: blockHashes_def sorted_wrt_map)
qed

lemma checks_rows:
  "unchanged blockRows (checkOrphanedOrders env)" "unchanged blockRows (checkMarketLiquidityUpdates env)"
  unfolding checkOrphanedOrders_def checkOrphanedOrdersForOrderBookSide_def getOrphanedOrderIds_def
    checkMarketLiquidityUpdates_def refreshPending_def
  by ((intro frames | simp)+)

lemma details_rows:
  assumes "processBlockByBlockDetails env block bulk w = (Inr (), w')" "numbers_differ (blockRows w)"
  shows "\<exists>b. block = Some b \<and> numbers_differ (blockRows w') \<and>
    blockHashes w' = (blockHashes w)(bd_number b \<mapsto> bd_hash b)"
proof -
  from assms(1) obtain b t w2 where b: "timedBlock block = Some (b, t)"
    and w2: "insertBlockRow (bd_number b) (bd_hash b) bulk (getCurrentTime (w\<lparr>blockHeadTimestamp := t\<rparr>))
      (w\<lparr>blockHeadTimestamp := t\<rparr>) = (Inr (), w2)"
    and w': "advanceTime env (bd_number b) (getCurrentTime (w\<lparr>blockHeadTimestamp := t\<rparr>)) w2 = (Inr (), w')"
    unfolding processBlockByBlockDetails_def
    by (auto simp: bindA_eq_Inr thenA_eq_Inr orThrow_eq_Inr gets_app modify_app)
  have "blockRows (w\<lparr>blockHeadTimestamp := t\<rparr>) = blockRows w" by (simp add: blockRows_def)
  moreover have "blockRows w' = blockRows w2" using time_rows(2) w' by (rule unchangedD)
  moreover have "block = Some b" using b by (auto simp: timedBlock_def bind_eq_Some_conv)
  ultimately show ?thesis
    using insertBlockRow_rows [OF w2] assms(2) by (auto simp: blockHashes_def)
qed

lemma processJob_rows:
  assumes "processJob env job w = (Inr (), w')" "numbers_differ (blockRows w)"
  shows "numbers_differ (blockRows w') \<and> blockHashes w' = chainStep job (blockHashes w)"
proof -
  obtain d block logs where job: "job = (d, block, logs)" by (cases job)
  from assms(1) obtain b t ls ps v ms w2 w3 where b: "timedBlock block = Some (b, t)" and ls: "logs = Some ls"
    and ps: "processLogsByName env True ls w = (Inr ps, v)" "promiseAll ps = Inr ms"
    and w2: "blockTransaction env d block False ms v = (Inr (), w2)"
    and w3: "checkOrphanedOrders env w2 = (Inr (), w3)" "checkMarketLiquidityUpdates env w3 = (Inr (), w')"
    unfolding job processJob_def processBlockAndLogs_def split_conv
    by (auto simp: bindA_eq_Inr thenA_eq_Inr orThrow_eq_Inr liftR_eq_Inr)
  have rows: "blockRows v = blockRows w" "returns_with (\<lambda>u. blockRows u = c) (runWrites ms)" for c
    using rows_kept.processLogsByName_keeps(1) [OF ps(1) refl] rows_kept.runWrites_keeps [OF ps] by auto
  have block: "block = Some b" using b by (auto simp: timedBlock_def bind_eq_Some_conv)
  have "blockRows w' = blockRows w2"
    using unchangedD [OF checks_rows(1) w3(1)] unchangedD [OF checks_rows(2) w3(2)] by simp
  moreover have "numbers_differ (blockRows w2) \<and> blockHashes w2 = chainStep job (blockHashes w)"
  proof (cases d)
    case Add
    then obtain u where u: "processBlockByBlockDetails env block False v = (Inr (), u)" "runWrites ms u = (Inr (), w2)"
      using w2 by (auto simp: blockTransaction_def transaction_ok thenA_eq_Inr)
    have "blockRows w2 = blockRows u" using returns_withD [OF rows(2) refl u(2)] .
    then show ?thesis
      using details_rows [OF u(1)] assms(2) rows(1) block by (simp add: blockHashes_def chainStep_def job Add)
  next
    case Remove
    then obtain u x where u: "runWrites ms v = (Inr (), u)"
      "update transactionHashes (\<lambda>r. th_blockNumber r = bd_number b) (\<lambda>r. r\<lparr>th_removed := True\<rparr>) u = (Inr (), x)"
      "delete blocks (\<lambda>r. bk_blockHash r = bd_hash b) x = (Inr (), w2)"
      using w2 block by (auto simp: blockTransaction_def transaction_ok thenA_eq_Inr orThrow_Some bindA_return)
    have "blockRows u = blockRows v" using returns_withD [OF rows(2) refl u(1)] .
    moreover have "blockRows x = blockRows u" using u(2) by (simp add: update_eq_Inr blockRows_def)
    moreover have "blockRows w2 = filter (\<lambda>r. bk_blockHash r \<noteq> bd_hash b) (blockRows x)"
      using u(3) by (simp add: delete_eq_Inr blockRows_def)
    ultimately show ?thesis
      using hashes_removed assms(2) rows(1)
      by (auto simp: blockHashes_def chainStep_def job Remove block sorted_wrt_filter fun_eq_iff)
  qed
  ultimately show ?thesis by (simp add: blockHashes_def)
qed

lemma blocks_follow_chain:
  assumes "blocks.valid_table w" "forA jobs (processJob env) w = (Inr (), w')"
  shows "blocks.valid_table w' \<and> blockHashes w' = fold chainStep jobs (blockHashes w)"
  using assms unfolding blocks_valid
proof (induction jobs arbitrary: w)
  case Nil
  then show ?case by (simp add: return_app)
next
  case (Cons job jobs)
  then obtain w1 where "processJob env job w = (Inr (), w1)" "forA jobs (processJob env) w1 = (Inr (), w')"
    by (auto simp: thenA_eq_Inr)
  then show ?case using processJob_rows [of env job w w1] Cons.IH [of w1] Cons.prems(1) by simp
qed

text \<open>In an empty database a block is added, and removed again.\<close>

lemma empty_tables [simp]:
  "t_markets (tables empty_world) = []" "t_fee_windows (tables empty_world) = []" "t_blocks (tables empty_world) = []"
  "t_pending_orphan_checks (tables empty_world) = []" "t_pending_liquidity_updates (tables empty_world) = []"
  "t_transactionHashes (tables empty_world) = []" "overrideTimestamps empty_world = []"
  by (simp_all add: empty_world_def empty_db_def)

lemma empty_block_added:
  "\<exists>w'. processJob sample_env (Add, Some sample_block, Some []) empty_world = (Inr (), w') \<and>
     t_transactionHashes (tables w') = [] \<and> t_pending_orphan_checks (tables w') = [] \<and>
     t_pending_liquidity_updates (tables w') = []"
  by (simp add: processJob_def processBlockAndLogs_def timedBlock_def sample_block_def act_simps promiseAll_def
      return_app blockTransaction_def transaction_def runWrites_def processBlockByBlockDetails_def
      insertBlockRow_def getCurrentTime_def getOverrideTimestamp_def advanceTime_def advanceMarketReachingEndTime_def
      getMarketsWithReportingState_def advanceMarketMissingDesignatedReport_def advanceFeeWindowActive_def
      updateActiveFeeWindows_def checkOrphanedOrders_def checkMarketLiquidityUpdates_def table_simps
      blocks_constraints thenA_insertInto bindA_def thenA_def insertInto_def)

lemma empty_block_removed:
  assumes "t_transactionHashes (tables w) = []" "t_pending_orphan_checks (tables w) = []"
    "t_pending_liquidity_updates (tables w) = []"
  shows "\<exists>w'. processJob sample_env (Remove, Some sample_block, Some []) w = (Inr (), w')"
  by (simp add: processJob_def processBlockAndLogs_def timedBlock_def sample_block_def act_simps promiseAll_def
      return_app blockTransaction_def transaction_def runWrites_def checkOrphanedOrders_def
      checkMarketLiquidityUpdates_def table_simps thenA_def bindA_def assms)

end
