(* ===== verification/Node_Sync.thy ===== *)
theory Node_Sync
  imports Block_Chain
begin

text \<open>
  How the node follows the chain: the queue that pairs blocks with their logs
  (\<open>src/blockchain/block-and-logs-queue.ts\<close>, \<open>start-augur-listeners.ts\<close>), the bulk download up to a few
  blocks behind the head (\<open>bulk-sync-augur-node-with-blockchain.ts\<close>), and the start of the node
  (\<open>controller.ts\<close>).
\<close>

section \<open>The queue of blocks and logs\<close>

text \<open>
  Blocks wait for their logs when they are added, logs wait for their block when it is removed. The
  objects keyed by hash are maps; reading a missing key gives \<open>undefined\<close>, here \<open>None\<close>.
\<close>

record block_and_logs_queue =
  bq_logsRemove :: "string \<Rightarrow> event_log list option"
  bq_blocksAdd :: "string \<Rightarrow> block_detail option"
  bq_processQueue :: "block_job list"

definition newQueue :: block_and_logs_queue where
  "newQueue = \<lparr>bq_logsRemove = Map.empty, bq_blocksAdd = Map.empty, bq_processQueue = []\<rparr>"

definition enqueueBlockProcessing ::
  "BlockDirection \<Rightarrow> block_detail option \<Rightarrow> event_log list option \<Rightarrow> block_and_logs_queue \<Rightarrow> block_and_logs_queue" where
  "enqueueBlockProcessing direction block logs q =
     q\<lparr>bq_processQueue := bq_processQueue q @ [(direction, block, logs)]\<rparr>"

definition acceptAddLogs :: "string \<Rightarrow> event_log list \<Rightarrow> block_and_logs_queue \<Rightarrow> block_and_logs_queue" where
  "acceptAddLogs blockHash logs q =
     (let block = bq_blocksAdd q blockHash in
      enqueueBlockProcessing Add block (Some logs) (q\<lparr>bq_blocksAdd := (bq_blocksAdd q)(blockHash := None)\<rparr>))"

definition acceptRemoveLogs :: "string \<Rightarrow> event_log list \<Rightarrow> block_and_logs_queue \<Rightarrow> block_and_logs_queue" where
  "acceptRemoveLogs blockHash logs q = q\<lparr>bq_logsRemove := (bq_logsRemove q)(blockHash \<mapsto> logs)\<rparr>"

definition acceptAddBlock :: "block_detail \<Rightarrow> block_and_logs_queue \<Rightarrow> block_and_logs_queue" where
  "acceptAddBlock block q = q\<lparr>bq_blocksAdd := (bq_blocksAdd q)(bd_hash block \<mapsto> block)\<rparr>"

definition acceptRemoveBlock :: "block_detail \<Rightarrow> block_and_logs_queue \<Rightarrow> block_and_logs_queue" where
  "acceptRemoveBlock block q =
     (let logs = bq_logsRemove q (bd_hash block) in
      enqueueBlockProcessing Remove (Some block) logs
        (q\<lparr>bq_logsRemove := (bq_logsRemove q)(bd_hash block := None)\<rparr>))"

text \<open>What the block stream reports.\<close>

datatype stream_event =
    AddedBlock block_detail
  | AddedLogs string "event_log list"
  | RemovedLogs string "event_log list"
  | RemovedBlock block_detail

fun acceptEvent :: "stream_event \<Rightarrow> block_and_logs_queue \<Rightarrow> block_and_logs_queue" where
  "acceptEvent (AddedBlock b) = acceptAddBlock b"
| "acceptEvent (AddedLogs h ls) = acceptAddLogs h ls"
| "acceptEvent (RemovedLogs h ls) = acceptRemoveLogs h ls"
| "acceptEvent (RemovedBlock b) = acceptRemoveBlock b"

text \<open>
  The queue runs its jobs one at a time. A job that fails ends the process: \<open>_shutdownCallback\<close> exits.
\<close>

definition runListeners :: "env \<Rightarrow> stream_event list \<Rightarrow> unit action" where
  "runListeners env es = forA (bq_processQueue (fold acceptEvent es newQueue)) (processJob env)"

section \<open>What the queue does, seen from the history\<close>

text \<open>
  The event about the additions, or the removals, of a hash that came last. Logs that were added have
  taken their block, a block that was removed has taken its logs.
\<close>

fun addsHash :: "string \<Rightarrow> stream_event \<Rightarrow> bool" where
  "addsHash h (AddedBlock b) \<longleftrightarrow> bd_hash b = h"
| "addsHash h (AddedLogs h' ls) \<longleftrightarrow> h' = h"
| "addsHash h _ \<longleftrightarrow> False"

fun removesHash :: "string \<Rightarrow> stream_event \<Rightarrow> bool" where
  "removesHash h (RemovedLogs h' ls) \<longleftrightarrow> h' = h"
| "removesHash h (RemovedBlock b) \<longleftrightarrow> bd_hash b = h"
| "removesHash h _ \<longleftrightarrow> False"

definition lastBlock :: "string \<Rightarrow> stream_event list \<Rightarrow> block_detail option" where
  "lastBlock h past = (case find (addsHash h) (rev past) of Some (AddedBlock b) \<Rightarrow> Some b | _ \<Rightarrow> None)"

definition lastLogs :: "string \<Rightarrow> stream_event list \<Rightarrow> event_log list option" where
  "lastLogs h past = (case find (removesHash h) (rev past) of Some (RemovedLogs _ ls) \<Rightarrow> Some ls | _ \<Rightarrow> None)"

fun jobAt :: "stream_event list \<Rightarrow> stream_event \<Rightarrow> block_job list" where
  "jobAt past (AddedLogs h ls) = [(Add, lastBlock h past, Some ls)]"
| "jobAt past (RemovedBlock b) = [(Remove, Some b, lastLogs (bd_hash b) past)]"
| "jobAt past _ = []"

definition jobsOf :: "stream_event list \<Rightarrow> block_job list" where
  "jobsOf es = concat (map (\<lambda>i. jobAt (take i es) (es ! i)) [0..<length es])"

lemma jobsOf_snoc: "jobsOf (es @ [e]) = jobsOf es @ jobAt es e"
proof -
  let ?f = "\<lambda>es i. jobAt (take i es) (es ! i)"
  have "map (?f (es @ [e])) [0..<length es] = map (?f es) [0..<length es]"
    by (rule map_cong [OF refl]) (simp add: nth_append)
  moreover have "concat (map (?f (es @ [e])) [0..<Suc (length es)]) =
      concat (map (?f (es @ [e])) [0..<length es]) @ ?f (es @ [e]) (length es)"
    by (simp only: upt_Suc_append le0 map_append concat_append list.map concat.simps append_Nil2)
  ultimately show ?thesis by (simp only: jobsOf_def length_append_singleton) simp
qed

definition queue_after :: "stream_event list \<Rightarrow> block_and_logs_queue \<Rightarrow> bool" where
  "queue_after es q \<longleftrightarrow> bq_processQueue q = jobsOf es \<and> (\<forall>h. bq_blocksAdd q h = lastBlock h es) \<and>
     (\<forall>h. bq_logsRemove q h = lastLogs h es)"

lemma queue_after_step:
  assumes "queue_after es q"
  shows "queue_after (es @ [e]) (acceptEvent e q)"
  using assms
  by (cases e) (auto simp: queue_after_def jobsOf_snoc acceptAddBlock_def acceptAddLogs_def acceptRemoveLogs_def
      acceptRemoveBlock_def enqueueBlockProcessing_def lastBlock_def lastLogs_def Let_def)

lemma queue_jobs: "bq_processQueue (fold acceptEvent es newQueue) = jobsOf es"
proof -
  have "queue_after es (fold acceptEvent es newQueue)"
  proof (induction es rule: rev_induct)
    case Nil
    then show ?case by (simp add: queue_after_def newQueue_def jobsOf_def lastBlock_def lastLogs_def)
  next
    case (snoc e es)
    then show ?case using queue_after_step by simp
  qed
  then show ?thesis by (simp add: queue_after_def)
qed

text \<open>C10. The jobs of the queue are those of the history: each time logs are added, or a block is removed, one
  job with its block, or its logs, which is the last one announced for this hash and not yet taken;
  the jobs are in the order of these events, whatever other events come in between.\<close>

theorem queue_refines_history: "bq_processQueue (fold acceptEvent es newQueue) = jobsOf es"
  by (rule queue_jobs)

text \<open>C6. When the listeners have processed all that the block stream reported, the table of blocks is the chain
  that the reports describe, and every job had its block and its logs.\<close>

theorem listeners_follow_stream:
  assumes "blocks.valid_table w" "runListeners env es w = (Inr (), w')"
  shows "blocks.valid_table w' \<and> blockHashes w' = fold chainStep (jobsOf es) (blockHashes w) \<and>
    list_all (\<lambda>(_, block, logs). block \<noteq> None \<and> logs \<noteq> None) (jobsOf es)"
proof -
  have run: "forA (jobsOf es) (processJob env) w = (Inr (), w')"
    using assms(2) unfolding runListeners_def queue_jobs .
  have "list_all (\<lambda>(_, block, logs). block \<noteq> None \<and> logs \<noteq> None) js"
    if "forA js (processJob env) v = (Inr (), w')" for js v
    using that
  proof (induction js arbitrary: v)
    case (Cons job js)
    then obtain u where "processJob env job v = (Inr (), u)" "forA js (processJob env) u = (Inr (), w')"
      by (auto simp: thenA_eq_Inr)
    then show ?case
      using Cons.IH by (cases job) (auto simp: processJob_def processBlockAndLogs_def bindA_eq_Inr orThrow_eq_Inr
          timedBlock_def bind_eq_Some_conv)
  qed simp
  then show ?thesis using blocks_follow_chain [OF assms(1) run] run by blast
qed

theorem listeners_follow_stream_witness:
  "\<exists>w'. runListeners sample_env [AddedBlock sample_block, AddedLogs ''h8'' [], RemovedLogs ''h8'' [],
       RemovedBlock sample_block] empty_world = (Inr (), w') \<and> blockHashes w' = Map.empty"
proof -
  let ?es = "[AddedBlock sample_block, AddedLogs ''h8'' [], RemovedLogs ''h8'' [], RemovedBlock sample_block]"
  have h: "bd_hash sample_block = ''h8''" by (simp add: sample_block_def)
  have jobs: "jobsOf ?es = [(Add, Some sample_block, Some []), (Remove, Some sample_block, Some [])]"
    by (simp add: jobsOf_def upt_rec lastBlock_def lastLogs_def h)
  obtain w1 where w1: "processJob sample_env (Add, Some sample_block, Some []) empty_world = (Inr (), w1)"
    "t_transactionHashes (tables w1) = []" "t_pending_orphan_checks (tables w1) = []"
    "t_pending_liquidity_updates (tables w1) = []"
    using empty_block_added by blast
  obtain w2 where w2: "processJob sample_env (Remove, Some sample_block, Some []) w1 = (Inr (), w2)"
    using empty_block_removed [OF w1(2-4)] by blast
  have run: "runListeners sample_env ?es empty_world = (Inr (), w2)"
    unfolding runListeners_def queue_jobs jobs using w1(1) w2 by (simp add: thenA_def bindA_def return_app)
  have "blocks.valid_table empty_world" "blockHashes empty_world = Map.empty"
    by (simp_all add: blocks.valid_table_def blockHashes_def blockRows_def)
  then show ?thesis
    using listeners_follow_stream [OF _ run] run unfolding jobs by (auto simp: chainStep_def h fun_eq_iff)
qed

section \<open>The bulk download at the start\<close>

definition BLOCKSTREAM_HANDOFF_BLOCKS :: int where
  "BLOCKSTREAM_HANDOFF_BLOCKS = 5"

text \<open>
  The Ethereum node answers polls: \<open>heights i\<close> is its block number at the \<open>i\<close>-th, \<open>answers i\<close> whether
  \<open>eth_syncing\<close> was false and the block number at the \<open>i\<close>-th. A loop that never ends is \<open>None\<close>.
\<close>

definition isEthNodeSyncing :: "bool \<times> int \<Rightarrow> bool" where
  "isEthNodeSyncing = (\<lambda>(syncingResultFalse, highestBlockNumber). \<not> syncingResultFalse \<or> highestBlockNumber = 0)"

partial_function (option) poll :: "(nat \<Rightarrow> bool) \<Rightarrow> nat \<Rightarrow> nat option" where
  "poll waiting i = (if waiting i then poll waiting (Suc i) else Some i)"

definition waitForEthNodeToFinishSyncing :: "(nat \<Rightarrow> bool \<times> int) \<Rightarrow> nat option" where
  "waitForEthNodeToFinishSyncing answers = poll (\<lambda>i. isEthNodeSyncing (answers i)) 0"

definition waitForHandoff :: "(nat \<Rightarrow> int) \<Rightarrow> int \<Rightarrow> nat option" where
  "waitForHandoff heights fromBlock = poll (\<lambda>i. heights i - BLOCKSTREAM_HANDOFF_BLOCKS < fromBlock) 0"

definition lastSyncBlockNumber :: "world \<Rightarrow> int option" where
  "lastSyncBlockNumber w =
     (case t_blocks (tables w) of [] \<Rightarrow> None | bs \<Rightarrow> Some (Max (bk_blockNumber ` set bs)))"

definition syncFrom :: "world \<Rightarrow> int \<Rightarrow> int \<Rightarrow> int" where
  "syncFrom w uploadBlockNumber highestBlockNumber =
     (if uploadBlockNumber > highestBlockNumber then 0
      else case lastSyncBlockNumber w of None \<Rightarrow> uploadBlockNumber | Some n \<Rightarrow> n + 1)"

text \<open>\<open>getAllAugurLogs from to\<close>: the batches of logs of a range of blocks and how the stream ends.\<close>

record chain_client =
  cc_answers :: "nat \<Rightarrow> bool \<times> int"
  cc_heights :: "nat \<Rightarrow> int"
  cc_uploadBlockNumber :: int
  cc_getBlockByNumber :: "int \<Rightarrow> block_detail option result"
  cc_getAllAugurLogs :: "int \<Rightarrow> int \<Rightarrow> log_batch list \<times> unit result"

definition downloadRange :: "env \<Rightarrow> chain_client \<Rightarrow> int \<Rightarrow> int \<Rightarrow> unit action" where
  "downloadRange env client fromBlock toBlock =
     (case cc_getAllAugurLogs client fromBlock toBlock of
        (batches, finish) \<Rightarrow> downloadAugurLogs env (cc_getBlockByNumber client) batches finish)"

definition setSyncFinished :: "unit action" where
  "setSyncFinished = emit ''SyncFinished'' (None :: base_log option) []"

definition bulkDownload :: "env \<Rightarrow> chain_client \<Rightarrow> int \<Rightarrow> bool \<Rightarrow> int \<Rightarrow> int action" where
  "bulkDownload env client fromBlock skipBulkDownload highestBlockNumber =
     (let handoffBlockNumber = highestBlockNumber - BLOCKSTREAM_HANDOFF_BLOCKS in
      if skipBulkDownload then thenA setSyncFinished (return (fromBlock - 1))
      else thenA (downloadRange env client fromBlock handoffBlockNumber)
          (thenA setSyncFinished
          (thenA (modify (\<lambda>w. w\<lparr>tables := (tables w)\<lparr>t_blockchain_sync_history :=
                    t_blockchain_sync_history (tables w) @ [highestBlockNumber]\<rparr>\<rparr>))
                 (return handoffBlockNumber))))"

definition bulkSyncAugurNodeWithBlockchain ::
  "env \<Rightarrow> chain_client \<Rightarrow> world \<Rightarrow> (int result \<times> world) option" where
  "bulkSyncAugurNodeWithBlockchain env client w =
     Option.bind (waitForEthNodeToFinishSyncing (cc_answers client)) (\<lambda>_.
     let fromBlock = syncFrom w (cc_uploadBlockNumber client) (cc_heights client 0) in
     Option.bind (waitForHandoff (cc_heights client) fromBlock) (\<lambda>polls.
     Some (bulkDownload env client fromBlock (0 < polls) (cc_heights client polls) w)))"

text \<open>
  The start of the node: the bulk download, the pending checks, then the listeners, from the block after
  the one handed over. \<open>stream n\<close> is what the block stream reports when it starts at block \<open>n\<close>.
\<close>

definition startNode ::
  "env \<Rightarrow> chain_client \<Rightarrow> (int \<Rightarrow> stream_event list) \<Rightarrow> world \<Rightarrow> (unit result \<times> world) option" where
  "startNode env client stream w =
     map_option (\<lambda>(r, w1). case r of
         Inl e \<Rightarrow> (Inl e, w1)
       | Inr handoffBlockNumber \<Rightarrow>
           thenA (checkOrphanedOrders env)
          (thenA (checkMarketLiquidityUpdates env)
                 (runListeners env (stream (handoffBlockNumber + 1)))) w1)
     (bulkSyncAugurNodeWithBlockchain env client w)"

lemma poll_ends:
  assumes "i \<le> j" "\<not> waiting j"
  shows "\<exists>n. poll waiting i = Some n \<and> i \<le> n \<and> n \<le> j"
  using assms
proof (induction "j - i" arbitrary: i)
  case 0
  then show ?case by (subst poll.simps) auto
next
  case (Suc d)
  show ?case
  proof (cases "waiting i")
    case True
    then have "i \<noteq> j" using Suc.prems by blast
    then have "\<exists>n. poll waiting (Suc i) = Some n \<and> Suc i \<le> n \<and> n \<le> j"
      using Suc.hyps Suc.prems by (intro Suc.hyps(1)) auto
    then show ?thesis using True by (subst poll.simps) auto
  next
    case False
    then show ?thesis using Suc.prems by (subst poll.simps) simp
  qed
qed

lemma poll_result:
  assumes "poll waiting i = Some n"
  shows "\<not> waiting n \<and> i \<le> n"
proof (rule poll.raw_induct [where P = "\<lambda>waiting i n. \<not> waiting n \<and> i \<le> n"])
  fix f :: "(nat \<Rightarrow> bool) \<Rightarrow> nat \<Rightarrow> nat option" and waiting i n
  assume IH: "\<And>waiting i n. f waiting i = Some n \<Longrightarrow> \<not> waiting n \<and> i \<le> n"
    and run: "(if waiting i then f waiting (Suc i) else Some i) = Some n"
  show "\<not> waiting n \<and> i \<le> n"
  proof (cases "waiting i")
    case True
    then show ?thesis using IH [of waiting "Suc i" n] run by simp
  next
    case False
    then show ?thesis using run by simp
  qed
qed (rule assms)

lemma poll_first:
  assumes "poll waiting i = Some n" "i \<le> m" "m < n"
  shows "waiting m"
  using assms
proof (induction "m - i" arbitrary: i)
  case 0
  then show ?case by (subst (asm) poll.simps) (auto split: if_splits)
next
  case (Suc d)
  then have "poll waiting (Suc i) = Some n" by (subst (asm) poll.simps) (auto split: if_splits)
  then show ?case using Suc.hyps(1) [of "Suc i"] Suc.hyps(2) Suc.prems by simp
qed

lemma syncFrom_cases:
  "syncFrom w upload height = (if upload > height then 0 else if t_blocks (tables w) = [] then upload
     else Max (bk_blockNumber ` set (t_blocks (tables w))) + 1)"
  by (simp add: syncFrom_def lastSyncBlockNumber_def split: list.split)

lemma bulkDownload_skipped:
  "\<exists>w1. bulkDownload env client start True highest w = (Inr (start - 1), w1) \<and> tables w1 = tables w"
  by (simp add: bulkDownload_def Let_def setSyncFinished_def act_simps return_app emit_app)

lemma bulkDownload_download:
  "case downloadRange env client start (highest - 5) w of
     (Inl e, v) \<Rightarrow> bulkDownload env client start False highest w = (Inl e, v)
   | (Inr u, v) \<Rightarrow> \<exists>w1. bulkDownload env client start False highest w = (Inr (highest - 5), w1) \<and>
       tables w1 = (tables v)\<lparr>t_blockchain_sync_history := t_blockchain_sync_history (tables v) @ [highest]\<rparr>"
  by (auto simp: bulkDownload_def Let_def setSyncFinished_def act_simps return_app emit_app modify_app thenA_def bindA_def
     BLOCKSTREAM_HANDOFF_BLOCKS_def split: prod.split sum.split)

text \<open>C16. When the Ethereum node finishes syncing and its chain gets five blocks ahead of the first block to fetch,
  the bulk download returns. The first block to fetch is the one after the last recorded block, the block
  the contracts were uploaded in when none is recorded, and block 0 when that block is still ahead of the chain.
  If the chain was not yet five blocks ahead, nothing is downloaded and the listeners start at that block;
  otherwise the blocks from it to the fifth last are downloaded, and if that succeeds the listeners start at the
  block after the last one downloaded. If it fails, the node does not start.\<close>

theorem bulk_sync_hands_over:
  assumes "\<not> isEthNodeSyncing (cc_answers client i)"
    and "start = (if cc_uploadBlockNumber client > cc_heights client 0 then 0
      else if t_blocks (tables w) = [] then cc_uploadBlockNumber client
      else Max (bk_blockNumber ` set (t_blocks (tables w))) + 1)"
    and "start \<le> cc_heights client j - 5"
  shows "if cc_heights client 0 - 5 < start
    then \<exists>w1. bulkSyncAugurNodeWithBlockchain env client w = Some (Inr (start - 1), w1) \<and> tables w1 = tables w \<and>
      startNode env client stream w =
        Some (thenA (checkOrphanedOrders env) (thenA (checkMarketLiquidityUpdates env) (runListeners env (stream start))) w1)
    else case downloadRange env client start (cc_heights client 0 - 5) w of
      (Inl e, v) \<Rightarrow> bulkSyncAugurNodeWithBlockchain env client w = Some (Inl e, v) \<and>
        startNode env client stream w = Some (Inl e, v)
    | (Inr u, v) \<Rightarrow> \<exists>w1. bulkSyncAugurNodeWithBlockchain env client w = Some (Inr (cc_heights client 0 - 5), w1) \<and>
        tables w1 = (tables v)\<lparr>t_blockchain_sync_history :=
          t_blockchain_sync_history (tables v) @ [cc_heights client 0]\<rparr> \<and>
        startNode env client stream w = Some (thenA (checkOrphanedOrders env)
          (thenA (checkMarketLiquidityUpdates env) (runListeners env (stream (cc_heights client 0 - 5 + 1)))) w1)"
proof -
  have start: "syncFrom w (cc_uploadBlockNumber client) (cc_heights client 0) = start"
    unfolding syncFrom_cases assms(2) by (rule refl)
  obtain n where n: "waitForEthNodeToFinishSyncing (cc_answers client) = Some n"
    using poll_ends [of 0 i "\<lambda>i. isEthNodeSyncing (cc_answers client i)"] assms(1)
    unfolding waitForEthNodeToFinishSyncing_def by auto
  obtain k where k: "waitForHandoff (cc_heights client) start = Some k"
    using poll_ends [of 0 j "\<lambda>i. cc_heights client i - BLOCKSTREAM_HANDOFF_BLOCKS < start"] assms(3)
    unfolding waitForHandoff_def BLOCKSTREAM_HANDOFF_BLOCKS_def by auto
  have run: "bulkSyncAugurNodeWithBlockchain env client w =
      Some (bulkDownload env client start (0 < k) (cc_heights client k) w)"
    by (simp add: bulkSyncAugurNodeWithBlockchain_def n k Let_def start)
  show ?thesis
  proof (cases "cc_heights client 0 - 5 < start")
    case True
    then have "0 < k" using poll_result [OF k [unfolded waitForHandoff_def]]
      by (cases k) (auto simp: BLOCKSTREAM_HANDOFF_BLOCKS_def)
    then show ?thesis using True bulkDownload_skipped [of env client start "cc_heights client k" w]
      by (auto simp: run startNode_def)
  next
    case False
    then have "k = 0" using poll_first [OF k [unfolded waitForHandoff_def], of 0]
      by (cases k) (auto simp: BLOCKSTREAM_HANDOFF_BLOCKS_def)
    then show ?thesis using False bulkDownload_download [of env client start "cc_heights client 0" w]
      by (auto simp: run startNode_def split: prod.splits sum.splits)
  qed
qed

text \<open>A synced node at block 10 whose logs are empty; the last block of the database is block 2.\<close>

definition sample_client :: chain_client where
  "sample_client = \<lparr>cc_answers = (\<lambda>i. (0 < i, 10)), cc_heights = (\<lambda>i. 10 + int i), cc_uploadBlockNumber = 3,
     cc_getBlockByNumber = (\<lambda>_. Inr (Some sample_block)), cc_getAllAugurLogs = (\<lambda>_ _. ([], Inr ()))\<rparr>"

definition synced_world :: world where
  "synced_world = empty_world\<lparr>tables := empty_db\<lparr>t_blocks := [\<lparr>bk_blockNumber = 2, bk_blockHash = ''h2'', bk_timestamp = 0, bk_bulkSync = True\<rparr>]\<rparr>\<rparr>"

theorem bulk_sync_hands_over_witness:
  "\<exists>w1. bulkSyncAugurNodeWithBlockchain sample_env sample_client synced_world = Some (Inr 5, w1) \<and>
    startNode sample_env sample_client (\<lambda>n. if n = 6 then [] else [AddedBlock sample_block]) synced_world =
      Some (thenA (checkOrphanedOrders sample_env) (thenA (checkMarketLiquidityUpdates sample_env)
        (runListeners sample_env [])) w1)"
proof -
  have c: "\<not> isEthNodeSyncing (cc_answers sample_client 1)"
    by (simp add: sample_client_def isEthNodeSyncing_def)
  have s: "(3::int) = (if cc_uploadBlockNumber sample_client > cc_heights sample_client 0 then 0
      else if t_blocks (tables synced_world) = [] then cc_uploadBlockNumber sample_client
      else Max (bk_blockNumber ` set (t_blocks (tables synced_world))) + 1)"
    by (simp add: sample_client_def synced_world_def)
  have h: "cc_heights sample_client 0 = 10" by (simp add: sample_client_def)
  have d: "\<exists>v. downloadRange sample_env sample_client 3 5 synced_world = (Inr (), v)"
    by (simp add: downloadRange_def sample_client_def downloadAugurLogs_def act_simps)
  show ?thesis
    using bulk_sync_hands_over [OF c s, of 0 sample_env "\<lambda>n. if n = 6 then [] else [AddedBlock sample_block]"] d unfolding h by auto
qed

end
