(* ===== verification/Lodash.thy ===== *)
theory Lodash
  imports Prelude
begin

text \<open>
  The library functions on collections that the getters of \<open>src/server/getters\<close> use: dictionaries built
  by \<open>_.groupBy\<close>, \<open>_.mapValues\<close>, \<open>_.zip\<close>, \<open>_.reduce\<close> without a start value, \<open>_.chunk\<close>, and maps with
  an effect on a local store.

  A JavaScript object used as a dictionary is an association list in the order in which its keys are
  enumerated: the order of insertion, but ascending for keys that are array indices (the number of an
  outcome). \<open>groupBy\<close> serves the former, \<open>groupByIndex\<close> the latter.
\<close>

section \<open>Dictionaries\<close>

fun addToGroup :: "'k \<Rightarrow> 'v \<Rightarrow> ('k \<times> 'v list) list \<Rightarrow> ('k \<times> 'v list) list" where
  "addToGroup k v [] = [(k, [v])]"
| "addToGroup k v ((k', vs) # d) =
     (if k = k' then (k', vs @ [v]) # d else (k', vs) # addToGroup k v d)"

definition groupBy :: "('v \<Rightarrow> 'k) \<Rightarrow> 'v list \<Rightarrow> ('k \<times> 'v list) list" where
  "groupBy f xs = foldl (\<lambda>d x. addToGroup (f x) x d) [] xs"

definition groupByIndex :: "('v \<Rightarrow> int) \<Rightarrow> 'v list \<Rightarrow> (int \<times> 'v list) list" where
  "groupByIndex f xs = sort_key fst (groupBy f xs)"

definition mapValues :: "('k \<Rightarrow> 'v \<Rightarrow> 'w) \<Rightarrow> ('k \<times> 'v) list \<Rightarrow> ('k \<times> 'w) list" where
  "mapValues f d = map (\<lambda>(k, v). (k, f k v)) d"

definition dictValues :: "('k \<times> 'v) list \<Rightarrow> 'v list" where
  "dictValues d = map snd d"

definition lookupIn :: "('k \<times> ('j \<times> 'v) list) list \<Rightarrow> 'k \<Rightarrow> 'j \<Rightarrow> 'v option" where
  "lookupIn d k j = (case map_of d k of None \<Rightarrow> None | Some e \<Rightarrow> map_of e j)"

text \<open>\<open>d[k] = v\<close>: a new key goes to the end.\<close>

fun dictSet :: "'k \<Rightarrow> 'v \<Rightarrow> ('k \<times> 'v) list \<Rightarrow> ('k \<times> 'v) list" where
  "dictSet k v [] = [(k, v)]"
| "dictSet k v ((k', v') # d) = (if k = k' then (k, v) # d else (k', v') # dictSet k v d)"

lemma map_of_dictSet: "map_of (dictSet k v d) = (map_of d)(k \<mapsto> v)"
  by (induction k v d rule: dictSet.induct) auto

lemma keys_dictSet: "fst ` set (dictSet k v d) = insert k (fst ` set d)"
  by (induction k v d rule: dictSet.induct) auto

lemma distinct_dictSet: "distinct (map fst d) \<Longrightarrow> distinct (map fst (dictSet k v d))"
proof (induction k v d rule: dictSet.induct)
  case (2 k v k' v' d)
  then show ?case using keys_dictSet [of k v d] by auto
qed simp

text \<open>Each key has, in order, the elements with this key; every element is in one group.\<close>

lemma map_of_addToGroup:
  "map_of (addToGroup k v d) j =
     (if j = k then Some (case map_of d k of None \<Rightarrow> [v] | Some vs \<Rightarrow> vs @ [v]) else map_of d j)"
  by (induction k v d rule: addToGroup.induct) auto

lemma keys_addToGroup: "fst ` set (addToGroup k v d) = insert k (fst ` set d)"
  by (induction k v d rule: addToGroup.induct) auto

lemma distinct_addToGroup:
  "distinct (map fst d) \<Longrightarrow> distinct (map fst (addToGroup k v d))"
proof (induction k v d rule: addToGroup.induct)
  case (2 k v k' vs d)
  then show ?case using keys_addToGroup [of k v d] by auto
qed simp

lemma groupBy_Nil [simp]: "groupBy f [] = []"
  by (simp add: groupBy_def)

lemma groupBy_snoc: "groupBy f (xs @ [x]) = addToGroup (f x) x (groupBy f xs)"
  by (simp add: groupBy_def)

lemma groupBy_distinct: "distinct (map fst (groupBy f xs))"
  by (induction xs rule: rev_induct) (simp_all add: groupBy_snoc distinct_addToGroup)

lemma map_of_groupBy:
  "map_of (groupBy f xs) k =
     (if k \<in> f ` set xs then Some (filter (\<lambda>x. f x = k) xs) else None)"
proof (induction xs rule: rev_induct)
  case (snoc x xs)
  have "filter (\<lambda>y. f y = k) xs = []" if "k \<notin> f ` set xs"
    using that by (auto simp: filter_empty_conv)
  with snoc show ?case by (auto simp: groupBy_snoc map_of_addToGroup)
qed simp

lemma groupBy_mem:
  "(k, vs) \<in> set (groupBy f xs) \<longleftrightarrow> k \<in> f ` set xs \<and> vs = filter (\<lambda>x. f x = k) xs"
  using map_of_eq_Some_iff [OF groupBy_distinct, of f xs k vs] by (auto simp: map_of_groupBy split: if_splits)

lemma groupBy_keys: "fst ` set (groupBy f xs) = f ` set xs"
  by (induction xs rule: rev_induct) (auto simp: groupBy_snoc keys_addToGroup)

lemma groupBy_empty [simp]: "groupBy f xs = [] \<longleftrightarrow> xs = []"
  using groupBy_keys [of f xs] by (cases xs) auto

lemma map_of_sort_key:
  assumes "distinct (map fst d)"
  shows "map_of (sort_key fst d) = map_of d"
  by (rule map_of_inject_set [THEN iffD2]) (use assms in \<open>auto simp: distinct_map\<close>)

lemma groupByIndex_mem: "(k, vs) \<in> set (groupByIndex f xs) \<longleftrightarrow> k \<in> f ` set xs \<and>
    vs = filter (\<lambda>x. f x = k) xs"
  by (simp add: groupByIndex_def groupBy_mem)

lemma groupByIndex_distinct: "distinct (map fst (groupByIndex f xs))"
  using groupBy_distinct [of f xs] by (simp add: groupByIndex_def distinct_map)

lemma map_of_groupByIndex:
  "map_of (groupByIndex f xs) k =
     (if k \<in> f ` set xs then Some (filter (\<lambda>x. f x = k) xs) else None)"
  by (simp add: groupByIndex_def map_of_sort_key groupBy_distinct map_of_groupBy)

lemma groupByIndex_empty [simp]: "groupByIndex f xs = [] \<longleftrightarrow> xs = []"
  using groupBy_empty [of f xs] unfolding groupByIndex_def by (metis length_0_conv length_sort)

lemma groupByIndex_sorted: "sorted (map fst (groupByIndex f xs))"
  by (simp add: groupByIndex_def)

text \<open>A sum over all elements is the sum over the groups of the sums within them.\<close>

lemma sum_addToGroup:
  fixes h :: "'v \<Rightarrow> 'n :: comm_monoid_add"
  shows "sum_list (map (\<lambda>(k, vs). sum_list (map h vs)) (addToGroup k v d)) =
    sum_list (map (\<lambda>(k, vs). sum_list (map h vs)) d) + h v"
  by (induction k v d rule: addToGroup.induct) (simp_all add: add.assoc add.commute add.left_commute)

lemma sum_groupBy:
  fixes h :: "'v \<Rightarrow> 'n :: comm_monoid_add"
  shows "sum_list (map (\<lambda>(k, vs). sum_list (map h vs)) (groupBy f xs)) = sum_list (map h xs)"
  by (induction xs rule: rev_induct) (simp_all add: groupBy_snoc sum_addToGroup)

section \<open>Lists\<close>

text \<open>\<open>_.reduce\<close> without a start value: \<open>undefined\<close> on the empty list.\<close>

definition reduce1 :: "('a \<Rightarrow> 'a \<Rightarrow> 'a result) \<Rightarrow> 'a list \<Rightarrow> 'a option result" where
  "reduce1 f xs = (case xs of [] \<Rightarrow> Inr None | x # ys \<Rightarrow> bindE (foldE f x ys) (\<lambda>r. Inr (Some r)))"

text \<open>\<open>_.zip\<close>: the \<open>i\<close>-th group has the \<open>i\<close>-th elements; a list that is too short gives \<open>undefined\<close>.\<close>

definition zipAll :: "'a list list \<Rightarrow> 'a option list list" where
  "zipAll xss = map (\<lambda>i. map (\<lambda>xs. if i < length xs then Some (xs ! i) else None) xss)
     [0..<foldr max (map length xss) 0]"

lemma foldr_max_const: "xs \<noteq> [] \<Longrightarrow> \<forall>x \<in> set xs. x = n \<Longrightarrow> foldr max xs (0 :: nat) = n"
proof (induction xs)
  case (Cons x xs)
  have "foldr max xs 0 = (if xs = [] then 0 else n)" using Cons by (cases "xs = []") simp_all
  then show ?case using Cons.prems(2) by simp
qed simp

lemma foldE_snoc: "foldE f b (xs @ [x]) = bindE (foldE f b xs) (\<lambda>c. f c x)"
proof (induction xs arbitrary: b)
  case Nil
  then show ?case by (cases "f b x") simp_all
qed (simp add: bindE_assoc)

text \<open>A reduction that adds up.\<close>

lemma foldl_sum:
  fixes f :: "'a \<Rightarrow> 'n :: comm_monoid_add"
  shows "foldl (\<lambda>acc x. acc + f x) a xs = a + sum_list (map f xs)"
  by (induction xs arbitrary: a) (simp_all add: add.assoc)

lemma sum_list_concat: "sum_list (concat xss) = sum_list (map sum_list xss)"
  by (induction xss) simp_all

lemma mapE_map: "mapE f (map g xs) = mapE (\<lambda>x. f (g x)) xs"
  by (induction xs) simp_all

lemma zipAll_equal:
  assumes "\<And>xs. xs \<in> set xss \<Longrightarrow> length xs = n" "xss \<noteq> []"
  shows "zipAll xss = map (\<lambda>i. map Some (map (\<lambda>xs. xs ! i) xss)) [0..<n]"
proof -
  have "foldr max (map length xss) 0 = n" by (rule foldr_max_const) (use assms in auto)
  then show ?thesis using assms(1) by (simp add: zipAll_def)
qed

text \<open>\<open>SELECT DISTINCT\<close>, \<open>UNION\<close> and \<open>_.uniq\<close>: the first of equal rows stays.\<close>

definition distinctRows :: "'a list \<Rightarrow> 'a list" where
  "distinctRows xs = rev (remdups (rev xs))"

lemma set_distinctRows [simp]: "set (distinctRows xs) = set xs"
  by (simp add: distinctRows_def)

lemma distinct_distinctRows [simp]: "distinct (distinctRows xs)"
  by (simp add: distinctRows_def)

text \<open>\<open>_.chunk\<close>: pieces of \<open>n\<close> elements, the last one possibly shorter.\<close>

function chunk :: "nat \<Rightarrow> 'a list \<Rightarrow> 'a list list" where
  "chunk n xs = (if n = 0 \<or> xs = [] then [] else take n xs # chunk n (drop n xs))"
  by pat_completeness auto
termination by (relation "measure (\<lambda>(n, xs). length xs)") auto

declare chunk.simps [simp del]

lemma concat_chunk: "0 < n \<Longrightarrow> concat (chunk n xs) = xs"
  by (induction n xs rule: chunk.induct) (subst chunk.simps, auto)

lemma chunk_sizes: "0 < n \<Longrightarrow> c \<in> set (chunk n xs) \<Longrightarrow> c \<noteq> [] \<and> length c \<le> n"
proof (induction n xs rule: chunk.induct)
  case (1 n xs)
  then show ?case by (subst (asm) (2) chunk.simps) (auto split: if_splits)
qed

lemma list_all2_mem: "list_all2 R xs ys \<Longrightarrow> y \<in> set ys \<Longrightarrow> \<exists>x \<in> set xs. R x y"
  by (induction rule: list_all2_induct) auto

text \<open>\<open>_.map\<close> with a function that reads and writes a store of objects.\<close>

fun mapS :: "('a \<Rightarrow> 's \<Rightarrow> 'b \<times> 's) \<Rightarrow> 'a list \<Rightarrow> 's \<Rightarrow> 'b list \<times> 's" where
  "mapS f [] s = ([], s)"
| "mapS f (x # xs) s = (let (y, s1) = f x s; (ys, s2) = mapS f xs s1 in (y # ys, s2))"

lemma length_mapS [simp]: "length (fst (mapS f xs s)) = length xs"
  by (induction xs arbitrary: s) (auto simp: Let_def split: prod.split, metis fst_conv)

lemma mapS_append:
  "mapS f (xs @ ys) s = (let (us, s1) = mapS f xs s; (vs, s2) = mapS f ys s1 in (us @ vs, s2))"
  by (induction xs arbitrary: s) (auto simp: Let_def split: prod.split)

end
