(* ===== verification/Profit_Loss_Getter.thy ===== *)
theory Profit_Loss_Getter
  imports Profit_Loss Lodash
begin

text \<open>
  \<open>src/server/getters/get-profit-loss.ts\<close>: the profit and loss of an account, per outcome and summed, at the
  ends of the periods (buckets) of an interval of time.

  \<^item> Times are JavaScript numbers, here rationals: requests and the clock may give fractions of a second.
    \<open>Timestamped\<close> and the types that extend it are records that extend \<open>timestamped\<close>; what is generic
    in \<open>T extends Timestamped\<close> is polymorphic in the extension.
  \<^item> \<open>bucketAtTimestamps\<close> assigns to the rows it selects, and one row can be selected for several
    buckets. The rows fetched by a query are therefore objects in a store (a list, a reference is an index), and
    selecting returns references; what the later steps read is the store at the end.
  \<^item> Dictionaries are association lists (theory \<open>Lodash\<close>). Fields of the results that the interface does
    not declare are left out.
\<close>

section \<open>Rows, results, requests\<close>

record timestamped =
  tm_timestamp :: rat

record ProfitLossTimeseries = timestamped +
  pt_account :: address
  pt_marketId :: address
  pt_outcome :: int
  pt_transactionHash :: string
  pt_price :: bn
  pt_position :: bn
  pt_quantityOpened :: bn
  pt_numOutcomes :: int
  pt_profit :: bn
  pt_realizedCost :: bn
  pt_minPrice :: bn
  pt_maxPrice :: bn
  pt_frozenFunds :: bn

record OutcomeValueTimeseries = timestamped +
  ot_marketId :: address
  ot_outcome :: int
  ot_value :: bn
  ot_transactionHash :: string
  ot_blockNumber :: int
  ot_logIndex :: int

record ProfitLossResult = timestamped +
  rs_frozenFunds :: bn
  rs_marketId :: address
  rs_outcome :: int
  rs_netPosition :: bn
  rs_averagePrice :: bn
  rs_unrealizedCost :: bn
  rs_unrealizedRevenue :: bn
  rs_unrealized :: bn
  rs_unrealizedPercent :: bn
  rs_realizedCost :: bn
  rs_realized :: bn
  rs_realizedPercent :: bn
  rs_totalCost :: bn
  rs_total :: bn
  rs_totalPercent :: bn
  rs_lastTradePrice :: bn
  rs_lastTradePrice24hAgo :: bn
  rs_lastTradePrice24hChangePercent :: bn
  rs_unrealizedRevenue24hAgo :: bn
  rs_unrealizedRevenue24hChangePercent :: bn

record GetProfitLossParams =
  rq_universe :: address
  rq_account :: address
  rq_startTime :: "rat option"
  rq_endTime :: "rat option"
  rq_periodInterval :: "rat option"
  rq_marketId :: "address option"

definition DEFAULT_NUMBER_OF_BUCKETS :: rat where "DEFAULT_NUMBER_OF_BUCKETS = 30"

definition getDefaultPLTimeseries :: ProfitLossTimeseries where
  "getDefaultPLTimeseries = \<lparr>tm_timestamp = 0, pt_account = '''', pt_marketId = '''', pt_outcome = 0,
     pt_transactionHash = '''', pt_price = 0, pt_position = 0, pt_quantityOpened = 0,
     pt_numOutcomes = 2, pt_profit = 0, pt_realizedCost = 0, pt_minPrice = 0, pt_maxPrice = 0,
     pt_frozenFunds = 0\<rparr>"

definition getDefaultOVTimeseries :: OutcomeValueTimeseries where
  "getDefaultOVTimeseries = \<lparr>tm_timestamp = 0, ot_marketId = '''', ot_outcome = 0, ot_value = 0,
     ot_transactionHash = '''', ot_blockNumber = 0, ot_logIndex = 0\<rparr>"

text \<open>\<open>a || b\<close> for a number that may be missing: zero counts as missing.\<close>

definition orElse :: "rat option \<Rightarrow> rat \<Rightarrow> rat" where
  "orElse x d = (case x of Some t \<Rightarrow> if t = 0 then d else t | None \<Rightarrow> d)"

section \<open>Buckets\<close>

text \<open>
  The loop runs while \<open>bucketEndTime < endTime\<close>. Its step is positive whenever it is entered
  (\<open>bucket_interval_positive\<close>), which the second conjunct of the condition records for termination.
\<close>

function bucketsFrom :: "rat \<Rightarrow> rat \<Rightarrow> rat \<Rightarrow> rat list" where
  "bucketsFrom t endTime interval =
     (if t < endTime \<and> 0 < interval then t # bucketsFrom (t + interval) endTime interval else [])"
  by pat_completeness auto
termination
proof (relation "measure (\<lambda>(t, e, i). nat \<lceil>(e - t) / i\<rceil>)", goal_cases)
  case (2 t e i)
  then have i: "0 < i" and "0 < (e - t) / i" by simp_all
  moreover have "(e - (t + i)) / i = (e - t) / i - 1"
    using i by (simp add: diff_divide_distrib add_divide_distrib)
  ultimately show ?case by (simp add: nat_less_iff ceiling_less_iff)
qed simp

declare bucketsFrom.simps [simp del]

definition bucketInterval :: "rat \<Rightarrow> rat \<Rightarrow> rat option \<Rightarrow> rat" where
  "bucketInterval startTime endTime periodInterval =
     (case periodInterval of
        None \<Rightarrow> of_int \<lceil>(endTime - startTime) / DEFAULT_NUMBER_OF_BUCKETS\<rceil>
      | Some interval \<Rightarrow> interval)"

definition bucketRangeByInterval :: "rat \<Rightarrow> rat \<Rightarrow> rat option \<Rightarrow> rat list result" where
  "bucketRangeByInterval startTime endTime periodInterval =
     (if startTime < 0 then Inl (Thrown ''startTime must be a valid unix timestamp'')
      else if endTime < 0 then Inl (Thrown ''endTime must be a valid unix timestamp'')
      else if endTime < startTime
        then Inl (Thrown ''endTime must be greater than or equal startTime'')
      else if (case periodInterval of Some interval \<Rightarrow> interval \<le> 0 | None \<Rightarrow> False)
        then Inl (Thrown ''periodInterval must be positive integer'')
      else Inr (bucketsFrom startTime endTime
                  (bucketInterval startTime endTime periodInterval) @ [endTime]))"

section \<open>Sums of results\<close>

definition sumProfitLossResults ::
  "bn_division_op \<Rightarrow> ProfitLossResult \<Rightarrow> ProfitLossResult \<Rightarrow> ProfitLossResult result" where
  "sumProfitLossResults dv left right =
     (let position = rs_netPosition left + rs_netPosition right;
          average = rs_averagePrice left + rs_averagePrice right;
          realized = rs_realized left + rs_realized right;
          unrealized = rs_unrealized left + rs_unrealized right;
          unrealizedC = rs_unrealizedCost left + rs_unrealizedCost right;
          unrealizedR = rs_unrealizedRevenue left + rs_unrealizedRevenue right;
          realizedC = rs_realizedCost left + rs_realizedCost right;
          totalC = rs_totalCost left + rs_totalCost right;
          total = realized + unrealized
      in bindE (getUnrealizedProfitPercent dv
                 (no_params\<lparr>unrealizedCost := Some (Tk unrealizedC),
                            unrealizedProfit := Some (Tk unrealized)\<rparr>)) (\<lambda>unrealizedPct.
         bindE (getRealizedProfitPercent dv
                 (no_params\<lparr>realizedCost := Tk realizedC, realizedProfit := Tk realized\<rparr>)) (\<lambda>realizedPct.
         bindE (getTotalProfitPercent dv
                 (no_params\<lparr>totalCost := Some (Tk totalC), totalProfit := Some (Tk total)\<rparr>)) (\<lambda>totalPct.
         Inr (left\<lparr>rs_netPosition := position, rs_averagePrice := dv average 2,
                   rs_realized := realized, rs_unrealized := unrealized, rs_total := total,
                   rs_unrealizedCost := unrealizedC, rs_realizedCost := realizedC,
                   rs_totalCost := totalC, rs_unrealizedPercent := magnitude unrealizedPct,
                   rs_realizedPercent := magnitude realizedPct,
                   rs_totalPercent := magnitude totalPct,
                   rs_unrealizedRevenue := unrealizedR\<rparr>)))))"

section \<open>Queries\<close>

definition notBefore :: "rat option \<Rightarrow> int \<Rightarrow> bool" where
  "notBefore startTime t = (case startTime of Some s \<Rightarrow> s = 0 \<or> s \<le> of_int t | None \<Rightarrow> True)"

definition plTimeseries :: "profit_loss_row \<Rightarrow> markets_row \<Rightarrow> ProfitLossTimeseries" where
  "plTimeseries r m = \<lparr>tm_timestamp = of_int (pl_timestamp r), pt_account = pl_account r,
     pt_marketId = pl_marketId r, pt_outcome = pl_outcome r,
     pt_transactionHash = pl_transactionHash r, pt_price = pl_price r, pt_position = pl_position r,
     pt_quantityOpened = pl_quantityOpened r, pt_numOutcomes = mk_numOutcomes m,
     pt_profit = pl_profit r, pt_realizedCost = pl_realizedCost r, pt_minPrice = mk_minPrice m,
     pt_maxPrice = mk_maxPrice m, pt_frozenFunds = pl_frozenFunds r\<rparr>"

definition queryProfitLossTimeseries ::
  "int \<Rightarrow> GetProfitLossParams \<Rightarrow> ProfitLossTimeseries list action" where
  "queryProfitLossTimeseries now params = gets (\<lambda>w. sort_key tm_timestamp
     [plTimeseries r m. r \<leftarrow> t_wcl_profit_loss_timeseries (tables w), m \<leftarrow> t_markets (tables w),
        mk_marketId m = pl_marketId r \<and> pl_account r = rq_account params \<and>
        mk_universe m = rq_universe params \<and>
        (case rq_marketId params of Some marketId \<Rightarrow> pl_marketId r = marketId | None \<Rightarrow> True) \<and>
        notBefore (rq_startTime params) (pl_timestamp r) \<and>
        of_int (pl_timestamp r) \<le> orElse (rq_endTime params) (of_int now)])"

definition ovTimeseries :: "outcome_value_row \<Rightarrow> OutcomeValueTimeseries" where
  "ovTimeseries r = \<lparr>tm_timestamp = of_int (ov_timestamp r), ot_marketId = ov_marketId r,
     ot_outcome = ov_outcome r, ot_value = ov_value r, ot_transactionHash = ov_transactionHash r,
     ot_blockNumber = ov_blockNumber r, ot_logIndex = ov_logIndex r\<rparr>"

text \<open>Ordered by timestamp, then by the position on the chain; the sorts are stable.\<close>

definition queryOutcomeValueTimeseries ::
  "int \<Rightarrow> GetProfitLossParams \<Rightarrow> OutcomeValueTimeseries list action" where
  "queryOutcomeValueTimeseries now params = gets (\<lambda>w. sort_key tm_timestamp
     (sort_key (\<lambda>v. At (ot_blockNumber v) (ot_logIndex v))
     [ovTimeseries r. r \<leftarrow> t_outcome_value_timeseries (tables w), m \<leftarrow> t_markets (tables w),
        mk_marketId m = ov_marketId r \<and>
        (case rq_marketId params of Some marketId \<Rightarrow> ov_marketId r = marketId | None \<Rightarrow> True) \<and>
        notBefore (rq_startTime params) (ov_timestamp r) \<and>
        of_int (ov_timestamp r) \<le> orElse (rq_endTime params) (of_int now)]))"

section \<open>The row of each outcome at each bucket\<close>

text \<open>
  Every \<open>T\<close> has a field \<open>outcome\<close>, so \<open>Object.assign({ outcome }, defaultValue)\<close> is a copy of
  \<open>defaultValue\<close>.
\<close>

definition bucketOutcome ::
  "'a timestamped_scheme \<Rightarrow> rat \<Rightarrow> int \<times> nat list \<Rightarrow> 'a timestamped_scheme list \<Rightarrow>
   nat \<times> 'a timestamped_scheme list" where
  "bucketOutcome defaultValue bucket entry heap =
     (let beforeBucket = takeWhile (\<lambda>pl. tm_timestamp (heap ! pl) \<le> bucket) (snd entry)
      in if beforeBucket \<noteq> []
         then (last beforeBucket,
               heap[last beforeBucket := (heap ! last beforeBucket)\<lparr>tm_timestamp := bucket\<rparr>])
         else (length heap, heap @ [defaultValue\<lparr>tm_timestamp := bucket\<rparr>]))"

definition bucketAtTimestamps ::
  "(int \<times> nat list) list \<Rightarrow> rat list \<Rightarrow> 'a timestamped_scheme \<Rightarrow> 'a timestamped_scheme list \<Rightarrow>
   nat list list \<times> 'a timestamped_scheme list" where
  "bucketAtTimestamps timestampeds timestamps defaultValue =
     mapS (\<lambda>bucket. mapS (bucketOutcome defaultValue bucket) timestampeds) timestamps"

section \<open>Results\<close>

type_synonym outcome_prices = "(address \<times> (int \<times> OutcomeValueTimeseries) list) list"
type_synonym opening_prices = "(address \<times> (int \<times> bn) list) list"

definition lastPriceMinusMin ::
  "OutcomeValueTimeseries list option \<Rightarrow> ProfitLossTimeseries \<Rightarrow> quantity result" where
  "lastPriceMinusMin outcomeValuesAtTimestamp pl =
     (case outcomeValuesAtTimestamp of
        None \<Rightarrow> Inr (Pr 0)
      | Some vs \<Rightarrow>
          if 0 \<le> pt_outcome pl \<and> nat (pt_outcome pl) < length vs
          then qminus (Pr (ot_value (vs ! nat (pt_outcome pl)))) (Pr (pt_minPrice pl))
          else Inl (JsTypeError ''value of undefined''))"

definition lastPrice24hAgo :: "outcome_prices \<Rightarrow> ProfitLossTimeseries \<Rightarrow> quantity" where
  "lastPrice24hAgo prices pl =
     (case lookupIn prices (pt_marketId pl) (pt_outcome pl) of Some ov \<Rightarrow> Pr (ot_value ov) | None \<Rightarrow> Pr 0)"

definition referencePrice24h ::
  "opening_prices \<Rightarrow> outcome_prices \<Rightarrow> ProfitLossTimeseries \<Rightarrow> quantity" where
  "referencePrice24h oldest prices pl =
     (case lookupIn oldest (pt_marketId pl) (pt_outcome pl) of Some price \<Rightarrow> Pr price
      | None \<Rightarrow> lastPrice24hAgo prices pl)"

definition positionParams :: "ProfitLossTimeseries \<Rightarrow> fin_params" where
  "positionParams pl = no_params\<lparr>marketMinPrice := Pr (pt_minPrice pl),
     marketMaxPrice := Pr (pt_maxPrice pl), netPosition := Sh (pt_position pl),
     averageTradePriceMinusMinPriceForOpenPosition := Pr (pt_price pl),
     realizedCost := Tk (pt_realizedCost pl), realizedProfit := Tk (pt_profit pl)\<rparr>"

definition profitResult ::
  "bn_division_op \<Rightarrow> OutcomeValueTimeseries list option \<Rightarrow> outcome_prices \<Rightarrow> opening_prices \<Rightarrow>
   ProfitLossTimeseries \<Rightarrow> ProfitLossResult result" where
  "profitResult dv outcomeValuesAtTimestamp prices24hAgo oldestPrices pl =
     (let p0 = positionParams pl; ago = lastPrice24hAgo prices24hAgo pl in
      bindE (getTradePrice (p0\<lparr>tradePriceMinusMinPrice := Some (Pr (pt_price pl))\<rparr>)) (\<lambda>averagePrice.
      bindE (lastPriceMinusMin outcomeValuesAtTimestamp pl) (\<lambda>lastPrice.
      let p = p0\<lparr>lastTradePriceMinusMinPrice := lastPrice\<rparr> in
      bindE (getUnrealizedCost p) (\<lambda>unrealizedC.
      bindE (getUnrealizedRevenue p) (\<lambda>unrealizedR.
      bindE (getUnrealizedProfit p) (\<lambda>unrealizedP.
      bindE (getTotalCost p) (\<lambda>totalC.
      bindE (getTotalProfit p) (\<lambda>totalP.
      bindE (getRealizedProfitPercent dv p) (\<lambda>realizedPct.
      bindE (getUnrealizedProfitPercent dv p) (\<lambda>unrealizedPct.
      bindE (getTotalProfitPercent dv p) (\<lambda>totalPct.
      bindE (getTradePrice (p0\<lparr>tradePriceMinusMinPrice := Some lastPrice\<rparr>)) (\<lambda>lastTradePrice.
      bindE (getTradePrice (p0\<lparr>tradePriceMinusMinPrice := Some ago\<rparr>)) (\<lambda>lastTradePrice24hAgo.
      bindE (safePercent dv (Some lastPrice) (Some ago) True) (\<lambda>priceChange.
      bindE (getUnrealizedRevenue
               (p0\<lparr>lastTradePriceMinusMinPrice := referencePrice24h oldestPrices prices24hAgo pl\<rparr>))
        (\<lambda>revenueAgo.
      bindE (safePercent dv (Some unrealizedR) (Some revenueAgo) True) (\<lambda>revenueChange.
      Inr \<lparr>tm_timestamp = tm_timestamp pl, rs_frozenFunds = pt_frozenFunds pl,
           rs_marketId = pt_marketId pl, rs_outcome = pt_outcome pl,
           rs_netPosition = pt_position pl, rs_averagePrice = magnitude averagePrice,
           rs_unrealizedCost = magnitude unrealizedC,
           rs_unrealizedRevenue = magnitude unrealizedR, rs_unrealized = magnitude unrealizedP,
           rs_unrealizedPercent = magnitude unrealizedPct,
           rs_realizedCost = pt_realizedCost pl, rs_realized = pt_profit pl,
           rs_realizedPercent = magnitude realizedPct, rs_totalCost = magnitude totalC,
           rs_total = magnitude totalP, rs_totalPercent = magnitude totalPct,
           rs_lastTradePrice = magnitude lastTradePrice,
           rs_lastTradePrice24hAgo = magnitude lastTradePrice24hAgo,
           rs_lastTradePrice24hChangePercent = magnitude priceChange,
           rs_unrealizedRevenue24hAgo = magnitude revenueAgo,
           rs_unrealizedRevenue24hChangePercent = magnitude revenueChange\<rparr>))))))))))))))))"

definition getProfitResultsForTimestamp ::
  "bn_division_op \<Rightarrow> ProfitLossTimeseries list \<Rightarrow> OutcomeValueTimeseries list option \<Rightarrow> outcome_prices \<Rightarrow>
   opening_prices \<Rightarrow> ProfitLossResult list result" where
  "getProfitResultsForTimestamp dv plsAtTimestamp outcomeValuesAtTimestamp prices24hAgo oldestPrices =
     bindE (mapE (profitResult dv outcomeValuesAtTimestamp prices24hAgo oldestPrices) plsAtTimestamp)
       (\<lambda>unsortedResults. Inr (sort_key rs_outcome unsortedResults))"

text \<open>One value per outcome of the market, in the order of the outcomes.\<close>

definition sortedOutcomeValues ::
  "int \<Rightarrow> OutcomeValueTimeseries list \<Rightarrow> OutcomeValueTimeseries list" where
  "sortedOutcomeValues numOutcomes ovs = map (\<lambda>outcomeIndex.
     case find (\<lambda>ov. ot_outcome ov = outcomeIndex) ovs of
       Some ov \<Rightarrow> ov
     | None \<Rightarrow> getDefaultOVTimeseries\<lparr>ot_outcome := outcomeIndex\<rparr>) [0..numOutcomes - 1]"

definition getProfitResultsForMarket ::
  "bn_division_op \<Rightarrow> ProfitLossTimeseries list list \<Rightarrow> OutcomeValueTimeseries list list option \<Rightarrow>
   outcome_prices \<Rightarrow> opening_prices \<Rightarrow> ProfitLossResult list list result" where
  "getProfitResultsForMarket dv marketPls marketOutcomeValues prices24hAgo oldestPrices =
     mapE (\<lambda>(timestampIndex, pls).
       case filter (\<lambda>pl. pt_position pl \<noteq> 0) pls of
         [] \<Rightarrow> getProfitResultsForTimestamp dv pls None prices24hAgo oldestPrices
       | p0 # _ \<Rightarrow>
           let ovs = (case marketOutcomeValues of
                  Some values \<Rightarrow> if timestampIndex < length values then values ! timestampIndex else []
                | None \<Rightarrow> replicate (nat (pt_numOutcomes p0)) getDefaultOVTimeseries)
           in getProfitResultsForTimestamp dv pls
                (Some (sortedOutcomeValues (pt_numOutcomes p0) ovs)) prices24hAgo oldestPrices)
     (zip [0..<length marketPls] marketPls)"

section \<open>Prices a day ago and opening prices\<close>

definition day :: rat where "day = 86400"

text \<open>Among rows with the latest timestamp the first one stays.\<close>

definition latestPrice :: "OutcomeValueTimeseries list \<Rightarrow> OutcomeValueTimeseries" where
  "latestPrice prices = foldl (\<lambda>latest price.
     if tm_timestamp latest < tm_timestamp price then price else latest) (hd prices) prices"

definition getLastTradePriceMinusMinPrice24hAgoByOutcomeByMarketId ::
  "int \<Rightarrow> GetProfitLossParams \<Rightarrow> outcome_prices action" where
  "getLastTradePriceMinusMinPrice24hAgoByOutcomeByMarketId now params =
     bindA (queryOutcomeValueTimeseries now (params\<lparr>rq_startTime := None,
              rq_endTime := Some (orElse (rq_endTime params) (of_int now) - day)\<rparr>))
       (\<lambda>prices. return (mapValues (\<lambda>_ allPricesOneMarket.
          mapValues (\<lambda>_. latestPrice) (groupByIndex ot_outcome allPricesOneMarket))
          (groupBy ot_marketId prices)))"

text \<open>
  The SQL query. Its inner part: of the account's rows that opened a position within the day, grouped by
  market and outcome, the row with the least timestamp, unless this is zero (\<open>HAVING min(timestamp)\<close>).
  Outer part: the trade that led to it, unless its price is zero. \<open>leastBy\<close> is the row from which SQLite
  takes the bare columns of a group with the aggregate \<open>min\<close>.
\<close>

definition leastBy :: "('a \<Rightarrow> 'b :: linorder) \<Rightarrow> 'a list \<Rightarrow> 'a option" where
  "leastBy f xs = find (\<lambda>x. list_all (\<lambda>y. f x \<le> f y) xs) xs"

definition havingMin :: "('a \<Rightarrow> 'b :: {linorder, zero}) \<Rightarrow> 'a list \<Rightarrow> 'a option" where
  "havingMin f xs =
     (case leastBy f xs of Some x \<Rightarrow> if f x = 0 then None else Some x | None \<Rightarrow> None)"

definition openingRows ::
  "address \<Rightarrow> address \<Rightarrow> rat \<Rightarrow> db \<Rightarrow> (profit_loss_row \<times> markets_row) list" where
  "openingRows account universe newerThan d =
     List.map_filter (\<lambda>(_, rows). havingMin (\<lambda>(r, m). pl_timestamp r) rows)
       (groupBy (\<lambda>(r, m). (pl_marketId r, pl_outcome r))
          [(r, m). r \<leftarrow> t_wcl_profit_loss_timeseries d, m \<leftarrow> t_markets d,
             pl_marketId r = mk_marketId m \<and> pl_account r = account \<and> mk_universe m = universe \<and>
             0 < pl_quantityOpened r \<and> newerThan \<le> of_int (pl_timestamp r)])"

definition openingTrades ::
  "address \<Rightarrow> address \<Rightarrow> rat \<Rightarrow> db \<Rightarrow> (trades_row \<times> bn) list" where
  "openingTrades account universe newerThan d =
     List.map_filter (\<lambda>(_, rows). havingMin (\<lambda>(t, minPrice). td_price t) rows)
       (groupBy (\<lambda>(t, minPrice). (td_marketId t, td_outcome t))
          [(t, mk_minPrice m). t \<leftarrow> t_trades d, (r, m) \<leftarrow> openingRows account universe newerThan d,
             td_marketId t = pl_marketId r \<and> td_outcome t = pl_outcome r \<and>
             td_transactionHash t = pl_transactionHash r \<and> td_logIndex t = pl_logIndex r])"

definition singlePrice :: "(trades_row \<times> bn) list \<Rightarrow> bn result" where
  "singlePrice allTradesForOneOutcome =
     (case allTradesForOneOutcome of
        [(t, minPrice)] \<Rightarrow> Inr (td_price t - minPrice)
      | _ \<Rightarrow> Inl (Thrown ''expected allTradesForOneOutcome to have length 1''))"

definition mapValuesE :: "('v \<Rightarrow> 'w result) \<Rightarrow> ('k \<times> 'v) list \<Rightarrow> ('k \<times> 'w) list result" where
  "mapValuesE f d = mapE (\<lambda>(k, v). bindE (f v) (\<lambda>x. Inr (k, x))) d"

definition getOldestTradePriceMinusMinPriceUserPaidForOpenPositionInLast24hByOutcomeByMarketId ::
  "int \<Rightarrow> GetProfitLossParams \<Rightarrow> opening_prices action" where
  "getOldestTradePriceMinusMinPriceUserPaidForOpenPositionInLast24hByOutcomeByMarketId now params =
     bindA (gets (\<lambda>w. openingTrades (rq_account params) (rq_universe params)
              (orElse (rq_endTime params) (of_int now) - day) (tables w)))
       (\<lambda>trades. liftR (mapValuesE (\<lambda>allTradesOneMarket.
          mapValuesE singlePrice (groupByIndex (\<lambda>(t, minPrice). td_outcome t) allTradesOneMarket))
          (groupBy (\<lambda>(t, minPrice). td_marketId t) trades)))"

section \<open>The data of a request\<close>

type_synonym row_groups = "(address \<times> (int \<times> nat list) list) list"

record ProfitLossData =
  pd_plRows :: "ProfitLossTimeseries list"
  pd_profits :: row_groups
  pd_ovRows :: "OutcomeValueTimeseries list"
  pd_outcomeValues :: row_groups
  pd_buckets :: "rat list"
  pd_prices24hAgo :: outcome_prices
  pd_oldestPrices :: opening_prices

text \<open>Rows grouped by market and outcome, as references into the list of rows.\<close>

definition groupRows :: "('r \<Rightarrow> address) \<Rightarrow> ('r \<Rightarrow> int) \<Rightarrow> 'r list \<Rightarrow> row_groups" where
  "groupRows marketOf outcomeOf rows =
     mapValues (\<lambda>_ refs. groupByIndex (\<lambda>i. outcomeOf (rows ! i)) refs)
       (groupBy (\<lambda>i. marketOf (rows ! i)) [0..<length rows])"

definition getProfitLossData :: "GetProfitLossParams \<Rightarrow> ProfitLossData action" where
  "getProfitLossData params =
     bindA (gets getCurrentTime) (\<lambda>now.
     bindA (queryProfitLossTimeseries now params) (\<lambda>profitsOverTime.
     if profitsOverTime = [] then
       bindA (liftR (bucketRangeByInterval (orElse (rq_startTime params) 0)
                (orElse (rq_endTime params) (of_int now)) (rq_periodInterval params))) (\<lambda>buckets.
       return \<lparr>pd_plRows = [], pd_profits = [], pd_ovRows = [], pd_outcomeValues = [],
               pd_buckets = buckets, pd_prices24hAgo = [], pd_oldestPrices = []\<rparr>)
     else
       bindA (queryOutcomeValueTimeseries now params) (\<lambda>outcomeValuesOverTime.
       if outcomeValuesOverTime = [] then throw (JsTypeError ''timestamp of undefined'')
       else
         let startTime = orElse (rq_startTime params) (tm_timestamp (hd profitsOverTime));
             maxResultTime = max (tm_timestamp (last profitsOverTime))
                                 (tm_timestamp (last outcomeValuesOverTime));
             endTime = min maxResultTime (of_int now);
             interval = (if rq_periodInterval params = Some 0 then None else rq_periodInterval params) in
         bindA (liftR (bucketRangeByInterval startTime endTime interval)) (\<lambda>buckets.
         bindA (getLastTradePriceMinusMinPrice24hAgoByOutcomeByMarketId now params) (\<lambda>prices24hAgo.
         bindA (getOldestTradePriceMinusMinPriceUserPaidForOpenPositionInLast24hByOutcomeByMarketId
                  now params) (\<lambda>oldestPrices.
         return \<lparr>pd_plRows = profitsOverTime,
                 pd_profits = groupRows pt_marketId pt_outcome profitsOverTime,
                 pd_ovRows = outcomeValuesOverTime,
                 pd_outcomeValues = groupRows ot_marketId ot_outcome outcomeValuesOverTime,
                 pd_buckets = buckets, pd_prices24hAgo = prices24hAgo,
                 pd_oldestPrices = oldestPrices\<rparr>))))))"

section \<open>The getters\<close>

record AllOutcomesProfitLoss =
  ao_profit :: "(address \<times> ProfitLossResult list list) list"
  ao_buckets :: "rat list"
  ao_marketOutcomes :: "(address \<times> int) list"

text \<open>\<open>_.mapValues\<close> over the markets: the buckets of all of them, on one store.\<close>

definition bucketMarkets ::
  "(address \<Rightarrow> 'a timestamped_scheme) \<Rightarrow> rat list \<Rightarrow> row_groups \<Rightarrow> 'a timestamped_scheme list \<Rightarrow>
   (address \<times> nat list list) list \<times> 'a timestamped_scheme list" where
  "bucketMarkets defaultFor buckets = mapS (\<lambda>(marketId, groups) heap.
     let (rows, heap') = bucketAtTimestamps groups buckets (defaultFor marketId) heap
     in ((marketId, rows), heap'))"

definition bucketedProfits ::
  "ProfitLossData \<Rightarrow> (address \<times> ProfitLossTimeseries list list) list" where
  "bucketedProfits d =
     (let (bucketed, heap) = bucketMarkets
            (\<lambda>marketId. getDefaultPLTimeseries\<lparr>pt_marketId := marketId\<rparr>) (pd_buckets d) (pd_profits d)
            (pd_plRows d)
      in mapValues (\<lambda>_. map (map ((!) heap))) bucketed)"

definition bucketedOutcomeValues ::
  "ProfitLossData \<Rightarrow> (address \<times> OutcomeValueTimeseries list list) list" where
  "bucketedOutcomeValues d =
     (let (bucketed, heap) = bucketMarkets (\<lambda>_. getDefaultOVTimeseries) (pd_buckets d)
            (pd_outcomeValues d) (pd_ovRows d)
      in mapValues (\<lambda>_. map (map ((!) heap))) bucketed)"

definition allOutcomesProfitLoss ::
  "bn_division_op \<Rightarrow> ProfitLossData \<Rightarrow> AllOutcomesProfitLoss result" where
  "allOutcomesProfitLoss dv d =
     bindE (mapE (\<lambda>(marketId, pls).
       bindE (getProfitResultsForMarket dv pls (map_of (bucketedOutcomeValues d) marketId)
                (pd_prices24hAgo d) (pd_oldestPrices d)) (\<lambda>results. Inr (marketId, results)))
       (bucketedProfits d)) (\<lambda>profit.
     Inr \<lparr>ao_profit = profit, ao_buckets = pd_buckets d,
          ao_marketOutcomes = map (\<lambda>(_, groups).
            let row = pd_plRows d ! hd (snd (hd groups)) in (pt_marketId row, pt_numOutcomes row))
            (pd_profits d)\<rparr>)"

definition getAllOutcomesProfitLoss ::
  "bn_division_op \<Rightarrow> GetProfitLossParams \<Rightarrow> AllOutcomesProfitLoss action" where
  "getAllOutcomesProfitLoss dv params =
     bindA (getProfitLossData params) (\<lambda>d. liftR (allOutcomesProfitLoss dv d))"

definition emptyResult :: "rat \<Rightarrow> ProfitLossResult" where
  "emptyResult bucket = \<lparr>tm_timestamp = bucket, rs_frozenFunds = 0, rs_marketId = '''', rs_outcome = 0,
     rs_netPosition = 0, rs_averagePrice = 0, rs_unrealizedCost = 0, rs_unrealizedRevenue = 0,
     rs_unrealized = 0, rs_unrealizedPercent = 0, rs_realizedCost = 0, rs_realized = 0,
     rs_realizedPercent = 0, rs_totalCost = 0, rs_total = 0, rs_totalPercent = 0,
     rs_lastTradePrice = 0, rs_lastTradePrice24hAgo = 0, rs_lastTradePrice24hChangePercent = 0,
     rs_unrealizedRevenue24hAgo = 0, rs_unrealizedRevenue24hChangePercent = 0\<rparr>"

text \<open>
  \<open>_.reduce(_.flatten(group), sumProfitLossResults)\<close>, where a missing group or an empty one gives
  \<open>undefined\<close>.
\<close>

definition sumDefined ::
  "bn_division_op \<Rightarrow> ProfitLossResult option \<Rightarrow> ProfitLossResult option \<Rightarrow>
   ProfitLossResult option result" where
  "sumDefined dv left right =
     (case (left, right) of
        (Some l, Some r) \<Rightarrow> bindE (sumProfitLossResults dv l r) (\<lambda>s. Inr (Some s))
      | _ \<Rightarrow> Inl (JsTypeError ''netPosition of undefined''))"

definition sumGroup ::
  "bn_division_op \<Rightarrow> ProfitLossResult list option list \<Rightarrow> ProfitLossResult option result" where
  "sumGroup dv results =
     bindE (reduce1 (sumDefined dv)
              (concat (map (\<lambda>g. case g of Some rs \<Rightarrow> map Some rs | None \<Rightarrow> [None]) results)))
       (\<lambda>r. Inr (case r of Some s \<Rightarrow> s | None \<Rightarrow> None))"

definition getProfitLoss ::
  "bn_division_op \<Rightarrow> GetProfitLossParams \<Rightarrow> ProfitLossResult option list action" where
  "getProfitLoss dv params =
     bindA (getAllOutcomesProfitLoss dv params) (\<lambda>all.
     if ao_profit all = [] then return (map (\<lambda>bucket. Some (emptyResult bucket)) (ao_buckets all))
     else liftR (mapE (sumGroup dv) (zipAll (dictValues (ao_profit all)))))"

definition negateStart :: "ProfitLossResult \<Rightarrow> ProfitLossResult" where
  "negateStart p = p\<lparr>rs_netPosition := - rs_netPosition p, rs_realized := - rs_realized p,
     rs_unrealized := - rs_unrealized p, rs_total := - rs_total p,
     rs_unrealizedCost := - rs_unrealizedCost p, rs_realizedCost := - rs_realizedCost p,
     rs_totalCost := - rs_totalCost p, rs_unrealizedRevenue := - rs_unrealizedRevenue p,
     rs_frozenFunds := - rs_frozenFunds p, rs_lastTradePrice := - rs_lastTradePrice p,
     rs_lastTradePrice24hAgo := - rs_lastTradePrice24hAgo p,
     rs_unrealizedRevenue24hAgo := - rs_unrealizedRevenue24hAgo p\<rparr>"

definition summaryOf ::
  "bn_division_op \<Rightarrow> ProfitLossResult option list \<Rightarrow> ProfitLossResult result" where
  "summaryOf dv results =
     (case results of
        [Some startProfit, Some endProfit] \<Rightarrow> sumProfitLossResults dv endProfit (negateStart startProfit)
      | _ # _ # _ # _ \<Rightarrow> Inl (Thrown ''PL calculation in summary returning more thant two bucket'')
      | _ \<Rightarrow> Inl (JsTypeError ''property of undefined''))"

record GetProfitLossSummaryParams =
  sq_universe :: address
  sq_account :: address
  sq_marketId :: "address option"
  sq_endTime :: "rat option"

definition summaryRequest :: "GetProfitLossSummaryParams \<Rightarrow> rat \<Rightarrow> rat \<Rightarrow> GetProfitLossParams" where
  "summaryRequest params endTime days =
     (let periodInterval = days * 60 * 60 * 24 in
      \<lparr>rq_universe = sq_universe params, rq_account = sq_account params,
       rq_startTime = Some (endTime - periodInterval), rq_endTime = Some endTime,
       rq_periodInterval = Some periodInterval, rq_marketId = sq_marketId params\<rparr>)"

definition getProfitLossSummary ::
  "bn_division_op \<Rightarrow> GetProfitLossSummaryParams \<Rightarrow> (rat \<times> ProfitLossResult) list action" where
  "getProfitLossSummary dv params =
     bindA (gets (\<lambda>w. orElse (sq_endTime params) (of_int (getCurrentTime w)))) (\<lambda>endTime.
     bindA (getProfitLoss dv (summaryRequest params endTime 1)) (\<lambda>daily.
     bindA (liftR (summaryOf dv daily)) (\<lambda>day1.
     bindA (getProfitLoss dv (summaryRequest params endTime 30)) (\<lambda>monthly.
     bindA (liftR (summaryOf dv monthly)) (\<lambda>day30. return [(1, day1), (30, day30)])))))"

section \<open>The buckets cover the period\<close>

lemma bucketsFrom_closed:
  assumes "0 < i"
  shows "bucketsFrom t e i = map (\<lambda>k. t + of_nat k * i) [0..<nat \<lceil>(e - t) / i\<rceil>]"
  using assms
proof (induction t e i rule: bucketsFrom.induct)
  case (1 t e i)
  show ?case
  proof (cases "t < e")
    case True
    have "(e - (t + i)) / i = (e - t) / i - 1"
      using 1(2) by (simp add: diff_divide_distrib add_divide_distrib)
    moreover have "0 < \<lceil>(e - t) / i\<rceil>" using True 1(2) by simp
    ultimately have "\<lceil>(e - t) / i\<rceil> = \<lceil>(e - (t + i)) / i\<rceil> + 1" "0 \<le> \<lceil>(e - (t + i)) / i\<rceil>"
      by simp_all
    then have n: "nat \<lceil>(e - t) / i\<rceil> = Suc (nat \<lceil>(e - (t + i)) / i\<rceil>)" by (simp add: nat_add_distrib)
    have "bucketsFrom (t + i) e i = map (\<lambda>k. t + i + of_nat k * i) [0..<nat \<lceil>(e - (t + i)) / i\<rceil>]"
      using 1(1) True 1(2) by simp
    then have "bucketsFrom t e i = t # map (\<lambda>k. t + i + of_nat k * i) [0..<nat \<lceil>(e - (t + i)) / i\<rceil>]"
      using True 1(2) by (subst bucketsFrom.simps) simp
    then show ?thesis
      by (simp add: n upt_conv_Cons map_Suc_upt [symmetric] comp_def algebra_simps del: upt_Suc)
  next
    case False
    then have "(e - t) / i \<le> 0" using 1(2) by (simp add: divide_le_0_iff)
    with False show ?thesis by (subst bucketsFrom.simps) simp
  qed
qed

lemma bucket_interval_positive:
  assumes "s < e" "\<And>i. p = Some i \<Longrightarrow> 0 < i"
  shows "0 < bucketInterval s e p"
  using assms by (cases p) (simp_all add: bucketInterval_def DEFAULT_NUMBER_OF_BUCKETS_def)

definition validPeriod :: "rat \<Rightarrow> rat \<Rightarrow> rat option \<Rightarrow> bool" where
  "validPeriod s e p \<longleftrightarrow> 0 \<le> s \<and> s \<le> e \<and> (\<forall>i. p = Some i \<longrightarrow> 0 < i)"

lemma bucketRange_valid:
  "bucketRangeByInterval s e p = Inr bs \<longleftrightarrow>
     validPeriod s e p \<and> bs = bucketsFrom s e (bucketInterval s e p) @ [e]"
  by (auto simp: bucketRangeByInterval_def validPeriod_def not_less not_le split: option.splits)

lemma bucketRange_nth:
  assumes "validPeriod s e p" "s < e"
  defines "i \<equiv> bucketInterval s e p" and "n \<equiv> nat \<lceil>(e - s) / bucketInterval s e p\<rceil>"
  shows "bucketRangeByInterval s e p = Inr (map (\<lambda>k. s + of_nat k * i) [0..<n] @ [e])"
    and "0 < n" and "\<And>k. k < n \<Longrightarrow> s + of_nat k * i < e" and "e \<le> s + of_nat n * i"
proof -
  have i: "0 < i" using assms by (auto simp: validPeriod_def intro: bucket_interval_positive)
  show "bucketRangeByInterval s e p = Inr (map (\<lambda>k. s + of_nat k * i) [0..<n] @ [e])"
    using assms(1) bucketsFrom_closed [OF i, of s e] by (simp add: bucketRange_valid i_def n_def)
  have pos: "0 < (e - s) / i" using assms(2) i by simp
  then show "0 < n" by (simp add: n_def i_def [symmetric])
  show "s + of_nat k * i < e" if "k < n" for k
  proof -
    have "int k < \<lceil>(e - s) / i\<rceil>" using that by (simp add: n_def i_def)
    then have "of_nat k < (e - s) / i" by (simp add: less_ceiling_iff)
    then show ?thesis using i by (simp add: pos_less_divide_eq algebra_simps)
  qed
  have "(e - s) / i \<le> of_int \<lceil>(e - s) / i\<rceil>" by (rule le_of_int_ceiling)
  also have "\<dots> = of_nat n" using pos by (simp add: n_def i_def)
  finally show "e \<le> s + of_nat n * i" using i by (simp add: pos_divide_le_eq algebra_simps)
qed

lemma buckets_ascending:
  assumes "bucketRangeByInterval s e p = Inr bs"
  shows "sorted_wrt (<) bs"
proof (cases "s < e")
  case True
  have v: "validPeriod s e p" using assms by (simp add: bucketRange_valid)
  note facts = bucketRange_nth [OF v True]
  have i: "0 < bucketInterval s e p"
    using v True by (auto simp: validPeriod_def intro: bucket_interval_positive)
  have "sorted_wrt (<) (map (\<lambda>k. s + of_nat k * bucketInterval s e p) [0..<m])" for m
    using i by (simp add: sorted_wrt_map sorted_wrt_iff_nth_less)
  then show ?thesis using facts(1,3) assms by (auto simp: sorted_wrt_append)
next
  case False
  then have "bucketsFrom s e (bucketInterval s e p) = []" by (subst bucketsFrom.simps) simp
  then show ?thesis using assms by (simp add: bucketRange_valid)
qed

text \<open>The request for a range of buckets is refused exactly when a bound is negative, the end is
  before the start or the interval is not positive. Otherwise the buckets ascend from the start to the end of
  the period, the gaps between neighbours are at most the interval, all but the last gap are the interval,
  and without an interval there are at most 31 of them.\<close>

theorem buckets_cover_period:
  "case bucketRangeByInterval s e p of
     Inl _ \<Rightarrow> \<not> validPeriod s e p
   | Inr bs \<Rightarrow> validPeriod s e p \<and> sorted_wrt (<) bs \<and> hd bs = s \<and> last bs = e \<and>
       (\<forall>k. Suc k < length bs \<longrightarrow> bs ! Suc k - bs ! k \<le> bucketInterval s e p) \<and>
       (\<forall>k. Suc (Suc k) < length bs \<longrightarrow> bs ! Suc k - bs ! k = bucketInterval s e p) \<and>
       (p = None \<longrightarrow> length bs \<le> 31)"
proof (cases "validPeriod s e p")
  case False
  then show ?thesis using bucketRange_valid [of s e p] by (auto split: sum.split)
next
  case v: True
  show ?thesis
  proof (cases "s < e")
    case False
    then have "s = e" "bucketsFrom s e (bucketInterval s e p) = []"
      using v by (auto simp: validPeriod_def bucketsFrom.simps)
    then have "bucketRangeByInterval s e p = Inr [e]" using v by (simp add: bucketRange_valid)
    then show ?thesis using v \<open>s = e\<close> by simp
  next
    case True
    define i where "i = bucketInterval s e p"
    define n where "n = nat \<lceil>(e - s) / i\<rceil>"
    define bs where "bs = map (\<lambda>k. s + of_nat k * i) [0..<n] @ [e]"
    have i: "0 < i" using v True by (auto simp: i_def validPeriod_def intro: bucket_interval_positive)
    note facts = bucketRange_nth [OF v True, folded i_def, folded n_def]
    have run: "bucketRangeByInterval s e p = Inr bs" using facts(1) by (simp add: bs_def)
    have len: "length bs = Suc n" by (simp add: bs_def)
    have nth: "bs ! k = (if k < n then s + of_nat k * i else e)" if "k < Suc n" for k
      using that by (auto simp: bs_def nth_append)
    have "hd bs = s" using facts(2) by (simp add: bs_def hd_append hd_map)
    moreover have "bs ! Suc k - bs ! k \<le> i" if "Suc k < length bs" for k
    proof (cases "Suc k < n")
      case False
      then have "Suc k = n" using that len by simp
      then show ?thesis using nth [of "Suc k"] nth [of k] facts(4) by (auto simp: algebra_simps)
    qed (simp add: nth algebra_simps)
    moreover have "bs ! Suc k - bs ! k = i" if "Suc (Suc k) < length bs" for k
      using that len by (simp add: nth algebra_simps)
    moreover have "length bs \<le> 31" if "p = None"
    proof -
      have "(e - s) / 30 \<le> i"
        using that by (simp add: i_def bucketInterval_def DEFAULT_NUMBER_OF_BUCKETS_def le_of_int_ceiling)
      then have "(e - s) / i \<le> 30" using i by (simp add: pos_divide_le_eq mult.commute)
      then have "\<lceil>(e - s) / i\<rceil> \<le> 30" by (subst ceiling_le_iff) simp
      then have "nat \<lceil>(e - s) / i\<rceil> \<le> 30" by linarith
      then show ?thesis by (simp add: len n_def)
    qed
    ultimately show ?thesis
      using run v buckets_ascending [OF run] by (simp add: i_def bs_def)
  qed
qed

theorem buckets_cover_period_witness:
  "\<exists>bs. bucketRangeByInterval 10000 10040 None = Inr bs \<and> hd bs = 10000 \<and> last bs = 10040 \<and>
     length bs \<le> 31 \<and> bs ! Suc 0 - bs ! 0 \<le> 2"
proof -
  have v: "validPeriod 10000 10040 None" by (simp add: validPeriod_def)
  then obtain bs where bs: "bucketRangeByInterval 10000 10040 None = Inr bs"
    by (simp add: bucketRange_valid)
  have i: "bucketInterval 10000 10040 None = 2"
    by (simp add: bucketInterval_def DEFAULT_NUMBER_OF_BUCKETS_def) (rule ceiling_unique; simp)
  have c: "hd bs = 10000 \<and> last bs = 10040 \<and> length bs \<le> 31 \<and>
      (\<forall>k. Suc k < length bs \<longrightarrow> bs ! Suc k - bs ! k \<le> 2)"
    using buckets_cover_period [of 10000 10040 None] by (simp add: bs i)
  have "bs \<noteq> []" using bs by (auto simp: bucketRange_valid)
  with c have "Suc 0 < length bs" by (cases bs) (auto split: if_splits)
  then show ?thesis using bs c by auto
qed

section \<open>The rows shown in the buckets\<close>

text \<open>The row of \<open>refs\<close> that a bucket shows, if there is one.\<close>

definition shownIn :: "'a timestamped_scheme list \<Rightarrow> rat \<Rightarrow> nat list \<Rightarrow> nat option" where
  "shownIn heap b refs = (let before = takeWhile (\<lambda>r. tm_timestamp (heap ! r) \<le> b) refs
     in if before = [] then None else Some (last before))"

lemma shownIn_mem: "shownIn heap b refs = Some r \<Longrightarrow> r \<in> set refs"
  by (auto simp: shownIn_def Let_def split: if_splits dest!: last_in_set set_takeWhileD)

lemma shownIn_time: "shownIn heap b refs = Some r \<Longrightarrow> tm_timestamp (heap ! r) \<le> b"
  by (auto simp: shownIn_def Let_def split: if_splits dest!: last_in_set set_takeWhileD)

lemma shownIn_cong:
  assumes "\<And>r. r \<in> set refs \<Longrightarrow>
    tm_timestamp (heap' ! r) \<le> b \<longleftrightarrow> tm_timestamp (heap ! r) \<le> b"
  shows "shownIn heap' b refs = shownIn heap b refs"
proof -
  have "takeWhile (\<lambda>r. tm_timestamp (heap' ! r) \<le> b) refs =
      takeWhile (\<lambda>r. tm_timestamp (heap ! r) \<le> b) refs"
    by (rule takeWhile_cong [OF refl]) (rule assms)
  then show ?thesis by (simp add: shownIn_def)
qed

lemma bucketOutcome_shown:
  "bucketOutcome d b g heap =
     (case shownIn heap b (snd g) of
        Some r \<Rightarrow> (r, heap[r := (heap ! r)\<lparr>tm_timestamp := b\<rparr>])
      | None \<Rightarrow> (length heap, heap @ [d\<lparr>tm_timestamp := b\<rparr>]))"
  by (simp add: bucketOutcome_def shownIn_def Let_def)

text \<open>The groups of rows are disjoint parts of the store.\<close>

definition disjointGroups :: "nat \<Rightarrow> (int \<times> nat list) list \<Rightarrow> bool" where
  "disjointGroups n groups \<longleftrightarrow>
     sorted_wrt (\<lambda>g g'. set (snd g) \<inter> set (snd g') = {}) groups \<and>
     (\<forall>g \<in> set groups. set (snd g) \<subseteq> {..<n})"

definition shownBy ::
  "'a timestamped_scheme list \<Rightarrow> (int \<times> nat list) list \<Rightarrow> rat \<Rightarrow> nat \<Rightarrow> bool" where
  "shownBy heap groups b r \<longleftrightarrow> (\<exists>g \<in> set groups. shownIn heap b (snd g) = Some r)"

text \<open>What one bucket finds and leaves behind.\<close>

definition cellOk :: "'a timestamped_scheme \<Rightarrow> 'a timestamped_scheme list \<Rightarrow> nat \<Rightarrow> rat \<Rightarrow>
  'a timestamped_scheme list \<Rightarrow> int \<times> nat list \<Rightarrow> nat \<Rightarrow> bool" where
  "cellOk d heap n b heap' g r =
     (case shownIn heap b (snd g) of
        Some r' \<Rightarrow> r = r'
      | None \<Rightarrow> n \<le> r \<and> r < length heap' \<and> heap' ! r = d\<lparr>tm_timestamp := b\<rparr>)"

lemma bucket_step:
  assumes "mapS (bucketOutcome d b) groups heap = (rows, heap')" "disjointGroups n groups"
    "n \<le> length heap"
  shows "list_all2 (cellOk d heap (length heap) b heap') groups rows \<and> length heap \<le> length heap' \<and>
    (\<forall>r < length heap. heap' ! r =
       (if shownBy heap groups b r then (heap ! r)\<lparr>tm_timestamp := b\<rparr> else heap ! r))"
  using assms
proof (induction groups arbitrary: heap rows)
  case Nil
  then show ?case by (simp add: shownBy_def)
next
  case (Cons g groups)
  obtain r heap1 where step: "bucketOutcome d b g heap = (r, heap1)" by (cases "bucketOutcome d b g heap")
  then obtain rows' where rest: "mapS (bucketOutcome d b) groups heap1 = (rows', heap')"
    and rows: "rows = r # rows'"
    using Cons.prems(1) by (auto simp: Let_def split: prod.splits)
  have dis: "disjointGroups n groups" and own: "set (snd g) \<subseteq> {..<n}"
    and apart: "\<And>g'. g' \<in> set groups \<Longrightarrow> set (snd g) \<inter> set (snd g') = {}"
    and range: "\<And>g'. g' \<in> set groups \<Longrightarrow> set (snd g') \<subseteq> {..<n}"
    using Cons.prems(2) by (auto simp: disjointGroups_def)
  have len1: "length heap \<le> length heap1"
    using step by (auto simp: bucketOutcome_shown split: option.splits)
  have same: "heap1 ! q = heap ! q" if "q < length heap" "shownIn heap b (snd g) \<noteq> Some q" for q
    using step that by (auto simp: bucketOutcome_shown nth_append split: option.splits)
  have shown: "shownIn heap1 b (snd g') = shownIn heap b (snd g')" if "g' \<in> set groups" for g'
  proof (rule shownIn_cong)
    fix q assume q: "q \<in> set (snd g')"
    then have "q \<notin> set (snd g)" "q < length heap"
      using apart [OF that] range [OF that] Cons.prems(3) by auto
    then show "tm_timestamp (heap1 ! q) \<le> b \<longleftrightarrow> tm_timestamp (heap ! q) \<le> b"
      using same [of q] shownIn_mem by fastforce
  qed
  have by1: "shownBy heap1 groups b q = shownBy heap groups b q" for q
    using shown by (auto simp: shownBy_def)
  note IH = Cons.IH [OF rest dis] 
  have IH: "list_all2 (cellOk d heap1 (length heap1) b heap') groups rows'"
    "length heap1 \<le> length heap'"
    "\<And>q. q < length heap1 \<Longrightarrow> heap' ! q =
       (if shownBy heap1 groups b q then (heap1 ! q)\<lparr>tm_timestamp := b\<rparr> else heap1 ! q)"
    using IH Cons.prems(3) len1 by auto
  have notBy: "\<not> shownBy heap groups b q" if "q \<in> set (snd g) \<or> n \<le> q" for q
    using that apart range shownIn_mem by (fastforce simp: shownBy_def)
  have "list_all2 (cellOk d heap (length heap) b heap') groups rows'"
    using IH(1) by (rule list.rel_mono_strong)
      (use shown len1 in \<open>auto simp: cellOk_def split: option.splits\<close>)
  moreover have "cellOk d heap (length heap) b heap' g r"
  proof (cases "shownIn heap b (snd g)")
    case None
    then have "r = length heap" "heap1 = heap @ [d\<lparr>tm_timestamp := b\<rparr>]"
      using step by (auto simp: bucketOutcome_shown)
    moreover have "\<not> shownBy heap1 groups b (length heap)"
      using notBy [of "length heap"] by1 Cons.prems(3) by simp
    ultimately show ?thesis using IH(2) IH(3) [of "length heap"] None by (simp add: cellOk_def)
  qed (use step in \<open>auto simp: cellOk_def bucketOutcome_shown\<close>)
  moreover have "heap' ! q = (if shownBy heap (g # groups) b q then (heap ! q)\<lparr>tm_timestamp := b\<rparr>
      else heap ! q)" if q: "q < length heap" for q
  proof (cases "shownIn heap b (snd g) = Some q")
    case True
    then have "heap1 ! q = (heap ! q)\<lparr>tm_timestamp := b\<rparr>"
      using step q by (auto simp: bucketOutcome_shown)
    moreover have "\<not> shownBy heap groups b q" using shownIn_mem [OF True] notBy by blast
    ultimately show ?thesis using IH(3) [of q] q len1 True by (simp add: by1) (simp add: shownBy_def)
  next
    case False
    then show ?thesis using IH(3) [of q] q len1 same [OF q False] by1 by (simp add: shownBy_def)
  qed
  ultimately show ?case using rows IH(2) len1 by auto
qed

text \<open>
  All buckets. A row that several buckets show is one object: at the end its timestamp is that of the last
  of them, in all of them.
\<close>

definition lastShown ::
  "'a timestamped_scheme list \<Rightarrow> (int \<times> nat list) list \<Rightarrow> rat list \<Rightarrow> nat \<Rightarrow> rat" where
  "lastShown heap groups buckets r =
     (let bs = filter (\<lambda>b. shownBy heap groups b r) buckets
      in if bs = [] then tm_timestamp (heap ! r) else last bs)"

definition bucketsShow :: "'a timestamped_scheme \<Rightarrow> 'a timestamped_scheme list \<Rightarrow>
  (int \<times> nat list) list \<Rightarrow> rat list \<Rightarrow> 'a timestamped_scheme list \<Rightarrow> nat list list \<Rightarrow> bool" where
  "bucketsShow d heap groups buckets heap' rows \<longleftrightarrow>
     length heap \<le> length heap' \<and>
     (\<forall>r < length heap. heap' ! r = (heap ! r)\<lparr>tm_timestamp := lastShown heap groups buckets r\<rparr>) \<and>
     list_all2 (\<lambda>b. list_all2 (cellOk d heap (length heap) b heap') groups) buckets rows"

lemma cellOk_frame:
  assumes "cellOk d heap n b h g r" "length h \<le> length h'"
    "\<And>q. n \<le> q \<Longrightarrow> q < length h \<Longrightarrow> h' ! q = h ! q"
  shows "cellOk d heap n b h' g r"
  using assms by (auto simp: cellOk_def split: option.splits)

lemma bucketsShow_mapS:
  assumes "mapS (\<lambda>b. mapS (bucketOutcome d b) groups) buckets heap = (rows, heap')"
    "disjointGroups (length heap) groups" "sorted buckets"
  shows "bucketsShow d heap groups buckets heap' rows"
  using assms(1,3)
proof (induction buckets arbitrary: rows heap' rule: rev_induct)
  case Nil
  then show ?case by (simp add: bucketsShow_def lastShown_def)
next
  case (snoc b buckets)
  let ?f = "\<lambda>b. mapS (bucketOutcome d b) groups"
  obtain rows0 h where before: "mapS ?f buckets heap = (rows0, h)" by (cases "mapS ?f buckets heap")
  obtain row where now: "?f b h = (row, heap')" and rows: "rows = rows0 @ [row]"
    using snoc.prems(1) before by (auto simp: mapS_append Let_def split: prod.splits)
  have asc: "sorted buckets" and le: "\<And>b'. b' \<in> set buckets \<Longrightarrow> b' \<le> b"
    using snoc.prems(2) by (auto simp: sorted_append)
  have ih: "bucketsShow d heap groups buckets h rows0" by (rule snoc.IH [OF before asc])
  then have len: "length heap \<le> length h"
    and cells: "\<And>r. r < length heap \<Longrightarrow>
      h ! r = (heap ! r)\<lparr>tm_timestamp := lastShown heap groups buckets r\<rparr>"
    by (auto simp: bucketsShow_def)
  have time: "tm_timestamp (h ! r) \<le> b \<longleftrightarrow> tm_timestamp (heap ! r) \<le> b" if "r < length heap" for r
  proof (cases "filter (\<lambda>b. shownBy heap groups b r) buckets = []")
    case True
    then show ?thesis using cells [OF that] by (simp add: lastShown_def)
  next
    case False
    then have "last (filter (\<lambda>b. shownBy heap groups b r) buckets) \<in> set buckets"
      "shownBy heap groups (last (filter (\<lambda>b. shownBy heap groups b r) buckets)) r"
      using last_in_set [OF False] by auto
    then show ?thesis using cells [OF that] False le
      by (force simp: lastShown_def shownBy_def dest: shownIn_time)
  qed
  have shown: "shownIn h b (snd g) = shownIn heap b (snd g)" if "g \<in> set groups" for g
    by (rule shownIn_cong) (use time that assms(2) in \<open>auto simp: disjointGroups_def\<close>)
  then have by_b: "shownBy h groups b r = shownBy heap groups b r" for r by (auto simp: shownBy_def)
  note step = bucket_step [OF now assms(2) len]
  have step: "list_all2 (cellOk d h (length h) b heap') groups row" "length h \<le> length heap'"
    "\<And>r. r < length h \<Longrightarrow> heap' ! r =
      (if shownBy heap groups b r then (h ! r)\<lparr>tm_timestamp := b\<rparr> else h ! r)"
    using step by_b by auto
  have fresh: "\<not> shownBy heap groups b r" if "length heap \<le> r" for r
    using that assms(2) shownIn_mem by (fastforce simp: disjointGroups_def shownBy_def)
  have "list_all2 (cellOk d heap (length heap) b heap') groups row"
    using step(1) by (rule list.rel_mono_strong)
      (use shown len in \<open>auto simp: cellOk_def split: option.splits\<close>)
  moreover have "list_all2 (\<lambda>b. list_all2 (cellOk d heap (length heap) b heap') groups) buckets rows0"
  proof -
    have "list_all2 (\<lambda>b. list_all2 (cellOk d heap (length heap) b h) groups) buckets rows0"
      using ih by (simp add: bucketsShow_def)
    then show ?thesis
      by (elim list.rel_mono_strong cellOk_frame) (use step fresh in auto)
  qed
  moreover have "heap' ! r = (heap ! r)\<lparr>tm_timestamp := lastShown heap groups (buckets @ [b]) r\<rparr>"
    if "r < length heap" for r
    using that len step(3) [of r] cells [OF that] by (simp add: lastShown_def Let_def)
  ultimately show ?case
    using rows len step(2) by (auto simp: bucketsShow_def intro: list_all2_appendI)
qed

text \<open>What the references of the buckets denote in the final store, read off the store at the start.\<close>

definition shownRow :: "'a timestamped_scheme \<Rightarrow> 'a timestamped_scheme list \<Rightarrow>
  (int \<times> nat list) list \<Rightarrow> rat list \<Rightarrow> rat \<Rightarrow> int \<times> nat list \<Rightarrow> 'a timestamped_scheme" where
  "shownRow d heap groups buckets b g =
     (case shownIn heap b (snd g) of
        Some r \<Rightarrow> (heap ! r)\<lparr>tm_timestamp := lastShown heap groups buckets r\<rparr>
      | None \<Rightarrow> d\<lparr>tm_timestamp := b\<rparr>)"

lemma shownRow_cong:
  assumes "\<And>h r. h \<in> set groups \<Longrightarrow> r \<in> set (snd h) \<Longrightarrow> heap' ! r = heap ! r" "g \<in> set groups"
  shows "shownRow d heap' groups buckets b g = shownRow d heap groups buckets b g"
proof -
  have shown: "shownIn heap' b' (snd h) = shownIn heap b' (snd h)" if "h \<in> set groups" for h b'
    by (rule shownIn_cong) (use assms(1) that in auto)
  then have same: "shownBy heap' groups b' r = shownBy heap groups b' r" for b' r
    by (auto simp: shownBy_def)
  show ?thesis
  proof (cases "shownIn heap b (snd g)")
    case None
    then show ?thesis using shown [OF assms(2)] by (simp add: shownRow_def)
  next
    case (Some r)
    then have r: "heap' ! r = heap ! r" using assms shownIn_mem by blast
    then have "lastShown heap' groups buckets r = lastShown heap groups buckets r"
      unfolding lastShown_def by (simp only: same r)
    then show ?thesis using Some shown [OF assms(2)] r by (simp add: shownRow_def)
  qed
qed

lemma buckets_show_rows:
  assumes run: "bucketAtTimestamps groups buckets d heap = (rows, heap')"
    and dis: "disjointGroups n groups" "n \<le> length heap" and asc: "sorted buckets"
    and later: "\<And>r. (\<exists>g \<in> set groups. r \<in> set (snd g)) \<or> (length heap \<le> r \<and> r < length heap') \<Longrightarrow>
      heap'' ! r = heap' ! r"
  shows "map (map ((!) heap'')) rows = map (\<lambda>b. map (shownRow d heap groups buckets b) groups) buckets"
proof -
  have dis': "disjointGroups (length heap) groups" using dis by (fastforce simp: disjointGroups_def)
  have show_: "bucketsShow d heap groups buckets heap' rows"
    by (rule bucketsShow_mapS [OF _ dis' asc]) (use run in \<open>simp add: bucketAtTimestamps_def\<close>)
  then have cells: "\<And>r. r < length heap \<Longrightarrow>
      heap' ! r = (heap ! r)\<lparr>tm_timestamp := lastShown heap groups buckets r\<rparr>"
    by (simp add: bucketsShow_def)
  have one: "heap'' ! r = shownRow d heap groups buckets b g"
    if "g \<in> set groups" "cellOk d heap (length heap) b heap' g r" for b g r
  proof (cases "shownIn heap b (snd g)")
    case None
    then show ?thesis using that later by (auto simp: cellOk_def shownRow_def)
  next
    case (Some q)
    then have q: "q \<in> set (snd g)" by (rule shownIn_mem)
    then have "q < length heap" using dis' that(1) by (auto simp: disjointGroups_def)
    moreover have "heap'' ! q = heap' ! q" using q that(1) later by blast
    ultimately show ?thesis using Some that(2) cells by (simp add: cellOk_def shownRow_def)
  qed
  have line: "map ((!) heap'') row = map (shownRow d heap groups buckets b) groups"
    if "list_all2 (cellOk d heap (length heap) b heap') groups row" for b row
  proof -
    have "list_all2 (\<lambda>g r. heap'' ! r = shownRow d heap groups buckets b g) groups row"
      using that one by (auto simp: list_all2_conv_all_nth)
    then show ?thesis by (auto simp: list_all2_conv_all_nth intro: nth_equalityI)
  qed
  from show_ have "list_all2 (\<lambda>b. list_all2 (cellOk d heap (length heap) b heap') groups) buckets rows"
    by (simp add: bucketsShow_def)
  then show ?thesis using line by (auto simp: list_all2_conv_all_nth intro!: nth_equalityI)
qed

lemma buckets_frame:
  assumes run: "bucketAtTimestamps groups buckets d heap = (rows, heap')"
    and dis: "disjointGroups n groups" "n \<le> length heap" and asc: "sorted buckets"
  shows "length heap \<le> length heap' \<and>
    (\<forall>r < length heap. (\<forall>g \<in> set groups. r \<notin> set (snd g)) \<longrightarrow> heap' ! r = heap ! r)"
proof -
  have dis': "disjointGroups (length heap) groups" using dis by (fastforce simp: disjointGroups_def)
  have "bucketsShow d heap groups buckets heap' rows"
    by (rule bucketsShow_mapS [OF _ dis' asc]) (use run in \<open>simp add: bucketAtTimestamps_def\<close>)
  moreover have "\<not> shownBy heap groups b r" if "\<forall>g \<in> set groups. r \<notin> set (snd g)" for b r
    using that shownIn_mem unfolding shownBy_def by blast
  ultimately show ?thesis by (auto simp: bucketsShow_def lastShown_def)
qed

text \<open>The markets one after the other, on the same store.\<close>

definition disjointMarkets :: "nat \<Rightarrow> row_groups \<Rightarrow> bool" where
  "disjointMarkets n mkts \<longleftrightarrow> (\<forall>(m, groups) \<in> set mkts. disjointGroups n groups) \<and>
     sorted_wrt (\<lambda>(m, gs) (m', gs'). \<forall>g \<in> set gs. \<forall>g' \<in> set gs'. set (snd g) \<inter> set (snd g') = {})
       mkts"

lemma bucketMarkets_show:
  assumes "bucketMarkets dflt buckets mkts heap = (bucketed, heap')"
    "disjointMarkets n mkts" "n \<le> length heap" "sorted buckets"
  shows "length heap \<le> length heap' \<and>
    (\<forall>r < length heap. (\<forall>(m, groups) \<in> set mkts. \<forall>g \<in> set groups. r \<notin> set (snd g)) \<longrightarrow>
       heap' ! r = heap ! r) \<and>
    mapValues (\<lambda>_. map (map ((!) heap'))) bucketed =
      mapValues (\<lambda>m groups. map (\<lambda>b. map (shownRow (dflt m) heap groups buckets b) groups) buckets)
        mkts"
  using assms
proof (induction mkts arbitrary: heap bucketed)
  case Nil
  then show ?case by (simp add: bucketMarkets_def mapValues_def)
next
  case (Cons mg mkts)
  obtain m groups where mg: "mg = (m, groups)" by (cases mg)
  obtain rows heap1 where first: "bucketAtTimestamps groups buckets (dflt m) heap = (rows, heap1)"
    by (cases "bucketAtTimestamps groups buckets (dflt m) heap")
  then obtain bucketed1 where rest: "bucketMarkets dflt buckets mkts heap1 = (bucketed1, heap')"
    and bucketed: "bucketed = (m, rows) # bucketed1"
    using Cons.prems(1) by (auto simp: bucketMarkets_def mg Let_def split: prod.splits)
  have dis: "disjointGroups n groups" "disjointMarkets n mkts"
    and apart: "\<And>m' gs g g'. (m', gs) \<in> set mkts \<Longrightarrow> g \<in> set groups \<Longrightarrow> g' \<in> set gs \<Longrightarrow>
      set (snd g) \<inter> set (snd g') = {}"
    using Cons.prems(2) by (simp_all add: disjointMarkets_def mg) blast
  have below: "r < n" if "(m', gs) \<in> set mkts" "g' \<in> set gs" "r \<in> set (snd g')" for m' gs g' r
    using dis(2) that by (fastforce simp: disjointMarkets_def disjointGroups_def)
  note frame = buckets_frame [OF first dis(1) Cons.prems(3,4)]
  note ih = Cons.IH [OF rest dis(2) _ Cons.prems(4)]
  have ih: "length heap1 \<le> length heap'"
    "\<And>r. r < length heap1 \<Longrightarrow> (\<forall>(m, groups) \<in> set mkts. \<forall>g \<in> set groups. r \<notin> set (snd g)) \<Longrightarrow>
       heap' ! r = heap1 ! r"
    "mapValues (\<lambda>_. map (map ((!) heap'))) bucketed1 =
      mapValues (\<lambda>m groups. map (\<lambda>b. map (shownRow (dflt m) heap1 groups buckets b) groups) buckets)
        mkts"
    using ih frame Cons.prems(3) by auto
  have "map (map ((!) heap')) rows =
      map (\<lambda>b. map (shownRow (dflt m) heap groups buckets b) groups) buckets"
  proof (rule buckets_show_rows [OF first dis(1) Cons.prems(3,4)])
    fix r
    assume r: "(\<exists>g\<in>set groups. r \<in> set (snd g)) \<or> (length heap \<le> r \<and> r < length heap1)"
    show "heap' ! r = heap1 ! r"
    proof (rule ih(2))
      show "r < length heap1"
        using r dis(1) Cons.prems(3) frame by (fastforce simp: disjointGroups_def)
      show "\<forall>(m, groups) \<in> set mkts. \<forall>g \<in> set groups. r \<notin> set (snd g)"
        using r apart below Cons.prems(3) by fastforce
    qed
  qed
  moreover have "shownRow (dflt m') heap1 gs buckets b g = shownRow (dflt m') heap gs buckets b g"
    if a: "(m', gs) \<in> set mkts" "g \<in> set gs" for m' gs b g
  proof (rule shownRow_cong [OF _ a(2)])
    fix h r assume h: "h \<in> set gs" "r \<in> set (snd h)"
    then have "r < length heap" "\<forall>g \<in> set groups. r \<notin> set (snd g)"
      using apart [OF a(1)] below [OF a(1)] Cons.prems(3) by fastforce+
    then show "heap1 ! r = heap ! r" using frame by blast
  qed
  then have "mapValues (\<lambda>m groups. map (\<lambda>b. map (shownRow (dflt m) heap1 groups buckets b) groups)
        buckets) mkts =
      mapValues (\<lambda>m groups. map (\<lambda>b. map (shownRow (dflt m) heap groups buckets b) groups) buckets) mkts"
    by (auto simp: mapValues_def)
  moreover have "heap' ! r = heap ! r"
    if "r < length heap" "\<forall>(m, groups) \<in> set (mg # mkts). \<forall>g \<in> set groups. r \<notin> set (snd g)" for r
    using that frame ih(2) [of r] by (auto simp: mg)
  ultimately show ?case using ih(1,3) frame by (auto simp: bucketed mg mapValues_def)
qed

text \<open>The groups of rows by market and outcome.\<close>

lemma takeWhile_sorted:
  "sorted (map f xs) \<Longrightarrow> takeWhile (\<lambda>x. f x \<le> b) xs = filter (\<lambda>x. f x \<le> b) xs"
proof (induction xs)
  case (Cons x xs)
  show ?case
  proof (cases "f x \<le> b")
    case False
    then have "filter (\<lambda>x. f x \<le> b) xs = []" using Cons.prems by (force simp: filter_empty_conv)
    with False show ?thesis by simp
  qed (use Cons in simp)
qed simp

lemma sorted_wrt_keys:
  "distinct (map fst d) \<Longrightarrow> sorted_wrt (\<lambda>x y. fst x \<noteq> fst y) d"
  by (induction d) (auto simp: rev_image_eqI)

definition refsOf :: "('r \<Rightarrow> address) \<Rightarrow> ('r \<Rightarrow> int) \<Rightarrow> 'r list \<Rightarrow> address \<Rightarrow> int \<Rightarrow> nat list" where
  "refsOf mk oc rows m k = filter (\<lambda>i. mk (rows ! i) = m \<and> oc (rows ! i) = k) [0..<length rows]"

lemma groupRows_mem:
  assumes "(m, groups) \<in> set (groupRows mk oc rows)" "g \<in> set groups"
  shows "snd g = refsOf mk oc rows m (fst g)"
  using assms
  by (cases g) (auto simp: groupRows_def mapValues_def groupBy_mem groupByIndex_mem refsOf_def
      conj_commute)

lemma groupRows_disjoint: "disjointMarkets (length rows) (groupRows mk oc rows)"
proof -
  have "disjointGroups (length rows) groups" if m: "(m, groups) \<in> set (groupRows mk oc rows)" for m groups
  proof -
    have "distinct (map fst groups)"
      using m groupByIndex_distinct by (auto simp: groupRows_def mapValues_def)
    then have "sorted_wrt (\<lambda>x y. fst x \<noteq> fst y) groups" by (rule sorted_wrt_keys)
    then have "sorted_wrt (\<lambda>g g'. set (snd g) \<inter> set (snd g') = {}) groups"
      by (rule sorted_wrt_mono_rel [rotated])
        (use groupRows_mem [OF m] in \<open>auto simp: refsOf_def\<close>)
    then show ?thesis using groupRows_mem [OF m] by (auto simp: disjointGroups_def refsOf_def)
  qed
  moreover have "distinct (map fst (groupRows mk oc rows))"
    using groupBy_distinct [of "\<lambda>i. mk (rows ! i)" "[0..<length rows]"]
    by (simp add: groupRows_def mapValues_def comp_def case_prod_beta)
  then have "sorted_wrt (\<lambda>x y. fst x \<noteq> fst y) (groupRows mk oc rows)" by (rule sorted_wrt_keys)
  then have "sorted_wrt (\<lambda>(m, gs) (m', gs'). \<forall>g \<in> set gs. \<forall>g' \<in> set gs'. set (snd g) \<inter> set (snd g') = {})
      (groupRows mk oc rows)"
  proof (rule sorted_wrt_mono_rel [rotated])
    fix x y
    assume "x \<in> set (groupRows mk oc rows)" "y \<in> set (groupRows mk oc rows)" "fst x \<noteq> fst y"
    then have "set (snd g) \<inter> set (snd g') = {}" if "g \<in> set (snd x)" "g' \<in> set (snd y)" for g g'
      using that groupRows_mem [of "fst x" "snd x" mk oc rows g] groupRows_mem [of "fst y" "snd y" mk oc rows g']
      by (auto simp: refsOf_def)
    then show "(\<lambda>(m, gs) (m', gs'). \<forall>g \<in> set gs. \<forall>g' \<in> set gs'.
        set (snd g) \<inter> set (snd g') = {}) x y" by (cases x; cases y) simp
  qed
  ultimately show ?thesis by (auto simp: disjointMarkets_def)
qed

text \<open>The rows of an outcome up to a time, and what a bucket shows in terms of them.\<close>

definition rowsUpTo :: "('a timestamped_scheme \<Rightarrow> address) \<Rightarrow> ('a timestamped_scheme \<Rightarrow> int) \<Rightarrow>
  'a timestamped_scheme list \<Rightarrow> address \<Rightarrow> int \<Rightarrow> rat \<Rightarrow> 'a timestamped_scheme list" where
  "rowsUpTo mk oc rows m k b = filter (\<lambda>r. mk r = m \<and> oc r = k \<and> tm_timestamp r \<le> b) rows"

definition latestRow :: "'a timestamped_scheme \<Rightarrow> ('a timestamped_scheme \<Rightarrow> address) \<Rightarrow>
  ('a timestamped_scheme \<Rightarrow> int) \<Rightarrow> 'a timestamped_scheme list \<Rightarrow> rat list \<Rightarrow> address \<Rightarrow> int \<Rightarrow> rat \<Rightarrow>
  'a timestamped_scheme" where
  "latestRow d mk oc rows buckets m k b =
     (let here = rowsUpTo mk oc rows m k in
      if here b = [] then d\<lparr>tm_timestamp := b\<rparr>
      else (last (here b))\<lparr>tm_timestamp :=
        last (filter (\<lambda>b'. length (here b') = length (here b)) buckets)\<rparr>)"

lemma last_prefix_iff:
  assumes "distinct xs" "i \<le> length xs" "j \<le> length xs" "0 < i"
  shows "take j xs \<noteq> [] \<and> last (take j xs) = last (take i xs) \<longleftrightarrow> j = i"
  using assms by (cases j; cases i)
    (auto simp: last_conv_nth nth_eq_iff_index_eq min_def simp del: take_Suc split: if_splits)

lemma shownRow_groupRows:
  assumes m: "(m, groups) \<in> set (groupRows mk oc rows)" and g: "g \<in> set groups"
    and sorted: "sorted (map tm_timestamp rows)" and b: "b \<in> set buckets"
  shows "shownRow d rows groups buckets b g = latestRow d mk oc rows buckets m (fst g) b"
proof -
  define refs where "refs = refsOf mk oc rows m (fst g)"
  define tw where "tw b = takeWhile (\<lambda>r. tm_timestamp (rows ! r) \<le> b) refs" for b
  let ?here = "rowsUpTo mk oc rows m (fst g)"
  have refs: "snd g = refs" using groupRows_mem [OF m g] by (simp add: refs_def)
  have "sorted (map (\<lambda>i. tm_timestamp (rows ! i)) [0..<length rows])"
    using sorted by (subst map_map [symmetric, unfolded comp_def]) (simp add: map_nth)
  then have "sorted (map (\<lambda>i. tm_timestamp (rows ! i)) refs)"
    unfolding refs_def refsOf_def by (rule sorted_filter)
  then have tw_filter: "tw b = filter (\<lambda>r. tm_timestamp (rows ! r) \<le> b) refs" for b
    unfolding tw_def by (rule takeWhile_sorted)
  have here: "map ((!) rows) (tw b) = ?here b" for b
  proof -
    have "?here b = filter (\<lambda>r. mk r = m \<and> oc r = fst g \<and> tm_timestamp r \<le> b)
        (map ((!) rows) [0..<length rows])"
      by (simp add: rowsUpTo_def map_nth)
    then show ?thesis
      by (simp add: tw_filter refs_def refsOf_def filter_map comp_def conj_ac)
  qed
  have empty: "tw b = [] \<longleftrightarrow> ?here b = []" for b using here [of b] by (metis map_is_Nil_conv)
  have len: "length (tw b) = length (?here b)" for b using here [of b] by (metis length_map)
  have shown: "shownIn rows b (snd g) = (if tw b = [] then None else Some (last (tw b)))" for b
    by (simp add: shownIn_def tw_def refs)
  show ?thesis
  proof (cases "tw b = []")
    case True
    then show ?thesis using shown empty by (simp add: shownRow_def latestRow_def)
  next
    case False
    have take: "take (length (tw b)) refs = tw b" for b
      unfolding tw_def by (metis takeWhile_eq_take length_takeWhile_le length_take min.absorb2)
    have short: "length (tw b) \<le> length refs" for b
      unfolding tw_def by (rule length_takeWhile_le)
    have "distinct refs" by (simp add: refs_def refsOf_def)
    then have same: "tw b' \<noteq> [] \<and> last (tw b') = last (tw b) \<longleftrightarrow> length (tw b') = length (tw b)" for b'
      using last_prefix_iff [of refs "length (tw b)" "length (tw b')"] False short
      by (simp add: take)
    have only: "g' = g" if "g' \<in> set groups" "shownIn rows b' (snd g') = Some (last (tw b))" for g' b'
    proof (rule ccontr)
      assume "g' \<noteq> g"
      have "last (tw b) \<in> set (snd g')" using that(2) by (rule shownIn_mem)
      moreover have "last (tw b) \<in> set refs"
        using False unfolding tw_def by (meson last_in_set set_takeWhileD)
      ultimately have "fst g' = fst g"
        using groupRows_mem [OF m that(1)] by (auto simp: refs_def refsOf_def)
      then show False
        using \<open>g' \<noteq> g\<close> groupRows_mem [OF m that(1)] groupRows_mem [OF m g] by (simp add: prod_eq_iff)
    qed
    have "shownBy rows groups b' (last (tw b)) \<longleftrightarrow> length (?here b') = length (?here b)" for b'
    proof -
      have "shownBy rows groups b' (last (tw b)) \<longleftrightarrow> shownIn rows b' (snd g) = Some (last (tw b))"
        using only g unfolding shownBy_def by blast
      then show ?thesis using same [of b'] by (auto simp: shown len)
    qed
    moreover have "filter (\<lambda>b'. length (?here b') = length (?here b)) buckets \<noteq> []"
      using b by (auto simp: filter_empty_conv)
    ultimately have "lastShown rows groups buckets (last (tw b)) =
        last (filter (\<lambda>b'. length (?here b') = length (?here b)) buckets)"
      by (simp add: lastShown_def)
    moreover have "rows ! last (tw b) = last (?here b)" using False here [of b] by (metis last_map)
    ultimately show ?thesis using False shown empty by (simp add: shownRow_def latestRow_def Let_def)
  qed
qed

text \<open>The data of a request: its rows are in the order of time, and its buckets ascend.\<close>

definition wellFormedData :: "ProfitLossData \<Rightarrow> bool" where
  "wellFormedData d \<longleftrightarrow> sorted (map tm_timestamp (pd_plRows d)) \<and>
     sorted (map tm_timestamp (pd_ovRows d)) \<and> sorted_wrt (<) (pd_buckets d) \<and>
     pd_profits d = groupRows pt_marketId pt_outcome (pd_plRows d) \<and>
     pd_outcomeValues d = groupRows ot_marketId ot_outcome (pd_ovRows d)"

lemma queries_sorted:
  "queryProfitLossTimeseries now params w = (Inr rows, w') \<Longrightarrow> w' = w \<and> sorted (map tm_timestamp rows)"
  "queryOutcomeValueTimeseries now params w = (Inr ovs, w') \<Longrightarrow> w' = w \<and> sorted (map tm_timestamp ovs)"
  by (auto simp: queryProfitLossTimeseries_def queryOutcomeValueTimeseries_def gets_app)

lemma price_queries_read:
  "unchanged f (getLastTradePriceMinusMinPrice24hAgoByOutcomeByMarketId now params)"
  "unchanged f (getOldestTradePriceMinusMinPriceUserPaidForOpenPositionInLast24hByOutcomeByMarketId
     now params)"
  unfolding getLastTradePriceMinusMinPrice24hAgoByOutcomeByMarketId_def queryOutcomeValueTimeseries_def
    getOldestTradePriceMinusMinPriceUserPaidForOpenPositionInLast24hByOutcomeByMarketId_def
  by (intro frames)+

lemma getProfitLossData_data:
  assumes "getProfitLossData params w = (Inr d, w')"
  shows "w' = w \<and> wellFormedData d"
proof -
  have wf: "wellFormedData \<lparr>pd_plRows = pls, pd_profits = groupRows pt_marketId pt_outcome pls,
      pd_ovRows = ovs, pd_outcomeValues = groupRows ot_marketId ot_outcome ovs,
      pd_buckets = bs, pd_prices24hAgo = ps, pd_oldestPrices = os\<rparr>"
    if "sorted (map tm_timestamp pls)" "sorted (map tm_timestamp ovs)" "bucketRangeByInterval s e p = Inr bs"
    for pls ovs bs ps os s e p
    using that buckets_ascending [OF that(3)] by (simp add: wellFormedData_def)
  have empty: "groupRows mk oc [] = []" for mk :: "'r \<Rightarrow> address" and oc
    by (simp add: groupRows_def mapValues_def)
  have "unchanged id (getProfitLossData params)"
    unfolding getProfitLossData_def queryProfitLossTimeseries_def queryOutcomeValueTimeseries_def Let_def
    by (intro frames price_queries_read)
  from unchangedD [OF this assms] have "w' = w" by simp
  moreover have "wellFormedData d"
    using assms wf [of "[]" "[]"]
    by (fastforce simp: getProfitLossData_def act_run liftR_eq_Inr Let_def empty dest!: queries_sorted
        intro!: wf split: if_splits)
  ultimately show ?thesis ..
qed

lemma bucketed_show:
  assumes "sorted (map tm_timestamp rows)" "sorted_wrt (<) buckets"
    "bucketMarkets dflt buckets (groupRows mk oc rows) rows = (bucketed, heap)"
  shows "mapValues (\<lambda>_. map (map ((!) heap))) bucketed =
    mapValues (\<lambda>m groups. map (\<lambda>b. map (\<lambda>g. latestRow (dflt m) mk oc rows buckets m (fst g) b) groups)
      buckets) (groupRows mk oc rows)"
proof -
  have "sorted buckets" using assms(2) strict_sorted_imp_sorted by blast
  note bucketMarkets_show [OF assms(3) groupRows_disjoint order_refl this]
  moreover have "map (\<lambda>b. map (shownRow (dflt m) rows groups buckets b) groups) buckets =
      map (\<lambda>b. map (\<lambda>g. latestRow (dflt m) mk oc rows buckets m (fst g) b) groups) buckets"
    if "(m, groups) \<in> set (groupRows mk oc rows)" for m groups
    using shownRow_groupRows [OF that _ assms(1)] by (intro map_cong refl) auto
  ultimately show ?thesis by (auto simp: mapValues_def)
qed

lemma bucketed_profits_latest:
  assumes "getProfitLossData params w = (Inr d, w')"
  shows "bucketedProfits d = mapValues (\<lambda>marketId groups.
      map (\<lambda>b. map (\<lambda>g. latestRow (getDefaultPLTimeseries\<lparr>pt_marketId := marketId\<rparr>)
            pt_marketId pt_outcome (pd_plRows d) (pd_buckets d) marketId (fst g) b) groups)
        (pd_buckets d)) (pd_profits d)"
proof -
  have "wellFormedData d" using getProfitLossData_data [OF assms] by blast
  then show ?thesis
    using bucketed_show [of "pd_plRows d" "pd_buckets d"]
    by (auto simp: wellFormedData_def bucketedProfits_def split: prod.split)
qed

text \<open>C24. In the answer to a request, the position of an outcome at a bucket is the account's last row of this
  outcome up to the time of the bucket, or the default row when there is none: the changes of the rows'
  timestamps along the way do not disturb the selection. They do show in the result: a row carries the time of
  the last bucket in which it is shown.\<close>

theorem bucketed_profits_are_latest:
  assumes "getProfitLossData params w = (Inr d, w')"
  shows "bucketedProfits d = mapValues (\<lambda>marketId groups.
      map (\<lambda>b. map (\<lambda>g. latestRow (getDefaultPLTimeseries\<lparr>pt_marketId := marketId\<rparr>)
            pt_marketId pt_outcome (pd_plRows d) (pd_buckets d) marketId (fst g) b) groups)
        (pd_buckets d)) (pd_profits d)"
  using assms by (rule bucketed_profits_latest)

section \<open>The results add up\<close>

definition percentOf :: "bn_division_op \<Rightarrow> bn \<Rightarrow> bn \<Rightarrow> bn" where
  "percentOf dv profit cost = (if cost = 0 then 0 else dv profit cost)"

lemma profit_percents_lift:
  "getRealizedProfitPercent dv (lift v) = Inr (Pc (percentOf dv (vRealizedProfit v) (vRealizedCost v)))"
  "vTradePrice v = None \<Longrightarrow> vUnrealizedCost v = None \<Longrightarrow> vUnrealizedProfit v = None \<Longrightarrow>
   getUnrealizedProfitPercent dv (lift v) = Inr (Pc (percentOf dv
     (position_value (vMin v) (vMax v) (vNet v) (vLastPriceMMP v)
       - position_value (vMin v) (vMax v) (vNet v) (vAvg v))
     (position_value (vMin v) (vMax v) (vNet v) (vAvg v))))"
  "vTradePrice v = None \<Longrightarrow> vTotalCost v = None \<Longrightarrow> vTotalProfit v = None \<Longrightarrow>
   getTotalProfitPercent dv (lift v) = Inr (Pc (percentOf dv
     (position_value (vMin v) (vMax v) (vNet v) (vLastPriceMMP v)
       - position_value (vMin v) (vMax v) (vNet v) (vAvg v) + vRealizedProfit v)
     (position_value (vMin v) (vMax v) (vNet v) (vAvg v) + vRealizedCost v)))"
  by (simp_all add: getRealizedProfitPercent_def getUnrealizedProfitPercent_def
      getTotalProfitPercent_def percentOf_def)

lemma given_percents:
  "getUnrealizedProfitPercent dv (no_params\<lparr>unrealizedCost := Some (Tk c), unrealizedProfit := Some (Tk p)\<rparr>)
     = Inr (Pc (percentOf dv p c))"
  "getRealizedProfitPercent dv (no_params\<lparr>realizedCost := Tk c, realizedProfit := Tk p\<rparr>)
     = Inr (Pc (percentOf dv p c))"
  "getTotalProfitPercent dv (no_params\<lparr>totalCost := Some (Tk c), totalProfit := Some (Tk p)\<rparr>)
     = Inr (Pc (percentOf dv p c))"
  by (simp_all add: getRealizedProfitPercent_def getUnrealizedProfitPercent_def
      getTotalProfitPercent_def percentOf_def)

definition positionVals :: "ProfitLossTimeseries \<Rightarrow> bn option \<Rightarrow> bn \<Rightarrow> vals" where
  "positionVals pl price lastPrice = \<lparr>
     vNet = pt_position pl, vAvg = pt_price pl, vUnrealizedCost = None, vUnrealizedProfit = None,
     vRealizedCost = pt_realizedCost pl, vRealizedProfit = pt_profit pl, vTotalCost = None,
     vTotalProfit = None, vDelta = None, vSide = Buy, vQuantity = 0, vTradePrice = None,
     vTradePriceMMP = price, vLastPriceMMP = lastPrice, vMin = pt_minPrice pl, vMax = pt_maxPrice pl,
     vReporterFees = 0, vCreatorFees = 0, vReporterFeeRate = 0, vCreatorFeeRate = 0\<rparr>"

lemma positionParams_lift:
  "(positionParams pl)\<lparr>tradePriceMinusMinPrice := Some (Pr x)\<rparr> = lift (positionVals pl (Some x) 0)"
  "(positionParams pl)\<lparr>lastTradePriceMinusMinPrice := Pr x\<rparr> = lift (positionVals pl None x)"
  by (simp_all add: positionParams_def no_params_def lift_def positionVals_def)

lemma positionVals_sel [simp]:
  "vNet (positionVals pl t x) = pt_position pl" "vAvg (positionVals pl t x) = pt_price pl"
  "vUnrealizedCost (positionVals pl t x) = None" "vUnrealizedProfit (positionVals pl t x) = None"
  "vTotalCost (positionVals pl t x) = None" "vTotalProfit (positionVals pl t x) = None"
  "vRealizedCost (positionVals pl t x) = pt_realizedCost pl"
  "vRealizedProfit (positionVals pl t x) = pt_profit pl"
  "vTradePrice (positionVals pl t x) = None" "vTradePriceMMP (positionVals pl t x) = t"
  "vLastPriceMMP (positionVals pl t x) = x"
  "vMin (positionVals pl t x) = pt_minPrice pl" "vMax (positionVals pl t x) = pt_maxPrice pl"
  by (simp_all add: positionVals_def)

lemma getTradePrice_lift:
  "vTradePriceMMP v = Some t \<Longrightarrow> getTradePrice (lift v) = Inr (Pr (vMin v + t))"
  by (simp add: getTradePrice_def)

lemma safePercent_same:
  "safePercent dv (Some (Pr a)) (Some (Pr b)) True = Inr (Pc (if b = 0 then 0 else dv a b - 1))"
  "safePercent dv (Some (Tk a)) (Some (Tk b)) True = Inr (Pc (if b = 0 then 0 else dv a b - 1))"
  by (simp_all add: safePercent_def assertEqualDimensions_def isEqual_iff)

lemma lastPrice24hAgo_price: "\<exists>x. lastPrice24hAgo ps pl = Pr x"
  by (auto simp: lastPrice24hAgo_def split: option.split)

lemma referencePrice24h_price: "\<exists>x. referencePrice24h os ps pl = Pr x"
  using lastPrice24hAgo_price by (auto simp: referencePrice24h_def split: option.split)

text \<open>The value of the position at the last price, its cost, and what follows from them.\<close>

definition resultAddsUp ::
  "bn_division_op \<Rightarrow> bn \<Rightarrow> ProfitLossTimeseries \<Rightarrow> ProfitLossResult \<Rightarrow> bool" where
  "resultAddsUp dv lastPrice pl r \<longleftrightarrow>
     tm_timestamp r = tm_timestamp pl \<and> rs_marketId r = pt_marketId pl \<and> rs_outcome r = pt_outcome pl \<and>
     rs_netPosition r = pt_position pl \<and> rs_frozenFunds r = pt_frozenFunds pl \<and>
     rs_realized r = pt_profit pl \<and> rs_realizedCost r = pt_realizedCost pl \<and>
     rs_averagePrice r = pt_minPrice pl + pt_price pl \<and>
     rs_lastTradePrice r = pt_minPrice pl + lastPrice \<and>
     rs_unrealizedCost r =
       position_value (pt_minPrice pl) (pt_maxPrice pl) (pt_position pl) (pt_price pl) \<and>
     rs_unrealizedRevenue r =
       position_value (pt_minPrice pl) (pt_maxPrice pl) (pt_position pl) lastPrice \<and>
     rs_unrealized r = rs_unrealizedRevenue r - rs_unrealizedCost r \<and>
     rs_totalCost r = rs_unrealizedCost r + rs_realizedCost r \<and>
     rs_total r = rs_realized r + rs_unrealized r \<and>
     rs_realizedPercent r = percentOf dv (rs_realized r) (rs_realizedCost r) \<and>
     rs_unrealizedPercent r = percentOf dv (rs_unrealized r) (rs_unrealizedCost r) \<and>
     rs_totalPercent r = percentOf dv (rs_total r) (rs_totalCost r)"

lemma profitResult_ok:
  assumes "lastPriceMinusMin ovs pl = Inr (Pr x)"
  shows "\<exists>r. profitResult dv ovs ps os pl = Inr r \<and> resultAddsUp dv x pl r"
proof -
  obtain a where a: "lastPrice24hAgo ps pl = Pr a" using lastPrice24hAgo_price by blast
  obtain b where b: "referencePrice24h os ps pl = Pr b" using referencePrice24h_price by blast
  show ?thesis
    by (simp add: profitResult_def assms a b Let_def positionParams_lift getTradePrice_lift
        profit_percents_lift safePercent_same resultAddsUp_def)
qed

lemma lastPriceMinusMin_ok:
  assumes "ovs = None \<or> (\<exists>vs. ovs = Some vs \<and> 0 \<le> pt_outcome pl \<and> pt_outcome pl < int (length vs))"
  shows "\<exists>x. lastPriceMinusMin ovs pl = Inr (Pr x)"
  using assms by (auto simp: lastPriceMinusMin_def nat_less_iff)

lemma profitResults_ok:
  assumes "\<And>pl. pl \<in> set pls \<Longrightarrow> \<exists>x. lastPriceMinusMin ovs pl = Inr (Pr x)"
  shows "\<exists>rs. getProfitResultsForTimestamp dv pls ovs ps os = Inr rs \<and> length rs = length pls \<and>
    (\<forall>r \<in> set rs. \<exists>pl \<in> set pls. \<exists>x. resultAddsUp dv x pl r)"
proof -
  have "\<exists>r. profitResult dv ovs ps os pl = Inr r \<and> (\<exists>x. resultAddsUp dv x pl r)"
    if "pl \<in> set pls" for pl
    using assms [OF that] profitResult_ok by blast
  then have "\<exists>rs. mapE (profitResult dv ovs ps os) pls = Inr rs \<and>
      list_all2 (\<lambda>pl r. \<exists>x. resultAddsUp dv x pl r) pls rs"
    by (rule mapE_all2)
  then obtain rs where rs: "mapE (profitResult dv ovs ps os) pls = Inr rs"
    "list_all2 (\<lambda>pl r. \<exists>x. resultAddsUp dv x pl r) pls rs"
    by blast
  have "\<forall>r \<in> set rs. \<exists>pl \<in> set pls. \<exists>x. resultAddsUp dv x pl r"
    using list_all2_mem [OF rs(2)] by blast
  then show ?thesis
    using rs by (simp add: getProfitResultsForTimestamp_def list_all2_lengthD)
qed

text \<open>Every outcome that occurs is one of the market's.\<close>

definition outcomesOk :: "ProfitLossTimeseries list \<Rightarrow> bool" where
  "outcomesOk pls \<longleftrightarrow> (\<forall>pl \<in> set pls. \<forall>p0 \<in> set pls. pt_position p0 \<noteq> 0 \<longrightarrow>
     0 \<le> pt_outcome pl \<and> pt_outcome pl < pt_numOutcomes p0)"

lemma length_sortedOutcomeValues [simp]: "length (sortedOutcomeValues n ovs) = nat n"
  by (simp add: sortedOutcomeValues_def)

definition bucketOk ::
  "bn_division_op \<Rightarrow> ProfitLossTimeseries list \<Rightarrow> ProfitLossResult list \<Rightarrow> bool" where
  "bucketOk dv pls rs \<longleftrightarrow>
     length rs = length pls \<and> (\<forall>r \<in> set rs. \<exists>pl \<in> set pls. \<exists>x. resultAddsUp dv x pl r)"

lemma marketResults_ok:
  assumes "\<And>pls. pls \<in> set marketPls \<Longrightarrow> outcomesOk pls"
  shows "\<exists>rss. getProfitResultsForMarket dv marketPls ovs ps os = Inr rss \<and>
    list_all2 (bucketOk dv) marketPls rss"
proof -
  let ?f = "\<lambda>(i, pls). case filter (\<lambda>pl. pt_position pl \<noteq> 0) pls of
         [] \<Rightarrow> getProfitResultsForTimestamp dv pls None ps os
       | p0 # _ \<Rightarrow>
           let values = (case ovs of
                  Some values \<Rightarrow> if i < length values then values ! i else []
                | None \<Rightarrow> replicate (nat (pt_numOutcomes p0)) getDefaultOVTimeseries)
           in getProfitResultsForTimestamp dv pls
                (Some (sortedOutcomeValues (pt_numOutcomes p0) values)) ps os"
  have "\<exists>rs. ?f x = Inr rs \<and> bucketOk dv (snd x) rs" if "x \<in> set (zip [0..<length marketPls] marketPls)" for x
  proof (cases x)
    case (Pair i pls)
    then have ok: "outcomesOk pls" using that assms by (auto dest: set_zip_rightD)
    show ?thesis
    proof (cases "filter (\<lambda>pl. pt_position pl \<noteq> 0) pls")
      case Nil
      have "\<exists>x. lastPriceMinusMin None pl = Inr (Pr x)" for pl by (rule lastPriceMinusMin_ok) simp
      then show ?thesis
        using profitResults_ok [of pls None dv ps os] Nil by (auto simp: Pair bucketOk_def)
    next
      case (Cons p0 rest)
      then have "p0 \<in> set (filter (\<lambda>pl. pt_position pl \<noteq> 0) pls)" by simp
      then have p0: "p0 \<in> set pls" "pt_position p0 \<noteq> 0" by simp_all
      have "\<exists>x. lastPriceMinusMin (Some (sortedOutcomeValues (pt_numOutcomes p0) vs)) pl = Inr (Pr x)"
        if "pl \<in> set pls" for pl vs
      proof (rule lastPriceMinusMin_ok)
        have "0 \<le> pt_outcome pl \<and> pt_outcome pl < pt_numOutcomes p0"
          using that ok p0 by (auto simp: outcomesOk_def)
        then show "Some (sortedOutcomeValues (pt_numOutcomes p0) vs) = None \<or>
            (\<exists>us. Some (sortedOutcomeValues (pt_numOutcomes p0) vs) = Some us \<and> 0 \<le> pt_outcome pl \<and>
              pt_outcome pl < int (length us))" by simp
      qed
      from profitResults_ok [OF this] show ?thesis
        by (simp add: Pair Cons Let_def bucketOk_def)
    qed
  qed
  from mapE_all2 [OF this, of "zip [0..<length marketPls] marketPls" "\<lambda>x. x"]
  obtain rss where rss: "mapE ?f (zip [0..<length marketPls] marketPls) = Inr rss"
    "list_all2 (\<lambda>x. bucketOk dv (snd x)) (zip [0..<length marketPls] marketPls) rss"
    by blast
  then have "list_all2 (bucketOk dv) marketPls rss"
    by (auto simp: list_all2_conv_all_nth)
  then show ?thesis using rss(1) unfolding getProfitResultsForMarket_def by blast
qed

text \<open>The rows of a market in the answer, and the sum of a bucket over all markets and outcomes.\<close>

definition rowsOk :: "ProfitLossTimeseries list \<Rightarrow> bool" where
  "rowsOk rows \<longleftrightarrow> (\<forall>r \<in> set rows. \<forall>r' \<in> set rows. pt_marketId r = pt_marketId r' \<longrightarrow>
     0 \<le> pt_outcome r \<and> pt_outcome r < pt_numOutcomes r')"

lemma latestRow_cases:
  fixes rows :: "ProfitLossTimeseries list"
  assumes "pl = latestRow (getDefaultPLTimeseries\<lparr>pt_marketId := m\<rparr>) pt_marketId pt_outcome rows bs m k b"
  shows "(pt_outcome pl = 0 \<and> pt_position pl = 0) \<or> (\<exists>r \<in> set rows. pt_marketId r = m \<and>
    pt_outcome pl = pt_outcome r \<and> pt_position pl = pt_position r \<and> pt_numOutcomes pl = pt_numOutcomes r)"
proof (cases "rowsUpTo pt_marketId pt_outcome rows m k b = []")
  case True
  then show ?thesis by (simp add: assms latestRow_def Let_def getDefaultPLTimeseries_def)
next
  case False
  then have "last (rowsUpTo pt_marketId pt_outcome rows m k b) \<in> set rows"
    "pt_marketId (last (rowsUpTo pt_marketId pt_outcome rows m k b)) = m"
    using last_in_set [OF False] by (auto simp: rowsUpTo_def)
  with False show ?thesis by (auto simp: assms latestRow_def Let_def)
qed

lemma bucketed_ok:
  assumes data: "getProfitLossData params w = (Inr d, w')" and ok: "rowsOk (pd_plRows d)"
    and m: "(m, plss) \<in> set (bucketedProfits d)"
  shows "length plss = length (pd_buckets d) \<and> (\<forall>pls \<in> set plss. pls \<noteq> [] \<and> outcomesOk pls)"
proof -
  have "pd_profits d = groupRows pt_marketId pt_outcome (pd_plRows d)"
    using getProfitLossData_data [OF data] by (simp add: wellFormedData_def)
  with bucketed_profits_latest [OF data]
  have "bucketedProfits d = mapValues (\<lambda>marketId groups.
      map (\<lambda>b. map (\<lambda>g. latestRow (getDefaultPLTimeseries\<lparr>pt_marketId := marketId\<rparr>)
            pt_marketId pt_outcome (pd_plRows d) (pd_buckets d) marketId (fst g) b) groups)
        (pd_buckets d)) (groupRows pt_marketId pt_outcome (pd_plRows d))" by simp
  then obtain groups where g: "(m, groups) \<in> set (groupRows pt_marketId pt_outcome (pd_plRows d))"
    and plss: "plss = map (\<lambda>b. map (\<lambda>g. latestRow (getDefaultPLTimeseries\<lparr>pt_marketId := m\<rparr>)
            pt_marketId pt_outcome (pd_plRows d) (pd_buckets d) m (fst g) b) groups) (pd_buckets d)"
    using m by (auto simp: mapValues_def)
  have "groups \<noteq> []" using g by (auto simp: groupRows_def mapValues_def groupBy_mem filter_empty_conv)
  moreover have "outcomesOk (map (\<lambda>g. latestRow (getDefaultPLTimeseries\<lparr>pt_marketId := m\<rparr>)
            pt_marketId pt_outcome (pd_plRows d) (pd_buckets d) m (fst g) b) groups)" for b
    unfolding outcomesOk_def
  proof (intro ballI impI)
    fix pl p0
    assume "pl \<in> set (map (\<lambda>g. latestRow (getDefaultPLTimeseries\<lparr>pt_marketId := m\<rparr>)
            pt_marketId pt_outcome (pd_plRows d) (pd_buckets d) m (fst g) b) groups)"
      "p0 \<in> set (map (\<lambda>g. latestRow (getDefaultPLTimeseries\<lparr>pt_marketId := m\<rparr>)
            pt_marketId pt_outcome (pd_plRows d) (pd_buckets d) m (fst g) b) groups)"
      and pos: "pt_position p0 \<noteq> 0"
    then obtain k k' where "pl = latestRow (getDefaultPLTimeseries\<lparr>pt_marketId := m\<rparr>)
            pt_marketId pt_outcome (pd_plRows d) (pd_buckets d) m k b"
      "p0 = latestRow (getDefaultPLTimeseries\<lparr>pt_marketId := m\<rparr>)
            pt_marketId pt_outcome (pd_plRows d) (pd_buckets d) m k' b" by auto
    note this [THEN latestRow_cases]
    with pos obtain r0 where r0: "r0 \<in> set (pd_plRows d)" "pt_marketId r0 = m"
      "pt_numOutcomes p0 = pt_numOutcomes r0"
      and pl: "pt_outcome pl = 0 \<or> (\<exists>r \<in> set (pd_plRows d). pt_marketId r = m \<and> pt_outcome pl = pt_outcome r)"
      by auto
    have "0 < pt_numOutcomes r0" using ok r0 by (force simp: rowsOk_def)
    then show "0 \<le> pt_outcome pl \<and> pt_outcome pl < pt_numOutcomes p0"
      using pl r0 ok by (auto simp: rowsOk_def)
  qed
  ultimately show ?thesis by (simp add: plss)
qed

definition summedFields :: "(ProfitLossResult \<Rightarrow> bn) set" where
  "summedFields = {rs_netPosition, rs_realized, rs_unrealized, rs_unrealizedCost, rs_realizedCost,
     rs_totalCost, rs_unrealizedRevenue}"

lemma sumProfitLossResults_ok:
  "\<exists>s. sumProfitLossResults dv l r = Inr s \<and> (\<forall>f \<in> summedFields. f s = f l + f r) \<and>
     rs_total s = rs_realized s + rs_unrealized s"
  by (simp add: sumProfitLossResults_def Let_def given_percents summedFields_def)

lemma foldE_sumDefined:
  assumes "rs_total x = rs_realized x + rs_unrealized x"
  shows "\<exists>s. foldE (sumDefined dv) (Some x) (map Some rs) = Inr (Some s) \<and>
    (\<forall>f \<in> summedFields. f s = f x + sum_list (map f rs)) \<and>
    rs_total s = rs_realized s + rs_unrealized s"
  using assms
proof (induction rs arbitrary: x)
  case (Cons r rs)
  obtain s where s: "sumProfitLossResults dv x r = Inr s" "\<forall>f \<in> summedFields. f s = f x + f r"
    "rs_total s = rs_realized s + rs_unrealized s"
    using sumProfitLossResults_ok by blast
  obtain t where t: "foldE (sumDefined dv) (Some s) (map Some rs) = Inr (Some t)"
    "\<forall>f \<in> summedFields. f t = f s + sum_list (map f rs)" "rs_total t = rs_realized t + rs_unrealized t"
    using Cons.IH [OF s(3)] by blast
  have "foldE (sumDefined dv) (Some x) (map Some (r # rs)) = Inr (Some t)"
    using s(1) t(1) by (simp add: sumDefined_def)
  moreover have "f t = f x + sum_list (map f (r # rs))" if "f \<in> summedFields" for f
    using bspec [OF s(2) that] bspec [OF t(2) that] by simp
  ultimately show ?case using t(3) by blast
qed simp

lemma sumGroup_ok:
  assumes "concat rss \<noteq> []" "\<And>r. r \<in> set (concat rss) \<Longrightarrow> rs_total r = rs_realized r + rs_unrealized r"
  shows "\<exists>s. sumGroup dv (map Some rss) = Inr (Some s) \<and>
    (\<forall>f \<in> insert rs_total summedFields. f s = sum_list (map f (concat rss)))"
proof -
  obtain x rs where c: "concat rss = x # rs" using assms(1) by (cases "concat rss") auto
  have flat: "concat (map (\<lambda>g. case g of Some rs \<Rightarrow> map Some rs | None \<Rightarrow> [None]) (map Some rss)) =
      map Some (concat rss)"
    by (simp add: map_concat comp_def)
  obtain s where s: "foldE (sumDefined dv) (Some x) (map Some rs) = Inr (Some s)"
    "\<forall>f \<in> summedFields. f s = f x + sum_list (map f rs)" "rs_total s = rs_realized s + rs_unrealized s"
    using foldE_sumDefined [of x dv rs] assms(2) c by auto
  have "sum_list (map rs_total (concat rss)) =
      sum_list (map rs_realized (concat rss)) + sum_list (map rs_unrealized (concat rss))"
  proof -
    have "map rs_total (concat rss) = map (\<lambda>r. rs_realized r + rs_unrealized r) (concat rss)"
      by (rule map_cong [OF refl]) (rule assms(2))
    then show ?thesis by (simp only: sum_list_addf)
  qed
  then have "rs_total s = sum_list (map rs_total (concat rss))"
    using s(2,3) by (simp add: c summedFields_def)
  then show ?thesis
    using s(1,2) unfolding sumGroup_def flat by (auto simp: c reduce1_def)
qed

text \<open>The amounts that are not summed are those of the first summand.\<close>

definition unsummedFields :: "(ProfitLossResult \<Rightarrow> bn) set" where
  "unsummedFields = {rs_frozenFunds, rs_unrealizedRevenue24hAgo, rs_unrealizedRevenue24hChangePercent,
     rs_lastTradePrice, rs_lastTradePrice24hAgo, rs_lastTradePrice24hChangePercent}"

lemma foldE_unsummed:
  assumes "foldE (sumDefined dv) (Some x) (map Some rs) = Inr (Some s)" "f \<in> unsummedFields"
  shows "f s = f x"
  using assms(1)
proof (induction rs arbitrary: x)
  case (Cons r rs)
  obtain y where y: "sumProfitLossResults dv x r = Inr y" using sumProfitLossResults_ok by blast
  have "f y = f x"
    using y assms(2) by (auto simp: sumProfitLossResults_def Let_def given_percents unsummedFields_def)
  then show ?case using Cons.IH [of y] Cons.prems y by (simp add: sumDefined_def)
qed simp

lemma sumGroup_unsummed:
  assumes "sumGroup dv (map Some rss) = Inr (Some s)" "concat rss \<noteq> []" "f \<in> unsummedFields"
  shows "f s = f (hd (concat rss))"
proof -
  obtain x rs where c: "concat rss = x # rs" using assms(2) by (cases "concat rss") auto
  have flat: "concat (map (\<lambda>g. case g of Some rs \<Rightarrow> map Some rs | None \<Rightarrow> [None]) (map Some rss)) =
      map Some (concat rss)"
    by (simp add: map_concat comp_def)
  have "foldE (sumDefined dv) (Some x) (map Some rs) = Inr (Some s)"
    using assms(1) unfolding sumGroup_def flat
    by (auto simp: c reduce1_def bindE_eq_Inr)
  then show ?thesis using foldE_unsummed assms(3) c by simp
qed

lemma all_outcomes_ok:
  assumes data: "getProfitLossData params w = (Inr d, w')" and ok: "rowsOk (pd_plRows d)"
  shows "\<exists>all. allOutcomesProfitLoss dv d = Inr all \<and> ao_buckets all = pd_buckets d \<and>
    list_all2 (\<lambda>(m, plss) (m', rss). m' = m \<and> list_all2 (bucketOk dv) plss rss)
      (bucketedProfits d) (ao_profit all)"
proof -
  let ?f = "\<lambda>(m, pls). bindE (getProfitResultsForMarket dv pls (map_of (bucketedOutcomeValues d) m)
      (pd_prices24hAgo d) (pd_oldestPrices d)) (\<lambda>results. Inr (m, results))"
  have "\<exists>y. ?f x = Inr y \<and> (\<lambda>(m, plss) (m', rss). m' = m \<and> list_all2 (bucketOk dv) plss rss) x y"
    if "x \<in> set (bucketedProfits d)" for x
  proof (cases x)
    case (Pair m plss)
    have "outcomesOk pls" if "pls \<in> set plss" for pls
      using bucketed_ok [OF data ok] \<open>x \<in> set (bucketedProfits d)\<close> that Pair by blast
    from marketResults_ok [OF this] obtain rss where
      "getProfitResultsForMarket dv plss (map_of (bucketedOutcomeValues d) m) (pd_prices24hAgo d)
         (pd_oldestPrices d) = Inr rss" "list_all2 (bucketOk dv) plss rss" by blast
    then show ?thesis by (simp add: Pair)
  qed
  from mapE_all2 [of "bucketedProfits d" ?f, OF this] obtain profit where
    "mapE ?f (bucketedProfits d) = Inr profit"
    "list_all2 (\<lambda>(m, plss) (m', rss). m' = m \<and> list_all2 (bucketOk dv) plss rss) (bucketedProfits d) profit"
    by blast
  then show ?thesis by (simp add: allOutcomesProfitLoss_def)
qed

lemma answer_entry:
  assumes data: "getProfitLossData params w = (Inr d, w')" and ok: "rowsOk (pd_plRows d)"
    and rel: "list_all2 (\<lambda>(m, plss) (m', rss). m' = m \<and> list_all2 (bucketOk dv) plss rss)
      (bucketedProfits d) profit"
    and r: "(m, rss) \<in> set profit"
  shows "length rss = length (pd_buckets d) \<and> (\<forall>rs \<in> set rss. rs \<noteq> [] \<and>
      (\<forall>r \<in> set rs. rs_total r = rs_realized r + rs_unrealized r \<and>
         rs_unrealized r = rs_unrealizedRevenue r - rs_unrealizedCost r))"
proof -
  obtain plss where plss: "(m, plss) \<in> set (bucketedProfits d)" "list_all2 (bucketOk dv) plss rss"
    using list_all2_mem [OF rel r] by auto
  note b = bucketed_ok [OF data ok plss(1)]
  have "rs \<noteq> [] \<and> (\<forall>r \<in> set rs. rs_total r = rs_realized r + rs_unrealized r \<and>
       rs_unrealized r = rs_unrealizedRevenue r - rs_unrealizedCost r)" if rs: "rs \<in> set rss" for rs
  proof -
    obtain pls where "pls \<in> set plss" "bucketOk dv pls rs" using list_all2_mem [OF plss(2) rs] by blast
    then show ?thesis using b by (fastforce simp: bucketOk_def resultAddsUp_def)
  qed
  then show ?thesis using b list_all2_lengthD [OF plss(2)] by simp
qed

lemma sum_buckets:
  assumes ne: "profit \<noteq> []"
    and entry: "\<And>m rss. (m, rss) \<in> set profit \<Longrightarrow> length rss = n \<and> (\<forall>rs \<in> set rss. rs \<noteq> [] \<and>
      (\<forall>r \<in> set rs. rs_total r = rs_realized r + rs_unrealized r))"
  shows "\<exists>totals. mapE (sumGroup dv) (zipAll (dictValues profit)) = Inr (map Some totals) \<and>
    length totals = n \<and> (\<forall>i < n. \<forall>f \<in> insert rs_total summedFields.
       f (totals ! i) = (\<Sum>(m, rss) \<leftarrow> profit. \<Sum>r \<leftarrow> rss ! i. f r)) \<and>
    (\<forall>i < n. \<forall>f \<in> unsummedFields. f (totals ! i) = f (hd (snd (hd profit) ! i)))"
proof -
  let ?at = "\<lambda>i. map (\<lambda>rss. rss ! i) (dictValues profit)"
  have zip: "zipAll (dictValues profit) = map (\<lambda>i. map Some (?at i)) [0..<n]"
    by (rule zipAll_equal) (use entry ne in \<open>auto simp: dictValues_def\<close>)
  have "\<exists>s. sumGroup dv (map Some (?at i)) = Inr (Some s) \<and>
      (\<forall>f \<in> insert rs_total summedFields. f s = sum_list (map f (concat (?at i))))" if "i < n" for i
  proof (rule sumGroup_ok)
    have mem: "rs \<in> set (?at i) \<Longrightarrow> \<exists>m rss. (m, rss) \<in> set profit \<and> rs \<in> set rss" for rs
      using entry that by (fastforce simp: dictValues_def)
    show "concat (?at i) \<noteq> []"
      using mem ne entry by (cases profit) (fastforce simp: dictValues_def)+
    show "rs_total r = rs_realized r + rs_unrealized r" if "r \<in> set (concat (?at i))" for r
      using that mem entry by fastforce
  qed
  then obtain g where g: "\<And>i. i < n \<Longrightarrow> sumGroup dv (map Some (?at i)) = Inr (Some (g i))"
    "\<And>i f. i < n \<Longrightarrow> f \<in> insert rs_total summedFields \<Longrightarrow> f (g i) = sum_list (map f (concat (?at i)))"
    by metis
  have "mapE (sumGroup dv) (zipAll (dictValues profit)) = Inr (map Some (map g [0..<n]))"
    unfolding zip using g(1) mapE_total [of "[0..<n]" "\<lambda>i. sumGroup dv (map Some (?at i))" "\<lambda>i. Some (g i)"]
    by (simp add: mapE_map comp_def)
  moreover have "f (map g [0..<n] ! i) = (\<Sum>(m, rss) \<leftarrow> profit. \<Sum>r \<leftarrow> rss ! i. f r)"
    if "i < n" "f \<in> insert rs_total summedFields" for i f
    using g(2) [OF that] that(1)
    by (simp add: dictValues_def sum_list_concat map_concat comp_def case_prod_unfold)
  moreover have "f (map g [0..<n] ! i) = f (hd (snd (hd profit) ! i))" if "i < n" "f \<in> unsummedFields" for i f
  proof -
    obtain m rss rest where p: "profit = (m, rss) # rest" using ne by (cases profit) auto
    have "i < length rss" "\<forall>rs \<in> set rss. rs \<noteq> []" using entry [of m rss] p \<open>i < n\<close> by auto
    then have first: "rss ! i \<noteq> []" by simp
    then have "hd (concat (?at i)) = hd (rss ! i)" "concat (?at i) \<noteq> []" by (simp_all add: p dictValues_def)
    then show ?thesis using sumGroup_unsummed [OF g(1) [OF \<open>i < n\<close>] _ that(2)] \<open>i < n\<close> by (simp add: p)
  qed
  ultimately show ?thesis by (intro exI [of _ "map g [0..<n]"]) simp
qed

lemma profit_loss_returns:
  assumes "getProfitLossData params w = (Inr d, w')" "pd_plRows d \<noteq> []" "rowsOk (pd_plRows d)"
  shows "\<exists>all. getAllOutcomesProfitLoss dv params w = (Inr all, w)"
proof -
  obtain all where "allOutcomesProfitLoss dv d = Inr all" using all_outcomes_ok [OF assms(1,3)] by blast
  then show ?thesis
    using getProfitLossData_data [OF assms(1)] assms(1) by (auto simp: getAllOutcomesProfitLoss_def act_simps)
qed

text \<open>C25. When the data step (the request is valid and its queries succeed) yields rows, the answer has one result
  per bucket. Its net position, its realized and unrealized profit, their costs, its total cost, its unrealized
  revenue and its total profit are the sums of these over all markets and outcomes at the bucket. Its frozen
  funds, the revenue of 24 hours ago with its change, and the last trade prices are not sums: they are those of the
  first outcome of the first market (the code does not add them). In every summand the total profit is the realized plus the
  unrealized profit, and the unrealized profit is the value of the position less its cost; no dimension error
  and no missing value ends the computation.\<close>

theorem profit_loss_sums_outcomes:
  assumes data: "getProfitLossData params w = (Inr d, w')"
    and rows: "pd_plRows d \<noteq> []" "rowsOk (pd_plRows d)"
  shows "\<exists>all totals. getAllOutcomesProfitLoss dv params w = (Inr all, w) \<and>
    getProfitLoss dv params w = (Inr (map Some totals), w) \<and> length totals = length (pd_buckets d) \<and>
    (\<forall>i < length totals. \<forall>f \<in> {rs_total, rs_netPosition, rs_realized, rs_unrealized, rs_unrealizedCost,
        rs_realizedCost, rs_totalCost, rs_unrealizedRevenue}.
       f (totals ! i) = (\<Sum>(m, rss) \<leftarrow> ao_profit all. \<Sum>r \<leftarrow> rss ! i. f r)) \<and>
    (\<forall>i < length totals. \<forall>f \<in> {rs_frozenFunds, rs_unrealizedRevenue24hAgo,
        rs_unrealizedRevenue24hChangePercent, rs_lastTradePrice, rs_lastTradePrice24hAgo,
        rs_lastTradePrice24hChangePercent}.
       f (totals ! i) = f (hd (snd (hd (ao_profit all)) ! i))) \<and>
    (\<forall>(m, rss) \<in> set (ao_profit all). \<forall>rs \<in> set rss. \<forall>r \<in> set rs.
       rs_total r = rs_realized r + rs_unrealized r \<and>
       rs_unrealized r = rs_unrealizedRevenue r - rs_unrealizedCost r)"
proof -
  have w': "w' = w" and wf: "wellFormedData d" using getProfitLossData_data [OF data] by blast+
  obtain all where all: "allOutcomesProfitLoss dv d = Inr all" "ao_buckets all = pd_buckets d"
    and rel: "list_all2 (\<lambda>(m, plss) (m', rss). m' = m \<and> list_all2 (bucketOk dv) plss rss)
      (bucketedProfits d) (ao_profit all)"
    using all_outcomes_ok [OF data rows(2)] by blast
  have run: "getAllOutcomesProfitLoss dv params w = (Inr all, w)"
    using data all(1) w' by (simp add: getAllOutcomesProfitLoss_def act_simps)
  note entry = answer_entry [OF data rows(2) rel]
  have "pd_profits d \<noteq> []" using rows(1) wf by (simp add: wellFormedData_def groupRows_def mapValues_def)
  then have "bucketedProfits d \<noteq> []"
    using bucketed_profits_latest [OF data] by (simp add: mapValues_def)
  then have ne: "ao_profit all \<noteq> []" using rel by auto
  obtain totals where t: "mapE (sumGroup dv) (zipAll (dictValues (ao_profit all))) = Inr (map Some totals)"
    "length totals = length (pd_buckets d)"
    "\<forall>i < length (pd_buckets d). \<forall>f \<in> insert rs_total summedFields.
       f (totals ! i) = (\<Sum>(m, rss) \<leftarrow> ao_profit all. \<Sum>r \<leftarrow> rss ! i. f r)"
    "\<forall>i < length (pd_buckets d). \<forall>f \<in> unsummedFields. f (totals ! i) = f (hd (snd (hd (ao_profit all)) ! i))"
    using sum_buckets [OF ne, of "length (pd_buckets d)" dv] entry by blast
  have "getProfitLoss dv params w = (Inr (map Some totals), w)"
    using run ne t(1) by (simp add: getProfitLoss_def act_simps)
  moreover have "\<forall>(m, rss) \<in> set (ao_profit all). \<forall>rs \<in> set rss. \<forall>r \<in> set rs.
       rs_total r = rs_realized r + rs_unrealized r \<and>
       rs_unrealized r = rs_unrealizedRevenue r - rs_unrealizedCost r"
    using entry by blast
  ultimately show ?thesis using run t(2-4) unfolding summedFields_def unsummedFields_def
    by (intro exI [of _ all] exI [of _ totals]) simp
qed

section \<open>A request\<close>

text \<open>An account that holds five shares since time 100; the outcome was traded again at 150.\<close>

definition held_row :: profit_loss_row where
  "held_row = \<lparr>pl_account = ''alice'', pl_marketId = ''m'', pl_outcome = 1, pl_price = 2 / 5,
     pl_position = 5, pl_quantityOpened = 5, pl_profit = 0, pl_frozenFunds = 2, pl_realizedCost = 0,
     pl_transactionHash = ''t1'', pl_timestamp = 100, pl_blockNumber = 1, pl_logIndex = 0\<rparr>"

definition traded_value :: "int \<Rightarrow> bn \<Rightarrow> outcome_value_row" where
  "traded_value t v = \<lparr>ov_marketId = ''m'', ov_outcome = 1, ov_transactionHash = ''t'', ov_value = v,
     ov_timestamp = t, ov_blockNumber = t, ov_logIndex = 0\<rparr>"

definition trading_world :: world where
  "trading_world = market_world\<lparr>blockHeadTimestamp := 200, tables := (tables market_world)
     \<lparr>t_wcl_profit_loss_timeseries := [held_row],
      t_outcome_value_timeseries := [traded_value 100 (2 / 5), traded_value 150 (1 / 2)]\<rparr>\<rparr>"

definition sample_request :: GetProfitLossParams where
  "sample_request = \<lparr>rq_universe = mk_universe sample_market, rq_account = ''alice'', rq_startTime = None,
     rq_endTime = None, rq_periodInterval = Some 20, rq_marketId = None\<rparr>"

lemma trading_world_sel [simp]:
  "t_wcl_profit_loss_timeseries (tables trading_world) = [held_row]"
  "t_outcome_value_timeseries (tables trading_world) = [traded_value 100 (2 / 5), traded_value 150 (1 / 2)]"
  "t_markets (tables trading_world) = [sample_market]" "t_trades (tables trading_world) = []"
  "getCurrentTime trading_world = 200"
  by (simp_all add: trading_world_def market_world_def sample_simps getCurrentTime_def
      getOverrideTimestamp_def empty_world_def empty_db_def)

lemma sample_queries:
  "queryProfitLossTimeseries 200 sample_request trading_world =
     (Inr [plTimeseries held_row sample_market], trading_world)"
  "queryOutcomeValueTimeseries 200 sample_request trading_world =
     (Inr [ovTimeseries (traded_value 100 (2 / 5)), ovTimeseries (traded_value 150 (1 / 2))], trading_world)"
  "getLastTradePriceMinusMinPrice24hAgoByOutcomeByMarketId 200 sample_request trading_world =
     (Inr [], trading_world)"
  "getOldestTradePriceMinusMinPriceUserPaidForOpenPositionInLast24hByOutcomeByMarketId 200
     sample_request trading_world = (Inr [], trading_world)"
  by (simp_all add: queryProfitLossTimeseries_def queryOutcomeValueTimeseries_def gets_app
      getLastTradePriceMinusMinPrice24hAgoByOutcomeByMarketId_def
      getOldestTradePriceMinusMinPriceUserPaidForOpenPositionInLast24hByOutcomeByMarketId_def
      openingTrades_def bindA_gets sample_request_def orElse_def notBefore_def held_row_def traded_value_def day_def
      act_simps mapValues_def mapValuesE_def map_filter_simps ovTimeseries_def plTimeseries_def)

lemma sample_buckets: "bucketRangeByInterval 100 150 (Some 20) = Inr [100, 120, 140, 150]"
  by (simp add: bucketRangeByInterval_def bucketInterval_def bucketsFrom.simps)

definition sample_data :: ProfitLossData where
  "sample_data = (let pls = [plTimeseries held_row sample_market];
       ovs = [ovTimeseries (traded_value 100 (2 / 5)), ovTimeseries (traded_value 150 (1 / 2))] in
     \<lparr>pd_plRows = pls, pd_profits = groupRows pt_marketId pt_outcome pls, pd_ovRows = ovs,
      pd_outcomeValues = groupRows ot_marketId ot_outcome ovs, pd_buckets = [100, 120, 140, 150],
      pd_prices24hAgo = [], pd_oldestPrices = []\<rparr>)"

lemma sample_sel:
  "rq_startTime sample_request = None" "rq_periodInterval sample_request = Some 20"
  "tm_timestamp (plTimeseries held_row m) = 100" "tm_timestamp (ovTimeseries (traded_value t v)) = of_int t"
  by (simp_all add: sample_request_def plTimeseries_def held_row_def ovTimeseries_def traded_value_def)

lemma sample_data_run: "getProfitLossData sample_request trading_world = (Inr sample_data, trading_world)"
  by (simp add: getProfitLossData_def bindA_gets sample_queries act_simps Let_def sample_data_def
      sample_buckets sample_sel orElse_def)

text \<open>The row of time 100 is shown at 100, 120, 140 and 150, and says 150 everywhere.\<close>

theorem bucketed_profits_are_latest_witness:
  "bucketedProfits sample_data =
     [(''m'', replicate 4 [(plTimeseries held_row sample_market)\<lparr>tm_timestamp := 150\<rparr>])]"
  using bucketed_profits_are_latest [OF sample_data_run]
  by (simp add: sample_data_def Let_def groupRows_def mapValues_def groupBy_def groupByIndex_def
      latestRow_def rowsUpTo_def plTimeseries_def held_row_def numeral_eq_Suc)

theorem profit_loss_sums_outcomes_witness:
  "\<exists>all totals. getAllOutcomesProfitLoss bn_div sample_request trading_world = (Inr all, trading_world) \<and>
    getProfitLoss bn_div sample_request trading_world = (Inr (map Some totals), trading_world) \<and>
    length totals = 4 \<and>
    rs_total (totals ! 3) = (\<Sum>(m, rss) \<leftarrow> ao_profit all. \<Sum>r \<leftarrow> rss ! 3. rs_total r)"
proof -
  have "pd_plRows sample_data \<noteq> []" "rowsOk (pd_plRows sample_data)" "length (pd_buckets sample_data) = 4"
    by (simp_all add: sample_data_def Let_def rowsOk_def plTimeseries_def held_row_def sample_simps)
  then show ?thesis
    using profit_loss_sums_outcomes [OF sample_data_run, of bn_div] by fastforce
qed

end
