(* ===== verification/Trading_Positions.thy ===== *)
theory Trading_Positions
  imports Profit_Loss_Getter Environment
begin

text \<open>
  \<open>src/server/getters/get-user-trading-positions.ts\<close>: the positions of an account at a time, per outcome, per
  market and in total, from the profit and loss series and from the balances of share tokens.

  \<^item> \<open>tradingPositions\<close> joins the results of the last bucket with the balances (\<open>rawPositionsMapping\<close>). The
    key of the mapping, market and outcome concatenated, is a pair. A balance is a number here, its printed form
    in the source.
  \<^item> \<open>getAggregatedTradingPosition\<close> sums; a position of the whole account exists only if the request is
    not for one market.
\<close>

section \<open>Requests and positions\<close>

record UserTradingPositionsParams =
  uq_universe :: "address option"
  uq_marketId :: "address option"
  uq_account :: "address option"
  uq_outcome :: "int option"
  uq_endTime :: "rat option"

record TradingPosition = ProfitLossResult +
  tq_position :: bn

record AggregatedTradingPosition =
  ag_realized :: bn
  ag_unrealized :: bn
  ag_total :: bn
  ag_unrealizedCost :: bn
  ag_realizedCost :: bn
  ag_totalCost :: bn
  ag_realizedPercent :: bn
  ag_unrealizedPercent :: bn
  ag_totalPercent :: bn
  ag_unrealizedRevenue :: bn
  ag_unrealizedRevenue24hAgo :: bn
  ag_unrealizedRevenue24hChangePercent :: bn
  ag_frozenFunds :: bn

record MarketTradingPosition =
  mt_timestamp :: rat
  mt_marketId :: address
  mt_aggregate :: AggregatedTradingPosition

record GetUserTradingPositionsResponse =
  up_tradingPositions :: "TradingPosition list"
  up_tradingPositionsPerMarket :: "(address \<times> MarketTradingPosition) list"
  up_tradingPositionsTotal :: "AggregatedTradingPosition option"
  up_frozenFundsTotal :: "bn option"

record RawPosition =
  rp_marketId :: address
  rp_outcome :: int
  rp_balance :: bn
  rp_maxPrice :: bn
  rp_minPrice :: bn
  rp_numTicks :: bn
  rp_seen :: bool

text \<open>An identifier that is present and not the empty string.\<close>

definition truthyId :: "address option \<Rightarrow> address option" where
  "truthyId a = (if a = Some '''' then None else a)"

section \<open>Queries\<close>

definition queryUniverse :: "address \<Rightarrow> address action" where
  "queryUniverse marketId =
     bindA (first markets (\<lambda>m. mk_marketId m = marketId)) (\<lambda>market.
     bindA (orThrow (Thrown ''you must provide a valid marketId'') market) (\<lambda>m. return (mk_universe m)))"

definition queryRawPositions :: "address \<Rightarrow> address \<Rightarrow> address option \<Rightarrow> RawPosition list action" where
  "queryRawPositions account universeId marketId = gets (\<lambda>w.
     [\<lparr>rp_marketId = mk_marketId m, rp_outcome = the (tk_outcome t), rp_balance = bl_balance b,
       rp_maxPrice = mk_maxPrice m, rp_minPrice = mk_minPrice m, rp_numTicks = mk_numTicks m,
       rp_seen = False\<rparr>.
      b \<leftarrow> t_balances (tables w), t \<leftarrow> t_tokens (tables w), m \<leftarrow> t_markets (tables w),
      tk_contractAddress t = bl_token b \<and> tk_marketId t = Some (mk_marketId m) \<and>
      tk_outcome t \<noteq> None \<and> bl_owner b = account \<and> mk_universe m = universeId \<and>
      (case truthyId marketId of Some mid \<Rightarrow> mk_marketId m = mid | None \<Rightarrow> True)])"

text \<open>
  The left join gives \<open>null\<close> for a market without state, and \<open>NOT reportingState = ?\<close> does not hold of
  \<open>null\<close>.
\<close>

definition escrowedBonds :: "bn_division_op \<Rightarrow> address \<Rightarrow> db \<Rightarrow> bn" where
  "escrowedBonds dv marketCreator d = foldl (\<lambda>total m.
       total + fixedPointToDecimal dv (mk_validityBondSize m) BN_WEI_PER_ETHER) 0
     [m. m \<leftarrow> t_markets d, s \<leftarrow> t_market_state d,
        mk_marketStateId m = Some (ms_marketStateId s) \<and> ms_reportingState s \<noteq> FINALIZED \<and>
        mk_marketCreator m = marketCreator]"

definition getEthEscrowedInValidityBonds :: "bn_division_op \<Rightarrow> address \<Rightarrow> bn action" where
  "getEthEscrowedInValidityBonds dv marketCreator =
     gets (\<lambda>w. escrowedBonds dv marketCreator (tables w))"

section \<open>Positions\<close>

type_synonym raw_mapping = "((address \<times> int) \<times> RawPosition) list"

definition displayBalance :: "env \<Rightarrow> RawPosition \<Rightarrow> RawPosition" where
  "displayBalance env r = r\<lparr>rp_balance := convertOnChainAmountToDisplayAmount env (rp_balance r)
     (numTicksToTickSize (en_dv env) (rp_numTicks r) (rp_minPrice r) (rp_maxPrice r))\<rparr>"

definition rawPositionsMapping :: "env \<Rightarrow> RawPosition list \<Rightarrow> raw_mapping" where
  "rawPositionsMapping env rawPositions = foldl (\<lambda>result r.
     dictSet (rp_marketId r, rp_outcome r) (displayBalance env r) result) [] rawPositions"

text \<open>
  One result: it lowers the largest short of its market, and marks the balance of its outcome as seen.
\<close>

definition positionOf ::
  "ProfitLossResult \<Rightarrow> raw_mapping \<times> (address \<times> bn) list \<Rightarrow>
   TradingPosition \<times> raw_mapping \<times> (address \<times> bn) list" where
  "positionOf plr state =
     (let (mapping, shorts) = state;
          key = (rs_marketId plr, rs_outcome plr);
          before = (case map_of shorts (rs_marketId plr) of Some s \<Rightarrow> s | None \<Rightarrow> 0);
          shorts' = dictSet (rs_marketId plr) (min before (rs_netPosition plr)) shorts
      in case map_of mapping key of
           Some raw \<Rightarrow> (ProfitLossResult.extend plr \<lparr>tq_position = rp_balance raw\<rparr>,
                        dictSet key (raw\<lparr>rp_seen := True\<rparr>) mapping, shorts')
         | None \<Rightarrow> (ProfitLossResult.extend plr \<lparr>tq_position = 0\<rparr>, mapping, shorts'))"

definition lastResults :: "(address \<times> ProfitLossResult list list) list \<Rightarrow> ProfitLossResult list" where
  "lastResults profitsPerMarket =
     concat (map (\<lambda>(_, outcomePls). if outcomePls = [] then [] else last outcomePls) profitsPerMarket)"

definition rawPositionOnlyToShow :: "raw_mapping \<Rightarrow> (address \<times> bn) list \<Rightarrow> RawPosition list" where
  "rawPositionOnlyToShow mapping shorts = filter (\<lambda>r. \<not> rp_seen r \<and>
     (case map_of shorts (rp_marketId r) of Some largestShort \<Rightarrow> \<bar>largestShort\<bar> < rp_balance r
      | None \<Rightarrow> False)) (dictValues mapping)"

definition noPLPosition :: "RawPosition \<Rightarrow> TradingPosition" where
  "noPLPosition r = ProfitLossResult.extend
     ((emptyResult 0)\<lparr>rs_marketId := rp_marketId r, rs_outcome := rp_outcome r\<rparr>)
     \<lparr>tq_position = rp_balance r\<rparr>"

definition tradingPositions ::
  "env \<Rightarrow> RawPosition list \<Rightarrow> (address \<times> ProfitLossResult list list) list \<Rightarrow> TradingPosition list" where
  "tradingPositions env rawPositions profitsPerMarket =
     (let (positions, mapping, shorts) =
            mapS positionOf (lastResults profitsPerMarket) (rawPositionsMapping env rawPositions, [])
      in positions @ map noPLPosition (rawPositionOnlyToShow mapping shorts))"

section \<open>Aggregates\<close>

definition sumOf :: "(TradingPosition \<Rightarrow> bn) \<Rightarrow> TradingPosition list \<Rightarrow> bn" where
  "sumOf f tps = foldl (\<lambda>s tp. s + f tp) 0 tps"

definition getAggregatedTradingPosition ::
  "bn_division_op \<Rightarrow> TradingPosition list \<Rightarrow> AggregatedTradingPosition result" where
  "getAggregatedTradingPosition dv tps =
     bindE (getRealizedProfitPercent dv
              (no_params\<lparr>realizedCost := Tk (sumOf rs_realizedCost tps),
                         realizedProfit := Tk (sumOf rs_realized tps)\<rparr>)) (\<lambda>realizedPct.
     bindE (getUnrealizedProfitPercent dv
              (no_params\<lparr>unrealizedCost := Some (Tk (sumOf rs_unrealizedCost tps)),
                         unrealizedProfit := Some (Tk (sumOf rs_unrealized tps))\<rparr>)) (\<lambda>unrealizedPct.
     bindE (getTotalProfitPercent dv
              (no_params\<lparr>totalCost := Some (Tk (sumOf rs_totalCost tps)),
                         totalProfit := Some (Tk (sumOf rs_total tps))\<rparr>)) (\<lambda>totalPct.
     bindE (safePercent dv (Some (Tk (sumOf rs_unrealizedRevenue tps)))
              (Some (Tk (sumOf rs_unrealizedRevenue24hAgo tps))) True) (\<lambda>change.
     Inr \<lparr>ag_realized = sumOf rs_realized tps, ag_unrealized = sumOf rs_unrealized tps,
          ag_total = sumOf rs_total tps, ag_unrealizedCost = sumOf rs_unrealizedCost tps,
          ag_realizedCost = sumOf rs_realizedCost tps, ag_totalCost = sumOf rs_totalCost tps,
          ag_realizedPercent = magnitude realizedPct, ag_unrealizedPercent = magnitude unrealizedPct,
          ag_totalPercent = magnitude totalPct,
          ag_unrealizedRevenue = sumOf rs_unrealizedRevenue tps,
          ag_unrealizedRevenue24hAgo = sumOf rs_unrealizedRevenue24hAgo tps,
          ag_unrealizedRevenue24hChangePercent = magnitude change,
          ag_frozenFunds = sumOf rs_frozenFunds tps\<rparr>))))"

definition aggregateMarketTradingPositions ::
  "bn_division_op \<Rightarrow> TradingPosition list \<Rightarrow> (address \<times> MarketTradingPosition) list result" where
  "aggregateMarketTradingPositions dv tps =
     mapValuesE (\<lambda>tpsForOneMarketId.
       bindE (getAggregatedTradingPosition dv tpsForOneMarketId) (\<lambda>a.
       Inr \<lparr>mt_timestamp = tm_timestamp (hd tpsForOneMarketId),
            mt_marketId = rs_marketId (hd tpsForOneMarketId), mt_aggregate = a\<rparr>))
     (groupBy rs_marketId tps)"

section \<open>The getter\<close>

definition positionsResponse ::
  "bn_division_op \<Rightarrow> UserTradingPositionsParams \<Rightarrow> bn \<Rightarrow> TradingPosition list \<Rightarrow>
   GetUserTradingPositionsResponse result" where
  "positionsResponse dv params bonds positions =
     (let shown = (case uq_outcome params of Some outcome \<Rightarrow> filter (\<lambda>p. rs_outcome p = outcome) positions
                   | None \<Rightarrow> positions);
          perAccount = truthyId (uq_marketId params) = None in
      bindE (if perAccount then bindE (getAggregatedTradingPosition dv shown) (\<lambda>a. Inr (Some a))
             else Inr None) (\<lambda>total.
      bindE (aggregateMarketTradingPositions dv shown) (\<lambda>perMarket.
      Inr \<lparr>up_tradingPositions = shown, up_tradingPositionsPerMarket = perMarket,
           up_tradingPositionsTotal = total,
           up_frozenFundsTotal = (if perAccount then Some (sumOf rs_frozenFunds shown + bonds) else None)\<rparr>)))"

definition positionsRequest ::
  "UserTradingPositionsParams \<Rightarrow> address \<Rightarrow> address \<Rightarrow> rat \<Rightarrow> GetProfitLossParams" where
  "positionsRequest params universeId account endTime =
     \<lparr>rq_universe = universeId, rq_account = account, rq_startTime = Some 0, rq_endTime = Some endTime,
      rq_periodInterval = Some endTime, rq_marketId = truthyId (uq_marketId params)\<rparr>"

definition getUserTradingPositions ::
  "env \<Rightarrow> rat \<Rightarrow> UserTradingPositionsParams \<Rightarrow> GetUserTradingPositionsResponse action" where
  "getUserTradingPositions env dateNow params =
     (if uq_universe params = None \<and> uq_marketId params = None
      then throw (Thrown ''Must provide reference to universe'')
      else bindA (orThrow (Thrown ''Missing required parameter: account'') (uq_account params)) (\<lambda>account.
      let endTime = orElse (uq_endTime params) dateNow in
      bindA (case truthyId (uq_universe params) of
               Some universe \<Rightarrow> return universe
             | None \<Rightarrow> bindA (orThrow (JsTypeError ''Undefined binding'') (uq_marketId params)) queryUniverse)
        (\<lambda>universeId.
      bindA (getAllOutcomesProfitLoss (en_dv env) (positionsRequest params universeId account endTime)) (\<lambda>all.
      bindA (queryRawPositions account universeId (uq_marketId params)) (\<lambda>rawPositions.
      bindA (getEthEscrowedInValidityBonds (en_dv env) account) (\<lambda>bonds.
      liftR (positionsResponse (en_dv env) params bonds
               (tradingPositions env rawPositions (ao_profit all)))))))))"

section \<open>The totals add up\<close>

lemma foldl_plus: "foldl (\<lambda>s x. s + f x) (a :: 'n :: comm_monoid_add) xs = a + sum_list (map f xs)"
  by (induction xs arbitrary: a) (simp_all add: add.assoc)

lemma sumOf_sum_list: "sumOf f tps = sum_list (map f tps)"
  by (simp add: sumOf_def foldl_plus)

text \<open>The summed fields: of the aggregate, and of the positions it aggregates.\<close>

definition aggregatedFields :: "((AggregatedTradingPosition \<Rightarrow> bn) \<times> (TradingPosition \<Rightarrow> bn)) set" where
  "aggregatedFields = {(ag_realized, rs_realized), (ag_unrealized, rs_unrealized), (ag_total, rs_total),
     (ag_unrealizedCost, rs_unrealizedCost), (ag_realizedCost, rs_realizedCost),
     (ag_totalCost, rs_totalCost), (ag_unrealizedRevenue, rs_unrealizedRevenue),
     (ag_unrealizedRevenue24hAgo, rs_unrealizedRevenue24hAgo), (ag_frozenFunds, rs_frozenFunds)}"

definition aggregates :: "bn_division_op \<Rightarrow> TradingPosition list \<Rightarrow> AggregatedTradingPosition \<Rightarrow> bool" where
  "aggregates dv tps a \<longleftrightarrow> (\<forall>(g, f) \<in> aggregatedFields. g a = (\<Sum>p \<leftarrow> tps. f p)) \<and>
     ag_realizedPercent a = percentOf dv (ag_realized a) (ag_realizedCost a) \<and>
     ag_unrealizedPercent a = percentOf dv (ag_unrealized a) (ag_unrealizedCost a) \<and>
     ag_totalPercent a = percentOf dv (ag_total a) (ag_totalCost a)"

lemma aggregated_ok: "\<exists>a. getAggregatedTradingPosition dv tps = Inr a \<and> aggregates dv tps a"
  by (simp add: getAggregatedTradingPosition_def given_percents safePercent_same aggregates_def
      aggregatedFields_def sumOf_sum_list)

lemma perMarket_ok:
  "\<exists>ms. aggregateMarketTradingPositions dv tps = Inr ms \<and>
     list_all2 (\<lambda>(m, ps) (m', mt). m' = m \<and> mt_marketId mt = m \<and> aggregates dv ps (mt_aggregate mt))
       (groupBy rs_marketId tps) ms"
proof -
  let ?f = "\<lambda>tps. bindE (getAggregatedTradingPosition dv tps) (\<lambda>a.
       Inr \<lparr>mt_timestamp = tm_timestamp (hd tps), mt_marketId = rs_marketId (hd tps), mt_aggregate = a\<rparr>)"
  let ?R = "\<lambda>(m, ps) (m', mt). m' = m \<and> mt_marketId mt = m \<and> aggregates dv ps (mt_aggregate mt)"
  have "\<exists>y. (\<lambda>(k, v). bindE (?f v) (\<lambda>x. Inr (k, x))) x = Inr y \<and> ?R x y"
    if "x \<in> set (groupBy rs_marketId tps)" for x
  proof (cases x)
    case (Pair m ps)
    obtain a where a: "getAggregatedTradingPosition dv ps = Inr a" "aggregates dv ps a"
      using aggregated_ok by blast
    have "ps \<noteq> []" and ps: "ps = filter (\<lambda>p. rs_marketId p = m) tps"
      using that by (auto simp: Pair groupBy_mem filter_empty_conv)
    then have "rs_marketId (hd ps) = m" using hd_in_set [of ps] by auto
    then show ?thesis using a by (simp add: Pair)
  qed
  from mapE_all2 [of "groupBy rs_marketId tps" "\<lambda>(k, v). bindE (?f v) (\<lambda>x. Inr (k, x))", OF this]
  show ?thesis unfolding aggregateMarketTradingPositions_def mapValuesE_def by simp
qed

lemma sum_perMarket:
  assumes "list_all2 (\<lambda>(m, ps) (m', mt). m' = m \<and> mt_marketId mt = m \<and> aggregates dv ps (mt_aggregate mt)) d ms"
    "(g, f) \<in> aggregatedFields"
  shows "(\<Sum>(m, mt) \<leftarrow> ms. g (mt_aggregate mt)) = (\<Sum>(m, ps) \<leftarrow> d. \<Sum>p \<leftarrow> ps. f p)"
  using assms(1)
proof (induction rule: list_all2_induct)
  case (Cons x xs y ys)
  then show ?case using assms(2) by (auto simp: aggregates_def)
qed simp

definition addsUp :: "bn_division_op \<Rightarrow> bn \<Rightarrow> GetUserTradingPositionsResponse \<Rightarrow> bool" where
  "addsUp dv bonds resp \<longleftrightarrow>
     (let ps = up_tradingPositions resp; ms = up_tradingPositionsPerMarket resp in
      distinct (map fst ms) \<and> fst ` set ms = rs_marketId ` set ps \<and>
      (\<forall>(m, mt) \<in> set ms. mt_marketId mt = m \<and>
         aggregates dv (filter (\<lambda>p. rs_marketId p = m) ps) (mt_aggregate mt)) \<and>
      (\<forall>total. up_tradingPositionsTotal resp = Some total \<longrightarrow> aggregates dv ps total \<and>
         (\<forall>(g, f) \<in> aggregatedFields. g total = (\<Sum>(m, mt) \<leftarrow> ms. g (mt_aggregate mt)))) \<and>
      (\<forall>frozen. up_frozenFundsTotal resp = Some frozen \<longrightarrow>
         frozen = (\<Sum>p \<leftarrow> ps. rs_frozenFunds p) + bonds))"

lemma response_adds_up:
  "\<exists>resp. positionsResponse dv params bonds positions = Inr resp \<and> addsUp dv bonds resp \<and>
     (up_tradingPositionsTotal resp = None \<longleftrightarrow> truthyId (uq_marketId params) \<noteq> None) \<and>
     (up_frozenFundsTotal resp = None \<longleftrightarrow> truthyId (uq_marketId params) \<noteq> None)"
proof -
  define shown where "shown = (case uq_outcome params of Some outcome \<Rightarrow> filter (\<lambda>p. rs_outcome p = outcome) positions
    | None \<Rightarrow> positions)"
  obtain a where a: "getAggregatedTradingPosition dv shown = Inr a" "aggregates dv shown a"
    using aggregated_ok by blast
  obtain ms where ms: "aggregateMarketTradingPositions dv shown = Inr ms"
    and rel: "list_all2 (\<lambda>(m, ps) (m', mt). m' = m \<and> mt_marketId mt = m \<and> aggregates dv ps (mt_aggregate mt))
       (groupBy rs_marketId shown) ms" using perMarket_ok by blast
  have keys: "map fst ms = map fst (groupBy rs_marketId shown)"
    using rel by (induction rule: list_all2_induct) auto
  then have "distinct (map fst ms)" by (simp add: groupBy_distinct)
  moreover have "fst ` set ms = rs_marketId ` set shown"
    using arg_cong [OF keys, of set] by (simp add: groupBy_keys)
  moreover have "mt_marketId mt = m \<and> aggregates dv (filter (\<lambda>p. rs_marketId p = m) shown) (mt_aggregate mt)"
    if "(m, mt) \<in> set ms" for m mt
    using list_all2_mem [OF rel that] by (auto simp: groupBy_mem)
  moreover have "g a = (\<Sum>(m, mt) \<leftarrow> ms. g (mt_aggregate mt))" if "(g, f) \<in> aggregatedFields" for g f
    using a(2) that sum_perMarket [OF rel that] sum_groupBy [of f rs_marketId shown]
    by (auto simp: aggregates_def)
  ultimately have "addsUp dv bonds \<lparr>up_tradingPositions = shown, up_tradingPositionsPerMarket = ms,
      up_tradingPositionsTotal = (if truthyId (uq_marketId params) = None then Some a else None),
      up_frozenFundsTotal = (if truthyId (uq_marketId params) = None
        then Some (sumOf rs_frozenFunds shown + bonds) else None)\<rparr>"
    using a(2) by (auto simp: addsUp_def sumOf_sum_list)
  then show ?thesis
    by (cases "truthyId (uq_marketId params) = None")
      (simp_all add: positionsResponse_def Let_def shown_def [symmetric] a(1) ms)
qed

text \<open>C26. What the account is told about its positions is consistent: there is one line per market that has
  a position, each line sums the positions of its market, the total sums the lines, and the frozen
  funds are those of the positions and the bonds of the markets the account created that are not finalized.
  The totals are left out exactly when the request is for one market.\<close>

theorem trading_positions_add_up:
  assumes "getUserTradingPositions env dateNow params w = (Inr resp, w')"
  shows "\<exists>account. uq_account params = Some account \<and> w' = w \<and>
    addsUp (en_dv env) (escrowedBonds (en_dv env) account (tables w)) resp \<and>
    (up_tradingPositionsTotal resp = None \<longleftrightarrow> truthyId (uq_marketId params) \<noteq> None) \<and>
    (up_frozenFundsTotal resp = None \<longleftrightarrow> truthyId (uq_marketId params) \<noteq> None)"
proof -
  obtain account where account: "uq_account params = Some account"
    using assms by (cases "uq_account params") (auto simp: getUserTradingPositions_def act_run split: if_splits)
  then obtain uni all w1 positions where
    run: "getAllOutcomesProfitLoss (en_dv env) (positionsRequest params uni account
        (orElse (uq_endTime params) dateNow)) w = (Inr all, w1)"
    and resp: "positionsResponse (en_dv env) params (escrowedBonds (en_dv env) account (tables w1)) positions
        = Inr resp" "w' = w1"
    using assms
    by (auto simp: getUserTradingPositions_def act_run Let_def queryRawPositions_def queryUniverse_def table_run
        getEthEscrowedInValidityBonds_def liftR_eq_Inr split: if_splits option.splits)
  then have "w1 = w"
    by (auto simp: getAllOutcomesProfitLoss_def act_run liftR_eq_Inr dest: getProfitLossData_data)
  then show ?thesis
    using response_adds_up [of "en_dv env" params "escrowedBonds (en_dv env) account (tables w)" positions]
      resp account by auto
qed

section \<open>Which positions are shown\<close>

definition keyOf :: "ProfitLossResult \<Rightarrow> address \<times> int" where
  "keyOf plr = (rs_marketId plr, rs_outcome plr)"

definition rawAt :: "env \<Rightarrow> RawPosition list \<Rightarrow> address \<times> int \<Rightarrow> RawPosition option" where
  "rawAt env raws key =
     map_option (displayBalance env) (find (\<lambda>r. (rp_marketId r, rp_outcome r) = key) (rev raws))"

lemma mapping_rawAt: "map_of (rawPositionsMapping env raws) key = rawAt env raws key"
  by (induction raws rule: rev_induct)
    (auto simp: rawPositionsMapping_def rawAt_def map_of_dictSet)

lemma mapping_distinct: "distinct (map fst (rawPositionsMapping env raws))"
  by (induction raws rule: rev_induct) (simp_all add: rawPositionsMapping_def distinct_dictSet)

definition withBalance :: "raw_mapping \<Rightarrow> ProfitLossResult \<Rightarrow> TradingPosition" where
  "withBalance mapping plr = ProfitLossResult.extend plr
     \<lparr>tq_position = (case map_of mapping (keyOf plr) of Some raw \<Rightarrow> rp_balance raw | None \<Rightarrow> 0)\<rparr>"

definition shortsOf :: "address \<Rightarrow> ProfitLossResult list \<Rightarrow> bn list" where
  "shortsOf m results = map rs_netPosition (filter (\<lambda>p. rs_marketId p = m) results)"

lemma positionOf_step:
  assumes "positionOf plr (mapping, shorts) = (tp, mapping1, shorts1)"
  shows "tp = withBalance mapping plr"
    and "map_of mapping1 key = map_option (\<lambda>raw. raw\<lparr>rp_seen := rp_seen raw \<or> key = keyOf plr\<rparr>)
       (map_of mapping key)"
    and "distinct (map fst mapping) \<Longrightarrow> distinct (map fst mapping1)"
    and "map_of shorts1 m = (if rs_marketId plr = m then Some (min (case map_of shorts m of
       Some s \<Rightarrow> s | None \<Rightarrow> 0) (rs_netPosition plr)) else map_of shorts m)"
proof -
  note defs = positionOf_def Let_def withBalance_def keyOf_def
  show "tp = withBalance mapping plr" using assms by (auto simp: defs split: option.splits)
  show "distinct (map fst mapping) \<Longrightarrow> distinct (map fst mapping1)"
    using assms by (auto simp: defs distinct_dictSet split: option.splits)
  show "map_of mapping1 key = map_option (\<lambda>raw. raw\<lparr>rp_seen := rp_seen raw \<or> key = keyOf plr\<rparr>)
       (map_of mapping key)"
    using assms
    by (cases "map_of mapping (keyOf plr)"; cases "map_of mapping key"; cases "key = keyOf plr")
      (auto simp: defs map_of_dictSet simp del: map_of_eq_Some_iff)
  show "map_of shorts1 m = (if rs_marketId plr = m then Some (min (case map_of shorts m of
       Some s \<Rightarrow> s | None \<Rightarrow> 0) (rs_netPosition plr)) else map_of shorts m)"
    using assms by (cases "map_of mapping (keyOf plr)") (auto simp: defs map_of_dictSet)
qed

lemma positions_run:
  assumes "mapS positionOf results (mapping, shorts) = (positions, mapping', shorts')"
    "distinct (map fst mapping)"
  shows "positions = map (withBalance mapping) results \<and> distinct (map fst mapping') \<and>
    (\<forall>key. map_of mapping' key = map_option (\<lambda>raw. raw\<lparr>rp_seen := rp_seen raw \<or> key \<in> keyOf ` set results\<rparr>)
       (map_of mapping key)) \<and>
    (\<forall>m. map_of shorts' m = (if shortsOf m results = [] then map_of shorts m
       else Some (foldl min (case map_of shorts m of Some s \<Rightarrow> s | None \<Rightarrow> 0) (shortsOf m results))))"
  using assms
proof (induction results arbitrary: mapping shorts positions)
  case Nil
  then show ?case by (simp add: shortsOf_def option.map_ident)
next
  case (Cons plr results)
  obtain tp mapping1 shorts1 where one: "positionOf plr (mapping, shorts) = (tp, mapping1, shorts1)"
    by (metis prod.collapse)
  then obtain ps where rest: "mapS positionOf results (mapping1, shorts1) = (ps, mapping', shorts')"
    and positions: "positions = tp # ps"
    using Cons.prems(1) by (auto simp: Let_def split: prod.splits)
  note tp = positionOf_step(1) [OF one] and mapping1 = positionOf_step(2) [OF one]
    and dist = positionOf_step(3) [OF one Cons.prems(2)] and shorts1 = positionOf_step(4) [OF one]
  note ih = Cons.IH [OF rest dist]
  have seen: "map_of mapping' key = map_option (\<lambda>raw. raw\<lparr>rp_seen := rp_seen raw \<or> key \<in> keyOf ` set results\<rparr>)
       (map_of mapping1 key)" for key using ih by blast
  have "map (withBalance mapping1) results = map (withBalance mapping) results"
    by (auto simp: withBalance_def mapping1 split: option.split)
  moreover have "map_of mapping' key = map_option (\<lambda>raw. raw\<lparr>rp_seen := rp_seen raw \<or>
      key \<in> keyOf ` set (plr # results)\<rparr>) (map_of mapping key)" for key
    by (cases "map_of mapping key") (simp_all add: seen mapping1)
  moreover have "map_of shorts' m = (if shortsOf m (plr # results) = [] then map_of shorts m
       else Some (foldl min (case map_of shorts m of Some s \<Rightarrow> s | None \<Rightarrow> 0) (shortsOf m (plr # results))))" for m
    using ih by (auto simp: shorts1 shortsOf_def)
  ultimately show ?case using ih tp positions by simp
qed

lemma foldl_min_less:
  "(a :: bn) \<le> 0 \<Longrightarrow> \<bar>foldl min a xs\<bar> < b \<longleftrightarrow> - a < b \<and> (\<forall>x \<in> set xs. - x < b)"
proof (induction xs arbitrary: a)
  case (Cons x xs)
  have "min a x \<le> 0" using Cons.prems by simp
  from Cons.IH [OF this] show ?case by (auto simp: min_def split: if_splits)
qed simp

text \<open>Every result of the last bucket is shown, with the balance of its outcome's share token. Besides them
  exactly those balances are shown whose outcome has no result although its market has one, and that exceed
  the largest short position in the market.\<close>

theorem trading_positions_shown:
  "\<exists>extra. tradingPositions env raws profits =
     map (withBalance (rawPositionsMapping env raws)) (lastResults profits) @ map noPLPosition extra \<and>
   (\<forall>r. r \<in> set extra \<longleftrightarrow> (\<exists>key. rawAt env raws key = Some r \<and> key \<notin> keyOf ` set (lastResults profits)) \<and>
      \<not> rp_seen r \<and> (\<exists>p \<in> set (lastResults profits). rs_marketId p = rp_marketId r) \<and> 0 < rp_balance r \<and>
      (\<forall>p \<in> set (lastResults profits). rs_marketId p = rp_marketId r \<longrightarrow> - rs_netPosition p < rp_balance r))"
proof -
  let ?rs = "lastResults profits" and ?map = "rawPositionsMapping env raws"
  obtain positions mapping shorts where
    run: "mapS positionOf ?rs (?map, []) = (positions, mapping, shorts)"
    by (cases "mapS positionOf ?rs (?map, [])") auto
  note run' = positions_run [OF run mapping_distinct]
  have seen: "map_of mapping key = map_option (\<lambda>raw. raw\<lparr>rp_seen := rp_seen raw \<or> key \<in> keyOf ` set ?rs\<rparr>)
       (rawAt env raws key)" for key using run' by (cases key) (simp add: mapping_rawAt)
  have d: "distinct (map fst mapping)"
    and shorts: "map_of shorts m = (if shortsOf m ?rs = [] then None else Some (foldl min 0 (shortsOf m ?rs)))" for m
    using run' by auto
  have "r \<in> set (rawPositionOnlyToShow mapping shorts) \<longleftrightarrow>
      (\<exists>key. rawAt env raws key = Some r \<and> key \<notin> keyOf ` set ?rs) \<and> \<not> rp_seen r \<and>
      (\<exists>p \<in> set ?rs. rs_marketId p = rp_marketId r) \<and> 0 < rp_balance r \<and>
      (\<forall>p \<in> set ?rs. rs_marketId p = rp_marketId r \<longrightarrow> - rs_netPosition p < rp_balance r)" for r
  proof -
    have A: "r \<in> set (dictValues mapping) \<longleftrightarrow> (\<exists>key. map_of mapping key = Some r)"
      unfolding dictValues_def map_of_eq_Some_iff [OF d] by force
    have B: "map_of mapping key = Some r \<and> \<not> rp_seen r \<longleftrightarrow>
        rawAt env raws key = Some r \<and> key \<notin> keyOf ` set ?rs \<and> \<not> rp_seen r" for key
      by (cases "rawAt env raws key") (auto simp: seen)
    have C: "(case map_of shorts (rp_marketId r) of Some s \<Rightarrow> \<bar>s\<bar> < rp_balance r | None \<Rightarrow> False) \<longleftrightarrow>
        (\<exists>p \<in> set ?rs. rs_marketId p = rp_marketId r) \<and> 0 < rp_balance r \<and>
        (\<forall>p \<in> set ?rs. rs_marketId p = rp_marketId r \<longrightarrow> - rs_netPosition p < rp_balance r)"
      unfolding shorts by (cases "shortsOf (rp_marketId r) ?rs = []")
        (auto simp: foldl_min_less shortsOf_def filter_empty_conv)
    have "r \<in> set (rawPositionOnlyToShow mapping shorts) \<longleftrightarrow>
        (\<exists>key. map_of mapping key = Some r \<and> \<not> rp_seen r) \<and>
        (case map_of shorts (rp_marketId r) of Some s \<Rightarrow> \<bar>s\<bar> < rp_balance r | None \<Rightarrow> False)"
      unfolding rawPositionOnlyToShow_def using A by simp
    then show ?thesis unfolding B C by blast
  qed
  then show ?thesis using run run' by (auto simp: tradingPositions_def)
qed

section \<open>A request\<close>

definition sample_positions_request :: UserTradingPositionsParams where
  "sample_positions_request = \<lparr>uq_universe = Some ''u'', uq_marketId = None, uq_account = Some ''alice'',
     uq_outcome = None, uq_endTime = Some 200\<rparr>"

definition sample_pl_request :: GetProfitLossParams where
  "sample_pl_request = positionsRequest sample_positions_request ''u'' ''alice'' 200"

lemma sample_pl_sel [simp]:
  "rq_universe sample_pl_request = ''u''" "rq_account sample_pl_request = ''alice''"
  "rq_startTime sample_pl_request = Some 0" "rq_endTime sample_pl_request = Some 200"
  "rq_periodInterval sample_pl_request = Some 200" "rq_marketId sample_pl_request = None"
  by (simp_all add: sample_pl_request_def positionsRequest_def sample_positions_request_def truthyId_def)

lemma sample_position_queries:
  "queryProfitLossTimeseries 200 sample_pl_request trading_world =
     (Inr [plTimeseries held_row sample_market], trading_world)"
  "queryOutcomeValueTimeseries 200 sample_pl_request trading_world =
     (Inr [ovTimeseries (traded_value 100 (2 / 5)), ovTimeseries (traded_value 150 (1 / 2))], trading_world)"
  "getLastTradePriceMinusMinPrice24hAgoByOutcomeByMarketId 200 sample_pl_request trading_world =
     (Inr [], trading_world)"
  "getOldestTradePriceMinusMinPriceUserPaidForOpenPositionInLast24hByOutcomeByMarketId 200
     sample_pl_request trading_world = (Inr [], trading_world)"
  by (simp_all add: queryProfitLossTimeseries_def queryOutcomeValueTimeseries_def gets_app
      getLastTradePriceMinusMinPrice24hAgoByOutcomeByMarketId_def
      getOldestTradePriceMinusMinPriceUserPaidForOpenPositionInLast24hByOutcomeByMarketId_def
      openingTrades_def bindA_gets orElse_def notBefore_def held_row_def traded_value_def day_def sample_simps
      act_simps mapValues_def mapValuesE_def map_filter_simps ovTimeseries_def plTimeseries_def)

lemma sample_two_buckets: "bucketRangeByInterval 100 150 (Some 200) = Inr [100, 150]"
  by (simp add: bucketRangeByInterval_def bucketInterval_def bucketsFrom.simps)

lemma sample_positions_data:
  "getProfitLossData sample_pl_request trading_world =
     (Inr (sample_data\<lparr>pd_buckets := [100, 150]\<rparr>), trading_world)"
  by (simp add: getProfitLossData_def bindA_gets sample_position_queries act_simps Let_def sample_data_def
      sample_two_buckets sample_sel orElse_def)

theorem trading_positions_add_up_witness:
  "\<exists>resp. getUserTradingPositions sample_env 300 sample_positions_request trading_world =
       (Inr resp, trading_world) \<and>
     up_tradingPositionsTotal resp \<noteq> None \<and>
     addsUp bn_div (escrowedBonds bn_div ''alice'' (tables trading_world)) resp"
proof -
  have rows: "pd_plRows (sample_data\<lparr>pd_buckets := [100, 150]\<rparr>) \<noteq> []"
    "rowsOk (pd_plRows (sample_data\<lparr>pd_buckets := [100, 150]\<rparr>))"
    by (simp_all add: sample_data_def Let_def rowsOk_def plTimeseries_def held_row_def sample_simps)
  obtain all where all: "getAllOutcomesProfitLoss bn_div sample_pl_request trading_world = (Inr all, trading_world)"
    using profit_loss_returns [OF sample_positions_data rows] by blast
  have env: "en_dv sample_env = bn_div" by (simp add: sample_env_def)
  have req: "positionsRequest sample_positions_request ''u'' ''alice'' 200 = sample_pl_request"
    "uq_account sample_positions_request = Some ''alice''"
    "truthyId (Some ''u'') = Some ''u''"
    "uq_universe sample_positions_request = Some ''u''" "uq_endTime sample_positions_request = Some 200"
    "truthyId (uq_marketId sample_positions_request) = None"
    by (simp_all add: sample_pl_request_def sample_positions_request_def truthyId_def)
  obtain raws where raws: "queryRawPositions ''alice'' ''u'' (uq_marketId sample_positions_request) trading_world =
      (Inr raws, trading_world)"
    by (simp add: queryRawPositions_def gets_app)
  obtain resp where resp: "positionsResponse bn_div sample_positions_request
      (escrowedBonds bn_div ''alice'' (tables trading_world)) (tradingPositions sample_env raws (ao_profit all)) = Inr resp"
    using response_adds_up by blast
  have run: "getUserTradingPositions sample_env 300 sample_positions_request trading_world =
       (Inr resp, trading_world)"
    by (simp add: getUserTradingPositions_def req env act_simps Let_def orElse_def all raws resp
        getEthEscrowedInValidityBonds_def)
  from trading_positions_add_up [OF run] run show ?thesis by (auto simp: req env)
qed

text \<open>A balance of five shares of outcome 2, in a market where the account is short three shares of outcome 1.\<close>

definition sample_raw :: RawPosition where
  "sample_raw = \<lparr>rp_marketId = ''m'', rp_outcome = 2, rp_balance = 5, rp_maxPrice = 1, rp_minPrice = 0,
     rp_numTicks = 1, rp_seen = False\<rparr>"

theorem trading_positions_shown_witness:
  "noPLPosition sample_raw \<in> set (tradingPositions sample_env [sample_raw]
     [(''m'', [[(emptyResult 0)\<lparr>rs_marketId := ''m'', rs_outcome := 1, rs_netPosition := - 3\<rparr>]])])"
proof -
  let ?p = "(emptyResult 0)\<lparr>rs_marketId := ''m'', rs_outcome := 1, rs_netPosition := - 3\<rparr>"
  have "bn_div 1 1 = 1" by (rule bn.dv_by_one) (simp add: decimals_def)
  then have "displayBalance sample_env sample_raw = sample_raw"
    by (simp add: displayBalance_def sample_env_def sample_raw_def numTicksToTickSize_def)
  then have "rawAt sample_env [sample_raw] (''m'', 2) = Some sample_raw"
    by (simp add: rawAt_def sample_raw_def)
  moreover have "keyOf ?p = (''m'', 1)" "lastResults [(''m'', [[?p]])] = [?p]"
    by (simp_all add: keyOf_def lastResults_def)
  moreover obtain extra where extra: "tradingPositions sample_env [sample_raw] [(''m'', [[?p]])] =
      map (withBalance (rawPositionsMapping sample_env [sample_raw])) (lastResults [(''m'', [[?p]])]) @
      map noPLPosition extra"
    and iff: "\<And>r. r \<in> set extra \<longleftrightarrow> (\<exists>key. rawAt sample_env [sample_raw] key = Some r \<and>
        key \<notin> keyOf ` set (lastResults [(''m'', [[?p]])])) \<and> \<not> rp_seen r \<and>
      (\<exists>p \<in> set (lastResults [(''m'', [[?p]])]). rs_marketId p = rp_marketId r) \<and> 0 < rp_balance r \<and>
      (\<forall>p \<in> set (lastResults [(''m'', [[?p]])]). rs_marketId p = rp_marketId r \<longrightarrow>
         - rs_netPosition p < rp_balance r)"
    using trading_positions_shown [of sample_env "[sample_raw]" "[(''m'', [[?p]])]"] by blast
  ultimately have "sample_raw \<in> set extra" by (auto simp: sample_raw_def intro!: exI [of _ "''m''"] exI [of _ 2])
  then show ?thesis unfolding extra by simp
qed

end
