(* ===== verification/Reporting_Fees.thy ===== *)
theory Reporting_Fees
  imports Database Lodash "HOL-Library.List_Lexorder" "HOL-Library.Char_ord"
begin

text \<open>
  \<open>src/server/getters/get-reporting-fees.ts\<close>: the fees and the stake a reporter can claim in a universe, with
  the views \<open>all_participants\<close> and \<open>balances_detail\<close> of \<open>src/migrations\<close> it reads.

  \<^item> A join is a list comprehension over the tables; a left join takes the matching row if there is one
    (tokens, supplies and balances are unique by their keys). \<open>SELECT DISTINCT\<close> and \<open>UNION\<close> keep the first
    of equal rows.
  \<^item> The columns compared with \<open>'0'\<close> are numbers here. \<open>toFixed(0, ROUND_DOWN)\<close> gives an integer; it is
    not printed. A flag column is true unless zero or null.
  \<^item> \<open>cash\<close> is the address of the cash contract, from augur.js.
\<close>

section \<open>Rows\<close>

record CrowdsourcerState =
  cw_crowdsourcerId :: address
  cw_needsFork :: bool

record InitialReporterState =
  iw_initialReporterId :: address
  iw_needsFork :: bool

record ForkedMarket =
  fk_marketId :: address
  fk_universe :: address
  fk_isFinalized :: bool
  fk_crowdsourcers :: "CrowdsourcerState list"
  fk_initialReporter :: "InitialReporterState option"

record ClaimableMarket =
  cm_marketId :: address
  cm_unclaimedRepTotal :: int

record NonforkedMarket =
  nf_marketId :: address
  nf_universe :: address
  nf_crowdsourcersAreDisavowed :: bool
  nf_isFinalized :: bool
  nf_isMigrated :: bool
  nf_crowdsourcers :: "address list"
  nf_initialReporter :: "address option"
  nf_unclaimedRepTotal :: "int option"
  nf_unclaimedEthFees :: "int option"

record FeeTotals =
  ft_unclaimedEth :: int
  ft_unclaimedRepStaked :: int
  ft_unclaimedRepEarned :: int
  ft_unclaimedForkEth :: int
  ft_unclaimedForkRepStaked :: int
  ft_lostRep :: int
  ft_unclaimedParticipationTokenEthFees :: int
  ft_participationTokenRepStaked :: int

record FeeDetails =
  fd_total :: FeeTotals
  fd_feeWindows :: "address list"
  fd_forkedMarket :: "ForkedMarket option"
  fd_nonforkedMarkets :: "NonforkedMarket list"

record ParticipantEthFeeRow =
  pf_participantAddress :: address
  pf_feeWindow :: "address option"
  pf_reporterBalance :: bn
  pf_participantSupply :: bn
  pf_forking :: int
  pf_feeTokenBalance :: bn
  pf_feeTokenSupply :: bn
  pf_cashFeeWindow :: bn
  pf_cashParticipant :: bn
  pf_participationTokenSupply :: bn

record ParticipationTokensEthFeeRow =
  pe_feeWindow :: address
  pe_participationTokens :: bn
  pe_feeTokenSupply :: bn
  pe_participationTokenSupply :: bn
  pe_cashFeeWindow :: bn

record FeeWindowCompletionStakeRow =
  fs_amountStaked :: "bn option"
  fs_winning :: "int option"
  fs_disavowed :: int
  fs_needsDisavowal :: int
  fs_completed :: "int option"
  fs_forking :: int
  fs_marketId :: address

record InitialReporterStakeRow =
  is_amountStaked :: bn
  is_winning :: "int option"
  is_forking :: int
  is_marketId :: address

record RepStakeResults =
  rr_unclaimedRepStaked :: bn
  rr_unclaimedRepEarned :: bn
  rr_lostRep :: bn
  rr_unclaimedForkRepStaked :: bn

record UnclaimedInitialReporterRow =
  ui_initialReporter :: address
  ui_disavowed :: int
  ui_marketId :: address
  ui_universe :: address
  ui_reportingState :: ReportingState
  ui_forking :: int
  ui_needsMigration :: int

record UnclaimedCrowdsourcerRow =
  uc_crowdsourcerId :: address
  uc_disavowed :: int
  uc_marketId :: address
  uc_universe :: address
  uc_reportingState :: ReportingState
  uc_forking :: int
  uc_needsMigration :: int
  uc_amountStaked :: bn

record ParticipantEthFee =
  ef_feeWindow :: "address option"
  ef_participantAddress :: address
  ef_fork :: int
  ef_ethFees :: bn

record ParticipationTokenEthFee =
  pk_feeWindow :: address
  pk_ethFees :: bn
  pk_participationTokens :: bn

text \<open>\<open>toFixed(0, BigNumber.ROUND_DOWN)\<close>, and flags.\<close>

definition toFixedDown :: "bn \<Rightarrow> int" where
  "toFixedDown x = (if x < 0 then \<lceil>x\<rceil> else \<lfloor>x\<rfloor>)"

definition flag :: "int option \<Rightarrow> bool" where
  "flag x = (case x of Some v \<Rightarrow> v \<noteq> 0 | None \<Rightarrow> False)"

section \<open>Joins and views\<close>

definition balanceOf :: "db \<Rightarrow> address option \<Rightarrow> address \<Rightarrow> bn option" where
  "balanceOf d owner token =
     map_option bl_balance (find (\<lambda>b. Some (bl_owner b) = owner \<and> bl_token b = token) (t_balances d))"

definition supplyOf :: "db \<Rightarrow> address option \<Rightarrow> bn option" where
  "supplyOf d token = map_option ts_supply (find (\<lambda>s. Some (ts_token s) = token) (t_token_supply d))"

definition orZero :: "bn option \<Rightarrow> bn" where
  "orZero x = (case x of Some v \<Rightarrow> v | None \<Rightarrow> 0)"

record balances_detail_row =
  bd_token :: "address option"
  bd_symbol :: "string option"
  bd_marketId :: "address option"
  bd_outcome :: "int option"
  bd_feeWindow :: "address option"
  bd_owner :: address
  bd_balance :: bn
  bd_supply :: "bn option"

definition balances_detail :: "db \<Rightarrow> balances_detail_row list" where
  "balances_detail d = map (\<lambda>b.
     case find (\<lambda>t. tk_contractAddress t = bl_token b) (t_tokens d) of
       Some t \<Rightarrow> \<lparr>bd_token = Some (tk_contractAddress t), bd_symbol = Some (tk_symbol t),
         bd_marketId = tk_marketId t, bd_outcome = tk_outcome t, bd_feeWindow = tk_feeWindow t,
         bd_owner = bl_owner b, bd_balance = bl_balance b,
         bd_supply = supplyOf d (Some (tk_contractAddress t))\<rparr>
     | None \<Rightarrow> \<lparr>bd_token = None, bd_symbol = None, bd_marketId = None, bd_outcome = None,
         bd_feeWindow = None, bd_owner = bl_owner b, bd_balance = bl_balance b, bd_supply = None\<rparr>)
     (t_balances d)"

record participant_row =
  pa_universe :: address
  pa_marketId :: address
  pa_feeWindow :: address
  pa_type :: string
  pa_participantAddress :: address
  pa_reporter :: address
  pa_blockNumber :: int
  pa_size :: bn
  pa_participantSupply :: bn
  pa_reporterBalance :: bn
  pa_reputationToken :: address
  pa_reputationTokenBalance :: bn
  pa_payoutId :: int
  pa_completed :: "int option"
  pa_reportingState :: ReportingState
  pa_forking :: int
  pa_disavowed :: int
  pa_needsDisavowal :: int

definition initialReportParticipants :: "db \<Rightarrow> participant_row list" where
  "initialReportParticipants d =
     [\<lparr>pa_universe = mk_universe m, pa_marketId = mk_marketId m, pa_feeWindow = mk_feeWindow m,
       pa_type = ''initial_report'', pa_participantAddress = ir_initialReporter r,
       pa_reporter = ir_reporter r, pa_blockNumber = ir_blockNumber r, pa_size = ir_amountStaked r,
       pa_participantSupply = ir_amountStaked r,
       pa_reporterBalance = (if ir_redeemed r then 0 else ir_amountStaked r),
       pa_reputationToken = bl_token b, pa_reputationTokenBalance = bl_balance b,
       pa_payoutId = ir_payoutId r, pa_completed = Some 1, pa_reportingState = ms_reportingState s,
       pa_forking = mk_forking m, pa_disavowed = ir_disavowed r,
       pa_needsDisavowal = mk_needsDisavowal m\<rparr>.
      r \<leftarrow> t_initial_reports d, m \<leftarrow> t_markets d, u \<leftarrow> t_universes d, b \<leftarrow> t_balances d,
      s \<leftarrow> t_market_state d,
      mk_marketId m = ir_marketId r \<and> mk_universe m = un_universe u \<and>
      bl_owner b = ir_initialReporter r \<and> bl_token b = un_reputationToken u \<and>
      mk_marketStateId m = Some (ms_marketStateId s)]"

definition crowdsourcerParticipants :: "db \<Rightarrow> participant_row list" where
  "crowdsourcerParticipants d =
     [\<lparr>pa_universe = mk_universe m, pa_marketId = cs_marketId c, pa_feeWindow = mk_feeWindow m,
       pa_type = ''crowdsourcer'', pa_participantAddress = cs_crowdsourcerId c,
       pa_reporter = bl_owner a, pa_blockNumber = cs_blockNumber c, pa_size = cs_size c,
       pa_participantSupply = ts_supply p, pa_reporterBalance = bl_balance a,
       pa_reputationToken = bl_token b, pa_reputationTokenBalance = bl_balance b,
       pa_payoutId = cs_payoutId c, pa_completed = cs_completed c,
       pa_reportingState = ms_reportingState s, pa_forking = mk_forking m,
       pa_disavowed = cs_disavowed c, pa_needsDisavowal = mk_needsDisavowal m\<rparr>.
      c \<leftarrow> t_crowdsourcers d, m \<leftarrow> t_markets d, u \<leftarrow> t_universes d, a \<leftarrow> t_balances d,
      b \<leftarrow> t_balances d, p \<leftarrow> t_token_supply d, s \<leftarrow> t_market_state d,
      mk_marketId m = cs_marketId c \<and> mk_universe m = un_universe u \<and>
      bl_token a = cs_crowdsourcerId c \<and> bl_owner b = cs_crowdsourcerId c \<and>
      bl_token b = un_reputationToken u \<and> ts_token p = cs_crowdsourcerId c \<and>
      mk_marketStateId m = Some (ms_marketStateId s)]"

definition all_participants :: "db \<Rightarrow> participant_row list" where
  "all_participants d = distinctRows (initialReportParticipants d @ crowdsourcerParticipants d)"

text \<open>
  \<open>reportingState IN (\<dots>) OR (disavowed AND (the window is past OR the market waits for the fork))\<close>,
  which ends every query below.
\<close>

definition claimableIn ::
  "ReportingState list \<Rightarrow> ReportingState \<Rightarrow> bool \<Rightarrow> FeeWindowState \<Rightarrow> bool" where
  "claimableIn states reportingState disavowed windowState \<longleftrightarrow>
     reportingState \<in> set states \<or>
     (disavowed \<and> (windowState = PAST \<or> reportingState = AWAITING_FORK_MIGRATION))"

section \<open>Fees\<close>

definition getUniverse :: "address \<Rightarrow> address action" where
  "getUniverse universe =
     bindA (gets (\<lambda>w. list_ex (\<lambda>f. fw_universe f = universe \<and>
              list_ex (\<lambda>u. un_universe u = universe) (t_universes (tables w))) (t_fee_windows (tables w))))
       (\<lambda>found. if found then return universe else throw (Thrown ''Universe not found''))"

definition participationTokenRows ::
  "address \<Rightarrow> address \<Rightarrow> address \<Rightarrow> db \<Rightarrow> ParticipationTokensEthFeeRow list" where
  "participationTokenRows cash reporter universe d =
     [\<lparr>pe_feeWindow = fw_feeWindow f, pe_participationTokens = bl_balance b,
       pe_feeTokenSupply = orZero (supplyOf d (Some (fw_feeToken f))),
       pe_participationTokenSupply = orZero (supplyOf d (Some (fw_feeWindow f))),
       pe_cashFeeWindow = orZero (balanceOf d (Some (fw_feeWindow f)) cash)\<rparr>.
      f \<leftarrow> t_fee_windows d, b \<leftarrow> t_balances d,
      bl_token b = fw_feeWindow f \<and> bl_owner b = reporter \<and> bl_balance b \<noteq> 0 \<and>
      fw_state f = PAST \<and> fw_universe f = universe]"

definition participationTokenEthFee ::
  "bn_division_op \<Rightarrow> ParticipationTokensEthFeeRow \<Rightarrow> ParticipationTokenEthFee" where
  "participationTokenEthFee dv r =
     (let totalFeeTokensInFeeWindow = pe_feeTokenSupply r + pe_participationTokenSupply r;
          reporterShareOfFeeWindow = (if totalFeeTokensInFeeWindow = 0 then 0
            else dv (pe_participationTokens r) totalFeeTokensInFeeWindow)
      in \<lparr>pk_feeWindow = pe_feeWindow r, pk_ethFees = reporterShareOfFeeWindow * pe_cashFeeWindow r,
          pk_participationTokens = pe_participationTokens r\<rparr>)"

definition getParticipationTokenEthFees ::
  "bn_division_op \<Rightarrow> address \<Rightarrow> address \<Rightarrow> address \<Rightarrow> ParticipationTokenEthFee list action" where
  "getParticipationTokenEthFees dv cash reporter universe = gets (\<lambda>w.
     map (participationTokenEthFee dv) (participationTokenRows cash reporter universe (tables w)))"

definition participantRows ::
  "address \<Rightarrow> address \<Rightarrow> address \<Rightarrow> db \<Rightarrow> ParticipantEthFeeRow list" where
  "participantRows cash reporter universe d = concat (map (\<lambda>p.
     let matching = filter (\<lambda>b. bd_owner b = pa_participantAddress p \<and> bd_symbol b = Some ''FeeToken'')
           (balances_detail d);
         row = (\<lambda>window balance supply.
           \<lparr>pf_participantAddress = pa_participantAddress p, pf_feeWindow = window,
            pf_reporterBalance = pa_reporterBalance p, pf_participantSupply = pa_participantSupply p,
            pf_forking = pa_forking p, pf_feeTokenBalance = orZero balance,
            pf_feeTokenSupply = orZero supply, pf_cashFeeWindow = orZero (balanceOf d window cash),
            pf_cashParticipant = orZero (balanceOf d (Some (pa_participantAddress p)) cash),
            pf_participationTokenSupply = orZero (supplyOf d window)\<rparr>)
     in if matching = [] then [row None None None]
        else map (\<lambda>b. row (bd_feeWindow b) (Some (bd_balance b)) (bd_supply b)) matching)
     [p. p \<leftarrow> all_participants d, f \<leftarrow> t_fee_windows d,
         pa_feeWindow p = fw_feeWindow f \<and> pa_universe p = universe \<and> pa_reporter p = reporter \<and>
         pa_participantSupply p \<noteq> 0 \<and> pa_reporterBalance p \<noteq> 0 \<and>
         claimableIn [AWAITING_FINALIZATION, FINALIZED] (pa_reportingState p)
           (pa_disavowed p \<noteq> 0 \<or> pa_needsDisavowal p \<noteq> 0) (fw_state f)])"

definition feeOnWindow :: "bn_division_op \<Rightarrow> ParticipantEthFeeRow \<Rightarrow> ParticipantEthFee" where
  "feeOnWindow dv r =
     (let totalFeeTokensInFeeWindow = pf_feeTokenSupply r + pf_participationTokenSupply r;
          participantShareOfFeeWindow = (if totalFeeTokensInFeeWindow = 0 then 0
            else dv (pf_feeTokenBalance r) totalFeeTokensInFeeWindow);
          participantEthFees = participantShareOfFeeWindow * pf_cashFeeWindow r;
          reporterShareOfParticipant = dv (pf_reporterBalance r) (pf_participantSupply r)
      in \<lparr>ef_feeWindow = pf_feeWindow r, ef_participantAddress = pf_participantAddress r,
          ef_fork = pf_forking r, ef_ethFees = reporterShareOfParticipant * participantEthFees\<rparr>)"

definition feeOnParticipant :: "bn_division_op \<Rightarrow> ParticipantEthFeeRow \<Rightarrow> ParticipantEthFee" where
  "feeOnParticipant dv r =
     (let reporterShareOfParticipant = dv (pf_reporterBalance r) (pf_participantSupply r)
      in \<lparr>ef_feeWindow = None, ef_participantAddress = pf_participantAddress r,
          ef_fork = pf_forking r, ef_ethFees = reporterShareOfParticipant * pf_cashParticipant r\<rparr>)"

text \<open>\<open>_.keyBy\<close>: the last row of each participant, in the order of the first.\<close>

definition keyBy :: "('v \<Rightarrow> 'k) \<Rightarrow> 'v list \<Rightarrow> ('k \<times> 'v) list" where
  "keyBy f xs = foldl (\<lambda>d x. dictSet (f x) x d) [] xs"

definition participantFees :: "bn_division_op \<Rightarrow> ParticipantEthFeeRow list \<Rightarrow> ParticipantEthFee list" where
  "participantFees dv rows =
     map (feeOnWindow dv) rows @ map (feeOnParticipant dv) (dictValues (keyBy pf_participantAddress rows))"

definition getParticipantEthFees ::
  "bn_division_op \<Rightarrow> address \<Rightarrow> address \<Rightarrow> address \<Rightarrow> ParticipantEthFee list action" where
  "getParticipantEthFees dv cash reporter universe = gets (\<lambda>w.
     participantFees dv (participantRows cash reporter universe (tables w)))"

section \<open>Markets\<close>

definition initialReporterRows :: "address \<Rightarrow> address \<Rightarrow> db \<Rightarrow> UnclaimedInitialReporterRow list" where
  "initialReporterRows reporter universe d = distinctRows
     [\<lparr>ui_initialReporter = ir_initialReporter r, ui_disavowed = ir_disavowed r,
       ui_marketId = ir_marketId r, ui_universe = mk_universe m,
       ui_reportingState = ms_reportingState s, ui_forking = mk_forking m,
       ui_needsMigration = mk_needsMigration m\<rparr>.
      r \<leftarrow> t_initial_reports d, m \<leftarrow> t_markets d, f \<leftarrow> t_fee_windows d, s \<leftarrow> t_market_state d,
      ir_marketId r = mk_marketId m \<and> mk_feeWindow m = fw_feeWindow f \<and>
      mk_marketStateId m = Some (ms_marketStateId s) \<and>
      (mk_forking m \<noteq> 0 \<or> claimableIn [AWAITING_FINALIZATION, FINALIZED, FORKING] (ms_reportingState s)
         (ir_disavowed r \<noteq> 0 \<or> mk_needsDisavowal m \<noteq> 0) (fw_state f)) \<and>
      mk_universe m = universe \<and> ir_reporter r = reporter \<and> \<not> ir_redeemed r]"

definition crowdsourcerRows :: "address \<Rightarrow> address \<Rightarrow> db \<Rightarrow> UnclaimedCrowdsourcerRow list" where
  "crowdsourcerRows reporter universe d = distinctRows
     [\<lparr>uc_crowdsourcerId = cs_crowdsourcerId c, uc_disavowed = cs_disavowed c,
       uc_marketId = cs_marketId c, uc_universe = mk_universe m,
       uc_reportingState = ms_reportingState s, uc_forking = mk_forking m,
       uc_needsMigration = mk_needsMigration m, uc_amountStaked = bl_balance b\<rparr>.
      c \<leftarrow> t_crowdsourcers d, b \<leftarrow> t_balances d, m \<leftarrow> t_markets d, f \<leftarrow> t_fee_windows d,
      s \<leftarrow> t_market_state d,
      bl_token b = cs_crowdsourcerId c \<and> cs_marketId c = mk_marketId m \<and>
      cs_feeWindow c = fw_feeWindow f \<and> mk_marketStateId m = Some (ms_marketStateId s) \<and>
      (mk_forking m \<noteq> 0 \<or> claimableIn [AWAITING_FINALIZATION, FINALIZED, FORKING] (ms_reportingState s)
         (cs_disavowed c \<noteq> 0 \<or> mk_needsDisavowal m \<noteq> 0) (fw_state f)) \<and>
      mk_universe m = universe \<and> bl_owner b = reporter \<and> bl_balance b \<noteq> 0]"

text \<open>
  The forking market. Its row is joined with all states it ever had, of which the first is taken.
\<close>

definition forkedMarketRow :: "address \<Rightarrow> db \<Rightarrow> ForkedMarket option" where
  "forkedMarketRow universe d =
     (case [\<lparr>fk_marketId = mk_marketId m, fk_universe = mk_universe m,
             fk_isFinalized = (ms_reportingState s = FINALIZED), fk_crowdsourcers = [],
             fk_initialReporter = None\<rparr>.
            m \<leftarrow> t_markets d, s \<leftarrow> t_market_state d,
            mk_forking m = 1 \<and> mk_universe m = universe \<and> mk_marketId m = ms_marketId s] of
        [] \<Rightarrow> None
      | r # _ \<Rightarrow> Some r)"

definition feesOf :: "ParticipantEthFee list \<Rightarrow> address \<Rightarrow> bn" where
  "feesOf participantEthFees address = foldl (\<lambda>summation fee. summation + ef_ethFees fee) 0
     (filter (\<lambda>e. ef_participantAddress e = address) participantEthFees)"

definition addFees :: "ParticipantEthFee list \<Rightarrow> (address \<times> bn) list \<Rightarrow> address \<Rightarrow> (address \<times> bn) list" where
  "addFees participantEthFees collection address =
     dictSet address (orZero (map_of collection address) + feesOf participantEthFees address) collection"

definition feesByParticipant ::
  "UnclaimedInitialReporterRow list \<Rightarrow> UnclaimedCrowdsourcerRow list \<Rightarrow> ParticipantEthFee list \<Rightarrow>
   (address \<times> bn) list" where
  "feesByParticipant initialReporters crowds participantEthFees =
     foldl (addFees participantEthFees)
       (foldl (addFees participantEthFees) [] (map uc_crowdsourcerId crowds))
       (map ui_initialReporter initialReporters)"

type_synonym market_lines = "ForkedMarket option \<times> (address \<times> NonforkedMarket) list"

definition addInitialReporter ::
  "(address \<times> bn) list \<Rightarrow> market_lines \<Rightarrow> UnclaimedInitialReporterRow \<Rightarrow> market_lines result" where
  "addInitialReporter fees lines r =
     (let (forkedMarket, keyed) = lines in
      if ui_forking r \<noteq> 0 then
        (case forkedMarket of
           None \<Rightarrow> Inl (JsTypeError ''initialReporter of undefined'')
         | Some f \<Rightarrow> Inr (Some (f\<lparr>fk_initialReporter := Some
             \<lparr>iw_initialReporterId = ui_initialReporter r, iw_needsFork = (ui_disavowed r = 0)\<rparr>\<rparr>), keyed))
      else Inr (forkedMarket, dictSet (ui_marketId r)
        \<lparr>nf_marketId = ui_marketId r, nf_universe = ui_universe r, nf_crowdsourcersAreDisavowed = False,
         nf_isFinalized = (ui_reportingState r = FINALIZED), nf_isMigrated = (ui_needsMigration r = 0),
         nf_crowdsourcers = [], nf_initialReporter = Some (ui_initialReporter r),
         nf_unclaimedRepTotal = None,
         nf_unclaimedEthFees = Some (toFixedDown (orZero (map_of fees (ui_initialReporter r))))\<rparr> keyed))"

definition addCrowdsourcer ::
  "(address \<times> bn) list \<Rightarrow> market_lines \<Rightarrow> UnclaimedCrowdsourcerRow \<Rightarrow> market_lines result" where
  "addCrowdsourcer fees lines c =
     (let (forkedMarket, keyed) = lines in
      if uc_forking c \<noteq> 0 then
        (case forkedMarket of
           None \<Rightarrow> Inl (JsTypeError ''crowdsourcers of undefined'')
         | Some f \<Rightarrow> Inr (Some (f\<lparr>fk_crowdsourcers := fk_crowdsourcers f @
             [\<lparr>cw_crowdsourcerId = uc_crowdsourcerId c, cw_needsFork = (uc_disavowed c = 0)\<rparr>]\<rparr>), keyed))
      else case map_of keyed (uc_marketId c) of
        None \<Rightarrow> Inr (forkedMarket, dictSet (uc_marketId c)
          \<lparr>nf_marketId = uc_marketId c, nf_universe = uc_universe c,
           nf_crowdsourcersAreDisavowed = (uc_disavowed c \<noteq> 0),
           nf_isFinalized = (uc_reportingState c = FINALIZED), nf_isMigrated = (uc_needsMigration c = 0),
           nf_crowdsourcers = [uc_crowdsourcerId c], nf_initialReporter = None,
           nf_unclaimedRepTotal = None,
           nf_unclaimedEthFees = Some (toFixedDown (orZero (map_of fees (uc_crowdsourcerId c))))\<rparr> keyed)
      | Some m \<Rightarrow> Inr (forkedMarket, dictSet (uc_marketId c)
          (m\<lparr>nf_crowdsourcersAreDisavowed := (uc_disavowed c \<noteq> 0),
             nf_crowdsourcers := nf_crowdsourcers m @ [uc_crowdsourcerId c],
             nf_unclaimedEthFees := Some (toFixedDown (
               (case nf_initialReporter m of Some i \<Rightarrow> orZero (map_of fees i) | None \<Rightarrow> 0)
               + orZero (map_of fees (uc_crowdsourcerId c))))\<rparr>) keyed))"

definition formatMarketInfo ::
  "UnclaimedInitialReporterRow list \<Rightarrow> UnclaimedCrowdsourcerRow list \<Rightarrow> ForkedMarket option \<Rightarrow>
   ParticipantEthFee list \<Rightarrow> (ForkedMarket option \<times> NonforkedMarket list) result" where
  "formatMarketInfo initialReporters crowds forkedMarket participantEthFees =
     (let fees = feesByParticipant initialReporters crowds participantEthFees in
      bindE (foldE (addInitialReporter fees)
               (map_option (\<lambda>f. f\<lparr>fk_crowdsourcers := []\<rparr>) forkedMarket, []) initialReporters) (\<lambda>lines.
      bindE (foldE (addCrowdsourcer fees) lines crowds) (\<lambda>(forked, keyed).
      Inr (forked, dictValues keyed))))"

definition getMarketsReportingParticipants ::
  "address \<Rightarrow> address \<Rightarrow> ParticipantEthFee list \<Rightarrow> (ForkedMarket option \<times> NonforkedMarket list) action" where
  "getMarketsReportingParticipants reporter universe participantEthFees =
     bindA (gets tables) (\<lambda>d. liftR (formatMarketInfo (initialReporterRows reporter universe d)
       (crowdsourcerRows reporter universe d) (forkedMarketRow universe d) participantEthFees))"

section \<open>Stake\<close>

definition crowdsourcerStakes :: "address \<Rightarrow> address \<Rightarrow> db \<Rightarrow> FeeWindowCompletionStakeRow list" where
  "crowdsourcerStakes reporter universe d =
     [\<lparr>fs_amountStaked = balanceOf d (Some reporter) (cs_crowdsourcerId c), fs_winning = po_winning p,
       fs_disavowed = cs_disavowed c, fs_needsDisavowal = mk_needsDisavowal m,
       fs_completed = cs_completed c, fs_forking = mk_forking m, fs_marketId = mk_marketId m\<rparr>.
      c \<leftarrow> t_crowdsourcers d, f \<leftarrow> t_fee_windows d, p \<leftarrow> t_payouts d, m \<leftarrow> t_markets d,
      s \<leftarrow> t_market_state d,
      cs_feeWindow c = fw_feeWindow f \<and> cs_payoutId c = po_payoutId p \<and>
      mk_marketId m = cs_marketId c \<and> mk_marketStateId m = Some (ms_marketStateId s) \<and>
      (mk_forking m \<noteq> 0 \<or> claimableIn [AWAITING_FINALIZATION, FINALIZED] (ms_reportingState s)
         (cs_disavowed c \<noteq> 0 \<or> mk_needsDisavowal m \<noteq> 0) (fw_state f)) \<and>
      fw_universe f = universe]"

definition initialReporterStakes :: "address \<Rightarrow> address \<Rightarrow> db \<Rightarrow> InitialReporterStakeRow list" where
  "initialReporterStakes reporter universe d =
     [\<lparr>is_amountStaked = ir_amountStaked r, is_winning = po_winning p, is_forking = mk_forking m,
       is_marketId = mk_marketId m\<rparr>.
      r \<leftarrow> t_initial_reports d, p \<leftarrow> t_payouts d, m \<leftarrow> t_markets d, s \<leftarrow> t_market_state d,
      f \<leftarrow> t_fee_windows d,
      ir_payoutId r = po_payoutId p \<and> mk_marketId m = ir_marketId r \<and>
      mk_marketStateId m = Some (ms_marketStateId s) \<and> mk_feeWindow m = fw_feeWindow f \<and>
      mk_universe m = universe \<and>
      (mk_forking m \<noteq> 0 \<or> claimableIn [AWAITING_FINALIZATION, FINALIZED] (ms_reportingState s)
         (ir_disavowed r \<noteq> 0 \<or> mk_needsDisavowal m \<noteq> 0) (fw_state f)) \<and>
      ir_reporter r = reporter \<and> \<not> ir_redeemed r]"

text \<open>
  The reductions carry the fees, the markets found to be disputed and the claimable amounts per market.
\<close>

type_synonym stake_state = "RepStakeResults \<times> address list \<times> ClaimableMarket list"

definition noStake :: RepStakeResults where
  "noStake = \<lparr>rr_unclaimedRepStaked = 0, rr_unclaimedRepEarned = 0, rr_lostRep = 0,
     rr_unclaimedForkRepStaked = 0\<rparr>"

definition isDisavowed :: "FeeWindowCompletionStakeRow \<Rightarrow> bool" where
  "isDisavowed r \<longleftrightarrow> fs_disavowed r \<noteq> 0 \<or> fs_needsDisavowal r \<noteq> 0"

definition addCrowdsourcerStake ::
  "bn_division_op \<Rightarrow> stake_state \<Rightarrow> FeeWindowCompletionStakeRow \<Rightarrow> stake_state" where
  "addCrowdsourcerStake dv state r =
     (let (acc, marketDisputed, claimable) = state;
          amount = orZero (fs_amountStaked r);
          forking = (fs_forking r \<noteq> 0);
          completed = flag (fs_completed r);
          getsRep = (flag (fs_winning r) \<or> isDisavowed r \<or> \<not> completed);
          earnsRep = (completed \<and> (case fs_winning r of Some v \<Rightarrow> 0 < v | None \<Rightarrow> False));
          lostRep = (completed \<and> fs_winning r = Some 0);
          earned = (if forking then 0 else dv (if earnsRep then amount else 0) 2);
          staked = (if forking then 0 else if getsRep then amount else 0)
      in (\<lparr>rr_unclaimedRepStaked = rr_unclaimedRepStaked acc + staked,
           rr_unclaimedRepEarned = rr_unclaimedRepEarned acc + earned,
           rr_lostRep = rr_lostRep acc + (if lostRep then amount else 0),
           rr_unclaimedForkRepStaked = rr_unclaimedForkRepStaked acc + (if forking then amount else 0)\<rparr>,
          (if completed \<and> \<not> isDisavowed r then fs_marketId r # marketDisputed else marketDisputed),
          claimable @ [\<lparr>cm_marketId = fs_marketId r, cm_unclaimedRepTotal = toFixedDown (earned + staked)\<rparr>]))"

definition addInitialReporterStake ::
  "bn_division_op \<Rightarrow> stake_state \<Rightarrow> InitialReporterStakeRow \<Rightarrow> stake_state" where
  "addInitialReporterStake dv state r =
     (let (acc, marketDisputed, claimable) = state;
          forking = (is_forking r \<noteq> 0);
          earned = (if is_marketId r \<in> set marketDisputed \<and> \<not> forking \<and> flag (is_winning r)
                    then dv (is_amountStaked r) 2 else 0);
          staked = (if forking then 0 else if is_winning r = Some 0 then 0 else is_amountStaked r)
      in (\<lparr>rr_unclaimedRepStaked = rr_unclaimedRepStaked acc + staked,
           rr_unclaimedRepEarned = rr_unclaimedRepEarned acc + earned,
           rr_lostRep = rr_lostRep acc + (if is_winning r = Some 0 then is_amountStaked r else 0),
           rr_unclaimedForkRepStaked = rr_unclaimedForkRepStaked acc
             + (if forking then is_amountStaked r else 0)\<rparr>,
          marketDisputed,
          claimable @ [\<lparr>cm_marketId = is_marketId r, cm_unclaimedRepTotal = toFixedDown (staked + earned)\<rparr>]))"

text \<open>\<open>findIndex\<close> and the update of the market found.\<close>

fun addClaimable :: "NonforkedMarket list \<Rightarrow> ClaimableMarket \<Rightarrow> NonforkedMarket list" where
  "addClaimable [] c = []"
| "addClaimable (m # ms) c =
     (if nf_marketId m = cm_marketId c
      then m\<lparr>nf_unclaimedRepTotal := Some
             ((case nf_unclaimedRepTotal m of Some t \<Rightarrow> t | None \<Rightarrow> 0) + cm_unclaimedRepTotal c)\<rparr> # ms
      else m # addClaimable ms c)"

definition stakedRepResults ::
  "bn_division_op \<Rightarrow> FeeWindowCompletionStakeRow list \<Rightarrow> InitialReporterStakeRow list \<Rightarrow>
   NonforkedMarket list \<Rightarrow> RepStakeResults \<times> NonforkedMarket list" where
  "stakedRepResults dv crowds initialReporters nonforkedMarkets =
     (let (fees, _, claimable) = foldl (addInitialReporterStake dv)
            (foldl (addCrowdsourcerStake dv) (noStake, [], []) crowds) initialReporters
      in (fees, foldl addClaimable nonforkedMarkets claimable))"

definition getStakedRepResults ::
  "bn_division_op \<Rightarrow> address \<Rightarrow> address \<Rightarrow> NonforkedMarket list \<Rightarrow>
   (RepStakeResults \<times> NonforkedMarket list) action" where
  "getStakedRepResults dv reporter universe nonforkedMarkets = gets (\<lambda>w.
     stakedRepResults dv (crowdsourcerStakes reporter universe (tables w))
       (initialReporterStakes reporter universe (tables w)) nonforkedMarkets)"

section \<open>The getter\<close>

definition sumWith :: "('a \<Rightarrow> bn) \<Rightarrow> 'a list \<Rightarrow> bn" where
  "sumWith f xs = foldl (\<lambda>acc x. acc + f x) 0 xs"

definition feeDetails ::
  "ParticipantEthFee list \<Rightarrow> ParticipationTokenEthFee list \<Rightarrow> ForkedMarket option \<Rightarrow>
   RepStakeResults \<Rightarrow> NonforkedMarket list \<Rightarrow> FeeDetails" where
  "feeDetails participantEthFees participationTokenEthFees forkedMarket fees nonforkedMarkets =
     (let participant = sumWith (\<lambda>e. if ef_fork e \<noteq> 0 then 0 else ef_ethFees e) participantEthFees;
          fork = sumWith (\<lambda>e. if ef_fork e \<noteq> 0 then ef_ethFees e else 0) participantEthFees;
          token = sumWith pk_ethFees participationTokenEthFees;
          tokenStake = sumWith pk_participationTokens participationTokenEthFees
      in \<lparr>fd_total = \<lparr>ft_unclaimedEth = toFixedDown (participant + token),
            ft_unclaimedRepStaked = toFixedDown (rr_unclaimedRepStaked fees + tokenStake),
            ft_unclaimedRepEarned = toFixedDown (rr_unclaimedRepEarned fees),
            ft_unclaimedForkEth = toFixedDown fork,
            ft_unclaimedForkRepStaked = toFixedDown (rr_unclaimedForkRepStaked fees),
            ft_lostRep = toFixedDown (rr_lostRep fees),
            ft_unclaimedParticipationTokenEthFees = toFixedDown token,
            ft_participationTokenRepStaked = toFixedDown tokenStake\<rparr>,
          fd_feeWindows = sort (map pk_feeWindow participationTokenEthFees),
          fd_forkedMarket = forkedMarket, fd_nonforkedMarkets = nonforkedMarkets\<rparr>)"

definition getReportingFees ::
  "bn_division_op \<Rightarrow> address \<Rightarrow> address \<Rightarrow> address \<Rightarrow> FeeDetails action" where
  "getReportingFees dv cash universe reporter =
     bindA (getUniverse universe) (\<lambda>currentUniverse.
     bindA (getParticipantEthFees dv cash reporter universe) (\<lambda>participantEthFees.
     bindA (getParticipationTokenEthFees dv cash reporter universe) (\<lambda>participationTokenEthFees.
     bindA (getMarketsReportingParticipants reporter currentUniverse participantEthFees)
       (\<lambda>(forkedMarket, nonforkedMarkets).
     bindA (getStakedRepResults dv reporter universe nonforkedMarkets) (\<lambda>(fees, claimableMarkets).
     return (feeDetails participantEthFees participationTokenEthFees forkedMarket fees
               claimableMarkets))))))"

section \<open>The stake adds up\<close>

text \<open>
  A completed crowdsourcer that lost is counted as lost, but also as recoverable when it was disavowed and
  as fork stake when its market forks. One whose market is not finalized (no winning payout yet) is counted
  nowhere.
\<close>

definition countedTwice :: "FeeWindowCompletionStakeRow \<Rightarrow> bool" where
  "countedTwice r \<longleftrightarrow> flag (fs_completed r) \<and> fs_winning r = Some 0 \<and>
     (fs_forking r \<noteq> 0 \<or> isDisavowed r)"

definition countedNowhere :: "FeeWindowCompletionStakeRow \<Rightarrow> bool" where
  "countedNowhere r \<longleftrightarrow> flag (fs_completed r) \<and> fs_winning r = None \<and>
     fs_forking r = 0 \<and> \<not> isDisavowed r"

definition earnsHalf :: "FeeWindowCompletionStakeRow \<Rightarrow> bool" where
  "earnsHalf r \<longleftrightarrow> flag (fs_completed r) \<and> fs_forking r = 0 \<and>
     (\<exists>v. fs_winning r = Some v \<and> 0 < v)"

definition reporterEarnsHalf ::
  "FeeWindowCompletionStakeRow list \<Rightarrow> InitialReporterStakeRow \<Rightarrow> bool" where
  "reporterEarnsHalf crowds r \<longleftrightarrow> is_forking r = 0 \<and> flag (is_winning r) \<and>
     (\<exists>c \<in> set crowds. fs_marketId c = is_marketId r \<and> flag (fs_completed c) \<and> \<not> isDisavowed c)"

definition accounted :: "RepStakeResults \<Rightarrow> bn" where
  "accounted f = rr_unclaimedRepStaked f + rr_unclaimedForkRepStaked f + rr_lostRep f"

definition crowdsourcerWeight :: "FeeWindowCompletionStakeRow \<Rightarrow> bn" where
  "crowdsourcerWeight r = orZero (fs_amountStaked r)
     + (if countedTwice r then orZero (fs_amountStaked r) else 0)
     - (if countedNowhere r then orZero (fs_amountStaked r) else 0)"

definition reporterWeight :: "InitialReporterStakeRow \<Rightarrow> bn" where
  "reporterWeight r = is_amountStaked r
     + (if is_forking r \<noteq> 0 \<and> is_winning r = Some 0 then is_amountStaked r else 0)"

lemma accounted_crowdsourcer:
  "accounted (fst (addCrowdsourcerStake dv s r)) = accounted (fst s) + crowdsourcerWeight r"
  by (auto simp: accounted_def addCrowdsourcerStake_def crowdsourcerWeight_def countedTwice_def
    countedNowhere_def flag_def Let_def split: prod.split option.splits)

lemma accounted_reporter:
  "accounted (fst (addInitialReporterStake dv s r)) = accounted (fst s) + reporterWeight r"
  by (auto simp: accounted_def addInitialReporterStake_def reporterWeight_def Let_def split: prod.split)

lemma disputed_crowdsourcer:
  "m \<in> set (fst (snd (addCrowdsourcerStake dv s r))) \<longleftrightarrow>
     m \<in> set (fst (snd s)) \<or> fs_marketId r = m \<and> flag (fs_completed r) \<and> \<not> isDisavowed r"
  by (auto simp: addCrowdsourcerStake_def Let_def split: prod.split)

lemma disputed_reporter: "fst (snd (addInitialReporterStake dv s r)) = fst (snd s)"
  by (simp add: addInitialReporterStake_def Let_def split: prod.split)

lemma disputed_crowdsourcers:
  "m \<in> set (fst (snd (foldl (addCrowdsourcerStake dv) s rows))) \<longleftrightarrow>
     m \<in> set (fst (snd s)) \<or> (\<exists>r \<in> set rows. fs_marketId r = m \<and> flag (fs_completed r) \<and> \<not> isDisavowed r)"
  by (induction rows arbitrary: s) (auto simp: disputed_crowdsourcer)

lemma disputed_reporters: "fst (snd (foldl (addInitialReporterStake dv) s rows)) = fst (snd s)"
  by (induction rows arbitrary: s) (simp_all add: disputed_reporter)

text \<open>What a row adds to the claim on its market.\<close>

definition crowdsourcerEarned :: "bn_division_op \<Rightarrow> FeeWindowCompletionStakeRow \<Rightarrow> bn" where
  "crowdsourcerEarned dv r = (if earnsHalf r then dv (orZero (fs_amountStaked r)) 2 else 0)"

definition crowdsourcerStaked :: "FeeWindowCompletionStakeRow \<Rightarrow> bn" where
  "crowdsourcerStaked r = (if fs_forking r = 0 \<and>
       (flag (fs_winning r) \<or> isDisavowed r \<or> \<not> flag (fs_completed r))
     then orZero (fs_amountStaked r) else 0)"

definition reporterEarned ::
  "bn_division_op \<Rightarrow> FeeWindowCompletionStakeRow list \<Rightarrow> InitialReporterStakeRow \<Rightarrow> bn" where
  "reporterEarned dv crowds r = (if reporterEarnsHalf crowds r then dv (is_amountStaked r) 2 else 0)"

definition reporterStaked :: "InitialReporterStakeRow \<Rightarrow> bn" where
  "reporterStaked r = (if is_forking r = 0 \<and> is_winning r \<noteq> Some 0 then is_amountStaked r else 0)"

definition crowdsourcerClaim :: "bn_division_op \<Rightarrow> FeeWindowCompletionStakeRow \<Rightarrow> ClaimableMarket" where
  "crowdsourcerClaim dv r = \<lparr>cm_marketId = fs_marketId r,
     cm_unclaimedRepTotal = toFixedDown (crowdsourcerEarned dv r + crowdsourcerStaked r)\<rparr>"

definition reporterClaim ::
  "bn_division_op \<Rightarrow> FeeWindowCompletionStakeRow list \<Rightarrow> InitialReporterStakeRow \<Rightarrow> ClaimableMarket" where
  "reporterClaim dv crowds r = \<lparr>cm_marketId = is_marketId r,
     cm_unclaimedRepTotal = toFixedDown (reporterStaked r + reporterEarned dv crowds r)\<rparr>"

definition reporterClaims ::
  "bn_division_op \<Rightarrow> FeeWindowCompletionStakeRow list \<Rightarrow> InitialReporterStakeRow list \<Rightarrow> ClaimableMarket list" where
  "reporterClaims dv crowds reporters =
     map (crowdsourcerClaim dv) crowds @ map (reporterClaim dv crowds) reporters"

lemma crowdsourcer_earned:
  assumes "bn_division dv"
  shows "rr_unclaimedRepEarned (fst (addCrowdsourcerStake dv s r)) =
      rr_unclaimedRepEarned (fst s) + crowdsourcerEarned dv r"
    and "snd (snd (addCrowdsourcerStake dv s r)) = snd (snd s) @ [crowdsourcerClaim dv r]"
  using bn_division.dv_zero [OF assms, of 2]
  by (auto simp: addCrowdsourcerStake_def crowdsourcerStaked_def crowdsourcerEarned_def
    crowdsourcerClaim_def earnsHalf_def Let_def split: prod.split option.splits)

lemma crowdsourcers_earned:
  assumes "bn_division dv"
  shows "rr_unclaimedRepEarned (fst (foldl (addCrowdsourcerStake dv) s rows)) =
      rr_unclaimedRepEarned (fst s) + sum_list (map (crowdsourcerEarned dv) rows)"
    and "snd (snd (foldl (addCrowdsourcerStake dv) s rows)) = snd (snd s) @ map (crowdsourcerClaim dv) rows"
  by (induction rows arbitrary: s) (simp_all add: crowdsourcer_earned [OF assms])

lemma reporter_earned:
  assumes "\<And>m. m \<in> set (fst (snd s)) \<longleftrightarrow>
    (\<exists>c \<in> set crowds. fs_marketId c = m \<and> flag (fs_completed c) \<and> \<not> isDisavowed c)"
  shows "rr_unclaimedRepEarned (fst (addInitialReporterStake dv s r)) =
      rr_unclaimedRepEarned (fst s) + reporterEarned dv crowds r"
    and "snd (snd (addInitialReporterStake dv s r)) = snd (snd s) @ [reporterClaim dv crowds r]"
  using assms [of "is_marketId r"]
  by (auto simp: addInitialReporterStake_def reporterStaked_def reporterEarned_def reporterClaim_def
    reporterEarnsHalf_def Let_def split: prod.split)

lemma reporters_earned:
  assumes "\<And>m. m \<in> set (fst (snd s)) \<longleftrightarrow>
    (\<exists>c \<in> set crowds. fs_marketId c = m \<and> flag (fs_completed c) \<and> \<not> isDisavowed c)"
  shows "rr_unclaimedRepEarned (fst (foldl (addInitialReporterStake dv) s rows)) =
      rr_unclaimedRepEarned (fst s) + sum_list (map (reporterEarned dv crowds) rows)"
    and "snd (snd (foldl (addInitialReporterStake dv) s rows)) =
      snd (snd s) @ map (reporterClaim dv crowds) rows"
  using assms
  by (induction rows arbitrary: s) (simp_all add: reporter_earned disputed_reporter)

lemma accounted_crowdsourcers:
  "accounted (fst (foldl (addCrowdsourcerStake dv) s rows)) =
     accounted (fst s) + sum_list (map crowdsourcerWeight rows)"
  by (induction rows arbitrary: s) (simp_all add: accounted_crowdsourcer)

lemma accounted_reporters:
  "accounted (fst (foldl (addInitialReporterStake dv) s reports)) =
     accounted (fst s) + sum_list (map reporterWeight reports)"
  by (induction reports arbitrary: s) (simp_all add: accounted_reporter)

lemma crowdsourcers_disputed:
  "m \<in> set (fst (snd (foldl (addCrowdsourcerStake dv) (noStake, [], []) crowds))) \<longleftrightarrow>
     (\<exists>c \<in> set crowds. fs_marketId c = m \<and> flag (fs_completed c) \<and> \<not> isDisavowed c)"
  by (simp add: disputed_crowdsourcers)

lemma sum_crowdsourcerWeight:
  "sum_list (map crowdsourcerWeight rows) = (\<Sum>r\<leftarrow>rows. orZero (fs_amountStaked r))
     + (\<Sum>r\<leftarrow>filter countedTwice rows. orZero (fs_amountStaked r))
     - (\<Sum>r\<leftarrow>filter countedNowhere rows. orZero (fs_amountStaked r))"
  by (induction rows) (auto simp: crowdsourcerWeight_def)

lemma sum_reporterWeight:
  "sum_list (map reporterWeight rows) = (\<Sum>r\<leftarrow>rows. is_amountStaked r)
     + (\<Sum>r\<leftarrow>filter (\<lambda>r. is_forking r \<noteq> 0 \<and> is_winning r = Some 0) rows. is_amountStaked r)"
  by (induction rows) (auto simp: reporterWeight_def)

lemma noStake_zero [simp]: "accounted noStake = 0" "rr_unclaimedRepEarned noStake = 0"
  by (simp_all add: accounted_def noStake_def)

lemma stakedRepResults_eq:
  assumes "bn_division dv"
  shows "\<exists>totals. stakedRepResults dv crowds reporters ms =
      (totals, foldl addClaimable ms (reporterClaims dv crowds reporters)) \<and>
    accounted totals = sum_list (map crowdsourcerWeight crowds) + sum_list (map reporterWeight reporters) \<and>
    rr_unclaimedRepEarned totals = (\<Sum>r\<leftarrow>crowds. crowdsourcerEarned dv r)
      + (\<Sum>r\<leftarrow>reporters. reporterEarned dv crowds r)"
proof -
  define s where "s = foldl (addCrowdsourcerStake dv) (noStake, [], []) crowds"
  define t where "t = foldl (addInitialReporterStake dv) s reporters"
  have s: "snd (snd s) = map (crowdsourcerClaim dv) crowds"
    "rr_unclaimedRepEarned (fst s) = (\<Sum>r\<leftarrow>crowds. crowdsourcerEarned dv r)"
    "accounted (fst s) = sum_list (map crowdsourcerWeight crowds)"
    by (simp_all add: s_def crowdsourcers_earned [OF assms] accounted_crowdsourcers)
  have t: "snd (snd t) = reporterClaims dv crowds reporters"
    "rr_unclaimedRepEarned (fst t) = (\<Sum>r\<leftarrow>crowds. crowdsourcerEarned dv r)
      + (\<Sum>r\<leftarrow>reporters. reporterEarned dv crowds r)"
    "accounted (fst t) = sum_list (map crowdsourcerWeight crowds) + sum_list (map reporterWeight reporters)"
    using reporters_earned [OF crowdsourcers_disputed [of _ dv crowds]] s
    by (simp_all add: t_def s_def [symmetric] accounted_reporters reporterClaims_def)
  have "stakedRepResults dv crowds reporters ms = (fst t, foldl addClaimable ms (snd (snd t)))"
    by (simp add: stakedRepResults_def s_def [symmetric] t_def [symmetric] case_prod_beta Let_def)
  with t show ?thesis by auto
qed

text \<open>
  C27. The stake in the totals of \<open>getReportingFees\<close>. What is recoverable, recoverable after the fork, or
  lost adds up to the stake of the reporter's rows, except that two kinds of stake are counted a second time, the
  stake of completed losing crowdsourcers that are disavowed or of a forking market (\<open>countedTwice\<close>) and the
  stake of losing initial reports of forking markets, and that the stake of completed crowdsourcers whose payout
  is neither winning nor losing yet is left out, unless they are disavowed or of a forking market
  (\<open>countedNowhere\<close>). What is earned on top is half of the stake of the completed winning crowdsourcers of
  markets that do not fork (\<open>earnsHalf\<close>), and half of the winning initial report of a market that does not fork,
  if one of the reporter's crowdsourcers of this market completed and is not disavowed
  (\<open>reporterEarnsHalf\<close>); forking markets and undisputed winning reports earn nothing.
\<close>

theorem stake_is_classified:
  assumes "bn_division dv"
    and "stakedRepResults dv crowds reporters ms = (totals, lines)"
  shows "accounted totals =
      (\<Sum>r\<leftarrow>crowds. orZero (fs_amountStaked r)) + (\<Sum>r\<leftarrow>reporters. is_amountStaked r)
      + (\<Sum>r\<leftarrow>filter countedTwice crowds. orZero (fs_amountStaked r))
      + (\<Sum>r\<leftarrow>filter (\<lambda>r. is_forking r \<noteq> 0 \<and> is_winning r = Some 0) reporters. is_amountStaked r)
      - (\<Sum>r\<leftarrow>filter countedNowhere crowds. orZero (fs_amountStaked r)) \<and>
    rr_unclaimedRepEarned totals =
      (\<Sum>r\<leftarrow>filter earnsHalf crowds. dv (orZero (fs_amountStaked r)) 2)
      + (\<Sum>r\<leftarrow>filter (reporterEarnsHalf crowds) reporters. dv (is_amountStaked r) 2)"
proof -
  have "(\<Sum>r\<leftarrow>crowds. crowdsourcerEarned dv r) =
      (\<Sum>r\<leftarrow>filter earnsHalf crowds. dv (orZero (fs_amountStaked r)) 2)"
    by (induction crowds) (simp_all add: crowdsourcerEarned_def)
  moreover have "(\<Sum>r\<leftarrow>reporters. reporterEarned dv crowds r) =
      (\<Sum>r\<leftarrow>filter (reporterEarnsHalf crowds) reporters. dv (is_amountStaked r) 2)"
    by (induction reporters) (simp_all add: reporterEarned_def)
  ultimately show ?thesis
    using stakedRepResults_eq [OF assms(1), of crowds reporters ms] assms(2)
    by (auto simp: sum_crowdsourcerWeight sum_reporterWeight)
qed

section \<open>The lines of the markets\<close>

text \<open>
  The fees of a participant: those of its rows, once for each row that names it (one in a consistent
  database).
\<close>

definition feesFor ::
  "UnclaimedInitialReporterRow list \<Rightarrow> UnclaimedCrowdsourcerRow list \<Rightarrow> ParticipantEthFee list \<Rightarrow>
   address \<Rightarrow> bn" where
  "feesFor initialReporters crowds participantEthFees a =
     of_nat (count_list (map uc_crowdsourcerId crowds @ map ui_initialReporter initialReporters) a)
     * feesOf participantEthFees a"

lemma addFees_folded:
  "orZero (map_of (foldl (addFees pf) d as) a) = orZero (map_of d a) + of_nat (count_list as a) * feesOf pf a"
  by (induction as arbitrary: d) (auto simp: addFees_def map_of_dictSet orZero_def algebra_simps)

lemma feesByParticipant_eq:
  "orZero (map_of (feesByParticipant irs crs pf) a) = feesFor irs crs pf a"
  by (simp add: feesByParticipant_def feesFor_def addFees_folded distrib_right) (simp add: orZero_def)

text \<open>The line of one market, as the rows that do not fork give it.\<close>

definition reportsIn :: "address \<Rightarrow> UnclaimedInitialReporterRow list \<Rightarrow> UnclaimedInitialReporterRow list" where
  "reportsIn k irs = filter (\<lambda>r. ui_forking r = 0 \<and> ui_marketId r = k) irs"

definition crowdsourcersIn :: "address \<Rightarrow> UnclaimedCrowdsourcerRow list \<Rightarrow> UnclaimedCrowdsourcerRow list" where
  "crowdsourcersIn k crs = filter (\<lambda>c. uc_forking c = 0 \<and> uc_marketId c = k) crs"

definition marketLine ::
  "(address \<Rightarrow> bn) \<Rightarrow> address \<Rightarrow> UnclaimedInitialReporterRow list \<Rightarrow> UnclaimedCrowdsourcerRow list \<Rightarrow>
   NonforkedMarket" where
  "marketLine fee k rs cs =
     \<lparr>nf_marketId = k,
      nf_universe = (if rs = [] then uc_universe (hd cs) else ui_universe (last rs)),
      nf_crowdsourcersAreDisavowed = (cs \<noteq> [] \<and> uc_disavowed (last cs) \<noteq> 0),
      nf_isFinalized =
        ((if rs = [] then uc_reportingState (hd cs) else ui_reportingState (last rs)) = FINALIZED),
      nf_isMigrated = ((if rs = [] then uc_needsMigration (hd cs) else ui_needsMigration (last rs)) = 0),
      nf_crowdsourcers = map uc_crowdsourcerId cs,
      nf_initialReporter = (if rs = [] then None else Some (ui_initialReporter (last rs))),
      nf_unclaimedRepTotal = None,
      nf_unclaimedEthFees = Some (toFixedDown (
        (if rs = [] then 0 else fee (ui_initialReporter (last rs)))
        + (if cs = [] then 0 else fee (uc_crowdsourcerId (last cs)))))\<rparr>"

definition lineOf ::
  "(address \<Rightarrow> bn) \<Rightarrow> UnclaimedInitialReporterRow list \<Rightarrow> UnclaimedCrowdsourcerRow list \<Rightarrow> address \<Rightarrow>
   NonforkedMarket option" where
  "lineOf fee irs crs k =
     (if reportsIn k irs = [] \<and> crowdsourcersIn k crs = [] then None
      else Some (marketLine fee k (reportsIn k irs) (crowdsourcersIn k crs)))"

definition linesAre ::
  "(address \<Rightarrow> bn) \<Rightarrow> UnclaimedInitialReporterRow list \<Rightarrow> UnclaimedCrowdsourcerRow list \<Rightarrow>
   (address \<times> NonforkedMarket) list \<Rightarrow> bool" where
  "linesAre fee irs crs keyed \<longleftrightarrow>
     distinct (map fst keyed) \<and> (\<forall>k. map_of keyed k = lineOf fee irs crs k)"

lemma linesAre_start: "linesAre fee [] [] []"
  by (simp add: linesAre_def lineOf_def reportsIn_def crowdsourcersIn_def)

lemma crowdsourcersIn_Nil [simp]: "crowdsourcersIn k [] = []"
  by (simp add: crowdsourcersIn_def)

lemma linesAre_set:
  assumes "linesAre fee irs crs keyed"
    and "\<And>k'. k' \<noteq> k \<Longrightarrow> lineOf fee irs' crs' k' = lineOf fee irs crs k'"
    and "lineOf fee irs' crs' k = Some l"
  shows "linesAre fee irs' crs' (dictSet k l keyed)"
  using assms by (simp add: linesAre_def map_of_dictSet distinct_dictSet)

lemma linesAre_same:
  assumes "linesAre fee irs crs keyed" "\<And>k. lineOf fee irs' crs' k = lineOf fee irs crs k"
  shows "linesAre fee irs' crs' keyed"
  using assms by (simp add: linesAre_def)

lemma linesAre_report:
  assumes "linesAre (\<lambda>a. orZero (map_of fees a)) irs [] (snd s)"
    and "addInitialReporter fees s r = Inr t"
  shows "linesAre (\<lambda>a. orZero (map_of fees a)) (irs @ [r]) [] (snd t)"
proof -
  obtain f keyed where s: "s = (f, keyed)" by (cases s)
  let ?fee = "\<lambda>a. orZero (map_of fees a)"
  let ?k = "ui_marketId r"
  have old: "linesAre ?fee irs [] keyed" using assms(1) by (simp add: s)
  show ?thesis
  proof (cases "ui_forking r = 0")
    case False
    have "snd t = keyed"
      using assms(2) False by (auto simp: s addInitialReporter_def split: option.splits)
    then show ?thesis
      using linesAre_same [OF old] False by (simp add: lineOf_def reportsIn_def)
  next
    case True
    have own: "reportsIn ?k (irs @ [r]) = reportsIn ?k irs @ [r]"
      using True by (simp add: reportsIn_def)
    have "snd t = dictSet ?k (marketLine ?fee ?k (reportsIn ?k irs @ [r]) []) keyed"
      using assms(2) True by (auto simp: s addInitialReporter_def marketLine_def)
    moreover have "lineOf ?fee (irs @ [r]) [] k = lineOf ?fee irs [] k" if "k \<noteq> ?k" for k
      using that by (simp add: lineOf_def reportsIn_def)
    moreover have "lineOf ?fee (irs @ [r]) [] ?k = Some (marketLine ?fee ?k (reportsIn ?k irs @ [r]) [])"
      by (simp add: lineOf_def own)
    ultimately show ?thesis using linesAre_set [OF old] by simp
  qed
qed

lemma linesAre_crowdsourcer:
  assumes "linesAre (\<lambda>a. orZero (map_of fees a)) irs crs (snd s)"
    and "addCrowdsourcer fees s c = Inr t"
  shows "linesAre (\<lambda>a. orZero (map_of fees a)) irs (crs @ [c]) (snd t)"
proof -
  obtain f keyed where s: "s = (f, keyed)" by (cases s)
  let ?fee = "\<lambda>a. orZero (map_of fees a)"
  let ?k = "uc_marketId c"
  let ?line = "marketLine ?fee ?k (reportsIn ?k irs) (crowdsourcersIn ?k crs @ [c])"
  have old: "linesAre ?fee irs crs keyed" using assms(1) by (simp add: s)
  show ?thesis
  proof (cases "uc_forking c = 0")
    case False
    have "snd t = keyed"
      using assms(2) False by (auto simp: s addCrowdsourcer_def split: option.splits)
    then show ?thesis
      using linesAre_same [OF old] False by (simp add: lineOf_def crowdsourcersIn_def)
  next
    case True
    have own: "crowdsourcersIn ?k (crs @ [c]) = crowdsourcersIn ?k crs @ [c]"
      using True by (simp add: crowdsourcersIn_def)
    have lookup: "map_of keyed ?k = lineOf ?fee irs crs ?k"
      using old by (simp add: linesAre_def)
    have "snd t = dictSet ?k ?line keyed"
    proof (cases "reportsIn ?k irs = [] \<and> crowdsourcersIn ?k crs = []")
      case True
      then show ?thesis using assms(2) lookup \<open>uc_forking c = 0\<close>
        by (auto simp: s addCrowdsourcer_def lineOf_def marketLine_def)
    next
      case False
      then have "lineOf ?fee irs crs ?k =
          Some (marketLine ?fee ?k (reportsIn ?k irs) (crowdsourcersIn ?k crs))"
        by (auto simp: lineOf_def)
      then show ?thesis using assms(2) lookup \<open>uc_forking c = 0\<close> False
        by (auto simp: s addCrowdsourcer_def marketLine_def hd_append)
    qed
    moreover have "lineOf ?fee irs (crs @ [c]) k = lineOf ?fee irs crs k" if "k \<noteq> ?k" for k
      using that by (simp add: lineOf_def crowdsourcersIn_def)
    moreover have "lineOf ?fee irs (crs @ [c]) ?k = Some ?line"
      by (simp add: lineOf_def own)
    ultimately show ?thesis using linesAre_set [OF old] by simp
  qed
qed

lemma linesAre_reports:
  "foldE (addInitialReporter fees) (f, []) irs = Inr t \<Longrightarrow>
     linesAre (\<lambda>a. orZero (map_of fees a)) irs [] (snd t)"
proof (induction irs arbitrary: t rule: rev_induct)
  case Nil
  then show ?case by (auto simp: linesAre_start)
next
  case (snoc r irs)
  then show ?case by (auto simp: foldE_snoc bindE_eq_Inr intro: linesAre_report)
qed

lemma linesAre_crowdsourcers:
  assumes "linesAre (\<lambda>a. orZero (map_of fees a)) irs [] (snd s)"
  shows "foldE (addCrowdsourcer fees) s crs = Inr t \<Longrightarrow>
     linesAre (\<lambda>a. orZero (map_of fees a)) irs crs (snd t)"
proof (induction crs arbitrary: t rule: rev_induct)
  case Nil
  then show ?case using assms by auto
next
  case (snoc c crs)
  then show ?case by (auto simp: foldE_snoc bindE_eq_Inr intro: linesAre_crowdsourcer)
qed

lemma formatMarketInfo_lines:
  assumes "formatMarketInfo irs crs forked pf = Inr (forked', ms)"
  shows "\<exists>keyed. ms = map snd keyed \<and> linesAre (feesFor irs crs pf) irs crs keyed"
proof -
  obtain s t where s: "foldE (addInitialReporter (feesByParticipant irs crs pf))
        (map_option (\<lambda>f. f\<lparr>fk_crowdsourcers := []\<rparr>) forked, []) irs = Inr s"
    and t: "foldE (addCrowdsourcer (feesByParticipant irs crs pf)) s crs = Inr t"
    and ms: "ms = dictValues (snd t)"
    using assms by (auto simp: formatMarketInfo_def Let_def bindE_eq_Inr)
  have "linesAre (feesFor irs crs pf) irs crs (snd t)"
    using linesAre_crowdsourcers [OF linesAre_reports [OF s] t] by (simp add: feesByParticipant_eq)
  with ms show ?thesis by (auto simp: dictValues_def)
qed

text \<open>Claims are added to the line of their market.\<close>

definition withClaims :: "ClaimableMarket list \<Rightarrow> NonforkedMarket \<Rightarrow> NonforkedMarket" where
  "withClaims claims m =
     (let own = filter (\<lambda>c. cm_marketId c = nf_marketId m) claims in
      if own = [] then m
      else m\<lparr>nf_unclaimedRepTotal := Some
        ((case nf_unclaimedRepTotal m of Some t \<Rightarrow> t | None \<Rightarrow> 0) + (\<Sum>c\<leftarrow>own. cm_unclaimedRepTotal c))\<rparr>)"

lemma withClaims_id [simp]: "nf_marketId (withClaims claims m) = nf_marketId m"
  by (simp add: withClaims_def Let_def)

lemma withClaims_one:
  "withClaims [c] m = (if nf_marketId m = cm_marketId c
     then m\<lparr>nf_unclaimedRepTotal := Some
       ((case nf_unclaimedRepTotal m of Some t \<Rightarrow> t | None \<Rightarrow> 0) + cm_unclaimedRepTotal c)\<rparr>
     else m)"
  by (simp add: withClaims_def)

lemma addClaimable_map:
  "distinct (map nf_marketId ms) \<Longrightarrow> addClaimable ms c = map (withClaims [c]) ms"
proof (induction ms)
  case (Cons m ms)
  have "map (withClaims [c]) ms = ms" if "nf_marketId m = cm_marketId c"
    using that Cons.prems by (intro map_idI) (force simp: withClaims_one)
  with Cons show ?case by (auto simp: withClaims_one [of c m])
qed simp

lemma withClaims_snoc: "withClaims [c] (withClaims claims m) = withClaims (claims @ [c]) m"
  by (auto simp: withClaims_def Let_def)

lemma addClaimable_folded:
  assumes "distinct (map nf_marketId ms)"
  shows "foldl addClaimable ms claims = map (withClaims claims) ms"
proof (induction claims rule: rev_induct)
  case Nil
  show ?case by (simp add: withClaims_def)
next
  case (snoc c claims)
  have "distinct (map nf_marketId (map (withClaims claims) ms))"
    using assms by (simp add: comp_def)
  then show ?case using snoc by (simp add: addClaimable_map withClaims_snoc)
qed

text \<open>
  C28. The lines of markets that \<open>getReportingFees\<close> returns: there is one for each market with a row that
  does not fork, and no other. It lists all crowdsourcers of the market in order; its initial reporter is
  that of the last report; its claim is the sum of the claims of the stake rows of the market, each rounded
  down. Its fees, however, are those of the initial reporter and of the last crowdsourcer only, and whether
  the crowdsourcers are disavowed is what the last one says.
\<close>

theorem market_lines:
  assumes "bn_division dv"
    and "formatMarketInfo irs crs forked pf = Inr (forked', ms)"
    and "stakedRepResults dv crowds reporters ms = (totals, lines)"
  shows "distinct (map nf_marketId lines) \<and>
    nf_marketId ` set lines = {ui_marketId r |r. r \<in> set irs \<and> ui_forking r = 0}
      \<union> {uc_marketId c |c. c \<in> set crs \<and> uc_forking c = 0} \<and>
    (\<forall>m \<in> set lines. m = withClaims (reporterClaims dv crowds reporters)
       (marketLine (feesFor irs crs pf) (nf_marketId m)
         (reportsIn (nf_marketId m) irs) (crowdsourcersIn (nf_marketId m) crs)))"
proof -
  obtain keyed where ms: "ms = map snd keyed" and are: "linesAre (feesFor irs crs pf) irs crs keyed"
    using formatMarketInfo_lines [OF assms(2)] by auto
  let ?line = "\<lambda>k. marketLine (feesFor irs crs pf) k (reportsIn k irs) (crowdsourcersIn k crs)"
  have dist: "distinct (map fst keyed)"
    and lookup: "\<And>k. map_of keyed k = lineOf (feesFor irs crs pf) irs crs k"
    using are by (simp_all add: linesAre_def)
  have entry: "m = ?line k" if "(k, m) \<in> set keyed" for k m
    using lookup [of k] map_of_is_SomeI [OF dist that] by (simp add: lineOf_def split: if_splits)
  have ids: "map nf_marketId ms = map fst keyed"
    unfolding ms map_map by (rule map_cong) (auto dest!: entry simp: marketLine_def)
  have lines: "lines = map (withClaims (reporterClaims dv crowds reporters)) ms"
    using stakedRepResults_eq [OF assms(1), of crowds reporters ms] assms(3) dist ids
    by (auto simp: addClaimable_folded)
  have "map nf_marketId lines = map fst keyed"
    by (simp add: lines comp_def ids [symmetric])
  moreover have "fst ` set keyed = {ui_marketId r |r. r \<in> set irs \<and> ui_forking r = 0}
      \<union> {uc_marketId c |c. c \<in> set crs \<and> uc_forking c = 0}"
  proof -
    have "k \<in> fst ` set keyed \<longleftrightarrow> reportsIn k irs \<noteq> [] \<or> crowdsourcersIn k crs \<noteq> []" for k
      using lookup [of k] map_of_eq_None_iff [of keyed k] by (simp add: lineOf_def split: if_splits)
    then have mem: "k \<in> fst ` set keyed \<longleftrightarrow> (\<exists>r. r \<in> set irs \<and> ui_forking r = 0 \<and> ui_marketId r = k) \<or>
        (\<exists>c. c \<in> set crs \<and> uc_forking c = 0 \<and> uc_marketId c = k)" for k
      by (simp add: reportsIn_def crowdsourcersIn_def filter_empty_conv Bex_def)
    show ?thesis by (rule set_eqI) (simp only: mem Un_iff mem_Collect_eq, blast)
  qed
  moreover have "m = withClaims (reporterClaims dv crowds reporters) (?line (nf_marketId m))"
    if m: "m \<in> set lines" for m
  proof -
    obtain k l where "(k, l) \<in> set keyed" "m = withClaims (reporterClaims dv crowds reporters) l"
      using m by (auto simp: lines ms)
    then show ?thesis using entry [of k l] by (simp add: marketLine_def)
  qed
  ultimately show ?thesis using dist by (metis (no_types, lifting) image_set)
qed

text \<open>The only error: a row forks although the universe has no forking market.\<close>

lemma addInitialReporter_error:
  "(\<exists>e. addInitialReporter fees s r = Inl e) \<longleftrightarrow> fst s = None \<and> ui_forking r \<noteq> 0"
  by (cases s) (auto simp: addInitialReporter_def split: option.splits)

lemma addCrowdsourcer_error:
  "(\<exists>e. addCrowdsourcer fees s c = Inl e) \<longleftrightarrow> fst s = None \<and> uc_forking c \<noteq> 0"
  by (cases s) (auto simp: addCrowdsourcer_def split: option.splits)

lemma addInitialReporter_kept: "addInitialReporter fees s r = Inr t \<Longrightarrow> (fst t = None) = (fst s = None)"
  by (cases s) (auto simp: addInitialReporter_def Let_def split: if_splits option.splits)

lemma addCrowdsourcer_kept: "addCrowdsourcer fees s c = Inr t \<Longrightarrow> (fst t = None) = (fst s = None)"
  by (cases s) (auto simp: addCrowdsourcer_def Let_def split: if_splits option.splits)

lemma foldE_errors:
  assumes "\<And>s x t. f s x = Inr t \<Longrightarrow> N t = N s"
    and "\<And>s x. (\<exists>e. f s x = Inl e) \<longleftrightarrow> N s \<and> Q x"
  shows "(\<exists>e. foldE f s xs = Inl e) \<longleftrightarrow> N s \<and> (\<exists>x \<in> set xs. Q x)"
    and "foldE f s xs = Inr t \<Longrightarrow> N t = N s"
proof -
  show "(\<exists>e. foldE f s xs = Inl e) \<longleftrightarrow> N s \<and> (\<exists>x \<in> set xs. Q x)"
  proof (induction xs arbitrary: s)
    case (Cons x xs)
    show ?case
    proof (cases "f s x")
      case (Inl e)
      then show ?thesis using assms(2) [of s x] by auto
    next
      case (Inr u)
      then show ?thesis using assms(2) [of s x] assms(1) [OF Inr] Cons.IH [of u] by auto
    qed
  qed simp
  show "foldE f s xs = Inr t \<Longrightarrow> N t = N s"
    by (induction xs arbitrary: s) (auto simp: bindE_eq_Inr dest: assms(1))
qed

lemma formatMarketInfo_error:
  "(\<exists>e. formatMarketInfo irs crs forked pf = Inl e) \<longleftrightarrow>
     forked = None \<and> ((\<exists>r \<in> set irs. ui_forking r \<noteq> 0) \<or> (\<exists>c \<in> set crs. uc_forking c \<noteq> 0))"
proof -
  let ?fees = "feesByParticipant irs crs pf"
  let ?s = "(map_option (\<lambda>f. f\<lparr>fk_crowdsourcers := []\<rparr>) forked, [])"
  note reports = foldE_errors [where f = "addInitialReporter ?fees" and N = "\<lambda>s. fst s = None" and Q = "\<lambda>r. ui_forking r \<noteq> 0",
    OF addInitialReporter_kept addInitialReporter_error, where s = ?s and xs = irs]
  note crowds = foldE_errors [where f = "addCrowdsourcer ?fees" and N = "\<lambda>s. fst s = None" and Q = "\<lambda>c. uc_forking c \<noteq> 0",
    OF addCrowdsourcer_kept addCrowdsourcer_error]
  show ?thesis
  proof (cases "foldE (addInitialReporter ?fees) ?s irs")
    case (Inl e)
    then show ?thesis using reports(1) by (auto simp: formatMarketInfo_def)
  next
    case (Inr s)
    have "(\<exists>e. formatMarketInfo irs crs forked pf = Inl e) \<longleftrightarrow>
        (\<exists>e. foldE (addCrowdsourcer ?fees) s crs = Inl e)"
      using Inr by (cases "foldE (addCrowdsourcer ?fees) s crs") (auto simp: formatMarketInfo_def)
    then show ?thesis using crowds(1) [where s = s and xs = crs] reports Inr by auto
  qed
qed

section \<open>No fee exceeds the cash it is paid from\<close>

text \<open>
  What \<open>Tokens\<close> proves of the ledger of transfers, mints and burns (\<open>ledger_adds_up\<close>), for the tokens this
  getter looks at; stake is not negative.
\<close>

definition reportingToken :: "db \<Rightarrow> address \<Rightarrow> bool" where
  "reportingToken d t \<longleftrightarrow>
     (\<exists>f \<in> set (t_fee_windows d). t = fw_feeWindow f) \<or>
     (\<exists>c \<in> set (t_crowdsourcers d). t = cs_crowdsourcerId c) \<or>
     (\<exists>k \<in> set (t_tokens d). tk_contractAddress k = t \<and> tk_symbol k = ''FeeToken'')"

definition ledger_sound :: "db \<Rightarrow> bool" where
  "ledger_sound d \<longleftrightarrow> (\<forall>b \<in> set (t_balances d). 0 \<le> bl_balance b) \<and>
     distinct (map ts_token (t_token_supply d)) \<and> (\<forall>s \<in> set (t_token_supply d). 0 \<le> ts_supply s) \<and>
     (\<forall>r \<in> set (t_initial_reports d). 0 \<le> ir_amountStaked r) \<and>
     (\<forall>t. reportingToken d t \<longrightarrow>
       orZero (supplyOf d (Some t)) = (\<Sum>b\<leftarrow>filter (\<lambda>b. bl_token b = t) (t_balances d). bl_balance b))"

definition cashOf :: "address \<Rightarrow> db \<Rightarrow> address option \<Rightarrow> bn" where
  "cashOf cash d owner = orZero (balanceOf d owner cash)"

lemma cashOf_nonneg: "ledger_sound d \<Longrightarrow> 0 \<le> cashOf cash d owner"
  by (auto simp: cashOf_def balanceOf_def orZero_def ledger_sound_def find_Some_iff split: option.splits)

lemma supply_nonneg:
  assumes "ledger_sound d"
  shows "0 \<le> orZero (supplyOf d t)"
  using assms by (auto simp: ledger_sound_def supplyOf_def orZero_def find_Some_iff split: option.splits)

lemma balance_le_supply:
  assumes "ledger_sound d" "b \<in> set (t_balances d)" "reportingToken d (bl_token b)"
  shows "bl_balance b \<le> orZero (supplyOf d (Some (bl_token b)))"
proof -
  let ?bs = "filter (\<lambda>a. bl_token a = bl_token b) (t_balances d)"
  have "bl_balance b \<le> sum_list (map bl_balance ?bs)"
    by (rule member_le_sum_list) (use assms in \<open>auto simp: ledger_sound_def\<close>)
  then show ?thesis using assms(1,3) by (simp add: ledger_sound_def)
qed

lemma supplyOf_row:
  assumes "ledger_sound d" "p \<in> set (t_token_supply d)"
  shows "supplyOf d (Some (ts_token p)) = Some (ts_supply p)"
proof -
  have "find (\<lambda>s. ts_token s = ts_token p) ps = Some p"
    if "distinct (map ts_token ps)" "p \<in> set ps" for ps
    using that by (induction ps) auto
  then show ?thesis using assms by (simp add: supplyOf_def ledger_sound_def)
qed

text \<open>A share of a non-negative amount.\<close>

lemma share_bounds:
  assumes "bn_division dv" "0 \<le> a" "a \<le> b" "0 \<le> c"
  shows "0 \<le> (if b = 0 then 0 else dv a b) * c" "(if b = 0 then 0 else dv a b) * c \<le> c"
proof -
  have "0 \<le> (if b = 0 then 0 else dv a b) \<and> (if b = 0 then 0 else dv a b) \<le> 1"
    using assms bn_division.dv_nonneg [OF assms(1), of a b] bn_division.dv_upper [OF assms(1), of b 1 a]
    by (auto simp: divide_le_eq)
  then show "0 \<le> (if b = 0 then 0 else dv a b) * c" "(if b = 0 then 0 else dv a b) * c \<le> c"
    using assms(4) mult_left_le_one_le [of c "if b = 0 then 0 else dv a b"] by (auto simp: mult.commute)
qed

lemma participation_fee_bounds:
  assumes "bn_division dv" "ledger_sound d"
    and "e \<in> set (map (participationTokenEthFee dv) (participationTokenRows cash reporter universe d))"
  shows "0 \<le> pk_ethFees e \<and> pk_ethFees e \<le> cashOf cash d (Some (pk_feeWindow e))"
proof -
  obtain f b where fb: "f \<in> set (t_fee_windows d)" "b \<in> set (t_balances d)" "bl_token b = fw_feeWindow f"
    and e: "e = participationTokenEthFee dv \<lparr>pe_feeWindow = fw_feeWindow f,
       pe_participationTokens = bl_balance b,
       pe_feeTokenSupply = orZero (supplyOf d (Some (fw_feeToken f))),
       pe_participationTokenSupply = orZero (supplyOf d (Some (fw_feeWindow f))),
       pe_cashFeeWindow = orZero (balanceOf d (Some (fw_feeWindow f)) cash)\<rparr>"
    using assms(3) by (auto simp: participationTokenRows_def)
  have t: "reportingToken d (fw_feeWindow f)"
    using fb(1) by (auto simp: reportingToken_def)
  have "0 \<le> bl_balance b" using fb(2) assms(2) by (simp add: ledger_sound_def)
  moreover have "bl_balance b \<le>
      orZero (supplyOf d (Some (fw_feeToken f))) + orZero (supplyOf d (Some (fw_feeWindow f)))"
    using balance_le_supply [OF assms(2) fb(2)] supply_nonneg [OF assms(2), of "Some (fw_feeToken f)"] t fb(3) by simp
  ultimately show ?thesis
    using share_bounds [OF assms(1) _ _ cashOf_nonneg [OF assms(2)]]
    by (simp add: e participationTokenEthFee_def Let_def cashOf_def)
qed

text \<open>What a row of the participants query is: its balances are covered.\<close>

definition coveredRow :: "address \<Rightarrow> db \<Rightarrow> ParticipantEthFeeRow \<Rightarrow> bool" where
  "coveredRow cash d r \<longleftrightarrow> 0 \<le> pf_reporterBalance r \<and> pf_reporterBalance r \<le> pf_participantSupply r \<and>
     pf_participantSupply r \<noteq> 0 \<and> 0 \<le> pf_feeTokenBalance r \<and>
     pf_feeTokenBalance r \<le> pf_feeTokenSupply r + pf_participationTokenSupply r \<and>
     pf_cashFeeWindow r = cashOf cash d (pf_feeWindow r) \<and>
     pf_cashParticipant r = cashOf cash d (Some (pf_participantAddress r))"

lemma fee_bounds:
  assumes "bn_division dv" "ledger_sound d" "coveredRow cash d r"
  shows "0 \<le> ef_ethFees (feeOnWindow dv r) \<and> ef_ethFees (feeOnWindow dv r) \<le> cashOf cash d (pf_feeWindow r)"
    and "0 \<le> ef_ethFees (feeOnParticipant dv r) \<and>
      ef_ethFees (feeOnParticipant dv r) \<le> cashOf cash d (Some (pf_participantAddress r))"
proof -
  note c = assms(3) [unfolded coveredRow_def]
  note inner = share_bounds [OF assms(1), of "pf_feeTokenBalance r" _ "pf_cashFeeWindow r"]
  note outer = share_bounds [OF assms(1), of "pf_reporterBalance r" "pf_participantSupply r"]
  show "0 \<le> ef_ethFees (feeOnWindow dv r) \<and> ef_ethFees (feeOnWindow dv r) \<le> cashOf cash d (pf_feeWindow r)"
    using outer [OF _ _ inner(1)] inner(2) cashOf_nonneg [OF assms(2)] c
    by (force simp: feeOnWindow_def Let_def intro: order_trans)
  show "0 \<le> ef_ethFees (feeOnParticipant dv r) \<and>
      ef_ethFees (feeOnParticipant dv r) \<le> cashOf cash d (Some (pf_participantAddress r))"
    using outer [OF _ _ cashOf_nonneg [OF assms(2)]] c
    by (simp add: feeOnParticipant_def)
qed

lemma participants_covered:
  assumes "ledger_sound d" "p \<in> set (all_participants d)"
  shows "0 \<le> pa_reporterBalance p \<and> pa_reporterBalance p \<le> pa_participantSupply p"
proof (cases "p \<in> set (initialReportParticipants d)")
  case True
  then show ?thesis using assms(1) by (auto simp: ledger_sound_def initialReportParticipants_def)
next
  case False
  then have "p \<in> set (crowdsourcerParticipants d)" using assms(2) by (simp add: all_participants_def)
  then obtain c a s where row: "c \<in> set (t_crowdsourcers d)" "a \<in> set (t_balances d)"
      "s \<in> set (t_token_supply d)" "bl_token a = cs_crowdsourcerId c" "ts_token s = cs_crowdsourcerId c"
    and p: "pa_reporterBalance p = bl_balance a" "pa_participantSupply p = ts_supply s"
    by (auto simp: crowdsourcerParticipants_def)
  have "0 \<le> bl_balance a" using row(2) assms(1) by (simp add: ledger_sound_def)
  moreover have "bl_balance a \<le> ts_supply s"
    using balance_le_supply [OF assms(1) row(2)] supplyOf_row [OF assms(1) row(3)] row
    by (auto simp: reportingToken_def orZero_def)
  ultimately show ?thesis by (simp add: p)
qed

text \<open>A fee token in the balances of a participant.\<close>

lemma fee_token_covered:
  assumes "ledger_sound d" "b \<in> set (balances_detail d)" "bd_symbol b = Some ''FeeToken''"
  shows "0 \<le> bd_balance b \<and> bd_balance b \<le> orZero (bd_supply b)"
proof -
  obtain a where a: "a \<in> set (t_balances d)"
    and b: "b = (case find (\<lambda>t. tk_contractAddress t = bl_token a) (t_tokens d) of
       Some t \<Rightarrow> \<lparr>bd_token = Some (tk_contractAddress t), bd_symbol = Some (tk_symbol t),
         bd_marketId = tk_marketId t, bd_outcome = tk_outcome t, bd_feeWindow = tk_feeWindow t,
         bd_owner = bl_owner a, bd_balance = bl_balance a,
         bd_supply = supplyOf d (Some (tk_contractAddress t))\<rparr>
     | None \<Rightarrow> \<lparr>bd_token = None, bd_symbol = None, bd_marketId = None, bd_outcome = None,
         bd_feeWindow = None, bd_owner = bl_owner a, bd_balance = bl_balance a, bd_supply = None\<rparr>)"
    using assms(2) by (auto simp: balances_detail_def)
  then obtain t where t: "find (\<lambda>t. tk_contractAddress t = bl_token a) (t_tokens d) = Some t"
      "tk_symbol t = ''FeeToken''" using assms(3) by (auto split: option.splits)
  then have "t \<in> set (t_tokens d)" "tk_contractAddress t = bl_token a" by (auto simp: find_Some_iff)
  then have "reportingToken d (bl_token a)" using t(2) by (auto simp: reportingToken_def)
  then show ?thesis
    using balance_le_supply [OF assms(1) a] a assms(1) t(1) \<open>tk_contractAddress t = bl_token a\<close>
    by (auto simp: b ledger_sound_def)
qed

lemma rows_covered:
  assumes "ledger_sound d" "r \<in> set (participantRows cash reporter universe d)"
  shows "coveredRow cash d r"
proof -
  define row where "row = (\<lambda>(p :: participant_row) window bal sup.
     \<lparr>pf_participantAddress = pa_participantAddress p, pf_feeWindow = window,
      pf_reporterBalance = pa_reporterBalance p, pf_participantSupply = pa_participantSupply p,
      pf_forking = pa_forking p, pf_feeTokenBalance = orZero bal,
      pf_feeTokenSupply = orZero sup, pf_cashFeeWindow = orZero (balanceOf d window cash),
      pf_cashParticipant = orZero (balanceOf d (Some (pa_participantAddress p)) cash),
      pf_participationTokenSupply = orZero (supplyOf d window)\<rparr>)"
  have r: "\<exists>p \<in> set (all_participants d). pa_participantSupply p \<noteq> 0 \<and>
      (r = row p None None None \<or>
       (\<exists>b \<in> set (balances_detail d). bd_symbol b = Some ''FeeToken'' \<and>
          r = row p (bd_feeWindow b) (Some (bd_balance b)) (bd_supply b)))"
    using assms(2) by (auto simp: participantRows_def row_def Let_def split: if_splits)
  have cover: "coveredRow cash d (row p window bal sup)"
    if "p \<in> set (all_participants d)" "pa_participantSupply p \<noteq> 0"
      "0 \<le> orZero bal" "orZero bal \<le> orZero sup" for p window bal sup
    using participants_covered [OF assms(1) that(1)] that supply_nonneg [OF assms(1), of window]
    by (simp add: coveredRow_def row_def cashOf_def)
  have [simp]: "orZero None = 0" "orZero (Some x) = x" for x by (simp_all add: orZero_def)
  from r show ?thesis
    using cover fee_token_covered [OF assms(1)] by fastforce
qed

lemma keyBy_values: "v \<in> set (dictValues (keyBy f xs)) \<Longrightarrow> v \<in> set xs"
proof (induction xs arbitrary: v rule: rev_induct)
  case (snoc x xs)
  have "snd ` set (dictSet k x d) \<subseteq> insert x (snd ` set d)" for k d
    by (induction k x d rule: dictSet.induct) auto
  with snoc show ?case by (fastforce simp: keyBy_def dictValues_def)
qed (simp add: keyBy_def dictValues_def)

definition payer :: "ParticipantEthFee \<Rightarrow> address option" where
  "payer e = (case ef_feeWindow e of Some window \<Rightarrow> Some window | None \<Rightarrow> Some (ef_participantAddress e))"

text \<open>
  C29. Every fee that \<open>getReportingFees\<close> lists is between zero and the cash it is paid from: that of the fee
  window, or of the participant contract itself. This needs the ledger to be sound, as \<open>Tokens\<close> proves:
  no balance is negative and the supply of a token is the sum of its balances; then no share exceeds one.
\<close>

theorem fees_within_cash:
  assumes "bn_division dv" "ledger_sound (tables w)"
    and "getParticipantEthFees dv cash reporter universe w = (Inr shares, w1)"
    and "getParticipationTokenEthFees dv cash reporter universe w = (Inr tokenFees, w2)"
  shows "(\<forall>e \<in> set shares. 0 \<le> ef_ethFees e \<and> ef_ethFees e \<le> cashOf cash (tables w) (payer e)) \<and>
    (\<forall>e \<in> set tokenFees. 0 \<le> pk_ethFees e \<and> pk_ethFees e \<le> cashOf cash (tables w) (Some (pk_feeWindow e)))"
proof -
  let ?rows = "participantRows cash reporter universe (tables w)"
  have "0 \<le> ef_ethFees e \<and> ef_ethFees e \<le> cashOf cash (tables w) (payer e)"
    if "e \<in> feeOnWindow dv ` set ?rows \<union> feeOnParticipant dv ` set ?rows" for e
  proof -
    from that obtain r where r: "r \<in> set ?rows" "e = feeOnWindow dv r \<or> e = feeOnParticipant dv r" by auto
    have none: "cashOf cash (tables w) None \<le> cashOf cash (tables w) a" for a
    proof -
      have "balanceOf (tables w) None cash = None" by (simp add: balanceOf_def find_None_iff)
      then show ?thesis using cashOf_nonneg [OF assms(2), of cash a] by (simp add: cashOf_def orZero_def)
    qed
    note b = fee_bounds [OF assms(1,2) rows_covered [OF assms(2) r(1)]]
    have fields: "ef_feeWindow (feeOnWindow dv r) = pf_feeWindow r" "ef_feeWindow (feeOnParticipant dv r) = None"
      "ef_participantAddress (feeOnParticipant dv r) = pf_participantAddress r"
      by (simp_all add: feeOnWindow_def feeOnParticipant_def Let_def)
    show ?thesis
    proof (cases "pf_feeWindow r")
      case None
      then show ?thesis
        using r(2) b none [of "Some (ef_participantAddress (feeOnWindow dv r))"]
        by (auto simp: payer_def fields)
    next
      case (Some window)
      then show ?thesis using r(2) b by (auto simp: payer_def fields)
    qed
  qed
  moreover have "set shares \<subseteq> feeOnWindow dv ` set ?rows \<union> feeOnParticipant dv ` set ?rows"
    using assms(3) keyBy_values [of _ pf_participantAddress ?rows]
    by (auto simp: getParticipantEthFees_def participantFees_def gets_def)
  moreover have "tokenFees = map (participationTokenEthFee dv)
      (participationTokenRows cash reporter universe (tables w))"
    using assms(4) by (auto simp: getParticipationTokenEthFees_def gets_def)
  ultimately show ?thesis
    using participation_fee_bounds [OF assms(1,2)] by auto
qed

section \<open>Examples\<close>

definition lost_row :: FeeWindowCompletionStakeRow where
  "lost_row = \<lparr>fs_amountStaked = Some 4, fs_winning = Some 0, fs_disavowed = 1, fs_needsDisavowal = 0,
     fs_completed = Some 1, fs_forking = 0, fs_marketId = ''m''\<rparr>"

definition won_row :: FeeWindowCompletionStakeRow where
  "won_row = \<lparr>fs_amountStaked = Some 6, fs_winning = Some 1, fs_disavowed = 0, fs_needsDisavowal = 0,
     fs_completed = Some 1, fs_forking = 0, fs_marketId = ''m''\<rparr>"

definition report_row :: InitialReporterStakeRow where
  "report_row = \<lparr>is_amountStaked = 2, is_winning = Some 1, is_forking = 0, is_marketId = ''m''\<rparr>"

lemma half_of: "bn_div 6 2 = 3" "bn_div 2 2 = 1" "bn_div 0 2 = 0"
  using bn.dv_exact [of 2 6] bn.dv_exact [of 2 2] bn.dv_zero [of 2] by simp_all

lemmas stake_examples = lost_row_def won_row_def report_row_def flag_def isDisavowed_def orZero_def

lemma sample_stake:
  "stakedRepResults bn_div [lost_row, won_row] [report_row] [] =
     (\<lparr>rr_unclaimedRepStaked = 12, rr_unclaimedRepEarned = 4, rr_lostRep = 4,
       rr_unclaimedForkRepStaked = 0\<rparr>, [])"
  by (simp add: stakedRepResults_def addCrowdsourcerStake_def addInitialReporterStake_def noStake_def
    stake_examples half_of Let_def)

text \<open>The lost stake of 4 of a disavowed crowdsourcer is counted as recoverable and as lost.\<close>

theorem stake_is_classified_witness:
  "\<exists>totals. stakedRepResults bn_div [lost_row, won_row] [report_row] [] = (totals, []) \<and>
    accounted totals = (4 + 6) + 2 + 4 \<and> rr_unclaimedRepEarned totals = 3 + 1"
proof -
  have "filter countedTwice [lost_row, won_row] = [lost_row]" "filter countedNowhere [lost_row, won_row] = []"
    "filter earnsHalf [lost_row, won_row] = [won_row]"
    "filter (reporterEarnsHalf [lost_row, won_row]) [report_row] = [report_row]"
    by (simp_all add: countedTwice_def countedNowhere_def earnsHalf_def reporterEarnsHalf_def stake_examples)
  then show ?thesis
    using stake_is_classified [OF bn.bn_division_axioms sample_stake] sample_stake
    by (intro exI conjI) (assumption, simp_all add: half_of lost_row_def won_row_def report_row_def orZero_def)
qed

definition sample_crowdsourcer :: "address \<Rightarrow> UnclaimedCrowdsourcerRow" where
  "sample_crowdsourcer c = \<lparr>uc_crowdsourcerId = c, uc_disavowed = 0, uc_marketId = ''m'', uc_universe = ''u'',
     uc_reportingState = FINALIZED, uc_forking = 0, uc_needsMigration = 0, uc_amountStaked = 1\<rparr>"

definition sample_fee :: "address \<Rightarrow> bn \<Rightarrow> ParticipantEthFee" where
  "sample_fee c x = \<lparr>ef_feeWindow = None, ef_participantAddress = c, ef_fork = 0, ef_ethFees = x\<rparr>"

definition sample_line :: NonforkedMarket where
  "sample_line = \<lparr>nf_marketId = ''m'', nf_universe = ''u'', nf_crowdsourcersAreDisavowed = False,
     nf_isFinalized = True, nf_isMigrated = True, nf_crowdsourcers = [''a'', ''b''],
     nf_initialReporter = None, nf_unclaimedRepTotal = None, nf_unclaimedEthFees = Some 7\<rparr>"

lemma sample_lines:
  "formatMarketInfo [] [sample_crowdsourcer ''a'', sample_crowdsourcer ''b''] None
     [sample_fee ''a'' 5, sample_fee ''b'' 7] = Inr (None, [sample_line])"
  by (simp add: formatMarketInfo_def feesByParticipant_def addFees_def feesOf_def sample_crowdsourcer_def
    sample_fee_def sample_line_def addCrowdsourcer_def orZero_def toFixedDown_def dictValues_def Let_def)

text \<open>Of the fees of 5 and 7 of two crowdsourcers of a market, only 7 are shown.\<close>

theorem market_lines_witness:
  "\<exists>totals lines. stakedRepResults bn_div [] [] [sample_line] = (totals, lines) \<and>
    nf_marketId ` set lines = {''m''} \<and>
    (\<forall>m \<in> set lines. nf_unclaimedEthFees m = Some 7 \<and> nf_crowdsourcers m = [''a'', ''b''])"
proof -
  obtain totals lines where run: "stakedRepResults bn_div [] [] [sample_line] = (totals, lines)"
    by (cases "stakedRepResults bn_div [] [] [sample_line]")
  have ids: "{uc_marketId c |c. c \<in> set [sample_crowdsourcer ''a'', sample_crowdsourcer ''b''] \<and>
      uc_forking c = 0} = {''m''}"
    by (auto simp: sample_crowdsourcer_def intro!: exI [of _ "sample_crowdsourcer ''a''"])
  have l: "nf_marketId ` set lines = {''m''}"
    "\<forall>m \<in> set lines. m = withClaims (reporterClaims bn_div [] [])
       (marketLine (feesFor [] [sample_crowdsourcer ''a'', sample_crowdsourcer ''b'']
           [sample_fee ''a'' 5, sample_fee ''b'' 7]) (nf_marketId m) []
         (crowdsourcersIn (nf_marketId m) [sample_crowdsourcer ''a'', sample_crowdsourcer ''b'']))"
    using market_lines [OF bn.bn_division_axioms sample_lines run] unfolding ids
    by (simp_all add: reportsIn_def)
  have "nf_unclaimedEthFees m = Some 7 \<and> nf_crowdsourcers m = [''a'', ''b'']" if m: "m \<in> set lines" for m
  proof -
    have "nf_marketId m = ''m''" using l(1) m by blast
    with l(2) m have "m = withClaims (reporterClaims bn_div [] [])
       (marketLine (feesFor [] [sample_crowdsourcer ''a'', sample_crowdsourcer ''b'']
           [sample_fee ''a'' 5, sample_fee ''b'' 7]) ''m'' []
         (crowdsourcersIn ''m'' [sample_crowdsourcer ''a'', sample_crowdsourcer ''b'']))"
      by metis
    moreover have "withClaims (reporterClaims bn_div [] []) l = l" for l
      by (simp add: withClaims_def reporterClaims_def)
    ultimately show ?thesis
      by (simp add: marketLine_def crowdsourcersIn_def sample_crowdsourcer_def feesFor_def feesOf_def
        sample_fee_def toFixedDown_def)
  qed
  with run l(1) show ?thesis by blast
qed

definition fee_world :: world where
  "fee_world = empty_world\<lparr>tables := empty_db
     \<lparr>t_fee_windows := [\<lparr>fw_feeWindow = ''f'', fw_feeWindowId = 1, fw_universe = ''u'', fw_startTime = 0,
        fw_endTime = 1, fw_state = PAST, fw_fees = 0, fw_feeToken = ''ft''\<rparr>],
      t_balances := [\<lparr>bl_owner = ''alice'', bl_token = ''f'', bl_balance = 4\<rparr>,
        \<lparr>bl_owner = ''bob'', bl_token = ''f'', bl_balance = 6\<rparr>,
        \<lparr>bl_owner = ''f'', bl_token = ''cash'', bl_balance = 100\<rparr>],
      t_token_supply := [\<lparr>ts_token = ''f'', ts_supply = 10\<rparr>]\<rparr>\<rparr>"

lemma fee_world_sound: "ledger_sound (tables fee_world)"
  by (auto simp: ledger_sound_def reportingToken_def fee_world_def empty_db_def supplyOf_def orZero_def)

lemma fee_world_fees:
  "getParticipantEthFees bn_div ''cash'' ''alice'' ''u'' fee_world = (Inr [], fee_world)"
  "getParticipationTokenEthFees bn_div ''cash'' ''alice'' ''u'' fee_world =
     (Inr [\<lparr>pk_feeWindow = ''f'', pk_ethFees = 40, pk_participationTokens = 4\<rparr>], fee_world)"
proof -
  have "bn_div 4 10 = 2 / 5"
    using bn.dv_exact [of 10 4] decimals_mono [of 1 "2 / 5" 20] decimals_of_int [of 1 4]
    by (simp add: decimals_def)
  then show "getParticipationTokenEthFees bn_div ''cash'' ''alice'' ''u'' fee_world =
     (Inr [\<lparr>pk_feeWindow = ''f'', pk_ethFees = 40, pk_participationTokens = 4\<rparr>], fee_world)"
    by (simp add: getParticipationTokenEthFees_def gets_def participationTokenRows_def fee_world_def
      empty_db_def participationTokenEthFee_def supplyOf_def balanceOf_def orZero_def Let_def)
  show "getParticipantEthFees bn_div ''cash'' ''alice'' ''u'' fee_world = (Inr [], fee_world)"
    by (simp add: getParticipantEthFees_def gets_def participantRows_def all_participants_def
      initialReportParticipants_def crowdsourcerParticipants_def fee_world_def empty_world_def empty_db_def
      distinctRows_def participantFees_def keyBy_def dictValues_def)
qed

theorem fees_within_cash_witness:
  "\<exists>fees. getParticipationTokenEthFees bn_div ''cash'' ''alice'' ''u'' fee_world = (Inr fees, fee_world) \<and>
    fees \<noteq> [] \<and> (\<forall>e \<in> set fees. 0 \<le> pk_ethFees e \<and> pk_ethFees e \<le> 100)"
proof -
  have "cashOf ''cash'' (tables fee_world) (Some ''f'') = 100"
    by (simp add: cashOf_def balanceOf_def orZero_def fee_world_def empty_db_def)
  then show ?thesis
    using fees_within_cash [OF bn.bn_division_axioms fee_world_sound fee_world_fees] fee_world_fees(2) by simp
qed

end
