(* ===== verification/Getter_Queries.thy ===== *)
theory Getter_Queries
  imports Database Lodash "HOL-Library.List_Lexorder" "HOL-Library.Char_ord" "HOL-Library.Multiset"
begin

text \<open>
  \<open>src/server/getters/database.ts\<close>: what the getters share. Sorting and paging of a query's rows, in the
  database or, for the columns of \<open>src/server/post-process-database-results.ts\<close> that hold big numbers, in
  the program; trading histories (with \<open>get-trading-history.ts\<close>); blocks of a timestamp; payouts; the
  filter on the initial stake; lookups in batches.

  \<^item> The value of a column is \<open>sql_value\<close>, ordered as SQLite orders (null, numbers, text). A query comes as its
    rows and the columns it can be sorted by; any other name is an error of the database. Ties keep the
    order of the rows, which both the database and \<open>Array.sort\<close> leave open.
  \<^item> \<open>Array.sort\<close> is insertion sort with a comparison that may throw, as V8 does it on short arrays; with a
    consistent comparison (the case of the theorems) every sort gives the same result up to ties.
  \<^item> Limits and offsets are natural numbers.
\<close>

section \<open>Values of columns\<close>

datatype sql_value = SqlNull | SqlNum rat | SqlText string

fun sql_le :: "sql_value \<Rightarrow> sql_value \<Rightarrow> bool" where
  "sql_le SqlNull v \<longleftrightarrow> True"
| "sql_le (SqlNum x) SqlNull \<longleftrightarrow> False"
| "sql_le (SqlNum x) (SqlNum y) \<longleftrightarrow> x \<le> y"
| "sql_le (SqlNum x) (SqlText t) \<longleftrightarrow> True"
| "sql_le (SqlText s) (SqlText t) \<longleftrightarrow> s \<le> t"
| "sql_le (SqlText s) v \<longleftrightarrow> False"

instantiation sql_value :: linorder
begin

definition less_eq_sql_value :: "sql_value \<Rightarrow> sql_value \<Rightarrow> bool" where
  "less_eq_sql_value v w \<longleftrightarrow> sql_le v w"

definition less_sql_value :: "sql_value \<Rightarrow> sql_value \<Rightarrow> bool" where
  "less_sql_value v w \<longleftrightarrow> sql_le v w \<and> \<not> sql_le w v"

instance
proof
  fix u v w :: sql_value
  show "(v < w) = (v \<le> w \<and> \<not> w \<le> v)" by (simp add: less_eq_sql_value_def less_sql_value_def)
  show "v \<le> v" by (cases v) (simp_all add: less_eq_sql_value_def)
  show "u \<le> v \<Longrightarrow> v \<le> w \<Longrightarrow> u \<le> w"
    by (cases u; cases v; cases w) (auto simp: less_eq_sql_value_def)
  show "v \<le> w \<Longrightarrow> w \<le> v \<Longrightarrow> v = w"
    by (cases v; cases w) (auto simp: less_eq_sql_value_def)
  show "v \<le> w \<or> w \<le> v" by (cases v; cases w) (auto simp: less_eq_sql_value_def)
qed

end

definition asBigNumber :: "sql_value \<Rightarrow> bn option" where
  "asBigNumber v = (case v of SqlNum x \<Rightarrow> Some x | _ \<Rightarrow> None)"

definition sqlOpt :: "('a \<Rightarrow> sql_value) \<Rightarrow> 'a option \<Rightarrow> sql_value" where
  "sqlOpt f x = (case x of None \<Rightarrow> SqlNull | Some y \<Rightarrow> f y)"

type_synonym 'r columns = "(string \<times> ('r \<Rightarrow> sql_value)) list"

section \<open>Sorting and paging\<close>

record SortLimit =
  sl_sortBy :: "string option"
  sl_isSortDescending :: "bool option"
  sl_limit :: "nat option"
  sl_offset :: "nat option"

definition sortDirection :: "bool option \<Rightarrow> string \<Rightarrow> string" where
  "sortDirection isSortDescending defaultSortDirection =
     (case isSortDescending of None \<Rightarrow> defaultSortDirection
      | Some True \<Rightarrow> ''desc'' | Some False \<Rightarrow> ''asc'')"

text \<open>
  Columns of the database are never undefined, so only the last two lines of the comparison matter;
  \<open>comparedTo(null)\<close> is null.
\<close>

definition safeBigNumberCompare :: "bn option \<Rightarrow> bn option \<Rightarrow> int option result" where
  "safeBigNumberCompare left right =
     (case (left, right) of
        (None, None) \<Rightarrow> Inr (Some 0)
      | (None, Some r) \<Rightarrow> Inl (JsTypeError ''comparedTo of null'')
      | (Some l, None) \<Rightarrow> Inr None
      | (Some l, Some r) \<Rightarrow> Inr (Some (if l < r then - 1 else if l = r then 0 else 1)))"

text \<open>\<open>Array.sort\<close>; the sorted part is kept in reverse. \<open>after y x\<close>: the comparison is positive.\<close>

fun insertSorted :: "('r \<Rightarrow> 'r \<Rightarrow> bool result) \<Rightarrow> 'r \<Rightarrow> 'r list \<Rightarrow> 'r list result" where
  "insertSorted after x [] = Inr [x]"
| "insertSorted after x (y # ys) = bindE (after y x) (\<lambda>b.
     if b then bindE (insertSorted after x ys) (\<lambda>zs. Inr (y # zs)) else Inr (x # y # ys))"

definition jsSort :: "('r \<Rightarrow> 'r \<Rightarrow> bool result) \<Rightarrow> 'r list \<Rightarrow> 'r list result" where
  "jsSort after xs = bindE (foldE (\<lambda>sorted x. insertSorted after x sorted) [] xs) (\<lambda>r. Inr (rev r))"

definition isPositive :: "int option \<Rightarrow> bool" where
  "isPositive x = (case x of Some v \<Rightarrow> 0 < v | None \<Rightarrow> False)"

definition slice :: "nat \<Rightarrow> nat \<Rightarrow> 'a list \<Rightarrow> 'a list" where
  "slice start stop xs = take (stop - start) (drop start xs)"

definition queryModifierDB ::
  "'r columns \<Rightarrow> 'r list \<Rightarrow> string \<Rightarrow> string \<Rightarrow> SortLimit \<Rightarrow> 'r list result" where
  "queryModifierDB columns rows defaultSortBy defaultSortOrder p =
     (let sortBy = (case sl_sortBy p of Some s \<Rightarrow> if s = '''' then defaultSortBy else s | None \<Rightarrow> defaultSortBy)
      in case map_of columns sortBy of
        None \<Rightarrow> Inl (Thrown ''no such column'')
      | Some c \<Rightarrow>
          let sorted = (if sortDirection (sl_isSortDescending p) defaultSortOrder = ''desc''
                then rev (sort_key c (rev rows)) else sort_key c rows);
              fromOffset = (case sl_offset p of Some n \<Rightarrow> drop n sorted | None \<Rightarrow> sorted)
          in Inr (case sl_limit p of Some n \<Rightarrow> take n fromOffset | None \<Rightarrow> fromOffset))"

definition queryModifierUserland ::
  "'r columns \<Rightarrow> 'r list \<Rightarrow> string \<Rightarrow> string \<Rightarrow> SortLimit \<Rightarrow> 'r list result" where
  "queryModifierUserland columns rows defaultSortBy defaultSortOrder p =
     (let sortField = (case sl_sortBy p of None \<Rightarrow> defaultSortBy | Some s \<Rightarrow> s);
          sortDescending = (case (sl_sortBy p, sl_isSortDescending p) of
            (Some s, Some d) \<Rightarrow> d | _ \<Rightarrow> defaultSortOrder = ''desc'')
      in case map_of columns sortField of
        None \<Rightarrow> Inl (Thrown ''no such column'')
      | Some c \<Rightarrow>
          let field = (\<lambda>r. asBigNumber (c r));
              sorter = (\<lambda>left right. if sortDescending
                then safeBigNumberCompare (field right) (field left)
                else safeBigNumberCompare (field left) (field right))
          in bindE (jsSort (\<lambda>l r. bindE (sorter l r) (\<lambda>x. Inr (isPositive x))) rows) (\<lambda>results.
             Inr (if sl_limit p = None \<and> sl_offset p = None then results
                  else slice (case sl_offset p of Some n \<Rightarrow> n | None \<Rightarrow> 0)
                         (case sl_limit p of Some n \<Rightarrow> if n = 0 then length results else n
                          | None \<Rightarrow> length results) results)))"

text \<open>The names of \<open>post-process-database-results.ts\<close>, of all tables together.\<close>

definition whitelist :: "(string \<times> string list) list" where
  "whitelist =
     [(''categories'', [''nonFinalizedOpenInterest'', ''openInterest'']),
      (''crowdsourcers'', [''size'', ''amountStaked'']),
      (''disputes'', [''amountStaked'']),
      (''markets'', [''numTicks'', ''minPrice'', ''maxPrice'', ''creationFee'', ''reportingFeeRate'',
        ''marketCreatorFeeRate'', ''marketCreatorFeesClaimed'', ''marketCreatorFeesBalance'',
        ''initialReportSize'', ''validityBondSize'', ''volume'', ''shareVolume'', ''sharesOutstanding'',
        ''spreadPercent'', ''invalidROIPercent'', ''bestBidTakerInvalidProfitTokens'',
        ''bestAskTakerInvalidProfitTokens'', ''designatedReportStake'', ''openInterest'',
        ''liquidityTokens'']),
      (''orders'', [''price'', ''amount'', ''originalAmount'', ''fullPrecisionAmount'',
        ''originalFullPrecisionAmount'', ''fullPrecisionPrice'', ''originalTokensEscrowed'',
        ''originalSharesEscrowed'', ''tokensEscrowed'', ''sharesEscrowed'']),
      (''balances'', [''balance'']),
      (''approvals'', [''value'']),
      (''completeSets'', [''value'', ''numCompleteSets'']),
      (''transfers'', [''value'']),
      (''trades'', [''numCreatorTokens'', ''numCreatorShares'', ''numFillerTokens'', ''numFillerShares'',
        ''reporterFees'', ''marketCreatorFees'', ''price'', ''amount'', ''quantity'', ''total'', ''fee'']),
      (''outcomes'', [''price'', ''volume'', ''shareVolume'', ''spreadPercent'', ''invalidROIPercent'',
        ''bestBidTakerInvalidProfitTokens'', ''bestAskTakerInvalidProfitTokens'']),
      (''payouts'', [''payout0'', ''payout1'', ''payout2'', ''payout3'', ''payout4'', ''payout5'',
        ''payout6'', ''payout7'', ''payout8'']),
      (''positions'', [''numShares'', ''numSharesAdjustedForUserIntention'', ''realizedProfitLoss'',
        ''unrealizedProfitLoss'', ''averagePrice'']),
      (''initial_reports'', [''amountStaked'']),
      (''fee_windows'', [''fees'']),
      (''token_supply'', [''supply'', ''participationTokenStake'']),
      (''trading_proceeds'', [''numShares'', ''numPayoutTokens'']),
      (''profit_loss_timeseries'', [''moneySpent'', ''numEscrowed'', ''numOwned'', ''profit'']),
      (''wcl_profit_loss_timeseries'', [''position'', ''price'', ''profit'', ''frozenFunds'',
        ''realizedCost'']),
      (''outcomes_liquidity'', [''spreadPercent'', ''liquidityTokens'']),
      (''markets_liquidity'', [''spreadPercent'', ''liquidityTokens''])]"

definition FIELD_NAMES :: "string list" where
  "FIELD_NAMES = ''xMySorterFieldx'' # concat (map snd whitelist)"

definition isFieldBigNumber :: "string \<Rightarrow> bool" where
  "isFieldBigNumber fieldName \<longleftrightarrow> fieldName \<in> set FIELD_NAMES"

text \<open>\<open>name.split(".").pop()\<close>\<close>

definition lastPart :: "string \<Rightarrow> string" where
  "lastPart name = rev (takeWhile (\<lambda>c. c \<noteq> CHR ''.'') (rev name))"

definition queryModifier ::
  "'r columns \<Rightarrow> 'r list \<Rightarrow> string \<Rightarrow> string \<Rightarrow> SortLimit \<Rightarrow> 'r list result" where
  "queryModifier columns rows defaultSortBy defaultSortOrder p =
     (let sortFieldName = lastPart
            (case sl_sortBy p of Some s \<Rightarrow> if s = '''' then defaultSortBy else s | None \<Rightarrow> defaultSortBy)
      in if sortFieldName \<noteq> '''' \<and> isFieldBigNumber sortFieldName
         then queryModifierUserland columns rows defaultSortBy defaultSortOrder p
         else queryModifierDB columns rows defaultSortBy defaultSortOrder p)"

text \<open>Insertion sort with a comparison that does not fail and is a total preorder.\<close>

lemma insertSorted_ok:
  fixes lt :: "'r \<Rightarrow> 'r \<Rightarrow> bool"
  assumes "\<And>y. y \<in> set ys \<Longrightarrow> after y x = Inr (lt x y)"
    and "\<And>a b c. \<not> lt a b \<Longrightarrow> \<not> lt b c \<Longrightarrow> \<not> lt a c" "\<And>a b. lt a b \<Longrightarrow> \<not> lt b a"
    and "sorted_wrt (\<lambda>a b. \<not> lt a b) ys"
  shows "\<exists>zs. insertSorted after x ys = Inr zs \<and> mset zs = add_mset x (mset ys) \<and>
    sorted_wrt (\<lambda>a b. \<not> lt a b) zs"
  using assms(1,4)
proof (induction ys)
  case (Cons y ys)
  show ?case
  proof (cases "lt x y")
    case True
    obtain zs where zs: "insertSorted after x ys = Inr zs" "mset zs = add_mset x (mset ys)"
        "sorted_wrt (\<lambda>a b. \<not> lt a b) zs"
      using Cons by auto
    have "set zs = insert x (set ys)" using arg_cong [OF zs(2), of set_mset] by simp
    then have "sorted_wrt (\<lambda>a b. \<not> lt a b) (y # zs)"
      using Cons.prems(2) zs(3) assms(3) [OF True] by auto
    then show ?thesis using zs Cons.prems(1) True by simp
  next
    case False
    have "sorted_wrt (\<lambda>a b. \<not> lt a b) (x # y # ys)"
      using Cons.prems(2) False assms(2) [of x y] by auto
    then show ?thesis using Cons.prems(1) False by simp
  qed
qed simp

lemma jsSort_ok:
  fixes lt :: "'r \<Rightarrow> 'r \<Rightarrow> bool"
  assumes "\<And>x y. x \<in> set xs \<Longrightarrow> y \<in> set xs \<Longrightarrow> after y x = Inr (lt x y)"
    and "\<And>a b c. \<not> lt a b \<Longrightarrow> \<not> lt b c \<Longrightarrow> \<not> lt a c" "\<And>a b. lt a b \<Longrightarrow> \<not> lt b a"
  shows "\<exists>ys. jsSort after xs = Inr ys \<and> mset ys = mset xs \<and> sorted_wrt (\<lambda>a b. \<not> lt b a) ys"
proof -
  have "\<exists>zs. foldE (\<lambda>sorted x. insertSorted after x sorted) [] xs = Inr zs \<and> mset zs = mset xs \<and>
      sorted_wrt (\<lambda>a b. \<not> lt a b) zs"
    using assms(1)
  proof (induction xs rule: rev_induct)
    case (snoc x xs)
    then obtain zs where zs: "foldE (\<lambda>sorted x. insertSorted after x sorted) [] xs = Inr zs"
        "mset zs = mset xs" "sorted_wrt (\<lambda>a b. \<not> lt a b) zs" by auto
    have "set zs = set xs" using arg_cong [OF zs(2), of set_mset] by simp
    then have "\<And>y. y \<in> set zs \<Longrightarrow> after y x = Inr (lt x y)" using snoc.prems by simp
    from insertSorted_ok [of zs after x lt, OF this assms(2,3) zs(3)] show ?case
      using zs by (auto simp: foldE_snoc)
  qed simp
  then show ?thesis
    by (auto simp: jsSort_def sorted_wrt_rev)
qed

text \<open>What a query asks for, and what it gets.\<close>

definition sortFieldOf :: "string \<Rightarrow> SortLimit \<Rightarrow> string" where
  "sortFieldOf defaultSortBy p = (case sl_sortBy p of None \<Rightarrow> defaultSortBy | Some s \<Rightarrow> s)"

definition sortsDescending :: "string \<Rightarrow> string \<Rightarrow> SortLimit \<Rightarrow> bool" where
  "sortsDescending defaultSortBy defaultSortOrder p =
     (if isFieldBigNumber (lastPart (sortFieldOf defaultSortBy p))
      then (case (sl_sortBy p, sl_isSortDescending p) of
          (Some _, Some d) \<Rightarrow> d | _ \<Rightarrow> defaultSortOrder = ''desc'')
      else (case sl_isSortDescending p of Some d \<Rightarrow> d | None \<Rightarrow> defaultSortOrder = ''desc''))"

definition dbPage :: "SortLimit \<Rightarrow> 'r list \<Rightarrow> 'r list" where
  "dbPage p xs =
     (case sl_limit p of None \<Rightarrow> id | Some n \<Rightarrow> take n) ((case sl_offset p of None \<Rightarrow> id | Some n \<Rightarrow> drop n) xs)"

definition userlandPage :: "SortLimit \<Rightarrow> 'r list \<Rightarrow> 'r list" where
  "userlandPage p xs =
     (let n = (case sl_offset p of None \<Rightarrow> 0 | Some n \<Rightarrow> n)
      in case sl_limit p of
        None \<Rightarrow> drop n xs
      | Some l \<Rightarrow> if l = 0 then drop n xs else take (l - n) (drop n xs))"

lemma sort_key_desc: "sorted_wrt (\<lambda>a b. f b \<le> f a) (rev (sort_key f xs))"
  using sorted_sort_key [of f xs] by (simp add: sorted_wrt_rev sorted_wrt_map)

lemma queryModifierDB_result:
  assumes "map_of columns (sortFieldOf defaultSortBy p) = Some c" "sl_sortBy p \<noteq> Some ''''"
  shows "\<exists>S. queryModifierDB columns rows defaultSortBy order p = Inr (dbPage p S) \<and> mset S = mset rows \<and>
    sorted_wrt (\<lambda>a b. if (case sl_isSortDescending p of Some d \<Rightarrow> d | None \<Rightarrow> order = ''desc'')
      then c b \<le> c a else c a \<le> c b) S"
proof -
  let ?desc = "case sl_isSortDescending p of Some d \<Rightarrow> d | None \<Rightarrow> order = ''desc''"
  define S where "S = (if ?desc then rev (sort_key c (rev rows)) else sort_key c rows)"
  have dir: "(sortDirection (sl_isSortDescending p) order = ''desc'') = ?desc"
    by (auto simp: sortDirection_def split: option.splits bool.splits)
  have col: "map_of columns (case sl_sortBy p of None \<Rightarrow> defaultSortBy
      | Some s \<Rightarrow> if s = '''' then defaultSortBy else s) = Some c"
    using assms by (auto simp: sortFieldOf_def split: option.splits)
  have "queryModifierDB columns rows defaultSortBy order p = Inr (dbPage p S)"
    unfolding queryModifierDB_def Let_def col option.case dir S_def dbPage_def
    by (simp split: option.splits)
  moreover have "mset S = mset rows" by (simp add: S_def)
  moreover have "sorted_wrt (\<lambda>a b. if ?desc then c b \<le> c a else c a \<le> c b) S"
    using sort_key_desc [of c "rev rows"] sorted_sort_key [of c rows]
    by (simp add: S_def sorted_wrt_map)
  ultimately show ?thesis by blast
qed

lemma queryModifierUserland_result:
  assumes "map_of columns (sortFieldOf defaultSortBy p) = Some c"
    and "\<And>r. r \<in> set rows \<Longrightarrow> \<exists>x. c r = SqlNum x"
  shows "\<exists>S. queryModifierUserland columns rows defaultSortBy order p = Inr (userlandPage p S) \<and>
    mset S = mset rows \<and>
    sorted_wrt (\<lambda>a b. if (case (sl_sortBy p, sl_isSortDescending p) of
          (Some _, Some d) \<Rightarrow> d | _ \<Rightarrow> order = ''desc'')
      then c b \<le> c a else c a \<le> c b) S"
proof -
  let ?desc = "case (sl_sortBy p, sl_isSortDescending p) of (Some _, Some d) \<Rightarrow> d | _ \<Rightarrow> order = ''desc''"
  define lt where "lt = (\<lambda>x y. if ?desc then c y < c x else c x < c y)"
  define after where "after = (\<lambda>l r. bindE
    (if ?desc then safeBigNumberCompare (asBigNumber (c r)) (asBigNumber (c l))
     else safeBigNumberCompare (asBigNumber (c l)) (asBigNumber (c r))) (\<lambda>x. Inr (isPositive x)))"
  have after: "after y x = Inr (lt x y)" if x: "x \<in> set rows" and y: "y \<in> set rows" for x y
  proof -
    obtain a b where "c x = SqlNum a" "c y = SqlNum b" using assms(2) x y by blast
    then show ?thesis
      by (auto simp: after_def lt_def asBigNumber_def safeBigNumberCompare_def isPositive_def
        less_sql_value_def)
  qed
  have "\<exists>S. jsSort after rows = Inr S \<and> mset S = mset rows \<and> sorted_wrt (\<lambda>a b. \<not> lt b a) S"
    by (rule jsSort_ok) (auto simp: after lt_def split: if_splits)
  then obtain S where S: "jsSort after rows = Inr S" "mset S = mset rows" "sorted_wrt (\<lambda>a b. \<not> lt b a) S"
    by blast
  have col: "map_of columns (case sl_sortBy p of None \<Rightarrow> defaultSortBy | Some s \<Rightarrow> s) = Some c"
    using assms(1) by (simp add: sortFieldOf_def)
  have "queryModifierUserland columns rows defaultSortBy order p = Inr (userlandPage p S)"
    unfolding queryModifierUserland_def Let_def col option.case after_def [symmetric] S(1) bindE_Inr
    by (auto simp: userlandPage_def slice_def Let_def split: option.splits)
  moreover have "(\<lambda>a b. \<not> lt b a) = (\<lambda>a b. if ?desc then c b \<le> c a else c a \<le> c b)"
    by (intro ext) (simp add: lt_def not_less)
  ultimately show ?thesis using S(2,3) by (intro exI [of _ S] conjI) simp_all
qed

lemma queryModifier_result:
  assumes "map_of columns (sortFieldOf defaultSortBy p) = Some c" "sl_sortBy p \<noteq> Some ''''"
    and "lastPart (sortFieldOf defaultSortBy p) \<noteq> ''''"
    and "\<And>r. isFieldBigNumber (lastPart (sortFieldOf defaultSortBy p)) \<Longrightarrow> r \<in> set rows \<Longrightarrow> \<exists>x. c r = SqlNum x"
  shows "\<exists>S. queryModifier columns rows defaultSortBy order p =
      Inr ((if isFieldBigNumber (lastPart (sortFieldOf defaultSortBy p)) then userlandPage p else dbPage p) S) \<and>
    mset S = mset rows \<and>
    sorted_wrt (\<lambda>a b. if sortsDescending defaultSortBy order p then c b \<le> c a else c a \<le> c b) S"
proof -
  have "(case sl_sortBy p of Some s \<Rightarrow> if s = '''' then defaultSortBy else s | None \<Rightarrow> defaultSortBy) =
      sortFieldOf defaultSortBy p"
    using assms(2) by (auto simp: sortFieldOf_def split: option.splits)
  then show ?thesis
    using queryModifierUserland_result [OF assms(1), of rows order] assms(4)
      queryModifierDB_result [OF assms(1,2), of rows order] assms(3)
    by (cases "isFieldBigNumber (lastPart (sortFieldOf defaultSortBy p))")
      (simp_all add: queryModifier_def sortsDescending_def Let_def)
qed

text \<open>
  C30. Sorting and paging, by a column that exists. If the database sorts (columns without big numbers), a query
  returns the page asked for, \<open>limit\<close> rows from \<open>offset\<close>, of the rows in the direction asked for. If the
  program sorts (columns with big numbers, in which no row may have null), it returns a part of the rows
  sorted, but the direction asked for counts only together with a column to sort by, otherwise it is the
  default one; and the limit counts from the start of the rows, not from the offset: nothing is returned when it
  does not exceed the offset, and a limit of zero is none.
\<close>

theorem queryModifier_pages:
  assumes "map_of columns (sortFieldOf defaultSortBy p) = Some c" "sl_sortBy p \<noteq> Some ''''"
    and "lastPart (sortFieldOf defaultSortBy p) \<noteq> ''''"
    and "\<And>r. isFieldBigNumber (lastPart (sortFieldOf defaultSortBy p)) \<Longrightarrow> r \<in> set rows \<Longrightarrow> \<exists>x. c r = SqlNum x"
  shows "if isFieldBigNumber (lastPart (sortFieldOf defaultSortBy p))
    then \<exists>S. queryModifier columns rows defaultSortBy order p = Inr (userlandPage p S) \<and> mset S = mset rows \<and>
      sorted_wrt (\<lambda>a b. if (case (sl_sortBy p, sl_isSortDescending p) of
          (Some s, Some d) \<Rightarrow> d | _ \<Rightarrow> order = ''desc'') then c b \<le> c a else c a \<le> c b) S
    else \<exists>S. queryModifier columns rows defaultSortBy order p = Inr (dbPage p S) \<and> mset S = mset rows \<and>
      sorted_wrt (\<lambda>a b. if (case sl_isSortDescending p of Some d \<Rightarrow> d | None \<Rightarrow> order = ''desc'')
        then c b \<le> c a else c a \<le> c b) S"
  using queryModifier_result [OF assms, where order = order]
  by (cases "isFieldBigNumber (lastPart (sortFieldOf defaultSortBy p))") (simp_all add: sortsDescending_def)

text \<open>Pages of the database cover the rows.\<close>

lemma dbPages_cover:
  assumes "length S \<le> k * n"
  shows "concat (map (\<lambda>i. dbPage (p\<lparr>sl_limit := Some n, sl_offset := Some (i * n)\<rparr>) S) [0..<k]) = S"
proof -
  have "concat (map (\<lambda>i. take n (drop (i * n) S)) [0..<k]) = take (k * n) S"
    by (induction k) (simp_all add: take_add [symmetric] add.commute)
  then show ?thesis using assms by (simp add: dbPage_def)
qed

section \<open>Trading histories\<close>

datatype market_filter = OneMarket address | AnyOf "address list"

record TradingHistoryParams =
  hp_universe :: "address option"
  hp_account :: "address option"
  hp_marketId :: "market_filter option"
  hp_outcome :: "int option"
  hp_orderType :: "string option"
  hp_ignoreSelfTrades :: "bool option"
  hp_earliestCreationTime :: "int option"
  hp_latestCreationTime :: "int option"
  hp_sortLimit :: SortLimit

record TradingHistoryRow = trades_row +
  ht_timestamp :: "int option"

definition tradeRow :: "trades_row \<Rightarrow> int option \<Rightarrow> TradingHistoryRow" where
  "tradeRow t timestamp = trades_row.extend t \<lparr>ht_timestamp = timestamp\<rparr>"

text \<open>The columns selected, with and without the name of their table.\<close>

definition underTable :: "string \<Rightarrow> 'r columns \<Rightarrow> 'r columns" where
  "underTable table columns = columns @ map (\<lambda>(n, f). (table @ ''.'' @ n, f)) columns"

definition tradingHistoryColumns :: "TradingHistoryRow columns" where
  "tradingHistoryColumns =
     underTable ''trades''
       [(''transactionHash'', \<lambda>r. SqlText (td_transactionHash r)), (''orderId'', \<lambda>r. SqlText (td_orderId r)),
        (''logIndex'', \<lambda>r. SqlNum (of_int (td_logIndex r))), (''marketId'', \<lambda>r. SqlText (td_marketId r)),
        (''outcome'', \<lambda>r. SqlNum (of_int (td_outcome r))), (''orderType'', \<lambda>r. SqlText (td_orderType r)),
        (''price'', \<lambda>r. SqlNum (td_price r)), (''amount'', \<lambda>r. SqlNum (td_amount r)),
        (''creator'', \<lambda>r. SqlText (td_creator r)), (''filler'', \<lambda>r. SqlText (td_filler r)),
        (''shareToken'', \<lambda>r. SqlText (td_shareToken r)),
        (''blockNumber'', \<lambda>r. SqlNum (of_int (td_blockNumber r))),
        (''marketCreatorFees'', \<lambda>r. SqlNum (td_marketCreatorFees r)),
        (''reporterFees'', \<lambda>r. SqlNum (td_reporterFees r)),
        (''tradeGroupId'', \<lambda>r. sqlOpt SqlText (td_tradeGroupId r))]
     @ underTable ''blocks'' [(''timestamp'', \<lambda>r. sqlOpt (\<lambda>t. SqlNum (of_int t)) (ht_timestamp r))]"

text \<open>A condition that is added only for a parameter that is given; a comparison with null is not true.\<close>

definition onlyIf :: "'a option \<Rightarrow> ('a \<Rightarrow> bool) \<Rightarrow> bool" where
  "onlyIf param holds = (case param of None \<Rightarrow> True | Some x \<Rightarrow> holds x)"

definition notNull :: "'a option \<Rightarrow> ('a \<Rightarrow> bool) \<Rightarrow> bool" where
  "notNull column holds = (case column of None \<Rightarrow> False | Some x \<Rightarrow> holds x)"

lemma onlyIf_iff: "onlyIf p f \<longleftrightarrow> (\<forall>x. p = Some x \<longrightarrow> f x)"
  by (simp add: onlyIf_def split: option.split)

definition tradeMatches :: "TradingHistoryParams \<Rightarrow> address option \<Rightarrow> TradingHistoryRow \<Rightarrow> bool" where
  "tradeMatches p marketUniverse r \<longleftrightarrow>
     onlyIf (hp_account p) (\<lambda>a. td_creator r = a \<or> td_filler r = a) \<and>
     onlyIf (hp_universe p) (\<lambda>u. marketUniverse = Some u) \<and>
     (case hp_marketId p of
        Some (OneMarket m) \<Rightarrow> td_marketId r = m
      | Some (AnyOf ms) \<Rightarrow> ms = [] \<or> td_marketId r \<in> set ms
      | None \<Rightarrow> True) \<and>
     onlyIf (hp_outcome p) (\<lambda>out. td_outcome r = out) \<and>
     onlyIf (hp_orderType p) (\<lambda>t. td_orderType r = t) \<and>
     onlyIf (hp_earliestCreationTime p) (\<lambda>t. notNull (ht_timestamp r) (\<lambda>ts. t \<le> ts)) \<and>
     onlyIf (hp_latestCreationTime p) (\<lambda>t. notNull (ht_timestamp r) (\<lambda>ts. ts \<le> t)) \<and>
     (hp_ignoreSelfTrades p \<noteq> Some True \<or> td_creator r \<noteq> td_filler r)"

definition tradingHistoryRows :: "TradingHistoryParams \<Rightarrow> db \<Rightarrow> TradingHistoryRow list" where
  "tradingHistoryRows p d =
     map fst (filter (\<lambda>(r, u). tradeMatches p u r)
       (map (\<lambda>t. (tradeRow t (map_option bk_timestamp
                   (find (\<lambda>b. bk_blockNumber b = td_blockNumber t) (t_blocks d))),
                  map_option mk_universe (find (\<lambda>m. mk_marketId m = td_marketId t) (t_markets d))))
         (t_trades d)))"

definition queryTradingHistory :: "TradingHistoryParams \<Rightarrow> TradingHistoryRow list action" where
  "queryTradingHistory p =
     (if hp_universe p = None \<and> hp_marketId p = None
      then throw (Thrown ''Must provide reference to universe, specify universe or marketId'')
      else bindA (gets tables) (\<lambda>d. liftR (queryModifier tradingHistoryColumns (tradingHistoryRows p d)
             ''trades.blockNumber'' ''desc'' (hp_sortLimit p))))"

record UITrade =
  ui_transactionHash :: string
  ui_logIndex :: int
  ui_orderId :: string
  ui_filler :: string
  ui_creator :: string
  ui_marketId :: string
  ui_outcome :: int
  ui_shareToken :: string
  ui_timestamp :: "int option"
  ui_tradeGroupId :: "string option"
  ui_type :: string
  ui_price :: bn
  ui_amount :: bn
  ui_maker :: "bool option"
  ui_selfFilled :: bool
  ui_marketCreatorFees :: bn
  ui_reporterFees :: bn
  ui_settlementFees :: bn

definition uiTrade :: "address option \<Rightarrow> TradingHistoryRow \<Rightarrow> UITrade" where
  "uiTrade account trade =
     (let isMaker = map_option (\<lambda>a. a = td_creator trade) account in
      \<lparr>ui_transactionHash = td_transactionHash trade, ui_logIndex = td_logIndex trade,
       ui_orderId = td_orderId trade, ui_filler = td_filler trade, ui_creator = td_creator trade,
       ui_marketId = td_marketId trade, ui_outcome = td_outcome trade,
       ui_shareToken = td_shareToken trade, ui_timestamp = ht_timestamp trade,
       ui_tradeGroupId = td_tradeGroupId trade,
       ui_type = (if isMaker = Some True then td_orderType trade
                  else if td_orderType trade = ''buy'' then ''sell'' else ''buy''),
       ui_price = td_price trade, ui_amount = td_amount trade, ui_maker = isMaker,
       ui_selfFilled = (td_creator trade = td_filler trade),
       ui_marketCreatorFees = td_marketCreatorFees trade, ui_reporterFees = td_reporterFees trade,
       ui_settlementFees = td_reporterFees trade + td_marketCreatorFees trade\<rparr>)"

definition getTradingHistory :: "TradingHistoryParams \<Rightarrow> UITrade list action" where
  "getTradingHistory p = bindA (queryTradingHistory p) (\<lambda>ts. return (map (uiTrade (hp_account p)) ts))"

section \<open>Blocks of a timestamp\<close>

definition blockNumberForTimestampQuery :: "int \<Rightarrow> string \<Rightarrow> db \<Rightarrow> (int \<times> int) option" where
  "blockNumberForTimestampQuery timestamp prefix d =
     (let ascending = sort_key bk_blockNumber (t_blocks d);
          rows = (if timestamp = 0 then (if prefix = ''start'' then ascending else rev ascending)
                  else filter (\<lambda>b. timestamp \<le> bk_timestamp b) ascending)
      in case rows of [] \<Rightarrow> None | b # _ \<Rightarrow> Some (bk_blockNumber b, bk_timestamp b))"

section \<open>Payouts and the filter on the initial stake\<close>

record NormalizedPayout =
  np_isInvalid :: bool
  np_payout :: "bn list"

fun numerators :: "bn option list \<Rightarrow> bn list" where
  "numerators [] = []"
| "numerators (None # xs) = []"
| "numerators (Some x # xs) = x # numerators xs"

definition normalizePayouts :: "payouts_row \<Rightarrow> NormalizedPayout" where
  "normalizePayouts payoutRow =
     \<lparr>np_isInvalid = po_isInvalid payoutRow, np_payout = numerators (take 8 (po_payouts payoutRow))\<rparr>"

definition V2_CUTOFF_TIMESTAMP :: int where
  "V2_CUTOFF_TIMESTAMP = 1589544000"

definition WEEK_IN_SECONDS :: int where
  "WEEK_IN_SECONDS = 60 * 60 * 24 * 7"

definition STAKE_SCHEDULE :: "bn list" where
  "STAKE_SCHEDULE = map (\<lambda>n. n * 10 ^ 18) [239, 120, 60, 30, 15, 8, 4, 2, 1]"

text \<open>\<open>Math.round\<close>: to the nearest integer, halves upwards.\<close>

definition jsRound :: "rat \<Rightarrow> int" where
  "jsRound x = \<lfloor>x + 1 / 2\<rfloor>"

definition minInitialRep :: "int \<Rightarrow> bn" where
  "minInitialRep endTime =
     (let weeksTillV2 = max 0 (jsRound (of_int (V2_CUTOFF_TIMESTAMP - endTime) / of_int WEEK_IN_SECONDS));
          maxWeeks = length STAKE_SCHEDULE - 1
      in if nat weeksTillV2 \<le> maxWeeks then STAKE_SCHEDULE ! nat weeksTillV2 else 0)"

definition marketPassesInitialREPFilter :: "int \<Rightarrow> bn \<Rightarrow> bool" where
  "marketPassesInitialREPFilter endTime totalInitialREPStake \<longleftrightarrow> minInitialRep endTime \<le> totalInitialREPStake"

section \<open>Lookups in batches\<close>

definition MAX_DB_CHUNK_SIZE :: nat where
  "MAX_DB_CHUNK_SIZE = 800"

fun mapA :: "('a \<Rightarrow> ('s, 'b) act) \<Rightarrow> 'a list \<Rightarrow> ('s, 'b list) act" where
  "mapA f [] = return []"
| "mapA f (x # xs) = bindA (f x) (\<lambda>y. bindA (mapA f xs) (\<lambda>ys. return (y # ys)))"

definition batchAndCombine :: "'k list \<Rightarrow> ('k list \<Rightarrow> ('s, 't list) act) \<Rightarrow> ('s, 't list) act" where
  "batchAndCombine lookupIds dataFetch =
     bindA (mapA dataFetch (chunk MAX_DB_CHUNK_SIZE lookupIds)) (\<lambda>parts. return (concat parts))"

section \<open>What the queries give\<close>

lemma mapA_gets: "mapA (\<lambda>x. gets (f x)) xs = gets (\<lambda>w. map (\<lambda>x. f x w) xs)"
  by (induction xs) (simp_all add: gets_def bindA_def return_def fun_eq_iff)

lemma mset_filter_parts:
  assumes "distinct (concat parts)"
  shows "mset (concat (map (\<lambda>ids. filter (\<lambda>r. key r \<in> set ids) rows) parts)) =
    mset (filter (\<lambda>r. key r \<in> set (concat parts)) rows)"
  using assms
proof (induction parts)
  case (Cons ids parts)
  have "mset (filter (\<lambda>r. key r \<in> set ids \<or> (\<exists>ys \<in> set parts. key r \<in> set ys)) rows) =
      mset (filter (\<lambda>r. key r \<in> set ids) rows) + mset (filter (\<lambda>r. key r \<in> set (concat parts)) rows)"
    using Cons.prems by (induction rows) (auto simp: disjoint_iff)
  with Cons show ?case by simp
qed simp

text \<open>
  Looking up ids in batches gives the rows that one lookup of all of them would give, up to order, for any
  number of ids that do not repeat; an id that repeats in another batch would have its rows twice.
\<close>

theorem batches_are_one_lookup:
  fixes rows :: "'s \<Rightarrow> 'r list" and key :: "'r \<Rightarrow> 'k"
  assumes "distinct ids"
  defines "fetch \<equiv> \<lambda>lookup. gets (\<lambda>w. filter (\<lambda>r. key r \<in> set lookup) (rows w))"
  shows "\<exists>found. batchAndCombine ids fetch w = (Inr found, w) \<and>
    mset found = mset (filter (\<lambda>r. key r \<in> set ids) (rows w))"
proof -
  let ?parts = "chunk MAX_DB_CHUNK_SIZE ids"
  have all: "concat ?parts = ids" by (rule concat_chunk) (simp add: MAX_DB_CHUNK_SIZE_def)
  have "batchAndCombine ids fetch w =
      (Inr (concat (map (\<lambda>part. filter (\<lambda>r. key r \<in> set part) (rows w)) ?parts)), w)"
    by (simp add: batchAndCombine_def fetch_def mapA_gets) (simp add: gets_def bindA_def return_def)
  then show ?thesis
    using mset_filter_parts [of ?parts key "rows w"] assms(1) by (simp only: all) blast
qed

theorem batches_are_one_lookup_witness:
  "\<exists>found. batchAndCombine [''a'', ''b''] (\<lambda>lookup. gets (\<lambda>w. filter (\<lambda>r. fst r \<in> set lookup)
       [(''b'', 1 :: nat), (''c'', 2), (''a'', 3)])) empty_world = (Inr found, empty_world) \<and>
    mset found = {#(''b'', 1), (''a'', 3)#}"
  using batches_are_one_lookup [of "[''a'', ''b'']" fst "\<lambda>_. [(''b'', 1 :: nat), (''c'', 2), (''a'', 3)]" empty_world]
  by simp

lemma not_bigNumbers:
  "\<not> isFieldBigNumber ''transactionHash''" "\<not> isFieldBigNumber ''orderId''"
  "\<not> isFieldBigNumber ''marketId''" "\<not> isFieldBigNumber ''orderType''" "\<not> isFieldBigNumber ''creator''"
  "\<not> isFieldBigNumber ''filler''" "\<not> isFieldBigNumber ''shareToken''"
  "\<not> isFieldBigNumber ''tradeGroupId''" "\<not> isFieldBigNumber ''timestamp''"
  "\<not> isFieldBigNumber ''blockNumber''"
  by code_simp+

lemma tradingHistory_numbers:
  "\<forall>(n, f) \<in> set tradingHistoryColumns. isFieldBigNumber (lastPart n) \<longrightarrow> (\<forall>r. \<exists>x. f r = SqlNum x)"
  by (simp add: tradingHistoryColumns_def underTable_def lastPart_def not_bigNumbers)

lemma minInitialRep_mono:
  assumes "s \<le> t"
  shows "minInitialRep s \<le> minInitialRep t"
proof -
  have len: "length STAKE_SCHEDULE - 1 = 8" by (simp add: STAKE_SCHEDULE_def)
  define week where "week = (\<lambda>e. nat (max 0 (jsRound (of_int (V2_CUTOFF_TIMESTAMP - e) / of_int WEEK_IN_SECONDS))))"
  have "(of_int (V2_CUTOFF_TIMESTAMP - t) :: rat) / of_int WEEK_IN_SECONDS
      \<le> of_int (V2_CUTOFF_TIMESTAMP - s) / of_int WEEK_IN_SECONDS"
    using assms by (intro divide_right_mono of_int_le_iff [THEN iffD2]) (simp_all add: WEEK_IN_SECONDS_def)
  then have "week t \<le> week s"
    unfolding week_def jsRound_def by (intro nat_mono max.mono floor_mono) auto
  moreover have "(if n \<le> 8 then STAKE_SCHEDULE ! n else 0) \<le> (if m \<le> 8 then STAKE_SCHEDULE ! m else 0)"
    if "m \<le> n" for m n
  proof -
    have "sorted_wrt (\<ge>) STAKE_SCHEDULE" by (simp add: STAKE_SCHEDULE_def)
    moreover have "length STAKE_SCHEDULE = 9" "\<forall>x \<in> set STAKE_SCHEDULE. 0 \<le> x"
      by (simp_all add: STAKE_SCHEDULE_def)
    ultimately show ?thesis
      using that sorted_wrt_iff_nth_less [of "(\<ge>)" STAKE_SCHEDULE] by (cases "m = n") auto
  qed
  moreover have "minInitialRep e = (if week e \<le> 8 then STAKE_SCHEDULE ! week e else 0)" for e
    by (simp only: minInitialRep_def Let_def week_def len)
  ultimately show ?thesis by simp
qed

text \<open>The other side of a trade.\<close>

definition sideOf :: "address \<Rightarrow> TradingHistoryRow \<Rightarrow> string" where
  "sideOf account r = (if td_creator r = account then td_orderType r
     else if td_orderType r = ''buy'' then ''sell'' else ''buy'')"

definition tradePage :: "SortLimit \<Rightarrow> 'r list \<Rightarrow> 'r list" where
  "tradePage p = (if isFieldBigNumber (lastPart (sortFieldOf ''trades.blockNumber'' p))
     then userlandPage p else dbPage p)"

text \<open>The rows of the query are the trades with the time of their block that match.\<close>

lemma tradeMatches_iff:
  assumes "hp_account p = Some account"
  shows "tradeMatches p (map_option mk_universe mo) r \<longleftrightarrow>
    (td_creator r = account \<or> td_filler r = account) \<and>
    (\<forall>u. hp_universe p = Some u \<longrightarrow> (\<exists>m. mo = Some m \<and> mk_universe m = u)) \<and>
    (\<forall>m. hp_marketId p = Some (OneMarket m) \<longrightarrow> td_marketId r = m) \<and>
    (\<forall>ms. hp_marketId p = Some (AnyOf ms) \<longrightarrow> ms \<noteq> [] \<longrightarrow> td_marketId r \<in> set ms) \<and>
    (\<forall>k. hp_outcome p = Some k \<longrightarrow> td_outcome r = k) \<and>
    (\<forall>t. hp_orderType p = Some t \<longrightarrow> td_orderType r = t) \<and>
    (\<forall>t. hp_earliestCreationTime p = Some t \<longrightarrow> (\<exists>s. ht_timestamp r = Some s \<and> t \<le> s)) \<and>
    (\<forall>t. hp_latestCreationTime p = Some t \<longrightarrow> (\<exists>s. ht_timestamp r = Some s \<and> s \<le> t)) \<and>
    (hp_ignoreSelfTrades p = Some True \<longrightarrow> td_creator r \<noteq> td_filler r)"
  using assms
  by (auto simp: tradeMatches_def onlyIf_def notNull_def split: option.splits market_filter.splits)

lemma trading_rows_matching:
  assumes "hp_account p = Some account"
  shows "tradingHistoryRows p d = filter (\<lambda>r.
      (td_creator r = account \<or> td_filler r = account) \<and>
      (\<forall>u. hp_universe p = Some u \<longrightarrow>
        (\<exists>m. find (\<lambda>m. mk_marketId m = td_marketId r) (t_markets d) = Some m \<and> mk_universe m = u)) \<and>
      (\<forall>m. hp_marketId p = Some (OneMarket m) \<longrightarrow> td_marketId r = m) \<and>
      (\<forall>ms. hp_marketId p = Some (AnyOf ms) \<longrightarrow> ms \<noteq> [] \<longrightarrow> td_marketId r \<in> set ms) \<and>
      (\<forall>k. hp_outcome p = Some k \<longrightarrow> td_outcome r = k) \<and>
      (\<forall>t. hp_orderType p = Some t \<longrightarrow> td_orderType r = t) \<and>
      (\<forall>t. hp_earliestCreationTime p = Some t \<longrightarrow> (\<exists>s. ht_timestamp r = Some s \<and> t \<le> s)) \<and>
      (\<forall>t. hp_latestCreationTime p = Some t \<longrightarrow> (\<exists>s. ht_timestamp r = Some s \<and> s \<le> t)) \<and>
      (hp_ignoreSelfTrades p = Some True \<longrightarrow> td_creator r \<noteq> td_filler r))
    (map (\<lambda>t. tradeRow t (map_option bk_timestamp
        (find (\<lambda>b. bk_blockNumber b = td_blockNumber t) (t_blocks d)))) (t_trades d))"
proof -
  have m: "td_marketId (tradeRow t x) = td_marketId t" for t x by (simp add: tradeRow_def trades_row.defs)
  show ?thesis
    unfolding tradingHistoryRows_def filter_map map_map comp_def prod.case fst_conv tradeMatches_iff [OF assms] m
    by (rule refl)
qed

text \<open>
  C31. The trading history of an account, asked for with a universe or markets and sorted by a column of the query. It
  is a page (\<open>dbPage\<close>, or \<open>userlandPage\<close> for a column of big numbers, which counts the limit from the start of the
  rows) of the trades that match, sorted by the column in the direction asked for, or descending if none is
  asked for, each shown from the side of the account: as the order's type where the account made
  the order, as its opposite where it filled it; its settlement fees are the fees of the reporters and of the
  market creator. A trade matches exactly if the account made or filled it; its market is in the universe, if
  one is given, and is the market or one of the markets given (an empty list of markets does not restrict); it
  has the outcome and the type of order given; its block is recorded and not earlier or later than the times
  given; and, when self trades are ignored, its maker is not its filler.
\<close>

theorem trading_history:
  assumes "hp_account p = Some account" "hp_universe p \<noteq> None \<or> hp_marketId p \<noteq> None"
    and "map_of tradingHistoryColumns (sortFieldOf ''trades.blockNumber'' (hp_sortLimit p)) = Some c"
    and "sl_sortBy (hp_sortLimit p) \<noteq> Some ''''"
    and "lastPart (sortFieldOf ''trades.blockNumber'' (hp_sortLimit p)) \<noteq> ''''"
  shows "\<exists>S. getTradingHistory p w =
      (Inr (map (uiTrade (Some account)) (tradePage (hp_sortLimit p) S)), w) \<and>
    mset S = mset (filter (\<lambda>r.
        (td_creator r = account \<or> td_filler r = account) \<and>
        (\<forall>u. hp_universe p = Some u \<longrightarrow>
          (\<exists>m. find (\<lambda>m. mk_marketId m = td_marketId r) (t_markets (tables w)) = Some m \<and> mk_universe m = u)) \<and>
        (\<forall>m. hp_marketId p = Some (OneMarket m) \<longrightarrow> td_marketId r = m) \<and>
        (\<forall>ms. hp_marketId p = Some (AnyOf ms) \<longrightarrow> ms \<noteq> [] \<longrightarrow> td_marketId r \<in> set ms) \<and>
        (\<forall>k. hp_outcome p = Some k \<longrightarrow> td_outcome r = k) \<and>
        (\<forall>t. hp_orderType p = Some t \<longrightarrow> td_orderType r = t) \<and>
        (\<forall>t. hp_earliestCreationTime p = Some t \<longrightarrow> (\<exists>s. ht_timestamp r = Some s \<and> t \<le> s)) \<and>
        (\<forall>t. hp_latestCreationTime p = Some t \<longrightarrow> (\<exists>s. ht_timestamp r = Some s \<and> s \<le> t)) \<and>
        (hp_ignoreSelfTrades p = Some True \<longrightarrow> td_creator r \<noteq> td_filler r))
      (map (\<lambda>t. tradeRow t (map_option bk_timestamp
          (find (\<lambda>b. bk_blockNumber b = td_blockNumber t) (t_blocks (tables w))))) (t_trades (tables w)))) \<and>
    sorted_wrt (\<lambda>a b. if (case (isFieldBigNumber (lastPart (sortFieldOf ''trades.blockNumber'' (hp_sortLimit p))),
          sl_sortBy (hp_sortLimit p), sl_isSortDescending (hp_sortLimit p)) of
        (True, None, _) \<Rightarrow> True | (_, _, Some d) \<Rightarrow> d | (_, _, None) \<Rightarrow> True)
      then c b \<le> c a else c a \<le> c b) S \<and>
    (\<forall>r \<in> set S. ui_type (uiTrade (Some account) r) = sideOf account r \<and>
       ui_settlementFees (uiTrade (Some account) r) = td_reporterFees r + td_marketCreatorFees r)"
proof -
  let ?rows = "tradingHistoryRows p (tables w)"
  have num: "\<exists>x. c r = SqlNum x"
    if "isFieldBigNumber (lastPart (sortFieldOf ''trades.blockNumber'' (hp_sortLimit p)))" for r
    using tradingHistory_numbers map_of_SomeD [OF assms(3)] that by fastforce
  obtain S where S: "queryModifier tradingHistoryColumns ?rows ''trades.blockNumber'' ''desc'' (hp_sortLimit p) =
      Inr (tradePage (hp_sortLimit p) S)" "mset S = mset ?rows"
    "sorted_wrt (\<lambda>a b. if sortsDescending ''trades.blockNumber'' ''desc'' (hp_sortLimit p)
      then c b \<le> c a else c a \<le> c b) S"
    using queryModifier_result [OF assms(3-5), of ?rows "''desc''"] num by (auto simp: tradePage_def)
  have "getTradingHistory p w =
      (Inr (map (uiTrade (Some account)) (tradePage (hp_sortLimit p) S)), w)"
    using assms(1,2) S(1)
    by (auto simp: getTradingHistory_def queryTradingHistory_def bindA_def gets_def liftR_def return_def)
  moreover have "ui_type (uiTrade (Some account) r) = sideOf account r \<and>
      ui_settlementFees (uiTrade (Some account) r) = td_reporterFees r + td_marketCreatorFees r" for r
    by (auto simp: uiTrade_def sideOf_def Let_def)
  moreover have "sortsDescending ''trades.blockNumber'' ''desc'' (hp_sortLimit p) \<longleftrightarrow>
      (case (isFieldBigNumber (lastPart (sortFieldOf ''trades.blockNumber'' (hp_sortLimit p))),
          sl_sortBy (hp_sortLimit p), sl_isSortDescending (hp_sortLimit p)) of
        (True, None, _) \<Rightarrow> True | (_, _, Some d) \<Rightarrow> d | (_, _, None) \<Rightarrow> True)"
    by (simp add: sortsDescending_def split: option.split bool.split)
  ultimately show ?thesis using S(2,3) unfolding trading_rows_matching [OF assms(1)] by (simp only:) blast
qed

section \<open>Examples\<close>

definition byOffset :: "string option \<Rightarrow> nat \<Rightarrow> nat \<Rightarrow> SortLimit" where
  "byOffset by l n = \<lparr>sl_sortBy = by, sl_isSortDescending = Some False, sl_limit = Some l, sl_offset = Some n\<rparr>"

text \<open>The second page of two rows, sorted by a price, is empty.\<close>

theorem queryModifier_pages_witness:
  "\<exists>S. queryModifier [(''price'', SqlNum)] [3, 1, 2, 4] ''price'' ''asc'' (byOffset (Some ''price'') 2 2) =
      Inr (userlandPage (byOffset (Some ''price'') 2 2) S) \<and> mset S = mset [3, 1, 2, 4] \<and>
    userlandPage (byOffset (Some ''price'') 2 2) S = []"
proof -
  have "isFieldBigNumber ''price''" by code_simp
  moreover have "lastPart ''price'' = ''price''" by (simp add: lastPart_def)
  ultimately show ?thesis
    using queryModifier_pages [of "[(''price'', SqlNum)]" "''price''" "byOffset (Some ''price'') 2 2" SqlNum
        "[3, 1, 2, 4]" "''asc''"]
    by (auto simp: sortFieldOf_def byOffset_def userlandPage_def)
qed

definition noSort :: SortLimit where
  "noSort = \<lparr>sl_sortBy = None, sl_isSortDescending = None, sl_limit = None, sl_offset = None\<rparr>"

text \<open>Alice asks for her trades of an outcome between the times 50 and 150.\<close>

definition alice_history :: TradingHistoryParams where
  "alice_history = \<lparr>hp_universe = Some ''u'', hp_account = Some ''alice'', hp_marketId = None,
     hp_outcome = Some 1, hp_orderType = Some ''buy'', hp_ignoreSelfTrades = Some True,
     hp_earliestCreationTime = Some 50, hp_latestCreationTime = Some 150, hp_sortLimit = noSort\<rparr>"

definition trade_of_alice :: trades_row where
  "trade_of_alice = \<lparr>td_transactionHash = ''t'', td_logIndex = 0, td_blockNumber = 1, td_orderId = ''or1'',
     td_marketId = ''m'', td_outcome = 1, td_shareToken = ''s'', td_orderType = ''buy'', td_creator = ''bob'',
     td_filler = ''alice'', td_numCreatorTokens = 1, td_numCreatorShares = 0, td_numFillerTokens = 1,
     td_numFillerShares = 0, td_price = 1 / 2, td_amount = 2, td_marketCreatorFees = 0, td_reporterFees = 0,
     td_tradeGroupId = None\<rparr>"

definition trade_world :: world where
  "trade_world = empty_world\<lparr>tables := empty_db\<lparr>t_markets := [sample_market],
     t_blocks := [\<lparr>bk_blockNumber = 1, bk_blockHash = ''h1'', bk_timestamp = 100, bk_bulkSync = False\<rparr>,
       \<lparr>bk_blockNumber = 2, bk_blockHash = ''h2'', bk_timestamp = 200, bk_bulkSync = False\<rparr>],
     t_trades := [trade_of_alice, trade_of_alice\<lparr>td_transactionHash := ''t2'', td_blockNumber := 2\<rparr>]\<rparr>\<rparr>"

text \<open>
  Bob's order to buy, which Alice filled at time 100, is a sale of Alice; the trade at time 200 is not shown.
\<close>

theorem trading_history_witness:
  "getTradingHistory alice_history trade_world =
      (Inr [uiTrade (Some ''alice'') (tradeRow trade_of_alice (Some 100))], trade_world) \<and>
    ui_type (uiTrade (Some ''alice'') (tradeRow trade_of_alice (Some 100))) = ''sell''"
proof -
  have l: "lastPart ''trades.blockNumber'' = ''blockNumber''" by (simp add: lastPart_def)
  have p: "hp_account alice_history = Some ''alice''" "hp_universe alice_history = Some ''u''"
    "hp_sortLimit alice_history = noSort" "hp_marketId alice_history = None" "hp_outcome alice_history = Some 1"
    "hp_orderType alice_history = Some ''buy''" "hp_ignoreSelfTrades alice_history = Some True"
    "hp_earliestCreationTime alice_history = Some 50" "hp_latestCreationTime alice_history = Some 150"
    by (simp_all add: alice_history_def)
  have f: "sortFieldOf ''trades.blockNumber'' noSort = ''trades.blockNumber''"
    "tradePage noSort xs = (xs :: TradingHistoryRow list)" for xs
    by (simp_all add: sortFieldOf_def noSort_def tradePage_def userlandPage_def dbPage_def)
  obtain c where c: "map_of tradingHistoryColumns ''trades.blockNumber'' = Some c"
    by (simp add: tradingHistoryColumns_def underTable_def)
  obtain S where S: "getTradingHistory alice_history trade_world =
      (Inr (map (uiTrade (Some ''alice'')) S), trade_world)"
    "mset S = mset [tradeRow trade_of_alice (Some 100)]"
    "\<forall>r \<in> set S. ui_type (uiTrade (Some ''alice'') r) = sideOf ''alice'' r"
    using trading_history [of alice_history "''alice''" c trade_world, unfolded p f l] c
    by (auto simp: noSort_def trade_world_def empty_db_def trade_of_alice_def tradeRow_def sample_market_def
        trades_row.defs)
  have "S = [tradeRow trade_of_alice (Some 100)]" using S(2) by simp
  with S(1,3) show ?thesis
    by (simp add: sideOf_def) (simp add: tradeRow_def trade_of_alice_def trades_row.defs)
qed

end
