(* ===== verification/Dispute_Info.thy ===== *)
theory Dispute_Info
  imports Reporting_Fees Getter_Queries Advance_Time
begin

text \<open>
  \<open>src/server/getters/get-dispute-info.ts\<close> and \<open>get-fee-window.ts\<close>: what a reporter is shown of the disputes
  of a market (the stake on every payout, and the bond that would make it the tentative winner), and of a
  fee window.

  \<^item> Rows are records with the columns that are selected; \<open>union\<close> keeps the first of equal rows.
  \<^item> \<open>groupByAndSum\<close> on several fields lists its groups in the order in which they first occur.
  \<^item> The optional fields of a result that the code leaves out are \<open>None\<close>. \<open>uiStakeInfoToFixed\<close> and
    \<open>formatBigNumberAsFixed\<close> print numbers, which stay numbers here.
  \<^item> \<open>cash\<close> is the address of the cash contract, from augur.js.
\<close>

section \<open>Rows\<close>

record DisputeInfoParams =
  di_marketIds :: "address list"
  di_account :: "address option"

record DisputeRound =
  dr_marketId :: address
  dr_disputeRound :: int

record StakeRow =
  sk_marketId :: address
  sk_payoutId :: int
  sk_amountStaked :: bn

record ActiveCrowdsourcer = StakeRow +
  ac_size :: bn

record DisputesResult =
  dj_markets :: "(markets_row \<times> ReportingState option) list"
  dj_stakesCompleted :: "StakeRow list"
  dj_stakesCurrent :: "ActiveCrowdsourcer list"
  dj_accountStakesCompleted :: "StakeRow list"
  dj_accountStakesCurrent :: "StakeRow list"
  dj_payouts :: "payouts_row list"
  dj_disputeRound :: "DisputeRound list"

record StakeSizes =
  sz_bondSizeCurrent :: "bn option"
  sz_bondSizeTotal :: "bn option"
  sz_stakeCurrent :: "bn option"
  sz_stakeRemaining :: "bn option"
  sz_accountStakeCompleted :: "bn option"
  sz_accountStakeCurrent :: "bn option"
  sz_accountStakeTotal :: "bn option"

record StakeDetails = NormalizedPayout +
  sd_sizes :: StakeSizes
  sd_stakeCompleted :: bn
  sd_tentativeWinning :: bool

record UIStakeInfo =
  ui_marketId :: address
  ui_disputeRound :: "int option"
  ui_stakeCompletedTotal :: bn
  ui_bondSizeOfNewStake :: bn
  ui_stakes :: "StakeDetails list"

definition activeMarketStates :: "ReportingState list" where
  "activeMarketStates = [CROWDSOURCING_DISPUTE, AWAITING_NEXT_WINDOW, FORKING, AWAITING_FORK_MIGRATION]"

definition isActiveMarketState :: "ReportingState option \<Rightarrow> bool" where
  "isActiveMarketState reportingState =
     (case reportingState of None \<Rightarrow> False | Some s \<Rightarrow> s \<in> set activeMarketStates)"

section \<open>Sums by group\<close>

text \<open>
  \<open>groupByAndSum\<close>: each group becomes its last row, with the sums over the group in the fields to sum.
  \<open>addRow result row\<close> is the row with its fields to sum added to those of the result.
\<close>

definition sumGroups :: "('r \<Rightarrow> 'k) \<Rightarrow> ('r \<Rightarrow> 'r \<Rightarrow> 'r) \<Rightarrow> 'r list \<Rightarrow> 'r list" where
  "sumGroups groupFields addRow rows =
     map (\<lambda>g. foldl addRow (hd (snd g)) (tl (snd g))) (groupBy groupFields rows)"

definition stakeKey :: "'a StakeRow_scheme \<Rightarrow> address \<times> int" where
  "stakeKey r = (sk_marketId r, sk_payoutId r)"

definition plusStake :: "'a StakeRow_scheme \<Rightarrow> 'a StakeRow_scheme \<Rightarrow> 'a StakeRow_scheme" where
  "plusStake result row = row\<lparr>sk_amountStaked := sk_amountStaked row + sk_amountStaked result\<rparr>"

definition plusCrowdsourcer :: "ActiveCrowdsourcer \<Rightarrow> ActiveCrowdsourcer \<Rightarrow> ActiveCrowdsourcer" where
  "plusCrowdsourcer result row = (plusStake result row)\<lparr>ac_size := ac_size row + ac_size result\<rparr>"

section \<open>The stakes of markets\<close>

definition currentStakeRows :: "db \<Rightarrow> address list \<Rightarrow> ActiveCrowdsourcer list" where
  "currentStakeRows d marketIds =
     [\<lparr>sk_marketId = cs_marketId c, sk_payoutId = cs_payoutId c, sk_amountStaked = cs_amountStaked c,
       ac_size = cs_size c\<rparr>.
      c \<leftarrow> t_crowdsourcers d, cs_completed c = None \<and> cs_marketId c \<in> set marketIds]"

definition getCurrentStakes :: "address list \<Rightarrow> ActiveCrowdsourcer list action" where
  "getCurrentStakes marketIds = gets (\<lambda>w.
     sumGroups stakeKey plusCrowdsourcer (currentStakeRows (tables w) marketIds))"

definition reportStakeRow :: "initial_reports_row \<Rightarrow> StakeRow" where
  "reportStakeRow r = \<lparr>sk_marketId = ir_marketId r, sk_payoutId = ir_payoutId r,
     sk_amountStaked = ir_amountStaked r\<rparr>"

definition completedStakeRows :: "db \<Rightarrow> address list \<Rightarrow> StakeRow list" where
  "completedStakeRows d marketIds = distinctRows
     ([\<lparr>sk_marketId = cs_marketId c, sk_payoutId = cs_payoutId c, sk_amountStaked = cs_amountStaked c\<rparr>.
       c \<leftarrow> t_crowdsourcers d, cs_completed c = Some 1 \<and> cs_marketId c \<in> set marketIds] @
      [reportStakeRow r. r \<leftarrow> t_initial_reports d, ir_marketId r \<in> set marketIds])"

definition getCompletedStakes :: "address list \<Rightarrow> StakeRow list action" where
  "getCompletedStakes marketIds = gets (\<lambda>w.
     sumGroups stakeKey plusStake (completedStakeRows (tables w) marketIds))"

text \<open>
  The condition on \<open>completed\<close> is added to the first half of the \<open>union\<close>. \<open>reporter = NULL\<close>, for the empty
  account, becomes \<open>IS NULL\<close>, which no reporter is.
\<close>

definition accountStakeRows :: "db \<Rightarrow> address list \<Rightarrow> address \<Rightarrow> bool \<Rightarrow> StakeRow list" where
  "accountStakeRows d marketIds account completed = distinctRows
     ([\<lparr>sk_marketId = cs_marketId c, sk_payoutId = cs_payoutId c, sk_amountStaked = bl_balance b\<rparr>.
       c \<leftarrow> t_crowdsourcers d, b \<leftarrow> t_balances d,
       bl_token b = cs_crowdsourcerId c \<and> cs_marketId c \<in> set marketIds \<and> bl_owner b = account \<and>
       cs_completed c = (if completed then Some 1 else None)] @
      [reportStakeRow r. r \<leftarrow> t_initial_reports d,
       account \<noteq> '''' \<and> ir_reporter r = account \<and> ir_marketId r \<in> set marketIds])"

definition getAccountStakes :: "address list \<Rightarrow> address option \<Rightarrow> bool \<Rightarrow> StakeRow list action" where
  "getAccountStakes marketIds account completed = (case account of
     None \<Rightarrow> return []
   | Some a \<Rightarrow> gets (\<lambda>w.
       sumGroups stakeKey plusStake (accountStakeRows (tables w) marketIds a completed)))"

definition calculateBondSize :: "bn \<Rightarrow> bn \<Rightarrow> bn" where
  "calculateBondSize totalCompletedStakeOnAllPayouts completedStakeAmount =
     totalCompletedStakeOnAllPayouts * 2 - completedStakeAmount * 3"

definition disputeRounds :: "db \<Rightarrow> address list \<Rightarrow> DisputeRound list" where
  "disputeRounds d marketIds =
     map (\<lambda>g. \<lparr>dr_marketId = fst g, dr_disputeRound = int (length (snd g))\<rparr>)
       (groupBy cs_marketId (filter (\<lambda>c. cs_completed c = Some 1 \<and> cs_marketId c \<in> set marketIds)
          (t_crowdsourcers d)))"

definition marketsWithState :: "world \<Rightarrow> address list \<Rightarrow> (markets_row \<times> ReportingState option) list" where
  "marketsWithState w marketIds = map (\<lambda>m. (m, reportingStateOf w m))
     (filter (\<lambda>m. mk_marketId m \<in> set marketIds) (t_markets (tables w)))"

section \<open>Dispute information\<close>

definition noSizes :: StakeSizes where
  "noSizes = \<lparr>sz_bondSizeCurrent = None, sz_bondSizeTotal = None, sz_stakeCurrent = None,
     sz_stakeRemaining = None, sz_accountStakeCompleted = None, sz_accountStakeCurrent = None,
     sz_accountStakeTotal = None\<rparr>"

definition amountOn :: "'a StakeRow_scheme list \<Rightarrow> int \<Rightarrow> bn" where
  "amountOn rows payoutId = (case map_of (keyBy sk_payoutId rows) payoutId of
     None \<Rightarrow> 0 | Some r \<Rightarrow> sk_amountStaked r)"

definition currentAmounts :: "DisputesResult \<Rightarrow> ReportingState option \<Rightarrow> bn \<Rightarrow> payouts_row \<Rightarrow> StakeSizes" where
  "currentAmounts stakeRows reportingState totalCompletedStakeOnAllPayouts payout =
     (let stakeCompleted = amountOn (dj_stakesCompleted stakeRows) (po_payoutId payout);
          accountStakeCompleted = amountOn (dj_accountStakesCompleted stakeRows) (po_payoutId payout)
      in (if po_tentativeWinning payout \<noteq> 1 \<and> isActiveMarketState reportingState then
            let (bondSizeCurrent, stakeCurrent, accountStakeCurrent) =
                  (case map_of (keyBy sk_payoutId (dj_stakesCurrent stakeRows)) (po_payoutId payout) of
                     None \<Rightarrow> (calculateBondSize totalCompletedStakeOnAllPayouts stakeCompleted, 0, 0)
                   | Some stakeCurrentRow \<Rightarrow> (ac_size stakeCurrentRow, sk_amountStaked stakeCurrentRow,
                       amountOn (dj_accountStakesCurrent stakeRows) (po_payoutId payout)))
            in noSizes\<lparr>sz_bondSizeCurrent := Some bondSizeCurrent,
                 sz_stakeCurrent := Some stakeCurrent,
                 sz_accountStakeCurrent := Some accountStakeCurrent,
                 sz_accountStakeTotal := Some (accountStakeCurrent + accountStakeCompleted),
                 sz_stakeRemaining := Some (bondSizeCurrent - stakeCurrent),
                 sz_bondSizeTotal := Some (bondSizeCurrent + stakeCompleted)\<rparr>
          else noSizes)\<lparr>sz_accountStakeCompleted := Some accountStakeCompleted\<rparr>)"

definition stakeDetails :: "DisputesResult \<Rightarrow> ReportingState option \<Rightarrow> bn \<Rightarrow> payouts_row \<Rightarrow> StakeDetails" where
  "stakeDetails stakeRows reportingState totalCompletedStakeOnAllPayouts payout =
     NormalizedPayout.extend (normalizePayouts payout)
       (StakeDetails.fields
         ((currentAmounts stakeRows reportingState totalCompletedStakeOnAllPayouts payout)
            \<lparr>sz_stakeCurrent := Some (amountOn (dj_stakesCurrent stakeRows) (po_payoutId payout))\<rparr>)
         (amountOn (dj_stakesCompleted stakeRows) (po_payoutId payout))
         (po_tentativeWinning payout \<noteq> 0))"

definition reshapeStakeRowToUIStakeInfo :: "DisputesResult \<Rightarrow> UIStakeInfo option" where
  "reshapeStakeRowToUIStakeInfo stakeRows = (case dj_markets stakeRows of
     [] \<Rightarrow> None
   | marketRow # _ \<Rightarrow>
       let totalCompletedStakeOnAllPayouts =
             foldl (\<lambda>result completedStake. result + sk_amountStaked completedStake) 0
               (dj_stakesCompleted stakeRows)
       in Some \<lparr>ui_marketId = mk_marketId (fst marketRow),
            ui_disputeRound = (if totalCompletedStakeOnAllPayouts \<noteq> 0
              then Some (case dj_disputeRound stakeRows of
                           r # _ \<Rightarrow> dr_disputeRound r + 1 | [] \<Rightarrow> 1)
              else None),
            ui_stakeCompletedTotal = totalCompletedStakeOnAllPayouts,
            ui_bondSizeOfNewStake = totalCompletedStakeOnAllPayouts * 2,
            ui_stakes = map (stakeDetails stakeRows (snd marketRow) totalCompletedStakeOnAllPayouts)
              (dj_payouts stakeRows)\<rparr>)"

definition getDisputeInfo :: "DisputeInfoParams \<Rightarrow> UIStakeInfo option list action" where
  "getDisputeInfo params =
     (let cleanMarketIds = filter (\<lambda>i. i \<noteq> '''') (di_marketIds params)
      in bindA (gets (\<lambda>w. marketsWithState w cleanMarketIds)) (\<lambda>mkts.
         bindA (gets (\<lambda>w. filter (\<lambda>p. po_marketId p \<in> set cleanMarketIds) (t_payouts (tables w)))) (\<lambda>pays.
         bindA (getCompletedStakes cleanMarketIds) (\<lambda>stakesCompleted.
         bindA (getCurrentStakes cleanMarketIds) (\<lambda>stakesCurrent.
         bindA (getAccountStakes cleanMarketIds (di_account params) False) (\<lambda>accountStakesCurrent.
         bindA (getAccountStakes cleanMarketIds (di_account params) True) (\<lambda>accountStakesCompleted.
         bindA (gets (\<lambda>w. disputeRounds (tables w) cleanMarketIds)) (\<lambda>rounds.
         return (map (\<lambda>marketId. reshapeStakeRowToUIStakeInfo
           \<lparr>dj_markets = filter (\<lambda>m. mk_marketId (fst m) = marketId) mkts,
            dj_stakesCompleted = filter (\<lambda>r. sk_marketId r = marketId) stakesCompleted,
            dj_stakesCurrent = filter (\<lambda>r. sk_marketId r = marketId) stakesCurrent,
            dj_accountStakesCompleted = filter (\<lambda>r. sk_marketId r = marketId) accountStakesCompleted,
            dj_accountStakesCurrent = filter (\<lambda>r. sk_marketId r = marketId) accountStakesCurrent,
            dj_payouts = filter (\<lambda>p. po_marketId p = marketId) pays,
            dj_disputeRound = filter (\<lambda>r. dr_marketId r = marketId) rounds\<rparr>) cleanMarketIds)))))))))"

section \<open>Fee windows\<close>

record FeeWindowParams =
  fp_universe :: address
  fp_reporter :: "address option"
  fp_feeWindowState :: "string option"
  fp_feeWindow :: "address option"

record FeeWindowRepStaked =
  rs_feeWindowParticipationTokens :: bn
  rs_feeWindowFeeTokens :: bn
  rs_feeWindowRepStaked :: bn

record ReporterStake =
  rp_totalStake :: bn
  rp_participantContributions :: bn
  rp_participantContributionsInitialReport :: bn
  rp_participantContributionsCrowdsourcer :: bn
  rp_participationTokens :: bn
  rp_participantParticipationTokens :: bn

record UIFeeWindowCurrent =
  uf_feeWindow :: "address option"
  uf_feeWindowId :: int
  uf_startTime :: int
  uf_endTime :: int
  uf_universe :: address
  uf_feeToken :: "address option"
  uf_feeWindowEthFees :: "bn option"
  uf_repStaked :: "FeeWindowRepStaked option"
  uf_reporter :: "ReporterStake option"

text \<open>\<open>toUpperCase\<close> on ASCII; no other character has an upper case that a key below contains.\<close>

definition upperCase :: "char \<Rightarrow> char" where
  "upperCase c = (let n = of_char c :: nat in if 97 \<le> n \<and> n \<le> 122 then char_of (n - 32) else c)"

definition RELATIVE_FEE_WINDOW_STATE :: "string \<Rightarrow> int option" where
  "RELATIVE_FEE_WINDOW_STATE = map_of [(''PREVIOUS'', -1), (''CURRENT'', 0), (''NEXT'', 1)]"

definition fabricateFeeWindow :: "env \<Rightarrow> address \<Rightarrow> int \<Rightarrow> UIFeeWindowCurrent action" where
  "fabricateFeeWindow env universe targetTime =
     bindA (gets (\<lambda>w. list_ex (\<lambda>u. un_universe u = universe) (t_universes (tables w)))) (\<lambda>found.
     if \<not> found then throw (Thrown ''Universe does not exist'')
     else let duration = DISPUTE_ROUND_DURATION_SECONDS env; feeWindowId = targetTime div duration
       in return \<lparr>uf_feeWindow = None, uf_feeWindowId = feeWindowId, uf_startTime = feeWindowId * duration,
            uf_endTime = (feeWindowId + 1) * duration, uf_universe = universe, uf_feeToken = None,
            uf_feeWindowEthFees = None, uf_repStaked = None, uf_reporter = None\<rparr>)"

definition getFeeWindowEthFees :: "address \<Rightarrow> address \<Rightarrow> bn action" where
  "getFeeWindowEthFees cash feeWindow = gets (\<lambda>w. orZero (balanceOf (tables w) (Some feeWindow) cash))"

definition getFeeWindowRepStaked :: "address \<Rightarrow> address \<Rightarrow> FeeWindowRepStaked action" where
  "getFeeWindowRepStaked feeWindow feeToken = gets (\<lambda>w.
     let result = keyBy ts_token (filter (\<lambda>s. ts_token s \<in> {feeWindow, feeToken}) (t_token_supply (tables w)));
         feeWindowParticipationTokens = orZero (map_option ts_supply (map_of result feeWindow));
         feeWindowFeeTokens = orZero (map_option ts_supply (map_of result feeToken))
     in \<lparr>rs_feeWindowParticipationTokens = feeWindowParticipationTokens,
         rs_feeWindowFeeTokens = feeWindowFeeTokens,
         rs_feeWindowRepStaked = feeWindowParticipationTokens + feeWindowFeeTokens\<rparr>)"

definition contributionRows :: "db \<Rightarrow> address \<Rightarrow> address \<Rightarrow> (string \<times> bn) list" where
  "contributionRows d feeWindow reporter =
     [(pa_type p, pa_reporterBalance p). p \<leftarrow> all_participants d,
      pa_feeWindow p = feeWindow \<and> pa_reporter p = reporter]"

text \<open>The contributions to initial reports and to crowdsourcers.\<close>

definition getParticipantContributions :: "address \<Rightarrow> address \<Rightarrow> (bn \<times> bn) action" where
  "getParticipantContributions feeWindow reporter = gets (\<lambda>w.
     let pick = keyBy fst (sumGroups fst (\<lambda>result row. (fst row, snd row + snd result))
           (contributionRows (tables w) feeWindow reporter))
     in (orZero (map_option snd (map_of pick ''initial_report'')),
         orZero (map_option snd (map_of pick ''crowdsourcer''))))"

definition getParticipationTokens :: "address \<Rightarrow> address \<Rightarrow> bn action" where
  "getParticipationTokens feeWindow reporter = gets (\<lambda>w.
     case [bl_balance b. f \<leftarrow> t_fee_windows (tables w), b \<leftarrow> t_balances (tables w),
           bl_token b = fw_feeWindow f \<and> bl_owner b = reporter \<and> fw_feeWindow f = feeWindow] of
       [] \<Rightarrow> 0 | amountStaked # _ \<Rightarrow> amountStaked)"

text \<open>The time asked for, and the row at it: the first of those that match.\<close>

definition targetTimeOf :: "env \<Rightarrow> string option \<Rightarrow> int option action" where
  "targetTimeOf env feeWindowState = (case feeWindowState of
     None \<Rightarrow> return None
   | Some s \<Rightarrow> (case RELATIVE_FEE_WINDOW_STATE (map upperCase s) of
       None \<Rightarrow> throw (Thrown ''Use feeWindowState PREVIOUS, CURRENT, or NEXT'')
     | Some feeWindowDelta \<Rightarrow> gets (\<lambda>w.
         Some (getCurrentTime w + DISPUTE_ROUND_DURATION_SECONDS env * feeWindowDelta))))"

definition matchesFeeWindow :: "env \<Rightarrow> FeeWindowParams \<Rightarrow> int option \<Rightarrow> fee_windows_row \<Rightarrow> bool" where
  "matchesFeeWindow env params targetTime f \<longleftrightarrow>
     fw_universe f = fp_universe params \<and>
     onlyIf targetTime (\<lambda>t. t - DISPUTE_ROUND_DURATION_SECONDS env \<le> fw_startTime f \<and> fw_startTime f \<le> t) \<and>
     onlyIf (fp_feeWindow params) (\<lambda>a. fw_feeWindow f = a)"

definition getFeeWindowInfo :: "env \<Rightarrow> address \<Rightarrow> FeeWindowParams \<Rightarrow> UIFeeWindowCurrent action" where
  "getFeeWindowInfo env cash params =
     (if fp_feeWindowState params = None \<and> fp_feeWindow params = None
      then throw (Thrown ''Must provide either a feeWindowState OR feeWindow'')
      else bindA (targetTimeOf env (fp_feeWindowState params)) (\<lambda>targetTime.
        bindA (gets (\<lambda>w. find (matchesFeeWindow env params targetTime) (t_fee_windows (tables w)))) (\<lambda>row.
        case row of
          None \<Rightarrow> (case targetTime of
            None \<Rightarrow> throw (Thrown ''No feeWindow found and cannot infer targetTime from parameters'')
          | Some t \<Rightarrow> fabricateFeeWindow env (fp_universe params) t)
        | Some f \<Rightarrow>
            bindA (getFeeWindowEthFees cash (fw_feeWindow f)) (\<lambda>feeWindowEthFees.
            bindA (getFeeWindowRepStaked (fw_feeWindow f) (fw_feeToken f)) (\<lambda>feeWindowRepStaked.
            let feeWindowResponse = \<lparr>uf_feeWindow = Some (fw_feeWindow f), uf_feeWindowId = fw_feeWindowId f,
                  uf_startTime = fw_startTime f, uf_endTime = fw_endTime f, uf_universe = fw_universe f,
                  uf_feeToken = Some (fw_feeToken f), uf_feeWindowEthFees = Some feeWindowEthFees,
                  uf_repStaked = Some feeWindowRepStaked, uf_reporter = None\<rparr>
            in (case fp_reporter params of
                  None \<Rightarrow> return feeWindowResponse
                | Some reporter \<Rightarrow>
                    bindA (getParticipantContributions (fw_feeWindow f) reporter) (\<lambda>contributions.
                    bindA (getParticipationTokens (fw_feeWindow f) reporter) (\<lambda>participationTokens.
                    let totalParticipantContributions = snd contributions + fst contributions
                    in return (feeWindowResponse\<lparr>uf_reporter := Some
                         \<lparr>rp_totalStake = totalParticipantContributions + participationTokens,
                          rp_participantContributions = totalParticipantContributions,
                          rp_participantContributionsInitialReport = fst contributions,
                          rp_participantContributionsCrowdsourcer = snd contributions,
                          rp_participationTokens = participationTokens,
                          rp_participantParticipationTokens = participationTokens\<rparr>\<rparr>)))))))))"

section \<open>Sums by group, for any rows\<close>

text \<open>\<open>keyBy\<close> keeps the last row of each key.\<close>

lemma map_of_keyBy: "map_of (keyBy f xs) k = find (\<lambda>x. f x = k) (rev xs)"
  by (induction xs rule: rev_induct) (simp_all add: keyBy_def map_of_dictSet)

lemma find_filter: "find P (filter Q xs) = find (\<lambda>x. Q x \<and> P x) xs"
  by (induction xs) auto

lemma find_eq_filter: "find P xs = (case filter P xs of [] \<Rightarrow> None | x # _ \<Rightarrow> Some x)"
  by (induction xs) auto

lemma find_group:
  assumes "distinct (map f xs)" "x \<in> set xs"
  shows "find (\<lambda>y. f y = f x) (rev xs) = Some x"
proof -
  have "inj_on f (set xs)" using assms(1) by (simp add: distinct_map)
  then have "find (\<lambda>y. f y = f x) (rev xs) = find (\<lambda>y. y = x) (rev xs)"
    using assms(2) by (auto intro!: find_cong dest: inj_onD)
  also have "\<dots> = Some x" using assms(2) by (induction xs rule: rev_induct) auto
  finally show ?thesis .
qed

locale row_sums =
  fixes groupFields :: "'r \<Rightarrow> 'k" and addRow :: "'r \<Rightarrow> 'r \<Rightarrow> 'r" and amount :: "'r \<Rightarrow> bn"
  assumes groupFields_add: "groupFields (addRow a b) = groupFields b"
    and amount_add: "amount (addRow a b) = amount b + amount a"
begin

lemma amount_fold: "amount (foldl addRow r rs) = amount r + sum_list (map amount rs)"
  by (induction rs arbitrary: r) (simp_all add: amount_add)

lemma groupFields_fold: "\<forall>x \<in> set rs. groupFields x = k \<Longrightarrow> groupFields r = k \<Longrightarrow>
    groupFields (foldl addRow r rs) = k"
  by (induction rs arbitrary: r) (simp_all add: groupFields_add)

lemma group_row:
  assumes "(k, vs) \<in> set (groupBy groupFields xs)"
  shows "groupFields (foldl addRow (hd vs) (tl vs)) = k"
    and "amount (foldl addRow (hd vs) (tl vs)) = sum_list (map amount vs)"
proof -
  have vs: "vs = filter (\<lambda>x. groupFields x = k) xs" "vs \<noteq> []"
    using assms by (auto simp: groupBy_mem filter_empty_conv)
  obtain v us where c: "vs = v # us" using \<open>vs \<noteq> []\<close> by (cases vs) simp_all
  have "\<forall>x \<in> set (v # us). groupFields x = k" using vs(1) c by auto
  then show "groupFields (foldl addRow (hd vs) (tl vs)) = k" unfolding c by (simp add: groupFields_fold)
  show "amount (foldl addRow (hd vs) (tl vs)) = sum_list (map amount vs)"
    unfolding c by (simp add: amount_fold)
qed

lemma sumGroups_keys: "map groupFields (sumGroups groupFields addRow xs) = map fst (groupBy groupFields xs)"
  unfolding sumGroups_def map_map by (rule map_cong) (auto simp: group_row(1))

lemma sumGroups_mem:
  "r \<in> set (sumGroups groupFields addRow xs) \<Longrightarrow> groupFields r \<in> groupFields ` set xs \<and>
     amount r = sum_list (map amount (filter (\<lambda>x. groupFields x = groupFields r) xs))"
proof -
  assume "r \<in> set (sumGroups groupFields addRow xs)"
  then obtain k vs where g: "(k, vs) \<in> set (groupBy groupFields xs)" and r: "r = foldl addRow (hd vs) (tl vs)"
    by (auto simp: sumGroups_def)
  note row = group_row [OF g, folded r]
  with g show ?thesis by (simp add: groupBy_mem)
qed

lemma sumGroups_lookup:
  "map_option amount (find (\<lambda>r. groupFields r = k) (rev (sumGroups groupFields addRow xs))) =
     (if k \<in> groupFields ` set xs
      then Some (sum_list (map amount (filter (\<lambda>x. groupFields x = k) xs))) else None)"
proof (cases "k \<in> groupFields ` set xs")
  case True
  then have "k \<in> groupFields ` set (sumGroups groupFields addRow xs)"
    using arg_cong [OF sumGroups_keys, of set xs] by (simp add: groupBy_keys)
  then obtain r where r: "r \<in> set (sumGroups groupFields addRow xs)" "groupFields r = k" by auto
  have "distinct (map groupFields (sumGroups groupFields addRow xs))"
    by (simp only: sumGroups_keys groupBy_distinct)
  note find_group [of groupFields, OF this r(1), unfolded r(2)]
  then show ?thesis using sumGroups_mem [OF r(1)] r(2) True by simp
next
  case False
  then have "find (\<lambda>r. groupFields r = k) (rev (sumGroups groupFields addRow xs)) = None"
    using sumGroups_mem by (auto simp: find_None_iff)
  with False show ?thesis by simp
qed

lemma sumGroups_total:
  "sum_list (map amount (filter (\<lambda>r. P (groupFields r)) (sumGroups groupFields addRow xs))) =
     sum_list (map amount (filter (\<lambda>x. P (groupFields x)) xs))"
proof -
  let ?g = "\<lambda>x. if P (groupFields x) then amount x else 0"
  have s: "sum_list (map amount (filter (\<lambda>r. P (groupFields r)) ys)) = sum_list (map ?g ys)" for ys
    by (induction ys) auto
  have group: "?g (foldl addRow (hd vs) (tl vs)) = sum_list (map ?g vs)"
    if "(k, vs) \<in> set (groupBy groupFields xs)" for k vs
  proof -
    have "\<forall>x \<in> set vs. groupFields x = k" using that by (auto simp: groupBy_mem)
    then have "map ?g vs = (if P k then map amount vs else map (\<lambda>_. 0) vs)" by auto
    then show ?thesis using group_row [OF that] by simp
  qed
  have "sum_list (map ?g (sumGroups groupFields addRow xs)) =
      sum_list (map (\<lambda>(k, vs). sum_list (map ?g vs)) (groupBy groupFields xs))"
    unfolding sumGroups_def map_map
    by (rule arg_cong [of _ _ sum_list], rule map_cong) (auto simp only: group o_def split_beta fst_conv snd_conv)
  then show ?thesis unfolding s sum_groupBy .
qed

end

interpretation stakes: row_sums stakeKey plusStake sk_amountStaked
  by unfold_locales (simp_all add: stakeKey_def plusStake_def)

interpretation crowdStakes: row_sums stakeKey plusCrowdsourcer sk_amountStaked
  by unfold_locales (simp_all add: stakeKey_def plusStake_def plusCrowdsourcer_def)

interpretation crowdSizes: row_sums stakeKey plusCrowdsourcer ac_size
  by unfold_locales (simp_all add: stakeKey_def plusStake_def plusCrowdsourcer_def)

interpretation contributions: row_sums fst "\<lambda>result row :: string \<times> bn. (fst row, snd row + snd result)" snd
  by unfold_locales simp_all

section \<open>Bonds\<close>

text \<open>The stake of the rows on one payout of a market, and on all others of the market.\<close>

definition stakeIn :: "'a StakeRow_scheme list \<Rightarrow> address \<Rightarrow> int \<Rightarrow> bn" where
  "stakeIn rows marketId payoutId =
     sum_list (map sk_amountStaked (filter (\<lambda>r. stakeKey r = (marketId, payoutId)) rows))"

definition stakeOnOthers :: "'a StakeRow_scheme list \<Rightarrow> address \<Rightarrow> int \<Rightarrow> bn" where
  "stakeOnOthers rows marketId payoutId =
     sum_list (map sk_amountStaked (filter (\<lambda>r. sk_marketId r = marketId \<and> sk_payoutId r \<noteq> payoutId) rows))"

lemma stake_of_market: "sum_list (map sk_amountStaked (filter (\<lambda>r. sk_marketId r = marketId) rows)) =
    stakeIn rows marketId payoutId + stakeOnOthers rows marketId payoutId"
  by (induction rows) (auto simp: stakeIn_def stakeOnOthers_def stakeKey_def)

lemma row_at: "map_of (keyBy sk_payoutId (filter (\<lambda>r. sk_marketId r = m) rows)) p =
    find (\<lambda>r. stakeKey r = (m, p)) (rev rows)"
  by (simp add: map_of_keyBy rev_filter find_filter stakeKey_def)

lemma amountOn_eq: "amountOn (filter (\<lambda>r. sk_marketId r = m) rows) p =
    orZero (map_option sk_amountStaked (find (\<lambda>r. stakeKey r = (m, p)) (rev rows)))"
  by (simp add: amountOn_def row_at orZero_def split: option.split)

lemma no_stake: "(m, p) \<notin> stakeKey ` set rows \<Longrightarrow> filter (\<lambda>r. stakeKey r = (m, p)) rows = []"
  by (metis (mono_tags, lifting) filter_False image_eqI)

lemma amountOn_stakes:
  "amountOn (filter (\<lambda>r. sk_marketId r = m) (sumGroups stakeKey plusStake rows)) p = stakeIn rows m p"
  by (simp add: amountOn_eq stakes.sumGroups_lookup stakeIn_def orZero_def no_stake)

lemma amountOn_crowdsourcers:
  "amountOn (filter (\<lambda>r. sk_marketId r = m) (sumGroups stakeKey plusCrowdsourcer rows)) p = stakeIn rows m p"
  by (simp add: amountOn_eq crowdStakes.sumGroups_lookup stakeIn_def orZero_def no_stake)

text \<open>
  What is shown of a payout, from the rows of completed and of running stakes and of the stakes of the account,
  in a market that is being disputed or not.
\<close>

definition showsStake ::
  "StakeRow list \<Rightarrow> ActiveCrowdsourcer list \<Rightarrow> StakeRow list \<Rightarrow> bool \<Rightarrow> payouts_row \<Rightarrow> StakeDetails \<Rightarrow> bool" where
  "showsStake completed running mine disputed p sd \<longleftrightarrow>
     (let m = po_marketId p; i = po_payoutId p; s = sd_sizes sd;
          onPayout = filter (\<lambda>r. stakeKey r = (m, i)) running
      in sd_stakeCompleted sd = stakeIn completed m i \<and>
         sz_stakeCurrent s = Some (stakeIn running m i) \<and>
         sz_accountStakeCompleted s = Some (stakeIn mine m i) \<and>
         (case sz_bondSizeCurrent s of
            None \<Rightarrow> po_tentativeWinning p = 1 \<or> \<not> disputed
          | Some bond \<Rightarrow> po_tentativeWinning p \<noteq> 1 \<and> disputed \<and>
              sz_stakeRemaining s = Some (bond - stakeIn running m i) \<and>
              sz_bondSizeTotal s = Some (bond + stakeIn completed m i) \<and>
              (if onPayout = [] then bond + stakeIn completed m i = 2 * stakeOnOthers completed m i
               else bond = sum_list (map ac_size onPayout))))"

lemma size_of_crowdsourcer:
  assumes "find (\<lambda>r. stakeKey r = (m, p)) (rev (sumGroups stakeKey plusCrowdsourcer rows)) = Some r"
  shows "sk_amountStaked r = stakeIn rows m p"
    and "ac_size r = sum_list (map ac_size (filter (\<lambda>r. stakeKey r = (m, p)) rows))"
    and "filter (\<lambda>r. stakeKey r = (m, p)) rows \<noteq> []"
proof -
  have "(m, p) \<in> stakeKey ` set rows"
    using crowdStakes.sumGroups_lookup [of "(m, p)" rows] assms by (auto split: if_splits)
  then show "filter (\<lambda>r. stakeKey r = (m, p)) rows \<noteq> []" by (auto simp: filter_empty_conv)
  show "sk_amountStaked r = stakeIn rows m p"
    using crowdStakes.sumGroups_lookup [of "(m, p)" rows] assms by (simp add: stakeIn_def split: if_splits)
  show "ac_size r = sum_list (map ac_size (filter (\<lambda>r. stakeKey r = (m, p)) rows))"
    using crowdSizes.sumGroups_lookup [of "(m, p)" rows] assms by (simp split: if_splits)
qed

lemma no_crowdsourcer:
  "find (\<lambda>r. stakeKey r = (m, p)) (rev (sumGroups stakeKey plusCrowdsourcer rows)) = None \<Longrightarrow>
    filter (\<lambda>r. stakeKey r = (m, p)) rows = []"
  using crowdStakes.sumGroups_lookup [of "(m, p)" rows] no_stake [of m p rows]
  by (simp split: if_splits)

lemma stakeDetails_shows:
  assumes "dj_stakesCompleted d = filter (\<lambda>r. sk_marketId r = po_marketId p) (sumGroups stakeKey plusStake completed)"
    and "dj_stakesCurrent d = filter (\<lambda>r. sk_marketId r = po_marketId p) (sumGroups stakeKey plusCrowdsourcer running)"
    and "dj_accountStakesCompleted d = filter (\<lambda>r. sk_marketId r = po_marketId p) (sumGroups stakeKey plusStake mine)"
    and "t = stakeIn completed (po_marketId p) (po_payoutId p) + stakeOnOthers completed (po_marketId p) (po_payoutId p)"
  shows "showsStake completed running mine (isActiveMarketState state) p (stakeDetails d state t p)"
proof -
  have a: "amountOn (dj_stakesCompleted d) (po_payoutId p) = stakeIn completed (po_marketId p) (po_payoutId p)"
    "amountOn (dj_stakesCurrent d) (po_payoutId p) = stakeIn running (po_marketId p) (po_payoutId p)"
    "amountOn (dj_accountStakesCompleted d) (po_payoutId p) = stakeIn mine (po_marketId p) (po_payoutId p)"
    by (simp_all only: assms amountOn_stakes amountOn_crowdsourcers)
  have c: "map_of (keyBy sk_payoutId (dj_stakesCurrent d)) (po_payoutId p) =
      find (\<lambda>r. stakeKey r = (po_marketId p, po_payoutId p)) (rev (sumGroups stakeKey plusCrowdsourcer running))"
    by (simp only: assms row_at)
  note defs = showsStake_def stakeDetails_def currentAmounts_def a c Let_def NormalizedPayout.defs
    StakeDetails.defs noSizes_def calculateBondSize_def assms(4)
  show ?thesis
  proof (cases "find (\<lambda>r. stakeKey r = (po_marketId p, po_payoutId p))
      (rev (sumGroups stakeKey plusCrowdsourcer running))")
    case None
    note none = no_crowdsourcer [OF None]
    then have "stakeIn running (po_marketId p) (po_payoutId p) = 0" by (simp add: stakeIn_def)
    then show ?thesis by (simp add: defs None none)
  next
    case (Some r)
    then show ?thesis using size_of_crowdsourcer [OF Some] by (simp add: defs)
  qed
qed

text \<open>The markets asked for, and the rows of the account in them.\<close>

definition cleanMarketIds :: "DisputeInfoParams \<Rightarrow> address list" where
  "cleanMarketIds params = filter (\<lambda>i. i \<noteq> '''') (di_marketIds params)"

definition accountRows :: "db \<Rightarrow> DisputeInfoParams \<Rightarrow> bool \<Rightarrow> StakeRow list" where
  "accountRows d params completed = (case di_account params of
     None \<Rightarrow> [] | Some a \<Rightarrow> accountStakeRows d (cleanMarketIds params) a completed)"

lemma getAccountStakes_eq: "getAccountStakes (cleanMarketIds params) (di_account params) completed =
    gets (\<lambda>w. sumGroups stakeKey plusStake (accountRows (tables w) params completed))"
  by (auto simp: getAccountStakes_def accountRows_def gets_def return_def sumGroups_def split: option.split)

text \<open>What is shown of a market: nothing if there is no row of it.\<close>

definition showsDispute :: "world \<Rightarrow> DisputeInfoParams \<Rightarrow> address \<Rightarrow> UIStakeInfo option \<Rightarrow> bool" where
  "showsDispute w params m info = (case info of
     None \<Rightarrow> m \<notin> mk_marketId ` set (t_markets (tables w))
   | Some i \<Rightarrow> ui_marketId i = m \<and>
       ui_stakeCompletedTotal i = sum_list (map sk_amountStaked
         (filter (\<lambda>r. sk_marketId r = m) (completedStakeRows (tables w) (cleanMarketIds params)))) \<and>
       (\<exists>market. find (\<lambda>k. mk_marketId k = m) (t_markets (tables w)) = Some market \<and>
          list_all2 (showsStake (completedStakeRows (tables w) (cleanMarketIds params))
              (currentStakeRows (tables w) (cleanMarketIds params)) (accountRows (tables w) params True)
              (isActiveMarketState (reportingStateOf w market)))
            (filter (\<lambda>p. po_marketId p = m) (t_payouts (tables w))) (ui_stakes i)))"

lemma getDisputeInfo_result:
  "\<exists>infos. getDisputeInfo params w = (Inr infos, w) \<and>
     list_all2 (showsDispute w params) (cleanMarketIds params) infos"
proof -
  let ?ids = "cleanMarketIds params"
  let ?completed = "completedStakeRows (tables w) ?ids"
  let ?running = "currentStakeRows (tables w) ?ids"
  let ?d = "\<lambda>m. \<lparr>dj_markets = filter (\<lambda>k. mk_marketId (fst k) = m) (marketsWithState w ?ids),
      dj_stakesCompleted = filter (\<lambda>r. sk_marketId r = m) (sumGroups stakeKey plusStake ?completed),
      dj_stakesCurrent = filter (\<lambda>r. sk_marketId r = m) (sumGroups stakeKey plusCrowdsourcer ?running),
      dj_accountStakesCompleted = filter (\<lambda>r. sk_marketId r = m)
        (sumGroups stakeKey plusStake (accountRows (tables w) params True)),
      dj_accountStakesCurrent = filter (\<lambda>r. sk_marketId r = m)
        (sumGroups stakeKey plusStake (accountRows (tables w) params False)),
      dj_payouts = filter (\<lambda>p. po_marketId p = m)
        (filter (\<lambda>p. po_marketId p \<in> set ?ids) (t_payouts (tables w))),
      dj_disputeRound = filter (\<lambda>r. dr_marketId r = m) (disputeRounds (tables w) ?ids)\<rparr>"
  have run: "getDisputeInfo params w = (Inr (map (\<lambda>m. reshapeStakeRowToUIStakeInfo (?d m)) ?ids), w)"
    unfolding getDisputeInfo_def Let_def cleanMarketIds_def [symmetric] getAccountStakes_eq getCompletedStakes_def
      getCurrentStakes_def
    by (simp add: bindA_def gets_def return_def)
  have line: "showsDispute w params m (reshapeStakeRowToUIStakeInfo (?d m))"
    if m: "m \<in> set ?ids" for m
  proof -
    have mkts: "dj_markets (?d m) = map (\<lambda>k. (k, reportingStateOf w k))
        (filter (\<lambda>k. mk_marketId k = m) (t_markets (tables w)))"
    proof -
      have "filter (\<lambda>k. mk_marketId k \<in> set ?ids \<and> mk_marketId k = m) (t_markets (tables w)) =
          filter (\<lambda>k. mk_marketId k = m) (t_markets (tables w))"
        using m by (auto intro: filter_cong)
      then show ?thesis by (simp add: marketsWithState_def filter_map o_def)
    qed
    show ?thesis
    proof (cases "filter (\<lambda>k. mk_marketId k = m) (t_markets (tables w))")
      case Nil
      then show ?thesis using mkts
        by (auto simp: showsDispute_def reshapeStakeRowToUIStakeInfo_def filter_empty_conv)
    next
      case (Cons market rest)
      have pays: "dj_payouts (?d m) = filter (\<lambda>p. po_marketId p = m) (t_payouts (tables w))"
        using m by (auto intro: filter_cong)
      have sum: "foldl (\<lambda>result s. result + sk_amountStaked s) 0 (dj_stakesCompleted (?d m)) =
          sum_list (map sk_amountStaked (filter (\<lambda>r. sk_marketId r = m) ?completed))"
        using stakes.sumGroups_total [of "\<lambda>k. fst k = m" ?completed]
        by (simp add: foldl_sum stakeKey_def)
      have "find (\<lambda>k. mk_marketId k = m) (t_markets (tables w)) = Some market"
        using Cons by (simp add: find_eq_filter)
      moreover have "mk_marketId market = m" using Cons by (auto simp: filter_eq_Cons_iff)
      moreover have "showsStake ?completed ?running (accountRows (tables w) params True)
          (isActiveMarketState state) p (stakeDetails (?d m) state
            (sum_list (map sk_amountStaked (filter (\<lambda>r. sk_marketId r = m) ?completed))) p)"
        if "po_marketId p = m" for p state
        by (rule stakeDetails_shows) (simp_all add: that stake_of_market)
      ultimately show ?thesis
        unfolding showsDispute_def reshapeStakeRowToUIStakeInfo_def mkts Cons sum pays
        by (simp add: Let_def list_all2_map2 list_all2_same)
    qed
  qed
  show ?thesis
    by (intro exI conjI, rule run) (use line in \<open>auto simp: list_all2_map2 list_all2_same\<close>)
qed

text \<open>An initial report is among the stakes of its reporter both in the completed and in the running ones.\<close>

lemma report_in_both:
  "r \<in> set (t_initial_reports d) \<Longrightarrow> ir_marketId r \<in> set marketIds \<Longrightarrow> ir_reporter r \<noteq> '''' \<Longrightarrow>
    reportStakeRow r \<in> set (accountStakeRows d marketIds (ir_reporter r) completed)"
  by (auto simp: accountStakeRows_def)

text \<open>
  Alice made the initial report, with 10, on payout 2, which a crowdsourcer with 20 then disputed. Bob has put 5
  of the 30 that are needed on payout 2. Alice is shown a stake of 20.
\<close>

definition dispute_world :: world where
  "dispute_world = empty_world\<lparr>tables := empty_db
     \<lparr>t_markets := [sample_market\<lparr>mk_marketStateId := Some 1\<rparr>],
      t_market_state := [\<lparr>ms_marketStateId = 1, ms_marketId = ''m'', ms_reportingState = AWAITING_NEXT_WINDOW,
        ms_blockNumber = 1\<rparr>],
      t_payouts := [\<lparr>po_payoutId = 1, po_marketId = ''m'', po_payouts = [Some 10, Some 0], po_isInvalid = False,
          po_tentativeWinning = 1, po_winning = None\<rparr>,
        \<lparr>po_payoutId = 2, po_marketId = ''m'', po_payouts = [Some 0, Some 10], po_isInvalid = False,
          po_tentativeWinning = 0, po_winning = None\<rparr>],
      t_initial_reports := [\<lparr>ir_blockNumber = 1, ir_transactionHash = ''t1'', ir_logIndex = 0,
        ir_marketId = ''m'', ir_reporter = ''alice'', ir_isDesignatedReporter = True, ir_amountStaked = 10,
        ir_initialReporter = ''ir'', ir_redeemed = False, ir_payoutId = 2, ir_disavowed = 0\<rparr>],
      t_crowdsourcers := [\<lparr>cs_crowdsourcerId = ''c1'', cs_blockNumber = 2, cs_transactionHash = ''t2'',
          cs_logIndex = 0, cs_marketId = ''m'', cs_feeWindow = ''f'', cs_payoutId = 1, cs_size = 20,
          cs_amountStaked = 20, cs_completed = Some 1, cs_disavowed = 0\<rparr>,
        \<lparr>cs_crowdsourcerId = ''c2'', cs_blockNumber = 3, cs_transactionHash = ''t3'',
          cs_logIndex = 0, cs_marketId = ''m'', cs_feeWindow = ''f'', cs_payoutId = 2, cs_size = 30,
          cs_amountStaked = 5, cs_completed = None, cs_disavowed = 0\<rparr>],
      t_balances := [\<lparr>bl_owner = ''bob'', bl_token = ''c2'', bl_balance = 5\<rparr>]\<rparr>\<rparr>"

lemma report_counted_twice:
  "\<exists>info. fst (getDisputeInfo \<lparr>di_marketIds = [''m''], di_account = Some ''alice''\<rparr> dispute_world) = Inr [Some info] \<and>
     map (\<lambda>s. sz_accountStakeTotal (sd_sizes s)) (ui_stakes info) = [None, Some 20]"
  by (simp add: getDisputeInfo_def marketsWithState_def getCompletedStakes_def getCurrentStakes_def
      getAccountStakes_def accountStakeRows_def completedStakeRows_def currentStakeRows_def disputeRounds_def
      dispute_world_def sample_simps bindA_def gets_def return_def reshapeStakeRowToUIStakeInfo_def stakeDetails_def
      currentAmounts_def sumGroups_def groupBy_def stakeKey_def plusStake_def plusCrowdsourcer_def reportStakeRow_def
      distinctRows_def amountOn_def keyBy_def NormalizedPayout.defs StakeDetails.defs noSizes_def
      reportingStateOf_def isActiveMarketState_def activeMarketStates_def calculateBondSize_def)

section \<open>The fee window of a time\<close>

text \<open>The contracts place the windows of a universe end to end.\<close>

definition windows_aligned :: "env \<Rightarrow> db \<Rightarrow> address \<Rightarrow> bool" where
  "windows_aligned env d universe \<longleftrightarrow> (\<forall>f \<in> set (t_fee_windows d). fw_universe f = universe \<longrightarrow>
     fw_startTime f = fw_feeWindowId f * DISPUTE_ROUND_DURATION_SECONDS env \<and>
     fw_endTime f = (fw_feeWindowId f + 1) * DISPUTE_ROUND_DURATION_SECONDS env)"

text \<open>What a result says of the window at a time, and of the stake of the reporter in it.\<close>

definition containsTime :: "int \<Rightarrow> address \<Rightarrow> int \<Rightarrow> UIFeeWindowCurrent \<Rightarrow> bool" where
  "containsTime duration universe t r \<longleftrightarrow>
     uf_universe r = universe \<and>
     uf_startTime r = uf_feeWindowId r * duration \<and> uf_endTime r = uf_startTime r + duration \<and>
     uf_startTime r \<le> t \<and> t \<le> uf_endTime r \<and>
     (t mod duration \<noteq> 0 \<longrightarrow> uf_feeWindowId r = t div duration)"

definition stakeIsOf :: "db \<Rightarrow> address option \<Rightarrow> UIFeeWindowCurrent \<Rightarrow> bool" where
  "stakeIsOf d reporter r \<longleftrightarrow>
     (case uf_repStaked r of None \<Rightarrow> uf_feeWindow r = None | Some s \<Rightarrow>
        rs_feeWindowRepStaked s = rs_feeWindowParticipationTokens s + rs_feeWindowFeeTokens s) \<and>
     (case uf_reporter r of None \<Rightarrow> reporter = None \<or> uf_feeWindow r = None | Some s \<Rightarrow>
        rp_totalStake s = rp_participantContributions s + rp_participationTokens s \<and>
        rp_participantContributions s = sum_list (map pa_reporterBalance
          (filter (\<lambda>p. Some (pa_feeWindow p) = uf_feeWindow r \<and> Some (pa_reporter p) = reporter)
             (all_participants d))))"

lemma participant_types:
  "p \<in> set (all_participants d) \<Longrightarrow> pa_type p = ''initial_report'' \<or> pa_type p = ''crowdsourcer''"
  by (auto simp: all_participants_def initialReportParticipants_def crowdsourcerParticipants_def)

lemma no_group: "k \<notin> f ` set rows \<Longrightarrow> sum_list (map g (filter (\<lambda>x. f x = k) rows)) = (0 :: bn)"
  by (metis (mono_tags, lifting) filter_False image_eqI list.simps(8) sum_list.Nil)

lemma contribution_of_type:
  "orZero (map_option snd (map_of (keyBy fst (sumGroups fst (\<lambda>result row. (fst row, snd row + snd result)) rows)) k)) =
     sum_list (map snd (filter (\<lambda>r. fst r = k) (rows :: (string \<times> bn) list)))"
  unfolding map_of_keyBy contributions.sumGroups_lookup by (simp add: orZero_def no_group)

lemma contributions_all:
  assumes "\<forall>r \<in> set rows. fst r = (a :: string) \<or> fst r = b" "a \<noteq> b"
  shows "sum_list (map snd (filter (\<lambda>r. fst r = a) rows)) + sum_list (map snd (filter (\<lambda>r. fst r = b) rows)) =
    (sum_list (map snd rows) :: bn)"
  using assms by (induction rows) auto

lemma contributionRows_sum: "sum_list (map snd (contributionRows d feeWindow reporter)) =
    sum_list (map pa_reporterBalance
      (filter (\<lambda>p. pa_feeWindow p = feeWindow \<and> pa_reporter p = reporter) (all_participants d)))"
proof -
  have "sum_list (map snd (concat (map (\<lambda>p. if P p then [(t p, g p)] else []) xs))) = sum_list (map g (filter P xs))"
    for P and t :: "participant_row \<Rightarrow> string" and g :: "participant_row \<Rightarrow> bn" and xs
    by (induction xs) simp_all
  then show ?thesis unfolding contributionRows_def by simp
qed

lemma getParticipantContributions_sum:
  "\<exists>a b. getParticipantContributions feeWindow reporter w = (Inr (a, b), w) \<and>
     b + a = sum_list (map pa_reporterBalance
       (filter (\<lambda>p. pa_feeWindow p = feeWindow \<and> pa_reporter p = reporter) (all_participants (tables w))))"
proof -
  let ?rows = "contributionRows (tables w) feeWindow reporter"
  have "\<forall>r \<in> set ?rows. fst r = ''initial_report'' \<or> fst r = ''crowdsourcer''"
    by (auto simp: contributionRows_def dest: participant_types)
  from contributions_all [OF this] have "sum_list (map snd (filter (\<lambda>r. fst r = ''crowdsourcer'') ?rows)) +
      sum_list (map snd (filter (\<lambda>r. fst r = ''initial_report'') ?rows)) = sum_list (map snd ?rows)"
    by (simp add: add.commute)
  then show ?thesis
    unfolding getParticipantContributions_def gets_def Let_def contribution_of_type contributionRows_sum by blast
qed

lemma window_of_time:
  fixes d t i :: int
  assumes "0 < d" "t - d \<le> i * d" "i * d \<le> t"
  shows "t \<le> (i + 1) * d" "t mod d \<noteq> 0 \<Longrightarrow> i = t div d"
proof -
  show before: "t \<le> (i + 1) * d" using assms(2) by (simp add: algebra_simps)
  assume "t mod d \<noteq> 0"
  then have "t \<noteq> (i + 1) * d" by auto
  with before have "t - i * d < d" by (simp add: algebra_simps)
  then show "i = t div d"
    using int_div_pos_eq [of t d i "t - i * d"] assms(3) by (simp add: mult.commute)
qed

lemma fabricated_window:
  assumes "0 < DISPUTE_ROUND_DURATION_SECONDS env" "list_ex (\<lambda>u. un_universe u = universe) (t_universes (tables w))"
  shows "\<exists>r. fabricateFeeWindow env universe t w = (Inr r, w) \<and> uf_feeWindow r = None \<and>
    containsTime (DISPUTE_ROUND_DURATION_SECONDS env) universe t r \<and> stakeIsOf (tables w) reporter r"
proof -
  let ?d = "DISPUTE_ROUND_DURATION_SECONDS env"
  have "t div ?d * ?d \<le> t" "t \<le> t div ?d * ?d + ?d"
    using assms(1) div_mult_mod_eq [of t ?d] pos_mod_sign [of ?d t] pos_mod_bound [of ?d t] by linarith+
  then show ?thesis using assms(2)
    by (simp add: fabricateFeeWindow_def bindA_def gets_def return_def containsTime_def stakeIsOf_def Let_def algebra_simps)
qed

lemma getFeeWindow_row:
  assumes "targetTimeOf env (fp_feeWindowState params) w = (Inr t, w)"
    and "find (matchesFeeWindow env params t) (t_fee_windows (tables w)) = Some f"
    and "fp_feeWindowState params \<noteq> None \<or> fp_feeWindow params \<noteq> None"
  shows "\<exists>r. getFeeWindowInfo env cash params w = (Inr r, w) \<and> uf_feeWindow r = Some (fw_feeWindow f) \<and>
    uf_feeWindowId r = fw_feeWindowId f \<and> uf_startTime r = fw_startTime f \<and> uf_endTime r = fw_endTime f \<and>
    uf_universe r = fw_universe f \<and> stakeIsOf (tables w) (fp_reporter params) r"
proof (cases "fp_reporter params")
  case None
  with assms show ?thesis
    by (auto simp: getFeeWindowInfo_def bindA_def gets_def return_def getFeeWindowEthFees_def getFeeWindowRepStaked_def
        stakeIsOf_def Let_def)
next
  case (Some reporter)
  obtain a b where c: "getParticipantContributions (fw_feeWindow f) reporter w = (Inr (a, b), w)"
    "b + a = sum_list (map pa_reporterBalance (filter (\<lambda>p. pa_feeWindow p = fw_feeWindow f \<and> pa_reporter p = reporter)
       (all_participants (tables w))))"
    using getParticipantContributions_sum by blast
  with assms Some show ?thesis
    by (auto simp: getFeeWindowInfo_def bindA_def gets_def return_def getFeeWindowEthFees_def getFeeWindowRepStaked_def
        getParticipationTokens_def stakeIsOf_def Let_def)
qed

lemma getFeeWindow_none:
  assumes "targetTimeOf env (fp_feeWindowState params) w = (Inr (Some t), w)"
    and "find (matchesFeeWindow env params (Some t)) (t_fee_windows (tables w)) = None"
    and "fp_feeWindowState params \<noteq> None"
  shows "getFeeWindowInfo env cash params w = fabricateFeeWindow env (fp_universe params) t w"
  using assms by (auto simp: getFeeWindowInfo_def bindA_def gets_def)

lemma targetTimeOf_eq: "RELATIVE_FEE_WINDOW_STATE (map upperCase s) = Some delta \<Longrightarrow>
    targetTimeOf env (Some s) w = (Inr (Some (getCurrentTime w + DISPUTE_ROUND_DURATION_SECONDS env * delta)), w)"
  by (simp add: targetTimeOf_def gets_def)

text \<open>C35. Asked for the previous, current or next fee window, the node answers with the window of the universe
  that contains the time a period ago, now, or in a period, whether the window exists or not. Only at the very
  start of a window the answer may be the one that ends there. The stake in it adds up.\<close>

theorem fee_window_of_time:
  assumes duration: "0 < DISPUTE_ROUND_DURATION_SECONDS env"
    and aligned: "windows_aligned env (tables w) (fp_universe params)"
    and known: "list_ex (\<lambda>u. un_universe u = fp_universe params) (t_universes (tables w))"
    and state: "fp_feeWindow params = None" "fp_feeWindowState params = Some s"
      "RELATIVE_FEE_WINDOW_STATE (map upperCase s) = Some delta"
  shows "\<exists>r. getFeeWindowInfo env cash params w = (Inr r, w) \<and> stakeIsOf (tables w) (fp_reporter params) r \<and>
    containsTime (DISPUTE_ROUND_DURATION_SECONDS env) (fp_universe params)
      (getCurrentTime w + DISPUTE_ROUND_DURATION_SECONDS env * delta) r \<and>
    (uf_feeWindow r \<noteq> None \<longleftrightarrow> (\<exists>f \<in> set (t_fee_windows (tables w)).
       matchesFeeWindow env params (Some (getCurrentTime w + DISPUTE_ROUND_DURATION_SECONDS env * delta)) f))"
proof -
  let ?d = "DISPUTE_ROUND_DURATION_SECONDS env"
  let ?t = "getCurrentTime w + ?d * delta"
  note target = targetTimeOf_eq [OF state(3), of env w, folded state(2)]
  show ?thesis
  proof (cases "find (matchesFeeWindow env params (Some ?t)) (t_fee_windows (tables w))")
    case None
    then have "\<forall>f \<in> set (t_fee_windows (tables w)). \<not> matchesFeeWindow env params (Some ?t) f"
      by (auto simp: find_None_iff)
    then show ?thesis
      using getFeeWindow_none [OF target None, of cash] fabricated_window [OF duration known, of ?t "fp_reporter params"] state(2) by auto
  next
    case (Some f)
    then have f: "f \<in> set (t_fee_windows (tables w))" "matchesFeeWindow env params (Some ?t) f"
      by (auto simp: find_Some_iff)
    then have u: "fw_universe f = fp_universe params" "?t - ?d \<le> fw_startTime f" "fw_startTime f \<le> ?t"
      by (simp_all add: matchesFeeWindow_def onlyIf_def)
    with f(1) aligned have a: "fw_startTime f = fw_feeWindowId f * ?d" "fw_endTime f = (fw_feeWindowId f + 1) * ?d"
      by (simp_all add: windows_aligned_def)
    obtain r where r: "getFeeWindowInfo env cash params w = (Inr r, w)" "uf_feeWindow r = Some (fw_feeWindow f)"
      "uf_feeWindowId r = fw_feeWindowId f" "uf_startTime r = fw_startTime f" "uf_endTime r = fw_endTime f"
      "uf_universe r = fw_universe f" "stakeIsOf (tables w) (fp_reporter params) r"
      using getFeeWindow_row [OF target Some] state(2) by fastforce
    have "containsTime ?d (fp_universe params) ?t r"
      using r u a window_of_time [OF duration u(2,3) [unfolded a(1)]]
      by (simp add: containsTime_def algebra_simps)
    with r f show ?thesis by blast
  qed
qed

section \<open>Properties and examples\<close>

text \<open>C34. Of every market asked for, in their order, the node shows the completed stake and, for each payout that
  can still become the tentative winner, the bond: filling it gives the payout twice the stake of all others
  together. While a crowdsourcer runs, the bond is its size, less what it holds.\<close>

theorem dispute_bonds:
  "\<exists>infos. getDisputeInfo params w = (Inr infos, w) \<and>
     list_all2 (showsDispute w params) (cleanMarketIds params) infos"
  by (rule getDisputeInfo_result)

text \<open>Two windows of 604800 seconds; the time is the start of the second one.\<close>

definition windows_world :: "int \<Rightarrow> world" where
  "windows_world now = empty_world\<lparr>blockHeadTimestamp := now, tables := empty_db
     \<lparr>t_universes := [\<lparr>un_universe = ''u'', un_parentUniverse = None, un_payoutId = None,
        un_reputationToken = ''rep'', un_forked = False\<rparr>],
      t_fee_windows := [\<lparr>fw_feeWindow = ''f1'', fw_feeWindowId = 1, fw_universe = ''u'', fw_startTime = 604800,
          fw_endTime = 1209600, fw_state = PAST, fw_fees = 0, fw_feeToken = ''ft1''\<rparr>,
        \<lparr>fw_feeWindow = ''f2'', fw_feeWindowId = 2, fw_universe = ''u'', fw_startTime = 1209600,
          fw_endTime = 1814400, fw_state = CURRENT, fw_fees = 0, fw_feeToken = ''ft2''\<rparr>]\<rparr>\<rparr>"

definition current_window :: FeeWindowParams where
  "current_window = \<lparr>fp_universe = ''u'', fp_reporter = None, fp_feeWindowState = Some ''current'',
     fp_feeWindow = None\<rparr>"

lemma current_is_a_state: "RELATIVE_FEE_WINDOW_STATE (map upperCase ''current'') = Some 0"
  by code_simp

lemma windows_world_time: "getCurrentTime (windows_world now) = now"
  by (simp add: windows_world_def empty_world_def getCurrentTime_def getOverrideTimestamp_def)

lemma windows_world_aligned: "windows_aligned sample_env (tables (windows_world now)) ''u''"
  by (simp add: windows_aligned_def windows_world_def sample_env_def)

theorem fee_window_of_time_witness:
  "\<exists>r. getFeeWindowInfo sample_env ''cash'' current_window (windows_world 1209601) =
      (Inr r, windows_world 1209601) \<and> uf_feeWindowId r = 2 \<and> uf_feeWindow r \<noteq> None"
proof -
  let ?w = "windows_world 1209601"
  have d: "DISPUTE_ROUND_DURATION_SECONDS sample_env = 604800" by (simp add: sample_env_def)
  have p: "fp_universe current_window = ''u''" "fp_feeWindow current_window = None"
    "fp_feeWindowState current_window = Some ''current''" by (simp_all add: current_window_def)
  have known: "list_ex (\<lambda>u. un_universe u = ''u'') (t_universes (tables ?w))" by (simp add: windows_world_def)
  have row: "\<exists>f \<in> set (t_fee_windows (tables ?w)). matchesFeeWindow sample_env current_window (Some 1209601) f"
    by (simp add: windows_world_def matchesFeeWindow_def onlyIf_def p d)
  have "\<exists>r. getFeeWindowInfo sample_env ''cash'' current_window ?w = (Inr r, ?w) \<and>
      containsTime 604800 ''u'' 1209601 r \<and> uf_feeWindow r \<noteq> None"
    using fee_window_of_time [of sample_env ?w current_window "''current''" 0 "''cash''",
        unfolded p d windows_world_time mult_zero_right add_0_right]
      known row windows_world_aligned [of 1209601] current_is_a_state by auto
  then obtain r where r: "getFeeWindowInfo sample_env ''cash'' current_window ?w = (Inr r, ?w)"
    "containsTime 604800 ''u'' 1209601 r" "uf_feeWindow r \<noteq> None"
    by blast
  from r(2) have "uf_feeWindowId r = 2" by (simp add: containsTime_def)
  with r show ?thesis by blast
qed

lemma window_at_its_start:
  "\<exists>r. fst (getFeeWindowInfo sample_env ''cash'' current_window (windows_world 1209600)) = Inr r \<and>
      uf_feeWindow r = Some ''f1''"
proof -
  let ?w = "windows_world 1209600"
  have t: "targetTimeOf sample_env (fp_feeWindowState current_window) ?w = (Inr (Some 1209600), ?w)"
    using targetTimeOf_eq [OF current_is_a_state, of sample_env ?w]
    by (simp add: current_window_def windows_world_time)
  have "find (matchesFeeWindow sample_env current_window (Some 1209600)) (t_fee_windows (tables ?w)) =
      Some (hd (t_fee_windows (tables ?w)))"
    by (simp add: matchesFeeWindow_def current_window_def sample_env_def onlyIf_def windows_world_def)
  from getFeeWindow_row [OF t this, of "''cash''"] show ?thesis
    by (auto simp: current_window_def windows_world_def)
qed

end
