(* ===== verification/Market_Getters.thy ===== *)
theory Market_Getters
  imports Dispute_Info Volumetrics
begin

text \<open>
  The getters on the orders, prices and shares of a market: \<open>get-better-worse-orders.ts\<close>,
  \<open>get-market-price-candlesticks.ts\<close>, \<open>get-market-price-history.ts\<close>, \<open>get-orders.ts\<close>, \<open>get-all-orders.ts\<close>,
  \<open>get-winning-balance.ts\<close>, \<open>get-user-share-balances.ts\<close>, \<open>get-proceed-trade-rows.ts\<close>,
  \<open>get-unclaimed-market-creator-fees.ts\<close> and \<open>get-markets-closing-in-date-range.ts\<close> of
  \<open>src/server/getters\<close>.

  \<^item> A join is a list comprehension; blocks are unique by their number. A number that is only printed stays
    a number. An object whose keys are outcomes or times lists them in ascending order.
  \<^item> \<open>text\<close> is \<open>toString\<close> of \<open>bignumber.js\<close>: \<open>_.minBy\<close> and \<open>_.maxBy\<close> compare two big numbers with \<open><\<close>, which
    JavaScript does on the strings that their \<open>valueOf\<close> returns.
  \<^item> An object nested by market, outcome, type and id of an order is a function of these four.
  \<^item> \<open>cash\<close> is the address of the cash contract, from augur.js.
\<close>

section \<open>Better and worse orders\<close>

record BetterWorseOrdersParams =
  bw_marketId :: address
  bw_outcome :: int
  bw_orderType :: string
  bw_price :: bn

record BetterWorseResult =
  br_betterOrderId :: "string option"
  br_worseOrderId :: "string option"

text \<open>The first element that is better than all before it: \<open>_.reduce\<close> here, \<open>_.minBy\<close> and \<open>_.maxBy\<close> below.\<close>

definition extremeBy :: "('a \<Rightarrow> 'a \<Rightarrow> bool) \<Rightarrow> ('r \<Rightarrow> 'a) \<Rightarrow> 'r list \<Rightarrow> 'r option" where
  "extremeBy better f xs =
     foldl (\<lambda>result x. case result of
        None \<Rightarrow> Some x | Some y \<Rightarrow> if better (f x) (f y) then Some x else Some y) None xs"

definition openOrders :: "BetterWorseOrdersParams \<Rightarrow> db \<Rightarrow> orders_row list" where
  "openOrders params d = filter (\<lambda>r. or_orderState r = OPEN \<and> or_marketId r = bw_marketId params \<and>
     or_outcome r = bw_outcome params \<and> or_orderType r = bw_orderType params) (t_orders d)"

definition getBetterWorseOrders :: "BetterWorseOrdersParams \<Rightarrow> BetterWorseResult action" where
  "getBetterWorseOrders params =
     bindA (gets (\<lambda>w. openOrders params (tables w))) (\<lambda>ords.
     let (lesserOrders, greaterOrders) = partition (\<lambda>r. or_price r < bw_price params) ords;
         greaterOrder = map_option or_orderId (extremeBy (\<lambda>a b. a < b) or_price greaterOrders);
         lesserOrder = map_option or_orderId (extremeBy (\<lambda>a b. b < a) or_price lesserOrders)
     in return (if bw_orderType params = ''buy''
          then \<lparr>br_betterOrderId = greaterOrder, br_worseOrderId = lesserOrder\<rparr>
          else \<lparr>br_betterOrderId = lesserOrder, br_worseOrderId = greaterOrder\<rparr>))"

section \<open>Candlesticks\<close>

record MarketPriceCandlesticksParams =
  cq_marketId :: address
  cq_outcome :: "int option"
  cq_start :: "int option"
  cq_end :: "int option"
  cq_period :: "int option"

record Candlestick =
  cd_startTimestamp :: int
  cd_start :: bn
  cd_end :: bn
  cd_min :: bn
  cd_max :: bn
  cd_volume :: bn
  cd_shareVolume :: bn
  cd_tokenVolume :: bn

text \<open>\<open>%\<close> has the sign of the dividend. A parameter that is zero counts as missing.\<close>

definition jsRemainder :: "int \<Rightarrow> int \<Rightarrow> int" where
  "jsRemainder a b = sgn a * (abs a mod abs b)"

definition orNumber :: "int option \<Rightarrow> int \<Rightarrow> int" where
  "orNumber x other = (case x of None \<Rightarrow> other | Some v \<Rightarrow> if v = 0 then other else v)"

definition getPeriodStarttime :: "int \<Rightarrow> int \<Rightarrow> int \<Rightarrow> int" where
  "getPeriodStarttime globalStarttime periodStartime period =
     (let secondsSinceGlobalStart = periodStartime - globalStarttime
      in (secondsSinceGlobalStart - jsRemainder secondsSinceGlobalStart period) + globalStarttime)"

text \<open>The trades with the time of their block.\<close>

definition pricedTrades :: "MarketPriceCandlesticksParams \<Rightarrow> db \<Rightarrow> (trades_row \<times> int) list" where
  "pricedTrades params d =
     [(r, bk_timestamp b). r \<leftarrow> t_trades d, b \<leftarrow> t_blocks d,
      td_blockNumber r = bk_blockNumber b \<and> td_marketId r = cq_marketId params \<and>
      onlyIf (cq_start params) (\<lambda>s. s \<le> bk_timestamp b) \<and>
      onlyIf (cq_end params) (\<lambda>e. bk_timestamp b \<le> e) \<and>
      onlyIf (cq_outcome params) (\<lambda>i. i = 0 \<or> td_outcome r = i)]"

definition candlestick ::
  "(bn \<Rightarrow> string) \<Rightarrow> bn \<Rightarrow> bn \<Rightarrow> int \<Rightarrow> (trades_row \<times> int) list \<Rightarrow> Candlestick result" where
  "candlestick text minPrice maxPrice startTimestamp rows =
     (let price = (\<lambda>r. td_price (fst r)) in
      case (extremeBy (\<lambda>a b. a < b) snd rows, extremeBy (\<lambda>a b. b < a) snd rows,
            extremeBy (\<lambda>a b. text a < text b) price rows, extremeBy (\<lambda>a b. text b < text a) price rows) of
        (Some opens, Some closes, Some low, Some high) \<Rightarrow>
          let shareVolume = foldl (\<lambda>totalShareVolume r. totalShareVolume + td_amount (fst r)) 0 rows
          in Inr \<lparr>cd_startTimestamp = startTimestamp, cd_start = price opens, cd_end = price closes,
               cd_min = price low, cd_max = price high,
               cd_volume = foldl (\<lambda>totalVolume r. totalVolume + volumeForTrade minPrice maxPrice (fst r)) 0 rows,
               cd_shareVolume = shareVolume, cd_tokenVolume = shareVolume\<rparr>
      | _ \<Rightarrow> Inl (JsTypeError ''price of undefined''))"

definition getMarketPriceCandlesticks ::
  "(bn \<Rightarrow> string) \<Rightarrow> MarketPriceCandlesticksParams \<Rightarrow> (int \<times> Candlestick list) list action" where
  "getMarketPriceCandlesticks text params =
     bindA (bindA (gets (\<lambda>w. find (\<lambda>m. mk_marketId m = cq_marketId params) (t_markets (tables w))))
              (orThrow (Thrown ''No marketId for getMarketPriceCandlesticks''))) (\<lambda>marketsRow.
     bindA (gets (\<lambda>w. pricedTrades params (tables w))) (\<lambda>tradesRows.
     liftR (mapE (\<lambda>(outcome, outcomeTradeRows).
         bindE (mapE (\<lambda>(startTimestamp, rows).
             candlestick text (mk_minPrice marketsRow) (mk_maxPrice marketsRow) startTimestamp rows)
           (groupByIndex (\<lambda>r. getPeriodStarttime (orNumber (cq_start params) 0) (snd r)
              (orNumber (cq_period params) 60)) outcomeTradeRows))
         (\<lambda>candles. Inr (outcome, candles)))
       (groupByIndex (\<lambda>r. td_outcome (fst r)) tradesRows))))"

section \<open>Price history\<close>

record TimestampedPriceAmount =
  pa_price :: bn
  pa_timestamp :: "int option"
  pa_amount :: bn

definition getMarketPriceHistory :: "address \<Rightarrow> (int \<times> TimestampedPriceAmount list) list action" where
  "getMarketPriceHistory marketId = gets (\<lambda>w.
     mapValues (\<lambda>outcome rows. map snd rows)
       (groupByIndex fst (map (\<lambda>r. (td_outcome r, \<lparr>pa_price = td_price r,
            pa_timestamp = map_option bk_timestamp
              (find (\<lambda>b. bk_blockNumber b = td_blockNumber r) (t_blocks (tables w))),
            pa_amount = td_amount r\<rparr>))
         (filter (\<lambda>r. td_marketId r = marketId) (t_trades (tables w))))))"

section \<open>Orders\<close>

record OrdersParams =
  op_universe :: "address option"
  op_marketId :: "address option"
  op_outcome :: "int option"
  op_orderType :: "string option"
  op_creator :: "address option"
  op_orderState :: "OrderState option"
  op_orphaned :: "bool option"
  op_earliestCreationTime :: "int option"
  op_latestCreationTime :: "int option"
  op_sortLimit :: SortLimit

record OrdersRowWithCreationTimeAndCanceled = orders_row +
  ow_blockHash :: string
  ow_creationTime :: int
  ow_canceledTransactionHash :: "string option"
  ow_canceledBlockNumber :: "int option"
  ow_canceledTime :: "int option"
  ow_volume :: bn

record CanceledInfo =
  ci_canceledTransactionHash :: "string option"
  ci_canceledBlockNumber :: "int option"
  ci_canceledTime :: "int option"

record UIOrder =
  uo_orderId :: string
  uo_transactionHash :: string
  uo_logIndex :: int
  uo_shareToken :: address
  uo_owner :: address
  uo_creationTime :: int
  uo_creationBlockNumber :: int
  uo_orderState :: OrderState
  uo_price :: bn
  uo_amount :: bn
  uo_originalAmount :: bn
  uo_fullPrecisionPrice :: bn
  uo_fullPrecisionAmount :: bn
  uo_originalFullPrecisionAmount :: bn
  uo_originalTokensEscrowed :: bn
  uo_originalSharesEscrowed :: bn
  uo_tokensEscrowed :: bn
  uo_sharesEscrowed :: bn
  uo_canceled :: "CanceledInfo option"

definition orderWith ::
  "orders_row \<Rightarrow> blocks_row \<Rightarrow> markets_row \<Rightarrow> orders_canceled_row option \<Rightarrow> int option \<Rightarrow>
    OrdersRowWithCreationTimeAndCanceled" where
  "orderWith r b m canceled canceledTime = orders_row.extend r
     \<lparr>ow_blockHash = bk_blockHash b, ow_creationTime = bk_timestamp b,
      ow_canceledTransactionHash = map_option xo_transactionHash canceled,
      ow_canceledBlockNumber = map_option xo_blockNumber canceled, ow_canceledTime = canceledTime,
      ow_volume = mk_volume m\<rparr>"

definition orderMatches ::
  "OrdersParams \<Rightarrow> markets_row \<Rightarrow> OrdersRowWithCreationTimeAndCanceled \<Rightarrow> bool" where
  "orderMatches p m r \<longleftrightarrow>
     onlyIf (op_universe p) (\<lambda>u. mk_universe m = u) \<and> onlyIf (op_outcome p) (\<lambda>i. or_outcome r = i) \<and>
     onlyIf (op_orderType p) (\<lambda>t. or_orderType r = t) \<and> onlyIf (op_creator p) (\<lambda>a. or_orderCreator r = a) \<and>
     onlyIf (op_marketId p) (\<lambda>i. or_marketId r = i) \<and>
     or_orphaned r = (op_orphaned p = Some True) \<and>
     onlyIf (op_earliestCreationTime p) (\<lambda>t. t \<le> ow_creationTime r) \<and>
     onlyIf (op_latestCreationTime p) (\<lambda>t. ow_creationTime r \<le> t) \<and>
     onlyIf (op_orderState p) (\<lambda>s. s = OrderState.ALL \<or> or_orderState r = s)"

text \<open>An order has at most one cancellation (\<open>orderId\<close> is the key of \<open>orders_canceled\<close>).\<close>

definition ordersRows :: "OrdersParams \<Rightarrow> db \<Rightarrow> OrdersRowWithCreationTimeAndCanceled list" where
  "ordersRows p d =
     [ord. r \<leftarrow> t_orders d, b \<leftarrow> t_blocks d, m \<leftarrow> t_markets d,
      or_blockNumber r = bk_blockNumber b \<and> or_marketId r = mk_marketId m,
      ord \<leftarrow> [let canceled = find (\<lambda>c. xo_orderId c = or_orderId r) (t_orders_canceled d)
             in orderWith r b m canceled (case canceled of None \<Rightarrow> None | Some c \<Rightarrow>
               map_option bk_timestamp (find (\<lambda>k. bk_blockNumber k = xo_blockNumber c) (t_blocks d)))],
      orderMatches p m ord]"

definition ordersColumns :: "OrdersRowWithCreationTimeAndCanceled columns" where
  "ordersColumns =
     [(''orderId'', \<lambda>r. SqlText (or_orderId r)), (''blockNumber'', \<lambda>r. SqlNum (of_int (or_blockNumber r))),
      (''transactionHash'', \<lambda>r. SqlText (or_transactionHash r)),
      (''logIndex'', \<lambda>r. SqlNum (of_int (or_logIndex r))), (''marketId'', \<lambda>r. SqlText (or_marketId r)),
      (''outcome'', \<lambda>r. SqlNum (of_int (or_outcome r))), (''shareToken'', \<lambda>r. SqlText (or_shareToken r)),
      (''orderType'', \<lambda>r. SqlText (or_orderType r)), (''orderCreator'', \<lambda>r. SqlText (or_orderCreator r)),
      (''price'', \<lambda>r. SqlNum (or_price r)), (''amount'', \<lambda>r. SqlNum (or_amount r)),
      (''originalAmount'', \<lambda>r. SqlNum (or_originalAmount r)),
      (''fullPrecisionPrice'', \<lambda>r. SqlNum (or_fullPrecisionPrice r)),
      (''fullPrecisionAmount'', \<lambda>r. SqlNum (or_fullPrecisionAmount r)),
      (''originalFullPrecisionAmount'', \<lambda>r. SqlNum (or_originalFullPrecisionAmount r)),
      (''originalTokensEscrowed'', \<lambda>r. SqlNum (or_originalTokensEscrowed r)),
      (''originalSharesEscrowed'', \<lambda>r. SqlNum (or_originalSharesEscrowed r)),
      (''tokensEscrowed'', \<lambda>r. SqlNum (or_tokensEscrowed r)),
      (''sharesEscrowed'', \<lambda>r. SqlNum (or_sharesEscrowed r)),
      (''tradeGroupId'', \<lambda>r. sqlOpt SqlText (or_tradeGroupId r)),
      (''blockHash'', \<lambda>r. SqlText (ow_blockHash r)),
      (''creationTime'', \<lambda>r. SqlNum (of_int (ow_creationTime r))),
      (''canceledTransactionHash'', \<lambda>r. sqlOpt SqlText (ow_canceledTransactionHash r)),
      (''canceledBlockNumber'', \<lambda>r. sqlOpt (\<lambda>n. SqlNum (of_int n)) (ow_canceledBlockNumber r)),
      (''canceledTime'', \<lambda>r. sqlOpt (\<lambda>n. SqlNum (of_int n)) (ow_canceledTime r)),
      (''volume'', \<lambda>r. SqlNum (ow_volume r))]"

definition uiOrder :: "OrdersRowWithCreationTimeAndCanceled \<Rightarrow> UIOrder" where
  "uiOrder r = \<lparr>uo_orderId = or_orderId r, uo_transactionHash = or_transactionHash r,
     uo_logIndex = or_logIndex r, uo_shareToken = or_shareToken r, uo_owner = or_orderCreator r,
     uo_creationTime = ow_creationTime r, uo_creationBlockNumber = or_blockNumber r,
     uo_orderState = or_orderState r, uo_price = or_price r, uo_amount = or_amount r,
     uo_originalAmount = or_originalAmount r, uo_fullPrecisionPrice = or_fullPrecisionPrice r,
     uo_fullPrecisionAmount = or_fullPrecisionAmount r,
     uo_originalFullPrecisionAmount = or_originalFullPrecisionAmount r,
     uo_originalTokensEscrowed = or_originalTokensEscrowed r,
     uo_originalSharesEscrowed = or_originalSharesEscrowed r, uo_tokensEscrowed = or_tokensEscrowed r,
     uo_sharesEscrowed = or_sharesEscrowed r,
     uo_canceled = (if or_orderState r \<noteq> CANCELED then None
       else Some \<lparr>ci_canceledTransactionHash = ow_canceledTransactionHash r,
         ci_canceledBlockNumber = ow_canceledBlockNumber r, ci_canceledTime = ow_canceledTime r\<rparr>)\<rparr>"

type_synonym UIOrders = "address \<Rightarrow> int \<Rightarrow> string \<Rightarrow> string \<Rightarrow> UIOrder option"

definition putOrder :: "UIOrders \<Rightarrow> OrdersRowWithCreationTimeAndCanceled \<Rightarrow> UIOrders" where
  "putOrder ords r = (\<lambda>m out t i.
     if m = or_marketId r \<and> out = or_outcome r \<and> t = or_orderType r \<and> i = or_orderId r
     then Some (uiOrder r) else ords m out t i)"

definition getOrders :: "OrdersParams \<Rightarrow> UIOrders action" where
  "getOrders params =
     (if op_universe params = None \<and> op_marketId params = None
      then throw (Thrown ''Must provide universe, either via universe or marketId'')
      else bindA (bindA (gets (\<lambda>w. ordersRows params (tables w))) (\<lambda>rows. liftR
             (queryModifier ordersColumns rows ''volume'' ''desc'' (op_sortLimit params)))) (\<lambda>rows.
           return (foldl putOrder (\<lambda>_ _ _ _. None) rows)))"

record AllOrdersRow =
  ao_orderId :: string
  ao_originalTokensEscrowed :: bn
  ao_originalSharesEscrowed :: bn
  ao_tokensEscrowed :: bn
  ao_sharesEscrowed :: bn
  ao_marketId :: address

definition getAllOrders :: "address \<Rightarrow> (string \<times> AllOrdersRow) list action" where
  "getAllOrders account = gets (\<lambda>w. foldl (\<lambda>acc r. dictSet (or_orderId r)
        \<lparr>ao_orderId = or_orderId r, ao_originalTokensEscrowed = or_originalTokensEscrowed r,
         ao_originalSharesEscrowed = or_originalSharesEscrowed r, ao_tokensEscrowed = or_tokensEscrowed r,
         ao_sharesEscrowed = or_sharesEscrowed r, ao_marketId = or_marketId r\<rparr> acc) []
     (filter (\<lambda>r. or_orderCreator r = account \<and> or_orderState r = OPEN) (t_orders (tables w))))"

section \<open>Shares of an account\<close>

record WinningPayoutRow =
  wp_marketId :: address
  wp_outcome :: "int option"
  wp_balance :: bn
  wp_payouts :: "bn option list"

record MarketWinnings =
  mw_marketId :: address
  mw_winnings :: bn

definition winningPayoutRows :: "address list \<Rightarrow> address \<Rightarrow> world \<Rightarrow> WinningPayoutRow list" where
  "winningPayoutRows marketIds account w =
     [\<lparr>wp_marketId = mk_marketId m, wp_outcome = tk_outcome t, wp_balance = bl_balance b,
       wp_payouts = po_payouts p\<rparr>.
      m \<leftarrow> t_markets (tables w), t \<leftarrow> t_tokens (tables w), b \<leftarrow> t_balances (tables w), p \<leftarrow> t_payouts (tables w),
      mk_marketId m \<in> set marketIds \<and>
      (reportingStateOf w m = Some FINALIZED \<or> reportingStateOf w m = Some AWAITING_FINALIZATION) \<and>
      tk_marketId t = Some (mk_marketId m) \<and> tk_symbol t = ''shares'' \<and>
      bl_token b = tk_contractAddress t \<and> bl_owner b = account \<and>
      po_marketId p = mk_marketId m \<and> po_winning p = Some 1]"

text \<open>The value of \<open>payout0\<close>, \<dots>, \<open>payout7\<close> for the outcome, undefined for any other name.\<close>

definition payoutOf :: "bn option list \<Rightarrow> int option \<Rightarrow> bn result" where
  "payoutOf pays out = (case out of
     None \<Rightarrow> Inl (JsTypeError ''times of undefined'')
   | Some i \<Rightarrow> if 0 \<le> i \<and> i < 8 \<and> nat i < length pays
       then (case pays ! nat i of Some v \<Rightarrow> Inr v | None \<Rightarrow> Inl (JsTypeError ''times of null''))
       else Inl (JsTypeError ''times of undefined''))"

definition winningsOf :: "WinningPayoutRow \<Rightarrow> MarketWinnings result" where
  "winningsOf r = bindE (payoutOf (wp_payouts r) (wp_outcome r)) (\<lambda>payout.
     Inr \<lparr>mw_marketId = wp_marketId r, mw_winnings = of_int (toFixedDown (payout * wp_balance r))\<rparr>)"

definition plusWinnings :: "MarketWinnings \<Rightarrow> MarketWinnings \<Rightarrow> MarketWinnings" where
  "plusWinnings result row = row\<lparr>mw_winnings := mw_winnings row + mw_winnings result\<rparr>"

definition getWinningBalance :: "address list \<Rightarrow> address \<Rightarrow> MarketWinnings list action" where
  "getWinningBalance marketIds account =
     bindA (gets (winningPayoutRows marketIds account)) (\<lambda>rows.
     bindA (liftR (mapE winningsOf rows)) (\<lambda>calculatedWinnings.
     return (sumGroups mw_marketId plusWinnings calculatedWinnings)))"

record ShareTokenBalances =
  sb_marketId :: address
  sb_outcome :: "int option"
  sb_balance :: "bn option"
  sb_minPrice :: bn
  sb_maxPrice :: bn
  sb_numTicks :: bn

definition shareTokenBalances :: "address list \<Rightarrow> address \<Rightarrow> db \<Rightarrow> ShareTokenBalances list" where
  "shareTokenBalances marketIds account d =
     sort_key sb_marketId (sort_key (\<lambda>r. sqlOpt (\<lambda>i. SqlNum (of_int i)) (sb_outcome r))
       [\<lparr>sb_marketId = mk_marketId m, sb_outcome = tk_outcome t,
         sb_balance = balanceOf d (Some account) (tk_contractAddress t), sb_minPrice = mk_minPrice m,
         sb_maxPrice = mk_maxPrice m, sb_numTicks = mk_numTicks m\<rparr>.
        t \<leftarrow> t_tokens d, m \<leftarrow> t_markets d,
        tk_marketId t = Some (mk_marketId m) \<and> tk_symbol t = ''shares'' \<and> mk_marketId m \<in> set marketIds])"

definition displayBalance :: "env \<Rightarrow> ShareTokenBalances \<Rightarrow> bn" where
  "displayBalance env r = (case sb_balance r of
     None \<Rightarrow> 0
   | Some balance \<Rightarrow>
       let tickSize = numTicksToTickSize (en_dv env) (sb_numTicks r) (sb_minPrice r) (sb_maxPrice r)
       in convertOnChainAmountToDisplayAmount env balance tickSize)"

definition getUserShareBalances :: "env \<Rightarrow> address list \<Rightarrow> address \<Rightarrow> (address \<times> bn list) list action" where
  "getUserShareBalances env marketIds account = gets (\<lambda>w.
     mapValues (\<lambda>_ rows. map (displayBalance env) rows)
       (groupBy sb_marketId (shareTokenBalances marketIds account (tables w))))"

section \<open>Claims of proceeds as trades\<close>

record ProceedRow = WinningPayoutRow +
  pq_blockNumber :: int
  pq_logIndex :: int
  pq_timestamp :: int
  pq_numTicks :: bn
  pq_minPrice :: bn
  pq_maxPrice :: bn

record ProceedTradesRow =
  pt_logIndex :: int
  pt_blockNumber :: int
  pt_timestamp :: int
  pt_marketId :: address
  pt_outcome :: "int option"
  pt_price :: bn
  pt_amount :: bn

definition proceedRows :: "address list \<Rightarrow> address \<Rightarrow> int option \<Rightarrow> world \<Rightarrow> ProceedRow list" where
  "proceedRows marketIds account endTime w =
     [\<lparr>wp_marketId = mk_marketId m, wp_outcome = tk_outcome t, wp_balance = tp_numShares c,
       wp_payouts = po_payouts p, pq_blockNumber = tp_blockNumber c, pq_logIndex = tp_logIndex c,
       pq_timestamp = bk_timestamp k, pq_numTicks = mk_numTicks m, pq_minPrice = mk_minPrice m,
       pq_maxPrice = mk_maxPrice m\<rparr>.
      m \<leftarrow> t_markets (tables w), c \<leftarrow> t_trading_proceeds (tables w), t \<leftarrow> t_tokens (tables w),
      b \<leftarrow> t_balances (tables w), p \<leftarrow> t_payouts (tables w), k \<leftarrow> t_blocks (tables w),
      mk_marketId m \<in> set marketIds \<and>
      (reportingStateOf w m = Some FINALIZED \<or> reportingStateOf w m = Some AWAITING_FINALIZATION) \<and>
      tp_shareToken c = tk_contractAddress t \<and>
      tk_marketId t = Some (mk_marketId m) \<and> tk_symbol t = ''shares'' \<and>
      bl_token b = tk_contractAddress t \<and> bl_owner b = account \<and>
      po_marketId p = mk_marketId m \<and> po_winning p = Some 1 \<and>
      tp_blockNumber c = bk_blockNumber k \<and> onlyIf endTime (\<lambda>e. bk_timestamp k < e)]"

definition proceedTrade :: "env \<Rightarrow> ProceedRow \<Rightarrow> ProceedTradesRow result" where
  "proceedTrade env r = bindE (payoutOf (wp_payouts r) (wp_outcome r)) (\<lambda>payout.
     let tickSize = numTicksToTickSize (en_dv env) (pq_numTicks r) (pq_minPrice r) (pq_maxPrice r)
     in Inr \<lparr>pt_logIndex = pq_logIndex r, pt_blockNumber = pq_blockNumber r, pt_timestamp = pq_timestamp r,
          pt_marketId = wp_marketId r, pt_outcome = wp_outcome r,
          pt_price = payout * tickSize + pq_minPrice r,
          pt_amount = convertOnChainAmountToDisplayAmount env (wp_balance r) tickSize\<rparr>)"

definition getProceedTradeRows ::
  "env \<Rightarrow> address list \<Rightarrow> address \<Rightarrow> int option \<Rightarrow> ProceedTradesRow list action" where
  "getProceedTradeRows env marketIds account endTime =
     bindA (gets (proceedRows marketIds account endTime)) (\<lambda>rows. liftR (mapE (proceedTrade env) rows))"

section \<open>Fees of market creators, and markets by closing time\<close>

definition getUnclaimedMarketCreatorFees :: "address \<Rightarrow> address list \<Rightarrow> (address \<times> bn) option list action" where
  "getUnclaimedMarketCreatorFees cash marketIds = gets (\<lambda>w.
     let feeRowsByMarket = keyBy fst
           (map (\<lambda>m. (mk_marketId m, mk_marketCreatorFeesBalance m,
                    balanceOf (tables w) (Some (mk_marketCreatorMailbox m)) cash))
              (filter (\<lambda>m. mk_marketId m \<in> set marketIds) (t_markets (tables w))))
     in map (\<lambda>marketId. case map_of feeRowsByMarket marketId of
              None \<Rightarrow> None
            | Some (_, marketCreatorFeesBalance, balance) \<Rightarrow>
                Some (marketId, marketCreatorFeesBalance + orZero balance)) marketIds)"

definition closingColumns :: "markets_row columns" where
  "closingColumns = [(''marketId'', \<lambda>m. SqlText (mk_marketId m)), (''endTime'', \<lambda>m. SqlNum (of_int (mk_endTime m))),
     (''volume'', \<lambda>m. SqlNum (mk_volume m)), (''openInterest'', \<lambda>m. SqlNum (mk_openInterest m)),
     (''category'', \<lambda>m. SqlText (mk_category m))]"

definition getMarketsClosingInDateRange ::
  "address \<Rightarrow> int \<Rightarrow> int \<Rightarrow> SortLimit \<Rightarrow> address list action" where
  "getMarketsClosingInDateRange universe earliestClosingTime latestClosingTime sortLimit =
     bindA (gets (\<lambda>w. filter (\<lambda>m. earliestClosingTime \<le> mk_endTime m \<and> mk_endTime m \<le> latestClosingTime \<and>
              mk_universe m = universe) (t_markets (tables w)))) (\<lambda>rows.
     bindA (liftR (queryModifier closingColumns rows ''endTime'' ''desc'' sortLimit)) (\<lambda>sorted.
     return (map mk_marketId sorted)))"

section \<open>The best of a list\<close>

text \<open>What the comparisons above have in common: the order of what is compared.\<close>

locale comparison =
  fixes better :: "'a \<Rightarrow> 'a \<Rightarrow> bool"
  assumes better_asym: "better a b \<Longrightarrow> \<not> better b a"
    and not_better_trans: "\<not> better a b \<Longrightarrow> \<not> better b c \<Longrightarrow> \<not> better a c"
begin

lemma extreme_snoc: "extremeBy better f (xs @ [x]) = (case extremeBy better f xs of
    None \<Rightarrow> Some x | Some y \<Rightarrow> if better (f x) (f y) then Some x else Some y)"
  by (simp add: extremeBy_def)

lemma extreme_None: "extremeBy better f xs = None \<longleftrightarrow> xs = []"
  by (induction xs rule: rev_induct) (simp_all add: extremeBy_def split: option.split)

lemma extreme_best:
  "extremeBy better f xs = Some x \<Longrightarrow> x \<in> set xs \<and> (\<forall>y \<in> set xs. \<not> better (f y) (f x))"
proof (induction xs arbitrary: x rule: rev_induct)
  case Nil
  then show ?case by (simp add: extremeBy_def)
next
  case (snoc z xs)
  have refl: "\<not> better (f z) (f z)" using better_asym by blast
  show ?case
  proof (cases "extremeBy better f xs")
    case None
    then have "x = z" using snoc.prems by (simp add: extreme_snoc)
    moreover have "xs = []" using None by (simp only: extreme_None)
    ultimately show ?thesis using refl by simp
  next
    case (Some y)
    note y = snoc.IH [OF this]
    show ?thesis
    proof (cases "better (f z) (f y)")
      case True
      then have "x = z" using snoc.prems Some by (simp add: extreme_snoc)
      moreover have "\<not> better (f v) (f z)" if "v \<in> set xs" for v
        using y that not_better_trans [of "f v" "f y" "f z"] better_asym [OF True] by blast
      ultimately show ?thesis using refl by auto
    next
      case False
      then have "x = y" using snoc.prems Some by (simp add: extreme_snoc)
      then show ?thesis using y False by auto
    qed
  qed
qed

lemma extreme_total: "xs \<noteq> [] \<Longrightarrow> \<exists>x. extremeBy better f xs = Some x \<and> x \<in> set xs \<and>
    (\<forall>y \<in> set xs. \<not> better (f y) (f x))"
  by (cases "extremeBy better f xs") (simp_all add: extreme_None extreme_best)

end

interpretation smaller: comparison "\<lambda>a b :: 'a :: linorder. a < b"
  by unfold_locales (simp_all add: not_less)

interpretation larger: comparison "\<lambda>a b :: 'a :: linorder. b < a"
  by unfold_locales (simp_all add: not_less)

interpretation smallerText: comparison "\<lambda>a b :: bn. printed a < (printed b :: string)" for printed
  by unfold_locales (simp_all add: not_less)

interpretation largerText: comparison "\<lambda>a b :: bn. printed b < (printed a :: string)" for printed
  by unfold_locales (simp_all add: not_less)

section \<open>Better and worse orders, correctly\<close>

text \<open>The order of least price among those at or above a price, and that of greatest price among those below.\<close>

definition cheapestFrom :: "bn \<Rightarrow> orders_row list \<Rightarrow> string option \<Rightarrow> bool" where
  "cheapestFrom price ords i \<longleftrightarrow> (case i of
     None \<Rightarrow> \<forall>r \<in> set ords. or_price r < price
   | Some i \<Rightarrow> \<exists>r \<in> set ords. or_orderId r = i \<and> price \<le> or_price r \<and>
       (\<forall>s \<in> set ords. price \<le> or_price s \<longrightarrow> or_price r \<le> or_price s))"

definition dearestBelow :: "bn \<Rightarrow> orders_row list \<Rightarrow> string option \<Rightarrow> bool" where
  "dearestBelow price ords i \<longleftrightarrow> (case i of
     None \<Rightarrow> \<forall>r \<in> set ords. price \<le> or_price r
   | Some i \<Rightarrow> \<exists>r \<in> set ords. or_orderId r = i \<and> or_price r < price \<and>
       (\<forall>s \<in> set ords. or_price s < price \<longrightarrow> or_price s \<le> or_price r))"

lemma cheapest_extreme: "cheapestFrom price ords (map_option or_orderId
    (extremeBy (\<lambda>a b. a < b) or_price (filter (\<lambda>r. \<not> or_price r < price) ords)))"
proof (cases "extremeBy (\<lambda>a b. a < b) or_price (filter (\<lambda>r. \<not> or_price r < price) ords)")
  case None
  then have "filter (\<lambda>r. \<not> or_price r < price) ords = []" by (simp only: smaller.extreme_None)
  then show ?thesis unfolding None by (auto simp: cheapestFrom_def filter_empty_conv)
next
  case (Some r)
  from smaller.extreme_best [OF this] show ?thesis unfolding Some by (fastforce simp: cheapestFrom_def not_less)
qed

lemma dearest_extreme: "dearestBelow price ords (map_option or_orderId
    (extremeBy (\<lambda>a b. b < a) or_price (filter (\<lambda>r. or_price r < price) ords)))"
proof (cases "extremeBy (\<lambda>a b. b < a) or_price (filter (\<lambda>r. or_price r < price) ords)")
  case None
  then have "filter (\<lambda>r. or_price r < price) ords = []" by (simp only: larger.extreme_None)
  then show ?thesis unfolding None by (auto simp: dearestBelow_def filter_empty_conv not_less)
next
  case (Some r)
  from larger.extreme_best [OF this] show ?thesis unfolding Some by (fastforce simp: dearestBelow_def not_less)
qed

text \<open>C36. Of the open orders of the same kind, a buyer is told the cheapest at or above the price as the better
  one and the dearest below as the worse one; a seller the other way round. None is named only if there is none.\<close>

theorem better_worse_orders:
  "\<exists>b. getBetterWorseOrders params w = (Inr b, w) \<and>
    cheapestFrom (bw_price params) (openOrders params (tables w))
      (if bw_orderType params = ''buy'' then br_betterOrderId b else br_worseOrderId b) \<and>
    dearestBelow (bw_price params) (openOrders params (tables w))
      (if bw_orderType params = ''buy'' then br_worseOrderId b else br_betterOrderId b)"
  using cheapest_extreme [of "bw_price params" "openOrders params (tables w)"]
    dearest_extreme [of "bw_price params" "openOrders params (tables w)"]
  by (cases "bw_orderType params = ''buy''")
    (simp_all add: getBetterWorseOrders_def bindA_def gets_def return_def o_def)

section \<open>Candlesticks, correctly\<close>

lemma getPeriodStarttime_eq:
  assumes "0 < period" "g \<le> t"
  shows "getPeriodStarttime g t period = g + period * ((t - g) div period)"
proof -
  have "jsRemainder (t - g) period = (t - g) mod period"
    using assms by (cases "t = g") (simp_all add: jsRemainder_def sgn_if)
  moreover have "t - g = period * ((t - g) div period) + (t - g) mod period" by simp
  ultimately show ?thesis unfolding getPeriodStarttime_def Let_def by linarith
qed

lemma same_period:
  assumes "0 < period" "g \<le> t" "g \<le> u"
  shows "getPeriodStarttime g t period = getPeriodStarttime g u period \<longleftrightarrow>
    getPeriodStarttime g u period \<le> t \<and> t < getPeriodStarttime g u period + period"
proof -
  let ?q = "(u - g) div period"
  have "(t - g) div period = ?q \<longleftrightarrow> period * ?q \<le> t - g \<and> t - g < period * ?q + period"
  proof
    assume q: "(t - g) div period = ?q"
    have "t - g = period * ?q + (t - g) mod period" unfolding q [symmetric] by simp
    then show "period * ?q \<le> t - g \<and> t - g < period * ?q + period"
      using pos_mod_sign [OF assms(1), of "t - g"] pos_mod_bound [OF assms(1), of "t - g"] by linarith
  next
    assume "period * ?q \<le> t - g \<and> t - g < period * ?q + period"
    then show "(t - g) div period = ?q"
      using int_div_pos_eq [of "t - g" period ?q "t - g - period * ?q"] by simp
  qed
  then show ?thesis using assms(1) by (auto simp: getPeriodStarttime_eq [OF assms(1,2)] getPeriodStarttime_eq [OF assms(1,3)])
qed

text \<open>
  What a candlestick says of the trades of its period. Its lowest and highest prices are those whose strings are:
  \<open>minBy\<close> and \<open>maxBy\<close> compare big numbers by the strings that \<open>printed\<close> gives, so that 10 is below 9.
\<close>

definition showsTrades ::
  "(bn \<Rightarrow> string) \<Rightarrow> bn \<Rightarrow> bn \<Rightarrow> (trades_row \<times> int) list \<Rightarrow> Candlestick \<Rightarrow> bool" where
  "showsTrades printed minPrice maxPrice rows c \<longleftrightarrow>
     cd_volume c = sum_list (map (\<lambda>r. volumeForTrade minPrice maxPrice (fst r)) rows) \<and>
     cd_shareVolume c = sum_list (map (\<lambda>r. td_amount (fst r)) rows) \<and> cd_tokenVolume c = cd_shareVolume c \<and>
     (\<exists>r \<in> set rows. cd_start c = td_price (fst r) \<and> (\<forall>s \<in> set rows. snd r \<le> snd s)) \<and>
     (\<exists>r \<in> set rows. cd_end c = td_price (fst r) \<and> (\<forall>s \<in> set rows. snd s \<le> snd r)) \<and>
     (\<exists>r \<in> set rows. cd_min c = td_price (fst r)) \<and> (\<exists>r \<in> set rows. cd_max c = td_price (fst r)) \<and>
     (\<forall>r \<in> set rows. printed (cd_min c) \<le> printed (td_price (fst r)) \<and>
        printed (td_price (fst r)) \<le> printed (cd_max c))"

lemma candlestick_shows:
  assumes rows: "rows \<noteq> []"
  shows "\<exists>c. candlestick printed mn mx s rows = Inr c \<and> cd_startTimestamp c = s \<and> showsTrades printed mn mx rows c"
proof -
  let ?price = "\<lambda>r. td_price (fst r)"
  obtain opens where o: "extremeBy (\<lambda>a b. a < b) snd rows = Some opens" "opens \<in> set rows"
    "\<forall>y \<in> set rows. \<not> snd y < snd opens"
    using smaller.extreme_total [OF rows, of snd] by blast
  obtain closes where c: "extremeBy (\<lambda>a b. b < a) snd rows = Some closes" "closes \<in> set rows"
    "\<forall>y \<in> set rows. \<not> snd closes < snd y"
    using larger.extreme_total [OF rows, of snd] by blast
  obtain low where l: "extremeBy (\<lambda>a b. printed a < printed b) ?price rows = Some low" "low \<in> set rows"
    "\<forall>y \<in> set rows. \<not> printed (?price y) < printed (?price low)"
    using smallerText.extreme_total [OF rows, of printed ?price] by blast
  obtain high where h: "extremeBy (\<lambda>a b. printed b < printed a) ?price rows = Some high" "high \<in> set rows"
    "\<forall>y \<in> set rows. \<not> printed (?price high) < printed (?price y)"
    using largerText.extreme_total [OF rows, of printed ?price] by blast
  let ?c = "\<lparr>cd_startTimestamp = s, cd_start = ?price opens, cd_end = ?price closes, cd_min = ?price low,
    cd_max = ?price high, cd_volume = sum_list (map (\<lambda>r. volumeForTrade mn mx (fst r)) rows),
    cd_shareVolume = sum_list (map (\<lambda>r. td_amount (fst r)) rows),
    cd_tokenVolume = sum_list (map (\<lambda>r. td_amount (fst r)) rows)\<rparr>"
  have "candlestick printed mn mx s rows = Inr ?c"
    by (simp add: candlestick_def o(1) c(1) l(1) h(1) Let_def foldl_sum)
  moreover have "showsTrades printed mn mx rows ?c"
    unfolding showsTrades_def using o(2,3) c(2,3) l(2,3) h(2,3) by (auto simp: not_less)
  ultimately show ?thesis by auto
qed

lemma candles_of_outcome:
  assumes "0 < period" "\<forall>r \<in> set rows. g \<le> snd r"
  shows "\<exists>cs. mapE (\<lambda>(s, rs). candlestick printed mn mx s rs)
        (groupByIndex (\<lambda>r. getPeriodStarttime g (snd r) period) rows) = Inr cs \<and> sorted_wrt (<) (map cd_startTimestamp cs) \<and>
    (\<forall>c \<in> set cs. showsTrades printed mn mx
       (filter (\<lambda>r. cd_startTimestamp c \<le> snd r \<and> snd r < cd_startTimestamp c + period) rows) c) \<and>
    sum_list (map cd_shareVolume cs) = sum_list (map (\<lambda>r. td_amount (fst r)) rows)"
proof -
  let ?start = "\<lambda>r :: trades_row \<times> int. getPeriodStarttime g (snd r) period"
  let ?groups = "groupByIndex ?start rows"
  let ?R = "\<lambda>(s, rs) c. cd_startTimestamp c = s \<and> showsTrades printed mn mx rs c"
  have step: "\<exists>c. (\<lambda>(s, rs). candlestick printed mn mx s rs) k = Inr c \<and> ?R k c" if k: "k \<in> set ?groups" for k
  proof -
    obtain s rs where srs: "k = (s, rs)" by (cases k)
    with k have "rs = filter (\<lambda>r. ?start r = s) rows" "rs \<noteq> []" by (auto simp: groupByIndex_mem filter_empty_conv)
    then show ?thesis using candlestick_shows srs by fastforce
  qed
  from mapE_all2 [of ?groups "\<lambda>(s, rs). candlestick printed mn mx s rs" ?R, OF step] obtain cs where
    cs: "mapE (\<lambda>(s, rs). candlestick printed mn mx s rs) ?groups = Inr cs" "list_all2 ?R ?groups cs"
    by blast
  then have starts: "map cd_startTimestamp cs = map fst ?groups"
    by (auto simp: list_all2_conv_all_nth intro!: nth_equalityI split: prod.splits)
       (metis (mono_tags, lifting) nth_mem fst_conv old.prod.case surj_pair)+
  have "sorted (map fst ?groups)" "distinct (map fst ?groups)"
    by (rule groupByIndex_sorted, rule groupByIndex_distinct)
  then have "sorted_wrt (<) (map cd_startTimestamp cs)" unfolding starts by (simp add: strict_sorted_iff)
  moreover have "showsTrades printed mn mx (filter (\<lambda>r. cd_startTimestamp c \<le> snd r \<and> snd r < cd_startTimestamp c + period) rows) c"
    if c: "c \<in> set cs" for c
  proof -
    obtain k where k: "k \<in> set ?groups" "?R k c" using list_all2_mem [OF cs(2) c] by blast
    obtain s rs where srs: "k = (s, rs)" by (cases k)
    with k obtain u where u: "u \<in> set rows" "s = ?start u" "rs = filter (\<lambda>r. ?start r = s) rows"
      by (auto simp: groupByIndex_mem)
    then have "rs = filter (\<lambda>r. s \<le> snd r \<and> snd r < s + period) rows"
      using same_period [OF assms(1)] assms(2) by (auto intro!: filter_cong)
    then show ?thesis using k(2) srs by auto
  qed
  moreover have "sum_list (map cd_shareVolume cs) = sum_list (map (\<lambda>(k, rs). sum_list (map (\<lambda>r. td_amount (fst r)) rs)) ?groups)"
    using cs(2) by (induction rule: list_all2_induct) (auto simp: showsTrades_def)
  moreover have "\<dots> = sum_list (map (\<lambda>r. td_amount (fst r)) rows)"
    unfolding groupByIndex_def sum_groupBy [symmetric, of _ rows ?start]
    by (metis (mono_tags, lifting) mset_map mset_sort sum_mset_sum_list)
  ultimately show ?thesis using cs(1) by simp
qed

text \<open>
  C37. Candlesticks. The trades shown are those of the market in a recorded block, from the start to the end and of
  the outcome asked for, where these are given (outcome 0 counts as not given). Every outcome with such trades has
  its candlesticks, in order of time. Each shows the trades of its period: the price of a first and of a last
  one, their volume and number of shares; no share is left out. Its lowest and highest price are prices of its
  trades, the ones whose printed strings are lowest and highest as strings, not as numbers.
\<close>

theorem candlesticks_show_trades:
  fixes printed :: "bn \<Rightarrow> string" and params :: MarketPriceCandlesticksParams
  defines "start \<equiv> orNumber (cq_start params) 0" and "period \<equiv> orNumber (cq_period params) 60"
  assumes market: "find (\<lambda>m. mk_marketId m = cq_marketId params) (t_markets (tables w)) = Some m"
    and positive: "0 < period" "0 \<le> start" "\<forall>b \<in> set (t_blocks (tables w)). 0 \<le> bk_timestamp b"
    and asked: "asked = [(t, bk_timestamp b). t \<leftarrow> t_trades (tables w), b \<leftarrow> t_blocks (tables w),
      td_blockNumber t = bk_blockNumber b \<and> td_marketId t = cq_marketId params \<and>
      (\<forall>s. cq_start params = Some s \<longrightarrow> s \<le> bk_timestamp b) \<and> (\<forall>e. cq_end params = Some e \<longrightarrow> bk_timestamp b \<le> e) \<and>
      (\<forall>i. cq_outcome params = Some i \<longrightarrow> i \<noteq> 0 \<longrightarrow> td_outcome t = i)]"
  shows "\<exists>r. getMarketPriceCandlesticks printed params w = (Inr r, w) \<and> sorted (map fst r) \<and> distinct (map fst r) \<and>
    fst ` set r = (\<lambda>t. td_outcome (fst t)) ` set asked \<and>
    (\<forall>(out, candles) \<in> set r.
       let rows = filter (\<lambda>t. td_outcome (fst t) = out) asked in
       sorted_wrt (<) (map cd_startTimestamp candles) \<and>
       (\<forall>c \<in> set candles. showsTrades printed (mk_minPrice m) (mk_maxPrice m)
          (filter (\<lambda>t. cd_startTimestamp c \<le> snd t \<and> snd t < cd_startTimestamp c + period) rows) c) \<and>
       sum_list (map cd_shareVolume candles) = sum_list (map (\<lambda>t. td_amount (fst t)) rows))"
proof -
  let ?rows = "pricedTrades params (tables w)"
  have given: "(i \<noteq> (0::int) \<longrightarrow> Q) = (i = 0 \<or> Q)" for i Q by blast
  have asked: "asked = ?rows" unfolding asked pricedTrades_def onlyIf_iff given by (rule refl)
  let ?groups = "groupByIndex (\<lambda>r. td_outcome (fst r)) ?rows"
  let ?candles = "\<lambda>rs. mapE (\<lambda>(s, rs). candlestick printed (mk_minPrice m) (mk_maxPrice m) s rs)
      (groupByIndex (\<lambda>r. getPeriodStarttime start (snd r) period) rs)"
  let ?good = "\<lambda>rows candles. sorted_wrt (<) (map cd_startTimestamp candles) \<and>
       (\<forall>c \<in> set candles. showsTrades printed (mk_minPrice m) (mk_maxPrice m)
          (filter (\<lambda>t. cd_startTimestamp c \<le> snd t \<and> snd t < cd_startTimestamp c + period) rows) c) \<and>
       sum_list (map cd_shareVolume candles) = sum_list (map (\<lambda>t. td_amount (fst t)) rows)"
  let ?f = "\<lambda>(out, rs). bindE (?candles rs) (\<lambda>candles. Inr (out, candles))"
  let ?R = "\<lambda>(out, rs) (i, candles). i = out \<and> ?good rs candles"
  have from_start: "start \<le> snd r" if "r \<in> set ?rows" for r
  proof (cases "cq_start params")
    case None
    then show ?thesis using that positive(3) by (auto simp: pricedTrades_def start_def orNumber_def)
  next
    case (Some v)
    then show ?thesis using that by (auto simp: pricedTrades_def start_def orNumber_def onlyIf_def)
  qed
  have step: "\<exists>y. ?f k = Inr y \<and> ?R k y" if k: "k \<in> set ?groups" for k
  proof -
    obtain out rs where krs: "k = (out, rs)" by (cases k)
    with k have rs: "rs = filter (\<lambda>r. td_outcome (fst r) = out) ?rows" by (simp add: groupByIndex_mem)
    then have g: "\<forall>r \<in> set rs. start \<le> snd r" using from_start by auto
    obtain cs where "?candles rs = Inr cs" "?good rs cs"
      using candles_of_outcome [OF positive(1) g, of printed "mk_minPrice m" "mk_maxPrice m"] by blast
    then show ?thesis using krs by simp
  qed
  obtain r where r: "mapE ?f ?groups = Inr r" "list_all2 ?R ?groups r"
    using mapE_all2 [of ?groups ?f ?R, OF step] by blast
  have run: "getMarketPriceCandlesticks printed params w = (Inr r, w)"
    using r(1) by (simp add: getMarketPriceCandlesticks_def market bindA_def gets_def orThrow_def return_def liftR_def
        start_def period_def)
  have keys: "map fst r = map fst ?groups"
    using r(2) by (induction rule: list_all2_induct) auto
  have shown: "?good (filter (\<lambda>t. td_outcome (fst t) = out) ?rows) candles" if m: "(out, candles) \<in> set r" for out candles
  proof -
    obtain k where k: "k \<in> set ?groups" "?R k (out, candles)" using list_all2_mem [OF r(2) m] by blast
    obtain i rs where krs: "k = (i, rs)" by (cases k)
    with k have "i = out" "rs = filter (\<lambda>t. td_outcome (fst t) = i) ?rows" "?good rs candles"
      by (auto simp: groupByIndex_mem)
    then show ?thesis by simp
  qed
  have all: "fst ` set r = (\<lambda>t. td_outcome (fst t)) ` set ?rows"
    using arg_cong [OF keys, of set] groupBy_keys [of "\<lambda>t. td_outcome (fst t)" ?rows] by (simp add: groupByIndex_def)
  show ?thesis
    using run all shown groupByIndex_sorted [of "\<lambda>t. td_outcome (fst t)" ?rows]
      groupByIndex_distinct [of "\<lambda>t. td_outcome (fst t)" ?rows] unfolding keys [symmetric] asked
    by (intro exI [of _ r]) (auto simp: Let_def)
qed

text \<open>Two trades, at 4/10 and 5/10, in different minutes, and the strings of the prices 9 and 10.\<close>

definition candle_world :: world where
  "candle_world = empty_world\<lparr>tables := empty_db\<lparr>t_markets := [sample_market],
     t_blocks := [\<lparr>bk_blockNumber = 5, bk_blockHash = ''h5'', bk_timestamp = 100, bk_bulkSync = False\<rparr>,
       \<lparr>bk_blockNumber = 6, bk_blockHash = ''h6'', bk_timestamp = 200, bk_bulkSync = False\<rparr>],
     t_trades := [sample_trade, sample_trade\<lparr>td_blockNumber := 6, td_price := 5 / 10\<rparr>]\<rparr>\<rparr>"

definition candle_request :: MarketPriceCandlesticksParams where
  "candle_request = \<lparr>cq_marketId = ''m'', cq_outcome = Some 1, cq_start = Some 60, cq_end = Some 300,
     cq_period = None\<rparr>"

definition printed_price :: "bn \<Rightarrow> string" where
  "printed_price x = (if x = 4 / 10 then ''0.4'' else ''0.5'')"

theorem candlesticks_show_trades_witness:
  "\<exists>r. getMarketPriceCandlesticks printed_price candle_request candle_world = (Inr r, candle_world) \<and>
    fst ` set r = {1} \<and>
    (\<forall>(out, candles) \<in> set r. sum_list (map cd_shareVolume candles) = (if out = 1 then 4 else 0))"
proof -
  have m: "find (\<lambda>m. mk_marketId m = cq_marketId candle_request) (t_markets (tables candle_world)) = Some sample_market"
    by (simp add: candle_world_def candle_request_def sample_market_def)
  have p: "0 < orNumber (cq_period candle_request) 60" "0 \<le> orNumber (cq_start candle_request) 0"
    by (simp_all add: candle_request_def orNumber_def)
  have b: "\<forall>b \<in> set (t_blocks (tables candle_world)). 0 \<le> bk_timestamp b" by (simp add: candle_world_def)
  let ?rows = "[(sample_trade, 100 :: int), (sample_trade\<lparr>td_blockNumber := 6, td_price := 5 / 10\<rparr>, 200)]"
  have rows: "?rows = [(t, bk_timestamp b). t \<leftarrow> t_trades (tables candle_world), b \<leftarrow> t_blocks (tables candle_world),
      td_blockNumber t = bk_blockNumber b \<and> td_marketId t = cq_marketId candle_request \<and>
      (\<forall>s. cq_start candle_request = Some s \<longrightarrow> s \<le> bk_timestamp b) \<and>
      (\<forall>e. cq_end candle_request = Some e \<longrightarrow> bk_timestamp b \<le> e) \<and>
      (\<forall>i. cq_outcome candle_request = Some i \<longrightarrow> i \<noteq> 0 \<longrightarrow> td_outcome t = i)]"
    by (simp add: candle_request_def candle_world_def sample_trade_def)
  obtain r where
    r: "getMarketPriceCandlesticks printed_price candle_request candle_world = (Inr r, candle_world)"
      "fst ` set r = (\<lambda>t. td_outcome (fst t)) ` set ?rows"
    and s: "\<And>out candles. (out, candles) \<in> set r \<Longrightarrow> sum_list (map cd_shareVolume candles) =
      sum_list (map (\<lambda>t. td_amount (fst t)) (filter (\<lambda>t. td_outcome (fst t) = out) ?rows))"
    using candlesticks_show_trades [OF m p b rows, of printed_price] unfolding Let_def by (elim exE conjE) blast
  have "fst ` set r = {1}" using r(2) by (simp add: sample_trade_def)
  moreover have "\<forall>(out, candles) \<in> set r. sum_list (map cd_shareVolume candles) = (if out = 1 then 4 else 0)"
    using s by (auto simp: sample_trade_def)
  ultimately show ?thesis using r(1) by blast
qed

lemma strings_of_prices:
  "\<exists>c. candlestick (\<lambda>x. if x = 9 then ''9'' else ''10'') 0 100 0
      [(sample_trade\<lparr>td_price := 9\<rparr>, 1), (sample_trade\<lparr>td_price := 10\<rparr>, 2)] = Inr c \<and>
    cd_min c = 10 \<and> cd_max c = 9"
proof -
  have "''10'' < ''9''" "\<not> ''9'' < ''10''" by code_simp+
  then show ?thesis by (simp add: candlestick_def extremeBy_def Let_def)
qed

section \<open>Orders, correctly\<close>

lemma putOrder_folded:
  assumes "distinct (map or_orderId rows)"
  shows "foldl putOrder (\<lambda>_ _ _ _. None) rows m out t i = Some u \<longleftrightarrow>
    (\<exists>r \<in> set rows. or_marketId r = m \<and> or_outcome r = out \<and> or_orderType r = t \<and> or_orderId r = i \<and> u = uiOrder r)"
  using assms
proof (induction rows rule: rev_induct)
  case (snoc r rows)
  then have "\<forall>s \<in> set rows. or_orderId s \<noteq> or_orderId r" by (simp add: image_iff) metis
  with snoc show ?case by (auto simp: putOrder_def)
qed simp

text \<open>Without paging, the orders shown are exactly those that match, each once under its market, outcome,
  type and id.\<close>

theorem orders_shown:
  assumes "op_universe params \<noteq> None \<or> op_marketId params \<noteq> None"
    and "sl_sortBy (op_sortLimit params) = None" "sl_limit (op_sortLimit params) = None"
      "sl_offset (op_sortLimit params) = None"
    and "distinct (map or_orderId (ordersRows params (tables w)))"
  shows "\<exists>ords. getOrders params w = (Inr ords, w) \<and>
    (\<forall>m out t i u. ords m out t i = Some u \<longleftrightarrow>
      (\<exists>r \<in> set (ordersRows params (tables w)). or_marketId r = m \<and> or_outcome r = out \<and> or_orderType r = t \<and>
         or_orderId r = i \<and> u = uiOrder r))"
proof -
  let ?rows = "ordersRows params (tables w)" and ?p = "op_sortLimit params"
  have f: "sortFieldOf ''volume'' ?p = ''volume''" by (simp add: sortFieldOf_def assms(2))
  have v: "map_of ordersColumns ''volume'' = Some (\<lambda>r. SqlNum (ow_volume r))" by (simp add: ordersColumns_def)
  have l: "lastPart ''volume'' \<noteq> ''''" by (simp add: lastPart_def)
  have nb: "sl_sortBy ?p \<noteq> Some ''''" using assms(2) by simp
  from queryModifier_result [of ordersColumns "''volume''" ?p _ ?rows "''desc''", unfolded f, OF v nb l]
  obtain S where s: "queryModifier ordersColumns ?rows ''volume'' ''desc'' ?p =
      Inr ((if isFieldBigNumber (lastPart ''volume'') then userlandPage ?p else dbPage ?p) S)" "mset S = mset ?rows"
    by blast
  have page: "(if isFieldBigNumber (lastPart ''volume'') then userlandPage ?p else dbPage ?p) S = S"
    by (simp add: userlandPage_def dbPage_def assms(3,4))
  have "distinct (map or_orderId S)"
    using assms(5) s(2) by (metis mset_eq_imp_distinct_iff mset_map)
  moreover have "set S = set ?rows" using s(2) by (rule mset_eq_setD)
  moreover have "getOrders params w = (Inr (foldl putOrder (\<lambda>_ _ _ _. None) S), w)"
    using assms(1) s(1) unfolding page
    by (auto simp: getOrders_def bindA_def gets_def liftR_def return_def)
  ultimately show ?thesis by (simp add: putOrder_folded)
qed

section \<open>Winnings\<close>

interpretation winnings: row_sums mw_marketId plusWinnings mw_winnings
  by unfold_locales (simp_all add: plusWinnings_def)

text \<open>The winnings shown for a market are the sum, over the shares of the account in it, of the payout of their
  outcome times the number of shares, rounded down; every market in which the account has shares is shown once.\<close>

theorem winnings_add_up:
  assumes "\<forall>r \<in> set (winningPayoutRows marketIds account w). payoutOf (wp_payouts r) (wp_outcome r) = Inr (payout r)"
  shows "\<exists>ws. getWinningBalance marketIds account w = (Inr ws, w) \<and> distinct (map mw_marketId ws) \<and>
    mw_marketId ` set ws = wp_marketId ` set (winningPayoutRows marketIds account w) \<and>
    (\<forall>x \<in> set ws. mw_winnings x = sum_list (map (\<lambda>r. of_int (toFixedDown (payout r * wp_balance r)))
       (filter (\<lambda>r. wp_marketId r = mw_marketId x) (winningPayoutRows marketIds account w))))"
proof -
  let ?rows = "winningPayoutRows marketIds account w"
  let ?g = "\<lambda>r. \<lparr>mw_marketId = wp_marketId r, mw_winnings = of_int (toFixedDown (payout r * wp_balance r))\<rparr>"
  let ?ws = "sumGroups mw_marketId plusWinnings (map ?g ?rows)"
  have "mapE winningsOf ?rows = Inr (map ?g ?rows)"
    by (rule mapE_total) (simp add: winningsOf_def assms)
  then have run: "getWinningBalance marketIds account w = (Inr ?ws, w)"
    by (simp add: getWinningBalance_def bindA_def gets_def liftR_def return_def)
  have "distinct (map mw_marketId ?ws)" unfolding winnings.sumGroups_keys by (rule groupBy_distinct)
  moreover have "mw_marketId ` set ?ws = wp_marketId ` set ?rows"
    using arg_cong [OF winnings.sumGroups_keys [of "map ?g ?rows"], of set] by (simp add: groupBy_keys image_image)
  moreover have "mw_winnings x = sum_list (map (\<lambda>r. of_int (toFixedDown (payout r * wp_balance r)))
       (filter (\<lambda>r. wp_marketId r = mw_marketId x) ?rows))" if "x \<in> set ?ws" for x
    using winnings.sumGroups_mem [OF that] by (simp add: filter_map o_def)
  ultimately show ?thesis using run by blast
qed

text \<open>The claims of all accounts are taken for those of an account that holds, or once held, the share.\<close>

lemma proceeds_of_others:
  assumes "m \<in> set (t_markets (tables w))" "c \<in> set (t_trading_proceeds (tables w))" "t \<in> set (t_tokens (tables w))"
    and "b \<in> set (t_balances (tables w))" "p \<in> set (t_payouts (tables w))" "k \<in> set (t_blocks (tables w))"
    and "mk_marketId m \<in> set marketIds" "reportingStateOf w m = Some FINALIZED"
    and "tp_shareToken c = tk_contractAddress t" "tk_marketId t = Some (mk_marketId m)" "tk_symbol t = ''shares''"
    and "bl_token b = tk_contractAddress t" "bl_owner b = account"
    and "po_marketId p = mk_marketId m" "po_winning p = Some 1" "tp_blockNumber c = bk_blockNumber k"
  shows "\<exists>r \<in> set (proceedRows marketIds account None w). wp_balance r = tp_numShares c \<and> pq_logIndex r = tp_logIndex c"
  unfolding proceedRows_def using assms by (force simp: onlyIf_def)

definition order_of_bob :: orders_row where
  "order_of_bob = \<lparr>or_orderId = ''o'', or_blockNumber = 5, or_transactionHash = ''t'', or_logIndex = 0,
     or_marketId = ''m'', or_outcome = 1, or_shareToken = ''yes'', or_orderType = ''buy'', or_orderCreator = ''bob'',
     or_orderState = OPEN, or_price = 4 / 10, or_amount = 2, or_originalAmount = 2, or_fullPrecisionPrice = 4 / 10,
     or_fullPrecisionAmount = 2, or_originalFullPrecisionAmount = 2, or_originalTokensEscrowed = 8 / 10,
     or_originalSharesEscrowed = 0, or_tokensEscrowed = 8 / 10, or_sharesEscrowed = 0, or_tradeGroupId = None,
     or_orphaned = False\<rparr>"

definition orders_world :: world where
  "orders_world = empty_world\<lparr>tables := empty_db\<lparr>t_markets := [sample_market], t_orders := [order_of_bob],
     t_blocks := [\<lparr>bk_blockNumber = 5, bk_blockHash = ''h5'', bk_timestamp = 100, bk_bulkSync = False\<rparr>]\<rparr>\<rparr>"

definition orders_request :: OrdersParams where
  "orders_request = \<lparr>op_universe = Some ''u'', op_marketId = None, op_outcome = None, op_orderType = None,
     op_creator = None, op_orderState = Some OPEN, op_orphaned = None, op_earliestCreationTime = None,
     op_latestCreationTime = None,
     op_sortLimit = \<lparr>sl_sortBy = None, sl_isSortDescending = None, sl_limit = None, sl_offset = None\<rparr>\<rparr>"

definition shown_order :: OrdersRowWithCreationTimeAndCanceled where
  "shown_order = orderWith order_of_bob \<lparr>bk_blockNumber = 5, bk_blockHash = ''h5'', bk_timestamp = 100,
     bk_bulkSync = False\<rparr> sample_market None None"

lemma orders_world_rows: "ordersRows orders_request (tables orders_world) = [shown_order]"
  by (simp add: ordersRows_def orders_world_def orders_request_def order_of_bob_def sample_simps orderMatches_def
      orderWith_def orders_row.defs onlyIf_def shown_order_def)

lemma shown_order_sel: "or_marketId shown_order = ''m''" "or_outcome shown_order = 1"
  "or_orderType shown_order = ''buy''" "or_orderId shown_order = ''o''"
  by (simp_all add: shown_order_def orderWith_def orders_row.defs order_of_bob_def)

theorem orders_shown_witness:
  "\<exists>ords. getOrders orders_request orders_world = (Inr ords, orders_world) \<and>
    ords ''m'' 1 ''buy'' ''o'' = Some (uiOrder shown_order) \<and> ords ''m'' 0 ''buy'' ''o'' = None"
proof -
  have "op_universe orders_request \<noteq> None \<or> op_marketId orders_request \<noteq> None"
    "sl_sortBy (op_sortLimit orders_request) = None" "sl_limit (op_sortLimit orders_request) = None"
    "sl_offset (op_sortLimit orders_request) = None"
    "distinct (map or_orderId (ordersRows orders_request (tables orders_world)))"
    by (simp_all add: orders_request_def orders_world_rows [unfolded orders_request_def])
  from orders_shown [OF this] obtain ords where
    run: "getOrders orders_request orders_world = (Inr ords, orders_world)"
    and ords: "\<And>m out t i u. ords m out t i = Some u \<longleftrightarrow> ''m'' = m \<and> 1 = out \<and> ''buy'' = t \<and> ''o'' = i \<and>
      u = uiOrder shown_order"
    by (auto simp: orders_world_rows shown_order_sel)
  have "ords ''m'' 1 ''buy'' ''o'' = Some (uiOrder shown_order)" by (simp add: ords)
  moreover have "ords ''m'' 0 ''buy'' ''o'' = None"
    using ords [of "''m''" 0 "''buy''" "''o''"] by (cases "ords ''m'' 0 ''buy'' ''o''") auto
  ultimately show ?thesis using run by blast
qed

definition winning_world :: world where
  "winning_world = empty_world\<lparr>tables := empty_db\<lparr>t_markets := [sample_market],
     t_market_state := [\<lparr>ms_marketStateId = 1, ms_marketId = ''m'', ms_reportingState = FINALIZED, ms_blockNumber = 1\<rparr>],
     t_tokens := [share_token ''no'' 0, share_token ''yes'' 1],
     t_balances := [\<lparr>bl_owner = ''bob'', bl_token = ''yes'', bl_balance = 3\<rparr>,
       \<lparr>bl_owner = ''bob'', bl_token = ''no'', bl_balance = 5\<rparr>],
     t_payouts := [\<lparr>po_payoutId = 1, po_marketId = ''m'', po_payouts = [Some 0, Some 10000], po_isInvalid = False,
       po_tentativeWinning = 1, po_winning = Some 1\<rparr>]\<rparr>\<rparr>"

lemma winning_rows: "winningPayoutRows [''m''] ''bob'' winning_world =
    [\<lparr>wp_marketId = ''m'', wp_outcome = Some 0, wp_balance = 5, wp_payouts = [Some 0, Some 10000]\<rparr>,
     \<lparr>wp_marketId = ''m'', wp_outcome = Some 1, wp_balance = 3, wp_payouts = [Some 0, Some 10000]\<rparr>]"
  by (simp add: winningPayoutRows_def winning_world_def share_token_def sample_simps reportingStateOf_def)

theorem winnings_add_up_witness:
  "\<exists>ws. getWinningBalance [''m''] ''bob'' winning_world = (Inr ws, winning_world) \<and>
    mw_marketId ` set ws = {''m''} \<and> (\<forall>x \<in> set ws. mw_winnings x = 30000)"
proof -
  let ?payout = "\<lambda>r. if wp_outcome r = Some 1 then 10000 else 0"
  have "\<forall>r \<in> set (winningPayoutRows [''m''] ''bob'' winning_world).
      payoutOf (wp_payouts r) (wp_outcome r) = Inr (?payout r)"
    by (simp add: winning_rows payoutOf_def)
  from winnings_add_up [OF this] obtain ws where
    run: "getWinningBalance [''m''] ''bob'' winning_world = (Inr ws, winning_world)"
    and ids: "mw_marketId ` set ws = {''m''}"
    and sums: "\<And>x. x \<in> set ws \<Longrightarrow> mw_winnings x = sum_list (map (\<lambda>r. of_int (toFixedDown (?payout r * wp_balance r)))
       (filter (\<lambda>r. wp_marketId r = mw_marketId x) (winningPayoutRows [''m''] ''bob'' winning_world)))"
    by (auto simp: winning_rows)
  have "mw_winnings x = 30000" if x: "x \<in> set ws" for x
  proof -
    have "mw_marketId x = ''m''" using ids x by blast
    then show ?thesis by (simp add: sums [OF x] winning_rows toFixedDown_def)
  qed
  with run ids show ?thesis by blast
qed

end
