(* ===== verification/Market_Lists.thy ===== *)
theory Market_Lists
  imports Dispute_Info Bignum
begin

text \<open>
  \<open>src/server/getters/get-markets.ts\<close>, \<open>get-categories.ts\<close> and \<open>get-markets-info.ts\<close>: the list of markets with its
  filters, the categories and tags of the markets in it, and the details of markets; with the view
  \<open>markets_liquidity\<close> of \<open>src/migrations\<close>.

  \<^item> A \<open>Map\<close> of JavaScript is an association list in the order of insertion. A filter that is not given, or is
    given as zero or false where the code tests for truth, is left out.
  \<^item> The casts to floating point in SQL are exact here. \<open>LOWER\<close> and \<open>toLowerCase\<close> are modelled on ASCII.
  \<^item> \<open>search\<close> is the full-text search of the database: the markets that match a text; \<open>None\<close> if there is none.
  \<^item> In the details of a market the fields that are copied from its row are kept as the row.
\<close>

section \<open>Liquidity of markets\<close>

definition MAX_SPREAD_PERCENT :: bn where
  "MAX_SPREAD_PERCENT = 1"

text \<open>The view: one row for each market and spread.\<close>

definition markets_liquidity :: "db \<Rightarrow> ((address \<times> bn) \<times> bn) list" where
  "markets_liquidity d = mapValues (\<lambda>_ rows. sum_list (map ol_liquidityTokens rows))
     (groupBy (\<lambda>r. (ol_marketId r, ol_spreadPercent r)) (t_outcomes_liquidity d))"

section \<open>The list of markets\<close>

datatype state_filter = OneState ReportingState | AnyState "ReportingState list"

record GetMarketsParams =
  gm_universe :: address
  gm_creator :: "address option"
  gm_category :: "string option"
  gm_search :: "string option"
  gm_reportingState :: "state_filter option"
  gm_feeWindow :: "address option"
  gm_designatedReporter :: "address option"
  gm_maxFee :: "bn option"
  gm_maxEndTime :: "int option"
  gm_liquiditySortSpreadPercent :: "bn option"
  gm_enableInvalidFilter :: "bool option"
  gm_hasOrders :: "bool option"
  gm_enableInitialRepFilter :: "bool option"
  gm_sortLimit :: SortLimit

record MarketListRow =
  ml_market :: markets_row
  ml_reportingState :: ReportingState
  ml_reportingStateUpdatedOn :: int
  ml_lastTradeTime :: "int option"
  ml_liquidityTokens :: "bn option"

definition lowerCase :: "char \<Rightarrow> char" where
  "lowerCase c = (let n = of_char c :: nat in if 65 \<le> n \<and> n \<le> 90 then char_of (n + 32) else c)"

text \<open>\<open>x ? x : other\<close> and \<open>x || other\<close> on numbers, and a condition added only for a number that is not zero.\<close>

definition orAmount :: "bn option \<Rightarrow> bn \<Rightarrow> bn" where
  "orAmount x other = (case x of None \<Rightarrow> other | Some v \<Rightarrow> if v = 0 then other else v)"

definition ifTruthy :: "'a :: zero option \<Rightarrow> ('a \<Rightarrow> bool) \<Rightarrow> bool" where
  "ifTruthy x holds = (case x of None \<Rightarrow> True | Some v \<Rightarrow> v = 0 \<or> holds v)"

definition timeOfBlock :: "db \<Rightarrow> int option \<Rightarrow> int option" where
  "timeOfBlock d n = (case n of None \<Rightarrow> None
     | Some n \<Rightarrow> map_option bk_timestamp (find (\<lambda>b. bk_blockNumber b = n) (t_blocks d)))"

text \<open>
  The markets with their state and its block. Sorted by liquidity, only those with liquidity for the spread.
\<close>

definition listRows :: "GetMarketsParams \<Rightarrow> db \<Rightarrow> MarketListRow list" where
  "listRows p d =
     [\<lparr>ml_market = m, ml_reportingState = ms_reportingState s, ml_reportingStateUpdatedOn = bk_timestamp b,
       ml_lastTradeTime = timeOfBlock d (mk_lastTradeBlockNumber m), ml_liquidityTokens = liquid\<rparr>.
      m \<leftarrow> t_markets d, s \<leftarrow> t_market_state d, b \<leftarrow> t_blocks d,
      mk_marketStateId m = Some (ms_marketStateId s) \<and> bk_blockNumber b = ms_blockNumber s,
      liquid \<leftarrow> (if sl_sortBy (gm_sortLimit p) = Some ''liquidityTokens''
        then (case map_of (markets_liquidity d) (mk_marketId m, orAmount (gm_liquiditySortSpreadPercent p) 1) of
                Some t \<Rightarrow> if 0 < t then [Some t] else [] | None \<Rightarrow> [])
        else [None])]"

definition listMatches ::
  "(string \<Rightarrow> db \<Rightarrow> address list) option \<Rightarrow> GetMarketsParams \<Rightarrow> db \<Rightarrow> MarketListRow \<Rightarrow> bool" where
  "listMatches search p d r \<longleftrightarrow> (let m = ml_market r in
     mk_universe m = gm_universe p \<and>
     onlyIf (gm_creator p) (\<lambda>a. mk_marketCreator m = a) \<and>
     onlyIf (gm_category p) (\<lambda>c. map lowerCase (mk_category m) = map lowerCase c) \<and>
     onlyIf (gm_reportingState p) (\<lambda>f. case f of
        OneState s \<Rightarrow> ml_reportingState r = s | AnyState ss \<Rightarrow> ml_reportingState r \<in> set ss) \<and>
     onlyIf (gm_feeWindow p) (\<lambda>f. mk_feeWindow m = f) \<and>
     onlyIf (gm_designatedReporter p) (\<lambda>a. mk_designatedReporter m = a) \<and>
     (gm_hasOrders p = Some True \<longrightarrow>
        list_ex (\<lambda>ord. or_marketId ord = mk_marketId m \<and> or_orderState ord = OPEN) (t_orders d)) \<and>
     onlyIf (gm_search p) (\<lambda>text. onlyIf search (\<lambda>f. mk_marketId m \<in> set (f text d))) \<and>
     ifTruthy (gm_maxFee p) (\<lambda>fee. mk_reportingFeeRate m + mk_marketCreatorFeeRate m < fee) \<and>
     (gm_enableInvalidFilter p = Some True \<longrightarrow>
        0 < mk_bestBidTakerInvalidProfitTokens m \<or> 0 < mk_bestAskTakerInvalidProfitTokens m) \<and>
     ifTruthy (gm_maxEndTime p) (\<lambda>t. mk_endTime m < t))"

definition listColumns :: "MarketListRow columns" where
  "listColumns =
     [(''marketId'', \<lambda>r. SqlText (mk_marketId (ml_market r))),
      (''reportingStateUpdatedOn'', \<lambda>r. SqlNum (of_int (ml_reportingStateUpdatedOn r))),
      (''lastTradeTime'', \<lambda>r. sqlOpt (\<lambda>t. SqlNum (of_int t)) (ml_lastTradeTime r)),
      (''liquidityTokens'', \<lambda>r. sqlOpt SqlNum (ml_liquidityTokens r)),
      (''volume'', \<lambda>r. SqlNum (mk_volume (ml_market r))),
      (''shareVolume'', \<lambda>r. SqlNum (mk_shareVolume (ml_market r))),
      (''openInterest'', \<lambda>r. SqlNum (mk_openInterest (ml_market r))),
      (''endTime'', \<lambda>r. SqlNum (of_int (mk_endTime (ml_market r)))),
      (''creationBlockNumber'', \<lambda>r. SqlNum (of_int (mk_creationBlockNumber (ml_market r)))),
      (''reportingFeeRate'', \<lambda>r. SqlNum (mk_reportingFeeRate (ml_market r))),
      (''marketCreatorFeeRate'', \<lambda>r. SqlNum (mk_marketCreatorFeeRate (ml_market r))),
      (''category'', \<lambda>r. SqlText (mk_category (ml_market r)))]"

text \<open>The initial stake in REP: what the market and its initial reporter hold.\<close>

definition initialREPStakeRows :: "address list \<Rightarrow> db \<Rightarrow> (address \<times> int \<times> bn) list" where
  "initialREPStakeRows ids d =
     [(mk_marketId m, mk_endTime m, bl_balance b).
      b \<leftarrow> t_balances d, m \<leftarrow> t_markets d, u \<leftarrow> t_universes d,
      (mk_marketId m = bl_owner b \<or> mk_initialReporterAddress m = bl_owner b) \<and>
      un_universe u = mk_universe m \<and> bl_token b = un_reputationToken u \<and> mk_marketId m \<in> set ids]"

definition stakeByMarket :: "(address \<times> int \<times> bn) list \<Rightarrow> (address \<times> int \<times> bn) list" where
  "stakeByMarket rows = foldl (\<lambda>result (marketId, endTime, stake).
     dictSet marketId (case map_of result marketId of
        None \<Rightarrow> (endTime, stake) | Some (t, s) \<Rightarrow> (t, s + stake)) result) [] rows"

definition passesInitialRep :: "(address \<times> int \<times> bn) list \<Rightarrow> MarketListRow \<Rightarrow> bool" where
  "passesInitialRep stakes r = (case map_of stakes (mk_marketId (ml_market r)) of
     None \<Rightarrow> False | Some (endTime, stake) \<Rightarrow> marketPassesInitialREPFilter endTime stake)"

definition getMarkets ::
  "(string \<Rightarrow> db \<Rightarrow> address list) option \<Rightarrow> GetMarketsParams \<Rightarrow> address list action" where
  "getMarkets search params =
     bindA (gets tables) (\<lambda>d.
     bindA (liftR (queryModifier listColumns (filter (listMatches search params d) (listRows params d))
              ''volume'' ''desc'' (gm_sortLimit params))) (\<lambda>marketsRows.
     let shown = (if gm_enableInitialRepFilter params = Some True
           then filter (passesInitialRep (stakeByMarket (initialREPStakeRows
                  (map (\<lambda>r. mk_marketId (ml_market r)) marketsRows) d))) marketsRows
           else marketsRows)
     in return (map (\<lambda>r. mk_marketId (ml_market r)) shown)))"

section \<open>Categories\<close>

record MarketsTagRow =
  mt_marketId :: address
  mt_category :: string
  mt_openInterest :: bn
  mt_liquidityTokens :: bn
  mt_reportingState :: "ReportingState option"
  mt_tag1 :: "string option"
  mt_tag2 :: "string option"

record OpenInterestAggregation =
  ag_nonFinalizedOpenInterest :: bn
  ag_openInterest :: bn
  ag_liquidityTokens :: bn

record TagAggregation = OpenInterestAggregation +
  ta_tagName :: string
  ta_numberOfMarketsWithThisTag :: int

record UICategory = OpenInterestAggregation +
  uc_categoryName :: string
  uc_tags :: "TagAggregation list"

definition getMarketsTagRows :: "address \<Rightarrow> bn \<Rightarrow> world \<Rightarrow> MarketsTagRow list" where
  "getMarketsTagRows universe spreadPercent w =
     [\<lparr>mt_marketId = mk_marketId m, mt_category = mk_category m, mt_openInterest = mk_openInterest m,
       mt_liquidityTokens = snd l, mt_reportingState = reportingStateOf w m, mt_tag1 = mk_tag1 m,
       mt_tag2 = mk_tag2 m\<rparr>.
      m \<leftarrow> t_markets (tables w), l \<leftarrow> markets_liquidity (tables w),
      fst l = (mk_marketId m, spreadPercent) \<and> mk_universe m = universe]"

definition addRow :: "MarketsTagRow \<Rightarrow> 'a OpenInterestAggregation_scheme \<Rightarrow> 'a OpenInterestAggregation_scheme" where
  "addRow r a = a\<lparr>
     ag_nonFinalizedOpenInterest := (if mt_reportingState r \<noteq> Some FINALIZED
       then ag_nonFinalizedOpenInterest a + mt_openInterest r else ag_nonFinalizedOpenInterest a),
     ag_openInterest := ag_openInterest a + mt_openInterest r,
     ag_liquidityTokens := ag_liquidityTokens a + mt_liquidityTokens r\<rparr>"

definition newTag :: "string \<Rightarrow> TagAggregation" where
  "newTag tagName = \<lparr>ag_nonFinalizedOpenInterest = 0, ag_openInterest = 0, ag_liquidityTokens = 0,
     ta_tagName = tagName, ta_numberOfMarketsWithThisTag = 0\<rparr>"

definition newCategory :: "string \<Rightarrow> UICategory" where
  "newCategory categoryName = \<lparr>ag_nonFinalizedOpenInterest = 0, ag_openInterest = 0, ag_liquidityTokens = 0,
     uc_categoryName = categoryName, uc_tags = []\<rparr>"

text \<open>The entry of a key, made if it is missing, is changed in place.\<close>

definition upsert :: "'k \<Rightarrow> 'v \<Rightarrow> ('v \<Rightarrow> 'v) \<Rightarrow> ('k \<times> 'v) list \<Rightarrow> ('k \<times> 'v) list" where
  "upsert k new f m = dictSet k (f (case map_of m k of None \<Rightarrow> new | Some v \<Rightarrow> v)) m"

definition upsertTagAggregation ::
  "MarketsTagRow \<Rightarrow> string option \<Rightarrow> (string \<times> TagAggregation) list \<Rightarrow> (string \<times> TagAggregation) list" where
  "upsertTagAggregation r tag tagAggregationByTagName =
     (if tag = None \<or> tag = Some '''' then tagAggregationByTagName
      else upsert (the tag) (newTag (the tag))
        (\<lambda>t. (addRow r t)\<lparr>ta_numberOfMarketsWithThisTag := ta_numberOfMarketsWithThisTag t + 1\<rparr>)
        tagAggregationByTagName)"

definition addToCategories ::
  "(string \<times> (string \<times> TagAggregation) list) list \<times> (string \<times> UICategory) list \<Rightarrow> MarketsTagRow \<Rightarrow>
    (string \<times> (string \<times> TagAggregation) list) list \<times> (string \<times> UICategory) list" where
  "addToCategories s r =
     (upsert (mt_category r) [] (\<lambda>ts. upsertTagAggregation r (mt_tag2 r) (upsertTagAggregation r (mt_tag1 r) ts)) (fst s),
      upsert (mt_category r) (newCategory (mt_category r)) (addRow r) (snd s))"

definition buildUICategories :: "MarketsTagRow list \<Rightarrow> address list \<Rightarrow> UICategory list" where
  "buildUICategories marketsTagRows marketIdWhitelist =
     (let (tagsByCategory, categories) = foldl addToCategories ([], [])
            (filter (\<lambda>r. mt_marketId r \<in> set marketIdWhitelist) marketsTagRows)
      in map (\<lambda>(name, c). case map_of tagsByCategory name of
             None \<Rightarrow> c | Some ts \<Rightarrow> c\<lparr>uc_tags := dictValues ts\<rparr>) categories)"

definition getCategories ::
  "(string \<Rightarrow> db \<Rightarrow> address list) option \<Rightarrow> GetMarketsParams \<Rightarrow> UICategory list action" where
  "getCategories search params =
     bindA (gets (\<lambda>w. list_ex (\<lambda>u. un_universe u = gm_universe params) (t_universes (tables w)))) (\<lambda>found.
     if \<not> found then throw (Thrown ''Universe does not exist'')
     else bindA (gets (getMarketsTagRows (gm_universe params)
              (orAmount (gm_liquiditySortSpreadPercent params) MAX_SPREAD_PERCENT))) (\<lambda>ts.
       bindA (getMarkets search (params\<lparr>gm_sortLimit := (gm_sortLimit params)\<lparr>sl_limit := None, sl_offset := None\<rparr>\<rparr>))
         (\<lambda>mids. return (buildUICategories ts mids))))"

section \<open>Details of markets\<close>

record UIOutcomeInfo =
  ui_id :: int
  ui_outcomeVolume :: bn
  ui_outcomePrice :: bn
  ui_description :: "string option"

record UIMarketInfo =
  mi_market :: markets_row
  mi_cumulativeScale :: bn
  mi_consensus :: "NormalizedPayout option"
  mi_creationTime :: "int option"
  mi_settlementFee :: bn
  mi_finalizationTime :: "int option"
  mi_lastTradeTime :: "int option"
  mi_reportingState :: "ReportingState option"
  mi_tickSize :: bn
  mi_outcomes :: "UIOutcomeInfo list"
  mi_totalInitialREPStake :: bn
  mi_passesInitialREPFilter :: bool

definition reshapeOutcomesRowToUIOutcomeInfo :: "outcomes_row \<Rightarrow> UIOutcomeInfo" where
  "reshapeOutcomesRowToUIOutcomeInfo r = \<lparr>ui_id = oc_outcome r, ui_outcomeVolume = oc_volume r,
     ui_outcomePrice = oc_price r, ui_description = oc_description r\<rparr>"

definition reshapeMarketsRowToUIMarketInfo ::
  "bn_division_op \<Rightarrow> world \<Rightarrow> markets_row \<Rightarrow> UIOutcomeInfo list \<Rightarrow> payouts_row option \<Rightarrow> bn \<Rightarrow> UIMarketInfo" where
  "reshapeMarketsRowToUIMarketInfo dv w row outcomesInfo winningPayoutRow totalInitialREPStake =
     \<lparr>mi_market = row, mi_cumulativeScale = mk_maxPrice row - mk_minPrice row,
      mi_consensus = map_option normalizePayouts winningPayoutRow,
      mi_creationTime = timeOfBlock (tables w) (Some (mk_creationBlockNumber row)),
      mi_settlementFee = mk_reportingFeeRate row + mk_marketCreatorFeeRate row,
      mi_finalizationTime = timeOfBlock (tables w) (mk_finalizationBlockNumber row),
      mi_lastTradeTime = timeOfBlock (tables w) (mk_lastTradeBlockNumber row),
      mi_reportingState = reportingStateOf w row,
      mi_tickSize = numTicksToTickSize dv (mk_numTicks row) (mk_minPrice row) (mk_maxPrice row),
      mi_outcomes = outcomesInfo, mi_totalInitialREPStake = totalInitialREPStake,
      mi_passesInitialREPFilter = marketPassesInitialREPFilter (mk_endTime row) totalInitialREPStake\<rparr>"

definition getUIMarketsInfo :: "bn_division_op \<Rightarrow> address list \<Rightarrow> UIMarketInfo list action" where
  "getUIMarketsInfo dv marketIds = gets (\<lambda>w.
     let d = tables w; cleanedMarketIds = filter (\<lambda>i. i \<noteq> '''') marketIds;
         marketsRows = filter (\<lambda>m. mk_marketId m \<in> set cleanedMarketIds) (t_markets d);
         outcomesRowsByMarket = groupBy oc_marketId
           (filter (\<lambda>r. oc_marketId r \<in> set cleanedMarketIds) (t_outcomes d));
         winningPayoutByMarket = keyBy po_marketId
           (filter (\<lambda>p. po_marketId p \<in> set cleanedMarketIds \<and> po_winning p = Some 1) (t_payouts d));
         stakes = stakeByMarket (initialREPStakeRows cleanedMarketIds d)
     in map (\<lambda>m. reshapeMarketsRowToUIMarketInfo dv w m
          (map reshapeOutcomesRowToUIOutcomeInfo
             (case map_of outcomesRowsByMarket (mk_marketId m) of None \<Rightarrow> [] | Some rs \<Rightarrow> rs))
          (map_of winningPayoutByMarket (mk_marketId m))
          (case map_of stakes (mk_marketId m) of None \<Rightarrow> 0 | Some (_, s) \<Rightarrow> s)) marketsRows)"

definition getMarketsInfo :: "bn_division_op \<Rightarrow> address option list \<Rightarrow> UIMarketInfo option list action" where
  "getMarketsInfo dv marketIds =
     bindA (batchAndCombine (map (\<lambda>i. case i of None \<Rightarrow> '''' | Some a \<Rightarrow> a) marketIds) (getUIMarketsInfo dv))
       (\<lambda>marketInfoComplete.
     let marketsInfoByMarket = keyBy (\<lambda>r. mk_marketId (mi_market r)) marketInfoComplete
     in return (map (\<lambda>marketId. case marketId of None \<Rightarrow> None | Some a \<Rightarrow> map_of marketsInfoByMarket a) marketIds))"

section \<open>Maps built entry by entry\<close>

lemma map_of_upsert: "map_of (upsert k new f m) j =
    (if j = k then Some (f (case map_of m k of None \<Rightarrow> new | Some v \<Rightarrow> v)) else map_of m j)"
  by (simp add: upsert_def map_of_dictSet)

lemma distinct_upsert: "distinct (map fst m) \<Longrightarrow> distinct (map fst (upsert k new f m))"
  by (simp add: upsert_def distinct_dictSet)

lemma keys_upsert: "fst ` set (upsert k new f m) = insert k (fst ` set m)"
  by (simp add: upsert_def keys_dictSet)

definition upserts :: "('r \<Rightarrow> 'k) \<Rightarrow> ('k \<Rightarrow> 'v) \<Rightarrow> ('r \<Rightarrow> 'v \<Rightarrow> 'v) \<Rightarrow> 'r list \<Rightarrow> ('k \<times> 'v) list" where
  "upserts key new f rows = foldl (\<lambda>m r. upsert (key r) (new (key r)) (f r) m) [] rows"

lemma map_of_upserts: "map_of (upserts key new f rows) k =
    (if k \<in> key ` set rows then Some (foldl (\<lambda>v r. f r v) (new k) (filter (\<lambda>r. key r = k) rows)) else None)"
proof (induction rows rule: rev_induct)
  case (snoc r rows)
  have "filter (\<lambda>x. key x = k) rows = []" if "k \<notin> key ` set rows"
    using that by (auto simp: filter_empty_conv)
  with snoc show ?case by (auto simp: upserts_def map_of_upsert)
qed (simp add: upserts_def)

lemma keys_upserts: "fst ` set (upserts key new f rows) = key ` set rows"
  by (induction rows rule: rev_induct) (simp_all add: upserts_def keys_upsert)

lemma distinct_upserts: "distinct (map fst (upserts key new f rows))"
  by (induction rows rule: rev_induct) (simp_all add: upserts_def distinct_upsert)

lemma upserts_mem: "(k, v) \<in> set (upserts key new f rows) \<longleftrightarrow>
    k \<in> key ` set rows \<and> v = foldl (\<lambda>v r. f r v) (new k) (filter (\<lambda>r. key r = k) rows)"
  using map_of_eq_Some_iff [OF distinct_upserts, of key new f rows k v]
  by (auto simp: map_of_upserts split: if_splits)

section \<open>What categories and tags add up\<close>

text \<open>The sums of an aggregation over the rows of its markets.\<close>

definition sumsUp :: "MarketsTagRow list \<Rightarrow> 'a OpenInterestAggregation_scheme \<Rightarrow> bool" where
  "sumsUp rows a \<longleftrightarrow>
     ag_openInterest a = sum_list (map mt_openInterest rows) \<and>
     ag_nonFinalizedOpenInterest a =
       sum_list (map mt_openInterest (filter (\<lambda>r. mt_reportingState r \<noteq> Some FINALIZED) rows)) \<and>
     ag_liquidityTokens a = sum_list (map mt_liquidityTokens rows)"

lemma addRow_folded:
  "sumsUp done a \<Longrightarrow> sumsUp (done @ rows) (foldl (\<lambda>v r. addRow r v) a rows)"
proof (induction rows arbitrary: "done" a)
  case (Cons r rows)
  have "sumsUp (done @ [r]) (addRow r a)" using Cons.prems by (simp add: sumsUp_def addRow_def)
  from Cons.IH [OF this] show ?case by simp
qed simp

lemma addRow_name [simp]: "uc_categoryName (addRow r c) = uc_categoryName c" "ta_tagName (addRow r t) = ta_tagName t"
  "uc_tags (addRow r c) = uc_tags c"
  "ta_numberOfMarketsWithThisTag (addRow r t) = ta_numberOfMarketsWithThisTag t"
  by (simp_all add: addRow_def)

lemma category_folded:
  "sumsUp rows (foldl (\<lambda>v r. addRow r v) (newCategory k) rows)"
  "uc_categoryName (foldl (\<lambda>v r. addRow r v) (newCategory k) rows) = k"
proof -
  have "sumsUp [] (newCategory k)" by (simp add: sumsUp_def newCategory_def)
  from addRow_folded [OF this] show "sumsUp rows (foldl (\<lambda>v r. addRow r v) (newCategory k) rows)" by simp
  have name: "uc_categoryName (foldl (\<lambda>v r. addRow r v) c rows) = uc_categoryName c" for c
    by (induction rows arbitrary: c) simp_all
  show "uc_categoryName (foldl (\<lambda>v r. addRow r v) (newCategory k) rows) = k"
    unfolding name by (simp add: newCategory_def)
qed

text \<open>The tags of a row: one that is both the first and the second tag counts twice.\<close>

definition rowTags :: "MarketsTagRow \<Rightarrow> (MarketsTagRow \<times> string) list" where
  "rowTags r = [(r, t). Some t \<leftarrow> [mt_tag1 r, mt_tag2 r], t \<noteq> '''']"

definition countRow :: "MarketsTagRow \<times> string \<Rightarrow> TagAggregation \<Rightarrow> TagAggregation" where
  "countRow x t = (addRow (fst x) t)\<lparr>ta_numberOfMarketsWithThisTag := ta_numberOfMarketsWithThisTag t + 1\<rparr>"

lemma upsertTagAggregation_eq: "upsertTagAggregation r tag m =
    (if tag = None \<or> tag = Some '''' then m
     else upsert (the tag) (newTag (the tag)) (countRow (r, the tag)) m)"
  by (simp add: upsertTagAggregation_def countRow_def [abs_def])

lemma tags_as_upserts:
  "foldl (\<lambda>ts r. upsertTagAggregation r (mt_tag2 r) (upsertTagAggregation r (mt_tag1 r) ts)) [] rows =
    upserts snd newTag countRow (concat (map rowTags rows))"
proof -
  have step: "upsertTagAggregation r (mt_tag2 r) (upsertTagAggregation r (mt_tag1 r) ts) =
      foldl (\<lambda>m x. upsert (snd x) (newTag (snd x)) (countRow x) m) ts (rowTags r)" for r ts
    by (cases "mt_tag1 r"; cases "mt_tag2 r") (auto simp: upsertTagAggregation_eq rowTags_def)
  show ?thesis unfolding upserts_def step by (induction rows rule: rev_induct) (simp_all add: rowTags_def)
qed

lemma tag_folded:
  "sumsUp (map fst xs) (foldl (\<lambda>v x. countRow x v) (newTag k) xs)"
  "ta_tagName (foldl (\<lambda>v x. countRow x v) (newTag k) xs) = k"
  "ta_numberOfMarketsWithThisTag (foldl (\<lambda>v x. countRow x v) (newTag k) xs) = int (length xs)"
proof -
  have "sumsUp d t \<Longrightarrow> sumsUp (d @ map fst xs) (foldl (\<lambda>v x. countRow x v) t xs)" for d and t :: TagAggregation
  proof (induction xs arbitrary: d t)
    case (Cons x xs)
    have "sumsUp (d @ [fst x]) (countRow x t)" using Cons.prems by (simp add: sumsUp_def countRow_def addRow_def)
    from Cons.IH [OF this] show ?case by simp
  qed simp
  from this [of "[]" "newTag k"] show "sumsUp (map fst xs) (foldl (\<lambda>v x. countRow x v) (newTag k) xs)"
    by (simp add: sumsUp_def newTag_def)
  have name: "ta_tagName (foldl (\<lambda>v x. countRow x v) t xs) = ta_tagName t" for t
    by (induction xs arbitrary: t) (simp_all add: countRow_def)
  show "ta_tagName (foldl (\<lambda>v x. countRow x v) (newTag k) xs) = k" unfolding name by (simp add: newTag_def)
  have number: "ta_numberOfMarketsWithThisTag (foldl (\<lambda>v x. countRow x v) t xs) = ta_numberOfMarketsWithThisTag t + int (length xs)" for t
    by (induction xs arbitrary: t) (simp_all add: countRow_def)
  show "ta_numberOfMarketsWithThisTag (foldl (\<lambda>v x. countRow x v) (newTag k) xs) = int (length xs)"
    unfolding number by (simp add: newTag_def)
qed

text \<open>Both maps of the loop, apart.\<close>

lemma addToCategories_folded: "foldl addToCategories ([], []) rows =
    (upserts mt_category (\<lambda>_. []) (\<lambda>r ts. upsertTagAggregation r (mt_tag2 r) (upsertTagAggregation r (mt_tag1 r) ts)) rows,
     upserts mt_category newCategory addRow rows)"
  by (induction rows rule: rev_induct) (simp_all add: upserts_def addToCategories_def)

text \<open>
  What is shown of the rows: every category once, with the sums over its rows and every tag of them once, with the
  sums over the rows that have it.
\<close>

definition inCategory :: "MarketsTagRow list \<Rightarrow> string \<Rightarrow> MarketsTagRow list" where
  "inCategory rows name = filter (\<lambda>r. mt_category r = name) rows"

definition taggedRows :: "MarketsTagRow list \<Rightarrow> string \<Rightarrow> MarketsTagRow list" where
  "taggedRows rows tag = map fst (filter (\<lambda>x. snd x = tag) (concat (map rowTags rows)))"

definition aggregates :: "MarketsTagRow list \<Rightarrow> UICategory list \<Rightarrow> bool" where
  "aggregates rows cats \<longleftrightarrow>
     distinct (map uc_categoryName cats) \<and> set (map uc_categoryName cats) = mt_category ` set rows \<and>
     (\<forall>c \<in> set cats. sumsUp (inCategory rows (uc_categoryName c)) c \<and>
        distinct (map ta_tagName (uc_tags c)) \<and>
        set (map ta_tagName (uc_tags c)) = snd ` set (concat (map rowTags (inCategory rows (uc_categoryName c)))) \<and>
        (\<forall>t \<in> set (uc_tags c).
           sumsUp (taggedRows (inCategory rows (uc_categoryName c)) (ta_tagName t)) t \<and>
           ta_numberOfMarketsWithThisTag t =
             int (length (taggedRows (inCategory rows (uc_categoryName c)) (ta_tagName t)))))"

lemma sumsUp_tags [simp]: "sumsUp rows (c\<lparr>uc_tags := ts\<rparr>) = sumsUp rows c"
  by (simp add: sumsUp_def)

lemma tags_of_category:
  defines "tagsOf \<equiv> \<lambda>rows. dictValues (upserts snd newTag countRow (concat (map rowTags rows)))"
  shows "distinct (map ta_tagName (tagsOf rows))"
    and "set (map ta_tagName (tagsOf rows)) = snd ` set (concat (map rowTags rows))"
    and "t \<in> set (tagsOf rows) \<Longrightarrow> sumsUp (taggedRows rows (ta_tagName t)) t \<and>
      ta_numberOfMarketsWithThisTag t = int (length (taggedRows rows (ta_tagName t)))"
proof -
  let ?m = "upserts snd newTag countRow (concat (map rowTags rows))"
  have entry: "ta_tagName v = k \<and> sumsUp (taggedRows rows k) v \<and>
      ta_numberOfMarketsWithThisTag v = int (length (taggedRows rows k))" if "(k, v) \<in> set ?m" for k v
    using that by (simp add: upserts_mem tag_folded taggedRows_def)
  have names: "map ta_tagName (tagsOf rows) = map fst ?m"
    unfolding tagsOf_def dictValues_def map_map by (rule map_cong) (use entry in auto)
  show "distinct (map ta_tagName (tagsOf rows))" unfolding names by (rule distinct_upserts)
  show "set (map ta_tagName (tagsOf rows)) = snd ` set (concat (map rowTags rows))"
    unfolding names set_map by (rule keys_upserts)
  assume "t \<in> set (tagsOf rows)"
  then obtain k where "(k, t) \<in> set ?m" unfolding tagsOf_def dictValues_def by auto
  from entry [OF this] show "sumsUp (taggedRows rows (ta_tagName t)) t \<and>
      ta_numberOfMarketsWithThisTag t = int (length (taggedRows rows (ta_tagName t)))" by simp
qed

lemma buildUICategories_aggregates:
  "aggregates (filter (\<lambda>r. mt_marketId r \<in> set ids) rows) (buildUICategories rows ids)"
proof -
  let ?rows = "filter (\<lambda>r. mt_marketId r \<in> set ids) rows"
  let ?f = "\<lambda>r ts. upsertTagAggregation r (mt_tag2 r) (upsertTagAggregation r (mt_tag1 r) ts)"
  let ?tags = "upserts mt_category (\<lambda>_. []) ?f ?rows"
  let ?cats = "upserts mt_category newCategory addRow ?rows"
  let ?g = "\<lambda>(name, c). case map_of ?tags name of None \<Rightarrow> c | Some ts \<Rightarrow> c\<lparr>uc_tags := dictValues ts\<rparr>"
  let ?tagsOf = "\<lambda>rs. dictValues (upserts snd newTag countRow (concat (map rowTags rs)))"
  have build: "buildUICategories rows ids = map ?g ?cats"
    by (simp add: buildUICategories_def addToCategories_folded)
  have entry: "?g (k, c) = c\<lparr>uc_tags := ?tagsOf (inCategory ?rows k)\<rparr> \<and> uc_categoryName c = k \<and>
      sumsUp (inCategory ?rows k) c" if kc: "(k, c) \<in> set ?cats" for k c
  proof -
    have c: "k \<in> mt_category ` set ?rows" "c = foldl (\<lambda>v r. addRow r v) (newCategory k) (inCategory ?rows k)"
      using kc by (simp_all add: upserts_mem inCategory_def)
    have "map_of ?tags k = Some (upserts snd newTag countRow (concat (map rowTags (inCategory ?rows k))))"
      using c(1) by (simp only: map_of_upserts tags_as_upserts inCategory_def if_True)
    then show ?thesis unfolding c(2) by (simp add: category_folded)
  qed
  have name: "uc_categoryName (?g x) = fst x" if "x \<in> set ?cats" for x
    using entry [of "fst x" "snd x"] that by simp
  then have names: "map uc_categoryName (map ?g ?cats) = map fst ?cats" by simp
  have each: "sumsUp (inCategory ?rows (uc_categoryName c)) c \<and> uc_tags c = ?tagsOf (inCategory ?rows (uc_categoryName c))"
    if "c \<in> set (map ?g ?cats)" for c
  proof -
    obtain x where x: "x \<in> set ?cats" "c = ?g x" using \<open>c \<in> set (map ?g ?cats)\<close> by auto
    have "c = (snd x)\<lparr>uc_tags := ?tagsOf (inCategory ?rows (fst x))\<rparr>" "uc_categoryName (snd x) = fst x"
      "sumsUp (inCategory ?rows (fst x)) (snd x)"
      using entry [of "fst x" "snd x"] x by simp_all
    then show ?thesis by simp
  qed
  show ?thesis
    unfolding aggregates_def build names
  proof (intro conjI ballI)
    show "distinct (map fst ?cats)" by (rule distinct_upserts)
    show "set (map fst ?cats) = mt_category ` set ?rows" unfolding set_map by (rule keys_upserts)
    fix c assume c: "c \<in> set (map ?g ?cats)"
    note tags = tags_of_category [where rows = "inCategory ?rows (uc_categoryName c)"]
    show "sumsUp (inCategory ?rows (uc_categoryName c)) c" using each [OF c] by blast
    show "distinct (map ta_tagName (uc_tags c))" using each [OF c] tags(1) by simp
    show "set (map ta_tagName (uc_tags c)) = snd ` set (concat (map rowTags (inCategory ?rows (uc_categoryName c))))"
      using each [OF c] tags(2) by simp
    fix t assume "t \<in> set (uc_tags c)"
    then have t: "t \<in> set (?tagsOf (inCategory ?rows (uc_categoryName c)))" using each [OF c] by simp
    show "sumsUp (taggedRows (inCategory ?rows (uc_categoryName c)) (ta_tagName t)) t"
      using tags(3) [OF t] by blast
    show "ta_numberOfMarketsWithThisTag t =
        int (length (taggedRows (inCategory ?rows (uc_categoryName c)) (ta_tagName t)))"
      using tags(3) [OF t] by blast
  qed
qed

section \<open>Lists and categories, correctly\<close>

lemma volume_is_big: "isFieldBigNumber (lastPart ''volume'')"
  by code_simp

definition byVolume :: "MarketListRow \<Rightarrow> MarketListRow \<Rightarrow> bool" where
  "byVolume a b \<longleftrightarrow> mk_volume (ml_market b) \<le> mk_volume (ml_market a)"

lemma getMarkets_result:
  assumes "sl_sortBy (gm_sortLimit p) = None" "sl_limit (gm_sortLimit p) = None" "sl_offset (gm_sortLimit p) = None"
    and "gm_enableInitialRepFilter p \<noteq> Some True"
  shows "\<exists>S. getMarkets search p w = (Inr (map (\<lambda>r. mk_marketId (ml_market r)) S), w) \<and>
    mset S = mset (filter (listMatches search p (tables w)) (listRows p (tables w))) \<and> sorted_wrt byVolume S"
proof -
  let ?rows = "filter (listMatches search p (tables w)) (listRows p (tables w))" and ?p = "gm_sortLimit p"
  have f: "sortFieldOf ''volume'' ?p = ''volume''" by (simp add: sortFieldOf_def assms(1))
  have v: "map_of listColumns ''volume'' = Some (\<lambda>r. SqlNum (mk_volume (ml_market r)))" by (simp add: listColumns_def)
  have l: "lastPart ''volume'' \<noteq> ''''" by (simp add: lastPart_def)
  have nb: "sl_sortBy ?p \<noteq> Some ''''" using assms(1) by simp
  from queryModifier_result [of listColumns "''volume''" ?p _ ?rows "''desc''", unfolded f, OF v nb l]
  obtain S where s: "queryModifier listColumns ?rows ''volume'' ''desc'' ?p =
      Inr ((if isFieldBigNumber (lastPart ''volume'') then userlandPage ?p else dbPage ?p) S)" "mset S = mset ?rows"
    and o: "sorted_wrt (\<lambda>a b. if sortsDescending ''volume'' ''desc'' ?p
        then SqlNum (mk_volume (ml_market b)) \<le> SqlNum (mk_volume (ml_market a))
        else SqlNum (mk_volume (ml_market a)) \<le> SqlNum (mk_volume (ml_market b))) S"
    by blast
  have "sortsDescending ''volume'' ''desc'' ?p"
    by (simp add: sortsDescending_def f volume_is_big assms(1))
  then have "sorted_wrt byVolume S"
    using o by (auto simp: byVolume_def less_eq_sql_value_def elim!: sorted_wrt_mono_rel [rotated])
  moreover have "getMarkets search p w = (Inr (map (\<lambda>r. mk_marketId (ml_market r)) S), w)"
    using assms(2-4) s(1) by (simp add: getMarkets_def bindA_def gets_def liftR_def return_def volume_is_big userlandPage_def)
  ultimately show ?thesis using s(2) by blast
qed

text \<open>The markets of a list that is not sorted by liquidity, each condition written out.\<close>

lemma ifTruthy_iff: "ifTruthy x f \<longleftrightarrow> (\<forall>v. x = Some v \<longrightarrow> v \<noteq> 0 \<longrightarrow> f v)"
  by (auto simp: ifTruthy_def split: option.split)

lemma onlyIf_state: "onlyIf x (\<lambda>f. case f of OneState s \<Rightarrow> P s | AnyState ss \<Rightarrow> Q ss) \<longleftrightarrow>
    (\<forall>s. x = Some (OneState s) \<longrightarrow> P s) \<and> (\<forall>ss. x = Some (AnyState ss) \<longrightarrow> Q ss)"
  by (auto simp: onlyIf_def split: option.splits state_filter.splits)

lemma onlyIf_search: "onlyIf x (\<lambda>a. onlyIf y (P a)) \<longleftrightarrow> (\<forall>a b. x = Some a \<longrightarrow> y = Some b \<longrightarrow> P a b)"
  by (auto simp: onlyIf_def split: option.splits)

lemma listMatches_iff: "listMatches search p d r \<longleftrightarrow>
    mk_universe (ml_market r) = gm_universe p \<and>
    (\<forall>a. gm_creator p = Some a \<longrightarrow> mk_marketCreator (ml_market r) = a) \<and>
    (\<forall>c. gm_category p = Some c \<longrightarrow> map lowerCase (mk_category (ml_market r)) = map lowerCase c) \<and>
    (\<forall>x. gm_reportingState p = Some (OneState x) \<longrightarrow> ml_reportingState r = x) \<and>
    (\<forall>xs. gm_reportingState p = Some (AnyState xs) \<longrightarrow> ml_reportingState r \<in> set xs) \<and>
    (\<forall>f. gm_feeWindow p = Some f \<longrightarrow> mk_feeWindow (ml_market r) = f) \<and>
    (\<forall>a. gm_designatedReporter p = Some a \<longrightarrow> mk_designatedReporter (ml_market r) = a) \<and>
    (gm_hasOrders p = Some True \<longrightarrow>
       (\<exists>ord \<in> set (t_orders d). or_marketId ord = mk_marketId (ml_market r) \<and> or_orderState ord = OPEN)) \<and>
    (\<forall>x f. gm_search p = Some x \<longrightarrow> search = Some f \<longrightarrow> mk_marketId (ml_market r) \<in> set (f x d)) \<and>
    (\<forall>x. gm_maxFee p = Some x \<longrightarrow> x \<noteq> 0 \<longrightarrow>
       mk_reportingFeeRate (ml_market r) + mk_marketCreatorFeeRate (ml_market r) < x) \<and>
    (gm_enableInvalidFilter p = Some True \<longrightarrow>
       0 < mk_bestBidTakerInvalidProfitTokens (ml_market r) \<or> 0 < mk_bestAskTakerInvalidProfitTokens (ml_market r)) \<and>
    (\<forall>x. gm_maxEndTime p = Some x \<longrightarrow> x \<noteq> 0 \<longrightarrow> mk_endTime (ml_market r) < x)"
  unfolding listMatches_def Let_def onlyIf_search onlyIf_state
  unfolding onlyIf_iff ifTruthy_iff list_ex_iff conj_assoc by (rule refl)

lemma listed_markets:
  assumes "sl_sortBy (gm_sortLimit p) = None"
  shows "map ml_market (filter (listMatches search p d) (listRows p d)) =
    [m. m \<leftarrow> t_markets d, s \<leftarrow> t_market_state d, b \<leftarrow> t_blocks d,
      mk_marketStateId m = Some (ms_marketStateId s) \<and> bk_blockNumber b = ms_blockNumber s \<and>
      mk_universe m = gm_universe p \<and>
      (\<forall>a. gm_creator p = Some a \<longrightarrow> mk_marketCreator m = a) \<and>
      (\<forall>c. gm_category p = Some c \<longrightarrow> map lowerCase (mk_category m) = map lowerCase c) \<and>
      (\<forall>x. gm_reportingState p = Some (OneState x) \<longrightarrow> ms_reportingState s = x) \<and>
      (\<forall>xs. gm_reportingState p = Some (AnyState xs) \<longrightarrow> ms_reportingState s \<in> set xs) \<and>
      (\<forall>f. gm_feeWindow p = Some f \<longrightarrow> mk_feeWindow m = f) \<and>
      (\<forall>a. gm_designatedReporter p = Some a \<longrightarrow> mk_designatedReporter m = a) \<and>
      (gm_hasOrders p = Some True \<longrightarrow>
         (\<exists>ord \<in> set (t_orders d). or_marketId ord = mk_marketId m \<and> or_orderState ord = OPEN)) \<and>
      (\<forall>x f. gm_search p = Some x \<longrightarrow> search = Some f \<longrightarrow> mk_marketId m \<in> set (f x d)) \<and>
      (\<forall>x. gm_maxFee p = Some x \<longrightarrow> x \<noteq> 0 \<longrightarrow> mk_reportingFeeRate m + mk_marketCreatorFeeRate m < x) \<and>
      (gm_enableInvalidFilter p = Some True \<longrightarrow>
         0 < mk_bestBidTakerInvalidProfitTokens m \<or> 0 < mk_bestAskTakerInvalidProfitTokens m) \<and>
      (\<forall>x. gm_maxEndTime p = Some x \<longrightarrow> x \<noteq> 0 \<longrightarrow> mk_endTime m < x)]"
  unfolding listRows_def assms filter_concat map_concat map_map comp_def
  by (intro arg_cong [where f = concat] map_cong refl) (simp add: listMatches_iff)

text \<open>
  C38. A list of a known universe that is not paged, not sorted by a column asked for and not filtered by initial
  REP has exactly the markets with a recorded state that match every filter given: the universe, the creator, the category (not looking at case), the
  reporting state or one of the states, the fee window, the designated reporter, an open order, the full-text
  search (if the database has one), the fees and end time below a maximum other than zero, and a profit for takers
  if the market is invalid; they are in order of descending volume. The categories of such a request, paged or not,
  aggregate those of the listed markets that have a liquidity row at the spread (the others are left out of all sums): each
  category once, with the open interest of its markets, of those not finalized, and their liquidity; and each
  of its tags once, with the sums and the number of the markets that have it, where a market with the same tag twice
  counts twice.
\<close>

theorem categories_aggregate_listed_markets:
  assumes "list_ex (\<lambda>u. un_universe u = gm_universe p) (t_universes (tables w))"
    and "sl_sortBy (gm_sortLimit p) = None" "sl_limit (gm_sortLimit p) = None" "sl_offset (gm_sortLimit p) = None"
    and "gm_enableInitialRepFilter p \<noteq> Some True"
  shows "\<exists>S cats. getMarkets search p w = (Inr (map mk_marketId S), w) \<and>
    mset S = mset [m. m \<leftarrow> t_markets (tables w), s \<leftarrow> t_market_state (tables w), b \<leftarrow> t_blocks (tables w),
      mk_marketStateId m = Some (ms_marketStateId s) \<and> bk_blockNumber b = ms_blockNumber s \<and>
      mk_universe m = gm_universe p \<and>
      (\<forall>a. gm_creator p = Some a \<longrightarrow> mk_marketCreator m = a) \<and>
      (\<forall>c. gm_category p = Some c \<longrightarrow> map lowerCase (mk_category m) = map lowerCase c) \<and>
      (\<forall>x. gm_reportingState p = Some (OneState x) \<longrightarrow> ms_reportingState s = x) \<and>
      (\<forall>xs. gm_reportingState p = Some (AnyState xs) \<longrightarrow> ms_reportingState s \<in> set xs) \<and>
      (\<forall>f. gm_feeWindow p = Some f \<longrightarrow> mk_feeWindow m = f) \<and>
      (\<forall>a. gm_designatedReporter p = Some a \<longrightarrow> mk_designatedReporter m = a) \<and>
      (gm_hasOrders p = Some True \<longrightarrow>
         (\<exists>ord \<in> set (t_orders (tables w)). or_marketId ord = mk_marketId m \<and> or_orderState ord = OPEN)) \<and>
      (\<forall>x f. gm_search p = Some x \<longrightarrow> search = Some f \<longrightarrow> mk_marketId m \<in> set (f x (tables w))) \<and>
      (\<forall>x. gm_maxFee p = Some x \<longrightarrow> x \<noteq> 0 \<longrightarrow> mk_reportingFeeRate m + mk_marketCreatorFeeRate m < x) \<and>
      (gm_enableInvalidFilter p = Some True \<longrightarrow>
         0 < mk_bestBidTakerInvalidProfitTokens m \<or> 0 < mk_bestAskTakerInvalidProfitTokens m) \<and>
      (\<forall>x. gm_maxEndTime p = Some x \<longrightarrow> x \<noteq> 0 \<longrightarrow> mk_endTime m < x)] \<and>
    sorted_wrt (\<lambda>a b. mk_volume b \<le> mk_volume a) S \<and>
    getCategories search (p\<lparr>gm_sortLimit := (gm_sortLimit p)\<lparr>sl_limit := l, sl_offset := k\<rparr>\<rparr>) w = (Inr cats, w) \<and>
    aggregates [\<lparr>mt_marketId = mk_marketId m, mt_category = mk_category m, mt_openInterest = mk_openInterest m,
        mt_liquidityTokens = snd q, mt_reportingState = reportingStateOf w m, mt_tag1 = mk_tag1 m,
        mt_tag2 = mk_tag2 m\<rparr>.
      m \<leftarrow> t_markets (tables w), q \<leftarrow> markets_liquidity (tables w),
      fst q = (mk_marketId m, case gm_liquiditySortSpreadPercent p of None \<Rightarrow> MAX_SPREAD_PERCENT
        | Some x \<Rightarrow> if x = 0 then MAX_SPREAD_PERCENT else x) \<and>
      mk_universe m = gm_universe p \<and> mk_marketId m \<in> mk_marketId ` set S] cats"
proof -
  obtain R where R: "getMarkets search p w = (Inr (map (\<lambda>r. mk_marketId (ml_market r)) R), w)"
    "mset R = mset (filter (listMatches search p (tables w)) (listRows p (tables w)))" "sorted_wrt byVolume R"
    using getMarkets_result [OF assms(2-5)] by blast
  let ?S = "map ml_market R"
  let ?rows = "getMarketsTagRows (gm_universe p) (orAmount (gm_liquiditySortSpreadPercent p) MAX_SPREAD_PERCENT) w"
  let ?ids = "map mk_marketId ?S" and ?q = "p\<lparr>gm_sortLimit := (gm_sortLimit p)\<lparr>sl_limit := l, sl_offset := k\<rparr>\<rparr>"
  have run: "getMarkets search p w = (Inr ?ids, w)" using R(1) by (simp add: comp_def)
  have "p = ?q\<lparr>gm_sortLimit := (gm_sortLimit ?q)\<lparr>sl_limit := None, sl_offset := None\<rparr>\<rparr>"
    using assms(3,4) by (cases p; cases "gm_sortLimit p") simp
  then have cats: "getCategories search ?q w = (Inr (buildUICategories ?rows ?ids), w)"
    using assms(1) run by (simp add: getCategories_def bindA_def gets_def return_def)
  have "mset ?S = mset (map ml_market (filter (listMatches search p (tables w)) (listRows p (tables w))))"
    using R(2) by (simp add: mset_map)
  note S = this [unfolded listed_markets [OF assms(2)]]
  have order: "sorted_wrt (\<lambda>a b. mk_volume b \<le> mk_volume a) ?S"
    using R(3) by (simp add: sorted_wrt_map byVolume_def [abs_def])
  have "filter (\<lambda>r. mt_marketId r \<in> set ?ids) ?rows =
    [\<lparr>mt_marketId = mk_marketId m, mt_category = mk_category m, mt_openInterest = mk_openInterest m,
        mt_liquidityTokens = snd q, mt_reportingState = reportingStateOf w m, mt_tag1 = mk_tag1 m,
        mt_tag2 = mk_tag2 m\<rparr>.
      m \<leftarrow> t_markets (tables w), q \<leftarrow> markets_liquidity (tables w),
      fst q = (mk_marketId m, case gm_liquiditySortSpreadPercent p of None \<Rightarrow> MAX_SPREAD_PERCENT
        | Some x \<Rightarrow> if x = 0 then MAX_SPREAD_PERCENT else x) \<and>
      mk_universe m = gm_universe p \<and> mk_marketId m \<in> mk_marketId ` set ?S]"
    unfolding getMarketsTagRows_def filter_concat map_map comp_def orAmount_def set_map
    by (intro arg_cong [where f = concat] map_cong refl) auto
  then have "aggregates \<dots> (buildUICategories ?rows ?ids)"
    using buildUICategories_aggregates [of ?ids ?rows] by simp
  with run S order cats show ?thesis by blast
qed

definition list_world :: world where
  "list_world = empty_world\<lparr>tables := empty_db
     \<lparr>t_markets := [sample_market\<lparr>mk_tag1 := Some ''a'', mk_tag2 := Some ''a'', mk_openInterest := 5\<rparr>],
      t_market_state := [\<lparr>ms_marketStateId = 1, ms_marketId = ''m'', ms_reportingState = PRE_REPORTING,
        ms_blockNumber = 1\<rparr>],
      t_blocks := [\<lparr>bk_blockNumber = 1, bk_blockHash = ''h1'', bk_timestamp = 100, bk_bulkSync = False\<rparr>],
      t_universes := [\<lparr>un_universe = ''u'', un_parentUniverse = None, un_payoutId = None,
        un_reputationToken = ''rep'', un_forked = False\<rparr>],
      t_outcomes_liquidity := [\<lparr>ol_marketId = ''m'', ol_outcome = 0, ol_spreadPercent = 1, ol_liquidityTokens = 3\<rparr>]\<rparr>\<rparr>"

definition list_request :: GetMarketsParams where
  "list_request = \<lparr>gm_universe = ''u'', gm_creator = None, gm_category = Some ''c'', gm_search = None,
     gm_reportingState = None, gm_feeWindow = None, gm_designatedReporter = None, gm_maxFee = None,
     gm_maxEndTime = None, gm_liquiditySortSpreadPercent = None, gm_enableInvalidFilter = None, gm_hasOrders = None,
     gm_enableInitialRepFilter = None,
     gm_sortLimit = \<lparr>sl_sortBy = None, sl_isSortDescending = None, sl_limit = None, sl_offset = None\<rparr>\<rparr>"

definition list_row :: MarketsTagRow where
  "list_row = \<lparr>mt_marketId = ''m'', mt_category = ''C'', mt_openInterest = 5, mt_liquidityTokens = 3,
     mt_reportingState = Some PRE_REPORTING, mt_tag1 = Some ''a'', mt_tag2 = Some ''a''\<rparr>"

lemma lower_C: "lowerCase CHR ''C'' = CHR ''c''" "lowerCase CHR ''c'' = CHR ''c''"
  by code_simp+

definition list_market :: markets_row where
  "list_market = sample_market\<lparr>mk_tag1 := Some ''a'', mk_tag2 := Some ''a'', mk_openInterest := 5\<rparr>"

lemma list_world_liquidity: "markets_liquidity (tables list_world) = [((''m'', 1), 3)]"
  by (simp add: markets_liquidity_def list_world_def groupBy_def mapValues_def)

text \<open>The first page of the categories of a request; the list itself is not paged.\<close>

theorem categories_aggregate_listed_markets_witness:
  "\<exists>cats. getCategories None (list_request\<lparr>gm_sortLimit := (gm_sortLimit list_request)\<lparr>sl_limit := Some 1, sl_offset := None\<rparr>\<rparr>)
      list_world = (Inr cats, list_world) \<and>
    set (map uc_categoryName cats) = {''C''} \<and> (\<forall>c \<in> set cats. ag_openInterest c = 5)"
proof -
  let ?q = "list_request\<lparr>gm_sortLimit := (gm_sortLimit list_request)\<lparr>sl_limit := Some 1, sl_offset := None\<rparr>\<rparr>"
  have req: "list_ex (\<lambda>u. un_universe u = gm_universe list_request) (t_universes (tables list_world))"
    "sl_sortBy (gm_sortLimit list_request) = None" "sl_limit (gm_sortLimit list_request) = None"
    "sl_offset (gm_sortLimit list_request) = None" "gm_enableInitialRepFilter list_request \<noteq> Some True"
    by (simp_all add: list_request_def list_world_def)
  have listed: "map ml_market (filter (listMatches None list_request (tables list_world))
      (listRows list_request (tables list_world))) = [list_market]"
    by (simp add: listRows_def listMatches_def list_world_def list_request_def sample_simps onlyIf_def ifTruthy_def
        lower_C list_market_def)
  from categories_aggregate_listed_markets [OF req, of None None "Some 1", folded listed_markets [OF req(2)],
      unfolded listed] obtain S cats rows where
    S: "mset S = mset [list_market]"
    and run: "getCategories None ?q list_world = (Inr cats, list_world)"
    and cats: "aggregates rows cats"
    and rows: "rows = [\<lparr>mt_marketId = mk_marketId m, mt_category = mk_category m, mt_openInterest = mk_openInterest m,
        mt_liquidityTokens = snd q, mt_reportingState = reportingStateOf list_world m, mt_tag1 = mk_tag1 m,
        mt_tag2 = mk_tag2 m\<rparr>.
      m \<leftarrow> t_markets (tables list_world), q \<leftarrow> markets_liquidity (tables list_world),
      fst q = (mk_marketId m, case gm_liquiditySortSpreadPercent list_request of None \<Rightarrow> MAX_SPREAD_PERCENT
        | Some x \<Rightarrow> if x = 0 then MAX_SPREAD_PERCENT else x) \<and>
      mk_universe m = gm_universe list_request \<and> mk_marketId m \<in> mk_marketId ` set S]"
    by (elim exE conjE) (rule that, assumption+, rule refl)
  from S have "S = [list_market]" by simp
  then have "rows = [list_row]"
    unfolding rows list_world_liquidity
    by (simp add: list_world_def list_request_def sample_simps MAX_SPREAD_PERCENT_def list_market_def
        reportingStateOf_def list_row_def)
  note cats = cats [unfolded this]
  have names: "set (map uc_categoryName cats) = {''C''}" using cats by (simp add: aggregates_def list_row_def)
  have "ag_openInterest c = 5" if c: "c \<in> set cats" for c
  proof -
    have "uc_categoryName c = ''C''" using names c by auto
    then show ?thesis using cats c
      by (auto simp: aggregates_def sumsUp_def inCategory_def list_row_def)
  qed
  with run names show ?thesis by blast
qed

lemma tag_counted_twice: "ta_numberOfMarketsWithThisTag (snd (hd (upserts snd newTag countRow (rowTags list_row)))) = 2"
  by (simp add: upserts_def rowTags_def list_row_def upsert_def countRow_def newTag_def addRow_def)

section \<open>Details of markets, correctly\<close>

text \<open>The details of one market, from all rows of the tables.\<close>

definition detailsOf :: "bn_division_op \<Rightarrow> world \<Rightarrow> markets_row \<Rightarrow> UIMarketInfo" where
  "detailsOf dv w m = reshapeMarketsRowToUIMarketInfo dv w m
     (map reshapeOutcomesRowToUIOutcomeInfo (filter (\<lambda>r. oc_marketId r = mk_marketId m) (t_outcomes (tables w))))
     (find (\<lambda>p. po_marketId p = mk_marketId m \<and> po_winning p = Some 1) (rev (t_payouts (tables w))))
     (sum_list (map (\<lambda>r. snd (snd r)) (initialREPStakeRows [mk_marketId m] (tables w))))"

lemma map_of_stakeByMarket: "map_of (stakeByMarket rows) k = (case filter (\<lambda>r. fst r = k) rows of
    [] \<Rightarrow> None | r # rs \<Rightarrow> Some (fst (snd r), sum_list (map (\<lambda>r. snd (snd r)) (r # rs))))"
proof (induction rows rule: rev_induct)
  case (snoc r rows)
  obtain m t s where r: "r = (m, t, s)" by (cases r)
  have step: "stakeByMarket (rows @ [r]) = dictSet m (case map_of (stakeByMarket rows) m of
      None \<Rightarrow> (t, s) | Some (t', s') \<Rightarrow> (t', s' + s)) (stakeByMarket rows)"
    by (simp add: stakeByMarket_def r)
  show ?case unfolding step map_of_dictSet using snoc r
    by (cases "filter (\<lambda>r. fst r = k) rows") (auto simp: add.assoc split: list.splits)
qed (simp add: stakeByMarket_def)

lemma stakes_of_market:
  assumes "k \<in> set ids"
  shows "filter (\<lambda>r. fst r = k) (initialREPStakeRows ids d) = initialREPStakeRows [k] d"
  unfolding initialREPStakeRows_def filter_concat map_map
  by (intro arg_cong [of _ _ concat] map_cong refl) (use assms in \<open>auto simp: filter_concat o_def intro!: arg_cong [of _ _ concat] map_cong\<close>)

lemma groupBy_rows: "(case map_of (groupBy f xs) k of None \<Rightarrow> [] | Some rs \<Rightarrow> rs) = filter (\<lambda>x. f x = k) xs"
proof (cases "k \<in> f ` set xs")
  case False
  then have "\<forall>x \<in> set xs. f x \<noteq> k" by auto
  then show ?thesis using False by (simp add: map_of_groupBy)
qed (simp add: map_of_groupBy)

lemma getUIMarketsInfo_eq: "getUIMarketsInfo dv ids = gets (\<lambda>w. map (detailsOf dv w)
    (filter (\<lambda>m. mk_marketId m \<in> set ids \<and> mk_marketId m \<noteq> '''') (t_markets (tables w))))"
proof (rule ext)
  fix w :: world
  let ?d = "tables w" and ?ids = "filter (\<lambda>i. i \<noteq> '''') ids"
  have "reshapeMarketsRowToUIMarketInfo dv w m
      (map reshapeOutcomesRowToUIOutcomeInfo (case map_of (groupBy oc_marketId
          (filter (\<lambda>r. oc_marketId r \<in> set ?ids) (t_outcomes ?d))) (mk_marketId m) of None \<Rightarrow> [] | Some rs \<Rightarrow> rs))
      (map_of (keyBy po_marketId (filter (\<lambda>p. po_marketId p \<in> set ?ids \<and> po_winning p = Some 1) (t_payouts ?d)))
         (mk_marketId m))
      (case map_of (stakeByMarket (initialREPStakeRows ?ids ?d)) (mk_marketId m) of None \<Rightarrow> 0 | Some (_, s) \<Rightarrow> s) =
    detailsOf dv w m" if m: "mk_marketId m \<in> set ?ids" for m
  proof -
    have "(case map_of (groupBy oc_marketId (filter (\<lambda>r. oc_marketId r \<in> set ?ids) (t_outcomes ?d))) (mk_marketId m) of
        None \<Rightarrow> [] | Some rs \<Rightarrow> rs) = filter (\<lambda>r. oc_marketId r = mk_marketId m) (t_outcomes ?d)"
      unfolding groupBy_rows filter_filter using m by (auto intro: filter_cong)
    moreover have "map_of (keyBy po_marketId (filter (\<lambda>p. po_marketId p \<in> set ?ids \<and> po_winning p = Some 1)
        (t_payouts ?d))) (mk_marketId m) =
      find (\<lambda>p. po_marketId p = mk_marketId m \<and> po_winning p = Some 1) (rev (t_payouts ?d))"
      using m unfolding map_of_keyBy rev_filter find_filter by (auto intro: find_cong)
    moreover have "(case map_of (stakeByMarket (initialREPStakeRows ?ids ?d)) (mk_marketId m) of
        None \<Rightarrow> 0 | Some (_, s) \<Rightarrow> s) = sum_list (map (\<lambda>r. snd (snd r)) (initialREPStakeRows [mk_marketId m] ?d))"
      unfolding map_of_stakeByMarket stakes_of_market [OF m] by (simp split: list.split)
    ultimately show ?thesis by (simp add: detailsOf_def)
  qed
  then show "getUIMarketsInfo dv ids w = gets (\<lambda>w. map (detailsOf dv w)
      (filter (\<lambda>m. mk_marketId m \<in> set ids \<and> mk_marketId m \<noteq> '''') (t_markets (tables w)))) w"
    by (auto simp: getUIMarketsInfo_def gets_def Let_def intro!: map_cong filter_cong)
qed

text \<open>
  C39. The details of markets, looked up in batches, are in the order of the ids asked for, with null for an id of no
  market; those of a market come from all rows of the tables about it.
\<close>

theorem details_of_markets:
  assumes "distinct (map mk_marketId (t_markets (tables w)))" "'''' \<notin> mk_marketId ` set (t_markets (tables w))"
  shows "getMarketsInfo dv ids w = (Inr (map (\<lambda>i. case i of None \<Rightarrow> None
      | Some a \<Rightarrow> map_option (detailsOf dv w) (find (\<lambda>m. mk_marketId m = a) (t_markets (tables w)))) ids), w)"
proof -
  let ?ids = "map (\<lambda>i. case i of None \<Rightarrow> '''' | Some a \<Rightarrow> a) ids"
  let ?parts = "chunk MAX_DB_CHUNK_SIZE ?ids"
  let ?of = "\<lambda>part. map (detailsOf dv w) (filter (\<lambda>m. mk_marketId m \<in> set part) (t_markets (tables w)))"
  let ?key = "\<lambda>r. mk_marketId (mi_market r)"
  have key: "?key (detailsOf dv w m) = mk_marketId m" for m
    by (simp add: detailsOf_def reshapeMarketsRowToUIMarketInfo_def)
  have "\<forall>m \<in> set (t_markets (tables w)). mk_marketId m \<noteq> ''''" using assms(2) by (metis image_eqI)
  then have "filter (\<lambda>m. mk_marketId m \<in> set part \<and> mk_marketId m \<noteq> '''') (t_markets (tables w)) =
      filter (\<lambda>m. mk_marketId m \<in> set part) (t_markets (tables w))" for part
    by (intro filter_cong) auto
  then have "getUIMarketsInfo dv part w = (Inr (?of part), w)" for part
    by (simp add: getUIMarketsInfo_eq gets_def)
  then have parts: "mapA (getUIMarketsInfo dv) xs w = (Inr (map ?of xs), w)" for xs
    by (induction xs) (simp_all add: bindA_def return_def)
  let ?found = "concat (map ?of ?parts)"
  have "find (\<lambda>r. ?key r = a) (rev ?found) = map_option (detailsOf dv w) (find (\<lambda>m. mk_marketId m = a) (t_markets (tables w)))"
    if a: "a \<in> set ?ids" for a
  proof (cases "find (\<lambda>m. mk_marketId m = a) (t_markets (tables w))")
    case None
    then have "\<forall>m \<in> set (t_markets (tables w)). mk_marketId m \<noteq> a" by (simp add: find_None_iff)
    then have "find (\<lambda>r. ?key r = a) (rev ?found) = None" by (auto simp: find_None_iff key)
    with None show ?thesis by simp
  next
    case (Some m)
    then have m: "m \<in> set (t_markets (tables w))" "mk_marketId m = a" by (auto simp: find_Some_iff)
    have only: "r = detailsOf dv w m" if r: "r \<in> set ?found" "?key r = a" for r
    proof -
      obtain k where "k \<in> set (t_markets (tables w))" "r = detailsOf dv w k" using r(1) by auto
      moreover from this r(2) m have "k = m" using assms(1) by (auto simp: key distinct_map dest: inj_onD)
      ultimately show ?thesis by simp
    qed
    have "a \<in> set (concat ?parts)" using a by (simp only: concat_chunk MAX_DB_CHUNK_SIZE_def)
    then obtain part where "part \<in> set ?parts" "a \<in> set part" by auto
    then have "detailsOf dv w m \<in> set ?found" using m by auto
    then have "find (\<lambda>r. ?key r = a) (rev ?found) \<noteq> None"
      unfolding find_None_iff set_rev using key [of m] m(2) by blast
    then obtain r where r: "find (\<lambda>r. ?key r = a) (rev ?found) = Some r" by blast
    then have "r \<in> set ?found" unfolding find_Some_iff by (metis nth_mem set_rev)
    moreover from r have "?key r = a" unfolding find_Some_iff by blast
    ultimately have "r \<in> set ?found" "?key r = a" by blast+
    with only [of r] r Some show ?thesis by simp
  qed
  then have "map (\<lambda>i. case i of None \<Rightarrow> None | Some a \<Rightarrow> map_of (keyBy ?key ?found) a) ids =
      map (\<lambda>i. case i of None \<Rightarrow> None
        | Some a \<Rightarrow> map_option (detailsOf dv w) (find (\<lambda>m. mk_marketId m = a) (t_markets (tables w)))) ids"
    unfolding map_of_keyBy by (intro map_cong refl) (force split: option.split)
  then show ?thesis
    by (simp add: getMarketsInfo_def batchAndCombine_def bindA_def parts return_def)
qed

theorem details_of_markets_witness:
  "\<exists>i. getMarketsInfo bn_div [Some ''x'', None, Some ''m''] list_world = (Inr [None, None, Some i], list_world) \<and>
    mk_openInterest (mi_market i) = 5"
proof -
  have "distinct (map mk_marketId (t_markets (tables list_world)))"
    "'''' \<notin> mk_marketId ` set (t_markets (tables list_world))"
    by (simp_all add: list_world_def sample_market_def)
  from details_of_markets [OF this, of bn_div "[Some ''x'', None, Some ''m'']"] show ?thesis
    by (simp add: list_world_def sample_market_def detailsOf_def reshapeMarketsRowToUIMarketInfo_def)
qed

end
