(* ===== verification/Account_History.thy ===== *)
theory Account_History
  imports Getter_Queries Simulated_Order_Book
begin

text \<open>
  \<open>src/server/getters/get-account-transaction-history.ts\<close>: everything an account did in a universe, as rows
  of one shape.

  \<^item> A \<open>select\<close> gives \<open>nullRow\<close> with the columns that are not null set; \<open>union\<close> keeps one of equal rows.
  \<^item> The columns \<open>payout0\<close> to \<open>payout7\<close> are a list, empty where all are null. An outcome is a number, for a
    scalar market the payout itself.
  \<^item> An action or coin that is none of the enumeration is \<open>None\<close>. Addresses come in lower case.
\<close>

section \<open>Rows\<close>

datatype Action = ALL_ACTIONS | BUY | SELL | CANCEL | CLAIM_MARKET_CREATOR_FEES | CLAIM_PARTICIPATION_TOKENS
  | CLAIM_TRADING_PROCEEDS | CLAIM_WINNING_CROWDSOURCERS | DISPUTE | INITIAL_REPORT | MARKET_CREATION
  | COMPLETE_SETS

datatype Coin = ALL_COINS | ETH | REP

record AccountTransactionHistoryRow =
  hr_action :: Action
  hr_coin :: Coin
  hr_details :: string
  hr_marketId :: "string option"
  hr_marketCreatorFees :: "bn option"
  hr_marketType :: "string option"
  hr_minPrice :: "bn option"
  hr_maxPrice :: "bn option"
  hr_numPayoutTokens :: "bn option"
  hr_numShares :: "bn option"
  hr_reporterFees :: "bn option"
  hr_scalarDenomination :: "string option"
  hr_fee :: "bn option"
  hr_marketDescription :: string
  hr_outcome :: "bn option"
  hr_outcomeDescription :: "string option"
  hr_payouts :: "bn option list"
  hr_isInvalid :: bool
  hr_price :: "bn option"
  hr_quantity :: "bn option"
  hr_total :: "bn option"
  hr_transactionHash :: string
  hr_blockNumber :: int
  hr_timestamp :: int

record HistoryParams =
  ha_universe :: address
  ha_account :: address
  ha_earliestTransactionTime :: int
  ha_latestTransactionTime :: int
  ha_coin :: "Coin option"
  ha_action :: "Action option"
  ha_sortLimit :: SortLimit

definition nullRow :: "Action \<Rightarrow> Coin \<Rightarrow> string \<Rightarrow> string \<Rightarrow> int \<Rightarrow> AccountTransactionHistoryRow" where
  "nullRow action coin details transactionHash blockNumber =
     \<lparr>hr_action = action, hr_coin = coin, hr_details = details, hr_marketId = None,
      hr_marketCreatorFees = None, hr_marketType = None, hr_minPrice = None, hr_maxPrice = None,
      hr_numPayoutTokens = None, hr_numShares = None, hr_reporterFees = None,
      hr_scalarDenomination = None, hr_fee = None, hr_marketDescription = '''', hr_outcome = None,
      hr_outcomeDescription = None, hr_payouts = [], hr_isInvalid = False, hr_price = None,
      hr_quantity = None, hr_total = None, hr_transactionHash = transactionHash,
      hr_blockNumber = blockNumber, hr_timestamp = 0\<rparr>"

definition ofMarket ::
  "markets_row \<Rightarrow> AccountTransactionHistoryRow \<Rightarrow> AccountTransactionHistoryRow" where
  "ofMarket m r = r\<lparr>hr_marketId := Some (mk_marketId m), hr_marketType := Some (mk_marketType m),
     hr_scalarDenomination := mk_scalarDenomination m, hr_marketDescription := mk_shortDescription m\<rparr>"

definition ofOutcome ::
  "outcomes_row \<Rightarrow> AccountTransactionHistoryRow \<Rightarrow> AccountTransactionHistoryRow" where
  "ofOutcome out r = r\<lparr>hr_outcome := Some (of_int (oc_outcome out)),
     hr_outcomeDescription := oc_description out\<rparr>"

definition ofPayout ::
  "payouts_row \<Rightarrow> AccountTransactionHistoryRow \<Rightarrow> AccountTransactionHistoryRow" where
  "ofPayout p r = r\<lparr>hr_payouts := po_payouts p, hr_isInvalid := po_isInvalid p\<rparr>"

definition amounts ::
  "bn option \<Rightarrow> bn option \<Rightarrow> bn option \<Rightarrow> bn option \<Rightarrow> AccountTransactionHistoryRow \<Rightarrow>
   AccountTransactionHistoryRow" where
  "amounts fee price quantity tot r =
     r\<lparr>hr_fee := fee, hr_price := price, hr_quantity := quantity, hr_total := tot\<rparr>"

section \<open>Queries\<close>

definition tradeRows ::
  "Action \<Rightarrow> string \<Rightarrow> (trades_row \<Rightarrow> bool) \<Rightarrow> address \<Rightarrow> db \<Rightarrow> AccountTransactionHistoryRow list" where
  "tradeRows action details matches universe d =
     [amounts None (Some (td_price t)) (Some (td_amount t)) None (ofOutcome out (ofMarket m
        ((nullRow action ETH details (td_transactionHash t) (td_blockNumber t))
           \<lparr>hr_marketCreatorFees := Some (td_marketCreatorFees t), hr_minPrice := Some (mk_minPrice m),
            hr_maxPrice := Some (mk_maxPrice m), hr_reporterFees := Some (td_reporterFees t)\<rparr>))).
      t \<leftarrow> t_trades d, m \<leftarrow> t_markets d, out \<leftarrow> t_outcomes d,
      mk_marketId m = td_marketId t \<and> oc_marketId out = td_marketId t \<and> oc_outcome out = td_outcome t \<and>
      matches t \<and> mk_universe m = universe]"

definition queryBuy :: "address \<Rightarrow> address \<Rightarrow> db \<Rightarrow> AccountTransactionHistoryRow list" where
  "queryBuy account universe d =
     tradeRows BUY ''Buy order'' (\<lambda>t. td_orderType t = ''buy'' \<and> td_creator t = account) universe d @
     tradeRows BUY ''Buy order'' (\<lambda>t. td_orderType t = ''sell'' \<and> td_filler t = account) universe d"

definition querySell :: "address \<Rightarrow> address \<Rightarrow> db \<Rightarrow> AccountTransactionHistoryRow list" where
  "querySell account universe d =
     tradeRows SELL ''Sell order'' (\<lambda>t. td_orderType t = ''sell'' \<and> td_creator t = account) universe d @
     tradeRows SELL ''Sell order'' (\<lambda>t. td_orderType t = ''buy'' \<and> td_filler t = account) universe d"

definition queryCanceled :: "address \<Rightarrow> address \<Rightarrow> db \<Rightarrow> AccountTransactionHistoryRow list" where
  "queryCanceled account universe d =
     [amounts (Some 0) (Some (or_price ord)) (Some (or_amount ord)) (Some 0) (ofOutcome out (ofMarket m
        (nullRow CANCEL ETH ''Canceled order'' (xo_transactionHash c) (xo_blockNumber c)))).
      c \<leftarrow> t_orders_canceled d, ord \<leftarrow> t_orders d, m \<leftarrow> t_markets d, out \<leftarrow> t_outcomes d,
      mk_marketId m = or_marketId ord \<and> or_orderId ord = xo_orderId c \<and>
      oc_marketId out = or_marketId ord \<and> oc_outcome out = or_outcome ord \<and>
      or_orderCreator ord = account \<and> mk_universe m = universe]"

definition queryClaimMarketCreatorFees ::
  "address \<Rightarrow> address \<Rightarrow> db \<Rightarrow> AccountTransactionHistoryRow list" where
  "queryClaimMarketCreatorFees account universe d =
     [amounts (Some 0) (Some 0) (Some 0) (Some (tf_value t)) (ofMarket m
        (nullRow CLAIM_MARKET_CREATOR_FEES ETH ''Claimed market creator fees''
          (tf_transactionHash t) (tf_blockNumber t))).
      t \<leftarrow> t_transfers d, m \<leftarrow> t_markets d,
      Some (mk_marketCreatorMailbox m) = tf_sender t \<and> tf_recipient t = None \<and>
      mk_marketCreator m = account \<and> mk_universe m = universe]"

definition queryClaimParticipationTokens ::
  "address \<Rightarrow> address \<Rightarrow> db \<Rightarrow> AccountTransactionHistoryRow list" where
  "queryClaimParticipationTokens account universe d =
     [amounts (Some 0) (Some 0) (Some 0) (Some (pr_reportingFeesReceived r))
        (nullRow CLAIM_PARTICIPATION_TOKENS ETH ''Claimed reporting fees from participation tokens''
          (pr_transactionHash r) (pr_blockNumber r)).
      r \<leftarrow> t_participation_token_redeemed d, f \<leftarrow> t_fee_windows d,
      fw_feeWindow f = pr_feeWindow r \<and> pr_reporter r = account \<and> fw_universe f = universe]"

definition queryClaimTradingProceeds ::
  "address \<Rightarrow> address \<Rightarrow> db \<Rightarrow> AccountTransactionHistoryRow list" where
  "queryClaimTradingProceeds account universe d =
     [amounts None (Some (oc_price out)) (Some (tp_numShares t)) (Some (tp_numPayoutTokens t))
        (ofPayout p (ofOutcome out (ofMarket m
          ((nullRow CLAIM_TRADING_PROCEEDS ETH ''Claimed trading proceeds''
              (tp_transactionHash t) (tp_blockNumber t))
             \<lparr>hr_numPayoutTokens := Some (tp_numPayoutTokens t), hr_numShares := Some (tp_numShares t)\<rparr>)))).
      t \<leftarrow> t_trading_proceeds d, m \<leftarrow> t_markets d, p \<leftarrow> t_payouts d, k \<leftarrow> t_tokens d, out \<leftarrow> t_outcomes d,
      mk_marketId m = tp_marketId t \<and> po_marketId p = mk_marketId m \<and>
      tk_contractAddress k = tp_shareToken t \<and> Some (oc_marketId out) = tk_marketId k \<and>
      Some (oc_outcome out) = tk_outcome k \<and> tp_account t = account \<and> mk_universe m = universe]"

definition redeemedRows ::
  "Coin \<Rightarrow> string \<Rightarrow> (crowdsourcer_redeemed_row \<Rightarrow> bn) \<Rightarrow> address \<Rightarrow> address \<Rightarrow> db \<Rightarrow>
   AccountTransactionHistoryRow list" where
  "redeemedRows coin details received account universe d =
     [amounts (Some 0) (Some 0) (Some 0) (Some (received r)) (ofPayout p (ofMarket m
        (nullRow CLAIM_WINNING_CROWDSOURCERS coin details (cr_transactionHash r) (cr_blockNumber r)))).
      r \<leftarrow> t_crowdsourcer_redeemed d, c \<leftarrow> t_crowdsourcers d, m \<leftarrow> t_markets d, p \<leftarrow> t_payouts d,
      mk_marketId m = cs_marketId c \<and> cs_crowdsourcerId c = cr_crowdsourcer r \<and>
      po_payoutId p = cs_payoutId c \<and> po_marketId p = mk_marketId m \<and>
      cr_reporter r = account \<and> mk_universe m = universe]"

definition queryClaimWinningCrowdsourcers ::
  "Coin option \<Rightarrow> address \<Rightarrow> address \<Rightarrow> db \<Rightarrow> AccountTransactionHistoryRow list" where
  "queryClaimWinningCrowdsourcers coin account universe d =
     (if coin = Some ETH \<or> coin = Some ALL_COINS
      then redeemedRows ETH ''Claimed reporting fees from crowdsourcers'' cr_reportingFeesReceived
             account universe d else []) @
     (if coin = Some REP \<or> coin = Some ALL_COINS
      then redeemedRows REP ''Claimed REP fees from crowdsourcers'' cr_repReceived account universe d
      else [])"

definition queryDispute :: "address \<Rightarrow> address \<Rightarrow> db \<Rightarrow> AccountTransactionHistoryRow list" where
  "queryDispute account universe d =
     [amounts (Some 0) (Some 0) (Some (dp_amountStaked r)) (Some 0) (ofPayout p (ofMarket m
        (nullRow DISPUTE REP ''REP staked in dispute crowdsourcers''
          (dp_transactionHash r) (dp_blockNumber r)))).
      r \<leftarrow> t_disputes d, c \<leftarrow> t_crowdsourcers d, p \<leftarrow> t_payouts d, m \<leftarrow> t_markets d,
      cs_crowdsourcerId c = dp_crowdsourcerId r \<and> po_payoutId p = cs_payoutId c \<and>
      mk_marketId m = cs_marketId c \<and> dp_reporter r = account \<and> mk_universe m = universe]"

definition queryInitialReport :: "address \<Rightarrow> address \<Rightarrow> db \<Rightarrow> AccountTransactionHistoryRow list" where
  "queryInitialReport account universe d =
     [amounts (Some 0) (Some 0) (Some (ir_amountStaked r)) (Some 0) (ofPayout p (ofMarket m
        (nullRow INITIAL_REPORT REP ''REP staked in initial reports''
          (ir_transactionHash r) (ir_blockNumber r)))).
      r \<leftarrow> t_initial_reports d, p \<leftarrow> t_payouts d, m \<leftarrow> t_markets d,
      po_payoutId p = ir_payoutId r \<and> mk_marketId m = ir_marketId r \<and>
      ir_reporter r = account \<and> mk_universe m = universe]"

definition queryMarketCreation :: "address \<Rightarrow> address \<Rightarrow> db \<Rightarrow> AccountTransactionHistoryRow list" where
  "queryMarketCreation account universe d =
     [amounts (Some (mk_creationFee m)) (Some 0) (Some 0) (Some 0) (ofMarket m
        (nullRow MARKET_CREATION ETH ''ETH validity bond for market creation''
          (mk_transactionHash m) (mk_creationBlockNumber m))).
      m \<leftarrow> t_markets d, mk_marketCreator m = account \<and> mk_universe m = universe]"

definition completeSetsBought :: "address \<Rightarrow> address \<Rightarrow> db \<Rightarrow> AccountTransactionHistoryRow list" where
  "completeSetsBought account universe d =
     [amounts (Some 0) (Some (mk_numTicks m)) (Some (cp_numCompleteSets c)) (Some 0) (ofMarket m
        ((nullRow COMPLETE_SETS ETH ''Buy complete sets'' (cp_transactionHash c) (cp_blockNumber c))
           \<lparr>hr_minPrice := Some (mk_minPrice m), hr_maxPrice := Some (mk_maxPrice m)\<rparr>)).
      c \<leftarrow> t_completeSets d, m \<leftarrow> t_markets d,
      mk_marketId m = cp_marketId c \<and> cp_eventName c = ''CompleteSetsPurchased'' \<and>
      cp_account c = account \<and> mk_universe m = universe]"

definition completeSetsSold :: "address \<Rightarrow> address \<Rightarrow> db \<Rightarrow> AccountTransactionHistoryRow list" where
  "completeSetsSold account universe d =
     [amounts (Some (fw_fees f)) (Some (mk_numTicks m)) (Some (cp_numCompleteSets c)) (Some 0) (ofMarket m
        ((nullRow COMPLETE_SETS ETH ''Sell complete sets'' (cp_transactionHash c) (cp_blockNumber c))
           \<lparr>hr_marketCreatorFees := Some (mk_marketCreatorFeeRate m),
            hr_minPrice := Some (mk_minPrice m), hr_maxPrice := Some (mk_maxPrice m)\<rparr>)).
      c \<leftarrow> t_completeSets d, m \<leftarrow> t_markets d, f \<leftarrow> t_fee_windows d, b \<leftarrow> t_blocks d,
      mk_marketId m = cp_marketId c \<and> fw_universe f = mk_universe m \<and>
      bk_blockNumber b = cp_blockNumber c \<and>
      fw_startTime f \<le> bk_timestamp b \<and> bk_timestamp b \<le> fw_endTime f \<and>
      cp_eventName c = ''CompleteSetsSold'' \<and> cp_account c = account \<and> mk_universe m = universe]"

definition queryCompleteSets :: "address \<Rightarrow> address \<Rightarrow> db \<Rightarrow> AccountTransactionHistoryRow list" where
  "queryCompleteSets account universe d =
     completeSetsBought account universe d @ completeSetsSold account universe d"

section \<open>Amounts, outcomes and descriptions\<close>

definition need :: "string \<Rightarrow> 'a option \<Rightarrow> 'a result" where
  "need what x = (case x of None \<Rightarrow> Inl (JsTypeError what) | Some v \<Rightarrow> Inr v)"

definition attoDivisor :: bn where
  "attoDivisor = 10 ^ 18"

definition tradeAmounts :: "AccountTransactionHistoryRow \<Rightarrow> AccountTransactionHistoryRow result" where
  "tradeAmounts r =
     bindE (need ''minPrice'' (hr_minPrice r)) (\<lambda>minPrice.
     bindE (need ''maxPrice'' (hr_maxPrice r)) (\<lambda>maxPrice.
     bindE (need ''quantity'' (hr_quantity r)) (\<lambda>quantity.
     bindE (need ''price'' (hr_price r)) (\<lambda>price.
     bindE (getTradeCost (no_params\<lparr>marketMinPrice := Pr minPrice, marketMaxPrice := Pr maxPrice,
              tradeBuyOrSell := (if hr_action r = BUY then Buy else Sell), tradeQuantity := Sh quantity,
              tradePrice := Some (Pr price)\<rparr>)) (\<lambda>tradeCost.
     bindE (need ''reporterFees'' (hr_reporterFees r)) (\<lambda>repFees.
     bindE (need ''marketCreatorFees'' (hr_marketCreatorFees r)) (\<lambda>creatorFees.
     bindE (getTotalFees (no_params\<lparr>reporterFees := Tk repFees, marketCreatorFees := Tk creatorFees\<rparr>))
       (\<lambda>totalFees.
     Inr (r\<lparr>hr_fee := Some (magnitude totalFees), hr_total := Some (magnitude tradeCost)\<rparr>)))))))))"

definition stakeAmounts ::
  "bn_division_op \<Rightarrow> AccountTransactionHistoryRow \<Rightarrow> AccountTransactionHistoryRow result" where
  "stakeAmounts dv r =
     bindE (need ''quantity'' (hr_quantity r)) (\<lambda>q. Inr (r\<lparr>hr_quantity := Some (dv q attoDivisor)\<rparr>))"

definition payoutAt :: "AccountTransactionHistoryRow \<Rightarrow> nat \<Rightarrow> bn option" where
  "payoutAt r i = (if i < length (hr_payouts r) then hr_payouts r ! i else None)"

definition payoutOfOutcome :: "AccountTransactionHistoryRow \<Rightarrow> bn option" where
  "payoutOfOutcome r = (case hr_outcome r of
     Some x \<Rightarrow> if x \<in> \<int> \<and> 0 \<le> x then payoutAt r (nat \<lfloor>x\<rfloor>) else None | None \<Rightarrow> None)"

definition proceedsFee ::
  "bn_division_op \<Rightarrow> AccountTransactionHistoryRow \<Rightarrow> AccountTransactionHistoryRow result" where
  "proceedsFee dv r =
     (case payoutOfOutcome r of
        None \<Rightarrow> Inr r
      | Some payoutAmount \<Rightarrow>
          bindE (need ''numShares'' (hr_numShares r)) (\<lambda>shares.
          bindE (need ''numPayoutTokens'' (hr_numPayoutTokens r)) (\<lambda>received.
          let fee = dv (shares * payoutAmount - received) attoDivisor
          in Inr (r\<lparr>hr_fee := Some (if fee < 0 then 0 else fee)\<rparr>))))"

definition claimAmounts ::
  "bn_division_op \<Rightarrow> AccountTransactionHistoryRow \<Rightarrow> AccountTransactionHistoryRow result" where
  "claimAmounts dv r =
     bindE (if hr_action r = CLAIM_TRADING_PROCEEDS then proceedsFee dv r else Inr r) (\<lambda>r.
     bindE (need ''quantity'' (hr_quantity r)) (\<lambda>q.
     bindE (need ''total'' (hr_total r)) (\<lambda>t.
     Inr (r\<lparr>hr_quantity := Some (dv q attoDivisor), hr_total := Some (dv t attoDivisor)\<rparr>))))"

definition completeSetsPrice :: "AccountTransactionHistoryRow \<Rightarrow> bn result" where
  "completeSetsPrice r =
     (if hr_marketType r = Some ''scalar''
      then bindE (need ''maxPrice'' (hr_maxPrice r)) (\<lambda>maxPrice.
           bindE (need ''minPrice'' (hr_minPrice r)) (\<lambda>minPrice. Inr (maxPrice - minPrice)))
      else Inr 1)"

definition completeSetsAmounts :: "AccountTransactionHistoryRow \<Rightarrow> AccountTransactionHistoryRow result" where
  "completeSetsAmounts r =
     bindE (completeSetsPrice r) (\<lambda>price.
     bindE (need ''quantity'' (hr_quantity r)) (\<lambda>q.
     let tot = q * price in
     bindE (need ''fee'' (hr_fee r)) (\<lambda>feeRate.
     bindE (need ''times of null'' (hr_marketCreatorFees r)) (\<lambda>creatorRate.
     let fee = feeRate * tot + creatorRate * tot
     in Inr (r\<lparr>hr_price := Some price, hr_total := Some (tot - fee), hr_fee := Some fee\<rparr>)))))"

definition withAmounts ::
  "bn_division_op \<Rightarrow> AccountTransactionHistoryRow \<Rightarrow> AccountTransactionHistoryRow result" where
  "withAmounts dv r =
     (if hr_action r = BUY \<or> hr_action r = SELL then tradeAmounts r
      else if hr_action r = DISPUTE \<or> hr_action r = INITIAL_REPORT then stakeAmounts dv r
      else if hr_action r = CLAIM_MARKET_CREATOR_FEES \<or> hr_action r = CLAIM_PARTICIPATION_TOKENS \<or>
              hr_action r = CLAIM_TRADING_PROCEEDS \<or> hr_action r = CLAIM_WINNING_CROWDSOURCERS
           then claimAmounts dv r
      else if hr_action r = COMPLETE_SETS then completeSetsAmounts r
      else Inr r)"

text \<open>\<open>isGreaterThanOrEqualTo\<close> of null is false. The loop over the payouts stops at the first positive one.\<close>

definition notBelow :: "bn \<Rightarrow> bn option \<Rightarrow> bool" where
  "notBelow x y = (case y of Some v \<Rightarrow> v \<le> x | None \<Rightarrow> False)"

definition categoricalOutcome :: "AccountTransactionHistoryRow \<Rightarrow> bn" where
  "categoricalOutcome r =
     (case find (\<lambda>i. case payoutAt r i of Some v \<Rightarrow> 0 < v | None \<Rightarrow> False) [1..<8] of
        Some i \<Rightarrow> of_nat i
      | None \<Rightarrow> 0)"

definition withOutcome :: "AccountTransactionHistoryRow \<Rightarrow> AccountTransactionHistoryRow result" where
  "withOutcome r =
     (case payoutAt r 0 of
        None \<Rightarrow> Inr r
      | Some payout0 \<Rightarrow>
          if hr_isInvalid r then Inr (r\<lparr>hr_outcomeDescription := Some ''Invalid''\<rparr>)
          else if hr_marketType r = Some ''yesNo''
            then Inr (r\<lparr>hr_outcome := Some (if notBelow payout0 (payoutAt r 1) then 0 else 1)\<rparr>)
          else if hr_marketType r = Some ''scalar''
            then (if notBelow payout0 (payoutAt r 1) then Inr (r\<lparr>hr_outcome := Some payout0\<rparr>)
                  else bindE (need ''toNumber of null'' (payoutAt r 1)) (\<lambda>p. Inr (r\<lparr>hr_outcome := Some p\<rparr>)))
          else if hr_marketType r = Some ''categorical''
            then Inr (r\<lparr>hr_outcome := Some (categoricalOutcome r)\<rparr>)
          else Inr r)"

definition withDescription ::
  "db \<Rightarrow> AccountTransactionHistoryRow \<Rightarrow> AccountTransactionHistoryRow result" where
  "withDescription d r =
     (case (hr_outcome r, hr_outcomeDescription r) of
        (Some out, None) \<Rightarrow>
          if hr_isInvalid r then Inr (r\<lparr>hr_outcomeDescription := Some ''Invalid''\<rparr>)
          else if hr_marketType r = Some ''yesNo''
            then Inr (r\<lparr>hr_outcomeDescription := Some (if out = 0 then ''No'' else ''Yes'')\<rparr>)
          else if hr_marketType r = Some ''scalar''
            then Inr (r\<lparr>hr_outcomeDescription := hr_scalarDenomination r\<rparr>)
          else if hr_marketType r = Some ''categorical''
            then (case find (\<lambda>x. Some (oc_marketId x) = hr_marketId r \<and> of_int (oc_outcome x) = out)
                    (t_outcomes d) of
                    None \<Rightarrow> Inl (JsTypeError ''description of undefined'')
                  | Some x \<Rightarrow> Inr (r\<lparr>hr_outcomeDescription := oc_description x\<rparr>))
          else Inr r
      | _ \<Rightarrow> Inr r)"

record UIAccountTransactionHistoryRow =
  uh_action :: Action
  uh_coin :: Coin
  uh_details :: string
  uh_fee :: "bn option"
  uh_marketDescription :: string
  uh_outcome :: "bn option"
  uh_outcomeDescription :: "string option"
  uh_price :: "bn option"
  uh_quantity :: "bn option"
  uh_timestamp :: int
  uh_total :: "bn option"
  uh_transactionHash :: string
  uh_blockNumber :: int

definition withoutInternals :: "AccountTransactionHistoryRow \<Rightarrow> UIAccountTransactionHistoryRow" where
  "withoutInternals r =
     \<lparr>uh_action = hr_action r, uh_coin = hr_coin r, uh_details = hr_details r, uh_fee = hr_fee r,
      uh_marketDescription = hr_marketDescription r, uh_outcome = hr_outcome r,
      uh_outcomeDescription = hr_outcomeDescription r, uh_price = hr_price r,
      uh_quantity = hr_quantity r, uh_timestamp = hr_timestamp r, uh_total = hr_total r,
      uh_transactionHash = hr_transactionHash r, uh_blockNumber = hr_blockNumber r\<rparr>"

definition transformQueryResult ::
  "bn_division_op \<Rightarrow> db \<Rightarrow> AccountTransactionHistoryRow \<Rightarrow> UIAccountTransactionHistoryRow result" where
  "transformQueryResult dv d r =
     bindE (withAmounts dv r) (\<lambda>r. bindE (withOutcome r) (\<lambda>r. bindE (withDescription d r) (\<lambda>r.
     Inr (withoutInternals r))))"

definition transformQueryResults ::
  "bn_division_op \<Rightarrow> AccountTransactionHistoryRow list \<Rightarrow> UIAccountTransactionHistoryRow list action" where
  "transformQueryResults dv rows = bindA (gets tables) (\<lambda>d. liftR (mapE (transformQueryResult dv d) rows))"

section \<open>The getter\<close>

definition actionIs :: "HistoryParams \<Rightarrow> Action \<Rightarrow> bool" where
  "actionIs p action \<longleftrightarrow> ha_action p = Some action \<or> ha_action p = Some ALL_ACTIONS"

definition coinIs :: "HistoryParams \<Rightarrow> Coin \<Rightarrow> bool" where
  "coinIs p coin \<longleftrightarrow> ha_coin p = Some coin \<or> ha_coin p = Some ALL_COINS"

text \<open>The queries of the union, each with its condition.\<close>

definition historyQueries ::
  "HistoryParams \<Rightarrow> (bool \<times> (address \<Rightarrow> address \<Rightarrow> db \<Rightarrow> AccountTransactionHistoryRow list)) list" where
  "historyQueries p =
     [(actionIs p BUY \<and> coinIs p ETH, queryBuy),
      (actionIs p SELL \<and> coinIs p ETH, querySell),
      (actionIs p CANCEL \<and> coinIs p ETH, queryCanceled),
      (actionIs p CLAIM_MARKET_CREATOR_FEES \<and> coinIs p ETH, queryClaimMarketCreatorFees),
      (actionIs p CLAIM_PARTICIPATION_TOKENS \<and> coinIs p ETH, queryClaimParticipationTokens),
      (actionIs p CLAIM_TRADING_PROCEEDS \<and> coinIs p ETH, queryClaimTradingProceeds),
      (actionIs p CLAIM_WINNING_CROWDSOURCERS \<and> (coinIs p ETH \<or> coinIs p REP),
       queryClaimWinningCrowdsourcers (ha_coin p)),
      (actionIs p MARKET_CREATION \<and> coinIs p ETH, queryMarketCreation),
      (actionIs p DISPUTE \<and> coinIs p REP, queryDispute),
      (actionIs p INITIAL_REPORT \<and> coinIs p REP, queryInitialReport),
      (actionIs p COMPLETE_SETS \<and> coinIs p ETH, queryCompleteSets)]"

definition unionRows :: "HistoryParams \<Rightarrow> db \<Rightarrow> AccountTransactionHistoryRow list" where
  "unionRows p d = distinctRows (concat (map (\<lambda>(b, q). if b then q (ha_account p) (ha_universe p) d else [])
     (historyQueries p)))"

definition historyRows :: "HistoryParams \<Rightarrow> db \<Rightarrow> AccountTransactionHistoryRow list" where
  "historyRows p d =
     [r\<lparr>hr_timestamp := bk_timestamp b\<rparr>. r \<leftarrow> unionRows p d, b \<leftarrow> t_blocks d,
      hr_blockNumber r = bk_blockNumber b \<and>
      ha_earliestTransactionTime p \<le> bk_timestamp b \<and> bk_timestamp b \<le> ha_latestTransactionTime p]"

definition bigColumn :: "bn option \<Rightarrow> sql_value" where
  "bigColumn = sqlOpt SqlNum"

definition historyColumns :: "AccountTransactionHistoryRow columns" where
  "historyColumns =
     underTable ''data''
       [(''details'', \<lambda>r. SqlText (hr_details r)), (''marketId'', \<lambda>r. sqlOpt SqlText (hr_marketId r)),
        (''marketCreatorFees'', \<lambda>r. bigColumn (hr_marketCreatorFees r)),
        (''marketType'', \<lambda>r. sqlOpt SqlText (hr_marketType r)),
        (''minPrice'', \<lambda>r. bigColumn (hr_minPrice r)), (''maxPrice'', \<lambda>r. bigColumn (hr_maxPrice r)),
        (''numPayoutTokens'', \<lambda>r. bigColumn (hr_numPayoutTokens r)),
        (''numShares'', \<lambda>r. bigColumn (hr_numShares r)),
        (''reporterFees'', \<lambda>r. bigColumn (hr_reporterFees r)),
        (''scalarDenomination'', \<lambda>r. sqlOpt SqlText (hr_scalarDenomination r)),
        (''fee'', \<lambda>r. bigColumn (hr_fee r)),
        (''marketDescription'', \<lambda>r. SqlText (hr_marketDescription r)),
        (''outcome'', \<lambda>r. bigColumn (hr_outcome r)),
        (''outcomeDescription'', \<lambda>r. sqlOpt SqlText (hr_outcomeDescription r)),
        (''price'', \<lambda>r. bigColumn (hr_price r)), (''quantity'', \<lambda>r. bigColumn (hr_quantity r)),
        (''total'', \<lambda>r. bigColumn (hr_total r)),
        (''transactionHash'', \<lambda>r. SqlText (hr_transactionHash r))]
     @ underTable ''blocks'' [(''timestamp'', \<lambda>r. SqlNum (of_int (hr_timestamp r)))]"

definition getAccountTransactionHistory ::
  "bn_division_op \<Rightarrow> HistoryParams \<Rightarrow> UIAccountTransactionHistoryRow list action" where
  "getAccountTransactionHistory dv p =
     (if \<not> list_ex fst (historyQueries p) then throw (Thrown ''Invalid action/coin combination'')
      else bindA (gets tables) (\<lambda>d.
           bindA (liftR (queryModifier historyColumns (historyRows p d) ''blocks.timestamp'' ''desc''
                    (ha_sortLimit p)))
             (transformQueryResults dv)))"

section \<open>Trades in the history\<close>

lemma trade_cost:
  "getTradeCost (no_params\<lparr>marketMinPrice := Pr lo, marketMaxPrice := Pr hi, tradeBuyOrSell := side,
       tradeQuantity := Sh q, tradePrice := Some (Pr x)\<rparr>) =
     Inr (Tk (position_value lo hi (if side = Buy then q else - q) (x - lo)))"
proof -
  define v :: vals where "v = \<lparr>vNet = 0, vAvg = 0, vUnrealizedCost = None, vUnrealizedProfit = None,
     vRealizedCost = 0, vRealizedProfit = 0, vTotalCost = None, vTotalProfit = None, vDelta = None,
     vSide = side, vQuantity = q, vTradePrice = Some x, vTradePriceMMP = None, vLastPriceMMP = 0,
     vMin = lo, vMax = hi, vReporterFees = 0, vCreatorFees = 0, vReporterFeeRate = 0, vCreatorFeeRate = 0\<rparr>"
  have "no_params\<lparr>marketMinPrice := Pr lo, marketMaxPrice := Pr hi, tradeBuyOrSell := side,
       tradeQuantity := Sh q, tradePrice := Some (Pr x)\<rparr> = lift v"
    by (simp add: no_params_def lift_def v_def)
  moreover have "getTradeCost (lift v) = Inr (Tk (position_value lo hi (if side = Buy then q else - q) (x - lo)))"
    using getTradeCost_lift [of v x] by (simp add: v_def)
  ultimately show ?thesis by (simp only:)
qed

lemma total_fees:
  "getTotalFees (no_params\<lparr>reporterFees := Tk a, marketCreatorFees := Tk b\<rparr>) = Inr (Tk (a + b))"
  by (simp add: getTotalFees_def)

lemma trade_value:
  "0 < q \<Longrightarrow> position_value lo hi (if action = BUY then q else - q) (x - lo) =
     q * (if action = BUY then x - lo else hi - x)"
  by (simp add: position_value_def share_price_def pos_type_def)

lemmas row_builders = amounts_def ofOutcome_def ofMarket_def nullRow_def ofPayout_def

lemma magnitude_construct [simp]: "magnitude (construct k x) = x"
  by (simp add: construct_def)

lemma tradeRows_member:
  assumes "r \<in> set (tradeRows action details matches universe d)"
  obtains t m out where "t \<in> set (t_trades d)" "m \<in> set (t_markets d)" "out \<in> set (t_outcomes d)"
    "mk_marketId m = td_marketId t" "oc_marketId out = td_marketId t" "matches t" "mk_universe m = universe"
    "r = amounts None (Some (td_price t)) (Some (td_amount t)) None (ofOutcome out (ofMarket m
        ((nullRow action ETH details (td_transactionHash t) (td_blockNumber t))
           \<lparr>hr_marketCreatorFees := Some (td_marketCreatorFees t), hr_minPrice := Some (mk_minPrice m),
            hr_maxPrice := Some (mk_maxPrice m), hr_reporterFees := Some (td_reporterFees t)\<rparr>)))"
  using assms by (auto simp: tradeRows_def)

text \<open>The description of an outcome is found: its row is in the table.\<close>

lemma description_found:
  assumes "out \<in> set (t_outcomes d)" "hr_outcome r = Some (of_int (oc_outcome out))"
    and "hr_marketId r = Some (oc_marketId out)"
  shows "\<exists>s. withDescription d r = Inr (r\<lparr>hr_outcomeDescription := s\<rparr>)"
proof (cases "hr_outcomeDescription r")
  case None
  have "find (\<lambda>x. Some (oc_marketId x) = hr_marketId r \<and>
      of_int (oc_outcome x) = (of_int (oc_outcome out) :: bn)) (t_outcomes d) \<noteq> None"
    unfolding find_None_iff not_not using assms(1,3) by (intro exI [of _ out]) simp
  then obtain x where x: "find (\<lambda>x. Some (oc_marketId x) = hr_marketId r \<and>
      of_int (oc_outcome x) = (of_int (oc_outcome out) :: bn)) (t_outcomes d) = Some x" by blast
  have "r\<lparr>hr_outcomeDescription := None\<rparr> = r" using None by (cases r) simp
  then have "withDescription d r = Inr (r\<lparr>hr_outcomeDescription :=
      (if hr_isInvalid r then Some ''Invalid''
       else if hr_marketType r = Some ''yesNo''
         then Some (if (of_int (oc_outcome out) :: bn) = 0 then ''No'' else ''Yes'')
       else if hr_marketType r = Some ''scalar'' then hr_scalarDenomination r
       else if hr_marketType r = Some ''categorical'' then oc_description x
       else None)\<rparr>)"
    unfolding withDescription_def assms(2) None prod.case option.case x by simp
  then show ?thesis by blast
next
  case (Some s)
  then have "r\<lparr>hr_outcomeDescription := Some s\<rparr> = r" by (cases r) simp
  then show ?thesis using Some assms(2)
    by (intro exI [of _ "Some s"]) (simp add: withDescription_def)
qed

lemma trade_row_amounts:
  assumes "action = BUY \<or> action = SELL" "r = amounts None (Some x) (Some q) None (ofOutcome out (ofMarket m
        ((nullRow action ETH details h n)\<lparr>hr_marketCreatorFees := Some cf, hr_minPrice := Some lo,
            hr_maxPrice := Some hi, hr_reporterFees := Some rf\<rparr>)))"
  shows "withAmounts dv r = Inr (r\<lparr>hr_fee := Some (rf + cf),
     hr_total := Some (position_value lo hi (if action = BUY then q else - q) (x - lo))\<rparr>)"
  using assms by (auto simp: withAmounts_def tradeAmounts_def need_def row_builders trade_cost total_fees)

text \<open>
  C33. The trades in the history of an account. Each row of a purchase or sale belongs to a trade that matches,
  in a market of the universe, and is shown without an error: with the price and amount of the trade, the
  fees of the reporters and of the market creator added up, and as its total what the side of the account
  pays: the price above the minimum for a purchase, the rest up to the maximum for a sale.
\<close>

theorem trades_in_history:
  assumes "r \<in> set (tradeRows action details matches universe d)" "action = BUY \<or> action = SELL"
  shows "\<exists>t m u. t \<in> set (t_trades d) \<and> m \<in> set (t_markets d) \<and> matches t \<and>
    mk_marketId m = td_marketId t \<and> mk_universe m = universe \<and>
    transformQueryResult dv d r = Inr u \<and> uh_action u = action \<and> uh_transactionHash u = td_transactionHash t \<and>
    uh_price u = Some (td_price t) \<and> uh_quantity u = Some (td_amount t) \<and>
    uh_fee u = Some (td_reporterFees t + td_marketCreatorFees t) \<and>
    (0 < td_amount t \<longrightarrow> uh_total u = Some (td_amount t *
       (if action = BUY then td_price t - mk_minPrice m else mk_maxPrice m - td_price t)))"
proof -
  obtain t m out where t: "t \<in> set (t_trades d)" "m \<in> set (t_markets d)" "out \<in> set (t_outcomes d)"
      "mk_marketId m = td_marketId t" "oc_marketId out = td_marketId t" "matches t" "mk_universe m = universe"
    and r: "r = amounts None (Some (td_price t)) (Some (td_amount t)) None (ofOutcome out (ofMarket m
        ((nullRow action ETH details (td_transactionHash t) (td_blockNumber t))
           \<lparr>hr_marketCreatorFees := Some (td_marketCreatorFees t), hr_minPrice := Some (mk_minPrice m),
            hr_maxPrice := Some (mk_maxPrice m), hr_reporterFees := Some (td_reporterFees t)\<rparr>)))"
    using assms(1) by (rule tradeRows_member)
  define tot where "tot = position_value (mk_minPrice m) (mk_maxPrice m)
     (if action = BUY then td_amount t else - td_amount t) (td_price t - mk_minPrice m)"
  define r1 where "r1 = r\<lparr>hr_fee := Some (td_reporterFees t + td_marketCreatorFees t), hr_total := Some tot\<rparr>"
  have a: "withAmounts dv r = Inr r1"
    using trade_row_amounts [OF assms(2) r] by (simp only: r1_def tot_def)
  have b: "withOutcome r1 = Inr r1"
    by (simp add: withOutcome_def payoutAt_def r1_def r row_builders)
  obtain s where c: "withDescription d r1 = Inr (r1\<lparr>hr_outcomeDescription := s\<rparr>)"
    using description_found [OF t(3), of r1] t(4,5) by (auto simp: r1_def r row_builders)
  have "transformQueryResult dv d r = Inr (withoutInternals (r1\<lparr>hr_outcomeDescription := s\<rparr>))"
    by (simp add: transformQueryResult_def a b c)
  moreover have "0 < td_amount t \<Longrightarrow> tot = td_amount t *
      (if action = BUY then td_price t - mk_minPrice m else mk_maxPrice m - td_price t)"
    unfolding tot_def by (rule trade_value)
  ultimately show ?thesis
    using t by (intro exI [of _ t] exI [of _ m]) (simp add: withoutInternals_def r1_def r row_builders)
qed

section \<open>Purchases of complete sets\<close>

lemma mapE_error: "x \<in> set xs \<Longrightarrow> f x = Inl e \<Longrightarrow> \<exists>e. mapE f xs = Inl e"
proof (induction xs)
  case (Cons y xs)
  then show ?case by (cases "f y"; cases "mapE f xs") auto
qed simp

lemma bought_fails:
  assumes "r \<in> set (completeSetsBought account universe d)"
  shows "\<exists>e. transformQueryResult dv d' (r\<lparr>hr_timestamp := ts\<rparr>) = Inl e"
  using assms
  by (auto simp: completeSetsBought_def transformQueryResult_def withAmounts_def completeSetsAmounts_def
    completeSetsPrice_def need_def row_builders Let_def)

lemma unionRows_query:
  assumes "(True, q) \<in> set (historyQueries p)" "r \<in> set (q (ha_account p) (ha_universe p) d)"
  shows "r \<in> set (unionRows p d)"
  unfolding unionRows_def set_distinctRows set_concat set_map
  by (rule UnionI [of "set (q (ha_account p) (ha_universe p) d)"])
    (use assms in \<open>force simp: image_image\<close>)+

lemma historyRows_mem:
  assumes "r \<in> set (unionRows p d)" "b \<in> set (t_blocks d)" "hr_blockNumber r = bk_blockNumber b"
    and "ha_earliestTransactionTime p \<le> bk_timestamp b" "bk_timestamp b \<le> ha_latestTransactionTime p"
  shows "r\<lparr>hr_timestamp := bk_timestamp b\<rparr> \<in> set (historyRows p d)"
  using assms by (auto simp: historyRows_def intro!: bexI [of _ r] bexI [of _ b])

lemma timestamp_column:
  "map_of historyColumns ''blocks.timestamp'' = Some (\<lambda>r. SqlNum (of_int (hr_timestamp r)))"
  by (simp add: historyColumns_def underTable_def)

lemma history_by_time:
  assumes "sl_sortBy (ha_sortLimit p) = None" "sl_limit (ha_sortLimit p) = None" "sl_offset (ha_sortLimit p) = None"
  shows "\<exists>S. queryModifier historyColumns rows ''blocks.timestamp'' ''desc'' (ha_sortLimit p) = Inr S \<and>
    mset S = mset rows"
proof -
  have l: "lastPart ''blocks.timestamp'' = ''timestamp''" by (simp add: lastPart_def)
  have f: "sortFieldOf ''blocks.timestamp'' (ha_sortLimit p) = ''blocks.timestamp''"
    using assms(1) by (simp add: sortFieldOf_def)
  show ?thesis
    using queryModifier_result [of historyColumns "''blocks.timestamp''" "ha_sortLimit p" _ rows "''desc''",
        unfolded f l, OF timestamp_column] assms not_bigNumbers
    by (auto simp: dbPage_def)
qed

text \<open>
  C32. An account that bought complete sets has no history: whenever a purchase of complete sets is among the
  rows asked for, the request fails, because the fee of the purchase is computed from the market creator's
  fee rate, which the query leaves null.
\<close>

theorem complete_sets_purchase_fails:
  assumes "c \<in> set (t_completeSets (tables w))" "cp_account c = ha_account p"
    and "cp_eventName c = ''CompleteSetsPurchased''"
    and "m \<in> set (t_markets (tables w))" "mk_marketId m = cp_marketId c" "mk_universe m = ha_universe p"
    and "b \<in> set (t_blocks (tables w))" "bk_blockNumber b = cp_blockNumber c"
    and "ha_earliestTransactionTime p \<le> bk_timestamp b" "bk_timestamp b \<le> ha_latestTransactionTime p"
    and "actionIs p COMPLETE_SETS" "coinIs p ETH"
    and "sl_sortBy (ha_sortLimit p) = None" "sl_limit (ha_sortLimit p) = None" "sl_offset (ha_sortLimit p) = None"
  shows "\<exists>e. getAccountTransactionHistory dv p w = (Inl e, w)"
proof -
  let ?d = "tables w"
  define r where "r = amounts (Some 0) (Some (mk_numTicks m)) (Some (cp_numCompleteSets c)) (Some 0) (ofMarket m
        ((nullRow COMPLETE_SETS ETH ''Buy complete sets'' (cp_transactionHash c) (cp_blockNumber c))
           \<lparr>hr_minPrice := Some (mk_minPrice m), hr_maxPrice := Some (mk_maxPrice m)\<rparr>))"
  have r: "r \<in> set (completeSetsBought (ha_account p) (ha_universe p) ?d)"
    unfolding completeSetsBought_def
    by (simp add: r_def) (use assms(1-6) in \<open>intro bexI [of _ c] bexI [of _ m], simp_all\<close>)
  have query: "(True, queryCompleteSets) \<in> set (historyQueries p)"
    using assms(11,12) by (simp add: historyQueries_def)
  have "r \<in> set (unionRows p ?d)"
    by (rule unionRows_query [OF query]) (simp add: queryCompleteSets_def r)
  then have row: "r\<lparr>hr_timestamp := bk_timestamp b\<rparr> \<in> set (historyRows p ?d)"
    by (rule historyRows_mem) (use assms(7-10) in \<open>simp_all add: r_def row_builders\<close>)
  obtain S where S: "queryModifier historyColumns (historyRows p ?d) ''blocks.timestamp'' ''desc''
      (ha_sortLimit p) = Inr S" "mset S = mset (historyRows p ?d)"
    using history_by_time [OF assms(13-15)] by blast
  have "r\<lparr>hr_timestamp := bk_timestamp b\<rparr> \<in> set S" using row S(2) by (metis set_mset_mset)
  moreover obtain e where "transformQueryResult dv ?d (r\<lparr>hr_timestamp := bk_timestamp b\<rparr>) = Inl e"
    using bought_fails [OF r] by blast
  ultimately obtain e' where e': "mapE (transformQueryResult dv ?d) S = Inl e'"
    using mapE_error by metis
  have "list_ex fst (historyQueries p)" unfolding list_ex_iff by (rule bexI [OF _ query]) simp
  then show ?thesis
    by (simp add: getAccountTransactionHistory_def bindA_def gets_def liftR_def S(1)
      transformQueryResults_def e')
qed

section \<open>Examples\<close>

definition outcome_1 :: outcomes_row where
  "outcome_1 = \<lparr>oc_marketId = ''m'', oc_outcome = 1, oc_price = 1 / 2, oc_volume = 0, oc_shareVolume = 0,
     oc_description = None, oc_spreadPercent = 0, oc_invalidROIPercent = 0,
     oc_bestBidTakerInvalidProfitTokens = 0, oc_bestAskTakerInvalidProfitTokens = 0\<rparr>"

definition sets_of_alice :: complete_sets_row where
  "sets_of_alice = \<lparr>cp_transactionHash = ''c'', cp_logIndex = 0, cp_account = ''alice'', cp_marketId = ''m'',
     cp_eventName = ''CompleteSetsPurchased'', cp_universe = ''u'', cp_numCompleteSets = 1,
     cp_numPurchasedOrSold = 1, cp_blockNumber = 1\<rparr>"

definition history_world :: world where
  "history_world = empty_world\<lparr>tables := empty_db\<lparr>t_markets := [sample_market],
     t_trades := [trade_of_alice], t_outcomes := [outcome_1], t_completeSets := [sets_of_alice],
     t_blocks := [\<lparr>bk_blockNumber = 1, bk_blockHash = ''b'', bk_timestamp = 50, bk_bulkSync = False\<rparr>]\<rparr>\<rparr>"

definition everything :: HistoryParams where
  "everything = \<lparr>ha_universe = ''u'', ha_account = ''alice'', ha_earliestTransactionTime = 0,
     ha_latestTransactionTime = 100, ha_coin = Some ALL_COINS, ha_action = Some ALL_ACTIONS,
     ha_sortLimit = noSort\<rparr>"

text \<open>Alice sold 2 shares at 1/2 by filling Bob's order: she paid 1.\<close>

theorem trades_in_history_witness:
  "\<exists>r u. r \<in> set (querySell ''alice'' ''u'' (tables history_world)) \<and>
    transformQueryResult bn_div (tables history_world) r = Inr u \<and> uh_action u = SELL \<and> uh_total u = Some 1"
proof -
  let ?matches = "\<lambda>t. td_orderType t = ''buy'' \<and> td_filler t = ''alice''"
  let ?d = "tables history_world"
  have one: "t_trades ?d = [trade_of_alice]" "t_markets ?d = [sample_market]" "t_outcomes ?d = [outcome_1]"
    by (simp_all add: history_world_def)
  have row: "tradeRows SELL ''Sell order'' ?matches ''u'' ?d \<noteq> []"
    by (simp add: tradeRows_def one) (simp add: trade_of_alice_def sample_market_def outcome_1_def)
  then obtain r where r: "r \<in> set (tradeRows SELL ''Sell order'' ?matches ''u'' ?d)" by (meson list.set_sel(1))
  obtain t m u where u: "t \<in> set (t_trades ?d)" "m \<in> set (t_markets ?d)"
      "transformQueryResult bn_div ?d r = Inr u" "uh_action u = SELL"
      "0 < td_amount t \<longrightarrow> uh_total u = Some (td_amount t * (mk_maxPrice m - td_price t))"
    using trades_in_history [OF r disjI2 [OF refl], of bn_div] by auto
  have "t = trade_of_alice" "m = sample_market" using u(1,2) by (simp_all add: one)
  then have "uh_total u = Some 1" using u(5) by (simp add: trade_of_alice_def sample_market_def)
  then show ?thesis using r u by (auto simp: querySell_def)
qed

theorem complete_sets_purchase_fails_witness:
  "\<exists>e. getAccountTransactionHistory bn_div everything history_world = (Inl e, history_world)"
proof (rule complete_sets_purchase_fails [of sets_of_alice _ _ sample_market
      "\<lparr>bk_blockNumber = 1, bk_blockHash = ''b'', bk_timestamp = 50, bk_bulkSync = False\<rparr>"])
  show "sets_of_alice \<in> set (t_completeSets (tables history_world))"
    "sample_market \<in> set (t_markets (tables history_world))"
    by (simp_all add: history_world_def)
qed (simp_all add: history_world_def sets_of_alice_def everything_def noSort_def actionIs_def coinIs_def
    sample_market_def)

end
