(* ===== verification/Activity_Stats.thy ===== *)
theory Activity_Stats
  imports Getter_Queries
begin

text \<open>
  \<open>src/server/getters/get-platform-activity-stats.ts\<close> and \<open>get-account-time-ranged-stats.ts\<close>: what happened in
  a universe, and what an account did in it, between two times.

  \<^item> The times are turned into block numbers by \<open>blockNumberForTimestampQuery\<close>. The first query of both getters
    joins the two blocks with what it counts; without one of them its only row has null for both.
  \<^item> \<open>COUNT(DISTINCT x)\<close> is the number of different values. The left joins of the second getter multiply rows,
    which leaves these numbers as they are.
  \<^item> The open interest comes from a call of a contract, which may fail.
\<close>

section \<open>Blocks\<close>

record StatsParams =
  st_universe :: address
  st_endTime :: "int option"
  st_startTime :: "int option"

text \<open>A number that is given and not zero.\<close>

definition truthy :: "int option \<Rightarrow> bool" where
  "truthy x \<longleftrightarrow> x \<noteq> None \<and> x \<noteq> Some 0"

definition orNull :: "int option \<Rightarrow> int" where
  "orNull x = (case x of None \<Rightarrow> 0 | Some v \<Rightarrow> v)"

definition blockRange :: "StatsParams \<Rightarrow> db \<Rightarrow> (int \<times> int) result" where
  "blockRange params d =
     (if truthy (st_startTime params) \<and> truthy (st_endTime params) \<and>
         orNull (st_endTime params) < orNull (st_startTime params)
      then Inl (Thrown ''startTime must be less than or equal to endTime'')
      else case (blockNumberForTimestampQuery (orNull (st_startTime params)) ''start'' d,
                 blockNumberForTimestampQuery (orNull (st_endTime params)) ''end'' d) of
        (Some (startBlock, _), Some (endBlock, _)) \<Rightarrow>
          if startBlock = 0 \<or> endBlock = 0 \<or> endBlock < startBlock then Inl (Thrown ''startTime/endTime error'')
          else Inr (startBlock, endBlock)
      | _ \<Rightarrow> Inl (Thrown ''startTime/endTime error''))"

definition between :: "int \<Rightarrow> int \<times> int \<Rightarrow> bool" where
  "between n r \<longleftrightarrow> fst r \<le> n \<and> n \<le> snd r"

definition marketsOf :: "address \<Rightarrow> db \<Rightarrow> address list" where
  "marketsOf universe d = map mk_marketId (filter (\<lambda>m. mk_universe m = universe) (t_markets d))"

definition countDistinct :: "'a list \<Rightarrow> int" where
  "countDistinct xs = int (length (remdups xs))"

section \<open>The platform\<close>

record PlatformActivityResult =
  ar_activeUsers :: bn
  ar_numberOfTrades :: bn
  ar_openInterest :: bn
  ar_marketsCreated :: bn
  ar_volume :: bn
  ar_amountStaked :: bn
  ar_disputedMarkets :: bn

definition getVolume :: "int \<times> int \<Rightarrow> address \<Rightarrow> db \<Rightarrow> bn list" where
  "getVolume r universe d =
     [td_amount t. t \<leftarrow> t_trades d, m \<leftarrow> t_markets d,
      mk_marketId m = td_marketId t \<and> between (td_blockNumber t) r \<and> mk_universe m = universe]"

definition getAmountStaked :: "int \<times> int \<Rightarrow> address \<Rightarrow> db \<Rightarrow> bn list" where
  "getAmountStaked r universe d =
     [dp_amountStaked p. p \<leftarrow> t_disputes d, c \<leftarrow> t_crowdsourcers d,
      dp_crowdsourcerId p = cs_crowdsourcerId c \<and> between (dp_blockNumber p) r \<and>
      cs_marketId c \<in> set (marketsOf universe d)]"

definition fillersIn :: "int \<times> int \<Rightarrow> address \<Rightarrow> db \<Rightarrow> address list" where
  "fillersIn r universe d =
     [td_filler t. t \<leftarrow> t_trades d, between (td_blockNumber t) r \<and> td_marketId t \<in> set (marketsOf universe d)]"

definition disputersIn :: "int \<times> int \<Rightarrow> address \<Rightarrow> db \<Rightarrow> address list" where
  "disputersIn r universe d =
     [dp_reporter p. p \<leftarrow> t_disputes d, c \<leftarrow> t_crowdsourcers d,
      dp_crowdsourcerId p = cs_crowdsourcerId c \<and> between (dp_blockNumber p) r \<and>
      cs_marketId c \<in> set (marketsOf universe d)]"

definition getActiveUsers :: "int \<times> int \<Rightarrow> address \<Rightarrow> db \<Rightarrow> int" where
  "getActiveUsers r universe d =
     countDistinct (fillersIn r universe d @ fillersIn r universe d @ disputersIn r universe d)"

definition getDisputedMarkets :: "int \<times> int \<Rightarrow> address \<Rightarrow> db \<Rightarrow> int" where
  "getDisputedMarkets r universe d = countDistinct
     [mk_marketId m. m \<leftarrow> t_markets d, s \<leftarrow> t_market_state d,
      mk_marketId m = ms_marketId s \<and> between (mk_creationBlockNumber m) r \<and> mk_universe m = universe \<and>
      ms_reportingState s = CROWDSOURCING_DISPUTE]"

definition getNumberOfTrades :: "int \<times> int \<Rightarrow> address \<Rightarrow> db \<Rightarrow> int" where
  "getNumberOfTrades r universe d = countDistinct
     [td_transactionHash t. t \<leftarrow> t_trades d,
      between (td_blockNumber t) r \<and> td_marketId t \<in> set (marketsOf universe d)]"

definition marketsCreated :: "(markets_row \<Rightarrow> bool) \<Rightarrow> int \<times> int \<Rightarrow> address \<Rightarrow> db \<Rightarrow> int" where
  "marketsCreated P r universe d = countDistinct
     [mk_marketId m. m \<leftarrow> t_markets d, mk_universe m = universe \<and> P m \<and> between (mk_creationBlockNumber m) r]"

definition getPlatformActivityStats :: "bn result \<Rightarrow> StatsParams \<Rightarrow> PlatformActivityResult action" where
  "getPlatformActivityStats getOpenInterestInAttoEth params =
     bindA (gets tables) (\<lambda>d.
     bindA (liftR (blockRange params d)) (\<lambda>r.
     bindA (liftR getOpenInterestInAttoEth) (\<lambda>openInterest.
     let universe = st_universe params
     in return \<lparr>ar_activeUsers = of_int (getActiveUsers r universe d),
          ar_numberOfTrades = of_int (getNumberOfTrades r universe d), ar_openInterest = openInterest,
          ar_marketsCreated = of_int (marketsCreated (\<lambda>m. True) r universe d),
          ar_volume = sum_list (getVolume r universe d),
          ar_amountStaked = sum_list (getAmountStaked r universe d),
          ar_disputedMarkets = of_int (getDisputedMarkets r universe d)\<rparr>)))"

section \<open>An account\<close>

record AccountTimeRangeResult =
  at_positions :: int
  at_marketsCreated :: int
  at_numberOfTrades :: int
  at_successfulDisputes :: int
  at_marketsTraded :: int
  at_redeemedPositions :: int

definition getPositions :: "int \<times> int \<Rightarrow> address \<Rightarrow> address \<Rightarrow> db \<Rightarrow> int" where
  "getPositions r universe account d = int (length
     [b. b \<leftarrow> t_balances d, t \<leftarrow> t_tokens d, m \<leftarrow> t_markets d,
      tk_contractAddress t = bl_token b \<and> tk_marketId t = Some (mk_marketId m) \<and> tk_outcome t \<noteq> None \<and>
      bl_owner b = account \<and> mk_universe m = universe \<and> between (mk_creationBlockNumber m) r])"

definition getSuccessfulDisputes :: "int \<times> int \<Rightarrow> address \<Rightarrow> db \<Rightarrow> int" where
  "getSuccessfulDisputes r account d = countDistinct
     [mk_marketId m. p \<leftarrow> t_disputes d, c \<leftarrow> t_crowdsourcers d, m \<leftarrow> t_markets d, q \<leftarrow> t_payouts d,
      dp_crowdsourcerId p = cs_crowdsourcerId c \<and> mk_marketId m = cs_marketId c \<and>
      cs_payoutId c = po_payoutId q \<and> dp_reporter p = account \<and> cs_completed c = Some 1 \<and>
      po_winning q = Some 1 \<and> between (mk_creationBlockNumber m) r]"

definition tradesIn :: "int \<times> int \<Rightarrow> address \<Rightarrow> address \<Rightarrow> db \<Rightarrow> trades_row list" where
  "tradesIn r universe account d = filter (\<lambda>t. (td_creator t = account \<or> td_filler t = account) \<and>
     between (td_blockNumber t) r \<and> td_marketId t \<in> set (marketsOf universe d)) (t_trades d)"

definition proceedsIn :: "int \<times> int \<Rightarrow> address \<Rightarrow> address \<Rightarrow> db \<Rightarrow> trading_proceeds_row list" where
  "proceedsIn r universe account d = filter (\<lambda>p. tp_account p = account \<and> between (tp_blockNumber p) r \<and>
     tp_marketId p \<in> set (marketsOf universe d)) (t_trading_proceeds d)"

definition getAccountTimeRangedStats :: "address \<Rightarrow> StatsParams \<Rightarrow> AccountTimeRangeResult action" where
  "getAccountTimeRangedStats account params =
     bindA (gets tables) (\<lambda>d.
     bindA (liftR (blockRange params d)) (\<lambda>r.
     let universe = st_universe params
     in return \<lparr>at_positions = getPositions r universe account d,
          at_marketsCreated = marketsCreated (\<lambda>m. mk_marketCreator m = account) r universe d,
          at_numberOfTrades = countDistinct (map td_transactionHash (tradesIn r universe account d)),
          at_successfulDisputes = getSuccessfulDisputes r account d,
          at_marketsTraded = countDistinct (map td_marketId (tradesIn r universe account d)),
          at_redeemedPositions = countDistinct (map tp_marketId (proceedsIn r universe account d))\<rparr>))"

section \<open>The range of blocks\<close>

lemma countDistinct_card: "countDistinct xs = int (card (set xs))"
  by (simp add: countDistinct_def length_remdups_card_conv)

text \<open>The first block at or after a time.\<close>

lemma hd_sort_key_min: "sort_key f xs = b # bs \<Longrightarrow> b \<in> set xs \<and> (\<forall>y \<in> set xs. f b \<le> f y)"
proof -
  assume s: "sort_key f xs = b # bs"
  then have set: "set xs = set (b # bs)" by (metis set_sort)
  have "sorted (map f (b # bs))" using s by (metis sorted_sort_key)
  then show ?thesis unfolding set by auto
qed

lemma filter_sort_key_min:
  assumes "filter P (sort_key f xs) = b # bs"
  shows "b \<in> set xs" "P b" "\<forall>y \<in> set xs. P y \<longrightarrow> f b \<le> f y"
proof -
  have "sort_key f (filter P xs) = b # bs" using assms by (simp only: filter_sort)
  from hd_sort_key_min [OF this] show "b \<in> set xs" "P b" "\<forall>y \<in> set xs. P y \<longrightarrow> f b \<le> f y" by auto
qed

lemma blockNumber_rows:
  assumes "timestamp \<noteq> 0"
  shows "blockNumberForTimestampQuery timestamp prefix d =
    (case filter (\<lambda>b. timestamp \<le> bk_timestamp b) (sort_key bk_blockNumber (t_blocks d)) of
       [] \<Rightarrow> None | b # _ \<Rightarrow> Some (bk_blockNumber b, bk_timestamp b))"
  using assms by (simp add: blockNumberForTimestampQuery_def Let_def)

lemma block_of_time:
  assumes "timestamp \<noteq> 0" "blockNumberForTimestampQuery timestamp prefix d = Some (n, t)"
  shows "\<exists>b \<in> set (t_blocks d). bk_blockNumber b = n \<and> timestamp \<le> bk_timestamp b"
    and "\<forall>b \<in> set (t_blocks d). timestamp \<le> bk_timestamp b \<longrightarrow> n \<le> bk_blockNumber b"
proof -
  obtain b bs where rows: "filter (\<lambda>b. timestamp \<le> bk_timestamp b) (sort_key bk_blockNumber (t_blocks d)) = b # bs"
    and n: "n = bk_blockNumber b"
    using assms(2) unfolding blockNumber_rows [OF assms(1)] by (auto split: list.splits)
  note min = filter_sort_key_min [OF rows]
  show "\<exists>b \<in> set (t_blocks d). bk_blockNumber b = n \<and> timestamp \<le> bk_timestamp b"
    using min(1,2) n by (intro bexI [of _ b]) simp_all
  show "\<forall>b \<in> set (t_blocks d). timestamp \<le> bk_timestamp b \<longrightarrow> n \<le> bk_blockNumber b"
    using min(3) unfolding n .
qed

lemma no_block_of_time:
  assumes "timestamp \<noteq> 0"
  shows "blockNumberForTimestampQuery timestamp prefix d = None \<longleftrightarrow> (\<forall>b \<in> set (t_blocks d). bk_timestamp b < timestamp)"
proof -
  have "blockNumberForTimestampQuery timestamp prefix d = None \<longleftrightarrow>
      filter (\<lambda>b. timestamp \<le> bk_timestamp b) (sort_key bk_blockNumber (t_blocks d)) = []"
    unfolding blockNumber_rows [OF assms] by (simp split: list.split)
  then show ?thesis by (simp add: filter_empty_conv not_le)
qed

text \<open>
  A range that starts with the first block at or after the start time, and ends with the first block at or after
  the end time.
\<close>

definition rangeOf :: "int \<Rightarrow> int \<Rightarrow> db \<Rightarrow> int \<times> int \<Rightarrow> bool" where
  "rangeOf startTime endTime d r \<longleftrightarrow>
     (\<exists>b \<in> set (t_blocks d). bk_blockNumber b = fst r \<and> startTime \<le> bk_timestamp b) \<and>
     (\<forall>b \<in> set (t_blocks d). startTime \<le> bk_timestamp b \<longrightarrow> fst r \<le> bk_blockNumber b) \<and>
     (\<exists>b \<in> set (t_blocks d). bk_blockNumber b = snd r \<and> endTime \<le> bk_timestamp b) \<and>
     (\<forall>b \<in> set (t_blocks d). endTime \<le> bk_timestamp b \<longrightarrow> snd r \<le> bk_blockNumber b)"

lemma blockRange_ok:
  assumes times: "st_startTime params = Some s" "st_endTime params = Some e" "0 < s" "s \<le> e"
    and blocks: "\<forall>b \<in> set (t_blocks d). 0 < bk_blockNumber b" "\<exists>b \<in> set (t_blocks d). e \<le> bk_timestamp b"
  shows "\<exists>r. blockRange params d = Inr r \<and> rangeOf s e d r \<and> fst r \<le> snd r"
proof -
  obtain x tx where x: "blockNumberForTimestampQuery s ''start'' d = Some (x, tx)"
    using no_block_of_time [of s "''start''" d] times blocks(2) by fastforce
  obtain y ty where y: "blockNumberForTimestampQuery e ''end'' d = Some (y, ty)"
    using no_block_of_time [of e "''end''" d] times blocks(2) by fastforce
  have ne: "s \<noteq> 0" "e \<noteq> 0" using times by auto
  note first = block_of_time [OF ne(1) x] block_of_time [OF ne(2) y]
  have le: "x \<le> y" using first(2,3) times(4) by fastforce
  have nz: "0 < x" "0 < y" using first(1,3) blocks(1) by auto
  have "blockRange params d = Inr (x, y)"
    using x y times le nz by (simp add: blockRange_def orNull_def)
  moreover have "rangeOf s e d (x, y)" unfolding rangeOf_def using first by simp
  ultimately show ?thesis using le by auto
qed

lemma blockRange_too_late:
  assumes "st_endTime params = Some e" "0 < e" "\<forall>b \<in> set (t_blocks d). bk_timestamp b < e"
  shows "\<exists>m. blockRange params d = Inl (Thrown m)"
  using assms no_block_of_time [of e "''end''" d]
  by (auto simp: blockRange_def orNull_def split: option.splits prod.splits)

section \<open>What the numbers count\<close>

text \<open>A join with a table whose key is unique keeps the rows that have a partner.\<close>

lemma join_unique:
  assumes "distinct (map key ms)"
  shows "concat (map (\<lambda>t. concat (map (\<lambda>m. if key m = g t \<and> P t \<and> Q m then [f t] else []) ms)) ts) =
    map f (filter (\<lambda>t. P t \<and> (\<exists>m \<in> set ms. key m = g t \<and> Q m)) ts)"
proof (induction ts)
  case (Cons t ts)
  have "concat (map (\<lambda>m. if key m = g t \<and> P t \<and> Q m then [f t] else []) ms) =
      (if P t \<and> (\<exists>m \<in> set ms. key m = g t \<and> Q m) then [f t] else [])"
    using assms
  proof (induction ms)
    case (Cons m ms)
    show ?case
    proof (cases "key m = g t")
      case True
      then have "\<forall>x \<in> set ms. key x \<noteq> g t" using Cons.prems by (simp add: image_iff) metis
      then show ?thesis by (auto simp: concat_eq_Nil_conv)
    next
      case False
      then show ?thesis using Cons by simp
    qed
  qed simp
  with Cons show ?case by simp
qed simp

definition inUniverse :: "db \<Rightarrow> address \<Rightarrow> address \<Rightarrow> bool" where
  "inUniverse d universe marketId \<longleftrightarrow> (\<exists>m \<in> set (t_markets d). mk_marketId m = marketId \<and> mk_universe m = universe)"

lemma marketsOf_iff: "i \<in> set (marketsOf universe d) \<longleftrightarrow> inUniverse d universe i"
  by (auto simp: marketsOf_def inUniverse_def)

definition tradesBetween :: "db \<Rightarrow> address \<Rightarrow> int \<times> int \<Rightarrow> trades_row list" where
  "tradesBetween d universe r = filter (\<lambda>t. between (td_blockNumber t) r \<and> inUniverse d universe (td_marketId t)) (t_trades d)"

definition disputesBetween :: "db \<Rightarrow> address \<Rightarrow> int \<times> int \<Rightarrow> disputes_row list" where
  "disputesBetween d universe r = filter (\<lambda>p. between (dp_blockNumber p) r \<and>
     (\<exists>c \<in> set (t_crowdsourcers d). cs_crowdsourcerId c = dp_crowdsourcerId p \<and> inUniverse d universe (cs_marketId c)))
     (t_disputes d)"

lemma volume_of_trades:
  assumes "distinct (map mk_marketId (t_markets d))"
  shows "getVolume r universe d = map td_amount (tradesBetween d universe r)"
  using join_unique [OF assms, of td_marketId "\<lambda>t. between (td_blockNumber t) r" "\<lambda>m. mk_universe m = universe"
      td_amount "t_trades d"]
  by (simp add: getVolume_def tradesBetween_def inUniverse_def)

lemma stake_of_disputes:
  assumes "distinct (map cs_crowdsourcerId (t_crowdsourcers d))"
  shows "getAmountStaked r universe d = map dp_amountStaked (disputesBetween d universe r)"
proof -
  have "getAmountStaked r universe d = concat (map (\<lambda>p. concat (map (\<lambda>c.
      if cs_crowdsourcerId c = dp_crowdsourcerId p \<and> between (dp_blockNumber p) r \<and> inUniverse d universe (cs_marketId c)
      then [dp_amountStaked p] else []) (t_crowdsourcers d))) (t_disputes d))"
    by (auto simp: getAmountStaked_def marketsOf_iff intro!: arg_cong [of _ _ concat] map_cong)
  then show ?thesis
    unfolding join_unique [OF assms, of dp_crowdsourcerId "\<lambda>p. between (dp_blockNumber p) r"
      "\<lambda>c. inUniverse d universe (cs_marketId c)" dp_amountStaked "t_disputes d"]
    by (simp add: disputesBetween_def)
qed

lemma active_users:
  "getActiveUsers r universe d =
     int (card (td_filler ` set (tradesBetween d universe r) \<union> dp_reporter ` set (disputesBetween d universe r)))"
proof -
  have "set (fillersIn r universe d) = td_filler ` set (tradesBetween d universe r)"
    by (auto simp: fillersIn_def tradesBetween_def marketsOf_iff)
  moreover have "set (disputersIn r universe d) = dp_reporter ` set (disputesBetween d universe r)"
    by (fastforce simp: disputersIn_def disputesBetween_def marketsOf_iff image_iff)
  ultimately show ?thesis by (simp add: getActiveUsers_def countDistinct_card Un_assoc)
qed

lemma trades_counted: "getNumberOfTrades r universe d = int (card (td_transactionHash ` set (tradesBetween d universe r)))"
proof -
  have "set [td_transactionHash t. t \<leftarrow> t_trades d, between (td_blockNumber t) r \<and>
      td_marketId t \<in> set (marketsOf universe d)] = td_transactionHash ` set (tradesBetween d universe r)"
    by (auto simp: tradesBetween_def marketsOf_iff)
  then show ?thesis unfolding getNumberOfTrades_def countDistinct_card by (simp only:)
qed

lemma markets_counted:
  "marketsCreated P r universe d = int (card (mk_marketId ` {m \<in> set (t_markets d). mk_universe m = universe \<and> P m \<and>
     between (mk_creationBlockNumber m) r}))"
proof -
  have "set [mk_marketId m. m \<leftarrow> t_markets d, mk_universe m = universe \<and> P m \<and> between (mk_creationBlockNumber m) r] =
      mk_marketId ` {m \<in> set (t_markets d). mk_universe m = universe \<and> P m \<and> between (mk_creationBlockNumber m) r}"
    by auto
  then show ?thesis unfolding marketsCreated_def countDistinct_card by (simp only:)
qed

text \<open>
  The statistics of a universe are those of the blocks from the first one at or after the start time to the
  first one at or after the end time: the users who filled an order or disputed, the transactions with trades, the
  markets created, the shares traded and the stake in disputes.
\<close>

theorem platform_stats:
  assumes "st_startTime params = Some s" "st_endTime params = Some e" "0 < s" "s \<le> e"
    and "\<forall>b \<in> set (t_blocks (tables w)). 0 < bk_blockNumber b" "\<exists>b \<in> set (t_blocks (tables w)). e \<le> bk_timestamp b"
    and "distinct (map mk_marketId (t_markets (tables w)))"
      "distinct (map cs_crowdsourcerId (t_crowdsourcers (tables w)))"
  shows "\<exists>r res. rangeOf s e (tables w) r \<and> getPlatformActivityStats (Inr v) params w = (Inr res, w) \<and>
    (let trades = tradesBetween (tables w) (st_universe params) r;
         disputes = disputesBetween (tables w) (st_universe params) r
     in ar_activeUsers res = of_nat (card (td_filler ` set trades \<union> dp_reporter ` set disputes)) \<and>
        ar_numberOfTrades res = of_nat (card (td_transactionHash ` set trades)) \<and>
        ar_volume res = sum_list (map td_amount trades) \<and>
        ar_amountStaked res = sum_list (map dp_amountStaked disputes) \<and>
        ar_marketsCreated res = of_nat (card (mk_marketId ` {m \<in> set (t_markets (tables w)).
          mk_universe m = st_universe params \<and> between (mk_creationBlockNumber m) r})) \<and>
        ar_openInterest res = v)"
proof -
  obtain r where r: "blockRange params (tables w) = Inr r" "rangeOf s e (tables w) r"
    using blockRange_ok [OF assms(1-6)] by blast
  then show ?thesis
    by (intro exI [of _ r], simp add: getPlatformActivityStats_def bindA_def gets_def liftR_def return_def Let_def
        volume_of_trades [OF assms(7)] stake_of_disputes [OF assms(8)] active_users trades_counted markets_counted)
qed

text \<open>Alice's order was filled by Bob: there is one active user.\<close>

definition stats_world :: world where
  "stats_world = empty_world\<lparr>tables := empty_db\<lparr>t_markets := [sample_market],
     t_blocks := [\<lparr>bk_blockNumber = 1, bk_blockHash = ''h1'', bk_timestamp = 100, bk_bulkSync = False\<rparr>,
       \<lparr>bk_blockNumber = 2, bk_blockHash = ''h2'', bk_timestamp = 200, bk_bulkSync = False\<rparr>],
     t_trades := [\<lparr>td_transactionHash = ''t'', td_logIndex = 0, td_blockNumber = 2, td_orderId = ''o'',
       td_marketId = ''m'', td_outcome = 1, td_shareToken = ''yes'', td_orderType = ''buy'',
       td_creator = ''alice'', td_filler = ''bob'', td_numCreatorTokens = 8 / 10, td_numCreatorShares = 0,
       td_numFillerTokens = 12 / 10, td_numFillerShares = 0, td_price = 4 / 10, td_amount = 2,
       td_marketCreatorFees = 0, td_reporterFees = 0, td_tradeGroupId = None\<rparr>]\<rparr>\<rparr>"

theorem platform_stats_witness:
  "\<exists>res. getPlatformActivityStats (Inr 7) \<lparr>st_universe = ''u'', st_endTime = Some 200, st_startTime = Some 50\<rparr>
      stats_world = (Inr res, stats_world) \<and>
    ar_activeUsers res = 1 \<and> ar_volume res = 2 \<and> ar_marketsCreated res = 1 \<and> ar_openInterest res = 7"
proof -
  let ?p = "\<lparr>st_universe = ''u'', st_endTime = Some 200, st_startTime = Some 50\<rparr>"
  obtain r res where range: "rangeOf 50 200 (tables stats_world) r"
    and run: "getPlatformActivityStats (Inr 7) ?p stats_world = (Inr res, stats_world)"
    and users: "ar_activeUsers res = of_nat (card (td_filler ` set (tradesBetween (tables stats_world) ''u'' r) \<union>
        dp_reporter ` set (disputesBetween (tables stats_world) ''u'' r)))"
    and vol: "ar_volume res = sum_list (map td_amount (tradesBetween (tables stats_world) ''u'' r))"
    and mkts: "ar_marketsCreated res = of_nat (card (mk_marketId ` {m \<in> set (t_markets (tables stats_world)).
          mk_universe m = ''u'' \<and> between (mk_creationBlockNumber m) r}))"
    and interest: "ar_openInterest res = 7"
    using platform_stats [of ?p 50 200 stats_world 7]
    by (auto simp: stats_world_def empty_db_def Let_def)
  have r: "r = (1, 2)" using range by (cases r) (auto simp: rangeOf_def stats_world_def)
  have trades: "map td_filler (tradesBetween (tables stats_world) ''u'' r) = [''bob'']"
    "map td_amount (tradesBetween (tables stats_world) ''u'' r) = [2]"
    by (simp_all add: r tradesBetween_def stats_world_def between_def inUniverse_def sample_market_def)
  have disputes: "disputesBetween (tables stats_world) ''u'' r = []"
    by (simp add: disputesBetween_def stats_world_def empty_db_def)
  have "{m \<in> set (t_markets (tables stats_world)). mk_universe m = ''u'' \<and> between (mk_creationBlockNumber m) r} =
      {sample_market}"
    by (auto simp: r stats_world_def between_def sample_market_def)
  moreover have "td_filler ` set (tradesBetween (tables stats_world) ''u'' r) = {''bob''}"
    using arg_cong [OF trades(1), of set] by simp
  ultimately show ?thesis using run users vol mkts interest by (simp add: trades(2) disputes)
qed

end
