(* ===== verification/Account_Getters.thy ===== *)
theory Account_Getters
  imports Market_Lists
begin

text \<open>
  The remaining getters of \<open>src/server/getters\<close>: reporting history, transfer history, universes, fee windows of an
  account, dispute tokens, migration totals of a fork, complete sets, initial reporters, the summary of a fee
  window, and the state of the synchronization.

  \<^item> Rows are shown as records; printing numbers as strings is left out.
  \<^item> An object of JavaScript that collects rows by a key is an association list in the order of insertion.
  \<^item> A join over a table's primary key is a lookup, any other join a comprehension over the rows.
\<close>

section \<open>Reporting history\<close>

record ReportingHistoryParams =
  rq_reporter :: address
  rq_universe :: "address option"
  rq_marketId :: "address option"
  rq_feeWindow :: "address option"
  rq_earliestCreationTime :: "int option"
  rq_latestCreationTime :: "int option"
  rq_sortLimit :: SortLimit

datatype participant = InitialReporter address | Crowdsourcer address

record JoinedReportsMarketsRow =
  jr_participant :: participant
  jr_transactionHash :: bytes32
  jr_logIndex :: int
  jr_creationBlockNumber :: int
  jr_blockHash :: string
  jr_creationTime :: int
  jr_marketId :: address
  jr_universe :: address
  jr_feeWindow :: string
  jr_amountStaked :: bn
  jr_isInvalid :: bool
  jr_payouts :: "bn option list"

record UIReport =
  rp_participant :: participant
  rp_transactionHash :: bytes32
  rp_logIndex :: int
  rp_creationBlockNumber :: int
  rp_creationTime :: int
  rp_blockHash :: string
  rp_marketId :: address
  rp_feeWindow :: string
  rp_amountStaked :: bn
  rp_isCategorical :: bool
  rp_isScalar :: bool
  rp_isInvalid :: bool
  rp_isSubmitted :: bool
  rp_payoutNumerators :: "bn list"

record MarketReports =
  mr_crowdsourcers :: "UIReport list"
  mr_initialReporter :: "UIReport option"

type_synonym UIReports = "(address \<times> (address \<times> MarketReports) list) list"

text \<open>The columns and conditions that the two queries share.\<close>

definition participantRow ::
  "participant \<Rightarrow> bytes32 \<Rightarrow> int \<Rightarrow> bn \<Rightarrow> blocks_row \<Rightarrow> markets_row \<Rightarrow> payouts_row \<Rightarrow> JoinedReportsMarketsRow" where
  "participantRow participant transactionHash logIndex amountStaked b m q =
     \<lparr>jr_participant = participant, jr_transactionHash = transactionHash, jr_logIndex = logIndex,
      jr_creationBlockNumber = bk_blockNumber b, jr_blockHash = bk_blockHash b, jr_creationTime = bk_timestamp b,
      jr_marketId = mk_marketId m, jr_universe = mk_universe m, jr_feeWindow = mk_feeWindow m,
      jr_amountStaked = amountStaked, jr_isInvalid = po_isInvalid q, jr_payouts = po_payouts q\<rparr>"

definition queryParticipantBuilder :: "ReportingHistoryParams \<Rightarrow> blocks_row \<Rightarrow> markets_row \<Rightarrow> bool" where
  "queryParticipantBuilder p b m \<longleftrightarrow>
     onlyIf (rq_universe p) (\<lambda>u. mk_universe m = u) \<and>
     onlyIf (rq_feeWindow p) (\<lambda>f. mk_feeWindow m = f) \<and>
     onlyIf (rq_earliestCreationTime p) (\<lambda>t. t \<le> bk_timestamp b) \<and>
     onlyIf (rq_latestCreationTime p) (\<lambda>t. bk_timestamp b \<le> t)"

definition initialReportQuery :: "ReportingHistoryParams \<Rightarrow> db \<Rightarrow> JoinedReportsMarketsRow list" where
  "initialReportQuery p d =
     [participantRow (InitialReporter (ir_initialReporter r)) (ir_transactionHash r) (ir_logIndex r)
        (ir_amountStaked r) b m q.
      r \<leftarrow> t_initial_reports d, b \<leftarrow> t_blocks d, q \<leftarrow> t_payouts d, m \<leftarrow> t_markets d,
      ir_reporter r = rq_reporter p \<and> bk_blockNumber b = ir_blockNumber r \<and> po_payoutId q = ir_payoutId r \<and>
      mk_marketId m = ir_marketId r \<and> queryParticipantBuilder p b m \<and>
      onlyIf (rq_marketId p) (\<lambda>i. ir_marketId r = i)]"

text \<open>
  Both \<open>markets\<close> and \<open>crowdsourcers\<close> have a column \<open>feeWindow\<close>, so the condition on it, which does not name a
  table, is an error of the database.
\<close>

definition crowdsourcersQuery :: "ReportingHistoryParams \<Rightarrow> db \<Rightarrow> JoinedReportsMarketsRow list result" where
  "crowdsourcersQuery p d =
     (if rq_feeWindow p \<noteq> None then Inl (Thrown ''ambiguous column name: feeWindow'')
      else Inr
       [participantRow (Crowdsourcer (dp_crowdsourcerId r)) (dp_transactionHash r) (dp_logIndex r)
          (dp_amountStaked r) b m q.
        r \<leftarrow> t_disputes d, b \<leftarrow> t_blocks d, c \<leftarrow> t_crowdsourcers d, m \<leftarrow> t_markets d, q \<leftarrow> t_payouts d,
        dp_reporter r = rq_reporter p \<and> bk_blockNumber b = dp_blockNumber r \<and>
        cs_crowdsourcerId c = dp_crowdsourcerId r \<and> mk_marketId m = cs_marketId c \<and>
        po_payoutId q = cs_payoutId c \<and> queryParticipantBuilder p b m \<and>
        onlyIf (rq_marketId p) (\<lambda>i. cs_marketId c = i)])"

definition reportColumns :: "JoinedReportsMarketsRow columns" where
  "reportColumns =
     [(''transactionHash'', \<lambda>r. SqlText (jr_transactionHash r)), (''logIndex'', \<lambda>r. SqlNum (of_int (jr_logIndex r))),
      (''creationBlockNumber'', \<lambda>r. SqlNum (of_int (jr_creationBlockNumber r))),
      (''blockHash'', \<lambda>r. SqlText (jr_blockHash r)), (''creationTime'', \<lambda>r. SqlNum (of_int (jr_creationTime r))),
      (''marketId'', \<lambda>r. SqlText (jr_marketId r)), (''universe'', \<lambda>r. SqlText (jr_universe r)),
      (''feeWindow'', \<lambda>r. SqlText (jr_feeWindow r)), (''amountStaked'', \<lambda>r. SqlNum (jr_amountStaked r)),
      (''isInvalid'', \<lambda>r. SqlNum (if jr_isInvalid r then 1 else 0))]"

text \<open>The queries do not select \<open>marketType\<close>, so it is undefined in the rows and equals neither type.\<close>

definition reportOf :: "JoinedReportsMarketsRow \<Rightarrow> UIReport" where
  "reportOf row = \<lparr>rp_participant = jr_participant row, rp_transactionHash = jr_transactionHash row,
     rp_logIndex = jr_logIndex row, rp_creationBlockNumber = jr_creationBlockNumber row,
     rp_creationTime = jr_creationTime row, rp_blockHash = jr_blockHash row, rp_marketId = jr_marketId row,
     rp_feeWindow = jr_feeWindow row, rp_amountStaked = jr_amountStaked row, rp_isCategorical = False,
     rp_isScalar = False, rp_isInvalid = jr_isInvalid row, rp_isSubmitted = True,
     rp_payoutNumerators = List.map_filter id (jr_payouts row)\<rparr>"

definition noReports :: MarketReports where
  "noReports = \<lparr>mr_crowdsourcers = [], mr_initialReporter = None\<rparr>"

definition addReport :: "JoinedReportsMarketsRow \<Rightarrow> MarketReports \<Rightarrow> MarketReports" where
  "addReport row rs = (case jr_participant row of
     InitialReporter _ \<Rightarrow> rs\<lparr>mr_initialReporter := Some (reportOf row)\<rparr>
   | Crowdsourcer _ \<Rightarrow> rs\<lparr>mr_crowdsourcers := mr_crowdsourcers rs @ [reportOf row]\<rparr>)"

definition reportsByMarket :: "JoinedReportsMarketsRow list \<Rightarrow> UIReports" where
  "reportsByMarket allParticipants = foldl (\<lambda>reports row.
     upsert (jr_universe row) [] (upsert (jr_marketId row) noReports (addReport row)) reports) [] allParticipants"

definition getReportingHistory :: "ReportingHistoryParams \<Rightarrow> UIReports action" where
  "getReportingHistory p =
     (if rq_universe p = None \<and> rq_marketId p = None \<and> rq_feeWindow p = None
      then throw (Thrown ''Must provide reference to universe, specify universe, marketId, or feeWindow'')
      else bindA (gets tables) (\<lambda>d.
        bindA (liftR (queryModifier reportColumns (initialReportQuery p d) ''creationBlockNumber'' ''asc''
                 (rq_sortLimit p))) (\<lambda>initialReport.
        bindA (liftR (bindE (crowdsourcersQuery p d) (\<lambda>rows.
                 queryModifier reportColumns rows ''creationBlockNumber'' ''asc'' (rq_sortLimit p)))) (\<lambda>crowdsourcers.
        return (reportsByMarket (crowdsourcers @ initialReport))))))"

section \<open>Transfers of an account\<close>

record AccountTransferHistoryParams =
  tq_account :: address
  tq_token :: "address option"
  tq_isInternalTransfer :: "bool option"
  tq_earliestCreationTime :: "int option"
  tq_latestCreationTime :: "int option"
  tq_sortLimit :: SortLimit

record TransferRow =
  tr_transfer :: transfers_row
  tr_timestamp :: int
  tr_blockHash :: string
  tr_symbol :: string
  tr_outcome :: "int option"
  tr_marketId :: "address option"
  tr_isInternalTransfer :: bool

definition isInternalTransfer :: "db \<Rightarrow> transfers_row \<Rightarrow> bool" where
  "isInternalTransfer d t \<longleftrightarrow>
     tf_transactionHash t \<in> td_transactionHash ` set (t_trades d) \<union> or_transactionHash ` set (t_orders d)"

definition transferRows :: "AccountTransferHistoryParams \<Rightarrow> db \<Rightarrow> TransferRow list" where
  "transferRows p d = filter (\<lambda>r. onlyIf (tq_isInternalTransfer p) (\<lambda>i. tr_isInternalTransfer r = i) \<and>
       onlyIf (tq_token p) (\<lambda>t. tf_token (tr_transfer r) = t) \<and>
       onlyIf (tq_earliestCreationTime p) (\<lambda>t. t \<le> tr_timestamp r) \<and>
       onlyIf (tq_latestCreationTime p) (\<lambda>t. tr_timestamp r \<le> t))
     [\<lparr>tr_transfer = t, tr_timestamp = bk_timestamp b, tr_blockHash = bk_blockHash b, tr_symbol = tk_symbol k,
       tr_outcome = tk_outcome k, tr_marketId = tk_marketId k, tr_isInternalTransfer = isInternalTransfer d t\<rparr>.
      t \<leftarrow> t_transfers d, b \<leftarrow> t_blocks d, k \<leftarrow> t_tokens d,
      (tf_sender t = Some (tq_account p) \<or> tf_recipient t = Some (tq_account p)) \<and>
      bk_blockNumber b = tf_blockNumber t \<and> tk_contractAddress k = tf_token t]"

definition transferColumns :: "TransferRow columns" where
  "transferColumns =
     underTable ''transfers''
       [(''transactionHash'', \<lambda>r. SqlText (tf_transactionHash (tr_transfer r))),
        (''logIndex'', \<lambda>r. SqlNum (of_int (tf_logIndex (tr_transfer r)))),
        (''blockNumber'', \<lambda>r. SqlNum (of_int (tf_blockNumber (tr_transfer r)))),
        (''sender'', \<lambda>r. sqlOpt SqlText (tf_sender (tr_transfer r))),
        (''recipient'', \<lambda>r. sqlOpt SqlText (tf_recipient (tr_transfer r))),
        (''token'', \<lambda>r. SqlText (tf_token (tr_transfer r))), (''value'', \<lambda>r. SqlNum (tf_value (tr_transfer r)))] @
     [(''creationTime'', \<lambda>r. SqlNum (of_int (tr_timestamp r))),
      (''creationBlockNumber'', \<lambda>r. SqlNum (of_int (tf_blockNumber (tr_transfer r)))),
      (''symbol'', \<lambda>r. SqlText (tr_symbol r)), (''outcome'', \<lambda>r. sqlOpt (\<lambda>i. SqlNum (of_int i)) (tr_outcome r)),
      (''marketId'', \<lambda>r. sqlOpt SqlText (tr_marketId r))]"

definition getAccountTransferHistory :: "AccountTransferHistoryParams \<Rightarrow> TransferRow list action" where
  "getAccountTransferHistory p = bindA (gets tables) (\<lambda>d.
     liftR (queryModifier transferColumns (transferRows p d) ''transfers.blockNumber'' ''desc'' (tq_sortLimit p)))"

section \<open>Universes\<close>

record UIUniverseInfo =
  uv_universe :: address
  uv_parentUniverse :: "address option"
  uv_balance :: bn
  uv_supply :: bn
  uv_numMarkets :: int
  uv_payout :: NormalizedPayout

text \<open>Children, siblings, the universe itself, its parent. \<open>where(column, null)\<close> of Knex is \<open>IS NULL\<close>.\<close>

definition isRelatedUniverse :: "address \<Rightarrow> address option \<Rightarrow> universes_row \<Rightarrow> bool" where
  "isRelatedUniverse universe parentUniverse u \<longleftrightarrow>
     un_parentUniverse u = Some universe \<or> un_parentUniverse u = parentUniverse \<or>
     un_universe u = universe \<or> Some (un_universe u) = parentUniverse"

definition universeInfo :: "address \<Rightarrow> db \<Rightarrow> universes_row \<Rightarrow> UIUniverseInfo" where
  "universeInfo account d u =
     \<lparr>uv_universe = un_universe u, uv_parentUniverse = un_parentUniverse u,
      uv_balance = orZero (balanceOf d (Some account) (un_reputationToken u)),
      uv_supply = orZero (supplyOf d (Some (un_reputationToken u))),
      uv_numMarkets = int (length (filter (\<lambda>m. mk_universe m = un_universe u) (t_markets d))),
      uv_payout = (case find (\<lambda>q. Some (po_payoutId q) = un_payoutId u) (t_payouts d) of
          Some q \<Rightarrow> normalizePayouts q
        | None \<Rightarrow> \<lparr>np_isInvalid = False, np_payout = []\<rparr>)\<rparr>"

definition getUniversesInfo :: "address \<Rightarrow> address \<Rightarrow> UIUniverseInfo list action" where
  "getUniversesInfo universe account = bindA (gets tables) (\<lambda>d.
     case find (\<lambda>u. un_universe u = universe) (t_universes d) of
       None \<Rightarrow> return []
     | Some parentUniverseRow \<Rightarrow> return (map (universeInfo account d)
         (filter (isRelatedUniverse universe (un_parentUniverse parentUniverseRow)) (t_universes d))))"

section \<open>Fee windows of an account\<close>

record UnclaimedFeeWindowsRow =
  uw_feeWindow :: address
  uw_startTime :: int
  uw_endTime :: int
  uw_balance :: bn
  uw_participationTokenStake :: bn
  uw_feeTokenStake :: bn
  uw_totalFees :: bn

text \<open>The expected fees are none if there is no stake to divide by (\<open>NaN\<close> or infinite in JavaScript).\<close>

record UnclaimedFeeWindowInfo =
  ue_startTime :: int
  ue_endTime :: int
  ue_balance :: bn
  ue_expectedFees :: "bn option"

definition unclaimedFeeWindowsRows ::
  "address \<Rightarrow> address \<Rightarrow> address \<Rightarrow> bool \<Rightarrow> world \<Rightarrow> UnclaimedFeeWindowsRow list" where
  "unclaimedFeeWindowsRows cash universe account includeCurrent w = (let d = tables w in
     [\<lparr>uw_feeWindow = fw_feeWindow f, uw_startTime = fw_startTime f, uw_endTime = fw_endTime f,
       uw_balance = bl_balance b, uw_participationTokenStake = ts_supply s,
       uw_feeTokenStake = orZero (supplyOf d (Some (fw_feeToken f))),
       uw_totalFees = orZero (balanceOf d (Some (fw_feeWindow f)) cash)\<rparr>.
      f \<leftarrow> t_fee_windows d, b \<leftarrow> t_balances d, s \<leftarrow> t_token_supply d,
      bl_token b = fw_feeWindow f \<and> ts_token s = fw_feeWindow f \<and> fw_universe f = universe \<and>
      0 < bl_balance b \<and> bl_owner b = account \<and> (includeCurrent \<or> fw_startTime f < getCurrentTime w)])"

definition unclaimedFeeWindowInfo :: "bn_division_op \<Rightarrow> UnclaimedFeeWindowsRow \<Rightarrow> UnclaimedFeeWindowInfo" where
  "unclaimedFeeWindowInfo dv cur = (let totalStake = uw_participationTokenStake cur + uw_feeTokenStake cur in
     \<lparr>ue_startTime = uw_startTime cur, ue_endTime = uw_endTime cur, ue_balance = uw_balance cur,
      ue_expectedFees = (if totalStake = 0 then None
        else Some (dv (uw_balance cur * uw_totalFees cur) totalStake))\<rparr>)"

definition getFeeWindows ::
  "bn_division_op \<Rightarrow> address \<Rightarrow> address option \<Rightarrow> address option \<Rightarrow> bool option \<Rightarrow>
    (address \<times> UnclaimedFeeWindowInfo) list action" where
  "getFeeWindows dv cash universe account includeCurrent =
     (case (universe, account) of
        (Some u, Some a) \<Rightarrow> bindA (gets (unclaimedFeeWindowsRows cash u a (includeCurrent = Some True))) (\<lambda>rows.
          return (mapValues (\<lambda>_. unclaimedFeeWindowInfo dv) (keyBy uw_feeWindow rows)))
      | _ \<Rightarrow> throw (Thrown ''Must provide both universe and account''))"

section \<open>Dispute tokens, complete sets, initial reporters\<close>

record DisputeTokensRow =
  dk_disputeToken :: address
  dk_payout :: payouts_row
  dk_balance :: bn
  dk_reportingState :: "ReportingState option"

record UIDisputeTokenInfo =
  di_disputeToken :: address
  di_marketId :: address
  di_payouts :: "bn option list"
  di_isInvalid :: bool
  di_tentativeWinning :: int
  di_balance :: bn
  di_reportingState :: "ReportingState option"
  di_claimed :: bool
  di_winningToken :: "bool option"

text \<open>The rows have no column \<open>claimed\<close>: \<open>!!undefined\<close> is false.\<close>

definition reshapeDisputeTokensRowToUIDisputeTokenInfo :: "DisputeTokensRow \<Rightarrow> UIDisputeTokenInfo" where
  "reshapeDisputeTokensRowToUIDisputeTokenInfo r =
     \<lparr>di_disputeToken = dk_disputeToken r, di_marketId = po_marketId (dk_payout r),
      di_payouts = po_payouts (dk_payout r), di_isInvalid = po_isInvalid (dk_payout r),
      di_tentativeWinning = po_tentativeWinning (dk_payout r), di_balance = dk_balance r,
      di_reportingState = dk_reportingState r, di_claimed = False,
      di_winningToken = map_option (\<lambda>x. x \<noteq> 0) (po_winning (dk_payout r))\<rparr>"

definition disputeTokenRows ::
  "address \<Rightarrow> address \<Rightarrow> string option \<Rightarrow> world \<Rightarrow> DisputeTokensRow list result" where
  "disputeTokenRows universe account stakeTokenState w =
     (let d = tables w;
          rows = (\<lambda>P. Inr (filter P [\<lparr>dk_disputeToken = dp_crowdsourcerId r, dk_payout = q,
              dk_balance = bl_balance b, dk_reportingState = reportingStateOf w m\<rparr>.
            r \<leftarrow> t_disputes d, c \<leftarrow> t_crowdsourcers d, m \<leftarrow> t_markets d, q \<leftarrow> t_payouts d, b \<leftarrow> t_balances d,
            cs_crowdsourcerId c = dp_crowdsourcerId r \<and> mk_marketId m = cs_marketId c \<and>
            po_payoutId q = cs_payoutId c \<and> bl_token b = cs_crowdsourcerId c \<and> mk_universe m = universe \<and>
            dp_reporter r = account \<and> 0 < bl_balance b \<and> bl_owner b = account]))
      in case stakeTokenState of
        None \<Rightarrow> rows (\<lambda>_. True)
      | Some s \<Rightarrow>
          if s = ''ALL'' then rows (\<lambda>_. True)
          else if s = ''UNFINALIZED'' then rows (\<lambda>r. notNull (dk_reportingState r) (\<lambda>st. st \<noteq> FINALIZED))
          else if s = ''UNCLAIMED'' then rows (\<lambda>r. po_winning (dk_payout r) = Some 1)
          else Inl (Thrown ''Invalid disputeTokenState''))"

definition getDisputeTokens ::
  "address \<Rightarrow> address \<Rightarrow> string option \<Rightarrow> (address \<times> UIDisputeTokenInfo) list action" where
  "getDisputeTokens universe account stakeTokenState =
     bindA (gets (disputeTokenRows universe account stakeTokenState)) (\<lambda>r.
     bindA (liftR r) (\<lambda>disputeTokens. return (mapValues (\<lambda>_. reshapeDisputeTokensRowToUIDisputeTokenInfo)
       (keyBy dk_disputeToken disputeTokens))))"

record UICompleteSetsRow = complete_sets_row +
  uc_timestamp :: "int option"

text \<open>
  \<open>select *\<close> takes the number of the block from \<open>blocks\<close>, the same as the row's own as long as its block is known.
\<close>

definition getCompleteSets :: "address \<Rightarrow> address \<Rightarrow> (bytes32 \<times> UICompleteSetsRow) list action" where
  "getCompleteSets universe account = gets (\<lambda>w. keyBy cp_transactionHash
     (map (\<lambda>r. complete_sets_row.extend r \<lparr>uc_timestamp = timeOfBlock (tables w) (Some (cp_blockNumber r))\<rparr>)
        (filter (\<lambda>r. cp_account r = account \<and> cp_universe r = universe) (t_completeSets (tables w)))))"

record InitialReportersRow =
  ii_report :: initial_reports_row
  ii_repBalance :: bn
  ii_timestamp :: int

definition getInitialReporters ::
  "address \<Rightarrow> address \<Rightarrow> bool option \<Rightarrow> bool option \<Rightarrow> (address \<times> InitialReportersRow) list action" where
  "getInitialReporters universe reporter redeemed withRepBalance = gets (\<lambda>w. let d = tables w in
     keyBy (\<lambda>r. ir_initialReporter (ii_report r))
      [\<lparr>ii_report = r, ii_repBalance = bl_balance b, ii_timestamp = bk_timestamp k\<rparr>.
       r \<leftarrow> t_initial_reports d, b \<leftarrow> t_balances d, u \<leftarrow> t_universes d, k \<leftarrow> t_blocks d,
       bl_owner b = ir_initialReporter r \<and> un_reputationToken u = bl_token b \<and>
       ir_blockNumber r = bk_blockNumber k \<and> ir_reporter r = reporter \<and> un_universe u = universe \<and>
       (withRepBalance = Some True \<longrightarrow> 0 < bl_balance b) \<and> onlyIf redeemed (\<lambda>x. ir_redeemed r = x)])"

section \<open>Totals of a fork, and the summary of a fee window\<close>

record UIForkMigrationTotalsRow =
  fm_payout :: "bn list"
  fm_universe :: address
  fm_repTotal :: bn
  fm_isInvalid :: bool

definition forkMigrationTotals :: "address \<Rightarrow> db \<Rightarrow> UIForkMigrationTotalsRow list" where
  "forkMigrationTotals parentUniverse d =
     [\<lparr>fm_payout = List.map_filter id (po_payouts q), fm_universe = un_universe u, fm_repTotal = ts_supply s,
       fm_isInvalid = po_isInvalid q\<rparr>.
      u \<leftarrow> t_universes d, s \<leftarrow> t_token_supply d, q \<leftarrow> t_payouts d,
      un_reputationToken u = ts_token s \<and> po_marketId q = un_universe u \<and>
      un_parentUniverse u = Some parentUniverse]"

definition getForkMigrationTotals :: "address \<Rightarrow> (address \<times> UIForkMigrationTotalsRow) list action" where
  "getForkMigrationTotals parentUniverse =
     gets (\<lambda>w. keyBy fm_universe (forkMigrationTotals parentUniverse (tables w)))"

definition getReportingSummary :: "address \<Rightarrow> (ReportingState option \<times> int) list action" where
  "getReportingSummary feeWindow = gets (\<lambda>w.
     mapValues (\<lambda>_ ms. int (length (remdups (map mk_marketId ms))))
       (groupBy (reportingStateOf w) (filter (\<lambda>m. mk_feeWindow m = feeWindow) (t_markets (tables w)))))"

section \<open>Reports by market\<close>

definition isCrowdsourcer :: "JoinedReportsMarketsRow \<Rightarrow> bool" where
  "isCrowdsourcer r = (case jr_participant r of Crowdsourcer _ \<Rightarrow> True | InitialReporter _ \<Rightarrow> False)"

definition reportsIn :: "address \<Rightarrow> address \<Rightarrow> JoinedReportsMarketsRow list \<Rightarrow> JoinedReportsMarketsRow list" where
  "reportsIn u m rows = filter (\<lambda>r. jr_universe r = u \<and> jr_marketId r = m) rows"

definition marketReports :: "JoinedReportsMarketsRow list \<Rightarrow> MarketReports" where
  "marketReports rows = \<lparr>mr_crowdsourcers = map reportOf (filter isCrowdsourcer rows),
     mr_initialReporter = (case rev (filter (\<lambda>r. \<not> isCrowdsourcer r) rows) of
        [] \<Rightarrow> None | r # _ \<Rightarrow> Some (reportOf r))\<rparr>"

lemma marketReports_Nil: "marketReports [] = noReports"
  by (simp add: marketReports_def noReports_def)

lemma marketReports_snoc: "marketReports (rows @ [r]) = addReport r (marketReports rows)"
  by (simp add: marketReports_def addReport_def isCrowdsourcer_def split: participant.split)

lemma lookupIn_upsert:
  "lookupIn (upsert k [] (upsert j new f) d) k' j' =
    (if k' = k \<and> j' = j then Some (f (case lookupIn d k j of None \<Rightarrow> new | Some v \<Rightarrow> v)) else lookupIn d k' j')"
  by (auto simp: lookupIn_def map_of_upsert split: option.split)

lemma reportsByMarket_lookup:
  "lookupIn (reportsByMarket rows) u m =
    (if reportsIn u m rows = [] then None else Some (marketReports (reportsIn u m rows)))"
proof (induction rows rule: rev_induct)
  case Nil
  then show ?case by (simp add: reportsByMarket_def reportsIn_def lookupIn_def)
next
  case (snoc r rows)
  have "reportsByMarket (rows @ [r]) =
      upsert (jr_universe r) [] (upsert (jr_marketId r) noReports (addReport r)) (reportsByMarket rows)"
    by (simp add: reportsByMarket_def)
  then show ?case
    using snoc by (auto simp: lookupIn_upsert reportsIn_def marketReports_snoc marketReports_Nil [symmetric])
qed

definition byBlock :: "JoinedReportsMarketsRow \<Rightarrow> JoinedReportsMarketsRow \<Rightarrow> bool" where
  "byBlock a b \<longleftrightarrow> jr_creationBlockNumber a \<le> jr_creationBlockNumber b"

lemma not_big: "\<not> isFieldBigNumber (lastPart ''creationBlockNumber'')" "\<not> isFieldBigNumber (lastPart ''transfers.blockNumber'')"
  by code_simp+

lemma queryModifier_block:
  fixes rows :: "'r list"
  assumes "map_of columns key = Some (\<lambda>r. SqlNum (of_int (n r)))" "\<not> isFieldBigNumber (lastPart key)"
    and "lastPart key \<noteq> ''''" "sl_sortBy p = None" "sl_isSortDescending p = None" "sl_limit p = None" "sl_offset p = None"
  shows "\<exists>S. queryModifier columns rows key order p = Inr S \<and> mset S = mset rows \<and>
    sorted_wrt (\<lambda>a b. if order = ''desc'' then n b \<le> n a else n a \<le> n b) S"
proof -
  have f: "sortFieldOf key p = key" by (simp add: sortFieldOf_def assms(4))
  have nb: "sl_sortBy p \<noteq> Some ''''" using assms(4) by simp
  have "sortsDescending key order p = (order = ''desc'')" by (simp add: sortsDescending_def f assms(2,5))
  moreover have "dbPage p S = S" for S :: "'r list" by (simp add: dbPage_def assms(6,7))
  ultimately show ?thesis
    using queryModifier_result [of columns key p _ rows order, unfolded f, OF assms(1) nb assms(3)] assms(2)
    by (auto simp: less_eq_sql_value_def cong: if_cong)
qed

definition unsorted :: "SortLimit \<Rightarrow> bool" where
  "unsorted p \<longleftrightarrow> sl_sortBy p = None \<and> sl_isSortDescending p = None \<and> sl_limit p = None \<and> sl_offset p = None"

text \<open>
  The reporting history. Asked for by universe or market, it has for each market exactly the reports of the
  account in the period: its contributions to crowdsourcers by block, and its initial report.
\<close>

theorem reporting_history:
  assumes "rq_universe p \<noteq> None \<or> rq_marketId p \<noteq> None" "rq_feeWindow p = None" "unsorted (rq_sortLimit p)"
  shows "\<exists>C I r rows. getReportingHistory p w = (Inr r, w) \<and>
    crowdsourcersQuery p (tables w) = Inr rows \<and> mset C = mset rows \<and> sorted_wrt byBlock C \<and>
    mset I = mset (initialReportQuery p (tables w)) \<and> sorted_wrt byBlock I \<and>
    (\<forall>u m. lookupIn r u m = (if reportsIn u m (C @ I) = [] then None else Some (marketReports (reportsIn u m (C @ I)))))"
proof -
  obtain rows where rows: "crowdsourcersQuery p (tables w) = Inr rows"
    using assms(2) by (simp add: crowdsourcersQuery_def)
  have col: "map_of reportColumns ''creationBlockNumber'' = Some (\<lambda>r. SqlNum (of_int (jr_creationBlockNumber r)))"
    by (simp add: reportColumns_def)
  have l: "lastPart ''creationBlockNumber'' \<noteq> ''''" by (simp add: lastPart_def)
  have q: "\<exists>S. queryModifier reportColumns xs ''creationBlockNumber'' ''asc'' (rq_sortLimit p) = Inr S \<and>
      mset S = mset xs \<and> sorted_wrt byBlock S" for xs
    using queryModifier_block [OF col not_big(1) l, of "rq_sortLimit p" xs "''asc''"] assms(3)
    by (simp add: unsorted_def byBlock_def [abs_def])
  obtain C where C: "queryModifier reportColumns rows ''creationBlockNumber'' ''asc'' (rq_sortLimit p) = Inr C"
      "mset C = mset rows" "sorted_wrt byBlock C" using q by blast
  obtain I where I: "queryModifier reportColumns (initialReportQuery p (tables w)) ''creationBlockNumber'' ''asc''
      (rq_sortLimit p) = Inr I" "mset I = mset (initialReportQuery p (tables w))" "sorted_wrt byBlock I" using q by blast
  have "getReportingHistory p w = (Inr (reportsByMarket (C @ I)), w)"
    using assms(1) rows C(1) I(1) by (auto simp: getReportingHistory_def bindA_def gets_def liftR_def return_def)
  with rows C(2,3) I(2,3) show ?thesis using reportsByMarket_lookup by blast
qed

text \<open>Asked for by fee window it always fails.\<close>

lemma bindA_throws: "fst (m w) = Inl e \<Longrightarrow> \<exists>e. fst (bindA m f w) = Inl e"
  by (cases "m w") (auto simp: bindA_def)

theorem reporting_history_of_fee_window_fails:
  assumes "rq_feeWindow p \<noteq> None"
  shows "\<exists>e. fst (getReportingHistory p w) = Inl e"
  using assms by (auto simp: getReportingHistory_def crowdsourcersQuery_def bindA_def gets_def liftR_def throw_def
      split: sum.splits prod.splits)

section \<open>Transfers\<close>

text \<open>
  The transfers of an account: those it sent or received that match, latest first; a transfer is internal if it is of
  the transaction of a trade or an order.
\<close>

theorem account_transfers:
  assumes "unsorted (tq_sortLimit p)"
  shows "\<exists>S. getAccountTransferHistory p w = (Inr S, w) \<and> mset S = mset (transferRows p (tables w)) \<and>
    sorted_wrt (\<lambda>a b. tf_blockNumber (tr_transfer b) \<le> tf_blockNumber (tr_transfer a)) S \<and>
    (\<forall>r \<in> set S. tr_transfer r \<in> set (t_transfers (tables w)) \<and>
       (tf_sender (tr_transfer r) = Some (tq_account p) \<or> tf_recipient (tr_transfer r) = Some (tq_account p)) \<and>
       (tr_isInternalTransfer r \<longleftrightarrow> isInternalTransfer (tables w) (tr_transfer r)))"
proof -
  have col: "map_of transferColumns ''transfers.blockNumber'' = Some (\<lambda>r. SqlNum (of_int (tf_blockNumber (tr_transfer r))))"
    by (simp add: transferColumns_def underTable_def)
  have l: "lastPart ''transfers.blockNumber'' \<noteq> ''''" by (simp add: lastPart_def)
  obtain S where S: "queryModifier transferColumns (transferRows p (tables w)) ''transfers.blockNumber'' ''desc'' (tq_sortLimit p) = Inr S"
      "mset S = mset (transferRows p (tables w))"
      "sorted_wrt (\<lambda>a b. tf_blockNumber (tr_transfer b) \<le> tf_blockNumber (tr_transfer a)) S"
    using queryModifier_block [OF col not_big(2) l, of "tq_sortLimit p" "transferRows p (tables w)" "''desc''"] assms
    by (auto simp: unsorted_def)
  have "set S = set (transferRows p (tables w))" by (rule mset_eq_setD [OF S(2)])
  then have "\<forall>r \<in> set S. tr_transfer r \<in> set (t_transfers (tables w)) \<and>
      (tf_sender (tr_transfer r) = Some (tq_account p) \<or> tf_recipient (tr_transfer r) = Some (tq_account p)) \<and>
      (tr_isInternalTransfer r \<longleftrightarrow> isInternalTransfer (tables w) (tr_transfer r))"
    by (auto simp: transferRows_def)
  with S show ?thesis by (auto simp: getAccountTransferHistory_def bindA_def gets_def liftR_def)
qed

section \<open>What the other getters show\<close>

text \<open>
  The universes of a request: every related universe once, in the order of the table, with the universe itself.
\<close>

theorem universes_shown:
  assumes "find (\<lambda>u. un_universe u = universe) (t_universes (tables w)) = Some row"
  shows "\<exists>r. getUniversesInfo universe account w = (Inr r, w) \<and>
    map uv_universe r = map un_universe
      (filter (isRelatedUniverse universe (un_parentUniverse row)) (t_universes (tables w))) \<and>
    universe \<in> uv_universe ` set r"
proof -
  let ?r = "map (universeInfo account (tables w))
      (filter (isRelatedUniverse universe (un_parentUniverse row)) (t_universes (tables w)))"
  have "row \<in> set (t_universes (tables w))" "un_universe row = universe"
    using assms by (auto simp: find_Some_iff)
  then have "universe \<in> uv_universe ` set ?r"
    by (auto simp: universeInfo_def isRelatedUniverse_def image_iff)
  moreover have "getUniversesInfo universe account w = (Inr ?r, w)"
    using assms by (simp add: getUniversesInfo_def bindA_def gets_def return_def)
  moreover have "map uv_universe ?r = map un_universe
      (filter (isRelatedUniverse universe (un_parentUniverse row)) (t_universes (tables w)))"
    by (simp add: universeInfo_def o_def)
  ultimately show ?thesis by blast
qed

text \<open>With exact division, the fees an account can expect are at most those of the window.\<close>

theorem expected_fees_within_window:
  assumes "\<And>a b. dv a b = a / b" "0 < uw_balance r" "uw_balance r \<le> uw_participationTokenStake r"
    and "0 \<le> uw_feeTokenStake r" "0 \<le> uw_totalFees r"
  shows "\<exists>x. ue_expectedFees (unclaimedFeeWindowInfo dv r) = Some x \<and> 0 \<le> x \<and> x \<le> uw_totalFees r"
proof -
  let ?s = "uw_participationTokenStake r + uw_feeTokenStake r"
  have s: "0 < ?s" "uw_balance r \<le> ?s" using assms by linarith+
  have "uw_balance r * uw_totalFees r \<le> uw_totalFees r * ?s"
    using mult_right_mono [OF s(2) assms(5)] by (simp only: mult.commute)
  then have "uw_balance r * uw_totalFees r / ?s \<le> uw_totalFees r"
    using s(1) by (simp add: pos_divide_le_eq)
  then show ?thesis using s assms by (simp add: unclaimedFeeWindowInfo_def Let_def)
qed

text \<open>The key of a complete set is its transaction, so the last of a transaction stands for all of them.\<close>

theorem complete_sets_by_transaction:
  "\<exists>r. getCompleteSets universe account w = (Inr r, w) \<and>
    (\<forall>tx. map_option cp_logIndex (map_of r tx) =
      map_option cp_logIndex (find (\<lambda>c. cp_transactionHash c = tx)
        (rev (filter (\<lambda>c. cp_account c = account \<and> cp_universe c = universe) (t_completeSets (tables w))))))"
proof -
  let ?f = "\<lambda>c. complete_sets_row.extend c \<lparr>uc_timestamp = timeOfBlock (tables w) (Some (cp_blockNumber c))\<rparr>"
  have find: "map_option cp_logIndex (find (\<lambda>c. cp_transactionHash c = tx) (map ?f xs)) =
      map_option cp_logIndex (find (\<lambda>c. cp_transactionHash c = tx) xs)" for tx xs
    by (induction xs) (simp_all add: complete_sets_row.defs)
  then show ?thesis
    by (simp add: getCompleteSets_def gets_def map_of_keyBy rev_map)
qed

text \<open>Migration totals join the payouts of a market whose id is that of the universe; there is none.\<close>

theorem fork_migration_totals_empty:
  assumes "\<And>q u. q \<in> set (t_payouts (tables w)) \<Longrightarrow> u \<in> set (t_universes (tables w)) \<Longrightarrow> po_marketId q \<noteq> un_universe u"
  shows "getForkMigrationTotals parentUniverse w = (Inr [], w)"
proof -
  have "forkMigrationTotals parentUniverse (tables w) = []"
    using assms by (force simp: forkMigrationTotals_def concat_eq_Nil_conv)
  then show ?thesis by (simp add: getForkMigrationTotals_def gets_def keyBy_def)
qed

text \<open>The summary of a fee window counts each of its markets once.\<close>

lemma addToGroup_length: "sum_list (map (\<lambda>(k, vs). length vs) (addToGroup k x d)) =
    Suc (sum_list (map (\<lambda>(k, vs). length vs) d))"
  by (induction k x d rule: addToGroup.induct) auto

lemma groups_length: "sum_list (map (\<lambda>(k, vs). length vs) (groupBy f xs)) = length xs"
  by (induction xs rule: rev_induct) (simp_all add: groupBy_snoc addToGroup_length)

theorem reporting_summary_counts_markets:
  assumes "distinct (map mk_marketId (t_markets (tables w)))"
  shows "\<exists>r. getReportingSummary f w = (Inr r, w) \<and> distinct (map fst r) \<and>
    sum_list (map snd r) = int (length (filter (\<lambda>m. mk_feeWindow m = f) (t_markets (tables w))))"
proof -
  let ?ms = "filter (\<lambda>m. mk_feeWindow m = f) (t_markets (tables w))"
  let ?g = "groupBy (reportingStateOf w) ?ms"
  have d: "distinct (map mk_marketId ms)" if "(k, ms) \<in> set ?g" for k ms
    using that distinct_map_filter [OF assms] by (auto simp: groupBy_mem intro: distinct_map_filter)
  have "map snd (mapValues (\<lambda>_ ms. int (length (remdups (map mk_marketId ms)))) ?g) =
      map (\<lambda>(k, ms). int (length ms)) ?g"
    using d by (auto simp: mapValues_def distinct_remdups_id)
  moreover have "sum_list (map (\<lambda>(k, ms). int (length ms)) g) = int (sum_list (map (\<lambda>(k, ms). length ms) g))"
    for g :: "(ReportingState option \<times> markets_row list) list"
    by (induction g) auto
  moreover have "map fst (mapValues (\<lambda>_ ms. int (length (remdups (map mk_marketId ms)))) ?g) = map fst ?g"
    by (simp add: mapValues_def case_prod_beta o_def)
  ultimately show ?thesis
    using groupBy_distinct [of "reportingStateOf w" ?ms]
    by (simp add: getReportingSummary_def gets_def groups_length)
qed

end
