(* ===== verification/Subscriptions.thy ===== *)
theory Subscriptions
  imports Prelude
begin

text \<open>
  \<open>src/server/subscriptions.ts\<close>: the subscriptions of websocket connections to the events of the node, over the
  event emitters of Node.js.

  \<^item> An emitter is the list of its listeners with their events, in the order in which they were added. Emitting
    calls the listeners that were there when it began.
  \<^item> A function passed as a listener is a value of a datatype that names it and holds the variables it captures;
    a connection's \<open>Subscriptions\<close> object is the emitter of the connection. Identifiers from \<open>uuidv4\<close> are
    arguments of \<open>subscribe\<close>.
  \<^item> What is published is kept as a list: connection, subscription and the argument, \<open>None\<close> for \<open>undefined\<close>.
  \<^item> Left out: the events \<open>newListener\<close> and \<open>removeListener\<close> that Node.js emits itself.
\<close>

section \<open>Event emitters\<close>

type_synonym connection = nat

type_synonym 'l emitter = "(string \<times> 'l) list"

definition listenersOf :: "'l emitter \<Rightarrow> string \<Rightarrow> 'l list" where
  "listenersOf em eventName = map snd (filter (\<lambda>(e, _). e = eventName) em)"

definition onEvent :: "string \<Rightarrow> 'l \<Rightarrow> 'l emitter \<Rightarrow> 'l emitter" where
  "onEvent eventName l em = em @ [(eventName, l)]"

text \<open>\<open>removeListener\<close>: the instance added last.\<close>

definition removeListener :: "string \<Rightarrow> 'l \<Rightarrow> 'l emitter \<Rightarrow> 'l emitter" where
  "removeListener eventName l em = rev (remove1 (eventName, l) (rev em))"

section \<open>Subscriptions\<close>

datatype handler = Handler connection string string

datatype listener = Publish string | OnceUnsubscribe string string | OnceTeardown string string

record 'd hub =
  hb_parent :: "handler emitter"
  hb_own :: "connection \<Rightarrow> listener emitter"
  hb_published :: "(connection \<times> string \<times> 'd option) list"

definition unsubscribeEvent :: "string \<Rightarrow> string" where
  "unsubscribeEvent subscription = ''unsubscribe:'' @ subscription"

definition subscribeToEvent :: "connection \<Rightarrow> string \<Rightarrow> string \<Rightarrow> 'd hub \<Rightarrow> 'd hub" where
  "subscribeToEvent c eventName subscription h =
     h\<lparr>hb_parent := onEvent eventName (Handler c subscription eventName) (hb_parent h),
       hb_own := (hb_own h)(c :=
         onEvent ''removeAllListeners'' (OnceTeardown subscription eventName)
        (onEvent (unsubscribeEvent subscription) (OnceUnsubscribe subscription eventName)
        (onEvent eventName (Publish subscription) (hb_own h c))))\<rparr>"

text \<open>Calling a listener of a connection; a listener added by \<open>once\<close> first removes itself.\<close>

definition callListener :: "connection \<Rightarrow> 'd option \<Rightarrow> 'd hub \<Rightarrow> listener \<Rightarrow> 'd hub" where
  "callListener c data h l = (case l of
     Publish subscription \<Rightarrow> h\<lparr>hb_published := hb_published h @ [(c, subscription, data)]\<rparr>
   | OnceUnsubscribe subscription eventName \<Rightarrow>
       h\<lparr>hb_own := (hb_own h)(c := removeListener eventName (Publish subscription)
           (removeListener (unsubscribeEvent subscription) l (hb_own h c))),
         hb_parent := removeListener eventName (Handler c subscription eventName) (hb_parent h)\<rparr>
   | OnceTeardown subscription eventName \<Rightarrow>
       h\<lparr>hb_own := (hb_own h)(c := removeListener ''removeAllListeners'' l (hb_own h c)),
         hb_parent := removeListener eventName (Handler c subscription eventName) (hb_parent h)\<rparr>)"

definition emitOwn :: "connection \<Rightarrow> string \<Rightarrow> 'd option \<Rightarrow> 'd hub \<Rightarrow> 'd hub" where
  "emitOwn c eventName data h = foldl (callListener c data) h (listenersOf (hb_own h c) eventName)"

definition unsubscribe :: "connection \<Rightarrow> string \<Rightarrow> 'd hub \<Rightarrow> 'd hub" where
  "unsubscribe c subscription = emitOwn c (unsubscribeEvent subscription) None"

definition removeAllListeners :: "connection \<Rightarrow> string option \<Rightarrow> 'd hub \<Rightarrow> 'd hub" where
  "removeAllListeners c eventName h = (let h' = emitOwn c ''removeAllListeners'' None h in
     h'\<lparr>hb_own := (hb_own h')(c := (case eventName of
          None \<Rightarrow> []
        | Some e \<Rightarrow> if e = '''' then [] else filter (\<lambda>(e', _). e' \<noteq> e) (hb_own h' c)))\<rparr>)"

text \<open>The node emits an event: the handlers pass it on to the emitters of their connections.\<close>

definition callHandler :: "'d option \<Rightarrow> 'd hub \<Rightarrow> handler \<Rightarrow> 'd hub" where
  "callHandler data h l = (case l of Handler c _ eventName \<Rightarrow> emitOwn c eventName data h)"

definition emitParent :: "string \<Rightarrow> 'd \<Rightarrow> 'd hub \<Rightarrow> 'd hub" where
  "emitParent eventName data h = foldl (callHandler (Some data)) h (listenersOf (hb_parent h) eventName)"

definition noSubscriptions :: "'d hub" where
  "noSubscriptions = \<lparr>hb_parent = [], hb_own = (\<lambda>_. []), hb_published = []\<rparr>"

section \<open>What subscribers may rely on\<close>

text \<open>
  The specification keeps the subscriptions that are in force, in the order in which they were made: connection,
  subscription, event.
\<close>

type_synonym live = "(connection \<times> string \<times> string) list"

datatype 'd op =
    Subscribe connection string string
  | Unsubscribe connection string
  | Close connection
  | Emit string 'd

fun runOp :: "'d hub \<Rightarrow> 'd op \<Rightarrow> 'd hub" where
  "runOp h (Subscribe c e s) = subscribeToEvent c e s h"
| "runOp h (Unsubscribe c s) = unsubscribe c s h"
| "runOp h (Close c) = removeAllListeners c None h"
| "runOp h (Emit e data) = emitParent e data h"

fun specOp :: "live \<Rightarrow> 'd op \<Rightarrow> live" where
  "specOp L (Subscribe c e s) = L @ [(c, s, e)]"
| "specOp L (Unsubscribe c s) = filter (\<lambda>(c', s', _). \<not> (c' = c \<and> s' = s)) L"
| "specOp L (Close c) = filter (\<lambda>(c', _). c' \<noteq> c) L"
| "specOp L (Emit _ _) = L"

text \<open>Events of the node do not have the names that the subscriptions use among themselves.\<close>

definition isControl :: "string \<Rightarrow> bool" where
  "isControl e \<longleftrightarrow> e = ''removeAllListeners'' \<or> take 12 e = ''unsubscribe:''"

fun newIds :: "'d op list \<Rightarrow> string list" where
  "newIds [] = []"
| "newIds (Subscribe c e s # ops) = s # newIds ops"
| "newIds (_ # ops) = newIds ops"

fun emitsEvents :: "'d op \<Rightarrow> bool" where
  "emitsEvents (Emit e _) \<longleftrightarrow> \<not> isControl e"
| "emitsEvents _ \<longleftrightarrow> True"

definition wellFormed :: "'d op list \<Rightarrow> bool" where
  "wellFormed ops \<longleftrightarrow> distinct (newIds ops) \<and> list_all emitsEvents ops"

definition subscribers :: "live \<Rightarrow> connection \<Rightarrow> string \<Rightarrow> string list" where
  "subscribers L c e = map (\<lambda>(_, s, _). s) (filter (\<lambda>(c', _, e'). c' = c \<and> e' = e) L)"

section \<open>The listeners, from the history\<close>

text \<open>
  A subscription that was ended leaves its listener for the closing of the connection behind, so the proof follows
  the history of a hub: the subscriptions of the connections that are not closed, and whether they are in force.
\<close>

type_synonym history = "(connection \<times> string \<times> string \<times> bool) list"

definition entries :: "string \<Rightarrow> string \<Rightarrow> bool \<Rightarrow> listener emitter" where
  "entries s e alive = (if alive then [(e, Publish s), (unsubscribeEvent s, OnceUnsubscribe s e)] else []) @
     [(''removeAllListeners'', OnceTeardown s e)]"

definition ownOf :: "history \<Rightarrow> connection \<Rightarrow> listener emitter" where
  "ownOf H c = concat (map (\<lambda>(c', s, e, alive). if c' = c then entries s e alive else []) H)"

definition parentOf :: "history \<Rightarrow> handler emitter" where
  "parentOf H = concat (map (\<lambda>(c, s, e, alive). if alive then [(e, Handler c s e)] else []) H)"

definition liveOf :: "history \<Rightarrow> live" where
  "liveOf H = concat (map (\<lambda>(c, s, e, alive). if alive then [(c, s, e)] else []) H)"

definition idsOf :: "history \<Rightarrow> string list" where
  "idsOf H = map (\<lambda>(_, s, _, _). s) H"

definition represents :: "history \<Rightarrow> 'd hub \<Rightarrow> bool" where
  "represents H h \<longleftrightarrow> hb_parent h = parentOf H \<and> hb_own h = ownOf H \<and> distinct (idsOf H)"

definition endSubscription :: "connection \<Rightarrow> string \<Rightarrow> history \<Rightarrow> history" where
  "endSubscription c s H = map (\<lambda>(c', s', e, alive). (c', s', e, alive \<and> \<not> (c' = c \<and> s' = s))) H"

definition endConnection :: "connection \<Rightarrow> history \<Rightarrow> history" where
  "endConnection c H = filter (\<lambda>(c', _). c' \<noteq> c) H"

lemmas history_defs = ownOf_def parentOf_def liveOf_def idsOf_def

lemma remove1_rev_filter: "distinct xs \<Longrightarrow> rev (remove1 x (rev xs)) = filter (\<lambda>y. y \<noteq> x) xs"
  by (simp add: distinct_remove1_removeAll removeAll_filter_not_eq rev_filter eq_commute)

lemma removeListener_distinct: "distinct em \<Longrightarrow> removeListener e l em = filter (\<lambda>y. y \<noteq> (e, l)) em"
  by (simp add: removeListener_def remove1_rev_filter)

lemma distinct_parentOf: "distinct (idsOf H) \<Longrightarrow> distinct (parentOf H)"
  by (induction H) (auto simp: parentOf_def idsOf_def image_iff)

fun idOf :: "listener \<Rightarrow> string" where
  "idOf (Publish s) = s"
| "idOf (OnceUnsubscribe s _) = s"
| "idOf (OnceTeardown s _) = s"

lemma entries_id: "(e', l) \<in> set (entries s e a) \<Longrightarrow> idOf l = s"
  by (auto simp: entries_def split: if_splits)

lemma ownOf_id: "(e, l) \<in> set (ownOf H c) \<Longrightarrow> idOf l \<in> set (idsOf H)"
  by (induction H) (auto simp: ownOf_def idsOf_def dest: entries_id split: if_splits)

lemma ownOf_Cons: "ownOf ((c', s, e, a) # H) c = (if c' = c then entries s e a else []) @ ownOf H c"
  by (simp add: ownOf_def)

lemma distinct_ownOf: "distinct (idsOf H) \<Longrightarrow> distinct (ownOf H c)"
proof (induction H)
  case (Cons x H)
  obtain c' s e a where x: "x = (c', s, e, a)" by (cases x)
  have s: "s \<notin> set (idsOf H)" using Cons.prems by (simp add: idsOf_def x)
  have "distinct (entries s e a)" by (auto simp: entries_def)
  moreover have "set (entries s e a) \<inter> set (ownOf H c) = {}"
    using s by (auto dest: entries_id ownOf_id)
  ultimately show ?case using Cons by (auto simp: x ownOf_Cons idsOf_def)
qed (simp add: ownOf_def)

section \<open>Calling listeners\<close>

definition isPublish :: "listener \<Rightarrow> bool" where
  "isPublish l = (case l of Publish _ \<Rightarrow> True | _ \<Rightarrow> False)"

lemma foldl_keeps_struct:
  assumes "hb_parent h = hb_parent g" "hb_own h = hb_own g"
  shows "hb_parent (foldl (callListener c data) h ls) = hb_parent (foldl (callListener c data) g (filter (\<lambda>l. \<not> isPublish l) ls)) \<and>
    hb_own (foldl (callListener c data) h ls) = hb_own (foldl (callListener c data) g (filter (\<lambda>l. \<not> isPublish l) ls))"
  using assms
proof (induction ls arbitrary: h g)
  case (Cons l ls)
  show ?case
  proof (cases "isPublish l")
    case True
    then obtain s where "l = Publish s" by (cases l) (simp_all add: isPublish_def)
    then have "hb_parent (callListener c data h l) = hb_parent g" "hb_own (callListener c data h l) = hb_own g"
      using Cons.prems by (simp_all add: callListener_def)
    then show ?thesis using Cons.IH True by simp
  next
    case False
    then have "hb_parent (callListener c data h l) = hb_parent (callListener c data g l)"
      "hb_own (callListener c data h l) = hb_own (callListener c data g l)"
      using Cons.prems by (auto simp: callListener_def isPublish_def split: listener.splits)
    then show ?thesis using Cons.IH False by simp
  qed
qed simp

lemmas struct_fold = foldl_keeps_struct [OF refl refl]

lemma foldl_publish:
  "foldl (callListener c data) h (map Publish ss) = h\<lparr>hb_published := hb_published h @ map (\<lambda>s. (c, s, data)) ss\<rparr>"
  by (induction ss arbitrary: h) (simp_all add: callListener_def)

lemma listenersOf_append: "listenersOf (xs @ ys) e = listenersOf xs e @ listenersOf ys e"
  by (simp add: listenersOf_def)

lemma unsubscribeEvent_inj [simp]: "unsubscribeEvent s = unsubscribeEvent s' \<longleftrightarrow> s = s'"
  by (simp add: unsubscribeEvent_def)

lemma control_names: "isControl (unsubscribeEvent s)" "isControl ''removeAllListeners''"
    "unsubscribeEvent s \<noteq> ''removeAllListeners''"
  by (simp_all add: isControl_def unsubscribeEvent_def)

lemma unsubscribe_listeners:
  "filter (\<lambda>l. \<not> isPublish l) (listenersOf (ownOf H c) (unsubscribeEvent s)) =
    concat (map (\<lambda>(c', s', e, alive). if c' = c \<and> s' = s \<and> alive then [OnceUnsubscribe s e] else []) H)"
proof (induction H)
  case (Cons x H)
  obtain c' s' e a where "x = (c', s', e, a)" by (cases x)
  with Cons show ?case using control_names(3) [of s]
    by (auto simp: ownOf_Cons listenersOf_append) (auto simp: entries_def listenersOf_def isPublish_def)
qed (simp add: ownOf_def listenersOf_def)

lemma teardown_listeners:
  "filter (\<lambda>l. \<not> isPublish l) (listenersOf (ownOf H c) ''removeAllListeners'') =
    concat (map (\<lambda>(c', s, e, alive). if c' = c then [OnceTeardown s e] else []) H)"
proof (induction H)
  case (Cons x H)
  obtain c' s e a where "x = (c', s, e, a)" by (cases x)
  with Cons show ?case using control_names(3) [of s]
    by (auto simp: ownOf_Cons listenersOf_append) (auto simp: entries_def listenersOf_def isPublish_def)
qed (simp add: ownOf_def listenersOf_def)

lemma event_listeners:
  assumes "\<not> isControl e"
  shows "listenersOf (ownOf H c) e = map Publish (subscribers (liveOf H) c e)"
proof (induction H)
  case (Cons x H)
  obtain c' s e' a where "x = (c', s, e', a)" by (cases x)
  moreover have "unsubscribeEvent s \<noteq> e" "e \<noteq> ''removeAllListeners''"
    using assms control_names by metis+
  ultimately show ?case using Cons
    by (auto simp: ownOf_Cons listenersOf_append subscribers_def liveOf_def) (auto simp: entries_def listenersOf_def)
qed (simp add: ownOf_def listenersOf_def subscribers_def liveOf_def)

section \<open>Every operation follows the history\<close>

lemma represents_subscribe:
  assumes "represents H h" "s \<notin> set (idsOf H)"
  shows "represents (H @ [(c, s, e, True)]) (subscribeToEvent c e s h)"
  using assms by (auto simp: represents_def subscribeToEvent_def onEvent_def history_defs entries_def fun_eq_iff)

lemma filter_unsubscribed:
  assumes "distinct (idsOf H)" "(c, s, e, a) \<in> set H"
  shows "filter (\<lambda>y. y \<noteq> (unsubscribeEvent s, OnceUnsubscribe s e) \<and> y \<noteq> (e, Publish s)) (ownOf H c) =
      ownOf (endSubscription c s H) c"
    and "filter (\<lambda>y. y \<noteq> (e, Handler c s e)) (parentOf H) = parentOf (endSubscription c s H)"
proof -
  have one: "c' = c \<and> e' = e" if "(c', s, e', a') \<in> set H" for c' e' a'
    using assms that by (auto simp: idsOf_def distinct_map inj_on_def)
  have "filter (\<lambda>y. y \<noteq> (unsubscribeEvent s, OnceUnsubscribe s e) \<and> y \<noteq> (e, Publish s)) (ownOf H' c) =
      ownOf (endSubscription c s H') c" if "set H' \<subseteq> set H" for H'
    using that
  proof (induction H')
    case (Cons x H')
    obtain c' s' e' a' where x: "x = (c', s', e', a')" by (cases x)
    have "filter (\<lambda>y. y \<noteq> (unsubscribeEvent s, OnceUnsubscribe s e) \<and> y \<noteq> (e, Publish s))
        (entries s' e' a') = entries s' e' (a' \<and> s' \<noteq> s)" if "c' = c"
      using one [of c' e' a'] Cons.prems by (auto simp: entries_def x)
    then show ?case using Cons by (auto simp: x ownOf_Cons endSubscription_def)
  qed (simp add: ownOf_def endSubscription_def)
  then show "filter (\<lambda>y. y \<noteq> (unsubscribeEvent s, OnceUnsubscribe s e) \<and> y \<noteq> (e, Publish s)) (ownOf H c) =
      ownOf (endSubscription c s H) c" by blast
  have "filter (\<lambda>y. y \<noteq> (e, Handler c s e)) (parentOf H') = parentOf (endSubscription c s H')" if "set H' \<subseteq> set H" for H'
    using that
  proof (induction H')
    case (Cons x H')
    obtain c' s' e' a' where x: "x = (c', s', e', a')" by (cases x)
    have "s' = s \<Longrightarrow> c' = c \<and> e' = e" using one [of c' e' a'] Cons.prems by (simp add: x)
    then show ?case using Cons by (auto simp: x parentOf_def endSubscription_def)
  qed (simp add: parentOf_def endSubscription_def)
  then show "filter (\<lambda>y. y \<noteq> (e, Handler c s e)) (parentOf H) = parentOf (endSubscription c s H)" by blast
qed

lemma ownOf_endSubscription: "c' \<noteq> c \<Longrightarrow> ownOf (endSubscription c s H) c' = ownOf H c'"
  by (induction H) (auto simp: ownOf_def endSubscription_def)

lemma idsOf_endSubscription: "idsOf (endSubscription c s H) = idsOf H"
  by (induction H) (auto simp: idsOf_def endSubscription_def)

text \<open>The listeners that end a subscription: one if it is in force.\<close>

lemma unsubscribe_snapshot:
  assumes "distinct (idsOf H)"
  shows "filter (\<lambda>l. \<not> isPublish l) (listenersOf (ownOf H c) (unsubscribeEvent s)) = [] \<and> endSubscription c s H = H \<or>
    (\<exists>e. (c, s, e, True) \<in> set H \<and>
      filter (\<lambda>l. \<not> isPublish l) (listenersOf (ownOf H c) (unsubscribeEvent s)) = [OnceUnsubscribe s e])"
  unfolding unsubscribe_listeners using assms
proof (induction H)
  case (Cons x H)
  obtain c' s' e' a' where x: "x = (c', s', e', a')" by (cases x)
  have none: "concat (map (\<lambda>(c', s', e, alive). if c' = c \<and> s' = s \<and> alive then [OnceUnsubscribe s e] else []) H) = []"
    if "s' = s" using Cons.prems that by (force simp: x idsOf_def concat_eq_Nil_conv)
  show ?case
  proof (cases "c' = c \<and> s' = s \<and> a'")
    case True
    then show ?thesis using none by (auto simp: x)
  next
    case False
    then show ?thesis using Cons by (auto simp: x idsOf_def endSubscription_def)
  qed
qed (simp add: endSubscription_def)

lemma represents_unsubscribe:
  assumes "represents H h"
  shows "represents (endSubscription c s H) (unsubscribe c s h)"
proof -
  let ?ls = "listenersOf (ownOf H c) (unsubscribeEvent s)"
  have own: "hb_own h = ownOf H" and par: "hb_parent h = parentOf H" and d: "distinct (idsOf H)"
    using assms by (simp_all add: represents_def)
  have un: "unsubscribe c s h = foldl (callListener c None) h ?ls"
    by (simp add: unsubscribe_def emitOwn_def own)
  have st: "hb_parent (unsubscribe c s h) = hb_parent (foldl (callListener c None) h (filter (\<lambda>l. \<not> isPublish l) ?ls))"
    "hb_own (unsubscribe c s h) = hb_own (foldl (callListener c None) h (filter (\<lambda>l. \<not> isPublish l) ?ls))"
    unfolding un using struct_fold [of c None h ?ls] by blast+
  from unsubscribe_snapshot [OF d, of c s] show ?thesis
  proof
    assume "filter (\<lambda>l. \<not> isPublish l) ?ls = [] \<and> endSubscription c s H = H"
    then show ?thesis using assms st by (simp add: represents_def)
  next
    assume "\<exists>e. (c, s, e, True) \<in> set H \<and> filter (\<lambda>l. \<not> isPublish l) ?ls = [OnceUnsubscribe s e]"
    then obtain e where e: "(c, s, e, True) \<in> set H" "filter (\<lambda>l. \<not> isPublish l) ?ls = [OnceUnsubscribe s e]" by blast
    have "hb_own (unsubscribe c s h) c' = ownOf (endSubscription c s H) c'" for c'
      using filter_unsubscribed(1) [OF d e(1)] ownOf_endSubscription [of c' c s H]
      by (simp add: st e(2) callListener_def own removeListener_distinct distinct_ownOf [OF d] conj_commute)
    moreover have "hb_parent (unsubscribe c s h) = parentOf (endSubscription c s H)"
      by (simp add: st e(2) callListener_def par removeListener_distinct distinct_parentOf [OF d] filter_unsubscribed(2) [OF d e(1)])
    ultimately show ?thesis using d by (simp add: represents_def idsOf_endSubscription fun_eq_iff)
  qed
qed

lemma teardown_parent:
  assumes "distinct (hb_parent h)"
  shows "hb_parent (foldl (callListener c None) h (map (\<lambda>(s, e). OnceTeardown s e) T)) =
      filter (\<lambda>y. \<forall>(s, e) \<in> set T. y \<noteq> (e, Handler c s e)) (hb_parent h) \<and>
    (\<forall>c'. c' \<noteq> c \<longrightarrow> hb_own (foldl (callListener c None) h (map (\<lambda>(s, e). OnceTeardown s e) T)) c' = hb_own h c')"
  using assms
proof (induction T arbitrary: h)
  case (Cons t T)
  obtain s e where t: "t = (s, e)" by (cases t)
  let ?h = "callListener c None h (OnceTeardown s e)"
  have p: "hb_parent ?h = filter (\<lambda>y. y \<noteq> (e, Handler c s e)) (hb_parent h)"
    and "\<And>c'. c' \<noteq> c \<Longrightarrow> hb_own ?h c' = hb_own h c'"
    using Cons.prems by (simp_all add: callListener_def removeListener_distinct)
  then show ?case using Cons.IH [of ?h] Cons.prems by (simp add: t conj_commute)
qed simp

lemma filter_closed:
  "filter (\<lambda>y. \<forall>(s, e) \<in> {(s, e). \<exists>a. (c, s, e, a) \<in> set H}. y \<noteq> (e, Handler c s e)) (parentOf H) = parentOf (endConnection c H)"
proof -
  have "filter (\<lambda>y. \<forall>(s, e) \<in> {(s, e). \<exists>a. (c, s, e, a) \<in> set H}. y \<noteq> (e, Handler c s e)) (parentOf H') =
      parentOf (endConnection c H')" if "set H' \<subseteq> set H" for H'
    using that by (induction H') (force simp: parentOf_def endConnection_def)+
  then show ?thesis by blast
qed

lemma represents_close:
  assumes "represents H h"
  shows "represents (endConnection c H) (removeAllListeners c None h)"
proof -
  let ?ls = "listenersOf (ownOf H c) ''removeAllListeners''" and ?r = "removeAllListeners c None h"
  let ?T = "concat (map (\<lambda>(c', s, e, alive). if c' = c then [(s, e)] else []) H)"
  have own: "hb_own h = ownOf H" and par: "hb_parent h = parentOf H" and d: "distinct (idsOf H)"
    using assms by (simp_all add: represents_def)
  let ?g = "foldl (callListener c None) h ?ls"
  have "filter (\<lambda>l. \<not> isPublish l) ?ls = map (\<lambda>(s, e). OnceTeardown s e) ?T"
    unfolding teardown_listeners by (induction H) auto
  then have st: "hb_parent ?g = hb_parent (foldl (callListener c None) h (map (\<lambda>(s, e). OnceTeardown s e) ?T))"
    "hb_own ?g = hb_own (foldl (callListener c None) h (map (\<lambda>(s, e). OnceTeardown s e) ?T))"
    using struct_fold [of c None h ?ls] by simp_all
  have r: "?r = ?g\<lparr>hb_own := (hb_own ?g)(c := [])\<rparr>"
    by (simp add: removeAllListeners_def emitOwn_def own Let_def)
  have "set ?T = {(s, e). \<exists>a. (c, s, e, a) \<in> set H}" by (auto split: if_splits)
  then have "hb_parent ?r = parentOf (endConnection c H)"
    using teardown_parent [of h c ?T] filter_closed [of c H] distinct_parentOf [OF d]
    by (simp add: r st par)
  moreover have "hb_own ?r c' = ownOf (endConnection c H) c'" for c'
  proof (cases "c' = c")
    case True
    have "ownOf (endConnection c H) c = []" by (induction H) (auto simp: ownOf_def endConnection_def)
    with True show ?thesis by (simp add: r)
  next
    case False
    have "ownOf (endConnection c H) c' = ownOf H c'"
      using False by (induction H) (auto simp: ownOf_def endConnection_def)
    with False show ?thesis using teardown_parent [of h c ?T] distinct_parentOf [OF d]
      by (simp add: r st own par)
  qed
  moreover have "distinct (idsOf (endConnection c H))"
    using d unfolding idsOf_def endConnection_def by (rule distinct_map_filter)
  ultimately show ?thesis by (simp add: represents_def fun_eq_iff)
qed

text \<open>An event of the node reaches, through each handler, all subscriptions of its connection to the event.\<close>

definition delivered :: "live \<Rightarrow> string \<Rightarrow> 'd \<Rightarrow> (connection \<times> string \<times> 'd option) list" where
  "delivered L e data = concat (map (\<lambda>(c, _, _). map (\<lambda>s. (c, s, Some data)) (subscribers L c e))
     (filter (\<lambda>(_, _, e'). e' = e) L))"

lemma emitOwn_event:
  assumes "hb_own h = ownOf H" "\<not> isControl e"
  shows "emitOwn c e data h = h\<lparr>hb_published := hb_published h @ map (\<lambda>s. (c, s, data)) (subscribers (liveOf H) c e)\<rparr>"
  using foldl_publish [of c data h "subscribers (liveOf H) c e"] assms by (simp add: emitOwn_def event_listeners)

lemma foldl_handlers:
  assumes "hb_own h = ownOf H" "\<not> isControl e"
  shows "foldl (callHandler data) h (map (\<lambda>(c, s, _). Handler c s e) L) =
    h\<lparr>hb_published := hb_published h @ concat (map (\<lambda>(c, _, _). map (\<lambda>s. (c, s, data)) (subscribers (liveOf H) c e)) L)\<rparr>"
  using assms(1)
proof (induction L arbitrary: h)
  case (Cons x L)
  obtain c s e' where x: "x = (c, s, e')" by (cases x)
  have "callHandler data h (Handler c s e) =
      h\<lparr>hb_published := hb_published h @ map (\<lambda>s. (c, s, data)) (subscribers (liveOf H) c e)\<rparr>"
    using emitOwn_event [OF Cons.prems assms(2)] by (simp add: callHandler_def)
  then show ?case using Cons.IH Cons.prems by (simp add: x)
qed simp

lemma parent_listeners:
  "listenersOf (parentOf H) e = map (\<lambda>(c, s, _). Handler c s e) (filter (\<lambda>(_, _, e'). e' = e) (liveOf H))"
  by (induction H) (auto simp: history_defs listenersOf_def)

lemma emitParent_event:
  assumes "represents H h" "\<not> isControl e"
  shows "emitParent e data h = h\<lparr>hb_published := hb_published h @ delivered (liveOf H) e data\<rparr>"
  using assms foldl_handlers [of h H e "Some data"]
  by (simp add: emitParent_def represents_def parent_listeners delivered_def)

section \<open>Subscriptions as the specification has them\<close>

fun historyOp :: "history \<Rightarrow> 'd op \<Rightarrow> history" where
  "historyOp H (Subscribe c e s) = H @ [(c, s, e, True)]"
| "historyOp H (Unsubscribe c s) = endSubscription c s H"
| "historyOp H (Close c) = endConnection c H"
| "historyOp H (Emit _ _) = H"

lemma liveOf_historyOp: "liveOf (historyOp H op) = specOp (liveOf H) op"
proof (cases op)
  case (Unsubscribe c s)
  then show ?thesis by (induction H) (auto simp: liveOf_def endSubscription_def)
next
  case (Close c)
  then show ?thesis by (induction H) (auto simp: liveOf_def endConnection_def)
qed (simp_all add: liveOf_def)

lemma newIds_append: "newIds (ops @ ops') = newIds ops @ newIds ops'"
  by (induction ops rule: newIds.induct) simp_all

lemma represents_op:
  assumes "represents H h" "emitsEvents op" "set (newIds [op]) \<inter> set (idsOf H) = {}"
  shows "represents (historyOp H op) (runOp h op)"
proof (cases op)
  case (Emit e data)
  then show ?thesis using assms emitParent_event [of H h e data] by (simp add: represents_def)
qed (use assms in \<open>simp_all add: represents_subscribe represents_unsubscribe represents_close\<close>)

lemma idsOf_historyOp: "set (idsOf (historyOp H op)) \<subseteq> set (idsOf H) \<union> set (newIds [op])"
proof (cases op)
  case (Close c)
  then show ?thesis by (auto simp: idsOf_def endConnection_def intro: rev_image_eqI)
qed (auto simp: idsOf_endSubscription, auto simp: idsOf_def)

lemma history_of_run:
  assumes "wellFormed ops"
  shows "\<exists>H. represents H (foldl runOp noSubscriptions ops) \<and> liveOf H = foldl specOp [] ops \<and>
    set (idsOf H) \<subseteq> set (newIds ops)"
  using assms
proof (induction ops rule: rev_induct)
  case Nil
  have "represents [] noSubscriptions" by (simp add: represents_def noSubscriptions_def history_defs fun_eq_iff)
  then show ?case by (force simp: liveOf_def idsOf_def)
next
  case (snoc op ops)
  then have "wellFormed ops" "emitsEvents op" "set (newIds [op]) \<inter> set (newIds ops) = {}"
    by (auto simp: wellFormed_def newIds_append)
  with snoc.IH obtain H where H: "represents H (foldl runOp noSubscriptions ops)" "liveOf H = foldl specOp [] ops"
      "set (idsOf H) \<subseteq> set (newIds ops)" "set (newIds [op]) \<inter> set (idsOf H) = {}" by blast
  then have "represents (historyOp H op) (foldl runOp noSubscriptions (ops @ [op]))"
    using represents_op \<open>emitsEvents op\<close> by simp
  then show ?case using H(2,3) idsOf_historyOp [of H op] liveOf_historyOp [of H op]
    by (intro exI [of _ "historyOp H op"]) (auto simp: newIds_append)
qed

lemma history_Cons:
  "liveOf ((c, s, e, a) # H) = (if a then [(c, s, e)] else []) @ liveOf H" "idsOf ((c, s, e, a) # H) = s # idsOf H"
  "liveOf [] = []" "idsOf [] = []"
  by (simp_all add: liveOf_def idsOf_def)

lemma liveOf_ids: "set (map (\<lambda>(_, s, _). s) (liveOf H)) \<subseteq> set (idsOf H)"
proof (induction H)
  case (Cons x H)
  then show ?case by (cases x) (simp add: history_Cons, blast)
qed (simp add: history_Cons)

lemma distinct_liveOf: "distinct (idsOf H) \<Longrightarrow> distinct (map (\<lambda>(_, s, _). s) (liveOf H))"
proof (induction H)
  case (Cons x H)
  obtain c s e a where x: "x = (c, s, e, a)" by (cases x)
  then have "s \<notin> set (map (\<lambda>(_, s, _). s) (liveOf H))"
    using Cons.prems liveOf_ids [of H] by (auto simp only: history_Cons distinct.simps)
  then show ?case using Cons by (simp add: x history_Cons)
qed (simp add: history_Cons)

lemma subscribers_mem: "s \<in> set (subscribers L c e) \<longleftrightarrow> (c, s, e) \<in> set L"
  by (force simp: subscribers_def image_iff)

lemma distinct_subscribers:
  assumes "distinct (map (\<lambda>(_, s, _). s) L)"
  shows "distinct (subscribers L c e)"
  unfolding subscribers_def by (rule distinct_map_filter [OF assms])

lemma count_list_map_pair: "count_list (map (\<lambda>s. (c', s, x)) ss) (c, s, x) = (if c' = c then count_list ss s else 0)"
  by (induction ss) auto

lemma count_list_distinct: "distinct xs \<Longrightarrow> count_list xs x = (if x \<in> set xs then 1 else 0)"
  by (induction xs) auto

lemma delivered_count:
  assumes "distinct (map (\<lambda>(_, s, _). s) L)"
  shows "count_list (delivered L e data) (c, s, Some data) = (if (c, s, e) \<in> set L then length (subscribers L c e) else 0)"
proof -
  have "count_list (concat (map (\<lambda>(c, _, _). map (\<lambda>s. (c, s, Some data)) (subscribers L c e)) M)) (c, s, Some data) =
      length (filter (\<lambda>(c', _). c' = c) M) * (if (c, s, e) \<in> set L then 1 else 0)" for M :: live
    by (induction M) (auto simp: count_list_map_pair count_list_append subscribers_mem
      count_list_distinct [OF distinct_subscribers [OF assms]])
  moreover have "filter (\<lambda>(c', _). c' = c) (filter (\<lambda>(_, _, e'). e' = e) L) = filter (\<lambda>(c', _, e'). c' = c \<and> e' = e) L"
    by (induction L) auto
  ultimately show ?thesis by (simp add: delivered_def subscribers_def)
qed

text \<open>
  C0. However connections subscribe, unsubscribe and close, and whatever events the node emits meanwhile, the
  listeners on the node's emitter are exactly those of the subscriptions in force, and those that publish are too:
  nothing is left of a subscription that was ended or of a connection that was closed. An event of the node is
  published to exactly the subscriptions to it, but to each as often as its connection has subscriptions to the
  event: every handler of a connection passes the event on to all of them.
\<close>

theorem subscriptions_deliver_events:
  assumes "wellFormed ops" "\<not> isControl e"
  shows "hb_parent (foldl runOp noSubscriptions ops) = map (\<lambda>(c, s, e). (e, Handler c s e)) (foldl specOp [] ops) \<and>
    listenersOf (hb_own (foldl runOp noSubscriptions ops) c) e = map Publish (subscribers (foldl specOp [] ops) c e) \<and>
    (\<exists>new. hb_published (emitParent e data (foldl runOp noSubscriptions ops)) =
        hb_published (foldl runOp noSubscriptions ops) @ new \<and>
      (\<forall>s. count_list new (c, s, Some data) =
        (if (c, s, e) \<in> set (foldl specOp [] ops) then length (subscribers (foldl specOp [] ops) c e) else 0)))"
proof -
  let ?h = "foldl runOp noSubscriptions ops" and ?L = "foldl specOp [] ops"
  obtain H where H: "represents H ?h" "liveOf H = ?L" using history_of_run [OF assms(1)] by blast
  have "parentOf H = map (\<lambda>(c, s, e). (e, Handler c s e)) (liveOf H)"
    by (induction H) (auto simp: parentOf_def liveOf_def)
  moreover have "listenersOf (hb_own ?h c) e = map Publish (subscribers ?L c e)"
    using H event_listeners [OF assms(2), of H c] by (simp add: represents_def)
  moreover have "\<forall>s. count_list (delivered ?L e data) (c, s, Some data) =
      (if (c, s, e) \<in> set ?L then length (subscribers ?L c e) else 0)"
    using H distinct_liveOf [of H] by (intro allI delivered_count) (simp add: represents_def)
  moreover have "hb_published (emitParent e data ?h) = hb_published ?h @ delivered ?L e data"
    using emitParent_event [OF H(1) assms(2)] H(2) by simp
  moreover have "hb_parent ?h = parentOf H" using H(1) by (simp add: represents_def)
  ultimately show ?thesis by (intro conjI exI [of _ "delivered ?L e data"]) (simp_all add: H(2))
qed

text \<open>Two subscriptions of one connection to one event: each event is published four times.\<close>

definition two_subscriptions :: "nat op list" where
  "two_subscriptions = [Subscribe 1 ''MarketState'' ''a'', Subscribe 1 ''MarketState'' ''b'',
     Subscribe 2 ''MarketState'' ''c'']"

lemma two_live: "foldl specOp [] two_subscriptions =
    [(1, ''a'', ''MarketState''), (1, ''b'', ''MarketState''), (2, ''c'', ''MarketState'')]"
  by (simp add: two_subscriptions_def)

lemma two_wf: "wellFormed two_subscriptions" "\<not> isControl ''MarketState''"
  by code_simp+

theorem subscriptions_deliver_events_witness:
  "\<exists>new. hb_published (emitParent ''MarketState'' (7 :: nat) (foldl runOp noSubscriptions two_subscriptions)) =
      hb_published (foldl runOp noSubscriptions two_subscriptions) @ new \<and>
    (\<forall>s. count_list new (1, s, Some 7) = (if s = ''a'' \<or> s = ''b'' then 2 else 0))"
proof -
  let ?h = "foldl runOp noSubscriptions two_subscriptions"
  obtain new where new: "hb_published (emitParent ''MarketState'' 7 ?h) = hb_published ?h @ new"
    and n: "\<And>s. count_list new (1, s, Some 7) = (if (1, s, ''MarketState'') \<in> set (foldl specOp [] two_subscriptions)
        then length (subscribers (foldl specOp [] two_subscriptions) 1 ''MarketState'') else 0)"
    using subscriptions_deliver_events [OF two_wf, of 1 7] by blast
  have "count_list new (1, s, Some 7) = (if s = ''a'' \<or> s = ''b'' then 2 else 0)" for s
    unfolding n two_live by (simp add: subscribers_def)
  with new show ?thesis by blast
qed

lemma published_subscribe: "hb_published (subscribeToEvent c e s h) = hb_published h"
  by (simp add: subscribeToEvent_def)

lemma published_four_times:
  "hb_published (emitParent ''MarketState'' (7 :: nat) (foldl runOp noSubscriptions two_subscriptions)) =
    [(1, ''a'', Some 7), (1, ''b'', Some 7), (1, ''a'', Some 7), (1, ''b'', Some 7), (2, ''c'', Some 7)]"
proof -
  define h :: "nat hub" where "h = foldl runOp noSubscriptions two_subscriptions"
  obtain H where H: "represents H h" "liveOf H = foldl specOp [] two_subscriptions"
    using history_of_run [OF two_wf(1)] unfolding h_def by blast
  have "hb_published h = []"
    unfolding h_def by (simp add: two_subscriptions_def published_subscribe) (simp add: noSubscriptions_def)
  then have "hb_published (emitParent ''MarketState'' 7 h) = delivered (foldl specOp [] two_subscriptions) ''MarketState'' 7"
    unfolding emitParent_event [OF H(1) two_wf(2)] H(2) by simp
  then show ?thesis unfolding h_def two_live by (simp add: delivered_def subscribers_def)
qed

end
