(* ===== verification/Rpc_Server.thy ===== *)
theory Rpc_Server
  imports Subscriptions Market_Lists
begin

text \<open>
  The server of \<open>src/server\<close>: JSON-RPC messages over websockets and HTTP, the dispatch of requests to the getters, and
  the status routes (\<open>run-websocket-server.ts\<close>, \<open>run-server.ts\<close>, \<open>dispatch-json-rpc-request.ts\<close>,
  \<open>address-format-reviver.ts\<close>, \<open>is-json-rpc-request.ts\<close>, \<open>make-json-rpc-*.ts\<close>).

  \<^item> A JSON value is a datatype; the keys of an object are distinct. \<open>rx_parse\<close> is \<open>JSON.parse\<close> without its reviver,
    \<open>rx_key\<close> the conversion of a value to a string (an error where JavaScript throws), \<open>rx_string\<close> and \<open>rx_message\<close>
    the text and the message of an error.
  \<^item> \<open>rx_format\<close> is \<open>formatEthereumAddress\<close> of speedomatic, \<open>rx_decode\<close> the decoding of parameters by io-ts, and
    \<open>rx_run\<close> what the promise of a getter yields. Getters and codecs are given by their names in the source.
  \<^item> The promise of a request is settled at once. What is sent is kept as a list.
  \<^item> Left out: creation of the HTTP and websocket servers, the ping timer, logging, \<open>/version\<close> and \<open>/gas\<close>.
\<close>

section \<open>JSON\<close>

datatype json = JNull | JBool bool | JNum rat | JStr string | JArr "json list" | JObj "(string \<times> json) list"

fun getField :: "string \<Rightarrow> json \<Rightarrow> json option" where
  "getField k (JObj fs) = map_of fs k"
| "getField k _ = None"

text \<open>\<open>toString\<close> of the index of an array.\<close>

fun indexKey :: "nat \<Rightarrow> string" where
  "indexKey n = (if n < 10 then [char_of (48 + n)] else indexKey (n div 10) @ [char_of (48 + n mod 10)])"

declare indexKey.simps [simp del]

section \<open>Addresses in requests\<close>

definition isSpace :: "char \<Rightarrow> bool" where
  "isSpace c \<longleftrightarrow> of_char c \<in> {9, 10, 11, 12, 13, 32 :: nat}"

definition trim :: "string \<Rightarrow> string" where
  "trim s = rev (dropWhile isSpace (rev (dropWhile isSpace s)))"

definition preCleanAddress :: "string \<Rightarrow> string" where
  "preCleanAddress address = trim (map lowerCase address)"

text \<open>Looking a name up in an object also finds what the object inherits.\<close>

definition inherited :: "string list" where
  "inherited = [''constructor'', ''__defineGetter__'', ''__defineSetter__'', ''hasOwnProperty'', ''__lookupGetter__'',
     ''__lookupSetter__'', ''isPrototypeOf'', ''propertyIsEnumerable'', ''toString'', ''valueOf'', ''__proto__'',
     ''toLocaleString'']"

definition inputsExpectedAsAddress :: "string \<Rightarrow> bool" where
  "inputsExpectedAsAddress key \<longleftrightarrow>
     key \<in> set ([''account'', ''creator'', ''marketId'', ''marketIds'', ''universe''] @ inherited)"

definition cleanElement :: "json \<Rightarrow> json" where
  "cleanElement address = (case address of JStr s \<Rightarrow> JStr (preCleanAddress s) | _ \<Rightarrow> JStr [])"

definition addressFormatReviver :: "(json \<Rightarrow> json) \<Rightarrow> string \<Rightarrow> json \<Rightarrow> json" where
  "addressFormatReviver formatEthereumAddress key v =
     (if inputsExpectedAsAddress key then
        (case v of
           JStr s \<Rightarrow> formatEthereumAddress (JStr (preCleanAddress s))
         | JArr vs \<Rightarrow> formatEthereumAddress (JArr (map cleanElement vs))
         | _ \<Rightarrow> v)
      else v)"

text \<open>\<open>JSON.parse\<close> applies the reviver to the inner values first; the whole value has the empty key.\<close>

fun revive :: "(string \<Rightarrow> json \<Rightarrow> json) \<Rightarrow> string \<Rightarrow> json \<Rightarrow> json"
  and reviveElements :: "(string \<Rightarrow> json \<Rightarrow> json) \<Rightarrow> nat \<Rightarrow> json list \<Rightarrow> json list"
  and reviveFields :: "(string \<Rightarrow> json \<Rightarrow> json) \<Rightarrow> (string \<times> json) list \<Rightarrow> (string \<times> json) list" where
  "revive f key (JArr vs) = f key (JArr (reviveElements f 0 vs))"
| "revive f key (JObj fs) = f key (JObj (reviveFields f fs))"
| "revive f key v = f key v"
| "reviveElements f i [] = []"
| "reviveElements f i (v # vs) = revive f (indexKey i) v # reviveElements f (Suc i) vs"
| "reviveFields f [] = []"
| "reviveFields f ((k, v) # fs) = (k, revive f k v) # reviveFields f fs"

section \<open>Requests and responses\<close>

definition isJsonRpcRequest :: "json \<Rightarrow> bool result" where
  "isJsonRpcRequest message =
     (if message = JNull then Inl (JsTypeError ''Cannot read property of null'')
      else Inr (getField ''jsonrpc'' message = Some (JStr ''2.0'') \<and>
        (case getField ''id'' message of
           Some (JStr _) \<Rightarrow> True | Some (JNum _) \<Rightarrow> True | Some JNull \<Rightarrow> True | _ \<Rightarrow> False) \<and>
        (case getField ''method'' message of Some (JStr _) \<Rightarrow> True | _ \<Rightarrow> False) \<and>
        (case getField ''params'' message of
           Some (JObj _) \<Rightarrow> True | Some (JArr _) \<Rightarrow> True | Some JNull \<Rightarrow> True | _ \<Rightarrow> False)))"

datatype JsonRpcErrorCode = ParseError | InvalidRequest | MethodNotFound | InvalidParams | InternalError | ServerError

fun errorCode :: "JsonRpcErrorCode \<Rightarrow> int" where
  "errorCode ParseError = -32700"
| "errorCode InvalidRequest = -32600"
| "errorCode MethodNotFound = -32601"
| "errorCode InvalidParams = -32602"
| "errorCode InternalError = -32603"
| "errorCode ServerError = -32000"

text \<open>\<open>JSON.stringify\<close> leaves out a field that is undefined.\<close>

definition optionalField :: "string \<Rightarrow> json option \<Rightarrow> (string \<times> json) list" where
  "optionalField k v = (case v of None \<Rightarrow> [] | Some x \<Rightarrow> [(k, x)])"

definition makeJsonRpcError :: "json option \<Rightarrow> JsonRpcErrorCode \<Rightarrow> string \<Rightarrow> json \<Rightarrow> json" where
  "makeJsonRpcError i code message data = JObj (optionalField ''id'' i @ [(''jsonrpc'', JStr ''2.0''),
     (''error'', JObj [(''code'', JNum (of_int (errorCode code))), (''message'', JStr message), (''data'', data)])])"

definition makeJsonRpcResponse :: "json option \<Rightarrow> json \<Rightarrow> json" where
  "makeJsonRpcResponse i r = JObj (optionalField ''id'' i @ [(''result'', r), (''jsonrpc'', JStr ''2.0'')])"

section \<open>Dispatch\<close>

record rpc_env =
  rx_parse :: "string \<Rightarrow> json option"
  rx_format :: "json \<Rightarrow> json"
  rx_key :: "json option \<Rightarrow> string result"
  rx_decode :: "string \<Rightarrow> json \<Rightarrow> string + json"
  rx_run :: "string \<Rightarrow> json \<Rightarrow> json result"
  rx_string :: "error \<Rightarrow> string"
  rx_message :: "error \<Rightarrow> string"

datatype params_source = RequestParams | NoRequestParams | WithCurrent

definition routes :: "(string \<times> string \<times> string \<times> params_source) list" where
  "routes =
     [(''getDisputeInfo'', ''getDisputeInfo'', ''DisputeInfoParams'', RequestParams),
      (''getReportingSummary'', ''getReportingSummary'', ''ReportingSummaryParams'', RequestParams),
      (''getMarketPriceHistory'', ''getMarketPriceHistory'', ''MarketPriceHistoryParams'', RequestParams),
      (''getCategories'', ''getCategories'', ''CategoriesParams'', RequestParams),
      (''getAccountTimeRangedStats'', ''getAccountTimeRangedStats'', ''AccountTimeRangedStatsParams'', RequestParams),
      (''getPlatformActivityStats'', ''getPlatformActivityStats'', ''PlatformActivityStatsParams'', RequestParams),
      (''getContractAddresses'', ''getSyncData'', ''NoParams'', NoRequestParams),
      (''getSyncData'', ''getSyncData'', ''NoParams'', NoRequestParams),
      (''getMarketsClosingInDateRange'', ''getMarketsClosingInDateRange'', ''MarketsClosingInDateRangeParams'', RequestParams),
      (''getMarketsInfo'', ''getMarketsInfo'', ''MarketsInfoParams'', RequestParams),
      (''getAccountTransferHistory'', ''getAccountTransferHistory'', ''AccountTransferHistoryParams'', RequestParams),
      (''getReportingHistory'', ''getReportingHistory'', ''ReportingHistoryParams'', RequestParams),
      (''getTradingHistory'', ''getTradingHistory'', ''TradingHistoryParams'', RequestParams),
      (''getMarketPriceCandlesticks'', ''getMarketPriceCandlesticks'', ''MarketPriceCandlesticksParams'', RequestParams),
      (''getUserTradingPositions'', ''getUserTradingPositions'', ''UserTradingPositionsParams'', RequestParams),
      (''getFeeWindowCurrent'', ''getFeeWindow'', ''FeeWindowParams'', WithCurrent),
      (''getFeeWindow'', ''getFeeWindow'', ''FeeWindowParams'', RequestParams),
      (''getFeeWindows'', ''getFeeWindows'', ''FeeWindowsParams'', RequestParams),
      (''getUnclaimedMarketCreatorFees'', ''getUnclaimedMarketCreatorFees'', ''UnclaimedMarketCreatorFeesParams'', RequestParams),
      (''getWinningBalance'', ''getWinningBalance'', ''WinningBalanceParams'', RequestParams),
      (''getDisputeTokens'', ''getDisputeTokens'', ''DisputeTokensParams'', RequestParams),
      (''getInitialReporters'', ''getInitialReporters'', ''InitialReportersParams'', RequestParams),
      (''getReportingFees'', ''getReportingFees'', ''ReportingFeesParams'', RequestParams),
      (''getForkMigrationTotals'', ''getForkMigrationTotals'', ''ForkMigrationTotalsParams'', RequestParams),
      (''getMarkets'', ''getMarkets'', ''GetMarketsParams'', RequestParams),
      (''getOrders'', ''getOrders'', ''OrdersParams'', RequestParams),
      (''getAllOrders'', ''getAllOrders'', ''AllOrdersParams'', RequestParams),
      (''getBetterWorseOrders'', ''getBetterWorseOrders'', ''BetterWorseOrdersParams'', RequestParams),
      (''getCompleteSets'', ''getCompleteSets'', ''CompleteSetsParams'', RequestParams),
      (''getUniversesInfo'', ''getUniversesInfo'', ''UniverseInfoParams'', RequestParams),
      (''getUserShareBalances'', ''getUserShareBalances'', ''UserShareBalancesParams'', RequestParams),
      (''getAccountTransactionHistory'', ''getAccountTransactionHistory'', ''GetAccountTransactionHistoryParams'', RequestParams),
      (''getProfitLoss'', ''getProfitLoss'', ''GetProfitLossParams'', RequestParams),
      (''getProfitLossSummary'', ''getProfitLossSummary'', ''GetProfitLossSummaryParams'', RequestParams)]"

text \<open>\<open>Object.assign\<close>: the fields of the second value override those of the first.\<close>

definition assignFields :: "(string \<times> json) list \<Rightarrow> json \<Rightarrow> json" where
  "assignFields base v = JObj (foldl (\<lambda>d (k, x). dictSet k x d) base
     (case v of JObj fs \<Rightarrow> fs | JArr vs \<Rightarrow> zip (map indexKey [0..<length vs]) vs | _ \<Rightarrow> []))"

definition paramsOf :: "params_source \<Rightarrow> json \<Rightarrow> json" where
  "paramsOf source params = (case source of
     RequestParams \<Rightarrow> params
   | NoRequestParams \<Rightarrow> JObj []
   | WithCurrent \<Rightarrow> assignFields [(''feeWindowState'', JStr ''current'')] params)"

text \<open>What is thrown at once is told apart from what the promise of the getter yields.\<close>

definition dispatchResponse :: "rpc_env \<Rightarrow> string \<Rightarrow> string + json \<Rightarrow> json result result" where
  "dispatchResponse env getterFunction decodedParams = (case decodedParams of
     Inr params \<Rightarrow> Inr (rx_run env getterFunction params)
   | Inl report \<Rightarrow> Inl (Thrown (''Invalid request object: '' @ report)))"

definition dispatchJsonRpcRequest :: "rpc_env \<Rightarrow> string \<Rightarrow> json \<Rightarrow> json result result" where
  "dispatchJsonRpcRequest env method params = (case map_of routes method of
     None \<Rightarrow> Inl (Thrown (''unknown json rpc method '' @ method))
   | Some (getter, codec, source) \<Rightarrow> dispatchResponse env getter (rx_decode env codec (paramsOf source params)))"

section \<open>Websocket connections\<close>

record server =
  sv_hub :: "json hub"
  sv_open :: "connection \<Rightarrow> bool"
  sv_sent :: "(connection \<times> json) list"

definition safeSend :: "connection \<Rightarrow> json \<Rightarrow> server \<Rightarrow> server" where
  "safeSend c payload s = (if sv_open s c then s\<lparr>sv_sent := sv_sent s @ [(c, payload)]\<rparr> else s)"

text \<open>\<open>result || null\<close>\<close>

definition orNull :: "json \<Rightarrow> json" where
  "orNull r = (if r = JBool False \<or> r = JNum 0 \<or> r = JStr [] then JNull else r)"

text \<open>\<open>message.params.shift()\<close>: the first parameter, undefined if there is none.\<close>

definition shiftParams :: "json \<Rightarrow> json option result" where
  "shiftParams params = (case params of
     JArr [] \<Rightarrow> Inr None | JArr (v # _) \<Rightarrow> Inr (Some v)
   | JNull \<Rightarrow> Inl (JsTypeError ''Cannot read property of null'')
   | _ \<Rightarrow> Inl (JsTypeError ''message.params.shift is not a function''))"

text \<open>
  The publish function of a subscription; what the emitters have published is sent in order.
\<close>

definition notification :: "string \<Rightarrow> json option \<Rightarrow> json" where
  "notification subscription data = makeJsonRpcResponse (Some JNull)
     (JObj ((''subscription'', JStr subscription) # optionalField ''result'' data))"

definition sendPublished :: "server \<Rightarrow> server" where
  "sendPublished s = foldl (\<lambda>s (c, subscription, data). safeSend c (notification subscription data) s)
     (s\<lparr>sv_hub := (sv_hub s)\<lparr>hb_published := []\<rparr>\<rparr>) (hb_published (sv_hub s))"

definition handleRequest :: "rpc_env \<Rightarrow> connection \<Rightarrow> string \<Rightarrow> json option \<Rightarrow> string \<Rightarrow> json \<Rightarrow> server \<Rightarrow> server" where
  "handleRequest env c uuid i method params s =
     (let failed = (\<lambda>code e data. safeSend c (makeJsonRpcError i code (rx_string env e) data) s);
          serverError = (\<lambda>e. failed ServerError e (JObj []))
      in if method = ''subscribe'' then
           (case shiftParams params of
              Inl e \<Rightarrow> serverError e
            | Inr eventName \<Rightarrow> (case rx_key env eventName of
                Inl e \<Rightarrow> failed MethodNotFound e (JBool False)
              | Inr name \<Rightarrow> safeSend c (makeJsonRpcResponse i (JObj [(''subscription'', JStr uuid)]))
                  (s\<lparr>sv_hub := subscribeToEvent c name uuid (sv_hub s)\<rparr>)))
         else if method = ''unsubscribe'' then
           (case shiftParams params of
              Inl e \<Rightarrow> serverError e
            | Inr subscription \<Rightarrow> (case rx_key env subscription of
                Inl e \<Rightarrow> serverError e
              | Inr name \<Rightarrow> safeSend c (makeJsonRpcResponse i (JBool True))
                  (sendPublished (s\<lparr>sv_hub := unsubscribe c name (sv_hub s)\<rparr>))))
         else
           (case dispatchJsonRpcRequest env method params of
              Inl e \<Rightarrow> serverError e
            | Inr (Inl e) \<Rightarrow> safeSend c (makeJsonRpcError i InvalidParams (rx_message env e) (JBool False)) s
            | Inr (Inr r) \<Rightarrow> safeSend c (makeJsonRpcResponse i (orNull r)) s))"

definition onMessage :: "rpc_env \<Rightarrow> connection \<Rightarrow> string \<Rightarrow> string \<Rightarrow> server \<Rightarrow> server" where
  "onMessage env c uuid data s =
     (let badMessage = safeSend c (makeJsonRpcError (Some (JStr ''-1'')) ParseError ''Bad JSON RPC Message Received''
            (JObj [(''originalText'', JStr data)])) s
      in case map_option (revive (addressFormatReviver (rx_format env)) []) (rx_parse env data) of
        None \<Rightarrow> badMessage
      | Some message \<Rightarrow> (case isJsonRpcRequest message of
          Inl _ \<Rightarrow> badMessage
        | Inr False \<Rightarrow> s
        | Inr True \<Rightarrow> (case (getField ''id'' message, getField ''method'' message, getField ''params'' message) of
            (i, Some (JStr method), Some params) \<Rightarrow> handleRequest env c uuid i method params s
          | _ \<Rightarrow> s)))"

definition onEventOfNode :: "string \<Rightarrow> json \<Rightarrow> server \<Rightarrow> server" where
  "onEventOfNode eventName data s = sendPublished (s\<lparr>sv_hub := emitParent eventName data (sv_hub s)\<rparr>)"

definition onClose :: "connection \<Rightarrow> server \<Rightarrow> server" where
  "onClose c s = sendPublished (s\<lparr>sv_open := (sv_open s)(c := False),
     sv_hub := removeAllListeners c None (sv_hub s)\<rparr>)"

section \<open>HTTP\<close>

datatype ServerStatus = DOWN | UP | SYNCING

record http_response =
  hr_code :: int
  hr_status :: "ServerStatus option"
  hr_reason :: string

text \<open>Parameters that are missing count as null.\<close>

definition postRoute :: "rpc_env \<Rightarrow> json \<Rightarrow> int \<times> json" where
  "postRoute env body = (let i = getField ''id'' body;
        params = (case getField ''params'' body of Some p \<Rightarrow> p | None \<Rightarrow> JNull);
        failed = (\<lambda>e. (500, makeJsonRpcError i InvalidParams (rx_message env e) (JBool False)))
     in case (case getField ''method'' body of
              Some (JStr method) \<Rightarrow> dispatchJsonRpcRequest env method params
            | other \<Rightarrow> bindE (rx_key env other) (\<lambda>m. Inl (Thrown (''unknown json rpc method '' @ m)))) of
          Inl e \<Rightarrow> failed e
        | Inr (Inl e) \<Rightarrow> failed e
        | Inr (Inr r) \<Rightarrow> (200, makeJsonRpcResponse i (orNull r)))"

definition syncing :: http_response where
  "syncing = \<lparr>hr_code = 503, hr_status = Some SYNCING, hr_reason = ''server syncing''\<rparr>"

definition allMarkets :: "address \<Rightarrow> GetMarketsParams" where
  "allMarkets universe = \<lparr>gm_universe = universe, gm_creator = None, gm_category = None, gm_search = None,
     gm_reportingState = None, gm_feeWindow = None, gm_designatedReporter = None, gm_maxFee = None,
     gm_maxEndTime = None, gm_liquiditySortSpreadPercent = None, gm_enableInvalidFilter = None,
     gm_hasOrders = None, gm_enableInitialRepFilter = None,
     gm_sortLimit = \<lparr>sl_sortBy = None, sl_isSortDescending = None, sl_limit = None, sl_offset = None\<rparr>\<rparr>"

text \<open>\<open>/status\<close>; \<open>universe\<close> is the address of the contract, an error if the network has none. No answer is \<open>None\<close>.\<close>

definition statusRoute :: "rpc_env \<Rightarrow> bool \<Rightarrow> address result \<Rightarrow> world \<Rightarrow> http_response option" where
  "statusRoute env isSyncFinished universe w =
     (if \<not> isSyncFinished then Some syncing
      else case universe of
        Inl e \<Rightarrow> Some \<lparr>hr_code = 503, hr_status = Some DOWN, hr_reason = rx_message env e\<rparr>
      | Inr u \<Rightarrow> (case fst (getMarkets None (allMarkets u) w) of
          Inl _ \<Rightarrow> None
        | Inr [] \<Rightarrow> Some \<lparr>hr_code = 503, hr_status = Some DOWN, hr_reason = ''No markets found''\<rparr>
        | Inr _ \<Rightarrow> Some \<lparr>hr_code = 200, hr_status = Some UP, hr_reason = []\<rparr>))"

text \<open>A parameter of the query is not given, or not a number, or a number.\<close>

definition databaseRoute :: "bool \<Rightarrow> int option option \<Rightarrow> int \<Rightarrow> http_response" where
  "databaseRoute isSyncFinished max_pending_transactions waitingClientsCount =
     (if \<not> isSyncFinished then syncing
      else case (case max_pending_transactions of None \<Rightarrow> Some 1 | Some n \<Rightarrow> n) of
        None \<Rightarrow> \<lparr>hr_code = 422, hr_status = None,
          hr_reason = ''Bad value for max_pending_transactions, must be an integer in base 10''\<rparr>
      | Some maxPendingTransactions \<Rightarrow>
          if waitingClientsCount < maxPendingTransactions then \<lparr>hr_code = 200, hr_status = Some UP, hr_reason = []\<rparr>
          else \<lparr>hr_code = 503, hr_status = Some DOWN, hr_reason = []\<rparr>)"

text \<open>
  \<open>/status/blockage\<close> at a time in seconds: the responses it tries to send. After a bad parameter it goes on, and
  comparing with \<open>NaN\<close> is false.
\<close>

definition blockageRoute :: "bool \<Rightarrow> rat \<Rightarrow> int option option \<Rightarrow> world \<Rightarrow> http_response list" where
  "blockageRoute isSyncFinished now time w =
     (if \<not> isSyncFinished then [syncing]
      else case rev (sort_key bk_blockNumber (t_blocks (tables w))) of
        [] \<Rightarrow> [\<lparr>hr_code = 503, hr_status = None, hr_reason = ''No blocks available''\<rparr>]
      | newestBlock # _ \<Rightarrow>
          let timestampDelta = jsRound (now - of_int (bk_timestamp newestBlock));
              timestampDeltaThreshold = (case time of None \<Rightarrow> Some 120 | Some t \<Rightarrow> t);
              status = (if (case timestampDeltaThreshold of None \<Rightarrow> False | Some t \<Rightarrow> t < timestampDelta)
                then DOWN else UP)
          in (if timestampDeltaThreshold = None
              then [\<lparr>hr_code = 422, hr_status = None, hr_reason = ''Bad value for time parameter, must be an integer in base 10''\<rparr>]
              else []) @
             [\<lparr>hr_code = (if status = UP then 200 else 503), hr_status = Some status, hr_reason = []\<rparr>])"

definition syncRoute :: "bool \<Rightarrow> http_response" where
  "syncRoute isSyncFinished = (if \<not> isSyncFinished
     then \<lparr>hr_code = 503, hr_status = Some DOWN, hr_reason = ''server syncing''\<rparr>
     else \<lparr>hr_code = 200, hr_status = Some UP, hr_reason = ''Finished with sync''\<rparr>)"

section \<open>Addresses\<close>

text \<open>A value without a key that is expected to hold an address is not changed.\<close>

fun keysOf :: "json \<Rightarrow> string set"
  and keysOfElements :: "nat \<Rightarrow> json list \<Rightarrow> string set"
  and keysOfFields :: "(string \<times> json) list \<Rightarrow> string set" where
  "keysOf (JArr vs) = keysOfElements 0 vs"
| "keysOf (JObj fs) = keysOfFields fs"
| "keysOf v = {}"
| "keysOfElements i [] = {}"
| "keysOfElements i (v # vs) = insert (indexKey i) (keysOf v) \<union> keysOfElements (Suc i) vs"
| "keysOfFields [] = {}"
| "keysOfFields ((k, v) # fs) = insert k (keysOf v) \<union> keysOfFields fs"

lemma revive_other_keys:
  "\<forall>k \<in> insert key (keysOf v). \<not> inputsExpectedAsAddress k \<Longrightarrow> revive (addressFormatReviver f) key v = v"
  "\<forall>k \<in> keysOfElements i vs. \<not> inputsExpectedAsAddress k \<Longrightarrow> reviveElements (addressFormatReviver f) i vs = vs"
  "\<forall>k \<in> keysOfFields fs. \<not> inputsExpectedAsAddress k \<Longrightarrow> reviveFields (addressFormatReviver f) fs = fs"
  by (induction "addressFormatReviver f" key v and "addressFormatReviver f" i vs and "addressFormatReviver f" fs
      rule: revive_reviveElements_reviveFields.induct)
    (simp_all add: addressFormatReviver_def)

section \<open>Every request is answered\<close>


lemma safeSend_fields [simp]: "sv_hub (safeSend c r s) = sv_hub s" "sv_open (safeSend c r s) = sv_open s"
  by (simp_all add: safeSend_def)
















text \<open>Dispatch: an unknown method or bad parameters fail at once, anything else runs its getter.\<close>

theorem dispatch_runs_getter:
  "(map_of routes method = None \<longrightarrow> (\<exists>e. dispatchJsonRpcRequest env method params = Inl e)) \<and>
   (\<forall>getter codec source. map_of routes method = Some (getter, codec, source) \<longrightarrow>
     (\<forall>p. rx_decode env codec (paramsOf source params) = Inr p \<longrightarrow>
        dispatchJsonRpcRequest env method params = Inr (rx_run env getter p)) \<and>
     (\<forall>report. rx_decode env codec (paramsOf source params) = Inl report \<longrightarrow>
        (\<exists>e. dispatchJsonRpcRequest env method params = Inl e)))"
  by (auto simp: dispatchJsonRpcRequest_def dispatchResponse_def split: option.splits)

lemma methods_distinct: "distinct (map fst routes)"
  by code_simp

section \<open>The connections over time\<close>

text \<open>
  A step: a client connects, sends a message or disconnects, or the node emits an event. Identifiers of subscriptions
  are new; \<open>used\<close> are those taken so far.
\<close>

inductive server_step :: "rpc_env \<Rightarrow> string set \<times> server \<Rightarrow> string set \<times> server \<Rightarrow> bool" for env where
  Connect: "\<not> sv_open s c \<Longrightarrow> server_step env (used, s)
     (used, s\<lparr>sv_open := (sv_open s)(c := True), sv_hub := (sv_hub s)\<lparr>hb_own := (hb_own (sv_hub s))(c := [])\<rparr>\<rparr>)"
| Message: "sv_open s c \<Longrightarrow> uuid \<notin> used \<Longrightarrow> server_step env (used, s) (insert uuid used, onMessage env c uuid data s)"
| NodeEvent: "\<not> isControl e \<Longrightarrow> server_step env (used, s) (used, onEventOfNode e data s)"
| Disconnect: "sv_open s c \<Longrightarrow> server_step env (used, s) (used, onClose c s)"

inductive_cases server_stepE: "server_step env (used, s) t"




lemma represents_published [simp]: "represents H (h\<lparr>hb_published := ps\<rparr>) = represents H h"
  by (simp add: represents_def)




























end
