(* ===== verification/Sync_Files.thy ===== *)
theory Sync_Files
  imports Lodash "HOL-Library.Sublist"
begin

text \<open>
  \<open>src/sync/file-operations.ts\<close>, \<open>backup-restore.ts\<close> and \<open>warpSync\<close> of \<open>controller.ts\<close>: warp sync files, compressed
  copies of the database whose
  name has the hash of their content, the network and the version of the database.

  \<^item> A directory is an association list of file names and contents; contents are lists of characters. Reading a
    file that is missing is an error. The warp file to import lies in the directory too.
  \<^item> \<open>sx_gzip\<close>, \<open>sx_gunzip\<close> (what it writes, and whether the input was good to its end) and \<open>sx_md5\<close> stand for zlib
    and md5-file, \<open>sx_fixMigrations\<close> for what SQLite's update of the names of migrations makes of a database file.
  \<^item> The output of a pipe is opened, and emptied, before its input is read. Only the last stream of a pipe has a
    handler of errors: one of the others is not caught and ends the process, \<open>Inl\<close> here like any other error.
  \<^item> A network is given by its id as a string; \<open>decimal\<close> prints numbers. \<open>DB_FILE\<close> and the other templates are those
    of \<open>src/constants.ts\<close>.
\<close>

section \<open>Strings\<close>

fun decimal :: "nat \<Rightarrow> string" where
  "decimal n = (if n < 10 then [char_of (48 + n)] else decimal (n div 10) @ [char_of (48 + n mod 10)])"

declare decimal.simps [simp del]

text \<open>\<open>util.format\<close> with \<open>%s\<close>, \<open>split\<close>, and \<open>parseInt(_, 10)\<close>, \<open>None\<close> for \<open>NaN\<close>.\<close>

fun format :: "string \<Rightarrow> string list \<Rightarrow> string" where
  "format (c # d # cs) (a # as) =
     (if c = CHR ''%'' \<and> d = CHR ''s'' then a @ format cs as else c # format (d # cs) (a # as))"
| "format cs as = cs"

fun splitOn :: "char \<Rightarrow> string \<Rightarrow> string list" where
  "splitOn sep [] = [[]]"
| "splitOn sep (c # cs) = (if c = sep then [] # splitOn sep cs
     else (case splitOn sep cs of p # ps \<Rightarrow> (c # p) # ps | [] \<Rightarrow> [[c]]))"

definition isDigit :: "char \<Rightarrow> bool" where
  "isDigit c \<longleftrightarrow> 48 \<le> (of_char c :: nat) \<and> (of_char c :: nat) \<le> 57"

definition digitsValue :: "string \<Rightarrow> nat" where
  "digitsValue s = foldl (\<lambda>n c. 10 * n + (of_char c - 48)) 0 s"

definition isSpace :: "char \<Rightarrow> bool" where
  "isSpace c \<longleftrightarrow> of_char c \<in> {9, 10, 11, 12, 13, 32 :: nat}"

definition parseInt :: "string \<Rightarrow> int option" where
  "parseInt s = (let t = dropWhile isSpace s;
        negative = (t \<noteq> [] \<and> hd t = CHR ''-'');
        digits = takeWhile isDigit (if t \<noteq> [] \<and> (hd t = CHR ''-'' \<or> hd t = CHR ''+'') then tl t else t)
     in if digits = [] then None
        else Some (if negative then - int (digitsValue digits) else int (digitsValue digits)))"

section \<open>Files\<close>

type_synonym directory = "(string \<times> string) list"

record sync_env =
  sx_gzip :: "string \<Rightarrow> string"
  sx_gunzip :: "string \<Rightarrow> string \<times> bool"
  sx_md5 :: "string \<Rightarrow> string"
  sx_fixMigrations :: "string \<Rightarrow> string"

definition DB_FILE :: string where
  "DB_FILE = ''augur-%s-%s.db''"

definition DB_WARP_SYNC_FILE :: string where
  "DB_WARP_SYNC_FILE = ''%s-%s-%s.warp''"

definition DB_WARP_SYNC_FILE_ENDING :: string where
  "DB_WARP_SYNC_FILE_ENDING = ''-%s-%s.warp''"

definition DB_VERSION :: nat where
  "DB_VERSION = 4"

definition readFile :: "string \<Rightarrow> (directory, string) act" where
  "readFile f = bindA (gets (\<lambda>d. map_of d f)) (orThrow (Thrown ''ENOENT: no such file or directory''))"

definition writeFile :: "string \<Rightarrow> string \<Rightarrow> (directory, unit) act" where
  "writeFile f content = modify (dictSet f content)"

definition removeFiles :: "(string \<Rightarrow> bool) \<Rightarrow> directory \<Rightarrow> directory" where
  "removeFiles P d = filter (\<lambda>(f, _). \<not> P f) d"

definition unlink :: "string \<Rightarrow> (directory, unit) act" where
  "unlink f = bindA (readFile f) (\<lambda>_. modify (removeFiles (\<lambda>g. g = f)))"

definition rename :: "string \<Rightarrow> string \<Rightarrow> (directory, unit) act" where
  "rename f g = bindA (readFile f) (\<lambda>content. modify (\<lambda>d. dictSet g content (removeFiles (\<lambda>h. h = f) d)))"

definition getFileHash :: "sync_env \<Rightarrow> string \<Rightarrow> (directory, string) act" where
  "getFileHash env filename = bindA (readFile filename) (\<lambda>content. return (sx_md5 env content))"

definition copyRunDbFixerScript :: "sync_env \<Rightarrow> string \<Rightarrow> string \<Rightarrow> (directory, unit) act" where
  "copyRunDbFixerScript env dbFileName backupDb =
     bindA (readFile dbFileName) (\<lambda>content.
     thenA (writeFile backupDb content)
           (writeFile backupDb (sx_fixMigrations env content)))"

definition openStreams :: "string \<Rightarrow> string \<Rightarrow> (directory, string) act" where
  "openStreams input output = bindA (gets (\<lambda>d. map_of d input)) (\<lambda>content.
     thenA (writeFile output []) (orThrow (Thrown ''ENOENT: no such file or directory'') content))"

definition createWarpSyncFile :: "sync_env \<Rightarrow> string \<Rightarrow> string \<Rightarrow> (directory, unit) act" where
  "createWarpSyncFile env dbFileName syncFileName =
     bindA (openStreams dbFileName syncFileName) (\<lambda>content. writeFile syncFileName (sx_gzip env content))"

definition restoreWarpSyncFile :: "sync_env \<Rightarrow> string \<Rightarrow> string \<Rightarrow> (directory, unit) act" where
  "restoreWarpSyncFile env dbFileName syncFilename =
     bindA (openStreams syncFilename dbFileName) (\<lambda>content. case sx_gunzip env content of (written, good) \<Rightarrow>
       thenA (writeFile dbFileName written) (if good then return () else throw (Thrown ''invalid compressed data'')))"

definition fixedDbFilename :: string where
  "fixedDbFilename = ''__fixed_db_file__''"

definition WARP_SYNC_FILE :: string where
  "WARP_SYNC_FILE = ''__temp_sync_file__''"

definition compressAndHashFile ::
  "sync_env \<Rightarrow> string \<Rightarrow> string \<Rightarrow> nat \<Rightarrow> string \<Rightarrow> (directory, unit) act" where
  "compressAndHashFile env dbFileName networkId dbVersion syncfileTemplate =
     thenA (copyRunDbFixerScript env dbFileName fixedDbFilename)
    (thenA (createWarpSyncFile env fixedDbFilename WARP_SYNC_FILE)
    (thenA (unlink fixedDbFilename)
    (bindA (getFileHash env WARP_SYNC_FILE) (\<lambda>hash.
     rename WARP_SYNC_FILE (format syncfileTemplate [hash, networkId, decimal dbVersion])))))"

definition removeOldSyncFiles :: "string \<Rightarrow> nat \<Rightarrow> (directory, unit) act" where
  "removeOldSyncFiles networkId dbVersion =
     modify (removeFiles (suffix (format DB_WARP_SYNC_FILE_ENDING [networkId, decimal dbVersion])))"

definition fileCompatible :: "string \<Rightarrow> string \<Rightarrow> nat \<Rightarrow> bool" where
  "fileCompatible filename networkId dbVersion \<longleftrightarrow>
     suffix (format DB_WARP_SYNC_FILE_ENDING [networkId, decimal dbVersion]) filename"

definition getHighestDbVersion :: "directory \<Rightarrow> string \<Rightarrow> int" where
  "getHighestDbVersion d dbFileName = foldl (\<lambda>version file.
     let parts = splitOn CHR ''-'' file in
     if 2 < length parts
     then (case parseInt (parts ! 2) of
        Some fileVersion \<Rightarrow> if version < fileVersion then fileVersion else version
      | None \<Rightarrow> version)
     else version) 0 (filter (prefix dbFileName) (map fst d))"

section \<open>Backup and restore\<close>

definition exportDb :: "sync_env \<Rightarrow> string \<Rightarrow> string \<Rightarrow> nat \<Rightarrow> string \<Rightarrow> (directory, unit) act" where
  "exportDb env fileTemplate networkId dbVersion syncfileTemplate =
     thenA (removeOldSyncFiles networkId dbVersion)
           (compressAndHashFile env (format fileTemplate [networkId, decimal dbVersion]) networkId dbVersion
              syncfileTemplate)"

definition importDb :: "sync_env \<Rightarrow> string \<Rightarrow> string \<Rightarrow> nat \<Rightarrow> string \<Rightarrow> (directory, unit) act" where
  "importDb env fileTemplate networkId dbVersion syncFilename =
     whenA (fileCompatible syncFilename networkId dbVersion)
       (restoreWarpSyncFile env (format fileTemplate [networkId, decimal dbVersion]) syncFilename)"

section \<open>Importing a warp file\<close>

text \<open>
  \<open>renameBulkSyncDatabaseFile\<close> of \<open>setup/check-and-initialize-augur-db.ts\<close> at a time in milliseconds, and \<open>warpSync\<close> of
  \<open>controller.ts\<close>, without the shutdown of a running node and the messages. It reports success (\<open>Inr True\<close>), a hash
  that does not match (\<open>Inr False\<close>), or what was thrown.
\<close>

definition renameBulkSyncDatabaseFile :: "nat \<Rightarrow> string \<Rightarrow> (directory, unit) act" where
  "renameBulkSyncDatabaseFile time networkId =
     (let dbPath = format DB_FILE [networkId, decimal DB_VERSION] in
      bindA (gets (\<lambda>d. map_of d dbPath)) (\<lambda>existing. whenA (existing \<noteq> None)
        (rename dbPath (format (''backup-augur-%s-%s-'' @ decimal time @ ''.db'') [networkId, decimal DB_VERSION]))))"

definition warpSync :: "sync_env \<Rightarrow> nat \<Rightarrow> string \<Rightarrow> (directory, bool) act" where
  "warpSync env time filename =
     (let fileNetworkId = (case splitOn CHR ''-'' filename of _ # n # _ \<Rightarrow> n | _ \<Rightarrow> ''undefined'') in
      bindA (getFileHash env filename) (\<lambda>fileHash.
      if prefix fileHash filename
      then thenA (renameBulkSyncDatabaseFile time fileNetworkId)
          (thenA (importDb env DB_FILE fileNetworkId DB_VERSION filename) (return True))
      else return False))"

section \<open>Lookups\<close>

lemma map_of_removeFiles: "map_of (removeFiles P d) f = (if P f then None else map_of d f)"
  by (induction d) (auto simp: removeFiles_def)

lemma readFile_app: "readFile f d = (case map_of d f of Some x \<Rightarrow> (Inr x, d)
    | None \<Rightarrow> (Inl (Thrown ''ENOENT: no such file or directory''), d))"
  by (simp add: readFile_def bindA_def gets_def orThrow_def throw_def return_def split: option.split)

lemma format_names:
  "format DB_FILE [n, v] = ''augur-'' @ n @ ''-'' @ v @ ''.db''"
  "format DB_WARP_SYNC_FILE [h, n, v] = h @ ''-'' @ n @ ''-'' @ v @ ''.warp''"
  "format DB_WARP_SYNC_FILE_ENDING [n, v] = ''-'' @ n @ ''-'' @ v @ ''.warp''"
  by (simp_all add: DB_FILE_def DB_WARP_SYNC_FILE_def DB_WARP_SYNC_FILE_ENDING_def)

definition dbFile :: "string \<Rightarrow> nat \<Rightarrow> string" where
  "dbFile networkId v = format DB_FILE [networkId, decimal v]"

definition warpFile :: "string \<Rightarrow> string \<Rightarrow> nat \<Rightarrow> string" where
  "warpFile hash networkId v = format DB_WARP_SYNC_FILE [hash, networkId, decimal v]"

lemma fileCompatible_last: "fileCompatible f n v \<Longrightarrow> last f = CHR ''p''"
  by (auto simp: fileCompatible_def suffix_def format_names)

lemma dbFile_last: "last (dbFile n v) = CHR ''b''"
  by (simp add: dbFile_def format_names)

lemma temp_names: "last fixedDbFilename = CHR ''_''" "last WARP_SYNC_FILE = CHR ''_''" "fixedDbFilename \<noteq> WARP_SYNC_FILE"
  by code_simp+

lemma db_file_not_warp: "\<not> fileCompatible (dbFile networkId v) networkId' v'"
  using fileCompatible_last dbFile_last by fastforce

lemma temp_not_warp: "\<not> fileCompatible fixedDbFilename n v" "\<not> fileCompatible WARP_SYNC_FILE n v"
  using fileCompatible_last temp_names by fastforce+

lemma warp_file_compatible: "fileCompatible (warpFile hash n v) n v"
  by (simp add: fileCompatible_def warpFile_def format_names suffix_def)

lemma db_file_names: "dbFile n v \<noteq> fixedDbFilename" "dbFile n v \<noteq> WARP_SYNC_FILE" "dbFile n v \<noteq> warpFile hash m u"
proof -
  show "dbFile n v \<noteq> fixedDbFilename" "dbFile n v \<noteq> WARP_SYNC_FILE" using temp_names dbFile_last [of n v] by auto
  show "dbFile n v \<noteq> warpFile hash m u" using warp_file_compatible [of hash m u] db_file_not_warp [of n v m u] by auto
qed

lemma warp_file_names: "warpFile hash n v \<noteq> fixedDbFilename" "warpFile hash n v \<noteq> WARP_SYNC_FILE"
  using warp_file_compatible [of hash n v] temp_not_warp by metis+

section \<open>An exported database can be restored\<close>

lemma exportDb_files:
  assumes "map_of d (dbFile n v) = Some db" and hash_def: "hash = sx_md5 env (sx_gzip env (sx_fixMigrations env db))"
  shows "\<exists>d'. exportDb env DB_FILE n v DB_WARP_SYNC_FILE d = (Inr (), d') \<and>
    (\<forall>f. map_of d' f = (if f = warpFile hash n v then Some (sx_gzip env (sx_fixMigrations env db))
       else if fileCompatible f n v \<or> f = fixedDbFilename \<or> f = WARP_SYNC_FILE then None
       else map_of d f))"
proof -
  let ?fixed = fixedDbFilename and ?temp = WARP_SYNC_FILE
  define d1 where "d1 = removeFiles (\<lambda>f. fileCompatible f n v) d"
  define d2 where "d2 = dictSet ?fixed (sx_fixMigrations env db) (dictSet ?fixed db d1)"
  define d3 where "d3 = dictSet ?temp (sx_gzip env (sx_fixMigrations env db)) (dictSet ?temp [] d2)"
  define d4 where "d4 = removeFiles (\<lambda>g. g = ?fixed) d3"
  define d5 where "d5 = dictSet (warpFile hash n v) (sx_gzip env (sx_fixMigrations env db)) (removeFiles (\<lambda>h. h = ?temp) d4)"
  have r: "removeOldSyncFiles n v d = (Inr (), d1)"
    by (simp add: removeOldSyncFiles_def modify_def d1_def fileCompatible_def)
  have m1: "map_of d1 (dbFile n v) = Some db"
    using assms(1) db_file_not_warp by (simp add: d1_def map_of_removeFiles)
  have "copyRunDbFixerScript env (dbFile n v) ?fixed d1 = (Inr (), d2)"
    by (simp add: copyRunDbFixerScript_def bindA_def thenA_def readFile_app m1 writeFile_def modify_def d2_def)
  moreover have m2: "map_of d2 ?fixed = Some (sx_fixMigrations env db)" by (simp add: d2_def map_of_dictSet)
  then have "createWarpSyncFile env ?fixed ?temp d2 = (Inr (), d3)"
    by (simp add: createWarpSyncFile_def openStreams_def thenA_def gets_def orThrow_def return_def bindA_def writeFile_def modify_def d3_def)
  moreover have "map_of d3 ?fixed = Some (sx_fixMigrations env db)" using m2 temp_names(3) by (simp add: d3_def map_of_dictSet)
  then have "unlink ?fixed d3 = (Inr (), d4)"
    by (simp add: unlink_def bindA_def readFile_app modify_def d4_def)
  moreover have m4: "map_of d4 ?temp = Some (sx_gzip env (sx_fixMigrations env db))"
    using temp_names(3) by (simp add: d4_def d3_def map_of_removeFiles map_of_dictSet)
  then have "getFileHash env ?temp d4 = (Inr hash, d4)"
    by (simp add: getFileHash_def bindA_def readFile_app return_def hash_def)
  moreover have "rename ?temp (warpFile hash n v) d4 = (Inr (), d5)"
    using m4 by (simp add: rename_def bindA_def readFile_app modify_def d5_def)
  ultimately have "compressAndHashFile env (dbFile n v) n v DB_WARP_SYNC_FILE d1 = (Inr (), d5)"
    by (simp add: compressAndHashFile_def thenA_def bindA_def warpFile_def)
  then have "exportDb env DB_FILE n v DB_WARP_SYNC_FILE d = (Inr (), d5)"
    using r by (simp add: exportDb_def thenA_def bindA_def dbFile_def)
  moreover have "map_of d5 f = (if f = warpFile hash n v then Some (sx_gzip env (sx_fixMigrations env db))
      else if fileCompatible f n v \<or> f = ?fixed \<or> f = ?temp then None else map_of d f)" for f
    unfolding d5_def d4_def d3_def d2_def d1_def by (simp only: map_of_dictSet map_of_removeFiles fun_upd_apply) auto
  ultimately show ?thesis by blast
qed

text \<open>
  Warp sync. Exporting the database leaves one warp file of its network and version: it is named after the hash of
  its content, and importing it, by its name, restores the exported database (with the names of its migrations
  fixed). No other file is changed.
\<close>

theorem warp_sync_roundtrip:
  assumes "map_of d (dbFile n v) = Some db" "\<And>x. sx_gunzip env (sx_gzip env x) = (x, True)"
  shows "\<exists>d' f content. exportDb env DB_FILE n v DB_WARP_SYNC_FILE d = (Inr (), d') \<and>
    map_of d' f = Some content \<and> f = warpFile (sx_md5 env content) n v \<and>
    (\<forall>g. g \<noteq> f \<longrightarrow> fileCompatible g n v \<longrightarrow> map_of d' g = None) \<and>
    (\<forall>g. \<not> fileCompatible g n v \<longrightarrow> g \<noteq> fixedDbFilename \<longrightarrow> g \<noteq> WARP_SYNC_FILE \<longrightarrow> map_of d' g = map_of d g) \<and>
    (\<exists>d''. importDb env DB_FILE n v f d' = (Inr (), d'') \<and>
      (\<forall>g. map_of d'' g = (if g = dbFile n v then Some (sx_fixMigrations env db) else map_of d' g)))"
proof -
  let ?c = "sx_gzip env (sx_fixMigrations env db)"
  let ?f = "warpFile (sx_md5 env ?c) n v"
  obtain d' where d': "exportDb env DB_FILE n v DB_WARP_SYNC_FILE d = (Inr (), d')"
    and m: "\<forall>f. map_of d' f = (if f = ?f then Some ?c
       else if fileCompatible f n v \<or> f = fixedDbFilename \<or> f = WARP_SYNC_FILE then None else map_of d f)"
    using exportDb_files [OF assms(1)] by blast
  let ?d = "dictSet (dbFile n v) (sx_fixMigrations env db) (dictSet (dbFile n v) [] d')"
  have "importDb env DB_FILE n v ?f d' = (Inr (), ?d)"
    using m assms(2)
    by (simp add: importDb_def whenA_def warp_file_compatible restoreWarpSyncFile_def openStreams_def bindA_def thenA_def
      gets_def orThrow_def return_def writeFile_def modify_def dbFile_def)
  moreover have "\<forall>g. map_of ?d g =
      (if g = dbFile n v then Some (sx_fixMigrations env db) else map_of d' g)"
    by (simp add: map_of_dictSet)
  moreover have "\<forall>g. g \<noteq> ?f \<longrightarrow> fileCompatible g n v \<longrightarrow> map_of d' g = None"
    and "\<forall>g. \<not> fileCompatible g n v \<longrightarrow> g \<noteq> fixedDbFilename \<longrightarrow> g \<noteq> WARP_SYNC_FILE \<longrightarrow> map_of d' g = map_of d g"
    using m warp_file_compatible by auto
  moreover have "map_of d' ?f = Some ?c" using m by simp
  ultimately show ?thesis using d' by blast
qed

lemma backup_name: "dbFile n v \<noteq> format (''backup-augur-%s-%s-'' @ decimal time @ ''.db'') [m, u]"
proof
  assume "dbFile n v = format (''backup-augur-%s-%s-'' @ decimal time @ ''.db'') [m, u]"
  then have "hd (dbFile n v) = hd (format (''backup-augur-%s-%s-'' @ decimal time @ ''.db'') [m, u])" by (rule arg_cong)
  then show False by (simp add: dbFile_def format_names)
qed

text \<open>A warp file of another version of the database: the database is moved away and nothing is imported.\<close>

theorem warp_sync_of_other_version:
  assumes "map_of d f = Some content" "prefix (sx_md5 env content) f" "splitOn CHR ''-'' f = h # n # ps"
    "\<not> fileCompatible f n DB_VERSION" "map_of d (dbFile n DB_VERSION) = Some db"
  shows "\<exists>d'. warpSync env time f d = (Inr True, d') \<and> map_of d' (dbFile n DB_VERSION) = None"
  using backup_name [of n DB_VERSION time n "decimal DB_VERSION"]
  by (simp add: warpSync_def getFileHash_def bindA_def thenA_def return_def readFile_app assms
      renameBulkSyncDatabaseFile_def Let_def gets_def whenA_def rename_def modify_def importDb_def map_of_dictSet
      map_of_removeFiles flip: dbFile_def)

text \<open>The highest version among the files whose name starts as asked for; 0 if there is none.\<close>

definition versionOfFile :: "string \<Rightarrow> int option" where
  "versionOfFile f = (let parts = splitOn CHR ''-'' f in if 2 < length parts then parseInt (parts ! 2) else None)"

lemma foldl_versions:
  "foldl (\<lambda>m f. case g f of None \<Rightarrow> m | Some v \<Rightarrow> if m < v then v else m) (m :: int) fs =
     Max (set (m # List.map_filter g fs))"
proof -
  have "foldl (\<lambda>m f. case g f of None \<Rightarrow> m | Some v \<Rightarrow> if m < v then v else m) m fs = fold max (List.map_filter g fs) m"
    by (induction fs arbitrary: m) (auto simp: map_filter_simps max_def split: option.split intro!: arg_cong2 [of _ _ _ _ foldl])
  then show ?thesis by (simp only: Max.set_eq_fold)
qed

theorem highest_version:
  "getHighestDbVersion d name =
     Max (set (0 # List.map_filter versionOfFile (filter (prefix name) (map fst d))))"
proof -
  have "(\<lambda>version file. let parts = splitOn CHR ''-'' file in
       if 2 < length parts
       then (case parseInt (parts ! 2) of
          Some fileVersion \<Rightarrow> if version < fileVersion then fileVersion else version
        | None \<Rightarrow> version)
       else version) = (\<lambda>m f. case versionOfFile f of None \<Rightarrow> m | Some v \<Rightarrow> if m < v then v else m)"
    by (intro ext) (simp add: versionOfFile_def Let_def split: option.split)
  then show ?thesis unfolding getHighestDbVersion_def by (simp only: foldl_versions)
qed

definition plain_env :: sync_env where
  "plain_env = \<lparr>sx_gzip = (\<lambda>x. CHR ''z'' # x), sx_gunzip = (\<lambda>x. case x of [] \<Rightarrow> ([], False) | _ # y \<Rightarrow> (y, True)),
     sx_md5 = (\<lambda>_. ''hash''), sx_fixMigrations = id\<rparr>"

theorem warp_sync_roundtrip_witness:
  "\<exists>d' f. exportDb plain_env DB_FILE ''1'' 4 DB_WARP_SYNC_FILE [(dbFile ''1'' 4, ''data'')] = (Inr (), d') \<and>
    (\<exists>d''. importDb plain_env DB_FILE ''1'' 4 f d' = (Inr (), d'') \<and> map_of d'' (dbFile ''1'' 4) = Some ''data'')"
proof -
  have fixed: "sx_fixMigrations plain_env ''data'' = ''data''" by (simp add: plain_env_def)
  have "map_of [(dbFile ''1'' 4, ''data'')] (dbFile ''1'' 4) = Some ''data''" by simp
  moreover have "\<And>x. sx_gunzip plain_env (sx_gzip plain_env x) = (x, True)" by (simp add: plain_env_def)
  ultimately show ?thesis
    using warp_sync_roundtrip [of "[(dbFile ''1'' 4, ''data'')]" "''1''" 4 "''data''" plain_env] fixed by metis
qed

end
