(* ===== verification/Spec2Isabelle.thy ===== *)
theory Spec2Isabelle
  imports Node_Sync Trading_Positions Market_Getters Market_Lists Account_History Activity_Stats
    Account_Getters Rpc_Server Sync_Files
begin

text \<open>
  augur-node follows the Augur contracts on an Ethereum chain: it fetches the logs of every block, turns
  them into rows of a relational database, keeps derived values up to date (profits, volumes, liquidity,
  reporting states), and answers queries about them. When the chain reorganises it removes blocks and undoes
  their logs.

  \<^bold>\<open>The parts and their theories\<close>, in the order in which they build on each other (paths below
  \<open>src/src\<close>):

  \<^item> \<open>Prelude\<close>: results with errors, actions on a state that may throw, frames (\<open>unchanged\<close>),
    invariants of actions (\<open>preserves\<close>, \<open>returns_with\<close>) and list lemmas. \<open>Table\<close>: the queries
    that Knex builds, over a table with its uniqueness and check constraints. \<open>Lodash\<close>: the functions of
    lodash that the getters use.
  \<^item> \<open>Bignum\<close>: \<open>BigNumber\<close> and \<open>utils/\<close> (fixed point, ticks, precision of orders, rates).
    \<open>Dimension_Quantity\<close>: the classes of \<open>utils/dimension-quantity.ts\<close> as a datatype; a mismatch of
    dimensions is an error value. \<open>Financial_Math\<close>: \<open>utils/financial-math.ts\<close>.
  \<^item> \<open>Simulated_Order_Book\<close> and \<open>Liquidity\<close>: \<open>utils/simulated-order-book.ts\<close>, \<open>utils/liquidity.ts\<close>,
    \<open>utils/gas.ts\<close>.
  \<^item> \<open>Database\<close>: the rows and tables of \<open>types.ts\<close> and \<open>migrations/\<close>, the world (tables, override
    timestamps, head of the chain, emitted events), transactions. \<open>Environment\<close>: what comes from outside, and
    the logs; \<open>log_processor\<close>, the contract between adding and removing a log.
  \<^item> \<open>Profit_Loss\<close>: \<open>log-processors/profit-loss/\<close>. \<open>Ledger\<close> and \<open>Tokens\<close>: balances and supplies,
    \<open>log-processors/token/\<close> and \<open>tokens-transferred.ts\<close>. \<open>Volumetrics\<close>: volume, open interest and category
    aggregates. \<open>Market_Liquidity\<close>: order books of a market, the refresh of its liquidity, the
    pending checks. \<open>Orders\<close>: orders, fills, complete sets, claims.
  \<^item> \<open>Market_State\<close>: \<open>log-processors/database.ts\<close> (the stack of reporting states, fee windows, payouts).
    \<open>Advance_Time\<close>: the passing of time in \<open>process-block.ts\<close>. \<open>Reporting\<close>: disputes, reports, fee
    windows. \<open>Market_Lifecycle\<close>: markets and universes.
  \<^item> \<open>Process_Logs\<close>: the table of processors and \<open>process-logs.ts\<close>. \<open>Process_Block\<close>: blocks as
    transactions and the bulk download. \<open>Block_Chain\<close>: the table of blocks as a chain. \<open>Node_Sync\<close>: the queue
    of blocks and logs, the bulk sync, the start of the node.
  \<^item> The getters, \<open>server/getters/\<close>: \<open>Getter_Queries\<close> (sorting, paging, trading history, batches:
    \<open>database.ts\<close>), \<open>Profit_Loss_Getter\<close> and \<open>Trading_Positions\<close> (profits over time and positions),
    \<open>Reporting_Fees\<close> (stakes and fees of an account), \<open>Dispute_Info\<close> (disputes and fee windows),
    \<open>Market_Getters\<close> (prices, candlesticks, orders, shares), \<open>Market_Lists\<close> (lists, categories and details
    of markets), \<open>Account_History\<close> (the transactions of an account), \<open>Activity_Stats\<close> (statistics),
    \<open>Account_Getters\<close> (reports, transfers, universes, fee windows, tokens of an account).
  \<^item> The server, \<open>server/\<close>: \<open>Subscriptions\<close> (the emitters of \<open>subscriptions.ts\<close> and \<open>events.ts\<close> as lists
    of listeners) and \<open>Rpc_Server\<close> (requests over websockets and HTTP, the routes to the getters, answers,
    errors and the status routes).
  \<^item> \<open>Sync_Files\<close>: \<open>sync/\<close> and \<open>warpSync\<close> of \<open>controller.ts\<close>, exporting and importing the database as a warp file, over a
    directory as an association list of names and contents.

  \<^bold>\<open>How the code is modelled.\<close> A processor \<open>processXLog(augur, log)\<close> that returns a function of the database
  is an action on \<open>world\<close>; where it calls contracts first, it is a result that holds the action. A getter is an
  action that leaves the world as it is, or a function of it. Every \<open>throw\<close>, rejected promise, violated constraint
  and use of \<open>undefined\<close> is a value of \<open>error\<close>. SQL reads see rows in insertion order where the code
  asks for none. \<open>BigNumber\<close>s are rationals; division is the parameter \<open>en_dv\<close>, of which the lemmas use only the
  contract \<open>bn_division\<close>. Objects that JavaScript shares and mutates are an explicit store where it
  matters (the rows that the buckets of \<open>get-profit-loss.ts\<close> show).

  \<^bold>\<open>Parameters.\<close> \<open>env\<close> holds what the code takes from elsewhere: the arithmetic of \<open>bignumber.js\<close> that is not
  exact, contract addresses and calls of augur.js (each may fail), the clock, and whether \<open>Knex\<close> honours
  a \<open>join\<close> in an \<open>update\<close>. \<open>chain_client\<close> holds what the Ethereum node answers. The getters take as arguments what
  they do not compute: the printing of a number as a string (where the code compares the strings), the result of a
  search, the address of the cash contract. \<open>rpc_env\<close> holds the parsing of JSON, the formatting of addresses, the
  decoders of io-ts and the getters behind the routes; \<open>sync_env\<close> the compression and the hash of files.

  \<^bold>\<open>Bounds.\<close> The only loop with fuel is \<open>getLiquidity\<close>: its number of rounds is bounded by the rounds of the
  source plus those on a book that no longer changes (\<open>liquidity_settles_every_spread\<close> shows that
  this is enough). The polling loops of the sync are partial functions; that they return is proved from what
  the Ethereum node answers.

  \<^bold>\<open>What the lemmas show.\<close> Per component: the operations keep its invariant, removing a log undoes adding
  it, and what the operations compute. Across components: the history of reporting states of each market is
  a stack on which every processor pushes or pops (\<open>state_ops_refine_stack\<close>), consistent after every
  block (\<open>blocks_keep_states\<close>, through the interface \<open>block_invariant\<close>, which a further invariant of the database
  can instantiate); a failing block of the bulk download leaves nothing behind; the table of blocks is
  the chain the block stream describes; and the bulk sync hands over to the listeners without a gap. For the
  getters: what they answer, as a description of the rows that does not mention their queries and folds (which rows
  are shown, in which order, with which sums), and their error paths. For the server: in every state that a sequence
  of connections, messages, events and disconnections reaches, an event goes to the subscriptions that are in force.

  \<^bold>\<open>Not modelled.\<close> Creating and stopping the HTTP and websocket servers, the timers, the controller and the entry
  points; \<open>get-sync-data.ts\<close>, which passes on what augur.js holds; the full-text search index; setup, migrations and
  seeds as operations (their constraints are part of the tables); loggers and scripts. The
  integer checks and \<open>NOT NULL\<close> of the tables are expressed by the types of the rows. Numbers that a getter prints
  as its last step stay numbers.

  \<^bold>\<open>Limits found.\<close> Some properties hold of the code only under a condition that their text states, because the code
  does something else without it: a removed fill deletes all trades of its order in the block
  (\<open>order-filled/index.ts\<close>), the volume of a fill is looked up by order and block (\<open>update-volumetrics.ts\<close>), sorting
  by a big number column ignores the direction when no column is named (\<open>getters/database.ts\<close>), and the lowest
  and highest price of a candlestick are compared as strings (\<open>get-market-price-candlesticks.ts\<close>).
\<close>

end
